(* ===== verification/Foundation.thy ===== *)
theory Foundation
  imports Main "HOL-Library.Word" "HOL-Library.Char_ord"
begin

text \<open>
  The part of Apple's Foundation that the application uses, as HOL functions: strings with their
  search, split and replace operations, arrays with their range checks, and exceptions as
  values.  Every other theory imports this one.

  A string is a list of \<^typ>\<open>char\<close>, read as UTF-16 code units of the Latin-1 range
  (U+0000 to U+00FF); \<open>utf8\<close> encodes it into bytes, two bytes for a code unit from U+0080
  on.  Text that is decoded from bytes is in the theory UnicodeText.  \<open>nil\<close> is \<^term>\<open>None\<close>.  An Objective-C exception is the left part of a sum, so every
  out-of-range access of the source is a value of the model.
\<close>

section \<open>Collections of rules\<close>

named_theorems ns_simps \<open>evaluation rules of the Foundation operations\<close>
named_theorems ns_split \<open>shape of split and joined strings\<close>

section \<open>Exceptions as values\<close>

datatype objc_exn = NSRangeException | NSInvalidArgumentException

type_synonym 'a outcome = "objc_exn + 'a"

definition andThen :: "'a outcome \<Rightarrow> ('a \<Rightarrow> 'b outcome) \<Rightarrow> 'b outcome" where
  "andThen m f = (case m of Inl e \<Rightarrow> Inl e | Inr x \<Rightarrow> f x)"

lemma andThen_simps [simp]:
  "andThen (Inl e) f = Inl e"
  "andThen (Inr x) f = f x"
  by (simp_all add: andThen_def)

lemma andThen_Inr_iff: "andThen m f = Inr y \<longleftrightarrow> (\<exists>x. m = Inr x \<and> f x = Inr y)"
  by (cases m) auto

lemma andThen_Inl_iff:
  "andThen m f = Inl e \<longleftrightarrow> m = Inl e \<or> (\<exists>x. m = Inr x \<and> f x = Inl e)"
  by (cases m) auto

definition raises :: "'a outcome \<Rightarrow> bool" where
  "raises m = (case m of Inl _ \<Rightarrow> True | Inr _ \<Rightarrow> False)"

lemma raises_simps [simp]: "raises (Inl e)" "\<not> raises (Inr x)"
  by (simp_all add: raises_def)

section \<open>Arrays\<close>

text \<open>\<open>objectAtIndex:\<close> raises when the index is out of range, as do the two updates.\<close>

definition objectAtIndex :: "'a list \<Rightarrow> nat \<Rightarrow> 'a outcome" where
  "objectAtIndex xs i = (if i < length xs then Inr (xs ! i) else Inl NSRangeException)"

definition removeObjectAtIndex :: "'a list \<Rightarrow> nat \<Rightarrow> 'a list outcome" where
  "removeObjectAtIndex xs i =
     (if i < length xs then Inr (take i xs @ drop (Suc i) xs) else Inl NSRangeException)"

definition replaceObjectAtIndex :: "'a list \<Rightarrow> nat \<Rightarrow> 'a \<Rightarrow> 'a list outcome" where
  "replaceObjectAtIndex xs i x =
     (if i < length xs then Inr (xs[i := x]) else Inl NSRangeException)"

definition subarrayWithRange :: "'a list \<Rightarrow> nat \<Rightarrow> nat \<Rightarrow> 'a list outcome" where
  "subarrayWithRange xs loc len =
     (if loc + len \<le> length xs then Inr (take len (drop loc xs)) else Inl NSRangeException)"

text \<open>\<open>indexOfObject:\<close> gives the first position, \<^term>\<open>None\<close> standing for \<open>NSNotFound\<close>.\<close>

fun indexOfObject :: "'a list \<Rightarrow> 'a \<Rightarrow> nat option" where
  "indexOfObject [] x = None"
| "indexOfObject (y # ys) x = (if y = x then Some 0 else map_option Suc (indexOfObject ys x))"

text \<open>The idiom \<open>if (containsObject: x) removeObjectAtIndex: indexOfObject: x\<close>.\<close>

definition removeFirst :: "'a list \<Rightarrow> 'a \<Rightarrow> 'a list" where
  "removeFirst xs x = remove1 x xs"

lemma objectAtIndex_in [simp]: "i < length xs \<Longrightarrow> objectAtIndex xs i = Inr (xs ! i)"
  by (simp add: objectAtIndex_def)

lemma objectAtIndex_out [simp]: "length xs \<le> i \<Longrightarrow> objectAtIndex xs i = Inl NSRangeException"
  by (simp add: objectAtIndex_def)

lemma objectAtIndex_Inr_iff: "objectAtIndex xs i = Inr x \<longleftrightarrow> i < length xs \<and> x = xs ! i"
  by (auto simp: objectAtIndex_def)

lemma indexOfObject_None [simp]: "indexOfObject xs x = None \<longleftrightarrow> x \<notin> set xs"
  by (induction xs) auto

lemma indexOfObject_Some: "indexOfObject xs x = Some i \<Longrightarrow> i < length xs \<and> xs ! i = x"
proof (induction xs arbitrary: i)
  case (Cons y ys)
  then show ?case by (cases "y = x") auto
qed simp

lemma removeObjectAtIndex_first:
  "indexOfObject xs x = Some i \<Longrightarrow> removeObjectAtIndex xs i = Inr (removeFirst xs x)"
proof (induction xs arbitrary: i)
  case (Cons y ys)
  show ?case
  proof (cases "y = x")
    case True
    with Cons.prems show ?thesis by (auto simp: removeObjectAtIndex_def removeFirst_def)
  next
    case False
    with Cons.prems obtain j where j: "indexOfObject ys x = Some j" and i: "i = Suc j" by auto
    from Cons.IH [OF j] have "j < length ys" and "take j ys @ drop (Suc j) ys = removeFirst ys x"
      by (auto simp: removeObjectAtIndex_def split: if_splits)
    with False i show ?thesis by (simp add: removeObjectAtIndex_def removeFirst_def)
  qed
qed simp

section \<open>Strings: letters\<close>

definition lowerChar :: "char \<Rightarrow> char" where
  "lowerChar c =
     (let n = of_char c :: nat
      in if (65 \<le> n \<and> n \<le> 90) \<or> (192 \<le> n \<and> n \<le> 222 \<and> n \<noteq> 215) then char_of (n + 32) else c)"

text \<open>The base letter of an accented Latin-1 lower-case letter, for \<open>[d]\<close> comparisons.\<close>

definition baseChar :: "char \<Rightarrow> char" where
  "baseChar c =
     (let n = of_char c :: nat
      in if 224 \<le> n \<and> n \<le> 229 then CHR ''a''
         else if n = 231 then CHR ''c''
         else if 232 \<le> n \<and> n \<le> 235 then CHR ''e''
         else if 236 \<le> n \<and> n \<le> 239 then CHR ''i''
         else if n = 241 then CHR ''n''
         else if 242 \<le> n \<and> n \<le> 246 then CHR ''o''
         else if 249 \<le> n \<and> n \<le> 252 then CHR ''u''
         else if n = 253 \<or> n = 255 then CHR ''y''
         else c)"

definition lowercaseString :: "string \<Rightarrow> string" where
  "lowercaseString s = map lowerChar s"

definition foldCD :: "string \<Rightarrow> string" where
  "foldCD s = map (\<lambda>c. baseChar (lowerChar c)) s"

lemma length_lowercaseString [simp]: "length (lowercaseString s) = length s"
  by (simp add: lowercaseString_def)

lemma lowercaseString_append [simp]:
  "lowercaseString (s @ t) = lowercaseString s @ lowercaseString t"
  by (simp add: lowercaseString_def)

section \<open>Strings: bytes\<close>

definition utf8Char :: "char \<Rightarrow> char list" where
  "utf8Char c =
     (let n = of_char c :: nat
      in if n < 128 then [c] else [char_of (192 + n div 64), char_of (128 + n mod 64)])"

definition utf8 :: "string \<Rightarrow> char list" where
  "utf8 s = concat (map utf8Char s)"

definition is_ascii :: "string \<Rightarrow> bool" where
  "is_ascii s = list_all (\<lambda>c. (of_char c :: nat) < 128) s"

lemma utf8_simps [simp]: "utf8 [] = []" "utf8 (c # s) = utf8Char c @ utf8 s"
  by (simp_all add: utf8_def)

lemma utf8_append: "utf8 (s @ t) = utf8 s @ utf8 t"
  by (simp add: utf8_def)

lemma length_utf8Char: "1 \<le> length (utf8Char c)"
  by (simp add: utf8Char_def Let_def)

lemma utf8_ascii: "is_ascii s \<Longrightarrow> utf8 s = s"
  by (induction s) (auto simp: is_ascii_def utf8Char_def)

lemma length_utf8_ge: "length s \<le> length (utf8 s)"
proof (induction s)
  case (Cons c s)
  then show ?case using length_utf8Char [of c] by simp
qed simp

lemma length_utf8_gt: "\<not> is_ascii s \<Longrightarrow> length s < length (utf8 s)"
proof (induction s)
  case (Cons c s)
  show ?case
  proof (cases "is_ascii s")
    case True
    with Cons.prems have "length (utf8Char c) = 2" by (auto simp: is_ascii_def utf8Char_def Let_def)
    then show ?thesis using length_utf8_ge [of s] by simp
  next
    case False
    from Cons.IH [OF this] show ?thesis using length_utf8Char [of c] by simp
  qed
qed (simp add: is_ascii_def)

section \<open>Strings: prefix and search\<close>

definition hasPrefix :: "string \<Rightarrow> string \<Rightarrow> bool" where
  "hasPrefix s p = (take (length p) s = p)"

lemma hasPrefix_append [simp]: "hasPrefix (p @ s) p"
  by (simp add: hasPrefix_def)

lemma hasPrefix_iff: "hasPrefix s p \<longleftrightarrow> (\<exists>t. s = p @ t)"
  by (metis append_take_drop_id hasPrefix_append hasPrefix_def)

fun occursIn :: "string \<Rightarrow> string \<Rightarrow> bool" where
  "occursIn p [] = (p = [])"
| "occursIn p (c # s) = (hasPrefix (c # s) p \<or> occursIn p s)"

text \<open>
  \<open>[s rangeOfString: p].location != NSNotFound\<close>.  The empty string is never found.
\<close>

definition containsString :: "string \<Rightarrow> string \<Rightarrow> bool" where
  "containsString s p = (p \<noteq> [] \<and> occursIn p s)"

definition containsCI :: "string \<Rightarrow> string \<Rightarrow> bool" where
  "containsCI s p = containsString (lowercaseString s) (lowercaseString p)"

text \<open>The \<open>NSPredicate\<close> operator \<open>contains[cd]\<close>: false on \<open>nil\<close>.\<close>

definition containsCD :: "string option \<Rightarrow> string \<Rightarrow> bool" where
  "containsCD s p = (case s of None \<Rightarrow> False | Some t \<Rightarrow> occursIn (foldCD p) (foldCD t))"

lemma occursIn_iff: "occursIn p s \<longleftrightarrow> (\<exists>u v. s = u @ p @ v)"
proof (induction s)
  case (Cons c s)
  show ?case
  proof
    assume "occursIn p (c # s)"
    then consider "hasPrefix (c # s) p" | "occursIn p s" by auto
    then show "\<exists>u v. c # s = u @ p @ v"
    proof cases
      case 1
      then show ?thesis by (metis append_Nil hasPrefix_iff)
    next
      case 2
      with Cons.IH show ?thesis by (metis append_Cons)
    qed
  next
    assume "\<exists>u v. c # s = u @ p @ v"
    then obtain u v where uv: "c # s = u @ p @ v" by blast
    show "occursIn p (c # s)"
    proof (cases u)
      case Nil
      with uv have "hasPrefix (c # s) p" by (simp add: hasPrefix_def)
      then show ?thesis by simp
    next
      case (Cons d u')
      with uv have "s = u' @ p @ v" by simp
      with Cons.IH have "occursIn p s" by blast
      then show ?thesis by simp
    qed
  qed
qed simp

lemma containsString_iff: "containsString s p \<longleftrightarrow> p \<noteq> [] \<and> (\<exists>u v. s = u @ p @ v)"
  by (simp add: containsString_def occursIn_iff)

section \<open>Strings: split, join, replace\<close>

fun splitOn :: "char list \<Rightarrow> string \<Rightarrow> string \<Rightarrow> string list" where
  "splitOn sep cur [] = [rev cur]"
| "splitOn sep cur (c # s) =
     (if sep \<noteq> [] \<and> take (length sep) (c # s) = sep
      then rev cur # splitOn sep [] (drop (length sep - 1) s)
      else splitOn sep (c # cur) s)"

text \<open>\<open>componentsSeparatedByString:\<close>\<close>

definition components :: "string \<Rightarrow> string \<Rightarrow> string list" where
  "components sep s = splitOn sep [] s"

text \<open>\<open>componentsJoinedByString:\<close>\<close>

fun joinBy :: "string \<Rightarrow> string list \<Rightarrow> string" where
  "joinBy sep [] = []"
| "joinBy sep [x] = x"
| "joinBy sep (x # y # ys) = x @ sep @ joinBy sep (y # ys)"

text \<open>\<open>stringByReplacingOccurrencesOfString:withString:\<close>, leftmost first, without overlap.\<close>

fun replaceAll :: "string \<Rightarrow> string \<Rightarrow> string \<Rightarrow> string" where
  "replaceAll t r [] = []"
| "replaceAll t r (c # s) =
     (if t \<noteq> [] \<and> take (length t) (c # s) = t
      then r @ replaceAll t r (drop (length t - 1) s)
      else c # replaceAll t r s)"

lemma splitOn_nonempty [simp]: "splitOn sep cur s \<noteq> []"
  by (induction sep cur s rule: splitOn.induct) auto

lemma components_nonempty [simp]: "components sep s \<noteq> []"
  by (simp add: components_def)

lemma components_count: "1 \<le> length (components sep s)"
  by (cases "components sep s") auto

lemma joinBy_Cons: "xs \<noteq> [] \<Longrightarrow> joinBy sep (x # xs) = x @ sep @ joinBy sep xs"
  by (cases xs) auto

lemma joinBy_splitOn: "joinBy sep (splitOn sep cur s) = rev cur @ s"
proof (induction sep cur s rule: splitOn.induct)
  case (2 sep cur c s)
  show ?case
  proof (cases "sep \<noteq> [] \<and> take (length sep) (c # s) = sep")
    case True
    then have cs: "c # s = sep @ drop (length sep - 1) s"
      by (metis append_take_drop_id drop_Cons' length_0_conv)
    from True have "splitOn sep cur (c # s) = rev cur # splitOn sep [] (drop (length sep - 1) s)"
      by simp
    with True 2(1) have "joinBy sep (splitOn sep cur (c # s))
        = rev cur @ sep @ drop (length sep - 1) s"
      by (simp add: joinBy_Cons)
    with cs show ?thesis by simp
  next
    case False
    with 2(2) show ?thesis by (simp only: splitOn.simps if_False) simp
  qed
qed simp

text \<open>Splitting loses nothing: joining the components gives the string back.\<close>

lemma join_components [ns_split]: "joinBy sep (components sep s) = s"
  by (simp add: components_def joinBy_splitOn)

lemma splitOn_char_notin: "x \<notin> set s \<Longrightarrow> splitOn [x] cur s = [rev cur @ s]"
  by (induction s arbitrary: cur) auto

lemma splitOn_char_append:
  "x \<notin> set s \<Longrightarrow> splitOn [x] cur (s @ x # t) = (rev cur @ s) # splitOn [x] [] t"
  by (induction s arbitrary: cur) auto

lemma components_char_notin [ns_split]: "x \<notin> set s \<Longrightarrow> components [x] s = [s]"
  by (simp add: components_def splitOn_char_notin)

lemma components_char_append [ns_split]:
  "x \<notin> set s \<Longrightarrow> components [x] (s @ x # t) = s # components [x] t"
  by (simp add: components_def splitOn_char_append)

lemma components_char_Cons [ns_split]: "components [x] (x # t) = [] # components [x] t"
  by (simp add: components_def)

lemma splitOn_char_clean: "x \<notin> set cur \<Longrightarrow> y \<in> set (splitOn [x] cur s) \<Longrightarrow> x \<notin> set y"
proof (induction s arbitrary: cur y)
  case (Cons c s)
  show ?case
  proof (cases "c = x")
    case True
    with Cons.prems have "y = rev cur \<or> y \<in> set (splitOn [x] [] s)" by auto
    with Cons.prems(1) Cons.IH [of "[]" y] show ?thesis by auto
  next
    case False
    with Cons.prems Cons.IH [of "c # cur" y] show ?thesis by auto
  qed
qed auto

lemma components_char_clean: "y \<in> set (components [x] s) \<Longrightarrow> x \<notin> set y"
  by (auto simp: components_def dest: splitOn_char_clean [rotated])

text \<open>Any separator: it splits the string exactly when it occurs.\<close>

lemma splitOn_absent: "\<not> containsString s sep \<Longrightarrow> splitOn sep cur s = [rev cur @ s]"
proof (induction s arbitrary: cur)
  case (Cons c s)
  then have "\<not> (sep \<noteq> [] \<and> take (length sep) (c # s) = sep)" and "\<not> containsString s sep"
    by (auto simp: containsString_def hasPrefix_def)
  with Cons.IH [of "c # cur"] show ?case by (simp only: splitOn.simps if_False) simp
qed simp

lemma splitOn_present: "containsString s sep \<Longrightarrow> 2 \<le> length (splitOn sep cur s)"
proof (induction s arbitrary: cur)
  case (Cons c s)
  show ?case
  proof (cases "sep \<noteq> [] \<and> take (length sep) (c # s) = sep")
    case True
    then have "splitOn sep cur (c # s) = rev cur # splitOn sep [] (drop (length sep - 1) s)" by simp
    moreover have "1 \<le> length (splitOn sep [] (drop (length sep - 1) s))"
      by (metis length_0_conv less_one not_le splitOn_nonempty)
    ultimately show ?thesis by simp
  next
    case False
    with Cons.prems have "containsString s sep" by (auto simp: containsString_def hasPrefix_def)
    with Cons.IH False show ?thesis by (simp only: splitOn.simps if_False)
  qed
qed (simp add: containsString_def)

lemma components_absent [ns_split]: "\<not> containsString s sep \<Longrightarrow> components sep s = [s]"
  by (simp add: components_def splitOn_absent)

lemma components_two_iff: "2 \<le> length (components sep s) \<longleftrightarrow> containsString s sep"
  by (metis components_absent components_def length_Cons list.size(3) not_less_eq_eq numeral_2_eq_2
      One_nat_def order_refl splitOn_present)

lemma splitOn_first:
  assumes "sep = x # sep'" and "x \<notin> set s"
  shows "splitOn sep cur (s @ sep @ t) = (rev cur @ s) # splitOn sep [] t"
  using assms(2)
proof (induction s arbitrary: cur)
  case Nil
  then show ?case by (simp add: assms(1))
next
  case (Cons c s)
  then have "c \<noteq> x" by auto
  then have "take (length sep) ((c # s) @ sep @ t) \<noteq> sep" by (simp add: assms(1))
  then have "splitOn sep cur ((c # s) @ sep @ t) = splitOn sep (c # cur) (s @ sep @ t)" by simp
  with Cons.IH [of "c # cur"] Cons.prems show ?case by simp
qed

lemma components_first [ns_split]:
  "x \<notin> set s \<Longrightarrow> components (x # sep) (s @ x # sep @ t) = s # components (x # sep) t"
  using splitOn_first [OF refl, of x s sep "[]" t] by (simp add: components_def)

lemma length_splitOn_char: "length (splitOn [x] cur s) = Suc (count_list s x)"
  by (induction s arbitrary: cur) auto

lemma length_components_char: "length (components [x] s) = Suc (count_list s x)"
  by (simp add: components_def length_splitOn_char)

lemma replaceAll_char [ns_simps]: "replaceAll [x] [y] s = map (\<lambda>c. if c = x then y else c) s"
  by (induction s) auto

lemma replaceAll_notin: "\<not> containsString s t \<Longrightarrow> replaceAll t r s = s"
proof (induction t r s rule: replaceAll.induct)
  case (2 t r c s)
  show ?case
  proof (cases "t \<noteq> [] \<and> take (length t) (c # s) = t")
    case True
    then have "containsString (c # s) t" by (simp add: containsString_def hasPrefix_def)
    with "2.prems" show ?thesis by simp
  next
    case False
    moreover have "\<not> containsString s t" using "2.prems" by (auto simp: containsString_def)
    ultimately have "replaceAll t r s = s" by (rule "2.IH"(2))
    with False show ?thesis by (simp only: replaceAll.simps if_False)
  qed
qed simp

section \<open>Formatting\<close>

text \<open>\<open>%@\<close> on \<open>nil\<close> prints \<open>(null)\<close>.\<close>

definition fmt :: "string option \<Rightarrow> string" where
  "fmt s = (case s of None \<Rightarrow> ''(null)'' | Some t \<Rightarrow> t)"

lemma fmt_simps [simp]: "fmt None = ''(null)''" "fmt (Some s) = s"
  by (simp_all add: fmt_def)

fun showNat :: "nat \<Rightarrow> string" where
  "showNat n =
     (if n < 10 then [char_of (48 + n)] else showNat (n div 10) @ [char_of (48 + n mod 10)])"

declare showNat.simps [simp del]

definition showInt :: "int \<Rightarrow> string" where
  "showInt i = (if i < 0 then CHR ''-'' # showNat (nat (- i)) else showNat (nat i))"

text \<open>\<open>stringByTrimmingCharactersInSet: whitespaceCharacterSet\<close>: spaces and tabs.\<close>

definition isBlank :: "char \<Rightarrow> bool" where
  "isBlank c = (c = CHR '' '' \<or> c = CHR 0x09 \<or> c = CHR 0xA0)"

definition trimBlanks :: "string \<Rightarrow> string" where
  "trimBlanks s = rev (dropWhile isBlank (rev (dropWhile isBlank s)))"

text \<open>The length of \<open>nil\<close> is 0.\<close>

definition lengthOf :: "string option \<Rightarrow> nat" where
  "lengthOf s = (case s of None \<Rightarrow> 0 | Some t \<Rightarrow> length t)"

lemma lengthOf_simps [simp]: "lengthOf None = 0" "lengthOf (Some s) = length s"
  by (simp_all add: lengthOf_def)

end
