(* ===== verification/TableSQL.thy ===== *)
theory TableSQL
  imports Foundation
begin

text \<open>
  The column object (MySQLTableColumn) and the generator of the CREATE TABLE statement
  (MySQLTable, \<open>generateCreateTableSQL\<close>).  The generator's three index loops are translated as
  written; \<open>createTableSpec\<close> says what they compute, and the last section says when the list
  between the brackets is well punctuated.
\<close>

section \<open>MySQLTableColumn\<close>

record mysql_column =
  columnModifiers :: "string list"
  dataType :: string
  colLength :: "string option"
  columnName :: string
  decimalPrecision :: "string option"
  decimalScale :: "string option"
  defaultValue :: "string option"
  isPrimaryKey :: bool
  isUnique :: bool
  isAutoIncrement :: bool
  isNotNull :: bool
  isZeroFill :: bool
  isBinary :: bool
  isNumeric :: bool
  isDecimal :: bool

text \<open>Fields the initialiser does not write are zero in a fresh object.\<close>

definition initWithDataTypeAndLengthAndName :: "string \<Rightarrow> string \<Rightarrow> mysql_column" where
  "initWithDataTypeAndLengthAndName colType colName =
     \<lparr>columnModifiers = [], dataType = colType, colLength = None, columnName = colName,
      decimalPrecision = None, decimalScale = None, defaultValue = None,
      isPrimaryKey = False, isUnique = False, isAutoIncrement = False, isNotNull = False,
      isZeroFill = False, isBinary = False, isNumeric = False, isDecimal = False\<rparr>"

section \<open>The generator\<close>

definition blankText :: "string option \<Rightarrow> bool" where
  "blankText s = (s = Some '''' \<or> s = None)"

definition typeText :: "mysql_column \<Rightarrow> string" where
  "typeText col =
     (if isDecimal col
      then if blankText (decimalPrecision col) \<or> blankText (decimalScale col)
           then dataType col
           else dataType col @ ''('' @ fmt (decimalPrecision col) @ '','' @ fmt (decimalScale col) @ '')''
      else dataType col)"

definition lengthText :: "mysql_column \<Rightarrow> string" where
  "lengthText col = (case colLength col of Some l \<Rightarrow> ''('' @ l @ '')'' | None \<Rightarrow> '''')"

definition columnText :: "mysql_column \<Rightarrow> string" where
  "columnText col = ''`'' @ columnName col @ ''` '' @ typeText col @ '' '' @ lengthText col"

fun appendModifiers :: "string \<Rightarrow> string list \<Rightarrow> string" where
  "appendModifiers sql [] = sql"
| "appendModifiers sql (m # ms) = appendModifiers (sql @ '' '' @ m) ms"

text \<open>The loop over the columns, with its three accumulators.\<close>

fun columnsLoop ::
  "mysql_column list \<Rightarrow> string \<Rightarrow> string list \<Rightarrow> string list \<Rightarrow> string \<times> string list \<times> string list"
where
  "columnsLoop [] sqlColumns primaryKeys uniqueIdentifiers =
     (sqlColumns, primaryKeys, uniqueIdentifiers)"
| "columnsLoop (column # columns) sqlColumns primaryKeys uniqueIdentifiers =
     (let sqlColumns = sqlColumns @ '' '' @ columnText column;
          sqlColumns = appendModifiers sqlColumns (columnModifiers column);
          sqlColumns = sqlColumns @ '' ,'';
          primaryKeys =
            (if isPrimaryKey column
             then primaryKeys @ [''PRIMARY KEY (`'' @ columnName column @ ''`) ''] else primaryKeys);
          uniqueIdentifiers =
            (if isUnique column
             then uniqueIdentifiers @
                  [''UNIQUE INDEX `'' @ columnName column @ ''_UNIQUE` (`'' @ columnName column @ ''` ASC)'']
             else uniqueIdentifiers)
      in columnsLoop columns sqlColumns primaryKeys uniqueIdentifiers)"

text \<open>
  The two loops that print the keys: \<open>n\<close> is the number of entries, \<open>u\<close> the number of unique
  identifiers, \<open>i\<close> the loop counter.
\<close>

fun pkLoop :: "nat \<Rightarrow> nat \<Rightarrow> nat \<Rightarrow> string list \<Rightarrow> string \<Rightarrow> string" where
  "pkLoop n u i [] pkString = pkString"
| "pkLoop n u i (k # ks) pkString =
     pkLoop n u (Suc i) ks
       (if i = n - 1 \<and> u \<le> 0 then pkString @ '' '' @ k
        else if i = n - 1 \<and> u > 0 then pkString @ '' '' @ k @ '',''
        else pkString @ '' '' @ k @ '','')"

fun uniqueLoop :: "nat \<Rightarrow> nat \<Rightarrow> string list \<Rightarrow> string \<Rightarrow> string" where
  "uniqueLoop n i [] uniqueString = uniqueString"
| "uniqueLoop n i (k # ks) uniqueString =
     uniqueLoop n (Suc i) ks
       (if i = n - 1 then uniqueString @ '' '' @ k else uniqueString @ '' '' @ k @ '','')"

definition generateCreateTableSQL :: "mysql_column list \<Rightarrow> string \<Rightarrow> string \<Rightarrow> string" where
  "generateCreateTableSQL columns tableName schemaName =
     (let sql = ''CREATE TABLE `'' @ schemaName @ ''`.`'' @ tableName @ ''` ('';
          (sqlColumns, primaryKeys, uniqueIdentifiers) = columnsLoop columns '''' [] [];
          pkString = pkLoop (length primaryKeys) (length uniqueIdentifiers) 0 primaryKeys '''';
          uniqueString = uniqueLoop (length uniqueIdentifiers) 0 uniqueIdentifiers '''';
          sql = sql @ '' '' @ sqlColumns @ '' '' @ pkString @ '' '' @ uniqueString
      in sql @ '' );'')"

section \<open>What the loops compute\<close>

definition columnItem :: "mysql_column \<Rightarrow> string" where
  "columnItem col = '' '' @ columnText col @ concat (map (\<lambda>m. '' '' @ m) (columnModifiers col)) @ '' ''"

definition pkItems :: "mysql_column list \<Rightarrow> string list" where
  "pkItems cols =
     map (\<lambda>c. ''PRIMARY KEY (`'' @ columnName c @ ''`) '') (filter isPrimaryKey cols)"

definition uniqueItems :: "mysql_column list \<Rightarrow> string list" where
  "uniqueItems cols =
     map (\<lambda>c. ''UNIQUE INDEX `'' @ columnName c @ ''_UNIQUE` (`'' @ columnName c @ ''` ASC)'')
       (filter isUnique cols)"

definition keyList :: "string list \<Rightarrow> string" where
  "keyList ks = joinBy '','' (map (\<lambda>k. '' '' @ k) ks)"

definition createTableSpec :: "mysql_column list \<Rightarrow> string \<Rightarrow> string \<Rightarrow> string" where
  "createTableSpec cols tableName schemaName =
     ''CREATE TABLE `'' @ schemaName @ ''`.`'' @ tableName @ ''` ( ''
     @ concat (map (\<lambda>c. columnItem c @ '','') cols)
     @ '' '' @ keyList (pkItems cols)
     @ (if pkItems cols \<noteq> [] \<and> uniqueItems cols \<noteq> [] then '','' else '''')
     @ '' '' @ keyList (uniqueItems cols) @ '' );''"

lemma appendModifiers_concat:
  "appendModifiers sql ms = sql @ concat (map (\<lambda>m. '' '' @ m) ms)"
  by (induction ms arbitrary: sql) auto

lemma columnsLoop_spec:
  "columnsLoop cols s ps us =
     (s @ concat (map (\<lambda>c. columnItem c @ '','') cols), ps @ pkItems cols, us @ uniqueItems cols)"
  by (induction cols arbitrary: s ps us)
     (auto simp: columnItem_def pkItems_def uniqueItems_def appendModifiers_concat)

lemma keyList_Cons: "ks \<noteq> [] \<Longrightarrow> keyList (k # ks) = '' '' @ k @ '','' @ keyList ks"
  by (simp add: keyList_def joinBy_Cons)

lemma pkLoop_spec:
  "i + length ks = n \<Longrightarrow>
     pkLoop n u i ks acc = acc @ keyList ks @ (if ks \<noteq> [] \<and> u > 0 then '','' else '''')"
proof (induction ks arbitrary: i acc)
  case Nil
  then show ?case by (simp add: keyList_def)
next
  case (Cons k ks)
  from Cons.prems have IH: "\<And>acc. pkLoop n u (Suc i) ks acc
      = acc @ keyList ks @ (if ks \<noteq> [] \<and> u > 0 then '','' else '''')"
    by (intro Cons.IH) simp
  show ?case
  proof (cases "ks = []")
    case True
    with Cons.prems show ?thesis by (auto simp: IH keyList_def)
  next
    case False
    with Cons.prems have "i \<noteq> n - 1" by (cases ks) auto
    with False show ?thesis by (auto simp: IH keyList_Cons)
  qed
qed

lemma uniqueLoop_spec:
  "i + length ks = n \<Longrightarrow> uniqueLoop n i ks acc = acc @ keyList ks"
proof (induction ks arbitrary: i acc)
  case Nil
  then show ?case by (simp add: keyList_def)
next
  case (Cons k ks)
  from Cons.prems have IH: "\<And>acc. uniqueLoop n (Suc i) ks acc = acc @ keyList ks"
    by (intro Cons.IH) simp
  show ?case
  proof (cases "ks = []")
    case True
    with Cons.prems show ?thesis by (simp add: IH keyList_def)
  next
    case False
    with Cons.prems have "i \<noteq> n - 1" by (cases ks) auto
    with False show ?thesis by (simp add: IH keyList_Cons)
  qed
qed

lemma generate_spec_aux:
  "generateCreateTableSQL cols tableName schemaName = createTableSpec cols tableName schemaName"
proof -
  let ?pk = "pkItems cols" and ?uq = "uniqueItems cols"
  have pk: "pkLoop (length ?pk) (length ?uq) 0 ?pk ''''
      = keyList ?pk @ (if ?pk \<noteq> [] \<and> length ?uq > 0 then '','' else '''')"
    by (simp add: pkLoop_spec)
  have uq: "uniqueLoop (length ?uq) 0 ?uq '''' = keyList ?uq"
    by (simp add: uniqueLoop_spec)
  show ?thesis
    by (simp add: generateCreateTableSQL_def createTableSpec_def columnsLoop_spec pk uq)
qed

section \<open>Punctuation of the list between the brackets\<close>

text \<open>Blanks between the items carry no meaning in SQL; \<open>unspaced\<close> drops them.\<close>

definition unspaced :: "string \<Rightarrow> string" where
  "unspaced s = filter (\<lambda>c. c \<noteq> CHR '' '') s"

lemma unspaced_append [simp]: "unspaced (s @ t) = unspaced s @ unspaced t"
  by (simp add: unspaced_def)

lemma unspaced_Nil [simp]: "unspaced [] = []"
  by (simp add: unspaced_def)

lemma unspaced_Cons [simp]:
  "unspaced (c # s) = (if c = CHR '' '' then unspaced s else c # unspaced s)"
  by (simp add: unspaced_def)

lemma unspaced_concat: "unspaced (concat xs) = concat (map unspaced xs)"
  by (induction xs) auto

lemma unspaced_joinBy: "unspaced (joinBy '','' xs) = joinBy '','' (map unspaced xs)"
  by (induction "'',''" xs rule: joinBy.induct) auto

lemma concat_commas_joinBy:
  "ys \<noteq> [] \<Longrightarrow> concat (map (\<lambda>x. x @ '','') xs) @ joinBy '','' ys = joinBy '','' (xs @ ys)"
  by (induction xs) (auto simp: joinBy_Cons)

lemma joinBy_append:
  "xs \<noteq> [] \<Longrightarrow> ys \<noteq> [] \<Longrightarrow> joinBy sep (xs @ ys) = joinBy sep xs @ sep @ joinBy sep ys"
proof (induction xs)
  case (Cons x xs)
  then show ?case by (cases "xs = []") (simp_all add: joinBy_Cons)
qed simp

definition createTableHead :: "string \<Rightarrow> string \<Rightarrow> string" where
  "createTableHead tableName schemaName =
     ''CREATE TABLE `'' @ schemaName @ ''`.`'' @ tableName @ ''` ( ''"

lemma unspaced_keyList: "unspaced (keyList ks) = joinBy '','' (map unspaced ks)"
  by (simp add: keyList_def unspaced_joinBy comp_def)

lemma unspaced_columns:
  "unspaced (concat (map (\<lambda>c. columnItem c @ '','') cols))
     = concat (map (\<lambda>x. x @ '','') (map (\<lambda>c. unspaced (columnItem c)) cols))"
  by (simp add: unspaced_concat comp_def)

lemma unspaced_spec:
  "unspaced (createTableSpec cols t s) =
     unspaced (createTableHead t s)
     @ concat (map (\<lambda>x. x @ '','') (map (\<lambda>c. unspaced (columnItem c)) cols))
     @ joinBy '','' (map unspaced (pkItems cols))
     @ (if pkItems cols \<noteq> [] \<and> uniqueItems cols \<noteq> [] then '','' else '''')
     @ joinBy '','' (map unspaced (uniqueItems cols)) @ '');''"
  using unspaced_columns [of cols]
  by (simp add: createTableSpec_def createTableHead_def unspaced_keyList)

definition itemTexts :: "mysql_column list \<Rightarrow> string list" where
  "itemTexts cols = map columnItem cols @ pkItems cols @ uniqueItems cols"

lemma keys_joined:
  "pk @ uq \<noteq> [] \<Longrightarrow>
     joinBy '','' pk @ (if pk \<noteq> [] \<and> uq \<noteq> [] then '','' else '''') @ joinBy '','' uq
     = joinBy '','' (pk @ uq)"
  by (auto simp: joinBy_append)

lemma items_separated_aux:
  assumes "\<exists>c \<in> set cols. isPrimaryKey c \<or> isUnique c"
  shows "unspaced (generateCreateTableSQL cols t s) =
     unspaced (createTableHead t s) @ joinBy '','' (map unspaced (itemTexts cols)) @ '');''"
proof -
  let ?pk = "map unspaced (pkItems cols)" and ?uq = "map unspaced (uniqueItems cols)"
  from assms have ne: "?pk @ ?uq \<noteq> []"
    by (auto simp: pkItems_def uniqueItems_def filter_empty_conv)
  have "unspaced (generateCreateTableSQL cols t s) = unspaced (createTableHead t s)
     @ concat (map (\<lambda>x. x @ '','') (map (\<lambda>c. unspaced (columnItem c)) cols))
     @ joinBy '','' (?pk @ ?uq) @ '');''"
    by (simp add: generate_spec_aux unspaced_spec keys_joined [OF ne, symmetric])
  also have "\<dots> = unspaced (createTableHead t s)
     @ joinBy '','' (map (\<lambda>c. unspaced (columnItem c)) cols @ ?pk @ ?uq) @ '');''"
    using concat_commas_joinBy [OF ne, of "map (\<lambda>c. unspaced (columnItem c)) cols"] by simp
  finally show ?thesis by (simp add: itemTexts_def comp_def)
qed

text \<open>
  C36.  The generated statement is the declarative one: the header, every column item followed by a
  comma, the primary-key clauses and the unique-index clauses separated by commas, and a comma
  between the two groups exactly when both are present.
\<close>

theorem generateCreateTableSQL_spec:
  "generateCreateTableSQL cols tableName schemaName = createTableSpec cols tableName schemaName"
  by (rule generate_spec_aux)

text \<open>
  As soon as one column is a primary key or unique, the text between the brackets is, up to
  blanks, the comma-separated list of all items in order: no comma is missing and none is left
  over.
\<close>

theorem create_table_items_separated:
  assumes "\<exists>c \<in> set cols. isPrimaryKey c \<or> isUnique c"
  shows "unspaced (generateCreateTableSQL cols t s) =
     unspaced (createTableHead t s) @ joinBy '','' (map unspaced (itemTexts cols)) @ '');''"
  using assms by (rule items_separated_aux)

definition keyColumn :: mysql_column where
  "keyColumn = (initWithDataTypeAndLengthAndName ''INT'' ''id'')\<lparr>isPrimaryKey := True\<rparr>"

theorem create_table_items_separated_witness:
  "(\<exists>c \<in> set [keyColumn]. isPrimaryKey c \<or> isUnique c) \<and>
   unspaced (generateCreateTableSQL [keyColumn] ''t'' ''s'')
     = ''CREATETABLE`s`.`t`(`id`INT,PRIMARYKEY(`id`));''"
proof -
  have key: "\<exists>c \<in> set [keyColumn]. isPrimaryKey c \<or> isUnique c"
    by (simp add: keyColumn_def)
  show ?thesis
    using key create_table_items_separated [OF key, of "''t''" "''s''"]
    by (simp add: keyColumn_def initWithDataTypeAndLengthAndName_def createTableHead_def
        unspaced_def itemTexts_def columnItem_def columnText_def typeText_def lengthText_def
        pkItems_def uniqueItems_def)
qed

text \<open>
  When no column is a primary key or unique, the statement ends in a dangling comma right
  before the closing bracket, which MySQL rejects.
\<close>

theorem create_table_dangling_comma:
  assumes "cols \<noteq> []" and "\<forall>c \<in> set cols. \<not> isPrimaryKey c \<and> \<not> isUnique c"
  shows "\<exists>front. generateCreateTableSQL cols t s = front @ '',   );''"
proof -
  from assms(2) have "pkItems cols = []" and "uniqueItems cols = []"
    by (auto simp: pkItems_def uniqueItems_def filter_empty_conv)
  moreover from assms(1) have "concat (map (\<lambda>c. columnItem c @ '','') cols)
      = concat (map (\<lambda>c. columnItem c @ '','') (butlast cols)) @ columnItem (last cols) @ '',''"
    by (induction cols) auto
  ultimately show ?thesis
    by (simp add: generate_spec_aux createTableSpec_def keyList_def)
qed

theorem create_table_dangling_comma_witness:
  "\<exists>front. generateCreateTableSQL [initWithDataTypeAndLengthAndName ''DATE'' ''d''] ''t'' ''s''
     = front @ '',   );''"
  by (rule create_table_dangling_comma) (simp_all add: initWithDataTypeAndLengthAndName_def)

end
