(* ===== verification/ColumnForm.thy ===== *)
theory ColumnForm
  imports TableSQL
begin

text \<open>
  The column editor (NewMySQLColumnViewController): the state of its widgets, loading a column
  into the form, the reaction to a choice in the data-type picker, and the action of the
  Add/Update button.  The column object is passed in and out; TableDesigner keeps it in a store,
  since the editor and the table designer share the object.
\<close>

section \<open>Widgets\<close>

record switch =
  isOn :: bool
  swEnabled :: bool

record textField =
  fieldText :: string
  tfEnabled :: bool

definition setSwitch :: "bool \<Rightarrow> bool \<Rightarrow> switch" where
  "setSwitch b e = \<lparr>isOn = b, swEnabled = e\<rparr>"

lemma setSwitch_sel [simp]: "isOn (setSwitch b e) = b" "swEnabled (setSwitch b e) = e"
  by (simp_all add: setSwitch_def)

record column_form =
  columnNameTxt :: textField
  columnLengthTxt :: textField
  decimalPrecisionTxt :: textField
  decimalScaleTxt :: textField
  defaultTxt :: textField
  primaryKeySwitch :: switch
  uniqueSwtich :: switch
  autoIncrementSwitch :: switch
  notNullSwitch :: switch
  zeroFillSwitch :: switch
  binarySwitch :: switch
  selectedRow :: nat
  dataTypes :: "string list"
  datatypeNumeric :: bool
  dataTypeDecimal :: bool
  isEditing :: bool
  backButtonPressed :: bool

definition enableField :: "bool \<Rightarrow> textField \<Rightarrow> textField" where
  "enableField b f = f\<lparr>tfEnabled := b\<rparr>"

definition putText :: "string \<Rightarrow> textField \<Rightarrow> textField" where
  "putText s f = f\<lparr>fieldText := s\<rparr>"

lemma field_sel [simp]:
  "fieldText (enableField b f) = fieldText f" "tfEnabled (enableField b f) = b"
  "fieldText (putText s f) = s" "tfEnabled (putText s f) = tfEnabled f"
  by (simp_all add: enableField_def putText_def)

text \<open>
  The scene as the storyboard instantiates it: every field empty and enabled, every switch on and
  enabled, the picker on its first row.
\<close>

definition storyboardForm :: column_form where
  "storyboardForm =
     \<lparr>columnNameTxt = \<lparr>fieldText = '''', tfEnabled = True\<rparr>,
      columnLengthTxt = \<lparr>fieldText = '''', tfEnabled = True\<rparr>,
      decimalPrecisionTxt = \<lparr>fieldText = '''', tfEnabled = True\<rparr>,
      decimalScaleTxt = \<lparr>fieldText = '''', tfEnabled = True\<rparr>,
      defaultTxt = \<lparr>fieldText = '''', tfEnabled = True\<rparr>,
      primaryKeySwitch = setSwitch True True, uniqueSwtich = setSwitch True True,
      autoIncrementSwitch = setSwitch True True, notNullSwitch = setSwitch True True,
      zeroFillSwitch = setSwitch True True, binarySwitch = setSwitch True True,
      selectedRow = 0, dataTypes = [], datatypeNumeric = False, dataTypeDecimal = False,
      isEditing = False, backButtonPressed = False\<rparr>"

section \<open>What a data type does to the form\<close>

text \<open>The branches share these blocks of assignments.\<close>

definition integerBlock :: "column_form \<Rightarrow> column_form" where
  "integerBlock f = f\<lparr>columnLengthTxt := enableField False (columnLengthTxt f),
     defaultTxt := enableField True (defaultTxt f), binarySwitch := setSwitch False False,
     autoIncrementSwitch := setSwitch True True, zeroFillSwitch := setSwitch True True,
     datatypeNumeric := True, dataTypeDecimal := False\<rparr>"

definition floatBlock :: "column_form \<Rightarrow> column_form" where
  "floatBlock f = f\<lparr>columnLengthTxt := enableField True (columnLengthTxt f),
     defaultTxt := enableField True (defaultTxt f), binarySwitch := setSwitch False False,
     autoIncrementSwitch := setSwitch True True, zeroFillSwitch := setSwitch True True,
     datatypeNumeric := True, dataTypeDecimal := False\<rparr>"

definition decimalBlock :: "column_form \<Rightarrow> column_form" where
  "decimalBlock f = f\<lparr>decimalPrecisionTxt := enableField True (decimalPrecisionTxt f),
     decimalScaleTxt := enableField True (decimalScaleTxt f),
     defaultTxt := enableField True (defaultTxt f), binarySwitch := setSwitch False False,
     autoIncrementSwitch := setSwitch False False, zeroFillSwitch := setSwitch True True,
     columnLengthTxt := enableField False (columnLengthTxt f),
     dataTypeDecimal := True, datatypeNumeric := False\<rparr>"

definition dateBlock :: "column_form \<Rightarrow> column_form" where
  "dateBlock f = f\<lparr>columnLengthTxt := enableField False (columnLengthTxt f),
     defaultTxt := enableField False (defaultTxt f), autoIncrementSwitch := setSwitch False False,
     zeroFillSwitch := setSwitch False False, binarySwitch := setSwitch False False,
     dataTypeDecimal := False, datatypeNumeric := False\<rparr>"

text \<open>YEAR leaves the length field as it is.\<close>

definition yearBlock :: "column_form \<Rightarrow> column_form" where
  "yearBlock f = f\<lparr>defaultTxt := enableField False (defaultTxt f),
     binarySwitch := setSwitch False False, autoIncrementSwitch := setSwitch False False,
     zeroFillSwitch := setSwitch False False, dataTypeDecimal := False, datatypeNumeric := False\<rparr>"

definition blobBlock :: "column_form \<Rightarrow> column_form" where
  "blobBlock f = f\<lparr>columnLengthTxt := enableField False (columnLengthTxt f),
     defaultTxt := enableField False (defaultTxt f), autoIncrementSwitch := setSwitch False False,
     zeroFillSwitch := setSwitch False False, binarySwitch := setSwitch True True,
     dataTypeDecimal := False, datatypeNumeric := False\<rparr>"

definition charBlock :: "column_form \<Rightarrow> column_form" where
  "charBlock f = f\<lparr>columnLengthTxt := enableField True (columnLengthTxt f),
     defaultTxt := enableField True (defaultTxt f), binarySwitch := setSwitch True True,
     autoIncrementSwitch := setSwitch False False, zeroFillSwitch := setSwitch False False,
     dataTypeDecimal := False, datatypeNumeric := False\<rparr>"

lemmas block_defs = integerBlock_def floatBlock_def decimalBlock_def dateBlock_def yearBlock_def
  blobBlock_def charBlock_def

definition onType :: "string \<Rightarrow> string \<Rightarrow> (column_form \<Rightarrow> column_form) \<Rightarrow> column_form \<Rightarrow> column_form"
where
  "onType t name g f = (if t = name then g f else f)"

text \<open>The chain of tests in \<open>viewDidLoad\<close>, in two parts, in its order.\<close>

definition loadNumericTypes :: "string \<Rightarrow> column_form \<Rightarrow> column_form" where
  "loadNumericTypes t f =
     onType t ''DECIMAL'' decimalBlock
     (onType t ''DOUBLE'' floatBlock
     (onType t ''FLOAT'' floatBlock
     (onType t ''BIGINT'' integerBlock
     (onType t ''MEDIUMINT'' integerBlock
     (onType t ''SMALLINT'' integerBlock
     (onType t ''INT'' integerBlock f))))))"

definition loadOtherTypes :: "string \<Rightarrow> column_form \<Rightarrow> column_form" where
  "loadOtherTypes t f =
     onType t ''VARCHAR'' charBlock
     (onType t ''CHAR'' charBlock
     (onType t ''ENUM'' dateBlock
     (onType t ''LONGBLOB'' blobBlock
     (onType t ''MEDIUMBLOB'' blobBlock
     (onType t ''TINYBLOB'' blobBlock
     (onType t ''BLOB'' blobBlock
     (onType t ''YEAR'' yearBlock
     (onType t ''TIME'' dateBlock
     (onType t ''TIMESTAMP'' dateBlock
     (onType t ''DATETIME'' dateBlock
     (onType t ''DATE'' dateBlock f)))))))))))"

text \<open>The chain in \<open>pickerView:didSelectRow:inComponent:\<close>.\<close>

definition pickNumericTypes :: "string \<Rightarrow> column_form \<Rightarrow> column_form" where
  "pickNumericTypes t f =
     onType t ''DECIMAL'' decimalBlock
     (onType t ''DOUBLE'' floatBlock
     (onType t ''FLOAT'' floatBlock
     (onType t ''BIGINT'' integerBlock
     (onType t ''MEDIUMINT'' integerBlock
     (onType t ''SMALLINT'' integerBlock
     (onType t ''INT'' integerBlock f))))))"

definition pickOtherTypes :: "string \<Rightarrow> column_form \<Rightarrow> column_form" where
  "pickOtherTypes t f =
     onType t ''LONGBLOB'' blobBlock
     (onType t ''MEDIUMBLOB'' blobBlock
     (onType t ''TINYBLOB'' blobBlock
     (onType t ''BLOB'' blobBlock
     (onType t ''VARCHAR'' charBlock
     (onType t ''CHAR'' charBlock
     (onType t ''YEAR'' yearBlock
     (onType t ''TIME'' dateBlock
     (onType t ''TIMESTAMP'' dateBlock
     (onType t ''DATETIME'' dateBlock
     (onType t ''DATE'' dateBlock f))))))))))"

section \<open>Loading the form\<close>

definition mysqlTypes :: "string list" where
  "mysqlTypes = [''CHAR'', ''VARCHAR'', ''INT'', ''SMALLINT'', ''TINYINT'', ''MEDIUMINT'',
     ''BIGINT'', ''FLOAT'', ''DOUBLE'', ''DECIMAL'', ''DATE'', ''DATETIME'', ''TIMESTAMP'',
     ''TIME'', ''YEAR'', ''BLOB'', ''TINYBLOB'', ''MEDIUMBLOB'', ''LONGBLOB'']"

text \<open>The head of \<open>viewDidLoad\<close>: the flags, the decimal fields and the picker's rows.\<close>

definition loadCommon :: "mysql_column option \<Rightarrow> column_form \<Rightarrow> column_form" where
  "loadCommon column f = f\<lparr>datatypeNumeric := False, backButtonPressed := False,
     dataTypeDecimal := False, isEditing := False,
     decimalPrecisionTxt := enableField False (decimalPrecisionTxt f),
     decimalScaleTxt := enableField False (decimalScaleTxt f),
     dataTypes := (if column \<noteq> None then mysqlTypes else '''' # mysqlTypes)\<rparr>"

text \<open>\<open>setText: nil\<close> leaves an empty field.\<close>

definition nilText :: "string option \<Rightarrow> string" where
  "nilText s = (case s of None \<Rightarrow> '''' | Some t \<Rightarrow> t)"

text \<open>
  The tail of \<open>viewDidLoad\<close>: the values of the column overwrite the defaults of its type.  A type
  that is not in the picker's list has no row; the picker is then left past its last row.
\<close>

definition loadColumnValues :: "mysql_column \<Rightarrow> column_form \<Rightarrow> column_form" where
  "loadColumnValues c f =
     (let f = f\<lparr>columnNameTxt := putText (columnName c) (columnNameTxt f)\<rparr>;
          f = (if isPrimaryKey c
               then f\<lparr>defaultTxt := enableField False (defaultTxt f),
                      decimalPrecisionTxt := enableField (isDecimal c) (decimalPrecisionTxt f),
                      decimalScaleTxt := enableField (isDecimal c) (decimalScaleTxt f)\<rparr>
               else f);
          f = f\<lparr>primaryKeySwitch := setSwitch (isPrimaryKey c) (isPrimaryKey c),
                uniqueSwtich := setSwitch (isUnique c) (isUnique c),
                autoIncrementSwitch := setSwitch (isAutoIncrement c) (isAutoIncrement c),
                notNullSwitch := setSwitch (isNotNull c) (isNotNull c),
                zeroFillSwitch := setSwitch (isZeroFill c) (isZeroFill c),
                binarySwitch := setSwitch (isBinary c) (isBinary c),
                selectedRow := (case indexOfObject (dataTypes f) (dataType c) of
                                  Some i \<Rightarrow> i | None \<Rightarrow> length (dataTypes f))\<rparr>;
          f = (if isDecimal c
               then f\<lparr>decimalPrecisionTxt := putText (nilText (decimalPrecision c)) (decimalPrecisionTxt f),
                      decimalScaleTxt := putText (nilText (decimalScale c)) (decimalScaleTxt f)\<rparr>
               else f);
          f = (case colLength c of Some l \<Rightarrow> f\<lparr>columnLengthTxt := putText l (columnLengthTxt f)\<rparr>
               | None \<Rightarrow> f);
          f = (case defaultValue c of Some d \<Rightarrow> f\<lparr>defaultTxt := putText d (defaultTxt f)\<rparr>
               | None \<Rightarrow> f)
      in f)"

definition loadForm :: "mysql_column option \<Rightarrow> column_form \<Rightarrow> column_form \<times> mysql_column option" where
  "loadForm column f =
     (let f = loadCommon column f
      in case column of
           None \<Rightarrow> (f, None)
         | Some c \<Rightarrow>
             (let f = f\<lparr>isEditing := True\<rparr>;
                  f = loadNumericTypes (dataType c) f;
                  f = loadOtherTypes (dataType c) f;
                  f = loadColumnValues c f
              in (f, Some (c\<lparr>columnModifiers := []\<rparr>))))"

text \<open>\<open>viewDidAppear:\<close> turns the primary-key switch off for a new column, without an event.\<close>

definition viewDidAppear :: "mysql_column option \<Rightarrow> column_form \<Rightarrow> column_form" where
  "viewDidAppear column f =
     (if column = None then f\<lparr>primaryKeySwitch := (primaryKeySwitch f)\<lparr>isOn := False\<rparr>\<rparr> else f)"

definition openForm :: "mysql_column option \<Rightarrow> column_form \<times> mysql_column option" where
  "openForm column =
     (let (f, c) = loadForm column storyboardForm in (viewDidAppear c f, c))"

section \<open>User actions\<close>

text \<open>
  \<open>pickerView:didSelectRow:inComponent:\<close>.  The picker's selected row is the row passed in.  Picking
  the empty first row removes it, so the same row number then names the next entry.
\<close>

definition didSelectRow :: "nat \<Rightarrow> column_form \<Rightarrow> column_form outcome" where
  "didSelectRow row f =
     (let f = f\<lparr>selectedRow := row\<rparr>
      in andThen (objectAtIndex (dataTypes f) (selectedRow f)) (\<lambda>sel.
         andThen (if sel = ''''
                  then andThen (removeObjectAtIndex (dataTypes f) 0) (\<lambda>ts. Inr (f\<lparr>dataTypes := ts\<rparr>))
                  else Inr f) (\<lambda>f.
         andThen (objectAtIndex (dataTypes f) row) (\<lambda>t.
           Inr (pickOtherTypes t (pickNumericTypes t f))))))"

text \<open>\<open>primaryKeySwitchListener:\<close>, after the switch has taken its new value.\<close>

definition primaryKeySwitchListener :: "bool \<Rightarrow> column_form \<Rightarrow> column_form" where
  "primaryKeySwitchListener on f =
     (if on then f\<lparr>defaultTxt := enableField False (defaultTxt f)\<rparr>
      else f\<lparr>defaultTxt := enableField True (defaultTxt f)\<rparr>)"

definition blankToNil :: "string \<Rightarrow> string option" where
  "blankToNil s = (if s = '''' then None else Some s)"

text \<open>
  The first half of \<open>addColumnOnClick:\<close>: type flags, length, decimal fields and default value of
  the (new or edited) column.
\<close>

definition storeTypeFields :: "column_form \<Rightarrow> mysql_column \<Rightarrow> mysql_column" where
  "storeTypeFields f c =
     (let c = c\<lparr>isNumeric := datatypeNumeric f\<rparr>;
          c = (if tfEnabled (columnLengthTxt f)
               then c\<lparr>colLength := Some (fieldText (columnLengthTxt f))\<rparr> else c);
          c = c\<lparr>isNumeric := datatypeNumeric f, isDecimal := dataTypeDecimal f\<rparr>;
          c = (if dataTypeDecimal f
               then c\<lparr>decimalPrecision := blankToNil (fieldText (decimalPrecisionTxt f)),
                      decimalScale := blankToNil (fieldText (decimalScaleTxt f))\<rparr>
               else c);
          c = (if tfEnabled (defaultTxt f) \<and> fieldText (defaultTxt f) \<noteq> ''''
               then c\<lparr>defaultValue := Some (fieldText (defaultTxt f))\<rparr> else c)
      in c)"

definition addModifier :: "string \<Rightarrow> mysql_column \<Rightarrow> mysql_column" where
  "addModifier m c = c\<lparr>columnModifiers := columnModifiers c @ [m]\<rparr>"

text \<open>The second half: the switches become flags and modifiers, the default value comes last.\<close>

definition storeSwitches :: "column_form \<Rightarrow> mysql_column \<Rightarrow> mysql_column" where
  "storeSwitches f c =
     (let c = (if isOn (primaryKeySwitch f) then c\<lparr>isPrimaryKey := True\<rparr>
               else c\<lparr>isPrimaryKey := False\<rparr>);
          c = (if isOn (uniqueSwtich f) then c\<lparr>isUnique := True\<rparr> else c\<lparr>isUnique := False\<rparr>);
          c = (if isOn (zeroFillSwitch f) then (addModifier ''ZEROFILL'' c)\<lparr>isZeroFill := True\<rparr>
               else c\<lparr>isZeroFill := False\<rparr>);
          c = (if isOn (binarySwitch f) then (addModifier ''BINARY'' c)\<lparr>isBinary := True\<rparr>
               else c\<lparr>isBinary := False\<rparr>);
          c = (if isOn (notNullSwitch f) then (addModifier ''NOT NULL'' c)\<lparr>isNotNull := True\<rparr>
               else (addModifier ''NULL'' c)\<lparr>isNotNull := False\<rparr>);
          c = (if isOn (autoIncrementSwitch f)
               then (addModifier ''AUTO_INCREMENT'' c)\<lparr>isAutoIncrement := True\<rparr>
               else c\<lparr>isAutoIncrement := False\<rparr>);
          c = (if tfEnabled (defaultTxt f) \<and> fieldText (defaultTxt f) \<noteq> ''''
               then addModifier (''DEFAULT '' @
                      (if datatypeNumeric f \<or> dataTypeDecimal f then fieldText (defaultTxt f)
                       else [CHR 0x27] @ fieldText (defaultTxt f) @ [CHR 0x27])) c
               else c)
      in c)"

datatype click_result = TypeMissing "mysql_column option" | Saved mysql_column

text \<open>
  \<open>addColumnOnClick:\<close>.  With no data type chosen an alert is shown and the form stays open
  (\<^const>\<open>TypeMissing\<close>); otherwise the column is filled in and the form is popped
  (\<^const>\<open>Saved\<close>).  In both cases an edited column has already taken the name of the form.
\<close>

definition addColumnOnClick :: "mysql_column option \<Rightarrow> column_form \<Rightarrow> click_result outcome" where
  "addColumnOnClick column f =
     (let column = map_option (\<lambda>c. c\<lparr>columnName := fieldText (columnNameTxt f)\<rparr>) column
      in andThen (objectAtIndex (dataTypes f) (selectedRow f)) (\<lambda>t.
         if t = '''' then Inr (TypeMissing column)
         else (let c = (case column of
                          None \<Rightarrow> initWithDataTypeAndLengthAndName t (fieldText (columnNameTxt f))
                        | Some c \<Rightarrow> c)
               in Inr (Saved (storeSwitches f (storeTypeFields f c))))))"

section \<open>Facts about the form\<close>

definition numericTypes :: "string list" where
  "numericTypes = [''INT'', ''SMALLINT'', ''MEDIUMINT'', ''BIGINT'', ''FLOAT'', ''DOUBLE'']"

definition lengthTypes :: "string list" where
  "lengthTypes = [''FLOAT'', ''DOUBLE'', ''CHAR'', ''VARCHAR'']"

definition defaultTypes :: "string list" where
  "defaultTypes = numericTypes @ [''DECIMAL'', ''CHAR'', ''VARCHAR'']"

lemmas type_lists = numericTypes_def lengthTypes_def defaultTypes_def mysqlTypes_def

lemma onType_simps [simp]: "onType t t g f = g f" "t \<noteq> n \<Longrightarrow> onType t n g f = f"
  by (simp_all add: onType_def)

lemmas type_chains = loadNumericTypes_def loadOtherTypes_def pickNumericTypes_def pickOtherTypes_def

text \<open>The flags a data type sets when it is picked, TINYINT apart.\<close>

text \<open>Case distinction on the picker's types.\<close>

lemma mysqlTypes_cases:
  assumes "t \<in> set mysqlTypes"
    and "P ''CHAR''"
    and "P ''VARCHAR''"
    and "P ''INT''"
    and "P ''SMALLINT''"
    and "P ''TINYINT''"
    and "P ''MEDIUMINT''"
    and "P ''BIGINT''"
    and "P ''FLOAT''"
    and "P ''DOUBLE''"
    and "P ''DECIMAL''"
    and "P ''DATE''"
    and "P ''DATETIME''"
    and "P ''TIMESTAMP''"
    and "P ''TIME''"
    and "P ''YEAR''"
    and "P ''BLOB''"
    and "P ''TINYBLOB''"
    and "P ''MEDIUMBLOB''"
    and "P ''LONGBLOB''"
  shows "P t"
  using assms(1) unfolding mysqlTypes_def list.set
  by (elim insertE emptyE) (simp_all only: assms(2-))

lemma pick_flags:
  assumes "t \<in> set mysqlTypes"
  shows "t \<noteq> ''TINYINT'' \<longrightarrow>
      (datatypeNumeric (pickOtherTypes t (pickNumericTypes t f)) \<longleftrightarrow> t \<in> set numericTypes) \<and>
      (dataTypeDecimal (pickOtherTypes t (pickNumericTypes t f)) \<longleftrightarrow> t = ''DECIMAL'')"
  by (rule mysqlTypes_cases [OF assms])
     (simp_all add: type_chains block_defs numericTypes_def)

lemma pick_tinyint: "pickOtherTypes ''TINYINT'' (pickNumericTypes ''TINYINT'' f) = f"
  by (simp add: type_chains)

lemma didSelectRow_plain:
  assumes "row < length (dataTypes f)" and "dataTypes f ! row \<noteq> ''''"
  shows "didSelectRow row f = Inr (pickOtherTypes (dataTypes f ! row)
           (pickNumericTypes (dataTypes f ! row) (f\<lparr>selectedRow := row\<rparr>)))"
  using assms by (simp add: didSelectRow_def Let_def)

section \<open>Flags and modifiers of a stored column\<close>

definition flagModifiers :: "mysql_column \<Rightarrow> string list" where
  "flagModifiers c =
     (if isZeroFill c then [''ZEROFILL''] else []) @ (if isBinary c then [''BINARY''] else [])
     @ [if isNotNull c then ''NOT NULL'' else ''NULL'']
     @ (if isAutoIncrement c then [''AUTO_INCREMENT''] else [])"

text \<open>The modifiers start with the ones the flags call for.\<close>

definition mirrored :: "mysql_column \<Rightarrow> bool" where
  "mirrored c =
     (take (length (flagModifiers c)) (columnModifiers c) = flagModifiers c)"

lemma flagModifiers_nonempty [simp]: "flagModifiers c \<noteq> []"
  by (simp add: flagModifiers_def)

lemma mirrored_nonempty: "mirrored c \<Longrightarrow> columnModifiers c \<noteq> []"
  using flagModifiers_nonempty [of c] by (auto simp: mirrored_def simp del: flagModifiers_nonempty)

definition defaultModifier :: "column_form \<Rightarrow> string list" where
  "defaultModifier f =
     (if tfEnabled (defaultTxt f) \<and> fieldText (defaultTxt f) \<noteq> ''''
      then [''DEFAULT '' @ (if datatypeNumeric f \<or> dataTypeDecimal f then fieldText (defaultTxt f)
              else [CHR 0x27] @ fieldText (defaultTxt f) @ [CHR 0x27])]
      else [])"

lemma storeSwitches_flags [simp]:
  "isPrimaryKey (storeSwitches f c) = isOn (primaryKeySwitch f)"
  "isUnique (storeSwitches f c) = isOn (uniqueSwtich f)"
  "isZeroFill (storeSwitches f c) = isOn (zeroFillSwitch f)"
  "isBinary (storeSwitches f c) = isOn (binarySwitch f)"
  "isNotNull (storeSwitches f c) = isOn (notNullSwitch f)"
  "isAutoIncrement (storeSwitches f c) = isOn (autoIncrementSwitch f)"
  by (simp_all add: storeSwitches_def addModifier_def Let_def)

lemma storeSwitches_frame [simp]:
  "dataType (storeSwitches f c) = dataType c" "columnName (storeSwitches f c) = columnName c"
  "colLength (storeSwitches f c) = colLength c"
  "decimalPrecision (storeSwitches f c) = decimalPrecision c"
  "decimalScale (storeSwitches f c) = decimalScale c"
  "defaultValue (storeSwitches f c) = defaultValue c"
  "isNumeric (storeSwitches f c) = isNumeric c" "isDecimal (storeSwitches f c) = isDecimal c"
  by (simp_all add: storeSwitches_def addModifier_def Let_def)

lemma storeTypeFields_frame [simp]:
  "dataType (storeTypeFields f c) = dataType c" "columnName (storeTypeFields f c) = columnName c"
  "columnModifiers (storeTypeFields f c) = columnModifiers c"
  "isNumeric (storeTypeFields f c) = datatypeNumeric f"
  "isDecimal (storeTypeFields f c) = dataTypeDecimal f"
  by (simp_all add: storeTypeFields_def Let_def)

lemma storeTypeFields_length [simp]:
  "colLength (storeTypeFields f c) =
     (if tfEnabled (columnLengthTxt f) then Some (fieldText (columnLengthTxt f)) else colLength c)"
  by (simp add: storeTypeFields_def Let_def)

lemma storeTypeFields_values [simp]:
  "decimalPrecision (storeTypeFields f c) =
     (if dataTypeDecimal f then blankToNil (fieldText (decimalPrecisionTxt f)) else decimalPrecision c)"
  "decimalScale (storeTypeFields f c) =
     (if dataTypeDecimal f then blankToNil (fieldText (decimalScaleTxt f)) else decimalScale c)"
  "defaultValue (storeTypeFields f c) =
     (if tfEnabled (defaultTxt f) \<and> fieldText (defaultTxt f) \<noteq> ''''
      then Some (fieldText (defaultTxt f)) else defaultValue c)"
  by (simp_all add: storeTypeFields_def Let_def)

lemma storeTypeFields_flags [simp]:
  "isPrimaryKey (storeTypeFields f c) = isPrimaryKey c"
  "isUnique (storeTypeFields f c) = isUnique c"
  "isAutoIncrement (storeTypeFields f c) = isAutoIncrement c"
  "isNotNull (storeTypeFields f c) = isNotNull c"
  "isZeroFill (storeTypeFields f c) = isZeroFill c"
  "isBinary (storeTypeFields f c) = isBinary c"
  by (simp_all add: storeTypeFields_def Let_def)

lemma storeSwitches_modifiers:
  "columnModifiers (storeSwitches f c) =
     columnModifiers c @ flagModifiers (storeSwitches f c) @ defaultModifier f"
  unfolding flagModifiers_def storeSwitches_flags
  by (simp add: storeSwitches_def addModifier_def Let_def defaultModifier_def)

lemma storeSwitches_mirrored: "columnModifiers c = [] \<Longrightarrow> mirrored (storeSwitches f c)"
  by (simp add: mirrored_def storeSwitches_modifiers)

text \<open>A saved column is the edited one, or a fresh one, passed through both halves.\<close>

lemma addColumn_Saved:
  assumes "addColumnOnClick col f = Inr (Saved c')"
  obtains c where "c' = storeSwitches f (storeTypeFields f c)"
    and "columnModifiers c = (case col of None \<Rightarrow> [] | Some c0 \<Rightarrow> columnModifiers c0)"
    and "\<And>c0. col = Some c0 \<Longrightarrow> c = c0\<lparr>columnName := fieldText (columnNameTxt f)\<rparr>"
  using assms
  by (cases col)
     (auto simp: addColumnOnClick_def Let_def andThen_Inr_iff objectAtIndex_Inr_iff
       initWithDataTypeAndLengthAndName_def split: if_splits)

lemma addColumn_mirrored:
  assumes saved: "addColumnOnClick col f = Inr (Saved c')"
    and clear: "case col of None \<Rightarrow> True | Some c \<Rightarrow> columnModifiers c = []"
  shows "mirrored c'"
proof -
  from saved obtain c where c': "c' = storeSwitches f (storeTypeFields f c)"
    and mods: "columnModifiers c = (case col of None \<Rightarrow> [] | Some c0 \<Rightarrow> columnModifiers c0)"
    by (rule addColumn_Saved)
  from mods clear have "columnModifiers (storeTypeFields f c) = []" by (cases col) simp_all
  then show ?thesis unfolding c' by (rule storeSwitches_mirrored)
qed


section \<open>The form of a loaded column\<close>

text \<open>The types whose length field, and whose default field, a loaded form leaves enabled.\<close>

definition lengthEditable :: "string \<Rightarrow> bool" where
  "lengthEditable t = (t \<in> set (lengthTypes @ [''YEAR'', ''TINYINT'']))"

definition defaultEditable :: "string \<Rightarrow> bool" where
  "defaultEditable t = (t \<in> set (defaultTypes @ [''TINYINT'']))"

lemma load_flags:
  assumes "t \<in> set mysqlTypes" and "\<not> datatypeNumeric f" and "\<not> dataTypeDecimal f"
  shows "(datatypeNumeric (loadOtherTypes t (loadNumericTypes t f)) \<longleftrightarrow> t \<in> set numericTypes) \<and>
         (dataTypeDecimal (loadOtherTypes t (loadNumericTypes t f)) \<longleftrightarrow> t = ''DECIMAL'')"
  using assms(2,3)
  by - (rule mysqlTypes_cases [OF assms(1)]; simp add: type_chains block_defs numericTypes_def)

lemma load_enabled:
  assumes "t \<in> set mysqlTypes" and "tfEnabled (columnLengthTxt f)" and "tfEnabled (defaultTxt f)"
  shows "tfEnabled (columnLengthTxt (loadOtherTypes t (loadNumericTypes t f))) = lengthEditable t \<and>
         tfEnabled (defaultTxt (loadOtherTypes t (loadNumericTypes t f))) = defaultEditable t"
  using assms(2,3)
  by - (rule mysqlTypes_cases [OF assms(1)];
        simp add: type_chains block_defs lengthEditable_def defaultEditable_def type_lists)

lemma onType_frames:
  "(\<And>f. fieldText (columnLengthTxt (g f)) = fieldText (columnLengthTxt f)) \<Longrightarrow>
     fieldText (columnLengthTxt (onType t n g f)) = fieldText (columnLengthTxt f)"
  "(\<And>f. fieldText (defaultTxt (g f)) = fieldText (defaultTxt f)) \<Longrightarrow>
     fieldText (defaultTxt (onType t n g f)) = fieldText (defaultTxt f)"
  "(\<And>f. dataTypes (g f) = dataTypes f) \<Longrightarrow> dataTypes (onType t n g f) = dataTypes f"
  by (simp_all add: onType_def)

lemma load_texts [simp]:
  "fieldText (columnLengthTxt (loadOtherTypes t (loadNumericTypes t f))) = fieldText (columnLengthTxt f)"
  "fieldText (defaultTxt (loadOtherTypes t (loadNumericTypes t f))) = fieldText (defaultTxt f)"
  "dataTypes (loadOtherTypes t (loadNumericTypes t f)) = dataTypes f"
  unfolding type_chains by (simp_all add: onType_frames block_defs)

lemma loadColumnValues_texts [simp]:
  "fieldText (columnNameTxt (loadColumnValues c f)) = columnName c"
  "fieldText (columnLengthTxt (loadColumnValues c f))
     = (case colLength c of None \<Rightarrow> fieldText (columnLengthTxt f) | Some l \<Rightarrow> l)"
  "fieldText (defaultTxt (loadColumnValues c f))
     = (case defaultValue c of None \<Rightarrow> fieldText (defaultTxt f) | Some d \<Rightarrow> d)"
  "tfEnabled (columnLengthTxt (loadColumnValues c f)) = tfEnabled (columnLengthTxt f)"
  "tfEnabled (defaultTxt (loadColumnValues c f)) = (tfEnabled (defaultTxt f) \<and> \<not> isPrimaryKey c)"
  by (simp_all add: loadColumnValues_def Let_def split: option.split)

lemma loadColumnValues_rest [simp]:
  "dataTypes (loadColumnValues c f) = dataTypes f"
  "datatypeNumeric (loadColumnValues c f) = datatypeNumeric f"
  "dataTypeDecimal (loadColumnValues c f) = dataTypeDecimal f"
  "isDecimal c \<Longrightarrow>
     fieldText (decimalPrecisionTxt (loadColumnValues c f)) = nilText (decimalPrecision c)"
  "isDecimal c \<Longrightarrow> fieldText (decimalScaleTxt (loadColumnValues c f)) = nilText (decimalScale c)"
  by (simp_all add: loadColumnValues_def Let_def split: option.split)

lemma loadColumnValues_row [simp]:
  "selectedRow (loadColumnValues c f) =
     (case indexOfObject (dataTypes f) (dataType c) of Some i \<Rightarrow> i | None \<Rightarrow> length (dataTypes f))"
  by (cases "colLength c"; cases "defaultValue c"; cases "isPrimaryKey c"; cases "isDecimal c")
     (simp_all add: loadColumnValues_def Let_def cong: option.case_cong)

lemma loadColumnValues_switches [simp]:
  "isOn (primaryKeySwitch (loadColumnValues c f)) = isPrimaryKey c"
  "isOn (uniqueSwtich (loadColumnValues c f)) = isUnique c"
  "isOn (autoIncrementSwitch (loadColumnValues c f)) = isAutoIncrement c"
  "isOn (notNullSwitch (loadColumnValues c f)) = isNotNull c"
  "isOn (zeroFillSwitch (loadColumnValues c f)) = isZeroFill c"
  "isOn (binarySwitch (loadColumnValues c f)) = isBinary c"
  by (simp_all add: loadColumnValues_def Let_def split: option.split)

text \<open>The form before the values of the column are put in.\<close>

definition typedForm :: "mysql_column \<Rightarrow> column_form" where
  "typedForm c = loadOtherTypes (dataType c)
     (loadNumericTypes (dataType c) ((loadCommon (Some c) storyboardForm)\<lparr>isEditing := True\<rparr>))"

lemma openForm_Some:
  "openForm (Some c) = (loadColumnValues c (typedForm c), Some (c\<lparr>columnModifiers := []\<rparr>))"
  by (simp add: openForm_def loadForm_def typedForm_def viewDidAppear_def Let_def)

lemma typedForm_simps [simp]:
  "fieldText (columnLengthTxt (typedForm c)) = ''''" "fieldText (defaultTxt (typedForm c)) = ''''"
  "dataTypes (typedForm c) = mysqlTypes"
  by (simp_all add: typedForm_def loadCommon_def storyboardForm_def)

lemma typedForm_flags:
  assumes "dataType c \<in> set mysqlTypes"
  shows "datatypeNumeric (typedForm c) \<longleftrightarrow> dataType c \<in> set numericTypes"
    and "dataTypeDecimal (typedForm c) \<longleftrightarrow> dataType c = ''DECIMAL''"
    and "tfEnabled (columnLengthTxt (typedForm c)) = lengthEditable (dataType c)"
    and "tfEnabled (defaultTxt (typedForm c)) = defaultEditable (dataType c)"
  using load_flags [OF assms] load_enabled [OF assms]
  by (simp_all add: typedForm_def loadCommon_def storyboardForm_def)

section \<open>Properties\<close>

text \<open>
  Picking a type from the list (TINYINT apart) never fails, makes its row the selected one and
  sets the two flags the Add button stores: numeric exactly for the integer and floating types,
  decimal exactly for DECIMAL.
\<close>

theorem didSelectRow_flags:
  assumes "dataTypes f = mysqlTypes" and "row < length mysqlTypes" and "mysqlTypes ! row \<noteq> ''TINYINT''"
  shows "\<exists>g. didSelectRow row f = Inr g
     \<and> (datatypeNumeric g \<longleftrightarrow> mysqlTypes ! row \<in> set numericTypes)
     \<and> (dataTypeDecimal g \<longleftrightarrow> mysqlTypes ! row = ''DECIMAL'')"
proof -
  let ?t = "mysqlTypes ! row"
  have t: "?t \<in> set mysqlTypes" using assms(2) by simp
  have "'''' \<notin> set mysqlTypes" by (simp add: mysqlTypes_def)
  with t have "?t \<noteq> ''''" by metis
  with assms have "didSelectRow row f
      = Inr (pickOtherTypes ?t (pickNumericTypes ?t (f\<lparr>selectedRow := row\<rparr>)))"
    by (simp add: didSelectRow_plain)
  with pick_flags [OF t] assms(3) show ?thesis by simp
qed

theorem didSelectRow_flags_witness:
  "\<exists>g. didSelectRow 9 (fst (openForm (Some keyColumn))) = Inr g
     \<and> (datatypeNumeric g \<longleftrightarrow> mysqlTypes ! 9 \<in> set numericTypes)
     \<and> (dataTypeDecimal g \<longleftrightarrow> mysqlTypes ! 9 = ''DECIMAL'')"
  by (rule didSelectRow_flags) (simp_all add: openForm_Some, simp_all add: mysqlTypes_def)

text \<open>
  TINYINT has no branch in the picker's chain: picking it changes nothing but the selected row,
  so the flags and enabled widgets of the previously picked type stay, and so does the quoting of
  the default value.
\<close>

theorem tinyint_has_no_branch:
  assumes "dataTypes f = mysqlTypes"
  shows "didSelectRow 4 f = Inr (f\<lparr>selectedRow := 4\<rparr>)"
proof -
  have "mysqlTypes ! 4 = ''TINYINT''" "4 < length mysqlTypes" by (simp_all add: mysqlTypes_def)
  with assms show ?thesis by (simp add: didSelectRow_plain pick_tinyint)
qed

theorem tinyint_has_no_branch_witness:
  "didSelectRow 4 (fst (openForm (Some keyColumn)))
     = Inr ((fst (openForm (Some keyColumn)))\<lparr>selectedRow := 4\<rparr>)"
  by (rule tinyint_has_no_branch) (simp add: openForm_Some)

text \<open>
  Update never changes the data type of an edited column, whatever the picker shows: the stored
  type is the old one while the type flags come from the form.
\<close>

theorem update_keeps_dataType:
  assumes "addColumnOnClick (Some c) f = Inr (Saved c')"
  shows "dataType c' = dataType c \<and> columnName c' = fieldText (columnNameTxt f)
    \<and> isNumeric c' = datatypeNumeric f \<and> isDecimal c' = dataTypeDecimal f"
proof -
  from assms obtain c0 where "c' = storeSwitches f (storeTypeFields f c0)"
    and "c0 = c\<lparr>columnName := fieldText (columnNameTxt f)\<rparr>"
    by (rule addColumn_Saved) simp
  then show ?thesis by simp
qed

theorem update_keeps_dataType_witness:
  "let f = storyboardForm\<lparr>dataTypes := mysqlTypes, selectedRow := 1\<rparr>;
       c' = storeSwitches f (storeTypeFields f (keyColumn\<lparr>columnName := ''''\<rparr>))
   in addColumnOnClick (Some keyColumn) f = Inr (Saved c') \<and> dataType c' = ''INT''
      \<and> isPrimaryKey c'"
proof -
  let ?f = "storyboardForm\<lparr>dataTypes := mysqlTypes, selectedRow := 1\<rparr>"
  let ?c = "storeSwitches ?f (storeTypeFields ?f (keyColumn\<lparr>columnName := ''''\<rparr>))"
  have saved: "addColumnOnClick (Some keyColumn) ?f = Inr (Saved ?c)"
    by (simp add: addColumnOnClick_def storyboardForm_def mysqlTypes_def objectAtIndex_def)
  have "dataType ?c = dataType keyColumn" using update_keeps_dataType [OF saved] by blast
  with saved show ?thesis
    by (simp add: Let_def keyColumn_def initWithDataTypeAndLengthAndName_def storyboardForm_def)
qed

text \<open>
  Adding a column with the length field enabled and left empty stores an empty length, and the
  generator prints it as an empty pair of brackets after the type, which is not SQL.
\<close>

theorem empty_length_prints_brackets:
  assumes "addColumnOnClick col f = Inr (Saved c)"
    and "tfEnabled (columnLengthTxt f)" and "fieldText (columnLengthTxt f) = ''''"
  shows "columnText c = ''`'' @ columnName c @ ''` '' @ typeText c @ '' ()''"
proof -
  from assms(1) obtain c0 where "c = storeSwitches f (storeTypeFields f c0)"
    by (rule addColumn_Saved)
  with assms(2,3) have "colLength c = Some ''''" by simp
  then show ?thesis by (simp add: columnText_def lengthText_def)
qed

theorem empty_length_prints_brackets_witness:
  "columnText (storeSwitches (storyboardForm\<lparr>dataTypes := mysqlTypes\<rparr>)
     (storeTypeFields (storyboardForm\<lparr>dataTypes := mysqlTypes\<rparr>)
        (initWithDataTypeAndLengthAndName ''CHAR'' ''''))) = ''`` CHAR ()''"
proof -
  let ?f = "storyboardForm\<lparr>dataTypes := mysqlTypes\<rparr>"
  let ?c = "storeSwitches ?f (storeTypeFields ?f (initWithDataTypeAndLengthAndName ''CHAR'' ''''))"
  have "addColumnOnClick None ?f = Inr (Saved ?c)"
    by (simp add: addColumnOnClick_def storyboardForm_def mysqlTypes_def objectAtIndex_def)
  from empty_length_prints_brackets [OF this] show ?thesis
    by (simp add: storyboardForm_def typeText_def initWithDataTypeAndLengthAndName_def)
qed

text \<open>
  The columns that can come back unchanged from the editor: the flags agree with the type, a length
  is present where its field is editable, decimal fields are not empty strings, and the modifiers
  are the ones of the switches followed by the default value of an editable default field.
\<close>

definition shownDefault :: "mysql_column \<Rightarrow> string list" where
  "shownDefault c =
     (if defaultEditable (dataType c) \<and> \<not> isPrimaryKey c \<and> \<not> blankText (defaultValue c)
      then [''DEFAULT '' @ (if isNumeric c \<or> isDecimal c then nilText (defaultValue c)
              else [CHR 0x27] @ nilText (defaultValue c) @ [CHR 0x27])]
      else [])"

definition formColumn :: "mysql_column \<Rightarrow> bool" where
  "formColumn c =
     (dataType c \<in> set mysqlTypes
      \<and> isNumeric c = (dataType c \<in> set numericTypes) \<and> isDecimal c = (dataType c = ''DECIMAL'')
      \<and> (lengthEditable (dataType c) \<longrightarrow> colLength c \<noteq> None)
      \<and> (isDecimal c \<longrightarrow> decimalPrecision c \<noteq> Some '''' \<and> decimalScale c \<noteq> Some '''')
      \<and> columnModifiers c = flagModifiers c @ shownDefault c)"

lemma blankToNil_nilText [simp]: "s \<noteq> Some '''' \<Longrightarrow> blankToNil (nilText s) = s"
  by (cases s) (auto simp: blankToNil_def nilText_def)

lemma nilText_nonempty: "nilText s \<noteq> '''' \<longleftrightarrow> \<not> blankText s"
  by (cases s) (auto simp: nilText_def blankText_def)

lemma loaded_form:
  assumes "dataType c \<in> set mysqlTypes"
  shows "fieldText (columnLengthTxt (loadColumnValues c (typedForm c))) = nilText (colLength c)"
    and "fieldText (defaultTxt (loadColumnValues c (typedForm c))) = nilText (defaultValue c)"
    and "objectAtIndex mysqlTypes (selectedRow (loadColumnValues c (typedForm c)))
           = Inr (dataType c)"
  using assms indexOfObject_Some [of mysqlTypes "dataType c"]
  by (auto simp: nilText_def split: option.split)

lemma edit_stores_fields:
  assumes "formColumn c"
  shows "storeTypeFields (loadColumnValues c (typedForm c)) (c\<lparr>columnModifiers := []\<rparr>)
           = c\<lparr>columnModifiers := []\<rparr>"
proof (rule mysql_column.equality)
  let ?f = "loadColumnValues c (typedForm c)" and ?c = "c\<lparr>columnModifiers := []\<rparr>"
  have t: "dataType c \<in> set mysqlTypes" using assms by (simp add: formColumn_def)
  note flags = typedForm_flags [OF t]
  have "lengthEditable (dataType c) \<Longrightarrow> colLength c = Some (nilText (colLength c))"
    using assms by (cases "colLength c") (auto simp: formColumn_def nilText_def)
  then show "colLength (storeTypeFields ?f ?c) = colLength ?c"
    by (auto simp: flags loaded_form [OF t] simp del: loadColumnValues_texts(2))
  have "nilText (defaultValue c) \<noteq> '''' \<Longrightarrow> defaultValue c = Some (nilText (defaultValue c))"
    by (cases "defaultValue c") (auto simp: nilText_def)
  then show "defaultValue (storeTypeFields ?f ?c) = defaultValue ?c"
    by (auto simp: loaded_form [OF t] simp del: loadColumnValues_texts(3))
  show "decimalPrecision (storeTypeFields ?f ?c) = decimalPrecision ?c"
    "decimalScale (storeTypeFields ?f ?c) = decimalScale ?c"
    "isNumeric (storeTypeFields ?f ?c) = isNumeric ?c"
    "isDecimal (storeTypeFields ?f ?c) = isDecimal ?c"
    using assms by (simp_all add: flags formColumn_def)
qed simp_all

lemma edit_stores_switches:
  assumes "formColumn c"
  shows "storeSwitches (loadColumnValues c (typedForm c)) (c\<lparr>columnModifiers := []\<rparr>) = c"
proof (rule mysql_column.equality)
  let ?f = "loadColumnValues c (typedForm c)"
  have t: "dataType c \<in> set mysqlTypes" using assms by (simp add: formColumn_def)
  have "flagModifiers (storeSwitches ?f (c\<lparr>columnModifiers := []\<rparr>)) = flagModifiers c"
    by (simp add: flagModifiers_def)
  moreover have "defaultModifier ?f = shownDefault c"
    using assms
    by (simp add: defaultModifier_def shownDefault_def typedForm_flags [OF t] loaded_form [OF t]
        formColumn_def nilText_nonempty del: loadColumnValues_texts(2,3))
  ultimately show "columnModifiers (storeSwitches ?f (c\<lparr>columnModifiers := []\<rparr>)) = columnModifiers c"
    using assms by (simp add: storeSwitches_modifiers formColumn_def)
qed simp_all

lemma edit_update_aux:
  assumes "formColumn c"
  shows "(case openForm (Some c) of (f, col) \<Rightarrow> addColumnOnClick col f) = Inr (Saved c)"
proof -
  have t: "dataType c \<in> set mysqlTypes" using assms by (simp add: formColumn_def)
  have "'''' \<notin> set mysqlTypes" by (simp add: mysqlTypes_def)
  with t have ne: "dataType c \<noteq> ''''" by metis
  show ?thesis
    using ne edit_stores_fields [OF assms] edit_stores_switches [OF assms] loaded_form(3) [OF t]
    by (simp add: openForm_Some addColumnOnClick_def)
qed

text \<open>
  C37.  Round trip: opening the editor on such a column and pressing Update without touching the form
  gives the column back exactly, modifiers included, although loading the form empties its
  modifiers.
\<close>

theorem edit_update_identity:
  assumes "formColumn c"
  shows "(case openForm (Some c) of (f, col) \<Rightarrow> addColumnOnClick col f) = Inr (Saved c)"
  using assms by (rule edit_update_aux)

definition priceColumn :: mysql_column where
  "priceColumn = (initWithDataTypeAndLengthAndName ''DECIMAL'' ''price'')
     \<lparr>isDecimal := True, decimalPrecision := Some ''10'', decimalScale := Some ''2'',
      isNotNull := True, defaultValue := Some ''0'', columnModifiers := [''NOT NULL'', ''DEFAULT 0'']\<rparr>"

theorem edit_update_identity_witness:
  "(case openForm (Some priceColumn) of (f, col) \<Rightarrow> addColumnOnClick col f) = Inr (Saved priceColumn)"
proof (rule edit_update_identity)
  show "formColumn priceColumn"
    by (simp add: formColumn_def priceColumn_def initWithDataTypeAndLengthAndName_def type_lists
        flagModifiers_def shownDefault_def defaultEditable_def lengthEditable_def blankText_def
        nilText_def)
qed

end
