(* ===== verification/UnicodeText.thy ===== *)
theory UnicodeText
  imports Foundation
begin

text \<open>
  Text that the application decodes from bytes: the cells and names a MySQL server sends, the files an SFTP
  server sends.  A text is a list of Unicode characters, \<open>utf8Text\<close> its UTF-8 and \<open>fromUtf8\<close> the decoding, which
  gives \<open>nil\<close> for every other sequence of bytes (as RFC 3629 defines it: no overlong forms, no surrogates, nothing
  beyond U+10FFFF).  The strings of the program itself are of the Latin-1 range; \<open>ofLatin\<close> embeds them.
\<close>

section \<open>Characters\<close>

definition isScalar :: "nat \<Rightarrow> bool" where
  "isScalar n \<longleftrightarrow> n < 0xD800 \<or> 0xE000 \<le> n \<and> n < 0x110000"

typedef uchar = "{n. isScalar n}" morphisms codePoint ucharOf
  by (rule exI [of _ 0]) (simp add: isScalar_def)

type_synonym utext = "uchar list"

instantiation uchar :: equal
begin

definition equal_uchar :: "uchar \<Rightarrow> uchar \<Rightarrow> bool" where
  "equal_uchar c d \<longleftrightarrow> codePoint c = codePoint d"

instance by standard (simp add: equal_uchar_def codePoint_inject)

end

lemma codePoint_scalar [simp]: "isScalar (codePoint c)"
  using codePoint [of c] by simp

lemma codePoint_of [simp]: "isScalar n \<Longrightarrow> codePoint (ucharOf n) = n"
  by (simp add: ucharOf_inverse)

definition ofLatin :: "string \<Rightarrow> utext" where
  "ofLatin s = map (\<lambda>c. ucharOf (of_char c)) s"

lemma latin_scalar: "isScalar (of_char c)"
proof -
  have "(of_char c :: nat) < 256" by simp
  then show ?thesis unfolding isScalar_def by linarith
qed

lemma ofLatin_simps [simp]:
  "ofLatin [] = []" "ofLatin (c # s) = ucharOf (of_char c) # ofLatin s" "ofLatin (s @ t) = ofLatin s @ ofLatin t"
  "length (ofLatin s) = length s"
  by (simp_all add: ofLatin_def)

lemma ofLatin_inject: "ofLatin s = ofLatin t \<longleftrightarrow> s = t"
proof
  assume "ofLatin s = ofLatin t"
  then have "map codePoint (ofLatin s) = map codePoint (ofLatin t)" by simp
  then have "map of_char s = (map of_char t :: nat list)" by (simp add: ofLatin_def latin_scalar comp_def)
  then show "s = t" by (simp add: inj_map_eq_map inj_def)
qed simp

text \<open>\<open>length\<close> of an \<open>NSString\<close> counts UTF-16 units: two for a character beyond U+FFFF.\<close>

definition utf16Length :: "utext \<Rightarrow> nat" where
  "utf16Length s = sum_list (map (\<lambda>c. if codePoint c < 0x10000 then 1 else 2) s)"

lemma utf16Length_ofLatin [simp]: "utf16Length (ofLatin s) = length s"
proof (induction s)
  case (Cons c s)
  have "(of_char c :: nat) < 256" by simp
  then have "(of_char c :: nat) < 65536" by linarith
  with Cons show ?case by (simp add: utf16Length_def latin_scalar)
qed (simp add: utf16Length_def)

section \<open>Encoding\<close>

text \<open>How many continuation bytes follow the lead byte, and what they are, six bits each.\<close>

definition tailSize :: "nat \<Rightarrow> nat" where
  "tailSize n = (if n < 0x80 then 0 else if n < 0x800 then 1 else if n < 0x10000 then 2 else 3)"

fun tailBytes :: "nat \<Rightarrow> nat \<Rightarrow> char list" where
  "tailBytes 0 n = []"
| "tailBytes (Suc k) n = char_of (0x80 + n div 64 ^ k mod 64) # tailBytes k n"

definition leadMark :: "nat \<Rightarrow> nat" where
  "leadMark k = (if k = 0 then 0 else if k = 1 then 0xC0 else if k = 2 then 0xE0 else 0xF0)"

definition encode1 :: "nat \<Rightarrow> char list" where
  "encode1 n = (let k = tailSize n in char_of (leadMark k + n div 64 ^ k) # tailBytes k n)"

definition utf8Text :: "utext \<Rightarrow> char list" where
  "utf8Text s = concat (map (\<lambda>c. encode1 (codePoint c)) s)"

lemma utf8Text_simps [simp]:
  "utf8Text [] = []" "utf8Text (c # s) = encode1 (codePoint c) @ utf8Text s" "utf8Text (s @ t) = utf8Text s @ utf8Text t"
  by (simp_all add: utf8Text_def)

section \<open>Decoding\<close>

text \<open>What a lead byte says: the number of continuation bytes, its own bits, and the least character that needs so many.\<close>

definition leadOf :: "nat \<Rightarrow> (nat \<times> nat \<times> nat) option" where
  "leadOf b =
     (if b < 0x80 then Some (0, b, 0)
      else if b < 0xC0 then None
      else if b < 0xE0 then Some (1, b - 0xC0, 0x80)
      else if b < 0xF0 then Some (2, b - 0xE0, 0x800)
      else if b < 0xF8 then Some (3, b - 0xF0, 0x10000)
      else None)"

fun follow :: "nat \<Rightarrow> nat \<Rightarrow> char list \<Rightarrow> (nat \<times> char list) option" where
  "follow 0 n bs = Some (n, bs)"
| "follow (Suc k) n [] = None"
| "follow (Suc k) n (b # bs) =
     (if 0x80 \<le> (of_char b :: nat) \<and> (of_char b :: nat) < 0xC0 then follow k (n * 64 + (of_char b - 0x80)) bs else None)"

definition decode1 :: "char list \<Rightarrow> (nat \<times> char list) option" where
  "decode1 bs =
     (case bs of
        [] \<Rightarrow> None
      | b # rest \<Rightarrow>
          (case leadOf (of_char b) of
             None \<Rightarrow> None
           | Some (k, n, least) \<Rightarrow>
               (case follow k n rest of
                  None \<Rightarrow> None
                | Some (m, rest') \<Rightarrow> if least \<le> m \<and> isScalar m then Some (m, rest') else None)))"

lemma byte_less: "(of_char b :: nat) < 256"
  by simp

lemma of_char_byte: "n < 256 \<Longrightarrow> (of_char (char_of n :: char) :: nat) = n"
  by (simp add: of_char_of)

lemma char_eqI: "(of_char b :: nat) = n \<Longrightarrow> b = char_of n"
  by auto

lemma six_bits: "m div 64 ^ Suc k * 64 + m div 64 ^ k mod 64 = m div 64 ^ k" for m :: nat
proof -
  have "m div 64 ^ Suc k = m div 64 ^ k div 64" by (simp only: power_Suc2 div_mult2_eq)
  then show ?thesis by simp
qed

lemma follow_tailBytes: "follow k (m div 64 ^ k) (tailBytes k m @ rest) = Some (m, rest)"
proof (induction k)
  case (Suc k)
  have "m div 64 ^ k mod 64 < 64" by simp
  then have "0x80 + m div 64 ^ k mod 64 < 256" "0x80 + m div 64 ^ k mod 64 < 0xC0" by linarith+
  with Suc show ?case by (simp add: of_char_byte six_bits del: power_Suc)
qed simp

lemma follow_Some:
  "follow k n bs = Some (m, rest) \<Longrightarrow> bs = tailBytes k m @ rest \<and> n = m div 64 ^ k"
proof (induction k n bs rule: follow.induct)
  case (3 k n b bs)
  then obtain x where x: "(of_char b :: nat) = 0x80 + x" "x < 64" and f: "follow k (n * 64 + x) bs = Some (m, rest)"
    by (auto simp: le_iff_add split: if_splits)
  have IH: "bs = tailBytes k m @ rest" "m div 64 ^ k = n * 64 + x" using 3 f x by auto
  have "m div 64 ^ Suc k = m div 64 ^ k div 64" by (simp only: power_Suc2 div_mult2_eq)
  with x(2) have "n = m div 64 ^ Suc k" by (simp add: IH(2) del: power_Suc)
  moreover have "b = char_of (0x80 + m div 64 ^ k mod 64)" using x by (intro char_eqI) (simp add: IH(2))
  ultimately show ?case using IH(1) by simp
qed auto

lemma leadOf_Some:
  assumes "leadOf b = Some (k, n, least)" "n = m div 64 ^ k" "least \<le> m" "isScalar m"
  shows "k = tailSize m \<and> b = leadMark k + m div 64 ^ k"
proof -
  have "n < 128" "k = 1 \<longrightarrow> n < 32" "k = 2 \<longrightarrow> n < 16" using assms(1) by (auto simp: leadOf_def split: if_splits)
  then have "k = 0 \<longrightarrow> m < 128" "k = 1 \<longrightarrow> m < 2048" "k = 2 \<longrightarrow> m < 65536"
    using assms(2) by (auto simp: div_less_iff_less_mult)
  then show ?thesis
    using assms by (auto simp: leadOf_def tailSize_def leadMark_def split: if_splits)
qed

lemma leadOf_encoded:
  assumes "isScalar m"
  shows "\<exists>least. leadMark (tailSize m) + m div 64 ^ tailSize m < 256
    \<and> leadOf (leadMark (tailSize m) + m div 64 ^ tailSize m) = Some (tailSize m, m div 64 ^ tailSize m, least) \<and> least \<le> m"
proof -
  have m: "m < 0x110000" using assms by (auto simp: isScalar_def)
  consider "m < 0x80" | "0x80 \<le> m" "m < 0x800" | "0x800 \<le> m" "m < 0x10000" | "0x10000 \<le> m" by linarith
  then show ?thesis
  proof cases
    case 1
    then show ?thesis by (simp add: tailSize_def leadMark_def leadOf_def)
  next
    case 2
    then have "m div 64 < 32" by (simp add: div_less_iff_less_mult)
    with 2 show ?thesis by (simp add: tailSize_def leadMark_def leadOf_def)
  next
    case 3
    then have "m div 4096 < 16" by (simp add: div_less_iff_less_mult)
    with 3 show ?thesis by (simp add: tailSize_def leadMark_def leadOf_def)
  next
    case 4
    then have "m div 262144 < 8" using m by (simp add: div_less_iff_less_mult)
    with 4 show ?thesis by (simp add: tailSize_def leadMark_def leadOf_def)
  qed
qed

lemma decode1_encode1: "isScalar m \<Longrightarrow> decode1 (encode1 m @ rest) = Some (m, rest)"
  using leadOf_encoded [of m] by (auto simp: decode1_def encode1_def Let_def of_char_byte follow_tailBytes)

lemma decode1_Some: "decode1 bs = Some (m, rest) \<Longrightarrow> isScalar m \<and> bs = encode1 m @ rest"
proof -
  assume "decode1 bs = Some (m, rest)"
  then obtain b tl k n least where b: "bs = b # tl" "leadOf (of_char b) = Some (k, n, least)"
    and f: "follow k n tl = Some (m, rest)" and m: "least \<le> m" "isScalar m"
    by (auto simp: decode1_def split: list.splits option.splits if_splits)
  from follow_Some [OF f] have tl: "tl = tailBytes k m @ rest" "n = m div 64 ^ k" by auto
  from leadOf_Some [OF b(2) tl(2) m] have "k = tailSize m" "b = char_of (leadMark k + m div 64 ^ k)"
    by (auto intro: char_eqI)
  with m b(1) tl(1) show ?thesis by (simp add: encode1_def Let_def)
qed

lemma length_encode1: "0 < length (encode1 m)"
  by (simp add: encode1_def Let_def)

text \<open>\<open>initWithData:encoding:\<close> for UTF-8; a byte order mark is a character like the others.\<close>

function fromUtf8 :: "char list \<Rightarrow> utext option" where
  "fromUtf8 bs =
     (if bs = [] then Some []
      else case decode1 bs of
             None \<Rightarrow> None
           | Some (m, rest) \<Rightarrow> map_option ((#) (ucharOf m)) (fromUtf8 rest))"
  by pat_completeness auto
termination
proof (relation "measure length")
  fix bs :: "char list" and p m rest
  assume "bs \<noteq> []" "decode1 bs = Some p" "(m, rest) = p"
  then have "bs = encode1 m @ rest" using decode1_Some by metis
  then show "(rest, bs) \<in> measure length" using length_encode1 [of m] by simp
qed simp

declare fromUtf8.simps [simp del]

section \<open>Round trips\<close>

lemma fromUtf8_utf8Text [simp]: "fromUtf8 (utf8Text s) = Some s"
proof (induction s)
  case (Cons c s)
  have "encode1 (codePoint c) @ utf8Text s \<noteq> []" using length_encode1 [of "codePoint c"] by auto
  with Cons show ?case
    by (subst fromUtf8.simps) (simp add: decode1_encode1 codePoint_inverse)
qed (simp add: fromUtf8.simps)

text \<open>The bytes that decode are the UTF-8 of their text.\<close>

lemma fromUtf8_Some_iff: "fromUtf8 bs = Some s \<longleftrightarrow> bs = utf8Text s"
proof
  show "fromUtf8 bs = Some s \<Longrightarrow> bs = utf8Text s"
  proof (induction bs arbitrary: s rule: fromUtf8.induct)
    case (1 bs)
    show ?case
    proof (cases "bs = []")
      case True
      with 1(2) show ?thesis by (simp add: fromUtf8.simps)
    next
      case False
      with 1(2) obtain m rest t where d: "decode1 bs = Some (m, rest)" and t: "fromUtf8 rest = Some t" "s = ucharOf m # t"
        by (subst (asm) fromUtf8.simps) (auto split: option.splits)
      from 1(1) [OF False d refl t(1)] decode1_Some [OF d] t(2) show ?thesis by simp
    qed
  qed
qed simp

lemma fromUtf8_None_iff: "fromUtf8 bs = None \<longleftrightarrow> (\<forall>s. bs \<noteq> utf8Text s)"
  using fromUtf8_Some_iff by (metis not_None_eq)

lemma utf8Text_inject: "utf8Text s = utf8Text t \<longleftrightarrow> s = t"
  by (metis fromUtf8_utf8Text option.inject)

lemma encode1_latin: "encode1 (of_char c) = utf8Char c"
proof -
  have "(of_char c :: nat) < 256" by simp
  then have "(of_char c :: nat) < 2048" by linarith
  then show ?thesis
    by (auto simp: encode1_def tailSize_def leadMark_def utf8Char_def Let_def numeral_2_eq_2)
qed

lemma utf8Text_ofLatin [simp]: "utf8Text (ofLatin s) = utf8 s"
  by (induction s) (simp_all add: latin_scalar encode1_latin)

text \<open>The euro sign; an overlong form, a surrogate and a character that is cut off.\<close>

lemma encode_euro: "map of_char (encode1 0x20AC) = [0xE2, 0x82, 0xAC :: nat]"
  by (simp add: encode1_def tailSize_def leadMark_def Let_def) (simp add: numeral_2_eq_2 of_char_byte)

lemma decode_refuses:
  "decode1 [CHR 0xC0, CHR 0x80] = None" "decode1 [CHR 0xED, CHR 0xA0, CHR 0x80] = None" "decode1 [CHR 0xE2, CHR 0x82] = None"
  by (simp_all add: decode1_def leadOf_def numeral_2_eq_2 isScalar_def)

section \<open>Zero bytes\<close>

definition noZero :: "utext \<Rightarrow> bool" where
  "noZero s \<longleftrightarrow> list_all (\<lambda>c. codePoint c \<noteq> 0) s"

lemma char_of_zero: "0 < n \<Longrightarrow> n < 256 \<Longrightarrow> char_of n \<noteq> CHR 0x00" for n :: nat
proof
  assume "0 < n" "n < 256" "char_of n = CHR 0x00"
  then have "(of_char (char_of n :: char) :: nat) = of_char (CHR 0x00)" by simp
  with \<open>0 < n\<close> \<open>n < 256\<close> show False by (simp add: of_char_byte)
qed

lemma tailBytes_nonzero: "CHR 0x00 \<notin> set (tailBytes k n)"
proof (induction k)
  case (Suc k)
  have "n div 64 ^ k mod 64 < 64" by simp
  then have "char_of (0x80 + n div 64 ^ k mod 64) \<noteq> CHR 0x00" by (intro char_of_zero) linarith+
  with Suc show ?case by simp
qed simp

lemma encode1_nonzero: "isScalar n \<Longrightarrow> n \<noteq> 0 \<Longrightarrow> CHR 0x00 \<notin> set (encode1 n)"
proof -
  assume n: "isScalar n" "n \<noteq> 0"
  have "0 < leadMark (tailSize n) + n div 64 ^ tailSize n" using n(2) by (simp add: leadMark_def tailSize_def)
  with leadOf_encoded [OF n(1)] have "char_of (leadMark (tailSize n) + n div 64 ^ tailSize n) \<noteq> CHR 0x00"
    by (intro char_of_zero) auto
  with tailBytes_nonzero show ?thesis by (simp add: encode1_def Let_def)
qed

lemma utf8Text_nonzero: "noZero s \<Longrightarrow> CHR 0x00 \<notin> set (utf8Text s)"
  by (induction s) (simp_all add: noZero_def encode1_nonzero)

end
