(* ===== verification/MySQLClient.thy ===== *)
theory MySQLClient
  imports UnicodeText
begin

text \<open>
  The MySQL layer: MySQLResult, NSMySQL with its connection test, and the three operations that
  select a schema and run one statement (MySQLTable's \<open>deleteTable:\<close> and \<open>executeSQL:\<close>,
  MySQLSchema's \<open>dropSchema\<close>).  The client library itself is not in the repository (only its
  headers are): it is the parameter \<open>api\<close>, a record of the C functions the code calls over an
  abstract connection type.  The names of schemas and tables that the server listed are Unicode text.
\<close>

section \<open>The C client library as a parameter\<close>

text \<open>
  A stored result is its column names and its rows; a SQL NULL is a null pointer in the row, here
  \<^term>\<open>None\<close>.
\<close>

record result_set =
  fieldNames :: "char list list"
  rowData :: "char list option list list"

record 'c mysql_api =
  mysql_ping :: "'c \<Rightarrow> int \<times> 'c"
  mysql_select_db :: "'c \<Rightarrow> char list \<Rightarrow> int \<times> 'c"
  mysql_real_query :: "'c \<Rightarrow> char list \<Rightarrow> int \<times> 'c"
  mysql_store_result :: "'c \<Rightarrow> result_set option \<times> 'c"
  mysql_field_count :: "'c \<Rightarrow> nat"
  mysql_error :: "'c \<Rightarrow> string"
  mysql_errno :: "'c \<Rightarrow> nat"

text \<open>
  Every call site passes \<open>[sql UTF8String]\<close> with the length \<open>[sql length]\<close>, which counts UTF-16
  units, so the library reads that many bytes of the UTF-8 text.
\<close>

definition queryText :: "utext \<Rightarrow> char list" where
  "queryText sql = take (utf16Length sql) (utf8Text sql)"

text \<open>The same for a string of the program.\<close>

definition queryBytes :: "string \<Rightarrow> char list" where
  "queryBytes sql = take (length sql) (utf8 sql)"

lemma queryBytes_ascii: "is_ascii sql \<Longrightarrow> queryBytes sql = sql"
  by (simp add: queryBytes_def utf8_ascii)

lemma queryText_ofLatin [simp]: "queryText (ofLatin sql) = queryBytes sql"
  by (simp add: queryText_def queryBytes_def)

section \<open>MySQLResult and NSMySQL\<close>

record 't mysql_result =
  resultError :: "'t option"
  success :: bool

definition initMySQLResult :: "'t mysql_result" where
  "initMySQLResult = \<lparr>resultError = None, success = False\<rparr>"

definition initWithErrorAndSuccess :: "'t \<Rightarrow> bool \<Rightarrow> 't mysql_result" where
  "initWithErrorAndSuccess err ok = \<lparr>resultError = Some err, success = ok\<rparr>"

definition isConnected :: "'c mysql_api \<Rightarrow> 'c \<Rightarrow> bool \<times> 'c" where
  "isConnected api conn = (let (r, conn) = mysql_ping api conn in (r = 0, conn))"

section \<open>Operations\<close>

definition deleteTable ::
  "'c mysql_api \<Rightarrow> utext \<Rightarrow> utext \<Rightarrow> 'c \<Rightarrow> utext mysql_result \<times> 'c"
where
  "deleteTable api schema tablename conn =
     (let sql = ofLatin ''DROP TABLE '' @ tablename;
          (result, conn) = mysql_select_db api conn (utf8Text schema)
      in if result \<noteq> 0
         then (initWithErrorAndSuccess (ofLatin (mysql_error api conn)) False, conn)
         else (let (status, conn) = mysql_real_query api conn (queryText sql)
               in if status \<noteq> 0
                  then (initWithErrorAndSuccess
                          (ofLatin ''Error deleting table '' @ tablename @ ofLatin ('': '' @ mysql_error api conn)) False,
                        conn)
                  else (initWithErrorAndSuccess (ofLatin ''Table '' @ tablename @ ofLatin '' deleted successfully'') True,
                        conn)))"

definition dropSchema :: "'c mysql_api \<Rightarrow> utext \<Rightarrow> 'c \<Rightarrow> utext mysql_result \<times> 'c" where
  "dropSchema api schema conn =
     (let sql = ofLatin ''DROP SCHEMA '' @ schema;
          (result, conn) = mysql_select_db api conn (utf8Text schema)
      in if result \<noteq> 0
         then (initWithErrorAndSuccess (ofLatin (mysql_error api conn)) False, conn)
         else (let (status, conn) = mysql_real_query api conn (queryText sql)
               in if status \<noteq> 0
                  then (initWithErrorAndSuccess
                          (ofLatin ''Error dropping schema '' @ schema @ ofLatin ('': '' @ mysql_error api conn)) False,
                        conn)
                  else (initWithErrorAndSuccess (ofLatin ''Schema '' @ schema @ ofLatin '' deleted successfully'') True,
                        conn)))"

definition executeSQL :: "'c mysql_api \<Rightarrow> string \<Rightarrow> string \<Rightarrow> 'c \<Rightarrow> string mysql_result \<times> 'c" where
  "executeSQL api schema sql conn =
     (let (result, conn) = mysql_select_db api conn (utf8 schema)
      in if result \<noteq> 0
         then (initWithErrorAndSuccess (mysql_error api conn) False, conn)
         else (let (status, conn) = mysql_real_query api conn (queryBytes sql)
               in if status \<noteq> 0
                  then (initWithErrorAndSuccess
                          (''Error executing SQL '' @ schema @ '': '' @ mysql_error api conn) False,
                        conn)
                  else (initWithErrorAndSuccess ''SQL executed successfully'' True, conn)))"

section \<open>The contract the three operations share\<close>

text \<open>
  A schema-bound statement: \<open>run\<close> selects the schema, sends the bytes \<open>query\<close> only when that
  worked, and reports \<open>failed\<close> or \<open>okText\<close>; an error of the selection is reported as it is.
\<close>

locale schema_statement =
  fixes api :: "'c mysql_api"
    and schema :: "char list"
    and query :: "char list"
    and plain :: "string \<Rightarrow> 't"
    and failed :: "string \<Rightarrow> 't"
    and okText :: 't
    and run :: "'c \<Rightarrow> 't mysql_result \<times> 'c"
  assumes select_error:
      "mysql_select_db api conn schema = (r, c1) \<Longrightarrow> r \<noteq> 0 \<Longrightarrow>
         run conn = (initWithErrorAndSuccess (plain (mysql_error api c1)) False, c1)"
    and query_error:
      "mysql_select_db api conn schema = (0, c1) \<Longrightarrow>
         mysql_real_query api c1 query = (s, c2) \<Longrightarrow> s \<noteq> 0 \<Longrightarrow>
         run conn = (initWithErrorAndSuccess (failed (mysql_error api c2)) False, c2)"
    and query_ok:
      "mysql_select_db api conn schema = (0, c1) \<Longrightarrow>
         mysql_real_query api c1 query = (0, c2) \<Longrightarrow>
         run conn = (initWithErrorAndSuccess okText True, c2)"
begin

text \<open>Success means exactly that both library calls returned 0.\<close>

lemma success_iff:
  "success (fst (run conn)) \<longleftrightarrow>
     fst (mysql_select_db api conn schema) = 0 \<and>
     fst (mysql_real_query api (snd (mysql_select_db api conn schema)) query) = 0"
proof -
  obtain r c1 where sel: "mysql_select_db api conn schema = (r, c1)" by fastforce
  obtain s c2 where q: "mysql_real_query api c1 query = (s, c2)" by fastforce
  consider "r \<noteq> 0" | "r = 0" "s \<noteq> 0" | "r = 0" "s = 0" by blast
  then show ?thesis
  proof cases
    case 1
    with sel select_error show ?thesis by (auto simp: initWithErrorAndSuccess_def)
  next
    case 2
    with sel q query_error show ?thesis by (auto simp: initWithErrorAndSuccess_def)
  next
    case 3
    with sel q query_ok show ?thesis by (auto simp: initWithErrorAndSuccess_def)
  qed
qed

text \<open>The connection afterwards: the statement is never sent when the schema is not selected.\<close>

lemma final_connection:
  "snd (run conn) =
     (let (r, c1) = mysql_select_db api conn schema
      in if r \<noteq> 0 then c1 else snd (mysql_real_query api c1 query))"
proof -
  obtain r c1 where sel: "mysql_select_db api conn schema = (r, c1)" by fastforce
  obtain s c2 where q: "mysql_real_query api c1 query = (s, c2)" by fastforce
  show ?thesis
  proof (cases "r = 0")
    case True
    then show ?thesis using sel q query_error query_ok by (cases "s = 0") auto
  next
    case False
    with sel select_error show ?thesis by simp
  qed
qed

text \<open>There is always a text to show.\<close>

lemma has_message: "\<exists>m. resultError (fst (run conn)) = Some m"
proof -
  obtain r c1 where sel: "mysql_select_db api conn schema = (r, c1)" by fastforce
  obtain s c2 where q: "mysql_real_query api c1 query = (s, c2)" by fastforce
  show ?thesis
    using sel q select_error query_error query_ok
    by (cases "r = 0"; cases "s = 0") (auto simp: initWithErrorAndSuccess_def)
qed

end

interpretation delete_table: schema_statement api "utf8Text schema" "queryText (ofLatin ''DROP TABLE '' @ t)" ofLatin
  "\<lambda>e. ofLatin ''Error deleting table '' @ t @ ofLatin ('': '' @ e)" "ofLatin ''Table '' @ t @ ofLatin '' deleted successfully''"
  "deleteTable api schema t" for api schema t
  by unfold_locales (simp_all add: deleteTable_def Let_def)

interpretation drop_schema: schema_statement api "utf8Text schema" "queryText (ofLatin ''DROP SCHEMA '' @ schema)" ofLatin
  "\<lambda>e. ofLatin ''Error dropping schema '' @ schema @ ofLatin ('': '' @ e)"
  "ofLatin ''Schema '' @ schema @ ofLatin '' deleted successfully''" "dropSchema api schema" for api schema
  by unfold_locales (simp_all add: dropSchema_def Let_def)

interpretation execute_sql: schema_statement api "utf8 schema" "queryBytes sql" id
  "\<lambda>e. ''Error executing SQL '' @ schema @ '': '' @ e" "''SQL executed successfully''"
  "executeSQL api schema sql" for api schema sql
  by unfold_locales (simp_all add: executeSQL_def Let_def)

section \<open>Properties\<close>

text \<open>
  \<open>executeSQL:\<close> reports success exactly when selecting the schema and sending the statement
  both return 0; when the schema cannot be selected the statement is never sent.
\<close>

theorem executeSQL_contract:
  "(success (fst (executeSQL api schema sql conn)) \<longleftrightarrow>
      fst (mysql_select_db api conn (utf8 schema)) = 0 \<and>
      fst (mysql_real_query api (snd (mysql_select_db api conn (utf8 schema))) (queryBytes sql)) = 0)
   \<and> snd (executeSQL api schema sql conn) =
      (let (r, c1) = mysql_select_db api conn (utf8 schema)
       in if r \<noteq> 0 then c1 else snd (mysql_real_query api c1 (queryBytes sql)))"
  by (rule conjI [OF execute_sql.success_iff execute_sql.final_connection])

text \<open>
  \<open>deleteTable:\<close> sends exactly \<open>DROP TABLE <name>\<close>, and only after its schema was selected;
  \<open>dropSchema\<close> sends exactly \<open>DROP SCHEMA <name>\<close> under the same condition; each reports success
  exactly when both calls returned 0.
\<close>

theorem drop_operations_contract:
  "(success (fst (deleteTable api schema t conn)) \<longleftrightarrow>
      fst (mysql_select_db api conn (utf8Text schema)) = 0 \<and>
      fst (mysql_real_query api (snd (mysql_select_db api conn (utf8Text schema)))
             (queryText (ofLatin ''DROP TABLE '' @ t))) = 0)
   \<and> (success (fst (dropSchema api schema conn)) \<longleftrightarrow>
      fst (mysql_select_db api conn (utf8Text schema)) = 0 \<and>
      fst (mysql_real_query api (snd (mysql_select_db api conn (utf8Text schema)))
             (queryText (ofLatin ''DROP SCHEMA '' @ schema))) = 0)
   \<and> snd (deleteTable api schema t conn) =
      (let (r, c1) = mysql_select_db api conn (utf8Text schema)
       in if r \<noteq> 0 then c1
          else snd (mysql_real_query api c1 (queryText (ofLatin ''DROP TABLE '' @ t))))
   \<and> snd (dropSchema api schema conn) =
      (let (r, c1) = mysql_select_db api conn (utf8Text schema)
       in if r \<noteq> 0 then c1
          else snd (mysql_real_query api c1 (queryText (ofLatin ''DROP SCHEMA '' @ schema))))"
proof (intro conjI)
  show "success (fst (deleteTable api schema t conn)) \<longleftrightarrow>
      fst (mysql_select_db api conn (utf8Text schema)) = 0 \<and>
      fst (mysql_real_query api (snd (mysql_select_db api conn (utf8Text schema)))
             (queryText (ofLatin ''DROP TABLE '' @ t))) = 0"
    by (rule delete_table.success_iff)
  show "success (fst (dropSchema api schema conn)) \<longleftrightarrow>
      fst (mysql_select_db api conn (utf8Text schema)) = 0 \<and>
      fst (mysql_real_query api (snd (mysql_select_db api conn (utf8Text schema)))
             (queryText (ofLatin ''DROP SCHEMA '' @ schema))) = 0"
    by (rule drop_schema.success_iff)
qed (rule delete_table.final_connection drop_schema.final_connection)+

text \<open>
  The bytes sent to the server are the whole UTF-8 text of the statement exactly when the
  statement is pure ASCII: the length passed counts UTF-16 units, so any other statement is cut off.
\<close>

theorem query_truncated_iff:
  "queryBytes sql = utf8 sql \<longleftrightarrow> is_ascii sql"
proof
  assume eq: "queryBytes sql = utf8 sql"
  show "is_ascii sql"
  proof (rule ccontr)
    assume "\<not> is_ascii sql"
    then have "length sql < length (utf8 sql)" by (rule length_utf8_gt)
    moreover have "length (queryBytes sql) \<le> length sql" by (simp add: queryBytes_def)
    ultimately show False unfolding eq by simp
  qed
next
  assume "is_ascii sql"
  then show "queryBytes sql = utf8 sql" by (simp add: queryBytes_ascii utf8_ascii)
qed

end
