(* ===== verification/TableDesigner.thy ===== *)
theory TableDesigner
  imports ColumnForm MySQLClient
begin

text \<open>
  The table designer (NewMySQLTableViewController) with the column editor on top of it.  Column
  objects live in a store: the designer's list and the open editor refer to the same object, and
  the editor changes it in place.  The designer's handlers, the user's input into the form and the
  way back (\<open>viewWillDisappear:\<close> and \<open>columnWasCreated\<close>) are translated; a step relation puts them
  in the order in which the screens allow them.
\<close>

section \<open>State\<close>

type_synonym col_ref = nat

record designer =
  store :: "col_ref \<Rightarrow> mysql_column option"
  nextRef :: col_ref
  tableColumns :: "col_ref list"
  editor :: "(column_form \<times> col_ref option) option"

text \<open>\<open>viewDidLoad\<close>: no column yet.\<close>

definition designerDidLoad :: designer where
  "designerDidLoad = \<lparr>store = (\<lambda>_. None), nextRef = 0, tableColumns = [], editor = None\<rparr>"

definition numberOfRowsInSection :: "designer \<Rightarrow> nat" where
  "numberOfRowsInSection d = length (tableColumns d)"

definition cellForRow :: "nat \<Rightarrow> designer \<Rightarrow> string outcome" where
  "cellForRow row d =
     andThen (objectAtIndex (tableColumns d) row) (\<lambda>r.
       Inr (case store d r of Some c \<Rightarrow> columnName c | None \<Rightarrow> ''''))"

text \<open>The columns the list shows, and the ones \<open>createButtonPressed\<close> hands to the generator.\<close>

definition listedColumns :: "designer \<Rightarrow> mysql_column list" where
  "listedColumns d = map (\<lambda>r. the (store d r)) (tableColumns d)"

section \<open>Handlers of the designer\<close>

text \<open>Selecting a row opens the editor on that object, and loading it changes the object.\<close>

definition didSelectColumnRow :: "nat \<Rightarrow> designer \<Rightarrow> designer outcome" where
  "didSelectColumnRow row d =
     andThen (objectAtIndex (tableColumns d) row) (\<lambda>r.
       let (f, c) = openForm (store d r)
       in Inr (d\<lparr>store := (store d)(r := c), editor := Some (f, Some r)\<rparr>))"

definition addColumnButtonPressed :: "designer \<Rightarrow> designer" where
  "addColumnButtonPressed d = d\<lparr>editor := Some (fst (openForm None), None)\<rparr>"

definition columnWasCreated :: "col_ref option \<Rightarrow> bool \<Rightarrow> bool \<Rightarrow> designer \<Rightarrow> designer" where
  "columnWasCreated column back editing d =
     (case column of
        Some r \<Rightarrow> if \<not> back \<and> \<not> editing then d\<lparr>tableColumns := tableColumns d @ [r]\<rparr> else d
      | None \<Rightarrow> d)"

text \<open>\<open>commitEditingStyle\<close> with the delete style.\<close>

definition deleteColumnRow :: "nat \<Rightarrow> designer \<Rightarrow> designer outcome" where
  "deleteColumnRow row d =
     andThen (removeObjectAtIndex (tableColumns d) row) (\<lambda>rs. Inr (d\<lparr>tableColumns := rs\<rparr>))"

section \<open>The editor on top\<close>

text \<open>What the user can do to the widgets; a disabled widget takes no input.\<close>

datatype user_input =
    NameText string | LengthText string | PrecisionText string | ScaleText string
  | DefaultText string | FlipPrimaryKey | FlipUnique | FlipAutoIncrement | FlipNotNull
  | FlipZeroFill | FlipBinary | PickType nat

definition enterText :: "string \<Rightarrow> textField \<Rightarrow> textField" where
  "enterText s f = (if tfEnabled f then putText s f else f)"

definition flip :: "switch \<Rightarrow> switch" where
  "flip s = (if swEnabled s then s\<lparr>isOn := \<not> isOn s\<rparr> else s)"

definition flipPrimaryKey :: "column_form \<Rightarrow> column_form" where
  "flipPrimaryKey f =
     (if swEnabled (primaryKeySwitch f)
      then primaryKeySwitchListener (\<not> isOn (primaryKeySwitch f))
             (f\<lparr>primaryKeySwitch := flip (primaryKeySwitch f)\<rparr>)
      else f)"

fun applyInput :: "user_input \<Rightarrow> column_form \<Rightarrow> column_form outcome" where
  "applyInput (NameText s) f = Inr (f\<lparr>columnNameTxt := enterText s (columnNameTxt f)\<rparr>)"
| "applyInput (LengthText s) f = Inr (f\<lparr>columnLengthTxt := enterText s (columnLengthTxt f)\<rparr>)"
| "applyInput (PrecisionText s) f =
     Inr (f\<lparr>decimalPrecisionTxt := enterText s (decimalPrecisionTxt f)\<rparr>)"
| "applyInput (ScaleText s) f = Inr (f\<lparr>decimalScaleTxt := enterText s (decimalScaleTxt f)\<rparr>)"
| "applyInput (DefaultText s) f = Inr (f\<lparr>defaultTxt := enterText s (defaultTxt f)\<rparr>)"
| "applyInput FlipPrimaryKey f = Inr (flipPrimaryKey f)"
| "applyInput FlipUnique f = Inr (f\<lparr>uniqueSwtich := flip (uniqueSwtich f)\<rparr>)"
| "applyInput FlipAutoIncrement f = Inr (f\<lparr>autoIncrementSwitch := flip (autoIncrementSwitch f)\<rparr>)"
| "applyInput FlipNotNull f = Inr (f\<lparr>notNullSwitch := flip (notNullSwitch f)\<rparr>)"
| "applyInput FlipZeroFill f = Inr (f\<lparr>zeroFillSwitch := flip (zeroFillSwitch f)\<rparr>)"
| "applyInput FlipBinary f = Inr (f\<lparr>binarySwitch := flip (binarySwitch f)\<rparr>)"
| "applyInput (PickType row) f = didSelectRow row f"

definition editorInput :: "user_input \<Rightarrow> designer \<Rightarrow> designer outcome" where
  "editorInput i d =
     (case editor d of
        None \<Rightarrow> Inr d
      | Some (f, r) \<Rightarrow> andThen (applyInput i f) (\<lambda>f. Inr (d\<lparr>editor := Some (f, r)\<rparr>)))"

text \<open>
  \<open>viewWillDisappear:\<close> of the editor hands the editor's column to the designer; the pop then
  removes the editor.
\<close>

definition popEditor :: "column_form \<Rightarrow> col_ref option \<Rightarrow> designer \<Rightarrow> designer" where
  "popEditor f r d =
     (columnWasCreated r (backButtonPressed f) (isEditing f) d)\<lparr>editor := None\<rparr>"

text \<open>The Add/Update button: a new column is a new object.\<close>

definition editorAdd :: "designer \<Rightarrow> designer outcome" where
  "editorAdd d =
     (case editor d of
        None \<Rightarrow> Inr d
      | Some (f, r) \<Rightarrow>
          andThen (addColumnOnClick (case r of None \<Rightarrow> None | Some r \<Rightarrow> store d r) f) (\<lambda>res.
            case res of
              TypeMissing c \<Rightarrow>
                Inr (case r of None \<Rightarrow> d | Some r \<Rightarrow> d\<lparr>store := (store d)(r := c)\<rparr>)
            | Saved c \<Rightarrow>
                (case r of
                   None \<Rightarrow>
                     Inr (popEditor f (Some (nextRef d))
                            (d\<lparr>store := (store d)(nextRef d := Some c), nextRef := Suc (nextRef d)\<rparr>))
                 | Some r \<Rightarrow> Inr (popEditor f (Some r) (d\<lparr>store := (store d)(r := Some c)\<rparr>)))))"

text \<open>\<open>navigateBackPressed\<close>: the Cancel item of the editor.\<close>

definition editorCancel :: "designer \<Rightarrow> designer" where
  "editorCancel d =
     (case editor d of
        None \<Rightarrow> d
      | Some (f, r) \<Rightarrow> popEditor (f\<lparr>backButtonPressed := True\<rparr>) r d)"

section \<open>Creating the table\<close>

datatype designer_effect =
    ShowAlert string | PopDesigner | PushEditSQL string | TableWasCreated

text \<open>
  \<open>createButtonPressed\<close> after its alert was answered with the given button: what happens on the
  connection and on the screen.  The pop after a success follows the tap on the alert's only button.
\<close>

definition createButtonPressed ::
  "'c mysql_api \<Rightarrow> string \<Rightarrow> string \<Rightarrow> int \<Rightarrow> designer \<Rightarrow> 'c \<Rightarrow> designer_effect list \<times> 'c"
where
  "createButtonPressed api schema tableName button d conn =
     (let sql = generateCreateTableSQL (listedColumns d) tableName schema
      in if button = 0 then ([ShowAlert ''Operation Cancelled''], conn)
         else if button = 1
         then (let (result, conn) = executeSQL api schema sql conn
               in if success result
                  then ([ShowAlert (fmt (resultError result)), PopDesigner], conn)
                  else ([ShowAlert (fmt (resultError result))], conn))
         else if button = 2 then ([PushEditSQL sql], conn)
         else ([], conn))"

section \<open>The screens as a step relation\<close>

datatype designer_event =
    OpenRow nat | NewColumn | DeleteRow nat | Input user_input | AddPressed | CancelPressed

fun designerEvent :: "designer_event \<Rightarrow> designer \<Rightarrow> designer outcome" where
  "designerEvent (OpenRow row) d = didSelectColumnRow row d"
| "designerEvent NewColumn d = Inr (addColumnButtonPressed d)"
| "designerEvent (DeleteRow row) d = deleteColumnRow row d"
| "designerEvent (Input i) d = editorInput i d"
| "designerEvent AddPressed d = editorAdd d"
| "designerEvent CancelPressed d = Inr (editorCancel d)"

text \<open>The editor covers the designer: a screen takes events only while it is on top.\<close>

fun onEditor :: "designer_event \<Rightarrow> bool" where
  "onEditor (Input _) = True"
| "onEditor AddPressed = True"
| "onEditor CancelPressed = True"
| "onEditor _ = False"

inductive designer_step :: "designer \<Rightarrow> designer_event \<Rightarrow> designer \<Rightarrow> bool" where
  step: "onEditor e = (editor d \<noteq> None) \<Longrightarrow> designerEvent e d = Inr d' \<Longrightarrow> designer_step d e d'"

inductive_cases designer_stepE [elim!]: "designer_step d e d'"

inductive_simps designer_step_simps:
  "designer_step d AddPressed d'" "designer_step d CancelPressed d'" "designer_step d (OpenRow i) d'"

text \<open>Cancelling while an existing column is open.\<close>

definition cancelsEdit :: "designer \<Rightarrow> designer_event \<Rightarrow> bool" where
  "cancelsEdit d e =
     (e = CancelPressed \<and> (case editor d of Some (f, Some r) \<Rightarrow> True | _ \<Rightarrow> False))"

text \<open>\<open>designer_reach b d\<close>: \<open>d\<close> can be reached; \<open>b\<close> tells whether an edit was cancelled on the way.\<close>

inductive designer_reach :: "bool \<Rightarrow> designer \<Rightarrow> bool" where
  start: "designer_reach False designerDidLoad"
| event: "designer_reach b d \<Longrightarrow> designer_step d e d' \<Longrightarrow> designer_reach (b \<or> cancelsEdit d e) d'"

section \<open>The invariant\<close>

definition openRef :: "designer \<Rightarrow> col_ref option" where
  "openRef d = (case editor d of Some (f, r) \<Rightarrow> r | None \<Rightarrow> None)"

definition editor_ok :: "designer \<Rightarrow> bool" where
  "editor_ok d =
     (case editor d of
        None \<Rightarrow> True
      | Some (f, r) \<Rightarrow> \<not> backButtonPressed f \<and> (isEditing f \<longleftrightarrow> r \<noteq> None)
          \<and> (\<forall>x. r = Some x \<longrightarrow> x \<in> set (tableColumns d)))"

text \<open>A listed column: its object exists; while open its modifiers are empty, otherwise they mirror
  its flags unless an edit was cancelled before.\<close>

definition column_ok :: "bool \<Rightarrow> designer \<Rightarrow> col_ref \<Rightarrow> bool" where
  "column_ok b d r =
     (r < nextRef d \<and>
      (\<exists>c. store d r = Some c \<and>
         (if openRef d = Some r then columnModifiers c = [] else b \<or> mirrored c)))"

definition designer_ok :: "bool \<Rightarrow> designer \<Rightarrow> bool" where
  "designer_ok b d =
     (distinct (tableColumns d) \<and> editor_ok d \<and> (\<forall>r \<in> set (tableColumns d). column_ok b d r))"

lemmas designer_ok_defs = designer_ok_def editor_ok_def column_ok_def openRef_def

lemma onType_keeps:
  "(\<And>f. isEditing (g f) = isEditing f) \<Longrightarrow> isEditing (onType t n g f) = isEditing f"
  "(\<And>f. backButtonPressed (g f) = backButtonPressed f) \<Longrightarrow>
     backButtonPressed (onType t n g f) = backButtonPressed f"
  by (simp_all add: onType_def)

lemma type_chains_keep [simp]:
  "isEditing (pickOtherTypes t (pickNumericTypes t f)) = isEditing f"
  "backButtonPressed (pickOtherTypes t (pickNumericTypes t f)) = backButtonPressed f"
  "isEditing (loadOtherTypes t (loadNumericTypes t f)) = isEditing f"
  "backButtonPressed (loadOtherTypes t (loadNumericTypes t f)) = backButtonPressed f"
  unfolding type_chains by (simp_all add: onType_keeps block_defs)

lemma loadColumnValues_keeps [simp]:
  "isEditing (loadColumnValues c f) = isEditing f"
  "backButtonPressed (loadColumnValues c f) = backButtonPressed f"
  by (simp_all add: loadColumnValues_def Let_def split: option.split)

lemma openForm_flags:
  "isEditing (fst (openForm c)) \<longleftrightarrow> c \<noteq> None" "\<not> backButtonPressed (fst (openForm c))"
  by (cases c; simp add: openForm_Some typedForm_def loadCommon_def openForm_def loadForm_def
        viewDidAppear_def Let_def)+

lemma openForm_snd: "snd (openForm c) = map_option (\<lambda>c. c\<lparr>columnModifiers := []\<rparr>) c"
  by (cases c) (simp_all add: openForm_Some openForm_def loadForm_def Let_def)

lemma didSelectRow_keeps:
  "didSelectRow row f = Inr g \<Longrightarrow> isEditing g = isEditing f \<and> backButtonPressed g = backButtonPressed f"
  by (auto simp: didSelectRow_def Let_def andThen_Inr_iff split: if_splits)

lemma applyInput_keeps:
  "applyInput i f = Inr g \<Longrightarrow> isEditing g = isEditing f \<and> backButtonPressed g = backButtonPressed f"
  by (cases i)
     (auto simp: flipPrimaryKey_def primaryKeySwitchListener_def split: if_splits
       dest: didSelectRow_keeps)

lemma addColumn_TypeMissing:
  "addColumnOnClick col f = Inr (TypeMissing c) \<Longrightarrow>
     c = map_option (\<lambda>c. c\<lparr>columnName := fieldText (columnNameTxt f)\<rparr>) col"
  by (auto simp: addColumnOnClick_def Let_def andThen_Inr_iff split: if_splits)

lemma removeObjectAtIndex_subset:
  assumes "removeObjectAtIndex xs i = Inr ys"
  shows "set ys \<subseteq> set xs" and "distinct xs \<Longrightarrow> distinct ys"
proof -
  from assms have i: "i < length xs" and ys: "ys = take i xs @ drop (Suc i) xs"
    by (auto simp: removeObjectAtIndex_def split: if_splits)
  from i have xs: "xs = take i xs @ xs ! i # drop (Suc i) xs" by (rule id_take_nth_drop)
  show "set ys \<subseteq> set xs" unfolding ys by (auto dest: in_set_takeD in_set_dropD)
  show "distinct ys" if "distinct xs" using that unfolding ys by (subst (asm) xs) auto
qed

lemma ok_OpenRow:
  assumes "designer_ok b d" and "editor d = None" and "didSelectColumnRow row d = Inr d'"
  shows "designer_ok b d'"
proof -
  define r where "r = tableColumns d ! row"
  from assms(3) have r: "r \<in> set (tableColumns d)"
    and d': "d' = d\<lparr>store := (store d)(r := snd (openForm (store d r))),
                 editor := Some (fst (openForm (store d r)), Some r)\<rparr>"
    by (auto simp: didSelectColumnRow_def andThen_Inr_iff objectAtIndex_Inr_iff case_prod_unfold
        Let_def r_def)
  from assms(1) r obtain c where c: "store d r = Some c"
    by (auto simp: designer_ok_def column_ok_def split: option.splits)
  show ?thesis
    using assms(1,2) r unfolding d'
    by (auto simp: designer_ok_defs openForm_flags openForm_snd c split: option.splits)
qed

lemma ok_NewColumn:
  "designer_ok b d \<Longrightarrow> editor d = None \<Longrightarrow> designer_ok b (addColumnButtonPressed d)"
  by (auto simp: designer_ok_defs addColumnButtonPressed_def openForm_flags split: option.splits)

lemma ok_DeleteRow:
  assumes "designer_ok b d" and "editor d = None" and "deleteColumnRow row d = Inr d'"
  shows "designer_ok b d'"
proof -
  from assms(3) obtain rs where rs: "removeObjectAtIndex (tableColumns d) row = Inr rs"
    and d': "d' = d\<lparr>tableColumns := rs\<rparr>"
    by (auto simp: deleteColumnRow_def andThen_Inr_iff)
  from removeObjectAtIndex_subset [OF rs] assms(1,2) show ?thesis
    unfolding d' by (auto simp: designer_ok_defs)
qed

lemma ok_Input:
  assumes "designer_ok b d" and "editorInput i d = Inr d'"
  shows "designer_ok b d'"
proof (cases "editor d")
  case None
  with assms show ?thesis by (simp add: editorInput_def)
next
  case (Some e)
  then obtain f r where e: "editor d = Some (f, r)" by (cases e) auto
  with assms(2) obtain g where g: "applyInput i f = Inr g" and d': "d' = d\<lparr>editor := Some (g, r)\<rparr>"
    by (auto simp: editorInput_def andThen_Inr_iff)
  from applyInput_keeps [OF g] assms(1) e show ?thesis unfolding d' by (auto simp: designer_ok_defs)
qed

lemma ok_Cancel:
  "designer_ok b d \<Longrightarrow> designer_ok (b \<or> cancelsEdit d CancelPressed) (editorCancel d)"
  by (auto simp: designer_ok_defs editorCancel_def popEditor_def columnWasCreated_def cancelsEdit_def
      split: option.splits)

lemma ok_Add:
  assumes ok: "designer_ok b d" and add: "editorAdd d = Inr d'"
  shows "designer_ok b d'"
proof (cases "editor d")
  case None
  with assms show ?thesis by (simp add: editorAdd_def)
next
  case (Some e)
  then obtain f r where e: "editor d = Some (f, r)" by (cases e) auto
  show ?thesis
  proof (cases r)
    case None
    from add e None obtain res where res: "addColumnOnClick None f = Inr res"
      by (cases "addColumnOnClick None f") (auto simp: editorAdd_def)
    with add e None have d': "d' = (case res of TypeMissing c \<Rightarrow> d | Saved c \<Rightarrow> popEditor f (Some (nextRef d))
          (d\<lparr>store := (store d)(nextRef d := Some c), nextRef := Suc (nextRef d)\<rparr>))"
      by (auto simp: editorAdd_def split: click_result.splits)
    show ?thesis
    proof (cases res)
      case (Saved c)
      with res have "mirrored c" by (auto intro: addColumn_mirrored)
      with ok e None d' Saved show ?thesis
        by (fastforce simp: designer_ok_defs popEditor_def columnWasCreated_def split: option.splits)
    qed (use ok d' in simp)
  next
    case (Some x)
    with ok e obtain c0 where x: "x \<in> set (tableColumns d)" "store d x = Some c0"
      and clear: "columnModifiers c0 = []"
      by (auto simp: designer_ok_defs split: option.splits)
    with add e Some obtain res where res: "addColumnOnClick (Some c0) f = Inr res"
      by (cases "addColumnOnClick (Some c0) f") (auto simp: editorAdd_def)
    with add e Some x have d': "d' = (case res of TypeMissing c \<Rightarrow> d\<lparr>store := (store d)(x := c)\<rparr>
          | Saved c \<Rightarrow> popEditor f (Some x) (d\<lparr>store := (store d)(x := Some c)\<rparr>))"
      by (auto simp: editorAdd_def split: click_result.splits)
    show ?thesis
    proof (cases res)
      case (TypeMissing c)
      with res addColumn_TypeMissing clear obtain c1 where "c = Some c1" "columnModifiers c1 = []"
        by fastforce
      with ok e Some x d' TypeMissing show ?thesis
        by (auto simp: designer_ok_defs split: option.splits)
    next
      case (Saved c)
      with res clear have "mirrored c" by (auto intro: addColumn_mirrored)
      with ok e Some x d' Saved show ?thesis
        by (auto simp: designer_ok_defs popEditor_def columnWasCreated_def split: option.splits)
    qed
  qed
qed

lemma ok_event:
  assumes "designer_ok b d" and "designer_step d e d'"
  shows "designer_ok (b \<or> cancelsEdit d e) d'"
proof -
  from assms(2) have g: "onEditor e = (editor d \<noteq> None)" and e: "designerEvent e d = Inr d'" by auto
  have weaken: "designer_ok b d' \<Longrightarrow> ?thesis"
    unfolding designer_ok_def column_ok_def by metis
  show ?thesis
  proof (cases e)
    case (OpenRow row)
    with g e have "editor d = None" by (cases "editor d") auto
    with OpenRow e ok_OpenRow [OF assms(1)] show ?thesis by (intro weaken) simp
  next
    case NewColumn
    with g e have "editor d = None" by (cases "editor d") auto
    with NewColumn e ok_NewColumn [OF assms(1)] show ?thesis by (intro weaken) simp
  next
    case (DeleteRow row)
    with g e have "editor d = None" by (cases "editor d") auto
    with DeleteRow e ok_DeleteRow [OF assms(1)] show ?thesis by (intro weaken) simp
  next
    case (Input i)
    with e ok_Input [OF assms(1)] show ?thesis by (intro weaken) simp
  next
    case AddPressed
    with e ok_Add [OF assms(1)] show ?thesis by (intro weaken) simp
  next
    case CancelPressed
    with e ok_Cancel [OF assms(1)] show ?thesis by simp
  qed
qed

lemma reach_ok: "designer_reach b d \<Longrightarrow> designer_ok b d"
proof (induction rule: designer_reach.induct)
  case start
  show ?case by (simp add: designer_ok_defs designerDidLoad_def)
next
  case (event b d e d')
  from event.IH event.hyps(2) show ?case by (rule ok_event)
qed

text \<open>Runs without a cancelled edit, as a function.\<close>

fun runDesigner :: "designer_event list \<Rightarrow> designer \<Rightarrow> designer option" where
  "runDesigner [] d = Some d"
| "runDesigner (e # es) d =
     (if onEditor e = (editor d \<noteq> None) \<and> \<not> cancelsEdit d e
      then (case designerEvent e d of Inl _ \<Rightarrow> None | Inr d' \<Rightarrow> runDesigner es d') else None)"

lemma run_reach: "designer_reach b d \<Longrightarrow> runDesigner es d = Some d' \<Longrightarrow> designer_reach b d'"
proof (induction es arbitrary: d)
  case (Cons e es)
  from Cons.prems(2) obtain d1 where "designer_step d e d1" and c: "\<not> cancelsEdit d e"
    and run: "runDesigner es d1 = Some d'"
    by (cases "designerEvent e d") (auto simp: designer_step.simps split: if_splits)
  from designer_reach.event [OF Cons.prems(1) this(1)] c have "designer_reach b d1" by simp
  from Cons.IH [OF this run] show ?case .
qed simp

lemma mirrored_prints:
  assumes "mirrored c"
  shows "\<exists>rest. columnItem c = '' '' @ columnText c @ concat (map (\<lambda>m. '' '' @ m) (flagModifiers c)) @ rest"
proof -
  have "columnModifiers c = flagModifiers c @ drop (length (flagModifiers c)) (columnModifiers c)"
    using assms unfolding mirrored_def by (metis append_take_drop_id)
  then have "concat (map (\<lambda>m. '' '' @ m) (columnModifiers c)) =
      concat (map (\<lambda>m. '' '' @ m) (flagModifiers c))
      @ concat (map (\<lambda>m. '' '' @ m) (drop (length (flagModifiers c)) (columnModifiers c)))"
    by (metis concat_append map_append)
  then show ?thesis by (simp add: columnItem_def)
qed

lemma listed_columns_print:
  assumes "designer_reach b d" and "r \<in> set (tableColumns d)"
  obtains c where "store d r = Some c"
    and "\<not> b \<Longrightarrow> openRef d \<noteq> Some r \<Longrightarrow> \<exists>rest. columnItem c =
           '' '' @ columnText c @ concat (map (\<lambda>m. '' '' @ m) (flagModifiers c)) @ rest"
    and "openRef d = Some r \<Longrightarrow> columnItem c = '' '' @ columnText c @ '' ''"
proof -
  from reach_ok [OF assms(1)] assms(2) obtain c where "store d r = Some c"
    and "if openRef d = Some r then columnModifiers c = [] else b \<or> mirrored c"
    by (auto simp: designer_ok_def column_ok_def)
  with mirrored_prints [of c] that show thesis by (auto simp: columnItem_def split: if_splits)
qed

section \<open>Properties\<close>

text \<open>
  C1.  In every reachable state the listed references are distinct and name existing objects.  The column that is
  open in the editor, if any, prints no modifier at all, because loading the editor empties the list of them; and as
  long as no edit was cancelled, every other listed column prints the modifiers its flags call for (NOT NULL,
  AUTO_INCREMENT and so on) right after its type.
\<close>

theorem designer_columns_print_flags:
  assumes "designer_reach b d"
  shows "distinct (tableColumns d)
    \<and> (\<forall>r \<in> set (tableColumns d). \<exists>c. store d r = Some c
         \<and> (if openRef d = Some r then columnItem c = '' '' @ columnText c @ '' ''
            else b \<or> (\<exists>rest. columnItem c =
                   '' '' @ columnText c @ concat (map (\<lambda>m. '' '' @ m) (flagModifiers c)) @ rest)))"
proof (intro conjI ballI)
  show "distinct (tableColumns d)" using reach_ok [OF assms] by (simp add: designer_ok_def)
  fix r assume "r \<in> set (tableColumns d)"
  from listed_columns_print [OF assms this]
  show "\<exists>c. store d r = Some c \<and> (if openRef d = Some r then columnItem c = '' '' @ columnText c @ '' ''
      else b \<or> (\<exists>rest. columnItem c = '' '' @ columnText c @ concat (map (\<lambda>m. '' '' @ m) (flagModifiers c)) @ rest))"
    by metis
qed

lemma addedINT_run:
  "\<exists>d c. runDesigner [NewColumn, Input (PickType 3), AddPressed] designerDidLoad = Some d
     \<and> tableColumns d = [0] \<and> openRef d = None \<and> store d 0 = Some c \<and> isNotNull c
     \<and> dataType c = ''INT''"
  by (simp add: designerDidLoad_def addColumnButtonPressed_def openForm_def loadForm_def loadCommon_def
      viewDidAppear_def storyboardForm_def cancelsEdit_def editorInput_def didSelectRow_def mysqlTypes_def
      objectAtIndex_def type_chains block_defs editorAdd_def addColumnOnClick_def popEditor_def
      columnWasCreated_def openRef_def initWithDataTypeAndLengthAndName_def Let_def)

theorem designer_columns_print_flags_witness:
  "\<exists>d c rest. designer_reach False d \<and> tableColumns d = [0] \<and> store d 0 = Some c \<and> isNotNull c
     \<and> columnItem c =
         '' '' @ columnText c @ concat (map (\<lambda>m. '' '' @ m) (flagModifiers c)) @ rest"
proof -
  obtain d c where run: "runDesigner [NewColumn, Input (PickType 3), AddPressed] designerDidLoad = Some d"
    and d: "tableColumns d = [0]" "openRef d = None" "store d 0 = Some c" "isNotNull c"
    using addedINT_run by blast
  from run_reach [OF designer_reach.start run] have reach: "designer_reach False d" .
  from designer_columns_print_flags [OF this] d obtain rest where "columnItem c =
      '' '' @ columnText c @ concat (map (\<lambda>m. '' '' @ m) (flagModifiers c)) @ rest"
    by (auto simp del: append.simps)
  with d reach show ?thesis by blast
qed

text \<open>
  C6.  Opening a listed column and leaving with Cancel does not leave it as it was: its modifiers are
  gone while its flags stay, so the next CREATE TABLE prints nothing after its type (no NOT NULL, no
  default value).
\<close>

theorem cancel_edit_drops_modifiers:
  assumes "row < length (tableColumns d)" and "store d (tableColumns d ! row) = Some c"
  shows "\<exists>d1. didSelectColumnRow row d = Inr d1
    \<and> tableColumns (editorCancel d1) = tableColumns d
    \<and> store (editorCancel d1) (tableColumns d ! row) = Some (c\<lparr>columnModifiers := []\<rparr>)
    \<and> columnItem (c\<lparr>columnModifiers := []\<rparr>) = '' '' @ columnText c @ '' ''"
  using assms
  by (auto simp: didSelectColumnRow_def case_prod_unfold Let_def openForm_snd editorCancel_def
      popEditor_def columnWasCreated_def columnItem_def columnText_def typeText_def lengthText_def
      split: option.splits)

definition listedPrice :: designer where
  "listedPrice = designerDidLoad\<lparr>store := [0 \<mapsto> priceColumn], nextRef := 1, tableColumns := [0]\<rparr>"

theorem cancel_edit_drops_modifiers_witness:
  "columnModifiers priceColumn = [''NOT NULL'', ''DEFAULT 0''] \<and>
   (\<exists>d1. didSelectColumnRow 0 listedPrice = Inr d1
    \<and> tableColumns (editorCancel d1) = tableColumns listedPrice
    \<and> store (editorCancel d1) (tableColumns listedPrice ! 0)
        = Some (priceColumn\<lparr>columnModifiers := []\<rparr>)
    \<and> columnItem (priceColumn\<lparr>columnModifiers := []\<rparr>) = '' '' @ columnText priceColumn @ '' '')"
  by (rule conjI [OF _ cancel_edit_drops_modifiers])
     (simp_all add: listedPrice_def priceColumn_def)

text \<open>
  C3.  Opening a well-formed listed column and pressing Update untouched leaves the whole designer
  state as it was.
\<close>

theorem open_update_restores_designer:
  assumes "row < length (tableColumns d)" and "store d (tableColumns d ! row) = Some c"
    and "formColumn c" and "editor d = None"
  shows "andThen (didSelectColumnRow row d) editorAdd = Inr d"
proof -
  let ?r = "tableColumns d ! row"
  obtain f col where f: "openForm (Some c) = (f, col)" by fastforce
  with edit_update_aux [OF assms(3)] have add: "addColumnOnClick col f = Inr (Saved c)" by simp
  from f have "isEditing f" using openForm_flags(1) [of "Some c"] by simp
  with add f assms(1,2,4) show ?thesis
    by (simp add: didSelectColumnRow_def editorAdd_def popEditor_def columnWasCreated_def fun_upd_idem)
qed

theorem open_update_restores_designer_witness:
  "andThen (didSelectColumnRow 0 listedPrice) editorAdd = Inr listedPrice"
proof (rule open_update_restores_designer)
  show "formColumn priceColumn"
    by (simp add: formColumn_def priceColumn_def initWithDataTypeAndLengthAndName_def type_lists
        flagModifiers_def shownDefault_def defaultEditable_def lengthEditable_def blankText_def
        nilText_def)
qed (simp_all add: listedPrice_def designerDidLoad_def)

text \<open>
  The three answers to the alert of \<open>createButtonPressed\<close>: only Execute touches the connection,
  with exactly the generated statement; the designer is popped only after a success; Edit hands the
  same statement to the SQL editor.
\<close>

theorem createButtonPressed_answers:
  "(button \<noteq> 1 \<longrightarrow> snd (createButtonPressed api schema t button d conn) = conn)
   \<and> snd (createButtonPressed api schema t 1 d conn)
       = snd (executeSQL api schema (generateCreateTableSQL (listedColumns d) t schema) conn)
   \<and> (PopDesigner \<in> set (fst (createButtonPressed api schema t button d conn)) \<longleftrightarrow>
        button = 1 \<and>
        success (fst (executeSQL api schema (generateCreateTableSQL (listedColumns d) t schema) conn)))
   \<and> fst (createButtonPressed api schema t 2 d conn)
       = [PushEditSQL (generateCreateTableSQL (listedColumns d) t schema)]"
  by (auto simp: createButtonPressed_def Let_def case_prod_unfold split: if_splits)

text \<open>A library on which every call works, over the list of the queries sent.\<close>

definition workingApi :: "char list list mysql_api" where
  "workingApi =
     \<lparr>mysql_ping = (\<lambda>c. (0, c)), mysql_select_db = (\<lambda>c s. (0, c)),
      mysql_real_query = (\<lambda>c q. (0, c @ [q])), mysql_store_result = (\<lambda>c. (None, c)),
      mysql_field_count = (\<lambda>c. 0), mysql_error = (\<lambda>c. ''''), mysql_errno = (\<lambda>c. 0)\<rparr>"

theorem createButtonPressed_answers_witness:
  "snd (createButtonPressed workingApi ''shop'' ''items'' 0 designerDidLoad []) = []
   \<and> PopDesigner \<in> set (fst (createButtonPressed workingApi ''shop'' ''items'' 1 designerDidLoad []))"
proof -
  have "success (fst (executeSQL workingApi ''shop''
      (generateCreateTableSQL (listedColumns designerDidLoad) ''items'' ''shop'') []))"
    by (simp add: executeSQL_def isConnected_def workingApi_def initWithErrorAndSuccess_def Let_def)
  then show ?thesis
    using createButtonPressed_answers [of 0 workingApi "''shop''" "''items''" designerDidLoad "[]"]
      createButtonPressed_answers [of 1 workingApi "''shop''" "''items''" designerDidLoad "[]"] by simp
qed

end
