(* ===== verification/SshSession.thy ===== *)
theory SshSession
  imports UnicodeText
begin

text \<open>
  The SSH library NMSSH as a parameter.  Only its headers are in the repository; a component takes
  an \<open>ssh\<close> record of the operations it calls over an abstract server state.  \<open>execute:error:\<close>
  returns a response or, as its header documents, \<open>nil\<close> with the error object filled in: a sum.  The contents of
  files are bytes, which the application decodes and encodes as UTF-8.
\<close>

section \<open>The library as a record\<close>

record nmsftp_file =
  filename :: string
  isDirectory :: bool
  permissions :: string

record 's ssh_api =
  executeCmd :: "'s \<Rightarrow> string \<Rightarrow> (string + string) \<times> 's"
  lastErrorText :: "'s \<Rightarrow> string option"
  sftpConnected :: "'s \<Rightarrow> bool"
  contentsOfDirectoryAtPath :: "'s \<Rightarrow> string \<Rightarrow> nmsftp_file list option \<times> 's"
  removeDirectoryAtPath :: "'s \<Rightarrow> string \<Rightarrow> bool \<times> 's"
  removeFileAtPath :: "'s \<Rightarrow> string \<Rightarrow> bool \<times> 's"
  contentsAtPath :: "'s \<Rightarrow> string \<Rightarrow> char list option \<times> 's"
  writeContents :: "'s \<Rightarrow> char list \<Rightarrow> string \<Rightarrow> bool \<times> 's"
  disconnectAll :: "'s \<Rightarrow> 's"

text \<open>
  What the screens that open or hold a session use of one: connecting and authenticating, which
  answer with the state of the session, a command, and the two flags.
\<close>

record 's remote_api =
  connectTo :: "'s \<Rightarrow> string \<Rightarrow> string option \<Rightarrow> bool \<times> 's"
  authenticate :: "'s \<Rightarrow> string option \<Rightarrow> bool \<times> 's"
  runCommand :: "'s \<Rightarrow> string \<Rightarrow> (string + string) \<times> 's"
  connectedNow :: "'s \<Rightarrow> bool"
  authorizedNow :: "'s \<Rightarrow> bool"

text \<open>The response with \<open>nil\<close> for an error.\<close>

definition responseOf :: "string + string \<Rightarrow> string option" where
  "responseOf r = (case r of Inl e \<Rightarrow> None | Inr t \<Rightarrow> Some t)"

definition errorOf :: "string + string \<Rightarrow> string option" where
  "errorOf r = (case r of Inl e \<Rightarrow> Some e | Inr t \<Rightarrow> None)"

lemma response_simps [simp]:
  "responseOf (Inl e) = None" "responseOf (Inr t) = Some t"
  "errorOf (Inl e) = Some e" "errorOf (Inr t) = None"
  by (simp_all add: responseOf_def errorOf_def)

end
