(* ===== verification/SftpPaths.thy ===== *)
theory SftpPaths
  imports SshSession
begin

text \<open>
  The path arithmetic of SFTPHelper: the working directory as a string, stepping into and out of a
  directory, and the path of an entry (SFTPFileHelper, SFTPDirectoryHelper).  The abstract view of
  a working directory is its list of names; \<open>renderPath\<close> writes such a list with a slash after
  every name.
\<close>

section \<open>Operations\<close>

text \<open>The three clean-up replacements at the end of both steps.\<close>

definition cleanPath :: "string \<Rightarrow> string" where
  "cleanPath p = replaceAll [CHR 0x0D] ''/'' (replaceAll [CHR 0x0A] ''/'' (replaceAll ''//'' ''/'' p))"

definition stepIntoDirectory :: "string \<Rightarrow> string \<Rightarrow> string" where
  "stepIntoDirectory directory pwd = cleanPath (pwd @ ''/'' @ directory)"

text \<open>
  The loop of \<open>stepOutOfDirectory\<close>.  Its bound \<open>[contents count]-2\<close> is an unsigned 64-bit value, so
  with a single component it wraps around and the loop runs off the end of the array.
\<close>

fun stepOutLoop :: "64 word \<Rightarrow> nat \<Rightarrow> string list \<Rightarrow> string \<Rightarrow> string outcome" where
  "stepOutLoop bound i [] pwd = (if of_nat i < bound then Inl NSRangeException else Inr pwd)"
| "stepOutLoop bound i (c # cs) pwd =
     (if of_nat i < bound
      then stepOutLoop bound (Suc i) cs (if c = '''' \<or> c = '' '' then pwd else pwd @ c @ ''/'')
      else Inr pwd)"

definition stepOutOfDirectory :: "string \<Rightarrow> string outcome" where
  "stepOutOfDirectory pwd =
     (let contents = components ''/'' pwd
      in andThen (stepOutLoop (of_nat (length contents) - 2) 0 contents ''/'') (\<lambda>p.
         Inr (cleanPath p)))"

text \<open>\<open>getPwd:\<close>; the second component is the error.\<close>

definition getPwd :: "'s ssh_api \<Rightarrow> 's \<Rightarrow> (string option \<times> string option) \<times> 's" where
  "getPwd ssh s =
     (let (r, s) = executeCmd ssh s ''pwd''
      in ((map_option (\<lambda>t. replaceAll [CHR 0x0D] ''/'' (replaceAll [CHR 0x0A] ''/'' t)) (responseOf r),
           errorOf r), s))"

text \<open>\<open>initWithSession:\<close> falls back to the root directory.\<close>

definition initWithSession :: "'s ssh_api \<Rightarrow> 's \<Rightarrow> string \<times> 's" where
  "initWithSession ssh s =
     (let ((str, err), s) = getPwd ssh s
      in (if err = None then fmt str else ''/'', s))"

text \<open>The path of an entry, as the file and the directory helper build it.\<close>

definition entryPath :: "string \<Rightarrow> string option \<Rightarrow> string" where
  "entryPath pwd name = replaceAll ''//'' ''/'' (pwd @ ''/'' @ fmt name)"

section \<open>The abstract view\<close>

definition renderPath :: "string list \<Rightarrow> string" where
  "renderPath ns = ''/'' @ concat (map (\<lambda>n. n @ ''/'') ns)"

text \<open>A name of a directory entry: not empty, not a blank, no slash and no line break.\<close>

definition entryName :: "string \<Rightarrow> bool" where
  "entryName n =
     (n \<noteq> '''' \<and> n \<noteq> '' '' \<and> CHR ''/'' \<notin> set n \<and> CHR 0x0A \<notin> set n \<and> CHR 0x0D \<notin> set n)"

abbreviation pathNames :: "string list \<Rightarrow> bool" where
  "pathNames ns \<equiv> list_all entryName ns"

lemma entryName_ne: "entryName n \<Longrightarrow> n \<noteq> [] \<and> hd n \<noteq> CHR ''/''"
  by (cases n) (auto simp: entryName_def)

subsection \<open>Double slashes\<close>

lemma squash_name:
  "CHR ''/'' \<notin> set n \<Longrightarrow> replaceAll ''//'' ''/'' (n @ s) = n @ replaceAll ''//'' ''/'' s"
  by (induction n) auto

lemma squash_single:
  "s = [] \<or> hd s \<noteq> CHR ''/'' \<Longrightarrow>
     replaceAll ''//'' ''/'' (CHR ''/'' # s) = CHR ''/'' # replaceAll ''//'' ''/'' s"
  by (cases s) auto

lemma squash_double:
  "replaceAll ''//'' ''/'' (CHR ''/'' # CHR ''/'' # s) = CHR ''/'' # replaceAll ''//'' ''/'' s"
  by simp

lemma squash_names:
  assumes "pathNames ns"
  shows "replaceAll ''//'' ''/'' (concat (map (\<lambda>n. n @ ''/'') ns) @ t) =
           concat (map (\<lambda>n. n @ ''/'') ns)
           @ (if ns = [] then replaceAll ''//'' ''/'' t else drop 1 (replaceAll ''//'' ''/'' (CHR ''/'' # t)))"
  using assms
proof (induction ns)
  case (Cons n ns)
  from Cons.prems have n: "CHR ''/'' \<notin> set n" by (simp add: entryName_def)
  from Cons.prems have ns: "pathNames ns" by simp
  show ?case
  proof (cases ns)
    case Nil
    have "\<exists>u. replaceAll ''//'' ''/'' (CHR ''/'' # t) = CHR ''/'' # u" by (cases t) auto
    with n Nil show ?thesis by (auto simp: squash_name simp del: replaceAll.simps)
  next
    case (Cons m ms)
    with ns have "m \<noteq> [] \<and> hd m \<noteq> CHR ''/''" using entryName_ne by simp
    then have "replaceAll ''//'' ''/'' (CHR ''/'' # concat (map (\<lambda>n. n @ ''/'') ns) @ t)
        = CHR ''/'' # replaceAll ''//'' ''/'' (concat (map (\<lambda>n. n @ ''/'') ns) @ t)"
      using Cons by (intro squash_single) auto
    with n Cons.IH ns Cons show ?thesis by (simp add: squash_name)
  qed
qed simp

lemma renderPath_snoc: "renderPath (ns @ [n]) = renderPath ns @ n @ ''/''"
  by (simp add: renderPath_def)

lemma squash_into:
  assumes "pathNames ns" and "entryName n"
  shows "replaceAll ''//'' ''/'' (renderPath ns @ ''/'' @ n @ t)
           = renderPath ns @ n @ replaceAll ''//'' ''/'' t"
proof -
  have n: "CHR ''/'' \<notin> set n" and hd: "n \<noteq> [] \<and> hd n \<noteq> CHR ''/''"
    using assms(2) entryName_ne by (auto simp: entryName_def)
  have dbl: "replaceAll ''//'' ''/'' (CHR ''/'' # CHR ''/'' # n @ t)
      = CHR ''/'' # n @ replaceAll ''//'' ''/'' t"
    by (simp add: squash_name [OF n])
  show ?thesis
  proof (cases ns)
    case Nil
    with dbl show ?thesis by (simp add: renderPath_def)
  next
    case (Cons m ms)
    let ?c = "concat (map (\<lambda>n. n @ ''/'') ns)"
    from assms(1) Cons have "m \<noteq> [] \<and> hd m \<noteq> CHR ''/''" using entryName_ne by simp
    then have "replaceAll ''//'' ''/'' (CHR ''/'' # ?c @ CHR ''/'' # n @ t)
        = CHR ''/'' # replaceAll ''//'' ''/'' (?c @ CHR ''/'' # n @ t)"
      using Cons by (intro squash_single) auto
    with squash_names [OF assms(1), of "CHR ''/'' # n @ t"] dbl Cons show ?thesis
      by (simp add: renderPath_def del: replaceAll.simps)
  qed
qed

lemma clean_names:
  assumes "pathNames ns"
  shows "CHR 0x0A \<notin> set (renderPath ns)" and "CHR 0x0D \<notin> set (renderPath ns)"
  using assms by (induction ns) (auto simp: renderPath_def entryName_def)

lemma replace_char_notin: "x \<notin> set s \<Longrightarrow> replaceAll [x] [y] s = s"
  by (auto simp: replaceAll_char intro!: map_idI)

lemma cleanPath_renderPath: "pathNames ns \<Longrightarrow> cleanPath (renderPath ns) = renderPath ns"
proof (induction ns rule: rev_induct)
  case Nil
  show ?case by (simp add: cleanPath_def renderPath_def)
next
  case (snoc n ns)
  then have ns: "pathNames ns" and n: "entryName n" by simp_all
  have "replaceAll ''//'' ''/'' (renderPath (ns @ [n])) = renderPath (ns @ [n])"
  proof -
    have all: "pathNames (ns @ [n])" using ns n by simp
    obtain m ms where m: "ns @ [n] = m # ms" by (cases "ns @ [n]") auto
    with all have "m \<noteq> [] \<and> hd m \<noteq> CHR ''/''" using entryName_ne by simp
    with m have "replaceAll ''//'' ''/'' (renderPath (ns @ [n]))
        = CHR ''/'' # replaceAll ''//'' ''/'' (concat (map (\<lambda>n. n @ ''/'') (ns @ [n])))"
      unfolding renderPath_def append_Cons append_Nil by (intro squash_single) (simp add: m)
    with squash_names [OF all, of "[]"] show ?thesis by (simp add: renderPath_def)
  qed
  with clean_names [of "ns @ [n]"] ns n show ?case by (simp add: cleanPath_def replace_char_notin)
qed

text \<open>Stepping into a directory whose name carries its slash, or does not.\<close>

lemma stepInto_slash:
  assumes "pathNames ns" and "entryName n"
  shows "stepIntoDirectory (n @ ''/'') (renderPath ns) = renderPath (ns @ [n])"
proof -
  have "replaceAll ''//'' ''/'' (renderPath ns @ ''/'' @ n @ ''/'') = renderPath (ns @ [n])"
    using squash_into [OF assms, of "''/''"] by (simp add: renderPath_snoc)
  moreover have "pathNames (ns @ [n])" using assms by simp
  ultimately show ?thesis
    by (simp add: stepIntoDirectory_def cleanPath_def clean_names replace_char_notin)
qed

lemma stepInto_bare:
  assumes "pathNames ns" and "entryName n"
  shows "stepIntoDirectory n (renderPath ns) = renderPath ns @ n"
proof -
  have "replaceAll ''//'' ''/'' (renderPath ns @ ''/'' @ n) = renderPath ns @ n"
    using squash_into [OF assms, of "[]"] by simp
  moreover have "CHR 0x0A \<notin> set (renderPath ns @ n)" "CHR 0x0D \<notin> set (renderPath ns @ n)"
    using assms clean_names [OF assms(1)] by (auto simp: entryName_def)
  ultimately show ?thesis by (simp add: stepIntoDirectory_def cleanPath_def replace_char_notin)
qed

text \<open>The same from a working directory that does not end in a slash.\<close>

lemma cleanPath_open:
  assumes "pathNames ns" and "ns \<noteq> []" and "entryName n"
  shows "cleanPath (renderPath ns @ n) = renderPath ns @ n"
proof -
  let ?c = "concat (map (\<lambda>n. n @ ''/'') ns)"
  have n: "CHR ''/'' \<notin> set n" and hd: "n \<noteq> [] \<and> hd n \<noteq> CHR ''/''"
    using assms(3) entryName_ne by (auto simp: entryName_def)
  obtain m ms where m: "ns = m # ms" using assms(2) by (cases ns) auto
  with assms(1) have "m \<noteq> [] \<and> hd m \<noteq> CHR ''/''" using entryName_ne by simp
  then have "replaceAll ''//'' ''/'' (CHR ''/'' # ?c @ n) = CHR ''/'' # replaceAll ''//'' ''/'' (?c @ n)"
    using m by (intro squash_single) auto
  moreover have "replaceAll ''//'' ''/'' (CHR ''/'' # n) = CHR ''/'' # n"
    using squash_single [of n] squash_name [OF n, of "[]"] hd by simp
  ultimately have "replaceAll ''//'' ''/'' (renderPath ns @ n) = renderPath ns @ n"
    using squash_names [OF assms(1), of n] assms(2) by (simp add: renderPath_def del: replaceAll.simps)
  moreover have "CHR 0x0A \<notin> set (renderPath ns @ n)" "CHR 0x0D \<notin> set (renderPath ns @ n)"
    using assms(3) clean_names [OF assms(1)] by (auto simp: entryName_def)
  ultimately show ?thesis by (simp add: cleanPath_def replace_char_notin)
qed

lemma stepInto_open:
  assumes "pathNames ns" and "entryName m" and "entryName n"
  shows "stepIntoDirectory (n @ ''/'') (renderPath ns @ m) = renderPath (ns @ [m, n])"
    and "stepIntoDirectory n (renderPath ns @ m) = renderPath (ns @ [m]) @ n"
proof -
  have p: "pathNames (ns @ [m])" "pathNames (ns @ [m, n])" using assms by simp_all
  have "renderPath (ns @ [m, n]) = (renderPath ns @ m) @ ''/'' @ n @ ''/''"
    using renderPath_snoc [of "ns @ [m]" n] renderPath_snoc [of ns m] by simp
  with cleanPath_renderPath [OF p(2)] show "stepIntoDirectory (n @ ''/'') (renderPath ns @ m) = renderPath (ns @ [m, n])"
    by (simp add: stepIntoDirectory_def)
  have "renderPath (ns @ [m]) @ n = (renderPath ns @ m) @ ''/'' @ n" using renderPath_snoc [of ns m] by simp
  with cleanPath_open [OF p(1) _ assms(3)] show "stepIntoDirectory n (renderPath ns @ m) = renderPath (ns @ [m]) @ n"
    by (simp add: stepIntoDirectory_def)
qed

subsection \<open>Stepping out\<close>

definition outSegment :: "string \<Rightarrow> string" where
  "outSegment c = (if c = '''' \<or> c = '' '' then '''' else c @ ''/'')"

lemma stepOutLoop_spec:
  "i + length cs < 2 ^ 64 \<Longrightarrow>
     stepOutLoop bound i cs pwd =
       (if unat bound \<le> i + length cs
        then Inr (pwd @ concat (map outSegment (take (unat bound - i) cs)))
        else Inl NSRangeException)"
proof (induction cs arbitrary: i pwd)
  case Nil
  then have "unat (of_nat i :: 64 word) = i" by (simp add: unat_of_nat)
  then show ?case by (auto simp: word_less_nat_alt)
next
  case (Cons c cs)
  then have i: "unat (of_nat i :: 64 word) = i" by (simp add: unat_of_nat)
  show ?case
  proof (cases "of_nat i < bound")
    case True
    with i have "i < unat bound" by (simp add: word_less_nat_alt)
    then have "unat bound - i = Suc (unat bound - Suc i)" by simp
    with True Cons show ?thesis by (simp add: outSegment_def [of c])
  next
    case False
    with i have "unat bound \<le> i" by (simp add: word_less_nat_alt)
    with False show ?thesis by simp
  qed
qed

lemma concat_outSegment:
  "pathNames ns \<Longrightarrow> concat (map outSegment ns) = concat (map (\<lambda>n. n @ ''/'') ns)"
  by (induction ns) (auto simp: outSegment_def entryName_def)

lemma slash_components:
  assumes "pathNames ns" and "CHR ''/'' \<notin> set n"
  shows "components ''/'' (renderPath ns @ n) = '''' # ns @ [n]"
proof -
  have "components ''/'' (concat (map (\<lambda>n. n @ ''/'') ns) @ n) = ns @ [n]"
    using assms(1)
    by (induction ns) (use assms(2) in \<open>simp_all add: ns_split entryName_def\<close>)
  then show ?thesis by (simp add: renderPath_def ns_split)
qed

lemma stepOut_segments:
  assumes ns: "pathNames ns" and n: "CHR ''/'' \<notin> set n" and len: "Suc (Suc (length ns)) < 2 ^ 64"
  shows "stepOutOfDirectory (renderPath ns @ n) = Inr (renderPath (butlast ns))"
proof -
  let ?cs = "components ''/'' (renderPath ns @ n)"
  have cs: "?cs = '''' # ns @ [n]" by (rule slash_components [OF ns n])
  have bound: "unat (of_nat (length ns) :: 64 word) = length ns"
    using len by (simp add: unat_of_nat)
  have "concat (map outSegment (take (length ns) ('''' # ns @ [n])))
      = concat (map (\<lambda>n. n @ ''/'') (butlast ns))"
  proof (cases ns rule: rev_cases)
    case (snoc ms m)
    with ns have "pathNames ms" by simp
    from concat_outSegment [OF this] snoc show ?thesis by (simp add: outSegment_def)
  qed simp
  with cs len have "stepOutLoop (of_nat (length ?cs) - 2) 0 ?cs ''/'' = Inr (renderPath (butlast ns))"
    by (subst stepOutLoop_spec) (simp_all add: bound renderPath_def)
  moreover have "pathNames (butlast ns)" using ns by (auto simp: list_all_iff dest: in_set_butlastD)
  ultimately show ?thesis by (simp add: stepOutOfDirectory_def Let_def cleanPath_renderPath)
qed

section \<open>Properties\<close>

text \<open>
  Refinement: on working directories in slash-terminated form, entering a directory whose entry
  name ends in a slash appends its name to the path, and stepping out removes the last name (the
  root is its own parent).
\<close>

theorem steps_refine_path:
  assumes "pathNames ns" and "entryName n" and "length ns + 3 < 2 ^ 64"
  shows "stepIntoDirectory (n @ ''/'') (renderPath ns) = renderPath (ns @ [n])
    \<and> stepOutOfDirectory (renderPath ns) = Inr (renderPath (butlast ns))
    \<and> stepOutOfDirectory (stepIntoDirectory (n @ ''/'') (renderPath ns)) = Inr (renderPath ns)"
proof (intro conjI)
  show into: "stepIntoDirectory (n @ ''/'') (renderPath ns) = renderPath (ns @ [n])"
    using assms(1,2) by (rule stepInto_slash)
  show "stepOutOfDirectory (renderPath ns) = Inr (renderPath (butlast ns))"
    using stepOut_segments [OF assms(1), of "[]"] assms(3) by simp
  show "stepOutOfDirectory (stepIntoDirectory (n @ ''/'') (renderPath ns)) = Inr (renderPath ns)"
    using stepOut_segments [of "ns @ [n]" "[]"] assms unfolding into by simp
qed

theorem steps_refine_path_witness:
  "stepIntoDirectory ''www/'' ''/home/bob/'' = ''/home/bob/www/''
   \<and> stepOutOfDirectory ''/home/bob/'' = Inr ''/home/''
   \<and> stepOutOfDirectory ''/home/bob/www/'' = Inr ''/home/bob/''"
  using steps_refine_path [of "[''home'', ''bob'']" "''www''"]
  by (auto simp: entryName_def renderPath_def)

text \<open>
  When an entry name carries no slash, stepping into the directory and out again does not come
  back: it ends one level higher, in the parent of the starting directory.
\<close>

theorem bare_name_steps_out_twice:
  assumes "pathNames ns" and "entryName n" and "length ns + 3 < 2 ^ 64"
  shows "stepOutOfDirectory (stepIntoDirectory n (renderPath ns)) = Inr (renderPath (butlast ns))"
  using stepOut_segments [OF assms(1), of n] assms stepInto_bare [OF assms(1,2)]
  by (simp add: entryName_def)

theorem bare_name_steps_out_twice_witness:
  "stepOutOfDirectory (stepIntoDirectory ''www'' (renderPath [''home'', ''bob''])) = Inr ''/home/''"
  using bare_name_steps_out_twice [of "[''home'', ''bob'']" "''www''"]
  by (simp add: entryName_def renderPath_def)

text \<open>
  Stepping out raises a range exception exactly when the working directory contains no slash:
  the unsigned loop bound then wraps around.
\<close>

theorem step_out_raises_iff:
  assumes "count_list pwd (CHR ''/'') + 1 < 2 ^ 64"
  shows "raises (stepOutOfDirectory pwd) \<longleftrightarrow> CHR ''/'' \<notin> set pwd"
proof -
  let ?cs = "components ''/'' pwd"
  let ?b = "of_nat (length ?cs) - 2 :: 64 word"
  have len: "length ?cs = Suc (count_list pwd (CHR ''/''))" by (rule length_components_char)
  have loop: "raises (stepOutOfDirectory pwd) \<longleftrightarrow> length ?cs < unat ?b"
    using assms len by (simp add: stepOutOfDirectory_def Let_def stepOutLoop_spec)
  show ?thesis
  proof (cases "CHR ''/'' \<in> set pwd")
    case True
    then have "0 < count_list pwd (CHR ''/'')" by (metis count_notin count_list_0_iff gr0I)
    then obtain k where k: "length ?cs = Suc (Suc k)" using len by (metis Suc_pred)
    then have "?b = of_nat k" by simp
    then have "unat ?b \<le> k" by (simp add: unat_of_nat)
    with loop k True show ?thesis by simp
  next
    case False
    then have "length ?cs = 1" using len by (simp add: count_notin)
    moreover from this have "unat ?b = 2 ^ 64 - 1"
      by (simp add: unsigned_minus_1_eq_mask mask_eq_exp_minus_1)
    ultimately show ?thesis using loop False by simp
  qed
qed

theorem step_out_raises_iff_witness: "raises (stepOutOfDirectory ''home'')"
  using step_out_raises_iff [of "''home''"] by simp

end
