(* ===== verification/SftpBrowser.thy ===== *)
theory SftpBrowser
  imports SftpPaths
begin

text \<open>
  The remote file browser (SFTPTableViewController over SFTPHelper) and the file editor
  (SFTPFileViewController over SFTPFileHelper).  A locale states what browsing needs from the two
  path steps; the path functions of the code are its interpretation.
\<close>

section \<open>Navigation as an interface\<close>

















section \<open>The browser\<close>

record browser =
  helperPwd :: string
  fileDirectoryList :: "nmsftp_file list"
  screenTitle :: string

definition getDirectoryList :: "'s ssh_api \<Rightarrow> string \<Rightarrow> 's \<Rightarrow> nmsftp_file list \<times> 's" where
  "getDirectoryList ssh pwd s =
     (if \<not> sftpConnected ssh s then ([], s)
      else (let (data, s) = contentsOfDirectoryAtPath ssh s pwd
            in (case data of None \<Rightarrow> [] | Some fs \<Rightarrow> fs, s)))"

definition browserDidLoad :: "'s ssh_api \<Rightarrow> 's \<Rightarrow> browser \<times> 's" where
  "browserDidLoad ssh s =
     (let (pwd, s) = initWithSession ssh s;
          (files, s) = getDirectoryList ssh pwd s
      in (\<lparr>helperPwd = pwd, fileDirectoryList = files, screenTitle = pwd\<rparr>, s))"

definition reloadFilesAndDirectories :: "'s ssh_api \<Rightarrow> browser \<Rightarrow> 's \<Rightarrow> browser \<times> 's" where
  "reloadFilesAndDirectories ssh b s =
     (let (files, s) = getDirectoryList ssh (helperPwd b) s
      in (b\<lparr>fileDirectoryList := files, screenTitle := helperPwd b\<rparr>, s))"

text \<open>The label and detail text of a cell.\<close>

definition fileCell :: "nat \<Rightarrow> browser \<Rightarrow> (string \<times> string) outcome" where
  "fileCell row b =
     andThen (objectAtIndex (fileDirectoryList b) row) (\<lambda>f. Inr (filename f, permissions f))"

text \<open>The file helper the editor is opened with: its working directory and file name.\<close>

record file_helper =
  fhPwd :: string
  fhName :: "string option"

datatype row_result = Entered browser | OpenEditor file_helper

definition didSelectFileRow ::
  "'s ssh_api \<Rightarrow> nat \<Rightarrow> browser \<Rightarrow> 's \<Rightarrow> (row_result \<times> 's) outcome"
where
  "didSelectFileRow ssh row b s =
     andThen (objectAtIndex (fileDirectoryList b) row) (\<lambda>f.
       if isDirectory f
       then (let b = b\<lparr>helperPwd := stepIntoDirectory (filename f) (helperPwd b)\<rparr>;
                 (b, s) = reloadFilesAndDirectories ssh b s
             in Inr (Entered b, s))
       else Inr (OpenEditor \<lparr>fhPwd = helperPwd b, fhName = Some (filename f)\<rparr>, s))"

definition upButtonPressed :: "'s ssh_api \<Rightarrow> browser \<Rightarrow> 's \<Rightarrow> (browser \<times> 's) outcome" where
  "upButtonPressed ssh b s =
     andThen (stepOutOfDirectory (helperPwd b)) (\<lambda>p.
       Inr (reloadFilesAndDirectories ssh (b\<lparr>helperPwd := p\<rparr>) s))"

text \<open>The new-file button makes a helper of its own, which asks the server for its directory.\<close>

definition newFileButtonPressed :: "'s ssh_api \<Rightarrow> 's \<Rightarrow> file_helper \<times> 's" where
  "newFileButtonPressed ssh s =
     (let (pwd, s) = initWithSession ssh s in (\<lparr>fhPwd = pwd, fhName = None\<rparr>, s))"

text \<open>\<open>closeButtonPressed\<close>: the new navigation stack.\<close>

definition closeButtonPressed :: "'s ssh_api \<Rightarrow> 'v list \<Rightarrow> 's \<Rightarrow> ('v list \<times> 's) outcome" where
  "closeButtonPressed ssh stack s =
     andThen (objectAtIndex stack 1) (\<lambda>v. Inr ([v], disconnectAll ssh s))"

text \<open>Deleting an entry through a directory or file helper made for it.\<close>

definition deleteEntry :: "'s ssh_api \<Rightarrow> nmsftp_file \<Rightarrow> 's \<Rightarrow> bool \<times> 's" where
  "deleteEntry ssh f s =
     (let (pwd, s) = initWithSession ssh s;
          path = entryPath pwd (Some (filename f))
      in if isDirectory f then removeDirectoryAtPath ssh s path else removeFileAtPath ssh s path)"

text \<open>\<open>commitEditingStyle\<close> with the delete style: the alert's title and message, then a reload.\<close>

definition commitDeleteEntry ::
  "'s ssh_api \<Rightarrow> nat \<Rightarrow> browser \<Rightarrow> 's \<Rightarrow> ((string option \<times> string) \<times> browser \<times> 's) outcome"
where
  "commitDeleteEntry ssh row b s =
     andThen (objectAtIndex (fileDirectoryList b) row) (\<lambda>f.
       let (ok, s) = deleteEntry ssh f s;
           alert = (if ok then (None, ''Deleted '' @ filename f @ '' successfully'')
                    else (Some ''Error'',
                          ''Could not delete '' @ filename f @ '': '' @ fmt (lastErrorText ssh s)));
           (b, s) = reloadFilesAndDirectories ssh b s
       in Inr (alert, b, s))"

section \<open>The file editor\<close>

record file_editor =
  feHelper :: file_helper
  feContents :: "char list option"
  feFilename :: "string option"
  feText :: utext
  feEditable :: bool
  feSaveEnabled :: bool
  feCreating :: bool

definition getFileContents :: "'s ssh_api \<Rightarrow> file_helper \<Rightarrow> 's \<Rightarrow> char list option \<times> 's" where
  "getFileContents ssh h s = contentsAtPath ssh s (entryPath (fhPwd h) (fhName h))"

definition getFileContentsReadOnly :: "'s ssh_api \<Rightarrow> file_helper \<Rightarrow> 's \<Rightarrow> char list option \<times> 's" where
  "getFileContentsReadOnly ssh h s =
     (let (r, s) = executeCmd ssh s (''cat '' @ entryPath (fhPwd h) (fhName h))
      in (map_option utf8 (responseOf r), s))"

definition saveFileContents ::
  "'s ssh_api \<Rightarrow> file_helper \<Rightarrow> char list \<Rightarrow> 's \<Rightarrow> bool \<times> 's"
where
  "saveFileContents ssh h contents s = writeContents ssh s contents (entryPath (fhPwd h) (fhName h))"

text \<open>
  \<open>viewDidLoad\<close>: the editor, and the message of the alert that offers the read-only version.  A
  failed read gives no data; \<open>initWithData: nil\<close> is an empty string.
\<close>

definition editorDidLoad ::
  "'s ssh_api \<Rightarrow> file_helper \<Rightarrow> bool \<Rightarrow> 's \<Rightarrow> file_editor \<times> string option \<times> 's"
where
  "editorDidLoad ssh h creating s =
     (let (contents, s) = (if \<not> creating then getFileContents ssh h s else (None, s));
          contentStr = (if \<not> creating
                        then (case contents of None \<Rightarrow> Some [] | Some bs \<Rightarrow> fromUtf8 bs)
                        else Some []);
          alert = (if (contentStr = Some (ofLatin '' '') \<or> contentStr = Some [] \<or> contentStr = None)
                      \<and> \<not> creating
                   then Some (''Could not open file '' @ fmt (fhName h) @ '':'' @
                              fmt (lastErrorText ssh s) @
                              ''. Would you like to try a read-only version?'')
                   else None)
      in (\<lparr>feHelper = h, feContents = contents, feFilename = fhName h,
           feText = (case contentStr of None \<Rightarrow> [] | Some t \<Rightarrow> t),
           feEditable = True, feSaveEnabled = True, feCreating = creating\<rparr>, alert, s))"

text \<open>The answer to that alert: No pops the editor (\<^term>\<open>None\<close>), Yes fetches a read-only copy.\<close>

definition readOnlyAnswer ::
  "'s ssh_api \<Rightarrow> int \<Rightarrow> file_editor \<Rightarrow> 's \<Rightarrow> file_editor option \<times> 's"
where
  "readOnlyAnswer ssh button e s =
     (if button = 0 then (None, s)
      else (let (contents, s) = getFileContentsReadOnly ssh (feHelper e) s
            in (Some (e\<lparr>feContents := contents, feSaveEnabled := False, feEditable := False\<rparr>), s)))"

text \<open>
  \<open>alertView:clickedButtonAtIndex:\<close>: saving under the name in the alert's text field.  The result
  says whether the editor is popped after the alert.
\<close>

definition saveAnswer ::
  "'s ssh_api \<Rightarrow> int \<Rightarrow> int \<Rightarrow> string \<Rightarrow> file_editor \<Rightarrow> 's
     \<Rightarrow> (file_editor \<times> (string option \<times> string \<times> bool) option) \<times> 's"
where
  "saveAnswer ssh tag button name e s =
     (if tag = 1 \<and> button > 0
      then (let h = (feHelper e)\<lparr>fhName := Some name\<rparr>;
                e = e\<lparr>feHelper := h\<rparr>;
                (ok, s) = saveFileContents ssh h (utf8Text (feText e)) s
            in if ok then ((e, Some (None, ''File saved!'', True)), s)
               else ((e, Some (Some ''Error'',
                        ''Could not save file '' @ fmt (feFilename e) @ '':'' @
                        fmt (lastErrorText ssh s), False)), s))
      else ((e, None), s))"

section \<open>Properties\<close>



text \<open>The answer of \<open>pwd\<close> for a login directory other than the root.\<close>

definition pwdAnswer :: "string list \<Rightarrow> string" where
  "pwdAnswer ns = concat (map (\<lambda>n. CHR ''/'' # n) ns) @ [CHR 0x0A]"

lemma replace_newlines_append:
  "replaceAll [x] [y] (s @ t) = replaceAll [x] [y] s @ replaceAll [x] [y] t"
  by (simp add: replaceAll_char)

lemma shift_slash: "concat (map (\<lambda>n. CHR ''/'' # n) ns) @ ''/'' = renderPath ns"
  by (induction ns) (auto simp: renderPath_def)

lemma pwdAnswer_clean:
  assumes "pathNames ns"
  shows "replaceAll [CHR 0x0D] ''/'' (replaceAll [CHR 0x0A] ''/'' (pwdAnswer ns)) = renderPath ns"
proof -
  let ?c = "concat (map (\<lambda>n. CHR ''/'' # n) ns)"
  have "CHR 0x0A \<notin> set ?c" using assms by (auto simp: list_all_iff entryName_def)
  then have "replaceAll [CHR 0x0A] ''/'' (pwdAnswer ns) = ?c @ ''/''"
    unfolding pwdAnswer_def replace_newlines_append by (simp add: replace_char_notin)
  then have "replaceAll [CHR 0x0A] ''/'' (pwdAnswer ns) = renderPath ns" by (simp only: shift_slash)
  with clean_names(2) [OF assms] show ?thesis by (simp add: replace_char_notin)
qed

lemma login_helper:
  assumes "pathNames ns" and "executeCmd ssh s ''pwd'' = (Inr (pwdAnswer ns), s)"
  shows "initWithSession ssh s = (renderPath ns, s)"
  using assms by (simp add: initWithSession_def getPwd_def pwdAnswer_clean)

lemma entryPath_render:
  assumes "pathNames ns" and "entryName n"
  shows "entryPath (renderPath ns) (Some n) = renderPath ns @ n"
  using squash_into [OF assms, of "[]"] by (simp add: entryPath_def)

lemma renderPath_inj:
  assumes "pathNames ns" and "pathNames ms" and "renderPath ns = renderPath ms"
  shows "ns = ms"
proof -
  from assms have "'''' # ns @ [''''] = '''' # ms @ ['''']"
    using slash_components [of ns "[]"] slash_components [of ms "[]"] by simp
  then show ?thesis by simp
qed

text \<open>
  Deleting a file in the browser removes the entry of that name in the login directory, because
  the helper made for the deletion asks the server for its working directory: it is the entry shown
  exactly when the browser is in the login directory.
\<close>

theorem delete_acts_on_login_directory:
  assumes "pathNames ns" and "executeCmd ssh s ''pwd'' = (Inr (pwdAnswer ns), s)"
    and "\<not> isDirectory f" and "entryName (filename f)" and "pathNames ms"
  shows "deleteEntry ssh f s = removeFileAtPath ssh s (renderPath ns @ filename f)
    \<and> (renderPath ns @ filename f = entryPath (renderPath ms) (Some (filename f)) \<longleftrightarrow> ms = ns)"
proof
  show "deleteEntry ssh f s = removeFileAtPath ssh s (renderPath ns @ filename f)"
    using assms by (simp add: deleteEntry_def login_helper entryPath_render)
  show "renderPath ns @ filename f = entryPath (renderPath ms) (Some (filename f)) \<longleftrightarrow> ms = ns"
    using assms renderPath_inj [of ns ms] by (auto simp: entryPath_render)
qed

text \<open>A server for the witnesses: a login directory, and files as a list of paths with contents.\<close>

definition demoSsh :: "(string \<times> char list) list ssh_api" where
  "demoSsh =
     \<lparr>executeCmd = (\<lambda>s c. (if c = ''pwd'' then Inr (''/home/bob'' @ [CHR 0x0A]) else Inl ''no'', s)),
      lastErrorText = (\<lambda>s. None), sftpConnected = (\<lambda>s. True),
      contentsOfDirectoryAtPath = (\<lambda>s p. (None, s)),
      removeDirectoryAtPath = (\<lambda>s p. (False, s)),
      removeFileAtPath = (\<lambda>s p. (map_of s p \<noteq> None, filter (\<lambda>e. fst e \<noteq> p) s)),
      contentsAtPath = (\<lambda>s p. (map_of s p, s)),
      writeContents = (\<lambda>s c p. (True, (p, c) # s)),
      disconnectAll = (\<lambda>s. s)\<rparr>"

theorem delete_acts_on_login_directory_witness:
  "deleteEntry demoSsh \<lparr>filename = ''a'', isDirectory = False, permissions = ''''\<rparr>
      [(''/home/bob/a'', ''x''), (''/home/bob/www/a'', ''y'')]
     = (True, [(''/home/bob/www/a'', ''y'')])
   \<and> ''/home/bob/a'' \<noteq> entryPath (renderPath [''home'', ''bob'', ''www'']) (Some ''a'')"
proof -
  have pwd: "executeCmd demoSsh s ''pwd'' = (Inr (pwdAnswer [''home'', ''bob'']), s)" for s
    by (simp add: demoSsh_def pwdAnswer_def)
  show ?thesis
    using delete_acts_on_login_directory [OF _ pwd, of "\<lparr>filename = ''a'', isDirectory = False, permissions = ''''\<rparr>"
        "[''home'', ''bob'', ''www'']" "[(''/home/bob/a'', ''x''), (''/home/bob/www/a'', ''y'')]"]
    by (simp add: entryName_def renderPath_def) (simp add: demoSsh_def)
qed

text \<open>
  C38.  Round trip: on a server whose successful writes are read back, a successful save followed by
  opening the same file shows exactly the text that was in the editor, whatever its characters.
\<close>

theorem save_then_open_shows_text:
  assumes reads_back: "\<And>s c p s'. writeContents ssh s c p = (True, s') \<Longrightarrow>
        contentsAtPath ssh s' p = (Some c, s')"
    and saved: "saveAnswer ssh 1 button name e s = ((e', Some (None, msg, True)), s')"
  shows "feText (fst (editorDidLoad ssh (feHelper e') False s')) = feText e"
proof -
  let ?h = "(feHelper e)\<lparr>fhName := Some name\<rparr>"
  from saved have e': "e' = e\<lparr>feHelper := ?h\<rparr>"
    and w: "saveFileContents ssh ?h (utf8Text (feText e)) s = (True, s')"
    by (auto simp: saveAnswer_def Let_def split: if_splits prod.splits)
  from reads_back [OF w [unfolded saveFileContents_def]]
  have "getFileContents ssh ?h s' = (Some (utf8Text (feText e)), s')" by (simp add: getFileContents_def)
  then show ?thesis by (simp add: editorDidLoad_def e')
qed

definition noteEditor :: file_editor where
  "noteEditor = \<lparr>feHelper = \<lparr>fhPwd = ''/home/bob/'', fhName = None\<rparr>, feContents = None,
     feFilename = None, feText = ofLatin [CHR 0xE9] @ [ucharOf 0x20AC], feEditable = True, feSaveEnabled = True,
     feCreating = True\<rparr>"

theorem save_then_open_shows_text_witness:
  "feText (fst (editorDidLoad demoSsh \<lparr>fhPwd = ''/home/bob/'', fhName = Some ''n''\<rparr> False
     [(''/home/bob/n'', utf8Text (ofLatin [CHR 0xE9] @ [ucharOf 0x20AC]))])) = ofLatin [CHR 0xE9] @ [ucharOf 0x20AC]"
proof -
  have rb: "writeContents demoSsh s c p = (True, s') \<Longrightarrow> contentsAtPath demoSsh s' p = (Some c, s')"
    for s c p s' by (auto simp: demoSsh_def)
  have saved: "saveAnswer demoSsh 1 1 ''n'' noteEditor []
      = ((noteEditor\<lparr>feHelper := \<lparr>fhPwd = ''/home/bob/'', fhName = Some ''n''\<rparr>\<rparr>,
          Some (None, ''File saved!'', True)), [(''/home/bob/n'', utf8Text (ofLatin [CHR 0xE9] @ [ucharOf 0x20AC]))])"
    by (simp add: saveAnswer_def noteEditor_def saveFileContents_def demoSsh_def entryPath_def)
  from save_then_open_shows_text [OF rb saved] show ?thesis by (simp add: noteEditor_def)
qed

text \<open>
  The read-only version is never shown: whenever the alert offers it and the user accepts, the
  editor opens with an empty (or one-blank) text, because the fetched contents are not put into the
  text view.
\<close>

theorem read_only_version_is_blank:
  assumes "editorDidLoad ssh h creating s = (e, Some msg, s1)" and "button \<noteq> 0"
  shows "\<exists>e' s2. readOnlyAnswer ssh button e s1 = (Some e', s2)
     \<and> feText e' \<in> {[], ofLatin '' ''} \<and> \<not> feEditable e' \<and> \<not> feSaveEnabled e'"
proof -
  from assms(1) have "feText e \<in> {[], ofLatin '' ''}"
    by (auto simp: editorDidLoad_def Let_def case_prod_unfold split: if_splits option.splits)
  with assms(2) show ?thesis by (auto simp: readOnlyAnswer_def case_prod_unfold Let_def)
qed

theorem read_only_version_is_blank_witness:
  "\<exists>e' s2. readOnlyAnswer demoSsh 1 (fst (editorDidLoad demoSsh \<lparr>fhPwd = ''/'', fhName = Some ''x''\<rparr> False []))
       [] = (Some e', s2)
     \<and> feText e' \<in> {[], ofLatin '' ''} \<and> \<not> feEditable e' \<and> \<not> feSaveEnabled e'"
proof -
  obtain e msg where "editorDidLoad demoSsh \<lparr>fhPwd = ''/'', fhName = Some ''x''\<rparr> False []
      = (e, Some msg, [])"
    by (simp add: editorDidLoad_def getFileContents_def demoSsh_def)
  from read_only_version_is_blank [OF this, of 1] this show ?thesis by simp
qed

end
