(* ===== verification/FilteredList.thy ===== *)
theory FilteredList
  imports Foundation
begin

text \<open>
  What the five searchable lists of the application share: a stock of items, a search field, and the
  items shown.  The locale states the contract of \<open>searchBar:textDidChange:\<close>; the list screens
  interpret it.
\<close>

locale searchable_list =
  fixes search :: "string \<Rightarrow> 's \<Rightarrow> 's"
    and shown :: "'s \<Rightarrow> 'a list"
    and stock :: "'s \<Rightarrow> 'a list"
    and matches :: "'s \<Rightarrow> string \<Rightarrow> 'a \<Rightarrow> bool"
  assumes search_empty: "shown (search '''' s) = stock s"
    and search_some: "q \<noteq> '''' \<Longrightarrow> shown (search q s) = filter (matches s q) (stock s)"
    and search_stock [simp]: "stock (search q s) = stock s"
    and search_matches [simp]: "matches (search q s) = matches s"
begin

lemma shown_subset: "set (shown (search q s)) \<subseteq> set (stock s)"
  by (cases "q = ''''") (auto simp: search_empty search_some)

text \<open>Only the last text typed counts.\<close>

lemma search_again: "shown (search q (search p s)) = shown (search q s)"
  by (cases "q = ''''") (simp_all add: search_empty search_some)

lemma stock_typing: "stock (fold search ps s) = stock s"
  by (induction ps arbitrary: s) simp_all

lemma matches_typing: "matches (fold search ps s) = matches s"
  by (induction ps arbitrary: s) simp_all

lemma typing_last: "shown (fold search (ps @ [q]) s) = shown (search q s)"
  by (cases "q = ''''") (simp_all add: search_empty search_some stock_typing matches_typing)

text \<open>Clearing the field brings everything back.\<close>

lemma clear_restores: "shown (fold search (ps @ ['''']) s) = stock s"
  using typing_last [of ps "''''" s] by (simp add: search_empty)

lemma order_kept: "\<exists>P. shown (search q s) = filter P (stock s)"
proof (cases "q = ''''")
  case True
  then have "shown (search q s) = filter (\<lambda>_. True) (stock s)" by (simp add: search_empty)
  then show ?thesis by (rule exI [of _ "\<lambda>_. True"])
next
  case False
  from search_some [OF this] show ?thesis by (rule exI [of _ "matches s q"])
qed

end

end
