(* ===== verification/Services.thy ===== *)
theory Services
  imports FilteredList SshSession
begin

text \<open>
  The service list (ManageProcessesLinuxViewController): loading the services and their status,
  pruning the unavailable ones, searching, and the stop/restart/start actions.  Service objects are
  shared between the full and the filtered list, so they live in a store and the lists hold
  references.
\<close>

section \<open>State\<close>

record linux_service =
  serviceName :: string
  serviceStatus :: "string option"

definition initWithServiceName :: "string \<Rightarrow> linux_service" where
  "initWithServiceName name = \<lparr>serviceName = name, serviceStatus = None\<rparr>"

record services_view =
  serviceStore :: "linux_service list"
  services :: "nat list"
  filteredServices :: "nat list"
  servicesFiltered :: bool

definition serviceAt :: "services_view \<Rightarrow> nat \<Rightarrow> linux_service" where
  "serviceAt v r = serviceStore v ! r"

section \<open>Loading\<close>

definition dropFirstEmpty :: "string list \<Rightarrow> string list" where
  "dropFirstEmpty xs = (if '''' \<in> set xs then removeFirst xs '''' else xs)"

text \<open>The status kept from a status command; a missing or unrecognized one leaves \<open>nil\<close>.\<close>

definition loadedStatus :: "string + string \<Rightarrow> string option" where
  "loadedStatus r =
     (let newResponse = responseOf r
      in if errorOf r \<noteq> None \<and> (newResponse = None \<or> newResponse = Some '''') then None
         else (case newResponse of
                 None \<Rightarrow> None
               | Some t \<Rightarrow>
                   if containsString t ''unrecognized'' \<or> length t \<le> 0 then None else Some t))"

fun loadLoop ::
  "'s ssh_api \<Rightarrow> string \<Rightarrow> string list \<Rightarrow> linux_service list \<Rightarrow> 's \<Rightarrow> linux_service list \<times> 's"
where
  "loadLoop ssh pw [] acc s = (acc, s)"
| "loadLoop ssh pw (name # names) acc s =
     (let (r, s) = executeCmd ssh s (''echo '' @ pw @ '' | sudo -S service '' @ name @ '' status'')
      in loadLoop ssh pw names (acc @ [(initWithServiceName name)\<lparr>serviceStatus := loadedStatus r\<rparr>]) s)"

text \<open>
  The test of the pruning loop: \<open>rangeOfString:\<close> sent to \<open>nil\<close> gives location 0, which is not
  \<open>NSNotFound\<close>.
\<close>

definition unavailable :: "linux_service \<Rightarrow> bool" where
  "unavailable x =
     (case serviceStatus x of
        None \<Rightarrow> True
      | Some t \<Rightarrow> containsString t ''unrecognized'' \<or> length t \<le> 0)"

text \<open>The pruning loop: the index moves on after a removal, too.\<close>

function pruneLoop :: "('a \<Rightarrow> bool) \<Rightarrow> nat \<Rightarrow> 'a list \<Rightarrow> 'a list" where
  "pruneLoop bad i xs =
     (if i < length xs
      then pruneLoop bad (Suc i) (if bad (xs ! i) then take i xs @ drop (Suc i) xs else xs)
      else xs)"
  by auto
termination
  by (relation "measure (\<lambda>(bad, i, xs). length xs - i)") auto

declare pruneLoop.simps [simp del]

text \<open>\<open>viewDidLoad\<close>: nothing is listed for a session that is not authorised or an error.\<close>

definition servicesDidLoad :: "'s ssh_api \<Rightarrow> bool \<Rightarrow> string \<Rightarrow> 's \<Rightarrow> services_view \<times> 's" where
  "servicesDidLoad ssh authorized pw s =
     (let empty = \<lparr>serviceStore = [], services = [], filteredServices = [], servicesFiltered = False\<rparr>
      in if \<not> authorized then (empty, s)
         else (let (r, s) = executeCmd ssh s (''echo '' @ pw @ '' | ls /etc/init.d/'')
               in case r of
                    Inl e \<Rightarrow> (empty, s)
                  | Inr response \<Rightarrow>
                      (let names = dropFirstEmpty (components [CHR 0x0A] response);
                           (objs, s) = loadLoop ssh pw names [] s
                       in (empty\<lparr>serviceStore := objs,
                             services := pruneLoop (\<lambda>r. unavailable (objs ! r)) 0 [0..<length objs]\<rparr>,
                           s))))"

section \<open>Rows and search\<close>

definition shownServices :: "services_view \<Rightarrow> nat list" where
  "shownServices v = (if servicesFiltered v then filteredServices v else services v)"

definition serviceRows :: "services_view \<Rightarrow> nat" where
  "serviceRows v = length (shownServices v)"

definition serviceCell :: "bool \<Rightarrow> nat \<Rightarrow> services_view \<Rightarrow> (string \<times> string) option outcome" where
  "serviceCell authorized row v =
     (if authorized
      then andThen (objectAtIndex (shownServices v) row) (\<lambda>r.
             Inr (Some (serviceName (serviceAt v r),
               case serviceStatus (serviceAt v r) of
                 None \<Rightarrow> ''Service status unavailable'' | Some t \<Rightarrow> t)))
      else Inr None)"

definition serviceMatches :: "services_view \<Rightarrow> string \<Rightarrow> nat \<Rightarrow> bool" where
  "serviceMatches v q r =
     (containsCD (Some (serviceName (serviceAt v r))) q \<or> containsCD (serviceStatus (serviceAt v r)) q)"

definition searchServices :: "string \<Rightarrow> services_view \<Rightarrow> services_view" where
  "searchServices q v =
     (if length q = 0 then v\<lparr>servicesFiltered := False\<rparr>
      else v\<lparr>servicesFiltered := True, filteredServices := filter (serviceMatches v q) (services v)\<rparr>)"

interpretation service_search: searchable_list searchServices shownServices services serviceMatches
  by unfold_locales
     (auto simp: searchServices_def shownServices_def serviceMatches_def serviceAt_def fun_eq_iff)

section \<open>Actions\<close>

text \<open>The alert for a row: its title and the tag it carries.\<close>

definition didSelectService :: "nat \<Rightarrow> services_view \<Rightarrow> (string \<times> nat) outcome" where
  "didSelectService row v =
     andThen (objectAtIndex (shownServices v) row) (\<lambda>r. Inr (serviceName (serviceAt v r), row))"

definition serviceCommand :: "string \<Rightarrow> string \<Rightarrow> string \<Rightarrow> string" where
  "serviceCommand pw name verb = ''echo '' @ pw @ '' | sudo -S service '' @ name @ '' '' @ verb"

definition setServiceStatus :: "nat \<Rightarrow> string \<Rightarrow> services_view \<Rightarrow> services_view" where
  "setServiceStatus r t v =
     v\<lparr>serviceStore := (serviceStore v)[r := (serviceAt v r)\<lparr>serviceStatus := Some t\<rparr>]\<rparr>"

text \<open>Putting the object back at its row, in the list that is shown.\<close>

definition replaceShown :: "nat \<Rightarrow> nat \<Rightarrow> services_view \<Rightarrow> services_view outcome" where
  "replaceShown tag r v =
     (if servicesFiltered v
      then andThen (replaceObjectAtIndex (filteredServices v) tag r) (\<lambda>xs.
             Inr (v\<lparr>filteredServices := xs\<rparr>))
      else andThen (replaceObjectAtIndex (services v) tag r) (\<lambda>xs. Inr (v\<lparr>services := xs\<rparr>)))"

text \<open>
  The tail of every action after its command worked: fetch the status, report, update the row.
\<close>

definition refreshStatus ::
  "'s ssh_api \<Rightarrow> string \<Rightarrow> nat \<Rightarrow> nat \<Rightarrow> string \<Rightarrow> string \<Rightarrow> services_view \<Rightarrow> 's
     \<Rightarrow> ((string \<times> string) \<times> services_view \<times> 's) outcome"
where
  "refreshStatus ssh pw tag r view participle v s =
     (let (res, s) = executeCmd ssh s (serviceCommand pw (serviceName (serviceAt v r)) ''status '')
      in case res of
           Inl e \<Rightarrow>
             andThen (objectAtIndex (services v) tag) (\<lambda>x.
               Inr ((''Error'', ''Could not update status of '' @ serviceName (serviceAt v x) @
                       ''. Status will not be reflected in service '' @ view @ ''.''), v, s))
         | Inr t \<Rightarrow>
             andThen (replaceShown tag r (setServiceStatus r t v)) (\<lambda>v.
               Inr ((''Alert'', ''Service '' @ serviceName (serviceAt v r) @ '' '' @ participle @ ''!''),
                    v, s)))"

text \<open>The command a button sends: Restart takes the service from the unfiltered list.\<close>

definition actionCommand ::
  "string \<Rightarrow> nat \<Rightarrow> int \<Rightarrow> services_view \<Rightarrow> string option outcome"
where
  "actionCommand pw tag button v =
     andThen (objectAtIndex (shownServices v) tag) (\<lambda>r.
       if button = 1 then Inr (Some (serviceCommand pw (serviceName (serviceAt v r)) ''stop''))
       else if button = 2
       then andThen (objectAtIndex (services v) tag) (\<lambda>x.
              Inr (Some (serviceCommand pw (serviceName (serviceAt v x)) ''restart'')))
       else if button = 3 then Inr (Some (serviceCommand pw (serviceName (serviceAt v r)) ''start''))
       else Inr None)"

text \<open>
  The alert after a failed command.  The message of Restart takes its name from the row with the
  number of the button.
\<close>

definition actionFailure :: "nat \<Rightarrow> int \<Rightarrow> services_view \<Rightarrow> (string \<times> string) outcome" where
  "actionFailure tag button v =
     andThen (objectAtIndex (shownServices v) tag) (\<lambda>r.
       if button = 1
       then Inr (''Error'', ''Could not stop service '' @ serviceName (serviceAt v r))
       else if button = 2
       then andThen (objectAtIndex (services v) (nat button)) (\<lambda>x.
              Inr (''Alert'', ''Could not restart service '' @ serviceName (serviceAt v x)))
       else Inr (''Error'', ''Could not start service '' @ serviceName (serviceAt v r)))"

text \<open>\<open>alertView:clickedButtonAtIndex:\<close>\<close>

definition serviceAlertClicked ::
  "'s ssh_api \<Rightarrow> string \<Rightarrow> nat \<Rightarrow> int \<Rightarrow> services_view \<Rightarrow> 's
     \<Rightarrow> ((string \<times> string) option \<times> services_view \<times> 's) outcome"
where
  "serviceAlertClicked ssh pw tag button v s =
     andThen (objectAtIndex (shownServices v) tag) (\<lambda>r.
     andThen (actionCommand pw tag button v) (\<lambda>cmd.
       case cmd of
         None \<Rightarrow> Inr (None, v, s)
       | Some c \<Rightarrow>
           (let (res, s) = executeCmd ssh s c
            in case res of
                 Inl e \<Rightarrow> andThen (actionFailure tag button v) (\<lambda>a. Inr (Some a, v, s))
               | Inr _ \<Rightarrow>
                   andThen (refreshStatus ssh pw tag r (if button = 1 then ''view'' else ''list'')
                              (if button = 1 then ''stopped'' else if button = 2 then ''restarted''
                               else ''started'') v s) (\<lambda>(a, v, s). Inr (Some a, v, s)))))"

section \<open>Pruning\<close>

text \<open>The loop seen from the element under the index: after a removal the next element is skipped.\<close>

fun pruneSkip :: "('a \<Rightarrow> bool) \<Rightarrow> 'a list \<Rightarrow> 'a list" where
  "pruneSkip bad [] = []"
| "pruneSkip bad [x] = (if bad x then [] else [x])"
| "pruneSkip bad (x # y # xs) =
     (if bad x then y # pruneSkip bad xs else x # pruneSkip bad (y # xs))"

lemma pruneLoop_skip: "i \<le> length xs \<Longrightarrow> pruneLoop bad i xs = take i xs @ pruneSkip bad (drop i xs)"
proof (induction bad i xs rule: pruneLoop.induct)
  case (1 bad i xs)
  show ?case
  proof (cases "i < length xs")
    case False
    with 1(2) show ?thesis by (subst pruneLoop.simps) simp
  next
    case True
    define ys where "ys = (if bad (xs ! i) then take i xs @ drop (Suc i) xs else xs)"
    have step: "pruneLoop bad i xs = pruneLoop bad (Suc i) ys"
      using True by (subst pruneLoop.simps) (simp add: ys_def)
    have d: "drop i xs = xs ! i # drop (Suc i) xs" using True by (simp add: Cons_nth_drop_Suc)
    show ?thesis
    proof (cases "Suc i \<le> length ys")
      case le: True
      with 1(1) True have IH: "pruneLoop bad (Suc i) ys
          = take (Suc i) ys @ pruneSkip bad (drop (Suc i) ys)"
        unfolding ys_def by blast
      show ?thesis
      proof (cases "bad (xs ! i)")
        case True
        with le \<open>i < length xs\<close> have "Suc i < length xs" by (simp add: ys_def min_def)
        then have "drop (Suc i) xs = xs ! Suc i # drop (Suc (Suc i)) xs"
          by (simp add: Cons_nth_drop_Suc)
        with True \<open>i < length xs\<close> show ?thesis
          unfolding step IH d by (simp add: ys_def min_def take_Suc_conv_app_nth)
      next
        case False
        have "take (Suc i) xs = take i xs @ [xs ! i]"
          using \<open>i < length xs\<close> by (rule take_Suc_conv_app_nth)
        with False show ?thesis unfolding step IH d
          by (cases "drop (Suc i) xs") (simp_all add: ys_def)
      qed
    next
      case False
      with True have bad: "bad (xs ! i)" and last: "length xs = Suc i"
        by (auto simp: ys_def min_def split: if_splits)
      with True have "pruneLoop bad (Suc i) ys = ys"
        by (subst pruneLoop.simps) (simp add: ys_def)
      with bad last show ?thesis unfolding step d by (simp add: ys_def)
    qed
  qed
qed

lemma pruneLoop_0: "pruneLoop bad 0 xs = pruneSkip bad xs"
  by (simp add: pruneLoop_skip)

text \<open>Two neighbours that are both bad.\<close>

fun badPair :: "('a \<Rightarrow> bool) \<Rightarrow> 'a list \<Rightarrow> bool" where
  "badPair bad (x # y # xs) = ((bad x \<and> bad y) \<or> badPair bad (y # xs))"
| "badPair bad _ = False"

lemma pruneSkip_keeps_good:
  "filter (\<lambda>x. \<not> bad x) (pruneSkip bad xs) = filter (\<lambda>x. \<not> bad x) xs"
  by (induction bad xs rule: pruneSkip.induct) auto

lemma badPair_Cons_good: "\<not> bad x \<Longrightarrow> badPair bad (x # xs) = badPair bad xs"
  by (cases xs) auto

lemma pruneSkip_clean:
  "list_all (\<lambda>x. \<not> bad x) (pruneSkip bad xs) \<longleftrightarrow> \<not> badPair bad xs"
proof (induction bad xs rule: pruneSkip.induct)
  case (3 bad x y xs)
  then show ?case by (auto simp: badPair_Cons_good)
qed auto

lemma upt_badPair: "badPair bad [k..<n] \<longleftrightarrow> (\<exists>i. k \<le> i \<and> Suc i < n \<and> bad i \<and> bad (Suc i))"
proof (induction "n - k" arbitrary: k)
  case (Suc m)
  then have k: "k < n" by simp
  show ?case
  proof (cases "Suc k < n")
    case True
    then have "[k..<n] = k # Suc k # [Suc (Suc k)..<n]" using k by (simp add: upt_conv_Cons)
    moreover have "[Suc k..<n] = Suc k # [Suc (Suc k)..<n]" using True by (simp add: upt_conv_Cons)
    moreover have "badPair bad [Suc k..<n] \<longleftrightarrow> (\<exists>i\<ge>Suc k. Suc i < n \<and> bad i \<and> bad (Suc i))"
      using Suc.hyps by (intro Suc.hyps) simp
    ultimately have pair: "badPair bad [k..<n] \<longleftrightarrow> (bad k \<and> bad (Suc k)) \<or>
        (\<exists>i\<ge>Suc k. Suc i < n \<and> bad i \<and> bad (Suc i))" by simp
    have split: "(\<exists>i\<ge>k. P i) \<longleftrightarrow> P k \<or> (\<exists>i\<ge>Suc k. P i)" for P
    proof
      assume "\<exists>i\<ge>k. P i"
      then obtain i where "k \<le> i" "P i" by blast
      then show "P k \<or> (\<exists>i\<ge>Suc k. P i)" by (cases "i = k") auto
    qed (auto intro: exI [of _ k] dest: Suc_leD)
    show ?thesis unfolding pair split [of "\<lambda>i. Suc i < n \<and> bad i \<and> bad (Suc i)"]
      using True by simp
  next
    case False
    with k have "[k..<n] = [k]" by (simp add: upt_conv_Cons)
    with False show ?thesis by auto
  qed
qed simp

section \<open>Properties\<close>

text \<open>
  C16.  After loading, every available service is listed, in order; an unavailable one is left in the
  list exactly when two neighbouring services of the directory are both unavailable, because the
  pruning loop skips the element after each removal.
\<close>

theorem loaded_services_pruned:
  "filter (\<lambda>r. \<not> unavailable (serviceAt (fst (servicesDidLoad ssh auth pw s)) r))
       (services (fst (servicesDidLoad ssh auth pw s)))
     = filter (\<lambda>r. \<not> unavailable (serviceAt (fst (servicesDidLoad ssh auth pw s)) r))
         [0..<length (serviceStore (fst (servicesDidLoad ssh auth pw s)))]
   \<and> ((\<exists>r \<in> set (services (fst (servicesDidLoad ssh auth pw s))).
          unavailable (serviceAt (fst (servicesDidLoad ssh auth pw s)) r)) \<longleftrightarrow>
      (\<exists>i. Suc i < length (serviceStore (fst (servicesDidLoad ssh auth pw s)))
         \<and> unavailable (serviceAt (fst (servicesDidLoad ssh auth pw s)) i)
         \<and> unavailable (serviceAt (fst (servicesDidLoad ssh auth pw s)) (Suc i))))"
proof -
  define v where "v = fst (servicesDidLoad ssh auth pw s)"
  have v: "services v = pruneSkip (\<lambda>r. unavailable (serviceAt v r)) [0..<length (serviceStore v)]"
    by (auto simp: v_def servicesDidLoad_def Let_def serviceAt_def pruneLoop_0
        split: prod.split sum.split)
  have "(\<exists>r \<in> set (services v). unavailable (serviceAt v r)) \<longleftrightarrow>
      (\<exists>i. Suc i < length (serviceStore v) \<and> unavailable (serviceAt v i) \<and> unavailable (serviceAt v (Suc i)))"
    using pruneSkip_clean [of "\<lambda>r. unavailable (serviceAt v r)" "[0..<length (serviceStore v)]"]
    unfolding v [symmetric] upt_badPair by (auto simp: list_all_iff)
  moreover have "filter (\<lambda>r. \<not> unavailable (serviceAt v r)) (services v)
      = filter (\<lambda>r. \<not> unavailable (serviceAt v r)) [0..<length (serviceStore v)]"
    unfolding v by (rule pruneSkip_keeps_good)
  ultimately show ?thesis unfolding v_def by simp
qed

text \<open>
  Stop and Start act on the service shown at the row that was tapped, Restart acts on the service
  at that row of the unfiltered list: under a search the two differ whenever the names do.
\<close>

theorem restart_ignores_search:
  assumes "tag < length (shownServices v)" and "tag < length (services v)"
  shows "actionCommand pw tag 1 v
        = Inr (Some (serviceCommand pw (serviceName (serviceAt v (shownServices v ! tag))) ''stop''))
    \<and> actionCommand pw tag 3 v
        = Inr (Some (serviceCommand pw (serviceName (serviceAt v (shownServices v ! tag))) ''start''))
    \<and> actionCommand pw tag 2 v
        = Inr (Some (serviceCommand pw (serviceName (serviceAt v (services v ! tag))) ''restart''))
    \<and> (actionCommand pw tag 2 v
        = Inr (Some (serviceCommand pw (serviceName (serviceAt v (shownServices v ! tag))) ''restart''))
       \<longleftrightarrow> serviceName (serviceAt v (shownServices v ! tag)) = serviceName (serviceAt v (services v ! tag)))"
  using assms by (auto simp: actionCommand_def serviceCommand_def)

definition twoServices :: services_view where
  "twoServices = \<lparr>serviceStore = [\<lparr>serviceName = ''cron'', serviceStatus = Some ''up''\<rparr>,
                                  \<lparr>serviceName = ''ssh'', serviceStatus = Some ''up''\<rparr>],
                  services = [0, 1], filteredServices = [], servicesFiltered = False\<rparr>"

lemma twoServices_search:
  "searchServices ''ssh'' twoServices = twoServices\<lparr>filteredServices := [1], servicesFiltered := True\<rparr>"
  by (simp add: searchServices_def twoServices_def serviceMatches_def serviceAt_def containsCD_def
      foldCD_def lowerChar_def baseChar_def hasPrefix_def Let_def)

theorem restart_ignores_search_witness:
  "actionCommand ''pw'' 0 2 (searchServices ''ssh'' twoServices)
     = Inr (Some ''echo pw | sudo -S service cron restart'')
   \<and> actionCommand ''pw'' 0 1 (searchServices ''ssh'' twoServices)
     = Inr (Some ''echo pw | sudo -S service ssh stop'')"
proof -
  let ?v = "searchServices ''ssh'' twoServices"
  have rows: "shownServices ?v = [1]" "services ?v = [0, 1]"
    "serviceName (serviceAt ?v 0) = ''cron''" "serviceName (serviceAt ?v 1) = ''ssh''"
    unfolding twoServices_search by (simp_all add: twoServices_def shownServices_def serviceAt_def)
  then have "0 < length (shownServices ?v)" "0 < length (services ?v)" by simp_all
  from restart_ignores_search [OF this, of "''pw''"] show ?thesis
    unfolding rows nth_Cons_0 by (simp add: serviceCommand_def)
qed

text \<open>
  When an action reports success, the status fetched last is the one the tapped row shows, and
  the same object shows it in the other list too: both lists hold references to one object.
\<close>

theorem action_updates_both_lists:
  assumes "refreshStatus ssh pw tag r w p v s = Inr ((''Alert'', msg), v', s')"
    and "r < length (serviceStore v)" and "shownServices v ! tag = r" and "tag < length (shownServices v)"
  shows "\<exists>t. executeCmd ssh s (serviceCommand pw (serviceName (serviceAt v r)) ''status '') = (Inr t, s')
     \<and> serviceStatus (serviceAt v' r) = Some t
     \<and> shownServices v' = shownServices v \<and> services v' = services v
     \<and> (\<forall>x. x \<noteq> r \<longrightarrow> serviceAt v' x = serviceAt v x)"
proof -
  obtain res s1 where cmd: "executeCmd ssh s (serviceCommand pw (serviceName (serviceAt v r)) ''status '')
      = (res, s1)" by fastforce
  from assms(1) cmd obtain t where res: "res = Inr t"
    and upd: "replaceShown tag r (setServiceStatus r t v) = Inr v'" and s': "s' = s1"
    by (cases res) (auto simp: refreshStatus_def andThen_Inr_iff objectAtIndex_Inr_iff)
  let ?v = "setServiceStatus r t v"
  have idem: "(shownServices v)[tag := r] = shownServices v" using assms(3,4) by (metis list_update_id)
  have same: "serviceStore v' = serviceStore ?v \<and> services v' = services v
      \<and> shownServices v' = shownServices v"
  proof (cases "servicesFiltered v")
    case True
    with idem assms(4) have "(filteredServices v)[tag := r] = filteredServices v"
      and "tag < length (filteredServices v)" by (simp_all add: shownServices_def)
    with True upd have "v' = ?v"
      by (simp add: replaceShown_def setServiceStatus_def replaceObjectAtIndex_def)
    then show ?thesis by (simp add: shownServices_def setServiceStatus_def)
  next
    case False
    with idem assms(4) have "(services v)[tag := r] = services v" and "tag < length (services v)"
      by (simp_all add: shownServices_def)
    with False upd have "v' = ?v"
      by (simp add: replaceShown_def setServiceStatus_def replaceObjectAtIndex_def)
    then show ?thesis by (simp add: shownServices_def setServiceStatus_def)
  qed
  from same assms(2) have "serviceStatus (serviceAt v' r) = Some t"
    "\<forall>x. x \<noteq> r \<longrightarrow> serviceAt v' x = serviceAt v x"
    "shownServices v' = shownServices v \<and> services v' = services v"
    by (auto simp: serviceAt_def setServiceStatus_def)
  with cmd res s' show ?thesis by blast
qed

definition upSsh :: "unit ssh_api" where
  "upSsh =
     \<lparr>executeCmd = (\<lambda>s c. (Inr ''down'', s)), lastErrorText = (\<lambda>s. None), sftpConnected = (\<lambda>s. True),
      contentsOfDirectoryAtPath = (\<lambda>s p. (None, s)), removeDirectoryAtPath = (\<lambda>s p. (False, s)),
      removeFileAtPath = (\<lambda>s p. (False, s)), contentsAtPath = (\<lambda>s p. (None, s)),
      writeContents = (\<lambda>s c p. (False, s)), disconnectAll = (\<lambda>s. s)\<rparr>"

theorem action_updates_both_lists_witness:
  "\<exists>v'. refreshStatus upSsh ''pw'' 0 1 ''view'' ''stopped'' (searchServices ''ssh'' twoServices) ()
       = Inr ((''Alert'', ''Service ssh stopped!''), v', ())
     \<and> serviceStatus (serviceAt v' 1) = Some ''down'' \<and> services v' = [0, 1]"
proof -
  let ?v = "searchServices ''ssh'' twoServices"
  have "\<exists>v'. refreshStatus upSsh ''pw'' 0 1 ''view'' ''stopped'' ?v () = Inr ((''Alert'', ''Service ssh stopped!''), v', ())"
    by (simp add: twoServices_search)
       (simp add: refreshStatus_def upSsh_def serviceAt_def twoServices_def replaceShown_def
          setServiceStatus_def replaceObjectAtIndex_def)
  then obtain v' where run: "refreshStatus upSsh ''pw'' 0 1 ''view'' ''stopped'' ?v ()
      = Inr ((''Alert'', ''Service ssh stopped!''), v', ())" by blast
  have "1 < length (serviceStore ?v)" "shownServices ?v ! 0 = 1" "0 < length (shownServices ?v)"
    "services ?v = [0, 1]"
    by (simp_all add: twoServices_search) (simp_all add: twoServices_def shownServices_def)
  with action_updates_both_lists [OF run] run show ?thesis by (auto simp: upSsh_def)
qed

end
