(* ===== verification/Packages.thy ===== *)
theory Packages
  imports FilteredList SshSession
begin

text \<open>
  The software screens: the choice of a package manager and the four lists (apt-get and yum, to
  install and installed).  Each parses the output of its own command; all share the search contract
  of FilteredList.  \<open>containsString\<close> tests, splits and index accesses are the code's, so a line of
  the wrong shape raises as it does there.
\<close>

section \<open>Software and the four views\<close>

record linux_software =
  softwareName :: string
  softwareDescription :: string

definition initWithSoftwareName :: "string \<Rightarrow> linux_software" where
  "initWithSoftwareName n = \<lparr>softwareName = n, softwareDescription = ''''\<rparr>"

definition initWithSoftwareNameAndDescription :: "string \<Rightarrow> string \<Rightarrow> linux_software" where
  "initWithSoftwareNameAndDescription n d = \<lparr>softwareName = n, softwareDescription = d\<rparr>"

record software_view =
  daSoftwares :: "linux_software list"
  filteredSoftwares :: "linux_software list"
  softwareFiltered :: bool

definition emptyView :: software_view where
  "emptyView = \<lparr>daSoftwares = [], filteredSoftwares = [], softwareFiltered = False\<rparr>"

definition shownSoftware :: "software_view \<Rightarrow> linux_software list" where
  "shownSoftware v = (if softwareFiltered v then filteredSoftwares v else daSoftwares v)"

type_synonym alert = "string \<times> string"

text \<open>The first component of a split; every split has one.\<close>

definition firstField :: "string \<Rightarrow> string \<Rightarrow> string outcome" where
  "firstField sep line = objectAtIndex (components sep line) 0"

lemma firstField_ok: "firstField sep line = Inr (hd (components sep line))"
  by (simp add: firstField_def hd_conv_nth)

section \<open>apt-get: installed software\<close>

fun aptInstalledLines :: "string list \<Rightarrow> linux_software list outcome" where
  "aptInstalledLines [] = Inr []"
| "aptInstalledLines (l # ls) =
     andThen (firstField [CHR 0x09] l) (\<lambda>n.
     andThen (aptInstalledLines ls) (\<lambda>sw.
       Inr (initWithSoftwareNameAndDescription n ''Installed'' # sw)))"

definition aptListCommand :: "string \<Rightarrow> string" where
  "aptListCommand pw = ''echo '' @ pw @ '' | sudo -S dpkg --get-selections | grep -v deinstall''"

definition aptInstalledDidLoad ::
  "'s ssh_api \<Rightarrow> bool \<Rightarrow> bool \<Rightarrow> string \<Rightarrow> 's \<Rightarrow> (alert option \<times> software_view \<times> 's) outcome"
where
  "aptInstalledDidLoad ssh connected authorized pw s =
     (if connected \<and> authorized
      then (let (r, s) = executeCmd ssh s (aptListCommand pw)
            in case r of
                 Inl e \<Rightarrow> Inr (Some (''Error'', e), emptyView, s)
               | Inr t \<Rightarrow>
                   andThen (aptInstalledLines (components [CHR 0x0A] t)) (\<lambda>sw.
                     Inr (None, emptyView\<lparr>daSoftwares := sw\<rparr>, s)))
      else Inr (None, emptyView, s))"

definition aptInstalledSearch :: "string \<Rightarrow> software_view \<Rightarrow> software_view" where
  "aptInstalledSearch q v =
     (if length q = 0 then v\<lparr>softwareFiltered := False\<rparr>
      else v\<lparr>softwareFiltered := True,
             filteredSoftwares := filter (\<lambda>x. containsCD (Some (softwareName x)) q
               \<or> containsCD (Some (softwareDescription x)) q) (daSoftwares v)\<rparr>)"

definition aptInstalledRows :: "software_view \<Rightarrow> nat" where
  "aptInstalledRows v = (if softwareFiltered v then length (filteredSoftwares v) else length (daSoftwares v))"

definition aptInstalledCell :: "nat \<Rightarrow> software_view \<Rightarrow> (string \<times> string) outcome" where
  "aptInstalledCell row v =
     andThen (objectAtIndex (shownSoftware v) row) (\<lambda>x. Inr (softwareName x, softwareDescription x))"

text \<open>Selecting a row: the alert's message and tag.\<close>

definition aptInstalledSelect :: "nat \<Rightarrow> software_view \<Rightarrow> (string \<times> nat) outcome" where
  "aptInstalledSelect row v =
     andThen (objectAtIndex (shownSoftware v) row) (\<lambda>x. Inr (''Actions for '' @ softwareName x, row))"

text \<open>Running one command and showing its error text or a success text.\<close>

definition runAndAlert ::
  "'s ssh_api \<Rightarrow> string \<Rightarrow> (string \<Rightarrow> string) \<Rightarrow> (string \<Rightarrow> string) \<Rightarrow> 's \<Rightarrow> alert \<times> 's"
where
  "runAndAlert ssh command errText okText s =
     (let (r, s) = executeCmd ssh s command
      in (case r of Inl e \<Rightarrow> (''Error'', errText e) | Inr t \<Rightarrow> (''Alert'', okText t), s))"

definition aptInstalledClicked ::
  "'s ssh_api \<Rightarrow> string \<Rightarrow> nat \<Rightarrow> int \<Rightarrow> software_view \<Rightarrow> 's \<Rightarrow> (alert option \<times> 's) outcome"
where
  "aptInstalledClicked ssh pw tag button v s =
     andThen (objectAtIndex (shownSoftware v) tag) (\<lambda>x.
       if button = 1
       then (let (a, s) = runAndAlert ssh (''echo '' @ pw @ '' | sudo -S dpkg --purge '' @ softwareName x)
                            (\<lambda>_. ''Could not uninstall '' @ softwareName x) (\<lambda>t. t) s
             in Inr (Some a, s))
       else if button = 2
       then (let (a, s) = runAndAlert ssh
                            (''echo '' @ pw @ '' | sudo -S apt-get install --only-upgrade '' @ softwareName x)
                            (\<lambda>_. ''Could not update '' @ softwareName x) (\<lambda>t. t) s
             in Inr (Some a, s))
       else Inr (None, s))"

text \<open>\<open>updateData\<close>: both lists are emptied first.\<close>

definition aptUpdateData ::
  "'s ssh_api \<Rightarrow> string \<Rightarrow> software_view \<Rightarrow> 's \<Rightarrow> (alert option \<times> software_view \<times> 's) outcome"
where
  "aptUpdateData ssh pw v s =
     (let v = v\<lparr>daSoftwares := [], filteredSoftwares := []\<rparr>;
          (r, s) = executeCmd ssh s (aptListCommand pw)
      in case r of
           Inl e \<Rightarrow> Inr (Some (''Error'', e), v, s)
         | Inr t \<Rightarrow>
             andThen (aptInstalledLines (components [CHR 0x0A] t)) (\<lambda>sw.
               Inr (None, v\<lparr>daSoftwares := sw\<rparr>, s)))"

section \<open>apt-get: new software\<close>

definition withoutFirstEmpty :: "string list \<Rightarrow> string list" where
  "withoutFirstEmpty xs = (if '''' \<in> set xs then removeFirst xs '''' else xs)"

text \<open>The description is the second component; a line without one raises.\<close>

fun aptAvailableLines :: "string list \<Rightarrow> linux_software list outcome" where
  "aptAvailableLines [] = Inr []"
| "aptAvailableLines (l # ls) =
     (let fields = components '' - '' l
      in andThen (objectAtIndex fields 0) (\<lambda>n.
         andThen (objectAtIndex fields 1) (\<lambda>d.
         andThen (aptAvailableLines ls) (\<lambda>sw.
           Inr (initWithSoftwareNameAndDescription n d # sw)))))"

definition aptAvailableDidLoad ::
  "'s ssh_api \<Rightarrow> bool \<Rightarrow> string \<Rightarrow> 's \<Rightarrow> (software_view \<times> 's) outcome"
where
  "aptAvailableDidLoad ssh authorized pw s =
     (if authorized
      then (let (r, s) = executeCmd ssh s (''echo '' @ pw @ '' | sudo -S apt-cache search .'')
            in case r of
                 Inl e \<Rightarrow> Inr (emptyView, s)
               | Inr t \<Rightarrow>
                   andThen (aptAvailableLines (withoutFirstEmpty (components [CHR 0x0A] t))) (\<lambda>sw.
                     Inr (emptyView\<lparr>daSoftwares := sw\<rparr>, s)))
      else Inr (emptyView, s))"

definition aptAvailableSearch :: "string \<Rightarrow> software_view \<Rightarrow> software_view" where
  "aptAvailableSearch q v =
     (if length q = 0 then v\<lparr>softwareFiltered := False\<rparr>
      else v\<lparr>softwareFiltered := True,
             filteredSoftwares := filter (\<lambda>x. containsCD (Some (softwareName x)) q
               \<or> containsCD (Some (softwareDescription x)) q) (daSoftwares v)\<rparr>)"

definition aptAvailableCell :: "nat \<Rightarrow> software_view \<Rightarrow> (string \<times> string) outcome" where
  "aptAvailableCell row v =
     andThen (objectAtIndex (shownSoftware v) row) (\<lambda>x. Inr (softwareName x, softwareDescription x))"

definition aptAvailableSelect :: "nat \<Rightarrow> software_view \<Rightarrow> (string \<times> nat) outcome" where
  "aptAvailableSelect row v =
     andThen (objectAtIndex (shownSoftware v) row) (\<lambda>x.
       Inr (''Would you like to install '' @ softwareName x @ ''?'', row))"

definition aptAvailableClicked ::
  "'s ssh_api \<Rightarrow> string \<Rightarrow> nat \<Rightarrow> int \<Rightarrow> software_view \<Rightarrow> 's \<Rightarrow> (alert option \<times> 's) outcome"
where
  "aptAvailableClicked ssh pw tag button v s =
     andThen (objectAtIndex (shownSoftware v) tag) (\<lambda>x.
       if button = 1
       then (let (a, s) = runAndAlert ssh
                            (''echo '' @ pw @ '' | sudo -S apt-get -y install '' @ softwareName x)
                            (\<lambda>_. ''Could not install '' @ softwareName x @ ''!'' @ [CHR 0x0A]) (\<lambda>t. t) s
             in Inr (Some a, s))
       else Inr (None, s))"

section \<open>yum: installed software\<close>

definition crlf :: string where
  "crlf = [CHR 0x0D, CHR 0x0A]"

definition yumListCommand :: "string \<Rightarrow> string" where
  "yumListCommand pw = ''echo '' @ pw @ '' | sudo -S yum list installed''"

text \<open>A continuation line starts with a blank, so its first component is empty; it is skipped.\<close>

fun yumInstalledLines :: "string list \<Rightarrow> linux_software list outcome" where
  "yumInstalledLines [] = Inr []"
| "yumInstalledLines (l # ls) =
     andThen (firstField '' '' l) (\<lambda>n.
       if n = '''' then yumInstalledLines ls
       else andThen (yumInstalledLines ls) (\<lambda>sw. Inr (initWithSoftwareName n # sw)))"

definition yumInstalledDidLoad ::
  "'s ssh_api \<Rightarrow> bool \<Rightarrow> string \<Rightarrow> 's \<Rightarrow> (software_view \<times> 's) outcome"
where
  "yumInstalledDidLoad ssh authorized pw s =
     (if authorized
      then (let (r, s) = executeCmd ssh s (yumListCommand pw)
            in case r of
                 Inl e \<Rightarrow> Inr (emptyView, s)
               | Inr t \<Rightarrow>
                   andThen (removeObjectAtIndex (withoutFirstEmpty (components crlf t)) 0) (\<lambda>tmp.
                   andThen (removeObjectAtIndex tmp 0) (\<lambda>tmp.
                   andThen (yumInstalledLines tmp) (\<lambda>sw.
                     Inr (emptyView\<lparr>daSoftwares := sw\<rparr>, s)))))
      else Inr (emptyView, s))"

definition yumInstalledSearch :: "string \<Rightarrow> software_view \<Rightarrow> software_view" where
  "yumInstalledSearch q v =
     (if length q = 0 then v\<lparr>softwareFiltered := False\<rparr>
      else v\<lparr>softwareFiltered := True,
             filteredSoftwares := filter (\<lambda>x. containsCD (Some (softwareName x)) q) (daSoftwares v)\<rparr>)"

definition yumInstalledCell :: "nat \<Rightarrow> software_view \<Rightarrow> string outcome" where
  "yumInstalledCell row v = andThen (objectAtIndex (shownSoftware v) row) (\<lambda>x. Inr (softwareName x))"

definition yumInstalledSelect :: "nat \<Rightarrow> software_view \<Rightarrow> (string \<times> nat) outcome" where
  "yumInstalledSelect row v =
     andThen (objectAtIndex (shownSoftware v) row) (\<lambda>x.
       Inr (''Would you like to install '' @ softwareName x, row))"

text \<open>
  \<open>updateTableData\<close> after a removal.  It appends to the list it has, splits at line feeds only, drops
  one header line and keeps every line.
\<close>

fun yumRefreshLines :: "string list \<Rightarrow> linux_software list outcome" where
  "yumRefreshLines [] = Inr []"
| "yumRefreshLines (l # ls) =
     andThen (firstField '' '' l) (\<lambda>n.
     andThen (yumRefreshLines ls) (\<lambda>sw. Inr (initWithSoftwareName n # sw)))"

definition updateTableData ::
  "'s ssh_api \<Rightarrow> bool \<Rightarrow> string \<Rightarrow> software_view \<Rightarrow> 's \<Rightarrow> (software_view \<times> 's) outcome"
where
  "updateTableData ssh authorized pw v s =
     (let v = (if softwareFiltered v then v\<lparr>softwareFiltered := False\<rparr> else v)
      in if authorized
         then (let (r, s) = executeCmd ssh s (yumListCommand pw)
               in case r of
                    Inl e \<Rightarrow> Inr (v, s)
                  | Inr t \<Rightarrow>
                      andThen (removeObjectAtIndex (withoutFirstEmpty (components [CHR 0x0A] t)) 0) (\<lambda>tmp.
                      andThen (yumRefreshLines tmp) (\<lambda>sw.
                        Inr (v\<lparr>daSoftwares := daSoftwares v @ sw\<rparr>, s))))
         else Inr (v, s))"

text \<open>\<open>flags\<close> is the empty string from loading on.\<close>

definition yumInstalledClicked ::
  "'s ssh_api \<Rightarrow> bool \<Rightarrow> string \<Rightarrow> string \<Rightarrow> nat \<Rightarrow> int \<Rightarrow> software_view \<Rightarrow> 's
     \<Rightarrow> (alert option \<times> software_view \<times> 's) outcome"
where
  "yumInstalledClicked ssh authorized pw flags tag button v s =
     andThen (objectAtIndex (shownSoftware v) tag) (\<lambda>x.
       if button = 1
       then (let (a, s) = runAndAlert ssh
                            (''echo '' @ pw @ '' | sudo -S yum update -y '' @ flags @ '' '' @ softwareName x)
                            (\<lambda>e. e) (\<lambda>_. softwareName x @ '' updated successfully!'') s
             in Inr (Some a, v, s))
       else if button = 2
       then (let (a, s) = runAndAlert ssh
                            (''echo '' @ pw @ '' | sudo -S yum remove -y '' @ flags @ '' '' @ softwareName x)
                            (\<lambda>e. e) (\<lambda>_. softwareName x @ '' removed successfully!'') s
             in andThen (updateTableData ssh authorized pw v s) (\<lambda>(v, s). Inr (Some a, v, s)))
       else Inr (None, v, s))"

section \<open>yum: new software\<close>

fun yumAvailableLines :: "string list \<Rightarrow> linux_software list outcome" where
  "yumAvailableLines [] = Inr []"
| "yumAvailableLines (l # ls) =
     (if \<not> containsString l ''.x86'' \<and> \<not> containsString l ''.noarch'' then yumAvailableLines ls
      else andThen (firstField '' '' l) (\<lambda>n.
           andThen (yumAvailableLines ls) (\<lambda>sw. Inr (initWithSoftwareName n # sw))))"

definition yumAvailableDidLoad ::
  "'s ssh_api \<Rightarrow> bool \<Rightarrow> string \<Rightarrow> 's \<Rightarrow> (software_view \<times> 's) outcome"
where
  "yumAvailableDidLoad ssh authorized pw s =
     (if authorized
      then (let (r, s) = executeCmd ssh s (''echo '' @ pw @ '' | sudo -S yum list'')
            in case r of
                 Inl e \<Rightarrow> Inr (emptyView, s)
               | Inr t \<Rightarrow>
                   andThen (yumAvailableLines (components crlf t)) (\<lambda>sw.
                     Inr (emptyView\<lparr>daSoftwares := sw\<rparr>, s)))
      else Inr (emptyView, s))"

text \<open>The progress texts of the loop.\<close>

definition yumProgress :: "string list \<Rightarrow> string list" where
  "yumProgress tmp =
     map (\<lambda>i. ''Loading package '' @ showNat (Suc i) @ ''/'' @ showNat (length tmp)) [0..<length tmp]"

definition yumAvailableSearch :: "string \<Rightarrow> software_view \<Rightarrow> software_view" where
  "yumAvailableSearch q v =
     (if length q = 0 then v\<lparr>softwareFiltered := False\<rparr>
      else v\<lparr>softwareFiltered := True,
             filteredSoftwares := filter (\<lambda>x. containsCD (Some (softwareName x)) q) (daSoftwares v)\<rparr>)"

definition yumAvailableCell :: "nat \<Rightarrow> software_view \<Rightarrow> string outcome" where
  "yumAvailableCell row v = andThen (objectAtIndex (shownSoftware v) row) (\<lambda>x. Inr (softwareName x))"

text \<open>The alert comes with \<open>didDeselectRowAtIndexPath\<close>, that is for the row left behind.\<close>

definition yumAvailableDeselect :: "nat \<Rightarrow> software_view \<Rightarrow> (string \<times> nat) outcome" where
  "yumAvailableDeselect row v =
     andThen (objectAtIndex (shownSoftware v) row) (\<lambda>x.
       Inr (''Would you like to install '' @ softwareName x, row))"

definition yumAvailableClicked ::
  "'s ssh_api \<Rightarrow> string \<Rightarrow> nat \<Rightarrow> int \<Rightarrow> software_view \<Rightarrow> 's \<Rightarrow> (alert option \<times> 's) outcome"
where
  "yumAvailableClicked ssh pw tag button v s =
     andThen (objectAtIndex (shownSoftware v) tag) (\<lambda>x.
       if button = 1
       then (let (a, s) = runAndAlert ssh
                            (''echo '' @ pw @ '' | sudo -S yum install -y '' @ softwareName x)
                            (\<lambda>e. e) (\<lambda>_. softwareName x @ '' was installed successfully'') s
             in Inr (Some a, s))
       else Inr (None, s))"

section \<open>Choosing the package manager\<close>

definition packageManagers :: "string list" where
  "packageManagers = [''yum'', ''apt-get'']"

text \<open>Selecting a manager: the tag of the alert that asks what to do.\<close>

definition selectManager :: "nat \<Rightarrow> nat option outcome" where
  "selectManager row =
     andThen (objectAtIndex packageManagers row) (\<lambda>m.
       if m = ''apt-get'' then Inr (Some 1) else if m = ''yum'' then Inr (Some 2) else Inr None)"

datatype software_screen = AptInstallNew | YumInstallNew | AptListInstalled | YumListInstalled

definition managerAlertClicked :: "nat \<Rightarrow> int \<Rightarrow> software_screen option" where
  "managerAlertClicked tag button =
     (if button = 1
      then (if tag = 1 then Some AptInstallNew else if tag = 2 then Some YumInstallNew else None)
      else if button = 2
      then (if tag = 1 then Some AptListInstalled else if tag = 2 then Some YumListInstalled else None)
      else None)"

section \<open>The search contract of the four lists\<close>

definition matchesBoth :: "software_view \<Rightarrow> string \<Rightarrow> linux_software \<Rightarrow> bool" where
  "matchesBoth v q =
     (\<lambda>x. containsCD (Some (softwareName x)) q \<or> containsCD (Some (softwareDescription x)) q)"

definition matchesName :: "software_view \<Rightarrow> string \<Rightarrow> linux_software \<Rightarrow> bool" where
  "matchesName v q = (\<lambda>x. containsCD (Some (softwareName x)) q)"

interpretation apt_installed: searchable_list aptInstalledSearch shownSoftware daSoftwares matchesBoth
  by unfold_locales (auto simp: aptInstalledSearch_def shownSoftware_def matchesBoth_def fun_eq_iff)

interpretation apt_available: searchable_list aptAvailableSearch shownSoftware daSoftwares matchesBoth
  by unfold_locales (auto simp: aptAvailableSearch_def shownSoftware_def matchesBoth_def fun_eq_iff)

interpretation yum_installed: searchable_list yumInstalledSearch shownSoftware daSoftwares matchesName
  by unfold_locales (auto simp: yumInstalledSearch_def shownSoftware_def matchesName_def fun_eq_iff)

interpretation yum_available: searchable_list yumAvailableSearch shownSoftware daSoftwares matchesName
  by unfold_locales (auto simp: yumAvailableSearch_def shownSoftware_def matchesName_def fun_eq_iff)

section \<open>Properties\<close>

text \<open>
  In each of the four lists, whatever was typed before, the rows after the last text are exactly
  the matching items of the whole list in its order, and clearing the field brings the whole list
  back.
\<close>

theorem software_search_contract:
  assumes "q \<noteq> ''''"
  shows "shownSoftware (fold aptInstalledSearch (ps @ [q]) v) = filter (matchesBoth v q) (daSoftwares v)
    \<and> shownSoftware (fold aptAvailableSearch (ps @ [q]) v) = filter (matchesBoth v q) (daSoftwares v)
    \<and> shownSoftware (fold yumInstalledSearch (ps @ [q]) v) = filter (matchesName v q) (daSoftwares v)
    \<and> shownSoftware (fold yumAvailableSearch (ps @ [q]) v) = filter (matchesName v q) (daSoftwares v)
    \<and> shownSoftware (fold aptInstalledSearch (ps @ ['''']) v) = daSoftwares v
    \<and> shownSoftware (fold aptAvailableSearch (ps @ ['''']) v) = daSoftwares v
    \<and> shownSoftware (fold yumInstalledSearch (ps @ ['''']) v) = daSoftwares v
    \<and> shownSoftware (fold yumAvailableSearch (ps @ ['''']) v) = daSoftwares v"
  using assms
  by (simp only: apt_installed.typing_last apt_available.typing_last yum_installed.typing_last
      yum_available.typing_last apt_installed.search_some apt_available.search_some
      yum_installed.search_some yum_available.search_some apt_installed.search_empty
      apt_available.search_empty yum_installed.search_empty yum_available.search_empty simp_thms)

definition twoPackages :: software_view where
  "twoPackages = emptyView\<lparr>daSoftwares := [initWithSoftwareName ''vim'', initWithSoftwareName ''gcc'']\<rparr>"

theorem software_search_contract_witness:
  "shownSoftware (fold yumAvailableSearch [''zz'', ''c'', ''v''] twoPackages)
     = [initWithSoftwareName ''vim'']"
  using software_search_contract [of "''v''" "[''zz'', ''c'']" twoPackages]
  by (simp add: twoPackages_def emptyView_def matchesName_def initWithSoftwareName_def containsCD_def
      foldCD_def lowerChar_def baseChar_def hasPrefix_def Let_def)

lemma aptAvailable_cases:
  "aptAvailableLines ls =
     (if \<exists>l \<in> set ls. \<not> containsString l '' - '' then Inl NSRangeException
      else Inr (map (\<lambda>l. initWithSoftwareNameAndDescription (components '' - '' l ! 0)
                           (components '' - '' l ! 1)) ls))"
proof (induction ls)
  case (Cons l ls)
  have one: "0 < length (components '' - '' l)" using components_count [of "'' - ''" l] by linarith
  show ?case
  proof (cases "containsString l '' - ''")
    case True
    then have "1 < length (components '' - '' l)" using components_two_iff [of "'' - ''" l] by simp
    with one True Cons.IH show ?thesis by (simp add: objectAtIndex_def Let_def)
  next
    case False
    then have "\<not> 1 < length (components '' - '' l)" using components_two_iff [of "'' - ''" l] by simp
    with one False show ?thesis by (simp add: objectAtIndex_def)
  qed
qed simp

text \<open>Lines of an answer, each closed by a line feed.\<close>

lemma components_lines:
  "list_all (\<lambda>l. x \<notin> set l) ls \<Longrightarrow> components [x] (concat (map (\<lambda>l. l @ [x]) ls)) = ls @ ['''']"
  by (induction ls) (simp_all add: ns_split)

lemma withoutFirstEmpty_last:
  "'''' \<notin> set ls \<Longrightarrow> withoutFirstEmpty (ls @ ['''']) = ls"
  by (simp add: withoutFirstEmpty_def removeFirst_def remove1_append)

lemma package_fields:
  assumes "CHR '' '' \<notin> set n" and "\<not> containsString d '' - ''"
  shows "components '' - '' (n @ '' - '' @ d) = [n, d]"
  using assms components_first [of "CHR '' ''" n "''- ''" d] by (simp add: components_absent)

definition aptLine :: "string \<times> string \<Rightarrow> string" where
  "aptLine p = fst p @ '' - '' @ snd p"

definition aptLineOk :: "string \<times> string \<Rightarrow> bool" where
  "aptLineOk p =
     (CHR '' '' \<notin> set (fst p) \<and> CHR 0x0A \<notin> set (fst p @ snd p) \<and> \<not> containsString (snd p) '' - '')"

lemma aptLine_contains: "containsString (aptLine p) '' - ''"
  by (auto simp: containsString_iff aptLine_def)

text \<open>
  Loading the packages that apt-get can install raises exactly when some line of the answer lacks
  the separator between name and description; otherwise it gives one entry per line.
\<close>

theorem apt_available_raises_iff:
  assumes "executeCmd ssh s (''echo '' @ pw @ '' | sudo -S apt-cache search .'') = (Inr t, s')"
  shows "raises (aptAvailableDidLoad ssh True pw s) \<longleftrightarrow>
           (\<exists>l \<in> set (withoutFirstEmpty (components [CHR 0x0A] t)). \<not> containsString l '' - '')"
  using assms by (simp add: aptAvailableDidLoad_def aptAvailable_cases)

text \<open>
  Round trip: when the server answers with one line \<open>name - description\<close> per package, the list
  shown is exactly those packages, names and descriptions, in that order.
\<close>

theorem apt_available_roundtrip:
  assumes "executeCmd ssh s (''echo '' @ pw @ '' | sudo -S apt-cache search .'')
             = (Inr (concat (map (\<lambda>p. aptLine p @ [CHR 0x0A]) ps)), s')"
    and "list_all aptLineOk ps"
  shows "aptAvailableDidLoad ssh True pw s = Inr (emptyView\<lparr>daSoftwares :=
           map (\<lambda>p. initWithSoftwareNameAndDescription (fst p) (snd p)) ps\<rparr>, s')"
proof -
  let ?ls = "map aptLine ps"
  have "list_all (\<lambda>l. CHR 0x0A \<notin> set l) ?ls"
    using assms(2) by (auto simp: list_all_iff aptLineOk_def aptLine_def)
  from components_lines [OF this] have lines:
    "components [CHR 0x0A] (concat (map (\<lambda>p. aptLine p @ [CHR 0x0A]) ps)) = ?ls @ ['''']"
    by (simp add: comp_def)
  have "'''' \<notin> set ?ls" by (auto simp: aptLine_def)
  then have "withoutFirstEmpty (components [CHR 0x0A] (concat (map (\<lambda>p. aptLine p @ [CHR 0x0A]) ps)))
      = ?ls" unfolding lines by (rule withoutFirstEmpty_last)
  moreover have "\<forall>p \<in> set ps. components '' - '' (aptLine p) = [fst p, snd p]"
  proof
    fix p assume "p \<in> set ps"
    with assms(2) have "aptLineOk p" by (simp add: list_all_iff)
    then show "components '' - '' (aptLine p) = [fst p, snd p]"
      unfolding aptLine_def aptLineOk_def by (intro package_fields) simp_all
  qed
  ultimately show ?thesis
    using assms(1) by (simp add: aptAvailableDidLoad_def aptAvailable_cases aptLine_contains comp_def)
qed

definition answering :: "string \<Rightarrow> unit ssh_api" where
  "answering t =
     \<lparr>executeCmd = (\<lambda>s c. (Inr t, s)), lastErrorText = (\<lambda>s. None), sftpConnected = (\<lambda>s. True),
      contentsOfDirectoryAtPath = (\<lambda>s p. (None, s)), removeDirectoryAtPath = (\<lambda>s p. (False, s)),
      removeFileAtPath = (\<lambda>s p. (False, s)), contentsAtPath = (\<lambda>s p. (None, s)),
      writeContents = (\<lambda>s c p. (False, s)), disconnectAll = (\<lambda>s. s)\<rparr>"

theorem apt_available_raises_iff_witness:
  "raises (aptAvailableDidLoad (answering ''sudo: no tty'') True ''pw'' ())"
proof -
  have "components [CHR 0x0A] ''sudo: no tty'' = [''sudo: no tty'']" by (simp add: ns_split)
  moreover have "\<not> containsString ''sudo: no tty'' '' - ''"
    by (simp add: containsString_def hasPrefix_def)
  ultimately show ?thesis
    using apt_available_raises_iff [of "answering ''sudo: no tty''" "()" "''pw''" "''sudo: no tty''" "()"]
    by (simp add: answering_def withoutFirstEmpty_def)
qed

theorem apt_available_roundtrip_witness:
  "map (\<lambda>p. aptLine p @ [CHR 0x0A]) [(''vim'', ''editor'')] = [''vim - editor'' @ [CHR 0x0A]]
   \<and> aptAvailableDidLoad (answering (''vim - editor'' @ [CHR 0x0A])) True ''pw'' ()
     = Inr (emptyView\<lparr>daSoftwares := [initWithSoftwareNameAndDescription ''vim'' ''editor'']\<rparr>, ())"
  using apt_available_roundtrip [of "answering (''vim - editor'' @ [CHR 0x0A])" "()" "''pw''"
      "[(''vim'', ''editor'')]" "()"]
  by (simp add: answering_def aptLine_def aptLineOk_def containsString_def hasPrefix_def)

lemma updateTableData_appends:
  "updateTableData ssh auth pw v s = Inr (v', s') \<Longrightarrow>
     (\<exists>sw. daSoftwares v' = daSoftwares v @ sw) \<and> \<not> softwareFiltered v'"
  by (auto simp: updateTableData_def andThen_Inr_iff Let_def split: if_splits prod.splits sum.splits)

text \<open>
  After a removal the yum list is read again without being emptied: everything listed before,
  the removed package included, is still listed, in front of the new entries.
\<close>

theorem yum_refresh_keeps_removed:
  assumes "yumInstalledClicked ssh auth pw flags tag 2 v s = Inr (a, v', s')"
  shows "\<exists>sw. daSoftwares v' = daSoftwares v @ sw \<and> \<not> softwareFiltered v'"
proof -
  from assms obtain x al s1 where
    "updateTableData ssh auth pw v s1 = Inr (v', s')"
    by (auto simp: yumInstalledClicked_def andThen_Inr_iff case_prod_unfold Let_def)
  from updateTableData_appends [OF this] show ?thesis by blast
qed

theorem yum_refresh_keeps_removed_witness:
  "\<exists>a v' s' sw. yumInstalledClicked (answering ''head'') True ''pw'' '''' 0 2 twoPackages () = Inr (a, v', s')
     \<and> daSoftwares v' = initWithSoftwareName ''vim'' # initWithSoftwareName ''gcc'' # sw"
proof -
  have "\<exists>a v' s'. yumInstalledClicked (answering ''head'') True ''pw'' '''' 0 2 twoPackages () = Inr (a, v', s')"
    by (simp add: yumInstalledClicked_def updateTableData_def answering_def runAndAlert_def twoPackages_def
        emptyView_def shownSoftware_def withoutFirstEmpty_def removeObjectAtIndex_def components_def)
  with yum_refresh_keeps_removed show ?thesis by (fastforce simp: twoPackages_def emptyView_def)
qed

end
