(* ===== verification/CoreData.thy ===== *)
theory CoreData
  imports Foundation "HOL-Library.Multiset"
begin

text \<open>
  The Core Data context the stores work on.  \<open>live\<close> holds the objects of the managed object
  context, \<open>disk\<close> those of the persistent store: an insertion, a change or a deletion acts on
  \<open>live\<close>, \<open>save:\<close> copies \<open>live\<close> to \<open>disk\<close> when it succeeds, a relaunch starts again from
  \<open>disk\<close>.  A managed object is a reference, its number; the attributes come from the three
  entities of ServerManagerDataModel.xcdatamodel.

  What Core Data decides is a parameter, the record \<open>core_data\<close>: whether the n-th save or fetch
  works, and the order of a fetch without sort descriptors, which its documentation leaves open.
\<close>

section \<open>The entities\<close>

record operating_system =
  operatingSystemID :: "int option"
  operatingSystemName :: "string option"
  packageManager :: "string option"

record server =
  serverID :: "int option"
  serverName :: "string option"
  host :: "string option"
  port :: "int option"
  username :: "string option"
  password :: "string option"
  serverNotes :: "string option"
  serverOS :: "int option"

record script =
  script_id :: "int option"
  script_name :: "string option"
  script_contents :: "string option"

text \<open>The attribute defaults of the data model.\<close>

definition newOperatingSystem :: operating_system where
  "newOperatingSystem =
     \<lparr>operatingSystemID = Some 0, operatingSystemName = None, packageManager = None\<rparr>"

definition newServer :: server where
  "newServer = \<lparr>serverID = Some 0, serverName = None, host = None, port = Some 0, username = None,
                password = None, serverNotes = None, serverOS = Some 0\<rparr>"

definition newScript :: script where
  "newScript = \<lparr>script_id = Some 0, script_name = None, script_contents = None\<rparr>"

section \<open>The context\<close>

type_synonym 'a rows = "(nat \<times> 'a) list"

record tables =
  osTable :: "operating_system rows"
  serverTable :: "server rows"
  scriptTable :: "script rows"

record managed_context =
  live :: tables
  disk :: tables
  nextObject :: nat
  savesDone :: nat
  fetchesDone :: nat

record core_data =
  saveWorks :: "nat \<Rightarrow> bool"
  fetchWorks :: "nat \<Rightarrow> bool"
  fetchOrder :: "nat list \<Rightarrow> nat list"

type_synonym 'a reader = "tables \<Rightarrow> 'a rows"
type_synonym 'a writer = "('a rows \<Rightarrow> 'a rows) \<Rightarrow> tables \<Rightarrow> tables"

text \<open>The object behind a reference, \<^term>\<open>None\<close> once it is deleted.\<close>

definition objectOf :: "'a reader \<Rightarrow> managed_context \<Rightarrow> nat \<Rightarrow> 'a option" where
  "objectOf rd c k = map_of (rd (live c)) k"

definition insertObject :: "'a writer \<Rightarrow> 'a \<Rightarrow> managed_context \<Rightarrow> nat \<times> managed_context" where
  "insertObject wr x c =
     (nextObject c,
      c\<lparr>live := wr (\<lambda>t. t @ [(nextObject c, x)]) (live c), nextObject := Suc (nextObject c)\<rparr>)"

definition changeObject :: "'a writer \<Rightarrow> nat \<Rightarrow> ('a \<Rightarrow> 'a) \<Rightarrow> managed_context \<Rightarrow> managed_context" where
  "changeObject wr k f c =
     c\<lparr>live := wr (map (\<lambda>(i, x). if i = k then (i, f x) else (i, x))) (live c)\<rparr>"

definition deleteObject :: "'a writer \<Rightarrow> nat \<Rightarrow> managed_context \<Rightarrow> managed_context" where
  "deleteObject wr k c = c\<lparr>live := wr (filter (\<lambda>r. fst r \<noteq> k)) (live c)\<rparr>"

definition saveContext :: "core_data \<Rightarrow> managed_context \<Rightarrow> bool \<times> managed_context" where
  "saveContext cd c =
     (let ok = saveWorks cd (savesDone c)
      in (ok, c\<lparr>disk := (if ok then live c else disk c), savesDone := Suc (savesDone c)\<rparr>))"

text \<open>\<open>executeFetchRequest:error:\<close>: references to the matching objects, \<open>nil\<close> on an error.\<close>

definition executeFetch ::
  "core_data \<Rightarrow> 'a reader \<Rightarrow> ('a \<Rightarrow> bool) \<Rightarrow> managed_context \<Rightarrow> nat list option \<times> managed_context" where
  "executeFetch cd rd P c =
     (if fetchWorks cd (fetchesDone c)
      then Some (fetchOrder cd (map fst (filter (\<lambda>r. P (snd r)) (rd (live c)))))
      else None,
      c\<lparr>fetchesDone := Suc (fetchesDone c)\<rparr>)"

definition relaunch :: "managed_context \<Rightarrow> managed_context" where
  "relaunch c = c\<lparr>live := disk c\<rparr>"

text \<open>\<open>[results count]\<close>, zero for \<open>nil\<close>.\<close>

definition countOf :: "nat list option \<Rightarrow> nat" where
  "countOf r = (case r of None \<Rightarrow> 0 | Some xs \<Rightarrow> length xs)"

lemma countOf_simps [simp]: "countOf None = 0" "countOf (Some xs) = length xs"
  by (simp_all add: countOf_def)

text \<open>The documented law of a fetch: every matching object once, in some order.\<close>

definition fetches_all :: "core_data \<Rightarrow> bool" where
  "fetches_all cd = (\<forall>xs. mset (fetchOrder cd xs) = mset xs)"

lemma fetches_all_length: "fetches_all cd \<Longrightarrow> length (fetchOrder cd xs) = length xs"
  unfolding fetches_all_def by (metis size_mset)

lemma fetches_all_set: "fetches_all cd \<Longrightarrow> set (fetchOrder cd xs) = set xs"
  unfolding fetches_all_def by (metis set_mset_mset)

lemma fetches_all_Nil: "fetches_all cd \<Longrightarrow> fetchOrder cd [] = []"
  using fetches_all_length [of cd "[]"] by simp

text \<open>References are never reused and unique in their table.\<close>

definition table_ok :: "'a reader \<Rightarrow> managed_context \<Rightarrow> bool" where
  "table_ok rd c =
     (distinct (map fst (rd (live c))) \<and> list_all (\<lambda>r. fst r < nextObject c) (rd (live c)) \<and>
      list_all (\<lambda>r. fst r < nextObject c) (rd (disk c)) \<and> distinct (map fst (rd (disk c))))"

lemma table_ok_frame:
  assumes "table_ok rd c" and "rd (live c') = rd (live c)" and "rd (disk c') \<in> {rd (disk c), rd (live c)}"
    and "nextObject c \<le> nextObject c'"
  shows "table_ok rd c'"
proof -
  have "list_all (\<lambda>r. fst r < nextObject c') xs" if "list_all (\<lambda>r. fst r < nextObject c) xs" for xs :: "'a rows"
    using that assms(4) by (auto simp: list_all_iff)
  with assms(1-3) show ?thesis by (auto simp: table_ok_def)
qed

section \<open>What a table of the context promises\<close>

text \<open>
  One reader and one writer of the tables; the laws say that the writer changes what the reader
  sees and nothing else.  Everything below holds for each of the three entities.
\<close>

locale entity =
  fixes rd :: "'a reader" and wr :: "'a writer"
  assumes read_write: "rd (wr f t) = f (rd t)"
begin

lemma inserted:
  assumes "table_ok rd c" and "insertObject wr x c = (k, c')"
  shows "objectOf rd c' k = Some x \<and> (\<forall>j. j \<noteq> k \<longrightarrow> objectOf rd c' j = objectOf rd c j)
    \<and> objectOf rd c k = None \<and> table_ok rd c' \<and> map fst (rd (live c')) = map fst (rd (live c)) @ [k]"
proof -
  from assms(2) have k: "k = nextObject c"
    and c': "c' = c\<lparr>live := wr (\<lambda>t. t @ [(k, x)]) (live c), nextObject := Suc k\<rparr>"
    by (auto simp: insertObject_def)
  have fresh: "k \<notin> fst ` set (rd (live c))"
    using assms(1) unfolding k by (auto simp: table_ok_def list_all_iff)
  then have "map_of (rd (live c)) k = None" by (simp add: map_of_eq_None_iff)
  moreover have "table_ok rd c'" using assms(1) fresh unfolding c' k
    by (auto simp: table_ok_def list_all_iff read_write)
  ultimately show ?thesis unfolding c'
    by (auto simp: objectOf_def read_write map_add_def split: option.split)
qed

lemma map_of_change:
  "map_of (map (\<lambda>(i, x). if i = k then (i, f x) else (i, x)) t) j
     = (if j = k then map_option f (map_of t k) else map_of t j)"
  by (induction t) auto

lemma changed:
  "objectOf rd (changeObject wr k f c) j =
     (if j = k then map_option f (objectOf rd c k) else objectOf rd c j)"
  by (simp add: changeObject_def objectOf_def read_write map_of_change)

lemma changed_keys: "map fst (rd (live (changeObject wr k f c))) = map fst (rd (live c))"
proof -
  have "map fst (map (\<lambda>(i, x). if i = k then (i, f x) else (i, x)) xs) = map fst xs" for xs :: "'a rows"
    by (induction xs) auto
  then show ?thesis by (simp add: changeObject_def read_write)
qed

lemma changed_ok: "table_ok rd (changeObject wr k f c) = table_ok rd c"
proof -
  have "list_all (\<lambda>r. fst r < n) xs = list_all (\<lambda>i. i < n) (map fst xs)" for n and xs :: "'a rows"
    by (simp add: list_all_iff)
  moreover have "disk (changeObject wr k f c) = disk c" "nextObject (changeObject wr k f c) = nextObject c"
    by (simp_all add: changeObject_def)
  ultimately show ?thesis by (simp add: table_ok_def changed_keys)
qed

lemma map_of_delete: "map_of (filter (\<lambda>r. fst r \<noteq> k) t) j = (if j = k then None else map_of t j)"
  by (induction t) auto

lemma deleted: "objectOf rd (deleteObject wr k c) j = (if j = k then None else objectOf rd c j)"
  by (simp add: deleteObject_def objectOf_def read_write map_of_delete)

lemma deleted_keys:
  "map fst (rd (live (deleteObject wr k c))) = filter (\<lambda>i. i \<noteq> k) (map fst (rd (live c)))"
proof -
  have "map fst (filter (\<lambda>r. fst r \<noteq> k) xs) = filter (\<lambda>i. i \<noteq> k) (map fst xs)" for xs :: "'a rows"
    by (induction xs) auto
  then show ?thesis by (simp add: deleteObject_def read_write)
qed

lemma deleted_ok: "table_ok rd c \<Longrightarrow> table_ok rd (deleteObject wr k c)"
  unfolding table_ok_def deleted_keys
  by (auto simp: deleteObject_def read_write list_all_iff)

lemma saved:
  assumes "saveContext cd c = (ok, c')"
  shows "ok = saveWorks cd (savesDone c) \<and> objectOf rd c' = objectOf rd c
    \<and> objectOf rd (relaunch c') = (if ok then objectOf rd c else objectOf rd (relaunch c))
    \<and> (table_ok rd c \<longrightarrow> table_ok rd c') \<and> live c' = live c"
  using assms by (auto simp: saveContext_def Let_def objectOf_def relaunch_def table_ok_def)

lemma relaunched: "table_ok rd c \<Longrightarrow> table_ok rd (relaunch c)"
  by (simp add: table_ok_def relaunch_def)

lemma fetch_exact:
  assumes "table_ok rd c" and "fetches_all cd" and "executeFetch cd rd P c = (Some ks, c')"
  shows "set ks = {k. \<exists>x. objectOf rd c k = Some x \<and> P x} \<and> distinct ks
    \<and> length ks = length (filter (\<lambda>r. P (snd r)) (rd (live c)))"
proof -
  let ?rows = "filter (\<lambda>r. P (snd r)) (rd (live c))"
  have ks: "ks = fetchOrder cd (map fst ?rows)"
    using assms(3) by (simp add: executeFetch_def split: if_splits)
  have d: "distinct (map fst (rd (live c)))" using assms(1) by (simp add: table_ok_def)
  then have "distinct (map fst ?rows)" by (simp add: distinct_map_filter)
  then have "distinct ks"
    using assms(2) unfolding ks fetches_all_def by (metis mset_eq_imp_distinct_iff)
  moreover have "set ks = {k. \<exists>x. objectOf rd c k = Some x \<and> P x}"
    unfolding ks fetches_all_set [OF assms(2)] objectOf_def
    using map_of_eq_Some_iff [OF d] by force
  ultimately show ?thesis by (simp add: ks fetches_all_length [OF assms(2)])
qed

lemma fetch_keeps: "executeFetch cd rd P c = (r, c') \<Longrightarrow>
  live c' = live c \<and> disk c' = disk c \<and> nextObject c' = nextObject c \<and> savesDone c' = savesDone c"
  by (auto simp: executeFetch_def)

end

interpretation os_entity: entity osTable osTable_update
  by unfold_locales simp_all

interpretation server_entity: entity serverTable serverTable_update
  by unfold_locales simp_all

interpretation script_entity: entity scriptTable scriptTable_update
  by unfold_locales simp_all

end
