(* ===== verification/Stores.thy ===== *)
theory Stores
  imports CoreData
begin

text \<open>
  The data access objects: OperatingSystemDAO.m, ServerDAO.m and ScriptDAO.m, and the two lists of
  operating systems that OptionsViewController.m and NewServerViewController.m hand to the first.
  An object reference is its number in the context; an \<open>NSError\<close> that is not initialised is
  \<open>nil\<close>, as ARC makes it.
\<close>

section \<open>OperatingSystemDAO\<close>

record os_package_manager =
  osName :: "string option"
  osManager :: "string option"

definition initWithOSNameAndPM :: "string \<Rightarrow> string option \<Rightarrow> os_package_manager" where
  "initWithOSNameAndPM name pm = \<lparr>osName = Some name, osManager = pm\<rparr>"

text \<open>One operating system written into a new object.\<close>

definition fillOperatingSystem :: "nat \<Rightarrow> os_package_manager \<Rightarrow> operating_system \<Rightarrow> operating_system" where
  "fillOperatingSystem i ospm os =
     os\<lparr>operatingSystemName := osName ospm, packageManager := osManager ospm,
        operatingSystemID := Some (int i + 1)\<rparr>"

fun addAllLoop ::
  "core_data \<Rightarrow> nat \<Rightarrow> os_package_manager list \<Rightarrow> managed_context \<Rightarrow> managed_context" where
  "addAllLoop cd i [] c = c"
| "addAllLoop cd i (ospm # rest) c =
     (case executeFetch cd osTable (\<lambda>os. operatingSystemID os = Some (int i + 1)) c of
        (results, c1) \<Rightarrow>
          if countOf results = 0
          then (case insertObject osTable_update newOperatingSystem c1 of
                  (k, c2) \<Rightarrow>
                    addAllLoop cd (Suc i) rest
                      (snd (saveContext cd (changeObject osTable_update k (fillOperatingSystem i ospm) c2))))
          else addAllLoop cd (Suc i) rest c1)"

definition addAllOperatingSystems ::
  "core_data \<Rightarrow> os_package_manager list \<Rightarrow> managed_context \<Rightarrow> managed_context" where
  "addAllOperatingSystems cd operatingSystems c = addAllLoop cd 0 operatingSystems c"

text \<open>The results of a fetch, empty when it failed.\<close>

definition fetchedOrEmpty :: "nat list option \<Rightarrow> nat list" where
  "fetchedOrEmpty results = (case results of None \<Rightarrow> [] | Some ks \<Rightarrow> ks)"

definition getAllOperatingSystems :: "core_data \<Rightarrow> managed_context \<Rightarrow> nat list \<times> managed_context" where
  "getAllOperatingSystems cd c =
     (case executeFetch cd osTable (\<lambda>os. True) c of (results, c') \<Rightarrow>
        (if 0 < countOf results then fetchedOrEmpty results else [], c'))"

text \<open>
  \<^term>\<open>None\<close> is the object made by a bare \<open>init\<close>: it has no entity, so reading one of its
  dynamic properties raises.
\<close>

definition getOperatingSystemByOperatingSystemID ::
  "core_data \<Rightarrow> int option \<Rightarrow> managed_context \<Rightarrow> nat option \<times> managed_context" where
  "getOperatingSystemByOperatingSystemID cd osID c =
     (case executeFetch cd osTable (\<lambda>os. operatingSystemID os = osID) c of (results, c') \<Rightarrow>
        (case fetchedOrEmpty results of [] \<Rightarrow> None | k # ks \<Rightarrow> Some k, c'))"

definition operatingSystemNameOf :: "managed_context \<Rightarrow> nat option \<Rightarrow> string option outcome" where
  "operatingSystemNameOf c os =
     (case os of
        None \<Rightarrow> Inl NSInvalidArgumentException
      | Some k \<Rightarrow> Inr (case objectOf osTable c k of None \<Rightarrow> None | Some x \<Rightarrow> operatingSystemName x))"

text \<open>The list of OptionsViewController and the one of NewServerViewController.\<close>

definition optionsOperatingSystems :: "os_package_manager list" where
  "optionsOperatingSystems =
     [initWithOSNameAndPM ''Windows'' None, initWithOSNameAndPM ''Ubuntu'' (Some ''apt-get''),
      initWithOSNameAndPM ''Debian'' (Some ''apt-get''), initWithOSNameAndPM ''CentOS'' (Some ''yum''),
      initWithOSNameAndPM ''OpenSUSE'' (Some ''zypper''), initWithOSNameAndPM ''Fedora'' (Some ''zypper''),
      initWithOSNameAndPM ''LinuxMint'' (Some ''apt-get''), initWithOSNameAndPM ''MySQL'' None,
      initWithOSNameAndPM ''Other Linux'' None]"

definition formOperatingSystems :: "os_package_manager list" where
  "formOperatingSystems =
     [initWithOSNameAndPM ''Ubuntu'' (Some ''apt-get''), initWithOSNameAndPM ''Debian'' (Some ''apt-get''),
      initWithOSNameAndPM ''CentOS 7'' (Some ''yum''), initWithOSNameAndPM ''CentOS < 6'' (Some ''yum''),
      initWithOSNameAndPM ''OpenSUSE'' (Some ''zypper''), initWithOSNameAndPM ''Fedora'' (Some ''zypper''),
      initWithOSNameAndPM ''LinuxMint'' (Some ''apt-get''), initWithOSNameAndPM ''MySQL'' None,
      initWithOSNameAndPM ''Other Linux'' None]"

definition optionsDidLoad :: "core_data \<Rightarrow> managed_context \<Rightarrow> string list \<times> managed_context" where
  "optionsDidLoad cd c =
     ([''Add New Server'', ''View Server List''], addAllOperatingSystems cd optionsOperatingSystems c)"

definition optionCell :: "string list \<Rightarrow> nat \<Rightarrow> string outcome" where
  "optionCell options row = objectAtIndex options row"

section \<open>ServerDAO\<close>

definition getAllServers :: "core_data \<Rightarrow> managed_context \<Rightarrow> nat list \<times> managed_context" where
  "getAllServers cd c =
     (case executeFetch cd serverTable (\<lambda>s. True) c of (results, c') \<Rightarrow>
        (if 0 < countOf results then fetchedOrEmpty results else [], c'))"

definition isPasswordSaved :: "server \<Rightarrow> bool" where
  "isPasswordSaved s = (if lengthOf (password s) = 0 \<or> password s = None then False else True)"

definition deleteServer :: "core_data \<Rightarrow> nat \<Rightarrow> managed_context \<Rightarrow> bool \<times> managed_context" where
  "deleteServer cd k c =
     (case saveContext cd (deleteObject serverTable_update k c) of (ok, c') \<Rightarrow>
        (if \<not> ok then False else True, c'))"

section \<open>ScriptDAO\<close>

definition createNewScript :: "core_data \<Rightarrow> nat \<Rightarrow> managed_context \<Rightarrow> bool \<times> managed_context" where
  "createNewScript cd k c =
     (case saveContext cd c of (ok, c') \<Rightarrow> (if \<not> ok then False else True, c'))"

definition fetchAllScripts :: "core_data \<Rightarrow> managed_context \<Rightarrow> nat list \<times> managed_context" where
  "fetchAllScripts cd c =
     (case executeFetch cd scriptTable (\<lambda>s. True) c of (results, c') \<Rightarrow>
        (if 0 < countOf results then fetchedOrEmpty results else [], c'))"

definition deleteScript :: "nat \<Rightarrow> managed_context \<Rightarrow> bool \<times> managed_context" where
  "deleteScript k c = (True, deleteObject scriptTable_update k c)"

definition updateScript :: "core_data \<Rightarrow> nat \<Rightarrow> managed_context \<Rightarrow> bool \<times> managed_context" where
  "updateScript cd k c = (case saveContext cd c of (ok, c') \<Rightarrow> (ok, c'))"

section \<open>The seeding loop\<close>

text \<open>The ids the loop finds missing, and the row it writes for one.\<close>

definition hasOS :: "operating_system rows \<Rightarrow> nat \<Rightarrow> bool" where
  "hasOS t i = list_ex (\<lambda>r. operatingSystemID (snd r) = Some (int i + 1)) t"

fun seededOS :: "nat \<Rightarrow> os_package_manager list \<Rightarrow> operating_system rows \<Rightarrow> operating_system list" where
  "seededOS i [] t = []"
| "seededOS i (p # ps) t =
     (if hasOS t i then seededOS (Suc i) ps t
      else fillOperatingSystem i p newOperatingSystem # seededOS (Suc i) ps t)"

lemma fillOperatingSystem_ID [simp]:
  "operatingSystemID (fillOperatingSystem i p os) = Some (int i + 1)"
  by (simp add: fillOperatingSystem_def)

lemma hasOS_append: "hasOS (t @ u) i = (hasOS t i \<or> hasOS u i)"
  by (simp add: hasOS_def)

lemma seededOS_past:
  assumes "j < i"
  shows "seededOS i ps (t @ [(k, fillOperatingSystem j p os)]) = seededOS i ps t"
  using assms
proof (induction ps arbitrary: i)
  case (Cons q qs)
  then have "\<not> hasOS [(k, fillOperatingSystem j p os)] i" by (simp add: hasOS_def)
  with Cons show ?case by (simp add: hasOS_append)
qed simp

lemma change_last:
  "list_all (\<lambda>r. fst r \<noteq> k) t \<Longrightarrow>
   map (\<lambda>(i, x). if i = k then (i, f x) else (i, x)) (t @ [(k, y)]) = t @ [(k, f y)]"
  by (induction t) auto

lemma count_fetch:
  assumes "fetches_all cd"
  shows "length (fetchOrder cd (map fst (filter P t))) = 0 \<longleftrightarrow> \<not> list_ex P t"
  using assms by (auto simp: fetches_all_length list_ex_iff filter_empty_conv)

definition fetches_work :: "core_data \<Rightarrow> bool" where
  "fetches_work cd = (fetches_all cd \<and> (\<forall>n. fetchWorks cd n))"

lemma fetch_count:
  assumes "fetches_work cd"
  shows "countOf (fst (executeFetch cd rd P c)) = 0 \<longleftrightarrow> \<not> list_ex (\<lambda>r. P (snd r)) (rd (live c))"
  using assms count_fetch [of cd "\<lambda>r. P (snd r)" "rd (live c)"]
  by (simp add: fetches_work_def executeFetch_def)

lemma addAllLoop_present:
  assumes "fetches_work cd" and "hasOS (osTable (live c)) i"
  shows "addAllLoop cd i (p # ps) c = addAllLoop cd (Suc i) ps (c\<lparr>fetchesDone := Suc (fetchesDone c)\<rparr>)"
proof -
  obtain r c1 where f: "executeFetch cd osTable (\<lambda>os. operatingSystemID os = Some (int i + 1)) c = (r, c1)"
    by fastforce
  then have "c1 = c\<lparr>fetchesDone := Suc (fetchesDone c)\<rparr>" by (auto simp: executeFetch_def)
  moreover have "countOf r \<noteq> 0"
    using fetch_count [OF assms(1), of osTable "\<lambda>os. operatingSystemID os = Some (int i + 1)" c] f assms(2)
    by (simp add: hasOS_def)
  ultimately show ?thesis using f by simp
qed

text \<open>The context after a missing row was added.\<close>

definition addedRow ::
  "core_data \<Rightarrow> nat \<Rightarrow> os_package_manager \<Rightarrow> managed_context \<Rightarrow> managed_context" where
  "addedRow cd i p c =
     snd (saveContext cd
       (c\<lparr>fetchesDone := Suc (fetchesDone c), nextObject := Suc (nextObject c),
          live := (live c)\<lparr>osTable := osTable (live c)
            @ [(nextObject c, fillOperatingSystem i p newOperatingSystem)]\<rparr>\<rparr>))"

lemma addAllLoop_missing:
  assumes "fetches_work cd" and "\<not> hasOS (osTable (live c)) i" and "table_ok osTable c"
  shows "addAllLoop cd i (p # ps) c = addAllLoop cd (Suc i) ps (addedRow cd i p c)"
proof -
  obtain r c1 where f: "executeFetch cd osTable (\<lambda>os. operatingSystemID os = Some (int i + 1)) c = (r, c1)"
    by fastforce
  then have c1: "c1 = c\<lparr>fetchesDone := Suc (fetchesDone c)\<rparr>" by (auto simp: executeFetch_def)
  have "countOf r = 0"
    using fetch_count [OF assms(1), of osTable "\<lambda>os. operatingSystemID os = Some (int i + 1)" c] f assms(2)
    by (simp add: hasOS_def)
  moreover have fresh: "list_all (\<lambda>r. fst r \<noteq> nextObject c) (osTable (live c))"
    using assms(3) by (auto simp: table_ok_def list_all_iff)
  have "osTable_update (map (\<lambda>(j, x). if j = nextObject c then (j, fillOperatingSystem i p x) else (j, x)) \<circ>
        (\<lambda>t. t @ [(nextObject c, newOperatingSystem)])) (live c)
      = (live c)\<lparr>osTable := osTable (live c) @ [(nextObject c, fillOperatingSystem i p newOperatingSystem)]\<rparr>"
    using fresh by (cases "live c") (simp add: change_last del: map_append)
  ultimately show ?thesis using f
    by (simp add: c1 insertObject_def changeObject_def addedRow_def)
qed

lemma addedRow_tables:
  "osTable (live (addedRow cd i p c)) = osTable (live c)
     @ [(nextObject c, fillOperatingSystem i p newOperatingSystem)]"
  "serverTable (live (addedRow cd i p c)) = serverTable (live c)"
  "scriptTable (live (addedRow cd i p c)) = scriptTable (live c)"
  by (simp_all add: addedRow_def saveContext_def Let_def)

lemma addedRow_ok: "table_ok osTable c \<Longrightarrow> table_ok osTable (addedRow cd i p c)"
  by (auto simp: addedRow_def saveContext_def Let_def table_ok_def list_all_iff)

lemma addedRow_disk: "saveWorks cd (savesDone c) \<Longrightarrow> disk (addedRow cd i p c) = live (addedRow cd i p c)"
  by (simp add: addedRow_def saveContext_def)

lemma table_ok_fetched [simp]: "table_ok rd (c\<lparr>fetchesDone := n\<rparr>) = table_ok rd c"
  by (simp add: table_ok_def)

lemma addAllLoop_tables:
  assumes "fetches_work cd" and "table_ok osTable c"
  shows "map snd (osTable (live (addAllLoop cd i ps c)))
      = map snd (osTable (live c)) @ seededOS i ps (osTable (live c))
    \<and> serverTable (live (addAllLoop cd i ps c)) = serverTable (live c)
    \<and> scriptTable (live (addAllLoop cd i ps c)) = scriptTable (live c)
    \<and> table_ok osTable (addAllLoop cd i ps c)
    \<and> ((\<forall>n. saveWorks cd n) \<and> disk c = live c
        \<longrightarrow> disk (addAllLoop cd i ps c) = live (addAllLoop cd i ps c))"
  using assms(2)
proof (induction ps arbitrary: i c)
  case (Cons p ps)
  show ?case
  proof (cases "hasOS (osTable (live c)) i")
    case True
    then show ?thesis
      using Cons.IH [of "c\<lparr>fetchesDone := Suc (fetchesDone c)\<rparr>" "Suc i"] Cons.prems
      unfolding addAllLoop_present [OF assms(1) True] by auto
  next
    case False
    then show ?thesis
      using Cons.IH [OF addedRow_ok [OF Cons.prems], of "Suc i" cd i p]
        seededOS_past [of i "Suc i" ps "osTable (live c)"]
      unfolding addAllLoop_missing [OF assms(1) False Cons.prems]
      by (simp add: addedRow_tables addedRow_disk)
  qed
qed simp

lemma addAllLoop_complete:
  assumes "fetches_work cd" and "\<forall>j < length ps. hasOS (osTable (live c)) (i + j)"
  shows "live (addAllLoop cd i ps c) = live c \<and> disk (addAllLoop cd i ps c) = disk c
    \<and> nextObject (addAllLoop cd i ps c) = nextObject c"
  using assms(2)
proof (induction ps arbitrary: i c)
  case (Cons p ps)
  from Cons.prems have "hasOS (osTable (live c)) i" by force
  moreover have "\<forall>j < length ps. hasOS (osTable (live c)) (Suc i + j)"
    using Cons.prems by force
  ultimately show ?case
    using Cons.IH [of "c\<lparr>fetchesDone := Suc (fetchesDone c)\<rparr>" "Suc i"]
    by (simp only: addAllLoop_present [OF assms(1)]) simp
qed simp

lemma seededOS_empty:
  "seededOS i ps [] = map (\<lambda>j. fillOperatingSystem (i + j) (ps ! j) newOperatingSystem) [0..<length ps]"
proof (induction ps arbitrary: i)
  case (Cons p ps)
  have "map (\<lambda>j. fillOperatingSystem (i + j) ((p # ps) ! j) newOperatingSystem) [0..<Suc (length ps)]
      = fillOperatingSystem i p newOperatingSystem
        # map (\<lambda>j. fillOperatingSystem (Suc i + j) (ps ! j) newOperatingSystem) [0..<length ps]"
    by (subst upt_conv_Cons) (auto simp: map_Suc_upt [symmetric] simp del: upt_Suc)
  with Cons show ?case by (simp add: hasOS_def)
qed simp

lemma first_list_aux:
  assumes "fetches_work cd" and "table_ok osTable c" and "osTable (live c) = []"
  shows "map snd (osTable (live (addAllOperatingSystems cd xs c)))
      = map (\<lambda>i. fillOperatingSystem i (xs ! i) newOperatingSystem) [0..<length xs]
    \<and> (length ys \<le> length xs \<longrightarrow>
        live (addAllOperatingSystems cd ys (addAllOperatingSystems cd xs c)) = live (addAllOperatingSystems cd xs c)
      \<and> disk (addAllOperatingSystems cd ys (addAllOperatingSystems cd xs c)) = disk (addAllOperatingSystems cd xs c))"
proof -
  have rows: "map snd (osTable (live (addAllOperatingSystems cd xs c)))
      = map (\<lambda>i. fillOperatingSystem i (xs ! i) newOperatingSystem) [0..<length xs]"
    using addAllLoop_tables [OF assms(1,2), of 0 xs] assms(3)
    by (simp add: addAllOperatingSystems_def seededOS_empty)
  have "hasOS (osTable (live (addAllOperatingSystems cd xs c))) j" if "j < length xs" for j
  proof -
    have "fillOperatingSystem j (xs ! j) newOperatingSystem
        \<in> set (map snd (osTable (live (addAllOperatingSystems cd xs c))))"
      unfolding rows using that by auto
    then show ?thesis by (force simp: hasOS_def list_ex_iff)
  qed
  then have "length ys \<le> length xs \<Longrightarrow>
      live (addAllOperatingSystems cd ys (addAllOperatingSystems cd xs c)) = live (addAllOperatingSystems cd xs c)
      \<and> disk (addAllOperatingSystems cd ys (addAllOperatingSystems cd xs c)) = disk (addAllOperatingSystems cd xs c)"
    using addAllLoop_complete [OF assms(1), of ys "addAllOperatingSystems cd xs c" 0]
    by (simp add: addAllOperatingSystems_def [of cd ys])
  with rows show ?thesis by blast
qed

text \<open>Rows with the ids 1 to n: an id names one object.\<close>

lemma seeded_ids:
  assumes "map snd (osTable (live c)) = map (\<lambda>i. fillOperatingSystem i (xs ! i) newOperatingSystem) [0..<length xs]"
    and "objectOf osTable c k = Some x"
  obtains i where "i < length xs" and "osTable (live c) ! i = (k, x)" and "i < length (osTable (live c))"
    and "x = fillOperatingSystem i (xs ! i) newOperatingSystem"
proof -
  have len: "length (osTable (live c)) = length xs"
    using arg_cong [OF assms(1), of length] by simp
  from assms(2) have "(k, x) \<in> set (osTable (live c))" by (simp add: objectOf_def map_of_SomeD)
  then obtain i where i: "i < length (osTable (live c))" "osTable (live c) ! i = (k, x)"
    by (auto simp: in_set_conv_nth)
  moreover have "snd (osTable (live c) ! i) = fillOperatingSystem i (xs ! i) newOperatingSystem"
    using arg_cong [OF assms(1), of "\<lambda>l. l ! i"] i(1) len by simp
  ultimately show thesis using that [of i] len by simp
qed

lemma seeded_id_unique:
  assumes "map snd (osTable (live c)) = map (\<lambda>i. fillOperatingSystem i (xs ! i) newOperatingSystem) [0..<length xs]"
    and "objectOf osTable c k = Some x" and "objectOf osTable c j = Some y"
    and "operatingSystemID x = operatingSystemID y"
  shows "k = j"
proof -
  from assms(1,2) obtain i where "osTable (live c) ! i = (k, x)"
    and "x = fillOperatingSystem i (xs ! i) newOperatingSystem" by (rule seeded_ids)
  moreover from assms(1,3) obtain l where "osTable (live c) ! l = (j, y)"
    and "y = fillOperatingSystem l (xs ! l) newOperatingSystem" by (rule seeded_ids)
  ultimately show ?thesis using assms(4) by simp
qed

lemma getOperatingSystemByOperatingSystemID_unique:
  assumes "fetches_work cd" and "table_ok osTable c" and "objectOf osTable c k = Some x"
    and "\<And>j y. objectOf osTable c j = Some y \<Longrightarrow> operatingSystemID x = operatingSystemID y \<Longrightarrow> k = j"
  shows "getOperatingSystemByOperatingSystemID cd (operatingSystemID x) c
    = (Some k, c\<lparr>fetchesDone := Suc (fetchesDone c)\<rparr>)"
proof -
  obtain ks where f: "executeFetch cd osTable (\<lambda>os. operatingSystemID os = operatingSystemID x) c
      = (Some ks, c\<lparr>fetchesDone := Suc (fetchesDone c)\<rparr>)"
    using assms(1) by (simp add: executeFetch_def fetches_work_def)
  have "set ks = {j. \<exists>y. objectOf osTable c j = Some y \<and> operatingSystemID y = operatingSystemID x}"
    using os_entity.fetch_exact [OF assms(2) _ f] assms(1) by (simp add: fetches_work_def)
  also have "\<dots> = {k}" using assms(3) assms(4) [OF _ sym] by blast
  finally obtain l where "ks = k # l" by (cases ks) auto
  with f show ?thesis by (simp add: getOperatingSystemByOperatingSystemID_def fetchedOrEmpty_def)
qed

lemma getAllOperatingSystems_order:
  assumes "fetches_work cd"
  shows "getAllOperatingSystems cd c
    = (fetchOrder cd (map fst (osTable (live c))), c\<lparr>fetchesDone := Suc (fetchesDone c)\<rparr>)"
proof -
  have "filter (\<lambda>r. True) xs = xs" for xs :: "operating_system rows" by simp
  then show ?thesis using assms
    by (simp add: getAllOperatingSystems_def executeFetch_def fetches_work_def fetchedOrEmpty_def)
qed

lemma addAllLoop_serverTable_ok:
  assumes "table_ok osTable c" and "table_ok serverTable c" and "fetches_work cd"
  shows "table_ok serverTable (addAllLoop cd i ps c)"
  using assms(1,2)
proof (induction ps arbitrary: i c)
  case (Cons p ps)
  show ?case
  proof (cases "hasOS (osTable (live c)) i")
    case True
    then show ?thesis
      using Cons.IH [of "c\<lparr>fetchesDone := Suc (fetchesDone c)\<rparr>" "Suc i"] Cons.prems
      unfolding addAllLoop_present [OF assms(3) True] by simp
  next
    case False
    have "table_ok serverTable (addedRow cd i p c)"
      using Cons.prems(2) by (auto simp: addedRow_def saveContext_def Let_def table_ok_def list_all_iff)
    then show ?thesis
      using Cons.IH [OF addedRow_ok [OF Cons.prems(1)]]
      unfolding addAllLoop_missing [OF assms(3) False Cons.prems(1)] by blast
  qed
qed simp

text \<open>
  The first list wins: on an empty table the loop stores the list with the ids 1 to n, in
  order, and any later list that is no longer changes neither the context nor the store.
\<close>

theorem addAllOperatingSystems_first_list:
  assumes "fetches_work cd" and "table_ok osTable c" and "osTable (live c) = []"
  shows "map snd (osTable (live (addAllOperatingSystems cd xs c)))
      = map (\<lambda>i. fillOperatingSystem i (xs ! i) newOperatingSystem) [0..<length xs]
    \<and> (length ys \<le> length xs \<longrightarrow>
        live (addAllOperatingSystems cd ys (addAllOperatingSystems cd xs c)) = live (addAllOperatingSystems cd xs c)
      \<and> disk (addAllOperatingSystems cd ys (addAllOperatingSystems cd xs c)) = disk (addAllOperatingSystems cd xs c))"
  using assms by (rule first_list_aux)

text \<open>A Core Data that works, answering in the order of insertion; and an empty store.\<close>

definition demoCore :: core_data where
  "demoCore = \<lparr>saveWorks = (\<lambda>n. True), fetchWorks = (\<lambda>n. True), fetchOrder = (\<lambda>xs. xs)\<rparr>"

definition noTables :: tables where
  "noTables = \<lparr>osTable = [], serverTable = [], scriptTable = []\<rparr>"

definition emptyContext :: managed_context where
  "emptyContext = \<lparr>live = noTables, disk = noTables, nextObject = 0, savesDone = 0, fetchesDone = 0\<rparr>"

lemma demoCore_works: "fetches_work demoCore"
  by (simp add: fetches_work_def fetches_all_def demoCore_def)

lemma emptyContext_ok: "table_ok osTable emptyContext" "table_ok serverTable emptyContext"
  "table_ok scriptTable emptyContext" "osTable (live emptyContext) = []"
  by (simp_all add: table_ok_def emptyContext_def noTables_def)

theorem addAllOperatingSystems_first_list_witness:
  "map (operatingSystemName \<circ> snd)
      (osTable (live (addAllOperatingSystems demoCore formOperatingSystems
        (snd (optionsDidLoad demoCore emptyContext)))))
    = [Some ''Windows'', Some ''Ubuntu'', Some ''Debian'', Some ''CentOS'', Some ''OpenSUSE'',
       Some ''Fedora'', Some ''LinuxMint'', Some ''MySQL'', Some ''Other Linux'']"
proof -
  have shorter: "length formOperatingSystems \<le> length optionsOperatingSystems"
    by (simp add: formOperatingSystems_def optionsOperatingSystems_def)
  note both = addAllOperatingSystems_first_list [OF demoCore_works emptyContext_ok(1,4),
      of optionsOperatingSystems formOperatingSystems]
  have "map operatingSystemName (map snd (osTable (live (addAllOperatingSystems demoCore
      formOperatingSystems (addAllOperatingSystems demoCore optionsOperatingSystems emptyContext)))))
    = map operatingSystemName (map snd (osTable (live
        (addAllOperatingSystems demoCore optionsOperatingSystems emptyContext))))"
    using both shorter by simp
  also have "\<dots> = map operatingSystemName
      (map (\<lambda>i. fillOperatingSystem i (optionsOperatingSystems ! i) newOperatingSystem)
        [0..<length optionsOperatingSystems])"
    using both by simp
  finally show ?thesis
    by (simp add: optionsDidLoad_def optionsOperatingSystems_def initWithOSNameAndPM_def
        fillOperatingSystem_def upt_rec comp_def)
qed

section \<open>Deleting a server\<close>

text \<open>
  Deleting: the server, and no other, leaves the context whether the save works or not.  After a
  failed save, which is what the answer reports, a relaunch brings back what was stored.
\<close>

lemma deleteServer_result:
  assumes "table_ok serverTable c" and "deleteServer cd k c = (ok, c')"
  shows "(\<forall>j. objectOf serverTable c' j = (if j = k then None else objectOf serverTable c j))
    \<and> ok = saveWorks cd (savesDone c)
    \<and> objectOf serverTable (relaunch c')
        = (if ok then objectOf serverTable c' else objectOf serverTable (relaunch c))
    \<and> table_ok serverTable c'"
proof -
  let ?d = "deleteObject serverTable_update k c"
  from assms(2) have s: "saveContext cd ?d = (ok, c')"
    by (simp add: deleteServer_def split: prod.splits if_splits)
  have "objectOf serverTable (relaunch ?d) = objectOf serverTable (relaunch c)"
    "savesDone ?d = savesDone c"
    by (simp_all add: deleteObject_def relaunch_def objectOf_def fun_eq_iff)
  with server_entity.saved [OF s] server_entity.deleted_ok [OF assms(1), of k] show ?thesis
    by (simp add: server_entity.deleted)
qed

definition failingCore :: core_data where
  "failingCore = demoCore\<lparr>saveWorks := (\<lambda>n. False)\<rparr>"

text \<open>One stored server.\<close>

definition oneServer :: managed_context where
  "oneServer =
     (let t = noTables\<lparr>serverTable := [(0, newServer\<lparr>serverName := Some ''web''\<rparr>)]\<rparr>
      in emptyContext\<lparr>live := t, disk := t, nextObject := 1\<rparr>)"

end
