(* ===== verification/ServerScreens.thy ===== *)
theory ServerScreens
  imports Stores SshSession
begin

text \<open>
  The screens about servers: the form that adds or edits one (NewServerViewController.m), the list
  (ServerListViewController.m) and the overview with its delete dialog (ServerOverviewViewController.m).
  A server is the number of its object in the context, so an edit is seen by every screen that holds it.

  Parameters: the number formatter, and where the picker view ends up when it is told to select a row
  (a row that exists is selected, as UIKit documents).
\<close>

section \<open>The form\<close>

type_synonym formatter = "string \<Rightarrow> int option"
type_synonym picker = "nat \<Rightarrow> int \<Rightarrow> nat"

definition picker_law :: "picker \<Rightarrow> bool" where
  "picker_law pick = (\<forall>n i. 0 \<le> i \<and> i < int n \<longrightarrow> pick n i = nat i)"

record server_form =
  formTitle :: string
  connectionNameTxt :: string
  hostNameTxt :: string
  portTxt :: string
  usernameTxt :: string
  passwordTxt :: string
  notesTxt :: string
  savePasswordRadio :: bool
  osRow :: nat
  serverOptions :: "nat list"
  editing :: bool
  editedServer :: nat

text \<open>The text a field shows for \<open>nil\<close> is empty.\<close>

definition textOf :: "string option \<Rightarrow> string" where
  "textOf s = (case s of None \<Rightarrow> '''' | Some t \<Rightarrow> t)"

text \<open>\<open>%@\<close> of a number, \<open>integerValue\<close> of one: zero for \<open>nil\<close>.\<close>

definition fmtNumber :: "int option \<Rightarrow> string" where
  "fmtNumber n = (case n of None \<Rightarrow> ''(null)'' | Some i \<Rightarrow> showInt i)"

definition integerValue :: "int option \<Rightarrow> int" where
  "integerValue n = (case n of None \<Rightarrow> 0 | Some i \<Rightarrow> i)"

text \<open>\<open>viewDidLoad\<close>: the fields of an edited server; the switch is on in the storyboard.\<close>

definition showServer :: "picker \<Rightarrow> server \<Rightarrow> server_form \<Rightarrow> server_form" where
  "showServer pick s f =
     f\<lparr>formTitle := ''Editing '' @ fmt (serverName s), connectionNameTxt := textOf (serverName s),
       hostNameTxt := textOf (host s), portTxt := fmtNumber (port s),
       usernameTxt := textOf (username s), passwordTxt := textOf (password s),
       osRow := pick (length (serverOptions f)) (integerValue (serverOS s)),
       notesTxt := textOf (serverNotes s)\<rparr>"

definition newServerDidLoad ::
  "core_data \<Rightarrow> picker \<Rightarrow> (nat \<times> server) option \<Rightarrow> managed_context \<Rightarrow> server_form \<times> managed_context" where
  "newServerDidLoad cd pick edited c =
     (case getAllOperatingSystems cd (addAllOperatingSystems cd formOperatingSystems c) of
        (opts, c') \<Rightarrow>
          (let f = \<lparr>formTitle = ''Add New Server'', connectionNameTxt = '''', hostNameTxt = '''',
                    portTxt = '''', usernameTxt = '''', passwordTxt = '''', notesTxt = '''',
                    savePasswordRadio = True, osRow = 0, serverOptions = opts,
                    editing = (edited \<noteq> None), editedServer = 0\<rparr>
           in (case edited of
                 None \<Rightarrow> f
               | Some (k, s) \<Rightarrow> showServer pick s (f\<lparr>editedServer := k\<rparr>), c')))"

definition addButtonTitle :: "server_form \<Rightarrow> string option" where
  "addButtonTitle f = (if editing f then Some ''Update Server'' else None)"

definition numberOfRowsInComponent :: "server_form \<Rightarrow> nat" where
  "numberOfRowsInComponent f = length (serverOptions f)"

definition titleForRow :: "managed_context \<Rightarrow> server_form \<Rightarrow> nat \<Rightarrow> string option outcome" where
  "titleForRow c f row =
     andThen (objectAtIndex (serverOptions f) row) (\<lambda>k. operatingSystemNameOf c (Some k))"

text \<open>The keyboard's return key: the field that is left and the one that is entered.\<close>

datatype form_field = ConnectionName | HostName | Port | Username | Password | OtherField

fun textFieldShouldReturn :: "form_field \<Rightarrow> form_field option \<times> form_field option" where
  "textFieldShouldReturn ConnectionName = (Some ConnectionName, Some HostName)"
| "textFieldShouldReturn HostName = (Some HostName, Some Port)"
| "textFieldShouldReturn Port = (Some Port, Some Username)"
| "textFieldShouldReturn Username = (Some Username, Some Password)"
| "textFieldShouldReturn Password = (Some Password, None)"
| "textFieldShouldReturn OtherField = (None, None)"

definition dismissKeyboard :: "form_field list" where
  "dismissKeyboard = [ConnectionName, HostName, Port, Username, Password, OtherField]"

text \<open>The button: the fields go into the server, then the operating system of the row.\<close>

definition fillServer :: "formatter \<Rightarrow> server_form \<Rightarrow> server \<Rightarrow> server" where
  "fillServer numberFromString f s =
     s\<lparr>serverName := Some (connectionNameTxt f), host := Some (hostNameTxt f),
       username := Some (usernameTxt f),
       password := (if savePasswordRadio f then Some (passwordTxt f) else None),
       port := numberFromString (portTxt f), serverNotes := Some (notesTxt f)\<rparr>"

definition setServerOS :: "managed_context \<Rightarrow> nat \<Rightarrow> server \<Rightarrow> server" where
  "setServerOS c os s =
     s\<lparr>serverOS := (case objectOf osTable c os of None \<Rightarrow> None | Some x \<Rightarrow> operatingSystemID x)\<rparr>"

text \<open>
  The answer is the alert and whether the navigation goes back to its first screen.
\<close>

definition storeServer ::
  "core_data \<Rightarrow> formatter \<Rightarrow> string \<Rightarrow> string \<Rightarrow> server_form \<Rightarrow> nat \<Rightarrow> managed_context
     \<Rightarrow> ((string \<times> bool) \<times> managed_context) outcome" where
  "storeServer cd numberFromString success failure f k c =
     andThen (objectAtIndex (serverOptions f) (osRow f))
       (\<lambda>os. case saveContext cd
                 (changeObject serverTable_update k (setServerOS c os \<circ> fillServer numberFromString f) c) of
               (ok, c') \<Rightarrow> Inr (if \<not> ok then ((failure, False), c') else ((success, True), c')))"

definition addServerBtnOnClick ::
  "core_data \<Rightarrow> formatter \<Rightarrow> server_form \<Rightarrow> managed_context \<Rightarrow> ((string \<times> bool) \<times> managed_context) outcome" where
  "addServerBtnOnClick cd numberFromString f c =
     (if editing f
      then storeServer cd numberFromString ''Updated!'' ''Could not update server at this time.'' f (editedServer f) c
      else (case insertObject serverTable_update newServer c of
              (k, c1) \<Rightarrow> storeServer cd numberFromString ''Server Added!'' ''Could not save server at this time.'' f k c1))"

section \<open>The list\<close>

record server_list =
  servers :: "nat list"
  hidesBackButton :: bool

definition serverListDidLoad :: "core_data \<Rightarrow> managed_context \<Rightarrow> server_list \<times> managed_context" where
  "serverListDidLoad cd c =
     (case getAllServers cd c of (ks, c') \<Rightarrow> (\<lparr>servers = ks, hidesBackButton = True\<rparr>, c'))"

definition fetchServers :: "core_data \<Rightarrow> server_list \<Rightarrow> managed_context \<Rightarrow> server_list \<times> managed_context" where
  "fetchServers cd v c =
     (let v1 = v\<lparr>servers := []\<rparr>
      in case getAllServers cd c of (ks, c') \<Rightarrow> (v1\<lparr>servers := ks\<rparr>, c'))"

text \<open>The refresh control: fetch, reload, and stamp the control with the formatted date.\<close>

definition reloaddata ::
  "core_data \<Rightarrow> string \<Rightarrow> server_list \<Rightarrow> managed_context \<Rightarrow> (server_list \<times> string) \<times> managed_context" where
  "reloaddata cd date v c =
     (case fetchServers cd v c of (v', c') \<Rightarrow> ((v', ''Last update: '' @ date), c'))"

definition serverRowCount :: "server_list \<Rightarrow> nat" where
  "serverRowCount v = length (servers v)"

definition serverRowCell :: "managed_context \<Rightarrow> server_list \<Rightarrow> nat \<Rightarrow> (string option \<times> string) outcome" where
  "serverRowCell c v row =
     andThen (objectAtIndex (servers v) row)
       (\<lambda>k. Inr (case objectOf serverTable c k of
                   None \<Rightarrow> (None, ''(null):(null)'')
                 | Some s \<Rightarrow> (serverName s, fmt (host s) @ '':'' @ fmtNumber (port s))))"

definition didSelectServerRow :: "server_list \<Rightarrow> nat \<Rightarrow> nat outcome" where
  "didSelectServerRow v row = objectAtIndex (servers v) row"

definition reloadTableData :: "core_data \<Rightarrow> server_list \<Rightarrow> managed_context \<Rightarrow> server_list \<times> managed_context" where
  "reloadTableData cd v c = (case getAllServers cd c of (ks, c') \<Rightarrow> (v\<lparr>servers := ks\<rparr>, c'))"

section \<open>The overview\<close>

record overview =
  overviewTitle :: "string option"
  hostnameLbl :: string
  operatingSystemLbl :: "string option"
  usernameLbl :: "string option"
  overviewBtnEnabled :: bool

definition overviewDidLoad ::
  "core_data \<Rightarrow> server \<Rightarrow> managed_context \<Rightarrow> (overview \<times> managed_context) outcome" where
  "overviewDidLoad cd s c =
     (case getOperatingSystemByOperatingSystemID cd (serverOS s) c of (os, c1) \<Rightarrow>
        andThen (operatingSystemNameOf c1 os)
          (\<lambda>osText. case getOperatingSystemByOperatingSystemID cd (serverOS s) c1 of (os2, c2) \<Rightarrow>
             andThen (operatingSystemNameOf c2 os2)
               (\<lambda>osText2. Inr (\<lparr>overviewTitle = serverName s,
                    hostnameLbl = fmt (host s) @ '':'' @ fmtNumber (port s),
                    operatingSystemLbl = osText, usernameLbl = username s,
                    overviewBtnEnabled = (osText2 \<noteq> Some ''MySQL'')\<rparr>, c2))))"

text \<open>\<open>editServerOnTouch:\<close> hands its server to the form and sets its \<open>editing\<close>.\<close>

definition editServerOnTouch :: "nat \<Rightarrow> server \<Rightarrow> (nat \<times> server) option" where
  "editServerOnTouch k s = Some (k, s)"

datatype manage_screen = ManageMySQL "string option" | ManageLinux

definition manageServerOnClick ::
  "core_data \<Rightarrow> server \<Rightarrow> managed_context \<Rightarrow> (manage_screen \<times> managed_context) outcome" where
  "manageServerOnClick cd s c =
     (case getOperatingSystemByOperatingSystemID cd (serverOS s) c of (os, c') \<Rightarrow>
        andThen (operatingSystemNameOf c' os)
          (\<lambda>name. Inr (if name = Some ''MySQL'' then ManageMySQL (password s) else ManageLinux, c')))"

text \<open>
  The delete dialog: the taps are the buttons the user presses, one per dialog, and each failure
  asks again.  The answer says whether a success was shown and the list was opened.
\<close>

fun showCouldNotDeleteServer ::
  "core_data \<Rightarrow> nat \<Rightarrow> nat list \<Rightarrow> managed_context \<Rightarrow> bool \<times> managed_context" where
  "showCouldNotDeleteServer cd k [] c = (False, c)"
| "showCouldNotDeleteServer cd k (b # taps) c =
     (if b = 0 then (False, c)
      else if b = 1
      then (case deleteServer cd k c of (ok, c') \<Rightarrow>
              if ok then (True, c') else showCouldNotDeleteServer cd k taps c')
      else (False, c))"

definition onDeleteClicked ::
  "core_data \<Rightarrow> nat \<Rightarrow> nat list \<Rightarrow> managed_context \<Rightarrow> (bool \<times> bool) \<times> managed_context" where
  "onDeleteClicked cd k taps c =
     (case taps of
        [] \<Rightarrow> ((False, False), c)
      | b # rest \<Rightarrow>
          if b = 0 then ((False, False), c)
          else if b = 1
          then (case deleteServer cd k c of (ok, c') \<Rightarrow>
                  if ok then ((True, True), c')
                  else (case showCouldNotDeleteServer cd k rest c' of (done', c'') \<Rightarrow> ((done', False), c'')))
          else ((False, False), c))"

text \<open>Connecting: the address, and the screen or alert the state of the session leads to.\<close>

definition sessionAddress :: "server \<Rightarrow> string" where
  "sessionAddress s = fmt (host s) @ '':'' @ fmtNumber (port s)"

text \<open>A command run with the stored password, and the command of the CPU usage.\<close>

definition sudoCommand :: "server \<Rightarrow> string \<Rightarrow> string" where
  "sudoCommand s commandString = ''echo '' @ fmt (password s) @ '' | sudo -S '' @ commandString"

definition cpuCommand :: string where
  "cpuCommand =
     ''grep '' @ [CHR 0x27] @ ''cpu '' @ [CHR 0x27] @ '' /proc/stat | awk '' @ [CHR 0x27]
       @ ''{usage=($2+$4)*100/($2+$4+$5)} END {print usage '' @ [CHR 0x22] @ ''%'' @ [CHR 0x22] @ ''}''
       @ [CHR 0x27]"

definition systemOverviewOnClick :: "'s remote_api \<Rightarrow> server \<Rightarrow> 's \<Rightarrow> (string + server) \<times> 's" where
  "systemOverviewOnClick api s w =
     (case connectTo api w (sessionAddress s) (username s) of (connected, w1) \<Rightarrow>
        (if \<not> connected then Inl ''Could not instanciate connection to server'' else Inr s, w1))"

text \<open>
  The file manager: authentication is tried whether or not the session is connected, and only then the
  two flags are looked at; \<open>lastError\<close> is what the session reports.
\<close>

datatype file_manager = CouldNotConnect string | OpenSFTP | NothingShown

definition onFileManagerClicked ::
  "'s remote_api \<Rightarrow> ('s \<Rightarrow> string option) \<Rightarrow> server \<Rightarrow> 's \<Rightarrow> file_manager \<times> 's" where
  "onFileManagerClicked api lastError s w =
     (case connectTo api w (sessionAddress s) (username s) of (_, w1) \<Rightarrow>
        case authenticate api w1 (password s) of (_, w2) \<Rightarrow>
          (if \<not> connectedNow api w2 then CouldNotConnect (''Could not connect to server: '' @ fmt (lastError w2))
           else if authorizedNow api w2 then OpenSFTP
           else NothingShown, w2))"

section \<open>What the form stores\<close>

lemma storeServer_result:
  assumes "storeServer cd nf good bad f k c = Inr ((msg, home), c')"
    and "table_ok serverTable c" and "objectOf serverTable c k = Some s"
  shows "\<exists>os. os = serverOptions f ! osRow f \<and> osRow f < length (serverOptions f)
    \<and> objectOf serverTable c' k = Some (setServerOS c os (fillServer nf f s))
    \<and> (\<forall>j. j \<noteq> k \<longrightarrow> objectOf serverTable c' j = objectOf serverTable c j)
    \<and> home = saveWorks cd (savesDone c) \<and> msg = (if home then good else bad)
    \<and> objectOf serverTable (relaunch c')
        = (if home then objectOf serverTable c' else objectOf serverTable (relaunch c))
    \<and> table_ok serverTable c' \<and> osTable (live c') = osTable (live c)"
proof -
  define os where "os = serverOptions f ! osRow f"
  let ?d = "changeObject serverTable_update k (setServerOS c os \<circ> fillServer nf f) c"
  obtain ok d where sv: "saveContext cd ?d = (ok, d)" by fastforce
  from assms(1) sv have row: "osRow f < length (serverOptions f)" and res: "c' = d" "home = ok"
      "msg = (if ok then good else bad)"
    by (auto simp: storeServer_def andThen_Inr_iff objectAtIndex_Inr_iff os_def split: if_splits)
  have same: "savesDone ?d = savesDone c" "relaunch ?d = relaunch c" "osTable (live ?d) = osTable (live c)"
    by (simp_all add: changeObject_def relaunch_def)
  show ?thesis
    using server_entity.saved [OF sv] row res same assms(2,3) os_def
    by (simp add: server_entity.changed server_entity.changed_ok)
qed

lemma getAllServers_set:
  assumes "table_ok serverTable c" and "fetches_work cd"
  shows "set (fst (getAllServers cd c)) = {j. objectOf serverTable c j \<noteq> None}"
proof -
  obtain ks where f: "executeFetch cd serverTable (\<lambda>s. True) c = (Some ks, c\<lparr>fetchesDone := Suc (fetchesDone c)\<rparr>)"
    using assms(2) by (simp add: executeFetch_def fetches_work_def)
  from server_entity.fetch_exact [OF assms(1) _ f] assms(2)
  have "set ks = {j. objectOf serverTable c j \<noteq> None}" by (auto simp: fetches_work_def)
  with f show ?thesis by (cases ks) (simp_all add: getAllServers_def fetchedOrEmpty_def)
qed

text \<open>
  C32.  Adding a server: its object is in the list the next fetch returns whether or not the save
  worked, with what was typed; after a relaunch it is there exactly when the alert said
  \<open>Server Added!\<close>.  The other servers are unchanged.
\<close>

theorem added_server_listed:
  assumes "table_ok serverTable c" and "fetches_work cd" and "\<not> editing f"
    and "addServerBtnOnClick cd nf f c = Inr ((msg, home), c')"
  shows "set (fst (getAllServers cd c')) = insert (nextObject c) (set (fst (getAllServers cd c)))
    \<and> nextObject c \<notin> set (fst (getAllServers cd c))
    \<and> (\<exists>s. objectOf serverTable c' (nextObject c) = Some s \<and> serverName s = Some (connectionNameTxt f)
         \<and> host s = Some (hostNameTxt f) \<and> port s = nf (portTxt f)
         \<and> password s = (if savePasswordRadio f then Some (passwordTxt f) else None))
    \<and> (msg = ''Server Added!'' \<longleftrightarrow> objectOf serverTable (relaunch c') (nextObject c) \<noteq> None)
    \<and> (\<forall>j. j \<noteq> nextObject c \<longrightarrow> objectOf serverTable c' j = objectOf serverTable c j)"
proof -
  obtain k c1 where ins: "insertObject serverTable_update newServer c = (k, c1)" by fastforce
  then have k: "k = nextObject c" and relaunched: "objectOf serverTable (relaunch c1) = objectOf serverTable (relaunch c)"
    by (auto simp: insertObject_def relaunch_def objectOf_def)
  note new = server_entity.inserted [OF assms(1) ins]
  from assms(3,4) ins have "storeServer cd nf ''Server Added!'' ''Could not save server at this time.'' f k c1
      = Inr ((msg, home), c')" by (simp add: addServerBtnOnClick_def)
  from storeServer_result [OF this] new obtain os where st:
      "objectOf serverTable c' k = Some (setServerOS c1 os (fillServer nf f newServer))"
      "\<forall>j. j \<noteq> k \<longrightarrow> objectOf serverTable c' j = objectOf serverTable c j"
      "msg = (if home then ''Server Added!'' else ''Could not save server at this time.'')"
      "objectOf serverTable (relaunch c') = (if home then objectOf serverTable c' else objectOf serverTable (relaunch c1))"
      "table_ok serverTable c'"
    by auto
  have old: "objectOf serverTable (relaunch c) k = None"
    using assms(1) by (auto simp: k table_ok_def relaunch_def objectOf_def map_of_eq_None_iff list_all_iff)
  have "{j. objectOf serverTable c' j \<noteq> None} = insert k {j. objectOf serverTable c j \<noteq> None}"
    using st(1,2) by auto
  moreover have "k \<notin> {j. objectOf serverTable c j \<noteq> None}" using new by simp
  moreover have "msg = ''Server Added!'' \<longleftrightarrow> objectOf serverTable (relaunch c') k \<noteq> None"
    using st old relaunched by simp
  moreover have "\<exists>s. objectOf serverTable c' k = Some s \<and> serverName s = Some (connectionNameTxt f)
         \<and> host s = Some (hostNameTxt f) \<and> port s = nf (portTxt f)
         \<and> password s = (if savePasswordRadio f then Some (passwordTxt f) else None)"
    using st(1) by (simp add: setServerOS_def fillServer_def)
  ultimately show ?thesis
    using st(2) unfolding getAllServers_set [OF assms(1,2)] getAllServers_set [OF st(5) assms(2)] k
    by blast
qed

definition typedServer :: server_form where
  "typedServer = \<lparr>formTitle = ''Add New Server'', connectionNameTxt = ''web'', hostNameTxt = ''10.0.0.1'',
     portTxt = ''22'', usernameTxt = ''root'', passwordTxt = ''pw'', notesTxt = '''',
     savePasswordRadio = True, osRow = 0, serverOptions = [0], editing = False, editedServer = 0\<rparr>"

definition noSaves :: core_data where
  "noSaves = demoCore\<lparr>saveWorks := (\<lambda>n. False)\<rparr>"

lemma noSaves_works: "fetches_work noSaves"
  by (simp add: fetches_work_def fetches_all_def noSaves_def demoCore_def)

definition dropNumber :: formatter where
  "dropNumber s = None"

theorem added_server_listed_witness:
  "\<exists>c'. addServerBtnOnClick noSaves dropNumber typedServer emptyContext
       = Inr ((''Could not save server at this time.'', False), c')
     \<and> set (fst (getAllServers noSaves c')) = {0}
     \<and> objectOf serverTable (relaunch c') 0 = None"
proof -
  obtain c' where run: "addServerBtnOnClick noSaves dropNumber typedServer emptyContext
       = Inr ((''Could not save server at this time.'', False), c')"
    by (simp add: addServerBtnOnClick_def typedServer_def storeServer_def insertObject_def saveContext_def
        noSaves_def Let_def objectAtIndex_def)
  have old: "set (fst (getAllServers noSaves emptyContext)) = {}" "nextObject emptyContext = 0"
    unfolding getAllServers_set [OF emptyContext_ok(2) noSaves_works]
    by (simp_all add: objectOf_def emptyContext_def noTables_def)
  have "\<not> editing typedServer" by (simp add: typedServer_def)
  from added_server_listed [OF emptyContext_ok(2) noSaves_works this run] old run show ?thesis by auto
qed

section \<open>Editing\<close>

text \<open>The table holds the systems with the ids 1 to n, inserted in this order.  A fetch may return them in any order.\<close>

definition seeded :: "nat \<Rightarrow> managed_context \<Rightarrow> bool" where
  "seeded n c \<longleftrightarrow> map (operatingSystemID \<circ> snd) (osTable (live c)) = map (\<lambda>i. Some (int i + 1)) [0..<n]"

lemma seeded_hasOS:
  assumes "seeded n c" and "j < n"
  shows "hasOS (osTable (live c)) j"
proof -
  have "Some (int j + 1) \<in> set (map (operatingSystemID \<circ> snd) (osTable (live c)))"
    using assms unfolding seeded_def by auto
  then show ?thesis by (force simp: hasOS_def list_ex_iff)
qed

lemma seeded_row:
  assumes "seeded n c" and "table_ok osTable c" and "i < n"
  shows "i < length (osTable (live c)) \<and>
    map_option operatingSystemID (objectOf osTable c (map fst (osTable (live c)) ! i)) = Some (Some (int i + 1))"
proof -
  let ?t = "osTable (live c)"
  have ids: "map (operatingSystemID \<circ> snd) ?t = map (\<lambda>i. Some (int i + 1)) [0..<n]"
    using assms(1) by (simp add: seeded_def)
  then have len: "length ?t = n" by (metis length_map length_upt diff_zero)
  from ids have "map (operatingSystemID \<circ> snd) ?t ! i = Some (int i + 1)" using assms(3) by simp
  with len assms(3) have "operatingSystemID (snd (?t ! i)) = Some (int i + 1)" by simp
  moreover have "map_of ?t (fst (?t ! i)) = Some (snd (?t ! i))"
    using assms(2,3) len by (simp add: table_ok_def)
  ultimately show ?thesis using len assms(3) by (simp add: objectOf_def)
qed

lemma objectOf_live: "live c = live d \<Longrightarrow> objectOf rd c = objectOf rd d"
  by (simp add: objectOf_def fun_eq_iff)

lemma newServerDidLoad_seeded:
  assumes "fetches_work cd" and "seeded n c" and "9 \<le> n"
    and "newServerDidLoad cd pick edited c = (f, c')"
  shows "live c' = live c \<and> disk c' = disk c \<and> nextObject c' = nextObject c
    \<and> serverOptions f = fetchOrder cd (map fst (osTable (live c)))"
proof -
  let ?a = "addAllOperatingSystems cd formOperatingSystems c"
  have "length formOperatingSystems = 9" by (simp add: formOperatingSystems_def)
  then have "\<forall>j < length formOperatingSystems. hasOS (osTable (live c)) (0 + j)"
    using seeded_hasOS [OF assms(2)] assms(3) by simp
  then have a: "live ?a = live c \<and> disk ?a = disk c \<and> nextObject ?a = nextObject c"
    unfolding addAllOperatingSystems_def by (rule addAllLoop_complete [OF assms(1)])
  have "filter (\<lambda>r. True) xs = xs" for xs :: "operating_system rows" by simp
  then have g: "getAllOperatingSystems cd ?a = (fetchOrder cd (map fst (osTable (live c))), ?a\<lparr>fetchesDone := Suc (fetchesDone ?a)\<rparr>)"
    using assms(1) a
    by (simp add: getAllOperatingSystems_def executeFetch_def fetches_work_def fetchedOrEmpty_def)
  from assms(4) a show ?thesis
    by (auto simp: newServerDidLoad_def g Let_def showServer_def split: option.splits)
qed

text \<open>
  C35.  The nine systems are stored with the ids 1 to n and a server has the id j, with j < n.  Its form shows what is
  stored, but takes the id for the row of the picker.  So pressing \<open>Update Server\<close> without touching anything stores
  the id of the system in row j of whatever order Core Data fetches in; in the order of insertion that is j + 1.
\<close>

theorem untouched_update_takes_id_as_row:
  assumes "fetches_work cd" and "seeded n c" and "9 \<le> n" and "picker_law pick"
    and "table_ok osTable c" and "table_ok serverTable c"
    and "objectOf serverTable c k = Some s" and "serverOS s = Some (int j)" and "j < n"
    and "newServerDidLoad cd pick (editServerOnTouch k s) c = (f, c1)"
    and "addServerBtnOnClick cd nf f c1 = Inr ((msg, home), c2)"
  shows "connectionNameTxt f = textOf (serverName s) \<and> hostNameTxt f = textOf (host s)
    \<and> usernameTxt f = textOf (username s) \<and> passwordTxt f = textOf (password s)
    \<and> notesTxt f = textOf (serverNotes s) \<and> portTxt f = fmtNumber (port s) \<and> osRow f = j
    \<and> map_option serverOS (objectOf serverTable c2 k)
        = map_option operatingSystemID (objectOf osTable c (fetchOrder cd (map fst (osTable (live c))) ! j))
    \<and> map_option serverOS (objectOf serverTable c2 k) \<in> (\<lambda>i. Some (Some (int i))) ` {1..n}
    \<and> (fetchOrder cd (map fst (osTable (live c))) = map fst (osTable (live c))
        \<longrightarrow> map_option serverOS (objectOf serverTable c2 k) = Some (Some (int j + 1)))
    \<and> map_option serverName (objectOf serverTable c2 k) = Some (Some (textOf (serverName s)))
    \<and> (msg = ''Updated!'' \<longleftrightarrow> home)"
proof -
  let ?keys = "map fst (osTable (live c))"
  note loaded = newServerDidLoad_seeded [OF assms(1-3,10)]
  have n: "length (osTable (live c)) = n"
    using assms(2) unfolding seeded_def by (metis length_map length_upt diff_zero)
  from assms(10) have ed: "editing f" "editedServer f = k"
    and sel: "osRow f = pick (length (serverOptions f)) (integerValue (serverOS s))"
    and fields: "connectionNameTxt f = textOf (serverName s) \<and> hostNameTxt f = textOf (host s)
    \<and> usernameTxt f = textOf (username s) \<and> passwordTxt f = textOf (password s)
    \<and> notesTxt f = textOf (serverNotes s) \<and> portTxt f = fmtNumber (port s)"
    by (auto simp: newServerDidLoad_def editServerOnTouch_def Let_def showServer_def split: prod.splits)
  have fetch: "set (fetchOrder cd ?keys) = set ?keys" "length (fetchOrder cd ?keys) = n"
    using assms(1) n by (simp_all add: fetches_work_def fetches_all_set fetches_all_length)
  have row: "osRow f = j"
    using assms(4,8,9) loaded fetch(2) unfolding sel by (simp add: integerValue_def picker_law_def)
  have s: "objectOf serverTable c1 k = Some s" using objectOf_live [of c1 c] loaded assms(7) by metis
  have tok: "table_ok serverTable c1" using assms(6) loaded by (simp add: table_ok_def)
  from assms(11) ed have "storeServer cd nf ''Updated!'' ''Could not update server at this time.'' f k c1
      = Inr ((msg, home), c2)" by (simp add: addServerBtnOnClick_def)
  from storeServer_result [OF this tok s] obtain os where os: "os = serverOptions f ! osRow f"
    and o: "objectOf serverTable c2 k = Some (setServerOS c1 os (fillServer nf f s))"
    and m: "msg = (if home then ''Updated!'' else ''Could not update server at this time.'')" by blast
  have os: "os = fetchOrder cd ?keys ! j" using os row loaded by simp
  then have "os \<in> set ?keys" using fetch assms(9) by (metis nth_mem)
  then obtain i where i: "i < n" "os = ?keys ! i" using n by (metis in_set_conv_nth length_map)
  have same: "objectOf osTable c1 = objectOf osTable c" by (rule objectOf_live) (use loaded in simp)
  have id: "map_option operatingSystemID (objectOf osTable c os) = Some (Some (int i + 1))"
    unfolding i(2) by (rule conjunct2 [OF seeded_row [OF assms(2,5) i(1)]])
  then have stored: "map_option serverOS (objectOf serverTable c2 k) = map_option operatingSystemID (objectOf osTable c os)"
    by (auto simp: o setServerOS_def same)
  have "map_option serverOS (objectOf serverTable c2 k) = Some (Some (int j + 1))" if "fetchOrder cd ?keys = ?keys"
    unfolding stored os that by (rule conjunct2 [OF seeded_row [OF assms(2,5,9)]])
  moreover have "map_option serverOS (objectOf serverTable c2 k) \<in> (\<lambda>i. Some (Some (int i))) ` {1..n}"
    using stored id i(1) by (intro image_eqI [of _ _ "Suc i"]) auto
  ultimately show ?thesis using m fields row stored os by (simp add: o setServerOS_def fillServer_def)
qed

text \<open>Nine systems and one MySQL server, whose id is 8.\<close>

definition nineSystems :: managed_context where
  "nineSystems =
     emptyContext\<lparr>nextObject := 10,
       live := \<lparr>osTable = map (\<lambda>i. (i, newOperatingSystem\<lparr>operatingSystemID := Some (int i + 1)\<rparr>)) [0..<9],
                serverTable = [(9, newServer\<lparr>serverName := Some ''db'', serverOS := Some 8\<rparr>)],
                scriptTable = []\<rparr>\<rparr>"

definition exactPicker :: picker where
  "exactPicker n i = nat i"

theorem untouched_update_takes_id_as_row_witness:
  "\<exists>f c1 c2. newServerDidLoad demoCore exactPicker (editServerOnTouch 9 (newServer\<lparr>serverName := Some ''db'', serverOS := Some 8\<rparr>))
        nineSystems = (f, c1)
     \<and> addServerBtnOnClick demoCore dropNumber f c1 = Inr ((''Updated!'', True), c2)
     \<and> map_option serverOS (objectOf serverTable c2 9) = Some (Some 9)"
proof -
  let ?s = "newServer\<lparr>serverName := Some ''db'', serverOS := Some 8\<rparr>"
  have seed: "seeded 9 nineSystems"
    by (simp add: seeded_def nineSystems_def demoCore_def)
  have ok: "table_ok osTable nineSystems" "table_ok serverTable nineSystems"
    by (auto simp: table_ok_def nineSystems_def emptyContext_def noTables_def list_all_iff comp_def)
  have pick: "picker_law exactPicker" by (simp add: picker_law_def exactPicker_def)
  have obj: "objectOf serverTable nineSystems 9 = Some ?s" by (simp add: objectOf_def nineSystems_def)
  have os: "serverOS ?s = Some (int 8)" "8 < (9 :: nat)" "9 \<le> (9 :: nat)" by simp_all
  obtain f c1 where load: "newServerDidLoad demoCore exactPicker (editServerOnTouch 9 ?s) nineSystems = (f, c1)"
    by fastforce
  note opts = newServerDidLoad_seeded [OF demoCore_works seed os(3) load]
  have f: "editing f" "osRow f = 8"
    using load by (auto simp: newServerDidLoad_def editServerOnTouch_def Let_def showServer_def exactPicker_def integerValue_def
        split: prod.splits)
  have "length (serverOptions f) = 9" using opts by (simp add: nineSystems_def demoCore_def)
  then obtain c2 where run: "addServerBtnOnClick demoCore dropNumber f c1 = Inr ((''Updated!'', True), c2)"
    using f by (simp add: addServerBtnOnClick_def storeServer_def saveContext_def demoCore_def Let_def)
  from untouched_update_takes_id_as_row [OF demoCore_works seed os(3) pick ok obj os(1,2) load run] load run
  show ?thesis by (auto simp: demoCore_def)
qed

section \<open>A fresh install\<close>

text \<open>On a fresh install the form offers the nine systems of the first list.\<close>

lemma fresh_form:
  assumes "fetches_work cd" and "table_ok osTable c" and "osTable (live c) = []" and "table_ok serverTable c"
    and "newServerDidLoad cd pick edited (snd (optionsDidLoad cd c)) = (f, c')"
  shows "map snd (osTable (live c')) = map (\<lambda>i. fillOperatingSystem i (optionsOperatingSystems ! i) newOperatingSystem)
        [0..<length optionsOperatingSystems]
    \<and> serverOptions f = fetchOrder cd (map fst (osTable (live c')))
    \<and> table_ok osTable c' \<and> table_ok serverTable c'"
proof -
  let ?c1 = "addAllOperatingSystems cd optionsOperatingSystems c"
  let ?c2 = "addAllOperatingSystems cd formOperatingSystems ?c1"
  have le: "length formOperatingSystems \<le> length optionsOperatingSystems"
    by (simp add: formOperatingSystems_def optionsOperatingSystems_def)
  note first = first_list_aux [OF assms(1-3), of optionsOperatingSystems formOperatingSystems]
  from first le have rows: "map snd (osTable (live ?c1)) = map (\<lambda>i. fillOperatingSystem i (optionsOperatingSystems ! i) newOperatingSystem)
        [0..<length optionsOperatingSystems]" and "live ?c2 = live ?c1"
    by blast+
  moreover have "table_ok osTable ?c1" "table_ok serverTable ?c1"
    using addAllLoop_tables [OF assms(1,2)] addAllLoop_serverTable_ok [OF assms(2,4,1)]
    by (simp_all add: addAllOperatingSystems_def)
  moreover from this have "table_ok osTable ?c2" "table_ok serverTable ?c2"
    using addAllLoop_tables [OF assms(1)] addAllLoop_serverTable_ok [OF _ _ assms(1)]
    by (simp_all add: addAllOperatingSystems_def [of cd formOperatingSystems])
  moreover have "c' = ?c2\<lparr>fetchesDone := Suc (fetchesDone ?c2)\<rparr>"
    "serverOptions f = fetchOrder cd (map fst (osTable (live ?c2)))"
    using assms(5) by (auto simp: newServerDidLoad_def getAllOperatingSystems_order [OF assms(1)] optionsDidLoad_def
        Let_def showServer_def split: option.splits)
  ultimately show ?thesis using rows by simp
qed

lemma form_titles:
  assumes "fetches_work cd" and "table_ok osTable c"
    and "map snd (osTable (live c)) = map (\<lambda>i. fillOperatingSystem i (xs ! i) newOperatingSystem) [0..<length xs]"
    and "serverOptions f = fetchOrder cd (map fst (osTable (live c)))"
  shows "mset (map (titleForRow c f) [0..<numberOfRowsInComponent f]) = mset (map (\<lambda>p. Inr (osName p)) xs)"
proof -
  let ?name = "\<lambda>k. operatingSystemNameOf c (Some k)" and ?t = "osTable (live c)"
  have name: "?name (fst r) = Inr (operatingSystemName (snd r))" if "r \<in> set ?t" for r
  proof -
    have "map_of ?t (fst r) = Some (snd r)"
      using assms(2) that by (intro map_of_is_SomeI) (simp_all add: table_ok_def)
    then show ?thesis by (simp add: operatingSystemNameOf_def objectOf_def)
  qed
  have "map (titleForRow c f) [0..<numberOfRowsInComponent f]
      = map (\<lambda>i. ?name (serverOptions f ! i)) [0..<length (serverOptions f)]"
    by (simp add: titleForRow_def numberOfRowsInComponent_def objectAtIndex_def)
  also have "\<dots> = map ?name (serverOptions f)" by (rule nth_equalityI) simp_all
  finally have "mset (map (titleForRow c f) [0..<numberOfRowsInComponent f])
      = image_mset ?name (mset (map fst ?t))"
    using assms(1,4) by (simp add: fetches_work_def fetches_all_def)
  also have "\<dots> = mset (map (\<lambda>r. Inr (operatingSystemName (snd r))) ?t)"
    using name by (simp flip: mset_map cong: map_cong)
  also have "map (\<lambda>r. Inr (operatingSystemName (snd r))) ?t = map (\<lambda>x. Inr (operatingSystemName x)) (map snd ?t)"
    by simp
  also have "\<dots> = map (\<lambda>i. Inr (osName (xs ! i))) [0..<length xs]"
    unfolding assms(3) by (simp add: fillOperatingSystem_def)
  also have "\<dots> = map (\<lambda>p. Inr (osName p)) xs" by (rule nth_equalityI) simp_all
  finally show ?thesis .
qed

lemma addServer_keeps_os:
  assumes "addServerBtnOnClick cd nf g c = Inr (r, c')" and "table_ok osTable c"
  shows "table_ok osTable c'"
proof (rule table_ok_frame [OF assms(2)])
  show "osTable (live c') = osTable (live c)" "osTable (disk c') \<in> {osTable (disk c), osTable (live c)}"
    "nextObject c \<le> nextObject c'"
    using assms(1)
    by (auto simp: addServerBtnOnClick_def storeServer_def andThen_Inr_iff insertObject_def changeObject_def
        saveContext_def Let_def split: if_splits)
qed

section \<open>The delete dialog\<close>

lemma showCouldNotDeleteServer_result:
  assumes "showCouldNotDeleteServer cd k taps c = (ok, c')" and "table_ok serverTable c"
    and "objectOf serverTable c k = None"
  shows "objectOf serverTable c' = objectOf serverTable c
    \<and> objectOf serverTable (relaunch c') = (if ok then objectOf serverTable c' else objectOf serverTable (relaunch c))"
  using assms
proof (induction taps arbitrary: c)
  case (Cons b taps)
  show ?case
  proof (cases "b = 1")
    case False
    with Cons.prems show ?thesis by (auto split: if_splits)
  next
    case True
    obtain ok1 c1 where del: "deleteServer cd k c = (ok1, c1)" by fastforce
    note d = deleteServer_result [OF Cons.prems(2) del]
    have same: "objectOf serverTable c1 = objectOf serverTable c"
      using d Cons.prems(3) by (auto simp: fun_eq_iff)
    show ?thesis
    proof (cases ok1)
      case True
      with \<open>b = 1\<close> del Cons.prems(1) same d show ?thesis by auto
    next
      case False
      with \<open>b = 1\<close> del Cons.prems(1) have "showCouldNotDeleteServer cd k taps c1 = (ok, c')" by simp
      from Cons.IH [OF this] d same False Cons.prems(3) show ?thesis by auto
    qed
  qed
qed simp

text \<open>
  Whatever the user answers after the first Yes, the server is out of the context at once and
  the others stay; success is reported exactly when a save worked, and only then a relaunch keeps
  it deleted.  The list opens only if the first attempt worked.
\<close>

theorem delete_dialog:
  assumes "onDeleteClicked cd k (1 # taps) c = ((reported, opened), c')" and "table_ok serverTable c"
    and "objectOf serverTable (relaunch c) k = Some s"
  shows "(\<forall>j. objectOf serverTable c' j = (if j = k then None else objectOf serverTable c j))
    \<and> (reported \<longleftrightarrow> objectOf serverTable (relaunch c') k = None)
    \<and> (\<not> reported \<longrightarrow> objectOf serverTable (relaunch c') = objectOf serverTable (relaunch c))
    \<and> (opened \<longleftrightarrow> saveWorks cd (savesDone c)) \<and> (opened \<longrightarrow> reported)"
proof -
  obtain ok1 c1 where del: "deleteServer cd k c = (ok1, c1)" by fastforce
  note d = deleteServer_result [OF assms(2) del]
  show ?thesis
  proof (cases ok1)
    case True
    with assms(1) del d show ?thesis by (auto simp: onDeleteClicked_def)
  next
    case False
    obtain done' c2 where again: "showCouldNotDeleteServer cd k taps c1 = (done', c2)" by fastforce
    from assms(1) del False again have res: "reported = done'" "\<not> opened" "c' = c2"
      by (auto simp: onDeleteClicked_def)
    from d have "table_ok serverTable c1" "objectOf serverTable c1 k = None" by auto
    from showCouldNotDeleteServer_result [OF again this] d False res assms(3) show ?thesis by auto
  qed
qed

text \<open>Saving fails once, then works.\<close>

definition secondSave :: core_data where
  "secondSave = demoCore\<lparr>saveWorks := (\<lambda>n. 0 < n)\<rparr>"

theorem delete_dialog_witness:
  "\<exists>c'. onDeleteClicked secondSave 0 [1, 1] oneServer = ((True, False), c')
     \<and> objectOf serverTable (relaunch c') 0 = None"
proof -
  have ok: "table_ok serverTable oneServer" and
    stored: "objectOf serverTable (relaunch oneServer) 0 = Some (newServer\<lparr>serverName := Some ''web''\<rparr>)"
    by (simp_all add: table_ok_def relaunch_def objectOf_def oneServer_def Let_def emptyContext_def noTables_def)
  obtain c' where run: "onDeleteClicked secondSave 0 [1, 1] oneServer = ((True, False), c')"
    by (simp add: onDeleteClicked_def deleteServer_def saveContext_def secondSave_def Let_def
        deleteObject_def oneServer_def emptyContext_def)
  from delete_dialog [OF run ok stored] run show ?thesis by auto
qed

end
