(* ===== verification/Scripts.thy ===== *)
theory Scripts
  imports ServerScreens
begin

text \<open>
  The stored scripts: the list with its question (ScriptListViewController.m), the editor
  (ScriptCreateEditViewController.m) and the options of one script (ScriptOptionsViewController.m).
  A script is the number of its object.  Running one takes the library's \<open>execute:error:\<close> as a
  parameter, over an abstract server state, and whether the session is connected and authorised.
\<close>

section \<open>The list\<close>

record script_list =
  scripts :: "nat list"
  asksToCreate :: bool

definition scriptListDidLoad :: "core_data \<Rightarrow> managed_context \<Rightarrow> script_list \<times> managed_context" where
  "scriptListDidLoad cd c =
     (case fetchAllScripts cd c of (ks, c') \<Rightarrow> (\<lparr>scripts = ks, asksToCreate = (length ks = 0)\<rparr>, c'))"

definition scriptRowCount :: "script_list \<Rightarrow> nat" where
  "scriptRowCount v = length (scripts v)"

definition scriptRowCell :: "managed_context \<Rightarrow> script_list \<Rightarrow> nat \<Rightarrow> string option outcome" where
  "scriptRowCell c v row =
     andThen (objectAtIndex (scripts v) row)
       (\<lambda>k. Inr (case objectOf scriptTable c k of None \<Rightarrow> None | Some s \<Rightarrow> script_name s))"

datatype script_screen = ScriptList | ScriptEditor "nat option" | ScriptOptions nat | NoScreen

text \<open>The question \<open>Would you like to create one now?\<close>: the object comes before the switch.\<close>

definition scriptAlertClicked :: "nat \<Rightarrow> managed_context \<Rightarrow> script_screen \<times> managed_context" where
  "scriptAlertClicked buttonIndex c =
     (case insertObject scriptTable_update newScript c of
        (k, c') \<Rightarrow>
          (if buttonIndex = 0 then ScriptList
           else if buttonIndex = 1 then ScriptEditor None
           else NoScreen, c'))"

definition didSelectScriptRow :: "script_list \<Rightarrow> nat \<Rightarrow> script_screen outcome" where
  "didSelectScriptRow v row = andThen (objectAtIndex (scripts v) row) (\<lambda>k. Inr (ScriptOptions k))"

section \<open>The editor\<close>

record script_editor =
  editedScript :: nat
  isCreating :: bool
  scriptNameTxt :: string
  scriptContentsTxt :: string

definition scriptEditorDidLoad :: "nat option \<Rightarrow> managed_context \<Rightarrow> script_editor \<times> managed_context" where
  "scriptEditorDidLoad edited c =
     (case edited of
        Some k \<Rightarrow>
          (let s = (case objectOf scriptTable c k of None \<Rightarrow> newScript | Some s \<Rightarrow> s)
           in (\<lparr>editedScript = k, isCreating = False, scriptNameTxt = textOf (script_name s),
                scriptContentsTxt = textOf (script_contents s)\<rparr>, c))
      | None \<Rightarrow>
          (case insertObject scriptTable_update newScript c of
             (k, c') \<Rightarrow> (\<lparr>editedScript = k, isCreating = True, scriptNameTxt = '''',
                          scriptContentsTxt = ''''\<rparr>, c')))"

definition fillScript :: "script_editor \<Rightarrow> script \<Rightarrow> script" where
  "fillScript v s =
     s\<lparr>script_name := Some (scriptNameTxt v), script_contents := Some (scriptContentsTxt v)\<rparr>"

text \<open>
  Save: the alert, and the list in every case.  The branch of an edited script looks at an error
  variable that \<open>save:nil\<close> cannot set.
\<close>

definition onSaveBtnClick ::
  "core_data \<Rightarrow> script_editor \<Rightarrow> managed_context \<Rightarrow> (string \<times> string) \<times> managed_context" where
  "onSaveBtnClick cd v c =
     (let c1 = changeObject scriptTable_update (editedScript v) (fillScript v) c
      in if isCreating v
         then (case createNewScript cd (editedScript v) c1 of
                 (ok, c2) \<Rightarrow>
                   (if ok then (''Alert'', ''Script updated!'') else (''Error'', ''Could not save script.''), c2))
         else (let err = (None :: string option); c2 = snd (saveContext cd c1)
               in (if err = None then (''Alert'', ''Script updated!'')
                   else (''Error'', ''Could not save script.''), c2)))"

datatype script_field = NameField | ContentsField

text \<open>The return key: the field that is left and the one that is entered.\<close>

definition scriptFieldReturn :: "script_field \<Rightarrow> script_field \<times> script_field option" where
  "scriptFieldReturn f =
     (if f = NameField then (NameField, Some ContentsField) else (f, None))"

section \<open>The options of a script\<close>

definition scriptOptions :: "string list" where
  "scriptOptions = [''Edit Script'', ''Run Script'', ''Delete Script'']"

definition scriptOptionCell :: "nat \<Rightarrow> string outcome" where
  "scriptOptionCell row = objectAtIndex scriptOptions row"

text \<open>
  The screen a tap leads to.  A list presented after a deletion has no session, the messages that
  set it went to \<open>nil\<close>.  Presenting \<open>nil\<close>, as the branch of a lost session does, raises.
\<close>

datatype script_action =
  EditScript nat
| ShowResult string
| GoBack
| PresentList "(string \<times> string) list" bool
| NoAction

definition runScript ::
  "(string option \<Rightarrow> 's \<Rightarrow> (string + string) \<times> 's) \<Rightarrow> bool \<Rightarrow> nat \<Rightarrow> managed_context \<Rightarrow> 's
     \<Rightarrow> (script_action \<times> 's) outcome" where
  "runScript execute up k c s =
     (if \<not> up then Inl NSInvalidArgumentException
      else (case execute (case objectOf scriptTable c k of None \<Rightarrow> None | Some x \<Rightarrow> script_contents x) s of
              (r, s') \<Rightarrow> Inr (case r of Inl err \<Rightarrow> GoBack | Inr response \<Rightarrow> ShowResult response, s')))"

definition didSelectScriptOption ::
  "core_data \<Rightarrow> (string option \<Rightarrow> 's \<Rightarrow> (string + string) \<times> 's) \<Rightarrow> bool \<Rightarrow> nat \<Rightarrow> nat
     \<Rightarrow> managed_context \<Rightarrow> 's \<Rightarrow> (script_action \<times> managed_context \<times> 's) outcome" where
  "didSelectScriptOption cd execute up row k c s =
     (if row = 0 then Inr (EditScript k, c, s)
      else if row = 1
      then andThen (runScript execute up k c s) (\<lambda>(a, s'). Inr (a, c, s'))
      else if row = 2
      then Inr (PresentList [(''Alert'', ''Script deleted!'')] False,
                snd (saveContext cd (deleteObject scriptTable_update k c)), s)
      else Inr (NoAction, c, s))"

section \<open>Properties\<close>

text \<open>
  Answering the question of an empty list creates a script before looking at the button.  With
  \<open>No thanks\<close> a blank script is listed; creating and saving one lists two, the typed one and the
  blank one, and the save stores both.
\<close>

theorem question_leaves_blank_script:
  assumes "table_ok scriptTable c" and "scriptTable (live c) = []"
    and "scriptAlertClicked b c = (screen, c1)"
    and "scriptEditorDidLoad None c1 = (v, c2)"
    and "onSaveBtnClick cd (v\<lparr>scriptNameTxt := name, scriptContentsTxt := body\<rparr>) c2 = (alert, c3)"
  shows "map snd (scriptTable (live c1)) = [newScript]
    \<and> (screen = ScriptEditor None \<longleftrightarrow> b = 1)
    \<and> map snd (scriptTable (live c3))
        = [newScript, newScript\<lparr>script_name := Some name, script_contents := Some body\<rparr>]
    \<and> (alert = (''Alert'', ''Script updated!'') \<longrightarrow> scriptTable (disk c3) = scriptTable (live c3))"
proof -
  from assms(2,3) have c1: "scriptTable (live c1) = [(nextObject c, newScript)]" "nextObject c1 = Suc (nextObject c)"
    and screen: "screen = ScriptEditor None \<longleftrightarrow> b = 1"
    by (auto simp: scriptAlertClicked_def insertObject_def split: if_splits)
  from assms(4) have v: "editedScript v = nextObject c1" "isCreating v"
    and c2: "scriptTable (live c2) = [(nextObject c, newScript), (Suc (nextObject c), newScript)]"
    using c1 by (auto simp: scriptEditorDidLoad_def insertObject_def)
  let ?c = "changeObject scriptTable_update (nextObject c1)
    (fillScript (v\<lparr>scriptNameTxt := name, scriptContentsTxt := body\<rparr>)) c2"
  obtain ok d where sv: "saveContext cd ?c = (ok, d)" by fastforce
  from assms(5) v sv have res: "c3 = d" "alert = (''Alert'', ''Script updated!'') \<longleftrightarrow> ok"
    by (auto simp: onSaveBtnClick_def Let_def createNewScript_def split: if_splits)
  have l: "live d = live ?c" "ok \<longrightarrow> disk d = live d"
    using sv by (auto simp: saveContext_def Let_def)
  have "scriptTable (live ?c) = [(nextObject c, newScript),
      (Suc (nextObject c), newScript\<lparr>script_name := Some name, script_contents := Some body\<rparr>)]"
    by (simp add: changeObject_def c2 c1(2) fillScript_def)
  with res l c1 screen show ?thesis by simp
qed

text \<open>A field text fixed before the run keeps the example small.\<close>

theorem question_leaves_blank_script_witness:
  "\<exists>c3 :: managed_context. map snd (scriptTable (disk c3))
       = [newScript, newScript\<lparr>script_name := Some ''up'', script_contents := Some ''uptime''\<rparr>]"
proof -
  obtain screen c1 where a: "scriptAlertClicked 1 emptyContext = (screen, c1)" by fastforce
  obtain v c2 where b: "scriptEditorDidLoad None c1 = (v, c2)" by fastforce
  let ?v = "v\<lparr>scriptNameTxt := ''up'', scriptContentsTxt := ''uptime''\<rparr>"
  obtain c3 where s: "onSaveBtnClick demoCore ?v c2 = ((''Alert'', ''Script updated!''), c3)"
    using b by (auto simp: onSaveBtnClick_def Let_def createNewScript_def saveContext_def demoCore_def)
  have e: "scriptTable (live emptyContext) = []" by (simp add: emptyContext_def noTables_def)
  from question_leaves_blank_script [OF emptyContext_ok(3) e a b s] show ?thesis
    by (intro exI [of _ c3]) simp
qed

text \<open>
  Saving an edited script: opening it again shows the name and contents typed, and the alert is
  always \<open>Script updated!\<close>; if the save failed, a relaunch shows what was stored before.
\<close>

theorem edited_script_roundtrip:
  assumes "table_ok scriptTable c" and "objectOf scriptTable c k = Some s"
    and "scriptEditorDidLoad (Some k) c = (v, c1)"
    and "onSaveBtnClick cd (v\<lparr>scriptNameTxt := name, scriptContentsTxt := body\<rparr>) c1 = (alert, c2)"
  shows "alert = (''Alert'', ''Script updated!'')
    \<and> scriptNameTxt (fst (scriptEditorDidLoad (Some k) c2)) = name
    \<and> scriptContentsTxt (fst (scriptEditorDidLoad (Some k) c2)) = body
    \<and> (\<forall>j. j \<noteq> k \<longrightarrow> objectOf scriptTable c2 j = objectOf scriptTable c j)
    \<and> (if saveWorks cd (savesDone c) then objectOf scriptTable (relaunch c2) = objectOf scriptTable c2
       else objectOf scriptTable (relaunch c2) = objectOf scriptTable (relaunch c))"
proof -
  from assms(2,3) have v: "editedScript v = k" "\<not> isCreating v" "c1 = c"
    by (auto simp: scriptEditorDidLoad_def Let_def)
  let ?f = "fillScript (v\<lparr>scriptNameTxt := name, scriptContentsTxt := body\<rparr>)"
  let ?c = "changeObject scriptTable_update k ?f c"
  obtain ok d where sv: "saveContext cd ?c = (ok, d)" by fastforce
  from assms(4) v sv have res: "alert = (''Alert'', ''Script updated!'')" "c2 = d"
    by (auto simp: onSaveBtnClick_def Let_def)
  have "savesDone ?c = savesDone c" "relaunch ?c = relaunch c"
    by (simp_all add: changeObject_def relaunch_def)
  with script_entity.saved [OF sv] res assms(2) show ?thesis
    by (simp add: script_entity.changed scriptEditorDidLoad_def fillScript_def textOf_def Let_def)
qed

definition oneScript :: managed_context where
  "oneScript =
     (let t = noTables\<lparr>scriptTable := [(0, newScript\<lparr>script_name := Some ''up''\<rparr>)]\<rparr>
      in emptyContext\<lparr>live := t, disk := t, nextObject := 1\<rparr>)"

lemma oneScript_ok: "table_ok scriptTable oneScript"
  "objectOf scriptTable oneScript 0 = Some (newScript\<lparr>script_name := Some ''up''\<rparr>)"
  "objectOf scriptTable (relaunch oneScript) 0 = Some (newScript\<lparr>script_name := Some ''up''\<rparr>)"
  by (simp_all add: table_ok_def relaunch_def objectOf_def oneScript_def Let_def emptyContext_def noTables_def)

theorem edited_script_roundtrip_witness:
  "\<exists>alert c2. fst alert = ''Alert'' \<and> scriptContentsTxt (fst (scriptEditorDidLoad (Some 0) c2)) = ''uptime''
     \<and> objectOf scriptTable (relaunch c2) 0 = Some (newScript\<lparr>script_name := Some ''up''\<rparr>)"
proof -
  obtain v c1 where a: "scriptEditorDidLoad (Some 0) oneScript = (v, c1)" by fastforce
  obtain alert c2 where s: "onSaveBtnClick noSaves (v\<lparr>scriptNameTxt := ''up'', scriptContentsTxt := ''uptime''\<rparr>) c1
      = (alert, c2)" by fastforce
  have "\<not> saveWorks noSaves n" for n by (simp add: noSaves_def)
  with edited_script_roundtrip [OF oneScript_ok(1,2) a s] oneScript_ok(3)
  have "alert = (''Alert'', ''Script updated!'') \<and>
      scriptContentsTxt (fst (scriptEditorDidLoad (Some 0) c2)) = ''uptime'' \<and>
      objectOf scriptTable (relaunch c2) 0 = Some (newScript\<lparr>script_name := Some ''up''\<rparr>)" by simp
  then show ?thesis by auto
qed

text \<open>
  The options: running raises exactly when the session is down (the branch presents \<open>nil\<close>),
  otherwise shows the response or goes back; deleting reports success and presents a list without a
  session, and running from there raises again.
\<close>

theorem script_options_behaviour:
  "(didSelectScriptOption cd execute up 1 k c s = Inl NSInvalidArgumentException \<longleftrightarrow> \<not> up)
   \<and> (up \<longrightarrow> (\<exists>a s'. didSelectScriptOption cd execute up 1 k c s = Inr (a, c, s')
        \<and> s' = snd (execute (case objectOf scriptTable c k of None \<Rightarrow> None | Some x \<Rightarrow> script_contents x) s)
        \<and> a \<in> insert GoBack (range ShowResult)))
   \<and> (\<exists>c'. didSelectScriptOption cd execute up 2 k c s
          = Inr (PresentList [(''Alert'', ''Script deleted!'')] False, c', s)
        \<and> objectOf scriptTable c' k = None
        \<and> (\<forall>j. j \<noteq> k \<longrightarrow> objectOf scriptTable c' j = objectOf scriptTable c j)
        \<and> (\<not> saveWorks cd (savesDone c) \<longrightarrow> objectOf scriptTable (relaunch c') = objectOf scriptTable (relaunch c))
        \<and> (\<forall>j. didSelectScriptOption cd execute False 1 j c' s = Inl NSInvalidArgumentException))"
proof -
  let ?d = "deleteObject scriptTable_update k c"
  obtain ok c' where sv: "saveContext cd ?d = (ok, c')" by fastforce
  have same: "savesDone ?d = savesDone c" "relaunch ?d = relaunch c"
    by (simp_all add: deleteObject_def relaunch_def)
  have del: "didSelectScriptOption cd execute up 2 k c s
          = Inr (PresentList [(''Alert'', ''Script deleted!'')] False, c', s)"
    using sv by (simp add: didSelectScriptOption_def)
  have run: "didSelectScriptOption cd execute up' 1 j d s = andThen (runScript execute up' j d s) (\<lambda>(a, s'). Inr (a, d, s'))"
    for up' j d by (simp add: didSelectScriptOption_def)
  have ran: "(didSelectScriptOption cd execute up 1 k c s = Inl NSInvalidArgumentException \<longleftrightarrow> \<not> up)
   \<and> (up \<longrightarrow> (\<exists>a s'. didSelectScriptOption cd execute up 1 k c s = Inr (a, c, s')
        \<and> s' = snd (execute (case objectOf scriptTable c k of None \<Rightarrow> None | Some x \<Rightarrow> script_contents x) s)
        \<and> a \<in> insert GoBack (range ShowResult)))"
    unfolding run by (auto simp: runScript_def split: prod.splits sum.splits)
  have "\<forall>j. didSelectScriptOption cd execute False 1 j c' s = Inl NSInvalidArgumentException"
    unfolding run by (simp add: runScript_def)
  moreover have "objectOf scriptTable c' k = None
      \<and> (\<forall>j. j \<noteq> k \<longrightarrow> objectOf scriptTable c' j = objectOf scriptTable c j)
      \<and> (\<not> saveWorks cd (savesDone c) \<longrightarrow> objectOf scriptTable (relaunch c') = objectOf scriptTable (relaunch c))"
    using script_entity.saved [OF sv] same by (simp add: script_entity.deleted)
  ultimately show ?thesis using ran del by blast
qed

text \<open>A library that answers every script with its text.\<close>

definition echoScript :: "string option \<Rightarrow> unit \<Rightarrow> (string + string) \<times> unit" where
  "echoScript t s = (Inr (textOf t), s)"

theorem script_options_behaviour_witness:
  "didSelectScriptOption demoCore echoScript True 1 0 oneScript () \<noteq> Inl NSInvalidArgumentException"
proof -
  have "didSelectScriptOption demoCore echoScript True 1 0 oneScript () = Inl NSInvalidArgumentException
      \<longleftrightarrow> \<not> True"
    by (rule script_options_behaviour [THEN conjunct1])
  then show ?thesis by simp
qed

end
