(* ===== verification/Voice.thy ===== *)
theory Voice
  imports SshSession ServerScreens
begin

text \<open>
  Voice control, VoiceListenerViewController.m: the states of a recording, the interpretation of what
  was heard, and the commands it runs.  The speech library is outside the repository: its delegate
  calls are the events, a recognition is the list of its results (\<open>firstResult\<close> is the first) and
  its suggestion.  The SSH library is a parameter over an abstract \<open>world\<close>; what is spoken or shown
  is collected in \<open>said\<close>.
\<close>

section \<open>The state\<close>

datatype transaction_state = TS_IDLE | TS_INITIAL | TS_RECORDING | TS_PROCESSING

text \<open>The states are the constants of a C enumeration and compare as its integers.\<close>

fun tsValue :: "transaction_state \<Rightarrow> nat" where
  "tsValue TS_IDLE = 0"
| "tsValue TS_INITIAL = 1"
| "tsValue TS_RECORDING = 2"
| "tsValue TS_PROCESSING = 3"

lemma tsValue_inject: "tsValue a = tsValue b \<longleftrightarrow> a = b"
  by (cases a; cases b) simp_all

instantiation transaction_state :: linorder
begin

definition less_eq_transaction_state :: "transaction_state \<Rightarrow> transaction_state \<Rightarrow> bool" where
  "less_eq_transaction_state a b = (tsValue a \<le> tsValue b)"

definition less_transaction_state :: "transaction_state \<Rightarrow> transaction_state \<Rightarrow> bool" where
  "less_transaction_state a b = (tsValue a < tsValue b)"

instance
  by standard
    (auto simp: less_eq_transaction_state_def less_transaction_state_def tsValue_inject [symmetric])

end

datatype voice_effect = Speak string | ShowVoiceAlert string "string option"

record 's voice =
  transactionState :: transaction_state
  voiceSearch :: bool
  voiceServers :: "nat list"
  isServerSelected :: bool
  selectedServer :: "nat option"
  cmdString :: string
  commandTxt :: string
  commandTxtEnabled :: bool
  executeBtnEnabled :: bool
  reviewOn :: bool
  voiceContext :: managed_context
  world :: 's
  said :: "voice_effect list"

definition speak :: "string \<Rightarrow> 's voice \<Rightarrow> 's voice" where
  "speak t v = v\<lparr>said := said v @ [Speak t]\<rparr>"

definition showAlert :: "string \<Rightarrow> string option \<Rightarrow> 's voice \<Rightarrow> 's voice" where
  "showAlert title msg v = v\<lparr>said := said v @ [ShowVoiceAlert title msg]\<rparr>"

text \<open>The attributes of a server, all \<open>nil\<close> once the object is gone.\<close>

definition noServer :: server where
  "noServer = \<lparr>serverID = None, serverName = None, host = None, port = None, username = None,
               password = None, serverNotes = None, serverOS = None\<rparr>"

definition voiceServer :: "'s voice \<Rightarrow> nat \<Rightarrow> server" where
  "voiceServer v k =
     (case objectOf serverTable (voiceContext v) k of Some s \<Rightarrow> s | None \<Rightarrow> noServer)"

definition theSelected :: "'s voice \<Rightarrow> server" where
  "theSelected v = (case selectedServer v of Some k \<Rightarrow> voiceServer v k | None \<Rightarrow> noServer)"

definition voiceDidLoad :: "core_data \<Rightarrow> managed_context \<Rightarrow> 's \<Rightarrow> 's voice" where
  "voiceDidLoad cd c w =
     (case getAllServers cd c of (ks, c') \<Rightarrow>
        \<lparr>transactionState = TS_IDLE, voiceSearch = False, voiceServers = ks, isServerSelected = False,
         selectedServer = None, cmdString = '''', commandTxt = '''', commandTxtEnabled = False,
         executeBtnEnabled = False, reviewOn = False, voiceContext = c', world = w, said = []\<rparr>)"

section \<open>Recording\<close>

text \<open>The button starts a recogniser when idle; while recording it asks it to stop.\<close>

definition onStartListeningClick :: "'s voice \<Rightarrow> 's voice" where
  "onStartListeningClick v =
     (if transactionState v = TS_RECORDING then v
      else if transactionState v = TS_IDLE then v\<lparr>transactionState := TS_INITIAL, voiceSearch := True\<rparr>
      else v)"

definition recognizerDidBeginRecording :: "'s voice \<Rightarrow> 's voice" where
  "recognizerDidBeginRecording v = v\<lparr>transactionState := TS_RECORDING\<rparr>"

definition recognizerDidFinishRecording :: "'s voice \<Rightarrow> 's voice" where
  "recognizerDidFinishRecording v = v\<lparr>transactionState := TS_PROCESSING\<rparr>"

definition didFinishWithError :: "string option \<Rightarrow> string option \<Rightarrow> 's voice \<Rightarrow> 's voice" where
  "didFinishWithError description suggestion v =
     (let v1 = showAlert ''Error'' description (v\<lparr>transactionState := TS_IDLE\<rparr>);
          v2 = (if suggestion \<noteq> None then showAlert ''Suggestion'' suggestion v1 else v1)
      in v2\<lparr>voiceSearch := False\<rparr>)"

section \<open>Commands\<close>

text \<open>
  Every command opens a session of its own.  \<open>connected\<close> is what happens between the authentication
  and the test of its result, \<open>authorized\<close> what happens if it worked.
\<close>

definition withSession ::
  "'s remote_api \<Rightarrow> server \<Rightarrow> ('s voice \<Rightarrow> 's voice) \<Rightarrow> ('s voice \<Rightarrow> 's voice) \<Rightarrow> 's voice \<Rightarrow> 's voice" where
  "withSession api s connected authorized v =
     (case connectTo api (world v) (sessionAddress s) (username s) of (ok, w1) \<Rightarrow>
        if ok
        then (case authenticate api w1 (password s) of (auth, w2) \<Rightarrow>
                (let v2 = connected (v\<lparr>world := w2\<rparr>)
                 in if auth then authorized v2
                    else speak (''Could authorize session for '' @ fmt (serverName s)) v2))
        else speak (''Could not connect to '' @ fmt (serverName s)) (v\<lparr>world := w1\<rparr>))"

definition restartServer :: "'s remote_api \<Rightarrow> server \<Rightarrow> 's voice \<Rightarrow> 's voice" where
  "restartServer api s = withSession api s (\<lambda>v. v) (\<lambda>v.
     case runCommand api (world v) (sudoCommand s ''reboot now'') of (r, w) \<Rightarrow>
       (case r of
          Inl e \<Rightarrow> speak (''Could not restart '' @ fmt (serverName s)) (v\<lparr>world := w\<rparr>)
        | Inr t \<Rightarrow> speak (''Restarted '' @ fmt (serverName s) @ '' successfully'') (v\<lparr>world := w\<rparr>)))"

definition shutdownServer :: "'s remote_api \<Rightarrow> server \<Rightarrow> 's voice \<Rightarrow> 's voice" where
  "shutdownServer api s = withSession api s (\<lambda>v. v) (\<lambda>v.
     case runCommand api (world v) (sudoCommand s ''shutdown now'') of (r, w) \<Rightarrow>
       (case r of
          Inl e \<Rightarrow> speak (''Could not shutdown '' @ fmt (serverName s)) (v\<lparr>world := w\<rparr>)
        | Inr t \<Rightarrow> speak (''Shutdown '' @ fmt (serverName s) @ '' successfully'') (v\<lparr>world := w\<rparr>)))"

text \<open>The response is read out when it is short; the failure reads the response, which is \<open>nil\<close>.\<close>

definition executeCommand :: "'s remote_api \<Rightarrow> string \<Rightarrow> server \<Rightarrow> 's voice \<Rightarrow> 's voice" where
  "executeCommand api commandString s = withSession api s (\<lambda>v. v) (\<lambda>v.
     case runCommand api (world v) (sudoCommand s commandString) of (r, w) \<Rightarrow>
       (case r of
          Inl e \<Rightarrow> speak (''Could not execute command '' @ commandString @ '' for reason: '' @ fmt (responseOf r))
                     (v\<lparr>world := w\<rparr>)
        | Inr t \<Rightarrow> if 25 < length t then showAlert ''Success'' (Some t) (v\<lparr>world := w\<rparr>)
                   else speak t (v\<lparr>world := w\<rparr>)))"

definition statusCommands :: "(string \<times> string) list" where
  "statusCommands =
     [(''RAM Utilization'', ''cat /proc/meminfo''), (''CPU Utilization'', cpuCommand),
      (''Disk Utilization'', ''df -h'')]"

fun statusLoop :: "'s remote_api \<Rightarrow> server \<Rightarrow> (string \<times> string) list \<Rightarrow> 's voice \<Rightarrow> 's voice" where
  "statusLoop api s [] v = v"
| "statusLoop api s ((title, command) # rest) v =
     (case runCommand api (world v) (sudoCommand s command) of (r, w) \<Rightarrow>
        statusLoop api s rest
          (case r of
             Inl e \<Rightarrow> speak (''Could not finish fetching '' @ title) (v\<lparr>world := w\<rparr>)
           | Inr t \<Rightarrow> showAlert title (Some t) (v\<lparr>world := w\<rparr>)))"

definition checkSystemStatus :: "'s remote_api \<Rightarrow> server \<Rightarrow> 's voice \<Rightarrow> 's voice" where
  "checkSystemStatus api s =
     withSession api s (speak (fmt (serverName s) @ '' is running'')) (statusLoop api s statusCommands)"

definition onExecuteCommandClicked :: "'s remote_api \<Rightarrow> 's voice \<Rightarrow> 's voice" where
  "onExecuteCommandClicked api v =
     (let v1 = v\<lparr>executeBtnEnabled := False, commandTxtEnabled := False, cmdString := commandTxt v\<rparr>
      in if isServerSelected v1 then executeCommand api (cmdString v1) (theSelected v1) v1
         else speak ''You must select a server before you can edit a command'' v1)"

section \<open>What was heard\<close>

text \<open>A search for \<open>nil\<close> raises.\<close>

definition nameFound :: "string \<Rightarrow> string option \<Rightarrow> bool outcome" where
  "nameFound res name =
     (case name of None \<Rightarrow> Inl NSInvalidArgumentException | Some p \<Rightarrow> Inr (containsCI res p))"

definition isMySQL :: "core_data \<Rightarrow> server \<Rightarrow> 's voice \<Rightarrow> (bool \<times> 's voice) outcome" where
  "isMySQL cd s v =
     (case getOperatingSystemByOperatingSystemID cd (serverOS s) (voiceContext v) of (os, c') \<Rightarrow>
        andThen (operatingSystemNameOf c' os) (\<lambda>n. Inr (n = Some ''MySQL'', v\<lparr>voiceContext := c'\<rparr>)))"

text \<open>Each branch tells whether the handler returned in it.\<close>

fun useLoop :: "core_data \<Rightarrow> string \<Rightarrow> nat list \<Rightarrow> 's voice \<Rightarrow> 's voice outcome" where
  "useLoop cd res [] v = Inr v"
| "useLoop cd res (k # ks) v =
     andThen (nameFound res (map_option trimBlanks (serverName (voiceServer v k)))) (\<lambda>found.
       if found
       then andThen (isMySQL cd (voiceServer v k) v) (\<lambda>(my, v1).
              let v2 = (if my then speak ''Cannot use voice control on My sea quill servers'' v1 else v1)
              in Inr (v2\<lparr>selectedServer := Some k, isServerSelected := True\<rparr>))
       else useLoop cd res ks v)"

definition useBranch :: "core_data \<Rightarrow> string \<Rightarrow> 's voice \<Rightarrow> (bool \<times> 's voice) outcome" where
  "useBranch cd res v =
     (if hasPrefix res ''use''
      then andThen (useLoop cd res (voiceServers v) v) (\<lambda>v1.
             if \<not> isServerSelected v1
             then Inr (False, speak ''Could not find server matching requested server name'' v1)
             else Inr (True, v1))
      else Inr (False, v))"

definition saySwitch :: "string \<Rightarrow> string" where
  "saySwitch res =
     (if containsCI res ''switch '' then replaceAll ''switch '' ''-'' res
      else if containsCI res ''switch '' then replaceAll ''dash '' ''-'' res
      else res)"

text \<open>The guard both status branches and both command branches share.\<close>

definition unlessMySQL ::
  "core_data \<Rightarrow> server \<Rightarrow> ('s voice \<Rightarrow> 's voice) \<Rightarrow> 's voice \<Rightarrow> (bool \<times> 's voice) outcome" where
  "unlessMySQL cd s act v =
     andThen (isMySQL cd s v) (\<lambda>(my, v1).
       if my then Inr (True, speak ''Cannot use voice control on MySQL servers'' v1)
       else Inr (False, act v1))"

fun statusSearch ::
  "core_data \<Rightarrow> 's remote_api \<Rightarrow> string \<Rightarrow> nat list \<Rightarrow> 's voice \<Rightarrow> (bool \<times> 's voice) outcome" where
  "statusSearch cd api res [] v = Inr (False, v)"
| "statusSearch cd api res (k # ks) v =
     andThen (nameFound res (map_option (\<lambda>n. replaceAll '' '' '''' (lowercaseString n))
                (serverName (voiceServer v k)))) (\<lambda>found.
       if found
       then andThen (unlessMySQL cd (voiceServer v k) (checkSystemStatus api (voiceServer v k)) v)
              (\<lambda>(refused, v1). Inr (True, v1))
       else statusSearch cd api res ks v)"

definition statusBranch ::
  "core_data \<Rightarrow> 's remote_api \<Rightarrow> string \<Rightarrow> 's voice \<Rightarrow> (bool \<times> 's voice) outcome" where
  "statusBranch cd api res v =
     (if containsCI res ''check'' \<and> containsCI res ''status''
      then if isServerSelected v
           then andThen (unlessMySQL cd (theSelected v) (checkSystemStatus api (theSelected v)) v)
                  (\<lambda>(refused, v1). Inr (True, v1))
           else statusSearch cd api res (voiceServers v) v
      else Inr (False, v))"

definition reviewCommand :: "string \<Rightarrow> 's voice \<Rightarrow> 's voice" where
  "reviewCommand res v =
     v\<lparr>commandTxtEnabled := True, commandTxt := res, executeBtnEnabled := True, cmdString := res\<rparr>"

text \<open>Without a selection every server whose name was said gets the command.\<close>

fun executeLoop ::
  "core_data \<Rightarrow> 's remote_api \<Rightarrow> string \<Rightarrow> nat list \<Rightarrow> bool \<Rightarrow> 's voice \<Rightarrow> (bool \<times> bool \<times> 's voice) outcome" where
  "executeLoop cd api res [] executed v = Inr (False, executed, v)"
| "executeLoop cd api res (k # ks) executed v =
     andThen (nameFound res (map_option lowercaseString (serverName (voiceServer v k)))) (\<lambda>found.
       if found
       then andThen (unlessMySQL cd (voiceServer v k) (executeCommand api res (voiceServer v k)) v)
              (\<lambda>(refused, v1).
                if refused then Inr (True, executed, v1) else executeLoop cd api res ks True v1)
       else executeLoop cd api res ks executed v)"

definition executeBranch ::
  "core_data \<Rightarrow> 's remote_api \<Rightarrow> string \<Rightarrow> 's voice \<Rightarrow> (bool \<times> 's voice) outcome" where
  "executeBranch cd api res v =
     andThen (if isServerSelected v
              then andThen (unlessMySQL cd (theSelected v) (executeCommand api res (theSelected v)) v)
                     (\<lambda>(refused, v1). Inr (refused, True, v1))
              else executeLoop cd api res (voiceServers v) False v)
       (\<lambda>(returned, executed, v1).
          Inr (returned,
               if \<not> returned \<and> \<not> executed then speak ''No command was executed'' v1 else v1))"

text \<open>The end of the handler, which the early returns skip.\<close>

definition finishResults :: "string option \<Rightarrow> 's voice \<Rightarrow> 's voice" where
  "finishResults suggestion v =
     (if suggestion \<noteq> None then showAlert ''Suggestion'' suggestion v else v)\<lparr>voiceSearch := False\<rparr>"

definition didFinishWithResults ::
  "core_data \<Rightarrow> 's remote_api \<Rightarrow> string list \<Rightarrow> string option \<Rightarrow> 's voice \<Rightarrow> 's voice outcome" where
  "didFinishWithResults cd api results suggestion v0 =
     (let v = v0\<lparr>transactionState := TS_IDLE\<rparr>
      in case results of
           [] \<Rightarrow> Inr (finishResults suggestion v)
         | first # others \<Rightarrow>
             (let heard = lowercaseString first
              in andThen (useBranch cd heard v) (\<lambda>(returned, v1).
                   if returned then Inr v1
                   else andThen (statusBranch cd api (saySwitch heard) v1) (\<lambda>(returned, v2).
                     if returned then Inr v2
                     else if reviewOn v2 then Inr (reviewCommand (saySwitch heard) v2)
                     else andThen (executeBranch cd api (saySwitch heard) v2) (\<lambda>(returned, v3).
                       if returned then Inr v3 else Inr (finishResults suggestion v3))))))"

section \<open>The part of the state a command leaves alone\<close>

definition core :: "'s voice \<Rightarrow> transaction_state \<times> bool \<times> nat list \<times> bool \<times> nat option \<times> bool \<times> bool \<times> bool" where
  "core v = (transactionState v, voiceSearch v, voiceServers v, isServerSelected v, selectedServer v,
             commandTxtEnabled v, executeBtnEnabled v, reviewOn v)"

lemma core_updates [simp]:
  "core (speak t v) = core v" "core (showAlert a b v) = core v"
  "core (v\<lparr>world := w\<rparr>) = core v" "core (v\<lparr>voiceContext := c\<rparr>) = core v"
  by (simp_all add: core_def speak_def showAlert_def)

lemma core_withSession:
  assumes "\<And>v. core (connected v) = core v" and "\<And>v. core (authorized v) = core v"
  shows "core (withSession api s connected authorized v) = core v"
  by (simp add: withSession_def assms Let_def split: prod.split)

lemma core_statusLoop [simp]: "core (statusLoop api s cs v) = core v"
  by (induction api s cs v rule: statusLoop.induct) (auto split: prod.split sum.split)

lemma core_commands [simp]:
  "core (executeCommand api t s v) = core v" "core (checkSystemStatus api s v) = core v"
  "core (restartServer api s v) = core v" "core (shutdownServer api s v) = core v"
  by (simp_all add: executeCommand_def checkSystemStatus_def restartServer_def shutdownServer_def
      core_withSession split: prod.split sum.split)

lemma core_isMySQL: "isMySQL cd s v = Inr (my, v') \<Longrightarrow> core v' = core v"
  by (auto simp: isMySQL_def andThen_Inr_iff split: prod.splits)

lemma core_unlessMySQL:
  "unlessMySQL cd s act v = Inr (r, v') \<Longrightarrow> (\<And>v. core (act v) = core v) \<Longrightarrow> core v' = core v"
  by (auto simp: unlessMySQL_def andThen_Inr_iff dest!: core_isMySQL split: if_splits)

lemma core_statusSearch: "statusSearch cd api res ks v = Inr (r, v') \<Longrightarrow> core v' = core v"
  by (induction ks arbitrary: v)
     (auto simp: andThen_Inr_iff split: if_splits dest!: core_unlessMySQL)

lemma core_statusBranch: "statusBranch cd api res v = Inr (r, v') \<Longrightarrow> core v' = core v"
  by (auto simp: statusBranch_def andThen_Inr_iff split: if_splits
      dest!: core_unlessMySQL core_statusSearch)

lemma core_executeLoop: "executeLoop cd api res ks e v = Inr (r, e', v') \<Longrightarrow> core v' = core v"
proof (induction ks arbitrary: v e)
  case (Cons k ks)
  then obtain found where f: "nameFound res (map_option lowercaseString (serverName (voiceServer v k))) = Inr found"
    by (auto simp: andThen_Inr_iff)
  show ?case
  proof (cases found)
    case False
    with f Cons show ?thesis by simp
  next
    case True
    with f Cons.prems obtain refused v1
      where u: "unlessMySQL cd (voiceServer v k) (executeCommand api res (voiceServer v k)) v = Inr (refused, v1)"
        and rest: "(if refused then Inr (True, e, v1) else executeLoop cd api res ks True v1) = Inr (r, e', v')"
      by (auto simp: andThen_Inr_iff)
    from u have "core v1 = core v" by (rule core_unlessMySQL) simp
    moreover have "core v' = core v1" using rest Cons.IH [of True v1] by (cases refused) simp_all
    ultimately show ?thesis by simp
  qed
qed simp

lemma core_executeBranch: "executeBranch cd api res v = Inr (r, v') \<Longrightarrow> core v' = core v"
  by (auto simp: executeBranch_def andThen_Inr_iff split: if_splits
      dest!: core_unlessMySQL core_executeLoop)

definition selecting :: "nat \<Rightarrow> 's voice \<Rightarrow> 's voice" where
  "selecting k v = v\<lparr>selectedServer := Some k, isServerSelected := True\<rparr>"

lemma core_selecting: "core v1 = core v \<Longrightarrow> core (selecting k v1) = core (selecting k v)"
  by (simp add: core_def selecting_def)

lemma useLoop_result:
  "useLoop cd res ks v = Inr v' \<Longrightarrow> core v' = core v \<or> (\<exists>k \<in> set ks. core v' = core (selecting k v))"
proof (induction ks)
  case (Cons k ks)
  then obtain found where f: "nameFound res (map_option trimBlanks (serverName (voiceServer v k))) = Inr found"
    by (auto simp: andThen_Inr_iff)
  show ?case
  proof (cases found)
    case False
    with f Cons have "core v' = core v \<or> (\<exists>k \<in> set ks. core v' = core (selecting k v))" by simp
    then show ?thesis by auto
  next
    case True
    with f Cons.prems obtain my v1 where m: "isMySQL cd (voiceServer v k) v = Inr (my, v1)"
      and v': "v' = selecting k (if my then speak ''Cannot use voice control on My sea quill servers'' v1 else v1)"
      by (auto simp: andThen_Inr_iff Let_def selecting_def)
    have "core (if my then speak ''Cannot use voice control on My sea quill servers'' v1 else v1) = core v"
      using core_isMySQL [OF m] by simp
    from core_selecting [OF this, of k] show ?thesis unfolding v' by auto
  qed
qed simp

section \<open>The screen as a step relation\<close>

text \<open>
  The events of the user and of the recogniser.  The guards are the protocol of the speech library
  (recording begins after the start, ends after it began, one result or error per recogniser) and
  the enabled controls.
\<close>

datatype voice_event =
  StartTapped | StopTapped | RecordingBegan | RecordingFinished
| Heard "string list" "string option" | Failed "string option" "string option"
| ExecuteTapped | CommandTyped string | ReviewFlipped bool

inductive voice_step ::
  "core_data \<Rightarrow> 's remote_api \<Rightarrow> 's voice \<Rightarrow> voice_event \<Rightarrow> 's voice \<Rightarrow> bool" for cd api where
  "voice_step cd api v StartTapped (onStartListeningClick v)"
| "voice_step cd api v StopTapped v"
| "transactionState v = TS_INITIAL \<Longrightarrow> voice_step cd api v RecordingBegan (recognizerDidBeginRecording v)"
| "transactionState v = TS_RECORDING \<Longrightarrow> voice_step cd api v RecordingFinished (recognizerDidFinishRecording v)"
| "transactionState v \<noteq> TS_IDLE \<Longrightarrow> didFinishWithResults cd api results suggestion v = Inr v'
     \<Longrightarrow> voice_step cd api v (Heard results suggestion) v'"
| "transactionState v \<noteq> TS_IDLE
     \<Longrightarrow> voice_step cd api v (Failed description suggestion) (didFinishWithError description suggestion v)"
| "executeBtnEnabled v \<Longrightarrow> voice_step cd api v ExecuteTapped (onExecuteCommandClicked api v)"
| "commandTxtEnabled v \<Longrightarrow> voice_step cd api v (CommandTyped t) (v\<lparr>commandTxt := t\<rparr>)"
| "voice_step cd api v (ReviewFlipped b) (v\<lparr>reviewOn := b\<rparr>)"

inductive voice_reach :: "core_data \<Rightarrow> 's remote_api \<Rightarrow> managed_context \<Rightarrow> 's \<Rightarrow> 's voice \<Rightarrow> bool"
  for cd api c w where
  loaded: "voice_reach cd api c w (voiceDidLoad cd c w)"
| step: "voice_reach cd api c w v \<Longrightarrow> voice_step cd api v e v' \<Longrightarrow> voice_reach cd api c w v'"

text \<open>The invariant speaks of the core alone.\<close>

fun core_ok :: "transaction_state \<times> bool \<times> nat list \<times> bool \<times> nat option \<times> bool \<times> bool \<times> bool \<Rightarrow> bool" where
  "core_ok (ts, vs, ks, sel, k, ct, eb, rv) =
     ((ts \<noteq> TS_IDLE \<longrightarrow> vs) \<and> (sel \<longleftrightarrow> k \<noteq> None) \<and> set_option k \<subseteq> set ks \<and> (ct \<longleftrightarrow> eb))"

definition voice_ok :: "'s voice \<Rightarrow> bool" where
  "voice_ok v = core_ok (core v)"

lemma voice_ok_iff:
  "voice_ok v \<longleftrightarrow> (transactionState v \<noteq> TS_IDLE \<longrightarrow> voiceSearch v)
     \<and> (isServerSelected v \<longleftrightarrow> selectedServer v \<noteq> None) \<and> set_option (selectedServer v) \<subseteq> set (voiceServers v)
     \<and> (commandTxtEnabled v \<longleftrightarrow> executeBtnEnabled v)"
  by (simp add: voice_ok_def core_def)

lemma voice_ok_core: "core v' = core v \<Longrightarrow> voice_ok v' = voice_ok v"
  by (simp add: voice_ok_def)

lemma transactionState_core: "core v' = core v \<Longrightarrow> transactionState v' = transactionState v"
  by (simp add: core_def)

lemma useBranch_ok:
  assumes "useBranch cd res v = Inr (r, v')" and "voice_ok v"
  shows "voice_ok v' \<and> transactionState v' = transactionState v \<and> voiceServers v' = voiceServers v"
proof (cases "hasPrefix res ''use''")
  case False
  with assms show ?thesis by (simp add: useBranch_def)
next
  case True
  with assms(1) obtain v1 where u: "useLoop cd res (voiceServers v) v = Inr v1"
    and v': "core v' = core v1"
    by (auto simp: useBranch_def andThen_Inr_iff split: if_splits)
  from useLoop_result [OF u] assms(2)
  have "voice_ok v1 \<and> transactionState v1 = transactionState v \<and> voiceServers v1 = voiceServers v"
    by (auto simp: voice_ok_iff core_def selecting_def)
  with v' voice_ok_core [OF v'] show ?thesis by (simp add: core_def)
qed

lemma didFinishWithResults_ok:
  assumes "didFinishWithResults cd api results suggestion v = Inr v'" and "voice_ok v"
  shows "voice_ok v' \<and> transactionState v' = TS_IDLE \<and> voiceServers v' = voiceServers v"
proof -
  define v0 where "v0 = v\<lparr>transactionState := TS_IDLE\<rparr>"
  have ok0: "voice_ok v0" "transactionState v0 = TS_IDLE" "voiceServers v0 = voiceServers v"
    using assms(2) by (simp_all add: voice_ok_iff v0_def)
  have finish: "voice_ok (finishResults suggestion w) \<and> transactionState (finishResults suggestion w) = TS_IDLE
      \<and> voiceServers (finishResults suggestion w) = voiceServers w"
    if "voice_ok w" "transactionState w = TS_IDLE" for w :: "'a voice"
    using that by (simp add: voice_ok_iff finishResults_def showAlert_def)
  show ?thesis
  proof (cases results)
    case Nil
    with assms(1) ok0 finish [of v0] show ?thesis by (simp add: didFinishWithResults_def v0_def)
  next
    case (Cons first others)
    let ?h = "lowercaseString first"
    from assms(1) Cons obtain r1 v1 where u: "useBranch cd ?h v0 = Inr (r1, v1)"
      and k1: "(if r1 then Inr v1 else andThen (statusBranch cd api (saySwitch ?h) v1) (\<lambda>(r, v2).
                 if r then Inr v2 else if reviewOn v2 then Inr (reviewCommand (saySwitch ?h) v2)
                 else andThen (executeBranch cd api (saySwitch ?h) v2) (\<lambda>(r, v3).
                   if r then Inr v3 else Inr (finishResults suggestion v3)))) = Inr v'"
      by (auto simp: didFinishWithResults_def v0_def [symmetric] andThen_Inr_iff Let_def)
    from useBranch_ok [OF u ok0(1)] ok0
    have ok1: "voice_ok v1" "transactionState v1 = TS_IDLE" "voiceServers v1 = voiceServers v" by simp_all
    show ?thesis
    proof (cases r1)
      case True
      with k1 ok1 show ?thesis by simp
    next
      case False
      with k1 obtain r2 v2 where s: "statusBranch cd api (saySwitch ?h) v1 = Inr (r2, v2)"
        and k2: "(if r2 then Inr v2 else if reviewOn v2 then Inr (reviewCommand (saySwitch ?h) v2)
                 else andThen (executeBranch cd api (saySwitch ?h) v2) (\<lambda>(r, v3).
                   if r then Inr v3 else Inr (finishResults suggestion v3))) = Inr v'"
        by (auto simp: andThen_Inr_iff)
      from core_statusBranch [OF s] ok1
      have ok2: "voice_ok v2" "transactionState v2 = TS_IDLE" "voiceServers v2 = voiceServers v"
        by (simp_all add: voice_ok_def core_def)
      show ?thesis
      proof (cases "r2 \<or> reviewOn v2")
        case True
        with k2 ok2 show ?thesis by (auto simp: reviewCommand_def voice_ok_iff split: if_splits)
      next
        case False
        with k2 obtain r3 v3 where e: "executeBranch cd api (saySwitch ?h) v2 = Inr (r3, v3)"
          and k3: "(if r3 then Inr v3 else Inr (finishResults suggestion v3)) = (Inr v' :: 'a voice outcome)"
          by (auto simp: andThen_Inr_iff)
        from core_executeBranch [OF e] ok2
        have "voice_ok v3" "transactionState v3 = TS_IDLE" "voiceServers v3 = voiceServers v"
          by (simp_all add: voice_ok_def core_def)
        with k3 finish [of v3] show ?thesis by (cases r3) simp_all
      qed
    qed
  qed
qed

lemma onExecuteCommandClicked_ok:
  "voice_ok v \<Longrightarrow> voice_ok (onExecuteCommandClicked api v)
     \<and> transactionState (onExecuteCommandClicked api v) = transactionState v"
proof -
  let ?v = "v\<lparr>executeBtnEnabled := False, commandTxtEnabled := False, cmdString := commandTxt v\<rparr>"
  assume "voice_ok v"
  then have "voice_ok ?v" "transactionState ?v = transactionState v" by (simp_all add: voice_ok_iff)
  moreover have "core (onExecuteCommandClicked api v) = core ?v"
    by (simp add: onExecuteCommandClicked_def Let_def)
  ultimately show ?thesis by (metis voice_ok_core transactionState_core)
qed

lemma voice_step_ok:
  assumes "voice_step cd api v e v'" and "voice_ok v"
  shows "voice_ok v' \<and> (transactionState v' = TS_IDLE \<or> transactionState v \<le> transactionState v')"
  using assms
proof (induction rule: voice_step.induct)
  case (5 v results suggestion v')
  with didFinishWithResults_ok show ?case by blast
next
  case (6 v description suggestion)
  then show ?case
    by (auto simp: didFinishWithError_def voice_ok_iff showAlert_def Let_def)
next
  case (7 v)
  with onExecuteCommandClicked_ok show ?case by (metis order_refl)
qed (auto simp: voice_ok_iff onStartListeningClick_def recognizerDidBeginRecording_def
      recognizerDidFinishRecording_def less_eq_transaction_state_def)

lemma voiceDidLoad_ok: "voice_ok (voiceDidLoad cd c w)"
  by (simp add: voice_ok_iff voiceDidLoad_def split: prod.split)

lemma voice_reach_ok: "voice_reach cd api c w v \<Longrightarrow> voice_ok v"
proof (induction rule: voice_reach.induct)
  case loaded
  show ?case by (rule voiceDidLoad_ok)
next
  case (step v e v')
  from voice_step_ok [OF step.hyps(2) step.IH] show ?case by simp
qed

text \<open>
  C4.  On every screen reachable by the events: a recogniser is held whenever a transaction is under
  way, a selection is one of the loaded servers, and the text field and its button are enabled
  together.  An event either brings the transaction back to idle or does not lower its state.
\<close>

theorem voice_invariant:
  assumes "voice_reach cd api c w v"
  shows "(transactionState v \<noteq> TS_IDLE \<longrightarrow> voiceSearch v)
    \<and> (isServerSelected v \<longrightarrow> (\<exists>k \<in> set (voiceServers v). selectedServer v = Some k))
    \<and> (commandTxtEnabled v \<longleftrightarrow> executeBtnEnabled v)
    \<and> (\<forall>e v'. voice_step cd api v e v' \<longrightarrow>
          transactionState v' = TS_IDLE \<or> transactionState v \<le> transactionState v')"
proof -
  from assms have ok: "voice_ok v" by (rule voice_reach_ok)
  then have "(transactionState v \<noteq> TS_IDLE \<longrightarrow> voiceSearch v)
    \<and> (isServerSelected v \<longrightarrow> (\<exists>k \<in> set (voiceServers v). selectedServer v = Some k))
    \<and> (commandTxtEnabled v \<longleftrightarrow> executeBtnEnabled v)"
    by (auto simp: voice_ok_iff)
  with voice_step_ok ok show ?thesis by blast
qed

section \<open>Selecting a server\<close>

definition saidName :: "string \<Rightarrow> 's voice \<Rightarrow> nat \<Rightarrow> bool" where
  "saidName heard v k =
     (case serverName (voiceServer v k) of None \<Rightarrow> False | Some n \<Rightarrow> containsCI heard (trimBlanks n))"

lemma isMySQL_keeps: "isMySQL cd s v = Inr (my, v') \<Longrightarrow>
  v' = v\<lparr>voiceContext := voiceContext v'\<rparr> \<and> live (voiceContext v') = live (voiceContext v)"
  by (auto simp: isMySQL_def andThen_Inr_iff getOperatingSystemByOperatingSystemID_def executeFetch_def
      split: prod.splits)

lemma useLoop_find:
  "useLoop cd heard ks v = Inr v' \<Longrightarrow>
     (case find (saidName heard v) ks of
        None \<Rightarrow> v' = v
      | Some k \<Rightarrow> selectedServer v' = Some k \<and> isServerSelected v' \<and> world v' = world v)"
proof (induction ks)
  case (Cons k ks)
  then obtain n where n: "serverName (voiceServer v k) = Some n"
    by (cases "serverName (voiceServer v k)") (auto simp: nameFound_def)
  show ?case
  proof (cases "saidName heard v k")
    case True
    with n Cons.prems obtain my v1 where "isMySQL cd (voiceServer v k) v = Inr (my, v1)"
      and v': "v' = (if my then speak ''Cannot use voice control on My sea quill servers'' v1 else v1)
                   \<lparr>selectedServer := Some k, isServerSelected := True\<rparr>"
      by (auto simp: nameFound_def saidName_def andThen_Inr_iff Let_def)
    then have "world v1 = world v" using isMySQL_keeps by (metis voice.select_convs(12) voice.surjective voice.update_convs(11))
    with True v' show ?thesis by (simp add: speak_def)
  next
    case False
    with n Cons show ?thesis by (simp add: nameFound_def saidName_def)
  qed
qed simp

text \<open>
  After "use ...": the first loaded server whose trimmed name was heard is selected and no
  server is contacted.  If none was, an earlier selection stays as it was and nothing is said;
  without one the miss is spoken first.
\<close>

theorem use_selects_first_match:
  assumes "didFinishWithResults cd api (first # others) suggestion v = Inr v'"
    and "hasPrefix (lowercaseString first) ''use''"
  shows "(\<forall>k. find (saidName (lowercaseString first) v) (voiceServers v) = Some k \<longrightarrow>
           selectedServer v' = Some k \<and> isServerSelected v' \<and> world v' = world v)
    \<and> (find (saidName (lowercaseString first) v) (voiceServers v) = None \<and> isServerSelected v \<longrightarrow>
           v' = v\<lparr>transactionState := TS_IDLE\<rparr>)"
proof -
  let ?v = "v\<lparr>transactionState := TS_IDLE\<rparr>" and ?h = "lowercaseString first"
  have same: "saidName ?h ?v = saidName ?h v" by (simp add: saidName_def voiceServer_def fun_eq_iff)
  from assms obtain v1 where u: "useLoop cd ?h (voiceServers v) ?v = Inr v1"
    and sel: "isServerSelected v1 \<Longrightarrow> v' = v1"
    by (auto simp: didFinishWithResults_def useBranch_def andThen_Inr_iff Let_def split: if_splits)
  from useLoop_find [OF u] sel show ?thesis unfolding same by (auto split: option.splits)
qed

text \<open>A screen with two servers, the first selected.\<close>

definition twoServerContext :: managed_context where
  "twoServerContext = emptyContext\<lparr>live := noTables\<lparr>serverTable :=
     [(0, newServer\<lparr>serverName := Some ''web''\<rparr>), (1, newServer\<lparr>serverName := Some ''my box''\<rparr>)],
     osTable := [(2, newOperatingSystem\<lparr>operatingSystemName := Some ''Ubuntu''\<rparr>)]\<rparr>\<rparr>"

definition twoServerVoice :: "string list voice" where
  "twoServerVoice =
     (voiceDidLoad demoCore twoServerContext [])\<lparr>isServerSelected := True, selectedServer := Some 0,
        transactionState := TS_PROCESSING, voiceSearch := True\<rparr>"

text \<open>A library that connects, authenticates and answers, over the commands it was given.\<close>

definition loggingApi :: "string list remote_api" where
  "loggingApi = \<lparr>connectTo = (\<lambda>w a u. (True, w)), authenticate = (\<lambda>w p. (True, w)),
                 runCommand = (\<lambda>w c. (Inr ''ok'', w @ [c])), connectedNow = (\<lambda>w. True),
                 authorizedNow = (\<lambda>w. True)\<rparr>"

lemma twoServers_loaded:
  "voiceServers twoServerVoice = [0, 1]" "live (voiceContext twoServerVoice) = live twoServerContext"
  "isServerSelected twoServerVoice" "selectedServer twoServerVoice = Some 0" "\<not> reviewOn twoServerVoice"
  by (simp_all add: twoServerVoice_def voiceDidLoad_def getAllServers_def executeFetch_def demoCore_def
      fetchedOrEmpty_def twoServerContext_def noTables_def)

lemma twoServers_named:
  "voiceServer (v\<lparr>transactionState := ts\<rparr>) k = voiceServer v k"
  "serverName (voiceServer twoServerVoice 0) = Some ''web''"
  "serverName (voiceServer twoServerVoice (Suc 0)) = Some ''my box''"
  by (simp_all add: voiceServer_def objectOf_def twoServers_loaded(2) twoServerContext_def)

theorem use_selects_first_match_witness:
  "\<exists>v'. didFinishWithResults demoCore loggingApi [''use db''] None twoServerVoice = Inr v'
     \<and> selectedServer v' = Some 0 \<and> said v' = []"
proof -
  have h: "lowercaseString ''use db'' = ''use db''" "hasPrefix ''use db'' ''use''"
    by (simp_all add: lowercaseString_def lowerChar_def hasPrefix_def Let_def)
  have miss: "\<not> containsCI ''use db'' (trimBlanks ''web'')" "\<not> containsCI ''use db'' (trimBlanks ''my box'')"
    by (simp_all add: containsCI_def containsString_def lowercaseString_def lowerChar_def hasPrefix_def
        trimBlanks_def isBlank_def Let_def)
  have find: "find (saidName ''use db'' twoServerVoice) (voiceServers twoServerVoice) = None"
    using miss by (simp add: saidName_def twoServers_loaded twoServers_named)
  obtain v' where run: "didFinishWithResults demoCore loggingApi [''use db''] None twoServerVoice = Inr v'"
    using miss by (simp add: didFinishWithResults_def useBranch_def h twoServers_loaded twoServers_named
        nameFound_def)
  from use_selects_first_match [OF run] h find twoServers_loaded(3)
  have "v' = twoServerVoice\<lparr>transactionState := TS_IDLE\<rparr>" by simp
  then have "selectedServer v' = Some 0 \<and> said v' = []"
    by (simp add: twoServers_loaded) (simp add: twoServerVoice_def voiceDidLoad_def split: prod.split)
  with run show ?thesis by blast
qed

section \<open>The MySQL guard\<close>

text \<open>
  C33.  With a MySQL server selected, nothing that is heard contacts it, sentences that start with \<open>use\<close> apart, which
  only select a server: the handler refuses, or only shows the command for review.  The Execute button has no such
  guard: after a reviewed command that does not ask to check a status it runs that command on the MySQL server.
\<close>

theorem mysql_guard_bypassed_by_review:
  assumes "isServerSelected v"
    and "isMySQL cd (theSelected v) (v\<lparr>transactionState := TS_IDLE\<rparr>) = Inr (True, v1)"
    and "\<not> hasPrefix (lowercaseString first) ''use''"
  shows "\<exists>v'. didFinishWithResults cd api (first # others) suggestion v = Inr v'
    \<and> world v' = world v \<and> selectedServer v' = selectedServer v
    \<and> (reviewOn v \<and> \<not> (containsCI (saySwitch (lowercaseString first)) ''check''
                     \<and> containsCI (saySwitch (lowercaseString first)) ''status'') \<longrightarrow>
         said v' = said v \<and> executeBtnEnabled v'
         \<and> onExecuteCommandClicked api v'
             = executeCommand api (saySwitch (lowercaseString first)) (theSelected v)
                 (v'\<lparr>executeBtnEnabled := False, commandTxtEnabled := False\<rparr>))"
proof -
  let ?v = "v\<lparr>transactionState := TS_IDLE\<rparr>" and ?h = "saySwitch (lowercaseString first)"
  have sel: "theSelected ?v = theSelected v" by (simp add: theSelected_def voiceServer_def split: option.split)
  have u: "useBranch cd (lowercaseString first) ?v = Inr (False, ?v)" using assms(3) by (simp add: useBranch_def)
  have refuse: "unlessMySQL cd (theSelected v) act ?v
      = Inr (True, speak ''Cannot use voice control on MySQL servers'' v1)" for act
    by (simp add: unlessMySQL_def assms(2))
  from isMySQL_keeps [OF assms(2)] have kept: "world v1 = world v" "selectedServer v1 = selectedServer v"
    by (metis voice.select_convs(12) voice.surjective voice.update_convs(11) voice.update_convs(1),
        metis voice.select_convs(5) voice.surjective voice.update_convs(11) voice.update_convs(1))
  show ?thesis
  proof (cases "containsCI ?h ''check'' \<and> containsCI ?h ''status''")
    case True
    then show ?thesis using assms(1) u kept
      by (simp add: didFinishWithResults_def statusBranch_def sel refuse speak_def)
  next
    case False
    then have s: "statusBranch cd api ?h ?v = Inr (False, ?v)" by (simp only: statusBranch_def if_False)
    show ?thesis
    proof (cases "reviewOn v")
      case True
      let ?r = "reviewCommand ?h ?v"
      have run: "didFinishWithResults cd api (first # others) suggestion v = Inr ?r"
        using True u s by (simp add: didFinishWithResults_def)
      let ?x = "?r\<lparr>executeBtnEnabled := False, commandTxtEnabled := False\<rparr>"
      have x: "?r\<lparr>executeBtnEnabled := False, commandTxtEnabled := False, cmdString := commandTxt ?r\<rparr> = ?x"
        by (cases v) (simp add: reviewCommand_def)
      have "theSelected ?x = theSelected v" "isServerSelected ?x" "cmdString ?x = ?h"
        using assms(1) by (simp_all add: theSelected_def voiceServer_def reviewCommand_def split: option.split)
      then have "onExecuteCommandClicked api ?r = executeCommand api ?h (theSelected v) ?x"
        unfolding onExecuteCommandClicked_def x Let_def by (simp only: if_True)
      with run show ?thesis by (simp add: reviewCommand_def)
    next
      case notReview: False
      have "executeBranch cd api ?h ?v = Inr (True, speak ''Cannot use voice control on MySQL servers'' v1)"
        using assms(1) by (simp add: executeBranch_def sel refuse)
      then show ?thesis using notReview u s kept by (simp add: didFinishWithResults_def speak_def)
    qed
  qed
qed

text \<open>A screen with one server, selected or not, of a system with the given name.\<close>

definition oneServerVoice :: "string \<Rightarrow> string \<Rightarrow> bool \<Rightarrow> bool \<Rightarrow> string list voice" where
  "oneServerVoice name os selected review =
     \<lparr>transactionState = TS_PROCESSING, voiceSearch = True, voiceServers = [0], isServerSelected = selected,
      selectedServer = (if selected then Some 0 else None), cmdString = '''', commandTxt = '''',
      commandTxtEnabled = False, executeBtnEnabled = False, reviewOn = review,
      voiceContext = emptyContext\<lparr>live := noTables\<lparr>
        serverTable := [(0, newServer\<lparr>serverName := Some name, serverOS := Some 1, password := Some ''pw''\<rparr>)],
        osTable := [(1, newOperatingSystem\<lparr>operatingSystemID := Some 1, operatingSystemName := Some os\<rparr>)]\<rparr>\<rparr>,
      world = [], said = []\<rparr>"

lemma oneServer_named:
  "voiceServer (oneServerVoice n os sel rv) 0
     = newServer\<lparr>serverName := Some n, serverOS := Some 1, password := Some ''pw''\<rparr>"
  by (simp add: voiceServer_def oneServerVoice_def objectOf_def)

lemma oneServer_isMySQL:
  "\<exists>v1. isMySQL demoCore (newServer\<lparr>serverName := Some n, serverOS := Some 1, password := Some ''pw''\<rparr>)
       ((oneServerVoice n os sel rv)\<lparr>transactionState := TS_IDLE\<rparr>) = Inr (os = ''MySQL'', v1)
     \<and> world v1 = []"
  by (simp add: isMySQL_def getOperatingSystemByOperatingSystemID_def executeFetch_def demoCore_def
      fetchedOrEmpty_def operatingSystemNameOf_def objectOf_def oneServerVoice_def)

lemma lower_uptime: "lowercaseString ''uptime'' = ''uptime''" "saySwitch ''uptime'' = ''uptime''"
  "\<not> hasPrefix ''uptime'' ''use''" "\<not> containsCI ''uptime'' ''check''"
  by (simp_all add: lowercaseString_def lowerChar_def hasPrefix_def saySwitch_def containsCI_def
      containsString_def Let_def)

theorem mysql_guard_bypassed_by_review_witness:
  "\<exists>v'. didFinishWithResults demoCore loggingApi [''uptime''] None (oneServerVoice ''db'' ''MySQL'' True True) = Inr v'
     \<and> world v' = [] \<and> world (onExecuteCommandClicked loggingApi v') = [''echo pw | sudo -S uptime'']"
proof -
  let ?v = "oneServerVoice ''db'' ''MySQL'' True True"
  have sel: "theSelected ?v = newServer\<lparr>serverName := Some ''db'', serverOS := Some 1, password := Some ''pw''\<rparr>"
  proof -
    have "selectedServer ?v = Some 0" by (simp add: oneServerVoice_def)
    then show ?thesis by (simp add: theSelected_def oneServer_named)
  qed
  obtain v1 where my: "isMySQL demoCore (theSelected ?v) (?v\<lparr>transactionState := TS_IDLE\<rparr>) = Inr (True, v1)"
    using oneServer_isMySQL [of "''db''" "''MySQL''" True True] unfolding sel by auto
  have v: "isServerSelected ?v" "reviewOn ?v" "world ?v = []" by (simp_all add: oneServerVoice_def)
  have use: "\<not> hasPrefix (lowercaseString ''uptime'') ''use''" by (simp add: lower_uptime)
  from mysql_guard_bypassed_by_review [OF v(1) my use, of loggingApi "[]" None] obtain v' where
    run: "didFinishWithResults demoCore loggingApi [''uptime''] None ?v = Inr v'" and w: "world v' = []"
    and ex: "onExecuteCommandClicked loggingApi v' = executeCommand loggingApi ''uptime'' (theSelected ?v)
               (v'\<lparr>executeBtnEnabled := False, commandTxtEnabled := False\<rparr>)"
    using v by (auto simp: lower_uptime)
  have "world (onExecuteCommandClicked loggingApi v') = [''echo pw | sudo -S uptime'']"
    unfolding ex sel by (simp add: executeCommand_def withSession_def loggingApi_def sudoCommand_def speak_def w Let_def)
  with run w show ?thesis by blast
qed

text \<open>
  "Check status of" a server whose name has a blank: the status search looks for the name
  without blanks, misses it, and the command branch then runs the whole sentence on that server.
\<close>

theorem status_of_spaced_name_executed:
  assumes "voiceServers v = [k]" and "\<not> isServerSelected v" and "\<not> reviewOn v"
    and "serverName (voiceServer v k) = Some n"
    and "heard = saySwitch (lowercaseString first)" and "\<not> hasPrefix (lowercaseString first) ''use''"
    and "containsCI heard ''check''" and "containsCI heard ''status''"
    and "containsCI heard (lowercaseString n)"
    and "\<not> containsCI heard (replaceAll '' '' '''' (lowercaseString n))"
    and "isMySQL cd (voiceServer v k) (v\<lparr>transactionState := TS_IDLE\<rparr>) = Inr (False, v1)"
  shows "didFinishWithResults cd api (first # others) suggestion v
    = Inr (finishResults suggestion (executeCommand api heard (voiceServer v k) v1))"
proof -
  let ?v = "v\<lparr>transactionState := TS_IDLE\<rparr>"
  have same: "voiceServer ?v k = voiceServer v k" by (simp add: voiceServer_def)
  have "statusBranch cd api heard ?v = Inr (False, ?v)"
    using assms by (simp add: statusBranch_def same nameFound_def)
  moreover have "executeBranch cd api heard ?v = Inr (False, executeCommand api heard (voiceServer v k) v1)"
    using assms by (simp add: executeBranch_def same nameFound_def unlessMySQL_def)
  ultimately show ?thesis using assms by (simp add: didFinishWithResults_def useBranch_def)
qed

definition statusSentence :: string where
  "statusSentence = ''check status of my box''"

lemma status_sentence: "lowercaseString statusSentence = statusSentence" "saySwitch statusSentence = statusSentence"
  "\<not> hasPrefix statusSentence ''use''"
  "containsCI statusSentence ''check''" "containsCI statusSentence ''status''"
  "lowercaseString ''my box'' = ''my box''" "replaceAll '' '' '''' ''my box'' = ''mybox''"
  "containsCI statusSentence ''my box''" "\<not> containsCI statusSentence ''mybox''"
  by (simp_all add: statusSentence_def lowercaseString_def lowerChar_def hasPrefix_def saySwitch_def
      containsCI_def containsString_def Let_def)

theorem status_of_spaced_name_executed_witness:
  "\<exists>v'. didFinishWithResults demoCore loggingApi [statusSentence] None (oneServerVoice ''my box'' ''Ubuntu'' False False)
       = Inr v' \<and> world v' = [''echo pw | sudo -S check status of my box'']"
proof -
  let ?v = "oneServerVoice ''my box'' ''Ubuntu'' False False"
  let ?s = "newServer\<lparr>serverName := Some ''my box'', serverOS := Some 1, password := Some ''pw''\<rparr>"
  have s: "voiceServer ?v 0 = ?s" by (rule oneServer_named)
  have v: "voiceServers ?v = [0]" "\<not> isServerSelected ?v" "\<not> reviewOn ?v" by (simp_all add: oneServerVoice_def)
  obtain v1 where my: "isMySQL demoCore (voiceServer ?v 0) (?v\<lparr>transactionState := TS_IDLE\<rparr>) = Inr (False, v1)"
    and w: "world v1 = []"
    using oneServer_isMySQL [of "''my box''" "''Ubuntu''" False False] unfolding s by auto
  have n: "serverName (voiceServer ?v 0) = Some ''my box''" by (simp add: s)
  have heard: "statusSentence = saySwitch (lowercaseString statusSentence)"
    "\<not> hasPrefix (lowercaseString statusSentence) ''use''"
    "containsCI statusSentence (lowercaseString ''my box'')"
    "\<not> containsCI statusSentence (replaceAll '' '' '''' (lowercaseString ''my box''))"
    by (simp_all only: status_sentence simp_thms)
  from status_of_spaced_name_executed [OF v n heard(1,2) status_sentence(4,5) heard(3,4) my, of loggingApi "[]" None]
  have run: "didFinishWithResults demoCore loggingApi [statusSentence] None ?v
      = Inr (finishResults None (executeCommand loggingApi statusSentence ?s v1))" by (simp only: s)
  have "world (finishResults None (executeCommand loggingApi statusSentence ?s v1))
      = [''echo pw | sudo -S '' @ statusSentence]"
    by (simp add: finishResults_def executeCommand_def withSession_def loggingApi_def sudoCommand_def
        speak_def w Let_def)
  also have "\<dots> = [''echo pw | sudo -S check status of my box'']" by (simp add: statusSentence_def)
  finally show ?thesis using run by blast
qed

text \<open>The screen after the first tap.\<close>

theorem voice_invariant_witness:
  "transactionState (onStartListeningClick (voiceDidLoad demoCore emptyContext ())) = TS_INITIAL
   \<and> voiceSearch (onStartListeningClick (voiceDidLoad demoCore emptyContext ()))"
proof -
  let ?api = "\<lparr>connectTo = (\<lambda>w a u. (True, w)), authenticate = (\<lambda>w p. (True, w)),
                runCommand = (\<lambda>w c. (Inr ''ok'', w)), connectedNow = (\<lambda>w. True),
                authorizedNow = (\<lambda>w. True)\<rparr> :: unit remote_api"
  let ?l = "voiceDidLoad demoCore emptyContext ()"
  have "voice_reach demoCore ?api emptyContext () ?l" by (rule voice_reach.loaded)
  then have reached: "voice_reach demoCore ?api emptyContext () (onStartListeningClick ?l)"
    by (rule voice_reach.step) (rule voice_step.intros(1))
  have "transactionState (onStartListeningClick ?l) = TS_INITIAL"
    by (simp add: onStartListeningClick_def voiceDidLoad_def split: prod.split)
  with voice_invariant [OF reached] show ?thesis by simp
qed

end
