(* ===== verification/Console.thy ===== *)
theory Console
  imports SshSession ServerScreens
begin

text \<open>
  The screens of a Linux server: its manager with the password prompt (ManageServerLinuxViewController.m),
  the console and its history (LinuxConsoleViewController.m, LinuxConsoleHistoryViewController.m), the
  system usage (ViewSystemUsageViewController.m) and the scripting options.
\<close>

section \<open>The manager\<close>

record linux_manager =
  managerTitle :: "string option"
  tempPassword :: "string option"
  managerAlerts :: "(string \<times> string) list"

text \<open>
  The loop \<open>while (tempPassword == nil)\<close>.  The answer to the alert would set the password, but it
  is delivered by the run loop, which waits for this method to return: inside the loop nothing does.
  A run that does not end is \<^term>\<open>None\<close>.
\<close>

partial_function (option) promptLoop ::
  "string \<Rightarrow> string option \<Rightarrow> (string \<times> string) list \<Rightarrow> (string option \<times> (string \<times> string) list) option" where
  "promptLoop name pw alerts =
     (if pw = None then promptLoop name pw (alerts @ [(''Alert'', ''Enter password for '' @ name)])
      else Some (pw, alerts))"

definition linuxManagerDidLoad ::
  "'s remote_api \<Rightarrow> server \<Rightarrow> 's \<Rightarrow> (linux_manager \<times> 's) option" where
  "linuxManagerDidLoad api s w =
     (case connectTo api w (sessionAddress s) (username s) of (connected, w1) \<Rightarrow>
        if connected
        then if isPasswordSaved s
             then (case authenticate api w1 (password s) of (ok, w2) \<Rightarrow>
                     Some (\<lparr>managerTitle = serverName s, tempPassword = password s, managerAlerts = []\<rparr>, w2))
             else (case promptLoop (fmt (serverName s)) None [] of
                     None \<Rightarrow> None
                   | Some (pw, alerts) \<Rightarrow>
                       (case authenticate api w1 pw of (ok, w2) \<Rightarrow>
                          Some (\<lparr>managerTitle = serverName s, tempPassword = pw,
                                 managerAlerts = alerts @
                                   (if ok then []
                                    else [(''Error'', ''Could not connect to '' @ sessionAddress s
                                                        @ ''. Please try again'')])\<rparr>, w2)))
        else Some (\<lparr>managerTitle = serverName s, tempPassword = None,
                    managerAlerts = [(''Alert'', ''Could not instanciate connection'')]\<rparr>, w1))"

definition unauthorizedAlert :: "string \<times> string option" where
  "unauthorizedAlert = (''Alert'', Some ''Session is not authorized. Do something bro!'')"

definition rebootOnClick ::
  "'s remote_api \<Rightarrow> linux_manager \<Rightarrow> 's \<Rightarrow> (string \<times> string option) \<times> 's" where
  "rebootOnClick api m w =
     (if authorizedNow api w
      then (case runCommand api w (''echo '' @ fmt (tempPassword m) @ '' | sudo -S reboot'') of (r, w') \<Rightarrow>
              (case r of
                 Inl e \<Rightarrow> ((''Alert'', responseOf r), w')
               | Inr t \<Rightarrow> ((''Alert'', Some ''Reboot Successful!''), w')))
      else (unauthorizedAlert, w))"

text \<open>The screens that get the session, its password and the server.\<close>

datatype linux_screen =
  SelectPackageManager "string option" | ManageProcesses "string option" | LinuxConsole | ScriptingOptions

definition installSoftwareOnClick ::
  "'s remote_api \<Rightarrow> linux_manager \<Rightarrow> 's \<Rightarrow> (string \<times> string option) + linux_screen" where
  "installSoftwareOnClick api m w =
     (if authorizedNow api w then Inr (SelectPackageManager (tempPassword m)) else Inl unauthorizedAlert)"

definition servicesOnClick ::
  "'s remote_api \<Rightarrow> linux_manager \<Rightarrow> 's \<Rightarrow> (string \<times> string option) + linux_screen" where
  "servicesOnClick api m w =
     (if authorizedNow api w then Inr (ManageProcesses (tempPassword m)) else Inl unauthorizedAlert)"

definition openConsoleOnClick :: linux_screen where
  "openConsoleOnClick = LinuxConsole"

definition openScriptingOnClick :: linux_screen where
  "openScriptingOnClick = ScriptingOptions"

definition linuxAlertClicked :: "nat \<Rightarrow> nat \<Rightarrow> string option \<Rightarrow> linux_manager \<Rightarrow> linux_manager" where
  "linuxAlertClicked cancelButtonIndex buttonIndex typed m =
     (if cancelButtonIndex \<noteq> buttonIndex then m\<lparr>tempPassword := typed\<rparr> else m\<lparr>tempPassword := None\<rparr>)"

section \<open>The console\<close>

type_synonym console = "string list"

text \<open>The command history after one command, with the alert shown.\<close>

definition consoleExecute ::
  "'s remote_api \<Rightarrow> server \<Rightarrow> string \<Rightarrow> console \<Rightarrow> 's \<Rightarrow> (string \<times> string) \<times> console \<times> 's" where
  "consoleExecute api s commandString history w =
     (if connectedNow api w
      then (case authenticate api w (password s) of (ok, w1) \<Rightarrow>
              if ok
              then (case runCommand api w1 commandString of (r, w2) \<Rightarrow>
                      (case r of
                         Inl e \<Rightarrow> ((''Error'', e), history, w2)
                       | Inr t \<Rightarrow> (('''', t), (history @ [commandString]) @ [t], w2)))
              else ((''Error'', ''Could authorize session for '' @ fmt (serverName s)), history, w1))
      else ((''Error'', ''Could not connect to '' @ fmt (serverName s)), history, w))"

fun historyLoop :: "string \<Rightarrow> console \<Rightarrow> string" where
  "historyLoop dataString [] = dataString"
| "historyLoop dataString (line # lines) = historyLoop (dataString @ line @ [CHR 0x0A, CHR 0x0A]) lines"

definition historyDidLoad :: "console \<Rightarrow> string" where
  "historyDidLoad commandHistory = historyLoop '''' commandHistory"

section \<open>The system usage\<close>

definition usageExecute ::
  "'s remote_api \<Rightarrow> server \<Rightarrow> string \<Rightarrow> 's \<Rightarrow> (string \<times> string) \<times> 's" where
  "usageExecute api s commandString w =
     (if connectedNow api w
      then (case authenticate api w (password s) of (ok, w1) \<Rightarrow>
              if ok
              then (case runCommand api w1 (sudoCommand s commandString) of (r, w2) \<Rightarrow>
                      (case r of
                         Inl e \<Rightarrow> ((''Error'', ''Could not fetch system status on '' @ fmt (serverName s)), w2)
                       | Inr t \<Rightarrow> (('''', t), w2)))
              else ((''Error'', ''Could authorize session for '' @ fmt (serverName s)), w1))
      else ((''Error'', ''Could not connect to '' @ fmt (serverName s)), w))"

definition onRAMUsageClicked :: "'s remote_api \<Rightarrow> server \<Rightarrow> 's \<Rightarrow> (string \<times> string) \<times> 's" where
  "onRAMUsageClicked api s = usageExecute api s ''cat /proc/meminfo''"

definition onCPUUsageClicked :: "'s remote_api \<Rightarrow> server \<Rightarrow> 's \<Rightarrow> (string \<times> string) \<times> 's" where
  "onCPUUsageClicked api s = usageExecute api s cpuCommand"

definition onDiskUsageClicked :: "'s remote_api \<Rightarrow> server \<Rightarrow> 's \<Rightarrow> (string \<times> string) \<times> 's" where
  "onDiskUsageClicked api s = usageExecute api s ''df -h''"

section \<open>The scripting options\<close>

definition scriptingOptions :: "string list" where
  "scriptingOptions = [''Create New Script'', ''View Script List'']"

definition scriptingOptionCell :: "nat \<Rightarrow> string outcome" where
  "scriptingOptionCell row = objectAtIndex scriptingOptions row"

datatype scripting_screen = NewScript | AllScripts | OptionError "string \<times> string"

definition didSelectScriptingOption :: "nat \<Rightarrow> scripting_screen" where
  "didSelectScriptingOption row =
     (if row = 0 then NewScript
      else if row = 1 then AllScripts
      else OptionError (''Alert'', ''An error has occurred''))"

section \<open>The password prompt\<close>

lemma promptLoop_typed [simp]: "promptLoop name (Some pw) alerts = Some (Some pw, alerts)"
  by (subst promptLoop.simps) simp

lemma promptLoop_result: "promptLoop name pw alerts = Some r \<Longrightarrow> pw \<noteq> None"
proof (rule promptLoop.raw_induct [where P = "\<lambda>name pw alerts r. pw \<noteq> None"])
  fix again and name :: string and pw :: "string option" and alerts r
  assume IH: "\<And>name pw alerts r. again name pw alerts = Some r \<Longrightarrow> pw \<noteq> None"
    and body: "(if pw = None then again name pw (alerts @ [(''Alert'', ''Enter password for '' @ name)])
      else Some (pw, alerts)) = Some r"
  show "pw \<noteq> None"
  proof
    assume "pw = None"
    with body have "again name None (alerts @ [(''Alert'', ''Enter password for '' @ name)]) = Some r" by simp
    from IH [OF this] show False by simp
  qed
qed

lemma promptLoop_nil [simp]: "promptLoop name None alerts = None"
  using promptLoop_result by fastforce

text \<open>
  C26.  Opening the manager of a Linux server returns exactly if the connection fails or a password is
  saved; when it does with a saved password, that password authenticates the session and is the one
  later commands use.
\<close>

theorem linux_manager_returns_iff:
  "(linuxManagerDidLoad api s w = None \<longleftrightarrow>
      fst (connectTo api w (sessionAddress s) (username s)) \<and> \<not> isPasswordSaved s)
   \<and> (fst (connectTo api w (sessionAddress s) (username s)) \<and> isPasswordSaved s \<longrightarrow>
        (\<exists>m. linuxManagerDidLoad api s w
             = Some (m, snd (authenticate api (snd (connectTo api w (sessionAddress s) (username s))) (password s)))
           \<and> tempPassword m = password s))"
  by (auto simp: linuxManagerDidLoad_def split: prod.splits)

text \<open>A library that connects and authorises, over the commands it was given.\<close>

definition recordingApi :: "string list remote_api" where
  "recordingApi = \<lparr>connectTo = (\<lambda>w a u. (True, w)), authenticate = (\<lambda>w p. (True, w)),
     runCommand = (\<lambda>w c. (if c = ''fail'' then Inl ''refused'' else Inr (''ran '' @ c), w @ [c])),
     connectedNow = (\<lambda>w. True), authorizedNow = (\<lambda>w. True)\<rparr>"

theorem linux_manager_returns_iff_witness:
  "linuxManagerDidLoad recordingApi newServer [] = None
   \<and> (\<exists>m. linuxManagerDidLoad recordingApi (newServer\<lparr>password := Some ''pw''\<rparr>) [] = Some (m, [])
        \<and> tempPassword m = Some ''pw'')"
  using linux_manager_returns_iff [of recordingApi newServer "[]"]
    linux_manager_returns_iff [of recordingApi "newServer\<lparr>password := Some ''pw''\<rparr>" "[]"]
  by (simp add: recordingApi_def isPasswordSaved_def newServer_def)

section \<open>The history\<close>

text \<open>A run of the console over a list of commands.\<close>

fun consoleRun ::
  "'s remote_api \<Rightarrow> server \<Rightarrow> string list \<Rightarrow> console \<Rightarrow> 's \<Rightarrow> (string \<times> string) list \<times> console \<times> 's" where
  "consoleRun api s [] history w = ([], history, w)"
| "consoleRun api s (c # cs) history w =
     (case consoleExecute api s c history w of (alert, history', w') \<Rightarrow>
        (case consoleRun api s cs history' w' of (alerts, history'', w'') \<Rightarrow>
           (alert # alerts, history'', w'')))"

text \<open>What a command and its alert leave in the history.\<close>

definition recorded :: "string \<Rightarrow> string \<times> string \<Rightarrow> string list" where
  "recorded c alert = (if fst alert = '''' then [c, snd alert] else [])"

lemma historyLoop_concat:
  "historyLoop d ls = d @ concat (map (\<lambda>l. l @ [CHR 0x0A, CHR 0x0A]) ls)"
  by (induction d ls rule: historyLoop.induct) simp_all

lemma consoleExecute_history:
  "consoleExecute api s c history w = (alert, history', w') \<Longrightarrow> history' = history @ recorded c alert"
  by (auto simp: consoleExecute_def recorded_def split: if_splits prod.splits sum.splits)

lemma consoleRun_history:
  "consoleRun api s cs history w = (alerts, history', w') \<Longrightarrow>
     length alerts = length cs \<and> history' = history @ concat (map2 recorded cs alerts)"
proof (induction cs arbitrary: history w alerts history' w')
  case (Cons c cs)
  obtain a h1 w1 where e: "consoleExecute api s c history w = (a, h1, w1)" by (metis prod_cases3)
  obtain as h2 w2 where r: "consoleRun api s cs h1 w1 = (as, h2, w2)" by (metis prod_cases3)
  from Cons.prems e r have "alerts = a # as" "history' = h2" by simp_all
  with Cons.IH [OF r] consoleExecute_history [OF e] show ?case by simp
qed simp

text \<open>
  The history screen shows, in order, every command that succeeded followed by its response,
  each with a blank line after it, and nothing of a command that failed.
\<close>

theorem console_history_text:
  assumes "consoleRun api s cs [] w = (alerts, history, w')"
  shows "historyDidLoad history =
    concat (map (\<lambda>(c, a). if fst a = '''' then c @ [CHR 0x0A, CHR 0x0A] @ snd a @ [CHR 0x0A, CHR 0x0A] else [])
      (zip cs alerts))
   \<and> length alerts = length cs"
proof -
  from consoleRun_history [OF assms]
  have h: "history = concat (map2 recorded cs alerts)" and l: "length alerts = length cs" by simp_all
  have "concat (map (\<lambda>l. l @ [CHR 0x0A, CHR 0x0A]) (concat (map2 recorded xs ys))) =
    concat (map (\<lambda>(c, a). if fst a = '''' then c @ [CHR 0x0A, CHR 0x0A] @ snd a @ [CHR 0x0A, CHR 0x0A] else [])
      (zip xs ys))" for xs :: "string list" and ys :: "(string \<times> string) list"
    by (induction xs ys rule: list_induct2') (auto simp: recorded_def)
  with h l show ?thesis by (simp add: historyDidLoad_def historyLoop_concat)
qed

theorem console_history_text_witness:
  "historyDidLoad (fst (snd (consoleRun recordingApi newServer [''ls'', ''fail''] [] [])))
     = ''ls'' @ [CHR 0x0A, CHR 0x0A] @ ''ran ls'' @ [CHR 0x0A, CHR 0x0A]"
proof -
  have "consoleRun recordingApi newServer [''ls'', ''fail''] [] []
      = ([('''', ''ran ls''), (''Error'', ''refused'')], [''ls'', ''ran ls''], [''ls'', ''fail''])"
    by (simp add: consoleExecute_def recordingApi_def)
  from console_history_text [OF this] this show ?thesis by simp
qed

end
