(* ===== verification/MySQLScreens.thy ===== *)
theory MySQLScreens
  imports MySQLClient SshSession ServerScreens
begin

text \<open>
  The MySQL screens: the manager that connects (ManageServerMySQLViewController.m), the lists of
  schemas and tables with their options, the SQL console and its result, and the data view.  The C
  client library is the parameter \<open>api\<close> of the theory on the MySQL layer; a connection is a value,
  as the \<open>MYSQL\<close> structure that the screens copy into each other.  What comes from the server, and what is typed
  into the console, is Unicode text; its bytes are UTF-8.

  A cell of a result is \<open>NULL\<close> or the bytes up to the first zero byte; reading a cell past the end
  of its row is undefined in C and has the value of an exception here, the theorems assume the
  documented row length.
\<close>

section \<open>Strings from C\<close>

definition cString :: "char list \<Rightarrow> char list" where
  "cString b = takeWhile (\<lambda>c. c \<noteq> CHR 0x00) b"

text \<open>
  \<open>stringWithUTF8String:\<close> raises on \<open>NULL\<close>; bytes that are no UTF-8 give \<open>nil\<close>, which the array
  the string is added to refuses.
\<close>

definition stringWithUTF8String :: "char list option \<Rightarrow> utext outcome" where
  "stringWithUTF8String p =
     (case p of
        None \<Rightarrow> Inl NSInvalidArgumentException
      | Some b \<Rightarrow> (case fromUtf8 (cString b) of
                     None \<Rightarrow> Inl NSInvalidArgumentException
                   | Some s \<Rightarrow> Inr s))"

definition cellAt :: "char list option list \<Rightarrow> nat \<Rightarrow> char list option outcome" where
  "cellAt row i = objectAtIndex row i"

text \<open>The reference for the loops: an operation on every element, stopping at the first exception.\<close>

fun traverse :: "('a \<Rightarrow> 'b outcome) \<Rightarrow> 'a list \<Rightarrow> 'b list outcome" where
  "traverse f [] = Inr []"
| "traverse f (x # xs) = andThen (f x) (\<lambda>y. andThen (traverse f xs) (\<lambda>ys. Inr (y # ys)))"

lemma traverse_Inr_iff: "traverse f xs = Inr ys \<longleftrightarrow> list_all2 (\<lambda>x y. f x = Inr y) xs ys"
proof (induction xs arbitrary: ys)
  case (Cons x xs)
  then show ?case by (cases ys) (auto simp: andThen_Inr_iff list_all2_Cons1)
qed auto

lemma traverse_raises_iff: "raises (traverse f xs) \<longleftrightarrow> (\<exists>x \<in> set xs. raises (f x))"
proof (induction xs)
  case (Cons x xs)
  then show ?case by (cases "f x"; cases "traverse f xs") auto
qed simp

lemma traverse_map_Inr: "(\<And>x. x \<in> set xs \<Longrightarrow> f x = Inr (g x)) \<Longrightarrow> traverse f xs = Inr (map g xs)"
  by (induction xs) auto

section \<open>Loading a result\<close>

record sql_result =
  resultFields :: "utext list option"
  resultData :: "utext list list"

fun dataRowLoop :: "char list option list \<Rightarrow> nat list \<Rightarrow> utext list \<Rightarrow> utext list outcome" where
  "dataRowLoop row [] dataRow = Inr dataRow"
| "dataRowLoop row (i # is) dataRow =
     andThen (cellAt row i) (\<lambda>c. andThen (stringWithUTF8String c) (\<lambda>s.
       dataRowLoop row is (dataRow @ [s])))"

fun dataLoop :: "nat \<Rightarrow> char list option list list \<Rightarrow> utext list list \<Rightarrow> utext list list outcome" where
  "dataLoop n [] acc = Inr acc"
| "dataLoop n (row # rows) acc =
     andThen (dataRowLoop row [0..<n] []) (\<lambda>dataRow. dataLoop n rows (acc @ [dataRow]))"

fun fieldLoop :: "char list list \<Rightarrow> utext list \<Rightarrow> utext list outcome" where
  "fieldLoop [] fieldData = Inr fieldData"
| "fieldLoop (name # names) fieldData =
     andThen (stringWithUTF8String (Some name)) (\<lambda>s. fieldLoop names (fieldData @ [s]))"

definition loadResult :: "'c mysql_api \<Rightarrow> result_set \<Rightarrow> 'c \<Rightarrow> sql_result outcome" where
  "loadResult api result conn =
     andThen (dataLoop (mysql_field_count api conn) (rowData result) []) (\<lambda>rows.
       if 1 < length (fieldNames result)
       then andThen (fieldLoop (fieldNames result) []) (\<lambda>fieldData.
              Inr \<lparr>resultFields = Some fieldData, resultData = rows\<rparr>)
       else Inr \<lparr>resultFields = None, resultData = rows\<rparr>)"

datatype sql_effect = SqlAlert string string | OpenResult sql_result

section \<open>The SQL console\<close>

definition editSqlDidLoad :: "utext option \<Rightarrow> utext \<Rightarrow> utext" where
  "editSqlDidLoad sql storyboardText = (case sql of None \<Rightarrow> storyboardText | Some t \<Rightarrow> t)"

definition sqlFailure :: "'c mysql_api \<Rightarrow> string option \<Rightarrow> 'c \<Rightarrow> string" where
  "sqlFailure api name conn =
     ''Could not execute SQL on '' @ fmt name @ '' for reason  '' @ showNat (mysql_errno api conn)
       @ '' '' @ mysql_error api conn"

definition onExecuteSQLClicked ::
  "'c mysql_api \<Rightarrow> string option \<Rightarrow> utext option \<Rightarrow> 'c \<Rightarrow> (sql_effect \<times> 'c) outcome" where
  "onExecuteSQLClicked api name sqlText conn =
     (case sqlText of
        None \<Rightarrow> Inr (SqlAlert ''Error'' ''SQL entered cannot be empty'', conn)
      | Some sql \<Rightarrow>
          if sql = [] then Inr (SqlAlert ''Error'' ''SQL entered cannot be empty'', conn)
          else (case mysql_real_query api conn (queryText sql) of (status, conn1) \<Rightarrow>
                  if status \<noteq> 0 then Inr (SqlAlert ''Alert'' (sqlFailure api name conn1), conn1)
                  else (case mysql_store_result api conn1 of (result, conn2) \<Rightarrow>
                          (case result of
                             None \<Rightarrow> Inr (SqlAlert ''Alert'' ''SQL executed successfully'', conn2)
                           | Some rs \<Rightarrow>
                               andThen (loadResult api rs conn2) (\<lambda>r. Inr (OpenResult r, conn2))))))"

section \<open>The result screen\<close>

definition resultRowCount :: "sql_result \<Rightarrow> nat" where
  "resultRowCount r = length (resultData r)"

definition resultCell :: "sql_result \<Rightarrow> nat \<Rightarrow> utext outcome" where
  "resultCell r row = andThen (objectAtIndex (resultData r) row) (\<lambda>cells. objectAtIndex cells 0)"

definition newline :: utext where "newline = [ucharOf 0x0A]"

fun detailLoop :: "utext list option \<Rightarrow> utext list \<Rightarrow> nat list \<Rightarrow> utext \<Rightarrow> utext outcome" where
  "detailLoop names cells [] dataString = Inr dataString"
| "detailLoop names cells (i # is) dataString =
     (case names of
        Some fs \<Rightarrow>
          andThen (objectAtIndex fs i) (\<lambda>f. andThen (objectAtIndex cells i) (\<lambda>c.
            detailLoop names cells is (dataString @ f @ newline @ c @ newline @ newline)))
      | None \<Rightarrow>
          andThen (objectAtIndex cells i) (\<lambda>c.
            detailLoop names cells is (dataString @ c @ newline)))"

definition didSelectResultRow :: "sql_result \<Rightarrow> nat \<Rightarrow> utext outcome" where
  "didSelectResultRow r row =
     andThen (objectAtIndex (resultData r) row) (\<lambda>cells.
       detailLoop (resultFields r) cells [0..<length cells] [])"

section \<open>The manager\<close>

type_synonym 'c connector =
  "'c \<Rightarrow> char list option \<Rightarrow> char list option \<Rightarrow> char list option \<Rightarrow> 32 word \<Rightarrow> bool \<times> 'c"

definition mysqlOptions :: "string list" where
  "mysqlOptions = [''Manage Schemas'', ''Manage Tables'', ''SQL Console'']"

text \<open>\<open>[port intValue]\<close> is a 32-bit integer, assigned to an \<open>unsigned int\<close>.\<close>

definition portOf :: "int option \<Rightarrow> 32 word" where
  "portOf p = word_of_int (integerValue p)"

definition mysqlManagerDidLoad ::
  "'c mysql_api \<Rightarrow> 'c connector \<Rightarrow> server \<Rightarrow> 'c \<Rightarrow> (string \<times> (string \<times> string) list) \<times> 'c" where
  "mysqlManagerDidLoad api connect s conn =
     (case connect conn (map_option utf8 (host s)) (map_option utf8 (username s))
             (map_option utf8 (password s)) (portOf (port s)) of
        (ok, conn1) \<Rightarrow>
          ((''Manage '' @ fmt (serverName s),
            if \<not> ok
            then [(''Error'', ''Error code '' @ showNat (mysql_errno api conn1) @ '': '' @ mysql_error api conn1)]
            else []), conn1))"

definition mysqlOptionCell :: "nat \<Rightarrow> string outcome" where
  "mysqlOptionCell row = objectAtIndex mysqlOptions row"

datatype mysql_screen = SchemasList nat | EditSQL | SchemaOptions utext | TablesList utext | NoMySQLScreen

definition didSelectMySQLOption :: "nat \<Rightarrow> mysql_screen" where
  "didSelectMySQLOption row =
     (if row = 0 then SchemasList 1
      else if row = 1 then SchemasList 2
      else if row = 2 then EditSQL
      else NoMySQLScreen)"

section \<open>The list of schemas\<close>

fun namesLoop :: "char list option list list \<Rightarrow> utext list \<Rightarrow> utext list outcome" where
  "namesLoop [] names = Inr names"
| "namesLoop (row # rows) names =
     andThen (cellAt row 0) (\<lambda>c. andThen (stringWithUTF8String c) (\<lambda>s. namesLoop rows (names @ [s])))"

definition schemaListFailure :: "string \<times> string" where
  "schemaListFailure = (''Error'', ''Could not fetch the schema list.'')"

definition reloadSchemas ::
  "'c mysql_api \<Rightarrow> utext list \<Rightarrow> 'c \<Rightarrow> ((utext list \<times> (string \<times> string) list) \<times> 'c) outcome" where
  "reloadSchemas api schemas conn =
     (case mysql_real_query api conn (queryBytes ''SHOW SCHEMAS;'') of (status, conn1) \<Rightarrow>
        if status \<noteq> 0 then Inr (([], [schemaListFailure]), conn1)
        else (case mysql_store_result api conn1 of (result, conn2) \<Rightarrow>
                (case result of
                   None \<Rightarrow> Inr (([], [schemaListFailure]), conn2)
                 | Some rs \<Rightarrow> andThen (namesLoop (rowData rs) []) (\<lambda>names. Inr ((names, []), conn2)))))"

definition schemaCell :: "utext list \<Rightarrow> nat \<Rightarrow> utext outcome" where
  "schemaCell schemas row = objectAtIndex schemas row"

text \<open>The dialog of the plus button: the list itself is not fetched again.\<close>

definition newSchemaClicked ::
  "'c mysql_api \<Rightarrow> nat \<Rightarrow> utext \<Rightarrow> utext list \<Rightarrow> 'c \<Rightarrow> (utext list \<times> (string option \<times> utext) list) \<times> 'c" where
  "newSchemaClicked api buttonIndex typed schemas conn =
     (if buttonIndex \<noteq> 0
      then (case mysql_real_query api conn (queryText (ofLatin ''CREATE SCHEMA '' @ typed)) of (status, conn1) \<Rightarrow>
              ((schemas, [if status \<noteq> 0 then (Some ''Error'', ofLatin ''Could not create schema '' @ typed)
                          else (None, ofLatin ''Created schema '' @ typed @ ofLatin '' successfully'')]), conn1))
      else ((schemas, []), conn))"

definition didSelectSchema :: "nat \<Rightarrow> utext list \<Rightarrow> nat \<Rightarrow> mysql_screen outcome" where
  "didSelectSchema flag schemas row =
     (if flag = 1 then andThen (objectAtIndex schemas row) (\<lambda>s. Inr (SchemaOptions s))
      else if flag = 2 then andThen (objectAtIndex schemas row) (\<lambda>s. Inr (TablesList s))
      else Inr NoMySQLScreen)"

section \<open>The options of a schema\<close>

definition schemaOptions :: "string list" where
  "schemaOptions = [''Delete Schema'', ''View Data'']"

definition schemaOptionCell :: "nat \<Rightarrow> string outcome" where
  "schemaOptionCell row = objectAtIndex schemaOptions row"

definition didSelectSchemaOption :: "nat \<Rightarrow> (string \<times> string) list" where
  "didSelectSchemaOption row =
     (if row = 0 then [(''Alert'', ''Are you sure you wish to delete this schema?'')]
      else if row = 1 then []
      else if row = 2 then [(''Alert'', ''This functionality has not been implemented yet'')]
      else [])"

text \<open>The answer to the question; the list of schemas opens from the alert of a success.\<close>

definition deleteSchemaAnswered ::
  "'c mysql_api \<Rightarrow> utext \<Rightarrow> nat \<Rightarrow> 'c \<Rightarrow> (utext option \<times> mysql_screen) \<times> 'c" where
  "deleteSchemaAnswered api schema buttonIndex conn =
     (if buttonIndex = 1
      then (case dropSchema api schema conn of (result, conn1) \<Rightarrow>
              if success result then ((Some (ofLatin ''Schema '' @ schema @ ofLatin '' successfully''), SchemasList 1), conn1)
              else ((None, NoMySQLScreen), conn1))
      else ((None, NoMySQLScreen), conn))"

section \<open>The list of tables\<close>

datatype list_effect = PopToRoot | TablesAlert string | PresentOverview string | ReloadRows

definition reloadTables ::
  "'c mysql_api \<Rightarrow> utext \<Rightarrow> bool \<Rightarrow> utext list \<Rightarrow> 'c \<Rightarrow> ((utext list \<times> list_effect list) \<times> 'c) outcome" where
  "reloadTables api schema reloadTable tables conn =
     (case mysql_ping api conn of (lost, conn1) \<Rightarrow>
        andThen
          (if lost \<noteq> 0
           then Inr ((tables, [PopToRoot, TablesAlert ''Connection to database has been lost.'']), conn1)
           else (case mysql_select_db api conn1 (utf8Text schema) of (result, conn2) \<Rightarrow>
                   if result \<noteq> 0
                   then Inr ((tables, [PresentOverview (''Error code '' @ showNat (mysql_errno api conn2)
                                         @ '': '' @ mysql_error api conn2)]), conn2)
                   else (case mysql_real_query api conn2 (queryBytes ''SHOW TABLES;'') of (status, conn3) \<Rightarrow>
                           if status = 0
                           then (case mysql_store_result api conn3 of (res, conn4) \<Rightarrow>
                                   (case res of
                                      Some rs \<Rightarrow>
                                        andThen (namesLoop (rowData rs) []) (\<lambda>names. Inr ((names, []), conn4))
                                    | None \<Rightarrow> Inr ((tables, []), conn4)))
                           else Inr ((tables, []), conn3))))
          (\<lambda>((ts, es), c). Inr ((ts, es @ (if reloadTable then [ReloadRows] else [])), c)))"

definition tablesDidLoad ::
  "'c mysql_api \<Rightarrow> utext \<Rightarrow> 'c \<Rightarrow> ((utext list \<times> list_effect list) \<times> 'c) outcome" where
  "tablesDidLoad api schema conn = reloadTables api schema False [] conn"

definition tableCell :: "utext list \<Rightarrow> nat \<Rightarrow> utext outcome" where
  "tableCell tables row = objectAtIndex tables row"

definition didSelectTable :: "utext list \<Rightarrow> nat \<Rightarrow> utext outcome" where
  "didSelectTable tables row = objectAtIndex tables row"

definition newTableClicked :: "nat \<Rightarrow> utext \<Rightarrow> utext option" where
  "newTableClicked buttonIndex typed = (if buttonIndex \<noteq> 0 then Some typed else None)"

section \<open>The options of a table\<close>

definition tableOptions :: "string list" where
  "tableOptions = [''Delete Table'', ''Alter Table'', ''View Data'']"

definition tableOptionCell :: "nat \<Rightarrow> string outcome" where
  "tableOptionCell row = objectAtIndex tableOptions row"

definition notImplemented :: sql_effect where
  "notImplemented = SqlAlert ''Alert'' ''This functionality has not been implemented yet''"

definition didSelectTableOption ::
  "'c mysql_api \<Rightarrow> string option \<Rightarrow> utext \<Rightarrow> utext \<Rightarrow> nat \<Rightarrow> 'c \<Rightarrow> (sql_effect list \<times> 'c) outcome" where
  "didSelectTableOption api name schema tableName row conn =
     (if row = 0 then Inr ([SqlAlert ''Alert'' ''Are you sure you wish to delete this table?''], conn)
      else if row = 1 then Inr ([notImplemented], conn)
      else if row = 2
      then (case mysql_real_query api conn (queryText (ofLatin ''SELECT * FROM '' @ schema @ ofLatin ''.'' @ tableName)) of
              (status, conn1) \<Rightarrow>
                if status \<noteq> 0
                then Inr ([notImplemented, SqlAlert ''Alert'' (sqlFailure api name conn1)], conn1)
                else (case mysql_store_result api conn1 of (result, conn2) \<Rightarrow>
                        (case result of
                           None \<Rightarrow>
                             Inr ([notImplemented, SqlAlert ''Alert'' (''Could not execute SQL on '' @ fmt name)], conn2)
                         | Some rs \<Rightarrow>
                             andThen (loadResult api rs conn2) (\<lambda>r. Inr ([notImplemented, OpenResult r], conn2)))))
      else Inr ([], conn))"

definition deleteTableAnswered ::
  "'c mysql_api \<Rightarrow> utext \<Rightarrow> utext \<Rightarrow> nat \<Rightarrow> 'c \<Rightarrow> utext option \<times> 'c" where
  "deleteTableAnswered api schema tableName buttonIndex conn =
     (if buttonIndex = 1
      then (case deleteTable api schema tableName conn of (result, conn1) \<Rightarrow>
              if success result then (Some (ofLatin ''Deleted table '' @ tableName @ ofLatin '' successfully''), conn1)
              else (None, conn1))
      else (None, conn))"

text \<open>Dismissing that alert opens a list of tables that was reloaded before it was shown.\<close>

definition deletedTableDismissed ::
  "'c mysql_api \<Rightarrow> utext \<Rightarrow> 'c \<Rightarrow> ((utext list \<times> list_effect list) \<times> 'c) outcome" where
  "deletedTableDismissed api schema conn = reloadTables api schema True [] conn"

section \<open>The data view\<close>

record table_data =
  dataFields :: "char list list option"
  dataRows :: "utext list list"

text \<open>Here a \<open>NULL\<close> cell is the text NULL.\<close>

fun viewRowLoop :: "char list option list \<Rightarrow> nat list \<Rightarrow> utext list \<Rightarrow> utext list outcome" where
  "viewRowLoop row [] r = Inr r"
| "viewRowLoop row (i # is) r =
     andThen (cellAt row i) (\<lambda>c.
       case c of
         None \<Rightarrow> viewRowLoop row is (r @ [ofLatin ''NULL''])
       | Some b \<Rightarrow> andThen (stringWithUTF8String (Some b)) (\<lambda>s. viewRowLoop row is (r @ [s])))"

fun viewRowsLoop :: "nat \<Rightarrow> char list option list list \<Rightarrow> utext list list \<Rightarrow> utext list list outcome" where
  "viewRowsLoop n [] acc = Inr acc"
| "viewRowsLoop n (row # rest) acc =
     andThen (viewRowLoop row [0..<n] []) (\<lambda>r. viewRowsLoop n rest (acc @ [r]))"

definition tableDataDidLoad ::
  "'c mysql_api \<Rightarrow> utext \<Rightarrow> utext \<Rightarrow> 'c \<Rightarrow> ((table_data \<times> list_effect list) \<times> 'c) outcome" where
  "tableDataDidLoad api schema table conn =
     (case mysql_ping api conn of (lost, conn1) \<Rightarrow>
        if lost \<noteq> 0
        then Inr ((\<lparr>dataFields = None, dataRows = []\<rparr>, [PresentOverview ''Connection to database has been lost.'']), conn1)
        else (case mysql_select_db api conn1 (utf8Text schema) of (result, conn2) \<Rightarrow>
                if result \<noteq> 0
                then Inr ((\<lparr>dataFields = None, dataRows = []\<rparr>,
                           [PresentOverview (''Error code '' @ showNat (mysql_errno api conn2) @ '': ''
                              @ mysql_error api conn2)]), conn2)
                else (case mysql_real_query api conn2 (queryText (ofLatin ''SELECT * FROM '' @ table @ ofLatin '' LIMIT 1000;'')) of
                        (status, conn3) \<Rightarrow>
                          if status = 0
                          then (case mysql_store_result api conn3 of (res, conn4) \<Rightarrow>
                                  (case res of
                                     Some rs \<Rightarrow>
                                       andThen (viewRowsLoop (length (fieldNames rs)) (rowData rs) []) (\<lambda>rows.
                                         Inr ((\<lparr>dataFields = Some (fieldNames rs), dataRows = rows\<rparr>, []), conn4))
                                   | None \<Rightarrow> Inr ((\<lparr>dataFields = None, dataRows = []\<rparr>, []), conn4)))
                          else Inr ((\<lparr>dataFields = None, dataRows = []\<rparr>, []), conn3))))"

definition numberOfDataSections :: "table_data \<Rightarrow> nat" where
  "numberOfDataSections v = (case dataFields v of None \<Rightarrow> 0 | Some fs \<Rightarrow> length fs)"

definition numberOfDataItems :: "table_data \<Rightarrow> nat \<Rightarrow> nat" where
  "numberOfDataItems v sec = length (dataRows v)"

text \<open>The section, that is the column, is not used.\<close>

definition dataCell :: "table_data \<Rightarrow> nat \<Rightarrow> nat \<Rightarrow> utext outcome" where
  "dataCell v sec row = andThen (objectAtIndex (dataRows v) row) (\<lambda>r. objectAtIndex r 0)"

section \<open>The loops are traversals\<close>

definition readCell :: "char list option list \<Rightarrow> nat \<Rightarrow> utext outcome" where
  "readCell row i = andThen (cellAt row i) stringWithUTF8String"

lemma andThen_assoc: "andThen (andThen m f) g = andThen m (\<lambda>x. andThen (f x) g)"
  by (cases m) simp_all

lemma andThen_Inr_right [simp]: "andThen m Inr = m"
  by (cases m) simp_all

lemma dataRowLoop_traverse:
  "dataRowLoop row is acc = andThen (traverse (readCell row) is) (\<lambda>ys. Inr (acc @ ys))"
  by (induction row "is" acc rule: dataRowLoop.induct) (simp_all add: readCell_def andThen_assoc)

lemma fieldLoop_traverse:
  "fieldLoop names acc = andThen (traverse (\<lambda>n. stringWithUTF8String (Some n)) names) (\<lambda>ys. Inr (acc @ ys))"
  by (induction names acc rule: fieldLoop.induct) (simp_all add: andThen_assoc)

lemma namesLoop_traverse:
  "namesLoop rows acc = andThen (traverse (\<lambda>row. readCell row 0) rows) (\<lambda>ys. Inr (acc @ ys))"
  by (induction rows acc rule: namesLoop.induct) (simp_all add: readCell_def andThen_assoc)

lemma dataLoop_traverse:
  "dataLoop n rows acc = andThen (traverse (\<lambda>row. traverse (readCell row) [0..<n]) rows) (\<lambda>ys. Inr (acc @ ys))"
  by (induction n rows acc rule: dataLoop.induct) (simp_all add: andThen_assoc dataRowLoop_traverse)

lemma traverse_index:
  "length row = n \<Longrightarrow> traverse (readCell row) [0..<n] = traverse stringWithUTF8String row"
proof -
  assume n: "length row = n"
  have "traverse (readCell row) is = traverse stringWithUTF8String (map ((!) row) is)"
    if "set is \<subseteq> {..<n}" for "is"
    using that n by (induction "is") (auto simp: readCell_def cellAt_def)
  from this [of "[0..<n]"] n show ?thesis by (metis atLeast_upt map_nth order_refl)
qed

text \<open>A result as the library documents it: every row has one cell per column.\<close>

definition result_ok :: "'c mysql_api \<Rightarrow> result_set \<Rightarrow> 'c \<Rightarrow> bool" where
  "result_ok api rs conn =
     (mysql_field_count api conn = length (fieldNames rs)
      \<and> list_all (\<lambda>row. length row = length (fieldNames rs)) (rowData rs))"

lemma dataLoop_ok:
  assumes "result_ok api rs conn"
  shows "dataLoop (mysql_field_count api conn) (rowData rs) []
    = traverse (traverse stringWithUTF8String) (rowData rs)"
proof -
  have "traverse (\<lambda>row. traverse (readCell row) [0..<length (fieldNames rs)]) rows
      = traverse (traverse stringWithUTF8String) rows"
    if "set rows \<subseteq> set (rowData rs)" for rows
    using that assms by (induction rows) (auto simp: result_ok_def list_all_iff traverse_index)
  with assms show ?thesis by (simp add: dataLoop_traverse result_ok_def)
qed

text \<open>A value that is there and is the UTF-8 of some text up to its first zero byte.\<close>

definition readable :: "char list option \<Rightarrow> bool" where
  "readable c \<longleftrightarrow> (\<exists>b s. c = Some b \<and> cString b = utf8Text s)"

lemma stringWithUTF8String_raises: "raises (stringWithUTF8String c) \<longleftrightarrow> \<not> readable c"
  by (auto simp: stringWithUTF8String_def readable_def fromUtf8_None_iff fromUtf8_Some_iff split: option.splits)

lemma raises_andThen: "raises (andThen m f) \<longleftrightarrow> raises m \<or> (\<exists>x. m = Inr x \<and> raises (f x))"
  by (cases m) auto

lemma loadResult_raises:
  assumes "result_ok api rs conn"
  shows "raises (loadResult api rs conn) \<longleftrightarrow>
     (\<exists>row \<in> set (rowData rs). \<exists>c \<in> set row. \<not> readable c)
     \<or> (1 < length (fieldNames rs) \<and> (\<exists>f \<in> set (fieldNames rs). \<not> readable (Some f)))"
proof -
  have d: "raises (traverse (traverse stringWithUTF8String) (rowData rs))
      \<longleftrightarrow> (\<exists>row \<in> set (rowData rs). \<exists>c \<in> set row. \<not> readable c)"
    by (simp add: traverse_raises_iff stringWithUTF8String_raises)
  have f: "raises (fieldLoop (fieldNames rs) []) \<longleftrightarrow> (\<exists>f \<in> set (fieldNames rs). \<not> readable (Some f))"
    by (simp add: fieldLoop_traverse traverse_raises_iff stringWithUTF8String_raises)
  show ?thesis
    unfolding loadResult_def dataLoop_ok [OF assms]
    using d f by (cases "traverse (traverse stringWithUTF8String) (rowData rs)") (auto simp: raises_andThen)
qed

section \<open>Properties of the result screen\<close>

text \<open>
  C21.  Executing a statement that returns a result raises exactly when some cell is NULL or is not the UTF-8 of any
  text (or, with two columns or more, a column name is not): one SQL NULL ends the application.
\<close>

theorem execute_raises_iff_unreadable:
  assumes "sql \<noteq> []" and "mysql_real_query api conn (queryText sql) = (0, conn1)"
    and "mysql_store_result api conn1 = (Some rs, conn2)" and "result_ok api rs conn2"
  shows "raises (onExecuteSQLClicked api name (Some sql) conn) \<longleftrightarrow>
     (\<exists>row \<in> set (rowData rs). \<exists>c \<in> set row. \<not> readable c)
     \<or> (1 < length (fieldNames rs) \<and> (\<exists>f \<in> set (fieldNames rs). \<not> readable (Some f)))"
  using assms loadResult_raises [OF assms(4)] by (simp add: onExecuteSQLClicked_def raises_andThen)

text \<open>A library holding one stored result.\<close>

definition storedApi :: "result_set \<Rightarrow> unit mysql_api" where
  "storedApi rs =
     \<lparr>mysql_ping = (\<lambda>c. (0, c)), mysql_select_db = (\<lambda>c s. (0, c)), mysql_real_query = (\<lambda>c q. (0, c)),
      mysql_store_result = (\<lambda>c. (Some rs, c)), mysql_field_count = (\<lambda>c. length (fieldNames rs)),
      mysql_error = (\<lambda>c. ''''), mysql_errno = (\<lambda>c. 0)\<rparr>"

definition nullResult :: result_set where
  "nullResult = \<lparr>fieldNames = [''id'', ''note''], rowData = [[Some ''1'', None]]\<rparr>"

lemma storedApi_calls:
  "mysql_real_query (storedApi rs) () q = (0, ())" "mysql_store_result (storedApi rs) () = (Some rs, ())"
  "result_ok (storedApi rs) rs () \<longleftrightarrow> list_all (\<lambda>row. length row = length (fieldNames rs)) (rowData rs)"
  by (simp_all add: storedApi_def result_ok_def)

theorem execute_raises_iff_unreadable_witness:
  "raises (onExecuteSQLClicked (storedApi nullResult) None (Some (ofLatin ''SELECT * FROM t'')) ())"
proof -
  have "result_ok (storedApi nullResult) nullResult ()"
    by (simp add: storedApi_calls(3)) (simp add: nullResult_def)
  moreover have "\<exists>row \<in> set (rowData nullResult). \<exists>c \<in> set row. \<not> readable c"
    by (simp add: nullResult_def readable_def)
  ultimately show ?thesis
    using execute_raises_iff_unreadable [of "ofLatin ''SELECT * FROM t''", OF _ storedApi_calls(1,2)] by simp
qed

lemma cString_utf8: "noZero s \<Longrightarrow> cString (utf8Text s) = utf8Text s"
  unfolding cString_def by (rule takeWhile_eq_all_conv [THEN iffD2]) (use utf8Text_nonzero in auto)

lemma noZero_ofLatin: "noZero (ofLatin s) \<longleftrightarrow> CHR 0x00 \<notin> set s"
proof (induction s)
  case (Cons c s)
  have "(of_char c :: nat) = of_char (CHR 0x00) \<longleftrightarrow> c = CHR 0x00" by (rule of_char_eq_iff)
  with Cons show ?case by (auto simp: noZero_def latin_scalar)
qed (simp add: noZero_def)

lemma stringWithUTF8String_utf8: "noZero s \<Longrightarrow> stringWithUTF8String (Some (utf8Text s)) = Inr s"
  by (simp add: stringWithUTF8String_def cString_utf8)

text \<open>The detail text of one row, with the names of its columns or without.\<close>

definition detailText :: "utext list option \<Rightarrow> utext list \<Rightarrow> utext" where
  "detailText names cells =
     (case names of
        Some fs \<Rightarrow> concat (map2 (\<lambda>f c. f @ newline @ c @ newline @ newline) fs cells)
      | None \<Rightarrow> concat (map (\<lambda>c. c @ newline) cells))"

lemma detailLoop_named:
  "set is \<subseteq> {..<length cells} \<Longrightarrow> length fs = length cells \<Longrightarrow>
     detailLoop (Some fs) cells is acc
       = Inr (acc @ concat (map (\<lambda>i. fs ! i @ newline @ cells ! i @ newline @ newline) is))"
  by (induction "is" arbitrary: acc) auto

lemma detailLoop_plain:
  "set is \<subseteq> {..<length cells} \<Longrightarrow>
     detailLoop None cells is acc = Inr (acc @ concat (map (\<lambda>i. cells ! i @ newline) is))"
  by (induction "is" arbitrary: acc) auto

lemma detailLoop_text:
  assumes "\<forall>fs. names = Some fs \<longrightarrow> length fs = length cells"
  shows "detailLoop names cells [0..<length cells] [] = Inr (detailText names cells)"
proof (cases names)
  case None
  have "map (\<lambda>i. cells ! i @ newline) [0..<length cells] = map (\<lambda>c. c @ newline) cells"
    by (rule nth_equalityI) auto
  with None show ?thesis
    by (simp add: detailText_def detailLoop_plain atLeast_upt)
next
  case (Some fs)
  with assms have len: "length fs = length cells" by simp
  then have "map (\<lambda>i. fs ! i @ newline @ cells ! i @ newline @ newline) [0..<length cells]
      = map2 (\<lambda>f c. f @ newline @ c @ newline @ newline) fs cells"
    by (intro nth_equalityI) auto
  with Some len show ?thesis
    using detailLoop_named [of "[0..<length cells]" cells fs "[]"]
    by (simp add: detailText_def atLeast_upt [symmetric] del: set_upt)
qed

text \<open>
  C7.  A result whose cells are the UTF-8 of a table of Unicode texts is shown as that table: the screen
  holds exactly its rows, and tapping a row shows each value, under the name of its column when there
  are two columns or more.
\<close>

theorem result_screen_shows_table:
  assumes "sql \<noteq> []" and "mysql_real_query api conn (queryText sql) = (0, conn1)"
    and "mysql_store_result api conn1 = (Some rs, conn2)" and "result_ok api rs conn2"
    and "fieldNames rs = map utf8Text names" and "rowData rs = map (map (\<lambda>s. Some (utf8Text s))) table"
    and "list_all noZero names" and "list_all (list_all noZero) table"
  shows "\<exists>r. onExecuteSQLClicked api name (Some sql) conn = Inr (OpenResult r, conn2)
    \<and> resultData r = table
    \<and> (\<forall>i < length table. didSelectResultRow r i
          = Inr (detailText (if 1 < length names then Some names else None) (table ! i)))"
proof -
  have rows: "traverse (traverse stringWithUTF8String) (rowData rs) = Inr table"
    using assms(6,8) by (auto simp: traverse_Inr_iff list_all2_map1 list_all2_same list_all_iff
        stringWithUTF8String_utf8)
  have fields: "fieldLoop (fieldNames rs) [] = Inr names"
    using assms(5,7)
    by (simp add: fieldLoop_traverse) (auto simp: andThen_Inr_iff traverse_Inr_iff list_all2_map1
        list_all2_same list_all_iff stringWithUTF8String_utf8)
  have lens: "\<forall>row \<in> set table. length row = length names"
    using assms(4,5,6) by (auto simp: result_ok_def list_all_iff)
  define hdr where "hdr = (if 1 < length names then Some names else None)"
  define r where "r = \<lparr>resultFields = hdr, resultData = table\<rparr>"
  have "loadResult api rs conn2 = Inr r"
    unfolding loadResult_def dataLoop_ok [OF assms(4)] rows r_def hdr_def using fields assms(5) by simp
  then have "onExecuteSQLClicked api name (Some sql) conn = Inr (OpenResult r, conn2)"
    using assms(1-3) by (simp add: onExecuteSQLClicked_def)
  moreover have "resultData r = table" by (simp add: r_def)
  moreover have "didSelectResultRow r i = Inr (detailText hdr (table ! i))" if "i < length table" for i
  proof -
    have "\<forall>fs. hdr = Some fs \<longrightarrow> length fs = length (table ! i)"
      using that lens by (auto simp: hdr_def split: if_splits)
    from detailLoop_text [OF this] that show ?thesis by (simp add: didSelectResultRow_def r_def)
  qed
  ultimately show ?thesis unfolding hdr_def by blast
qed

text \<open>Two columns and one row, with an accent and a euro sign.\<close>

definition priceNames :: "utext list" where
  "priceNames = [ofLatin ''id'', ofLatin [CHR 0x6E, CHR 0xE9]]"

definition priceRow :: "utext list" where
  "priceRow = [ofLatin ''1'', ofLatin ''5 '' @ [ucharOf 0x20AC]]"

definition priceResult :: result_set where
  "priceResult = \<lparr>fieldNames = map utf8Text priceNames, rowData = [map (\<lambda>s. Some (utf8Text s)) priceRow]\<rparr>"

theorem result_screen_shows_table_witness:
  "\<exists>r. onExecuteSQLClicked (storedApi priceResult) None (Some (ofLatin ''SELECT 1'')) () = Inr (OpenResult r, ())
     \<and> didSelectResultRow r 0 = Inr (ofLatin ''id'' @ newline @ ofLatin ''1'' @ newline @ newline
          @ ofLatin [CHR 0x6E, CHR 0xE9] @ newline @ ofLatin ''5 '' @ [ucharOf 0x20AC] @ newline @ newline)"
proof -
  have ok: "result_ok (storedApi priceResult) priceResult ()"
    by (simp add: storedApi_calls(3)) (simp add: priceResult_def priceNames_def priceRow_def)
  have enc: "fieldNames priceResult = map utf8Text priceNames"
    "rowData priceResult = map (map (\<lambda>s. Some (utf8Text s))) [priceRow]" by (simp_all add: priceResult_def)
  have z: "list_all noZero priceNames" "list_all (list_all noZero) [priceRow]"
    by (simp_all add: priceNames_def priceRow_def noZero_def latin_scalar isScalar_def del: of_char_eq_iff)
  have sql: "ofLatin ''SELECT 1'' \<noteq> []" by simp
  from result_screen_shows_table [OF sql storedApi_calls(1,2) ok enc z, of None]
  obtain r where "onExecuteSQLClicked (storedApi priceResult) None (Some (ofLatin ''SELECT 1'')) () = Inr (OpenResult r, ())"
    and "didSelectResultRow r 0 = Inr (detailText (Some priceNames) priceRow)" by (auto simp: priceNames_def)
  then show ?thesis by (intro exI [of _ r]) (simp add: detailText_def priceNames_def priceRow_def)
qed

section \<open>Properties of the lists\<close>

lemma namesLoop_utf8:
  "list_all noZero names \<Longrightarrow> namesLoop (map (\<lambda>n. [Some (utf8Text n)]) names) [] = Inr names"
proof -
  assume z: "list_all noZero names"
  have "traverse (\<lambda>row. readCell row 0) (map (\<lambda>n. [Some (utf8Text n)]) names) = Inr names"
    using z by (auto simp: traverse_Inr_iff list_all2_map1 list_all2_same list_all_iff readCell_def cellAt_def
        stringWithUTF8String_utf8)
  then show ?thesis by (simp add: namesLoop_traverse)
qed

text \<open>
  The list of tables changes only when ping, schema selection, query and fetch all worked, and
  then to exactly the decoded first column; a lost connection goes back to the first screen.  The
  view is told to reload exactly when asked.
\<close>

theorem reload_tables_contract:
  assumes "reloadTables api schema reload tables conn = Inr ((ts, es), conn')"
  shows "(ReloadRows \<in> set es \<longleftrightarrow> reload)
    \<and> (PopToRoot \<in> set es \<longleftrightarrow> fst (mysql_ping api conn) \<noteq> 0)
    \<and> (ts = tables \<or>
        (\<exists>c1 c2 c3 rs. mysql_ping api conn = (0, c1) \<and> mysql_select_db api c1 (utf8Text schema) = (0, c2)
           \<and> mysql_real_query api c2 (queryBytes ''SHOW TABLES;'') = (0, c3)
           \<and> mysql_store_result api c3 = (Some rs, conn')
           \<and> list_all2 (\<lambda>row n. readCell row 0 = Inr n) (rowData rs) ts))"
proof -
  obtain p c1 where ping: "mysql_ping api conn = (p, c1)" by fastforce
  obtain d c2 where sel: "mysql_select_db api c1 (utf8Text schema) = (d, c2)" by fastforce
  obtain q c3 where qry: "mysql_real_query api c2 (queryBytes ''SHOW TABLES;'') = (q, c3)" by fastforce
  obtain r c4 where st: "mysql_store_result api c3 = (r, c4)" by fastforce
  note calls = reloadTables_def ping sel qry st
  show ?thesis
  proof (cases "p = 0 \<and> d = 0 \<and> q = 0 \<and> r \<noteq> None")
    case False
    then consider "p \<noteq> 0" | "p = 0" "d \<noteq> 0" | "p = 0" "d = 0" "q \<noteq> 0" | "p = 0" "d = 0" "q = 0" "r = None"
      by blast
    then show ?thesis using assms by cases (auto simp: calls split: if_splits)
  next
    case True
    then obtain rs where ok: "p = 0" "d = 0" "q = 0" "r = Some rs" by auto
    with assms have n: "namesLoop (rowData rs) [] = Inr ts" and es: "es = (if reload then [ReloadRows] else [])"
      and c: "conn' = c4"
      by (auto simp: calls andThen_Inr_iff)
    from n have "traverse (\<lambda>row. readCell row 0) (rowData rs) = Inr ts"
      by (auto simp: namesLoop_traverse andThen_Inr_iff)
    then have "list_all2 (\<lambda>row n. readCell row 0 = Inr n) (rowData rs) ts"
      by (simp add: traverse_Inr_iff)
    with ok ping sel qry st c es show ?thesis by auto
  qed
qed

definition twoTables :: result_set where
  "twoTables = \<lparr>fieldNames = [''Tables''], rowData = [[Some ''a''], [Some ''b'']]\<rparr>"

theorem reload_tables_contract_witness:
  "\<exists>es. reloadTables (storedApi twoTables) (ofLatin ''shop'') True [ofLatin ''old''] ()
        = Inr (([ofLatin ''a'', ofLatin ''b''], es), ())
     \<and> ReloadRows \<in> set es \<and> PopToRoot \<notin> set es"
proof -
  have "rowData twoTables = map (\<lambda>n. [Some (utf8Text n)]) [ofLatin ''a'', ofLatin ''b'']"
    by (simp add: twoTables_def utf8Char_def latin_scalar encode1_latin del: utf8Text_simps(2) ofLatin_simps(2))
  then have "namesLoop (rowData twoTables) [] = Inr [ofLatin ''a'', ofLatin ''b'']"
    using namesLoop_utf8 [of "[ofLatin ''a'', ofLatin ''b'']"] by (simp add: noZero_ofLatin del: ofLatin_simps(2))
  then obtain es where run: "reloadTables (storedApi twoTables) (ofLatin ''shop'') True [ofLatin ''old''] ()
      = Inr (([ofLatin ''a'', ofLatin ''b''], es), ())"
    by (simp add: reloadTables_def storedApi_def)
  from reload_tables_contract [OF run] have "ReloadRows \<in> set es" "PopToRoot \<notin> set es"
    by (simp_all add: storedApi_def)
  with run show ?thesis by blast
qed

text \<open>
  The list of schemas after a refresh is exactly what the server returned; creating a schema
  through the plus button leaves it as it was, the new one appears only after another refresh.
\<close>

theorem schema_list_contract:
  assumes "mysql_real_query api conn (queryBytes ''SHOW SCHEMAS;'') = (0, conn1)"
    and "mysql_store_result api conn1 = (Some rs, conn2)"
    and "rowData rs = map (\<lambda>n. [Some (utf8Text n)]) names" and "list_all noZero names"
  shows "reloadSchemas api old conn = Inr ((names, []), conn2)
    \<and> fst (fst (newSchemaClicked api button typed names conn2)) = names
    \<and> (button \<noteq> 0 \<longrightarrow> snd (newSchemaClicked api button typed names conn2)
         = snd (mysql_real_query api conn2 (queryText (ofLatin ''CREATE SCHEMA '' @ typed))))"
  using assms namesLoop_utf8 [OF assms(4)]
  by (auto simp: reloadSchemas_def newSchemaClicked_def split: prod.split)

theorem schema_list_contract_witness:
  "reloadSchemas (storedApi \<lparr>fieldNames = [''Database''], rowData = [[Some ''shop'']]\<rparr>) [] ()
     = Inr (([ofLatin ''shop''], []), ())"
proof -
  let ?rs = "\<lparr>fieldNames = [''Database''], rowData = [[Some ''shop'']]\<rparr>"
  have "rowData ?rs = map (\<lambda>n. [Some (utf8Text n)]) [ofLatin ''shop'']" "list_all noZero [ofLatin ''shop'']"
    by (simp_all add: utf8Char_def noZero_ofLatin del: utf8Text_simps(2) ofLatin_simps(2))
  from schema_list_contract [OF storedApi_calls(1,2) this] show ?thesis by blast
qed

end
