(* ===== verification/IntCodec.thy ===== *)
theory IntCodec
  imports Main "HOL-Library.Word"
begin

text \<open>
  Integers in memory, as the MySQL client headers define them: the macros of include/my_global.h for
  the low-byte-first format (the portable definitions) and those of include/myisampack.h for the
  high-byte-first one.  A pointer is a buffer of bytes and an offset; a macro that writes gives the
  new buffer.  \<open>ulonglong\<close> has 64 bits, \<open>uint\<close> and \<open>uint32\<close> have 32; \<open>ulong\<close> is taken with the
  64 bits of LP64, the results of the stores do not depend on it.
\<close>

unbundle bit_operations_syntax

type_synonym byte = "8 word"

section \<open>Low byte first: reading\<close>

definition uint2korr :: "byte list \<Rightarrow> nat \<Rightarrow> 16 word" where
  "uint2korr A p = ucast (A ! p) + push_bit 8 (ucast (A ! (p + 1)))"

definition uint3korr :: "byte list \<Rightarrow> nat \<Rightarrow> 32 word" where
  "uint3korr A p = ucast (A ! p) + push_bit 8 (ucast (A ! (p + 1))) + push_bit 16 (ucast (A ! (p + 2)))"

definition uint4korr :: "byte list \<Rightarrow> nat \<Rightarrow> 32 word" where
  "uint4korr A p =
     ucast (A ! p) + push_bit 8 (ucast (A ! (p + 1))) + push_bit 16 (ucast (A ! (p + 2)))
       + push_bit 24 (ucast (A ! (p + 3)))"

definition uint5korr :: "byte list \<Rightarrow> nat \<Rightarrow> 64 word" where
  "uint5korr A p =
     ucast (ucast (A ! p) + push_bit 8 (ucast (A ! (p + 1))) + push_bit 16 (ucast (A ! (p + 2)))
             + push_bit 24 (ucast (A ! (p + 3))) :: 32 word)
       + push_bit 32 (ucast (A ! (p + 4)))"

definition uint6korr :: "byte list \<Rightarrow> nat \<Rightarrow> 64 word" where
  "uint6korr A p =
     ucast (ucast (A ! p) + push_bit 8 (ucast (A ! (p + 1))) + push_bit 16 (ucast (A ! (p + 2)))
             + push_bit 24 (ucast (A ! (p + 3))) :: 32 word)
       + push_bit 32 (ucast (A ! (p + 4))) + push_bit 40 (ucast (A ! (p + 5)))"

definition uint8korr :: "byte list \<Rightarrow> nat \<Rightarrow> 64 word" where
  "uint8korr A p =
     ucast (ucast (A ! p) + push_bit 8 (ucast (A ! (p + 1))) + push_bit 16 (ucast (A ! (p + 2)))
             + push_bit 24 (ucast (A ! (p + 3))) :: 32 word)
       + push_bit 32 (ucast (ucast (A ! (p + 4)) + push_bit 8 (ucast (A ! (p + 5)))
             + push_bit 16 (ucast (A ! (p + 6))) + push_bit 24 (ucast (A ! (p + 7))) :: 32 word))"

text \<open>The signed readers; the result is the same word, read as a signed one.\<close>

definition sint2korr :: "byte list \<Rightarrow> nat \<Rightarrow> 16 word" where
  "sint2korr A p = ucast (A ! p) + push_bit 8 (ucast (A ! (p + 1)))"

definition sint3korr :: "byte list \<Rightarrow> nat \<Rightarrow> 32 word" where
  "sint3korr A p =
     (if A ! (p + 2) AND 128 \<noteq> 0
      then push_bit 24 255 OR push_bit 16 (ucast (A ! (p + 2))) OR push_bit 8 (ucast (A ! (p + 1)))
             OR ucast (A ! p)
      else push_bit 16 (ucast (A ! (p + 2))) OR push_bit 8 (ucast (A ! (p + 1))) OR ucast (A ! p))"

definition sint4korr :: "byte list \<Rightarrow> nat \<Rightarrow> 32 word" where
  "sint4korr A p =
     ucast (A ! p) + push_bit 8 (ucast (A ! (p + 1))) + push_bit 16 (ucast (A ! (p + 2)))
       + push_bit 24 (ucast (A ! (p + 3)))"

definition sint8korr :: "byte list \<Rightarrow> nat \<Rightarrow> 64 word" where
  "sint8korr A p = uint8korr A p"

section \<open>Low byte first: writing\<close>

definition int2store :: "byte list \<Rightarrow> nat \<Rightarrow> 32 word \<Rightarrow> byte list" where
  "int2store T p A = T[p := ucast A, p + 1 := ucast (drop_bit 8 A)]"

definition int3store :: "byte list \<Rightarrow> nat \<Rightarrow> 32 word \<Rightarrow> byte list" where
  "int3store T p A = T[p := ucast A, p + 1 := ucast (drop_bit 8 A), p + 2 := ucast (drop_bit 16 A)]"

definition int4store :: "byte list \<Rightarrow> nat \<Rightarrow> 32 word \<Rightarrow> byte list" where
  "int4store T p A =
     T[p := ucast A, p + 1 := ucast (drop_bit 8 A), p + 2 := ucast (drop_bit 16 A),
       p + 3 := ucast (drop_bit 24 A)]"

definition int5store :: "byte list \<Rightarrow> nat \<Rightarrow> 64 word \<Rightarrow> byte list" where
  "int5store T p A =
     T[p := ucast A, p + 1 := ucast (drop_bit 8 A), p + 2 := ucast (drop_bit 16 A),
       p + 3 := ucast (drop_bit 24 A), p + 4 := ucast (drop_bit 32 A)]"

definition int6store :: "byte list \<Rightarrow> nat \<Rightarrow> 64 word \<Rightarrow> byte list" where
  "int6store T p A =
     T[p := ucast A, p + 1 := ucast (drop_bit 8 A), p + 2 := ucast (drop_bit 16 A),
       p + 3 := ucast (drop_bit 24 A), p + 4 := ucast (drop_bit 32 A), p + 5 := ucast (drop_bit 40 A)]"

definition int8store :: "byte list \<Rightarrow> nat \<Rightarrow> 64 word \<Rightarrow> byte list" where
  "int8store T p A =
     (let def_temp = ucast A :: 32 word; def_temp2 = ucast (drop_bit 32 A) :: 32 word
      in int4store (int4store T p def_temp) (p + 4) def_temp2)"

section \<open>High byte first: reading\<close>

definition mi_uint1korr :: "byte list \<Rightarrow> nat \<Rightarrow> 8 word" where
  "mi_uint1korr A p = A ! p"

definition mi_sint1korr :: "byte list \<Rightarrow> nat \<Rightarrow> 8 word" where
  "mi_sint1korr A p = A ! p"

definition mi_uint2korr :: "byte list \<Rightarrow> nat \<Rightarrow> 16 word" where
  "mi_uint2korr A p = ucast (A ! (p + 1)) + push_bit 8 (ucast (A ! p))"

definition mi_uint3korr :: "byte list \<Rightarrow> nat \<Rightarrow> 32 word" where
  "mi_uint3korr A p = ucast (A ! (p + 2)) + push_bit 8 (ucast (A ! (p + 1))) + push_bit 16 (ucast (A ! p))"

definition mi_uint4korr :: "byte list \<Rightarrow> nat \<Rightarrow> 32 word" where
  "mi_uint4korr A p =
     ucast (A ! (p + 3)) + push_bit 8 (ucast (A ! (p + 2))) + push_bit 16 (ucast (A ! (p + 1)))
       + push_bit 24 (ucast (A ! p))"

definition mi_uint5korr :: "byte list \<Rightarrow> nat \<Rightarrow> 64 word" where
  "mi_uint5korr A p =
     ucast (ucast (A ! (p + 4)) + push_bit 8 (ucast (A ! (p + 3))) + push_bit 16 (ucast (A ! (p + 2)))
             + push_bit 24 (ucast (A ! (p + 1))) :: 32 word)
       + push_bit 32 (ucast (A ! p))"

definition mi_uint6korr :: "byte list \<Rightarrow> nat \<Rightarrow> 64 word" where
  "mi_uint6korr A p =
     ucast (ucast (A ! (p + 5)) + push_bit 8 (ucast (A ! (p + 4))) + push_bit 16 (ucast (A ! (p + 3)))
             + push_bit 24 (ucast (A ! (p + 2))) :: 32 word)
       + push_bit 32 (ucast (ucast (A ! (p + 1)) + push_bit 8 (ucast (A ! p)) :: 32 word))"

definition mi_uint7korr :: "byte list \<Rightarrow> nat \<Rightarrow> 64 word" where
  "mi_uint7korr A p =
     ucast (ucast (A ! (p + 6)) + push_bit 8 (ucast (A ! (p + 5))) + push_bit 16 (ucast (A ! (p + 4)))
             + push_bit 24 (ucast (A ! (p + 3))) :: 32 word)
       + push_bit 32 (ucast (ucast (A ! (p + 2)) + push_bit 8 (ucast (A ! (p + 1)))
             + push_bit 16 (ucast (A ! p)) :: 32 word))"

definition mi_uint8korr :: "byte list \<Rightarrow> nat \<Rightarrow> 64 word" where
  "mi_uint8korr A p =
     ucast (ucast (A ! (p + 7)) + push_bit 8 (ucast (A ! (p + 6))) + push_bit 16 (ucast (A ! (p + 5)))
             + push_bit 24 (ucast (A ! (p + 4))) :: 32 word)
       + push_bit 32 (ucast (ucast (A ! (p + 3)) + push_bit 8 (ucast (A ! (p + 2)))
             + push_bit 16 (ucast (A ! (p + 1))) + push_bit 24 (ucast (A ! p)) :: 32 word))"

definition mi_sint2korr :: "byte list \<Rightarrow> nat \<Rightarrow> 16 word" where
  "mi_sint2korr A p = ucast (A ! (p + 1)) + push_bit 8 (scast (A ! p))"

definition mi_sint3korr :: "byte list \<Rightarrow> nat \<Rightarrow> 32 word" where
  "mi_sint3korr A p =
     (if A ! p AND 128 \<noteq> 0
      then push_bit 24 255 OR push_bit 16 (ucast (A ! p)) OR push_bit 8 (ucast (A ! (p + 1)))
             OR ucast (A ! (p + 2))
      else push_bit 16 (ucast (A ! p)) OR push_bit 8 (ucast (A ! (p + 1))) OR ucast (A ! (p + 2)))"

definition mi_sint4korr :: "byte list \<Rightarrow> nat \<Rightarrow> 32 word" where
  "mi_sint4korr A p =
     ucast (A ! (p + 3)) + push_bit 8 (ucast (A ! (p + 2))) + push_bit 16 (ucast (A ! (p + 1)))
       + push_bit 24 (scast (scast (A ! p) :: 16 word))"

definition mi_sint8korr :: "byte list \<Rightarrow> nat \<Rightarrow> 64 word" where
  "mi_sint8korr A p = mi_uint8korr A p"

definition int4net :: "byte list \<Rightarrow> nat \<Rightarrow> 32 word" where
  "int4net A p =
     ucast (A ! (p + 3)) OR push_bit 8 (ucast (A ! (p + 2))) OR push_bit 16 (ucast (A ! (p + 1)))
       OR push_bit 24 (ucast (A ! p))"

section \<open>High byte first: writing\<close>

definition mi_int1store :: "byte list \<Rightarrow> nat \<Rightarrow> 32 word \<Rightarrow> byte list" where
  "mi_int1store T p A = T[p := ucast A]"

definition mi_int2store :: "byte list \<Rightarrow> nat \<Rightarrow> 32 word \<Rightarrow> byte list" where
  "mi_int2store T p A = T[p + 1 := ucast A, p := ucast (drop_bit 8 A)]"

definition mi_int3store :: "byte list \<Rightarrow> nat \<Rightarrow> 64 word \<Rightarrow> byte list" where
  "mi_int3store T p A = T[p + 2 := ucast A, p + 1 := ucast (drop_bit 8 A), p := ucast (drop_bit 16 A)]"

definition mi_int4store :: "byte list \<Rightarrow> nat \<Rightarrow> 64 word \<Rightarrow> byte list" where
  "mi_int4store T p A =
     T[p + 3 := ucast A, p + 2 := ucast (drop_bit 8 A), p + 1 := ucast (drop_bit 16 A),
       p := ucast (drop_bit 24 A)]"

definition mi_int5store :: "byte list \<Rightarrow> nat \<Rightarrow> 64 word \<Rightarrow> byte list" where
  "mi_int5store T p A =
     (let def_temp = A; def_temp2 = drop_bit 32 A
      in T[p + 4 := ucast def_temp, p + 3 := ucast (drop_bit 8 def_temp),
           p + 2 := ucast (drop_bit 16 def_temp), p + 1 := ucast (drop_bit 24 def_temp),
           p := ucast def_temp2])"

definition mi_int6store :: "byte list \<Rightarrow> nat \<Rightarrow> 64 word \<Rightarrow> byte list" where
  "mi_int6store T p A =
     (let def_temp = A; def_temp2 = drop_bit 32 A
      in T[p + 5 := ucast def_temp, p + 4 := ucast (drop_bit 8 def_temp),
           p + 3 := ucast (drop_bit 16 def_temp), p + 2 := ucast (drop_bit 24 def_temp),
           p + 1 := ucast def_temp2, p := ucast (drop_bit 8 def_temp2)])"

definition mi_int7store :: "byte list \<Rightarrow> nat \<Rightarrow> 64 word \<Rightarrow> byte list" where
  "mi_int7store T p A =
     (let def_temp = A; def_temp2 = drop_bit 32 A
      in T[p + 6 := ucast def_temp, p + 5 := ucast (drop_bit 8 def_temp),
           p + 4 := ucast (drop_bit 16 def_temp), p + 3 := ucast (drop_bit 24 def_temp),
           p + 2 := ucast def_temp2, p + 1 := ucast (drop_bit 8 def_temp2),
           p := ucast (drop_bit 16 def_temp2)])"

definition mi_int8store :: "byte list \<Rightarrow> nat \<Rightarrow> 64 word \<Rightarrow> byte list" where
  "mi_int8store T p A =
     (let def_temp3 = A; def_temp4 = drop_bit 32 A
      in mi_int4store (mi_int4store T p def_temp4) (p + 4) def_temp3)"

section \<open>Bytes of a number\<close>

text \<open>The number a list of bytes denotes, low byte first, and the low bytes of a word.\<close>

fun leInt :: "byte list \<Rightarrow> int" where
  "leInt [] = 0"
| "leInt (b # bs) = uint b + 256 * leInt bs"

fun leBytes :: "nat \<Rightarrow> 'a::len word \<Rightarrow> byte list" where
  "leBytes 0 A = []"
| "leBytes (Suc n) A = ucast A # leBytes n (drop_bit 8 A)"

lemma leInt_nonneg [simp]: "0 \<le> leInt bs"
  by (induction bs) simp_all

lemma leInt_less: "leInt bs < 2 ^ (8 * length bs)"
proof (induction bs)
  case (Cons b bs)
  have "uint b < 256" using uint_lt2p [of b] by simp
  moreover have "leInt bs + 1 \<le> 2 ^ (8 * length bs)" using Cons by simp
  moreover have "(2::int) ^ (8 * length (b # bs)) = 256 * 2 ^ (8 * length bs)" by (simp add: power_add)
  ultimately show ?case unfolding leInt.simps by linarith
qed simp

lemma bit_leInt: "bit (leInt bs) i = (i < 8 * length bs \<and> bit (bs ! (i div 8)) (i mod 8))"
proof (induction bs arbitrary: i)
  case (Cons b bs)
  have high: "\<not> bit b k" if "8 \<le> k" for k using that bit_imp_le_length [of b k] by auto
  have "leInt (b # bs) = uint b + push_bit 8 (leInt bs)" by (simp add: push_bit_eq_mult)
  also have "\<dots> = (uint b OR push_bit 8 (leInt bs))"
    by (rule disjunctive_add) (auto simp: bit_simps high)
  finally have e: "bit (leInt (b # bs)) i = (bit b i \<or> 8 \<le> i \<and> bit (leInt bs) (i - 8))"
    by (simp add: bit_simps)
  show ?case
  proof (cases "i < 8")
    case False
    then have "(i - 8) div 8 = i div 8 - 1" "(i - 8) mod 8 = i mod 8" "0 < i div 8" "i - 8 < 8 * length bs \<longleftrightarrow> i < 8 * length (b # bs)"
      by (auto simp: le_mod_geq le_div_geq)
    with False e Cons.IH high show ?thesis by (simp add: nth_Cons')
  qed (use e in simp)
qed simp

lemma length_leBytes [simp]: "length (leBytes n A) = n"
  by (induction n arbitrary: A) simp_all

lemma take_bit_split: "take_bit (8 + n) (x::int) = take_bit 8 x + 256 * take_bit n (x div 256)"
proof -
  have "take_bit (8 + n) x = x mod (256 * 2 ^ n)" by (simp add: take_bit_eq_mod power_add)
  also have "\<dots> = 256 * (x div 256 mod 2 ^ n) + x mod 256" by (rule zmod_zmult2_eq) simp
  finally show ?thesis by (simp add: take_bit_eq_mod)
qed

lemma leInt_leBytes: "leInt (leBytes n A) = take_bit (8 * n) (uint A)"
proof (induction n arbitrary: A)
  case (Suc n)
  have "uint (drop_bit 8 A) = uint A div 256" by (simp add: unsigned_drop_bit_eq drop_bit_eq_div [where ?'a = int] take_bit_int_eq_self)
  then show ?case
    using take_bit_split [of "8 * n" "uint A"] Suc.IH [of "drop_bit 8 A"]
    by (simp add: unsigned_ucast_eq)
qed simp


section \<open>The contract of a codec\<close>

text \<open>
  What a pair of macros for integers of \<open>size\<close> bytes promises: a store changes only its own bytes,
  a read looks only at its own bytes, and a read of what was stored gives the low bytes of the number.
\<close>

locale int_codec =
  fixes store :: "byte list \<Rightarrow> nat \<Rightarrow> 'a::len word \<Rightarrow> byte list"
    and korr :: "byte list \<Rightarrow> nat \<Rightarrow> 'b::len word"
    and size :: nat
  assumes length_store: "length (store T p A) = length T"
    and store_outside: "j < p \<or> p + size \<le> j \<Longrightarrow> store T p A ! j = T ! j"
    and korr_store: "p + size \<le> length T \<Longrightarrow> korr (store T p A) p = ucast (take_bit (8 * size) A)"
    and korr_local: "(\<And>i. i < size \<Longrightarrow> T ! (p + i) = U ! (p + i)) \<Longrightarrow> korr T p = korr U p"
begin

lemma korr_store_other: "q + size \<le> p \<or> p + size \<le> q \<Longrightarrow> korr (store T p A) q = korr T q"
  by (rule korr_local) (auto intro: store_outside)

text \<open>A row of numbers, one after the other.\<close>

fun store_all :: "byte list \<Rightarrow> nat \<Rightarrow> 'a word list \<Rightarrow> byte list" where
  "store_all T p [] = T"
| "store_all T p (A # As) = store_all (store T p A) (p + size) As"

fun korr_all :: "byte list \<Rightarrow> nat \<Rightarrow> nat \<Rightarrow> 'b word list" where
  "korr_all T p 0 = []"
| "korr_all T p (Suc n) = korr T p # korr_all T (p + size) n"

lemma length_store_all: "length (store_all T p As) = length T"
  by (induction As arbitrary: T p) (simp_all add: length_store)

lemma store_all_before: "q + size \<le> p \<Longrightarrow> korr (store_all T p As) q = korr T q"
  by (induction As arbitrary: T p) (simp_all add: korr_store_other)

lemma korr_all_store_all:
  "p + size * length As \<le> length T
     \<Longrightarrow> korr_all (store_all T p As) p (length As) = map (\<lambda>A. ucast (take_bit (8 * size) A)) As"
proof (induction As arbitrary: T p)
  case (Cons A As)
  then show ?case
    using Cons.IH [of "p + size" "store T p A"]
    by (simp add: store_all_before korr_store length_store algebra_simps)
qed simp

end

section \<open>The low-byte-first macros keep the contract\<close>

lemma ucast_leInt:
  assumes "length bs \<le> 4"
  shows "(ucast (word_of_int (leInt bs) :: 32 word) :: 64 word) = word_of_int (leInt bs)"
proof -
  have "leInt bs < 2 ^ (8 * length bs)" by (rule leInt_less)
  also have "(2::int) ^ (8 * length bs) \<le> 2 ^ 32" using assms by (intro power_increasing) simp_all
  finally have "take_bit 32 (leInt bs) = leInt bs" by (simp add: take_bit_int_eq_self)
  then show ?thesis by (simp add: unsigned_of_int)
qed

lemma uint_korr_leInt:
  "uint2korr A p = word_of_int (leInt [A ! p, A ! (p + 1)])"
  "uint3korr A p = word_of_int (leInt [A ! p, A ! (p + 1), A ! (p + 2)])"
  "uint4korr A p = word_of_int (leInt [A ! p, A ! (p + 1), A ! (p + 2), A ! (p + 3)])"
  by (simp_all add: uint2korr_def uint3korr_def uint4korr_def push_bit_eq_mult algebra_simps)


lemma word_leInt_4:
  "(ucast (ucast a + push_bit 8 (ucast b) + push_bit 16 (ucast c) + push_bit 24 (ucast d) :: 32 word) :: 64 word)
     = word_of_int (leInt [a, b, c, d])"
proof -
  have "(ucast a + push_bit 8 (ucast b) + push_bit 16 (ucast c) + push_bit 24 (ucast d) :: 32 word)
      = word_of_int (leInt [a, b, c, d])"
    by (simp add: push_bit_eq_mult algebra_simps)
  then show ?thesis by (simp only:) (rule ucast_leInt, simp)
qed

lemma word_leInt_3:
  "(ucast (ucast a + push_bit 8 (ucast b) + push_bit 16 (ucast c) :: 32 word) :: 64 word)
     = word_of_int (leInt [a, b, c])"
proof -
  have "(ucast a + push_bit 8 (ucast b) + push_bit 16 (ucast c) :: 32 word) = word_of_int (leInt [a, b, c])"
    by (simp add: push_bit_eq_mult algebra_simps)
  then show ?thesis by (simp only:) (rule ucast_leInt, simp)
qed

lemma word_leInt_2:
  "(ucast (ucast a + push_bit 8 (ucast b) :: 32 word) :: 64 word) = word_of_int (leInt [a, b])"
proof -
  have "(ucast a + push_bit 8 (ucast b) :: 32 word) = word_of_int (leInt [a, b])"
    by (simp add: push_bit_eq_mult algebra_simps)
  then show ?thesis by (simp only:) (rule ucast_leInt, simp)
qed

lemma uint_korr64_leInt:
  "uint5korr A p = word_of_int (leInt [A ! p, A ! (p + 1), A ! (p + 2), A ! (p + 3), A ! (p + 4)])"
  "uint6korr A p = word_of_int (leInt [A ! p, A ! (p + 1), A ! (p + 2), A ! (p + 3), A ! (p + 4), A ! (p + 5)])"
  "uint8korr A p = word_of_int (leInt [A ! p, A ! (p + 1), A ! (p + 2), A ! (p + 3), A ! (p + 4), A ! (p + 5),
                                       A ! (p + 6), A ! (p + 7)])"
  by (simp_all only: uint5korr_def uint6korr_def uint8korr_def word_leInt_4)
    (simp_all add: push_bit_eq_mult algebra_simps)

lemma mi_uint_korr_leInt:
  "mi_uint2korr A p = word_of_int (leInt [A ! (p + 1), A ! p])"
  "mi_uint3korr A p = word_of_int (leInt [A ! (p + 2), A ! (p + 1), A ! p])"
  "mi_uint4korr A p = word_of_int (leInt [A ! (p + 3), A ! (p + 2), A ! (p + 1), A ! p])"
  "mi_uint5korr A p = word_of_int (leInt [A ! (p + 4), A ! (p + 3), A ! (p + 2), A ! (p + 1), A ! p])"
  "mi_uint6korr A p = word_of_int (leInt [A ! (p + 5), A ! (p + 4), A ! (p + 3), A ! (p + 2), A ! (p + 1), A ! p])"
  "mi_uint7korr A p = word_of_int (leInt [A ! (p + 6), A ! (p + 5), A ! (p + 4), A ! (p + 3), A ! (p + 2),
                                          A ! (p + 1), A ! p])"
  "mi_uint8korr A p = word_of_int (leInt [A ! (p + 7), A ! (p + 6), A ! (p + 5), A ! (p + 4), A ! (p + 3),
                                          A ! (p + 2), A ! (p + 1), A ! p])"
  by (simp_all only: mi_uint2korr_def mi_uint3korr_def mi_uint4korr_def mi_uint5korr_def mi_uint6korr_def
        mi_uint7korr_def mi_uint8korr_def word_leInt_4 word_leInt_3 word_leInt_2)
    (simp_all add: push_bit_eq_mult algebra_simps)

text \<open>The bytes a store leaves, in the order of the format.\<close>

lemma leBytes_numeral:
  "leBytes 2 A = [ucast A, ucast (drop_bit 8 A)]"
  "leBytes 3 A = [ucast A, ucast (drop_bit 8 A), ucast (drop_bit 16 A)]"
  "leBytes 4 A = [ucast A, ucast (drop_bit 8 A), ucast (drop_bit 16 A), ucast (drop_bit 24 A)]"
  "leBytes 5 A = [ucast A, ucast (drop_bit 8 A), ucast (drop_bit 16 A), ucast (drop_bit 24 A), ucast (drop_bit 32 A)]"
  "leBytes 6 A = [ucast A, ucast (drop_bit 8 A), ucast (drop_bit 16 A), ucast (drop_bit 24 A), ucast (drop_bit 32 A),
                  ucast (drop_bit 40 A)]"
  "leBytes 7 A = [ucast A, ucast (drop_bit 8 A), ucast (drop_bit 16 A), ucast (drop_bit 24 A), ucast (drop_bit 32 A),
                  ucast (drop_bit 40 A), ucast (drop_bit 48 A)]"
  "leBytes 8 A = [ucast A, ucast (drop_bit 8 A), ucast (drop_bit 16 A), ucast (drop_bit 24 A), ucast (drop_bit 32 A),
                  ucast (drop_bit 40 A), ucast (drop_bit 48 A), ucast (drop_bit 56 A)]"
  by (simp_all add: numeral_eq_Suc drop_bit_drop_bit)

lemma of_leInt_leBytes: "(word_of_int (leInt (leBytes n A)) :: 'b::len word) = ucast (take_bit (8 * n) A)"
  by (simp add: leInt_leBytes flip: unsigned_take_bit_eq)

text \<open>The \<open>n\<close> bytes at an offset.\<close>

definition block :: "byte list \<Rightarrow> nat \<Rightarrow> nat \<Rightarrow> byte list" where
  "block A p n = map (\<lambda>i. A ! (p + i)) [0..<n]"

lemma block_numeral:
  "block A p 2 = [A ! p, A ! (p + 1)]"
  "block A p 3 = [A ! p, A ! (p + 1), A ! (p + 2)]"
  "block A p 4 = [A ! p, A ! (p + 1), A ! (p + 2), A ! (p + 3)]"
  "block A p 5 = [A ! p, A ! (p + 1), A ! (p + 2), A ! (p + 3), A ! (p + 4)]"
  "block A p 6 = [A ! p, A ! (p + 1), A ! (p + 2), A ! (p + 3), A ! (p + 4), A ! (p + 5)]"
  "block A p 7 = [A ! p, A ! (p + 1), A ! (p + 2), A ! (p + 3), A ! (p + 4), A ! (p + 5), A ! (p + 6)]"
  "block A p 8 = [A ! p, A ! (p + 1), A ! (p + 2), A ! (p + 3), A ! (p + 4), A ! (p + 5), A ! (p + 6), A ! (p + 7)]"
  by (simp_all add: block_def numeral_eq_Suc)

lemma block_cong: "(\<And>i. i < n \<Longrightarrow> T ! (p + i) = U ! (p + i)) \<Longrightarrow> block T p n = block U p n"
  by (simp add: block_def)

lemma int_codecI:
  assumes "\<And>T p A. length (store T p A) = length T"
    and "\<And>T p A j. j < p \<or> p + n \<le> j \<Longrightarrow> store T p A ! j = T ! j"
    and stored: "\<And>T p A. p + n \<le> length T \<Longrightarrow> ord (block (store T p A) p n) = leBytes n A"
    and read: "\<And>T p. korr T p = word_of_int (leInt (ord (block T p n)))"
  shows "int_codec store korr n"
proof (unfold_locales, goal_cases)
  case (3 p T A)
  then show ?case by (simp only: read stored of_leInt_leBytes)
next
  case (4 T p U)
  then have "block T p n = block U p n" by (rule block_cong)
  then show ?case by (simp only: read)
qed (simp_all add: assms)

lemmas korr_block = uint_korr_leInt uint_korr64_leInt mi_uint_korr_leInt block_numeral leBytes_numeral
lemmas stores = int2store_def int3store_def int4store_def int5store_def int6store_def
lemmas mi_stores = mi_int2store_def mi_int3store_def mi_int4store_def mi_int5store_def mi_int6store_def
  mi_int7store_def

lemma int8store_flat:
  "int8store T p A =
     T[p := ucast A, p + 1 := ucast (drop_bit 8 A), p + 2 := ucast (drop_bit 16 A),
       p + 3 := ucast (drop_bit 24 A), p + 4 := ucast (drop_bit 32 A), p + 5 := ucast (drop_bit 40 A),
       p + 6 := ucast (drop_bit 48 A), p + 7 := ucast (drop_bit 56 A)]"
proof -
  have "(ucast (drop_bit n (ucast B :: 32 word)) :: byte) = ucast (drop_bit n B)" if "n \<le> 24" for n and B :: "64 word"
    by (rule bit_word_eqI) (use that in \<open>auto simp: bit_simps\<close>)
  from this [of 0] this show ?thesis by (simp add: int8store_def int4store_def add.commute [of _ p])
qed

lemma mi_int8store_flat:
  "mi_int8store T p A =
     T[p + 3 := ucast (drop_bit 32 A), p + 2 := ucast (drop_bit 40 A), p + 1 := ucast (drop_bit 48 A),
       p := ucast (drop_bit 56 A), p + 7 := ucast A, p + 6 := ucast (drop_bit 8 A),
       p + 5 := ucast (drop_bit 16 A), p + 4 := ucast (drop_bit 24 A)]"
  by (simp add: mi_int8store_def mi_int4store_def add.commute [of _ p])

interpretation le2: int_codec int2store uint2korr 2
  by (rule int_codecI [where ord = "\<lambda>b. b"]) (auto simp: korr_block stores)
interpretation le3: int_codec int3store uint3korr 3
  by (rule int_codecI [where ord = "\<lambda>b. b"]) (auto simp: korr_block stores)
interpretation le4: int_codec int4store uint4korr 4
  by (rule int_codecI [where ord = "\<lambda>b. b"]) (auto simp: korr_block stores)
interpretation le5: int_codec int5store uint5korr 5
  by (rule int_codecI [where ord = "\<lambda>b. b"]) (auto simp: korr_block stores)
interpretation le6: int_codec int6store uint6korr 6
  by (rule int_codecI [where ord = "\<lambda>b. b"]) (auto simp: korr_block stores)
interpretation le8: int_codec int8store uint8korr 8
  by (rule int_codecI [where ord = "\<lambda>b. b"]) (auto simp: korr_block int8store_flat)

interpretation be2: int_codec mi_int2store mi_uint2korr 2
  by (rule int_codecI [where ord = rev]) (auto simp: korr_block mi_stores)
interpretation be3: int_codec mi_int3store mi_uint3korr 3
  by (rule int_codecI [where ord = rev]) (auto simp: korr_block mi_stores)
interpretation be4: int_codec mi_int4store mi_uint4korr 4
  by (rule int_codecI [where ord = rev]) (auto simp: korr_block mi_stores)
interpretation be5: int_codec mi_int5store mi_uint5korr 5
  by (rule int_codecI [where ord = rev]) (auto simp: korr_block mi_stores Let_def)
interpretation be6: int_codec mi_int6store mi_uint6korr 6
  by (rule int_codecI [where ord = rev]) (auto simp: korr_block mi_stores Let_def)
interpretation be7: int_codec mi_int7store mi_uint7korr 7
  by (rule int_codecI [where ord = rev]) (auto simp: korr_block mi_stores Let_def)
interpretation be8: int_codec mi_int8store mi_uint8korr 8
  by (rule int_codecI [where ord = rev]) (auto simp: korr_block mi_int8store_flat)

lemma block_rev: "p + n \<le> length A \<Longrightarrow> block (rev A) (length A - p - n) n = rev (block A p n)"
  by (rule nth_equalityI) (auto simp: block_def rev_nth intro!: arg_cong [where f = "(!) A"])

lemma block_revs:
  assumes "p + 8 \<le> length A"
  shows "block (rev A) (length A - p - 2) 2 = rev (block A p 2)"
    and "block (rev A) (length A - p - 3) 3 = rev (block A p 3)"
    and "block (rev A) (length A - p - 4) 4 = rev (block A p 4)"
    and "block (rev A) (length A - p - 5) 5 = rev (block A p 5)"
    and "block (rev A) (length A - p - 6) 6 = rev (block A p 6)"
    and "block (rev A) (length A - p - 8) 8 = rev (block A p 8)"
  by (rule block_rev, use assms in simp)+

lemma korr_as_block:
  "uint2korr A p = word_of_int (leInt (block A p 2))" "uint3korr A p = word_of_int (leInt (block A p 3))"
  "uint4korr A p = word_of_int (leInt (block A p 4))" "uint5korr A p = word_of_int (leInt (block A p 5))"
  "uint6korr A p = word_of_int (leInt (block A p 6))" "uint8korr A p = word_of_int (leInt (block A p 8))"
  "mi_uint2korr A p = word_of_int (leInt (rev (block A p 2)))"
  "mi_uint3korr A p = word_of_int (leInt (rev (block A p 3)))"
  "mi_uint4korr A p = word_of_int (leInt (rev (block A p 4)))"
  "mi_uint5korr A p = word_of_int (leInt (rev (block A p 5)))"
  "mi_uint6korr A p = word_of_int (leInt (rev (block A p 6)))"
  "mi_uint8korr A p = word_of_int (leInt (rev (block A p 8)))"
  by (simp_all only: uint_korr_leInt uint_korr64_leInt mi_uint_korr_leInt block_numeral rev.simps append.simps)

section \<open>Properties\<close>

lemma ucast_take_bit_low:
  "LENGTH('b::len) \<le> n \<Longrightarrow> (ucast (take_bit n A) :: 'b word) = ucast A"
  by (rule bit_word_eqI) (auto simp: bit_simps)

text \<open>C12. What a low-byte-first store macro of my_global.h writes, the read macro of the same size
  reads back: the whole number when it has 2, 4 or 8 bytes and its low 24, 40 and 48 bits otherwise.\<close>
theorem korr_store_roundtrip:
  assumes "p + 8 \<le> length T"
  shows "(uint2korr (int2store T p a) p = ucast a)
    \<and> (uint3korr (int3store T p a) p = take_bit 24 a)
    \<and> (uint4korr (int4store T p a) p = a)
    \<and> (uint5korr (int5store T p b) p = take_bit 40 b)
    \<and> (uint6korr (int6store T p b) p = take_bit 48 b)
    \<and> (uint8korr (int8store T p b) p = b)"
  using assms
  by (simp_all add: le2.korr_store le3.korr_store le4.korr_store le5.korr_store le6.korr_store le8.korr_store
        ucast_take_bit_low take_bit_word_eq_self)

theorem korr_store_roundtrip_witness:
  "uint6korr (int6store (replicate 9 7) 1 123456789012) 1 = take_bit 48 123456789012"
  using korr_store_roundtrip [of 1 "replicate 9 7" 0 123456789012] by simp

text \<open>The two formats agree up to the order of the bytes: a high-byte-first read of myisampack.h
  is the low-byte-first read of the reversed buffer, whenever the number lies inside it.\<close>
theorem mi_korr_is_korr_reversed:
  assumes "p + 8 \<le> length A"
  shows "(mi_uint2korr A p = uint2korr (rev A) (length A - p - 2))
    \<and> (mi_uint3korr A p = uint3korr (rev A) (length A - p - 3))
    \<and> (mi_uint4korr A p = uint4korr (rev A) (length A - p - 4))
    \<and> (mi_uint5korr A p = uint5korr (rev A) (length A - p - 5))
    \<and> (mi_uint6korr A p = uint6korr (rev A) (length A - p - 6))
    \<and> (mi_uint8korr A p = uint8korr (rev A) (length A - p - 8))"
  by (simp only: korr_as_block block_revs [OF assms] simp_thms)

theorem mi_korr_is_korr_reversed_witness:
  "mi_uint3korr [1, 2, 3, 4, 5, 6, 7, 8] 0 = uint3korr (rev [1, 2, 3, 4, 5, 6, 7, 8]) (length [1, 2, 3, 4, 5, 6, 7, 8 :: byte] - 0 - 3)"
  using mi_korr_is_korr_reversed [of 0 "[1, 2, 3, 4, 5, 6, 7, 8]"] by simp

lemma three_bytes_extend:
  "(if c AND 128 \<noteq> 0 then push_bit 24 255 OR push_bit 16 (ucast c) OR push_bit 8 (ucast b) OR ucast a
    else push_bit 16 (ucast c) OR push_bit 8 (ucast b) OR ucast a)
   = signed_take_bit 23 (ucast a + push_bit 8 (ucast b) + push_bit 16 (ucast c) :: 32 word)"
  for a b c :: byte
proof -
  have bit7: "(c AND 128 \<noteq> 0) = bit c 7" by (simp add: bit_iff_and_push_bit_not_eq_0)
  have high: "\<not> bit x k" if "8 \<le> k" for x :: byte and k
    using that bit_imp_le_length [of x k] by auto
  have ff: "push_bit 24 (255 :: 32 word) = push_bit 24 (mask 8)" by (simp add: mask_eq_exp_minus_1)
  have 1: "ucast a + push_bit 8 (ucast b) = (ucast a OR push_bit 8 (ucast b) :: 32 word)"
    by (rule disjunctive_add) (auto simp: bit_simps dest!: bit_imp_le_length)
  have "ucast a + push_bit 8 (ucast b) + push_bit 16 (ucast c)
      = (ucast a OR push_bit 8 (ucast b) OR push_bit 16 (ucast c) :: 32 word)"
    unfolding 1 or.assoc [symmetric] by (rule disjunctive_add) (auto simp: bit_simps dest!: bit_imp_le_length)
  then show ?thesis unfolding bit7 ff
  proof (simp only:, intro bit_word_eqI)
    fix n assume "n < LENGTH(32)"
    then have n: "n < 32" by simp
    consider "n < 8" | "8 \<le> n" "n < 16" | "16 \<le> n" "n < 23" | "n = 23" | "24 \<le> n" "n - 24 < 8"
      using n by linarith
    then show "bit (if bit c 7 then push_bit 24 (mask 8) OR push_bit 16 (ucast c) OR push_bit 8 (ucast b) OR ucast a
          else push_bit 16 (ucast c) OR push_bit 8 (ucast b) OR ucast a :: 32 word) n
        = bit (signed_take_bit 23 (ucast a OR push_bit 8 (ucast b) OR push_bit 16 (ucast c) :: 32 word)) n"
      by cases (use n in \<open>simp_all add: bit_simps min_def high\<close>)
  qed
qed

lemma sint3korr_extends: "sint3korr A p = signed_take_bit 23 (uint3korr A p)"
  unfolding sint3korr_def uint3korr_def by (rule three_bytes_extend)

lemma mi_sint3korr_extends: "mi_sint3korr A p = signed_take_bit 23 (mi_uint3korr A p)"
  unfolding mi_sint3korr_def mi_uint3korr_def by (rule three_bytes_extend)

lemma ucast_take_bit_24:
  "signed_take_bit 23 (ucast (take_bit 24 A) :: 32 word) = signed_take_bit 23 (ucast A)"
  "signed_take_bit 23 (take_bit 24 B :: 32 word) = signed_take_bit 23 B"
  by (rule bit_word_eqI; auto simp: bit_simps min_def)+

text \<open>A three byte number is read back with its sign: in both formats the signed read of a stored
  number is its low 24 bits extended by bit 23, so every number of 24 signed bits survives.\<close>
theorem sint3korr_keeps_sign:
  assumes "p + 3 \<le> length T"
  shows "(sint3korr (int3store T p a) p = signed_take_bit 23 a)
    \<and> (mi_sint3korr (mi_int3store T p b) p = signed_take_bit 23 (ucast b))"
  using assms by (simp_all add: sint3korr_extends mi_sint3korr_extends le3.korr_store be3.korr_store ucast_take_bit_24)

theorem sint3korr_keeps_sign_witness:
  "sint3korr (int3store [0, 0, 0] 0 (- 5)) 0 = - 5 \<and> mi_sint3korr (mi_int3store [0, 0, 0] 0 (- 5)) 0 = - 5"
  using sint3korr_keeps_sign [of 0 "[0, 0, 0]" "- 5" "- 5"] by simp

end
