(* ===== verification/BitOps.thy ===== *)
theory BitOps
  imports IntCodec "HOL-Library.Word"
begin

text \<open>
  Bit manipulation: the inline functions of include/my_bit.h.  The tables \<open>_my_bits_nbits\<close> and
  \<open>_my_bits_reverse_table\<close> are declared there and defined elsewhere: they are parameters, and the
  properties that need their contents name it.
\<close>

unbundle bit_operations_syntax

section \<open>my_bit.h\<close>

text \<open>The loop halves the number until it is at most one and counts the halvings.\<close>

lemma unat_drop_bit_1: "unat (drop_bit 1 (v :: 'a::len word)) = unat v div 2"
  by (simp add: unsigned_drop_bit_eq drop_bit_eq_div [where ?'a = nat] take_bit_nat_eq_self)

function my_bit_log2_loop :: "32 word \<Rightarrow> 64 word \<Rightarrow> 32 word" where
  "my_bit_log2_loop n v = (if v > 1 then my_bit_log2_loop (n + 1) (drop_bit 1 v) else n)"
  by pat_completeness auto
termination
  by (relation "measure (\<lambda>(n, v). unat v)")
    (auto simp: unat_drop_bit_1 word_less_nat_alt simp del: One_nat_def)

declare my_bit_log2_loop.simps [simp del]

definition my_bit_log2 :: "64 word \<Rightarrow> 32 word" where
  "my_bit_log2 v = my_bit_log2_loop 0 v"

definition my_count_bits :: "(byte \<Rightarrow> byte) \<Rightarrow> 64 word \<Rightarrow> 32 word" where
  "my_count_bits nbits v =
     (let v2 = drop_bit 32 v
      in ucast (nbits (ucast v) + nbits (ucast (drop_bit 8 v)) + nbits (ucast (drop_bit 16 v))
             + nbits (ucast (drop_bit 24 v)) + nbits (ucast v2) + nbits (ucast (drop_bit 8 v2))
             + nbits (ucast (drop_bit 16 v2)) + nbits (ucast (drop_bit 24 v2))))"

text \<open>The table has 256 entries; an index past them is no result.\<close>

definition my_count_bits_ushort :: "(byte \<Rightarrow> byte) \<Rightarrow> 16 word \<Rightarrow> 32 word option" where
  "my_count_bits_ushort nbits v = (if v < 256 then Some (ucast (nbits (ucast v))) else None)"

definition my_round_up_to_next_power :: "32 word \<Rightarrow> 32 word" where
  "my_round_up_to_next_power v =
     (let v = v - 1;
          v = v OR drop_bit 1 v;
          v = v OR drop_bit 2 v;
          v = v OR drop_bit 4 v;
          v = v OR drop_bit 8 v;
          v = v OR drop_bit 16 v
      in v + 1)"

definition my_clear_highest_bit :: "32 word \<Rightarrow> 32 word" where
  "my_clear_highest_bit v =
     (let w = drop_bit 1 v;
          w = w OR drop_bit 1 w;
          w = w OR drop_bit 2 w;
          w = w OR drop_bit 4 w;
          w = w OR drop_bit 8 w;
          w = w OR drop_bit 16 w
      in v AND w)"

definition my_reverse_bits :: "(byte \<Rightarrow> byte) \<Rightarrow> 32 word \<Rightarrow> 32 word" where
  "my_reverse_bits table key =
     push_bit 24 (ucast (table (ucast (key AND 255))))
       OR push_bit 16 (ucast (table (ucast (drop_bit 8 key AND 255))))
       OR push_bit 8 (ucast (table (ucast (drop_bit 16 key AND 255))))
       OR ucast (table (ucast (drop_bit 24 key)))"

section \<open>The highest bit\<close>

lemma bit_as_odd: "bit v k = odd (unat v div 2 ^ k)" for v :: "'a::len word"
  by (simp add: bit_iff_odd [of "unat v", symmetric] bit_unsigned_iff)

lemma unat_bounds_highest:
  fixes v :: "'a::len word"
  assumes "2 ^ k \<le> unat v" and "unat v < 2 ^ Suc k"
  shows "bit v k" and "k < j \<Longrightarrow> \<not> bit v j"
proof -
  have "unat v div 2 ^ k = 1" using assms by (intro div_nat_eqI) simp_all
  then show "bit v k" by (simp add: bit_as_odd)
  assume "k < j"
  then have "(2::nat) ^ Suc k \<le> 2 ^ j" by (intro power_increasing) simp_all
  with assms have "unat v div 2 ^ j = 0" by simp
  then show "\<not> bit v j" by (simp add: bit_as_odd)
qed

lemma highest_exists:
  fixes v :: "'a::len word"
  assumes "v \<noteq> 0"
  obtains k where "k < LENGTH('a)" "2 ^ k \<le> unat v" "unat v < 2 ^ Suc k"
proof -
  have "1 \<le> unat v" using assms by (simp add: Suc_leI unat_gt_0)
  then obtain k where k: "2 ^ k \<le> unat v" "unat v < 2 ^ (k + 1)" using ex_power_ivl1 [of 2 "unat v"] by auto
  moreover have "k < LENGTH('a)" using unat_bounds_highest(1) [of k v] k bit_imp_le_length by auto
  ultimately show thesis using that [of k] by simp
qed

lemma my_bit_log2_loop_floor:
  "v \<noteq> 0 \<Longrightarrow> \<exists>k < 64. my_bit_log2_loop n v = n + of_nat k \<and> 2 ^ k \<le> unat v \<and> unat v < 2 ^ Suc k"
proof (induction n v rule: my_bit_log2_loop.induct)
  case (1 n v)
  show ?case
  proof (cases "v > 1")
    case True
    then have two: "2 \<le> unat v" by (simp add: word_less_nat_alt)
    have half: "unat (drop_bit 1 v) = unat v div 2" by (rule unat_drop_bit_1)
    with two have "drop_bit 1 v \<noteq> 0" by (auto simp: unat_eq_zero)
    then obtain k where k: "my_bit_log2_loop (n + 1) (drop_bit 1 v) = n + 1 + of_nat k"
      "2 ^ k \<le> unat v div 2" "unat v div 2 < 2 ^ Suc k" using 1 True half by metis
    then have lo: "2 ^ Suc k \<le> unat v" and hi: "unat v < 2 ^ Suc (Suc k)" by simp_all
    moreover have "Suc k < 64" using unat_bounds_highest(1) [OF lo hi] bit_imp_le_length [of v "Suc k"] by simp
    moreover have "my_bit_log2_loop n v = n + of_nat (Suc k)"
      using k True by (subst my_bit_log2_loop.simps) (simp add: algebra_simps)
    ultimately show ?thesis by blast
  next
    case False
    then have "unat v \<le> 1" by (simp add: word_less_nat_alt)
    moreover have "unat v \<noteq> 0" using 1(2) by (simp add: unat_eq_zero)
    ultimately have "unat v = 1" by linarith
    then have "v = 1" by (metis unat_1 word_unat_eq_iff)
    then show ?thesis by (subst my_bit_log2_loop.simps) (auto intro!: exI [of _ 0])
  qed
qed

section \<open>Smearing the highest bit downwards\<close>

definition smear :: "32 word \<Rightarrow> 32 word" where
  "smear v =
     (let v = v OR drop_bit 1 v; v = v OR drop_bit 2 v; v = v OR drop_bit 4 v; v = v OR drop_bit 8 v
      in v OR drop_bit 16 v)"

lemma smear_step:
  assumes "\<And>i. bit w' i = (\<exists>j. i \<le> j \<and> j < i + m \<and> bit w j)" and "d = 2 * m"
  shows "bit (w' OR drop_bit m w') i = (\<exists>j. i \<le> j \<and> j < i + d \<and> bit w j)"
proof -
  have "bit (w' OR drop_bit m w') i \<longleftrightarrow>
      (\<exists>j. i \<le> j \<and> j < i + m \<and> bit w j) \<or> (\<exists>j. i + m \<le> j \<and> j < i + m + m \<and> bit w j)"
    by (simp add: bit_or_iff bit_drop_bit_eq assms(1) add.commute)
  also have "\<dots> \<longleftrightarrow> (\<exists>j. i \<le> j \<and> j < i + 2 * m \<and> bit w j)"
  proof (intro iffI)
    assume "\<exists>j. i \<le> j \<and> j < i + 2 * m \<and> bit w j"
    then obtain j where "i \<le> j" "j < i + 2 * m" "bit w j" by blast
    then show "(\<exists>j. i \<le> j \<and> j < i + m \<and> bit w j) \<or> (\<exists>j. i + m \<le> j \<and> j < i + m + m \<and> bit w j)"
      by (cases "j < i + m") auto
  next
    assume "(\<exists>j. i \<le> j \<and> j < i + m \<and> bit w j) \<or> (\<exists>j. i + m \<le> j \<and> j < i + m + m \<and> bit w j)"
    then show "\<exists>j. i \<le> j \<and> j < i + 2 * m \<and> bit w j"
    proof (elim disjE exE conjE)
      fix j assume "i \<le> j" "j < i + m" "bit w j"
      then show ?thesis by (intro exI [of _ j]) simp
    next
      fix j assume "i + m \<le> j" "j < i + m + m" "bit w j"
      then show ?thesis by (intro exI [of _ j]) simp
    qed
  qed
  finally show ?thesis by (simp only: assms(2))
qed

lemma bit_smear: "bit (smear w) i = (\<exists>j\<ge>i. bit w j)"
proof -
  let ?w1 = "w OR drop_bit 1 w" let ?w2 = "?w1 OR drop_bit 2 ?w1" let ?w3 = "?w2 OR drop_bit 4 ?w2"
  let ?w4 = "?w3 OR drop_bit 8 ?w3"
  have 0: "bit w i = (\<exists>j. i \<le> j \<and> j < i + 1 \<and> bit w j)" for i
    by (metis Suc_eq_plus1 le_antisym less_Suc_eq_le order_refl)
  have 1: "bit ?w1 i = (\<exists>j. i \<le> j \<and> j < i + 2 \<and> bit w j)" for i
    by (rule smear_step [OF 0]) simp
  have 2: "bit ?w2 i = (\<exists>j. i \<le> j \<and> j < i + 4 \<and> bit w j)" for i
    by (rule smear_step [OF 1]) simp
  have 3: "bit ?w3 i = (\<exists>j. i \<le> j \<and> j < i + 8 \<and> bit w j)" for i
    by (rule smear_step [OF 2]) simp
  have 4: "bit ?w4 i = (\<exists>j. i \<le> j \<and> j < i + 16 \<and> bit w j)" for i
    by (rule smear_step [OF 3]) simp
  have "bit (?w4 OR drop_bit 16 ?w4) i = (\<exists>j. i \<le> j \<and> j < i + 32 \<and> bit w j)"
    by (rule smear_step [OF 4]) simp
  then have "bit (smear w) i = (\<exists>j. i \<le> j \<and> j < i + 32 \<and> bit w j)"
    by (simp only: smear_def Let_def)
  moreover have "j < i + 32" if "bit w j" for j using bit_imp_le_length [OF that] by simp
  ultimately show ?thesis by auto
qed

lemma smear_mask:
  assumes "2 ^ k \<le> unat v" and "unat v < 2 ^ Suc k"
  shows "smear v = mask (Suc k)"
proof (rule bit_word_eqI)
  fix n assume "n < LENGTH(32)"
  then show "bit (smear v) n = bit (mask (Suc k) :: 32 word) n"
  proof (simp only: bit_smear bit_mask_iff, intro iffI conjI)
    assume "\<exists>j\<ge>n. bit v j"
    then obtain j where "n \<le> j" "bit v j" by blast
    then show "n < Suc k" using unat_bounds_highest(2) [OF assms, of j] by (cases "k < j") auto
  qed (use unat_bounds_highest(1) [OF assms] \<open>n < LENGTH(32)\<close> in \<open>auto simp: less_Suc_eq_le\<close>)
qed

lemma round_up_smear: "my_round_up_to_next_power v = smear (v - 1) + 1"
  by (simp add: my_round_up_to_next_power_def smear_def Let_def)

lemma clear_highest_smear: "my_clear_highest_bit v = v AND smear (drop_bit 1 v)"
  by (simp add: my_clear_highest_bit_def smear_def Let_def)

section \<open>Counting bits\<close>

text \<open>The number of one bits of a word, as a sum over its positions.\<close>

definition ones :: "'a::len word \<Rightarrow> nat" where
  "ones v = (\<Sum>i < LENGTH('a). of_bool (bit v i))"

lemma ones_byte: "ones (ucast (drop_bit k v) :: byte) = (\<Sum>i = k..<k + 8. of_bool (bit v i))"
proof -
  have "(\<Sum>i = k..<k + 8. of_bool (bit v i)) = (\<Sum>i = 0..<8. of_bool (bit v (i + k)) :: nat)"
    using sum.shift_bounds_nat_ivl [of "\<lambda>i. of_bool (bit v i) :: nat" 0 k 8]
    by (simp only: add_0 add.commute [of 8 k])
  moreover have "ones (ucast (drop_bit k v) :: byte) = (\<Sum>i = 0..<8. of_bool (bit v (i + k)))"
    unfolding ones_def by (rule sum.cong) (auto simp: bit_ucast_iff bit_drop_bit_eq add.commute)
  ultimately show ?thesis by (simp only:)
qed

lemma ones_8: "ones (b :: byte) \<le> 8"
  using sum_mono [of "{..<8::nat}" "\<lambda>i. of_bool (bit b i)" "\<lambda>_. 1::nat"] by (simp add: ones_def)

lemma ones_64:
  fixes v :: "64 word"
  shows "ones v = ones (ucast v :: byte) + ones (ucast (drop_bit 8 v) :: byte) + ones (ucast (drop_bit 16 v) :: byte)
    + ones (ucast (drop_bit 24 v) :: byte) + ones (ucast (drop_bit 32 v) :: byte) + ones (ucast (drop_bit 40 v) :: byte)
    + ones (ucast (drop_bit 48 v) :: byte) + ones (ucast (drop_bit 56 v) :: byte)"
proof -
  let ?f = "\<lambda>i. of_bool (bit v i) :: nat"
  have "ones v = (\<Sum>m < 8. sum ?f {m * 8..<m * 8 + 8})"
    using sum.nat_group [of ?f 8 8] by (simp add: ones_def del: sum_of_bool_eq)
  also have "\<dots> = sum ?f {0..<8} + sum ?f {8..<16} + sum ?f {16..<24} + sum ?f {24..<32}
      + sum ?f {32..<40} + sum ?f {40..<48} + sum ?f {48..<56} + sum ?f {56..<64}"
    by (simp add: numeral_eq_Suc del: sum_of_bool_eq)
  finally show ?thesis
    using ones_byte [of 0 v] by (simp add: ones_byte)
qed

text \<open>With a table that holds the number of one bits of each byte, the eight lookups of
  my_count_bits add up to the number of one bits of the 64-bit number; the sum never overflows the
  byte it is computed in.\<close>
theorem my_count_bits_counts:
  assumes "\<And>b. unat (nbits b) = ones b"
  shows "unat (my_count_bits nbits v) = ones v"
proof -
  have small: "unat (x + y) = unat x + unat y" if "unat x + unat y \<le> 255" for x y :: byte
    using that by (simp add: unat_word_ariths)
  have up: "unat (ucast x :: 32 word) = unat x" for x :: byte
    using unsigned_less [of x, where ?'a = nat] by (simp add: unsigned_ucast_eq take_bit_nat_eq_self)
  let ?b = "\<lambda>k. nbits (ucast (drop_bit k v))"
  have le: "unat (nbits b) \<le> 8" for b using ones_8 [of b] assms by simp
  have "unat (?b 0 + ?b 8 + ?b 16 + ?b 24 + ?b 32 + ?b 40 + ?b 48 + ?b 56)
      = unat (?b 0) + unat (?b 8) + unat (?b 16) + unat (?b 24) + unat (?b 32) + unat (?b 40) + unat (?b 48) + unat (?b 56)"
    using le [of "ucast (drop_bit 0 v)"] le [of "ucast (drop_bit 8 v)"] le [of "ucast (drop_bit 16 v)"]
      le [of "ucast (drop_bit 24 v)"] le [of "ucast (drop_bit 32 v)"] le [of "ucast (drop_bit 40 v)"]
      le [of "ucast (drop_bit 48 v)"] le [of "ucast (drop_bit 56 v)"]
    by (simp only: small)
  moreover have "unat (my_count_bits nbits v) = unat (?b 0 + ?b 8 + ?b 16 + ?b 24 + ?b 32 + ?b 40 + ?b 48 + ?b 56)"
    by (simp add: my_count_bits_def Let_def up)
  ultimately show ?thesis by (simp add: assms ones_64)
qed

section \<open>Reversing bits\<close>

lemma ucast_and_255: "(ucast (w AND 255 :: 32 word) :: byte) = ucast w"
proof -
  have "(255 :: 32 word) = mask 8" by (simp add: mask_eq_exp_minus_1)
  then show ?thesis by (simp only: take_bit_eq_mask [symmetric]) (rule ucast_take_bit_low, simp)
qed

lemma bit_my_reverse_bits:
  assumes "\<And>b i. i < 8 \<Longrightarrow> bit (table b) i = bit b (7 - i)" and "n < 32"
  shows "bit (my_reverse_bits table key) n = bit key (31 - n)"
proof -
  have high: "\<not> bit x k" if "8 \<le> k" for x :: byte and k
    using that bit_imp_le_length [of x k] by auto
  consider "n < 8" | "8 \<le> n" "n < 16" | "16 \<le> n" "n < 24" | "24 \<le> n" by linarith
  then show ?thesis
  proof cases
    case 1
    then have "7 - n < 8" by simp
    with 1 show ?thesis by (simp add: my_reverse_bits_def ucast_and_255 bit_simps assms(1))
  next
    case 2
    then have "16 + (7 - (n - 8)) = 31 - n" "n - 8 < 8" "7 - (n - 8) < 8" by simp_all
    with 2 show ?thesis by (simp add: my_reverse_bits_def ucast_and_255 bit_simps assms(1) high)
  next
    case 3
    then have "8 + (7 - (n - 16)) = 31 - n" "n - 16 < 8" "7 - (n - 16) < 8" by simp_all
    with 3 show ?thesis by (simp add: my_reverse_bits_def ucast_and_255 bit_simps assms(1) high)
  next
    case 4
    then have "7 - (n - 24) = 31 - n" "n - 24 < 8" "7 - (n - 24) < 8" using assms(2) by simp_all
    with 4 assms(2) show ?thesis by (simp add: my_reverse_bits_def ucast_and_255 bit_simps assms(1) high)
  qed
qed

text \<open>Concrete tables, as mysys computes them.\<close>

definition nbits_table :: "byte \<Rightarrow> byte" where
  "nbits_table b = of_nat (ones b)"

definition reverse_table :: "byte \<Rightarrow> byte" where
  "reverse_table b = horner_sum of_bool 2 (map (\<lambda>i. bit b (7 - i)) [0..<8])"

lemma unat_nbits_table: "unat (nbits_table b) = ones b"
  using ones_8 [of b] by (simp add: nbits_table_def unat_of_nat take_bit_nat_eq_self unsigned_of_nat)

lemma bit_reverse_table: "i < 8 \<Longrightarrow> bit (reverse_table b) i = bit b (7 - i)"
  by (simp add: reverse_table_def bit_horner_sum_bit_word_iff)

theorem my_count_bits_counts_witness:
  "unat (my_count_bits nbits_table 255) = ones (255 :: 64 word)"
  by (rule my_count_bits_counts [OF unat_nbits_table])

text \<open>Reversing the bits of a 32-bit key with a table of reversed bytes puts bit \<open>31 - n\<close> at
  position \<open>n\<close>, so doing it twice gives the key back.\<close>
theorem my_reverse_bits_involution:
  assumes "\<And>b i. i < 8 \<Longrightarrow> bit (table b) i = bit b (7 - i)"
  shows "(n < 32 \<longrightarrow> bit (my_reverse_bits table key) n = bit key (31 - n))
    \<and> my_reverse_bits table (my_reverse_bits table key) = key"
proof -
  have one: "bit (my_reverse_bits table key) n = bit key (31 - n)" if "n < 32" for n key
    using bit_my_reverse_bits [OF assms that] .
  have "my_reverse_bits table (my_reverse_bits table key) = key"
    by (rule bit_word_eqI) (simp add: one)
  with one show ?thesis by blast
qed

theorem my_reverse_bits_involution_witness:
  "my_reverse_bits reverse_table (my_reverse_bits reverse_table 5) = 5 \<and> bit (my_reverse_bits reverse_table 5) 31"
  using my_reverse_bits_involution [OF bit_reverse_table, of 31 5] by simp

text \<open>For a number that is not 0, my_bit_log2 ends and gives the logarithm rounded down: the power of
  two at most the number, and never the next one.\<close>
theorem my_bit_log2_is_floor:
  assumes "v \<noteq> 0"
  shows "(2 ^ unat (my_bit_log2 v) \<le> unat v)
    \<and> (unat v < 2 ^ Suc (unat (my_bit_log2 v)))"
proof -
  obtain k where "k < 64" "my_bit_log2 v = of_nat k" and k: "2 ^ k \<le> unat v" "unat v < 2 ^ Suc k"
    using my_bit_log2_loop_floor [OF assms, of 0] by (auto simp: my_bit_log2_def)
  then have "unat (my_bit_log2 v) = k" by (simp add: unsigned_of_nat take_bit_nat_eq_self)
  with k show ?thesis by simp
qed

theorem my_bit_log2_is_floor_witness: "unat (my_bit_log2 5) = 2"
proof -
  have "2 ^ unat (my_bit_log2 5) < (2::nat) ^ 3" "(2::nat) ^ 2 < 2 ^ Suc (unat (my_bit_log2 5))"
    using my_bit_log2_is_floor [of 5] by simp_all
  then have "unat (my_bit_log2 5) < 3" "2 < Suc (unat (my_bit_log2 5))"
    by (simp_all only: power_strict_increasing_iff one_less_numeral_iff semiring_norm)
  then show ?thesis by simp
qed

text \<open>The comment over my_bit_log2 asks for the smallest exponent whose power is at least the value;
  for 5 that is 3.\<close>

theorem my_bit_log2_below_value: "\<not> 5 \<le> (2::nat) ^ unat (my_bit_log2 5)"
  by (simp add: my_bit_log2_def my_bit_log2_loop.simps)

text \<open>my_round_up_to_next_power gives the smallest power of two that is at least its argument, for
  every argument up to 2^31; 0 gives 0, and so does every argument above 2^31, where the result overflows.\<close>
theorem my_round_up_to_next_power_least:
  "my_round_up_to_next_power v =
     (if v = 0 \<or> 2 ^ 31 < unat v then 0 else 2 ^ (LEAST k. unat v \<le> 2 ^ k))"
proof (cases "v = 0 \<or> v = 1")
  case True
  have "(LEAST k. (1::nat) \<le> 2 ^ k) = 0" by (rule Least_equality) simp_all
  with True show ?thesis by (auto simp: my_round_up_to_next_power_def)
next
  case False
  then have "v - 1 \<noteq> 0" by auto
  then obtain k where k: "k < 32" "2 ^ k \<le> unat (v - 1)" "unat (v - 1) < 2 ^ Suc k"
    using highest_exists [of "v - 1"] by auto
  have v: "unat (v - 1) = unat v - 1" using False by (simp add: unat_minus_one)
  have least: "(LEAST k. unat v \<le> 2 ^ k) = Suc k"
  proof (rule Least_equality)
    show "unat v \<le> 2 ^ Suc k" using k v by simp
    fix j assume "unat v \<le> 2 ^ j"
    moreover have "unat v \<noteq> 0" using False by (simp add: unat_eq_zero)
    ultimately have "(2::nat) ^ k < 2 ^ j" using k v by linarith
    then show "Suc k \<le> j" by simp
  qed
  have r: "my_round_up_to_next_power v = 2 ^ Suc k"
    by (simp only: round_up_smear smear_mask [OF k(2,3)] mask_eq_exp_minus_1) simp
  show ?thesis
  proof (cases "k = 31")
    case True
    then have "2 ^ 31 < unat v" using k v by simp
    with r True show ?thesis by simp
  next
    case F31: False
    then have "(2::nat) ^ Suc k \<le> 2 ^ 31" using k(1) by (intro power_increasing) simp_all
    then have "\<not> 2 ^ 31 < unat v" using k v by simp
    with r least False show ?thesis by simp
  qed
qed

text \<open>my_clear_highest_bit clears the highest one bit of its argument and nothing else.\<close>
theorem my_clear_highest_bit_clears:
  "bit (my_clear_highest_bit v) i = (bit v i \<and> (\<exists>j > i. bit v j))"
proof -
  have "(\<exists>j\<ge>i. bit (drop_bit 1 v) j) = (\<exists>j > i. bit v j)"
  proof (intro iffI)
    assume "\<exists>j\<ge>i. bit (drop_bit 1 v) j"
    then obtain j where "i \<le> j" "bit v (Suc j)" by (auto simp: bit_drop_bit_eq)
    then show "\<exists>j > i. bit v j" by (intro exI [of _ "Suc j"]) simp
  next
    assume "\<exists>j > i. bit v j"
    then obtain j where "i < j" "bit v j" by blast
    then show "\<exists>j\<ge>i. bit (drop_bit 1 v) j" by (intro exI [of _ "j - 1"]) (auto simp: bit_drop_bit_eq)
  qed
  then show ?thesis by (simp add: clear_highest_smear bit_and_iff bit_smear)
qed

text \<open>my_count_bits_ushort looks a 16-bit number up in a table of 256 entries: it has a result
  exactly for numbers below 256, although every number of its argument type may be passed.\<close>
theorem my_count_bits_ushort_out_of_table:
  "my_count_bits_ushort nbits v = None \<longleftrightarrow> 256 \<le> unat v"
  by (simp add: my_count_bits_ushort_def word_less_nat_alt not_less)

end
