(* ===== verification/Bitmaps.thy ===== *)
theory Bitmaps
  imports IntCodec
begin

text \<open>
  Sets of small numbers as bits: the bitmaps of include/my_bitmap.h and the bit vectors of OpenEars'
  bitvec.h.  A bitmap is memory seen as bytes, as the macros see it through their \<open>uchar*\<close> cast, and
  \<open>last_word_ptr\<close> is the byte offset of its last word; a word is read and written low byte first.  A
  bit vector is a list of 32-bit words and its sizes do not overflow.  Assertions are off, as in a
  release build; locking (\<open>mutex\<close>) is not modelled.
\<close>

unbundle bit_operations_syntax

section \<open>my_bitmap.h\<close>

record MY_BITMAP =
  bitmap :: "byte list"
  n_bits :: "32 word"
  last_word_mask :: "32 word"
  last_word_ptr :: nat

definition bitmap_buffer_size :: "32 word \<Rightarrow> 32 word" where
  "bitmap_buffer_size n = (n + 31) div 32 * 4"

definition no_bytes_in_map :: "MY_BITMAP \<Rightarrow> 32 word" where
  "no_bytes_in_map m = (n_bits m + 7) div 8"

definition no_words_in_map :: "MY_BITMAP \<Rightarrow> 32 word" where
  "no_words_in_map m = (n_bits m + 31) div 32"

definition bytes_word_aligned :: "32 word \<Rightarrow> 32 word" where
  "bytes_word_aligned n = 4 * ((n + 3) div 4)"

text \<open>The byte and the mask of a bit.\<close>

abbreviation byte_of :: "32 word \<Rightarrow> nat" where "byte_of b \<equiv> unat (b div 8)"
abbreviation mask_of :: "32 word \<Rightarrow> byte" where "mask_of b \<equiv> push_bit (unat (b AND 7)) 1"

definition bitmap_set_bit :: "MY_BITMAP \<Rightarrow> 32 word \<Rightarrow> MY_BITMAP" where
  "bitmap_set_bit m b = m\<lparr>bitmap := (bitmap m)[byte_of b := bitmap m ! byte_of b OR mask_of b]\<rparr>"

definition bitmap_flip_bit :: "MY_BITMAP \<Rightarrow> 32 word \<Rightarrow> MY_BITMAP" where
  "bitmap_flip_bit m b = m\<lparr>bitmap := (bitmap m)[byte_of b := bitmap m ! byte_of b XOR mask_of b]\<rparr>"

definition bitmap_clear_bit :: "MY_BITMAP \<Rightarrow> 32 word \<Rightarrow> MY_BITMAP" where
  "bitmap_clear_bit m b = m\<lparr>bitmap := (bitmap m)[byte_of b := bitmap m ! byte_of b AND NOT (mask_of b)]\<rparr>"

definition bitmap_is_set :: "MY_BITMAP \<Rightarrow> 32 word \<Rightarrow> 32 word" where
  "bitmap_is_set m b = ucast (bitmap m ! byte_of b AND mask_of b)"

text \<open>The comparison first sets the unused bits of the last word of both maps, so it changes them.\<close>

definition set_last_word :: "MY_BITMAP \<Rightarrow> MY_BITMAP" where
  "set_last_word m =
     m\<lparr>bitmap := int4store (bitmap m) (last_word_ptr m) (uint4korr (bitmap m) (last_word_ptr m) OR last_word_mask m)\<rparr>"

definition bitmap_cmp :: "MY_BITMAP \<Rightarrow> MY_BITMAP \<Rightarrow> MY_BITMAP \<times> MY_BITMAP \<times> bool" where
  "bitmap_cmp m1 m2 =
     (let m1 = set_last_word m1; m2 = set_last_word m2; n = unat (4 * no_words_in_map m1)
      in (m1, m2, take n (bitmap m1) = take n (bitmap m2)))"

definition bitmap_fill :: "byte \<Rightarrow> MY_BITMAP \<Rightarrow> MY_BITMAP" where
  "bitmap_fill x m =
     (let n = unat (4 * no_words_in_map m) in m\<lparr>bitmap := replicate n x @ drop n (bitmap m)\<rparr>)"

definition bitmap_clear_all :: "MY_BITMAP \<Rightarrow> MY_BITMAP" where
  "bitmap_clear_all m = bitmap_fill 0 m"

definition bitmap_set_all :: "MY_BITMAP \<Rightarrow> MY_BITMAP" where
  "bitmap_set_all m = bitmap_fill 255 m"

text \<open>The checked operations on one integer: -1 when the bit is out of range.\<close>

definition bit_is_set :: "'a::len word \<Rightarrow> nat \<Rightarrow> int" where
  "bit_is_set I B = (if LENGTH('a) > B then if I AND push_bit B 1 = 0 then 0 else 1 else - 1)"

definition bit_do_set :: "'a::len word \<Rightarrow> nat \<Rightarrow> 'a word \<times> int" where
  "bit_do_set I B = (if LENGTH('a) > B then (I OR push_bit B 1, 1) else (I, - 1))"

definition bit_do_clear :: "'a::len word \<Rightarrow> nat \<Rightarrow> 'a word \<times> int" where
  "bit_do_clear I B = (if LENGTH('a) > B then (I AND NOT (push_bit B 1), 0) else (I, - 1))"

section \<open>bitvec.h\<close>

type_synonym bitvec = "32 word list"

definition bitvec_size :: "nat \<Rightarrow> nat" where
  "bitvec_size n = (n + 32 - 1) div 32"

definition bitvec_alloc :: "nat \<Rightarrow> bitvec" where
  "bitvec_alloc n = replicate (bitvec_size n) 0"

definition bitvec_set :: "bitvec \<Rightarrow> nat \<Rightarrow> bitvec" where
  "bitvec_set v b = v[b div 32 := v ! (b div 32) OR push_bit (b AND (32 - 1)) 1]"

definition bitvec_set_all :: "bitvec \<Rightarrow> nat \<Rightarrow> bitvec" where
  "bitvec_set_all v n = replicate ((n + 32 - 1) div 32) (- 1) @ drop ((n + 32 - 1) div 32) v"

definition bitvec_clear :: "bitvec \<Rightarrow> nat \<Rightarrow> bitvec" where
  "bitvec_clear v b = v[b div 32 := v ! (b div 32) AND NOT (push_bit (b AND (32 - 1)) 1)]"

definition bitvec_clear_all :: "bitvec \<Rightarrow> nat \<Rightarrow> bitvec" where
  "bitvec_clear_all v n = replicate ((n + 32 - 1) div 32) 0 @ drop ((n + 32 - 1) div 32) v"

definition bitvec_is_set :: "bitvec \<Rightarrow> nat \<Rightarrow> 32 word" where
  "bitvec_is_set v b = v ! (b div 32) AND push_bit (b AND (32 - 1)) 1"

definition bitvec_is_clear :: "bitvec \<Rightarrow> nat \<Rightarrow> bool" where
  "bitvec_is_clear v b = (bitvec_is_set v b = 0)"

section \<open>The contract of a set of bits\<close>

text \<open>
  What both kinds of bits promise: \<open>get\<close> after \<open>put\<close> and \<open>del\<close> at a bit that lies inside the memory
  is membership after insertion and removal, for every bit.
\<close>

locale bit_store =
  fixes get :: "'v \<Rightarrow> 'i \<Rightarrow> bool" and put :: "'v \<Rightarrow> 'i \<Rightarrow> 'v" and del :: "'v \<Rightarrow> 'i \<Rightarrow> 'v"
    and valid :: "'v \<Rightarrow> 'i \<Rightarrow> bool"
  assumes valid_put: "valid (put v b) c = valid v c" and valid_del: "valid (del v b) c = valid v c"
    and get_put: "valid v b \<Longrightarrow> get (put v b) c = (c = b \<or> get v c)"
    and get_del: "valid v b \<Longrightarrow> get (del v b) c = (c \<noteq> b \<and> get v c)"
begin

lemma valid_puts: "valid (foldl put v bs) c = valid v c"
  by (induction bs arbitrary: v) (simp_all add: valid_put)

lemma valid_dels: "valid (foldl del v bs) c = valid v c"
  by (induction bs arbitrary: v) (simp_all add: valid_del)

lemma get_puts: "(\<And>b. b \<in> set bs \<Longrightarrow> valid v b) \<Longrightarrow> get (foldl put v bs) c = (c \<in> set bs \<or> get v c)"
  by (induction bs arbitrary: v) (auto simp: valid_put get_put)

lemma get_dels: "(\<And>b. b \<in> set bs \<Longrightarrow> valid v b) \<Longrightarrow> get (foldl del v bs) c = (c \<notin> set bs \<and> get v c)"
  by (induction bs arbitrary: v) (auto simp: valid_del get_del)

lemma members_put: "valid v b \<Longrightarrow> {c. valid (put v b) c \<and> get (put v b) c} = insert b {c. valid v c \<and> get v c}"
  by (auto simp: valid_put get_put)

lemma members_del: "valid v b \<Longrightarrow> {c. valid (del v b) c \<and> get (del v b) c} = {c. valid v c \<and> get v c} - {b}"
  by (auto simp: valid_del get_del)

end

section \<open>Bits of a byte and of a word\<close>

lemma and_exp_bit: "w AND 2 ^ n = (if bit w n then 2 ^ n else 0)" for w :: "'a::len word"
  by (rule bit_word_eqI) (auto simp: bit_simps)

lemma exp_neq_0: "n < LENGTH('a) \<Longrightarrow> (2 ^ n :: 'a::len word) \<noteq> 0"
  by (metis bit_0_eq bit_exp_iff bot_apply bot_bool_def possible_bit_word)

lemma bit_word_ops:
  assumes "n < LENGTH('a)"
  shows "bit (x OR 2 ^ n :: 'a::len word) k = (bit x k \<or> k = n)"
    and "bit (x XOR 2 ^ n :: 'a word) k = (bit x k \<noteq> (k = n))"
    and "bit (x AND NOT (2 ^ n) :: 'a word) k = (bit x k \<and> k \<noteq> n)"
  using assms by (auto simp: bit_simps dest: bit_imp_le_length)

lemma byte_of_nat: "byte_of b = unat b div 8"
  by (simp add: unat_div)

lemma low_bits_nat: "unat (b AND 7 :: 32 word) = unat b mod 8"
proof -
  have "(7 :: 32 word) = mask 3" by (simp add: mask_eq_exp_minus_1)
  then have "b AND 7 = take_bit 3 b" by (simp only: take_bit_eq_mask)
  then show ?thesis by (simp only: unsigned_take_bit_eq) (simp add: take_bit_eq_mod)
qed

lemma same_bit: "b = c \<longleftrightarrow> unat b div 8 = unat c div 8 \<and> unat b mod 8 = unat c mod 8" for b c :: "32 word"
  by (metis div_mult_mod_eq word_unat_eq_iff)

section \<open>Bitmaps are sets of bits\<close>

text \<open>The bit \<open>i\<close> of a piece of memory.\<close>

definition membit :: "byte list \<Rightarrow> nat \<Rightarrow> bool" where
  "membit T i = bit (T ! (i div 8)) (i mod 8)"

definition map_valid :: "MY_BITMAP \<Rightarrow> 32 word \<Rightarrow> bool" where
  "map_valid m b = (byte_of b < length (bitmap m))"

lemma bitmap_is_set_membit: "(bitmap_is_set m b \<noteq> 0) = membit (bitmap m) (unat b)"
proof -
  have "(ucast (2 ^ (unat b mod 8) :: byte) :: 32 word) = 2 ^ (unat b mod 8)"
    by (rule bit_word_eqI) (auto simp: bit_simps)
  moreover have "(2 ^ (unat b mod 8) :: 32 word) \<noteq> 0" by (rule exp_neq_0) (simp add: less_trans [of _ 8])
  ultimately show ?thesis
    by (simp add: bitmap_is_set_def membit_def byte_of_nat low_bits_nat and_exp_bit)
qed

lemma membit_update:
  assumes "unat b div 8 < length T"
  shows "membit (T[unat b div 8 := x]) (unat c) =
    (if unat c div 8 = unat b div 8 then bit x (unat c mod 8) else membit T (unat c))"
  using assms by (simp add: membit_def nth_list_update)

lemma membit_ops:
  assumes "map_valid m b"
  shows "membit (bitmap (bitmap_set_bit m b)) (unat c) = (c = b \<or> membit (bitmap m) (unat c))"
    and "membit (bitmap (bitmap_clear_bit m b)) (unat c) = (c \<noteq> b \<and> membit (bitmap m) (unat c))"
    and "membit (bitmap (bitmap_flip_bit m b)) (unat c) = ((c = b) \<noteq> membit (bitmap m) (unat c))"
proof -
  have v: "unat b div 8 < length (bitmap m)" using assms by (simp add: map_valid_def byte_of_nat)
  have n: "unat b mod 8 < LENGTH(8)" by simp
  note defs = bitmap_set_bit_def bitmap_clear_bit_def bitmap_flip_bit_def byte_of_nat low_bits_nat
    membit_update [OF v] bit_word_ops [OF n]
  show "membit (bitmap (bitmap_set_bit m b)) (unat c) = (c = b \<or> membit (bitmap m) (unat c))"
    using same_bit [of b c] by (simp add: defs) (auto simp: membit_def)
  show "membit (bitmap (bitmap_clear_bit m b)) (unat c) = (c \<noteq> b \<and> membit (bitmap m) (unat c))"
    using same_bit [of b c] by (simp add: defs) (auto simp: membit_def)
  show "membit (bitmap (bitmap_flip_bit m b)) (unat c) = ((c = b) \<noteq> membit (bitmap m) (unat c))"
    using same_bit [of b c] by (simp add: defs) (auto simp: membit_def)
qed

lemma map_valid_ops [simp]:
  "map_valid (bitmap_set_bit m b) c = map_valid m c" "map_valid (bitmap_clear_bit m b) c = map_valid m c"
  "map_valid (bitmap_flip_bit m b) c = map_valid m c"
  by (simp_all add: map_valid_def bitmap_set_bit_def bitmap_clear_bit_def bitmap_flip_bit_def)

interpretation my: bit_store "\<lambda>m b. bitmap_is_set m b \<noteq> 0" bitmap_set_bit bitmap_clear_bit map_valid
  by unfold_locales (simp_all add: bitmap_is_set_membit membit_ops)

section \<open>Bit vectors are sets of bits\<close>

definition vec_valid :: "bitvec \<Rightarrow> nat \<Rightarrow> bool" where
  "vec_valid v b = (b div 32 < length v)"

lemma and_31: "b AND (32 - 1) = b mod 32" for b :: nat
proof -
  have "(32 - 1 :: nat) = mask 5" by (simp add: mask_eq_exp_minus_1)
  then have "b AND (32 - 1) = take_bit 5 b" by (simp only: take_bit_eq_mask)
  then show ?thesis by (simp add: take_bit_eq_mod)
qed

lemma bitvec_is_set_bit: "(bitvec_is_set v b \<noteq> 0) = bit (v ! (b div 32)) (b mod 32)"
proof -
  have "(2 ^ (b mod 32) :: 32 word) \<noteq> 0" by (rule exp_neq_0) simp
  then show ?thesis by (simp only: bitvec_is_set_def and_31 push_bit_of_1 and_exp_bit) simp
qed

lemma bitvec_ops:
  assumes "vec_valid v b"
  shows "(bitvec_is_set (bitvec_set v b) c \<noteq> 0) = (c = b \<or> bitvec_is_set v c \<noteq> 0)"
    and "(bitvec_is_set (bitvec_clear v b) c \<noteq> 0) = (c \<noteq> b \<and> bitvec_is_set v c \<noteq> 0)"
proof -
  have n: "b mod 32 < LENGTH(32)" by simp
  have same: "c = b \<longleftrightarrow> c div 32 = b div 32 \<and> c mod 32 = b mod 32" by (metis div_mult_mod_eq)
  have v: "b div 32 < length v" using assms by (simp add: vec_valid_def)
  show "(bitvec_is_set (bitvec_set v b) c \<noteq> 0) = (c = b \<or> bitvec_is_set v c \<noteq> 0)"
    unfolding bitvec_is_set_bit bitvec_set_def and_31 push_bit_of_1 same
    using v by (auto simp: nth_list_update bit_word_ops [OF n])
  show "(bitvec_is_set (bitvec_clear v b) c \<noteq> 0) = (c \<noteq> b \<and> bitvec_is_set v c \<noteq> 0)"
    unfolding bitvec_is_set_bit bitvec_clear_def and_31 push_bit_of_1 same
    using v by (auto simp: nth_list_update bit_word_ops [OF n])
qed

interpretation vec: bit_store "\<lambda>v b. bitvec_is_set v b \<noteq> 0" bitvec_set bitvec_clear vec_valid
  by unfold_locales (simp_all only: bitvec_ops, simp_all add: vec_valid_def bitvec_set_def bitvec_clear_def)

section \<open>Memory, words and comparison\<close>

lemma membit_int4store:
  assumes "p + 4 \<le> length T"
  shows "membit (int4store T p w) i = (if 8 * p \<le> i \<and> i < 8 * p + 32 then bit w (i - 8 * p) else membit T i)"
proof (cases "8 * p \<le> i \<and> i < 8 * p + 32")
  case True
  then obtain d where d: "i = 8 * p + d" "d < 32" by (metis add_diff_inverse_nat add_less_cancel_left not_less)
  then have "i div 8 = p + d div 8" "i mod 8 = d mod 8" by simp_all
  then have k: "i div 8 - p < 4" "8 * (i div 8 - p) + i mod 8 = i - 8 * p" "p + (i div 8 - p) = i div 8"
    using d(2) by (simp_all add: d(1) less_mult_imp_div_less)
  moreover have "int4store T p w ! (p + k) = ucast (drop_bit (8 * k) w)" if "k < 4" for k
  proof -
    have "k = 0 \<or> k = 1 \<or> k = 2 \<or> k = 3" using that by auto
    then show ?thesis using assms by (elim disjE) (simp_all add: int4store_def)
  qed
  ultimately have "int4store T p w ! (i div 8) = ucast (drop_bit (8 * (i div 8 - p)) w)" by metis
  moreover have "i mod 8 < LENGTH(8)" by simp
  ultimately show ?thesis using True k(2)
    by (simp only: membit_def bit_ucast_iff bit_drop_bit_eq) simp
next
  case False
  then have "i div 8 < p \<or> p + 4 \<le> i div 8" by presburger
  then have "int4store T p w ! (i div 8) = T ! (i div 8)" by (rule le4.store_outside)
  with False show ?thesis by (auto simp: membit_def)
qed

lemma bit_uint4korr: "i < 32 \<Longrightarrow> bit (uint4korr T p) i = membit T (8 * p + i)"
  using less_mult_imp_div_less [of i 4 8] by (simp add: korr_as_block bit_leInt membit_def block_def bit_of_int_iff)

lemma bytes_eq_membit:
  assumes "length T = length U"
  shows "T = U \<longleftrightarrow> (\<forall>i < 8 * length T. membit T i = membit U i)"
proof
  assume *: "\<forall>i < 8 * length T. membit T i = membit U i"
  show "T = U"
  proof (rule nth_equalityI [OF assms], rule bit_word_eqI)
    fix j n assume "j < length T" "n < LENGTH(8)"
    then have "8 * j + n < 8 * length T" by simp
    with * have "membit T (8 * j + n) = membit U (8 * j + n)" by blast
    with \<open>n < LENGTH(8)\<close> show "bit (T ! j) n = bit (U ! j) n" by (simp add: membit_def)
  qed
qed simp

text \<open>A bitmap as the library sets it up: whole words, the mask of the last one selects the bits that
  are not used.\<close>

definition map_wf :: "MY_BITMAP \<Rightarrow> bool" where
  "map_wf m \<longleftrightarrow> 0 < unat (n_bits m) \<and> unat (n_bits m) + 31 < 2 ^ 32
     \<and> length (bitmap m) = 4 * unat (no_words_in_map m)
     \<and> last_word_ptr m = 4 * (unat (no_words_in_map m) - 1)
     \<and> (\<forall>i < 32. bit (last_word_mask m) i = (unat (n_bits m) \<le> 32 * (unat (no_words_in_map m) - 1) + i))"

lemma no_words_nat: "unat (n_bits m) + 31 < 2 ^ 32 \<Longrightarrow> unat (no_words_in_map m) = (unat (n_bits m) + 31) div 32"
  by (simp add: no_words_in_map_def unat_div unat_word_ariths)

lemma map_wf_valid: "map_wf m \<Longrightarrow> b < n_bits m \<Longrightarrow> map_valid m b"
  by (simp add: map_wf_def map_valid_def byte_of_nat no_words_nat word_less_nat_alt)

lemma membit_set_last_word:
  assumes "map_wf m" and "i < 8 * length (bitmap m)"
  shows "membit (bitmap (set_last_word m)) i = (membit (bitmap m) i \<or> unat (n_bits m) \<le> i)"
proof -
  define w where "w = unat (no_words_in_map m)"
  from assms(1) have w: "w = (unat (n_bits m) + 31) div 32" and n: "0 < unat (n_bits m)"
    and len: "length (bitmap m) = 4 * w" and p: "last_word_ptr m = 4 * (w - 1)"
    and mask: "\<And>i. i < 32 \<Longrightarrow> bit (last_word_mask m) i = (unat (n_bits m) \<le> 32 * (w - 1) + i)"
    by (auto simp: map_wf_def w_def no_words_nat)
  have "0 < w" using w n by simp
  then have fits: "4 * (w - 1) + 4 \<le> length (bitmap m)" by (simp add: len)
  show ?thesis
  proof (cases "32 * (w - 1) \<le> i")
    case True
    then have "i - 32 * (w - 1) < 32" "i < 32 * (w - 1) + 32" using assms(2) len by simp_all
    with True show ?thesis
      by (simp add: set_last_word_def p membit_int4store [OF fits, simplified] bit_or_iff bit_uint4korr mask [simplified])
  next
    case False
    moreover have "32 * w \<le> unat (n_bits m) + 31" unfolding w by simp
    ultimately have "i < unat (n_bits m)" by (simp add: diff_mult_distrib2)
    with False show ?thesis by (simp add: set_last_word_def p membit_int4store [OF fits, simplified])
  qed
qed

lemma set_last_word_frame [simp]:
  "length (bitmap (set_last_word m)) = length (bitmap m)" "n_bits (set_last_word m) = n_bits m"
  "no_words_in_map (set_last_word m) = no_words_in_map m"
  by (simp_all add: set_last_word_def le4.length_store no_words_in_map_def)

lemma ignore_tail:
  assumes "n \<le> (N :: nat)"
  shows "(\<forall>i < N. (A i \<or> n \<le> i) = (B i \<or> n \<le> i)) \<longleftrightarrow> (\<forall>i < n. A i = B i)"
proof
  assume *: "\<forall>i < N. (A i \<or> n \<le> i) = (B i \<or> n \<le> i)"
  show "\<forall>i < n. A i = B i"
  proof (rule allI, rule impI)
    fix i assume "i < n"
    then have "i < N" using assms by simp
    with * have "(A i \<or> n \<le> i) = (B i \<or> n \<le> i)" by blast
    with \<open>i < n\<close> show "A i = B i" by simp
  qed
next
  assume *: "\<forall>i < n. A i = B i"
  show "\<forall>i < N. (A i \<or> n \<le> i) = (B i \<or> n \<le> i)"
    using * by (metis not_le)
qed

lemma bitmap_cmp_wf:
  assumes "map_wf m1" and "map_wf m2" and "n_bits m1 = n_bits m2"
  shows "snd (snd (bitmap_cmp m1 m2)) \<longleftrightarrow> (\<forall>i < unat (n_bits m1). membit (bitmap m1) i = membit (bitmap m2) i)"
proof -
  have nw: "no_words_in_map m1 = no_words_in_map m2" using assms(3) by (simp add: no_words_in_map_def)
  then have len: "length (bitmap m1) = length (bitmap m2)" using assms by (simp add: map_wf_def)
  have "(unat (n_bits m1) + 31) div 32 < 2 ^ 27"
    by (rule less_mult_imp_div_less) (use assms(1) in \<open>simp add: map_wf_def\<close>)
  then have "4 * ((unat (n_bits m1) + 31) div 32) < 2 ^ 32" by simp
  then have n: "unat (4 * no_words_in_map m1) = length (bitmap m1)"
    using assms(1) by (simp add: map_wf_def unat_word_ariths no_words_nat)
  have bits: "unat (n_bits m1) \<le> 8 * length (bitmap m1)"
    using assms(1) by (simp add: map_wf_def no_words_nat)
  have "snd (snd (bitmap_cmp m1 m2)) \<longleftrightarrow> bitmap (set_last_word m1) = bitmap (set_last_word m2)"
    using len n by (simp add: bitmap_cmp_def Let_def)
  also have "\<dots> \<longleftrightarrow> (\<forall>i < 8 * length (bitmap m1).
      (membit (bitmap m1) i \<or> unat (n_bits m1) \<le> i) = (membit (bitmap m2) i \<or> unat (n_bits m1) \<le> i))"
    using assms len by (subst bytes_eq_membit) (simp_all add: membit_set_last_word)
  also have "\<dots> \<longleftrightarrow> (\<forall>i < unat (n_bits m1). membit (bitmap m1) i = membit (bitmap m2) i)"
    using bits by (rule ignore_tail)
  finally show ?thesis .
qed

section \<open>Properties\<close>

text \<open>C13. On bits inside its memory a bitmap is a set of numbers: setting, clearing and flipping a bit are
  insertion, removal and symmetric difference, and no other bit changes.\<close>
theorem bitmap_refines_set:
  assumes "map_wf m" and "b < n_bits m"
  defines "members \<equiv> \<lambda>m. {c. map_valid m c \<and> bitmap_is_set m c \<noteq> 0}"
  shows "(members (bitmap_set_bit m b) = insert b (members m))
    \<and> (members (bitmap_clear_bit m b) = members m - {b})
    \<and> (members (bitmap_flip_bit m b) = (members m - {b}) \<union> ({b} - members m))"
proof -
  have v: "map_valid m b" using assms(1,2) by (rule map_wf_valid)
  have 1: "members (bitmap_set_bit m b) = insert b (members m)"
    unfolding members_def using v by (rule my.members_put)
  have 2: "members (bitmap_clear_bit m b) = members m - {b}"
    unfolding members_def using v by (rule my.members_del)
  have 3: "members (bitmap_flip_bit m b) = (members m - {b}) \<union> ({b} - members m)"
    unfolding members_def using v by (auto simp: bitmap_is_set_membit membit_ops)
  from 1 2 3 show ?thesis by blast
qed

definition map40 :: MY_BITMAP where
  "map40 = \<lparr>bitmap = replicate 8 0, n_bits = 40, last_word_mask = NOT (mask 8), last_word_ptr = 4\<rparr>"

lemma map40_wf: "map_wf map40"
proof -
  have "no_words_in_map map40 = 2" by (simp add: no_words_in_map_def map40_def)
  then show ?thesis by (auto simp: map_wf_def) (auto simp: map40_def bit_not_iff bit_mask_iff)
qed

theorem bitmap_refines_set_witness:
  "37 \<in> {c. map_valid (bitmap_set_bit map40 37) c \<and> bitmap_is_set (bitmap_set_bit map40 37) c \<noteq> 0}"
  using bitmap_refines_set [OF map40_wf, of 37] by (simp add: map40_def)

text \<open>Two bitmaps of the same number of bits compare equal exactly when they hold the same bits below
  that number: the unused bits of the last word never make a difference.\<close>
theorem bitmap_cmp_compares_bits:
  assumes "map_wf m1" and "map_wf m2" and "n_bits m1 = n_bits m2"
  shows "snd (snd (bitmap_cmp m1 m2)) \<longleftrightarrow>
    (\<forall>b < n_bits m1. (bitmap_is_set m1 b \<noteq> 0) = (bitmap_is_set m2 b \<noteq> 0))"
proof -
  have "(\<forall>i < unat (n_bits m1). P i) \<longleftrightarrow> (\<forall>b < n_bits m1. P (unat b))" for P
  proof (intro iffI allI impI)
    fix i assume *: "\<forall>b < n_bits m1. P (unat b)" and "i < unat (n_bits m1)"
    moreover have "unat (of_nat i :: 32 word) = i"
      using \<open>i < unat (n_bits m1)\<close> assms(1) by (simp add: map_wf_def unsigned_of_nat take_bit_nat_eq_self)
    ultimately show "P i" by (metis word_less_nat_alt)
  qed (simp add: word_less_nat_alt)
  then show ?thesis using bitmap_cmp_wf [OF assms] by (simp add: bitmap_is_set_membit)
qed

theorem bitmap_cmp_compares_bits_witness:
  "snd (snd (bitmap_cmp map40 (map40\<lparr>bitmap := [0, 0, 0, 0, 0, 7, 7, 7]\<rparr>)))"
proof -
  let ?m = "map40\<lparr>bitmap := [0, 0, 0, 0, 0, 7, 7, 7]\<rparr>"
  have "no_words_in_map ?m = no_words_in_map map40" by (simp add: no_words_in_map_def)
  then have wf: "map_wf ?m" using map40_wf by (simp add: map_wf_def) (simp add: map40_def)
  have same: "bitmap map40 ! j = bitmap ?m ! j" if "j < 5" for j
    using that by (auto simp: map40_def less_Suc_eq numeral_eq_Suc)
  have "bitmap_is_set map40 b = bitmap_is_set ?m b" if "b < n_bits map40" for b
  proof -
    have "byte_of b < 5" using that less_mult_imp_div_less [of "unat b" 5 8]
      by (simp add: byte_of_nat map40_def word_less_nat_alt)
    then show ?thesis by (simp only: bitmap_is_set_def same)
  qed
  then show ?thesis by (subst bitmap_cmp_compares_bits [OF map40_wf wf]) simp_all
qed

text \<open>A bit vector that was cleared and then had the bits of a list set holds exactly the bits of
  the list, and clearing the bits of another list removes exactly those.\<close>
theorem bitvec_holds_list:
  assumes "\<forall>b \<in> set bs \<union> set cs. b < n" and "b < n"
  shows "bitvec_is_clear (foldl bitvec_clear (foldl bitvec_set (bitvec_alloc n) bs) cs) b = (b \<notin> set bs - set cs)"
proof -
  have size: "b div 32 < bitvec_size n" if "b < n" for b
    using that unfolding bitvec_size_def by linarith
  then have valid: "vec_valid (bitvec_alloc n) b" if "b < n" for b
    using that by (simp add: vec_valid_def bitvec_alloc_def)
  let ?v = "foldl bitvec_set (bitvec_alloc n) bs"
  have "bitvec_is_set (bitvec_alloc n) b = 0"
    using size [OF \<open>b < n\<close>] by (simp add: bitvec_is_set_def bitvec_alloc_def)
  then have "(bitvec_is_set ?v b \<noteq> 0) = (b \<in> set bs)"
    using vec.get_puts [of bs "bitvec_alloc n" b] valid assms by simp
  moreover have "(bitvec_is_set (foldl bitvec_clear ?v cs) b \<noteq> 0) = (b \<notin> set cs \<and> bitvec_is_set ?v b \<noteq> 0)"
    using valid assms by (intro vec.get_dels) (simp add: vec.valid_puts)
  ultimately show ?thesis by (auto simp: bitvec_is_clear_def)
qed

theorem bitvec_holds_list_witness:
  "bitvec_is_clear (foldl bitvec_clear (foldl bitvec_set (bitvec_alloc 70) [3, 69]) [3]) 69 = False"
  by (subst bitvec_holds_list [of "[3, 69]" "[3]" 70]) simp_all

text \<open>The checked operations on one integer answer -1 and change nothing when the bit is out of range;
  otherwise a bit reads 1 after it was set, 0 after it was cleared, and the other bits stay.\<close>
theorem bit_do_set_clear:
  "bit_is_set (fst (bit_do_set I B)) C =
     (if B < LENGTH('a) \<and> C = B then 1 else bit_is_set (I :: 'a::len word) C)"
  "bit_is_set (fst (bit_do_clear I B)) C = (if B < LENGTH('a) \<and> C = B then 0 else bit_is_set I C)"
  "snd (bit_do_set I B) = - 1 \<longleftrightarrow> LENGTH('a) \<le> B" "snd (bit_do_clear I B) = - 1 \<longleftrightarrow> LENGTH('a) \<le> B"
proof -
  have is_set: "bit_is_set J C = (if C < LENGTH('a) then of_bool (bit J C) else - 1)" for J :: "'a word"
    using exp_neq_0 [of C, where 'a = 'a] by (simp add: bit_is_set_def and_exp_bit push_bit_of_1)
  show "bit_is_set (fst (bit_do_set I B)) C = (if B < LENGTH('a) \<and> C = B then 1 else bit_is_set I C)"
    by (auto simp: is_set bit_do_set_def push_bit_of_1 bit_word_ops)
  show "bit_is_set (fst (bit_do_clear I B)) C = (if B < LENGTH('a) \<and> C = B then 0 else bit_is_set I C)"
    by (auto simp: is_set bit_do_clear_def push_bit_of_1 bit_word_ops)
qed (auto simp: bit_do_set_def bit_do_clear_def)

end
