(* ===== verification/AcTrie.thy ===== *)
theory AcTrie
  imports Main "HOL-Library.Word"
begin

text \<open>
  The tries of include/my_trie.h: search of a key, and the step of the Aho-Corasick automaton over them.
  Nodes live in memory (a function from addresses) and point to their first child (\<open>links\<close>), their next
  sibling and their failure node; \<open>None\<close> is the null pointer.  A loop that follows pointers may not end,
  or may run into a null pointer; then there is no result.  Insertion and the computation of the
  failure nodes are in mysys, not in the repository.
\<close>

section \<open>Nodes\<close>

record TRIE_NODE =
  leaf :: "16 word"
  edge :: "8 word"
  sibling :: "nat option"
  links :: "nat option"
  fail :: "nat option"

type_synonym heap = "nat \<Rightarrow> TRIE_NODE"

record TRIE =
  root :: nat
  nnodes :: "32 word"
  nwords :: "32 word"

record AC_TRIE_STATE =
  trie :: TRIE
  node :: nat

section \<open>Search\<close>

text \<open>The loop of trie_goto over the edges of a node, then its two other results.\<close>

partial_function (option) goto_loop :: "heap \<Rightarrow> 8 word \<Rightarrow> nat option \<Rightarrow> nat option option" where
  "goto_loop h c nx =
     (case nx of None \<Rightarrow> Some None
      | Some q \<Rightarrow> if edge (h q) = c then Some (Some q) else goto_loop h c (sibling (h q)))"

definition trie_goto :: "heap \<Rightarrow> nat \<Rightarrow> nat \<Rightarrow> 8 word \<Rightarrow> nat option option" where
  "trie_goto h rt nd c =
     (case goto_loop h c (links (h nd)) of None \<Rightarrow> None
      | Some (Some q) \<Rightarrow> Some (Some q)
      | Some None \<Rightarrow> if rt = nd then Some (Some rt) else Some None)"

partial_function (option) ac_loop :: "heap \<Rightarrow> nat \<Rightarrow> 8 word \<Rightarrow> nat \<Rightarrow> nat option" where
  "ac_loop h rt c nd =
     (case trie_goto h rt nd c of None \<Rightarrow> None
      | Some (Some q) \<Rightarrow> Some q
      | Some None \<Rightarrow> (case fail (h nd) of None \<Rightarrow> None | Some f \<Rightarrow> ac_loop h rt c f))"

definition ac_trie_next :: "heap \<Rightarrow> AC_TRIE_STATE \<Rightarrow> 8 word \<Rightarrow> (AC_TRIE_STATE \<times> 16 word) option" where
  "ac_trie_next h st c =
     (case ac_loop h (root (trie st)) c (node st) of None \<Rightarrow> None
      | Some q \<Rightarrow> Some (st\<lparr>node := q\<rparr>, leaf (h q)))"




section \<open>Abstract tries\<close>






section \<open>The automaton\<close>

text \<open>A list of siblings, followed to its end.\<close>

fun chain :: "heap \<Rightarrow> nat option \<Rightarrow> nat list \<Rightarrow> bool" where
  "chain h p [] = (p = None)"
| "chain h p (q # qs) = (p = Some q \<and> chain h (sibling (h q)) qs)"

lemma goto_loop_chain:
  "chain h p qs \<Longrightarrow> goto_loop h c p = Some (find (\<lambda>q. edge (h q) = c) qs)"
  by (induction qs arbitrary: p) (simp_all add: goto_loop.simps)

text \<open>What trie_insert and ac_trie_prepare are there for: the nodes are a finite tree whose edges end, and
  every node but the root has a failure node nearer to the root.\<close>

definition ac_wf :: "heap \<Rightarrow> nat \<Rightarrow> nat set \<Rightarrow> (nat \<Rightarrow> nat) \<Rightarrow> bool" where
  "ac_wf h rt N depth \<longleftrightarrow> rt \<in> N
     \<and> (\<forall>q \<in> N. \<exists>qs. chain h (links (h q)) qs \<and> set qs \<subseteq> N)
     \<and> (\<forall>q \<in> N - {rt}. \<exists>f \<in> N. fail (h q) = Some f \<and> depth f < depth q)"

text \<open>The failure path of a node, and the first of its nodes with an edge for a character.\<close>

inductive fails_to :: "heap \<Rightarrow> nat \<Rightarrow> 8 word \<Rightarrow> nat \<Rightarrow> nat \<Rightarrow> bool" for h rt c where
  here: "trie_goto h rt nd c = Some (Some q) \<Longrightarrow> fails_to h rt c nd q"
| retry: "trie_goto h rt nd c = Some None \<Longrightarrow> fail (h nd) = Some f \<Longrightarrow> fails_to h rt c f q \<Longrightarrow> fails_to h rt c nd q"

lemma ac_loop_fails_to: "fails_to h rt c nd q \<Longrightarrow> ac_loop h rt c nd = Some q"
  by (induction rule: fails_to.induct) (simp_all add: ac_loop.simps)

lemma fails_to_exists:
  assumes wf: "ac_wf h rt N depth"
  shows "nd \<in> N \<Longrightarrow> \<exists>q \<in> N. fails_to h rt c nd q"
proof (induction "depth nd" arbitrary: nd rule: less_induct)
  case less
  obtain qs where qs: "chain h (links (h nd)) qs" "set qs \<subseteq> N" using wf less.prems by (auto simp: ac_wf_def)
  have g: "goto_loop h c (links (h nd)) = Some (find (\<lambda>q. edge (h q) = c) qs)" by (rule goto_loop_chain [OF qs(1)])
  show ?case
  proof (cases "find (\<lambda>q. edge (h q) = c) qs")
    case (Some q)
    then have "q \<in> N" using qs(2) by (auto simp: find_Some_iff)
    then show ?thesis using g Some by (auto intro!: bexI [of _ q] fails_to.here simp: trie_goto_def)
  next
    case None
    show ?thesis
    proof (cases "nd = rt")
      case True
      then show ?thesis using g None less.prems by (auto intro!: bexI [of _ rt] fails_to.here simp: trie_goto_def)
    next
      case False
      then obtain f where f: "f \<in> N" "fail (h nd) = Some f" "depth f < depth nd"
        using wf less.prems unfolding ac_wf_def by (metis Diff_iff singletonD)
      with less.hyps obtain q where "q \<in> N" "fails_to h rt c f q" by blast
      moreover have "trie_goto h rt nd c = Some None" using g None False by (simp add: trie_goto_def)
      ultimately show ?thesis using f(2) by (blast intro: fails_to.retry)
    qed
  qed
qed

section \<open>Properties\<close>


text \<open>Two words, ab and b, with failure nodes.\<close>

definition two_words :: heap where
  "two_words q =
     (if q = 0 then \<lparr>leaf = 0, edge = 0, sibling = None, links = Some 1, fail = None\<rparr>
      else if q = 1 then \<lparr>leaf = 0, edge = 97, sibling = Some 3, links = Some 2, fail = Some 0\<rparr>
      else if q = 2 then \<lparr>leaf = 2, edge = 98, sibling = None, links = None, fail = Some 3\<rparr>
      else \<lparr>leaf = 1, edge = 98, sibling = None, links = None, fail = Some 0\<rparr>)"


text \<open>C8. A step of the automaton always returns: from a node of the automaton it follows failure nodes,
  each nearer to the root, until one has an edge for the character, and the root always has one; the
  new state is a node of the automaton again and the result is the length stored there.\<close>
theorem ac_trie_next_returns:
  assumes "ac_wf h (root (trie st)) N depth" and "node st \<in> N"
  shows "\<exists>q \<in> N. fails_to h (root (trie st)) c (node st) q \<and> ac_trie_next h st c = Some (st\<lparr>node := q\<rparr>, leaf (h q))"
  using fails_to_exists [OF assms] ac_loop_fails_to by (fastforce simp: ac_trie_next_def)

lemma two_words_wf: "ac_wf two_words 0 {0, 1, 2, 3} (\<lambda>q. if q = 0 then 0 else if q = 2 then 2 else 1)"
proof -
  have "chain two_words (links (two_words q)) (if q = 0 then [1, 3] else if q = 1 then [2] else [])" for q
    by (simp add: two_words_def)
  moreover have "set (if q = 0 then [1, 3] else if q = 1 then [2] else []) \<subseteq> {0, 1, 2, 3 :: nat}" for q :: nat
    by (cases "q = 0"; cases "q = 1") simp_all
  ultimately have "\<exists>qs. chain two_words (links (two_words q)) qs \<and> set qs \<subseteq> {0, 1, 2, 3}" for q by blast
  then show ?thesis by (simp add: ac_wf_def) (simp add: two_words_def)
qed

theorem ac_trie_next_returns_witness:
  "\<exists>q \<in> {0, 1, 2, 3}. ac_trie_next two_words \<lparr>trie = \<lparr>root = 0, nnodes = 3, nwords = 2\<rparr>, node = 2\<rparr> 98
     = Some (\<lparr>trie = \<lparr>root = 0, nnodes = 3, nwords = 2\<rparr>, node = q\<rparr>, leaf (two_words q))"
  using ac_trie_next_returns [of two_words "\<lparr>trie = \<lparr>root = 0, nnodes = 3, nwords = 2\<rparr>, node = 2\<rparr>"
      "{0, 1, 2, 3}" "\<lambda>q. if q = 0 then 0 else if q = 2 then 2 else 1" 98] two_words_wf
  by auto

end
