(* ===== verification/CharClasses.thy ===== *)
theory CharClasses
  imports UniCtype IntCodec
begin

text \<open>
  Character classes of include/m_ctype.h: the class bits, the macros that test a character against the
  table of a character set, and the flags of the collation functions.  A character set is the part of
  CHARSET_INFO the macros read: its class table (257 entries, the first one for EOF), its case tables and
  its state bits.
\<close>

unbundle bit_operations_syntax

section \<open>Class bits and character sets\<close>

definition MY_U :: nat where "MY_U = 1"
definition MY_L :: nat where "MY_L = 2"
definition MY_NMR :: nat where "MY_NMR = 4"
definition MY_SPC :: nat where "MY_SPC = 8"
definition MY_PNT :: nat where "MY_PNT = 16"
definition MY_CTR :: nat where "MY_CTR = 32"
definition MY_B :: nat where "MY_B = 64"
definition MY_X :: nat where "MY_X = 128"

record CHARSET_INFO =
  ctype :: "nat list"
  to_lower :: "byte list"
  to_upper :: "byte list"
  state :: nat

definition class_of :: "CHARSET_INFO \<Rightarrow> byte \<Rightarrow> nat" where
  "class_of s c = ctype s ! (1 + unat c)"

section \<open>Tests\<close>

definition my_isascii :: "32 word \<Rightarrow> bool" where "my_isascii c = (\<not> (c AND NOT 127 \<noteq> 0))"
definition my_toascii :: "32 word \<Rightarrow> 32 word" where "my_toascii c = c AND 127"
definition my_tocntrl :: "32 word \<Rightarrow> 32 word" where "my_tocntrl c = c AND 31"
definition my_toprint :: "32 word \<Rightarrow> 32 word" where "my_toprint c = c OR 64"
definition my_toupper :: "CHARSET_INFO \<Rightarrow> byte \<Rightarrow> byte" where "my_toupper s c = to_upper s ! unat c"
definition my_tolower :: "CHARSET_INFO \<Rightarrow> byte \<Rightarrow> byte" where "my_tolower s c = to_lower s ! unat c"
definition my_isalpha :: "CHARSET_INFO \<Rightarrow> byte \<Rightarrow> nat" where "my_isalpha s c = class_of s c AND (MY_U OR MY_L)"
definition my_isupper :: "CHARSET_INFO \<Rightarrow> byte \<Rightarrow> nat" where "my_isupper s c = class_of s c AND MY_U"
definition my_islower :: "CHARSET_INFO \<Rightarrow> byte \<Rightarrow> nat" where "my_islower s c = class_of s c AND MY_L"
definition my_isdigit :: "CHARSET_INFO \<Rightarrow> byte \<Rightarrow> nat" where "my_isdigit s c = class_of s c AND MY_NMR"
definition my_isxdigit :: "CHARSET_INFO \<Rightarrow> byte \<Rightarrow> nat" where "my_isxdigit s c = class_of s c AND MY_X"
definition my_isalnum :: "CHARSET_INFO \<Rightarrow> byte \<Rightarrow> nat" where
  "my_isalnum s c = class_of s c AND (MY_U OR MY_L OR MY_NMR)"
definition my_isspace :: "CHARSET_INFO \<Rightarrow> byte \<Rightarrow> nat" where "my_isspace s c = class_of s c AND MY_SPC"
definition my_ispunct :: "CHARSET_INFO \<Rightarrow> byte \<Rightarrow> nat" where "my_ispunct s c = class_of s c AND MY_PNT"
definition my_isprint :: "CHARSET_INFO \<Rightarrow> byte \<Rightarrow> nat" where
  "my_isprint s c = class_of s c AND (MY_PNT OR MY_U OR MY_L OR MY_NMR OR MY_B)"
definition my_isgraph :: "CHARSET_INFO \<Rightarrow> byte \<Rightarrow> nat" where
  "my_isgraph s c = class_of s c AND (MY_PNT OR MY_U OR MY_L OR MY_NMR)"
definition my_iscntrl :: "CHARSET_INFO \<Rightarrow> byte \<Rightarrow> nat" where "my_iscntrl s c = class_of s c AND MY_CTR"

definition my_isvar :: "CHARSET_INFO \<Rightarrow> byte \<Rightarrow> bool" where
  "my_isvar s c = (my_isalnum s c \<noteq> 0 \<or> c = 95)"
definition my_isvar_start :: "CHARSET_INFO \<Rightarrow> byte \<Rightarrow> bool" where
  "my_isvar_start s c = (my_isalpha s c \<noteq> 0 \<or> c = 95)"

definition MY_CS_BINSORT :: nat where "MY_CS_BINSORT = 16"
definition MY_CS_STRNXFRM :: nat where "MY_CS_STRNXFRM = 64"
definition my_binary_compare :: "CHARSET_INFO \<Rightarrow> nat" where "my_binary_compare s = state s AND MY_CS_BINSORT"
definition use_strnxfrm :: "CHARSET_INFO \<Rightarrow> nat" where "use_strnxfrm s = state s AND MY_CS_STRNXFRM"

section \<open>Flags of the collation weights\<close>

definition MY_STRXFRM_NLEVELS :: nat where "MY_STRXFRM_NLEVELS = 6"

text \<open>The flags of a level from 1 to 6: its own, descending order and reverse order.\<close>

fun MY_STRXFRM_LEVEL :: "nat \<Rightarrow> nat option" where
  "MY_STRXFRM_LEVEL n =
     (if n = 1 then Some 0x00000001 else if n = 2 then Some 0x00000002 else if n = 3 then Some 0x00000004
      else if n = 4 then Some 0x00000008 else if n = 5 then Some 0x00000010 else if n = 6 then Some 0x00000020
      else None)"

fun MY_STRXFRM_DESC_LEVEL :: "nat \<Rightarrow> nat option" where
  "MY_STRXFRM_DESC_LEVEL n =
     (if n = 1 then Some 0x00000100 else if n = 2 then Some 0x00000200 else if n = 3 then Some 0x00000300
      else if n = 4 then Some 0x00000800 else if n = 5 then Some 0x00001000 else if n = 6 then Some 0x00002000
      else None)"

fun MY_STRXFRM_REVERSE_LEVEL :: "nat \<Rightarrow> nat option" where
  "MY_STRXFRM_REVERSE_LEVEL n =
     (if n = 1 then Some 0x00010000 else if n = 2 then Some 0x00020000 else if n = 3 then Some 0x00040000
      else if n = 4 then Some 0x00080000 else if n = 5 then Some 0x00100000 else if n = 6 then Some 0x00200000
      else None)"

definition MY_STRXFRM_DESC_SHIFT :: nat where "MY_STRXFRM_DESC_SHIFT = 8"
definition MY_STRXFRM_REVERSE_SHIFT :: nat where "MY_STRXFRM_REVERSE_SHIFT = 16"
definition MY_STRXFRM_LEVEL_ALL :: nat where "MY_STRXFRM_LEVEL_ALL = 0x3F"

section \<open>The first page, ASCII\<close>

text \<open>The class of an ASCII code in the table of page 00.\<close>

definition ascii_class :: "nat \<Rightarrow> nat" where
  "ascii_class n =
     (if 65 \<le> n \<and> n \<le> 90 then MY_X + MY_U else if 97 \<le> n \<and> n \<le> 122 then MY_X + MY_L
      else if 48 \<le> n \<and> n \<le> 57 then MY_NMR else if n = 32 then MY_SPC
      else if n < 32 \<or> n = 127 then MY_CTR else MY_PNT)"

lemma page00_ascii: "take 128 uctype_page00 = map ascii_class [0..<128]"
  by (simp add: uctype_page00_def ascii_class_def upt_conv_Cons MY_U_def MY_L_def MY_NMR_def MY_SPC_def
      MY_PNT_def MY_CTR_def MY_X_def)

lemma class_of_page00:
  assumes "unat c < 128"
  shows "class_of (s\<lparr>ctype := 0 # uctype_page00\<rparr>) c = ascii_class (unat c)"
proof -
  have "uctype_page00 ! unat c = take 128 uctype_page00 ! unat c" using assms by simp
  then show ?thesis using assms by (simp add: class_of_def page00_ascii)
qed

lemmas class_bits = MY_U_def MY_L_def MY_NMR_def MY_SPC_def MY_PNT_def MY_CTR_def MY_B_def MY_X_def

section \<open>Properties\<close>

text \<open>The Unicode class table has an entry for each of its 256 pages; an entry either gives one class
  for the page or, with class 0, a table of exactly 256 entries, each a class that occurs.\<close>
theorem my_uni_ctype_wf: "length my_uni_ctype = 256 \<and> list_all entry_ok my_uni_ctype"
  by (simp add: my_uni_ctype_def my_uni_ctype_ok my_uni_ctype_length)

text \<open>With the table of page 00 the tests classify the ASCII codes as C does, with two exceptions: the
  space is the only spacing character, and every letter, but no digit, is a hexadecimal digit.\<close>
theorem page00_classifies_ascii:
  fixes s :: CHARSET_INFO
  assumes "unat c < 128"
  defines "t \<equiv> s\<lparr>ctype := 0 # uctype_page00\<rparr>"
  shows "(my_isupper t c \<noteq> 0 \<longleftrightarrow> 65 \<le> unat c \<and> unat c \<le> 90)
    \<and> (my_islower t c \<noteq> 0 \<longleftrightarrow> 97 \<le> unat c \<and> unat c \<le> 122)
    \<and> (my_isdigit t c \<noteq> 0 \<longleftrightarrow> 48 \<le> unat c \<and> unat c \<le> 57)
    \<and> (my_iscntrl t c \<noteq> 0 \<longleftrightarrow> unat c < 32 \<or> unat c = 127)
    \<and> (my_isgraph t c \<noteq> 0 \<longleftrightarrow> 32 < unat c \<and> unat c < 127)
    \<and> (my_isspace t c \<noteq> 0 \<longleftrightarrow> unat c = 32)
    \<and> (my_isxdigit t c \<noteq> 0 \<longleftrightarrow> my_isalpha t c \<noteq> 0)"
  using assms(1) unfolding t_def
  by (simp_all add: my_isupper_def my_islower_def my_isdigit_def my_iscntrl_def my_isgraph_def my_isspace_def
      my_isxdigit_def my_isalpha_def class_of_page00 ascii_class_def class_bits)

definition empty_charset :: CHARSET_INFO where
  "empty_charset = \<lparr>ctype = [], to_lower = [], to_upper = [], state = 0\<rparr>"

theorem page00_classifies_ascii_witness:
  "my_isxdigit (empty_charset\<lparr>ctype := 0 # uctype_page00\<rparr>) 48 = 0
     \<and> my_isxdigit (empty_charset\<lparr>ctype := 0 # uctype_page00\<rparr>) 90 \<noteq> 0"
proof -
  let ?t = "empty_charset\<lparr>ctype := 0 # uctype_page00\<rparr>"
  have "class_of ?t 48 = 4" "class_of ?t 90 = 129"
    by (simp_all add: class_of_page00 ascii_class_def class_bits)
  then have "my_isalpha ?t 48 = 0" "my_isalpha ?t 90 \<noteq> 0" by (simp_all add: my_isalpha_def class_bits)
  then show ?thesis
    using page00_classifies_ascii [of 48 empty_charset] page00_classifies_ascii [of 90 empty_charset] by simp
qed

text \<open>The flags of the six levels are six different bits, and so are those for reverse order, but not
  those for descending order: the flag of level 3 is the flags of levels 1 and 2 together, so asking for
  level 3 descending asks for the other two and bit 10 is never used.\<close>
theorem strxfrm_level_flags:
  "n \<in> {1..6} \<Longrightarrow>
     MY_STRXFRM_LEVEL n = Some (2 ^ (n - 1))
     \<and> MY_STRXFRM_REVERSE_LEVEL n = Some (2 ^ (n - 1 + MY_STRXFRM_REVERSE_SHIFT))
     \<and> (MY_STRXFRM_DESC_LEVEL n = Some (2 ^ (n - 1 + MY_STRXFRM_DESC_SHIFT)) \<longleftrightarrow> n \<noteq> 3)
     \<and> MY_STRXFRM_DESC_LEVEL 3 = Some (the (MY_STRXFRM_DESC_LEVEL 1) OR the (MY_STRXFRM_DESC_LEVEL 2))"
proof -
  assume "n \<in> {1..6}"
  then have "n = 1 \<or> n = 2 \<or> n = 3 \<or> n = 4 \<or> n = 5 \<or> n = 6" by auto
  then show ?thesis by (elim disjE) (simp_all add: MY_STRXFRM_REVERSE_SHIFT_def MY_STRXFRM_DESC_SHIFT_def)
qed

theorem strxfrm_level_flags_witness: "MY_STRXFRM_REVERSE_LEVEL 3 = Some 0x40000"
  using strxfrm_level_flags [of 3] by (simp add: MY_STRXFRM_REVERSE_SHIFT_def)

end
