(* ===== verification/CartTree.thy ===== *)
theory CartTree
  imports Main
begin

text \<open>
  The decision trees of the speech synthesiser (Flite, inside OpenEars): cst_cart.h gives the node and
  says that the yes branch of a question "is always the next node" and that \<open>no_node\<close> is the node of the
  other branch, and each us_*_cart.h declares the constants of one tree: its values, and for every question
  node \<open>n\<close> a number \<open>CTNODE_NO_n\<close>, the node of its no branch.  The node arrays themselves and the function
  that interprets them are not in the repository, so the tables are treated as what they are, data: this
  theory says when a list of no branches is that of a tree.  The tables are in CartTables.
\<close>

section \<open>cst_cart.h and cst_val.h\<close>

definition CST_CART_OP_NONE :: nat where "CST_CART_OP_NONE = 255"
definition CST_CART_OP_LEAF :: nat where "CST_CART_OP_LEAF = 255"
definition CST_CART_OP_IS :: nat where "CST_CART_OP_IS = 0"
definition CST_CART_OP_IN :: nat where "CST_CART_OP_IN = 1"
definition CST_CART_OP_LESS :: nat where "CST_CART_OP_LESS = 2"
definition CST_CART_OP_GREATER :: nat where "CST_CART_OP_GREATER = 3"
definition CST_CART_OP_MATCHES :: nat where "CST_CART_OP_MATCHES = 4"
definition CST_CART_OP_EQUALS :: nat where "CST_CART_OP_EQUALS = 5"

text \<open>A declaration of a us_*_cart.h file: a numbered string or float constant, or the no branch of a
  question node.  A float literal has six decimals and is given in millionths.\<close>

datatype cart_decl = VAL_STRING nat string | VAL_FLOAT nat int | CTNODE_NO nat nat

fun ctnodes :: "cart_decl list \<Rightarrow> (nat \<times> nat) list" where
  "ctnodes [] = []"
| "ctnodes (CTNODE_NO p q # ds) = (p, q) # ctnodes ds"
| "ctnodes (VAL_STRING n s # ds) = ctnodes ds"
| "ctnodes (VAL_FLOAT n x # ds) = ctnodes ds"

fun val_names :: "cart_decl list \<Rightarrow> nat list" where
  "val_names [] = []"
| "val_names (CTNODE_NO p q # ds) = val_names ds"
| "val_names (VAL_STRING n s # ds) = n # val_names ds"
| "val_names (VAL_FLOAT n x # ds) = n # val_names ds"

lemma ctnodes_append [simp]: "ctnodes (xs @ ys) = ctnodes xs @ ctnodes ys"
  by (induction xs rule: ctnodes.induct) simp_all

lemma val_names_append [simp]: "val_names (xs @ ys) = val_names xs @ val_names ys"
  by (induction xs rule: val_names.induct) simp_all

section \<open>The shape of a tree\<close>

text \<open>The nodes of a tree numbered in prefix order, yes branch first; \<open>jumps\<close> lists the no branches in
  the order the files have them, after the declarations of the yes branch.\<close>

datatype cart_shape = Leaf | Ask cart_shape cart_shape

fun span :: "cart_shape \<Rightarrow> nat" where
  "span Leaf = 1"
| "span (Ask y n) = 1 + span y + span n"

fun questions :: "cart_shape \<Rightarrow> nat" where
  "questions Leaf = 0"
| "questions (Ask y n) = 1 + questions y + questions n"

fun jumps :: "nat \<Rightarrow> cart_shape \<Rightarrow> (nat \<times> nat) list" where
  "jumps p Leaf = []"
| "jumps p (Ask y n) = jumps (p + 1) y @ (p, p + 1 + span y) # jumps (p + 1 + span y) n"

lemma span_pos [simp]: "0 < span t" by (cases t) simp_all

lemma span_questions: "span t = 2 * questions t + 1"
  by (induction t) simp_all

lemma length_jumps [simp]: "length (jumps p t) = questions t"
  by (induction p t rule: jumps.induct) simp_all

section \<open>The contract of a table\<close>

text \<open>The no branches \<open>js\<close> make a binary tree of the nodes 0 to \<open>N - 1\<close> out of "yes is always the next node": no
  question has two no branches, every other node is the yes or the no branch of exactly one question, and a
  branch lies inside the branch its question belongs to.\<close>

definition branchOf :: "(nat \<times> nat) list \<Rightarrow> nat \<Rightarrow> nat \<Rightarrow> bool" where
  "branchOf js q n \<longleftrightarrow> (\<exists>m. (q, m) \<in> set js \<and> (n = q + 1 \<or> n = m))"

definition cart_tree :: "(nat \<times> nat) list \<Rightarrow> nat \<Rightarrow> bool" where
  "cart_tree js N \<longleftrightarrow>
     distinct (map fst js) \<and> N = 2 * length js + 1
     \<and> (\<forall>(q, m) \<in> set js. q + 1 < m \<and> m < N \<and> (\<forall>(r, k) \<in> set js. q < r \<and> r < m \<longrightarrow> k < m))
     \<and> (\<forall>n. 0 < n \<and> n < N \<longrightarrow> (\<exists>!q. branchOf js q n))"

lemma jumps_range: "(q, m) \<in> set (jumps p t) \<Longrightarrow> p \<le> q \<and> q + 1 < m \<and> m < p + span t"
  by (induction p t rule: jumps.induct) fastforce+

lemma jumps_distinct: "distinct (map fst (jumps p t))"
proof (induction p t rule: jumps.induct)
  case (2 p y n)
  then show ?case
    using jumps_range [of _ _ "p + 1" y] jumps_range [of _ _ "p + 1 + span y" n] by fastforce
qed simp

lemma jumps_nested: "(q, m) \<in> set (jumps p t) \<Longrightarrow> (r, k) \<in> set (jumps p t) \<Longrightarrow> q < r \<Longrightarrow> r < m \<Longrightarrow> k < m"
proof (induction p t rule: jumps.induct)
  case (2 p y n)
  then show ?case
    using jumps_range [of _ _ "p + 1" y] jumps_range [of _ _ "p + 1 + span y" n] by fastforce
qed simp

lemma branchOf_Ask:
  "branchOf (jumps p (Ask y n)) q b \<longleftrightarrow>
     branchOf (jumps (p + 1) y) q b \<or> q = p \<and> (b = p + 1 \<or> b = p + 1 + span y) \<or> branchOf (jumps (p + 1 + span y) n) q b"
  by (auto simp: branchOf_def)

lemma branchOf_range: "branchOf (jumps p t) q b \<Longrightarrow> p < b \<and> b < p + span t"
  using jumps_range by (fastforce simp: branchOf_def)

lemma jumps_one_question: "p < b \<Longrightarrow> b < p + span t \<Longrightarrow> \<exists>!q. branchOf (jumps p t) q b"
proof (induction p t rule: jumps.induct)
  case (2 p y n)
  have y: "\<not> branchOf (jumps (p + 1) y) q b" if "b \<le> p + 1 \<or> p + 1 + span y \<le> b" for q
    using branchOf_range [of "p + 1" y q b] that by auto
  have n: "\<not> branchOf (jumps (p + 1 + span y) n) q b" if "b \<le> p + 1 + span y" for q
    using branchOf_range [of "p + 1 + span y" n q b] that by auto
  consider "b = p + 1 \<or> b = p + 1 + span y" | "p + 1 < b \<and> b < p + 1 + span y" | "p + 1 + span y < b"
    using 2(3) by linarith
  then show ?case
  proof cases
    case 1
    then show ?thesis using y n unfolding branchOf_Ask by auto
  next
    case b: 2
    then have "\<exists>!q. branchOf (jumps (p + 1) y) q b" by (intro 2(1)) auto
    then show ?thesis using b n unfolding branchOf_Ask by auto
  next
    case 3
    then have "\<exists>!q. branchOf (jumps (p + 1 + span y) n) q b" using 2(4) by (intro 2(2)) auto
    then show ?thesis using 3 y unfolding branchOf_Ask by auto
  qed
qed simp

text \<open>It is enough that the no branches are the jumps of some full binary tree.\<close>

locale cart_table =
  fixes js :: "(nat \<times> nat) list" and N :: nat
  assumes shape: "\<exists>t. js = jumps 0 t \<and> N = span t"
begin

lemma is_tree: "cart_tree js N"
proof -
  from shape obtain t where t: "js = jumps 0 t" "N = span t" by blast
  have inside: "q + 1 < m \<and> m < span t \<and> (\<forall>(r, k) \<in> set js. q < r \<and> r < m \<longrightarrow> k < m)" if "(q, m) \<in> set js" for q m
    using that jumps_range [of q m 0 t] jumps_nested [of q m 0 t] unfolding t by fastforce
  have one: "\<exists>!q. branchOf js q n" if "0 < n" "n < N" for n
    using that jumps_one_question [of 0 n t] unfolding t by simp
  have "distinct (map fst js)" "N = 2 * length js + 1"
    using jumps_distinct [of 0 t] span_questions [of t] unfolding t by simp_all
  with inside one t(2) show ?thesis unfolding cart_tree_def by blast
qed

end

end
