(* ===== verification/CartTables.thy ===== *)
theory CartTables
  imports CartTree
begin

text \<open>
  The declarations of the six decision trees of OpenEars' US English voice, as the headers have them, in
  their order: us_durz_cart.h (segment durations), us_pos_cart.h (parts of speech), us_int_accent_cart.h
  and us_int_tone_cart.h (intonation), us_nums_cart.h (kinds of numbers) and us_phrasing_cart.h (phrase
  breaks).  A long file is split into parts.  For each tree the shape is given whose numbering the
  declarations are, which is what the contract of a table asks for.
\<close>

section \<open>us_durz_cart.h\<close>

definition us_durz_1 :: "cart_decl list" where
  "us_durz_1 = [
    VAL_STRING 0 ''pau'', VAL_STRING 1 ''+'', VAL_FLOAT 2 (- 500000), CTNODE_NO 1 3, VAL_STRING 3 ''BB'',
    VAL_FLOAT 4 2000000, CTNODE_NO 3 5, VAL_FLOAT 5 0, CTNODE_NO 0 6, VAL_STRING 6 ''0'',
    VAL_FLOAT 7 1500000, VAL_STRING 8 ''n'', VAL_STRING 9 ''f'', VAL_FLOAT 10 (- 783163), CTNODE_NO 11 13,
    VAL_FLOAT 11 (- 222704), CTNODE_NO 10 14, VAL_STRING 12 ''s'', VAL_STRING 13 ''2'', VAL_FLOAT 14 764459,
    CTNODE_NO 15 17, VAL_FLOAT 15 700000, VAL_FLOAT 16 567944, CTNODE_NO 17 19, VAL_FLOAT 17 53027,
    CTNODE_NO 14 20, VAL_STRING 18 ''l'', VAL_STRING 19 ''1'', VAL_FLOAT 20 766486, CTNODE_NO 21 23,
    VAL_FLOAT 21 279248, CTNODE_NO 23 25, VAL_FLOAT 22 56777, CTNODE_NO 20 26, VAL_STRING 23 ''coda'',
    VAL_FLOAT 24 (- 38356), CTNODE_NO 27 29, VAL_FLOAT 25 (- 545853), CTNODE_NO 29 31,
    VAL_FLOAT 26 (- 765994), CTNODE_NO 26 32, VAL_STRING 27 ''det'', VAL_FLOAT 28 300000,
    VAL_FLOAT 29 1000000, VAL_FLOAT 30 160195, CTNODE_NO 34 36, VAL_FLOAT 31 713958, CTNODE_NO 33 37,
    VAL_FLOAT 32 (- 215472), CTNODE_NO 32 38, VAL_STRING 33 ''r'', VAL_FLOAT 34 92772, CTNODE_NO 38 40,
    VAL_FLOAT 35 1328, CTNODE_NO 40 42, VAL_FLOAT 36 (- 334898), CTNODE_NO 9 43, VAL_FLOAT 37 500000,
    VAL_FLOAT 38 200000, VAL_FLOAT 39 (- 41618), CTNODE_NO 45 47, VAL_FLOAT 40 2300000, VAL_FLOAT 41 262952,
    CTNODE_NO 47 49, VAL_FLOAT 42 594794, CTNODE_NO 44 50, VAL_STRING 43 ''mid'', VAL_FLOAT 44 (- 760444),
    CTNODE_NO 51 53, VAL_FLOAT 45 6800000, VAL_STRING 46 ''a'', VAL_FLOAT 47 (- 450449), CTNODE_NO 54 56,
    VAL_FLOAT 48 1300000, VAL_FLOAT 49 (- 296956), CTNODE_NO 57 59, VAL_FLOAT 50 2400000,
    VAL_FLOAT 51 42287, CTNODE_NO 59 61, VAL_FLOAT 52 (- 154465), CTNODE_NO 56 62, VAL_FLOAT 53 3600000,
    VAL_FLOAT 54 1200000, VAL_FLOAT 55 (- 264199), CTNODE_NO 63 65, VAL_FLOAT 56 (- 541738),
    CTNODE_NO 62 66, VAL_FLOAT 57 (- 166623), CTNODE_NO 53 67, VAL_FLOAT 58 (- 571730), CTNODE_NO 50 68,
    VAL_STRING 59 ''cc'', VAL_FLOAT 60 313289, CTNODE_NO 68 70, VAL_FLOAT 61 69582, CTNODE_NO 70 72,
    VAL_FLOAT 62 2700000, VAL_FLOAT 63 (- 367088), CTNODE_NO 73 75, VAL_FLOAT 64 (- 194887),
    CTNODE_NO 72 76, VAL_FLOAT 65 (- 63749), CTNODE_NO 43 77, VAL_FLOAT 66 (- 333421), CTNODE_NO 79 81,
    VAL_FLOAT 67 (- 165383), CTNODE_NO 78 82, VAL_FLOAT 68 (- 516332), CTNODE_NO 77 83,
    VAL_FLOAT 69 (- 779112), CTNODE_NO 84 86, VAL_FLOAT 70 (- 337611), CTNODE_NO 83 87,
    VAL_FLOAT 71 1400000, VAL_FLOAT 72 (- 745807), CTNODE_NO 87 89, VAL_FLOAT 73 (- 1049070),
    CTNODE_NO 89 91, VAL_FLOAT 74 (- 914974), CTNODE_NO 8 92, VAL_STRING 75 ''initial'',
    VAL_FLOAT 76 172658, CTNODE_NO 95 97, VAL_FLOAT 77 (- 101423), CTNODE_NO 94 98, VAL_FLOAT 78 (- 360092),
    CTNODE_NO 93 99, VAL_FLOAT 79 2900000, VAL_FLOAT 80 1100000, VAL_FLOAT 81 764189, CTNODE_NO 101 103,
    VAL_FLOAT 82 555132, CTNODE_NO 104 106, VAL_FLOAT 83 369882, CTNODE_NO 103 107, VAL_FLOAT 84 666966,
    CTNODE_NO 100 108, VAL_FLOAT 85 400000, VAL_FLOAT 86 240634, CTNODE_NO 110 112, VAL_FLOAT 87 486176,
    CTNODE_NO 109 113, VAL_FLOAT 88 573811, CTNODE_NO 108 114, VAL_FLOAT 89 194468, CTNODE_NO 99 115,
    VAL_FLOAT 90 499383, CTNODE_NO 115 117, VAL_FLOAT 91 73732, CTNODE_NO 119 121]"

definition us_durz_2 :: "cart_decl list" where
  "us_durz_2 = [
    VAL_FLOAT 92 331014, CTNODE_NO 118 122, VAL_FLOAT 93 92930, CTNODE_NO 122 124, VAL_FLOAT 94 (- 44327),
    CTNODE_NO 117 125, VAL_FLOAT 95 517681, CTNODE_NO 126 128, VAL_FLOAT 96 128316, CTNODE_NO 128 130,
    VAL_FLOAT 97 361383, CTNODE_NO 125 131, VAL_FLOAT 98 54136, CTNODE_NO 131 133, VAL_FLOAT 99 246742,
    CTNODE_NO 92 134, VAL_FLOAT 100 621547, CTNODE_NO 135 137, VAL_FLOAT 101 501679, CTNODE_NO 137 139,
    VAL_FLOAT 102 3300000, VAL_FLOAT 103 (- 42049), CTNODE_NO 140 142, VAL_FLOAT 104 183226,
    CTNODE_NO 139 143, VAL_FLOAT 105 284799, CTNODE_NO 134 144, VAL_FLOAT 106 (- 820934), CTNODE_NO 145 147,
    VAL_FLOAT 107 (- 348735), CTNODE_NO 144 148, VAL_FLOAT 108 (- 400920), CTNODE_NO 149 151,
    VAL_FLOAT 109 (- 639366), CTNODE_NO 148 152, VAL_FLOAT 110 364857, CTNODE_NO 152 154,
    VAL_FLOAT 111 3400000, VAL_FLOAT 112 (- 7686), CTNODE_NO 155 157, VAL_FLOAT 113 (- 197753),
    CTNODE_NO 154 158, VAL_FLOAT 114 (- 394632), CTNODE_NO 7 159, VAL_FLOAT 115 100000,
    VAL_FLOAT 116 938841, CTNODE_NO 162 164, VAL_FLOAT 117 (- 79664), CTNODE_NO 164 166,
    VAL_FLOAT 118 480026, CTNODE_NO 166 168, VAL_FLOAT 119 127175, CTNODE_NO 161 169,
    VAL_FLOAT 120 (- 708767), CTNODE_NO 170 172, VAL_FLOAT 121 (- 236212), CTNODE_NO 169 173,
    VAL_FLOAT 122 (- 273389), CTNODE_NO 174 176, VAL_STRING 123 ''in'', VAL_FLOAT 124 58134,
    CTNODE_NO 176 178, VAL_FLOAT 125 721904, CTNODE_NO 178 180, VAL_FLOAT 126 2200000, VAL_FLOAT 127 16121,
    CTNODE_NO 181 183, VAL_FLOAT 128 227372, CTNODE_NO 180 184, VAL_FLOAT 129 445569, CTNODE_NO 173 185,
    VAL_FLOAT 130 (- 120097), CTNODE_NO 187 189, VAL_FLOAT 131 219042, CTNODE_NO 186 190,
    VAL_FLOAT 132 321245, CTNODE_NO 185 191, VAL_FLOAT 133 134075, CTNODE_NO 191 193,
    VAL_FLOAT 134 (- 466418), CTNODE_NO 193 195, VAL_FLOAT 135 (- 425925), CTNODE_NO 197 199,
    VAL_FLOAT 136 (- 542809), CTNODE_NO 196 200, VAL_FLOAT 137 (- 201899), CTNODE_NO 195 201,
    VAL_FLOAT 138 209018, CTNODE_NO 202 204, VAL_FLOAT 139 (- 178136), CTNODE_NO 201 205,
    VAL_FLOAT 140 (- 235593), CTNODE_NO 206 208, VAL_FLOAT 141 126118, CTNODE_NO 205 209,
    VAL_FLOAT 142 (- 174812), CTNODE_NO 209 211, VAL_STRING 143 ''content'', VAL_FLOAT 144 (- 231509),
    CTNODE_NO 211 213, VAL_FLOAT 145 (- 536405), CTNODE_NO 160 214, VAL_FLOAT 146 163343, CTNODE_NO 214 216,
    VAL_FLOAT 147 (- 455280), CTNODE_NO 217 219, VAL_FLOAT 148 (- 99803), CTNODE_NO 216 220,
    VAL_FLOAT 149 (- 930547), CTNODE_NO 220 222, VAL_FLOAT 150 (- 634119), CTNODE_NO 223 225,
    VAL_FLOAT 151 (- 760176), CTNODE_NO 222 226, VAL_FLOAT 152 (- 121355), CTNODE_NO 226 228,
    VAL_FLOAT 153 (- 557509), CTNODE_NO 159 229, VAL_FLOAT 154 (- 402734), CTNODE_NO 231 233,
    VAL_FLOAT 155 (- 988478), CTNODE_NO 234 236, VAL_FLOAT 156 (- 802536), CTNODE_NO 236 238,
    VAL_FLOAT 157 (- 900628), CTNODE_NO 233 239, VAL_FLOAT 158 (- 768992), CTNODE_NO 240 242,
    VAL_FLOAT 159 (- 574918), CTNODE_NO 239 243, VAL_FLOAT 160 (- 756359), CTNODE_NO 243 245,
    VAL_FLOAT 161 (- 808937), CTNODE_NO 245 247, VAL_FLOAT 162 (- 933150), CTNODE_NO 230 248,
    VAL_FLOAT 163 (- 428493), CTNODE_NO 252 254, VAL_FLOAT 164 21107, CTNODE_NO 254 256,
    VAL_FLOAT 165 (- 254485), CTNODE_NO 251 257, VAL_FLOAT 166 (- 389966), CTNODE_NO 258 260,
    VAL_FLOAT 167 185781, CTNODE_NO 257 261, VAL_FLOAT 168 422551, CTNODE_NO 261 263, VAL_FLOAT 169 145576,
    CTNODE_NO 250 264]"

definition us_durz_3 :: "cart_decl list" where
  "us_durz_3 = [
    VAL_FLOAT 170 (- 623190), CTNODE_NO 266 268, VAL_FLOAT 171 (- 317324), CTNODE_NO 268 270,
    VAL_FLOAT 172 (- 591051), CTNODE_NO 265 271, VAL_FLOAT 173 (- 405607), CTNODE_NO 272 274,
    VAL_FLOAT 174 (- 313148), CTNODE_NO 271 275, VAL_FLOAT 175 159416, CTNODE_NO 275 277,
    VAL_FLOAT 176 (- 254651), CTNODE_NO 264 278, VAL_FLOAT 177 (- 799896), CTNODE_NO 278 280,
    VAL_FLOAT 178 (- 551309), CTNODE_NO 249 281, VAL_STRING 179 ''final'', VAL_FLOAT 180 (- 707084),
    CTNODE_NO 281 283, VAL_FLOAT 181 (- 901874), CTNODE_NO 248 284, VAL_FLOAT 182 196466, CTNODE_NO 287 289,
    VAL_FLOAT 183 3824, CTNODE_NO 286 290, VAL_FLOAT 184 (- 128590), CTNODE_NO 285 291,
    VAL_FLOAT 185 (- 219339), CTNODE_NO 291 293, VAL_FLOAT 186 (- 516734), CTNODE_NO 284 294,
    VAL_STRING 187 ''single'', VAL_FLOAT 188 159445, CTNODE_NO 297 299, VAL_FLOAT 189 3500000,
    VAL_FLOAT 190 (- 419103), CTNODE_NO 300 302, VAL_FLOAT 191 (- 92856), CTNODE_NO 299 303,
    VAL_FLOAT 192 (- 576116), CTNODE_NO 296 304, VAL_STRING 193 ''3'', VAL_FLOAT 194 (- 645830),
    CTNODE_NO 304 306, VAL_FLOAT 195 (- 466500), CTNODE_NO 295 307, VAL_FLOAT 196 (- 217292),
    CTNODE_NO 307 309, VAL_FLOAT 197 (- 304382), CTNODE_NO 309 311, VAL_FLOAT 198 (- 572203),
    CTNODE_NO 313 315, VAL_FLOAT 199 (- 240338), CTNODE_NO 312 316, VAL_FLOAT 200 (- 588171),
    CTNODE_NO 316 318, VAL_FLOAT 201 (- 957970), CTNODE_NO 311 319, VAL_FLOAT 202 3900000,
    VAL_FLOAT 203 (- 959427), CTNODE_NO 319 321, VAL_FLOAT 204 (- 845747), CTNODE_NO 294 322,
    VAL_FLOAT 205 (- 482247), CTNODE_NO 323 325, VAL_FLOAT 206 (- 632362), CTNODE_NO 325 327,
    VAL_FLOAT 207 (- 713117), CTNODE_NO 328 330, VAL_FLOAT 208 (- 924308), CTNODE_NO 327 331,
    VAL_FLOAT 209 (- 891342), CTNODE_NO 331 333, VAL_FLOAT 210 (- 1152520), CTNODE_NO 322 334,
    VAL_FLOAT 211 (- 599624), CTNODE_NO 335 337, VAL_FLOAT 212 (- 77191), CTNODE_NO 334 338,
    VAL_FLOAT 213 (- 1032420), CTNODE_NO 340 342, VAL_FLOAT 214 (- 542799), CTNODE_NO 339 343,
    VAL_FLOAT 215 2800000, VAL_FLOAT 216 (- 423979), CTNODE_NO 343 345, VAL_FLOAT 217 (- 766379),
    CTNODE_NO 338 346, VAL_STRING 218 ''to'', VAL_FLOAT 219 (- 792895), CTNODE_NO 347 349,
    VAL_FLOAT 220 (- 276816), CTNODE_NO 349 351, VAL_FLOAT 221 (- 523721), CTNODE_NO 346 352,
    VAL_FLOAT 222 (- 488102), CTNODE_NO 353 355, VAL_FLOAT 223 (- 731758), CTNODE_NO 352 356,
    VAL_FLOAT 224 (- 822229), CTNODE_NO 229 357, VAL_FLOAT 225 1023340, CTNODE_NO 359 361,
    VAL_FLOAT 226 536277, CTNODE_NO 361 363, VAL_FLOAT 227 138201, CTNODE_NO 358 364,
    VAL_FLOAT 228 (- 234710), CTNODE_NO 365 367, VAL_FLOAT 229 (- 525292), CTNODE_NO 364 368,
    VAL_FLOAT 230 417485, CTNODE_NO 368 370, VAL_FLOAT 231 (- 78200), CTNODE_NO 357 371,
    VAL_FLOAT 232 (- 569410), CTNODE_NO 375 377, VAL_FLOAT 233 (- 289362), CTNODE_NO 374 378,
    VAL_FLOAT 234 (- 92104), CTNODE_NO 373 379, VAL_FLOAT 235 139463, CTNODE_NO 379 381,
    VAL_FLOAT 236 (- 70872), CTNODE_NO 372 382, VAL_FLOAT 237 (- 618971), CTNODE_NO 383 385,
    VAL_FLOAT 238 (- 840495), CTNODE_NO 382 386, VAL_FLOAT 239 9134, CTNODE_NO 388 390,
    VAL_FLOAT 240 (- 512523), CTNODE_NO 391 393, VAL_FLOAT 241 121704, CTNODE_NO 393 395,
    VAL_FLOAT 242 (- 256370), CTNODE_NO 390 396, VAL_FLOAT 243 3100000, VAL_FLOAT 244 (- 474522),
    CTNODE_NO 397 399, VAL_FLOAT 245 (- 247206), CTNODE_NO 396 400, VAL_FLOAT 246 (- 597866),
    CTNODE_NO 401 403, VAL_FLOAT 247 (- 407765), CTNODE_NO 400 404, VAL_FLOAT 248 (- 741256),
    CTNODE_NO 387 405]"

definition us_durz_4 :: "cart_decl list" where
  "us_durz_4 = [
    VAL_FLOAT 249 (- 1084260), CTNODE_NO 406 408, VAL_FLOAT 250 (- 397890), CTNODE_NO 405 409,
    VAL_FLOAT 251 2600000, VAL_FLOAT 252 (- 666011), CTNODE_NO 410 412, VAL_FLOAT 253 (- 499492),
    CTNODE_NO 409 413, VAL_FLOAT 254 (- 253186), CTNODE_NO 413 415, VAL_FLOAT 255 (- 372832),
    CTNODE_NO 386 416, VAL_FLOAT 256 (- 93649), CTNODE_NO 371 417, VAL_FLOAT 257 (- 249982),
    CTNODE_NO 417 419, VAL_FLOAT 258 3200000, VAL_FLOAT 259 180860, CTNODE_NO 419 421,
    VAL_FLOAT 260 (- 40291), CTNODE_NO 6 422, VAL_STRING 261 ''4'', VAL_FLOAT 262 1632030,
    CTNODE_NO 427 429, VAL_FLOAT 263 994933, CTNODE_NO 426 430, VAL_FLOAT 264 214457, CTNODE_NO 431 433,
    VAL_FLOAT 265 730381, CTNODE_NO 430 434, VAL_FLOAT 266 (- 336221), CTNODE_NO 435 437,
    VAL_FLOAT 267 468302, CTNODE_NO 434 438, VAL_FLOAT 268 (- 799121), CTNODE_NO 425 439,
    VAL_FLOAT 269 30061, CTNODE_NO 440 442, VAL_STRING 270 ''d'', VAL_FLOAT 271 1164900, CTNODE_NO 442 444,
    VAL_FLOAT 272 2266800, CTNODE_NO 445 447, VAL_FLOAT 273 1503750, CTNODE_NO 447 449,
    VAL_FLOAT 274 2079270, CTNODE_NO 444 450, VAL_FLOAT 275 1102430, CTNODE_NO 450 452,
    VAL_FLOAT 276 1843200, CTNODE_NO 452 454, VAL_FLOAT 277 1598530, CTNODE_NO 439 455,
    VAL_FLOAT 278 1129270, CTNODE_NO 457 459, VAL_FLOAT 279 442376, CTNODE_NO 456 460,
    VAL_FLOAT 280 1765080, CTNODE_NO 462 464, VAL_FLOAT 281 748600, CTNODE_NO 461 465,
    VAL_FLOAT 282 2308260, CTNODE_NO 460 466, VAL_FLOAT 283 1699170, CTNODE_NO 466 468,
    VAL_FLOAT 284 1311280, CTNODE_NO 468 470, VAL_FLOAT 285 212421, CTNODE_NO 471 473, VAL_FLOAT 286 653094,
    CTNODE_NO 470 474, VAL_FLOAT 287 1258020, CTNODE_NO 474 476, VAL_FLOAT 288 777568, CTNODE_NO 455 477,
    VAL_FLOAT 289 163941, CTNODE_NO 478 480, VAL_FLOAT 290 (- 167063), CTNODE_NO 477 481,
    VAL_FLOAT 291 (- 859), CTNODE_NO 484 486, VAL_FLOAT 292 273433, CTNODE_NO 483 487,
    VAL_FLOAT 293 1056940, CTNODE_NO 487 489, VAL_FLOAT 294 244916, CTNODE_NO 482 490,
    VAL_FLOAT 295 1211870, CTNODE_NO 491 493, VAL_FLOAT 296 598650, CTNODE_NO 493 495,
    VAL_FLOAT 297 1163400, CTNODE_NO 490 496, VAL_FLOAT 298 292935, CTNODE_NO 496 498, VAL_FLOAT 299 925740,
    CTNODE_NO 481 499, VAL_FLOAT 300 1234840, CTNODE_NO 500 502, VAL_FLOAT 301 2020080, CTNODE_NO 499 503,
    VAL_FLOAT 302 697089, CTNODE_NO 504 506, VAL_FLOAT 303 992197, CTNODE_NO 506 508, VAL_FLOAT 304 1510930,
    CTNODE_NO 503 509, VAL_FLOAT 305 520952, CTNODE_NO 424 510, VAL_FLOAT 306 185827, CTNODE_NO 513 515,
    VAL_FLOAT 307 33230, CTNODE_NO 515 517, VAL_FLOAT 308 (- 534917), CTNODE_NO 512 518,
    VAL_FLOAT 309 575107, CTNODE_NO 518 520, VAL_FLOAT 310 (- 111275), CTNODE_NO 520 522,
    VAL_FLOAT 311 94470, CTNODE_NO 522 524, VAL_FLOAT 312 381947, CTNODE_NO 511 525,
    VAL_FLOAT 313 (- 490108), CTNODE_NO 525 527, VAL_FLOAT 314 (- 201268), CTNODE_NO 510 528,
    VAL_FLOAT 315 1203970, CTNODE_NO 528 530, VAL_FLOAT 316 636568, CTNODE_NO 530 532,
    VAL_FLOAT 317 1077630, CTNODE_NO 423 533, VAL_FLOAT 318 (- 16336), CTNODE_NO 537 539,
    VAL_FLOAT 319 1072530, CTNODE_NO 540 542, VAL_FLOAT 320 525806, CTNODE_NO 542 544, VAL_FLOAT 321 952792,
    CTNODE_NO 539 545, VAL_FLOAT 322 469117, CTNODE_NO 546 548, VAL_FLOAT 323 (- 71645), CTNODE_NO 548 550,
    VAL_FLOAT 324 457137, CTNODE_NO 550 552, VAL_FLOAT 325 102492, CTNODE_NO 545 553]"

definition us_durz_5 :: "cart_decl list" where
  "us_durz_5 = [
    VAL_FLOAT 326 697337, CTNODE_NO 553 555, VAL_FLOAT 327 375114, CTNODE_NO 536 556, VAL_FLOAT 328 410671,
    CTNODE_NO 556 558, VAL_FLOAT 329 800000, VAL_FLOAT 330 (- 331055), CTNODE_NO 558 560,
    VAL_FLOAT 331 (- 240616), CTNODE_NO 560 562, VAL_FLOAT 332 (- 19127), CTNODE_NO 535 563,
    VAL_FLOAT 333 556537, CTNODE_NO 564 566, VAL_FLOAT 334 153892, CTNODE_NO 563 567, VAL_FLOAT 335 123242,
    CTNODE_NO 569 571, VAL_FLOAT 336 295753, CTNODE_NO 568 572, VAL_FLOAT 337 (- 341018), CTNODE_NO 574 576,
    VAL_FLOAT 338 (- 8931), CTNODE_NO 573 577, VAL_FLOAT 339 (- 744625), CTNODE_NO 577 579,
    VAL_FLOAT 340 (- 302803), CTNODE_NO 572 580, VAL_FLOAT 341 113815, CTNODE_NO 580 582,
    VAL_FLOAT 342 (- 128733), CTNODE_NO 567 583, VAL_FLOAT 343 (- 854509), CTNODE_NO 583 585,
    VAL_FLOAT 344 (- 216179), CTNODE_NO 534 586, VAL_FLOAT 345 461950, CTNODE_NO 587 589,
    VAL_FLOAT 346 657169, CTNODE_NO 589 591, VAL_FLOAT 347 1082220, CTNODE_NO 591 593,
    VAL_FLOAT 348 1462570, CTNODE_NO 586 594, VAL_FLOAT 349 785204, CTNODE_NO 594 596, VAL_FLOAT 350 321168,
    CTNODE_NO 597 599, VAL_FLOAT 351 950834, CTNODE_NO 596 600, VAL_FLOAT 352 (- 167374), CTNODE_NO 602 604,
    VAL_FLOAT 353 (- 3744), CTNODE_NO 605 607, VAL_FLOAT 354 228448, CTNODE_NO 607 609,
    VAL_FLOAT 355 504252, CTNODE_NO 604 610, VAL_FLOAT 356 736476, CTNODE_NO 601 611, VAL_FLOAT 357 59097,
    CTNODE_NO 611 613, VAL_FLOAT 358 (- 431535), CTNODE_NO 600 614, VAL_FLOAT 359 1006420,
    CTNODE_NO 614 616, VAL_FLOAT 360 481652, CTNODE_NO 617 619, VAL_FLOAT 361 749861, CTNODE_NO 616 620,
    VAL_FLOAT 362 69631, CTNODE_NO 621 623, VAL_FLOAT 363 552212, CTNODE_NO 620 624,
    VAL_FLOAT 364 (- 47922), CTNODE_NO 533 625, VAL_FLOAT 365 (- 1060900), CTNODE_NO 626 628,
    VAL_FLOAT 366 (- 599330), CTNODE_NO 628 630, VAL_FLOAT 367 6987, CTNODE_NO 630 632,
    VAL_FLOAT 368 (- 64904), CTNODE_NO 633 635, VAL_FLOAT 369 (- 248899), CTNODE_NO 632 636,
    VAL_FLOAT 370 (- 601987), CTNODE_NO 636 638, VAL_FLOAT 371 (- 302401), CTNODE_NO 625 639,
    VAL_FLOAT 372 164636, CTNODE_NO 642 644, VAL_FLOAT 373 (- 98905), CTNODE_NO 641 645,
    VAL_FLOAT 374 (- 316836), CTNODE_NO 645 647, VAL_FLOAT 375 (- 96119), CTNODE_NO 640 648,
    VAL_FLOAT 376 (- 429437), CTNODE_NO 649 651, VAL_FLOAT 377 (- 65274), CTNODE_NO 648 652,
    VAL_FLOAT 378 (- 635089), CTNODE_NO 639 653, VAL_FLOAT 379 13936, CTNODE_NO 654 656,
    VAL_FLOAT 380 (- 454845), CTNODE_NO 653 657, VAL_FLOAT 381 809091, CTNODE_NO 658 660,
    VAL_FLOAT 382 (- 277092), CTNODE_NO 661 663, VAL_FLOAT 383 281001, CTNODE_NO 660 664,
    VAL_FLOAT 384 699145, CTNODE_NO 664 666, VAL_FLOAT 385 241873, CTNODE_NO 657 667,
    VAL_FLOAT 386 (- 470784), CTNODE_NO 668 670, VAL_FLOAT 387 (- 72112), CTNODE_NO 667 671,
    VAL_FLOAT 388 73349, CTNODE_NO 671 673, VAL_FLOAT 389 608371, CTNODE_NO 422 674,
    VAL_FLOAT 390 (- 293282), CTNODE_NO 678 680, VAL_FLOAT 391 (- 81611), CTNODE_NO 677 681,
    VAL_FLOAT 392 (- 504024), CTNODE_NO 676 682, VAL_FLOAT 393 983950, CTNODE_NO 683 685,
    VAL_FLOAT 394 634789, CTNODE_NO 685 687, VAL_FLOAT 395 4400000, VAL_FLOAT 396 479029, CTNODE_NO 687 689,
    VAL_FLOAT 397 143214, CTNODE_NO 689 691, VAL_FLOAT 398 406834, CTNODE_NO 682 692, VAL_FLOAT 399 600000,
    VAL_FLOAT 400 (- 415599), CTNODE_NO 693 695, VAL_FLOAT 401 110288, CTNODE_NO 692 696,
    VAL_FLOAT 402 31419]"

definition us_durz_6 :: "cart_decl list" where
  "us_durz_6 = [
    CTNODE_NO 697 699, VAL_FLOAT 403 693893, CTNODE_NO 699 701, VAL_FLOAT 404 6000000, VAL_FLOAT 405 215675,
    CTNODE_NO 701 703, VAL_FLOAT 406 574068, CTNODE_NO 696 704, VAL_FLOAT 407 (- 458142), CTNODE_NO 704 706,
    VAL_FLOAT 408 304628, CTNODE_NO 707 709, VAL_FLOAT 409 (- 230940), CTNODE_NO 709 711,
    VAL_FLOAT 410 326954, CTNODE_NO 713 715, VAL_FLOAT 411 (- 100616), CTNODE_NO 712 716,
    VAL_FLOAT 412 (- 91913), CTNODE_NO 711 717, VAL_FLOAT 413 219053, CTNODE_NO 706 718,
    VAL_FLOAT 414 216118, CTNODE_NO 719 721, VAL_FLOAT 415 (- 8341), CTNODE_NO 718 722,
    VAL_FLOAT 416 761763, CTNODE_NO 722 724, VAL_FLOAT 417 332721, CTNODE_NO 675 725, VAL_FLOAT 418 217178,
    CTNODE_NO 726 728, VAL_FLOAT 419 1294510, CTNODE_NO 728 730, VAL_FLOAT 420 4000000,
    VAL_FLOAT 421 945261, CTNODE_NO 734 736, VAL_FLOAT 422 687498, CTNODE_NO 733 737, VAL_FLOAT 423 403076,
    CTNODE_NO 732 738, VAL_FLOAT 424 1002550, CTNODE_NO 731 739, VAL_FLOAT 425 1091130, CTNODE_NO 730 740,
    VAL_FLOAT 426 209045, CTNODE_NO 725 741, VAL_FLOAT 427 (- 54407), CTNODE_NO 741 743,
    VAL_FLOAT 428 256045, CTNODE_NO 674 744, VAL_FLOAT 429 (- 967300), CTNODE_NO 746 748,
    VAL_FLOAT 430 (- 351397), CTNODE_NO 745 749, VAL_FLOAT 431 (- 623300), CTNODE_NO 749 751,
    VAL_FLOAT 432 266234, CTNODE_NO 752 754, VAL_FLOAT 433 (- 302281), CTNODE_NO 754 756,
    VAL_FLOAT 434 (- 10244), CTNODE_NO 757 759, VAL_FLOAT 435 (- 274514), CTNODE_NO 756 760,
    VAL_FLOAT 436 48218, CTNODE_NO 751 761, VAL_FLOAT 437 888495, CTNODE_NO 761 763, VAL_FLOAT 438 653018,
    CTNODE_NO 763 765, VAL_FLOAT 439 61289, CTNODE_NO 765 767, VAL_FLOAT 440 346637, CTNODE_NO 744 768,
    VAL_FLOAT 441 41181, CTNODE_NO 770 772, VAL_FLOAT 442 613305, CTNODE_NO 769 773, VAL_FLOAT 443 175467,
    CTNODE_NO 774 776, VAL_FLOAT 444 (- 276407), CTNODE_NO 773 777, VAL_FLOAT 445 (- 550878),
    CTNODE_NO 768 778, VAL_FLOAT 446 (- 240328), CTNODE_NO 781 783, VAL_FLOAT 447 330352, CTNODE_NO 783 785,
    VAL_FLOAT 448 (- 81668), CTNODE_NO 780 786, VAL_FLOAT 449 383533, CTNODE_NO 787 789,
    VAL_FLOAT 450 (- 324515), CTNODE_NO 786 790, VAL_FLOAT 451 (- 624870), CTNODE_NO 791 793,
    VAL_FLOAT 452 (- 513869), CTNODE_NO 793 795, VAL_FLOAT 453 207874, CTNODE_NO 796 798,
    VAL_FLOAT 454 (- 20471), CTNODE_NO 795 799, VAL_FLOAT 455 397372, CTNODE_NO 790 800,
    VAL_FLOAT 456 271734, CTNODE_NO 802 804, VAL_FLOAT 457 (- 261466), CTNODE_NO 804 806,
    VAL_FLOAT 458 (- 9566), CTNODE_NO 801 807, VAL_FLOAT 459 (- 381895), CTNODE_NO 807 809,
    VAL_FLOAT 460 (- 89877), CTNODE_NO 800 810, VAL_FLOAT 461 (- 1126260), CTNODE_NO 811 813,
    VAL_FLOAT 462 (- 906926), CTNODE_NO 815 817, VAL_FLOAT 463 (- 625651), CTNODE_NO 814 818,
    VAL_FLOAT 464 (- 385089), CTNODE_NO 813 819, VAL_FLOAT 465 (- 359702), CTNODE_NO 810 820,
    VAL_FLOAT 466 216904, CTNODE_NO 821 823, VAL_FLOAT 467 (- 394349), CTNODE_NO 820 824,
    VAL_FLOAT 468 (- 860573), CTNODE_NO 825 827, VAL_FLOAT 469 (- 510488), CTNODE_NO 824 828,
    VAL_FLOAT 470 10843, CTNODE_NO 832 834, VAL_FLOAT 471 (- 35054), CTNODE_NO 834 836,
    VAL_FLOAT 472 (- 179727), CTNODE_NO 837 839, VAL_FLOAT 473 (- 297341), CTNODE_NO 836 840,
    VAL_FLOAT 474 (- 542602), CTNODE_NO 831 841, VAL_FLOAT 475 (- 604960), CTNODE_NO 841 843,
    VAL_FLOAT 476 (- 432058), CTNODE_NO 830 844, VAL_FLOAT 477 (- 389079), CTNODE_NO 844 846,
    VAL_FLOAT 478 (- 735640)]"

definition us_durz_7 :: "cart_decl list" where
  "us_durz_7 = [
    CTNODE_NO 846 848, VAL_FLOAT 479 (- 605444), CTNODE_NO 829 849, VAL_FLOAT 480 (- 827377),
    CTNODE_NO 849 851, VAL_FLOAT 481 (- 275338), CTNODE_NO 851 853, VAL_FLOAT 482 (- 802801),
    CTNODE_NO 853 855, VAL_FLOAT 483 (- 371234), CTNODE_NO 855 857, VAL_FLOAT 484 (- 772883),
    CTNODE_NO 828 858, VAL_FLOAT 485 (- 655006), CTNODE_NO 860 862, VAL_FLOAT 486 (- 303751),
    CTNODE_NO 862 864, VAL_FLOAT 487 (- 456882), CTNODE_NO 859 865, VAL_FLOAT 488 (- 133182),
    CTNODE_NO 858 866, VAL_FLOAT 489 114442, CTNODE_NO 866 868, VAL_FLOAT 490 (- 167545), CTNODE_NO 779 869,
    VAL_FLOAT 491 (- 876950), CTNODE_NO 869 871, VAL_FLOAT 492 (- 640572), CTNODE_NO 871 873,
    VAL_FLOAT 493 (- 321322), CTNODE_NO 778 874, VAL_FLOAT 494 (- 925472)]"

definition us_durz_decls :: "cart_decl list" where
  "us_durz_decls = us_durz_1 @ us_durz_2 @ us_durz_3 @ us_durz_4 @ us_durz_5 @ us_durz_6 @ us_durz_7"

definition us_durz_shape :: cart_shape where
  "us_durz_shape =
    Ask (Ask Leaf (Ask Leaf Leaf)) (Ask (Ask (Ask (Ask (Ask (Ask Leaf Leaf) (Ask (Ask Leaf (Ask Leaf Leaf))
    (Ask (Ask Leaf (Ask Leaf Leaf)) (Ask (Ask Leaf (Ask Leaf Leaf)) (Ask (Ask (Ask Leaf Leaf) Leaf) (Ask
    Leaf (Ask Leaf Leaf))))))) (Ask (Ask (Ask Leaf (Ask Leaf Leaf)) (Ask (Ask Leaf (Ask (Ask Leaf (Ask (Ask
    Leaf (Ask Leaf Leaf)) (Ask (Ask Leaf Leaf) Leaf))) Leaf)) (Ask Leaf (Ask Leaf (Ask (Ask Leaf Leaf)
    Leaf))))) (Ask (Ask (Ask Leaf Leaf) Leaf) (Ask (Ask Leaf Leaf) (Ask Leaf (Ask Leaf Leaf)))))) (Ask (Ask
    (Ask (Ask Leaf Leaf) Leaf) (Ask (Ask (Ask Leaf (Ask (Ask Leaf Leaf) Leaf)) (Ask (Ask (Ask Leaf Leaf)
    Leaf) Leaf)) (Ask Leaf (Ask (Ask (Ask Leaf Leaf) (Ask Leaf Leaf)) (Ask (Ask Leaf (Ask Leaf Leaf)) (Ask
    Leaf Leaf)))))) (Ask (Ask Leaf (Ask Leaf (Ask (Ask Leaf Leaf) Leaf))) (Ask (Ask Leaf Leaf) (Ask (Ask
    Leaf Leaf) (Ask Leaf (Ask (Ask Leaf Leaf) Leaf))))))) (Ask (Ask (Ask (Ask Leaf (Ask Leaf (Ask Leaf
    Leaf))) (Ask (Ask Leaf Leaf) (Ask (Ask Leaf (Ask Leaf (Ask Leaf (Ask (Ask Leaf Leaf) Leaf)))) (Ask (Ask
    (Ask Leaf Leaf) Leaf) (Ask Leaf (Ask Leaf (Ask (Ask (Ask Leaf Leaf) Leaf) (Ask (Ask Leaf Leaf) (Ask
    (Ask Leaf Leaf) (Ask Leaf (Ask Leaf Leaf))))))))))) (Ask Leaf (Ask (Ask Leaf Leaf) (Ask Leaf (Ask (Ask
    Leaf Leaf) (Ask Leaf Leaf)))))) (Ask (Ask (Ask Leaf (Ask (Ask Leaf (Ask Leaf Leaf)) (Ask (Ask Leaf
    Leaf) (Ask Leaf (Ask Leaf Leaf))))) (Ask (Ask (Ask (Ask (Ask Leaf (Ask Leaf Leaf)) (Ask (Ask Leaf Leaf)
    (Ask Leaf Leaf))) (Ask (Ask (Ask Leaf (Ask Leaf Leaf)) (Ask (Ask Leaf Leaf) (Ask Leaf Leaf))) (Ask Leaf
    Leaf))) (Ask Leaf Leaf)) (Ask (Ask (Ask (Ask Leaf Leaf) Leaf) (Ask Leaf Leaf)) (Ask (Ask (Ask (Ask Leaf
    (Ask (Ask Leaf Leaf) Leaf)) (Ask Leaf Leaf)) (Ask Leaf (Ask Leaf (Ask (Ask (Ask Leaf Leaf) (Ask Leaf
    Leaf)) (Ask Leaf Leaf))))) (Ask (Ask Leaf (Ask Leaf (Ask (Ask Leaf Leaf) (Ask Leaf Leaf)))) (Ask (Ask
    Leaf Leaf) (Ask (Ask (Ask Leaf Leaf) (Ask Leaf Leaf)) (Ask (Ask Leaf (Ask Leaf Leaf)) (Ask (Ask Leaf
    Leaf) Leaf))))))))) (Ask (Ask (Ask Leaf (Ask Leaf Leaf)) (Ask (Ask Leaf Leaf) (Ask Leaf Leaf))) (Ask
    (Ask (Ask (Ask (Ask Leaf Leaf) Leaf) (Ask Leaf Leaf)) (Ask (Ask Leaf Leaf) (Ask (Ask (Ask Leaf (Ask
    (Ask Leaf (Ask Leaf Leaf)) (Ask (Ask Leaf Leaf) (Ask (Ask Leaf Leaf) Leaf)))) (Ask (Ask Leaf Leaf) (Ask
    (Ask Leaf Leaf) (Ask Leaf Leaf)))) Leaf))) (Ask Leaf (Ask Leaf Leaf))))))) (Ask (Ask (Ask (Ask (Ask
    (Ask Leaf Leaf) (Ask (Ask Leaf Leaf) (Ask (Ask Leaf Leaf) Leaf))) (Ask (Ask Leaf (Ask Leaf (Ask (Ask
    Leaf (Ask Leaf Leaf)) (Ask Leaf (Ask Leaf Leaf))))) (Ask (Ask (Ask Leaf Leaf) (Ask (Ask (Ask Leaf Leaf)
    Leaf) (Ask Leaf (Ask Leaf (Ask (Ask Leaf Leaf) (Ask Leaf Leaf)))))) (Ask (Ask Leaf Leaf) (Ask (Ask (Ask
    (Ask Leaf Leaf) (Ask Leaf Leaf)) (Ask (Ask Leaf (Ask Leaf Leaf)) (Ask Leaf Leaf))) (Ask (Ask Leaf Leaf)
    (Ask (Ask Leaf (Ask Leaf Leaf)) Leaf))))))) (Ask (Ask (Ask (Ask Leaf (Ask Leaf Leaf)) (Ask Leaf (Ask
    Leaf (Ask Leaf Leaf)))) (Ask Leaf Leaf)) (Ask Leaf (Ask Leaf Leaf)))) (Ask (Ask (Ask (Ask (Ask Leaf
    (Ask (Ask Leaf (Ask Leaf Leaf)) (Ask (Ask Leaf (Ask Leaf (Ask Leaf Leaf))) (Ask Leaf Leaf)))) (Ask Leaf
    (Ask Leaf (Ask Leaf Leaf)))) (Ask (Ask Leaf Leaf) (Ask (Ask (Ask Leaf Leaf) (Ask (Ask (Ask Leaf Leaf)
    (Ask Leaf Leaf)) (Ask Leaf Leaf))) (Ask Leaf Leaf)))) (Ask (Ask Leaf (Ask Leaf (Ask Leaf Leaf))) (Ask
    Leaf (Ask (Ask Leaf Leaf) (Ask (Ask (Ask Leaf (Ask (Ask Leaf (Ask Leaf Leaf)) Leaf)) (Ask Leaf Leaf))
    (Ask Leaf (Ask (Ask Leaf Leaf) (Ask (Ask Leaf Leaf) Leaf)))))))) (Ask (Ask Leaf (Ask Leaf (Ask Leaf
    (Ask (Ask Leaf Leaf) (Ask Leaf Leaf))))) (Ask (Ask (Ask (Ask Leaf Leaf) (Ask Leaf Leaf)) (Ask (Ask Leaf
    Leaf) Leaf)) (Ask (Ask Leaf Leaf) (Ask (Ask Leaf (Ask (Ask Leaf Leaf) (Ask Leaf Leaf))) (Ask (Ask Leaf
    Leaf) (Ask Leaf Leaf)))))))) (Ask (Ask (Ask (Ask (Ask Leaf Leaf) Leaf) (Ask (Ask Leaf (Ask Leaf (Ask
    Leaf (Ask Leaf Leaf)))) (Ask (Ask Leaf Leaf) (Ask (Ask Leaf (Ask Leaf (Ask Leaf Leaf))) (Ask Leaf (Ask
    (Ask Leaf (Ask Leaf (Ask (Ask (Ask Leaf Leaf) Leaf) Leaf))) (Ask (Ask Leaf Leaf) (Ask Leaf Leaf))))))))
    (Ask (Ask Leaf (Ask Leaf (Ask (Ask (Ask (Ask (Ask Leaf Leaf) Leaf) Leaf) Leaf) Leaf))) (Ask Leaf
    Leaf))) (Ask (Ask (Ask Leaf Leaf) (Ask Leaf (Ask (Ask Leaf (Ask Leaf (Ask (Ask Leaf Leaf) Leaf))) (Ask
    Leaf (Ask Leaf (Ask Leaf Leaf)))))) (Ask (Ask (Ask Leaf Leaf) (Ask (Ask Leaf Leaf) Leaf)) (Ask (Ask
    (Ask (Ask Leaf (Ask Leaf Leaf)) (Ask (Ask Leaf Leaf) (Ask (Ask Leaf (Ask Leaf (Ask (Ask Leaf Leaf)
    Leaf))) (Ask (Ask (Ask Leaf (Ask Leaf Leaf)) (Ask Leaf Leaf)) (Ask (Ask Leaf (Ask (Ask (Ask Leaf Leaf)
    Leaf) Leaf)) (Ask (Ask Leaf Leaf) (Ask (Ask Leaf Leaf) (Ask (Ask (Ask (Ask (Ask Leaf (Ask Leaf (Ask
    (Ask Leaf Leaf) Leaf))) (Ask Leaf Leaf)) (Ask Leaf (Ask Leaf Leaf))) (Ask Leaf (Ask Leaf (Ask Leaf (Ask
    Leaf Leaf))))) (Ask (Ask (Ask Leaf (Ask Leaf Leaf)) Leaf) (Ask Leaf Leaf)))))))))) (Ask Leaf (Ask Leaf
    Leaf))) Leaf))))))"

lemma us_durz_ctnodes: "ctnodes us_durz_decls = jumps 0 us_durz_shape"
  by (simp add: us_durz_decls_def us_durz_1_def us_durz_2_def us_durz_3_def us_durz_4_def us_durz_5_def us_durz_6_def us_durz_7_def us_durz_shape_def)

lemma us_durz_span: "span us_durz_shape = 875"
  by (simp add: us_durz_shape_def)

interpretation durz: cart_table "ctnodes us_durz_decls" 875
  by unfold_locales (metis us_durz_ctnodes us_durz_span)

section \<open>us_pos_cart.h\<close>

definition us_pos_1 :: "cart_decl list" where
  "us_pos_1 = [
    VAL_STRING 0 ''content'', VAL_STRING 1 ''house'', VAL_STRING 2 ''n'', CTNODE_NO 1 3,
    VAL_STRING 3 ''to'', VAL_STRING 4 ''_other_'', CTNODE_NO 4 6, VAL_STRING 5 ''v'', CTNODE_NO 3 7,
    VAL_STRING 6 ''does'', CTNODE_NO 7 9, VAL_STRING 7 ''det'', CTNODE_NO 10 12, CTNODE_NO 9 13,
    VAL_STRING 8 ''md'', CTNODE_NO 13 15, VAL_STRING 9 ''separate'', VAL_STRING 10 ''j'', CTNODE_NO 17 19,
    VAL_STRING 11 ''overall'', CTNODE_NO 19 21, VAL_STRING 12 ''perfect'', CTNODE_NO 21 23,
    VAL_STRING 13 ''close'', CTNODE_NO 23 25, VAL_STRING 14 ''present'', CTNODE_NO 25 27,
    VAL_STRING 15 ''appropriate'', CTNODE_NO 27 29, VAL_STRING 16 ''live'', CTNODE_NO 29 31,
    VAL_STRING 17 ''moderate'', CTNODE_NO 31 33, VAL_STRING 18 ''lead'', CTNODE_NO 33 35,
    VAL_STRING 19 ''rebel'', CTNODE_NO 35 37, VAL_STRING 20 ''the'', VAL_STRING 21 ''of'', CTNODE_NO 38 40,
    CTNODE_NO 37 41, VAL_STRING 22 ''elaborate'', CTNODE_NO 41 43, CTNODE_NO 43 45,
    VAL_STRING 23 ''record'', CTNODE_NO 46 48, CTNODE_NO 45 49, VAL_STRING 24 ''an'', CTNODE_NO 50 52,
    CTNODE_NO 49 53, CTNODE_NO 16 54, VAL_STRING 25 ''punc'', CTNODE_NO 55 57, VAL_STRING 26 ''in'',
    CTNODE_NO 57 59, VAL_STRING 27 ''adv'', VAL_STRING 28 ''nineteen'', CTNODE_NO 60 62,
    VAL_STRING 29 ''six'', CTNODE_NO 62 64, CTNODE_NO 59 65, CTNODE_NO 54 66, CTNODE_NO 66 68,
    CTNODE_NO 68 70, VAL_STRING 30 ''putting'', CTNODE_NO 70 72, CTNODE_NO 72 74, CTNODE_NO 74 76,
    CTNODE_NO 77 79, CTNODE_NO 79 81, CTNODE_NO 81 83, CTNODE_NO 83 85, CTNODE_NO 76 86,
    VAL_STRING 31 ''frequent'', CTNODE_NO 86 88, CTNODE_NO 88 90, VAL_STRING 32 ''bought'', CTNODE_NO 90 92,
    VAL_STRING 33 ''read'', CTNODE_NO 92 94, VAL_STRING 34 ''use'', CTNODE_NO 95 97, VAL_STRING 35 ''it'',
    CTNODE_NO 97 99, CTNODE_NO 99 101, CTNODE_NO 94 102, VAL_STRING 36 ''lived'', CTNODE_NO 102 104,
    VAL_STRING 37 ''aged'', CTNODE_NO 104 106, VAL_STRING 38 ''uses'', CTNODE_NO 106 108, CTNODE_NO 108 110,
    CTNODE_NO 110 112, CTNODE_NO 112 114, VAL_STRING 39 ''associate'', CTNODE_NO 114 116,
    VAL_STRING 40 ''compact'', CTNODE_NO 116 118, VAL_STRING 41 ''suspect'', CTNODE_NO 118 120,
    CTNODE_NO 120 122, CTNODE_NO 123 125, CTNODE_NO 122 126, VAL_STRING 42 ''produce'', CTNODE_NO 126 128,
    VAL_STRING 43 ''produces'', CTNODE_NO 128 130, VAL_STRING 44 ''excess'', CTNODE_NO 130 132,
    VAL_STRING 45 ''combine'', CTNODE_NO 132 134, VAL_STRING 46 ''tear'', CTNODE_NO 134 136,
    VAL_STRING 47 ''presents'', CTNODE_NO 136 138, VAL_STRING 48 ''minute'', CTNODE_NO 138 140,
    VAL_STRING 49 ''rejects'', CTNODE_NO 140 142, CTNODE_NO 142 144, VAL_STRING 50 ''mrs'',
    CTNODE_NO 144 146, VAL_STRING 51 ''subject'', CTNODE_NO 146 148, VAL_STRING 52 ''permits'',
    CTNODE_NO 148 150, VAL_STRING 53 ''reading'', CTNODE_NO 152 154, CTNODE_NO 151 155, CTNODE_NO 150 156,
    VAL_STRING 54 ''not'', CTNODE_NO 156 158, VAL_STRING 55 ''who'', CTNODE_NO 158 160,
    VAL_STRING 56 ''collect'', CTNODE_NO 160 162, CTNODE_NO 162 164, VAL_STRING 57 ''permit'',
    CTNODE_NO 164 166, CTNODE_NO 166 168, VAL_STRING 58 ''that'', CTNODE_NO 169 171, CTNODE_NO 168 172,
    CTNODE_NO 172 174, VAL_STRING 59 ''records'', CTNODE_NO 174 176, VAL_STRING 60 ''survey'',
    CTNODE_NO 176 178, VAL_STRING 61 ''allies'']"

definition us_pos_2 :: "cart_decl list" where
  "us_pos_2 = [
    CTNODE_NO 178 180, VAL_STRING 62 ''abuse'', CTNODE_NO 180 182, VAL_STRING 63 ''project'',
    CTNODE_NO 182 184, VAL_STRING 64 ''contract'', CTNODE_NO 184 186, VAL_STRING 65 ''nasa'',
    CTNODE_NO 186 188, VAL_STRING 66 ''impact'', CTNODE_NO 189 191, VAL_STRING 67 ''concert'',
    CTNODE_NO 191 193, VAL_STRING 68 ''progress'', CTNODE_NO 193 195, CTNODE_NO 195 197,
    VAL_STRING 69 ''rebels'', CTNODE_NO 197 199, VAL_STRING 70 ''associates'', CTNODE_NO 199 201,
    VAL_STRING 71 ''graduate'', CTNODE_NO 201 203, CTNODE_NO 203 205, VAL_STRING 72 ''export'',
    CTNODE_NO 205 207, VAL_STRING 73 ''increases'', CTNODE_NO 207 209, CTNODE_NO 209 211,
    VAL_STRING 74 ''and'', CTNODE_NO 211 213, VAL_STRING 75 ''pps'', CTNODE_NO 213 215, CTNODE_NO 215 217,
    CTNODE_NO 217 219, CTNODE_NO 219 221, CTNODE_NO 188 222, VAL_STRING 76 ''lives'', CTNODE_NO 222 224,
    CTNODE_NO 15 225, CTNODE_NO 226 228, VAL_STRING 77 ''sources'', VAL_STRING 78 ''r'', CTNODE_NO 228 230,
    VAL_STRING 79 ''aux'', CTNODE_NO 230 232, CTNODE_NO 232 234, CTNODE_NO 234 236,
    VAL_STRING 80 ''source'', CTNODE_NO 236 238, CTNODE_NO 238 240, CTNODE_NO 241 243, CTNODE_NO 240 244,
    CTNODE_NO 244 246, CTNODE_NO 246 248, CTNODE_NO 248 250, CTNODE_NO 225 251, CTNODE_NO 252 254,
    CTNODE_NO 254 256, VAL_STRING 81 ''upset'', CTNODE_NO 256 258, CTNODE_NO 258 260, CTNODE_NO 260 262,
    CTNODE_NO 262 264, CTNODE_NO 264 266, CTNODE_NO 266 268, CTNODE_NO 268 270, CTNODE_NO 270 272,
    CTNODE_NO 251 273, CTNODE_NO 274 276, CTNODE_NO 273 277, CTNODE_NO 277 279, CTNODE_NO 280 282,
    CTNODE_NO 279 283, CTNODE_NO 283 285, CTNODE_NO 285 287, CTNODE_NO 287 289, VAL_STRING 82 ''object'',
    CTNODE_NO 289 291, CTNODE_NO 291 293, CTNODE_NO 293 295, CTNODE_NO 295 297, CTNODE_NO 297 299,
    CTNODE_NO 299 301, CTNODE_NO 302 304, VAL_STRING 83 ''at'', CTNODE_NO 304 306, CTNODE_NO 301 307,
    VAL_STRING 84 ''refuse'', CTNODE_NO 308 310, VAL_STRING 85 ''contrary'', CTNODE_NO 310 312,
    CTNODE_NO 312 314, CTNODE_NO 314 316, CTNODE_NO 307 317, CTNODE_NO 317 319, CTNODE_NO 319 321,
    CTNODE_NO 321 323, CTNODE_NO 323 325, CTNODE_NO 328 330, CTNODE_NO 327 331, CTNODE_NO 326 332,
    CTNODE_NO 333 335, CTNODE_NO 336 338, CTNODE_NO 335 339, CTNODE_NO 332 340, CTNODE_NO 325 341,
    VAL_STRING 86 ''be'', CTNODE_NO 341 343, CTNODE_NO 343 345, VAL_STRING 87 ''estimate'',
    CTNODE_NO 346 348, VAL_STRING 88 ''estimates'', CTNODE_NO 349 351, CTNODE_NO 348 352, CTNODE_NO 345 353,
    VAL_STRING 89 ''up'', CTNODE_NO 353 355, CTNODE_NO 355 357, CTNODE_NO 357 359, CTNODE_NO 359 361,
    VAL_STRING 90 ''tears'', CTNODE_NO 361 363, CTNODE_NO 363 365, CTNODE_NO 0 366, VAL_STRING 91 ''0'']"

definition us_pos_decls :: "cart_decl list" where
  "us_pos_decls = us_pos_1 @ us_pos_2"

definition us_pos_shape :: cart_shape where
  "us_pos_shape =
    Ask (Ask Leaf (Ask (Ask Leaf Leaf) (Ask Leaf (Ask (Ask Leaf Leaf) (Ask Leaf (Ask (Ask (Ask Leaf (Ask
    Leaf (Ask Leaf (Ask Leaf (Ask Leaf (Ask Leaf (Ask Leaf (Ask Leaf (Ask Leaf (Ask Leaf (Ask (Ask Leaf
    Leaf) (Ask Leaf (Ask Leaf (Ask (Ask Leaf Leaf) (Ask (Ask Leaf Leaf) Leaf))))))))))))))) (Ask (Ask Leaf
    (Ask Leaf (Ask (Ask Leaf (Ask Leaf Leaf)) Leaf))) (Ask Leaf (Ask Leaf (Ask Leaf (Ask Leaf (Ask Leaf
    (Ask (Ask Leaf (Ask Leaf (Ask Leaf (Ask Leaf Leaf)))) (Ask Leaf (Ask Leaf (Ask Leaf (Ask Leaf (Ask (Ask
    Leaf (Ask Leaf (Ask Leaf Leaf))) (Ask Leaf (Ask Leaf (Ask Leaf (Ask Leaf (Ask Leaf (Ask Leaf (Ask Leaf
    (Ask Leaf (Ask Leaf (Ask Leaf (Ask (Ask Leaf Leaf) (Ask Leaf (Ask Leaf (Ask Leaf (Ask Leaf (Ask Leaf
    (Ask Leaf (Ask Leaf (Ask Leaf (Ask Leaf (Ask Leaf (Ask Leaf (Ask Leaf (Ask (Ask (Ask Leaf Leaf) Leaf)
    (Ask Leaf (Ask Leaf (Ask Leaf (Ask Leaf (Ask Leaf (Ask Leaf (Ask (Ask Leaf Leaf) (Ask Leaf (Ask Leaf
    (Ask Leaf (Ask Leaf (Ask Leaf (Ask Leaf (Ask Leaf (Ask Leaf (Ask (Ask Leaf (Ask Leaf (Ask Leaf (Ask
    Leaf (Ask Leaf (Ask Leaf (Ask Leaf (Ask Leaf (Ask Leaf (Ask Leaf (Ask Leaf (Ask Leaf (Ask Leaf (Ask
    Leaf (Ask Leaf (Ask Leaf Leaf)))))))))))))))) (Ask Leaf
    Leaf)))))))))))))))))))))))))))))))))))))))))))))))))))))) (Ask (Ask Leaf (Ask Leaf (Ask Leaf (Ask Leaf
    (Ask Leaf (Ask Leaf (Ask Leaf (Ask (Ask Leaf Leaf) (Ask Leaf (Ask Leaf (Ask Leaf Leaf))))))))))) (Ask
    (Ask Leaf (Ask Leaf (Ask Leaf (Ask Leaf (Ask Leaf (Ask Leaf (Ask Leaf (Ask Leaf (Ask Leaf (Ask Leaf
    Leaf)))))))))) (Ask (Ask Leaf Leaf) (Ask Leaf (Ask (Ask Leaf Leaf) (Ask Leaf (Ask Leaf (Ask Leaf (Ask
    Leaf (Ask Leaf (Ask Leaf (Ask Leaf (Ask Leaf (Ask Leaf (Ask (Ask Leaf (Ask Leaf Leaf)) (Ask (Ask Leaf
    (Ask Leaf (Ask Leaf (Ask Leaf Leaf)))) (Ask Leaf (Ask Leaf (Ask Leaf (Ask Leaf (Ask (Ask (Ask (Ask Leaf
    Leaf) Leaf) (Ask (Ask Leaf (Ask (Ask Leaf Leaf) Leaf)) Leaf)) (Ask Leaf (Ask Leaf (Ask (Ask Leaf (Ask
    (Ask Leaf Leaf) Leaf)) (Ask Leaf (Ask Leaf (Ask Leaf (Ask Leaf (Ask Leaf (Ask Leaf
    Leaf)))))))))))))))))))))))))))))))))))) Leaf"

lemma us_pos_ctnodes: "ctnodes us_pos_decls = jumps 0 us_pos_shape"
  by (simp add: us_pos_decls_def us_pos_1_def us_pos_2_def us_pos_shape_def)

lemma us_pos_span: "span us_pos_shape = 367"
  by (simp add: us_pos_shape_def)

interpretation pos: cart_table "ctnodes us_pos_decls" 367
  by unfold_locales (metis us_pos_ctnodes us_pos_span)

section \<open>us_int_accent_cart.h\<close>

definition us_int_accent_decls :: "cart_decl list" where
  "us_int_accent_decls = [
    VAL_STRING 0 ''1'', VAL_STRING 1 ''H*'', CTNODE_NO 0 2, VAL_STRING 2 ''NONE'', CTNODE_NO 2 4,
    CTNODE_NO 4 6, VAL_STRING 3 ''10'', CTNODE_NO 6 8, VAL_STRING 4 ''to'', CTNODE_NO 8 10,
    VAL_STRING 5 ''cc'', CTNODE_NO 10 12, CTNODE_NO 12 14, VAL_STRING 6 ''in'', CTNODE_NO 14 16,
    VAL_STRING 7 ''wp'', CTNODE_NO 16 18, VAL_STRING 8 ''aux'', CTNODE_NO 18 20, VAL_STRING 9 ''det'',
    CTNODE_NO 20 22, VAL_STRING 10 ''0'', CTNODE_NO 22 24, CTNODE_NO 24 26, VAL_STRING 11 ''md'',
    CTNODE_NO 26 28, VAL_STRING 12 ''3'', CTNODE_NO 29 31, CTNODE_NO 28 32, VAL_STRING 13 ''4'',
    CTNODE_NO 33 35, CTNODE_NO 35 37, CTNODE_NO 37 39, CTNODE_NO 39 41, CTNODE_NO 41 43, CTNODE_NO 43 45,
    CTNODE_NO 32 46, CTNODE_NO 46 48, CTNODE_NO 48 50, VAL_STRING 14 ''content'', CTNODE_NO 51 53,
    CTNODE_NO 50 54, VAL_STRING 15 ''2'', CTNODE_NO 56 58, CTNODE_NO 58 60, CTNODE_NO 61 63,
    CTNODE_NO 60 64, CTNODE_NO 55 65, CTNODE_NO 65 67, CTNODE_NO 54 68, VAL_STRING 16 ''L+H*'',
    CTNODE_NO 69 71, CTNODE_NO 68 72, CTNODE_NO 73 75, CTNODE_NO 75 77, CTNODE_NO 78 80, CTNODE_NO 77 81,
    CTNODE_NO 72 82, CTNODE_NO 84 86, CTNODE_NO 83 87, CTNODE_NO 82 88, VAL_STRING 17 ''5'',
    CTNODE_NO 89 91, CTNODE_NO 88 92, CTNODE_NO 93 95, CTNODE_NO 95 97, CTNODE_NO 97 99, CTNODE_NO 99 101,
    VAL_STRING 18 ''!H*'', CTNODE_NO 92 102, CTNODE_NO 103 105, CTNODE_NO 105 107, CTNODE_NO 102 108,
    CTNODE_NO 108 110, CTNODE_NO 111 113, CTNODE_NO 110 114, VAL_STRING 19 ''7'', CTNODE_NO 116 118,
    CTNODE_NO 115 119, CTNODE_NO 114 120, CTNODE_NO 120 122, CTNODE_NO 122 124, CTNODE_NO 124 126,
    CTNODE_NO 127 129, CTNODE_NO 129 131, CTNODE_NO 131 133, CTNODE_NO 133 135, CTNODE_NO 126 136,
    CTNODE_NO 136 138, VAL_STRING 20 ''6'', CTNODE_NO 138 140, CTNODE_NO 140 142, CTNODE_NO 142 144,
    CTNODE_NO 145 147, CTNODE_NO 144 148]"

definition us_int_accent_shape :: cart_shape where
  "us_int_accent_shape =
    Ask Leaf (Ask Leaf (Ask Leaf (Ask Leaf (Ask Leaf (Ask Leaf (Ask Leaf (Ask Leaf (Ask Leaf (Ask Leaf (Ask
    Leaf (Ask Leaf (Ask Leaf (Ask Leaf (Ask (Ask Leaf Leaf) (Ask (Ask Leaf (Ask Leaf (Ask Leaf (Ask Leaf
    (Ask Leaf (Ask Leaf Leaf)))))) (Ask Leaf (Ask Leaf (Ask (Ask Leaf Leaf) (Ask (Ask (Ask Leaf (Ask Leaf
    (Ask (Ask Leaf Leaf) Leaf))) (Ask Leaf Leaf)) (Ask (Ask Leaf Leaf) (Ask (Ask Leaf (Ask Leaf (Ask (Ask
    Leaf Leaf) Leaf))) (Ask (Ask (Ask Leaf Leaf) Leaf) (Ask (Ask Leaf Leaf) (Ask (Ask Leaf (Ask Leaf (Ask
    Leaf (Ask Leaf Leaf)))) (Ask (Ask Leaf (Ask Leaf Leaf)) (Ask Leaf (Ask (Ask Leaf Leaf) (Ask (Ask (Ask
    Leaf Leaf) Leaf) (Ask Leaf (Ask Leaf (Ask Leaf (Ask (Ask Leaf (Ask Leaf (Ask Leaf (Ask Leaf Leaf))))
    (Ask Leaf (Ask Leaf (Ask Leaf (Ask Leaf (Ask (Ask Leaf Leaf) Leaf)))))))))))))))))))))))))))))))))))))"

lemma us_int_accent_ctnodes: "ctnodes us_int_accent_decls = jumps 0 us_int_accent_shape"
  by (simp add: us_int_accent_decls_def us_int_accent_shape_def)

lemma us_int_accent_span: "span us_int_accent_shape = 149"
  by (simp add: us_int_accent_shape_def)

interpretation accent: cart_table "ctnodes us_int_accent_decls" 149
  by unfold_locales (metis us_int_accent_ctnodes us_int_accent_span)

section \<open>us_int_tone_cart.h\<close>

definition us_int_tone_decls :: "cart_decl list" where
  "us_int_tone_decls = [
    VAL_STRING 0 ''1'', VAL_STRING 1 ''H-H%'', CTNODE_NO 0 2, VAL_STRING 2 ''cc'', VAL_STRING 3 ''NONE'',
    CTNODE_NO 2 4, VAL_STRING 4 ''10'', CTNODE_NO 4 6, VAL_STRING 5 ''md'', CTNODE_NO 6 8,
    VAL_STRING 6 ''4'', CTNODE_NO 8 10, VAL_STRING 7 ''det'', CTNODE_NO 10 12, VAL_STRING 8 ''3'',
    CTNODE_NO 12 14, CTNODE_NO 14 16, VAL_STRING 9 ''in'', CTNODE_NO 16 18, VAL_STRING 10 ''0'',
    VAL_STRING 11 ''L-L%'', CTNODE_NO 19 21, VAL_STRING 12 ''aux'', CTNODE_NO 21 23, CTNODE_NO 23 25,
    CTNODE_NO 25 27, VAL_STRING 13 ''6'', CTNODE_NO 27 29, VAL_STRING 14 ''L-H%'', CTNODE_NO 29 31,
    VAL_STRING 15 ''5'', CTNODE_NO 31 33, VAL_STRING 16 ''2'', CTNODE_NO 33 35, CTNODE_NO 35 37,
    CTNODE_NO 39 41, CTNODE_NO 38 42, CTNODE_NO 42 44, CTNODE_NO 37 45, CTNODE_NO 18 46,
    VAL_STRING 17 ''pps'', CTNODE_NO 46 48, CTNODE_NO 48 50, VAL_STRING 18 ''content'', CTNODE_NO 51 53,
    CTNODE_NO 53 55, CTNODE_NO 55 57, CTNODE_NO 57 59, CTNODE_NO 59 61, CTNODE_NO 61 63, CTNODE_NO 63 65,
    CTNODE_NO 65 67, CTNODE_NO 67 69, VAL_STRING 19 ''to'', CTNODE_NO 69 71, CTNODE_NO 71 73,
    CTNODE_NO 73 75, CTNODE_NO 75 77, CTNODE_NO 77 79, CTNODE_NO 79 81, CTNODE_NO 81 83, CTNODE_NO 83 85,
    CTNODE_NO 85 87, CTNODE_NO 87 89, CTNODE_NO 89 91, VAL_STRING 20 ''H-'', CTNODE_NO 91 93,
    CTNODE_NO 50 94]"

definition us_int_tone_shape :: cart_shape where
  "us_int_tone_shape =
    Ask Leaf (Ask Leaf (Ask Leaf (Ask Leaf (Ask Leaf (Ask Leaf (Ask Leaf (Ask Leaf (Ask Leaf (Ask (Ask Leaf
    (Ask Leaf (Ask Leaf (Ask Leaf (Ask Leaf (Ask Leaf (Ask Leaf (Ask Leaf (Ask Leaf (Ask (Ask (Ask Leaf
    Leaf) (Ask Leaf Leaf)) Leaf)))))))))) (Ask Leaf (Ask Leaf (Ask (Ask Leaf (Ask Leaf (Ask Leaf (Ask Leaf
    (Ask Leaf (Ask Leaf (Ask Leaf (Ask Leaf (Ask Leaf (Ask Leaf (Ask Leaf (Ask Leaf (Ask Leaf (Ask Leaf
    (Ask Leaf (Ask Leaf (Ask Leaf (Ask Leaf (Ask Leaf (Ask Leaf (Ask Leaf Leaf)))))))))))))))))))))
    Leaf))))))))))))"

lemma us_int_tone_ctnodes: "ctnodes us_int_tone_decls = jumps 0 us_int_tone_shape"
  by (simp add: us_int_tone_decls_def us_int_tone_shape_def)

lemma us_int_tone_span: "span us_int_tone_shape = 95"
  by (simp add: us_int_tone_shape_def)

interpretation tone: cart_table "ctnodes us_int_tone_decls" 95
  by unfold_locales (metis us_int_tone_ctnodes us_int_tone_span)

section \<open>us_nums_cart.h\<close>

definition us_nums_decls :: "cart_decl list" where
  "us_nums_decls = [
    VAL_FLOAT 0 3800000, VAL_STRING 1 ''month'', VAL_STRING 2 ''0'', VAL_STRING 3 ''year'', CTNODE_NO 2 4,
    VAL_STRING 4 ''ordinal'', CTNODE_NO 1 5, VAL_STRING 5 ''cardinal'', CTNODE_NO 6 8, CTNODE_NO 5 9,
    VAL_STRING 6 ''numeric'', VAL_FLOAT 7 2000000, VAL_STRING 8 ''sym'', VAL_STRING 9 ''digits'',
    CTNODE_NO 12 14, CTNODE_NO 11 15, CTNODE_NO 10 16, CTNODE_NO 16 18, CTNODE_NO 9 19, CTNODE_NO 22 24,
    CTNODE_NO 21 25, CTNODE_NO 20 26, CTNODE_NO 19 27, VAL_FLOAT 10 302299988, VAL_STRING 11 ''flight'',
    CTNODE_NO 28 30, CTNODE_NO 31 33, CTNODE_NO 30 34, CTNODE_NO 27 35, VAL_STRING 12 ''a'',
    CTNODE_NO 35 37, VAL_FLOAT 13 669200012, CTNODE_NO 39 41, CTNODE_NO 38 42, CTNODE_NO 37 43,
    VAL_FLOAT 14 373200012, CTNODE_NO 43 45, VAL_FLOAT 15 436200012, VAL_FLOAT 16 392600006,
    CTNODE_NO 46 48, CTNODE_NO 45 49, VAL_FLOAT 17 716500000, CTNODE_NO 49 51, VAL_FLOAT 18 773599976,
    VAL_STRING 19 ''_other_'', CTNODE_NO 52 54, CTNODE_NO 51 55, CTNODE_NO 0 56, CTNODE_NO 57 59,
    CTNODE_NO 59 61, CTNODE_NO 56 62, CTNODE_NO 63 65, CTNODE_NO 65 67, CTNODE_NO 67 69, CTNODE_NO 62 70,
    VAL_FLOAT 20 4400000, VAL_FLOAT 21 2959600098, VAL_FLOAT 22 1773400024, CTNODE_NO 73 75,
    CTNODE_NO 72 76, CTNODE_NO 71 77, CTNODE_NO 77 79, CTNODE_NO 70 80, VAL_STRING 23 ''to'',
    CTNODE_NO 80 82, CTNODE_NO 83 85, VAL_FLOAT 24 4600000, CTNODE_NO 85 87, CTNODE_NO 82 88,
    VAL_FLOAT 25 4800000, VAL_FLOAT 26 2880000000, VAL_FLOAT 27 1633199951, VAL_FLOAT 28 1306400024,
    CTNODE_NO 91 93, CTNODE_NO 90 94, CTNODE_NO 89 95, CTNODE_NO 88 96]"

definition us_nums_shape :: cart_shape where
  "us_nums_shape =
    Ask (Ask (Ask Leaf Leaf) (Ask (Ask Leaf Leaf) (Ask (Ask (Ask (Ask Leaf Leaf) Leaf) (Ask Leaf Leaf))
    (Ask (Ask (Ask (Ask Leaf Leaf) Leaf) Leaf) (Ask (Ask Leaf (Ask (Ask Leaf Leaf) Leaf)) (Ask Leaf (Ask
    (Ask (Ask Leaf Leaf) Leaf) (Ask Leaf (Ask (Ask Leaf Leaf) (Ask Leaf (Ask (Ask Leaf Leaf)
    Leaf))))))))))) (Ask (Ask Leaf (Ask Leaf Leaf)) (Ask (Ask Leaf (Ask Leaf (Ask Leaf Leaf))) (Ask (Ask
    (Ask (Ask Leaf Leaf) Leaf) (Ask Leaf Leaf)) (Ask Leaf (Ask (Ask Leaf (Ask Leaf Leaf)) (Ask (Ask (Ask
    (Ask Leaf Leaf) Leaf) Leaf) Leaf))))))"

lemma us_nums_ctnodes: "ctnodes us_nums_decls = jumps 0 us_nums_shape"
  by (simp add: us_nums_decls_def us_nums_shape_def)

lemma us_nums_span: "span us_nums_shape = 97"
  by (simp add: us_nums_shape_def)

interpretation nums: cart_table "ctnodes us_nums_decls" 97
  by unfold_locales (metis us_nums_ctnodes us_nums_span)

section \<open>us_phrasing_cart.h\<close>

definition us_phrasing_decls :: "cart_decl list" where
  "us_phrasing_decls = [
    VAL_STRING 0 ''--'', VAL_STRING 1 ''BB'', CTNODE_NO 0 2, VAL_STRING 2 ''0'', VAL_STRING 3 '''',
    VAL_STRING 4 ''1'', CTNODE_NO 4 6, CTNODE_NO 6 8, VAL_STRING 5 ''NB'', CTNODE_NO 3 9, CTNODE_NO 2 10,
    CTNODE_NO 10 12, CTNODE_NO 12 14]"

definition us_phrasing_shape :: cart_shape where
  "us_phrasing_shape =
    Ask Leaf (Ask (Ask (Ask Leaf (Ask Leaf Leaf)) Leaf) (Ask Leaf (Ask Leaf Leaf)))"

lemma us_phrasing_ctnodes: "ctnodes us_phrasing_decls = jumps 0 us_phrasing_shape"
  by (simp add: us_phrasing_decls_def us_phrasing_shape_def)

lemma us_phrasing_span: "span us_phrasing_shape = 15"
  by (simp add: us_phrasing_shape_def)

interpretation phrasing: cart_table "ctnodes us_phrasing_decls" 15
  by unfold_locales (metis us_phrasing_ctnodes us_phrasing_span)

section \<open>Properties\<close>

lemma us_durz_val_names: "val_names us_durz_decls = [0..<495]"
  by (simp add: us_durz_decls_def us_durz_1_def us_durz_2_def us_durz_3_def us_durz_4_def us_durz_5_def us_durz_6_def us_durz_7_def upt_conv_Cons)

lemma us_pos_val_names: "val_names us_pos_decls = [0..<92]"
  by (simp add: us_pos_decls_def us_pos_1_def us_pos_2_def upt_conv_Cons)

lemma us_int_accent_val_names: "val_names us_int_accent_decls = [0..<21]"
  by (simp add: us_int_accent_decls_def upt_conv_Cons)

lemma us_int_tone_val_names: "val_names us_int_tone_decls = [0..<21]"
  by (simp add: us_int_tone_decls_def upt_conv_Cons)

lemma us_nums_val_names: "val_names us_nums_decls = [0..<29]"
  by (simp add: us_nums_decls_def upt_conv_Cons)

lemma us_phrasing_val_names: "val_names us_phrasing_decls = [0..<6]"
  by (simp add: us_phrasing_decls_def upt_conv_Cons)

text \<open>C22. Every one of the six headers declares one whole binary tree: taking the node after a question for its yes
  branch and \<open>CTNODE_NO\<close> for its no branch, each node but the first belongs to exactly one question and no branch
  leaves the branch it is in; and the constants are numbered from 0 without gaps.\<close>
theorem cart_tables_are_trees:
  "(cart_tree (ctnodes us_durz_decls) 875 \<and> val_names us_durz_decls = [0..<495])
     \<and> (cart_tree (ctnodes us_pos_decls) 367 \<and> val_names us_pos_decls = [0..<92])
     \<and> (cart_tree (ctnodes us_int_accent_decls) 149 \<and> val_names us_int_accent_decls = [0..<21])
     \<and> (cart_tree (ctnodes us_int_tone_decls) 95 \<and> val_names us_int_tone_decls = [0..<21])
     \<and> (cart_tree (ctnodes us_nums_decls) 97 \<and> val_names us_nums_decls = [0..<29])
     \<and> (cart_tree (ctnodes us_phrasing_decls) 15 \<and> val_names us_phrasing_decls = [0..<6])"
  using durz.is_tree pos.is_tree accent.is_tree tone.is_tree nums.is_tree phrasing.is_tree us_durz_val_names
    us_pos_val_names us_int_accent_val_names us_int_tone_val_names us_nums_val_names us_phrasing_val_names by blast

end
