(* ===== verification/LetterToSound.thy ===== *)
theory LetterToSound
  imports IntCodec
begin

text \<open>
  The states of the letter-to-sound rules (cmu_lts_model.h, Flite inside OpenEars): one automaton per
  letter, and for every state \<open>n\<close> of letter \<open>x\<close> a macro \<open>LTS_STATE_x_n\<close> that expands to the two bytes of
  the state's address in the rule array, low byte first.  In each letter the addresses count up from
  the letter's base; from the state after \<open>d\<close> on they are one less, since states \<open>d\<close> and \<open>d + 1\<close> share
  an address (q has no such pair).  The definitions give this arithmetic; the 25,530 byte pairs
  themselves are spelled out in LtsTableA to LtsTableU and proved equal in LtsTables.  The rule array
  itself is not in the repository.
\<close>

definition addr_bytes :: "nat \<Rightarrow> byte \<times> byte" where
  "addr_bytes a = (of_nat (a mod 256), of_nat (a div 256))"

text \<open>The states of one letter: its first address, the state whose address the next one repeats and the
  number of states.\<close>

definition lts_block :: "nat \<Rightarrow> nat \<Rightarrow> nat \<Rightarrow> nat \<Rightarrow> (byte \<times> byte) option" where
  "lts_block base d len n =
     (if n < len then Some (addr_bytes (if n \<le> d then base + n else base + n - 1)) else None)"

section \<open>The 26 letters\<close>

definition LTS_STATE_a :: "nat \<Rightarrow> (byte \<times> byte) option" where "LTS_STATE_a = lts_block 0 52 5372"
definition LTS_STATE_b :: "nat \<Rightarrow> (byte \<times> byte) option" where "LTS_STATE_b = lts_block 5371 17 44"
definition LTS_STATE_c :: "nat \<Rightarrow> (byte \<times> byte) option" where "LTS_STATE_c = lts_block 5414 24 635"
definition LTS_STATE_d :: "nat \<Rightarrow> (byte \<times> byte) option" where "LTS_STATE_d = lts_block 6048 21 209"
definition LTS_STATE_e :: "nat \<Rightarrow> (byte \<times> byte) option" where "LTS_STATE_e = lts_block 6256 59 4394"
definition LTS_STATE_f :: "nat \<Rightarrow> (byte \<times> byte) option" where "LTS_STATE_f = lts_block 10649 7 18"
definition LTS_STATE_g :: "nat \<Rightarrow> (byte \<times> byte) option" where "LTS_STATE_g = lts_block 10666 12 628"
definition LTS_STATE_h :: "nat \<Rightarrow> (byte \<times> byte) option" where "LTS_STATE_h = lts_block 11293 24 230"
definition LTS_STATE_i :: "nat \<Rightarrow> (byte \<times> byte) option" where "LTS_STATE_i = lts_block 11522 28 3882"
definition LTS_STATE_j :: "nat \<Rightarrow> (byte \<times> byte) option" where "LTS_STATE_j = lts_block 15403 9 112"
definition LTS_STATE_k :: "nat \<Rightarrow> (byte \<times> byte) option" where "LTS_STATE_k = lts_block 15514 11 20"
definition LTS_STATE_l :: "nat \<Rightarrow> (byte \<times> byte) option" where "LTS_STATE_l = lts_block 15533 26 368"
definition LTS_STATE_m :: "nat \<Rightarrow> (byte \<times> byte) option" where "LTS_STATE_m = lts_block 15900 5 43"
definition LTS_STATE_n :: "nat \<Rightarrow> (byte \<times> byte) option" where "LTS_STATE_n = lts_block 15942 13 235"
definition LTS_STATE_o :: "nat \<Rightarrow> (byte \<times> byte) option" where "LTS_STATE_o = lts_block 16176 29 3618"
definition LTS_STATE_p :: "nat \<Rightarrow> (byte \<times> byte) option" where "LTS_STATE_p = lts_block 19793 5 38"
definition LTS_STATE_q :: "nat \<Rightarrow> (byte \<times> byte) option" where "LTS_STATE_q = lts_block 19830 1 2"
definition LTS_STATE_r :: "nat \<Rightarrow> (byte \<times> byte) option" where "LTS_STATE_r = lts_block 19831 21 1945"
definition LTS_STATE_s :: "nat \<Rightarrow> (byte \<times> byte) option" where "LTS_STATE_s = lts_block 21775 19 893"
definition LTS_STATE_t :: "nat \<Rightarrow> (byte \<times> byte) option" where "LTS_STATE_t = lts_block 22667 24 291"
definition LTS_STATE_u :: "nat \<Rightarrow> (byte \<times> byte) option" where "LTS_STATE_u = lts_block 22957 42 1753"
definition LTS_STATE_v :: "nat \<Rightarrow> (byte \<times> byte) option" where "LTS_STATE_v = lts_block 24709 5 11"
definition LTS_STATE_w :: "nat \<Rightarrow> (byte \<times> byte) option" where "LTS_STATE_w = lts_block 24719 25 159"
definition LTS_STATE_x :: "nat \<Rightarrow> (byte \<times> byte) option" where "LTS_STATE_x = lts_block 24877 18 47"
definition LTS_STATE_y :: "nat \<Rightarrow> (byte \<times> byte) option" where "LTS_STATE_y = lts_block 24923 20 455"
definition LTS_STATE_z :: "nat \<Rightarrow> (byte \<times> byte) option" where "LTS_STATE_z = lts_block 25377 9 128"

definition lts_letters :: "(char \<times> (nat \<Rightarrow> (byte \<times> byte) option)) list" where
  "lts_letters = [
    (CHR ''a'', LTS_STATE_a),
    (CHR ''b'', LTS_STATE_b),
    (CHR ''c'', LTS_STATE_c),
    (CHR ''d'', LTS_STATE_d),
    (CHR ''e'', LTS_STATE_e),
    (CHR ''f'', LTS_STATE_f),
    (CHR ''g'', LTS_STATE_g),
    (CHR ''h'', LTS_STATE_h),
    (CHR ''i'', LTS_STATE_i),
    (CHR ''j'', LTS_STATE_j),
    (CHR ''k'', LTS_STATE_k),
    (CHR ''l'', LTS_STATE_l),
    (CHR ''m'', LTS_STATE_m),
    (CHR ''n'', LTS_STATE_n),
    (CHR ''o'', LTS_STATE_o),
    (CHR ''p'', LTS_STATE_p),
    (CHR ''q'', LTS_STATE_q),
    (CHR ''r'', LTS_STATE_r),
    (CHR ''s'', LTS_STATE_s),
    (CHR ''t'', LTS_STATE_t),
    (CHR ''u'', LTS_STATE_u),
    (CHR ''v'', LTS_STATE_v),
    (CHR ''w'', LTS_STATE_w),
    (CHR ''x'', LTS_STATE_x),
    (CHR ''y'', LTS_STATE_y),
    (CHR ''z'', LTS_STATE_z)  ]"

text \<open>The address of a state: its two bytes, read as a low-byte-first number.\<close>

definition bytes_addr :: "byte \<times> byte \<Rightarrow> nat" where
  "bytes_addr x = unat (uint2korr [fst x, snd x] 0)"

definition lts_address :: "char \<Rightarrow> nat \<Rightarrow> nat option" where
  "lts_address c n =
     (case map_of lts_letters c of None \<Rightarrow> None
      | Some f \<Rightarrow> map_option bytes_addr (f n))"

section \<open>Addresses\<close>

lemma uint2korr_addr_bytes: "a < 65536 \<Longrightarrow> bytes_addr (addr_bytes a) = a"
proof -
  assume a: "a < 65536"
  then have "a div 256 < 256" by (simp add: less_mult_imp_div_less)
  then have "uint2korr [of_nat (a mod 256), of_nat (a div 256)] 0 = word_of_int (int (a mod 256) + 256 * int (a div 256))"
    by (simp add: korr_as_block block_numeral unsigned_of_nat take_bit_nat_eq_self)
  also have "int (a mod 256) + 256 * int (a div 256) = int a"
    by (metis mod_mult_div_eq of_nat_add of_nat_mult of_nat_numeral)
  finally show ?thesis using a by (simp add: bytes_addr_def addr_bytes_def unsigned_of_nat take_bit_nat_eq_self)
qed

text \<open>The parameters of the letters, in the order of the file.\<close>

definition lts_params :: "(char \<times> nat \<times> nat \<times> nat) list" where
  "lts_params = [
    (CHR ''a'', 0, 52, 5372),
    (CHR ''b'', 5371, 17, 44),
    (CHR ''c'', 5414, 24, 635),
    (CHR ''d'', 6048, 21, 209),
    (CHR ''e'', 6256, 59, 4394),
    (CHR ''f'', 10649, 7, 18),
    (CHR ''g'', 10666, 12, 628),
    (CHR ''h'', 11293, 24, 230),
    (CHR ''i'', 11522, 28, 3882),
    (CHR ''j'', 15403, 9, 112),
    (CHR ''k'', 15514, 11, 20),
    (CHR ''l'', 15533, 26, 368),
    (CHR ''m'', 15900, 5, 43),
    (CHR ''n'', 15942, 13, 235),
    (CHR ''o'', 16176, 29, 3618),
    (CHR ''p'', 19793, 5, 38),
    (CHR ''q'', 19830, 1, 2),
    (CHR ''r'', 19831, 21, 1945),
    (CHR ''s'', 21775, 19, 893),
    (CHR ''t'', 22667, 24, 291),
    (CHR ''u'', 22957, 42, 1753),
    (CHR ''v'', 24709, 5, 11),
    (CHR ''w'', 24719, 25, 159),
    (CHR ''x'', 24877, 18, 47),
    (CHR ''y'', 24923, 20, 455),
    (CHR ''z'', 25377, 9, 128)  ]"

lemma lts_letters_params: "lts_letters = map (\<lambda>(c, base, d, len). (c, lts_block base d len)) lts_params"
  by (simp add: lts_letters_def lts_params_def LTS_STATE_a_def LTS_STATE_b_def LTS_STATE_c_def LTS_STATE_d_def LTS_STATE_e_def LTS_STATE_f_def
      LTS_STATE_g_def LTS_STATE_h_def LTS_STATE_i_def LTS_STATE_j_def LTS_STATE_k_def LTS_STATE_l_def
      LTS_STATE_m_def LTS_STATE_n_def LTS_STATE_o_def LTS_STATE_p_def LTS_STATE_q_def LTS_STATE_r_def
      LTS_STATE_s_def LTS_STATE_t_def LTS_STATE_u_def LTS_STATE_v_def LTS_STATE_w_def LTS_STATE_x_def
      LTS_STATE_y_def LTS_STATE_z_def)

lemma lts_params_distinct: "distinct (map fst lts_params)"
  by (simp add: lts_params_def)

lemma lts_params_small: "(c, b, d, l) \<in> set lts_params \<Longrightarrow> b + l < 65536"
  by (auto simp: lts_params_def)

lemma lts_address_iff:
  "lts_address c n = Some a \<longleftrightarrow>
     (\<exists>b d l. (c, b, d, l) \<in> set lts_params \<and> n < l \<and> a = (if n \<le> d then b + n else b + n - 1))"
proof -
  have m: "map_of lts_letters c = map_option (\<lambda>(b, d, l). lts_block b d l) (map_of lts_params c)"
  proof -
    have "map_of (map (\<lambda>(c, base, d, len). (c, lts_block base d len)) ps) c
        = map_option (\<lambda>(b, d, l). lts_block b d l) (map_of ps c)" for ps
      by (induction ps) auto
    then show ?thesis by (simp only: lts_letters_params)
  qed
  have in_set: "map_of lts_params c = Some x \<longleftrightarrow> (c, x) \<in> set lts_params" for x
    using lts_params_distinct by simp
  show ?thesis
  proof (cases "map_of lts_params c")
    case None
    then have "(c, x) \<notin> set lts_params" for x by (simp add: map_of_eq_None_iff) (metis fst_conv image_eqI)
    with None show ?thesis by (simp add: lts_address_def m)
  next
    case (Some x)
    obtain b d l where x: "x = (b, d, l)" by (cases x) auto
    with Some have mem: "(c, b, d, l) \<in> set lts_params" using in_set by blast
    have uniq: "(c, b', d', l') \<in> set lts_params \<longleftrightarrow> b' = b \<and> d' = d \<and> l' = l" for b' d' l'
      using in_set [of "(b', d', l')"] Some x by auto
    have "bytes_addr (addr_bytes (if n \<le> d then b + n else b + n - 1))
        = (if n \<le> d then b + n else b + n - 1)" if "n < l"
      by (rule uint2korr_addr_bytes) (use lts_params_small [OF mem] that in auto)
    then show ?thesis
      by (auto simp: lts_address_def m Some x lts_block_def uniq simp del: One_nat_def split_paired_Ex split: if_splits)
  qed
qed

text \<open>Every letter starts where the one before it has used its states up, one address less than it has states.\<close>

fun lts_chain :: "nat \<Rightarrow> (char \<times> nat \<times> nat \<times> nat) list \<Rightarrow> nat \<Rightarrow> bool" where
  "lts_chain s [] e = (s = e)"
| "lts_chain s ((c, b, d, l) # ps) e = (b = s \<and> d < l \<and> 1 < l \<and> lts_chain (b + l - 1) ps e)"

lemma lts_params_chain: "lts_chain 0 lts_params 25504"
  by (simp add: lts_params_def)

lemma lts_chain_covers:
  "lts_chain s ps e \<Longrightarrow> s \<le> a \<Longrightarrow> a < e
     \<Longrightarrow> \<exists>c b d l n. (c, b, d, l) \<in> set ps \<and> n < l \<and> a = (if n \<le> d then b + n else b + n - 1)"
proof (induction s ps e rule: lts_chain.induct)
  case (2 s c b d l ps e)
  show ?case
  proof (cases "a < b + l - 1")
    case True
    let ?n = "if a - b \<le> d then a - b else a - b + 1"
    have "?n < l \<and> a = (if ?n \<le> d then b + ?n else b + ?n - 1)" using True 2(2,3) by auto
    then show ?thesis by (metis list.set_intros(1))
  next
    case False
    moreover have "lts_chain (b + l - 1) ps e" using 2(2) unfolding lts_chain.simps by blast
    ultimately have "\<exists>c b d l n. (c, b, d, l) \<in> set ps \<and> n < l \<and> a = (if n \<le> d then b + n else b + n - 1)"
      using 2(1) 2(4) not_le by blast
    then show ?thesis by (metis list.set_intros(2))
  qed
qed simp

lemma lts_params_top: "(c, b, d, l) \<in> set lts_params \<Longrightarrow> (if d + 1 < l then b + l - 1 else b + l) \<le> 25504"
  by (auto simp: lts_params_def)

section \<open>Tables spelled out\<close>

text \<open>A list of entries holds what a function gives for the numbers from \<open>k\<close> up to \<open>e\<close>.\<close>

fun table_run :: "(nat \<Rightarrow> 'a option) \<Rightarrow> nat \<Rightarrow> 'a list \<Rightarrow> nat \<Rightarrow> bool" where
  "table_run f k [] e = (k = e)"
| "table_run f k (x # xs) e = (f k = Some x \<and> table_run f (k + 1) xs e)"

text \<open>The runs of the pieces of a letter, and what the joined tables of the letters hold.\<close>

named_theorems lts_run
named_theorems lts_tables

lemma table_run_append: "table_run f k xs m \<Longrightarrow> table_run f m ys e \<Longrightarrow> table_run f k (xs @ ys) e"
  by (induction f k xs m rule: table_run.induct) auto

lemma table_run_nil: "table_run f k (concat []) k"
  by simp

lemma table_run_concat:
  "table_run f k xs m \<Longrightarrow> table_run f m (concat xss) e \<Longrightarrow> table_run f k (concat (xs # xss)) e"
  by (simp add: table_run_append)

lemma table_run_length: "table_run f k xs e \<Longrightarrow> e = k + length xs"
  by (induction f k xs e rule: table_run.induct) auto

lemma table_run_nth: "table_run f k xs e \<Longrightarrow> i < length xs \<Longrightarrow> f (k + i) = Some (xs ! i)"
proof (induction f k xs e arbitrary: i rule: table_run.induct)
  case (2 f k x xs e)
  then show ?case by (cases i) (auto simp: algebra_simps)
qed simp

definition entry_at :: "'a list \<Rightarrow> nat \<Rightarrow> 'a option" where
  "entry_at t n = (if n < length t then Some (t ! n) else None)"

lemma table_run_entry:
  assumes run: "table_run f 0 t l" and f: "f = lts_block b d l"
  shows "entry_at t = f"
proof
  fix n
  show "entry_at t n = f n"
    using table_run_length [OF run] table_run_nth [OF run, of n]
    by (simp add: entry_at_def) (simp add: f lts_block_def)
qed

lemmas lts_state_calc = lts_block_def addr_bytes_def

text \<open>\<open>n\<close> pairs with the same high byte and low bytes that count up.\<close>

fun bytes_up :: "nat \<Rightarrow> byte \<Rightarrow> byte \<Rightarrow> (byte \<times> byte) list" where
  "bytes_up 0 lo hi = []"
| "bytes_up (Suc n) lo hi = (lo, hi) # bytes_up n (lo + 1) hi"

lemma bytes_up_numeral: "bytes_up (numeral n) lo hi = (lo, hi) # bytes_up (pred_numeral n) (lo + 1) hi"
  by (simp add: numeral_eq_Suc)

lemma bytes_up_block:
  assumes "unat lo + n \<le> 256" and "k + n \<le> l"
    and "if k + n \<le> Suc d then b + k = unat lo + 256 * unat hi
         else d < k \<and> b + k = unat lo + 256 * unat hi + 1"
  shows "table_run (lts_block b d l) k (bytes_up n lo hi) (k + n)"
  using assms
proof (induction n arbitrary: k lo)
  case (Suc n)
  have lo: "lo = of_nat (unat lo)" and hi: "hi = of_nat (unat hi)" by simp_all
  have small: "unat lo < 256" "unat hi < 256" using unsigned_less [of lo] unsigned_less [of hi] by simp_all
  have "lts_block b d l k = Some (lo, hi)"
    using Suc.prems small lo hi by (auto simp: lts_state_calc split: if_splits)
  moreover have "table_run (lts_block b d l) (k + 1) (bytes_up n (lo + 1) hi) (k + 1 + n)"
  proof (cases n)
    case 0
    then show ?thesis by simp
  next
    case (Suc m)
    then have "unat (lo + 1) = unat lo + 1"
      using Suc.prems(1) by (simp add: unat_word_ariths(1))
    then show ?thesis using Suc.prems by (intro Suc.IH) (auto split: if_splits)
  qed
  ultimately show ?case by simp
qed simp

lemma bytes_up_run:
  assumes "unat lo + n \<le> 256" and "k + n \<le> l"
    and "if k + n \<le> Suc d then b + k = unat lo + 256 * unat hi
         else d < k \<and> b + k = unat lo + 256 * unat hi + 1"
  shows "table_run (lts_block b d l) k (bytes_up n lo hi @ xs) e \<longleftrightarrow> table_run (lts_block b d l) (k + n) xs e"
    and "table_run (lts_block b d l) k (bytes_up n lo hi) e \<longleftrightarrow> e = k + n"
proof -
  have run: "table_run (lts_block b d l) k (bytes_up n lo hi) (k + n)" using assms by (rule bytes_up_block)
  have "table_run f k ys m \<Longrightarrow> table_run f k (ys @ zs) e \<longleftrightarrow> table_run f m zs e" for f k ys m e and zs :: "(byte \<times> byte) list"
    by (induction f k ys m rule: table_run.induct) auto
  from this [OF run] show "table_run (lts_block b d l) k (bytes_up n lo hi @ xs) e \<longleftrightarrow> table_run (lts_block b d l) (k + n) xs e" .
  have "length (bytes_up n lo hi) = n" for lo by (induction n arbitrary: lo) auto
  with run show "table_run (lts_block b d l) k (bytes_up n lo hi) e \<longleftrightarrow> e = k + n"
    by (auto dest: table_run_length)
qed

section \<open>Properties\<close>

text \<open>The states of all letters together use every address from 0 to 25503 and no other, so the rule
  array has no gap and every address fits the two bytes it is given in.\<close>
theorem lts_addresses_gap_free: "(\<exists>c n. lts_address c n = Some a) \<longleftrightarrow> a < 25504"
proof
  assume "\<exists>c n. lts_address c n = Some a"
  then obtain c n b d l where "(c, b, d, l) \<in> set lts_params" "n < l" "a = (if n \<le> d then b + n else b + n - 1)"
    by (auto simp: lts_address_iff)
  moreover from this have "(if d + 1 < l then b + l - 1 else b + l) \<le> 25504" by (intro lts_params_top)
  ultimately show "a < 25504" by (auto split: if_splits)
next
  assume "a < 25504"
  with lts_chain_covers [OF lts_params_chain] show "\<exists>c n. lts_address c n = Some a"
    unfolding lts_address_iff by blast
qed

text \<open>The highest address of a letter.\<close>

fun lts_top :: "char \<times> nat \<times> nat \<times> nat \<Rightarrow> nat" where
  "lts_top (c, b, d, l) = (if d + 1 < l then b + l - 2 else b + l - 1)"

lemma lts_params_ordered:
  "sorted_wrt (\<lambda>x y. lts_top x < fst (snd y) \<or> fst x = CHR ''q'' \<and> fst y = CHR ''r'' \<and> lts_top x = fst (snd y)) lts_params"
  by (simp add: lts_params_def)

lemma sorted_wrt_pair:
  "sorted_wrt R xs \<Longrightarrow> x \<in> set xs \<Longrightarrow> y \<in> set xs \<Longrightarrow> x = y \<or> R x y \<or> R y x"
  by (induction xs) auto

text \<open>Two different states have the same address only if they are neighbours of one letter, or if one is
  the last state of q and the other the first of r.\<close>
theorem lts_address_shared:
  assumes "lts_address c n = Some a" and "lts_address c' n' = Some a" and "(c, n) \<noteq> (c', n')"
  shows "c = c' \<and> (n' = n + 1 \<or> n = n' + 1) \<or> a = 19831 \<and> {c, c'} = {CHR ''q'', CHR ''r''}"
proof -
  obtain b d l where 1: "(c, b, d, l) \<in> set lts_params" "n < l" "a = (if n \<le> d then b + n else b + n - 1)"
    using assms(1) by (auto simp: lts_address_iff)
  obtain b' d' l' where 2: "(c', b', d', l') \<in> set lts_params" "n' < l'" "a = (if n' \<le> d' then b' + n' else b' + n' - 1)"
    using assms(2) by (auto simp: lts_address_iff)
  have in1: "b \<le> a" "a \<le> lts_top (c, b, d, l)" using 1 by (auto split: if_splits)
  have in2: "b' \<le> a" "a \<le> lts_top (c', b', d', l')" using 2 by (auto split: if_splits)
  show ?thesis
  proof (cases "(c, b, d, l) = (c', b', d', l')")
    case True
    with 1 2 assms(3) show ?thesis by (auto split: if_splits)
  next
    case False
    then have "c = CHR ''q'' \<and> c' = CHR ''r'' \<and> a = b' \<or> c' = CHR ''q'' \<and> c = CHR ''r'' \<and> a = b"
      using sorted_wrt_pair [OF lts_params_ordered 1(1) 2(1)] in1 in2 by auto
    moreover have "x = 19831" if "(CHR ''r'', x, y) \<in> set lts_params" for x y
      using that by (simp add: lts_params_def)
    ultimately show ?thesis using 1(1) 2(1) by auto
  qed
qed

theorem lts_address_shared_witness:
  "lts_address CHR ''q'' 1 = Some 19831 \<and> lts_address CHR ''r'' 0 = Some 19831
     \<and> (CHR ''q'' = CHR ''r'' \<and> (0 = 1 + (1::nat) \<or> 1 = 0 + (1::nat))
        \<or> (19831::nat) = 19831 \<and> {CHR ''q'', CHR ''r''} = {CHR ''q'', CHR ''r''})"
proof -
  have a: "lts_address CHR ''q'' 1 = Some 19831" unfolding lts_address_iff
    by (rule exI [of _ 19830], rule exI [of _ 1], rule exI [of _ 2]) (simp add: lts_params_def)
  have b: "lts_address CHR ''r'' 0 = Some 19831" unfolding lts_address_iff
    by (rule exI [of _ 19831], rule exI [of _ 21], rule exI [of _ 1945]) (simp add: lts_params_def)
  show ?thesis using lts_address_shared [OF a b] a b by simp
qed

text \<open>For eight letters the arithmetic gives exactly the byte pairs of the header, state by state.\<close>
theorem lts_states_are_table:
  "map LTS_STATE_b [0..<44] = map Some [
    (0xfb, 0x14), (0xfc, 0x14), (0xfd, 0x14), (0xfe, 0x14), (0xff, 0x14), (0x0, 0x15), (0x1, 0x15), (0x2, 0x15),
    (0x3, 0x15), (0x4, 0x15), (0x5, 0x15), (0x6, 0x15), (0x7, 0x15), (0x8, 0x15), (0x9, 0x15), (0xa, 0x15),
    (0xb, 0x15), (0xc, 0x15), (0xc, 0x15), (0xd, 0x15), (0xe, 0x15), (0xf, 0x15), (0x10, 0x15), (0x11, 0x15),
    (0x12, 0x15), (0x13, 0x15), (0x14, 0x15), (0x15, 0x15), (0x16, 0x15), (0x17, 0x15), (0x18, 0x15), (0x19, 0x15),
    (0x1a, 0x15), (0x1b, 0x15), (0x1c, 0x15), (0x1d, 0x15), (0x1e, 0x15), (0x1f, 0x15), (0x20, 0x15), (0x21, 0x15),
    (0x22, 0x15), (0x23, 0x15), (0x24, 0x15), (0x25, 0x15)]"
  "map LTS_STATE_f [0..<18] = map Some [
    (0x99, 0x29), (0x9a, 0x29), (0x9b, 0x29), (0x9c, 0x29), (0x9d, 0x29), (0x9e, 0x29), (0x9f, 0x29), (0xa0, 0x29),
    (0xa0, 0x29), (0xa1, 0x29), (0xa2, 0x29), (0xa3, 0x29), (0xa4, 0x29), (0xa5, 0x29), (0xa6, 0x29), (0xa7, 0x29),
    (0xa8, 0x29), (0xa9, 0x29)]"
  "map LTS_STATE_k [0..<20] = map Some [
    (0x9a, 0x3c), (0x9b, 0x3c), (0x9c, 0x3c), (0x9d, 0x3c), (0x9e, 0x3c), (0x9f, 0x3c), (0xa0, 0x3c), (0xa1, 0x3c),
    (0xa2, 0x3c), (0xa3, 0x3c), (0xa4, 0x3c), (0xa5, 0x3c), (0xa5, 0x3c), (0xa6, 0x3c), (0xa7, 0x3c), (0xa8, 0x3c),
    (0xa9, 0x3c), (0xaa, 0x3c), (0xab, 0x3c), (0xac, 0x3c)]"
  "map LTS_STATE_m [0..<43] = map Some [
    (0x1c, 0x3e), (0x1d, 0x3e), (0x1e, 0x3e), (0x1f, 0x3e), (0x20, 0x3e), (0x21, 0x3e), (0x21, 0x3e), (0x22, 0x3e),
    (0x23, 0x3e), (0x24, 0x3e), (0x25, 0x3e), (0x26, 0x3e), (0x27, 0x3e), (0x28, 0x3e), (0x29, 0x3e), (0x2a, 0x3e),
    (0x2b, 0x3e), (0x2c, 0x3e), (0x2d, 0x3e), (0x2e, 0x3e), (0x2f, 0x3e), (0x30, 0x3e), (0x31, 0x3e), (0x32, 0x3e),
    (0x33, 0x3e), (0x34, 0x3e), (0x35, 0x3e), (0x36, 0x3e), (0x37, 0x3e), (0x38, 0x3e), (0x39, 0x3e), (0x3a, 0x3e),
    (0x3b, 0x3e), (0x3c, 0x3e), (0x3d, 0x3e), (0x3e, 0x3e), (0x3f, 0x3e), (0x40, 0x3e), (0x41, 0x3e), (0x42, 0x3e),
    (0x43, 0x3e), (0x44, 0x3e), (0x45, 0x3e)]"
  "map LTS_STATE_p [0..<38] = map Some [
    (0x51, 0x4d), (0x52, 0x4d), (0x53, 0x4d), (0x54, 0x4d), (0x55, 0x4d), (0x56, 0x4d), (0x56, 0x4d), (0x57, 0x4d),
    (0x58, 0x4d), (0x59, 0x4d), (0x5a, 0x4d), (0x5b, 0x4d), (0x5c, 0x4d), (0x5d, 0x4d), (0x5e, 0x4d), (0x5f, 0x4d),
    (0x60, 0x4d), (0x61, 0x4d), (0x62, 0x4d), (0x63, 0x4d), (0x64, 0x4d), (0x65, 0x4d), (0x66, 0x4d), (0x67, 0x4d),
    (0x68, 0x4d), (0x69, 0x4d), (0x6a, 0x4d), (0x6b, 0x4d), (0x6c, 0x4d), (0x6d, 0x4d), (0x6e, 0x4d), (0x6f, 0x4d),
    (0x70, 0x4d), (0x71, 0x4d), (0x72, 0x4d), (0x73, 0x4d), (0x74, 0x4d), (0x75, 0x4d)]"
  "map LTS_STATE_q [0..<2] = map Some [
    (0x76, 0x4d), (0x77, 0x4d)]"
  "map LTS_STATE_v [0..<11] = map Some [
    (0x85, 0x60), (0x86, 0x60), (0x87, 0x60), (0x88, 0x60), (0x89, 0x60), (0x8a, 0x60), (0x8a, 0x60), (0x8b, 0x60),
    (0x8c, 0x60), (0x8d, 0x60), (0x8e, 0x60)]"
  "map LTS_STATE_x [0..<47] = map Some [
    (0x2d, 0x61), (0x2e, 0x61), (0x2f, 0x61), (0x30, 0x61), (0x31, 0x61), (0x32, 0x61), (0x33, 0x61), (0x34, 0x61),
    (0x35, 0x61), (0x36, 0x61), (0x37, 0x61), (0x38, 0x61), (0x39, 0x61), (0x3a, 0x61), (0x3b, 0x61), (0x3c, 0x61),
    (0x3d, 0x61), (0x3e, 0x61), (0x3f, 0x61), (0x3f, 0x61), (0x40, 0x61), (0x41, 0x61), (0x42, 0x61), (0x43, 0x61),
    (0x44, 0x61), (0x45, 0x61), (0x46, 0x61), (0x47, 0x61), (0x48, 0x61), (0x49, 0x61), (0x4a, 0x61), (0x4b, 0x61),
    (0x4c, 0x61), (0x4d, 0x61), (0x4e, 0x61), (0x4f, 0x61), (0x50, 0x61), (0x51, 0x61), (0x52, 0x61), (0x53, 0x61),
    (0x54, 0x61), (0x55, 0x61), (0x56, 0x61), (0x57, 0x61), (0x58, 0x61), (0x59, 0x61), (0x5a, 0x61)]"
  by (simp_all add: LTS_STATE_b_def LTS_STATE_f_def LTS_STATE_k_def LTS_STATE_m_def LTS_STATE_p_def LTS_STATE_q_def
        LTS_STATE_v_def LTS_STATE_x_def lts_block_def addr_bytes_def upt_conv_Cons)

end
