(* ===== verification/FixedPoint.thy ===== *)
theory FixedPoint
  imports IntCodec "HOL-Library.Word"
begin

text \<open>
  Fixed point numbers and byte orders of the speech libraries: the three implementations of
  \<open>FIXMUL_ANY\<close> in fixpoint.h, one for ARM, one with 64-bit numbers and one without, and the macros of
  byteorder.h that swap the bytes of a variable.  \<open>fixed32\<close> and \<open>int32\<close> are 32-bit words; a shift to the
  right of a signed number keeps its sign.
\<close>

unbundle bit_operations_syntax

section \<open>fixpoint.h\<close>

type_synonym fixed32 = "32 word"

definition DEFAULT_RADIX :: nat where "DEFAULT_RADIX = 12"

text \<open>The ARM instructions: the signed product in two registers, the low one shifted right, the high one
  shifted left and joined to it.\<close>

definition FIXMUL_ANY_arm :: "fixed32 \<Rightarrow> fixed32 \<Rightarrow> nat \<Rightarrow> fixed32" where
  "FIXMUL_ANY_arm a b r =
     (let p = scast a * scast b :: 64 word;
          cl = ucast p :: 32 word; ch = ucast (drop_bit 32 p) :: 32 word;
          cl = drop_bit r cl
      in cl OR push_bit (32 - r) ch)"

definition FIXMUL_ANY_64 :: "fixed32 \<Rightarrow> fixed32 \<Rightarrow> nat \<Rightarrow> fixed32" where
  "FIXMUL_ANY_64 a b radix = ucast (signed_drop_bit radix (scast a * scast b :: 64 word))"

definition FIXMUL_ANY_32 :: "fixed32 \<Rightarrow> fixed32 \<Rightarrow> nat \<Rightarrow> fixed32" where
  "FIXMUL_ANY_32 a b radix =
     (let ah = signed_drop_bit 16 a; bh = signed_drop_bit 16 b;
          al = a AND 0xffff; bl = b AND 0xffff;
          t = ah * bl + al * bh
      in drop_bit radix (al * bl) + push_bit (32 - radix) (ah * bh)
           + (if radix > 16 then drop_bit (radix - 16) t else push_bit (16 - radix) t))"

section \<open>byteorder.h\<close>

definition SWAP_INT16 :: "16 word \<Rightarrow> 16 word" where
  "SWAP_INT16 x = (0x00ff AND signed_drop_bit 8 x) OR (0xff00 AND push_bit 8 x)"

definition SWAP_INT32 :: "32 word \<Rightarrow> 32 word" where
  "SWAP_INT32 x =
     (0x000000ff AND signed_drop_bit 24 x) OR (0x0000ff00 AND signed_drop_bit 8 x)
       OR (0x00ff0000 AND push_bit 8 x) OR (0xff000000 AND push_bit 24 x)"

text \<open>A 64-bit variable is its low and its high 32 bits.\<close>

definition SWAP_FLOAT64 :: "32 word \<times> 32 word \<Rightarrow> 32 word \<times> 32 word" where
  "SWAP_FLOAT64 v = (let low = SWAP_INT32 (fst v); high = SWAP_INT32 (snd v); temp = low in (high, temp))"

text \<open>The same swaps in cst_endian.h, on unsigned numbers.\<close>

definition SWAPINT :: "32 word \<Rightarrow> 32 word" where
  "SWAPINT x =
     push_bit 24 (x AND 0xff) OR push_bit 8 (x AND 0xff00) OR drop_bit 8 (x AND 0xff0000)
       OR drop_bit 24 (x AND 0xff000000)"

definition SWAPSHORT :: "16 word \<Rightarrow> 16 word" where
  "SWAPSHORT x = push_bit 8 (x AND 0xff) OR drop_bit 8 (x AND 0xff00)"

section \<open>Multiplication in integers\<close>

lemma sint_range: "- (2 ^ 31) \<le> sint a" "sint a < 2 ^ 31" for a :: "32 word"
  using sint_greater_eq [of a] sint_less [of a] by simp_all

text \<open>The product, shifted, is the specification: the exact product divided by the power of the radix,
  rounded down, in 32 bits.\<close>

definition fixmul :: "fixed32 \<Rightarrow> fixed32 \<Rightarrow> nat \<Rightarrow> fixed32" where
  "fixmul a b r = word_of_int (drop_bit r (sint a * sint b))"

lemma product_64: "sint (scast a * scast b :: 64 word) = sint a * sint b" for a b :: "32 word"
proof -
  have "\<bar>sint a\<bar> \<le> 2 ^ 31" "\<bar>sint b\<bar> \<le> 2 ^ 31" using sint_range [of a] sint_range [of b] by linarith+
  then have "\<bar>sint a * sint b\<bar> \<le> 2 ^ 31 * 2 ^ 31" unfolding abs_mult by (intro mult_mono) simp_all
  then have "- (2 ^ 63) \<le> sint a * sint b" "sint a * sint b < 2 ^ 63" by simp_all
  then have "signed_take_bit 63 (sint a * sint b) = sint a * sint b" by (simp add: signed_take_bit_int_eq_self)
  moreover have "(scast a * scast b :: 64 word) = word_of_int (sint a * sint b)" by simp
  ultimately show ?thesis by (simp only: sint_sbintrunc' signed_of_int) simp
qed

lemma FIXMUL_64_fixmul: "FIXMUL_ANY_64 a b r = fixmul a b r"
proof -
  have "sint (signed_drop_bit r (scast a * scast b :: 64 word)) = drop_bit r (sint a * sint b)"
    by (simp only: sint_signed_drop_bit_eq product_64)
  moreover have "ucast w = (word_of_int (sint w) :: 32 word)" for w :: "64 word"
    by (rule bit_word_eqI) (simp add: bit_simps)
  ultimately show ?thesis by (simp only: FIXMUL_ANY_64_def fixmul_def)
qed

lemma halves:
  fixes a :: "32 word"
  shows "sint (signed_drop_bit 16 a) = sint a div 65536" "uint (a AND 0xffff) = sint a mod 65536"
proof -
  show "sint (signed_drop_bit 16 a) = sint a div 65536"
    by (simp add: sint_signed_drop_bit_eq drop_bit_eq_div)
  have "(0xffff :: 32 word) = mask 16" by (simp add: mask_eq_exp_minus_1)
  then have "a AND 0xffff = take_bit 16 a" by (simp only: take_bit_eq_mask)
  then have "uint (a AND 0xffff) = take_bit 16 (uint a)" by (simp add: unsigned_take_bit_eq)
  also have "\<dots> = take_bit 16 (sint a)"
    by (simp add: sint_uint take_bit_signed_take_bit)
  finally show "uint (a AND 0xffff) = sint a mod 65536" by (simp add: take_bit_eq_mod)
qed

lemma split_product:
  fixes x y :: int
  assumes "1 \<le> r" "r \<le> 16"
  shows "x * y div 2 ^ r = (x div 65536) * (y div 65536) * 2 ^ (32 - r)
    + ((x div 65536) * (y mod 65536) + (x mod 65536) * (y div 65536)) * 2 ^ (16 - r)
    + (x mod 65536) * (y mod 65536) div 2 ^ r"
proof -
  let ?a = "x div 65536" and ?b = "x mod 65536" and ?c = "y div 65536" and ?d = "y mod 65536"
  have p16: "(65536 :: int) = 2 ^ (16 - r) * 2 ^ r" using assms by (simp flip: power_add)
  have p32: "(4294967296 :: int) = 2 ^ (32 - r) * 2 ^ r" using assms by (simp flip: power_add)
  have split: "(65536 * a + b) * (65536 * c + d) = a * c * 4294967296 + (a * d + b * c) * 65536 + b * d"
    for a b c d :: int by (simp add: algebra_simps)
  have "x * y = (65536 * ?a + ?b) * (65536 * ?c + ?d)" by simp
  also have "\<dots> = ?a * ?c * 4294967296 + (?a * ?d + ?b * ?c) * 65536 + ?b * ?d"
    by (rule split)
  also have "\<dots> = ?b * ?d + 2 ^ r * (?a * ?c * 2 ^ (32 - r) + (?a * ?d + ?b * ?c) * 2 ^ (16 - r))"
    unfolding p16 p32 by (simp only: ring_distribs mult.assoc mult.commute mult.left_commute add.commute)
  finally show ?thesis by (simp only: div_mult_self2) simp
qed

lemma word_halves:
  fixes a :: "32 word"
  shows "signed_drop_bit 16 a = word_of_int (sint a div 65536)" "a AND 0xffff = word_of_int (sint a mod 65536)"
  by (simp_all only: flip: halves [of a]) simp_all

lemma uint_drop_bit: "uint (drop_bit r w) = uint w div 2 ^ r" for w :: "32 word"
  using take_bit_int_eq_self [of "uint w" 32] uint_lt2p [of w]
  by (simp only: unsigned_drop_bit_eq drop_bit_eq_div [where ?'a = int]) simp

lemma small_product:
  fixes x y :: int
  shows "drop_bit r (word_of_int (x mod 65536) * word_of_int (y mod 65536) :: 32 word)
    = word_of_int ((x mod 65536) * (y mod 65536) div 2 ^ r)"
proof -
  let ?b = "x mod 65536" and ?d = "y mod 65536"
  have "?b \<le> 65535" "?d \<le> 65535" "0 \<le> ?b" "0 \<le> ?d" by simp_all
  then have "0 \<le> ?b * ?d" "?b * ?d \<le> 65535 * 65535" by (simp, intro mult_mono) simp_all
  then have "uint (word_of_int (?b * ?d) :: 32 word) = ?b * ?d" by (simp only: unsigned_of_int take_bit_int_eq_self) (simp add: take_bit_int_eq_self)
  then have "uint (drop_bit r (word_of_int (?b * ?d) :: 32 word)) = ?b * ?d div 2 ^ r"
    by (simp only: uint_drop_bit)
  then have "word_of_int (uint (drop_bit r (word_of_int (?b * ?d) :: 32 word))) = (word_of_int (?b * ?d div 2 ^ r) :: 32 word)"
    by (rule arg_cong)
  then show ?thesis by (simp only: word_of_int_uint wi_hom_mult)
qed

lemma FIXMUL_32_fixmul:
  assumes "1 \<le> r" "r \<le> 16"
  shows "FIXMUL_ANY_32 a b r = fixmul a b r"
proof -
  have shift: "push_bit n (word_of_int k :: 32 word) = word_of_int (k * 2 ^ n)" for n k
    by (simp add: push_bit_eq_mult)
  have "FIXMUL_ANY_32 a b r = word_of_int
      ((sint a mod 65536) * (sint b mod 65536) div 2 ^ r
       + (sint a div 65536) * (sint b div 65536) * 2 ^ (32 - r)
       + ((sint a div 65536) * (sint b mod 65536) + (sint a mod 65536) * (sint b div 65536)) * 2 ^ (16 - r))"
    using assms(2) unfolding FIXMUL_ANY_32_def Let_def word_halves small_product
    by (simp only: shift wi_hom_mult wi_hom_add if_False not_less [symmetric] simp_thms)
  then show ?thesis
    unfolding fixmul_def drop_bit_eq_div split_product [OF assms, of "sint a" "sint b"]
    by (simp only: ac_simps)
qed

lemma FIXMUL_arm_64:
  assumes "r < 32"
  shows "FIXMUL_ANY_arm a b r = FIXMUL_ANY_64 a b r"
  unfolding FIXMUL_ANY_arm_def FIXMUL_ANY_64_def Let_def
  by (rule bit_word_eqI) (use assms in \<open>auto simp: bit_simps ac_simps\<close>)

text \<open>C18. The implementations of \<open>FIXMUL_ANY\<close> agree: for a radix from 1 to 16 each of the three gives the
  exact product divided by two to the power of the radix, rounded down, in 32 bits.\<close>

theorem fixmul_variants_agree:
  assumes "1 \<le> r" "r \<le> 16"
  shows "FIXMUL_ANY_64 a b r = fixmul a b r \<and> FIXMUL_ANY_32 a b r = fixmul a b r \<and> FIXMUL_ANY_arm a b r = fixmul a b r"
  using FIXMUL_arm_64 [of r a b] FIXMUL_32_fixmul [OF assms] FIXMUL_64_fixmul [of a b r] assms by simp

theorem fixmul_variants_agree_witness:
  "FIXMUL_ANY_32 (- 6144) 12288 DEFAULT_RADIX = - 18432 \<and> FIXMUL_ANY_arm (- 6144) 12288 DEFAULT_RADIX = - 18432"
  using fixmul_variants_agree [of DEFAULT_RADIX "- 6144" "12288"]
  by (simp add: DEFAULT_RADIX_def fixmul_def drop_bit_eq_div)

text \<open>Above 16 they do not: the implementation without 64-bit numbers shifts the middle sum as an unsigned
  number and loses its sign.\<close>

theorem fixmul_variants_differ_above_16:
  "FIXMUL_ANY_64 (- 65536) 1 17 = - 1 \<and> FIXMUL_ANY_32 (- 65536) 1 17 = 0x7fffffff"
  by (simp add: FIXMUL_64_fixmul fixmul_def drop_bit_eq_div FIXMUL_ANY_32_def word_halves)

section \<open>Byte orders\<close>

lemma mask_byte: "(0xff :: 32 word) = mask 8" "(0xff00 :: 32 word) = push_bit 8 (mask 8)"
  "(0xff0000 :: 32 word) = push_bit 16 (mask 8)" "(0xff000000 :: 32 word) = push_bit 24 (mask 8)"
  by (simp_all add: mask_eq_exp_minus_1)

lemma mask_byte_16: "(0xff :: 16 word) = mask 8" "(0xff00 :: 16 word) = push_bit 8 (mask 8)"
  by (simp_all add: mask_eq_exp_minus_1)

lemma SWAPINT_SWAP_INT32: "SWAPINT x = SWAP_INT32 x"
  unfolding SWAPINT_def SWAP_INT32_def mask_byte
  by (rule bit_word_eqI) (auto simp: bit_simps)

lemma SWAP_INT32_bytes: "SWAP_INT32 x = ucast (ucast (drop_bit 24 x) :: 8 word)
    OR push_bit 8 (ucast (ucast (drop_bit 16 x) :: 8 word)) OR push_bit 16 (ucast (ucast (drop_bit 8 x) :: 8 word))
    OR push_bit 24 (ucast (ucast x :: 8 word))"
  unfolding SWAP_INT32_def mask_byte by (rule bit_word_eqI) (auto simp: bit_simps)

lemma bit_SWAP_INT32:
  assumes "n < 32"
  shows "bit (SWAP_INT32 x) n \<longleftrightarrow>
    bit x (if n < 8 then n + 24 else if n < 16 then n + 8 else if n < 24 then n - 8 else n - 24)"
  using assms by (auto simp: SWAP_INT32_bytes bit_simps) (simp_all add: add.commute)

lemma SWAP_INT32_involution: "SWAP_INT32 (SWAP_INT32 x) = x"
proof (rule bit_word_eqI)
  fix n :: nat
  assume "n < LENGTH(32)"
  then consider "n < 8" | "8 \<le> n" "n < 16" | "16 \<le> n" "n < 24" | "24 \<le> n" "n < 32" by fastforce
  then show "bit (SWAP_INT32 (SWAP_INT32 x)) n = bit x n"
    by cases (simp_all add: bit_SWAP_INT32 less_diff_conv2)
qed

lemma SWAP_INT16_involution: "SWAP_INT16 (SWAP_INT16 x) = x"
  unfolding SWAP_INT16_def mask_byte_16
  by (rule bit_word_eqI) (auto simp: bit_simps)

lemma SWAPSHORT_SWAP_INT16: "SWAPSHORT x = SWAP_INT16 x"
  unfolding SWAPSHORT_def SWAP_INT16_def mask_byte_16
  by (rule bit_word_eqI) (auto simp: bit_simps)

text \<open>Bytes that do not overlap may be joined or added.\<close>

lemma four_bytes_or:
  fixes a b c d :: byte
  shows "(ucast a :: 32 word) + push_bit 8 (ucast b) + push_bit 16 (ucast c) + push_bit 24 (ucast d)
    = ucast a OR push_bit 8 (ucast b) OR push_bit 16 (ucast c) OR push_bit 24 (ucast d)"
proof -
  show ?thesis
    by (subst disjunctive_add_eq_or, (rule bit_word_eqI, auto simp: bit_simps dest: bit_imp_le_length)[1])+ (simp only: or.assoc)
qed

lemma SWAP_INT32_reads: "SWAP_INT32 (uint4korr A p) = mi_uint4korr A p"
proof -
  have big: "\<not> bit w n" if "8 \<le> n" for w :: byte and n using that bit_imp_le_length [of w n] by auto
  show ?thesis
    unfolding uint4korr_def mi_uint4korr_def four_bytes_or
  proof (rule bit_word_eqI)
    fix n :: nat
    let ?x = "ucast (A ! p) OR push_bit 8 (ucast (A ! (p + 1))) OR push_bit 16 (ucast (A ! (p + 2)))
      OR push_bit 24 (ucast (A ! (p + 3))) :: 32 word"
    let ?y = "ucast (A ! (p + 3)) OR push_bit 8 (ucast (A ! (p + 2))) OR push_bit 16 (ucast (A ! (p + 1)))
      OR push_bit 24 (ucast (A ! p)) :: 32 word"
    assume "n < LENGTH(32)"
    then consider "n < 8" | "8 \<le> n" "n < 16" | "16 \<le> n" "n < 24" | "24 \<le> n" "n < 32" by fastforce
    then show "bit (SWAP_INT32 ?x) n = bit ?y n"
      by cases (auto simp: bit_SWAP_INT32 bit_simps big)
  qed
qed

text \<open>\<open>SWAP_INT32\<close> of a number read low byte first is the number read high byte first; it is its own
  inverse, as are the swaps of 16 and of 64 bits, and the macros of cst_endian.h compute the same.\<close>

theorem swaps_reverse_bytes:
  "SWAP_INT32 (uint4korr A p) = mi_uint4korr A p \<and> SWAP_INT32 (mi_uint4korr A p) = uint4korr A p
    \<and> SWAP_INT32 (SWAP_INT32 x) = x \<and> SWAP_INT16 (SWAP_INT16 y) = y \<and> SWAP_FLOAT64 (SWAP_FLOAT64 v) = v
    \<and> SWAPINT x = SWAP_INT32 x \<and> SWAPSHORT y = SWAP_INT16 y"
  by (simp add: SWAP_INT32_reads SWAP_INT32_involution SWAP_INT16_involution SWAP_FLOAT64_def Let_def
    SWAPINT_SWAP_INT32 SWAPSHORT_SWAP_INT16 flip: SWAP_INT32_reads)

end
