(* ===== verification/ClientProtocol.thy ===== *)
theory ClientProtocol
  imports Main "HOL-Library.Word"
begin

text \<open>
  The protocol of the MySQL client as include/mysql_com.h and include/mysql.h give it: commands, types of
  columns, flags of columns, capabilities of a client, status of the server, and the macros that
  classify a column.  An enumeration is a datatype with its numbers; flags are 32-bit words; of a
  MYSQL_FIELD the parts the macros read are modelled (\<open>flength\<close> is its \<open>length\<close>, \<open>ftype\<close> its \<open>type\<close>).
\<close>

unbundle bit_operations_syntax

section \<open>Enumerations\<close>

datatype enum_server_command =
    COM_SLEEP | COM_QUIT | COM_INIT_DB | COM_QUERY | COM_FIELD_LIST | COM_CREATE_DB | COM_DROP_DB |
    COM_REFRESH | COM_SHUTDOWN | COM_STATISTICS | COM_PROCESS_INFO | COM_CONNECT | COM_PROCESS_KILL |
    COM_DEBUG | COM_PING | COM_TIME | COM_DELAYED_INSERT | COM_CHANGE_USER | COM_BINLOG_DUMP |
    COM_TABLE_DUMP | COM_CONNECT_OUT | COM_REGISTER_SLAVE | COM_STMT_PREPARE | COM_STMT_EXECUTE |
    COM_STMT_SEND_LONG_DATA | COM_STMT_CLOSE | COM_STMT_RESET | COM_SET_OPTION | COM_STMT_FETCH |
    COM_DAEMON | COM_END

definition server_commands :: "enum_server_command list" where
  "server_commands = [
    COM_SLEEP, COM_QUIT, COM_INIT_DB, COM_QUERY, COM_FIELD_LIST, COM_CREATE_DB, COM_DROP_DB, COM_REFRESH,
    COM_SHUTDOWN, COM_STATISTICS, COM_PROCESS_INFO, COM_CONNECT, COM_PROCESS_KILL, COM_DEBUG, COM_PING,
    COM_TIME, COM_DELAYED_INSERT, COM_CHANGE_USER, COM_BINLOG_DUMP, COM_TABLE_DUMP, COM_CONNECT_OUT,
    COM_REGISTER_SLAVE, COM_STMT_PREPARE, COM_STMT_EXECUTE, COM_STMT_SEND_LONG_DATA, COM_STMT_CLOSE,
    COM_STMT_RESET, COM_SET_OPTION, COM_STMT_FETCH, COM_DAEMON, COM_END]"

datatype enum_field_types =
    MYSQL_TYPE_DECIMAL | MYSQL_TYPE_TINY | MYSQL_TYPE_SHORT | MYSQL_TYPE_LONG | MYSQL_TYPE_FLOAT |
    MYSQL_TYPE_DOUBLE | MYSQL_TYPE_NULL | MYSQL_TYPE_TIMESTAMP | MYSQL_TYPE_LONGLONG | MYSQL_TYPE_INT24 |
    MYSQL_TYPE_DATE | MYSQL_TYPE_TIME | MYSQL_TYPE_DATETIME | MYSQL_TYPE_YEAR | MYSQL_TYPE_NEWDATE |
    MYSQL_TYPE_VARCHAR | MYSQL_TYPE_BIT | MYSQL_TYPE_NEWDECIMAL | MYSQL_TYPE_ENUM | MYSQL_TYPE_SET |
    MYSQL_TYPE_TINY_BLOB | MYSQL_TYPE_MEDIUM_BLOB | MYSQL_TYPE_LONG_BLOB | MYSQL_TYPE_BLOB |
    MYSQL_TYPE_VAR_STRING | MYSQL_TYPE_STRING | MYSQL_TYPE_GEOMETRY

fun field_type_number :: "enum_field_types \<Rightarrow> nat" where
  "field_type_number MYSQL_TYPE_DECIMAL = 0"
| "field_type_number MYSQL_TYPE_TINY = 1"
| "field_type_number MYSQL_TYPE_SHORT = 2"
| "field_type_number MYSQL_TYPE_LONG = 3"
| "field_type_number MYSQL_TYPE_FLOAT = 4"
| "field_type_number MYSQL_TYPE_DOUBLE = 5"
| "field_type_number MYSQL_TYPE_NULL = 6"
| "field_type_number MYSQL_TYPE_TIMESTAMP = 7"
| "field_type_number MYSQL_TYPE_LONGLONG = 8"
| "field_type_number MYSQL_TYPE_INT24 = 9"
| "field_type_number MYSQL_TYPE_DATE = 10"
| "field_type_number MYSQL_TYPE_TIME = 11"
| "field_type_number MYSQL_TYPE_DATETIME = 12"
| "field_type_number MYSQL_TYPE_YEAR = 13"
| "field_type_number MYSQL_TYPE_NEWDATE = 14"
| "field_type_number MYSQL_TYPE_VARCHAR = 15"
| "field_type_number MYSQL_TYPE_BIT = 16"
| "field_type_number MYSQL_TYPE_NEWDECIMAL = 246"
| "field_type_number MYSQL_TYPE_ENUM = 247"
| "field_type_number MYSQL_TYPE_SET = 248"
| "field_type_number MYSQL_TYPE_TINY_BLOB = 249"
| "field_type_number MYSQL_TYPE_MEDIUM_BLOB = 250"
| "field_type_number MYSQL_TYPE_LONG_BLOB = 251"
| "field_type_number MYSQL_TYPE_BLOB = 252"
| "field_type_number MYSQL_TYPE_VAR_STRING = 253"
| "field_type_number MYSQL_TYPE_STRING = 254"
| "field_type_number MYSQL_TYPE_GEOMETRY = 255"

section \<open>Flags of a column\<close>

definition NOT_NULL_FLAG :: "32 word" where "NOT_NULL_FLAG = 1"
definition PRI_KEY_FLAG :: "32 word" where "PRI_KEY_FLAG = 2"
definition UNIQUE_KEY_FLAG :: "32 word" where "UNIQUE_KEY_FLAG = 4"
definition MULTIPLE_KEY_FLAG :: "32 word" where "MULTIPLE_KEY_FLAG = 8"
definition BLOB_FLAG :: "32 word" where "BLOB_FLAG = 16"
definition UNSIGNED_FLAG :: "32 word" where "UNSIGNED_FLAG = 32"
definition ZEROFILL_FLAG :: "32 word" where "ZEROFILL_FLAG = 64"
definition BINARY_FLAG :: "32 word" where "BINARY_FLAG = 128"
definition ENUM_FLAG :: "32 word" where "ENUM_FLAG = 256"
definition AUTO_INCREMENT_FLAG :: "32 word" where "AUTO_INCREMENT_FLAG = 512"
definition TIMESTAMP_FLAG :: "32 word" where "TIMESTAMP_FLAG = 1024"
definition SET_FLAG :: "32 word" where "SET_FLAG = 2048"
definition NO_DEFAULT_VALUE_FLAG :: "32 word" where "NO_DEFAULT_VALUE_FLAG = 4096"
definition ON_UPDATE_NOW_FLAG :: "32 word" where "ON_UPDATE_NOW_FLAG = 8192"
definition NUM_FLAG :: "32 word" where "NUM_FLAG = 32768"
definition PART_KEY_FLAG :: "32 word" where "PART_KEY_FLAG = 16384"
definition GROUP_FLAG :: "32 word" where "GROUP_FLAG = 32768"
definition UNIQUE_FLAG :: "32 word" where "UNIQUE_FLAG = 65536"
definition BINCMP_FLAG :: "32 word" where "BINCMP_FLAG = 131072"
definition GET_FIXED_FIELDS_FLAG :: "32 word" where "GET_FIXED_FIELDS_FLAG = push_bit 18 1"
definition FIELD_IN_PART_FUNC_FLAG :: "32 word" where "FIELD_IN_PART_FUNC_FLAG = push_bit 19 1"
definition FIELD_IN_ADD_INDEX :: "32 word" where "FIELD_IN_ADD_INDEX = push_bit 20 1"
definition FIELD_IS_RENAMED :: "32 word" where "FIELD_IS_RENAMED = push_bit 21 1"

section \<open>Capabilities of a client\<close>

definition CLIENT_LONG_PASSWORD :: "32 word" where "CLIENT_LONG_PASSWORD = 1"
definition CLIENT_FOUND_ROWS :: "32 word" where "CLIENT_FOUND_ROWS = 2"
definition CLIENT_LONG_FLAG :: "32 word" where "CLIENT_LONG_FLAG = 4"
definition CLIENT_CONNECT_WITH_DB :: "32 word" where "CLIENT_CONNECT_WITH_DB = 8"
definition CLIENT_NO_SCHEMA :: "32 word" where "CLIENT_NO_SCHEMA = 16"
definition CLIENT_COMPRESS :: "32 word" where "CLIENT_COMPRESS = 32"
definition CLIENT_ODBC :: "32 word" where "CLIENT_ODBC = 64"
definition CLIENT_LOCAL_FILES :: "32 word" where "CLIENT_LOCAL_FILES = 128"
definition CLIENT_IGNORE_SPACE :: "32 word" where "CLIENT_IGNORE_SPACE = 256"
definition CLIENT_PROTOCOL_41 :: "32 word" where "CLIENT_PROTOCOL_41 = 512"
definition CLIENT_INTERACTIVE :: "32 word" where "CLIENT_INTERACTIVE = 1024"
definition CLIENT_SSL :: "32 word" where "CLIENT_SSL = 2048"
definition CLIENT_IGNORE_SIGPIPE :: "32 word" where "CLIENT_IGNORE_SIGPIPE = 4096"
definition CLIENT_TRANSACTIONS :: "32 word" where "CLIENT_TRANSACTIONS = 8192"
definition CLIENT_RESERVED :: "32 word" where "CLIENT_RESERVED = 16384"
definition CLIENT_SECURE_CONNECTION :: "32 word" where "CLIENT_SECURE_CONNECTION = 32768"
definition CLIENT_MULTI_STATEMENTS :: "32 word" where "CLIENT_MULTI_STATEMENTS = push_bit 16 1"
definition CLIENT_MULTI_RESULTS :: "32 word" where "CLIENT_MULTI_RESULTS = push_bit 17 1"
definition CLIENT_PS_MULTI_RESULTS :: "32 word" where "CLIENT_PS_MULTI_RESULTS = push_bit 18 1"
definition CLIENT_SSL_VERIFY_SERVER_CERT :: "32 word" where "CLIENT_SSL_VERIFY_SERVER_CERT = push_bit 30 1"
definition CLIENT_REMEMBER_OPTIONS :: "32 word" where "CLIENT_REMEMBER_OPTIONS = push_bit 31 1"

section \<open>Status of the server\<close>

definition SERVER_VERSION_LENGTH :: "32 word" where "SERVER_VERSION_LENGTH = 60"
definition SERVER_STATUS_IN_TRANS :: "32 word" where "SERVER_STATUS_IN_TRANS = 1"
definition SERVER_STATUS_AUTOCOMMIT :: "32 word" where "SERVER_STATUS_AUTOCOMMIT = 2"
definition SERVER_MORE_RESULTS_EXISTS :: "32 word" where "SERVER_MORE_RESULTS_EXISTS = 8"
definition SERVER_QUERY_NO_GOOD_INDEX_USED :: "32 word" where "SERVER_QUERY_NO_GOOD_INDEX_USED = 16"
definition SERVER_QUERY_NO_INDEX_USED :: "32 word" where "SERVER_QUERY_NO_INDEX_USED = 32"
definition SERVER_STATUS_CURSOR_EXISTS :: "32 word" where "SERVER_STATUS_CURSOR_EXISTS = 64"
definition SERVER_STATUS_LAST_ROW_SENT :: "32 word" where "SERVER_STATUS_LAST_ROW_SENT = 128"
definition SERVER_STATUS_DB_DROPPED :: "32 word" where "SERVER_STATUS_DB_DROPPED = 256"
definition SERVER_STATUS_NO_BACKSLASH_ESCAPES :: "32 word" where "SERVER_STATUS_NO_BACKSLASH_ESCAPES = 512"
definition SERVER_STATUS_METADATA_CHANGED :: "32 word" where "SERVER_STATUS_METADATA_CHANGED = 1024"
definition SERVER_QUERY_WAS_SLOW :: "32 word" where "SERVER_QUERY_WAS_SLOW = 2048"
definition SERVER_PS_OUT_PARAMS :: "32 word" where "SERVER_PS_OUT_PARAMS = 4096"

section \<open>Refresh\<close>

definition REFRESH_GRANT :: "32 word" where "REFRESH_GRANT = 1"
definition REFRESH_LOG :: "32 word" where "REFRESH_LOG = 2"
definition REFRESH_TABLES :: "32 word" where "REFRESH_TABLES = 4"
definition REFRESH_HOSTS :: "32 word" where "REFRESH_HOSTS = 8"
definition REFRESH_STATUS :: "32 word" where "REFRESH_STATUS = 16"
definition REFRESH_THREADS :: "32 word" where "REFRESH_THREADS = 32"
definition REFRESH_SLAVE :: "32 word" where "REFRESH_SLAVE = 64"
definition REFRESH_MASTER :: "32 word" where "REFRESH_MASTER = 128"
definition REFRESH_READ_LOCK :: "32 word" where "REFRESH_READ_LOCK = 16384"
definition REFRESH_FAST :: "32 word" where "REFRESH_FAST = 32768"
definition REFRESH_QUERY_CACHE :: "32 word" where "REFRESH_QUERY_CACHE = 65536"
definition REFRESH_QUERY_CACHE_FREE :: "32 word" where "REFRESH_QUERY_CACHE_FREE = 0x20000"
definition REFRESH_DES_KEY_FILE :: "32 word" where "REFRESH_DES_KEY_FILE = 0x40000"
definition REFRESH_USER_RESOURCES :: "32 word" where "REFRESH_USER_RESOURCES = 0x80000"
definition REFRESH_BACKUP_LOG :: "32 word" where "REFRESH_BACKUP_LOG = 0x200000"

definition CLIENT_ALL_FLAGS :: "32 word" where
  "CLIENT_ALL_FLAGS =
    CLIENT_LONG_PASSWORD OR CLIENT_FOUND_ROWS OR CLIENT_LONG_FLAG OR CLIENT_CONNECT_WITH_DB OR
    CLIENT_NO_SCHEMA OR CLIENT_COMPRESS OR CLIENT_ODBC OR CLIENT_LOCAL_FILES OR CLIENT_IGNORE_SPACE OR
    CLIENT_PROTOCOL_41 OR CLIENT_INTERACTIVE OR CLIENT_SSL OR CLIENT_IGNORE_SIGPIPE OR
    CLIENT_TRANSACTIONS OR CLIENT_RESERVED OR CLIENT_SECURE_CONNECTION OR CLIENT_MULTI_STATEMENTS OR
    CLIENT_MULTI_RESULTS OR CLIENT_PS_MULTI_RESULTS OR CLIENT_SSL_VERIFY_SERVER_CERT OR
    CLIENT_REMEMBER_OPTIONS"

definition CLIENT_BASIC_FLAGS :: "32 word" where
  "CLIENT_BASIC_FLAGS = ((CLIENT_ALL_FLAGS AND NOT CLIENT_SSL) AND NOT CLIENT_COMPRESS) AND NOT CLIENT_SSL_VERIFY_SERVER_CERT"

definition SERVER_STATUS_CLEAR_SET :: "32 word" where
  "SERVER_STATUS_CLEAR_SET =
     SERVER_QUERY_NO_GOOD_INDEX_USED OR SERVER_QUERY_NO_INDEX_USED OR SERVER_MORE_RESULTS_EXISTS
       OR SERVER_STATUS_METADATA_CHANGED"

section \<open>Classes of columns\<close>

record MYSQL_FIELD =
  flength :: "64 word"
  flags :: "32 word"
  ftype :: enum_field_types

definition IS_PRI_KEY :: "32 word \<Rightarrow> 32 word" where "IS_PRI_KEY n = n AND PRI_KEY_FLAG"
definition IS_NOT_NULL :: "32 word \<Rightarrow> 32 word" where "IS_NOT_NULL n = n AND NOT_NULL_FLAG"
definition IS_BLOB :: "32 word \<Rightarrow> 32 word" where "IS_BLOB n = n AND BLOB_FLAG"

definition IS_NUM :: "enum_field_types \<Rightarrow> bool" where
  "IS_NUM t \<longleftrightarrow> field_type_number t \<le> field_type_number MYSQL_TYPE_INT24 \<or> t = MYSQL_TYPE_YEAR \<or> t = MYSQL_TYPE_NEWDECIMAL"

definition IS_NUM_FIELD :: "MYSQL_FIELD \<Rightarrow> 32 word" where "IS_NUM_FIELD f = flags f AND NUM_FLAG"

definition INTERNAL_NUM_FIELD :: "MYSQL_FIELD \<Rightarrow> bool" where
  "INTERNAL_NUM_FIELD f \<longleftrightarrow>
     field_type_number (ftype f) \<le> field_type_number MYSQL_TYPE_INT24
       \<and> (ftype f \<noteq> MYSQL_TYPE_TIMESTAMP \<or> flength f = 14 \<or> flength f = 8)
     \<or> ftype f = MYSQL_TYPE_YEAR"

definition IS_LONGDATA :: "enum_field_types \<Rightarrow> bool" where
  "IS_LONGDATA t \<longleftrightarrow> field_type_number t \<ge> field_type_number MYSQL_TYPE_TINY_BLOB
     \<and> field_type_number t \<le> field_type_number MYSQL_TYPE_STRING"

section \<open>Flags as bits\<close>

lemmas client_flag_defs =
    CLIENT_LONG_PASSWORD_def CLIENT_FOUND_ROWS_def CLIENT_LONG_FLAG_def CLIENT_CONNECT_WITH_DB_def
    CLIENT_NO_SCHEMA_def CLIENT_COMPRESS_def CLIENT_ODBC_def CLIENT_LOCAL_FILES_def
    CLIENT_IGNORE_SPACE_def CLIENT_PROTOCOL_41_def CLIENT_INTERACTIVE_def CLIENT_SSL_def
    CLIENT_IGNORE_SIGPIPE_def CLIENT_TRANSACTIONS_def CLIENT_RESERVED_def CLIENT_SECURE_CONNECTION_def
    CLIENT_MULTI_STATEMENTS_def CLIENT_MULTI_RESULTS_def CLIENT_PS_MULTI_RESULTS_def
    CLIENT_SSL_VERIFY_SERVER_CERT_def CLIENT_REMEMBER_OPTIONS_def

definition client_flags :: "32 word list" where
  "client_flags = [
    CLIENT_LONG_PASSWORD, CLIENT_FOUND_ROWS, CLIENT_LONG_FLAG, CLIENT_CONNECT_WITH_DB, CLIENT_NO_SCHEMA,
    CLIENT_COMPRESS, CLIENT_ODBC, CLIENT_LOCAL_FILES, CLIENT_IGNORE_SPACE, CLIENT_PROTOCOL_41,
    CLIENT_INTERACTIVE, CLIENT_SSL, CLIENT_IGNORE_SIGPIPE, CLIENT_TRANSACTIONS, CLIENT_RESERVED,
    CLIENT_SECURE_CONNECTION, CLIENT_MULTI_STATEMENTS, CLIENT_MULTI_RESULTS, CLIENT_PS_MULTI_RESULTS,
    CLIENT_SSL_VERIFY_SERVER_CERT, CLIENT_REMEMBER_OPTIONS]"

text \<open>The bits of the capabilities, in the order of the header.\<close>

definition client_bits :: "nat list" where
  "client_bits = [0..<19] @ [30, 31]"

lemma client_flags_bits: "client_flags = map (\<lambda>n. 2 ^ n) client_bits"
  by (simp add: client_flags_def client_bits_def client_flag_defs upt_conv_Cons)

lemma bit_or_list: "bit (foldr (OR) ws (0 :: 32 word)) n = (\<exists>w \<in> set ws. bit w n)"
  by (induction ws) (auto simp: bit_or_iff)

lemma client_all_foldr: "CLIENT_ALL_FLAGS = foldr (OR) client_flags 0"
  by (simp only: CLIENT_ALL_FLAGS_def client_flags_def foldr.simps o_apply id_apply or.assoc bit.disj_zero_right)

lemma bit_without_exp: "bit (w AND NOT (2 ^ k)) n \<longleftrightarrow> bit w n \<and> n \<noteq> k" for w :: "'a::len word"
  by (auto simp: bit_and_iff bit_not_iff bit_exp_iff dest: bit_imp_possible_bit)

lemma client_bits_set: "n \<in> set client_bits \<longleftrightarrow> n < 19 \<or> n = 30 \<or> n = 31"
  by (auto simp: client_bits_def)

lemma bit_client_all: "bit CLIENT_ALL_FLAGS n \<longleftrightarrow> n \<in> set client_bits"
proof -
  have "bit CLIENT_ALL_FLAGS n \<longleftrightarrow> (\<exists>k \<in> set client_bits. bit (2 ^ k :: 32 word) n)"
    by (simp add: client_all_foldr bit_or_list client_flags_bits)
  also have "\<dots> \<longleftrightarrow> n \<in> set client_bits"
    by (auto simp: bit_exp_iff client_bits_set)
  finally show ?thesis .
qed

lemma server_commands_all: "set server_commands = UNIV" "distinct server_commands"
proof -
  have "c \<in> set server_commands" for c by (cases c) (simp_all add: server_commands_def)
  then show "set server_commands = UNIV" by blast
qed (simp add: server_commands_def)

section \<open>Properties\<close>

text \<open>The 21 capabilities are 21 different bits, CLIENT_ALL_FLAGS is exactly their union, and
  CLIENT_BASIC_FLAGS is that union without SSL, compression and the verification of the server's
  certificate and with every other capability.\<close>
theorem client_capabilities:
  "distinct client_flags \<and> list_all (\<lambda>w. w AND CLIENT_ALL_FLAGS = w) client_flags
     \<and> (bit CLIENT_ALL_FLAGS n \<longleftrightarrow> n < 19 \<or> n = 30 \<or> n = 31)
     \<and> (bit CLIENT_BASIC_FLAGS n \<longleftrightarrow> (n < 19 \<or> n = 31) \<and> n \<noteq> 5 \<and> n \<noteq> 11)"
proof -
  have exps: "CLIENT_SSL = 2 ^ 11" "CLIENT_COMPRESS = 2 ^ 5" "CLIENT_SSL_VERIFY_SERVER_CERT = 2 ^ 30"
    by (simp_all add: client_flag_defs)
  have "bit CLIENT_BASIC_FLAGS n \<longleftrightarrow> n \<in> set client_bits \<and> n \<noteq> 5 \<and> n \<noteq> 11 \<and> n \<noteq> 30"
    unfolding CLIENT_BASIC_FLAGS_def exps bit_without_exp bit_client_all by blast
  moreover have "distinct client_flags" by (simp add: client_flags_def client_flag_defs)
  moreover have "w AND CLIENT_ALL_FLAGS = w" if "w \<in> set client_flags" for w
    using that by (intro bit_eqI) (auto simp: bit_and_iff client_flags_bits bit_client_all bit_exp_iff)
  ultimately show ?thesis by (auto simp: bit_client_all client_bits_set list_all_iff)
qed

text \<open>The two tests for a numeric column agree but for two types: NEWDECIMAL is numeric only for IS_NUM,
  and a TIMESTAMP whose width is neither 14 nor 8 only for it; no column is numeric and long data.\<close>
theorem numeric_column_tests:
  "(INTERNAL_NUM_FIELD f \<longleftrightarrow> IS_NUM (ftype f) \<and> ftype f \<noteq> MYSQL_TYPE_NEWDECIMAL
       \<and> (ftype f = MYSQL_TYPE_TIMESTAMP \<longrightarrow> flength f = 14 \<or> flength f = 8))
     \<and> \<not> (IS_NUM (ftype f) \<and> IS_LONGDATA (ftype f))"
  by (cases "ftype f") (simp_all add: INTERNAL_NUM_FIELD_def IS_NUM_def IS_LONGDATA_def)

theorem numeric_column_tests_witness:
  "\<not> INTERNAL_NUM_FIELD \<lparr>flength = 10, flags = 0, ftype = MYSQL_TYPE_TIMESTAMP\<rparr>"
  using numeric_column_tests [of "\<lparr>flength = 10, flags = 0, ftype = MYSQL_TYPE_TIMESTAMP\<rparr>"] by simp

end
