(* ===== verification/FileModes.thy ===== *)
theory FileModes
  imports Main "HOL-Library.Word"
begin

text \<open>
  File attributes and error numbers of the SFTP library (libssh2_sftp.h and libssh2.h, inside NMSSH): the
  modes of a file as octal numbers, the tests for the type of a file, the flags of attributes and of
  opening, and the status codes.  An \<open>unsigned long\<close> has 64 bits.
\<close>

unbundle bit_operations_syntax

section \<open>Types and modes of a file\<close>

definition LIBSSH2_SFTP_S_IFMT :: "64 word" where "LIBSSH2_SFTP_S_IFMT = 61440"
definition LIBSSH2_SFTP_S_IFIFO :: "64 word" where "LIBSSH2_SFTP_S_IFIFO = 4096"
definition LIBSSH2_SFTP_S_IFCHR :: "64 word" where "LIBSSH2_SFTP_S_IFCHR = 8192"
definition LIBSSH2_SFTP_S_IFDIR :: "64 word" where "LIBSSH2_SFTP_S_IFDIR = 16384"
definition LIBSSH2_SFTP_S_IFBLK :: "64 word" where "LIBSSH2_SFTP_S_IFBLK = 24576"
definition LIBSSH2_SFTP_S_IFREG :: "64 word" where "LIBSSH2_SFTP_S_IFREG = 32768"
definition LIBSSH2_SFTP_S_IFLNK :: "64 word" where "LIBSSH2_SFTP_S_IFLNK = 40960"
definition LIBSSH2_SFTP_S_IFSOCK :: "64 word" where "LIBSSH2_SFTP_S_IFSOCK = 49152"
definition LIBSSH2_SFTP_S_IRWXU :: "64 word" where "LIBSSH2_SFTP_S_IRWXU = 448"
definition LIBSSH2_SFTP_S_IRUSR :: "64 word" where "LIBSSH2_SFTP_S_IRUSR = 256"
definition LIBSSH2_SFTP_S_IWUSR :: "64 word" where "LIBSSH2_SFTP_S_IWUSR = 128"
definition LIBSSH2_SFTP_S_IXUSR :: "64 word" where "LIBSSH2_SFTP_S_IXUSR = 64"
definition LIBSSH2_SFTP_S_IRWXG :: "64 word" where "LIBSSH2_SFTP_S_IRWXG = 56"
definition LIBSSH2_SFTP_S_IRGRP :: "64 word" where "LIBSSH2_SFTP_S_IRGRP = 32"
definition LIBSSH2_SFTP_S_IWGRP :: "64 word" where "LIBSSH2_SFTP_S_IWGRP = 16"
definition LIBSSH2_SFTP_S_IXGRP :: "64 word" where "LIBSSH2_SFTP_S_IXGRP = 8"
definition LIBSSH2_SFTP_S_IRWXO :: "64 word" where "LIBSSH2_SFTP_S_IRWXO = 7"
definition LIBSSH2_SFTP_S_IROTH :: "64 word" where "LIBSSH2_SFTP_S_IROTH = 4"
definition LIBSSH2_SFTP_S_IWOTH :: "64 word" where "LIBSSH2_SFTP_S_IWOTH = 2"
definition LIBSSH2_SFTP_S_IXOTH :: "64 word" where "LIBSSH2_SFTP_S_IXOTH = 1"

definition LIBSSH2_SFTP_S_ISLNK :: "64 word \<Rightarrow> bool" where
  "LIBSSH2_SFTP_S_ISLNK m \<longleftrightarrow> m AND LIBSSH2_SFTP_S_IFMT = LIBSSH2_SFTP_S_IFLNK"
definition LIBSSH2_SFTP_S_ISREG :: "64 word \<Rightarrow> bool" where
  "LIBSSH2_SFTP_S_ISREG m \<longleftrightarrow> m AND LIBSSH2_SFTP_S_IFMT = LIBSSH2_SFTP_S_IFREG"
definition LIBSSH2_SFTP_S_ISDIR :: "64 word \<Rightarrow> bool" where
  "LIBSSH2_SFTP_S_ISDIR m \<longleftrightarrow> m AND LIBSSH2_SFTP_S_IFMT = LIBSSH2_SFTP_S_IFDIR"
definition LIBSSH2_SFTP_S_ISCHR :: "64 word \<Rightarrow> bool" where
  "LIBSSH2_SFTP_S_ISCHR m \<longleftrightarrow> m AND LIBSSH2_SFTP_S_IFMT = LIBSSH2_SFTP_S_IFCHR"
definition LIBSSH2_SFTP_S_ISBLK :: "64 word \<Rightarrow> bool" where
  "LIBSSH2_SFTP_S_ISBLK m \<longleftrightarrow> m AND LIBSSH2_SFTP_S_IFMT = LIBSSH2_SFTP_S_IFBLK"
definition LIBSSH2_SFTP_S_ISFIFO :: "64 word \<Rightarrow> bool" where
  "LIBSSH2_SFTP_S_ISFIFO m \<longleftrightarrow> m AND LIBSSH2_SFTP_S_IFMT = LIBSSH2_SFTP_S_IFIFO"
definition LIBSSH2_SFTP_S_ISSOCK :: "64 word \<Rightarrow> bool" where
  "LIBSSH2_SFTP_S_ISSOCK m \<longleftrightarrow> m AND LIBSSH2_SFTP_S_IFMT = LIBSSH2_SFTP_S_IFSOCK"

section \<open>Attributes and opening\<close>

definition LIBSSH2_SFTP_ATTR_SIZE :: "64 word" where "LIBSSH2_SFTP_ATTR_SIZE = 0x00000001"
definition LIBSSH2_SFTP_ATTR_UIDGID :: "64 word" where "LIBSSH2_SFTP_ATTR_UIDGID = 0x00000002"
definition LIBSSH2_SFTP_ATTR_PERMISSIONS :: "64 word" where "LIBSSH2_SFTP_ATTR_PERMISSIONS = 0x00000004"
definition LIBSSH2_SFTP_ATTR_ACMODTIME :: "64 word" where "LIBSSH2_SFTP_ATTR_ACMODTIME = 0x00000008"
definition LIBSSH2_SFTP_ATTR_EXTENDED :: "64 word" where "LIBSSH2_SFTP_ATTR_EXTENDED = 0x80000000"

definition LIBSSH2_FXF_READ :: "64 word" where "LIBSSH2_FXF_READ = 0x00000001"
definition LIBSSH2_FXF_WRITE :: "64 word" where "LIBSSH2_FXF_WRITE = 0x00000002"
definition LIBSSH2_FXF_APPEND :: "64 word" where "LIBSSH2_FXF_APPEND = 0x00000004"
definition LIBSSH2_FXF_CREAT :: "64 word" where "LIBSSH2_FXF_CREAT = 0x00000008"
definition LIBSSH2_FXF_TRUNC :: "64 word" where "LIBSSH2_FXF_TRUNC = 0x00000010"
definition LIBSSH2_FXF_EXCL :: "64 word" where "LIBSSH2_FXF_EXCL = 0x00000020"

record LIBSSH2_SFTP_ATTRIBUTES =
  flags :: "64 word"
  filesize :: "64 word"
  uid :: "64 word"
  gid :: "64 word"
  permissions :: "64 word"
  atime :: "64 word"
  mtime :: "64 word"

section \<open>Status codes\<close>

definition LIBSSH2_FX_OK :: "nat" where "LIBSSH2_FX_OK = 0"
definition LIBSSH2_FX_EOF :: "nat" where "LIBSSH2_FX_EOF = 1"
definition LIBSSH2_FX_NO_SUCH_FILE :: "nat" where "LIBSSH2_FX_NO_SUCH_FILE = 2"
definition LIBSSH2_FX_PERMISSION_DENIED :: "nat" where "LIBSSH2_FX_PERMISSION_DENIED = 3"
definition LIBSSH2_FX_FAILURE :: "nat" where "LIBSSH2_FX_FAILURE = 4"
definition LIBSSH2_FX_BAD_MESSAGE :: "nat" where "LIBSSH2_FX_BAD_MESSAGE = 5"
definition LIBSSH2_FX_NO_CONNECTION :: "nat" where "LIBSSH2_FX_NO_CONNECTION = 6"
definition LIBSSH2_FX_CONNECTION_LOST :: "nat" where "LIBSSH2_FX_CONNECTION_LOST = 7"
definition LIBSSH2_FX_OP_UNSUPPORTED :: "nat" where "LIBSSH2_FX_OP_UNSUPPORTED = 8"
definition LIBSSH2_FX_INVALID_HANDLE :: "nat" where "LIBSSH2_FX_INVALID_HANDLE = 9"
definition LIBSSH2_FX_NO_SUCH_PATH :: "nat" where "LIBSSH2_FX_NO_SUCH_PATH = 10"
definition LIBSSH2_FX_FILE_ALREADY_EXISTS :: "nat" where "LIBSSH2_FX_FILE_ALREADY_EXISTS = 11"
definition LIBSSH2_FX_WRITE_PROTECT :: "nat" where "LIBSSH2_FX_WRITE_PROTECT = 12"
definition LIBSSH2_FX_NO_MEDIA :: "nat" where "LIBSSH2_FX_NO_MEDIA = 13"
definition LIBSSH2_FX_NO_SPACE_ON_FILESYSTEM :: "nat" where "LIBSSH2_FX_NO_SPACE_ON_FILESYSTEM = 14"
definition LIBSSH2_FX_QUOTA_EXCEEDED :: "nat" where "LIBSSH2_FX_QUOTA_EXCEEDED = 15"
definition LIBSSH2_FX_UNKNOWN_PRINCIPLE :: "nat" where "LIBSSH2_FX_UNKNOWN_PRINCIPLE = 16"
definition LIBSSH2_FX_UNKNOWN_PRINCIPAL :: "nat" where "LIBSSH2_FX_UNKNOWN_PRINCIPAL = 16"
definition LIBSSH2_FX_LOCK_CONFlICT :: "nat" where "LIBSSH2_FX_LOCK_CONFlICT = 17"
definition LIBSSH2_FX_LOCK_CONFLICT :: "nat" where "LIBSSH2_FX_LOCK_CONFLICT = 17"
definition LIBSSH2_FX_DIR_NOT_EMPTY :: "nat" where "LIBSSH2_FX_DIR_NOT_EMPTY = 18"
definition LIBSSH2_FX_NOT_A_DIRECTORY :: "nat" where "LIBSSH2_FX_NOT_A_DIRECTORY = 19"
definition LIBSSH2_FX_INVALID_FILENAME :: "nat" where "LIBSSH2_FX_INVALID_FILENAME = 20"
definition LIBSSH2_FX_LINK_LOOP :: "nat" where "LIBSSH2_FX_LINK_LOOP = 21"

definition sftp_status_codes :: "nat list" where
  "sftp_status_codes = [
    LIBSSH2_FX_OK, LIBSSH2_FX_EOF, LIBSSH2_FX_NO_SUCH_FILE,
    LIBSSH2_FX_PERMISSION_DENIED, LIBSSH2_FX_FAILURE, LIBSSH2_FX_BAD_MESSAGE,
    LIBSSH2_FX_NO_CONNECTION, LIBSSH2_FX_CONNECTION_LOST, LIBSSH2_FX_OP_UNSUPPORTED,
    LIBSSH2_FX_INVALID_HANDLE, LIBSSH2_FX_NO_SUCH_PATH, LIBSSH2_FX_FILE_ALREADY_EXISTS,
    LIBSSH2_FX_WRITE_PROTECT, LIBSSH2_FX_NO_MEDIA, LIBSSH2_FX_NO_SPACE_ON_FILESYSTEM,
    LIBSSH2_FX_QUOTA_EXCEEDED, LIBSSH2_FX_UNKNOWN_PRINCIPLE, LIBSSH2_FX_UNKNOWN_PRINCIPAL,
    LIBSSH2_FX_LOCK_CONFlICT, LIBSSH2_FX_LOCK_CONFLICT, LIBSSH2_FX_DIR_NOT_EMPTY,
    LIBSSH2_FX_NOT_A_DIRECTORY, LIBSSH2_FX_INVALID_FILENAME, LIBSSH2_FX_LINK_LOOP]"

lemmas mode_defs =
  LIBSSH2_SFTP_S_IFMT_def LIBSSH2_SFTP_S_IFIFO_def LIBSSH2_SFTP_S_IFCHR_def
  LIBSSH2_SFTP_S_IFDIR_def LIBSSH2_SFTP_S_IFBLK_def LIBSSH2_SFTP_S_IFREG_def
  LIBSSH2_SFTP_S_IFLNK_def LIBSSH2_SFTP_S_IFSOCK_def LIBSSH2_SFTP_S_IRWXU_def
  LIBSSH2_SFTP_S_IRUSR_def LIBSSH2_SFTP_S_IWUSR_def LIBSSH2_SFTP_S_IXUSR_def
  LIBSSH2_SFTP_S_IRWXG_def LIBSSH2_SFTP_S_IRGRP_def LIBSSH2_SFTP_S_IWGRP_def
  LIBSSH2_SFTP_S_IXGRP_def LIBSSH2_SFTP_S_IRWXO_def LIBSSH2_SFTP_S_IROTH_def
  LIBSSH2_SFTP_S_IWOTH_def LIBSSH2_SFTP_S_IXOTH_def

lemmas status_defs =
  LIBSSH2_FX_OK_def LIBSSH2_FX_EOF_def LIBSSH2_FX_NO_SUCH_FILE_def
  LIBSSH2_FX_PERMISSION_DENIED_def LIBSSH2_FX_FAILURE_def LIBSSH2_FX_BAD_MESSAGE_def
  LIBSSH2_FX_NO_CONNECTION_def LIBSSH2_FX_CONNECTION_LOST_def LIBSSH2_FX_OP_UNSUPPORTED_def
  LIBSSH2_FX_INVALID_HANDLE_def LIBSSH2_FX_NO_SUCH_PATH_def LIBSSH2_FX_FILE_ALREADY_EXISTS_def
  LIBSSH2_FX_WRITE_PROTECT_def LIBSSH2_FX_NO_MEDIA_def LIBSSH2_FX_NO_SPACE_ON_FILESYSTEM_def
  LIBSSH2_FX_QUOTA_EXCEEDED_def LIBSSH2_FX_UNKNOWN_PRINCIPLE_def LIBSSH2_FX_UNKNOWN_PRINCIPAL_def
  LIBSSH2_FX_LOCK_CONFlICT_def LIBSSH2_FX_LOCK_CONFLICT_def LIBSSH2_FX_DIR_NOT_EMPTY_def
  LIBSSH2_FX_NOT_A_DIRECTORY_def LIBSSH2_FX_INVALID_FILENAME_def LIBSSH2_FX_LINK_LOOP_def

lemmas type_tests =
  LIBSSH2_SFTP_S_ISLNK_def
  LIBSSH2_SFTP_S_ISREG_def
  LIBSSH2_SFTP_S_ISDIR_def
  LIBSSH2_SFTP_S_ISCHR_def
  LIBSSH2_SFTP_S_ISBLK_def
  LIBSSH2_SFTP_S_ISFIFO_def
  LIBSSH2_SFTP_S_ISSOCK_def

section \<open>Facts about the constants\<close>

definition type_test_list :: "(64 word \<Rightarrow> bool) list" where
  "type_test_list = [LIBSSH2_SFTP_S_ISLNK, LIBSSH2_SFTP_S_ISREG, LIBSSH2_SFTP_S_ISDIR, LIBSSH2_SFTP_S_ISCHR,
     LIBSSH2_SFTP_S_ISBLK, LIBSSH2_SFTP_S_ISFIFO, LIBSSH2_SFTP_S_ISSOCK]"

text \<open>The three bits of each class of users are the parts of its mask.\<close>

lemma rwx_masks:
  "LIBSSH2_SFTP_S_IRWXU = LIBSSH2_SFTP_S_IRUSR OR LIBSSH2_SFTP_S_IWUSR OR LIBSSH2_SFTP_S_IXUSR"
  "LIBSSH2_SFTP_S_IRWXG = LIBSSH2_SFTP_S_IRGRP OR LIBSSH2_SFTP_S_IWGRP OR LIBSSH2_SFTP_S_IXGRP"
  "LIBSSH2_SFTP_S_IRWXO = LIBSSH2_SFTP_S_IROTH OR LIBSSH2_SFTP_S_IWOTH OR LIBSSH2_SFTP_S_IXOTH"
  by (simp_all add: mode_defs)

text \<open>The status codes are the numbers from 0 to 21; only the two misspelt names repeat one.\<close>

lemma sftp_status_codes_all: "list_all (\<lambda>x. x < 22) sftp_status_codes"
  "list_all (\<lambda>x. x \<in> set sftp_status_codes) [0..<22]" "length sftp_status_codes = 24"
  by (simp_all add: sftp_status_codes_def status_defs upt_conv_Cons)

lemma ifmt_ignores_permissions:
  "(m OR p AND (LIBSSH2_SFTP_S_IRWXU OR LIBSSH2_SFTP_S_IRWXG OR LIBSSH2_SFTP_S_IRWXO)) AND LIBSSH2_SFTP_S_IFMT
     = m AND LIBSSH2_SFTP_S_IFMT"
proof -
  have "(LIBSSH2_SFTP_S_IRWXU OR LIBSSH2_SFTP_S_IRWXG OR LIBSSH2_SFTP_S_IRWXO) AND LIBSSH2_SFTP_S_IFMT = 0"
    by (simp add: mode_defs)
  then show ?thesis by (simp only: bit.conj_disj_distrib2 and.assoc) simp
qed

section \<open>Properties\<close>

text \<open>A mode is of at most one of the seven types, and its type does not depend on the permission bits of
  owner, group and others.\<close>
theorem file_type_exclusive:
  "length (filter (\<lambda>t. t m) type_test_list) \<le> 1
     \<and> list_all (\<lambda>t. t (m OR p AND (LIBSSH2_SFTP_S_IRWXU OR LIBSSH2_SFTP_S_IRWXG OR LIBSSH2_SFTP_S_IRWXO)) = t m)
          type_test_list"
  by (simp add: type_test_list_def type_tests ifmt_ignores_permissions) (simp add: mode_defs)

end
