(* ===== verification/RegexTables.thy ===== *)
theory RegexTables
  imports Main
begin

text \<open>
  The compiled regular expressions of the speech synthesiser: us_regexes.h and cst_regex_defs.h give for
  each expression its program, a string of bytes, and a \<open>cst_regex\<close> that points to it (cst_regex.h: the
  first byte of a program is a magic number, \<open>regsize\<close> is its size).  The matcher is not in the
  repository, so the programs are data here.
\<close>

definition CST_REGMAGIC :: nat where "CST_REGMAGIC = 156"
definition CST_NSUBEXP :: nat where "CST_NSUBEXP = 10"

record cst_regex =
  regstart :: nat
  reganch :: nat
  regmust :: "nat list option"
  regmlen :: nat
  regsize :: nat
  program :: "nat list"

section \<open>Programs\<close>

definition ordinal_number_rxprog :: "nat list" where
  "ordinal_number_rxprog = [
    156, 6, 0, 119, 1, 0, 3, 4, 0, 14, 48, 49, 50, 51, 52, 53, 54, 55, 56, 57, 0, 10, 0, 18,
    4, 0, 0, 48, 49, 50, 51, 52, 53, 54, 55, 56, 57, 44, 0, 21, 0, 3, 6, 0, 9, 8, 0, 69,
    116, 104, 0, 6, 0, 9, 8, 0, 60, 84, 72, 0, 6, 0, 9, 8, 0, 51, 115, 116, 0, 6, 0, 9,
    8, 0, 42, 83, 84, 0, 6, 0, 9, 8, 0, 33, 110, 100, 0, 6, 0, 9, 8, 0, 24, 78, 68, 0,
    6, 0, 9, 8, 0, 15, 114, 100, 0, 6, 0, 9, 8, 0, 6, 82, 68, 0, 31, 0, 3, 2, 0, 3,
    0, 0, 0]"

definition ordinal_number_rx :: cst_regex where
  "ordinal_number_rx = \<lparr>regstart = 0, reganch = 1, regmust = None, regmlen = 0, regsize = 123, program = ordinal_number_rxprog\<rparr>"

definition hasvowel_rxprog :: "nat list" where
  "hasvowel_rxprog = [
    156, 6, 0, 35, 1, 0, 3, 10, 0, 6, 3, 0, 0, 4, 0, 14, 97, 101, 105, 111, 117, 65, 69, 73,
    79, 85, 0, 10, 0, 6, 3, 0, 0, 2, 0, 3, 0, 0, 0]"

definition hasvowel_rx :: cst_regex where
  "hasvowel_rx = \<lparr>regstart = 0, reganch = 1, regmust = None, regmlen = 0, regsize = 39, program = hasvowel_rxprog\<rparr>"

definition usmoney_rxprog :: "nat list" where
  "usmoney_rxprog = [
    156, 6, 0, 72, 1, 0, 3, 8, 0, 5, 36, 0, 11, 0, 18, 4, 0, 0, 48, 49, 50, 51, 52, 53,
    54, 55, 56, 57, 44, 0, 6, 0, 34, 21, 0, 3, 6, 0, 25, 8, 0, 5, 46, 0, 11, 0, 17, 4,
    0, 0, 48, 49, 50, 51, 52, 53, 54, 55, 56, 57, 0, 31, 0, 6, 6, 0, 3, 9, 0, 3, 2, 0,
    3, 0, 0, 0]"

definition usmoney_rx :: cst_regex where
  "usmoney_rx = \<lparr>regstart = 0, reganch = 1, regmust = None, regmlen = 0, regsize = 76, program = usmoney_rxprog\<rparr>"

definition illion_rxprog :: "nat list" where
  "illion_rxprog = [
    156, 6, 0, 25, 1, 0, 3, 10, 0, 6, 3, 0, 0, 8, 0, 10, 105, 108, 108, 105, 111, 110, 0, 2,
    0, 3, 0, 0, 0]"

definition illion_rx :: cst_regex where
  "illion_rx = \<lparr>regstart = 0, reganch = 1, regmust = None, regmlen = 0, regsize = 29, program = illion_rxprog\<rparr>"

definition romannums_rxprog :: "nat list" where
  "romannums_rxprog = [
    156, 6, 0, 137, 1, 0, 3, 21, 0, 3, 6, 0, 36, 8, 0, 5, 73, 0, 6, 0, 8, 8, 0, 8,
    73, 0, 6, 0, 3, 9, 0, 3, 6, 0, 8, 8, 0, 8, 73, 0, 6, 0, 3, 9, 0, 89, 6, 0,
    9, 8, 0, 83, 73, 86, 0, 6, 0, 50, 8, 0, 5, 86, 0, 6, 0, 8, 8, 0, 8, 73, 0, 6,
    0, 3, 9, 0, 3, 6, 0, 8, 8, 0, 8, 73, 0, 6, 0, 3, 9, 0, 3, 6, 0, 8, 8, 0,
    8, 73, 0, 6, 0, 3, 9, 0, 30, 6, 0, 9, 8, 0, 24, 73, 88, 0, 6, 0, 18, 8, 0, 5,
    88, 0, 10, 0, 10, 4, 0, 0, 86, 73, 88, 0, 31, 0, 3, 2, 0, 3, 0, 0, 0]"

definition romannums_rx :: cst_regex where
  "romannums_rx = \<lparr>regstart = 0, reganch = 1, regmust = None, regmlen = 0, regsize = 141, program = romannums_rxprog\<rparr>"

definition drst_rxprog :: "nat list" where
  "drst_rxprog = [
    156, 6, 0, 45, 1, 0, 3, 21, 0, 3, 6, 0, 15, 4, 0, 6, 100, 68, 0, 4, 0, 21, 82, 114,
    0, 6, 0, 15, 4, 0, 6, 83, 115, 0, 4, 0, 6, 116, 84, 0, 31, 0, 3, 2, 0, 3, 0, 0,
    0]"

definition drst_rx :: cst_regex where
  "drst_rx = \<lparr>regstart = 0, reganch = 1, regmust = None, regmlen = 0, regsize = 49, program = drst_rxprog\<rparr>"

definition numess_rxprog :: "nat list" where
  "numess_rxprog = [
    156, 6, 0, 31, 1, 0, 3, 11, 0, 17, 4, 0, 0, 48, 49, 50, 51, 52, 53, 54, 55, 56, 57, 0,
    8, 0, 5, 115, 0, 2, 0, 3, 0, 0, 0]"

definition numess_rx :: cst_regex where
  "numess_rx = \<lparr>regstart = 0, reganch = 1, regmust = None, regmlen = 0, regsize = 35, program = numess_rxprog\<rparr>"

definition sevenphonenumber_rxprog :: "nat list" where
  "sevenphonenumber_rxprog = [
    156, 6, 0, 112, 1, 0, 3, 4, 0, 14, 48, 49, 50, 51, 52, 53, 54, 55, 56, 57, 0, 4, 0, 14,
    48, 49, 50, 51, 52, 53, 54, 55, 56, 57, 0, 4, 0, 14, 48, 49, 50, 51, 52, 53, 54, 55, 56, 57,
    0, 8, 0, 5, 45, 0, 4, 0, 14, 48, 49, 50, 51, 52, 53, 54, 55, 56, 57, 0, 4, 0, 14, 48,
    49, 50, 51, 52, 53, 54, 55, 56, 57, 0, 4, 0, 14, 48, 49, 50, 51, 52, 53, 54, 55, 56, 57, 0,
    4, 0, 14, 48, 49, 50, 51, 52, 53, 54, 55, 56, 57, 0, 2, 0, 3, 0, 0, 0]"

definition sevenphonenumber_rx :: cst_regex where
  "sevenphonenumber_rx = \<lparr>regstart = 0, reganch = 1, regmust = None, regmlen = 0, regsize = 116, program = sevenphonenumber_rxprog\<rparr>"

definition fourdigits_rxprog :: "nat list" where
  "fourdigits_rxprog = [
    156, 6, 0, 65, 1, 0, 3, 4, 0, 14, 48, 49, 50, 51, 52, 53, 54, 55, 56, 57, 0, 4, 0, 14,
    48, 49, 50, 51, 52, 53, 54, 55, 56, 57, 0, 4, 0, 14, 48, 49, 50, 51, 52, 53, 54, 55, 56, 57,
    0, 4, 0, 14, 48, 49, 50, 51, 52, 53, 54, 55, 56, 57, 0, 2, 0, 3, 0, 0, 0]"

definition fourdigits_rx :: cst_regex where
  "fourdigits_rx = \<lparr>regstart = 0, reganch = 1, regmust = None, regmlen = 0, regsize = 69, program = fourdigits_rxprog\<rparr>"

definition threedigits_rxprog :: "nat list" where
  "threedigits_rxprog = [
    156, 6, 0, 51, 1, 0, 3, 4, 0, 14, 48, 49, 50, 51, 52, 53, 54, 55, 56, 57, 0, 4, 0, 14,
    48, 49, 50, 51, 52, 53, 54, 55, 56, 57, 0, 4, 0, 14, 48, 49, 50, 51, 52, 53, 54, 55, 56, 57,
    0, 2, 0, 3, 0, 0, 0]"

definition threedigits_rx :: cst_regex where
  "threedigits_rx = \<lparr>regstart = 0, reganch = 1, regmust = None, regmlen = 0, regsize = 55, program = threedigits_rxprog\<rparr>"

definition numbertime_rxprog :: "nat list" where
  "numbertime_rxprog = [
    156, 6, 0, 75, 1, 0, 3, 6, 0, 17, 4, 0, 17, 48, 49, 50, 51, 52, 53, 54, 55, 56, 57, 0,
    6, 0, 3, 9, 0, 3, 4, 0, 14, 48, 49, 50, 51, 52, 53, 54, 55, 56, 57, 0, 8, 0, 5, 58,
    0, 4, 0, 10, 48, 49, 50, 51, 52, 53, 0, 4, 0, 14, 48, 49, 50, 51, 52, 53, 54, 55, 56, 57,
    0, 2, 0, 3, 0, 0, 0]"

definition numbertime_rx :: cst_regex where
  "numbertime_rx = \<lparr>regstart = 0, reganch = 1, regmust = None, regmlen = 0, regsize = 79, program = numbertime_rxprog\<rparr>"

definition numbertimexm_rxprog :: "nat list" where
  "numbertimexm_rxprog = [
    156, 6, 0, 87, 1, 0, 3, 6, 0, 17, 4, 0, 17, 48, 49, 50, 51, 52, 53, 54, 55, 56, 57, 0,
    6, 0, 3, 9, 0, 3, 4, 0, 14, 48, 49, 50, 51, 52, 53, 54, 55, 56, 57, 0, 4, 0, 6, 58,
    46, 0, 4, 0, 10, 48, 49, 50, 51, 52, 53, 0, 4, 0, 14, 48, 49, 50, 51, 52, 53, 54, 55, 56,
    57, 0, 4, 0, 6, 97, 112, 0, 8, 0, 5, 109, 0, 2, 0, 3, 0, 0, 0]"

definition numbertimexm_rx :: cst_regex where
  "numbertimexm_rx = \<lparr>regstart = 0, reganch = 1, regmust = None, regmlen = 0, regsize = 91, program = numbertimexm_rxprog\<rparr>"

definition dottedabbrevs_rxprog :: "nat list" where
  "dottedabbrevs_rxprog = [
    156, 6, 0, 161, 1, 0, 3, 21, 0, 3, 6, 0, 64, 4, 0, 56, 65, 66, 67, 68, 69, 70, 71, 72,
    73, 74, 75, 76, 77, 78, 79, 80, 81, 82, 83, 84, 85, 86, 87, 88, 89, 90, 97, 98, 99, 100, 101, 102,
    103, 104, 105, 106, 107, 108, 109, 110, 111, 112, 113, 114, 115, 116, 117, 118, 119, 120, 121, 122, 0, 8, 0, 5,
    46, 0, 31, 0, 3, 6, 0, 6, 7, 0, 73, 6, 0, 3, 9, 0, 3, 4, 0, 56, 65, 66, 67, 68,
    69, 70, 71, 72, 73, 74, 75, 76, 77, 78, 79, 80, 81, 82, 83, 84, 85, 86, 87, 88, 89, 90, 97, 98,
    99, 100, 101, 102, 103, 104, 105, 106, 107, 108, 109, 110, 111, 112, 113, 114, 115, 116, 117, 118, 119, 120, 121, 122,
    0, 6, 0, 8, 8, 0, 8, 46, 0, 6, 0, 3, 9, 0, 3, 2, 0, 3, 0, 0, 0]"

definition dottedabbrevs_rx :: cst_regex where
  "dottedabbrevs_rx = \<lparr>regstart = 0, reganch = 1, regmust = None, regmlen = 0, regsize = 165, program = dottedabbrevs_rxprog\<rparr>"

definition digitsslashdigits_rxprog :: "nat list" where
  "digitsslashdigits_rxprog = [
    156, 6, 0, 48, 1, 0, 3, 11, 0, 17, 4, 0, 0, 48, 49, 50, 51, 52, 53, 54, 55, 56, 57, 0,
    8, 0, 5, 47, 0, 11, 0, 17, 4, 0, 0, 48, 49, 50, 51, 52, 53, 54, 55, 56, 57, 0, 2, 0,
    3, 0, 0, 0]"

definition digitsslashdigits_rx :: cst_regex where
  "digitsslashdigits_rx = \<lparr>regstart = 0, reganch = 1, regmust = None, regmlen = 0, regsize = 52, program = digitsslashdigits_rxprog\<rparr>"

definition digits2dash_rxprog :: "nat list" where
  "digits2dash_rxprog = [
    156, 6, 0, 72, 1, 0, 3, 21, 0, 3, 6, 0, 28, 11, 0, 17, 4, 0, 0, 48, 49, 50, 51, 52,
    53, 54, 55, 56, 57, 0, 8, 0, 5, 45, 0, 3, 0, 3, 31, 0, 3, 6, 0, 6, 7, 0, 37, 6,
    0, 3, 9, 0, 3, 11, 0, 17, 4, 0, 0, 48, 49, 50, 51, 52, 53, 54, 55, 56, 57, 0, 2, 0,
    3, 0, 0, 0]"

definition digits2dash_rx :: cst_regex where
  "digits2dash_rx = \<lparr>regstart = 0, reganch = 1, regmust = None, regmlen = 0, regsize = 76, program = digits2dash_rxprog\<rparr>"

definition wandm_rxprog :: "nat list" where
  "wandm_rxprog = [
    156, 6, 0, 190, 1, 0, 3, 10, 0, 18, 4, 0, 0, 48, 49, 50, 51, 52, 53, 54, 55, 56, 57, 44,
    0, 11, 0, 17, 4, 0, 0, 48, 49, 50, 51, 52, 53, 54, 55, 56, 57, 0, 21, 0, 3, 6, 0, 9,
    8, 0, 137, 108, 98, 0, 6, 0, 9, 8, 0, 128, 76, 66, 0, 6, 0, 10, 8, 0, 119, 108, 98, 115,
    0, 6, 0, 10, 8, 0, 109, 76, 66, 83, 0, 6, 0, 9, 8, 0, 99, 102, 116, 0, 6, 0, 9, 8,
    0, 90, 70, 84, 0, 6, 0, 9, 8, 0, 81, 107, 103, 0, 6, 0, 9, 8, 0, 72, 107, 109, 0, 6,
    0, 9, 8, 0, 63, 111, 122, 0, 6, 0, 9, 8, 0, 54, 104, 122, 0, 6, 0, 9, 8, 0, 45, 72,
    122, 0, 6, 0, 9, 8, 0, 36, 72, 90, 0, 6, 0, 10, 8, 0, 27, 75, 72, 122, 0, 6, 0, 10,
    8, 0, 17, 77, 72, 122, 0, 6, 0, 10, 8, 0, 7, 71, 72, 122, 0, 31, 0, 3, 2, 0, 3, 0,
    0, 0]"

definition wandm_rx :: cst_regex where
  "wandm_rx = \<lparr>regstart = 0, reganch = 1, regmust = None, regmlen = 0, regsize = 194, program = wandm_rxprog\<rparr>"

definition cst_rx_white_rxprog :: "nat list" where
  "cst_rx_white_rxprog = [
    156, 6, 0, 20, 1, 0, 3, 11, 0, 11, 4, 0, 0, 32, 110, 116, 114, 0, 2, 0, 3, 0, 0, 0]"

definition cst_rx_white_rx :: cst_regex where
  "cst_rx_white_rx = \<lparr>regstart = 0, reganch = 1, regmust = None, regmlen = 0, regsize = 24, program = cst_rx_white_rxprog\<rparr>"

definition cst_rx_alpha_rxprog :: "nat list" where
  "cst_rx_alpha_rxprog = [
    156, 6, 0, 68, 1, 0, 3, 11, 0, 59, 4, 0, 0, 65, 66, 67, 68, 69, 70, 71, 72, 73, 74, 75,
    76, 77, 78, 79, 80, 81, 82, 83, 84, 85, 86, 87, 88, 89, 90, 97, 98, 99, 100, 101, 102, 103, 104, 105,
    106, 107, 108, 109, 110, 111, 112, 113, 114, 115, 116, 117, 118, 119, 120, 121, 122, 0, 2, 0, 3, 0, 0, 0]"

definition cst_rx_alpha_rx :: cst_regex where
  "cst_rx_alpha_rx = \<lparr>regstart = 0, reganch = 1, regmust = None, regmlen = 0, regsize = 72, program = cst_rx_alpha_rxprog\<rparr>"

definition cst_rx_uppercase_rxprog :: "nat list" where
  "cst_rx_uppercase_rxprog = [
    156, 6, 0, 42, 1, 0, 3, 11, 0, 33, 4, 0, 0, 65, 66, 67, 68, 69, 70, 71, 72, 73, 74, 75,
    76, 77, 78, 79, 80, 81, 82, 83, 84, 85, 86, 87, 88, 89, 90, 0, 2, 0, 3, 0, 0, 0]"

definition cst_rx_uppercase_rx :: cst_regex where
  "cst_rx_uppercase_rx = \<lparr>regstart = 0, reganch = 1, regmust = None, regmlen = 0, regsize = 46, program = cst_rx_uppercase_rxprog\<rparr>"

definition cst_rx_lowercase_rxprog :: "nat list" where
  "cst_rx_lowercase_rxprog = [
    156, 6, 0, 42, 1, 0, 3, 11, 0, 33, 4, 0, 0, 97, 98, 99, 100, 101, 102, 103, 104, 105, 106, 107,
    108, 109, 110, 111, 112, 113, 114, 115, 116, 117, 118, 119, 120, 121, 122, 0, 2, 0, 3, 0, 0, 0]"

definition cst_rx_lowercase_rx :: cst_regex where
  "cst_rx_lowercase_rx = \<lparr>regstart = 0, reganch = 1, regmust = None, regmlen = 0, regsize = 46, program = cst_rx_lowercase_rxprog\<rparr>"

definition cst_rx_alphanum_rxprog :: "nat list" where
  "cst_rx_alphanum_rxprog = [
    156, 6, 0, 78, 1, 0, 3, 11, 0, 69, 4, 0, 0, 48, 49, 50, 51, 52, 53, 54, 55, 56, 57, 65,
    66, 67, 68, 69, 70, 71, 72, 73, 74, 75, 76, 77, 78, 79, 80, 81, 82, 83, 84, 85, 86, 87, 88, 89,
    90, 97, 98, 99, 100, 101, 102, 103, 104, 105, 106, 107, 108, 109, 110, 111, 112, 113, 114, 115, 116, 117, 118, 119,
    120, 121, 122, 0, 2, 0, 3, 0, 0, 0]"

definition cst_rx_alphanum_rx :: cst_regex where
  "cst_rx_alphanum_rx = \<lparr>regstart = 0, reganch = 1, regmust = None, regmlen = 0, regsize = 82, program = cst_rx_alphanum_rxprog\<rparr>"

definition cst_rx_identifier_rxprog :: "nat list" where
  "cst_rx_identifier_rxprog = [
    156, 6, 0, 136, 1, 0, 3, 4, 0, 57, 65, 66, 67, 68, 69, 70, 71, 72, 73, 74, 75, 76, 77, 78,
    79, 80, 81, 82, 83, 84, 85, 86, 87, 88, 89, 90, 97, 98, 99, 100, 101, 102, 103, 104, 105, 106, 107, 108,
    109, 110, 111, 112, 113, 114, 115, 116, 117, 118, 119, 120, 121, 122, 95, 0, 11, 0, 70, 4, 0, 0, 48, 49,
    50, 51, 52, 53, 54, 55, 56, 57, 65, 66, 67, 68, 69, 70, 71, 72, 73, 74, 75, 76, 77, 78, 79, 80,
    81, 82, 83, 84, 85, 86, 87, 88, 89, 90, 97, 98, 99, 100, 101, 102, 103, 104, 105, 106, 107, 108, 109, 110,
    111, 112, 113, 114, 115, 116, 117, 118, 119, 120, 121, 122, 95, 0, 2, 0, 3, 0, 0, 0]"

definition cst_rx_identifier_rx :: cst_regex where
  "cst_rx_identifier_rx = \<lparr>regstart = 0, reganch = 1, regmust = None, regmlen = 0, regsize = 140, program = cst_rx_identifier_rxprog\<rparr>"

definition cst_rx_int_rxprog :: "nat list" where
  "cst_rx_int_rxprog = [
    156, 6, 0, 40, 1, 0, 3, 6, 0, 8, 8, 0, 8, 45, 0, 6, 0, 3, 9, 0, 3, 11, 0, 17,
    4, 0, 0, 48, 49, 50, 51, 52, 53, 54, 55, 56, 57, 0, 2, 0, 3, 0, 0, 0]"

definition cst_rx_int_rx :: cst_regex where
  "cst_rx_int_rx = \<lparr>regstart = 0, reganch = 1, regmust = None, regmlen = 0, regsize = 44, program = cst_rx_int_rxprog\<rparr>"

definition cst_rx_double_rxprog :: "nat list" where
  "cst_rx_double_rxprog = [
    156, 6, 0, 199, 1, 0, 3, 6, 0, 8, 8, 0, 8, 45, 0, 6, 0, 3, 9, 0, 3, 21, 0, 3,
    6, 0, 51, 22, 0, 3, 6, 0, 42, 11, 0, 17, 4, 0, 0, 48, 49, 50, 51, 52, 53, 54, 55, 56,
    57, 0, 8, 0, 5, 46, 0, 10, 0, 17, 4, 0, 0, 48, 49, 50, 51, 52, 53, 54, 55, 56, 57, 0,
    32, 0, 66, 6, 0, 29, 23, 0, 3, 6, 0, 20, 11, 0, 17, 4, 0, 0, 48, 49, 50, 51, 52, 53,
    54, 55, 56, 57, 0, 33, 0, 37, 6, 0, 34, 24, 0, 3, 6, 0, 25, 8, 0, 5, 46, 0, 11, 0,
    17, 4, 0, 0, 48, 49, 50, 51, 52, 53, 54, 55, 56, 57, 0, 34, 0, 3, 31, 0, 3, 6, 0, 50,
    25, 0, 3, 6, 0, 41, 4, 0, 6, 101, 69, 0, 6, 0, 9, 4, 0, 9, 45, 43, 0, 6, 0, 3,
    9, 0, 3, 11, 0, 17, 4, 0, 0, 48, 49, 50, 51, 52, 53, 54, 55, 56, 57, 0, 35, 0, 6, 6,
    0, 3, 9, 0, 3, 2, 0, 3, 0, 0, 0]"

definition cst_rx_double_rx :: cst_regex where
  "cst_rx_double_rx = \<lparr>regstart = 0, reganch = 1, regmust = None, regmlen = 0, regsize = 203, program = cst_rx_double_rxprog\<rparr>"

definition cst_rx_commaint_rxprog :: "nat list" where
  "cst_rx_commaint_rxprog = [
    156, 6, 0, 224, 1, 0, 3, 4, 0, 14, 48, 49, 50, 51, 52, 53, 54, 55, 56, 57, 0, 6, 0, 17,
    4, 0, 17, 48, 49, 50, 51, 52, 53, 54, 55, 56, 57, 0, 6, 0, 3, 9, 0, 3, 6, 0, 17, 4,
    0, 17, 48, 49, 50, 51, 52, 53, 54, 55, 56, 57, 0, 6, 0, 3, 9, 0, 3, 8, 0, 5, 44, 0,
    6, 0, 62, 21, 0, 3, 6, 0, 50, 4, 0, 14, 48, 49, 50, 51, 52, 53, 54, 55, 56, 57, 0, 4,
    0, 14, 48, 49, 50, 51, 52, 53, 54, 55, 56, 57, 0, 4, 0, 14, 48, 49, 50, 51, 52, 53, 54, 55,
    56, 57, 0, 8, 0, 5, 44, 0, 31, 0, 3, 7, 0, 59, 6, 0, 3, 9, 0, 3, 4, 0, 14, 48,
    49, 50, 51, 52, 53, 54, 55, 56, 57, 0, 4, 0, 14, 48, 49, 50, 51, 52, 53, 54, 55, 56, 57, 0,
    4, 0, 14, 48, 49, 50, 51, 52, 53, 54, 55, 56, 57, 0, 6, 0, 34, 22, 0, 3, 6, 0, 25, 8,
    0, 5, 46, 0, 11, 0, 17, 4, 0, 0, 48, 49, 50, 51, 52, 53, 54, 55, 56, 57, 0, 32, 0, 6,
    6, 0, 3, 9, 0, 3, 2, 0, 3, 0, 0, 0]"

definition cst_rx_commaint_rx :: cst_regex where
  "cst_rx_commaint_rx = \<lparr>regstart = 0, reganch = 1, regmust = None, regmlen = 0, regsize = 228, program = cst_rx_commaint_rxprog\<rparr>"

definition cst_rx_digits_rxprog :: "nat list" where
  "cst_rx_digits_rxprog = [
    156, 6, 0, 40, 1, 0, 3, 4, 0, 14, 48, 49, 50, 51, 52, 53, 54, 55, 56, 57, 0, 10, 0, 17,
    4, 0, 0, 48, 49, 50, 51, 52, 53, 54, 55, 56, 57, 0, 2, 0, 3, 0, 0, 0]"

definition cst_rx_digits_rx :: cst_regex where
  "cst_rx_digits_rx = \<lparr>regstart = 0, reganch = 1, regmust = None, regmlen = 0, regsize = 44, program = cst_rx_digits_rxprog\<rparr>"

definition cst_rx_dotted_abbrev_rxprog :: "nat list" where
  "cst_rx_dotted_abbrev_rxprog = [
    156, 6, 0, 147, 1, 0, 3, 6, 0, 76, 21, 0, 3, 6, 0, 64, 4, 0, 56, 65, 66, 67, 68, 69,
    70, 71, 72, 73, 74, 75, 76, 77, 78, 79, 80, 81, 82, 83, 84, 85, 86, 87, 88, 89, 90, 97, 98, 99,
    100, 101, 102, 103, 104, 105, 106, 107, 108, 109, 110, 111, 112, 113, 114, 115, 116, 117, 118, 119, 120, 121, 122, 0,
    8, 0, 5, 46, 0, 31, 0, 3, 7, 0, 73, 6, 0, 3, 9, 0, 3, 4, 0, 56, 65, 66, 67, 68,
    69, 70, 71, 72, 73, 74, 75, 76, 77, 78, 79, 80, 81, 82, 83, 84, 85, 86, 87, 88, 89, 90, 97, 98,
    99, 100, 101, 102, 103, 104, 105, 106, 107, 108, 109, 110, 111, 112, 113, 114, 115, 116, 117, 118, 119, 120, 121, 122,
    0, 2, 0, 3, 0, 0, 0]"

definition cst_rx_dotted_abbrev_rx :: cst_regex where
  "cst_rx_dotted_abbrev_rx = \<lparr>regstart = 0, reganch = 1, regmust = None, regmlen = 0, regsize = 151, program = cst_rx_dotted_abbrev_rxprog\<rparr>"

section \<open>All expressions\<close>

definition all_regexes :: "cst_regex list" where
  "all_regexes = [
    ordinal_number_rx, hasvowel_rx, usmoney_rx, illion_rx,
    romannums_rx, drst_rx, numess_rx, sevenphonenumber_rx,
    fourdigits_rx, threedigits_rx, numbertime_rx, numbertimexm_rx,
    dottedabbrevs_rx, digitsslashdigits_rx, digits2dash_rx, wandm_rx,
    cst_rx_white_rx, cst_rx_alpha_rx, cst_rx_uppercase_rx, cst_rx_lowercase_rx,
    cst_rx_alphanum_rx, cst_rx_identifier_rx, cst_rx_int_rx, cst_rx_double_rx,
    cst_rx_commaint_rx, cst_rx_digits_rx, cst_rx_dotted_abbrev_rx]"

lemmas rx_defs =
  ordinal_number_rx_def ordinal_number_rxprog_def hasvowel_rx_def hasvowel_rxprog_def
  usmoney_rx_def usmoney_rxprog_def illion_rx_def illion_rxprog_def
  romannums_rx_def romannums_rxprog_def drst_rx_def drst_rxprog_def
  numess_rx_def numess_rxprog_def sevenphonenumber_rx_def sevenphonenumber_rxprog_def
  fourdigits_rx_def fourdigits_rxprog_def threedigits_rx_def threedigits_rxprog_def
  numbertime_rx_def numbertime_rxprog_def numbertimexm_rx_def numbertimexm_rxprog_def
  dottedabbrevs_rx_def dottedabbrevs_rxprog_def digitsslashdigits_rx_def digitsslashdigits_rxprog_def
  digits2dash_rx_def digits2dash_rxprog_def wandm_rx_def wandm_rxprog_def
  cst_rx_white_rx_def cst_rx_white_rxprog_def cst_rx_alpha_rx_def cst_rx_alpha_rxprog_def
  cst_rx_uppercase_rx_def cst_rx_uppercase_rxprog_def cst_rx_lowercase_rx_def cst_rx_lowercase_rxprog_def
  cst_rx_alphanum_rx_def cst_rx_alphanum_rxprog_def cst_rx_identifier_rx_def cst_rx_identifier_rxprog_def
  cst_rx_int_rx_def cst_rx_int_rxprog_def cst_rx_double_rx_def cst_rx_double_rxprog_def
  cst_rx_commaint_rx_def cst_rx_commaint_rxprog_def cst_rx_digits_rx_def cst_rx_digits_rxprog_def
  cst_rx_dotted_abbrev_rx_def cst_rx_dotted_abbrev_rxprog_def

text \<open>What the header says of a program.\<close>

definition regex_ok :: "cst_regex \<Rightarrow> bool" where
  "regex_ok r \<longleftrightarrow> length (program r) = regsize r \<and> hd (program r) = CST_REGMAGIC \<and> last (program r) = 0
     \<and> list_all (\<lambda>b. b < 256) (program r)"

section \<open>Properties\<close>

text \<open>Every compiled expression is consistent: its size is the size of its program, which starts with
  the magic number, ends with a null byte and consists of bytes.\<close>
theorem regexes_consistent: "list_all regex_ok all_regexes"
  by (simp add: all_regexes_def regex_ok_def rx_defs CST_REGMAGIC_def)

text \<open>The expression for white space was compiled without the backslashes of its escapes: its set of
  characters, the bytes between positions 13 and 17 of the program, is blank, n, t and r, and no byte of
  the program is a tab, a line feed or a carriage return, the codes 9, 10 and 13.\<close>
theorem white_space_regex_has_letters:
  "take 4 (drop 13 (program cst_rx_white_rx)) = [32, 110, 116, 114]
     \<and> 9 \<notin> set (program cst_rx_white_rx) \<and> 10 \<notin> set (program cst_rx_white_rx)
     \<and> 13 \<notin> set (program cst_rx_white_rx)"
  by (simp add: cst_rx_white_rx_def cst_rx_white_rxprog_def)

end
