(* ===== verification/WordDictionary.thy ===== *)
theory WordDictionary
  imports Foundation
begin

text \<open>
  The word dictionaries of the voice screen: GraphemeDictionary.m (PhonemeDictionary.m adds nothing to it) and
  LanguageModel.m.  A dictionary of several words per key is a map to lists; \<open>addToKey\<close> changes the
  list of a key in place, and no caller keeps a list, so the map holds its value.  The order of
  \<open>allKeys\<close> is not documented, so it is a parameter.  The contents of the resource files are arguments:
  \<^term>\<open>None\<close> when a file is missing, and a loop over the lines of \<open>nil\<close> does nothing.  The log
  messages are left out.
\<close>

section \<open>GraphemeDictionary.m\<close>

type_synonym GraphemeDictionary = "string \<rightharpoonup> string list"

definition addKey :: "GraphemeDictionary \<Rightarrow> string \<Rightarrow> GraphemeDictionary" where
  "addKey keys key = keys(key \<mapsto> [])"

definition getValuesAtKey :: "GraphemeDictionary \<Rightarrow> string \<Rightarrow> string list option" where
  "getValuesAtKey keys key = keys key"

definition addToKey :: "GraphemeDictionary \<Rightarrow> string \<Rightarrow> string \<Rightarrow> GraphemeDictionary" where
  "addToKey keys key v =
     (let tmpArray = (case keys key of None \<Rightarrow> [] | Some ws \<Rightarrow> ws) in keys(key \<mapsto> tmpArray @ [v]))"

definition initWithKey :: "string \<Rightarrow> GraphemeDictionary" where
  "initWithKey key = Map.empty(key \<mapsto> [])"

definition initWithKeyValue :: "string \<Rightarrow> string \<Rightarrow> GraphemeDictionary" where
  "initWithKeyValue key v = Map.empty(key \<mapsto> [v])"

text \<open>The predicate \<open>SELF beginswith[cd] grapheme\<close>.\<close>

definition beginsCD :: "string \<Rightarrow> string \<Rightarrow> bool" where
  "beginsCD s g = hasPrefix (foldCD s) (foldCD g)"

definition wordsOf :: "GraphemeDictionary \<Rightarrow> string \<Rightarrow> string list" where
  "wordsOf keys k =
     (case keys k of None \<Rightarrow> [] | Some ws \<Rightarrow> if length ws \<ge> 1 then ws else [])"

definition getMatches :: "(GraphemeDictionary \<Rightarrow> string list) \<Rightarrow> GraphemeDictionary \<Rightarrow> string \<Rightarrow> string list" where
  "getMatches allKeys keys grapheme =
     concat (map (wordsOf keys) (filter (\<lambda>k. beginsCD k grapheme) (allKeys keys)))"

section \<open>LanguageModel.m\<close>

record LanguageModel =
  letterSounds :: "string \<rightharpoonup> string"
  dictionaryWords :: "string list"
  phonemeDictionary :: GraphemeDictionary
  graphemeDictionary :: "string \<rightharpoonup> string"

definition linesOf :: "string option \<Rightarrow> string list" where
  "linesOf content = (case content of None \<Rightarrow> [] | Some s \<Rightarrow> components ''\<newline>'' s)"

fun wordSoundsLoop :: "string list \<Rightarrow> (string \<rightharpoonup> string) \<Rightarrow> (string \<rightharpoonup> string) outcome" where
  "wordSoundsLoop [] d = Inr d"
| "wordSoundsLoop (line # rest) d =
     (if line = [] then wordSoundsLoop rest d
      else let letter = components ''='' line
           in andThen (objectAtIndex letter 1) (\<lambda>v. andThen (objectAtIndex letter 0) (\<lambda>k.
                wordSoundsLoop rest (d(k \<mapsto> v)))))"

definition getWordSounds :: "string option \<Rightarrow> LanguageModel \<Rightarrow> LanguageModel outcome" where
  "getWordSounds content m =
     andThen (wordSoundsLoop (linesOf content) (letterSounds m)) (\<lambda>d. Inr (m\<lparr>letterSounds := d\<rparr>))"

definition getDictionaryWords :: "string option \<Rightarrow> LanguageModel \<Rightarrow> LanguageModel" where
  "getDictionaryWords content m = m\<lparr>dictionaryWords := dictionaryWords m @ linesOf content\<rparr>"

text \<open>On Latin-1 text without line ends every character is a composed character sequence.\<close>

definition getWordLetters :: "string \<Rightarrow> string list" where
  "getWordLetters word = map (\<lambda>c. [c]) word"

fun phonemeLoop :: "string list \<Rightarrow> GraphemeDictionary \<Rightarrow> GraphemeDictionary outcome" where
  "phonemeLoop [] d = Inr d"
| "phonemeLoop (line # rest) d =
     (let lineContents = components ''='' line
      in andThen (objectAtIndex lineContents 0) (\<lambda>k. andThen (objectAtIndex lineContents 1) (\<lambda>v.
           phonemeLoop rest (addToKey d k v))))"

definition getPhonemeDictionary :: "string option \<Rightarrow> LanguageModel \<Rightarrow> LanguageModel outcome" where
  "getPhonemeDictionary content m =
     andThen (phonemeLoop (linesOf content) (phonemeDictionary m)) (\<lambda>d. Inr (m\<lparr>phonemeDictionary := d\<rparr>))"

text \<open>Here the exception is caught and the loop goes on with the next line.\<close>

fun graphemeLoop :: "string list \<Rightarrow> (string \<rightharpoonup> string) \<Rightarrow> (string \<rightharpoonup> string)" where
  "graphemeLoop [] d = d"
| "graphemeLoop (line # rest) d =
     (let lineContents = components ''='' line
      in case andThen (objectAtIndex lineContents 1) (\<lambda>v. andThen (objectAtIndex lineContents 0) (\<lambda>k. Inr (d(k \<mapsto> v))))
         of Inr d' \<Rightarrow> graphemeLoop rest d' | Inl e \<Rightarrow> graphemeLoop rest d)"

definition getGraphemeDictionary :: "string option \<Rightarrow> LanguageModel \<Rightarrow> LanguageModel" where
  "getGraphemeDictionary content m = m\<lparr>graphemeDictionary := graphemeLoop (linesOf content) (graphemeDictionary m)\<rparr>"

text \<open>\<open>init\<close> reads words.txt and letter\_sounds.txt.\<close>

definition initLanguageModel :: "string option \<Rightarrow> string option \<Rightarrow> LanguageModel outcome" where
  "initLanguageModel wordsFile soundsFile =
     andThen (getPhonemeDictionary wordsFile
         \<lparr>letterSounds = Map.empty, dictionaryWords = [], phonemeDictionary = Map.empty, graphemeDictionary = Map.empty\<rparr>)
       (\<lambda>m. Inr (getGraphemeDictionary soundsFile m))"

section \<open>getWordMatches\<close>

text \<open>The inner loop: the group from \<open>i\<close> grows by a letter while the dictionary knows it.  Asking for
  letters past the end raises.  The result is the new \<open>i\<close> and the last group that was known.\<close>

function growLoop :: "(string \<rightharpoonup> string) \<Rightarrow> string list \<Rightarrow> nat \<Rightarrow> nat \<Rightarrow> string \<Rightarrow> (nat \<times> string) outcome" where
  "growLoop gd letters i j grapheme =
     (if length letters < i + j then Inl NSRangeException
      else let tmpGrapheme = lowercaseString (joinBy '''' (take j (drop i letters)))
           in case gd tmpGrapheme of
                Some _ \<Rightarrow> if length letters - 1 \<le> i then Inr (i, tmpGrapheme)
                          else growLoop gd letters i (j + 1) tmpGrapheme
              | None \<Rightarrow> Inr (if j > 2 then i + j else i, grapheme))"
  by pat_completeness auto
termination by (relation "measure (\<lambda>(gd, letters, i, j, g). length letters + 1 - (i + j))") auto

declare growLoop.simps [simp del]

lemma growLoop_forward: "growLoop gd letters i j g = Inr (i', g') \<Longrightarrow> i \<le> i'"
proof (induction gd letters i j g arbitrary: i' g' rule: growLoop.induct)
  case (1 gd letters i j g)
  from "1.prems" show ?case
    by (subst (asm) growLoop.simps) (auto simp: Let_def split: if_splits option.splits dest: "1.IH" [OF _ refl])
qed

text \<open>The outer loop collects the sound of each group: what stands before the first \<open>=\<close>.  A group without
  a sound is \<open>nil\<close>, and adding \<open>nil\<close> to an array raises.\<close>

function soundLoop :: "(string \<rightharpoonup> string) \<Rightarrow> string list \<Rightarrow> nat \<Rightarrow> string list \<Rightarrow> string list outcome" where
  "soundLoop gd letters i phonemes =
     (if i < length letters then
        case growLoop gd letters i 1 (letters ! i) of
          Inl e \<Rightarrow> Inl e
        | Inr (i', grapheme) \<Rightarrow>
            (case gd grapheme of
               None \<Rightarrow> Inl NSInvalidArgumentException
             | Some obj \<Rightarrow> soundLoop gd letters (i' + 1) (phonemes @ [hd (components ''='' obj)]))
      else Inr phonemes)"
  by pat_completeness auto
termination
  by (relation "measure (\<lambda>(gd, letters, i, p). length letters - i)") (auto dest: growLoop_forward)

declare soundLoop.simps [simp del]

definition getWordMatches :: "(GraphemeDictionary \<Rightarrow> string list) \<Rightarrow> LanguageModel \<Rightarrow> string list \<Rightarrow> string list outcome" where
  "getWordMatches allKeys m letters =
     andThen (soundLoop (graphemeDictionary m) letters 0 [])
       (\<lambda>phonemes. Inr (concat (map (\<lambda>s. concat (map (getMatches allKeys (phonemeDictionary m)) (components '','' s)))
          phonemes)))"

section \<open>Loading\<close>

text \<open>The key and the word of a line.\<close>

definition entryOf :: "string \<Rightarrow> string \<times> string" where
  "entryOf line = (let c = components ''='' line in (c ! 0, c ! 1))"

abbreviation hasEntry :: "string \<Rightarrow> bool" where
  "hasEntry line \<equiv> containsString line ''=''"

lemma entry_parts:
  "andThen (objectAtIndex (components ''='' line) 0) (\<lambda>k. andThen (objectAtIndex (components ''='' line) 1) (f k))
     = (if hasEntry line then f (fst (entryOf line)) (snd (entryOf line)) else Inl NSRangeException)"
proof (cases "hasEntry line")
  case True
  then have "2 \<le> length (components ''='' line)" by (simp only: components_two_iff)
  with True show ?thesis by (simp add: entryOf_def Let_def objectAtIndex_def)
next
  case False
  then have "length (components ''='' line) = 1"
    using components_two_iff [of "''=''" line] components_count [of "''=''" line] by linarith
  with False show ?thesis by (simp add: objectAtIndex_def)
qed

lemma phonemeLoop_eval:
  "phonemeLoop ls d =
     (if list_all hasEntry ls then Inr (fold (\<lambda>l d. addToKey d (fst (entryOf l)) (snd (entryOf l))) ls d)
      else Inl NSRangeException)"
proof (induction ls arbitrary: d)
  case (Cons line ls)
  have "phonemeLoop (line # ls) d = (if hasEntry line
      then phonemeLoop ls (addToKey d (fst (entryOf line)) (snd (entryOf line))) else Inl NSRangeException)"
    by (simp only: phonemeLoop.simps Let_def entry_parts)
  with Cons.IH show ?case by simp
qed simp

text \<open>The words of a key, in the order of the lines.\<close>

lemma fold_addToKey:
  "fold (\<lambda>l d. addToKey d (f l) (g l)) ls d k =
     (let new = map g (filter (\<lambda>l. f l = k) ls)
      in if new = [] then d k else Some ((case d k of None \<Rightarrow> [] | Some ws \<Rightarrow> ws) @ new))"
  by (induction ls arbitrary: d) (auto simp: addToKey_def Let_def)

lemma dom_finite_irrelevant: "wordsOf d k = (case d k of None \<Rightarrow> [] | Some ws \<Rightarrow> ws)"
  by (auto simp: wordsOf_def split: option.splits) (metis One_nat_def Suc_leI length_greater_0_conv)

lemma set_getMatches:
  assumes "set (allKeys d) = dom d"
  shows "set (getMatches allKeys d g) = {w. \<exists>k ws. d k = Some ws \<and> w \<in> set ws \<and> beginsCD k g}"
  using assms by (fastforce simp: getMatches_def dom_finite_irrelevant split: option.splits)

lemma getGraphemeDictionary_keeps [simp]:
  "phonemeDictionary (getGraphemeDictionary c m) = phonemeDictionary m"
  by (simp add: getGraphemeDictionary_def)

lemma initLanguageModel_words:
  "initLanguageModel words sounds = Inr m \<Longrightarrow>
     list_all hasEntry (linesOf words)
     \<and> phonemeDictionary m = fold (\<lambda>l d. addToKey d (fst (entryOf l)) (snd (entryOf l))) (linesOf words) Map.empty"
  by (auto simp: initLanguageModel_def getPhonemeDictionary_def phonemeLoop_eval split: if_splits)

theorem init_raises_iff_no_entry:
  "raises (initLanguageModel words sounds) \<longleftrightarrow> \<not> list_all hasEntry (linesOf words)"
  by (simp add: initLanguageModel_def getPhonemeDictionary_def phonemeLoop_eval)

text \<open>A words file that ends in a line end cannot be loaded.\<close>

lemma splitOn_trailing: "last (splitOn [x] cur (s @ [x])) = []"
  by (induction "[x]" cur s rule: splitOn.induct) (auto simp: hasPrefix_def)

theorem init_raises_trailing_newline: "raises (initLanguageModel (Some (s @ ''\<newline>'')) sounds)"
proof -
  have "last (components ''\<newline>'' (s @ ''\<newline>'')) = []" by (simp add: components_def splitOn_trailing)
  then have "[] \<in> set (components ''\<newline>'' (s @ ''\<newline>''))" using last_in_set components_nonempty by metis
  then show ?thesis
    unfolding init_raises_iff_no_entry linesOf_def by (auto simp: list_all_iff containsString_def intro!: bexI [where x = "[]"])
qed

text \<open>C34. Looking up what was loaded: when the words file loads, each key has the words of its lines, in their order,
  and a search finds exactly the words of the lines whose key begins with what is searched, letter case
  and accents aside.\<close>

theorem loaded_words_found:
  assumes "initLanguageModel (Some content) sounds = Inr m"
    and "set (allKeys (phonemeDictionary m)) = dom (phonemeDictionary m)"
  shows "set (getMatches allKeys (phonemeDictionary m) g)
      = set (map (\<lambda>l. snd (entryOf l))
          (filter (\<lambda>l. beginsCD (fst (entryOf l)) g) (components ''\<newline>'' content)))
    \<and> getValuesAtKey (phonemeDictionary m) k
      = (let ws = map (\<lambda>l. snd (entryOf l)) (filter (\<lambda>l. fst (entryOf l) = k) (components ''\<newline>'' content))
         in if ws = [] then None else Some ws)"
proof -
  have d: "phonemeDictionary m k = (let ws = map (\<lambda>l. snd (entryOf l))
      (filter (\<lambda>l. fst (entryOf l) = k) (components ''\<newline>'' content)) in if ws = [] then None else Some ws)" for k
    using initLanguageModel_words [OF assms(1)] by (simp add: fold_addToKey linesOf_def)
  have words: "(\<exists>ws. phonemeDictionary m k = Some ws \<and> w \<in> set ws)
      \<longleftrightarrow> (\<exists>l. l \<in> set (components ''\<newline>'' content) \<and> fst (entryOf l) = k \<and> w = snd (entryOf l))" for k w
    unfolding d Let_def by (auto simp: filter_empty_conv image_iff split: if_splits)
  have "{w. \<exists>k ws. phonemeDictionary m k = Some ws \<and> w \<in> set ws \<and> beginsCD k g}
      = {w. \<exists>k. (\<exists>ws. phonemeDictionary m k = Some ws \<and> w \<in> set ws) \<and> beginsCD k g}" by blast
  also have "\<dots> = set (map (\<lambda>l. snd (entryOf l))
          (filter (\<lambda>l. beginsCD (fst (entryOf l)) g) (components ''\<newline>'' content)))"
    unfolding words by auto
  finally show ?thesis
    unfolding set_getMatches [where allKeys = allKeys, OF assms(2)] getValuesAtKey_def d by simp
qed

theorem loaded_words_found_witness:
  "\<exists>m. initLanguageModel (Some ''/z/+/ee/=zee\<newline>/k/=key'') None = Inr m
     \<and> set (getMatches (\<lambda>d. [''/k/'', ''/z/+/ee/'']) (phonemeDictionary m) ''/z'') = {''zee''}"
proof -
  let ?c = "''/z/+/ee/=zee\<newline>/k/=key''" and ?ak = "\<lambda>d :: GraphemeDictionary. [''/k/'', ''/z/+/ee/'']"
  obtain m where m: "initLanguageModel (Some ?c) None = Inr m" and p: "phonemeDictionary m = [''/z/+/ee/'' \<mapsto> [''zee''], ''/k/'' \<mapsto> [''key'']]"
    by (simp add: initLanguageModel_def getPhonemeDictionary_def linesOf_def components_def objectAtIndex_def hasPrefix_def
      addToKey_def getGraphemeDictionary_def)
  from p have "set (?ak (phonemeDictionary m)) = dom (phonemeDictionary m)" by auto
  from loaded_words_found [of ?c None m ?ak "''/z''" "''/k/''", OF m this] m show ?thesis
    by (simp add: components_def hasPrefix_def entryOf_def Let_def beginsCD_def foldCD_def lowerChar_def baseChar_def)
qed

section \<open>Spelling\<close>

lemma joinBy_take_one: "i < length letters \<Longrightarrow> joinBy '''' (take (Suc 0) (drop i letters)) = letters ! i"
  by (simp add: take_Suc_conv_app_nth)

lemma joinBy_take_two:
  "Suc i < length letters \<Longrightarrow> joinBy '''' (take 2 (drop i letters)) = letters ! i @ letters ! Suc i"
  by (simp add: numeral_2_eq_2 take_Suc_conv_app_nth)

text \<open>The group of \<open>n\<close> letters from \<open>i\<close>, as the loop looks it up.\<close>

definition groupAt :: "string list \<Rightarrow> nat \<Rightarrow> nat \<Rightarrow> string" where
  "groupAt letters i n = lowercaseString (joinBy '''' (take n (drop i letters)))"

lemma growLoop_group:
  "growLoop gd letters i j g =
     (if length letters < i + j then Inl NSRangeException
      else case gd (groupAt letters i j) of
             Some _ \<Rightarrow> if length letters - 1 \<le> i then Inr (i, groupAt letters i j)
                       else growLoop gd letters i (Suc j) (groupAt letters i j)
           | None \<Rightarrow> Inr (if j > 2 then i + j else i, g))"
  by (subst growLoop.simps) (simp only: groupAt_def Let_def Suc_eq_plus1)

text \<open>When the dictionary knows every group from \<open>i\<close> to the end, the loop runs past the end.\<close>

lemma growLoop_past_end:
  assumes "\<And>n. j \<le> n \<Longrightarrow> i + n \<le> length letters \<Longrightarrow> gd (groupAt letters i n) \<noteq> None"
    and "Suc i < length letters"
  shows "growLoop gd letters i j g = Inl NSRangeException"
  using assms(1)
proof (induction "Suc (length letters) - (i + j)" arbitrary: j g)
  case 0
  then show ?case by (subst growLoop_group) simp
next
  case (Suc k)
  then have j: "i + j \<le> length letters" by simp
  from Suc.prems [OF order.refl j] obtain v where "gd (groupAt letters i j) = Some v" by blast
  moreover have "growLoop gd letters i (Suc j) (groupAt letters i j) = Inl NSRangeException"
    using Suc.hyps(2) Suc.prems by (intro Suc.hyps(1)) auto
  ultimately show ?case using j assms(2) by (subst growLoop_group) auto
qed

text \<open>The sound of a group.\<close>

definition soundOf :: "(string \<rightharpoonup> string) \<Rightarrow> string \<Rightarrow> string" where
  "soundOf gd g = (case gd g of Some obj \<Rightarrow> hd (components ''='' obj) | None \<Rightarrow> '''')"

lemma soundLoop_one:
  assumes "i < length letters" and "gd (groupAt letters i 1) \<noteq> None"
    and "Suc i < length letters \<Longrightarrow> gd (groupAt letters i 2) = None"
  shows "soundLoop gd letters i p = soundLoop gd letters (Suc i) (p @ [soundOf gd (groupAt letters i 1)])"
proof -
  have "growLoop gd letters i 1 (letters ! i) = Inr (i, groupAt letters i 1)"
  proof (cases "Suc i < length letters")
    case True
    then have "growLoop gd letters i 2 g = Inr (i, g)" for g
      using assms(3) by (subst growLoop_group) simp
    with True assms(1,2) show ?thesis by (subst growLoop_group) (auto simp: numeral_2_eq_2)
  next
    case False
    with assms(1,2) show ?thesis by (subst growLoop_group) auto
  qed
  with assms(1,2) show ?thesis by (subst soundLoop.simps) (auto simp: soundOf_def)
qed

text \<open>A group of two letters: the loop goes on three letters later than it should.\<close>

lemma soundLoop_two:
  assumes "i + 2 < length letters" and "gd (groupAt letters i 1) \<noteq> None" and "gd (groupAt letters i 2) \<noteq> None"
    and "gd (groupAt letters i 3) = None"
  shows "soundLoop gd letters i p = soundLoop gd letters (i + 4) (p @ [soundOf gd (groupAt letters i 2)])"
proof -
  have "growLoop gd letters i 3 g = Inr (i + 3, g)" for g
    using assms by (subst growLoop_group) simp
  then have "growLoop gd letters i 2 g = Inr (i + 3, groupAt letters i 2)" for g
    using assms by (subst growLoop_group) (auto simp: numeral_3_eq_3)
  then have "growLoop gd letters i 1 (letters ! i) = Inr (i + 3, groupAt letters i 2)"
    using assms by (subst growLoop_group) (auto simp: numeral_2_eq_2)
  with assms show ?thesis by (subst soundLoop.simps) (auto simp: soundOf_def add.commute)
qed

text \<open>A word whose letters are all known and no two neighbours of which form a known group is spelled letter by
  letter: its matches are those of the sounds of its letters, in order.\<close>

theorem word_matches_by_letter:
  assumes "\<And>l. l \<in> set letters \<Longrightarrow> graphemeDictionary m (lowercaseString l) \<noteq> None"
    and "\<And>i. Suc i < length letters \<Longrightarrow> graphemeDictionary m (lowercaseString (letters ! i @ letters ! Suc i)) = None"
  shows "getWordMatches allKeys m letters =
    Inr (concat (map (\<lambda>l. concat (map (getMatches allKeys (phonemeDictionary m))
           (components '','' (soundOf (graphemeDictionary m) (lowercaseString l))))) letters))"
proof -
  let ?gd = "graphemeDictionary m"
  have one: "groupAt letters i 1 = lowercaseString (letters ! i)" if "i < length letters" for i
    using that by (simp add: groupAt_def joinBy_take_one)
  have "soundLoop ?gd letters i p = Inr (p @ map (\<lambda>l. soundOf ?gd (lowercaseString l)) (drop i letters))"
    if "i \<le> length letters" for i p
    using that
  proof (induction "length letters - i" arbitrary: i p)
    case 0
    then show ?case by (subst soundLoop.simps) simp
  next
    case (Suc k)
    then have i: "i < length letters" by simp
    have "soundLoop ?gd letters i p = soundLoop ?gd letters (Suc i) (p @ [soundOf ?gd (groupAt letters i 1)])"
      using i assms(1) [of "letters ! i"] assms(2) [of i]
      by (intro soundLoop_one) (simp_all add: one [simplified], simp add: groupAt_def joinBy_take_two)
    with Suc.hyps(1) [of "Suc i"] Suc.hyps(2) i show ?case
      by (simp add: one [simplified] Cons_nth_drop_Suc [symmetric])
  qed
  from this [of 0 "[]"] show ?thesis by (simp add: getWordMatches_def comp_def)
qed

theorem word_matches_by_letter_witness:
  "getWordMatches (\<lambda>d. [''/g/'', ''/oo/'']) \<lparr>letterSounds = Map.empty, dictionaryWords = [],
       phonemeDictionary = [''/g/'' \<mapsto> [''go''], ''/oo/'' \<mapsto> [''ooze'']], graphemeDictionary = [''g'' \<mapsto> ''/g/'', ''o'' \<mapsto> ''/o/,/oo/'']\<rparr>
     [''g'', ''o''] = Inr [''go'', ''ooze'']"
proof -
  let ?m = "\<lparr>letterSounds = Map.empty, dictionaryWords = [],
       phonemeDictionary = [''/g/'' \<mapsto> [''go''], ''/oo/'' \<mapsto> [''ooze'']], graphemeDictionary = [''g'' \<mapsto> ''/g/'', ''o'' \<mapsto> ''/o/,/oo/'']\<rparr>"
  have "graphemeDictionary ?m (lowercaseString l) \<noteq> None" if "l \<in> set [''g'', ''o'']" for l
    using that by (auto simp: lowercaseString_def lowerChar_def)
  moreover have "graphemeDictionary ?m (lowercaseString ([''g'', ''o''] ! i @ [''g'', ''o''] ! Suc i)) = None"
    if "Suc i < length [''g'', ''o'']" for i using that by (simp add: lowercaseString_def lowerChar_def)
  ultimately show ?thesis
    by (subst word_matches_by_letter) (simp_all add: soundOf_def lowercaseString_def lowerChar_def components_def
      getMatches_def wordsOf_def beginsCD_def foldCD_def baseChar_def hasPrefix_def)
qed

text \<open>C27. A word of at least two letters that is, with all its beginnings, a known group raises: the loop asks for
  one letter more than the word has.\<close>

theorem word_that_is_a_group_raises:
  assumes "2 \<le> length letters"
    and "\<And>n. 1 \<le> n \<Longrightarrow> n \<le> length letters \<Longrightarrow> graphemeDictionary m (lowercaseString (joinBy '''' (take n letters))) \<noteq> None"
  shows "getWordMatches allKeys m letters = Inl NSRangeException"
proof -
  have "growLoop (graphemeDictionary m) letters 0 1 (letters ! 0) = Inl NSRangeException"
    using assms by (intro growLoop_past_end) (auto simp: groupAt_def)
  with assms(1) show ?thesis by (subst getWordMatches_def, subst soundLoop.simps) auto
qed

theorem word_that_is_a_group_raises_witness:
  "getWordMatches (\<lambda>d. []) \<lparr>letterSounds = Map.empty, dictionaryWords = [], phonemeDictionary = Map.empty,
     graphemeDictionary = [''s'' \<mapsto> ''/s/'', ''sh'' \<mapsto> ''/sh/'']\<rparr> [''s'', ''h''] = Inl NSRangeException"
proof (rule word_that_is_a_group_raises)
  fix n :: nat
  assume "1 \<le> n" "n \<le> length [''s'', ''h'']"
  then consider "n = 1" | "n = 2" by fastforce
  then show "graphemeDictionary \<lparr>letterSounds = Map.empty, dictionaryWords = [], phonemeDictionary = Map.empty,
     graphemeDictionary = [''s'' \<mapsto> ''/s/'', ''sh'' \<mapsto> ''/sh/'']\<rparr> (lowercaseString (joinBy '''' (take n [''s'', ''h'']))) \<noteq> None"
    by cases (simp_all add: lowercaseString_def lowerChar_def)
qed simp

text \<open>After a group of two letters that no third one extends, the next two letters are lost.\<close>

theorem group_loses_letters:
  assumes "3 \<le> length letters"
    and "gd (groupAt letters 0 1) \<noteq> None" "gd (groupAt letters 0 2) \<noteq> None" "gd (groupAt letters 0 3) = None"
  shows "soundLoop gd letters 0 [] = soundLoop gd letters 4 [soundOf gd (groupAt letters 0 2)]"
  using soundLoop_two [of 0 letters gd "[]"] assms by simp

end
