(* ===== verification/ProgressView.thy ===== *)
theory ProgressView
  imports Main
begin

text \<open>
  The progress view of MBProgressHUD.m, which the loading screens show and hide: its state machine with
  timers, animations and background tasks.  The record \<open>hud\<close> holds the variables of the class, its
  extension \<open>hud_run\<close> what the run loop still has to deliver.  Times are whole numbers of some unit and the
  opacity is in hundredths.  Drawing, labels, indicators and transforms are left out; what a
  completion block does is only recorded.
\<close>

section \<open>State\<close>

record hud =
  useAnimation :: bool
  isFinished :: bool
  taskInProgress :: bool
  removeFromSuperViewOnHide :: bool
  graceTime :: int
  minShowTime :: int
  showStarted :: "int option"
  alpha :: int
  inSuperview :: bool
  completionBlock :: "nat option"

text \<open>Timers that were scheduled (a new one in a property does not cancel the old one), delayed calls of
  \<open>hideDelayed:\<close>, background tasks, their calls of \<open>cleanUp\<close> on the main thread, fade-outs under way, the completion
  blocks that ran and the number of messages to the delegate.\<close>

datatype hud_timer = GraceTimer | MinShowTimer

record hud_run = hud +
  now :: int
  timers :: "(hud_timer \<times> int) list"
  delayed :: "(bool \<times> int) list"
  running :: nat
  cleanUps :: nat
  fading :: nat
  ran :: "nat list"
  hudWasHidden :: nat

definition initWithFrame :: "bool \<Rightarrow> int \<Rightarrow> int \<Rightarrow> hud_run" where
  "initWithFrame removes grace minShow =
     \<lparr>useAnimation = False, isFinished = False, taskInProgress = False, removeFromSuperViewOnHide = removes,
      graceTime = grace, minShowTime = minShow, showStarted = None, alpha = 0, inSuperview = True,
      completionBlock = None, now = 0, timers = [], delayed = [], running = 0, cleanUps = 0, fading = 0,
      ran = [], hudWasHidden = 0\<rparr>"

section \<open>Operations\<close>

definition hudDone :: "hud_run \<Rightarrow> hud_run" where
  "hudDone h =
     (let h = h\<lparr>delayed := [], isFinished := True, alpha := 0\<rparr>;
          h = (if removeFromSuperViewOnHide h then h\<lparr>inSuperview := False\<rparr> else h);
          h = (case completionBlock h of None \<Rightarrow> h
               | Some b \<Rightarrow> h\<lparr>ran := ran h @ [b], completionBlock := None\<rparr>)
      in h\<lparr>hudWasHidden := hudWasHidden h + 1\<rparr>)"

definition showUsingAnimation :: "bool \<Rightarrow> hud_run \<Rightarrow> hud_run" where
  "showUsingAnimation animated h = h\<lparr>showStarted := Some (now h), alpha := 100\<rparr>"

definition hideUsingAnimation :: "bool \<Rightarrow> hud_run \<Rightarrow> hud_run" where
  "hideUsingAnimation animated h =
     (let h = (if animated \<and> showStarted h \<noteq> None then h\<lparr>alpha := 2, fading := fading h + 1\<rparr>
               else hudDone (h\<lparr>alpha := 0\<rparr>))
      in h\<lparr>showStarted := None\<rparr>)"

definition animationFinished :: "hud_run \<Rightarrow> hud_run" where
  "animationFinished h = hudDone h"

definition showHUD :: "bool \<Rightarrow> hud_run \<Rightarrow> hud_run" where
  "showHUD animated h =
     (let h = h\<lparr>useAnimation := animated\<rparr>
      in if graceTime h > 0 then h\<lparr>timers := timers h @ [(GraceTimer, now h + graceTime h)]\<rparr>
         else showUsingAnimation (useAnimation h) h)"

definition hideHUD :: "bool \<Rightarrow> hud_run \<Rightarrow> hud_run" where
  "hideHUD animated h =
     (let h = h\<lparr>useAnimation := animated\<rparr>
      in case showStarted h of
           Some t \<Rightarrow>
             if minShowTime h > 0 \<and> now h - t < minShowTime h
             then h\<lparr>timers := timers h @ [(MinShowTimer, now h + (minShowTime h - (now h - t)))]\<rparr>
             else hideUsingAnimation (useAnimation h) h
         | None \<Rightarrow> hideUsingAnimation (useAnimation h) h)"

definition hideAfterDelay :: "bool \<Rightarrow> int \<Rightarrow> hud_run \<Rightarrow> hud_run" where
  "hideAfterDelay animated delay h = h\<lparr>delayed := delayed h @ [(animated, now h + delay)]\<rparr>"

definition hideDelayed :: "bool \<Rightarrow> hud_run \<Rightarrow> hud_run" where
  "hideDelayed animated h = hideHUD animated h"

definition handleGraceTimer :: "hud_run \<Rightarrow> hud_run" where
  "handleGraceTimer h = (if taskInProgress h then showUsingAnimation (useAnimation h) h else h)"

definition handleMinShowTimer :: "hud_run \<Rightarrow> hud_run" where
  "handleMinShowTimer h = hideUsingAnimation (useAnimation h) h"

definition showWhileExecuting :: "bool \<Rightarrow> hud_run \<Rightarrow> hud_run" where
  "showWhileExecuting animated h = showHUD animated (h\<lparr>taskInProgress := True, running := running h + 1\<rparr>)"

definition showAnimatedBlock :: "bool \<Rightarrow> nat option \<Rightarrow> hud_run \<Rightarrow> hud_run" where
  "showAnimatedBlock animated completion h =
     showHUD animated (h\<lparr>taskInProgress := True, completionBlock := completion, running := running h + 1\<rparr>)"

definition cleanUp :: "hud_run \<Rightarrow> hud_run" where
  "cleanUp h = (let h = h\<lparr>taskInProgress := False\<rparr> in hideHUD (useAnimation h) h)"

section \<open>Calls, events, reachable states\<close>

datatype hud_call = Show bool | Hide bool | HideAfter bool nat | Execute bool | ExecuteBlock bool "nat option"

fun call :: "hud_call \<Rightarrow> hud_run \<Rightarrow> hud_run" where
  "call (Show a) h = showHUD a h"
| "call (Hide a) h = hideHUD a h"
| "call (HideAfter a d) h = hideAfterDelay a (int d) h"
| "call (Execute a) h = showWhileExecuting a h"
| "call (ExecuteBlock a c) h = showAnimatedBlock a c h"

text \<open>What the run loop may deliver: time passes; a timer or a delayed call is due; a background task ends and leaves
  \<open>cleanUp\<close> to the main thread; a fade-out stops.\<close>

datatype hud_event = Passes nat | TimerFires hud_timer int | DelayFires bool int | TaskEnds | CleanUpRuns | FadeStops

fun fire :: "hud_event \<Rightarrow> hud_run \<Rightarrow> hud_run option" where
  "fire (Passes d) h = Some (h\<lparr>now := now h + int d\<rparr>)"
| "fire (TimerFires k due) h =
     (if (k, due) \<in> set (timers h) \<and> due \<le> now h then
        let h = h\<lparr>timers := remove1 (k, due) (timers h)\<rparr>
        in Some (case k of GraceTimer \<Rightarrow> handleGraceTimer h | MinShowTimer \<Rightarrow> handleMinShowTimer h)
      else None)"
| "fire (DelayFires a due) h =
     (if (a, due) \<in> set (delayed h) \<and> due \<le> now h
      then Some (hideDelayed a (h\<lparr>delayed := remove1 (a, due) (delayed h)\<rparr>)) else None)"
| "fire TaskEnds h = (if running h > 0 then Some (h\<lparr>running := running h - 1, cleanUps := cleanUps h + 1\<rparr>) else None)"
| "fire CleanUpRuns h = (if cleanUps h > 0 then Some (cleanUp (h\<lparr>cleanUps := cleanUps h - 1\<rparr>)) else None)"
| "fire FadeStops h = (if fading h > 0 then Some (animationFinished (h\<lparr>fading := fading h - 1\<rparr>)) else None)"

text \<open>The states a program reaches that makes a call only when the rule permits it.\<close>

inductive hud_reach :: "(hud_call \<Rightarrow> hud_run \<Rightarrow> bool) \<Rightarrow> hud_run \<Rightarrow> bool" for permitted where
  hud_init: "hud_reach permitted (initWithFrame removes grace minShow)"
| hud_call: "hud_reach permitted h \<Longrightarrow> permitted c h \<Longrightarrow> hud_reach permitted (call c h)"
| hud_fire: "hud_reach permitted h \<Longrightarrow> fire e h = Some h' \<Longrightarrow> hud_reach permitted h'"

text \<open>Nothing is left to deliver.\<close>

definition quiet :: "hud_run \<Rightarrow> bool" where
  "quiet h \<longleftrightarrow> timers h = [] \<and> delayed h = [] \<and> running h = 0 \<and> cleanUps h = 0 \<and> fading h = 0"

fun fires :: "hud_event list \<Rightarrow> hud_run \<Rightarrow> hud_run option" where
  "fires [] h = Some h"
| "fires (e # es) h = (case fire e h of None \<Rightarrow> None | Some h' \<Rightarrow> fires es h')"

lemmas hud_ops = hudDone_def showUsingAnimation_def hideUsingAnimation_def animationFinished_def showHUD_def
  hideHUD_def hideAfterDelay_def hideDelayed_def handleGraceTimer_def handleMinShowTimer_def
  showWhileExecuting_def showAnimatedBlock_def cleanUp_def

section \<open>Every event brings the end nearer\<close>

definition work :: "hud_run \<Rightarrow> nat" where
  "work h = 4 * running h + 3 * cleanUps h + 3 * length (delayed h) + 2 * length (timers h) + fading h"

definition isEvent :: "hud_event \<Rightarrow> bool" where
  "isEvent e = (case e of Passes _ \<Rightarrow> False | _ \<Rightarrow> True)"

lemma isEvent_simps [simp]:
  "\<not> isEvent (Passes d)" "isEvent (TimerFires k t)" "isEvent (DelayFires a t)" "isEvent TaskEnds"
  "isEvent CleanUpRuns" "isEvent FadeStops"
  by (simp_all add: isEvent_def)

lemma length_remove1_in: "x \<in> set xs \<Longrightarrow> length xs = Suc (length (remove1 x xs))"
  using length_pos_if_in_set [of x xs] by (simp add: length_remove1)

lemma work_hideUsingAnimation: "work (hideUsingAnimation a h) \<le> work h + 1"
  by (auto simp: work_def hud_ops Let_def split: option.splits)

lemma work_hideHUD: "work (hideHUD a h) \<le> work h + 2"
proof -
  have "work (hideUsingAnimation a (h\<lparr>useAnimation := a\<rparr>)) \<le> work h + 2"
    using work_hideUsingAnimation [of a "h\<lparr>useAnimation := a\<rparr>"] by (simp add: work_def)
  then show ?thesis by (auto simp: hideHUD_def Let_def work_def split: option.splits)
qed

lemma work_hudDone: "work (hudDone h) \<le> work h"
  by (auto simp: work_def hudDone_def Let_def split: option.splits)

lemma fire_work:
  assumes "fire e h = Some h'"
  shows "work h' + (if isEvent e then 1 else 0) \<le> work h"
proof (cases e)
  case (Passes d)
  with assms show ?thesis by (auto simp: work_def isEvent_def)
next
  case (TimerFires k due)
  let ?h = "h\<lparr>timers := remove1 (k, due) (timers h)\<rparr>"
  from assms TimerFires have "(k, due) \<in> set (timers h)" by (auto split: if_splits)
  then have "work ?h + 2 = work h" by (auto simp: work_def dest!: length_remove1_in)
  moreover have "work (handleGraceTimer ?h) = work ?h" "work (handleMinShowTimer ?h) \<le> work ?h + 1"
    using work_hideUsingAnimation [of "useAnimation ?h" ?h]
    by (simp_all add: handleGraceTimer_def handleMinShowTimer_def showUsingAnimation_def work_def)
  ultimately show ?thesis
    using assms TimerFires by (cases k) (auto simp: Let_def isEvent_def split: if_splits)
next
  case (DelayFires a due)
  let ?h = "h\<lparr>delayed := remove1 (a, due) (delayed h)\<rparr>"
  from assms DelayFires have "(a, due) \<in> set (delayed h)" "h' = hideHUD a ?h"
    by (auto simp: hideDelayed_def split: if_splits)
  then show ?thesis
    using work_hideHUD [of a ?h] by (auto simp: work_def isEvent_def DelayFires dest!: length_remove1_in)
next
  case TaskEnds
  with assms show ?thesis by (auto simp: work_def isEvent_def split: if_splits)
next
  case CleanUpRuns
  let ?h = "h\<lparr>cleanUps := cleanUps h - 1\<rparr>"
  from assms CleanUpRuns have "cleanUps h > 0" and h': "h' = hideHUD (useAnimation h) (?h\<lparr>taskInProgress := False\<rparr>)"
    by (auto simp: cleanUp_def Let_def split: if_splits)
  then have "work (?h\<lparr>taskInProgress := False\<rparr>) + 3 = work h" by (simp add: work_def)
  then show ?thesis
    using work_hideHUD [of "useAnimation h" "?h\<lparr>taskInProgress := False\<rparr>"] h' by (simp add: isEvent_def CleanUpRuns)
next
  case FadeStops
  let ?h = "h\<lparr>fading := fading h - 1\<rparr>"
  from assms FadeStops have "fading h > 0" "h' = hudDone ?h" by (auto simp: animationFinished_def split: if_splits)
  moreover from this(1) have "work ?h + 1 = work h" by (simp add: work_def)
  ultimately show ?thesis using work_hudDone [of ?h] by (simp add: FadeStops)
qed

lemma fires_work: "fires es h = Some h' \<Longrightarrow> work h' + length (filter isEvent es) \<le> work h"
proof (induction es arbitrary: h)
  case (Cons e es)
  then obtain h1 where h1: "fire e h = Some h1" "fires es h1 = Some h'" by (auto split: option.splits)
  from Cons.IH [OF h1(2)] fire_work [OF h1(1)] show ?case by (auto split: if_splits)
qed simp

lemma fires_append: "fires (es @ fs) h = (case fires es h of None \<Rightarrow> None | Some h' \<Rightarrow> fires fs h')"
  by (induction es arbitrary: h) (auto split: option.splits)

lemma not_quiet_event:
  assumes "\<not> quiet h"
  shows "\<exists>d e h'. fires [Passes d, e] h = Some h' \<and> isEvent e"
proof -
  from assms consider "timers h \<noteq> []" | "delayed h \<noteq> []" | "running h > 0" | "cleanUps h > 0" | "fading h > 0"
    by (auto simp: quiet_def)
  then show ?thesis
  proof cases
    case 1
    then obtain k due where "(k, due) \<in> set (timers h)" by (cases "timers h") auto
    then have "fires [Passes (nat (due - now h)), TimerFires k due] h \<noteq> None" by (simp add: Let_def)
    then show ?thesis using isEvent_simps by (metis not_None_eq)
  next
    case 2
    then obtain a due where "(a, due) \<in> set (delayed h)" by (cases "delayed h") auto
    then have "fires [Passes (nat (due - now h)), DelayFires a due] h \<noteq> None" by simp
    then show ?thesis using isEvent_simps by (metis not_None_eq)
  next
    case 3
    then have "fires [Passes 0, TaskEnds] h \<noteq> None" by simp
    then show ?thesis using isEvent_simps by (metis not_None_eq)
  next
    case 4
    then have "fires [Passes 0, CleanUpRuns] h \<noteq> None" by simp
    then show ?thesis using isEvent_simps by (metis not_None_eq)
  next
    case 5
    then have "fires [Passes 0, FadeStops] h \<noteq> None" by simp
    then show ?thesis using isEvent_simps by (metis not_None_eq)
  qed
qed

lemma settles: "\<exists>es h'. fires es h = Some h' \<and> quiet h'"
proof (induction "work h" arbitrary: h rule: less_induct)
  case less
  show ?case
  proof (cases "quiet h")
    case True
    then show ?thesis by (metis fires.simps(1))
  next
    case False
    then obtain d e h1 where h1: "fires [Passes d, e] h = Some h1" "isEvent e" using not_quiet_event by blast
    then have "work h1 < work h" using fires_work [OF h1(1)] h1(2) by (simp only: filter.simps isEvent_simps if_True if_False list.size)
    from less [OF this] obtain es h' where "fires es h1 = Some h'" "quiet h'" by blast
    with h1 have "fires ([Passes d, e] @ es) h = Some h'" "quiet h'" by (simp_all only: fires_append option.simps)
    then show ?thesis by blast
  qed
qed

section \<open>A hidden view stays hidden\<close>

text \<open>The flag of a task is only set while its end, or its \<open>cleanUp\<close>, is still to come.\<close>

definition task_pending :: "hud_run \<Rightarrow> bool" where
  "task_pending h \<longleftrightarrow> (taskInProgress h \<longrightarrow> running h > 0 \<or> cleanUps h > 0)"

text \<open>A visible view has something left that will hide it.\<close>

definition leaving :: "hud_run \<Rightarrow> bool" where
  "leaving h \<longleftrightarrow> (alpha h \<noteq> 0 \<longrightarrow> running h > 0 \<or> cleanUps h > 0 \<or> fading h > 0 \<or> delayed h \<noteq> []
      \<or> MinShowTimer \<in> fst ` set (timers h))"

lemma hideHUD_leaving: "leaving (hideHUD a h)"
  by (auto simp: leaving_def hud_ops Let_def split: option.splits)

lemma hudDone_leaving: "leaving (hudDone h)"
  by (auto simp: leaving_def hudDone_def Let_def split: option.splits)

lemma hideUsingAnimation_leaving: "leaving (hideUsingAnimation a h)"
  by (auto simp: leaving_def hud_ops Let_def split: option.splits)

lemma task_pending_ops [simp]:
  "task_pending (hideUsingAnimation a h) = task_pending h" "task_pending (hudDone h) = task_pending h"
  "task_pending (hideHUD a h) = task_pending h" "task_pending (showUsingAnimation a h) = task_pending h"
  "task_pending (showHUD a h) = task_pending h"
  by (auto simp: task_pending_def hud_ops Let_def split: option.splits)

lemma call_task_pending: "task_pending h \<Longrightarrow> task_pending (call c h)"
  by (cases c) (auto simp: task_pending_def hideAfterDelay_def showWhileExecuting_def showAnimatedBlock_def
    showHUD_def showUsingAnimation_def hideHUD_def hideUsingAnimation_def hudDone_def Let_def split: option.splits)

lemma fire_task_pending:
  assumes "task_pending h" "fire e h = Some h'"
  shows "task_pending h'"
proof (cases e)
  case (TimerFires k due)
  with assms show ?thesis
    by (cases k) (auto simp: handleGraceTimer_def handleMinShowTimer_def Let_def split: if_splits, simp_all add: task_pending_def)
next
  case (DelayFires a due)
  with assms show ?thesis by (auto simp: hideDelayed_def split: if_splits) (simp add: task_pending_def)
next
  case CleanUpRuns
  with assms show ?thesis by (auto simp: cleanUp_def Let_def split: if_splits) (simp add: task_pending_def)
next
  case FadeStops
  with assms show ?thesis by (auto simp: animationFinished_def split: if_splits) (simp add: task_pending_def)
qed (use assms in \<open>auto simp: task_pending_def split: if_splits\<close>)

lemma fire_leaving:
  assumes "leaving h" "task_pending h" "fire e h = Some h'"
  shows "leaving h'"
proof (cases e)
  case (TimerFires k due)
  show ?thesis
  proof (cases k)
    case GraceTimer
    have "x \<in> set (timers h) \<Longrightarrow> fst x = MinShowTimer \<Longrightarrow> x \<in> set (remove1 (GraceTimer, due) (timers h))" for x
      by (cases x) (simp add: in_set_remove1)
    with assms TimerFires GraceTimer show ?thesis
      by (auto simp: handleGraceTimer_def showUsingAnimation_def leaving_def task_pending_def Let_def image_iff split: if_splits)
  next
    case MinShowTimer
    with assms TimerFires show ?thesis
      by (auto simp: handleMinShowTimer_def Let_def hideUsingAnimation_leaving split: if_splits)
  qed
next
  case (DelayFires a due)
  with assms show ?thesis by (auto simp: hideDelayed_def hideHUD_leaving split: if_splits)
next
  case CleanUpRuns
  with assms show ?thesis by (auto simp: cleanUp_def Let_def hideHUD_leaving split: if_splits)
next
  case FadeStops
  with assms show ?thesis by (auto simp: animationFinished_def hudDone_leaving split: if_splits)
qed (use assms in \<open>auto simp: leaving_def split: if_splits\<close>)

lemma fires_leaving: "leaving h \<Longrightarrow> task_pending h \<Longrightarrow> fires es h = Some h' \<Longrightarrow> leaving h' \<and> task_pending h'"
  by (induction es arbitrary: h) (auto split: option.splits dest: fire_leaving fire_task_pending)

lemma init_task_pending: "task_pending (initWithFrame removes grace minShow)"
  by (simp add: initWithFrame_def task_pending_def)

lemma reach_task_pending: "hud_reach permitted h \<Longrightarrow> task_pending h"
  by (induction rule: hud_reach.induct) (auto intro: init_task_pending call_task_pending fire_task_pending)

fun isShow :: "hud_call \<Rightarrow> bool" where
  "isShow (Show _) = True"
| "isShow _ = False"

lemma call_leaving: "\<not> isShow c \<Longrightarrow> leaving (call c h)"
proof (cases c)
  case (Hide a)
  then show ?thesis by (simp add: hideHUD_leaving)
qed (auto simp: leaving_def hideAfterDelay_def showWhileExecuting_def showAnimatedBlock_def
    showHUD_def showUsingAnimation_def Let_def)

text \<open>C19. The view does not get stuck.  After any call but a plain \<open>show:\<close>, in any state the program can reach, and
  without further calls: the run loop can deliver everything that is left; however it goes about it, it
  makes at most as many deliveries as \<open>work\<close> says; and when nothing is left the view is invisible and no
  task is marked as running.\<close>

theorem hud_settles:
  assumes "hud_reach permitted h" and "\<not> isShow c"
  shows "(\<exists>es h'. fires es (call c h) = Some h' \<and> quiet h')
    \<and> (\<forall>es h'. fires es (call c h) = Some h' \<longrightarrow>
         length (filter isEvent es) \<le> work (call c h) \<and> (quiet h' \<longrightarrow> alpha h' = 0 \<and> \<not> taskInProgress h'))"
proof (intro conjI allI impI)
  show "\<exists>es h'. fires es (call c h) = Some h' \<and> quiet h'" by (rule settles)
  fix es h'
  assume run: "fires es (call c h) = Some h'"
  then show "length (filter isEvent es) \<le> work (call c h)" using fires_work by fastforce
  have "leaving h'" "task_pending h'"
    using fires_leaving [OF call_leaving [OF assms(2)] call_task_pending [OF reach_task_pending [OF assms(1)]] run] by auto
  then show "quiet h' \<Longrightarrow> alpha h' = 0" "quiet h' \<Longrightarrow> \<not> taskInProgress h'"
    by (auto simp: leaving_def task_pending_def quiet_def)
qed

theorem hud_settles_witness:
  "\<exists>es h'. fires es (call (ExecuteBlock True (Some 7)) (initWithFrame True 0 0)) = Some h' \<and> alpha h' = 0"
  using hud_settles [of "\<lambda>_ _. True" "initWithFrame True 0 0" "ExecuteBlock True (Some 7)"] hud_reach.hud_init by fastforce

section \<open>The minimum show time\<close>

text \<open>A program that shows the view only when it is not shown and nothing of an earlier use is left.\<close>

fun show_when_quiet :: "hud_call \<Rightarrow> hud_run \<Rightarrow> bool" where
  "show_when_quiet (Hide _) h = True"
| "show_when_quiet (HideAfter _ _) h = True"
| "show_when_quiet _ h = (quiet h \<and> showStarted h = None)"

text \<open>Its states: a view that was shown is fully visible, not fading, and its timers keep the minimum; a view that still
  waits for the grace time has nothing else under way.\<close>

definition shown_ok :: "hud_run \<Rightarrow> bool" where
  "shown_ok h \<longleftrightarrow> (case showStarted h of
     None \<Rightarrow> alpha h \<noteq> 100
   | Some t \<Rightarrow> alpha h = 100 \<and> fading h = 0 \<and> t \<le> now h
       \<and> (\<forall>d. (MinShowTimer, d) \<in> set (timers h) \<longrightarrow> t + minShowTime h \<le> d))"

definition grace_ok :: "hud_run \<Rightarrow> bool" where
  "grace_ok h \<longleftrightarrow> (\<forall>d. (GraceTimer, d) \<in> set (timers h) \<longrightarrow>
     showStarted h = None \<and> fading h = 0 \<and> timers h = [(GraceTimer, d)])"

abbreviation "hud_ok h \<equiv> shown_ok h \<and> grace_ok h"

lemma hideUsingAnimation_ok: "hud_ok h \<Longrightarrow> hud_ok (hideUsingAnimation a h)"
  by (auto simp: shown_ok_def grace_ok_def hideUsingAnimation_def hudDone_def Let_def split: option.splits if_splits)

lemma hideHUD_ok: "hud_ok h \<Longrightarrow> hud_ok (hideHUD a h)"
proof -
  assume ok: "hud_ok h"
  then have "hud_ok (h\<lparr>useAnimation := a\<rparr>)" by (auto simp: shown_ok_def grace_ok_def split: option.splits)
  from hideUsingAnimation_ok [OF this] ok show ?thesis
    by (auto simp: hideHUD_def Let_def shown_ok_def [of h] grace_ok_def [of h] split: option.splits)
       (auto simp: shown_ok_def grace_ok_def)
qed

lemma quiet_timers: "quiet h \<Longrightarrow> timers h = [] \<and> fading h = 0"
  by (simp add: quiet_def)

lemma call_ok: "hud_ok h \<Longrightarrow> show_when_quiet c h \<Longrightarrow> hud_ok (call c h)"
proof (cases c)
  case (Hide a)
  then show "hud_ok h \<Longrightarrow> hud_ok (call c h)" by (simp add: hideHUD_ok)
qed (auto simp: shown_ok_def grace_ok_def hideAfterDelay_def showWhileExecuting_def showAnimatedBlock_def
    showHUD_def showUsingAnimation_def Let_def dest!: quiet_timers split: option.splits)

lemma remove1_subset: "x \<in> set (remove1 y xs) \<Longrightarrow> x \<in> set xs"
  using set_remove1_subset by fastforce

lemma shown_ok_fewer: "shown_ok h \<Longrightarrow> shown_ok (h\<lparr>timers := remove1 x (timers h)\<rparr>)"
  by (auto simp: shown_ok_def split: option.splits dest: remove1_subset)

lemma grace_ok_fewer: "grace_ok h \<Longrightarrow> grace_ok (h\<lparr>timers := remove1 x (timers h)\<rparr>)"
  unfolding grace_ok_def
proof (intro allI impI)
  fix d
  assume ok: "\<forall>d. (GraceTimer, d) \<in> set (timers h) \<longrightarrow> showStarted h = None \<and> fading h = 0 \<and> timers h = [(GraceTimer, d)]"
    and "(GraceTimer, d) \<in> set (timers (h\<lparr>timers := remove1 x (timers h)\<rparr>))"
  then have d: "(GraceTimer, d) \<in> set (remove1 x (timers h))" by simp
  from remove1_subset [OF this] ok have "showStarted h = None" "fading h = 0" "timers h = [(GraceTimer, d)]" by blast+
  with d show "showStarted (h\<lparr>timers := remove1 x (timers h)\<rparr>) = None \<and> fading (h\<lparr>timers := remove1 x (timers h)\<rparr>) = 0
      \<and> timers (h\<lparr>timers := remove1 x (timers h)\<rparr>) = [(GraceTimer, d)]"
    by (auto split: if_splits)
qed

lemma fire_ok:
  assumes ok: "hud_ok h" and step: "fire e h = Some h'"
  shows "hud_ok h'"
proof (cases e)
  case (TimerFires k due)
  let ?h = "h\<lparr>timers := remove1 (k, due) (timers h)\<rparr>"
  have okr: "hud_ok ?h" using ok shown_ok_fewer grace_ok_fewer by blast
  show ?thesis
  proof (cases k)
    case MinShowTimer
    with step TimerFires hideUsingAnimation_ok [OF okr, of "useAnimation h"] show ?thesis
      by (auto simp: handleMinShowTimer_def Let_def split: if_splits)
  next
    case GraceTimer
    with step TimerFires have "(GraceTimer, due) \<in> set (timers h)" by (auto split: if_splits)
    with ok have "timers h = [(GraceTimer, due)]" "fading h = 0" by (auto simp: grace_ok_def)
    with step TimerFires GraceTimer okr show ?thesis
      by (auto simp: handleGraceTimer_def showUsingAnimation_def shown_ok_def grace_ok_def Let_def split: if_splits)
  qed
next
  case (DelayFires a due)
  have "hud_ok (h\<lparr>delayed := remove1 (a, due) (delayed h)\<rparr>)"
    using ok by (auto simp: shown_ok_def grace_ok_def split: option.splits)
  from hideHUD_ok [OF this, of a] step DelayFires show ?thesis by (auto simp: hideDelayed_def split: if_splits)
next
  case CleanUpRuns
  have "hud_ok (h\<lparr>cleanUps := cleanUps h - 1, taskInProgress := False\<rparr>)"
    using ok by (auto simp: shown_ok_def grace_ok_def split: option.splits)
  from hideHUD_ok [OF this, of "useAnimation h"] step CleanUpRuns show ?thesis
    by (auto simp: cleanUp_def Let_def split: if_splits)
next
  case FadeStops
  with step ok show ?thesis
    by (auto simp: animationFinished_def hudDone_def shown_ok_def grace_ok_def Let_def split: if_splits option.splits)
qed (use assms in \<open>auto simp: shown_ok_def grace_ok_def split: if_splits option.splits\<close>)

lemma init_ok: "hud_ok (initWithFrame removes grace minShow)"
  by (simp add: initWithFrame_def shown_ok_def grace_ok_def)

lemma hud_reach_ok: "hud_reach show_when_quiet h \<Longrightarrow> hud_ok h"
proof (induction rule: hud_reach.induct)
  case (hud_init removes grace minShow)
  show ?case by (rule init_ok)
next
  case (hud_call h c)
  then show ?case using call_ok by blast
next
  case (hud_fire h e h')
  then show ?case using fire_ok by blast
qed

lemma hideUsingAnimation_alpha: "alpha (hideUsingAnimation a h) \<noteq> 100"
  by (auto simp: hideUsingAnimation_def hudDone_def Let_def split: option.splits)

lemma hideHUD_early:
  "showStarted h = Some t \<Longrightarrow> t \<le> now h \<Longrightarrow> alpha (hideHUD a h) \<noteq> alpha h \<Longrightarrow> t + minShowTime h \<le> now h"
  by (auto simp: hideHUD_def Let_def split: if_splits)

text \<open>C20. In a program that shows the view only when it is not shown and nothing is left of its last use, whatever
  makes a fully visible view less than that, a call or a delivery of the run loop, comes no sooner than the
  minimum show time after it became visible.\<close>

theorem min_show_time_kept:
  assumes "hud_reach show_when_quiet h" and "alpha h = 100"
    and "h' = call c h \<and> show_when_quiet c h \<or> fire e h = Some h'" and "alpha h' \<noteq> 100"
  shows "\<exists>t. showStarted h = Some t \<and> t + minShowTime h \<le> now h"
proof -
  have ok: "hud_ok h" using assms(1) by (rule hud_reach_ok)
  with assms(2) obtain t where t: "showStarted h = Some t" "fading h = 0" "t \<le> now h"
    and later: "\<And>d. (MinShowTimer, d) \<in> set (timers h) \<Longrightarrow> t + minShowTime h \<le> d"
    by (auto simp: shown_ok_def split: option.splits)
  have "t + minShowTime h \<le> now h"
    using assms(3)
  proof
    assume "h' = call c h \<and> show_when_quiet c h"
    with t assms(2,4) show ?thesis
      by (cases c) (auto dest: hideHUD_early simp: hideAfterDelay_def)
  next
    assume step: "fire e h = Some h'"
    show ?thesis
    proof (cases e)
      case (TimerFires k due)
      show ?thesis
      proof (cases k)
        case MinShowTimer
        with step TimerFires later [of due] show ?thesis by (auto split: if_splits)
      next
        case GraceTimer
        with step TimerFires assms(2,4) show ?thesis
          by (auto simp: handleGraceTimer_def showUsingAnimation_def Let_def split: if_splits)
      qed
    next
      case (DelayFires a due)
      with step assms(2,4) t hideHUD_early [of "h\<lparr>delayed := remove1 (a, due) (delayed h)\<rparr>" t a] show ?thesis
        by (auto simp: hideDelayed_def split: if_splits)
    next
      case CleanUpRuns
      with step assms(2,4) t
        hideHUD_early [of "h\<lparr>cleanUps := cleanUps h - 1, taskInProgress := False\<rparr>" t "useAnimation h"] show ?thesis
        by (auto simp: cleanUp_def Let_def split: if_splits)
    qed (use step t assms(2,4) in \<open>auto split: if_splits\<close>)
  qed
  with t show ?thesis by blast
qed

theorem min_show_time_kept_witness:
  "\<exists>h. fire (Passes 5) (call (Show False) (initWithFrame True 0 5)) = Some h
     \<and> alpha (call (Hide False) h) \<noteq> 100 \<and> (\<exists>t. showStarted h = Some t \<and> t + 5 \<le> now h)"
proof -
  let ?s = "call (Show False) (initWithFrame True 0 5)"
  obtain h where h: "fire (Passes 5) ?s = Some h" by simp
  have "hud_reach show_when_quiet ?s"
    by (rule hud_reach.hud_call [OF hud_reach.hud_init]) (simp add: initWithFrame_def quiet_def)
  from hud_reach.hud_fire [OF this h] have r: "hud_reach show_when_quiet h" .
  have a: "alpha h = 100" "alpha (call (Hide False) h) \<noteq> 100" "minShowTime h = 5"
    using h by (auto simp: hud_ops Let_def initWithFrame_def)
  from min_show_time_kept [OF r a(1), of "call (Hide False) h" "Hide False" "Passes 0"] a h show ?thesis by auto
qed

text \<open>A program that shows the view again while it fades out loses it: the end of the old animation hides the view and
  runs the completion block of a task that still runs.\<close>

theorem shown_again_hidden_by_old_fade:
  "\<exists>h h'. fires [TaskEnds, CleanUpRuns] (call (ExecuteBlock True (Some 1)) (initWithFrame True 0 0)) = Some h
     \<and> fires [FadeStops] (call (ExecuteBlock True (Some 2)) h) = Some h'
     \<and> alpha h' = 0 \<and> taskInProgress h' \<and> running h' = 1 \<and> ran h' = [2] \<and> showStarted h' \<noteq> None"
  by (simp add: hud_ops Let_def initWithFrame_def)

end
