(* ===== verification/AlertBlocks.thy ===== *)
theory AlertBlocks
  imports Main
begin

text \<open>
  UIAlertView+Blocks.m: blocks for an alert, on top of its delegate.  Setting a block makes the alert its own
  delegate and keeps the old one aside; each delegate method runs the block and passes the call on.
  A block is a number; what a delivery does is the list of the calls it makes.  \<open>responds\<close> says
  which methods a delegate object implements.
\<close>

section \<open>Alerts\<close>

datatype block_kind = TapBlock | WillPresentBlock | DidPresentBlock | WillDismissBlock | DidDismissBlock | CancelBlock

datatype 'd alert_delegate = Itself | Object 'd

record 'd alert =
  delegate :: "'d alert_delegate option"
  originalDelegate :: "'d alert_delegate option"
  blocks :: "block_kind \<Rightarrow> nat option"
  shouldEnableBlock :: "bool option"
  buttons :: "string list"

text \<open>The messages UIKit sends to the delegate of an alert, and the block of each.\<close>

datatype alert_message = WillPresent | DidPresent | Cancel | Clicked nat | WillDismiss nat | DidDismiss nat

fun blockOf :: "alert_message \<Rightarrow> block_kind" where
  "blockOf WillPresent = WillPresentBlock"
| "blockOf DidPresent = DidPresentBlock"
| "blockOf Cancel = CancelBlock"
| "blockOf (Clicked i) = TapBlock"
| "blockOf (WillDismiss i) = WillDismissBlock"
| "blockOf (DidDismiss i) = DidDismissBlock"

datatype 'd alert_call = RunBlock nat alert_message | Send 'd alert_message

section \<open>Operations\<close>

definition checkAlertViewDelegate :: "'d alert \<Rightarrow> 'd alert" where
  "checkAlertViewDelegate a =
     (if delegate a \<noteq> Some Itself then a\<lparr>originalDelegate := delegate a, delegate := Some Itself\<rparr> else a)"

definition setBlock :: "block_kind \<Rightarrow> nat option \<Rightarrow> 'd alert \<Rightarrow> 'd alert" where
  "setBlock k b a = (let a = checkAlertViewDelegate a in a\<lparr>blocks := (blocks a)(k := b)\<rparr>)"

text \<open>The block that decides whether the first other button is enabled is kept by its answer.\<close>

definition setShouldEnableFirstOtherButtonBlock :: "bool option \<Rightarrow> 'd alert \<Rightarrow> 'd alert" where
  "setShouldEnableFirstOtherButtonBlock b a = (let a = checkAlertViewDelegate a in a\<lparr>shouldEnableBlock := b\<rparr>)"

text \<open>\<open>initWithTitle:...\<close> of UIKit: the cancel button first, then the other one; \<open>addButtonWithTitle:\<close> adds at the end.\<close>

definition initAlert :: "'d alert_delegate option \<Rightarrow> string option \<Rightarrow> string option \<Rightarrow> 'd alert" where
  "initAlert d cancel other =
     \<lparr>delegate = d, originalDelegate = None, blocks = (\<lambda>_. None), shouldEnableBlock = None,
      buttons = (case cancel of None \<Rightarrow> [] | Some t \<Rightarrow> [t]) @ (case other of None \<Rightarrow> [] | Some t \<Rightarrow> [t])\<rparr>"

definition addButton :: "string \<Rightarrow> 'd alert \<Rightarrow> 'd alert" where
  "addButton t a = a\<lparr>buttons := buttons a @ [t]\<rparr>"

definition showWithTitle :: "string option \<Rightarrow> string list \<Rightarrow> nat option \<Rightarrow> 'd alert" where
  "showWithTitle cancel others tapBlock =
     (let firstObject = (if length others \<noteq> 0 then Some (others ! 0) else None);
          a = initAlert None cancel firstObject;
          a = (if length others > 1 then fold addButton (take (length others - 1) (drop 1 others)) a else a)
      in if tapBlock \<noteq> None then setBlock TapBlock tapBlock a else a)"

text \<open>A message to a delegate object that may not implement it.\<close>

definition sendTo :: "('d \<Rightarrow> alert_message \<Rightarrow> bool) \<Rightarrow> 'd alert_delegate option \<Rightarrow> alert_message \<Rightarrow> 'd alert_call list" where
  "sendTo responds d m = (case d of Some (Object x) \<Rightarrow> if responds x m then [Send x m] else [] | _ \<Rightarrow> [])"

text \<open>The delegate methods of the alert: the block, then the original delegate.\<close>

definition handleMessage :: "('d \<Rightarrow> alert_message \<Rightarrow> bool) \<Rightarrow> 'd alert \<Rightarrow> alert_message \<Rightarrow> 'd alert_call list" where
  "handleMessage responds a m =
     (case blocks a (blockOf m) of None \<Rightarrow> [] | Some b \<Rightarrow> [RunBlock b m]) @ sendTo responds (originalDelegate a) m"

text \<open>What UIKit does: it sends the message to the delegate.\<close>

definition deliver :: "('d \<Rightarrow> alert_message \<Rightarrow> bool) \<Rightarrow> 'd alert \<Rightarrow> alert_message \<Rightarrow> 'd alert_call list" where
  "deliver responds a m = (if delegate a = Some Itself then handleMessage responds a m else sendTo responds (delegate a) m)"

definition alertViewShouldEnableFirstOtherButton :: "('d \<Rightarrow> bool option) \<Rightarrow> 'd alert \<Rightarrow> bool" where
  "alertViewShouldEnableFirstOtherButton answer a =
     (case shouldEnableBlock a of Some b \<Rightarrow> b
      | None \<Rightarrow> (case originalDelegate a of Some (Object x) \<Rightarrow> (case answer x of Some b \<Rightarrow> b | None \<Rightarrow> True) | _ \<Rightarrow> True))"

section \<open>Properties\<close>

text \<open>An alert that has not become its own delegate has no blocks.\<close>

definition plain :: "'d alert \<Rightarrow> bool" where
  "plain a \<longleftrightarrow> delegate a \<noteq> Some Itself \<and> blocks a = (\<lambda>_. None)"

fun setBlocks :: "(block_kind \<times> nat option) list \<Rightarrow> 'd alert \<Rightarrow> 'd alert" where
  "setBlocks [] a = a"
| "setBlocks ((k, b) # r) a = setBlocks r (setBlock k b a)"

lemma setBlocks_own:
  "delegate a = Some Itself \<Longrightarrow> setBlocks bs a = a\<lparr>blocks := fold (\<lambda>(k, b) f. f(k := b)) bs (blocks a)\<rparr>"
  by (induction bs a rule: setBlocks.induct) (simp_all add: setBlock_def checkAlertViewDelegate_def Let_def)

lemma setBlocks_plain:
  "plain a \<Longrightarrow> bs \<noteq> [] \<Longrightarrow> setBlocks bs a
    = a\<lparr>originalDelegate := delegate a, delegate := Some Itself, blocks := fold (\<lambda>(k, b) f. f(k := b)) bs (\<lambda>_. None)\<rparr>"
  by (cases bs) (auto simp: setBlocks_own setBlock_def checkAlertViewDelegate_def plain_def Let_def)

text \<open>Blocks do not disturb the delegate: after any sequence of block setters on a plain alert, each message runs the
  block that was set last for it, if there is one, and then does exactly what it did before.\<close>

theorem blocks_then_delegate:
  assumes "plain a"
  shows "deliver responds (setBlocks bs a) m =
    (case fold (\<lambda>(k, b) f. f(k := b)) bs (\<lambda>_. None) (blockOf m) of None \<Rightarrow> [] | Some b \<Rightarrow> [RunBlock b m])
      @ deliver responds a m"
proof (cases "bs = []")
  case False
  with assms show ?thesis by (auto simp: setBlocks_plain deliver_def handleMessage_def plain_def)
qed simp

theorem blocks_then_delegate_witness:
  "deliver (\<lambda>_ _. True) (setBlocks [(TapBlock, Some 1), (TapBlock, Some 2)] (initAlert (Some (Object (5 :: nat))) None None)) (Clicked 0)
     = [RunBlock 2 (Clicked 0), Send 5 (Clicked 0)]"
  by (subst blocks_then_delegate) (simp_all add: plain_def initAlert_def deliver_def sendTo_def)

lemma fold_addButton: "fold addButton ts a = a\<lparr>buttons := buttons a @ ts\<rparr>"
  by (induction ts arbitrary: a) (simp_all add: addButton_def)

text \<open>The buttons of \<open>showWithTitle\<close> are the cancel button and the others, in order, and a tap on any of them runs the
  block once with its index and nothing else.\<close>

theorem alert_buttons_and_taps:
  "buttons (showWithTitle cancel others (Some b)) = (case cancel of None \<Rightarrow> [] | Some t \<Rightarrow> [t]) @ others
    \<and> deliver responds (showWithTitle cancel others (Some b)) (Clicked i) = [RunBlock b (Clicked i)]"
proof -
  have "(case (if length others \<noteq> 0 then Some (others ! 0) else None) of None \<Rightarrow> [] | Some t \<Rightarrow> [t])
      @ (if length others > 1 then take (length others - 1) (drop 1 others) else []) = others"
    by (cases others) auto
  then have "buttons (showWithTitle cancel others (Some b)) = (case cancel of None \<Rightarrow> [] | Some t \<Rightarrow> [t]) @ others"
    by (auto simp: showWithTitle_def setBlock_def checkAlertViewDelegate_def initAlert_def fold_addButton Let_def split: if_splits)
  moreover have "deliver responds (showWithTitle cancel others (Some b)) (Clicked i) = [RunBlock b (Clicked i)]"
    by (simp add: showWithTitle_def setBlock_def checkAlertViewDelegate_def initAlert_def fold_addButton Let_def
      deliver_def handleMessage_def sendTo_def)
  ultimately show ?thesis ..
qed

end
