(* ===== verification/ArgTables.thy ===== *)
theory ArgTables
  imports Main "HOL-Library.Word"
begin

text \<open>
  The options of the recogniser: the argument tables of cmdln\_macro.h, fe.h and feat.h, and the types of
  cmd\_ln.h.  A table is the list of its entries in order.  cmd\_ln.c, which reads command lines with them, has no
  source here; what the tables must satisfy for it is stated: option names are different, a default is
  a text of the type of its option.
\<close>

unbundle bit_operations_syntax

section \<open>cmd\_ln.h\<close>

record arg_t =
  arg_name :: string
  arg_type :: "32 word"
  deflt :: "string option"
  arg_doc :: string

definition arg :: "string \<Rightarrow> 32 word \<Rightarrow> string option \<Rightarrow> string \<Rightarrow> arg_t" where
  "arg n t d s = \<lparr>arg_name = n, arg_type = t, deflt = d, arg_doc = s\<rparr>"

definition ARG_REQUIRED :: "32 word" where "ARG_REQUIRED = push_bit 0 1"

definition ARG_INTEGER :: "32 word" where "ARG_INTEGER = push_bit 1 1"

definition ARG_FLOATING :: "32 word" where "ARG_FLOATING = push_bit 2 1"

definition ARG_STRING :: "32 word" where "ARG_STRING = push_bit 3 1"

definition ARG_BOOLEAN :: "32 word" where "ARG_BOOLEAN = push_bit 4 1"

definition ARG_STRING_LIST :: "32 word" where "ARG_STRING_LIST = push_bit 5 1"

definition REQARG_INTEGER :: "32 word" where "REQARG_INTEGER = ARG_INTEGER OR ARG_REQUIRED"

definition REQARG_FLOATING :: "32 word" where "REQARG_FLOATING = ARG_FLOATING OR ARG_REQUIRED"

definition REQARG_STRING :: "32 word" where "REQARG_STRING = ARG_STRING OR ARG_REQUIRED"

definition REQARG_BOOLEAN :: "32 word" where "REQARG_BOOLEAN = ARG_BOOLEAN OR ARG_REQUIRED"

definition ARG_INT32 :: "32 word" where "ARG_INT32 = ARG_INTEGER"

definition ARG_FLOAT32 :: "32 word" where "ARG_FLOAT32 = ARG_FLOATING"

definition ARG_FLOAT64 :: "32 word" where "ARG_FLOAT64 = ARG_FLOATING"

definition REQARG_INT32 :: "32 word" where "REQARG_INT32 = ARG_INT32 OR ARG_REQUIRED"

definition REQARG_FLOAT32 :: "32 word" where "REQARG_FLOAT32 = ARG_FLOAT32 OR ARG_REQUIRED"

definition REQARG_FLOAT64 :: "32 word" where "REQARG_FLOAT64 = ARG_FLOAT64 OR ARG_REQUIRED"

section \<open>The tables\<close>

definition NATIVE_ENDIAN :: "bool \<Rightarrow> string" where
  "NATIVE_ENDIAN bigEndian = (if bigEndian then ''big'' else ''little'')"

definition DEFAULT_SAMPLING_RATE :: string where "DEFAULT_SAMPLING_RATE = ''16000''"

definition DEFAULT_FRAME_RATE :: string where "DEFAULT_FRAME_RATE = ''100''"

definition DEFAULT_FRAME_SHIFT :: string where "DEFAULT_FRAME_SHIFT = ''160''"

definition DEFAULT_WINDOW_LENGTH :: string where "DEFAULT_WINDOW_LENGTH = ''0.025625''"

definition DEFAULT_FFT_SIZE :: string where "DEFAULT_FFT_SIZE = ''512''"

definition DEFAULT_NUM_CEPSTRA :: string where "DEFAULT_NUM_CEPSTRA = ''13''"

definition DEFAULT_NUM_FILTERS :: string where "DEFAULT_NUM_FILTERS = ''40''"

definition DEFAULT_PRESPCH_STATE_LEN :: string where "DEFAULT_PRESPCH_STATE_LEN = ''10''"

definition DEFAULT_POSTSPCH_STATE_LEN :: string where "DEFAULT_POSTSPCH_STATE_LEN = ''50''"

definition DEFAULT_LOWER_FILT_FREQ :: string where "DEFAULT_LOWER_FILT_FREQ = ''133.33334''"

definition DEFAULT_UPPER_FILT_FREQ :: string where "DEFAULT_UPPER_FILT_FREQ = ''6855.4976''"

definition DEFAULT_PRE_EMPHASIS_ALPHA :: string where "DEFAULT_PRE_EMPHASIS_ALPHA = ''0.97''"

definition DEFAULT_WARP_TYPE :: string where "DEFAULT_WARP_TYPE = ''inverse_linear''"

definition SEED :: string where "SEED = ''-1''"

definition waveform_to_cepstral_command_line_macro :: "bool \<Rightarrow> arg_t list" where
  "waveform_to_cepstral_command_line_macro bigEndian = [
     arg ''-logspec'' ARG_BOOLEAN (Some ''no'') (''Write out logspectral files instead of cepstra''),
     arg ''-smoothspec'' ARG_BOOLEAN (Some ''no'') (''Write out cepstral-smoothed logspectral files''),
     arg ''-transform'' ARG_STRING (Some ''legacy'') (''Which type of transform to use to calculate cepstra (legacy, dct, or htk)''),
     arg ''-alpha'' ARG_FLOAT32 (Some DEFAULT_PRE_EMPHASIS_ALPHA) (''Preemphasis parameter''),
     arg ''-samprate'' ARG_FLOAT32 (Some DEFAULT_SAMPLING_RATE) (''Sampling rate''),
     arg ''-frate'' ARG_INT32 (Some DEFAULT_FRAME_RATE) (''Frame rate''),
     arg ''-wlen'' ARG_FLOAT32 (Some DEFAULT_WINDOW_LENGTH) (''Hamming window length''),
     arg ''-nfft'' ARG_INT32 (Some DEFAULT_FFT_SIZE) (''Size of FFT''),
     arg ''-nfilt'' ARG_INT32 (Some DEFAULT_NUM_FILTERS) (''Number of filter banks''),
     arg ''-lowerf'' ARG_FLOAT32 (Some DEFAULT_LOWER_FILT_FREQ) (''Lower edge of filters''),
     arg ''-upperf'' ARG_FLOAT32 (Some DEFAULT_UPPER_FILT_FREQ) (''Upper edge of filters''),
     arg ''-unit_area'' ARG_BOOLEAN (Some ''yes'') (''Normalize mel filters to unit area''),
     arg ''-round_filters'' ARG_BOOLEAN (Some ''yes'') (''Round mel filter frequencies to DFT points''),
     arg ''-ncep'' ARG_INT32 (Some DEFAULT_NUM_CEPSTRA) (''Number of cep coefficients''),
     arg ''-doublebw'' ARG_BOOLEAN (Some ''no'') (''Use double bandwidth filters (same center freq)''),
     arg ''-lifter'' ARG_INT32 (Some ''0'') (''Length of sin-curve for liftering, or 0 for no liftering.''),
     arg ''-vad_prespeech'' ARG_INT32 (Some DEFAULT_PRESPCH_STATE_LEN) (''Num of speech frames to trigger vad from silence to speech.''),
     arg ''-vad_postspeech'' ARG_INT32 (Some DEFAULT_POSTSPCH_STATE_LEN) (''Num of silence frames to trigger vad from speech to silence.''),
     arg ''-vad_threshold'' ARG_FLOAT32 (Some ''2.0'') (''Threshold for decision between noise and silence frames. Log-ratio between signal level and noise level.''),
     arg ''-input_endian'' ARG_STRING (Some (NATIVE_ENDIAN bigEndian)) (''Endianness of input data, big or little, ignored if NIST or MS Wav''),
     arg ''-warp_type'' ARG_STRING (Some DEFAULT_WARP_TYPE) (''Warping function type (or shape)''),
     arg ''-warp_params'' ARG_STRING (None) (''Parameters defining the warping function''),
     arg ''-dither'' ARG_BOOLEAN (Some ''no'') (''Add 1/2-bit noise''),
     arg ''-seed'' ARG_INT32 (Some SEED) (''Seed for random number generator; if less than zero, pick our own''),
     arg ''-remove_dc'' ARG_BOOLEAN (Some ''no'') (''Remove DC offset from each frame''),
     arg ''-remove_noise'' ARG_BOOLEAN (Some ''yes'') (''Remove noise with spectral subtraction in mel-energies''),
     arg ''-remove_silence'' ARG_BOOLEAN (Some ''yes'') (''Enables VAD, removes silence frames from processing''),
     arg ''-verbose'' ARG_BOOLEAN (Some ''no'') (''Show input filenames'')]"

definition cepstral_to_feature_command_line_macro :: "arg_t list" where
  "cepstral_to_feature_command_line_macro = [
     arg ''-feat'' ARG_STRING (Some ''1s_c_d_dd'') (''Feature stream type, depends on the acoustic model''),
     arg ''-ceplen'' ARG_INT32 (Some ''13'') (''Number of components in the input feature vector''),
     arg ''-cmn'' ARG_STRING (Some ''current'') (''Cepstral mean normalization scheme ('' @ [CHR 0x27] @ ''current'' @ [CHR 0x27] @ '', '' @ [CHR 0x27] @ ''prior'' @ [CHR 0x27] @ '', or '' @ [CHR 0x27] @ ''none'' @ [CHR 0x27] @ '')''),
     arg ''-cmninit'' ARG_STRING (Some ''8.0'') (''Initial values (comma-separated) for cepstral mean when '' @ [CHR 0x27] @ ''prior'' @ [CHR 0x27] @ '' is used''),
     arg ''-varnorm'' ARG_BOOLEAN (Some ''no'') (''Variance normalize each utterance (only if CMN == current)''),
     arg ''-agc'' ARG_STRING (Some ''none'') (''Automatic gain control for c0 ('' @ [CHR 0x27] @ ''max'' @ [CHR 0x27] @ '', '' @ [CHR 0x27] @ ''emax'' @ [CHR 0x27] @ '', '' @ [CHR 0x27] @ ''noise'' @ [CHR 0x27] @ '', or '' @ [CHR 0x27] @ ''none'' @ [CHR 0x27] @ '')''),
     arg ''-agcthresh'' ARG_FLOAT32 (Some ''2.0'') (''Initial threshold for automatic gain control''),
     arg ''-lda'' ARG_STRING (None) (''File containing transformation matrix to be applied to features (single-stream features only)''),
     arg ''-ldadim'' ARG_INT32 (Some ''0'') (''Dimensionality of output of feature transformation (0 to use entire matrix)''),
     arg ''-svspec'' ARG_STRING (None) (''Subvector specification (e.g., 24,0-11/25,12-23/26-38 or 0-12/13-25/26-38)'')]"

definition POCKETSPHINX_ACMOD_OPTIONS :: "arg_t list" where
  "POCKETSPHINX_ACMOD_OPTIONS = [
     arg ''-hmm'' ARG_STRING (None) (''Directory containing acoustic model files.''),
     arg ''-featparams'' ARG_STRING (None) (''File containing feature extraction parameters.''),
     arg ''-mdef'' ARG_STRING (None) (''Model definition input file''),
     arg ''-senmgau'' ARG_STRING (None) (''Senone to codebook mapping input file (usually not needed)''),
     arg ''-tmat'' ARG_STRING (None) (''HMM state transition matrix input file''),
     arg ''-tmatfloor'' ARG_FLOAT32 (Some ''0.0001'') (''HMM state transition probability floor (applied to -tmat file)''),
     arg ''-mean'' ARG_STRING (None) (''Mixture gaussian means input file''),
     arg ''-var'' ARG_STRING (None) (''Mixture gaussian variances input file''),
     arg ''-varfloor'' ARG_FLOAT32 (Some ''0.0001'') (''Mixture gaussian variance floor (applied to data from -var file)''),
     arg ''-mixw'' ARG_STRING (None) (''Senone mixture weights input file (uncompressed)''),
     arg ''-mixwfloor'' ARG_FLOAT32 (Some ''0.0000001'') (''Senone mixture weights floor (applied to data from -mixw file)''),
     arg ''-aw'' ARG_INT32 (Some ''1'') (''Inverse weight applied to acoustic scores.''),
     arg ''-sendump'' ARG_STRING (None) (''Senone dump (compressed mixture weights) input file''),
     arg ''-mllr'' ARG_STRING (None) (''MLLR transformation to apply to means and variances''),
     arg ''-mmap'' ARG_BOOLEAN (Some ''yes'') (''Use memory-mapped I/O (if possible) for model files''),
     arg ''-ds'' ARG_INT32 (Some ''1'') (''Frame GMM computation downsampling ratio''),
     arg ''-topn'' ARG_INT32 (Some ''4'') (''Maximum number of top Gaussians to use in scoring.''),
     arg ''-topn_beam'' ARG_STRING (Some ''0'') (''Beam width used to determine top-N Gaussians (or a list, per-feature)''),
     arg ''-kdtree'' ARG_STRING (None) (''kd-Tree file for Gaussian selection''),
     arg ''-kdmaxdepth'' ARG_INT32 (Some ''0'') (''Maximum depth of kd-Trees to use''),
     arg ''-kdmaxbbi'' ARG_INT32 (Some ''-1'') (''Maximum number of Gaussians per leaf node in kd-Trees''),
     arg ''-logbase'' ARG_FLOAT32 (Some ''1.0001'') (''Base in which all log-likelihoods calculated'')]"

definition POCKETSPHINX_BEAM_OPTIONS :: "arg_t list" where
  "POCKETSPHINX_BEAM_OPTIONS = [
     arg ''-beam'' ARG_FLOAT64 (Some ''1e-48'') (''Beam width applied to every frame in Viterbi search (smaller values mean wider beam)''),
     arg ''-wbeam'' ARG_FLOAT64 (Some ''7e-29'') (''Beam width applied to word exits''),
     arg ''-pbeam'' ARG_FLOAT64 (Some ''1e-48'') (''Beam width applied to phone transitions''),
     arg ''-lpbeam'' ARG_FLOAT64 (Some ''1e-40'') (''Beam width applied to last phone in words''),
     arg ''-lponlybeam'' ARG_FLOAT64 (Some ''7e-29'') (''Beam width applied to last phone in single-phone words''),
     arg ''-fwdflatbeam'' ARG_FLOAT64 (Some ''1e-64'') (''Beam width applied to every frame in second-pass flat search''),
     arg ''-fwdflatwbeam'' ARG_FLOAT64 (Some ''7e-29'') (''Beam width applied to word exits in second-pass flat search''),
     arg ''-pl_window'' ARG_INT32 (Some ''0'') (''Phoneme lookahead window size, in frames''),
     arg ''-pl_beam'' ARG_FLOAT64 (Some ''1e-10'') (''Beam width applied to phone loop search for lookahead''),
     arg ''-pl_pbeam'' ARG_FLOAT64 (Some ''1e-5'') (''Beam width applied to phone loop transitions for lookahead'')]"

definition POCKETSPHINX_SEARCH_OPTIONS :: "arg_t list" where
  "POCKETSPHINX_SEARCH_OPTIONS = [
     arg ''-compallsen'' ARG_BOOLEAN (Some ''no'') (''Compute all senone scores in every frame (can be faster when there are many senones)''),
     arg ''-fwdtree'' ARG_BOOLEAN (Some ''yes'') (''Run forward lexicon-tree search (1st pass)''),
     arg ''-fwdflat'' ARG_BOOLEAN (Some ''yes'') (''Run forward flat-lexicon search over word lattice (2nd pass)''),
     arg ''-bestpath'' ARG_BOOLEAN (Some ''yes'') (''Run bestpath (Dijkstra) search over word lattice (3rd pass)''),
     arg ''-backtrace'' ARG_BOOLEAN (Some ''no'') (''Print results and backtraces to log file.''),
     arg ''-latsize'' ARG_INT32 (Some ''5000'') (''Initial backpointer table size''),
     arg ''-maxwpf'' ARG_INT32 (Some ''-1'') (''Maximum number of distinct word exits at each frame (or -1 for no pruning)''),
     arg ''-maxhmmpf'' ARG_INT32 (Some ''10000'') (''Maximum number of active HMMs to maintain at each frame (or -1 for no pruning)''),
     arg ''-min_endfr'' ARG_INT32 (Some ''0'') (''Nodes ignored in lattice construction if they persist for fewer than N frames''),
     arg ''-fwdflatefwid'' ARG_INT32 (Some ''4'') (''Minimum number of end frames for a word to be searched in fwdflat search''),
     arg ''-fwdflatsfwin'' ARG_INT32 (Some ''25'') (''Window of frames in lattice to search for successor words in fwdflat search '')]"

definition POCKETSPHINX_DICT_OPTIONS :: "arg_t list" where
  "POCKETSPHINX_DICT_OPTIONS = [
     arg ''-dict'' REQARG_STRING (None) (''Main pronunciation dictionary (lexicon) input file''),
     arg ''-fdict'' ARG_STRING (None) (''Noise word pronunciation dictionary input file''),
     arg ''-dictcase'' ARG_BOOLEAN (Some ''no'') (''Dictionary is case sensitive (NOTE: case insensitivity applies to ASCII characters only)''),
     arg ''-maxnewoov'' ARG_INT32 (Some ''20'') (''Maximum new OOVs that can be added at run time''),
     arg ''-usewdphones'' ARG_BOOLEAN (Some ''no'') (''Use within-word phones only'')]"

definition POCKETSPHINX_NGRAM_OPTIONS :: "arg_t list" where
  "POCKETSPHINX_NGRAM_OPTIONS = [
     arg ''-allphone'' ARG_STRING (None) (''Perform phoneme decoding with phonetic lm''),
     arg ''-allphone_ci'' ARG_BOOLEAN (Some ''no'') (''Perform phoneme decoding with phonetic lm and context-independent units only''),
     arg ''-lm'' ARG_STRING (None) (''Word trigram language model input file''),
     arg ''-lmctl'' ARG_STRING (None) (''Specify a set of language model'' @ ''\<newline>''),
     arg ''-lmname'' ARG_STRING (None) (''Which language model in -lmctl to use by default''),
     arg ''-lw'' ARG_FLOAT32 (Some ''6.5'') (''Language model probability weight''),
     arg ''-fwdflatlw'' ARG_FLOAT32 (Some ''8.5'') (''Language model probability weight for flat lexicon (2nd pass) decoding''),
     arg ''-bestpathlw'' ARG_FLOAT32 (Some ''9.5'') (''Language model probability weight for bestpath search''),
     arg ''-ascale'' ARG_FLOAT32 (Some ''20.0'') (''Inverse of acoustic model scale for confidence score calculation''),
     arg ''-wip'' ARG_FLOAT32 (Some ''0.65'') (''Word insertion penalty''),
     arg ''-nwpen'' ARG_FLOAT32 (Some ''1.0'') (''New word transition penalty''),
     arg ''-pip'' ARG_FLOAT32 (Some ''1.0'') (''Phone insertion penalty''),
     arg ''-uw'' ARG_FLOAT32 (Some ''1.0'') (''Unigram weight''),
     arg ''-silprob'' ARG_FLOAT32 (Some ''0.005'') (''Silence word transition probability''),
     arg ''-fillprob'' ARG_FLOAT32 (Some ''1e-8'') (''Filler word transition probability''),
     arg ''-bghist'' ARG_BOOLEAN (Some ''no'') (''Bigram-mode: If TRUE only one BP entry/frame; else one per LM state''),
     arg ''-lextreedump'' ARG_INT32 (Some ''0'') (''Whether to dump the lextree structure to stderr (for debugging), 1 for Ravi'' @ [CHR 0x27] @ ''s format, 2 for Dot format, Larger than 2 will be treated as Ravi'' @ [CHR 0x27] @ ''s format'')]"

definition POCKETSPHINX_FSG_OPTIONS :: "arg_t list" where
  "POCKETSPHINX_FSG_OPTIONS = [
     arg ''-fsg'' ARG_STRING (None) (''Sphinx format finite state grammar file''),
     arg ''-jsgf'' ARG_STRING (None) (''JSGF grammar file''),
     arg ''-toprule'' ARG_STRING (None) (''Start rule for JSGF (first public rule is default)''),
     arg ''-fsgusealtpron'' ARG_BOOLEAN (Some ''yes'') (''Add alternate pronunciations to FSG''),
     arg ''-fsgusefiller'' ARG_BOOLEAN (Some ''yes'') (''Insert filler words at each state.'')]"

definition POCKETSPHINX_KWS_OPTIONS :: "arg_t list" where
  "POCKETSPHINX_KWS_OPTIONS = [
     arg ''-keyphrase'' ARG_STRING (None) (''Keyphrase to spot''),
     arg ''-kws'' ARG_STRING (None) (''A file with keyphrases to spot, one per line''),
     arg ''-kws_plp'' ARG_FLOAT64 (Some ''1e-1'') (''Phone loop probability for keyword spotting''),
     arg ''-kws_threshold'' ARG_FLOAT64 (Some ''1'') (''Threshold for p(hyp)/p(alternatives) ratio'')]"

definition POCKETSPHINX_DEBUG_OPTIONS :: "arg_t list" where
  "POCKETSPHINX_DEBUG_OPTIONS = [
     arg ''-logfn'' ARG_STRING (None) (''File to write log messages in''),
     arg ''-debug'' ARG_INT32 (None) (''Verbosity level for debugging messages''),
     arg ''-mfclogdir'' ARG_STRING (None) (''Directory to log feature files to''),
     arg ''-rawlogdir'' ARG_STRING (None) (''Directory to log raw audio files to''),
     arg ''-senlogdir'' ARG_STRING (None) (''Directory to log senone score files to'')]"

definition POCKETSPHINX_OPTIONS :: "bool \<Rightarrow> arg_t list" where
  "POCKETSPHINX_OPTIONS bigEndian =
     waveform_to_cepstral_command_line_macro bigEndian @ cepstral_to_feature_command_line_macro
     @ POCKETSPHINX_ACMOD_OPTIONS @ POCKETSPHINX_BEAM_OPTIONS @ POCKETSPHINX_SEARCH_OPTIONS
     @ POCKETSPHINX_DICT_OPTIONS @ POCKETSPHINX_NGRAM_OPTIONS @ POCKETSPHINX_FSG_OPTIONS
     @ POCKETSPHINX_KWS_OPTIONS @ POCKETSPHINX_DEBUG_OPTIONS"

section \<open>What a table must satisfy\<close>

definition isDigitChar :: "char \<Rightarrow> bool" where
  "isDigitChar c = (48 \<le> (of_char c :: nat) \<and> (of_char c :: nat) \<le> 57)"

text \<open>The leading digits of a text: their value, their number, and the rest.\<close>

fun readDigits :: "nat \<Rightarrow> nat \<Rightarrow> string \<Rightarrow> nat \<times> nat \<times> string" where
  "readDigits v k [] = (v, k, [])"
| "readDigits v k (c # s) = (if isDigitChar c then readDigits (10 * v + (of_char c - 48)) (Suc k) s else (v, k, c # s))"

definition readInt :: "string \<Rightarrow> int option" where
  "readInt s =
     (let (sign, t) = (case s of [] \<Rightarrow> (1, s) | c # r \<Rightarrow> if c = CHR ''-'' then (- 1, r) else (1, s));
          (v, k, rest) = readDigits 0 0 t
      in if k > 0 \<and> rest = [] then Some (sign * int v) else None)"

text \<open>Digits, an optional fraction and an optional exponent: the number as a whole number times a power of ten.\<close>

definition readFloat :: "string \<Rightarrow> (int \<times> int) option" where
  "readFloat s =
     (let (v, k, rest) = readDigits 0 0 s;
          (w, j, rest) = (case rest of [] \<Rightarrow> (v, 0, rest)
             | c # r \<Rightarrow> if c = CHR ''.'' then readDigits v 0 r else (v, 0, rest));
          ex = (case rest of [] \<Rightarrow> Some 0 | c # r \<Rightarrow> if c = CHR ''e'' then readInt r else None)
      in if k = 0 then None else case ex of None \<Rightarrow> None | Some x \<Rightarrow> Some (int w, x - int j))"

definition arg_ok :: "arg_t \<Rightarrow> bool" where
  "arg_ok a =
     (hd (arg_name a) = CHR ''-'' \<and> length (arg_name a) > 1 \<and>
      (let t = arg_type a AND NOT ARG_REQUIRED
       in case deflt a of
            None \<Rightarrow> t \<in> {ARG_INTEGER, ARG_FLOATING, ARG_STRING, ARG_BOOLEAN}
          | Some s \<Rightarrow> arg_type a AND ARG_REQUIRED = 0 \<and>
              (if t = ARG_INTEGER then readInt s \<noteq> None
               else if t = ARG_FLOATING then readFloat s \<noteq> None
               else if t = ARG_BOOLEAN then s \<in> {''yes'', ''no''}
               else t = ARG_STRING)))"

definition defaultOf :: "arg_t list \<Rightarrow> string \<Rightarrow> string option" where
  "defaultOf opts n = (case filter (\<lambda>a. arg_name a = n) opts of a # _ \<Rightarrow> deflt a | [] \<Rightarrow> None)"

lemmas arg_type_defs = ARG_REQUIRED_def ARG_INTEGER_def ARG_FLOATING_def ARG_STRING_def ARG_BOOLEAN_def
  ARG_STRING_LIST_def REQARG_STRING_def ARG_INT32_def ARG_FLOAT32_def ARG_FLOAT64_def

lemma arg_fields [simp]: "arg_name (arg n t d s) = n" "arg_type (arg n t d s) = t" "deflt (arg n t d s) = d"
  by (simp_all add: arg_def)

lemma arg_ok_string: "arg_ok (arg (CHR ''-'' # c # n) ARG_STRING d s)"
  by (cases d) (simp_all add: arg_ok_def arg_type_defs)

lemma arg_ok_required_string: "arg_ok (arg (CHR ''-'' # c # n) REQARG_STRING None s)"
  by (simp add: arg_ok_def arg_type_defs)

lemma arg_ok_bool: "arg_ok (arg (CHR ''-'' # c # n) ARG_BOOLEAN (Some v) s) = (v \<in> {''yes'', ''no''})"
  by (simp add: arg_ok_def arg_type_defs)

lemma arg_ok_int: "arg_ok (arg (CHR ''-'' # c # n) ARG_INT32 d s) = (case d of None \<Rightarrow> True | Some v \<Rightarrow> readInt v \<noteq> None)"
  by (cases d) (simp_all add: arg_ok_def arg_type_defs)

lemma arg_ok_float:
  "arg_ok (arg (CHR ''-'' # c # n) ARG_FLOAT32 d s) = (case d of None \<Rightarrow> True | Some v \<Rightarrow> readFloat v \<noteq> None)"
  "arg_ok (arg (CHR ''-'' # c # n) ARG_FLOAT64 d s) = (case d of None \<Rightarrow> True | Some v \<Rightarrow> readFloat v \<noteq> None)"
  by (cases d; simp add: arg_ok_def arg_type_defs)+

lemmas arg_ok_rules = arg_ok_string arg_ok_required_string arg_ok_bool arg_ok_int arg_ok_float

lemmas default_defs = DEFAULT_SAMPLING_RATE_def DEFAULT_FRAME_RATE_def DEFAULT_WINDOW_LENGTH_def
  DEFAULT_FFT_SIZE_def DEFAULT_NUM_CEPSTRA_def DEFAULT_NUM_FILTERS_def DEFAULT_PRESPCH_STATE_LEN_def
  DEFAULT_POSTSPCH_STATE_LEN_def DEFAULT_LOWER_FILT_FREQ_def DEFAULT_UPPER_FILT_FREQ_def
  DEFAULT_PRE_EMPHASIS_ALPHA_def DEFAULT_WARP_TYPE_def SEED_def

lemmas table_defs = waveform_to_cepstral_command_line_macro_def cepstral_to_feature_command_line_macro_def
  POCKETSPHINX_ACMOD_OPTIONS_def POCKETSPHINX_BEAM_OPTIONS_def POCKETSPHINX_SEARCH_OPTIONS_def
  POCKETSPHINX_DICT_OPTIONS_def POCKETSPHINX_NGRAM_OPTIONS_def POCKETSPHINX_FSG_OPTIONS_def
  POCKETSPHINX_KWS_OPTIONS_def POCKETSPHINX_DEBUG_OPTIONS_def

lemma options_args_ok: "list_all arg_ok (POCKETSPHINX_OPTIONS b)"
  by (simp add: POCKETSPHINX_OPTIONS_def table_defs arg_ok_rules default_defs readInt_def readFloat_def isDigitChar_def)

text \<open>Names are compared by the numbers their characters spell.\<close>

definition nameKey :: "string \<Rightarrow> int" where
  "nameKey s = foldl (\<lambda>n c. 256 * n + of_char c) 0 s"

lemma distinct_by_key: "distinct (map f xs) \<Longrightarrow> distinct xs" for f :: "'a \<Rightarrow> int"
  by (simp add: distinct_map)

lemma options_distinct: "distinct (map arg_name (POCKETSPHINX_OPTIONS b))"
proof (rule distinct_by_key [where f = nameKey])
  have "map nameKey (map arg_name (POCKETSPHINX_OPTIONS b)) = map nameKey (map arg_name (POCKETSPHINX_OPTIONS False))"
    by (simp add: POCKETSPHINX_OPTIONS_def table_defs)
  also have "distinct \<dots>"
    by (simp add: POCKETSPHINX_OPTIONS_def table_defs nameKey_def)
  finally show "distinct (map nameKey (map arg_name (POCKETSPHINX_OPTIONS b)))" .
qed

section \<open>The defaults fit each other\<close>

text \<open>A default as a number of millionths.\<close>

definition microOf :: "string \<Rightarrow> int option" where
  "microOf s = (case readFloat s of Some (m, e) \<Rightarrow> if - 6 \<le> e then Some (m * 10 ^ nat (e + 6)) else None | None \<Rightarrow> None)"

definition microDefault :: "bool \<Rightarrow> string \<Rightarrow> int" where
  "microDefault b n = the (Option.bind (defaultOf (POCKETSPHINX_OPTIONS b) n) microOf)"

definition defaults_fit :: "bool \<Rightarrow> bool" where
  "defaults_fit b =
     (let rate = microDefault b ''-samprate''; frate = microDefault b ''-frate'';
          wlen = microDefault b ''-wlen''; nfft = microDefault b ''-nfft'';
          shift = the (microOf DEFAULT_FRAME_SHIFT)
      in rate * 10 ^ 6 = shift * frate \<and> wlen * rate \<le> nfft * 10 ^ 6 \<and> wlen * rate > shift * 10 ^ 6
         \<and> microDefault b ''-lowerf'' < microDefault b ''-upperf'' \<and> 2 * microDefault b ''-upperf'' \<le> rate
         \<and> microDefault b ''-ncep'' \<le> microDefault b ''-nfilt''
         \<and> microDefault b ''-ceplen'' = microDefault b ''-ncep'')"

lemma defaultOf_append:
  "defaultOf (xs @ ys) n = (if n \<in> arg_name ` set xs then defaultOf xs n else defaultOf ys n)"
proof (cases "n \<in> arg_name ` set xs")
  case True
  then have "filter (\<lambda>a. arg_name a = n) xs \<noteq> []" by (auto simp: filter_empty_conv)
  with True show ?thesis by (cases "filter (\<lambda>a. arg_name a = n) xs") (auto simp: defaultOf_def)
next
  case False
  then have "filter (\<lambda>a. arg_name a = n) xs = []" by (auto simp: filter_empty_conv)
  with False show ?thesis by (simp add: defaultOf_def)
qed

lemma front_end_default:
  assumes "n \<in> arg_name ` set (waveform_to_cepstral_command_line_macro b @ cepstral_to_feature_command_line_macro)"
  shows "microDefault b n
    = the (Option.bind (defaultOf (waveform_to_cepstral_command_line_macro b @ cepstral_to_feature_command_line_macro) n) microOf)"
proof -
  have "POCKETSPHINX_OPTIONS b = (waveform_to_cepstral_command_line_macro b @ cepstral_to_feature_command_line_macro)
      @ drop (length (waveform_to_cepstral_command_line_macro b @ cepstral_to_feature_command_line_macro)) (POCKETSPHINX_OPTIONS b)"
    by (simp add: POCKETSPHINX_OPTIONS_def)
  with assms show ?thesis unfolding microDefault_def by (metis defaultOf_append)
qed

lemmas front_end_eval = waveform_to_cepstral_command_line_macro_def cepstral_to_feature_command_line_macro_def
  defaultOf_def microOf_def readFloat_def isDigitChar_def default_defs

lemma front_end_names: "x \<in> {''-samprate'', ''-frate'', ''-wlen'', ''-nfft'', ''-lowerf'', ''-upperf'', ''-ncep'', ''-nfilt'', ''-ceplen''}
    \<Longrightarrow> x \<in> arg_name ` set (waveform_to_cepstral_command_line_macro b @ cepstral_to_feature_command_line_macro)"
  unfolding waveform_to_cepstral_command_line_macro_def cepstral_to_feature_command_line_macro_def
  by auto

abbreviation front_end :: "bool \<Rightarrow> arg_t list" where
  "front_end b \<equiv> waveform_to_cepstral_command_line_macro b @ cepstral_to_feature_command_line_macro"

lemma front_end_lookups:
  "defaultOf (front_end b) ''-samprate'' = Some DEFAULT_SAMPLING_RATE"
  "defaultOf (front_end b) ''-frate'' = Some DEFAULT_FRAME_RATE"
  "defaultOf (front_end b) ''-wlen'' = Some DEFAULT_WINDOW_LENGTH"
  "defaultOf (front_end b) ''-nfft'' = Some DEFAULT_FFT_SIZE"
  "defaultOf (front_end b) ''-lowerf'' = Some DEFAULT_LOWER_FILT_FREQ"
  "defaultOf (front_end b) ''-upperf'' = Some DEFAULT_UPPER_FILT_FREQ"
  "defaultOf (front_end b) ''-ncep'' = Some DEFAULT_NUM_CEPSTRA"
  "defaultOf (front_end b) ''-nfilt'' = Some DEFAULT_NUM_FILTERS"
  "defaultOf (front_end b) ''-ceplen'' = Some ''13''"
  by (simp_all add: defaultOf_def waveform_to_cepstral_command_line_macro_def cepstral_to_feature_command_line_macro_def)

lemma front_end_micros:
  "microOf DEFAULT_SAMPLING_RATE = Some (16000 * 10 ^ 6)" "microOf DEFAULT_FRAME_RATE = Some (100 * 10 ^ 6)"
  "microOf DEFAULT_FRAME_SHIFT = Some (160 * 10 ^ 6)" "microOf DEFAULT_WINDOW_LENGTH = Some 25625"
  "microOf DEFAULT_FFT_SIZE = Some (512 * 10 ^ 6)" "microOf DEFAULT_LOWER_FILT_FREQ = Some 133333340"
  "microOf DEFAULT_UPPER_FILT_FREQ = Some 6855497600" "microOf DEFAULT_NUM_CEPSTRA = Some (13 * 10 ^ 6)"
  "microOf DEFAULT_NUM_FILTERS = Some (40 * 10 ^ 6)" "microOf ''13'' = Some (13 * 10 ^ 6)"
  by (simp_all add: microOf_def readFloat_def isDigitChar_def default_defs DEFAULT_FRAME_SHIFT_def)

lemma front_end_values:
  assumes "x \<in> {''-samprate'', ''-frate'', ''-wlen'', ''-nfft'', ''-lowerf'', ''-upperf'', ''-ncep'', ''-nfilt'', ''-ceplen''}"
  shows "microDefault b x = the (Option.bind (defaultOf (front_end b) x) microOf)"
  by (rule front_end_default [OF front_end_names [OF assms]])

lemma defaults_fit_all: "defaults_fit b"
  unfolding defaults_fit_def Let_def by (simp add: front_end_values front_end_lookups front_end_micros)

text \<open>The options of the recogniser: all names are different and begin with a dash, every default is a text of its
  option's type, only options without default are required; and the defaults of the front end fit each other:
  the frame shift is the sampling rate divided by the frame rate, a window is longer than a shift and fits
  the FFT, the filters end below half the sampling rate, and feature vectors are as long as the cepstra.\<close>

theorem pocketsphinx_options_ok:
  "list_all arg_ok (POCKETSPHINX_OPTIONS b) \<and> distinct (map arg_name (POCKETSPHINX_OPTIONS b)) \<and> defaults_fit b"
  by (simp only: options_args_ok options_distinct defaults_fit_all simp_thms)

end
