(* ===== verification/SpeechModel.thy ===== *)
theory SpeechModel
  imports Main "HOL-Library.Word"
begin

text \<open>
  The model and search structures of the recogniser, as far as its headers hold code: the id tests of
  s3types.h, the model definition (bin\_mdef.h), hidden Markov models (hmm.h), the pronunciation dictionary (dict.h),
  the fast addition of logarithms (tied\_mgau\_common.h) and the phonetic contexts of the
  grammar search (fsg\_lextree.h).  Arrays are lists.  Ids and scores that are only read and negated are
  integers; where a bit pattern or a wrap-around matters they are words.
\<close>

unbundle bit_operations_syntax

section \<open>s3types.h\<close>

definition BAD_S3CIPID :: "16 word" where "BAD_S3CIPID = - 1"

definition NOT_S3CIPID :: "16 word \<Rightarrow> bool" where "NOT_S3CIPID p = (sint p < 0)"

definition IS_S3CIPID :: "16 word \<Rightarrow> bool" where "IS_S3CIPID p = (sint p \<ge> 0)"

definition MAX_S3CIPID :: "16 word" where "MAX_S3CIPID = 32767"

definition BAD_S3PID :: "32 word" where "BAD_S3PID = - 1"

definition NOT_S3PID :: "32 word \<Rightarrow> bool" where "NOT_S3PID p = (sint p < 0)"

definition IS_S3PID :: "32 word \<Rightarrow> bool" where "IS_S3PID p = (sint p \<ge> 0)"

definition MAX_S3PID :: "32 word" where "MAX_S3PID = 0x7ffffffe"

definition BAD_S3SSID :: "16 word" where "BAD_S3SSID = 0xffff"

definition NOT_S3SSID :: "16 word \<Rightarrow> bool" where "NOT_S3SSID p = (p = BAD_S3SSID)"

definition IS_S3SSID :: "16 word \<Rightarrow> bool" where "IS_S3SSID p = (p \<noteq> BAD_S3SSID)"

definition MAX_S3SSID :: "16 word" where "MAX_S3SSID = 0xfffe"

definition BAD_S3TMATID :: "32 word" where "BAD_S3TMATID = - 1"

definition NOT_S3TMATID :: "32 word \<Rightarrow> bool" where "NOT_S3TMATID t = (sint t < 0)"

definition IS_S3TMATID :: "32 word \<Rightarrow> bool" where "IS_S3TMATID t = (sint t \<ge> 0)"

definition MAX_S3TMATID :: "32 word" where "MAX_S3TMATID = 0x7ffffffe"

definition BAD_S3WID :: "32 word" where "BAD_S3WID = - 1"

definition NOT_S3WID :: "32 word \<Rightarrow> bool" where "NOT_S3WID w = (sint w < 0)"

definition IS_S3WID :: "32 word \<Rightarrow> bool" where "IS_S3WID w = (sint w \<ge> 0)"

definition MAX_S3WID :: "32 word" where "MAX_S3WID = 0x7ffffffe"

section \<open>bin\_mdef.h\<close>

definition BIN_MDEF_NATIVE_ENDIAN :: "32 word" where "BIN_MDEF_NATIVE_ENDIAN = 0x46444d42"

definition BIN_MDEF_OTHER_ENDIAN :: "32 word" where "BIN_MDEF_OTHER_ENDIAN = 0x424d4446"

text \<open>The four bytes of \<open>info\<close> are a union: the first is the filler mark of a base phone and the word position of a
  triphone, the others are the context of a triphone.\<close>

record mdef_entry =
  entry_ssid :: int
  entry_tmat :: int
  info :: "8 word list"

definition info_ci_filler :: "mdef_entry \<Rightarrow> 8 word" where "info_ci_filler e = info e ! 0"

definition info_cd_wpos :: "mdef_entry \<Rightarrow> 8 word" where "info_cd_wpos e = info e ! 0"

definition info_cd_ctx :: "mdef_entry \<Rightarrow> nat \<Rightarrow> 8 word" where "info_cd_ctx e i = info e ! (1 + i)"

definition BAD_SSID :: "16 word" where "BAD_SSID = 0xffff"

definition BAD_SENID :: "16 word" where "BAD_SENID = 0xffff"

record bin_mdef =
  n_ciphone :: nat
  n_phone :: nat
  n_emit_state :: nat
  n_ci_sen :: nat
  n_sen :: nat
  n_tmat :: nat
  n_sseq :: nat
  sil :: int
  phone :: "mdef_entry list"
  sseq :: "16 word list list"
  sseq_len :: "8 word list"
  sen2cimap :: "int list"

definition bin_mdef_is_ciphone :: "bin_mdef \<Rightarrow> nat \<Rightarrow> bool" where
  "bin_mdef_is_ciphone m p = (p < n_ciphone m)"

definition bin_mdef_pid2ci :: "bin_mdef \<Rightarrow> nat \<Rightarrow> nat" where
  "bin_mdef_pid2ci m p = (if p < n_ciphone m then p else unat (info_cd_ctx (phone m ! p) 0))"

definition bin_mdef_is_fillerphone :: "bin_mdef \<Rightarrow> nat \<Rightarrow> 8 word" where
  "bin_mdef_is_fillerphone m p =
     (if p < n_ciphone m then info_ci_filler (phone m ! p)
      else info_ci_filler (phone m ! unat (info_cd_ctx (phone m ! p) 0)))"

definition bin_mdef_n_emit_state_phone :: "bin_mdef \<Rightarrow> nat \<Rightarrow> nat" where
  "bin_mdef_n_emit_state_phone m p =
     (if n_emit_state m \<noteq> 0 then n_emit_state m else unat (sseq_len m ! nat (entry_ssid (phone m ! p))))"

definition bin_mdef_pid2ssid :: "bin_mdef \<Rightarrow> nat \<Rightarrow> int" where
  "bin_mdef_pid2ssid m p = entry_ssid (phone m ! p)"

definition bin_mdef_pid2tmatid :: "bin_mdef \<Rightarrow> nat \<Rightarrow> int" where
  "bin_mdef_pid2tmatid m p = entry_tmat (phone m ! p)"

definition bin_mdef_sen2cimap :: "bin_mdef \<Rightarrow> nat \<Rightarrow> int" where
  "bin_mdef_sen2cimap m s = sen2cimap m ! s"

definition bin_mdef_sseq2sen :: "bin_mdef \<Rightarrow> nat \<Rightarrow> nat \<Rightarrow> 16 word" where
  "bin_mdef_sseq2sen m ss pos = sseq m ! ss ! pos"

section \<open>hmm.h\<close>

definition WORST_SCORE :: int where "WORST_SCORE = - 0x20000000"

definition TMAT_WORST_SCORE :: int where "TMAT_WORST_SCORE = - 255"

definition HMM_MAX_NSTATE :: nat where "HMM_MAX_NSTATE = 5"

definition SENSCR_SHIFT :: nat where "SENSCR_SHIFT = 10"

record hmm_context =
  ctx_n_emit_state :: nat
  tp :: "8 word list list list"
  senscore :: "16 word list"
  ctx_sseq :: "16 word list list"

record hmm_t =
  ctx :: hmm_context
  score :: "int list"
  history :: "int list"
  out_score :: int
  out_history :: int
  ssid :: "16 word"
  senid :: "16 word list"
  bestscore :: int
  tmatid :: nat
  frame :: int
  mpx :: bool
  hmm_emit_state :: nat

definition hmm_in_score :: "hmm_t \<Rightarrow> int" where "hmm_in_score h = score h ! 0"

definition hmm_score :: "hmm_t \<Rightarrow> nat \<Rightarrow> int" where "hmm_score h st = score h ! st"

definition hmm_in_history :: "hmm_t \<Rightarrow> int" where "hmm_in_history h = history h ! 0"

definition hmm_history :: "hmm_t \<Rightarrow> nat \<Rightarrow> int" where "hmm_history h st = history h ! st"

definition hmm_mpx_ssid :: "hmm_t \<Rightarrow> nat \<Rightarrow> 16 word" where "hmm_mpx_ssid h st = senid h ! st"

definition hmm_nonmpx_ssid :: "hmm_t \<Rightarrow> 16 word" where "hmm_nonmpx_ssid h = ssid h"

definition hmm_ssid :: "hmm_t \<Rightarrow> nat \<Rightarrow> 16 word" where
  "hmm_ssid h st = (if mpx h then hmm_mpx_ssid h st else hmm_nonmpx_ssid h)"

definition hmm_mpx_senid :: "hmm_t \<Rightarrow> nat \<Rightarrow> 16 word" where
  "hmm_mpx_senid h st =
     (if hmm_mpx_ssid h st = BAD_SENID then BAD_SENID else ctx_sseq (ctx h) ! unat (hmm_mpx_ssid h st) ! st)"

definition hmm_nonmpx_senid :: "hmm_t \<Rightarrow> nat \<Rightarrow> 16 word" where "hmm_nonmpx_senid h st = senid h ! st"

definition hmm_senid :: "hmm_t \<Rightarrow> nat \<Rightarrow> 16 word" where
  "hmm_senid h st = (if mpx h then hmm_mpx_senid h st else hmm_nonmpx_senid h st)"

definition hmm_senscr :: "hmm_t \<Rightarrow> nat \<Rightarrow> int" where
  "hmm_senscr h st =
     (if hmm_senid h st = BAD_SENID then WORST_SCORE else - sint (senscore (ctx h) ! unat (hmm_senid h st)))"

definition hmm_tprob :: "hmm_t \<Rightarrow> nat \<Rightarrow> nat \<Rightarrow> int" where
  "hmm_tprob h i j = - uint (tp (ctx h) ! tmatid h ! i ! j)"

definition hmm_n_emit_state :: "hmm_t \<Rightarrow> nat" where "hmm_n_emit_state h = hmm_emit_state h"

definition hmm_n_state :: "hmm_t \<Rightarrow> nat" where "hmm_n_state h = hmm_emit_state h + 1"

section \<open>dict.h\<close>

record dictword =
  word_str :: string
  ciphone :: "int list"
  pronlen :: nat
  alt :: int
  basewid :: nat

record dict =
  dict_words :: "dictword list"
  n_word :: int
  filler_start :: int
  filler_end :: int
  startwid :: int
  finishwid :: int
  silwid :: int

definition dict_size :: "dict \<Rightarrow> int" where "dict_size d = n_word d"

definition dict_filler_start :: "dict \<Rightarrow> int" where "dict_filler_start d = filler_start d"

definition dict_filler_end :: "dict \<Rightarrow> int" where "dict_filler_end d = filler_end d"

definition dict_num_fillers :: "dict \<Rightarrow> int" where
  "dict_num_fillers d = dict_filler_end d - dict_filler_start d"

definition dict_num_real_words :: "dict \<Rightarrow> int" where
  "dict_num_real_words d = dict_size d - (dict_filler_end d - dict_filler_start d) - 2"

definition dict_basewid :: "dict \<Rightarrow> nat \<Rightarrow> nat" where "dict_basewid d w = basewid (dict_words d ! w)"

definition dict_wordstr :: "dict \<Rightarrow> int \<Rightarrow> string option" where
  "dict_wordstr d w = (if w < 0 then None else Some (word_str (dict_words d ! nat w)))"

definition dict_basestr :: "dict \<Rightarrow> nat \<Rightarrow> string" where
  "dict_basestr d w = word_str (dict_words d ! dict_basewid d w)"

definition dict_nextalt :: "dict \<Rightarrow> nat \<Rightarrow> int" where "dict_nextalt d w = alt (dict_words d ! w)"

definition dict_pronlen :: "dict \<Rightarrow> nat \<Rightarrow> nat" where "dict_pronlen d w = pronlen (dict_words d ! w)"

definition dict_pron :: "dict \<Rightarrow> nat \<Rightarrow> nat \<Rightarrow> int" where "dict_pron d w p = ciphone (dict_words d ! w) ! p"

definition dict_is_single_phone :: "dict \<Rightarrow> nat \<Rightarrow> bool" where
  "dict_is_single_phone d w = (pronlen (dict_words d ! w) = 1)"

definition dict_first_phone :: "dict \<Rightarrow> nat \<Rightarrow> int" where "dict_first_phone d w = ciphone (dict_words d ! w) ! 0"

definition dict_second_phone :: "dict \<Rightarrow> nat \<Rightarrow> int" where "dict_second_phone d w = ciphone (dict_words d ! w) ! 1"

definition dict_second_last_phone :: "dict \<Rightarrow> nat \<Rightarrow> int" where
  "dict_second_last_phone d w = ciphone (dict_words d ! w) ! (pronlen (dict_words d ! w) - 2)"

definition dict_last_phone :: "dict \<Rightarrow> nat \<Rightarrow> int" where
  "dict_last_phone d w = ciphone (dict_words d ! w) ! (pronlen (dict_words d ! w) - 1)"

section \<open>tied\_mgau\_common.h\<close>

text \<open>The fixed point variants, which rely on signed numbers wrapping around.\<close>

definition GMMSUB :: "32 word \<Rightarrow> 32 word \<Rightarrow> 32 word" where
  "GMMSUB a b = (if sint (a - b) > sint a then 0x80000000 else a - b)"

definition GMMADD :: "32 word \<Rightarrow> 32 word \<Rightarrow> 32 word" where
  "GMMADD a b = (if sint (a + b) < sint a then 0x7fffffff else a + b)"

text \<open>The table of the logarithm object is a parameter; reading outside it has no value.\<close>

definition fast_logmath_add :: "8 word list \<Rightarrow> int \<Rightarrow> int \<Rightarrow> int option" where
  "fast_logmath_add t mlx mly =
     (let (d, r) = (if mlx > mly then (mlx - mly, mly) else (mly - mlx, mlx))
      in if nat d < length t then Some (r - uint (t ! nat d)) else None)"

section \<open>fsg\_lextree.h\<close>

definition FSG_PNODE_CTXT_BVSZ :: nat where "FSG_PNODE_CTXT_BVSZ = 4"

type_synonym fsg_pnode_ctxt = "32 word list"

definition fsg_pnode_add_ctxt :: "fsg_pnode_ctxt \<Rightarrow> nat \<Rightarrow> fsg_pnode_ctxt" where
  "fsg_pnode_add_ctxt bv c = bv[c div 32 := bv ! (c div 32) OR push_bit (c mod 32) 1]"

definition FSG_PNODE_CTXT_SUB_1 :: "fsg_pnode_ctxt \<Rightarrow> fsg_pnode_ctxt \<Rightarrow> fsg_pnode_ctxt \<times> 32 word" where
  "FSG_PNODE_CTXT_SUB_1 src sub =
     (let a = NOT (sub ! 0) AND src ! 0 in (src[0 := a], a))"

definition FSG_PNODE_CTXT_SUB_2 :: "fsg_pnode_ctxt \<Rightarrow> fsg_pnode_ctxt \<Rightarrow> fsg_pnode_ctxt \<times> 32 word" where
  "FSG_PNODE_CTXT_SUB_2 src sub =
     (let a = NOT (sub ! 0) AND src ! 0; b = NOT (sub ! 1) AND src ! 1 in (src[0 := a, 1 := b], a OR b))"

definition FSG_PNODE_CTXT_SUB_4 :: "fsg_pnode_ctxt \<Rightarrow> fsg_pnode_ctxt \<Rightarrow> fsg_pnode_ctxt \<times> 32 word" where
  "FSG_PNODE_CTXT_SUB_4 src sub =
     (let a = NOT (sub ! 0) AND src ! 0; b = NOT (sub ! 1) AND src ! 1;
          c = NOT (sub ! 2) AND src ! 2; d = NOT (sub ! 3) AND src ! 3
      in (src[0 := a, 1 := b, 2 := c, 3 := d], a OR b OR c OR d))"

section \<open>Phones\<close>

text \<open>A model definition as it is loaded: the base phones come first, the context of a triphone is a base phone.\<close>

definition mdef_wf :: "bin_mdef \<Rightarrow> bool" where
  "mdef_wf m \<longleftrightarrow> n_ciphone m \<le> n_phone m \<and> length (phone m) = n_phone m
     \<and> (\<forall>p < n_phone m. length (info (phone m ! p)) = 4
          \<and> (n_ciphone m \<le> p \<longrightarrow> unat (info_cd_ctx (phone m ! p) 0) < n_ciphone m))"

text \<open>Every phone has a base phone: on a loaded model definition it is one of the base phones, it is its own
  base phone, and a phone is a filler exactly if its base phone is.\<close>

theorem base_phone_of_phone:
  assumes "mdef_wf m" and "p < n_phone m"
  shows "bin_mdef_is_ciphone m (bin_mdef_pid2ci m p) \<and> bin_mdef_pid2ci m (bin_mdef_pid2ci m p) = bin_mdef_pid2ci m p
    \<and> bin_mdef_is_fillerphone m p = bin_mdef_is_fillerphone m (bin_mdef_pid2ci m p)"
  using assms by (auto simp: mdef_wf_def bin_mdef_is_ciphone_def bin_mdef_pid2ci_def bin_mdef_is_fillerphone_def)

section \<open>Scores\<close>

lemma sint_32_range: "- (2 ^ 31) \<le> sint a" "sint a < 2 ^ 31" for a :: "32 word"
  using sint_greater_eq [of a] sint_less [of a] by simp_all

lemma wrap_32:
  fixes s :: int
  assumes "- (2 ^ 32) \<le> s" "s < 2 ^ 32"
  shows "signed_take_bit 31 s = (if s \<ge> 2 ^ 31 then s - 2 ^ 32 else if s < - (2 ^ 31) then s + 2 ^ 32 else s)"
proof -
  have "signed_take_bit 31 s = (s + 2 ^ 31) mod 2 ^ 32 - 2 ^ 31"
    by (simp add: signed_take_bit_eq_take_bit_shift take_bit_eq_mod)
  moreover have "(s + 2 ^ 31) mod 2 ^ 32 = s - 2 ^ 31" if "s \<ge> 2 ^ 31"
    using that assms mod_add_self2 [of "s - 2 ^ 31" "2 ^ 32"] by (simp add: mod_pos_pos_trivial add.commute)
  moreover have "(s + 2 ^ 31) mod 2 ^ 32 = s + 2 ^ 31 + 2 ^ 32" if "s < - (2 ^ 31)"
    using that assms mod_add_self2 [of "s + 2 ^ 31" "2 ^ 32"] by (simp add: mod_pos_pos_trivial add.commute)
  moreover have "(s + 2 ^ 31) mod 2 ^ 32 = s + 2 ^ 31" if "\<not> s \<ge> 2 ^ 31" "\<not> s < - (2 ^ 31)"
    using that by (simp add: mod_pos_pos_trivial)
  ultimately show ?thesis by auto
qed

lemma sint_plus_minus_32:
  fixes a b :: "32 word"
  shows "sint (a + b) = signed_take_bit 31 (sint a + sint b)" "sint (a - b) = signed_take_bit 31 (sint a - sint b)"
  by (simp_all add: sint_word_ariths)

text \<open>The addition and subtraction of scores saturate: with a second operand that is not negative the result is the
  sum, but at most the largest 32-bit number, and the difference, but at least the smallest.\<close>

theorem gmm_saturates:
  assumes "0 \<le> sint b"
  shows "sint (GMMADD a b) = min (2 ^ 31 - 1) (sint a + sint b) \<and> sint (GMMSUB a b) = max (- (2 ^ 31)) (sint a - sint b)"
proof
  note r = sint_32_range [of a] sint_32_range [of b]
  have "sint (a + b) = (if sint a + sint b \<ge> 2 ^ 31 then sint a + sint b - 2 ^ 32 else sint a + sint b)"
    unfolding sint_plus_minus_32 using r assms by (subst wrap_32) auto
  then show "sint (GMMADD a b) = min (2 ^ 31 - 1) (sint a + sint b)"
    unfolding GMMADD_def using r assms by (auto simp: min_def)
  have "sint (a - b) = (if sint a - sint b < - (2 ^ 31) then sint a - sint b + 2 ^ 32 else sint a - sint b)"
    unfolding sint_plus_minus_32 using r assms by (subst wrap_32) auto
  then show "sint (GMMSUB a b) = max (- (2 ^ 31)) (sint a - sint b)"
    unfolding GMMSUB_def using r assms by (auto simp: max_def)
qed

theorem gmm_saturates_witness: "sint (GMMADD 0x7ffffff0 0x20) = 0x7fffffff \<and> sint (GMMSUB 5 7) = - 2"
  using gmm_saturates [of "0x20" "0x7ffffff0"] gmm_saturates [of 7 5] by simp

theorem base_phone_of_phone_witness:
  "bin_mdef_pid2ci \<lparr>n_ciphone = 1, n_phone = 2, n_emit_state = 3, n_ci_sen = 3, n_sen = 6, n_tmat = 1, n_sseq = 2, sil = 0,
      phone = [\<lparr>entry_ssid = 0, entry_tmat = 0, info = [1, 0, 0, 0]\<rparr>, \<lparr>entry_ssid = 1, entry_tmat = 0, info = [2, 0, 0, 0]\<rparr>],
      sseq = [], sseq_len = [], sen2cimap = []\<rparr> 1 = 0"
proof -
  let ?m = "\<lparr>n_ciphone = 1, n_phone = 2, n_emit_state = 3, n_ci_sen = 3, n_sen = 6, n_tmat = 1, n_sseq = 2, sil = 0,
      phone = [\<lparr>entry_ssid = 0, entry_tmat = 0, info = [1, 0, 0, 0]\<rparr>, \<lparr>entry_ssid = 1, entry_tmat = 0, info = [2, 0, 0, 0]\<rparr>],
      sseq = [], sseq_len = [], sen2cimap = []\<rparr>"
  have "mdef_wf ?m" by (auto simp: mdef_wf_def info_cd_ctx_def less_2_cases_iff)
  from base_phone_of_phone [OF this, of 1] show ?thesis by (simp add: bin_mdef_is_ciphone_def)
qed

text \<open>For scores below 256 and the 256 entries every table has, the fast addition never reads outside the table; it
  does not depend on the order, and its result is the smaller score less an entry of the table.\<close>

theorem fast_logmath_add_bounds:
  assumes "256 \<le> length t" "0 \<le> x" "x < 256" "0 \<le> y" "y < 256"
  shows "fast_logmath_add t x y = fast_logmath_add t y x
    \<and> (\<exists>r. fast_logmath_add t x y = Some r \<and> min x y - 255 \<le> r \<and> r \<le> min x y \<and> r = min x y - uint (t ! nat \<bar>x - y\<bar>))"
proof -
  have "uint w \<le> 255" for w :: "8 word" using uint_lt2p [of w] by simp
  then show ?thesis using assms by (auto simp: fast_logmath_add_def Let_def min_def abs_if)
qed

theorem fast_logmath_add_bounds_witness:
  "fast_logmath_add (replicate 256 3) 10 20 = Some 7"
  using fast_logmath_add_bounds [of "replicate 256 3" 10 20] by auto

text \<open>The worst score, four times, is exactly the smallest 32-bit number; scores of states and transitions are never worse than
  their worst.\<close>

lemma hmm_scores:
  shows "4 * WORST_SCORE = - (2 ^ 31)" "WORST_SCORE \<le> hmm_senscr h st" "hmm_senscr h st \<le> 32768"
    "TMAT_WORST_SCORE \<le> hmm_tprob h i j" "hmm_tprob h i j \<le> 0"
proof -
  show "4 * WORST_SCORE = - (2 ^ 31)" by (simp add: WORST_SCORE_def)
  have r: "- 32768 \<le> sint w" "sint w < 32768" for w :: "16 word" using sint_greater_eq [of w] sint_less [of w] by simp_all
  have n: "WORST_SCORE \<le> - sint w" "- sint w \<le> 32768" for w :: "16 word"
    using r [of w] unfolding WORST_SCORE_def by linarith+
  have "WORST_SCORE \<le> 32768" by (simp add: WORST_SCORE_def)
  with n show "WORST_SCORE \<le> hmm_senscr h st" "hmm_senscr h st \<le> 32768" by (simp_all add: hmm_senscr_def)
  have "uint w \<le> 255" for w :: "8 word" using uint_lt2p [of w] by simp
  then show "TMAT_WORST_SCORE \<le> hmm_tprob h i j" "hmm_tprob h i j \<le> 0"
    by (simp_all add: hmm_tprob_def TMAT_WORST_SCORE_def)
qed

section \<open>Words of the dictionary\<close>

text \<open>What dict.h says of words: a filler word is one in the range of the filler dictionary other than the start and finish word;
  a real word is neither a filler nor one of these two.\<close>

definition dict_filler_word :: "dict \<Rightarrow> int \<Rightarrow> bool" where
  "dict_filler_word d w \<longleftrightarrow> filler_start d \<le> w \<and> w \<le> filler_end d \<and> w \<noteq> startwid d \<and> w \<noteq> finishwid d"

definition dict_real_word :: "dict \<Rightarrow> int \<Rightarrow> bool" where
  "dict_real_word d w \<longleftrightarrow> \<not> dict_filler_word d w \<and> w \<noteq> startwid d \<and> w \<noteq> finishwid d"

definition dict_wf :: "dict \<Rightarrow> bool" where
  "dict_wf d \<longleftrightarrow> 0 \<le> filler_start d \<and> filler_start d \<le> filler_end d \<and> filler_end d < n_word d
     \<and> startwid d \<in> {0..<n_word d} \<and> finishwid d \<in> {0..<n_word d} \<and> startwid d \<noteq> finishwid d"

text \<open>How many of the start and the finish word are in the range of the fillers.\<close>

definition marks_in_range :: "dict \<Rightarrow> int" where
  "marks_in_range d = (if startwid d \<in> {filler_start d..filler_end d} then 1 else 0)
     + (if finishwid d \<in> {filler_start d..filler_end d} then 1 else 0)"

lemma filler_count:
  assumes "dict_wf d"
  shows "int (card {w \<in> {0..<n_word d}. dict_filler_word d w}) = filler_end d - filler_start d + 1 - marks_in_range d"
proof -
  have "{w \<in> {0..<n_word d}. dict_filler_word d w} = {filler_start d..filler_end d} - {startwid d, finishwid d}"
    using assms by (auto simp: dict_filler_word_def dict_wf_def)
  moreover have "card ({filler_start d..filler_end d} - {startwid d, finishwid d})
      = card {filler_start d..filler_end d} - card ({filler_start d..filler_end d} \<inter> {startwid d, finishwid d})"
    by (rule card_Diff_subset_Int) simp
  moreover have "int (card ({filler_start d..filler_end d} \<inter> {startwid d, finishwid d})) = marks_in_range d"
    using assms by (auto simp: marks_in_range_def dict_wf_def)
  moreover have "card ({filler_start d..filler_end d} \<inter> {startwid d, finishwid d}) \<le> card {filler_start d..filler_end d}"
    by (rule card_mono) auto
  ultimately show ?thesis using assms by (simp add: dict_wf_def of_nat_diff)
qed

lemma real_count:
  assumes "dict_wf d"
  shows "int (card {w \<in> {0..<n_word d}. dict_real_word d w})
    = n_word d - 2 - int (card {w \<in> {0..<n_word d}. dict_filler_word d w})"
proof -
  let ?F = "{w \<in> {0..<n_word d}. dict_filler_word d w}"
  have "{w \<in> {0..<n_word d}. dict_real_word d w} = {0..<n_word d} - (?F \<union> {startwid d, finishwid d})"
    by (auto simp: dict_real_word_def)
  moreover have "finite ?F" by (rule finite_subset [of _ "{0..<n_word d}"]) auto
  moreover have "?F \<inter> {startwid d, finishwid d} = {}" by (auto simp: dict_filler_word_def)
  then have "card (?F \<union> {startwid d, finishwid d}) = card ?F + 2"
    using assms \<open>finite ?F\<close> by (subst card_Un_disjoint) (auto simp: dict_wf_def)
  moreover have "?F \<union> {startwid d, finishwid d} \<subseteq> {0..<n_word d}" using assms by (auto simp: dict_wf_def)
  moreover from this have "card (?F \<union> {startwid d, finishwid d}) \<le> card {0..<n_word d}" by (rule card_mono [rotated]) simp
  ultimately show ?thesis using assms by (simp add: card_Diff_subset finite_subset of_nat_diff dict_wf_def)
qed

text \<open>The macros count right exactly if one of the start and the finish word, and not the other, is among the fillers:
  with both they count a filler too many and a real word too few, with neither the other way round.\<close>

theorem dict_counts:
  assumes "dict_wf d"
  shows "dict_num_fillers d = int (card {w \<in> {0..<n_word d}. dict_filler_word d w}) + (marks_in_range d - 1)
    \<and> dict_num_real_words d = int (card {w \<in> {0..<n_word d}. dict_real_word d w}) - (marks_in_range d - 1)"
  unfolding real_count [OF assms] filler_count [OF assms]
  by (simp add: dict_num_fillers_def dict_num_real_words_def dict_size_def dict_filler_start_def dict_filler_end_def)

theorem dict_counts_witness:
  "dict_num_real_words \<lparr>dict_words = [], n_word = 10, filler_start = 7, filler_end = 9, startwid = 7, finishwid = 8, silwid = 9\<rparr> = 6"
proof -
  let ?d = "\<lparr>dict_words = [], n_word = 10, filler_start = 7, filler_end = 9, startwid = 7, finishwid = 8, silwid = 9\<rparr>"
  have "dict_wf ?d" by (simp add: dict_wf_def)
  moreover have "marks_in_range ?d = 2" by (simp add: marks_in_range_def)
  moreover have "{w \<in> {0..<n_word ?d}. dict_real_word ?d w} = {0..<7}" by (auto simp: dict_real_word_def dict_filler_word_def)
  ultimately show ?thesis using dict_counts [of ?d] by simp
qed

section \<open>Contexts as sets\<close>

definition context_set :: "fsg_pnode_ctxt \<Rightarrow> nat set" where
  "context_set bv = {c. c div 32 < length bv \<and> bit (bv ! (c div 32)) (c mod 32)}"

lemma context_set_add:
  assumes "c div 32 < length bv"
  shows "context_set (fsg_pnode_add_ctxt bv c) = insert c (context_set bv)"
proof -
  have "e = c" if "e div 32 = c div 32" "e mod 32 = c mod 32" for e :: nat
    using that by (metis div_mult_mod_eq)
  then show ?thesis
    using assms by (auto simp: context_set_def fsg_pnode_add_ctxt_def bit_simps nth_list_update split: if_splits)
qed

lemma word_bit_ex: "w \<noteq> 0 \<longleftrightarrow> (\<exists>n < 32. bit w n)" for w :: "32 word"
proof -
  have "w = 0" if "\<forall>n < 32. \<not> bit w n" by (rule bit_word_eqI) (use that in simp)
  then show ?thesis by auto
qed

lemma context_bit:
  "length bv = 4 \<Longrightarrow> c \<in> context_set bv \<longleftrightarrow> (\<exists>i < 4. c div 32 = i \<and> bit (bv ! i) (c mod 32))"
  by (auto simp: context_set_def)

lemma sub_4_set:
  assumes "length src = 4" "length sub = 4"
  shows "context_set (fst (FSG_PNODE_CTXT_SUB_4 src sub)) = context_set src - context_set sub"
proof -
  let ?r = "fst (FSG_PNODE_CTXT_SUB_4 src sub)"
  have len: "length ?r = 4" using assms by (simp add: FSG_PNODE_CTXT_SUB_4_def Let_def)
  have "bit (?r ! i) n = (bit (src ! i) n \<and> \<not> bit (sub ! i) n)" if "i < 4" "n < 32" for i n
  proof -
    from that consider "i = 0" | "i = 1" | "i = 2" | "i = 3" by fastforce
    then show ?thesis
      using assms that(2) by cases (auto simp: FSG_PNODE_CTXT_SUB_4_def Let_def bit_simps)
  qed
  then show ?thesis using assms len by (auto simp: context_bit)
qed

lemma sub_4_result:
  assumes "length src = 4" "length sub = 4"
  shows "snd (FSG_PNODE_CTXT_SUB_4 src sub) \<noteq> 0 \<longleftrightarrow> context_set src - context_set sub \<noteq> {}"
proof -
  have "bit (snd (FSG_PNODE_CTXT_SUB_4 src sub)) n \<longleftrightarrow> (\<exists>i < 4. bit (src ! i) n \<and> \<not> bit (sub ! i) n)" if "n < 32" for n
  proof -
    have ex4: "(\<exists>i < 4. P i) \<longleftrightarrow> P 0 \<or> P 1 \<or> P 2 \<or> P 3" for P :: "nat \<Rightarrow> bool"
      by (auto simp: numeral_eq_Suc less_Suc_eq)
    show ?thesis unfolding ex4 using that by (auto simp: FSG_PNODE_CTXT_SUB_4_def Let_def bit_simps)
  qed
  then have "snd (FSG_PNODE_CTXT_SUB_4 src sub) \<noteq> 0 \<longleftrightarrow> (\<exists>n < 32. \<exists>i < 4. bit (src ! i) n \<and> \<not> bit (sub ! i) n)"
    unfolding word_bit_ex by blast
  also have "\<dots> \<longleftrightarrow> (\<exists>c. c div 32 < 4 \<and> bit (src ! (c div 32)) (c mod 32) \<and> \<not> bit (sub ! (c div 32)) (c mod 32))"
  proof (intro iffI; elim exE conjE)
    fix n i :: nat
    assume "n < 32" "i < 4" "bit (src ! i) n" "\<not> bit (sub ! i) n"
    then have "(32 * i + n) div 32 = i" "(32 * i + n) mod 32 = n" by simp_all
    with \<open>i < 4\<close> \<open>bit (src ! i) n\<close> \<open>\<not> bit (sub ! i) n\<close>
    show "\<exists>c. c div 32 < 4 \<and> bit (src ! (c div 32)) (c mod 32) \<and> \<not> bit (sub ! (c div 32)) (c mod 32)" by metis
  next
    fix c :: nat
    assume "c div 32 < 4" "bit (src ! (c div 32)) (c mod 32)" "\<not> bit (sub ! (c div 32)) (c mod 32)"
    then show "\<exists>n < 32. \<exists>i < 4. bit (src ! i) n \<and> \<not> bit (sub ! i) n"
      by (intro exI [of _ "c mod 32"] exI [of _ "c div 32"] conjI) simp_all
  qed
  also have "\<dots> \<longleftrightarrow> context_set src - context_set sub \<noteq> {}" using assms by (auto simp: context_set_def)
  finally show ?thesis .
qed

text \<open>C28. The bit vectors of a grammar node are sets of up to 128 context phones: adding a context inserts it, the
  subtraction leaves the difference of the sets, and its result is not 0 exactly if something is left.\<close>

theorem contexts_refine_sets:
  assumes "length src = 4" "length sub = 4" "c < 128"
  shows "context_set (fsg_pnode_add_ctxt src c) = insert c (context_set src)
    \<and> context_set (fst (FSG_PNODE_CTXT_SUB_4 src sub)) = context_set src - context_set sub
    \<and> (snd (FSG_PNODE_CTXT_SUB_4 src sub) \<noteq> 0 \<longleftrightarrow> context_set src - context_set sub \<noteq> {})"
  using context_set_add [of c src] sub_4_set [OF assms(1,2)] sub_4_result [OF assms(1,2)] assms by simp

theorem contexts_refine_sets_witness:
  "snd (FSG_PNODE_CTXT_SUB_4 [1, 0, 0, 2] [1, 0, 0, 3]) = 0"
  using contexts_refine_sets [of "[1, 0, 0, 2]" "[1, 0, 0, 3]" 0]
  by (simp add: FSG_PNODE_CTXT_SUB_4_def)

end
