(* ===== verification/StringTail.thy ===== *)
theory StringTail
  imports Main "HOL-Library.Word"
begin

text \<open>
  \<open>skip_trailing_space\<close> of m\_string.h: the end of a string without its trailing spaces, found a machine word at a
  time.  Memory is a function from addresses to bytes; \<^term>\<open>None\<close> is an address that may not be read.  A word may
  only be read where it is aligned.  Addresses are natural numbers: a string does not wrap around the address space.
  The size of an \<open>int\<close> is an argument, 4 or 8, and so is whether the build has assertions (\<open>DBUG_OFF\<close> is not
  defined): \<^term>\<open>None\<close> is also a run that a failed assertion ends.
\<close>

section \<open>Memory\<close>

type_synonym memory = "nat \<Rightarrow> 8 word option"

text \<open>The byte and the word before a pointer, \<open>end[-1]\<close> and \<open>((unsigned *)end)[-1]\<close>.\<close>

definition byteBefore :: "memory \<Rightarrow> nat \<Rightarrow> 8 word option" where
  "byteBefore mem e = (if e = 0 then None else mem (e - 1))"

fun bytesAt :: "memory \<Rightarrow> nat \<Rightarrow> nat \<Rightarrow> 8 word list option" where
  "bytesAt mem a 0 = Some []"
| "bytesAt mem a (Suc n) =
     (case mem a of None \<Rightarrow> None
      | Some b \<Rightarrow> (case bytesAt mem (a + 1) n of None \<Rightarrow> None | Some bs \<Rightarrow> Some (b # bs)))"

fun number :: "8 word list \<Rightarrow> nat" where
  "number [] = 0"
| "number (b # bs) = unat b + 256 * number bs"

definition wordBefore :: "nat \<Rightarrow> memory \<Rightarrow> nat \<Rightarrow> nat option" where
  "wordBefore sz mem e =
     (if e < sz \<or> e mod sz \<noteq> 0 then None else map_option number (bytesAt mem (e - sz) sz))"

section \<open>skip\_trailing\_space\<close>

definition SPACE_INT :: "nat \<Rightarrow> nat" where
  "SPACE_INT sz = (if sz = 4 then 0x20202020 else 0x2020202020202020)"

text \<open>\<open>while (end > low && end[-1] == 0x20) end--;\<close>\<close>

fun byteLoop :: "memory \<Rightarrow> nat \<Rightarrow> nat \<Rightarrow> nat option" where
  "byteLoop mem low e =
     (if e > low then
        case byteBefore mem e of
          None \<Rightarrow> None
        | Some b \<Rightarrow> if b = 0x20 then byteLoop mem low (e - 1) else Some e
      else Some e)"

declare byteLoop.simps [simp del]

text \<open>\<open>while (end > start_words && ((unsigned *)end)[-1] == SPACE_INT) end -= SIZEOF_INT;\<close>  An \<open>int\<close> has
  at least one byte.\<close>

function wordLoop :: "nat \<Rightarrow> memory \<Rightarrow> nat \<Rightarrow> nat \<Rightarrow> nat option" where
  "wordLoop sz mem start_words e =
     (if e > start_words then
        case wordBefore sz mem e of
          None \<Rightarrow> None
        | Some w \<Rightarrow> if w = SPACE_INT sz \<and> sz > 0 then wordLoop sz mem start_words (e - sz) else Some e
      else Some e)"
  by pat_completeness auto
termination by (relation "measure (\<lambda>(sz, mem, low, e). e)") auto

declare wordLoop.simps [simp del]

definition skip_trailing_space :: "bool \<Rightarrow> nat \<Rightarrow> memory \<Rightarrow> nat \<Rightarrow> nat \<Rightarrow> nat option" where
  "skip_trailing_space dbug sz mem ptr len =
     (let end0 = ptr + len;
          words =
            (if len > 20 then
               let end_words = end0 div sz * sz;
                   start_words = (ptr + sz - 1) div sz * sz
               in if dbug \<and> \<not> ptr \<ge> sz then None
                  else if end_words > ptr then
                    case byteLoop mem end_words end0 of
                      None \<Rightarrow> None
                    | Some e \<Rightarrow>
                        (case byteBefore mem e of
                           None \<Rightarrow> None
                         | Some b \<Rightarrow> if b = 0x20 \<and> start_words < end_words then wordLoop sz mem start_words e else Some e)
                  else Some end0
             else Some end0)
      in case words of None \<Rightarrow> None | Some e \<Rightarrow> byteLoop mem ptr e)"

section \<open>A string in memory\<close>

text \<open>Only the bytes of the string may be read.\<close>

definition stored :: "nat \<Rightarrow> 8 word list \<Rightarrow> memory" where
  "stored ptr s a = (if ptr \<le> a \<and> a < ptr + length s then Some (s ! (a - ptr)) else None)"

text \<open>The string without its trailing spaces.\<close>

definition rstrip :: "8 word list \<Rightarrow> 8 word list" where
  "rstrip s = rev (dropWhile (\<lambda>b. b = 0x20) (rev s))"

text \<open>From \<open>e\<close> on there are only spaces.\<close>

definition blank_from :: "nat \<Rightarrow> 8 word list \<Rightarrow> nat \<Rightarrow> bool" where
  "blank_from ptr s e \<longleftrightarrow> (\<forall>a. e \<le> a \<and> a < ptr + length s \<longrightarrow> s ! (a - ptr) = 0x20)"

lemma byteBefore_stored:
  "ptr < e \<Longrightarrow> e \<le> ptr + length s \<Longrightarrow> byteBefore (stored ptr s) e = Some (s ! (e - 1 - ptr))"
  by (auto simp: byteBefore_def stored_def)

lemma blank_from_end: "blank_from ptr s (ptr + length s)"
  unfolding blank_from_def by (meson not_le)

lemma blank_from_back:
  assumes "blank_from ptr s e" and "\<And>a. e' \<le> a \<Longrightarrow> a < e \<Longrightarrow> s ! (a - ptr) = 0x20"
  shows "blank_from ptr s e'"
  using assms unfolding blank_from_def by (meson not_le)

lemma byteLoop_stored:
  assumes "ptr \<le> low" "low \<le> e" "e \<le> ptr + length s" "blank_from ptr s e"
  shows "\<exists>e'. byteLoop (stored ptr s) low e = Some e' \<and> low \<le> e' \<and> e' \<le> e \<and> blank_from ptr s e'
    \<and> (low < e' \<longrightarrow> s ! (e' - 1 - ptr) \<noteq> 0x20)"
  using assms(2-)
proof (induction e)
  case 0
  then show ?case by (simp add: byteLoop.simps [of _ _ 0])
next
  case (Suc e)
  show ?case
  proof (cases "low = Suc e")
    case True
    then show ?thesis using Suc.prems by (simp add: byteLoop.simps [of _ _ "Suc e"])
  next
    case False
    with Suc.prems(1) have le: "low \<le> e" by simp
    have b: "byteBefore (stored ptr s) (Suc e) = Some (s ! (e - ptr))"
      using byteBefore_stored [of ptr "Suc e" s] assms(1) le Suc.prems(2) by simp
    show ?thesis
    proof (cases "s ! (e - ptr) = 0x20")
      case True
      have "blank_from ptr s e" by (rule blank_from_back [OF Suc.prems(3)]) (use True in \<open>auto simp: less_Suc_eq\<close>)
      from Suc.IH [OF le _ this] Suc.prems(2) obtain e' where
        "byteLoop (stored ptr s) low e = Some e'" "low \<le> e'" "e' \<le> e" "blank_from ptr s e'"
        "low < e' \<longrightarrow> s ! (e' - 1 - ptr) \<noteq> 0x20" by auto
      with b True le show ?thesis by (auto simp: byteLoop.simps [of _ _ "Suc e"])
    next
      case False
      with b le Suc.prems show ?thesis by (auto simp: byteLoop.simps [of _ _ "Suc e"])
    qed
  qed
qed

section \<open>Words\<close>

lemma number_inject: "length as = length bs \<Longrightarrow> number as = number bs \<Longrightarrow> as = bs"
proof (induction as bs rule: list_induct2)
  case (Cons a as b bs)
  have lt: "unat x < 256" for x :: "8 word" using unsigned_less [of x] by simp
  from Cons.prems have eq: "unat a + 256 * number as = unat b + 256 * number bs" by simp
  then have "(unat a + 256 * number as) mod 256 = (unat b + 256 * number bs) mod 256" by simp
  then have "unat a = unat b" using lt [of a] lt [of b] by simp
  with eq Cons.IH show ?case by (auto simp: word_unat_eq_iff)
qed simp

lemma SPACE_INT_number: "sz = 4 \<or> sz = 8 \<Longrightarrow> SPACE_INT sz = number (replicate sz 0x20)"
proof -
  have "number (replicate (Suc (Suc (Suc (Suc 0)))) 0x20) = 0x20202020"
    "number (replicate (Suc (Suc (Suc (Suc (Suc (Suc (Suc (Suc 0)))))))) 0x20) = 0x2020202020202020" by simp_all
  moreover have "Suc (Suc (Suc (Suc 0))) = 4" "Suc (Suc (Suc (Suc (Suc (Suc (Suc (Suc 0))))))) = 8" by simp_all
  ultimately show "sz = 4 \<or> sz = 8 \<Longrightarrow> SPACE_INT sz = number (replicate sz 0x20)" by (auto simp: SPACE_INT_def)
qed

lemma bytesAt_stored:
  "ptr \<le> a \<Longrightarrow> a + n \<le> ptr + length s \<Longrightarrow> bytesAt (stored ptr s) a n = Some (take n (drop (a - ptr) s))"
proof (induction n arbitrary: a)
  case (Suc n)
  have "bytesAt (stored ptr s) (Suc a) n = Some (take n (drop (Suc a - ptr) s))" using Suc.prems by (intro Suc.IH) auto
  moreover have "stored ptr s a = Some (s ! (a - ptr))" using Suc.prems by (simp add: stored_def)
  moreover have "take (Suc n) (drop (a - ptr) s) = s ! (a - ptr) # take n (drop (Suc a - ptr) s)"
    using Suc.prems by (simp add: Cons_nth_drop_Suc [symmetric] Suc_diff_le)
  ultimately show ?case by simp
qed simp

lemma wordBefore_stored:
  assumes "sz = 4 \<or> sz = 8" and "ptr + sz \<le> e" "e \<le> ptr + length s" "sz dvd e"
  shows "\<exists>w. wordBefore sz (stored ptr s) e = Some w
    \<and> (w = SPACE_INT sz \<longleftrightarrow> (\<forall>a. e - sz \<le> a \<and> a < e \<longrightarrow> s ! (a - ptr) = 0x20))"
proof -
  let ?bs = "take sz (drop (e - sz - ptr) s)"
  have len: "length ?bs = sz" using assms by auto
  have "wordBefore sz (stored ptr s) e = Some (number ?bs)"
    using assms bytesAt_stored [of ptr "e - sz" sz s] by (auto simp: wordBefore_def)
  moreover have "number ?bs = SPACE_INT sz \<longleftrightarrow> ?bs = replicate sz 0x20"
    unfolding SPACE_INT_number [OF assms(1)] using number_inject [of ?bs "replicate sz 0x20"] len by auto
  moreover have "?bs = replicate sz 0x20 \<longleftrightarrow> (\<forall>i < sz. s ! (e - sz - ptr + i) = 0x20)"
    using len assms by (auto simp: list_eq_iff_nth_eq)
  moreover have "\<dots> \<longleftrightarrow> (\<forall>a. e - sz \<le> a \<and> a < e \<longrightarrow> s ! (a - ptr) = 0x20)"
  proof (intro iffI allI impI)
    fix a assume *: "\<forall>i < sz. s ! (e - sz - ptr + i) = 0x20" and a: "e - sz \<le> a \<and> a < e"
    then have "e - sz - ptr + (a - (e - sz)) = a - ptr" "a - (e - sz) < sz" using assms(2) by auto
    with * show "s ! (a - ptr) = 0x20" by metis
  next
    fix i assume *: "\<forall>a. e - sz \<le> a \<and> a < e \<longrightarrow> s ! (a - ptr) = 0x20" and i: "i < sz"
    then have "e - sz - ptr + i = (e - sz + i) - ptr" "e - sz \<le> e - sz + i" "e - sz + i < e" using assms(2) by auto
    with * show "s ! (e - sz - ptr + i) = 0x20" by metis
  qed
  ultimately show ?thesis by blast
qed

lemma wordLoop_stored:
  assumes "sz = 4 \<or> sz = 8" and "ptr \<le> low" "sz dvd low"
    and "low \<le> e" "e \<le> ptr + length s" "sz dvd e" "blank_from ptr s e"
  shows "\<exists>e'. wordLoop sz (stored ptr s) low e = Some e' \<and> low \<le> e' \<and> e' \<le> e \<and> blank_from ptr s e'"
  using assms(4-)
proof (induction e rule: less_induct)
  case (less e)
  show ?case
  proof (cases "low = e")
    case True
    then show ?thesis using less.prems by (simp add: wordLoop.simps [of _ _ _ e])
  next
    case False
    with less.prems(1) have "low < e" by simp
    then have room: "low + sz \<le> e"
      using assms(3) less.prems(3) by (metis add.commute dvd_diff_nat dvd_imp_le le_diff_conv2 less_imp_le zero_less_diff)
    from wordBefore_stored [OF assms(1) _ less.prems(2,3)] room assms(2) obtain w where
      w: "wordBefore sz (stored ptr s) e = Some w"
      and sp: "w = SPACE_INT sz \<longleftrightarrow> (\<forall>a. e - sz \<le> a \<and> a < e \<longrightarrow> s ! (a - ptr) = 0x20)" by auto
    show ?thesis
    proof (cases "w = SPACE_INT sz")
      case True
      have "blank_from ptr s (e - sz)" by (rule blank_from_back [OF less.prems(4)]) (use True sp in auto)
      moreover have "sz dvd e - sz" using less.prems(3) by (simp add: dvd_diff_nat)
      moreover have "low \<le> e - sz" "e - sz \<le> ptr + length s" "e - sz < e" using room assms(1) less.prems(2) by auto
      ultimately obtain e' where "wordLoop sz (stored ptr s) low (e - sz) = Some e'" "low \<le> e'" "e' \<le> e - sz"
        "blank_from ptr s e'"
        using less.IH [of "e - sz"] by blast
      then show ?thesis using w True \<open>low < e\<close> assms(1) by (auto simp: wordLoop.simps [of _ _ _ e])
    next
      case False
      then show ?thesis using w \<open>low < e\<close> less.prems by (auto simp: wordLoop.simps [of _ _ _ e])
    qed
  qed
qed

section \<open>The whole function\<close>

lemma rstrip_length:
  assumes "ptr \<le> e" "e \<le> ptr + length s" "blank_from ptr s e" "ptr < e \<longrightarrow> s ! (e - 1 - ptr) \<noteq> 0x20"
  shows "e = ptr + length (rstrip s)"
proof -
  let ?n = "e - ptr"
  have "\<forall>i < length s - ?n. s ! (?n + i) = 0x20"
  proof (intro allI impI)
    fix i assume "i < length s - ?n"
    then have "e \<le> e + i \<and> e + i < ptr + length s" using assms(1,2) by auto
    then have "s ! (e + i - ptr) = 0x20" using assms(3) unfolding blank_from_def by blast
    then show "s ! (?n + i) = 0x20" using assms(1) by simp
  qed
  then have "drop ?n s = replicate (length s - ?n) 0x20"
    by (intro nth_equalityI) auto
  then have s: "s = take ?n s @ replicate (length s - ?n) 0x20" by (metis append_take_drop_id)
  have "rstrip s = take ?n s"
  proof (cases "?n = 0")
    case True
    with s have "s = replicate (length s) 0x20" by simp
    then have "rev s = replicate (length s) 0x20" by (metis rev_replicate)
    then show ?thesis using True by (simp add: rstrip_def dropWhile_replicate)
  next
    case False
    then obtain m where m: "?n = Suc m" using not0_implies_Suc by blast
    then have "e - 1 - ptr = m" "ptr < e" by auto
    with assms(4) have last: "s ! m \<noteq> 0x20" by simp
    have "m < length s" using m assms(2) by linarith
    then have "take ?n s = take m s @ [s ! m]" by (simp add: m take_Suc_conv_app_nth)
    then have "rev s = replicate (length s - ?n) 0x20 @ s ! m # rev (take m s)"
      by (subst s) simp
    then show ?thesis using last \<open>take ?n s = _\<close>
      by (simp add: rstrip_def dropWhile_append dropWhile_replicate)
  qed
  then show ?thesis using assms by simp
qed

lemma skip_trailing_space_size:
  assumes sz: "sz = 4 \<or> sz = 8" and ok: "\<not> (dbug \<and> 20 < length s \<and> ptr < sz)"
  shows "skip_trailing_space dbug sz (stored ptr s) ptr (length s) = Some (ptr + length (rstrip s))"
proof -
  let ?mem = "stored ptr s" and ?e = "ptr + length s"
  have finish: "byteLoop ?mem ptr e = Some (ptr + length (rstrip s))"
    if "ptr \<le> e" "e \<le> ?e" "blank_from ptr s e" for e
  proof -
    from byteLoop_stored [OF order_refl that] obtain e' where
      e': "byteLoop ?mem ptr e = Some e'" "ptr \<le> e'" "e' \<le> e" "blank_from ptr s e'"
        "ptr < e' \<longrightarrow> s ! (e' - 1 - ptr) \<noteq> 0x20" by blast
    then have "e' = ptr + length (rstrip s)" using that(2) by (intro rstrip_length) auto
    with e'(1) show ?thesis by simp
  qed
  let ?ew = "?e div sz * sz" and ?sw = "(ptr + sz - 1) div sz * sz"
  show ?thesis
  proof (cases "length s > 20 \<and> ?ew > ptr")
    case False
    then show ?thesis using finish [of ?e] blank_from_end [of ptr s] ok
      by (auto simp: skip_trailing_space_def Let_def)
  next
    case True
    have sw: "ptr \<le> ?sw" using sz by (elim disjE; hypsubst; presburger)
    from byteLoop_stored [of ptr ?ew ?e s] True blank_from_end obtain e where
      e: "byteLoop ?mem ?ew ?e = Some e" "?ew \<le> e" "e \<le> ?e" "blank_from ptr s e"
        "?ew < e \<longrightarrow> s ! (e - 1 - ptr) \<noteq> 0x20" by auto
    have b: "byteBefore ?mem e = Some (s ! (e - 1 - ptr))" using e True by (intro byteBefore_stored) auto
    show ?thesis
    proof (cases "s ! (e - 1 - ptr) = 0x20 \<and> ?sw < ?ew")
      case False
      have "ptr \<le> e" using e True by linarith
      then show ?thesis using True False e b finish [of e] ok by (auto simp: skip_trailing_space_def Let_def)
    next
      case words: True
      then have "e = ?ew" using e(2,5) by linarith
      then have "sz dvd e" by simp
      moreover have "?sw \<le> e" using words e(2) by linarith
      ultimately obtain e' where "wordLoop sz ?mem ?sw e = Some e'" "?sw \<le> e'" "e' \<le> e" "blank_from ptr s e'"
        using wordLoop_stored [OF sz sw _ _ e(3) _ e(4)] by (meson dvd_triv_right)
      moreover from this sw e(3) have "byteLoop ?mem ptr e' = Some (ptr + length (rstrip s))"
        by (intro finish) auto
      ultimately show ?thesis using True words e b ok by (auto simp: skip_trailing_space_def Let_def)
    qed
  qed
qed

lemma skip_trailing_space_assert:
  "dbug \<Longrightarrow> 20 < length s \<Longrightarrow> ptr < sz \<Longrightarrow> skip_trailing_space dbug sz mem ptr (length s) = None"
  by (simp add: skip_trailing_space_def Let_def)

lemma after_rstrip: "stored ptr s (ptr + length (rstrip s)) \<in> {None, Some 0x20}"
proof -
  let ?w = "rev (takeWhile (\<lambda>b. b = 0x20) (rev s))"
  have s: "s = rstrip s @ ?w"
    unfolding rstrip_def rev_append [symmetric] by simp
  have blank: "b = 0x20" if "b \<in> set ?w" for b using that by (auto dest: set_takeWhileD)
  have "s ! length (rstrip s) = 0x20" if "length (rstrip s) < length s"
  proof -
    have len: "length s = length (rstrip s) + length ?w" using arg_cong [OF s, of length] by simp
    with that have "?w ! 0 \<in> set ?w" by (intro nth_mem) linarith
    moreover have "s ! length (rstrip s) = ?w ! 0"
      using arg_cong [OF s, of "\<lambda>l. l ! length (rstrip s)"] by (simp only: nth_append less_irrefl if_False diff_self_eq_0)
    ultimately show ?thesis using blank by simp
  qed
  then show ?thesis by (auto simp: stored_def)
qed

text \<open>C14. With ints of four and of eight bytes, whatever the length of a string, the function ends, reads only bytes of
  the string and aligned words inside it, and gives the end of the string without its trailing spaces; only in a build
  with assertions a string of more than 20 bytes in the first word of the address space is refused.  The end is the
  position after the last character that is no space: the result never points to such a character of the string, which
  is what the comment of the function promises.\<close>

theorem skip_trailing_space_strips:
  "skip_trailing_space dbug 4 (stored ptr s) ptr (length s)
       = (if dbug \<and> 20 < length s \<and> ptr < 4 then None else Some (ptr + length (rstrip s)))
    \<and> skip_trailing_space dbug 8 (stored ptr s) ptr (length s)
       = (if dbug \<and> 20 < length s \<and> ptr < 8 then None else Some (ptr + length (rstrip s)))
    \<and> stored ptr s (ptr + length (rstrip s)) \<in> {None, Some 0x20}"
proof (intro conjI)
  have sized: "skip_trailing_space dbug sz (stored ptr s) ptr (length s)
      = (if dbug \<and> 20 < length s \<and> ptr < sz then None else Some (ptr + length (rstrip s)))"
    if "sz = 4 \<or> sz = 8" for sz
    using skip_trailing_space_size [OF that, of dbug s ptr] skip_trailing_space_assert [of dbug s ptr sz] by auto
  show "skip_trailing_space dbug 4 (stored ptr s) ptr (length s)
      = (if dbug \<and> 20 < length s \<and> ptr < 4 then None else Some (ptr + length (rstrip s)))" by (rule sized) simp
  show "skip_trailing_space dbug 8 (stored ptr s) ptr (length s)
      = (if dbug \<and> 20 < length s \<and> ptr < 8 then None else Some (ptr + length (rstrip s)))" by (rule sized) simp
qed (rule after_rstrip)

end
