(* ===== verification/IoCache.thy ===== *)
theory IoCache
  imports Main "HOL-Library.Word"
begin

text \<open>
  The cache of file reads and writes of my\_sys.h: the macros that serve a request from the buffer when
  they can and call the cache's read or write function when they cannot.  Those functions, \<open>_my_b_get\<close> and
  \<open>_my_b_write\<close> are library code that is only declared here: they are arguments, with what the header
  promises of them as named laws.  Pointers into a buffer are offsets.
\<close>

section \<open>IO\_CACHE\<close>

datatype cache_type = TYPE_NOT_SET | READ_CACHE | WRITE_CACHE | SEQ_READ_APPEND | READ_FIFO | READ_NET | WRITE_NET

text \<open>\<open>buffer\<close> is \<^term>\<open>None\<close> for a null pointer.  \<open>request_pos\<close> is an offset in the buffer that the type of the cache
  selects; \<open>descriptor\<close> is what stands behind the file descriptor.\<close>

record 'f IO_CACHE =
  pos_in_file :: nat
  end_of_file :: nat
  read_pos :: nat
  read_end :: nat
  buffer :: "8 word list option"
  request_pos :: nat
  write_buffer :: "8 word list"
  write_pos :: nat
  write_end :: nat
  cache_kind :: cache_type
  descriptor :: 'f

definition current_pos :: "'f IO_CACHE \<Rightarrow> nat" where
  "current_pos c = (if cache_kind c = WRITE_CACHE then write_pos c else read_pos c)"

definition current_end :: "'f IO_CACHE \<Rightarrow> nat" where
  "current_end c = (if cache_kind c = WRITE_CACHE then write_end c else read_end c)"

definition bufferBytes :: "'f IO_CACHE \<Rightarrow> 8 word list" where
  "bufferBytes c = (case buffer c of None \<Rightarrow> [] | Some b \<Rightarrow> b)"

definition my_b_clear :: "'f IO_CACHE \<Rightarrow> 'f IO_CACHE" where "my_b_clear c = c\<lparr>buffer := None\<rparr>"

definition my_b_inited :: "'f IO_CACHE \<Rightarrow> bool" where "my_b_inited c = (buffer c \<noteq> None)"

definition my_b_EOF :: int where "my_b_EOF = - 2147483648"

section \<open>Reading\<close>

text \<open>The functions give their C result, the bytes they deliver and the cache afterwards.\<close>

type_synonym 'f read_function = "'f IO_CACHE \<Rightarrow> nat \<Rightarrow> int \<times> 8 word list \<times> 'f IO_CACHE"

definition my_b_read :: "'f read_function \<Rightarrow> 'f IO_CACHE \<Rightarrow> nat \<Rightarrow> int \<times> 8 word list \<times> 'f IO_CACHE" where
  "my_b_read read_function c count =
     (if read_pos c + count \<le> read_end c
      then (0, take count (drop (read_pos c) (bufferBytes c)), c\<lparr>read_pos := read_pos c + count\<rparr>)
      else read_function c count)"

definition my_b_get :: "('f IO_CACHE \<Rightarrow> int \<times> 'f IO_CACHE) \<Rightarrow> 'f IO_CACHE \<Rightarrow> int \<times> 'f IO_CACHE" where
  "my_b_get my_b_get_slow c =
     (if read_pos c \<noteq> read_end c
      then (uint (bufferBytes c ! read_pos c), c\<lparr>read_pos := read_pos c + 1\<rparr>)
      else my_b_get_slow c)"

definition my_b_fill_cache :: "'f read_function \<Rightarrow> 'f IO_CACHE \<Rightarrow> int \<times> 8 word list \<times> 'f IO_CACHE" where
  "my_b_fill_cache read_function c = read_function (c\<lparr>read_end := read_pos c\<rparr>) 0"

definition my_b_tell :: "'f IO_CACHE \<Rightarrow> nat" where
  "my_b_tell c = pos_in_file c + (current_pos c - request_pos c)"

definition my_b_get_bytes_in_buffer :: "'f IO_CACHE \<Rightarrow> nat" where
  "my_b_get_bytes_in_buffer c = read_end c - request_pos c"

definition my_b_bytes_in_cache :: "'f IO_CACHE \<Rightarrow> nat" where
  "my_b_bytes_in_cache c = current_end c - current_pos c"

section \<open>Writing\<close>

type_synonym 'f write_function = "'f IO_CACHE \<Rightarrow> 8 word list \<Rightarrow> int \<times> 'f IO_CACHE"

text \<open>\<open>memcpy\<close> to an offset of a buffer; \<^term>\<open>None\<close> when it would leave the buffer.\<close>

definition copyTo :: "8 word list \<Rightarrow> nat \<Rightarrow> 8 word list \<Rightarrow> 8 word list option" where
  "copyTo b at bs = (if at + length bs \<le> length b then Some (take at b @ bs @ drop (at + length bs) b) else None)"

definition my_b_write :: "'f write_function \<Rightarrow> 'f IO_CACHE \<Rightarrow> 8 word list \<Rightarrow> (int \<times> 'f IO_CACHE) option" where
  "my_b_write write_function c bs =
     (if write_pos c + length bs \<le> write_end c
      then map_option (\<lambda>b. (0, c\<lparr>write_buffer := b, write_pos := write_pos c + length bs\<rparr>))
             (copyTo (write_buffer c) (write_pos c) bs)
      else Some (write_function c bs))"

text \<open>The result of \<open>_my_b_write\<close> is not looked at.\<close>

definition my_b_write_byte :: "'f write_function \<Rightarrow> 'f IO_CACHE \<Rightarrow> 8 word \<Rightarrow> 'f IO_CACHE option" where
  "my_b_write_byte my_b_write_slow c chr =
     (let c = (if write_pos c < write_end c then c else snd (my_b_write_slow c []))
      in map_option (\<lambda>b. c\<lparr>write_buffer := b, write_pos := write_pos c + 1\<rparr>)
           (copyTo (write_buffer c) (write_pos c) [chr]))"

section \<open>A read cache is a window of its file\<close>

definition window :: "8 word list \<Rightarrow> 'f IO_CACHE \<Rightarrow> bool" where
  "window contents c \<longleftrightarrow> cache_kind c = READ_CACHE \<and> request_pos c = 0
     \<and> read_pos c \<le> read_end c \<and> read_end c \<le> length (bufferBytes c)
     \<and> pos_in_file c + read_end c \<le> length contents
     \<and> take (read_end c) (bufferBytes c) = take (read_end c) (drop (pos_in_file c) contents)"

text \<open>What the header says of the read functions: they fetch the bytes that are not in the buffer.  With a request of no
  bytes, on an exhausted buffer, they only fill it.\<close>

definition fetches :: "8 word list \<Rightarrow> 'f read_function \<Rightarrow> ('f IO_CACHE \<Rightarrow> int \<times> 'f IO_CACHE) \<Rightarrow> bool" where
  "fetches contents read_function my_b_get_slow \<longleftrightarrow>
     (\<forall>c n. window contents c \<and> my_b_tell c + n \<le> length contents
            \<and> (read_end c < read_pos c + n \<or> n = 0 \<and> read_pos c = read_end c) \<longrightarrow>
        (case read_function c n of (r, bs, c') \<Rightarrow>
           r = 0 \<and> bs = take n (drop (my_b_tell c) contents) \<and> window contents c' \<and> my_b_tell c' = my_b_tell c + n))
     \<and> (\<forall>c. window contents c \<and> read_pos c = read_end c \<longrightarrow>
        (case my_b_get_slow c of (r, c') \<Rightarrow> window contents c' \<and>
           (if my_b_tell c < length contents
            then r = uint (contents ! my_b_tell c) \<and> my_b_tell c' = my_b_tell c + 1
            else r = my_b_EOF \<and> my_b_tell c' = my_b_tell c)))"

datatype read_request = Read nat | GetByte | Fill

fun demand :: "read_request \<Rightarrow> nat" where
  "demand (Read n) = n"
| "demand GetByte = 1"
| "demand Fill = 0"

text \<open>Whether the request succeeded, and the bytes it gave.\<close>

fun serve :: "'f read_function \<Rightarrow> ('f IO_CACHE \<Rightarrow> int \<times> 'f IO_CACHE) \<Rightarrow> read_request \<Rightarrow> 'f IO_CACHE
    \<Rightarrow> bool \<times> 8 word list \<times> 'f IO_CACHE" where
  "serve rd gt (Read n) c = (case my_b_read rd c n of (r, bs, c') \<Rightarrow> (r = 0, bs, c'))"
| "serve rd gt GetByte c = (case my_b_get gt c of (r, c') \<Rightarrow> (r \<noteq> my_b_EOF, [word_of_int r], c'))"
| "serve rd gt Fill c = (case my_b_fill_cache rd c of (r, bs, c') \<Rightarrow> (r = 0, bs, c'))"

fun serveAll :: "'f read_function \<Rightarrow> ('f IO_CACHE \<Rightarrow> int \<times> 'f IO_CACHE) \<Rightarrow> read_request list \<Rightarrow> 'f IO_CACHE
    \<Rightarrow> bool \<times> 8 word list \<times> 'f IO_CACHE" where
  "serveAll rd gt [] c = (True, [], c)"
| "serveAll rd gt (q # qs) c =
     (case serve rd gt q c of (ok, bs, c1) \<Rightarrow>
        (case serveAll rd gt qs c1 of (oks, cs, c2) \<Rightarrow> (ok \<and> oks, bs @ cs, c2)))"

lemma tell_window: "window contents c \<Longrightarrow> my_b_tell c = pos_in_file c + read_pos c"
  by (simp add: window_def my_b_tell_def current_pos_def)

lemma window_bytes:
  assumes "window contents c" "read_pos c + n \<le> read_end c"
  shows "take n (drop (read_pos c) (bufferBytes c)) = take n (drop (my_b_tell c) contents)"
proof -
  have "take n (drop (read_pos c) (bufferBytes c)) = take n (drop (read_pos c) (take (read_end c) (bufferBytes c)))"
    using assms(2) by (simp add: drop_take min_def)
  also have "\<dots> = take n (drop (read_pos c) (take (read_end c) (drop (pos_in_file c) contents)))"
    using assms(1) by (simp add: window_def)
  also have "\<dots> = take n (drop (my_b_tell c) contents)"
    using assms by (simp add: tell_window drop_take min_def add.commute)
  finally show ?thesis .
qed

lemma window_forward:
  "window contents c \<Longrightarrow> read_pos c + n \<le> read_end c \<Longrightarrow> window contents (c\<lparr>read_pos := read_pos c + n\<rparr>)"
  by (simp add: window_def bufferBytes_def)

lemma window_exhausted: "window contents c \<Longrightarrow> window contents (c\<lparr>read_end := read_pos c\<rparr>)"
proof -
  assume w: "window contents c"
  then have e: "take (read_end c) (bufferBytes c) = take (read_end c) (drop (pos_in_file c) contents)"
    and le: "read_pos c \<le> read_end c" by (simp_all add: window_def)
  have "take (read_pos c) (bufferBytes c) = take (read_pos c) (take (read_end c) (bufferBytes c))"
    using le by (simp add: min_def)
  also have "\<dots> = take (read_pos c) (drop (pos_in_file c) contents)" unfolding e using le by (simp add: min_def)
  finally show "window contents (c\<lparr>read_end := read_pos c\<rparr>)" using w le by (auto simp: window_def bufferBytes_def)
qed

lemma my_b_EOF_no_byte: "uint b \<noteq> my_b_EOF"
  "my_b_EOF \<noteq> uint b" for b :: "8 word"
  using uint_ge_0 [of b] unfolding my_b_EOF_def by linarith+

lemma fetches_readD:
  assumes "fetches contents rd gt" "window contents c" "my_b_tell c + n \<le> length contents"
    and "read_end c < read_pos c + n \<or> n = 0 \<and> read_pos c = read_end c"
  shows "\<exists>c'. rd c n = (0, take n (drop (my_b_tell c) contents), c') \<and> window contents c' \<and> my_b_tell c' = my_b_tell c + n"
  using assms(1) [unfolded fetches_def, THEN conjunct1, rule_format, of c n] assms(2-4) by (auto split: prod.splits)

lemma fetches_getD:
  assumes "fetches contents rd gt" "window contents c" "read_pos c = read_end c" "my_b_tell c < length contents"
  shows "\<exists>c'. gt c = (uint (contents ! my_b_tell c), c') \<and> window contents c' \<and> my_b_tell c' = my_b_tell c + 1"
  using assms(1) [unfolded fetches_def, THEN conjunct2, rule_format, of c] assms(2-4) by (auto split: prod.splits)

lemma serve_ok:
  assumes law: "fetches contents rd gt" and c: "window contents c"
    and room: "my_b_tell c + demand q \<le> length contents"
  shows "\<exists>c'. serve rd gt q c = (True, take (demand q) (drop (my_b_tell c) contents), c')
    \<and> window contents c' \<and> my_b_tell c' = my_b_tell c + demand q"
proof (cases q)
  case (Read n)
  show ?thesis
  proof (cases "read_pos c + n \<le> read_end c")
    case True
    then show ?thesis
      using Read window_bytes [OF c True] window_forward [OF c True] tell_window [OF c]
      by (auto simp: my_b_read_def tell_window)
  next
    case False
    with fetches_readD [OF law c, of n] room Read show ?thesis by (auto simp: my_b_read_def)
  qed
next
  case GetByte
  have one: "take 1 (drop (my_b_tell c) contents) = [contents ! my_b_tell c]"
    using room GetByte by (simp add: take_Suc_conv_app_nth)
  show ?thesis
  proof (cases "read_pos c = read_end c")
    case True
    with fetches_getD [OF law c True] room GetByte one show ?thesis
      by (auto simp: my_b_get_def my_b_EOF_no_byte split: prod.splits)
  next
    case False
    with c have le: "read_pos c + 1 \<le> read_end c" by (simp add: window_def)
    then have "read_pos c < length (bufferBytes c)" using c by (simp add: window_def)
    then have "[bufferBytes c ! read_pos c] = [contents ! my_b_tell c]"
      using window_bytes [OF c le] one by (simp add: take_Suc_conv_app_nth)
    then show ?thesis
      using False GetByte one window_forward [OF c le] tell_window [OF c]
      by (auto simp: my_b_get_def my_b_EOF_no_byte tell_window)
  qed
next
  case Fill
  have w: "window contents (c\<lparr>read_end := read_pos c\<rparr>)" using c by (rule window_exhausted)
  have t: "my_b_tell (c\<lparr>read_end := read_pos c\<rparr>) = my_b_tell c" by (simp add: my_b_tell_def current_pos_def)
  from fetches_readD [OF law w, of 0] t room Fill show ?thesis by (auto simp: my_b_fill_cache_def)
qed

lemma serveAll_ok:
  assumes law: "fetches contents rd gt"
  shows "window contents c \<Longrightarrow> my_b_tell c + sum_list (map demand qs) \<le> length contents \<Longrightarrow>
    \<exists>c'. serveAll rd gt qs c = (True, take (sum_list (map demand qs)) (drop (my_b_tell c) contents), c')
      \<and> window contents c' \<and> my_b_tell c' = my_b_tell c + sum_list (map demand qs)"
proof (induction qs arbitrary: c)
  case (Cons q qs)
  from Cons.prems serve_ok [OF law, of c q] obtain c1 where
    1: "serve rd gt q c = (True, take (demand q) (drop (my_b_tell c) contents), c1)"
       "window contents c1" "my_b_tell c1 = my_b_tell c + demand q" by auto
  with Cons.prems Cons.IH [of c1] obtain c2 where
    2: "serveAll rd gt qs c1 = (True, take (sum_list (map demand qs)) (drop (my_b_tell c1) contents), c2)"
       "window contents c2" "my_b_tell c2 = my_b_tell c1 + sum_list (map demand qs)" by (auto simp: add.assoc)
  show ?case using 1 2 by (auto simp: take_add add.commute add.left_commute)
qed simp

text \<open>C23. Reading through the cache is reading the file: whatever mixture of block reads, single bytes and fills a program
  asks for, as long as the file has that many bytes left, every request succeeds, the bytes are those of the
  file from the current position, and the position moves on by their number.\<close>

theorem cache_reads_file:
  assumes "fetches contents rd gt" and "window contents c"
    and "my_b_tell c + sum_list (map demand qs) \<le> length contents"
  shows "\<exists>c'. serveAll rd gt qs c = (True, take (sum_list (map demand qs)) (drop (my_b_tell c) contents), c')
    \<and> window contents c' \<and> my_b_tell c' = my_b_tell c + sum_list (map demand qs)"
  using assms by (rule serveAll_ok)

text \<open>A read function that reads four bytes ahead.\<close>

definition ahead :: "8 word list \<Rightarrow> 'f IO_CACHE \<Rightarrow> nat \<Rightarrow> 'f IO_CACHE" where
  "ahead contents c t =
     (let b = take 4 (drop t contents)
      in c\<lparr>pos_in_file := t, buffer := Some b, read_pos := 0, read_end := length b\<rparr>)"

definition aheadRead :: "8 word list \<Rightarrow> 'f read_function" where
  "aheadRead contents c n = (0, take n (drop (my_b_tell c) contents), ahead contents c (my_b_tell c + n))"

definition aheadGet :: "8 word list \<Rightarrow> 'f IO_CACHE \<Rightarrow> int \<times> 'f IO_CACHE" where
  "aheadGet contents c =
     (if my_b_tell c < length contents
      then (uint (contents ! my_b_tell c), ahead contents c (my_b_tell c + 1)) else (my_b_EOF, c))"

definition newReader :: "8 word list \<Rightarrow> 8 word list IO_CACHE" where
  "newReader contents = ahead contents
     \<lparr>pos_in_file = 0, end_of_file = length contents, read_pos = 0, read_end = 0, buffer = None, request_pos = 0,
      write_buffer = [], write_pos = 0, write_end = 0, cache_kind = READ_CACHE, descriptor = contents\<rparr> 0"

lemma ahead_window:
  "cache_kind c = READ_CACHE \<Longrightarrow> request_pos c = 0 \<Longrightarrow> t \<le> length contents \<Longrightarrow> window contents (ahead contents c t)"
  "cache_kind c = READ_CACHE \<Longrightarrow> request_pos c = 0 \<Longrightarrow> my_b_tell (ahead contents c t) = t"
  by (auto simp: window_def ahead_def bufferBytes_def my_b_tell_def current_pos_def Let_def min_def)

lemma ahead_fetches: "fetches contents (aheadRead contents) (aheadGet contents)"
proof -
  have c: "cache_kind c = READ_CACHE" "request_pos c = 0" if "window contents c" for c :: "'f IO_CACHE"
    using that by (simp_all add: window_def)
  show ?thesis unfolding fetches_def aheadRead_def aheadGet_def
    by (auto simp: ahead_window c)
qed

theorem cache_reads_file_witness:
  "\<exists>c'. serveAll (aheadRead [1,2,3,4,5,6,7,8]) (aheadGet [1,2,3,4,5,6,7,8]) [Read 3, GetByte, Fill, Read 2]
      (newReader [1,2,3,4,5,6,7,8]) = (True, [1,2,3,4,5,6], c') \<and> my_b_tell c' = 6"
proof -
  have w: "window [1,2,3,4,5,6,7,8] (newReader [1,2,3,4,5,6,7,8])" "my_b_tell (newReader [1,2,3,4,5,6,7,8]) = 0"
    by (simp_all add: newReader_def ahead_window)
  show ?thesis
    using cache_reads_file [OF ahead_fetches w(1), of "[Read 3, GetByte, Fill, Read 2]"] w(2)
    by (auto simp: eval_nat_numeral)
qed

section \<open>A write cache is the end of its file\<close>

text \<open>What was written: the file before the cache, then the buffer up to the write position.  \<open>disk\<close> reads a descriptor.\<close>

definition written :: "('f \<Rightarrow> 8 word list) \<Rightarrow> 'f IO_CACHE \<Rightarrow> 8 word list" where
  "written disk c = take (pos_in_file c) (disk (descriptor c)) @ take (write_pos c) (write_buffer c)"

definition writer :: "('f \<Rightarrow> 8 word list) \<Rightarrow> 'f IO_CACHE \<Rightarrow> bool" where
  "writer disk c \<longleftrightarrow> cache_kind c = WRITE_CACHE \<and> request_pos c = 0 \<and> write_pos c \<le> write_end c
     \<and> write_end c \<le> length (write_buffer c) \<and> pos_in_file c \<le> length (disk (descriptor c))"

text \<open>What is asked of a write function that does not fail: it stores what does not fit, and a call without bytes makes
  room.\<close>

definition stores :: "('f \<Rightarrow> 8 word list) \<Rightarrow> 'f write_function \<Rightarrow> bool" where
  "stores disk wr \<longleftrightarrow>
     (\<forall>c bs. writer disk c \<and> (write_end c < write_pos c + length bs \<or> bs = [] \<and> write_pos c = write_end c) \<longrightarrow>
        (case wr c bs of (r, c') \<Rightarrow> r = 0 \<and> writer disk c' \<and> written disk c' = written disk c @ bs
           \<and> (bs = [] \<longrightarrow> write_pos c' < write_end c')))"

datatype write_request = Write "8 word list" | WriteByte "8 word"

fun payload :: "write_request \<Rightarrow> 8 word list" where
  "payload (Write bs) = bs"
| "payload (WriteByte b) = [b]"

fun put :: "'f write_function \<Rightarrow> write_request \<Rightarrow> 'f IO_CACHE \<Rightarrow> 'f IO_CACHE option" where
  "put wr (Write bs) c = (case my_b_write wr c bs of Some (r, c') \<Rightarrow> if r = 0 then Some c' else None | None \<Rightarrow> None)"
| "put wr (WriteByte b) c = my_b_write_byte wr c b"

fun putAll :: "'f write_function \<Rightarrow> write_request list \<Rightarrow> 'f IO_CACHE \<Rightarrow> 'f IO_CACHE option" where
  "putAll wr [] c = Some c"
| "putAll wr (q # qs) c = (case put wr q c of None \<Rightarrow> None | Some c' \<Rightarrow> putAll wr qs c')"

lemma tell_writer: "writer disk c \<Longrightarrow> my_b_tell c = length (written disk c)"
  by (simp add: writer_def written_def my_b_tell_def current_pos_def)

lemma storesD:
  assumes "stores disk wr" "writer disk c" "write_end c < write_pos c + length bs \<or> bs = [] \<and> write_pos c = write_end c"
  shows "\<exists>c'. wr c bs = (0, c') \<and> writer disk c' \<and> written disk c' = written disk c @ bs
    \<and> (bs = [] \<longrightarrow> write_pos c' < write_end c')"
  using assms(1) [unfolded stores_def, rule_format, of c bs] assms(2,3) by (auto split: prod.splits)

text \<open>Bytes that fit go to the buffer.\<close>

lemma copy_fits:
  assumes "writer disk c" "write_pos c + length bs \<le> write_end c"
  shows "\<exists>b. copyTo (write_buffer c) (write_pos c) bs = Some b
    \<and> writer disk (c\<lparr>write_buffer := b, write_pos := write_pos c + length bs\<rparr>)
    \<and> written disk (c\<lparr>write_buffer := b, write_pos := write_pos c + length bs\<rparr>) = written disk c @ bs"
  using assms by (auto simp: copyTo_def writer_def written_def)

lemma put_ok:
  assumes law: "stores disk wr" and c: "writer disk c"
  shows "\<exists>c'. put wr q c = Some c' \<and> writer disk c' \<and> written disk c' = written disk c @ payload q"
proof (cases q)
  case (Write bs)
  show ?thesis
  proof (cases "write_pos c + length bs \<le> write_end c")
    case True
    with copy_fits [OF c True] Write show ?thesis by (auto simp: my_b_write_def)
  next
    case False
    with storesD [OF law c, of bs] Write show ?thesis by (auto simp: my_b_write_def)
  qed
next
  case (WriteByte b)
  show ?thesis
  proof (cases "write_pos c < write_end c")
    case True
    with copy_fits [OF c, of "[b]"] WriteByte show ?thesis by (auto simp: my_b_write_byte_def)
  next
    case False
    with c have "write_pos c = write_end c" by (simp add: writer_def)
    with storesD [OF law c, of "[]"] obtain c1 where
      "wr c [] = (0, c1)" "writer disk c1" "written disk c1 = written disk c" "write_pos c1 < write_end c1" by auto
    with copy_fits [of disk c1 "[b]"] WriteByte False show ?thesis by (auto simp: my_b_write_byte_def)
  qed
qed

lemma putAll_ok:
  assumes law: "stores disk wr"
  shows "writer disk c \<Longrightarrow>
    \<exists>c'. putAll wr qs c = Some c' \<and> writer disk c' \<and> written disk c' = written disk c @ concat (map payload qs)"
proof (induction qs arbitrary: c)
  case (Cons q qs)
  from put_ok [OF law Cons.prems, of q] Cons.IH show ?case by fastforce
qed simp

text \<open>Writing through the cache appends: when the write function does not fail, any sequence of block and byte writes
  stays inside the buffer, adds its bytes in order, and the position is the number of bytes written.\<close>

theorem cache_writes_append:
  assumes "stores disk wr" and "writer disk c"
  shows "\<exists>c'. putAll wr qs c = Some c' \<and> written disk c' = written disk c @ concat (map payload qs)
    \<and> my_b_tell c' = my_b_tell c + length (concat (map payload qs))"
  using putAll_ok [OF assms(1,2), of qs] tell_writer [of disk] tell_writer [OF assms(2)] by fastforce

text \<open>A write function that flushes all bytes; a buffer of at least one byte.\<close>

definition flushWrite :: "8 word list write_function" where
  "flushWrite c bs =
     (0, c\<lparr>descriptor := written id c @ bs, pos_in_file := my_b_tell c + length bs, write_pos := 0,
           write_buffer := [0, 0, 0], write_end := 3\<rparr>)"

definition newWriter :: "8 word list IO_CACHE" where
  "newWriter = \<lparr>pos_in_file = 0, end_of_file = 0, read_pos = 0, read_end = 0, buffer = None, request_pos = 0,
     write_buffer = [0, 0, 0], write_pos = 0, write_end = 3, cache_kind = WRITE_CACHE, descriptor = []\<rparr>"

lemma flush_stores: "stores id flushWrite"
proof -
  have "writer id c \<Longrightarrow> my_b_tell c = length (written id c)" for c by (rule tell_writer)
  then show ?thesis by (auto simp: stores_def flushWrite_def) (auto simp: writer_def written_def)
qed

theorem cache_writes_append_witness:
  "\<exists>c'. putAll flushWrite [Write [1, 2], WriteByte 3, WriteByte 4, Write [5]] newWriter = Some c'
    \<and> written id c' = [1, 2, 3, 4, 5] \<and> my_b_tell c' = 5"
proof -
  have w: "writer id newWriter" "written id newWriter = []" "my_b_tell newWriter = 0"
    by (simp_all add: writer_def written_def newWriter_def my_b_tell_def current_pos_def)
  show ?thesis
    using cache_writes_append [OF flush_stores w(1), of "[Write [1, 2], WriteByte 3, WriteByte 4, Write [5]]"] w(2,3)
    by auto
qed

text \<open>The result of the flush is not checked: if it fails and leaves a full buffer, the byte goes behind the
  buffer.\<close>

theorem write_byte_after_failed_flush:
  assumes "write_pos c = write_end c" "write_end c = length (write_buffer c)" "wr c [] = (- 1, c)"
  shows "my_b_write_byte wr c b = None"
  using assms by (simp add: my_b_write_byte_def copyTo_def)

end
