(* ===== verification/SpreadSheet.thy ===== *)
theory SpreadSheet
  imports Foundation
begin

text \<open>
  The spreadsheet widget, TAXSpreadSheet.m and TAXSpreadSheetLayout.m: the edges of rows and columns, the
  frames of cells and of the views between them, what is shown in a rectangle, and the index paths
  of column updates.  Coordinates are elements of an ordered group: rounding of \<open>CGFloat\<close> is not modelled.
  Whether two rectangles meet is a parameter (\<open>CGRectIntersectsRect\<close>).
\<close>

section \<open>The layout\<close>

text \<open>The optional methods of the delegate are \<^term>\<open>None\<close> when it does not respond to them.\<close>

record 'a sheet_layout =
  numberOfRows :: nat
  numberOfColumns :: nat
  widthAtColumn :: "(nat \<Rightarrow> 'a) option"
  heightAtRow :: "(nat \<Rightarrow> 'a) option"
  trailingSpacingAfterColumn :: "(nat \<Rightarrow> 'a) option"
  bottomSpacingBelowRow :: "(nat \<Rightarrow> 'a) option"
  cellWidth :: 'a
  cellHeight :: 'a
  interColumnSpacing :: 'a
  interRowSpacing :: 'a
  insetLeft :: 'a
  insetTop :: 'a
  insetRight :: 'a
  insetBottom :: 'a
  leadingEdges :: "'a list"
  trailingEdges :: "'a list"
  topEdges :: "'a list"
  bottomEdges :: "'a list"

definition p_widthAtColumn :: "'a sheet_layout \<Rightarrow> nat \<Rightarrow> 'a" where
  "p_widthAtColumn l column = (case widthAtColumn l of Some f \<Rightarrow> f column | None \<Rightarrow> cellWidth l)"

definition p_heightAtRow :: "'a sheet_layout \<Rightarrow> nat \<Rightarrow> 'a" where
  "p_heightAtRow l row = (case heightAtRow l of Some f \<Rightarrow> f row | None \<Rightarrow> cellHeight l)"

definition p_spacingAfterColumn :: "'a sheet_layout \<Rightarrow> nat \<Rightarrow> 'a" where
  "p_spacingAfterColumn l column = (case trailingSpacingAfterColumn l of Some f \<Rightarrow> f column | None \<Rightarrow> interColumnSpacing l)"

definition p_spacingBelowRow :: "'a sheet_layout \<Rightarrow> nat \<Rightarrow> 'a" where
  "p_spacingBelowRow l row = (case bottomSpacingBelowRow l of Some f \<Rightarrow> f row | None \<Rightarrow> interRowSpacing l)"

text \<open>\<open>array[i] = x\<close> replaces, appends at the end and raises beyond it.\<close>

definition setAt :: "'a list \<Rightarrow> nat \<Rightarrow> 'a \<Rightarrow> 'a list outcome" where
  "setAt xs i x = (if i = length xs then Inr (xs @ [x]) else replaceObjectAtIndex xs i x)"

text \<open>One axis: \<open>todo\<close> columns (rows) from \<open>idx\<close> on.  The two lists are the near and the far edges.\<close>

fun edgesLoop :: "(nat \<Rightarrow> 'a::plus) \<Rightarrow> (nat \<Rightarrow> 'a) \<Rightarrow> nat \<Rightarrow> nat \<Rightarrow> 'a list \<Rightarrow> 'a list \<Rightarrow> ('a list \<times> 'a list) outcome" where
  "edgesLoop extent spacing idx 0 near far = Inr (near, far)"
| "edgesLoop extent spacing idx (Suc todo) near far =
     andThen (objectAtIndex near idx) (\<lambda>previous.
       let farEdge = previous + extent idx; nearEdge = farEdge + spacing idx
       in andThen (setAt near (idx + 1) nearEdge) (\<lambda>near.
          andThen (setAt far idx farEdge) (\<lambda>far. edgesLoop extent spacing (idx + 1) todo near far)))"

definition prepareLayout :: "'a::{plus,zero} sheet_layout \<Rightarrow> 'a sheet_layout outcome" where
  "prepareLayout l =
     andThen (edgesLoop (p_widthAtColumn l) (p_spacingAfterColumn l) 0 (numberOfColumns l) [0] []) (\<lambda>(leading, trailing).
     andThen (edgesLoop (p_heightAtRow l) (p_spacingBelowRow l) 0 (numberOfRows l) [0] []) (\<lambda>(top, bottom).
       Inr (l\<lparr>leadingEdges := leading, trailingEdges := trailing, topEdges := top, bottomEdges := bottom\<rparr>)))"

text \<open>\<open>[[array lastObject] doubleValue]\<close>.\<close>

definition lastValue :: "'a::zero list \<Rightarrow> 'a" where
  "lastValue xs = (if xs = [] then 0 else last xs)"

definition collectionViewContentSize :: "'a::{plus,zero} sheet_layout \<Rightarrow> 'a \<times> 'a" where
  "collectionViewContentSize l =
     (lastValue (leadingEdges l) + (insetLeft l + insetRight l), lastValue (topEdges l) + (insetTop l + insetBottom l))"

record 'a rect =
  rx :: 'a
  ry :: 'a
  rwidth :: 'a
  rheight :: 'a

definition offsetRect :: "'a::plus rect \<Rightarrow> 'a \<Rightarrow> 'a \<Rightarrow> 'a rect" where
  "offsetRect r dx dy = r\<lparr>rx := rx r + dx, ry := ry r + dy\<rparr>"

datatype element = Cell nat nat | InterColumnView nat | InterRowView nat

definition layoutAttributesForItem :: "'a::plus sheet_layout \<Rightarrow> nat \<Rightarrow> nat \<Rightarrow> 'a rect outcome" where
  "layoutAttributesForItem l row column =
     andThen (objectAtIndex (leadingEdges l) column) (\<lambda>leading.
     andThen (objectAtIndex (topEdges l) row) (\<lambda>top.
       Inr (offsetRect \<lparr>rx = leading, ry = top, rwidth = p_widthAtColumn l column, rheight = p_heightAtRow l row\<rparr>
              (insetLeft l) (insetTop l))))"

definition layoutAttributesForInterColumnView :: "'a::{plus,zero} sheet_layout \<Rightarrow> nat \<Rightarrow> 'a rect outcome" where
  "layoutAttributesForInterColumnView l column =
     andThen (objectAtIndex (trailingEdges l) column) (\<lambda>leading.
     andThen (objectAtIndex (topEdges l) 0) (\<lambda>top.
       Inr (offsetRect \<lparr>rx = leading, ry = top, rwidth = p_spacingAfterColumn l column,
              rheight = lastValue (bottomEdges l)\<rparr> (insetLeft l) (insetTop l))))"

definition layoutAttributesForInterRowView :: "'a::{plus,zero} sheet_layout \<Rightarrow> nat \<Rightarrow> 'a rect outcome" where
  "layoutAttributesForInterRowView l row =
     andThen (objectAtIndex (leadingEdges l) 0) (\<lambda>leading.
     andThen (objectAtIndex (bottomEdges l) row) (\<lambda>top.
       Inr (offsetRect \<lparr>rx = leading, ry = top, rwidth = lastValue (trailingEdges l),
              rheight = p_spacingBelowRow l row\<rparr> (insetLeft l) (insetTop l))))"

fun attributesOf :: "'a::{plus,zero} sheet_layout \<Rightarrow> element \<Rightarrow> 'a rect outcome" where
  "attributesOf l (Cell row column) = layoutAttributesForItem l row column"
| "attributesOf l (InterColumnView column) = layoutAttributesForInterColumnView l column"
| "attributesOf l (InterRowView row) = layoutAttributesForInterRowView l row"

text \<open>The elements in the order of the three loops; \<open>columns - 1\<close> is signed there, so that no column gives no view.\<close>

definition elementsOf :: "'a sheet_layout \<Rightarrow> element list" where
  "elementsOf l = concat (map (\<lambda>row. map (Cell row) [0..<numberOfColumns l]) [0..<numberOfRows l])
     @ map InterColumnView [0..<numberOfColumns l - 1] @ map InterRowView [0..<numberOfRows l - 1]"

fun attributesLoop :: "('a rect \<Rightarrow> bool) \<Rightarrow> ('e \<Rightarrow> 'a rect outcome) \<Rightarrow> 'e list \<Rightarrow> ('e \<times> 'a rect) list outcome" where
  "attributesLoop hits attributes [] = Inr []"
| "attributesLoop hits attributes (e # es) =
     andThen (attributes e) (\<lambda>frame.
     andThen (attributesLoop hits attributes es) (\<lambda>found.
       Inr (if hits frame then (e, frame) # found else found)))"

definition layoutAttributesForElementsInRect ::
    "('a rect \<Rightarrow> 'a rect \<Rightarrow> bool) \<Rightarrow> 'a::{plus,zero} sheet_layout \<Rightarrow> 'a rect \<Rightarrow> (element \<times> 'a rect) list outcome" where
  "layoutAttributesForElementsInRect intersects l rect = attributesLoop (intersects rect) (attributesOf l) (elementsOf l)"

section \<open>The sheet\<close>

text \<open>The numbers of rows and columns the data source gives.\<close>

type_synonym data_source = "nat \<times> nat"

definition sheetRows :: "data_source \<Rightarrow> nat" where
  "sheetRows d = (if snd d = 0 then 0 else fst d)"

definition sheetColumns :: "data_source \<Rightarrow> nat" where
  "sheetColumns d = (if fst d = 0 then 0 else snd d)"

text \<open>The delegate's answer for a column, \<^term>\<open>None\<close> if it does not respond or answers \<open>NSNotFound\<close>.\<close>

definition sheetExtent :: "(nat \<Rightarrow> 'a option) option \<Rightarrow> 'a \<Rightarrow> nat \<Rightarrow> 'a" where
  "sheetExtent delegate standard i =
     (case delegate of Some f \<Rightarrow> (case f i of Some w \<Rightarrow> w | None \<Rightarrow> standard) | None \<Rightarrow> standard)"

text \<open>An index set is the ascending list of its elements.  A path is a row (section) and a column (item).\<close>

definition p_indexPathsOfColumns :: "data_source \<Rightarrow> nat list \<Rightarrow> (nat \<times> nat) list" where
  "p_indexPathsOfColumns d columns = concat (map (\<lambda>column. map (\<lambda>row. (row, column)) [0..<sheetRows d]) columns)"

definition moveColumn :: "data_source \<Rightarrow> nat \<Rightarrow> nat \<Rightarrow> ((nat \<times> nat) \<times> (nat \<times> nat)) list" where
  "moveColumn d fromColumn toColumn = map (\<lambda>row. ((row, fromColumn), (row, toColumn))) [0..<sheetRows d]"

section \<open>The edges\<close>

text \<open>Where a column begins: the sum of the widths and spacings before it.\<close>

fun edge :: "(nat \<Rightarrow> 'a::{plus,zero}) \<Rightarrow> (nat \<Rightarrow> 'a) \<Rightarrow> nat \<Rightarrow> 'a" where
  "edge extent spacing 0 = 0"
| "edge extent spacing (Suc i) = edge extent spacing i + extent i + spacing i"

lemma edgesLoop_edges:
  "edgesLoop extent spacing idx todo (map (edge extent spacing) [0..<Suc idx]) (map (\<lambda>i. edge extent spacing i + extent i) [0..<idx])
   = Inr (map (edge extent spacing) [0..<Suc (idx + todo)], map (\<lambda>i. edge extent spacing i + extent i) [0..<idx + todo])"
proof (induction todo arbitrary: idx)
  case (Suc todo)
  have "map (edge extent spacing) [0..<Suc idx] ! idx = edge extent spacing idx" by (simp del: upt_Suc)
  then show ?case using Suc.IH [of "Suc idx"] by (simp add: setAt_def Let_def objectAtIndex_def nth_append)
qed simp

lemma edgesLoop_start:
  "edgesLoop extent spacing 0 n [0] [] =
     Inr (map (edge extent spacing) [0..<Suc n], map (\<lambda>i. edge extent spacing i + extent i) [0..<n])"
  using edgesLoop_edges [of extent spacing 0 n] by simp

abbreviation "columnEdge l \<equiv> edge (p_widthAtColumn l) (p_spacingAfterColumn l)"
abbreviation "rowEdge l \<equiv> edge (p_heightAtRow l) (p_spacingBelowRow l)"

lemma prepareLayout_edges:
  "prepareLayout l = Inr (l\<lparr>
     leadingEdges := map (columnEdge l) [0..<Suc (numberOfColumns l)],
     trailingEdges := map (\<lambda>i. columnEdge l i + p_widthAtColumn l i) [0..<numberOfColumns l],
     topEdges := map (rowEdge l) [0..<Suc (numberOfRows l)],
     bottomEdges := map (\<lambda>i. rowEdge l i + p_heightAtRow l i) [0..<numberOfRows l]\<rparr>)"
  by (simp add: prepareLayout_def edgesLoop_start del: upt_Suc)

lemma lastValue_edges: "lastValue (map f [0..<Suc n]) = f n"
  by (simp add: lastValue_def)

lemma lastValue_far: "0 < n \<Longrightarrow> lastValue (map f [0..<n]) = f (n - 1)"
  by (cases n) (simp_all add: lastValue_def)

text \<open>The frame of an element, computed from the edges.\<close>

fun frameOf :: "'a::{plus,zero} sheet_layout \<Rightarrow> element \<Rightarrow> 'a rect" where
  "frameOf l (Cell row column) =
     \<lparr>rx = columnEdge l column + insetLeft l, ry = rowEdge l row + insetTop l,
      rwidth = p_widthAtColumn l column, rheight = p_heightAtRow l row\<rparr>"
| "frameOf l (InterColumnView column) =
     \<lparr>rx = columnEdge l column + p_widthAtColumn l column + insetLeft l, ry = 0 + insetTop l,
      rwidth = p_spacingAfterColumn l column,
      rheight = rowEdge l (numberOfRows l - 1) + p_heightAtRow l (numberOfRows l - 1)\<rparr>"
| "frameOf l (InterRowView row) =
     \<lparr>rx = 0 + insetLeft l, ry = rowEdge l row + p_heightAtRow l row + insetTop l,
      rwidth = columnEdge l (numberOfColumns l - 1) + p_widthAtColumn l (numberOfColumns l - 1),
      rheight = p_spacingBelowRow l row\<rparr>"

text \<open>The elements a sheet with cells has.\<close>

fun present :: "'a sheet_layout \<Rightarrow> element \<Rightarrow> bool" where
  "present l (Cell row column) \<longleftrightarrow> row < numberOfRows l \<and> column < numberOfColumns l"
| "present l (InterColumnView column) \<longleftrightarrow> column + 1 < numberOfColumns l \<and> 0 < numberOfRows l"
| "present l (InterRowView row) \<longleftrightarrow> row + 1 < numberOfRows l \<and> 0 < numberOfColumns l"

lemma sizes_prepared:
  assumes "prepareLayout l = Inr l'"
  shows "p_widthAtColumn l' = p_widthAtColumn l" "p_heightAtRow l' = p_heightAtRow l"
    "p_spacingAfterColumn l' = p_spacingAfterColumn l" "p_spacingBelowRow l' = p_spacingBelowRow l"
    "numberOfRows l' = numberOfRows l" "numberOfColumns l' = numberOfColumns l"
    "insetLeft l' = insetLeft l" "insetTop l' = insetTop l" "insetRight l' = insetRight l" "insetBottom l' = insetBottom l"
    "leadingEdges l' = map (columnEdge l) [0..<Suc (numberOfColumns l)]"
    "trailingEdges l' = map (\<lambda>i. columnEdge l i + p_widthAtColumn l i) [0..<numberOfColumns l]"
    "topEdges l' = map (rowEdge l) [0..<Suc (numberOfRows l)]"
    "bottomEdges l' = map (\<lambda>i. rowEdge l i + p_heightAtRow l i) [0..<numberOfRows l]"
proof -
  have sizes: "p_widthAtColumn (l\<lparr>leadingEdges := a, trailingEdges := b, topEdges := c, bottomEdges := d\<rparr>) = p_widthAtColumn l"
    "p_heightAtRow (l\<lparr>leadingEdges := a, trailingEdges := b, topEdges := c, bottomEdges := d\<rparr>) = p_heightAtRow l"
    "p_spacingAfterColumn (l\<lparr>leadingEdges := a, trailingEdges := b, topEdges := c, bottomEdges := d\<rparr>) = p_spacingAfterColumn l"
    "p_spacingBelowRow (l\<lparr>leadingEdges := a, trailingEdges := b, topEdges := c, bottomEdges := d\<rparr>) = p_spacingBelowRow l"
    for a b c d
    by (simp_all add: fun_eq_iff p_widthAtColumn_def p_heightAtRow_def p_spacingAfterColumn_def p_spacingBelowRow_def
      split: option.split)
  have l': "l' = l\<lparr>
     leadingEdges := map (columnEdge l) [0..<Suc (numberOfColumns l)],
     trailingEdges := map (\<lambda>i. columnEdge l i + p_widthAtColumn l i) [0..<numberOfColumns l],
     topEdges := map (rowEdge l) [0..<Suc (numberOfRows l)],
     bottomEdges := map (\<lambda>i. rowEdge l i + p_heightAtRow l i) [0..<numberOfRows l]\<rparr>"
    using assms unfolding prepareLayout_edges by (rule Inr_inject [symmetric])
  show "p_widthAtColumn l' = p_widthAtColumn l" "p_heightAtRow l' = p_heightAtRow l"
    "p_spacingAfterColumn l' = p_spacingAfterColumn l" "p_spacingBelowRow l' = p_spacingBelowRow l"
    unfolding l' by (simp_all only: sizes)
  show "numberOfRows l' = numberOfRows l" "numberOfColumns l' = numberOfColumns l"
    "insetLeft l' = insetLeft l" "insetTop l' = insetTop l" "insetRight l' = insetRight l" "insetBottom l' = insetBottom l"
    "leadingEdges l' = map (columnEdge l) [0..<Suc (numberOfColumns l)]"
    "trailingEdges l' = map (\<lambda>i. columnEdge l i + p_widthAtColumn l i) [0..<numberOfColumns l]"
    "topEdges l' = map (rowEdge l) [0..<Suc (numberOfRows l)]"
    "bottomEdges l' = map (\<lambda>i. rowEdge l i + p_heightAtRow l i) [0..<numberOfRows l]"
    unfolding l' by (simp_all del: upt_Suc)
qed

lemma attributes_frame:
  assumes "prepareLayout l = Inr l'" "present l e"
  shows "attributesOf l' e = Inr (frameOf l e)"
  using assms(2)
  by (cases e) (simp_all add: sizes_prepared [OF assms(1)] layoutAttributesForItem_def layoutAttributesForInterColumnView_def
    layoutAttributesForInterRowView_def offsetRect_def lastValue_far objectAtIndex_def nth_append del: upt_Suc)

lemma elements_present: "0 < numberOfRows l \<longleftrightarrow> 0 < numberOfColumns l \<Longrightarrow> e \<in> set (elementsOf l) \<longleftrightarrow> present l e"
  by (cases e) (fastforce simp: elementsOf_def)+

lemma attributesLoop_filter:
  "(\<And>e. e \<in> set es \<Longrightarrow> attributes e = Inr (f e)) \<Longrightarrow>
    attributesLoop hits attributes es = Inr (map (\<lambda>e. (e, f e)) (filter (\<lambda>e. hits (f e)) es))"
  by (induction es) auto

section \<open>Frames do not overlap\<close>

definition separate :: "'a::{plus,ord} rect \<Rightarrow> 'a rect \<Rightarrow> bool" where
  "separate f g \<longleftrightarrow> rx f + rwidth f \<le> rx g \<or> rx g + rwidth g \<le> rx f \<or> ry f + rheight f \<le> ry g \<or> ry g + rheight g \<le> ry f"

fun crossing :: "element \<Rightarrow> element \<Rightarrow> bool" where
  "crossing (InterColumnView _) (InterRowView _) = True"
| "crossing (InterRowView _) (InterColumnView _) = True"
| "crossing _ _ = False"

text \<open>No width, height or spacing is negative.\<close>

definition sizes_ok :: "'a::{plus,zero,ord} sheet_layout \<Rightarrow> bool" where
  "sizes_ok l \<longleftrightarrow> (\<forall>i. 0 \<le> p_widthAtColumn l i \<and> 0 \<le> p_heightAtRow l i
     \<and> 0 \<le> p_spacingAfterColumn l i \<and> 0 \<le> p_spacingBelowRow l i)"

lemma edge_next:
  fixes extent spacing :: "nat \<Rightarrow> 'a::ordered_ab_group_add"
  assumes "\<And>i. 0 \<le> extent i" "\<And>i. 0 \<le> spacing i"
  shows "i < j \<Longrightarrow> edge extent spacing i + extent i + spacing i \<le> edge extent spacing j"
proof (induction j)
  case (Suc j)
  have "edge extent spacing j \<le> edge extent spacing (Suc j)"
    using add_nonneg_nonneg [OF assms(1) [of j] assms(2) [of j]] by (simp add: add.assoc)
  with Suc show ?case by (cases "i = j") (simp, auto intro: order_trans simp del: edge.simps(2))
qed simp

lemma edge_far:
  fixes extent spacing :: "nat \<Rightarrow> 'a::ordered_ab_group_add"
  assumes "\<And>i. 0 \<le> extent i" "\<And>i. 0 \<le> spacing i"
  shows "i < j \<Longrightarrow> edge extent spacing i + extent i \<le> edge extent spacing j"
    "i \<le> j \<Longrightarrow> edge extent spacing i + extent i \<le> edge extent spacing j + extent j"
proof -
  show 1: "edge extent spacing i + extent i \<le> edge extent spacing j" if "i < j"
  proof -
    have "edge extent spacing i + extent i \<le> edge extent spacing i + extent i + spacing i" using assms(2) by simp
    also have "\<dots> \<le> edge extent spacing j" by (rule edge_next) (use assms that in auto)
    finally show ?thesis .
  qed
  show "i \<le> j \<Longrightarrow> edge extent spacing i + extent i \<le> edge extent spacing j + extent j"
    using 1 assms(1) [of j] by (cases "i = j") (auto intro: add_increasing2)
qed

lemma edge_nonneg:
  fixes extent spacing :: "nat \<Rightarrow> 'a::ordered_ab_group_add"
  assumes "\<And>i. 0 \<le> extent i" "\<And>i. 0 \<le> spacing i"
  shows "0 \<le> edge extent spacing i"
  by (induction i) (simp_all add: assms)


lemma far_before:
  fixes a :: "'a::ordered_ab_group_add"
  shows "a + w \<le> b \<Longrightarrow> a + d + w \<le> b + d"
  by (metis add.commute add.left_commute add_left_mono)

lemma frames_separate:
  fixes l :: "'a::linordered_ab_group_add sheet_layout"
  assumes "sizes_ok l" "present l e" "present l e'" "e \<noteq> e'" "\<not> crossing e e'"
  shows "separate (frameOf l e) (frameOf l e')"
proof -
  have w: "0 \<le> p_widthAtColumn l i" "0 \<le> p_spacingAfterColumn l i" and h: "0 \<le> p_heightAtRow l i" "0 \<le> p_spacingBelowRow l i" for i
    using assms(1) by (auto simp: sizes_ok_def)
  note c = edge_next [of "p_widthAtColumn l" "p_spacingAfterColumn l", OF w]
    edge_far [of "p_widthAtColumn l" "p_spacingAfterColumn l", OF w]
  note r = edge_next [of "p_heightAtRow l" "p_spacingBelowRow l", OF h]
    edge_far [of "p_heightAtRow l" "p_spacingBelowRow l", OF h]
  show ?thesis
  proof (cases e; cases e')
    fix r1 c1 r2 c2 assume e: "e = Cell r1 c1" "e' = Cell r2 c2"
    then have "r1 < r2 \<or> r2 < r1 \<or> c1 < c2 \<or> c2 < c1" using assms(4) by auto
    then show ?thesis unfolding separate_def e by (auto intro: far_before c r)
  next
    fix r1 c1 c2 assume e: "e = Cell r1 c1" "e' = InterColumnView c2"
    have "c1 \<le> c2 \<or> c2 < c1" by auto
    then show ?thesis unfolding separate_def e by (auto intro!: far_before c)
  next
    fix r1 c1 r2 assume e: "e = Cell r1 c1" "e' = InterRowView r2"
    have "r1 \<le> r2 \<or> r2 < r1" by auto
    then show ?thesis unfolding separate_def e by (auto intro!: far_before r)
  next
    fix r1 c1 c2 assume e: "e' = Cell r1 c1" "e = InterColumnView c2"
    have "c1 \<le> c2 \<or> c2 < c1" by auto
    then show ?thesis unfolding separate_def e by (auto intro!: far_before c)
  next
    fix r1 c1 r2 assume e: "e' = Cell r1 c1" "e = InterRowView r2"
    have "r1 \<le> r2 \<or> r2 < r1" by auto
    then show ?thesis unfolding separate_def e by (auto intro!: far_before r)
  next
    fix c1 c2 assume e: "e = InterColumnView c1" "e' = InterColumnView c2"
    then have "c1 < c2 \<or> c2 < c1" using assms(4) by auto
    then show ?thesis unfolding separate_def e
      by (auto intro!: far_before order_trans [OF c(1)] w(1))
  next
    fix r1 r2 assume e: "e = InterRowView r1" "e' = InterRowView r2"
    then have "r1 < r2 \<or> r2 < r1" using assms(4) by auto
    then show ?thesis unfolding separate_def e
      by (auto intro!: far_before order_trans [OF r(1)] h(1))
  qed (use assms(5) in auto)
qed


lemma content_size:
  "prepareLayout l = Inr l' \<Longrightarrow> collectionViewContentSize l' = (columnEdge l (numberOfColumns l) + (insetLeft l + insetRight l),
      rowEdge l (numberOfRows l) + (insetTop l + insetBottom l))"
  by (simp add: collectionViewContentSize_def sizes_prepared lastValue_edges del: upt_Suc)

lemma frames_inside:
  fixes l :: "'a::linordered_ab_group_add sheet_layout"
  assumes "sizes_ok l" "prepareLayout l = Inr l'" "present l e" "frameOf l e = f"
  shows "insetLeft l \<le> rx f" "rx f + rwidth f + insetRight l \<le> fst (collectionViewContentSize l')"
    "insetTop l \<le> ry f" "ry f + rheight f + insetBottom l \<le> snd (collectionViewContentSize l')"
proof -
  have w: "0 \<le> p_widthAtColumn l i" "0 \<le> p_spacingAfterColumn l i" and h: "0 \<le> p_heightAtRow l i" "0 \<le> p_spacingBelowRow l i" for i
    using assms(1) by (auto simp: sizes_ok_def)
  note c = edge_next [of "p_widthAtColumn l" "p_spacingAfterColumn l", OF w]
    edge_far [of "p_widthAtColumn l" "p_spacingAfterColumn l", OF w] edge_nonneg [of "p_widthAtColumn l" "p_spacingAfterColumn l", OF w]
  note r = edge_next [of "p_heightAtRow l" "p_spacingBelowRow l", OF h]
    edge_far [of "p_heightAtRow l" "p_spacingBelowRow l", OF h] edge_nonneg [of "p_heightAtRow l" "p_spacingBelowRow l", OF h]
  have right: "a + w \<le> b \<Longrightarrow> a + d + w + k \<le> b + (d + k)" for a w b d k :: 'a
    using far_before [of a w b d] by (simp add: add.assoc [symmetric])
  show "insetLeft l \<le> rx f" "insetTop l \<le> ry f"
    using assms(3,4) by (cases e; auto simp: c(4) r(4) w h add_nonneg_nonneg)+
  show "rx f + rwidth f + insetRight l \<le> fst (collectionViewContentSize l')"
    unfolding content_size [OF assms(2)] fst_conv using assms(3,4) by (cases e) (auto intro!: right c)
  show "ry f + rheight f + insetBottom l \<le> snd (collectionViewContentSize l')"
    unfolding content_size [OF assms(2)] snd_conv using assms(3,4) by (cases e) (auto intro!: right r)
qed

text \<open>C29. A sheet with sizes that are not negative, and with rows exactly if it has columns, is laid out without raising
  (lengths are added exactly here, without the rounding of \<open>CGFloat\<close>); every cell and every view between two
  rows or columns has a frame inside the content, no two of them overlap but a column view and a row view, and a
  rectangle shows exactly those whose frame meets it.\<close>

theorem sheet_layout_apart:
  fixes l :: "'a::linordered_ab_group_add sheet_layout"
  assumes "sizes_ok l" and "numberOfRows l = 0 \<longleftrightarrow> numberOfColumns l = 0"
  shows "\<exists>l'. prepareLayout l = Inr l'
    \<and> (\<forall>e. present l e \<longrightarrow> (\<exists>f. attributesOf l' e = Inr f
         \<and> insetLeft l \<le> rx f \<and> rx f + rwidth f + insetRight l \<le> fst (collectionViewContentSize l')
         \<and> insetTop l \<le> ry f \<and> ry f + rheight f + insetBottom l \<le> snd (collectionViewContentSize l')))
    \<and> (\<forall>e e' f f'. present l e \<longrightarrow> present l e' \<longrightarrow> e \<noteq> e' \<longrightarrow> \<not> crossing e e' \<longrightarrow>
         attributesOf l' e = Inr f \<longrightarrow> attributesOf l' e' = Inr f' \<longrightarrow> separate f f')
    \<and> (\<exists>found. layoutAttributesForElementsInRect hits l' rect = Inr found
         \<and> set found = {(e, f). present l e \<and> attributesOf l' e = Inr f \<and> hits rect f})"
proof -
  obtain l' where l': "prepareLayout l = Inr l'" using prepareLayout_edges by blast
  have f: "present l e \<Longrightarrow> attributesOf l' e = Inr (frameOf l e)" for e by (rule attributes_frame [OF l'])
  have e: "set (elementsOf l') = {e. present l e}" using elements_present [of l] assms(2)
    by (auto simp: elementsOf_def sizes_prepared [OF l'])
  have "layoutAttributesForElementsInRect hits l' rect
      = Inr (map (\<lambda>e. (e, frameOf l e)) (filter (\<lambda>e. hits rect (frameOf l e)) (elementsOf l')))"
    unfolding layoutAttributesForElementsInRect_def using e f by (intro attributesLoop_filter) auto
  then have "\<exists>found. layoutAttributesForElementsInRect hits l' rect = Inr found
      \<and> set found = {(e, f). present l e \<and> attributesOf l' e = Inr f \<and> hits rect f}"
    using e f by (auto simp: image_iff)
  then show ?thesis using l' f frames_inside [OF assms(1) l'] frames_separate [OF assms(1)]
    by (intro exI [of _ l'] conjI) auto
qed

text \<open>Two rows and two columns of 50 by 50, with a spacing of 2 after each column.\<close>

definition smallSheet :: "int sheet_layout" where
  "smallSheet = \<lparr>numberOfRows = 2, numberOfColumns = 2, widthAtColumn = None, heightAtRow = None,
     trailingSpacingAfterColumn = Some (\<lambda>_. 2), bottomSpacingBelowRow = None, cellWidth = 50, cellHeight = 50,
     interColumnSpacing = 0, interRowSpacing = 0, insetLeft = 1, insetTop = 0, insetRight = 0, insetBottom = 0,
     leadingEdges = [], trailingEdges = [], topEdges = [], bottomEdges = []\<rparr>"

theorem sheet_layout_apart_witness:
  "\<exists>l' f f'. prepareLayout smallSheet = Inr l' \<and> attributesOf l' (Cell 0 0) = Inr f
    \<and> attributesOf l' (InterColumnView 0) = Inr f' \<and> separate f f' \<and> rx f + rwidth f \<le> 105"
proof -
  have ok: "sizes_ok smallSheet" "numberOfRows smallSheet = 0 \<longleftrightarrow> numberOfColumns smallSheet = 0"
    by (simp_all add: sizes_ok_def smallSheet_def p_widthAtColumn_def p_heightAtRow_def p_spacingAfterColumn_def
      p_spacingBelowRow_def)
  obtain l' where l': "prepareLayout smallSheet = Inr l'"
    and frames: "\<forall>e. present smallSheet e \<longrightarrow> (\<exists>f. attributesOf l' e = Inr f
         \<and> insetLeft smallSheet \<le> rx f \<and> rx f + rwidth f + insetRight smallSheet \<le> fst (collectionViewContentSize l')
         \<and> insetTop smallSheet \<le> ry f \<and> ry f + rheight f + insetBottom smallSheet \<le> snd (collectionViewContentSize l'))"
    and "\<forall>e e' f f'. present smallSheet e \<longrightarrow> present smallSheet e' \<longrightarrow> e \<noteq> e' \<longrightarrow> \<not> crossing e e' \<longrightarrow>
         attributesOf l' e = Inr f \<longrightarrow> attributesOf l' e' = Inr f' \<longrightarrow> separate f f'"
    using sheet_layout_apart [OF ok, of "\<lambda>_ _. True" undefined] by (elim exE conjE) (rule that)
  note apart = this(3) [rule_format] and frame = frames [rule_format]
  have there: "present smallSheet (Cell 0 0)" "present smallSheet (InterColumnView 0)" by (simp_all add: smallSheet_def)
  have "fst (collectionViewContentSize l') = 105"
    unfolding content_size [OF l'] by (simp add: smallSheet_def p_widthAtColumn_def p_spacingAfterColumn_def numeral_2_eq_2)
  moreover obtain f where f: "attributesOf l' (Cell 0 0) = Inr f"
    "rx f + rwidth f + insetRight smallSheet \<le> fst (collectionViewContentSize l')" using frame [OF there(1)] by blast
  moreover obtain f' where f': "attributesOf l' (InterColumnView 0) = Inr f'" using frame [OF there(2)] by blast
  moreover have "separate f f'" by (rule apart [OF there _ _ f(1) f']) simp_all
  moreover have "insetRight smallSheet = 0" by (simp add: smallSheet_def)
  ultimately show ?thesis using l' by auto
qed

text \<open>The counts that a sheet hands to its layout meet the second hypothesis.\<close>

lemma sheet_counts: "sheetRows d = 0 \<longleftrightarrow> sheetColumns d = 0"
  by (simp add: sheetRows_def sheetColumns_def)

section \<open>Column updates\<close>

lemma paths_in_row:
  "length (filter (\<lambda>p. fst p = r) (p_indexPathsOfColumns d columns)) = (if r < sheetRows d then length columns else 0)"
proof (induction columns)
  case (Cons c cs)
  have "filter (\<lambda>p. fst p = r) (map (\<lambda>row. (row, c)) [0..<n]) = (if r < n then [(r, c)] else [])" for n
    by (induction n) auto
  with Cons show ?case by (simp add: p_indexPathsOfColumns_def)
qed (simp add: p_indexPathsOfColumns_def)

text \<open>The paths a column deletion hands on, once the data source has lost the columns: as long as a column is left, they
  account in every row for the cells that are gone; when all columns go, the sheet has no rows any more, and
  neither a path nor a section is reported as deleted.\<close>

theorem delete_columns_paths:
  assumes "0 < rows" and "columns \<noteq> []" and "length columns \<le> n"
  defines "old \<equiv> (rows, n)" and "new \<equiv> (rows, n - length columns)"
  shows "if length columns < n
    then sheetRows new = sheetRows old \<and> (\<forall>r < sheetRows old.
           length (filter (\<lambda>p. fst p = r) (p_indexPathsOfColumns new columns)) = sheetColumns old - sheetColumns new)
    else p_indexPathsOfColumns new columns = [] \<and> sheetRows old = rows \<and> sheetRows new = 0"
proof (cases "length columns < n")
  case False
  then have "concat (map (\<lambda>column. []) columns) = ([] :: (nat \<times> nat) list)" by simp
  moreover have "0 < n" "n - length columns = 0" using False assms(2,3) by auto
  ultimately show ?thesis using False assms(1) by (simp add: p_indexPathsOfColumns_def old_def new_def sheetRows_def)
qed (use assms(1-3) in \<open>simp add: paths_in_row old_def new_def sheetRows_def sheetColumns_def\<close>)


theorem delete_columns_paths_witness:
  "p_indexPathsOfColumns (3, 0) [0, 1] = [] \<and> sheetRows (3, 2) = 3
    \<and> length (filter (\<lambda>p. fst p = 1) (p_indexPathsOfColumns (3, 1) [0])) = 1"
  using delete_columns_paths [of 3 "[0, 1]" 2] delete_columns_paths [of 3 "[0]" 2]
  by (auto simp: sheetRows_def sheetColumns_def)

end
