(* ===== verification/Atomics.thy ===== *)
theory Atomics
  imports Main "HOL-Library.Word"
begin

text \<open>
  The atomic operations of my\_atomic.h and of the headers under atomic/.  A platform without lock is the record of the
  bodies its header defines, and my\_atomic.h builds the others by loops around compare-and-swap; the bodies of
  rwlock.h are plain reads and writes, and run under a lock.  Threads interleave at every access to the shared cell.
  Instructions and built-ins do what their manuals say; caches and reordering are not modelled.  The specification is \<open>whole\<close>: each operation in one piece.
\<close>

section \<open>Operations in one piece\<close>

datatype 'a call = Cas 'a 'a | Add 'a | Fas 'a | Load | Store 'a

text \<open>The flag of a compare-and-swap with the value its second argument points to afterwards; the old value.\<close>

datatype 'a answer = Swapped bool 'a | Old 'a | Stored

fun whole :: "'a::{plus,zero} call \<Rightarrow> 'a \<Rightarrow> 'a \<times> 'a answer" where
  "whole (Cas cmp new) x = (if x = cmp then (new, Swapped True cmp) else (x, Swapped False x))"
| "whole (Add v) x = (x + v, Old x)"
| "whole (Fas v) x = (v, Old x)"
| "whole Load x = (x, Old x)"
| "whole (Store v) x = (v, Stored)"

text \<open>A sequence of finished calls with their answers, replayed one after the other.\<close>

fun replay :: "('a::{plus,zero} call \<times> 'a answer) list \<Rightarrow> 'a \<Rightarrow> 'a option" where
  "replay [] x = Some x"
| "replay ((c, r) # cs) x = (case whole c x of (y, r') \<Rightarrow> if r = r' then replay cs y else None)"

lemma replay_append: "replay (cs @ ds) x = (case replay cs x of None \<Rightarrow> None | Some y \<Rightarrow> replay ds y)"
  by (induction cs x rule: replay.induct) (auto split: prod.splits)

section \<open>Compare and swap\<close>

text \<open>The result: the cell, the flag and \<open>*cmp\<close> afterwards.\<close>

type_synonym 'a cas = "'a \<Rightarrow> 'a \<Rightarrow> 'a \<Rightarrow> 'a \<times> bool \<times> 'a"

text \<open>\<open>__sync_val_compare_and_swap\<close> and \<open>InterlockedCompareExchange\<close> give the old value.\<close>

definition compareExchange :: "'a \<Rightarrow> 'a \<Rightarrow> 'a \<Rightarrow> 'a \<times> 'a" where
  "compareExchange x old new = (if x = old then new else x, x)"

definition cas_body_gcc :: "'a cas" where
  "cas_body_gcc x cmp new =
     (let (y, sav) = compareExchange x cmp new; ret = (sav = cmp)
      in (y, ret, if \<not> ret then sav else cmp))"

definition cas_body_msvc :: "'a cas" where
  "cas_body_msvc x cmp new =
     (let initial_cmp = cmp; (y, initial_a) = compareExchange x initial_cmp new; ret = (initial_a = initial_cmp)
      in (y, ret, if \<not> ret then initial_a else cmp))"

text \<open>\<open>lock; cmpxchg\<close> compares the accumulator with the operand in memory; it stores \<open>set\<close> there and sets the zero flag if
  they are equal, and loads the accumulator and clears the flag if not.  \<open>setz\<close> reads the flag.\<close>

definition cmpxchg :: "'a \<Rightarrow> 'a \<Rightarrow> 'a \<Rightarrow> 'a \<times> 'a \<times> bool" where
  "cmpxchg x eax src = (if x = eax then (src, eax, True) else (x, x, False))"

definition cas_body_x86 :: "'a cas" where
  "cas_body_x86 x cmp new = (let (y, eax, zf) = cmpxchg x cmp new in (y, zf, eax))"

text \<open>What a compare-and-swap is to do.\<close>

definition casSpec :: "'a cas" where
  "casSpec x cmp new = (if x = cmp then (new, True, cmp) else (x, False, x))"

lemma cas_bodies: "cas_body_gcc = casSpec" "cas_body_msvc = casSpec" "cas_body_x86 = casSpec"
  by (auto simp: cas_body_gcc_def cas_body_msvc_def cas_body_x86_def casSpec_def compareExchange_def cmpxchg_def Let_def
      intro!: ext)

section \<open>Platforms\<close>

text \<open>The macros a header under atomic/ defines: the body of the compare-and-swap and, where the header has them, those of
  the other operations, each a single access to the cell.  The body of an addition or exchange gets the cell and \<open>v\<close> and
  leaves both; a load leaves the cell and \<open>ret\<close>.  Without a body my\_atomic.h supplies its own.\<close>

record 'a machine =
  make_atomic_cas_body :: "'a cas"
  make_atomic_add_body :: "('a \<Rightarrow> 'a \<Rightarrow> 'a \<times> 'a) option"
  make_atomic_fas_body :: "('a \<Rightarrow> 'a \<Rightarrow> 'a \<times> 'a) option"
  make_atomic_load_body :: "('a \<Rightarrow> 'a \<times> 'a) option"
  make_atomic_store_body :: "('a \<Rightarrow> 'a \<Rightarrow> 'a) option"

text \<open>The built-ins and instructions: the new cell and the old value.\<close>

definition fetchAndAdd :: "'w::len word \<Rightarrow> 'w word \<Rightarrow> 'w word \<times> 'w word" where "fetchAndAdd x v = (x + v, x)"
definition fetchAndOr :: "'w::len word \<Rightarrow> 'w word \<Rightarrow> 'w word \<times> 'w word" where "fetchAndOr x v = (or x v, x)"
definition exchange :: "'w::len word \<Rightarrow> 'w word \<Rightarrow> 'w word \<times> 'w word" where "exchange x v = (v, x)"

text \<open>gcc\_builtins.h and generic-msvc.h name the body of the exchange \<open>make_atomic_swap_body\<close>, which my\_atomic.h does not
  know; to it they have none.\<close>

definition gcc_builtins :: "'w::len word machine" where
  "gcc_builtins =
     \<lparr>make_atomic_cas_body = cas_body_gcc,
      make_atomic_add_body = Some fetchAndAdd,
      make_atomic_fas_body = None,
      make_atomic_load_body = Some (\<lambda>x. fetchAndOr x 0),
      make_atomic_store_body = Some (\<lambda>x v. fst (exchange x v))\<rparr>"

definition generic_msvc :: "'w::len word machine" where
  "generic_msvc =
     \<lparr>make_atomic_cas_body = cas_body_msvc,
      make_atomic_add_body = Some fetchAndAdd,
      make_atomic_fas_body = None,
      make_atomic_load_body = Some (\<lambda>x. compareExchange x 0 0),
      make_atomic_store_body = None\<rparr>"

text \<open>x86-gcc.h, with or without \<open>MY_ATOMIC_NO_XADD\<close>.\<close>

definition x86_gcc :: "bool \<Rightarrow> 'w::len word machine" where
  "x86_gcc no_xadd =
     \<lparr>make_atomic_cas_body = cas_body_x86,
      make_atomic_add_body = (if no_xadd then None else Some fetchAndAdd),
      make_atomic_fas_body = Some exchange,
      make_atomic_load_body = Some (\<lambda>x. case cmpxchg x 0 0 of (y, eax, zf) \<Rightarrow> (y, eax)),
      make_atomic_store_body = Some (\<lambda>x v. fst (exchange x v))\<rparr>"

text \<open>The platforms without lock: those nolock.h finds a header for, in a build for several processors.\<close>

definition platforms :: "'w::len word machine set" where
  "platforms = {gcc_builtins, generic_msvc, x86_gcc False, x86_gcc True}"

text \<open>A platform is sound if each body it has does the whole call.\<close>

definition sound :: "'a::{plus,zero} machine \<Rightarrow> bool" where
  "sound M \<longleftrightarrow> make_atomic_cas_body M = casSpec
     \<and> (\<forall>f x v. make_atomic_add_body M = Some f \<longrightarrow> f x v = (x + v, x))
     \<and> (\<forall>f x v. make_atomic_fas_body M = Some f \<longrightarrow> f x v = (v, x))
     \<and> (\<forall>f x. make_atomic_load_body M = Some f \<longrightarrow> f x = (x, x))
     \<and> (\<forall>f x v. make_atomic_store_body M = Some f \<longrightarrow> f x v = v)"

lemma platforms_sound: "M \<in> platforms \<Longrightarrow> sound M"
  by (auto simp: platforms_def sound_def gcc_builtins_def generic_msvc_def x86_gcc_def cas_bodies fetchAndAdd_def
      fetchAndOr_def exchange_def compareExchange_def cmpxchg_def)

lemma sound_cas [simp]: "sound M \<Longrightarrow> make_atomic_cas_body M = casSpec"
  by (simp add: sound_def)

section \<open>Calls and loops\<close>

text \<open>A call is its platform's body, one access, or the body my\_atomic.h falls back to, most of them loops around
  compare-and-swap.\<close>

text \<open>Where a thread is: idle; called and not yet begun; in the loop of an addition or of a swap with \<open>tmp\<close>.  A store is a
  swap whose result is dropped.\<close>

datatype 'a control = Idle | Called "'a call" | Adding 'a 'a | Swapping "'a call" 'a 'a

text \<open>One access of a thread to the cell: the cell, the new control, and the answer if the call is finished.\<close>

definition advance_cas :: "'a machine \<Rightarrow> 'a \<Rightarrow> 'a \<Rightarrow> 'a \<Rightarrow> 'a \<times> 'a control \<times> ('a call \<times> 'a answer) option" where
  "advance_cas M x cmp new =
     (case make_atomic_cas_body M x cmp new of (y, ret, cmp') \<Rightarrow> (y, Idle, Some (Cas cmp new, Swapped ret cmp')))"

definition advance_add :: "'a machine \<Rightarrow> 'a \<Rightarrow> 'a \<Rightarrow> 'a \<times> 'a control \<times> ('a call \<times> 'a answer) option" where
  "advance_add M x v =
     (case make_atomic_add_body M of
        Some f \<Rightarrow> (case f x v of (y, v') \<Rightarrow> (y, Idle, Some (Add v, Old v')))
      | None \<Rightarrow> (x, Adding v x, None))"

definition advance_fas :: "'a machine \<Rightarrow> 'a \<Rightarrow> 'a \<Rightarrow> 'a \<times> 'a control \<times> ('a call \<times> 'a answer) option" where
  "advance_fas M x v =
     (case make_atomic_fas_body M of
        Some f \<Rightarrow> (case f x v of (y, v') \<Rightarrow> (y, Idle, Some (Fas v, Old v')))
      | None \<Rightarrow> (x, Swapping (Fas v) v x, None))"

definition advance_load :: "'a::zero machine \<Rightarrow> 'a \<Rightarrow> 'a \<times> 'a control \<times> ('a call \<times> 'a answer) option" where
  "advance_load M x =
     (case make_atomic_load_body M of
        Some f \<Rightarrow> (case f x of (y, ret) \<Rightarrow> (y, Idle, Some (Load, Old ret)))
      | None \<Rightarrow> (case make_atomic_cas_body M x 0 0 of (y, b, ret) \<Rightarrow> (y, Idle, Some (Load, Old ret))))"

definition advance_store :: "'a machine \<Rightarrow> 'a \<Rightarrow> 'a \<Rightarrow> 'a \<times> 'a control \<times> ('a call \<times> 'a answer) option" where
  "advance_store M x v =
     (case make_atomic_store_body M of
        Some f \<Rightarrow> (f x v, Idle, Some (Store v, Stored))
      | None \<Rightarrow>
          (case make_atomic_fas_body M of
             Some f \<Rightarrow> (fst (f x v), Idle, Some (Store v, Stored))
           | None \<Rightarrow> (x, Swapping (Store v) v x, None)))"

fun advance :: "'a::{plus,zero} machine \<Rightarrow> 'a \<Rightarrow> 'a control \<Rightarrow> ('a \<times> 'a control \<times> ('a call \<times> 'a answer) option) option" where
  "advance M x Idle = None"
| "advance M x (Called (Cas cmp new)) = Some (advance_cas M x cmp new)"
| "advance M x (Called (Add v)) = Some (advance_add M x v)"
| "advance M x (Called (Fas v)) = Some (advance_fas M x v)"
| "advance M x (Called (Store v)) = Some (advance_store M x v)"
| "advance M x (Called Load) = Some (advance_load M x)"
| "advance M x (Adding v tmp) =
     (case make_atomic_cas_body M x tmp (tmp + v) of (y, ret, tmp') \<Rightarrow>
        if ret then Some (y, Idle, Some (Add v, Old tmp')) else Some (y, Adding v tmp', None))"
| "advance M x (Swapping c v tmp) =
     (case make_atomic_cas_body M x tmp v of (y, ret, tmp') \<Rightarrow>
        if ret then Some (y, Idle, Some (c, (case c of Store _ \<Rightarrow> Stored | _ \<Rightarrow> Old tmp')))
        else Some (y, Swapping c v tmp', None))"

lemmas advance_calls = advance_cas_def advance_add_def advance_fas_def advance_load_def advance_store_def

lemma advance_called:
  assumes "sound M" "advance M x (Called c) = Some (y, k, e)"
  shows "e = None \<and> y = x \<and> ((\<exists>v. c = Add v \<and> k = Adding v x) \<or> (\<exists>v. (c = Fas v \<or> c = Store v) \<and> k = Swapping c v x))
    \<or> e = Some (c, snd (whole c x)) \<and> y = fst (whole c x) \<and> k = Idle"
  using assms by (cases c) (auto simp: advance_calls sound_def casSpec_def split: option.splits prod.splits if_splits)

section \<open>Interleavings\<close>

datatype 'a label = Invoke nat "'a call" | Internal nat | Finish nat "'a call" "'a answer"

type_synonym 'a threads = "nat \<Rightarrow> 'a control"

inductive machine_run :: "'a::{plus,zero} machine \<Rightarrow> 'a \<times> 'a threads \<Rightarrow> 'a label list \<Rightarrow> 'a \<times> 'a threads \<Rightarrow> bool" for M where
  run_start: "machine_run M s [] s"
| run_invoke: "machine_run M s ls (x, ts) \<Longrightarrow> ts t = Idle \<Longrightarrow> machine_run M s (ls @ [Invoke t c]) (x, ts(t := Called c))"
| run_internal: "machine_run M s ls (x, ts) \<Longrightarrow> advance M x (ts t) = Some (y, k, None)
    \<Longrightarrow> machine_run M s (ls @ [Internal t]) (y, ts(t := k))"
| run_finish: "machine_run M s ls (x, ts) \<Longrightarrow> advance M x (ts t) = Some (y, k, Some (c, r))
    \<Longrightarrow> machine_run M s (ls @ [Finish t c r]) (y, ts(t := k))"

text \<open>The calls of a run in the order in which they finish; of one thread, the calls it made and those it has finished.\<close>

fun finished :: "'a label list \<Rightarrow> ('a call \<times> 'a answer) list" where
  "finished [] = []"
| "finished (Finish t c r # ls) = (c, r) # finished ls"
| "finished (_ # ls) = finished ls"

fun callsOf :: "nat \<Rightarrow> 'a label list \<Rightarrow> 'a call list" where
  "callsOf t [] = []"
| "callsOf t (Invoke u c # ls) = (if u = t then [c] else []) @ callsOf t ls"
| "callsOf t (_ # ls) = callsOf t ls"

fun finishedOf :: "nat \<Rightarrow> 'a label list \<Rightarrow> 'a call list" where
  "finishedOf t [] = []"
| "finishedOf t (Finish u c r # ls) = (if u = t then [c] else []) @ finishedOf t ls"
| "finishedOf t (_ # ls) = finishedOf t ls"

fun pending :: "'a control \<Rightarrow> 'a call list" where
  "pending Idle = []"
| "pending (Called c) = [c]"
| "pending (Adding v tmp) = [Add v]"
| "pending (Swapping c v tmp) = [c]"

lemma label_append [simp]:
  "finished (ls @ ms) = finished ls @ finished ms"
  "callsOf t (ls @ ms) = callsOf t ls @ callsOf t ms"
  "finishedOf t (ls @ ms) = finishedOf t ls @ finishedOf t ms"
  by (induction ls rule: finished.induct; simp)+

text \<open>The call a swap works for.\<close>

fun control_ok :: "'a control \<Rightarrow> bool" where
  "control_ok (Swapping c v tmp) \<longleftrightarrow> c = Fas v \<or> c = Store v"
| "control_ok _ \<longleftrightarrow> True"

text \<open>A step that does not finish leaves the cell alone; a step that finishes does the whole call.\<close>

lemma advance_internal:
  assumes "advance M x k = Some (y, k', None)" "control_ok k" "sound M"
  shows "y = x \<and> pending k' = pending k \<and> control_ok k'"
proof (cases k)
  case (Called c)
  with advance_called [OF assms(3)] assms(1) show ?thesis by fastforce
qed (use assms in \<open>auto simp: casSpec_def Let_def split: if_splits\<close>)

lemma advance_finish:
  assumes "advance M x k = Some (y, k', Some (c, r))" "control_ok k" "sound M"
  shows "whole c x = (y, r) \<and> pending k = [c] \<and> k' = Idle"
proof (cases k)
  case (Called d)
  with advance_called [OF assms(3)] assms(1) show ?thesis by fastforce
qed (use assms in \<open>auto simp: casSpec_def Let_def split: if_splits\<close>)

lemma machine_refines:
  assumes "machine_run M s ls s'" "\<And>t. control_ok (snd s t)" "sound M"
  shows "replay (finished ls) (fst s) = Some (fst s') \<and> (\<forall>t. control_ok (snd s' t))
     \<and> (\<forall>t. finishedOf t ls @ pending (snd s' t) = pending (snd s t) @ callsOf t ls)"
  using assms
proof (induction rule: machine_run.induct)
  case (run_invoke s ls x ts t c)
  then have IH: "finishedOf u ls @ pending (ts u) = pending (snd s u) @ callsOf u ls" for u by auto
  have "finishedOf u (ls @ [Invoke t c]) @ pending ((ts(t := Called c)) u) = pending (snd s u) @ callsOf u (ls @ [Invoke t c])" for u
    using IH [of u] run_invoke.hyps(2) by (cases "u = t") auto
  with run_invoke show ?case by auto
next
  case (run_internal s ls x ts t y k)
  then have IH: "finishedOf u ls @ pending (ts u) = pending (snd s u) @ callsOf u ls" for u by auto
  have k: "y = x" "pending k = pending (ts t)" "control_ok k"
    using advance_internal [OF run_internal.hyps(2)] run_internal by auto
  have "finishedOf u (ls @ [Internal t]) @ pending ((ts(t := k)) u) = pending (snd s u) @ callsOf u (ls @ [Internal t])" for u
    using IH [of u] k by (cases "u = t") auto
  with run_internal k show ?case by auto
next
  case (run_finish s ls x ts t y k c r)
  then have IH: "finishedOf u ls @ pending (ts u) = pending (snd s u) @ callsOf u ls" for u by auto
  have k: "whole c x = (y, r)" "pending (ts t) = [c]" "k = Idle"
    using advance_finish [OF run_finish.hyps(2)] run_finish by auto
  have "finishedOf u (ls @ [Finish t c r]) @ pending ((ts(t := k)) u) = pending (snd s u) @ callsOf u (ls @ [Finish t c r])" for u
    using IH [of u] k by (cases "u = t") auto
  with run_finish k show ?case by (auto simp: replay_append)
qed simp

text \<open>A schedule: which thread calls or moves next.\<close>

fun perform :: "'a::{plus,zero} machine \<Rightarrow> (nat \<times> 'a call option) list \<Rightarrow> 'a label list \<times> 'a \<times> 'a threads
    \<Rightarrow> ('a label list \<times> 'a \<times> 'a threads) option" where
  "perform M [] s = Some s"
| "perform M ((t, Some c) # acts) (ls, x, ts) =
     (case ts t of Idle \<Rightarrow> perform M acts (ls @ [Invoke t c], x, ts(t := Called c)) | _ \<Rightarrow> None)"
| "perform M ((t, None) # acts) (ls, x, ts) =
     (case advance M x (ts t) of
        None \<Rightarrow> None
      | Some (y, k, None) \<Rightarrow> perform M acts (ls @ [Internal t], y, ts(t := k))
      | Some (y, k, Some (c, r)) \<Rightarrow> perform M acts (ls @ [Finish t c r], y, ts(t := k)))"

lemma perform_run:
  "perform M acts (ls, x, ts) = Some (ls', y, us) \<Longrightarrow> machine_run M s ls (x, ts) \<Longrightarrow> machine_run M s ls' (y, us)"
proof (induction acts arbitrary: ls x ts)
  case (Cons a acts)
  obtain t c where a: "a = (t, c)" by (cases a)
  show ?case
  proof (cases c)
    case (Some d)
    with Cons a have "ts t = Idle" "perform M acts (ls @ [Invoke t d], x, ts(t := Called d)) = Some (ls', y, us)"
      by (auto split: control.splits)
    with Cons.IH run_invoke [OF Cons.prems(2)] show ?thesis by blast
  next
    case None
    with Cons a obtain z k e where adv: "advance M x (ts t) = Some (z, k, e)" by (auto split: option.splits)
    show ?thesis
    proof (cases e)
      case e: None
      have "perform M acts (ls @ [Internal t], z, ts(t := k)) = Some (ls', y, us)"
        using Cons.prems(1) a None adv e by simp
      with Cons.IH run_internal [OF Cons.prems(2) adv [unfolded e]] show ?thesis by blast
    next
      case e: (Some p)
      obtain d r where p: "p = (d, r)" by (cases p)
      have "perform M acts (ls @ [Finish t d r], z, ts(t := k)) = Some (ls', y, us)"
        using Cons.prems(1) a None adv e p by simp
      with Cons.IH run_finish [OF Cons.prems(2) adv [unfolded e p]] show ?thesis by blast
    qed
  qed
qed simp

text \<open>C9. However threads interleave, the operations are atomic: the calls that have finished give their answers and the
  cell its value as if they had run in one piece, one after the other in the order in which they finish; and every
  thread finishes its calls once each, in the order in which it made them.\<close>

theorem atomic_calls_linearize:
  assumes "machine_run M (x, \<lambda>_. Idle) ls (y, us)" and "M \<in> platforms"
  shows "replay (finished ls) x = Some y \<and> (\<forall>t. finishedOf t ls @ pending (us t) = callsOf t ls)"
  using machine_refines [OF assms(1) _ platforms_sound [OF assms(2)]] by simp

text \<open>Two additions that read the same value, where the processor has no \<open>xadd\<close>: the second one has to try again.\<close>

definition twoAdds :: "(nat \<times> 32 word call option) list" where
  "twoAdds = [(0, Some (Add 1)), (1, Some (Add 2)), (0, None), (1, None), (0, None), (1, None), (1, None)]"

theorem atomic_calls_linearize_witness:
  "\<exists>ls us. perform (x86_gcc True) twoAdds ([], 0, \<lambda>_. Idle) = Some (ls, 3, us) \<and> replay (finished ls) 0 = Some 3"
proof -
  obtain ls us where run: "perform (x86_gcc True) twoAdds ([], 0, \<lambda>_. Idle) = Some (ls, 3, us)"
    by (simp add: twoAdds_def x86_gcc_def advance_calls cas_body_x86_def cmpxchg_def Let_def)
  have "x86_gcc True \<in> platforms" by (simp add: platforms_def)
  from atomic_calls_linearize [OF perform_run [OF run run_start] this] run show ?thesis by auto
qed

section \<open>Some call always finishes\<close>

text \<open>How many accesses a thread makes at most before its call finishes, if no other call does.\<close>

fun rank :: "'a \<Rightarrow> 'a control \<Rightarrow> nat" where
  "rank x Idle = 0"
| "rank x (Called c) = 2"
| "rank x (Adding v tmp) = (if tmp = x then 1 else 2)"
| "rank x (Swapping c v tmp) = (if tmp = x then 1 else 2)"

lemma rank_decreases:
  assumes "advance M x k = Some (y, k', None)" "sound M"
  shows "y = x \<and> rank x k' < rank x k \<and> k \<noteq> Idle"
proof (cases k)
  case (Called c)
  with advance_called [OF assms(2)] assms(1) show ?thesis by fastforce
qed (use assms in \<open>auto simp: casSpec_def Let_def split: if_splits\<close>)

lemma internal_runs_short:
  assumes "machine_run M s ls s'" "\<forall>l \<in> set ls. \<exists>t. l = Internal t" "finite {t. snd s t \<noteq> Idle}" "sound M"
  shows "fst s' = fst s \<and> (\<forall>t. snd s t = Idle \<longrightarrow> snd s' t = Idle)
    \<and> (\<Sum>t \<in> {t. snd s t \<noteq> Idle}. rank (fst s) (snd s' t)) + length ls \<le> (\<Sum>t \<in> {t. snd s t \<noteq> Idle}. rank (fst s) (snd s t))"
  using assms
proof (induction rule: machine_run.induct)
  case (run_internal s ls x ts t y k)
  let ?T = "{t. snd s t \<noteq> Idle}"
  from run_internal have IH: "x = fst s" "\<forall>t. snd s t = Idle \<longrightarrow> ts t = Idle"
    "(\<Sum>t \<in> ?T. rank (fst s) (ts t)) + length ls \<le> (\<Sum>t \<in> ?T. rank (fst s) (snd s t))" by auto
  from rank_decreases [OF run_internal.hyps(2) run_internal.prems(3)] have k: "y = x" "rank x k < rank x (ts t)" "ts t \<noteq> Idle" by auto
  then have t: "t \<in> ?T" using IH(2) by auto
  have "(\<Sum>u \<in> ?T. rank x ((ts(t := k)) u)) = rank x k + (\<Sum>u \<in> ?T - {t}. rank x (ts u))"
    using run_internal.prems(2) t by (subst sum.remove [of _ t]) auto
  moreover have "(\<Sum>u \<in> ?T. rank x (ts u)) = rank x (ts t) + (\<Sum>u \<in> ?T - {t}. rank x (ts u))"
    using run_internal.prems(2) t by (subst sum.remove [of _ t]) auto
  ultimately show ?case using IH k t by auto
qed auto

lemma advance_goes_on: "k \<noteq> Idle \<Longrightarrow> advance M x k \<noteq> None"
proof (cases k)
  case (Called c)
  then show "advance M x k \<noteq> None" by (cases c) simp_all
qed (simp_all add: split_def)

text \<open>C24. No thread can hold up the others: while no call is made and none finishes, the threads together make at most two
  accesses for each busy one, and a busy thread can always go on; so some call finishes.\<close>

theorem atomic_calls_lock_free:
  assumes "machine_run M s ls s'" and "M \<in> platforms"
    and "\<forall>l \<in> set ls. \<exists>t. l = Internal t" and "finite {t. snd s t \<noteq> Idle}"
  shows "length ls \<le> 2 * card {t. snd s t \<noteq> Idle} \<and> (\<forall>t. snd s' t \<noteq> Idle \<longrightarrow> advance M (fst s') (snd s' t) \<noteq> None)"
proof (intro conjI allI impI)
  from internal_runs_short [OF assms(1,3,4) platforms_sound [OF assms(2)]]
  have "length ls \<le> (\<Sum>t \<in> {t. snd s t \<noteq> Idle}. rank (fst s) (snd s t))" by linarith
  also have "\<dots> \<le> (\<Sum>t \<in> {t. snd s t \<noteq> Idle}. 2)"
  proof (rule sum_mono)
    fix t show "rank (fst s) (snd s t) \<le> 2" by (cases "snd s t") auto
  qed
  finally show "length ls \<le> 2 * card {t. snd s t \<noteq> Idle}" by simp
  fix t assume "snd s' t \<noteq> Idle"
  then show "advance M (fst s') (snd s' t) \<noteq> None" by (rule advance_goes_on)
qed

theorem atomic_calls_lock_free_witness:
  "length [Internal 0, Internal 1 :: 32 word label] \<le> 2 * card {t :: nat. (if t = 0 then Called (Fas 1) else if t = 1 then Called (Fas (2 :: 32 word)) else Idle) \<noteq> Idle}"
proof -
  let ?ts = "\<lambda>t :: nat. if t = 0 then Called (Fas 1) else if t = 1 then Called (Fas (2 :: 32 word)) else Idle"
  have "{t. ?ts t \<noteq> Idle} \<subseteq> {0, 1}" by auto
  then have busy: "finite {t. ?ts t \<noteq> Idle}" by (rule finite_subset) simp
  have "perform gcc_builtins [(0, None), (1, None)] ([], 5, ?ts)
      = Some ([Internal 0, Internal 1], 5, ?ts(0 := Swapping (Fas 1) 1 5, 1 := Swapping (Fas 2) 2 5))"
    by (simp add: gcc_builtins_def advance_calls)
  note run = perform_run [OF this run_start]
  have fin: "finite {t. snd (5 :: 32 word, ?ts) t \<noteq> Idle}" unfolding snd_conv by (rule busy)
  have lab: "\<forall>l \<in> set [Internal 0, Internal 1 :: 32 word label]. \<exists>t. l = Internal t" by simp
  from atomic_calls_lock_free [OF run _ lab fin] show ?thesis unfolding snd_conv by (simp only: platforms_def insert_iff simp_thms)
qed

section \<open>Under a lock\<close>

text \<open>The bodies of rwlock.h: every read and every write of the cell is a step of its own, and \<open>*a += v\<close> is both.
  A call waits for the lock, enters, reads and writes, and gives the lock back.\<close>

datatype 'a lcontrol = LIdle | LWaiting "'a call" | LEntered "'a call" | LSav "'a call" 'a | LReread "'a call" 'a 'a
  | LDone "'a call" "'a answer"

fun laccess :: "'a::plus \<Rightarrow> 'a lcontrol \<Rightarrow> ('a \<times> 'a lcontrol) option" where
  "laccess x (LEntered (Store v)) = Some (v, LDone (Store v) Stored)"
| "laccess x (LEntered Load) = Some (x, LDone Load (Old x))"
| "laccess x (LEntered c) = Some (x, LSav c x)"
| "laccess x (LSav (Add v) sav) = Some (x, LReread (Add v) sav x)"
| "laccess x (LReread (Add v) sav cur) = Some (cur + v, LDone (Add v) (Old sav))"
| "laccess x (LSav (Fas v) sav) = Some (v, LDone (Fas v) (Old sav))"
| "laccess x (LSav (Cas cmp new) sav) =
     (if sav = cmp then Some (new, LDone (Cas cmp new) (Swapped True cmp))
      else Some (x, LDone (Cas cmp new) (Swapped False x)))"
| "laccess x _ = None"

text \<open>The cell, the thread that has the lock, the threads.  In dummy mode the lock macros do nothing.\<close>

type_synonym 'a locked = "'a \<times> nat option \<times> (nat \<Rightarrow> 'a lcontrol)"

fun lmove :: "bool \<Rightarrow> nat \<Rightarrow> 'a::plus locked \<Rightarrow> ('a label \<times> 'a locked) option" where
  "lmove dummy t (x, owner, ts) =
     (case ts t of
        LIdle \<Rightarrow> None
      | LWaiting c \<Rightarrow>
          if dummy then Some (Internal t, x, owner, ts(t := LEntered c))
          else if owner = None then Some (Internal t, x, Some t, ts(t := LEntered c)) else None
      | LDone c r \<Rightarrow> Some (Finish t c r, x, if dummy then owner else None, ts(t := LIdle))
      | k \<Rightarrow> (case laccess x k of None \<Rightarrow> None | Some (y, k') \<Rightarrow> Some (Internal t, y, owner, ts(t := k'))))"

inductive locked_run :: "bool \<Rightarrow> 'a::plus locked \<Rightarrow> 'a label list \<Rightarrow> 'a locked \<Rightarrow> bool" for dummy where
  lrun_start: "locked_run dummy s [] s"
| lrun_invoke: "locked_run dummy s ls (x, owner, ts) \<Longrightarrow> ts t = LIdle
    \<Longrightarrow> locked_run dummy s (ls @ [Invoke t c]) (x, owner, ts(t := LWaiting c))"
| lrun_move: "locked_run dummy s ls s' \<Longrightarrow> lmove dummy t s' = Some (l, s'') \<Longrightarrow> locked_run dummy s (ls @ [l]) s''"

fun lpending :: "'a lcontrol \<Rightarrow> 'a call list" where
  "lpending LIdle = []"
| "lpending (LWaiting c) = [c]"
| "lpending (LEntered c) = [c]"
| "lpending (LSav c sav) = [c]"
| "lpending (LReread c sav cur) = [c]"
| "lpending (LDone c r) = [c]"

text \<open>What the thread with the lock has seen and done, when \<open>y\<close> is the value it found.\<close>

fun view_ok :: "'a::{plus,zero} \<Rightarrow> 'a \<Rightarrow> 'a lcontrol \<Rightarrow> bool" where
  "view_ok y x (LEntered c) \<longleftrightarrow> x = y"
| "view_ok y x (LSav c sav) \<longleftrightarrow> x = y \<and> sav = y"
| "view_ok y x (LReread c sav cur) \<longleftrightarrow> x = y \<and> sav = y \<and> cur = y"
| "view_ok y x (LDone c r) \<longleftrightarrow> whole c y = (x, r)"
| "view_ok y x _ \<longleftrightarrow> False"

fun outside :: "'a lcontrol \<Rightarrow> bool" where
  "outside LIdle \<longleftrightarrow> True"
| "outside (LWaiting c) \<longleftrightarrow> True"
| "outside _ \<longleftrightarrow> False"

definition lock_ok :: "'a::{plus,zero} \<Rightarrow> 'a locked \<Rightarrow> bool" where
  "lock_ok y s = (case s of (x, owner, ts) \<Rightarrow>
     (\<forall>t. owner \<noteq> Some t \<longrightarrow> outside (ts t))
     \<and> (case owner of None \<Rightarrow> x = y | Some t \<Rightarrow> view_ok y x (ts t)))"

lemma laccess_ok:
  "laccess x k = Some (x', k') \<Longrightarrow> view_ok y x k \<Longrightarrow> view_ok y x' k' \<and> lpending k' = lpending k"
  by (induction x k rule: laccess.induct) (auto split: if_splits)

lemma lmove_ok:
  assumes "lmove False t s = Some (l, s')" "lock_ok y s"
  shows "(\<exists>c r. l = Finish t c r \<and> snd (whole c y) = r \<and> lock_ok (fst (whole c y)) s' \<and> lpending (snd (snd s) t) = [c] \<and> lpending (snd (snd s') t) = [])
    \<or> l = Internal t \<and> lock_ok y s' \<and> lpending (snd (snd s') t) = lpending (snd (snd s) t)"
proof -
  obtain x owner ts where s: "s = (x, owner, ts)" by (cases s)
  have in_lock: ?thesis if k: "ts t = k" "\<not> outside k" "laccess x k = Some (z, k')" "l = Internal t" "s' = (z, owner, ts(t := k'))" for k z k'
  proof -
    from assms(2) k(1,2) have "owner = Some t" by (auto simp: lock_ok_def s)
    with assms(2) k laccess_ok [OF k(3), of y] show ?thesis by (auto simp: lock_ok_def s)
  qed
  show ?thesis
  proof (cases "ts t")
    case (LWaiting c)
    with assms s show ?thesis by (auto simp: lock_ok_def split: if_splits option.splits)
  next
    case (LDone c r)
    with assms(2) s have "owner = Some t" by (auto simp: lock_ok_def)
    with LDone assms s show ?thesis by (auto simp: lock_ok_def split: if_splits)
  next
    case (LEntered c)
    with assms(1) s in_lock show ?thesis by (auto split: option.splits)
  next
    case (LSav c sav)
    with assms(1) s in_lock show ?thesis by (auto split: option.splits)
  next
    case (LReread c sav cur)
    with assms(1) s in_lock show ?thesis by (auto split: option.splits)
  qed (use assms s in auto)
qed

lemma lmove_others: "lmove dummy t s = Some (l, s') \<Longrightarrow> u \<noteq> t \<Longrightarrow> snd (snd s') u = snd (snd s) u"
  by (cases s) (auto split: lcontrol.splits if_splits option.splits)

lemma locked_refines:
  assumes "locked_run False s ls s'" "lock_ok x s"
  shows "\<exists>y. replay (finished ls) x = Some y \<and> lock_ok y s'
    \<and> (\<forall>t. finishedOf t ls @ lpending (snd (snd s') t) = lpending (snd (snd s) t) @ callsOf t ls)"
  using assms
proof (induction rule: locked_run.induct)
  case (lrun_invoke s ls z owner ts t c)
  then obtain y where y: "replay (finished ls) x = Some y" "lock_ok y (z, owner, ts)"
    and IH: "\<And>u. finishedOf u ls @ lpending (ts u) = lpending (snd (snd s) u) @ callsOf u ls" by auto
  have "lock_ok y (z, owner, ts(t := LWaiting c))"
    using y(2) lrun_invoke.hyps(2) by (auto simp: lock_ok_def split: option.splits)
  moreover have "finishedOf u (ls @ [Invoke t c]) @ lpending ((ts(t := LWaiting c)) u)
      = lpending (snd (snd s) u) @ callsOf u (ls @ [Invoke t c])" for u
    using IH [of u] lrun_invoke.hyps(2) by (cases "u = t") auto
  ultimately show ?case using y by auto
next
  case (lrun_move s ls s' t l s'')
  then obtain y where y: "replay (finished ls) x = Some y" "lock_ok y s'"
    and IH: "\<And>u. finishedOf u ls @ lpending (snd (snd s') u) = lpending (snd (snd s) u) @ callsOf u ls" by auto
  note others = lmove_others [OF lrun_move.hyps(2)]
  from lmove_ok [OF lrun_move.hyps(2) y(2)] show ?case
  proof (elim disjE exE conjE)
    fix c r assume l: "l = Finish t c r" "snd (whole c y) = r" "lock_ok (fst (whole c y)) s''"
      "lpending (snd (snd s') t) = [c]" "lpending (snd (snd s'') t) = []"
    have "finishedOf u (ls @ [l]) @ lpending (snd (snd s'') u) = lpending (snd (snd s) u) @ callsOf u (ls @ [l])" for u
      using IH [of u] l others [of u] by (cases "u = t") auto
    then show ?thesis using y l by (auto simp: replay_append split_def)
  next
    assume l: "l = Internal t" "lock_ok y s''" "lpending (snd (snd s'') t) = lpending (snd (snd s') t)"
    have "finishedOf u (ls @ [l]) @ lpending (snd (snd s'') u) = lpending (snd (snd s) u) @ callsOf u (ls @ [l])" for u
      using IH [of u] l others [of u] by (cases "u = t") auto
    then show ?thesis using y l by auto
  qed
qed auto

text \<open>With the lock the bodies are atomic as well: whenever nobody has the lock, the finished calls replay to the cell.\<close>

theorem locked_calls_linearize:
  assumes "locked_run False (x, None, \<lambda>_. LIdle) ls (y, None, us)"
  shows "replay (finished ls) x = Some y \<and> (\<forall>t. finishedOf t ls @ lpending (us t) = callsOf t ls)"
  using locked_refines [OF assms, of x] by (auto simp: lock_ok_def)

text \<open>Without it an addition is lost: in dummy mode two threads read 0 and both write 1.\<close>

fun lperform :: "bool \<Rightarrow> nat list \<Rightarrow> 'a::plus label list \<times> 'a locked \<Rightarrow> ('a label list \<times> 'a locked) option" where
  "lperform dummy [] s = Some s"
| "lperform dummy (t # acts) (ls, s) =
     (case lmove dummy t s of None \<Rightarrow> None | Some (l, s') \<Rightarrow> lperform dummy acts (ls @ [l], s'))"

lemma lperform_run:
  "lperform dummy acts (ls, s) = Some (ls', s') \<Longrightarrow> locked_run dummy s0 ls s \<Longrightarrow> locked_run dummy s0 ls' s'"
proof (induction acts arbitrary: ls s)
  case (Cons t acts)
  then obtain l s1 where "lmove dummy t s = Some (l, s1)" "lperform dummy acts (ls @ [l], s1) = Some (ls', s')"
    by (auto split: option.splits simp del: lmove.simps)
  with Cons.IH lrun_move [OF Cons.prems(2)] show ?case by blast
qed simp

theorem dummy_mode_loses_updates:
  "\<exists>ls us. locked_run True (0 :: 32 word, None, \<lambda>_. LIdle) ls (1, None, us) \<and> finished ls = [(Add 1, Old 0), (Add 1, Old 0)]"
proof -
  let ?called = "(\<lambda>_. LIdle)(0 := LWaiting (Add 1), 1 := LWaiting (Add 1))"
  have "locked_run True (0 :: 32 word, None, \<lambda>_. LIdle) ([] @ [Invoke 0 (Add 1)] @ [Invoke 1 (Add 1)]) (0, None, ?called)"
    unfolding append_assoc [symmetric] by (intro lrun_invoke lrun_start) simp_all
  moreover have "\<exists>us. lperform True [0, 1, 0, 1, 0, 1, 0, 1, 0, 1] ([Invoke 0 (Add 1), Invoke 1 (Add 1)], 0 :: 32 word, None, ?called)
      = Some ([Invoke 0 (Add 1), Invoke 1 (Add 1), Internal 0, Internal 1, Internal 0, Internal 1, Internal 0, Internal 1,
          Internal 0, Internal 1, Finish 0 (Add 1) (Old 0), Finish 1 (Add 1) (Old 0)], 1, None, us)"
    by simp
  ultimately show ?thesis using lperform_run by fastforce
qed

end
