(* ===== verification/TimeValues.thy ===== *)
theory TimeValues
  imports Main "HOL-Library.Word"
begin

text \<open>
  Times: the record of mysql\_time.h, the range check and limits of my\_time.h, and the absolute time for a wait of
  my\_pthread.h.  The check is compared with the proleptic Gregorian calendar.  The fields of a time are
  natural numbers, as the check only compares them; the 64-bit arithmetic of the wait is done on words.
\<close>

section \<open>mysql\_time.h and my\_time.h\<close>

datatype enum_mysql_timestamp_type = MYSQL_TIMESTAMP_NONE | MYSQL_TIMESTAMP_ERROR | MYSQL_TIMESTAMP_DATE
  | MYSQL_TIMESTAMP_DATETIME | MYSQL_TIMESTAMP_TIME

record MYSQL_TIME =
  year :: nat
  month :: nat
  day :: nat
  hour :: nat
  minute :: nat
  second :: nat
  second_part :: nat
  neg :: bool
  time_type :: enum_mysql_timestamp_type

definition YY_PART_YEAR :: nat where "YY_PART_YEAR = 70"

definition TIMESTAMP_MAX_YEAR :: nat where "TIMESTAMP_MAX_YEAR = 2038"

definition TIMESTAMP_MIN_YEAR :: nat where "TIMESTAMP_MIN_YEAR = 1900 + YY_PART_YEAR - 1"

definition TIMESTAMP_MAX_VALUE :: int where "TIMESTAMP_MAX_VALUE = 0x7fffffff"

definition TIMESTAMP_MIN_VALUE :: int where "TIMESTAMP_MIN_VALUE = 1"

definition TIME_FUZZY_DATE :: nat where "TIME_FUZZY_DATE = 1"

definition TIME_DATETIME_ONLY :: nat where "TIME_DATETIME_ONLY = 2"

definition TIME_NO_ZERO_IN_DATE :: nat where "TIME_NO_ZERO_IN_DATE = 65536 * 2 * 2 * 2 * 2 * 2 * 2 * 2"

definition TIME_NO_ZERO_DATE :: nat where "TIME_NO_ZERO_DATE = TIME_NO_ZERO_IN_DATE * 2"

definition TIME_INVALID_DATES :: nat where "TIME_INVALID_DATES = TIME_NO_ZERO_DATE * 2"

definition TIME_MAX_HOUR :: nat where "TIME_MAX_HOUR = 838"

definition TIME_MAX_MINUTE :: nat where "TIME_MAX_MINUTE = 59"

definition TIME_MAX_SECOND :: nat where "TIME_MAX_SECOND = 59"

definition TIME_MAX_VALUE :: nat where
  "TIME_MAX_VALUE = TIME_MAX_HOUR * 10000 + TIME_MAX_MINUTE * 100 + TIME_MAX_SECOND"

definition TIME_MAX_VALUE_SECONDS :: nat where
  "TIME_MAX_VALUE_SECONDS = TIME_MAX_HOUR * 3600 + TIME_MAX_MINUTE * 60 + TIME_MAX_SECOND"

definition validate_timestamp_range :: "MYSQL_TIME \<Rightarrow> bool" where
  "validate_timestamp_range t =
     (if (year t > TIMESTAMP_MAX_YEAR \<or> year t < TIMESTAMP_MIN_YEAR)
         \<or> (year t = TIMESTAMP_MAX_YEAR \<and> (month t > 1 \<or> day t > 19))
         \<or> (year t = TIMESTAMP_MIN_YEAR \<and> (month t < 12 \<or> day t < 31))
      then False else True)"

section \<open>The calendar\<close>

definition leap :: "nat \<Rightarrow> bool" where
  "leap y \<longleftrightarrow> y mod 4 = 0 \<and> (y mod 100 \<noteq> 0 \<or> y mod 400 = 0)"

fun month_days :: "nat \<Rightarrow> nat list" where
  "month_days y = [31, if leap y then 29 else 28, 31, 30, 31, 30, 31, 31, 30, 31, 30, 31]"

text \<open>Days from the first day of year 0.\<close>

fun year_start :: "nat \<Rightarrow> nat" where
  "year_start 0 = 0"
| "year_start (Suc y) = year_start y + (if leap y then 366 else 365)"

definition day_number :: "MYSQL_TIME \<Rightarrow> nat" where
  "day_number t = year_start (year t) + sum_list (take (month t - 1) (month_days (year t))) + (day t - 1)"

definition calendar_time :: "MYSQL_TIME \<Rightarrow> bool" where
  "calendar_time t \<longleftrightarrow> 1 \<le> month t \<and> month t \<le> 12 \<and> 1 \<le> day t \<and> day t \<le> month_days (year t) ! (month t - 1)
     \<and> hour t < 24 \<and> minute t < 60 \<and> second t < 60"

text \<open>Seconds from the beginning of 1970, on the clock that shows the time.\<close>

definition clock_seconds :: "MYSQL_TIME \<Rightarrow> int" where
  "clock_seconds t = (int (day_number t) - int (year_start 1970)) * 86400
     + int (hour t) * 3600 + int (minute t) * 60 + int (second t)"

abbreviation year_days :: "nat \<Rightarrow> nat" where
  "year_days y \<equiv> if leap y then 366 else 365"

lemma year_start_mono: "y \<le> z \<Longrightarrow> year_start y \<le> year_start z"
  by (rule lift_Suc_mono_le [of year_start]) auto

lemma year_start_sum: "y \<le> z \<Longrightarrow> year_start z = year_start y + sum_list (map year_days [y..<z])"
  by (induction z rule: dec_induct) simp_all

lemma year_starts:
  "year_start 1970 = year_start 1969 + 365" "year_start 2038 = year_start 1970 + 24837"
proof -
  have "sum_list (map year_days [1969..<1970]) = 365" by (simp add: upt_rec_numeral leap_def)
  with year_start_sum [of 1969 1970] show "year_start 1970 = year_start 1969 + 365" by linarith
  have "sum_list (map year_days [1970..<2038]) = 24837" by (simp add: upt_rec_numeral leap_def)
  with year_start_sum [of 1970 2038] show "year_start 2038 = year_start 1970 + 24837" by linarith
qed

text \<open>The day in the year.\<close>

definition year_day :: "MYSQL_TIME \<Rightarrow> nat" where
  "year_day t = sum_list (take (month t - 1) (month_days (year t))) + (day t - 1)"

lemma month_cases: "1 \<le> m \<Longrightarrow> m \<le> 12 \<Longrightarrow> m \<in> {1, 2, 3, 4, 5, 6, 7, 8, 9, 10, 11, 12 :: nat}"
  by (auto simp: le_Suc_eq numeral_eq_Suc)

lemma year_day_bounds:
  assumes "calendar_time t"
  shows "year_day t < year_days (year t)"
    and "year t = 1969 \<Longrightarrow> month t \<ge> 12 \<and> day t \<ge> 31 \<longleftrightarrow> year_day t = 364"
    and "month t \<le> 1 \<and> day t \<le> 19 \<longleftrightarrow> year_day t < 19"
proof -
  have m: "month t \<in> {1, 2, 3, 4, 5, 6, 7, 8, 9, 10, 11, 12}"
    using assms by (intro month_cases) (auto simp: calendar_time_def)
  have d: "1 \<le> day t" "day t \<le> month_days (year t) ! (month t - 1)" using assms by (auto simp: calendar_time_def)
  show "year_day t < year_days (year t)" using m d by (auto simp: year_day_def)
  show "year t = 1969 \<Longrightarrow> month t \<ge> 12 \<and> day t \<ge> 31 \<longleftrightarrow> year_day t = 364"
    using m d by (auto simp: year_day_def leap_def)
  show "month t \<le> 1 \<and> day t \<le> 19 \<longleftrightarrow> year_day t < 19"
    using m d by (auto simp: year_day_def split: if_splits)
qed

lemma day_number_range:
  assumes "calendar_time t"
  shows "validate_timestamp_range t \<longleftrightarrow> year_start 1970 - 1 \<le> day_number t \<and> day_number t < year_start 1970 + 24856"
proof -
  have d: "day_number t = year_start (year t) + year_day t" by (simp add: day_number_def year_day_def)
  note b = year_day_bounds [OF assms]
  have next_year: "day_number t < year_start (Suc (year t))" using b(1) d by simp
  consider "year t \<le> 1968" | "year t = 1969" | "1970 \<le> year t" "year t \<le> 2037" | "year t = 2038" | "2039 \<le> year t"
    by linarith
  then show ?thesis
  proof cases
    case 1
    then have "day_number t < year_start 1969" using next_year year_start_mono [of "Suc (year t)" 1969] by linarith
    with 1 year_starts show ?thesis
      by (auto simp: validate_timestamp_range_def TIMESTAMP_MIN_YEAR_def TIMESTAMP_MAX_YEAR_def YY_PART_YEAR_def)
  next
    case 2
    then have "validate_timestamp_range t \<longleftrightarrow> year_day t = 364" unfolding b(2) [OF 2, symmetric]
      by (auto simp: validate_timestamp_range_def TIMESTAMP_MIN_YEAR_def TIMESTAMP_MAX_YEAR_def YY_PART_YEAR_def)
    moreover have "year_day t < 365" using b(1) 2 by (simp add: leap_def)
    ultimately show ?thesis using d 2 year_starts by auto
  next
    case 3
    then have "year_start 1970 \<le> day_number t" "day_number t < year_start 2038"
      using d next_year year_start_mono [of 1970 "year t"] year_start_mono [of "Suc (year t)" 2038] by linarith+
    with 3 year_starts show ?thesis
      by (auto simp: validate_timestamp_range_def TIMESTAMP_MIN_YEAR_def TIMESTAMP_MAX_YEAR_def YY_PART_YEAR_def)
  next
    case 4
    then have "validate_timestamp_range t \<longleftrightarrow> year_day t < 19" unfolding b(3) [symmetric]
      by (auto simp: validate_timestamp_range_def TIMESTAMP_MIN_YEAR_def TIMESTAMP_MAX_YEAR_def YY_PART_YEAR_def)
    then show ?thesis using d 4 year_starts by auto
  next
    case 5
    then have "year_start 2038 + 365 \<le> day_number t"
      using d year_start_mono [of 2039 "year t"] year_start.simps(2) [of 2038] by (simp add: leap_def)
    with 5 year_starts show ?thesis by (auto simp: validate_timestamp_range_def TIMESTAMP_MAX_YEAR_def)
  qed
qed

lemma days_seconds:
  "0 \<le> s \<Longrightarrow> s < 86400 \<Longrightarrow> - 1 \<le> d \<and> d < 24856 \<longleftrightarrow> - 86400 \<le> d * 86400 + s \<and> d * 86400 + s < 24856 * 86400"
  for d s :: int
proof (rule iffI)
  assume "0 \<le> s" "s < 86400" "- 86400 \<le> d * 86400 + s \<and> d * 86400 + s < 24856 * 86400"
  then show "- 1 \<le> d \<and> d < 24856" by linarith
qed linarith

text \<open>C30. The rough check of a time is exact to the day, with the answers the other way round than its comment says: it
  returns \<open>TRUE\<close> for a calendar time exactly from the last day of 1969 to 19 January 2038 and \<open>FALSE\<close> for one out of
  this range, where the comment promises \<open>FALSE\<close> for a sane value and \<open>TRUE\<close> for one that is definitely out of
  range.  So for every time that a clock anywhere (14 hours before to 12 hours behind Greenwich) shows at a moment a
  TIMESTAMP can hold it returns \<open>TRUE\<close>, against the comment.\<close>

theorem timestamp_check_exact:
  assumes "calendar_time t"
  shows "(validate_timestamp_range t \<longleftrightarrow> - 86400 \<le> clock_seconds t \<and> clock_seconds t < 24856 * 86400)
    \<and> (\<forall>zone. - 12 * 3600 \<le> zone \<and> zone \<le> 14 * 3600 \<and> TIMESTAMP_MIN_VALUE \<le> clock_seconds t - zone
         \<and> clock_seconds t - zone \<le> TIMESTAMP_MAX_VALUE \<longrightarrow> validate_timestamp_range t)"
proof -
  let ?d = "int (day_number t) - int (year_start 1970)" and ?s = "int (hour t) * 3600 + int (minute t) * 60 + int (second t)"
  have s: "0 \<le> ?s" "?s < 86400" using assms by (auto simp: calendar_time_def)
  have c: "clock_seconds t = ?d * 86400 + ?s" by (simp add: clock_seconds_def)
  have "validate_timestamp_range t \<longleftrightarrow> - 1 \<le> ?d \<and> ?d < 24856"
    unfolding day_number_range [OF assms] using year_starts(1) by linarith
  also have "\<dots> \<longleftrightarrow> - 86400 \<le> clock_seconds t \<and> clock_seconds t < 24856 * 86400" unfolding c using s by (rule days_seconds)
  finally show ?thesis by (auto simp: TIMESTAMP_MIN_VALUE_def TIMESTAMP_MAX_VALUE_def)
qed

theorem timestamp_check_exact_witness:
  "validate_timestamp_range \<lparr>year = 2038, month = 1, day = 19, hour = 17, minute = 14, second = 7, second_part = 0,
      neg = False, time_type = MYSQL_TIMESTAMP_DATETIME\<rparr>
   \<and> clock_seconds \<lparr>year = 2038, month = 1, day = 19, hour = 17, minute = 14, second = 7, second_part = 0,
      neg = False, time_type = MYSQL_TIMESTAMP_DATETIME\<rparr> < 24856 * 86400"
proof -
  let ?t = "\<lparr>year = 2038, month = 1, day = 19, hour = 17, minute = 14, second = 7, second_part = 0,
      neg = False, time_type = MYSQL_TIMESTAMP_DATETIME\<rparr>"
  have "calendar_time ?t" by (simp add: calendar_time_def)
  moreover have "validate_timestamp_range ?t"
    by (simp add: validate_timestamp_range_def TIMESTAMP_MIN_YEAR_def TIMESTAMP_MAX_YEAR_def YY_PART_YEAR_def)
  ultimately show ?thesis using timestamp_check_exact by blast
qed

section \<open>my\_pthread.h\<close>

text \<open>The absolute time \<open>nsec\<close> nanoseconds after \<open>time\<close>, which counts units of 100 nanoseconds.\<close>

record timespec =
  MY_tv_sec :: "64 word"
  MY_tv_nsec :: "64 word"

definition set_timespec_time_nsec :: "64 word \<Rightarrow> 64 word \<Rightarrow> timespec" where
  "set_timespec_time_nsec time nsec =
     (let now = time + nsec div 100
      in \<lparr>MY_tv_sec = now div 10000000, MY_tv_nsec = now mod 10000000 * 100 + nsec mod 100\<rparr>)"

definition set_timespec_nsec :: "64 word \<Rightarrow> 64 word \<Rightarrow> timespec" where
  "set_timespec_nsec my_getsystime nsec = set_timespec_time_nsec my_getsystime nsec"

definition set_timespec :: "64 word \<Rightarrow> 64 word \<Rightarrow> timespec" where
  "set_timespec my_getsystime sec = set_timespec_nsec my_getsystime (sec * 1000000000)"

text \<open>The absolute time of a wait is exact and normalized: unless the sum leaves 64 bits, seconds and nanoseconds add up
  to the time and the delay, and there are less than \<open>10 ^ 9\<close> nanoseconds.\<close>

theorem timespec_exact:
  assumes "uint time + uint nsec div 100 < 2 ^ 64"
  shows "uint (MY_tv_sec (set_timespec_nsec time nsec)) * 1000000000 + uint (MY_tv_nsec (set_timespec_nsec time nsec))
      = uint time * 100 + uint nsec
    \<and> uint (MY_tv_nsec (set_timespec_nsec time nsec)) < 1000000000"
proof -
  let ?n = "uint time + uint nsec div 100"
  have now: "uint (time + nsec div 100) = ?n"
  proof -
    have "0 \<le> ?n" by (intro add_nonneg_nonneg) (simp_all add: pos_imp_zdiv_nonneg_iff)
    then show ?thesis using assms by (simp add: uint_word_ariths(1) uint_div mod_pos_pos_trivial)
  qed
  have small: "0 \<le> uint x mod 10000000 * 100 + uint y mod 100" "uint x mod 10000000 * 100 + uint y mod 100 < 1000000000"
    for x y :: "64 word" by (simp, smt (verit) pos_mod_bound)
  have "uint (x mod 10000000 * 100 + y mod 100) = uint x mod 10000000 * 100 + uint y mod 100" for x y :: "64 word"
    using small [of x y] by (simp add: uint_word_ariths uint_mod mod_pos_pos_trivial)
  from this [of "time + nsec div 100" nsec]
  have "uint ((time + nsec div 100) mod 10000000 * 100 + nsec mod 100) = ?n mod 10000000 * 100 + uint nsec mod 100"
    unfolding now .
  moreover have "?n div 10000000 * 1000000000 + (?n mod 10000000 * 100 + uint nsec mod 100) = uint time * 100 + uint nsec"
    using div_mult_mod_eq [of ?n 10000000] div_mult_mod_eq [of "uint nsec" 100] by linarith
  ultimately show ?thesis using small(2) [of "time + nsec div 100" nsec] now
    by (simp add: set_timespec_nsec_def set_timespec_time_nsec_def Let_def uint_div)
qed

theorem timespec_exact_witness:
  "uint (MY_tv_sec (set_timespec_nsec 15000000 1500000050)) * 1000000000
     + uint (MY_tv_nsec (set_timespec_nsec 15000000 1500000050)) = 3000000050"
  using timespec_exact [of 15000000 1500000050] by simp

end
