(* ===== verification/AppStart.thy ===== *)
theory AppStart
  imports Foundation
begin

text \<open>
  The start of the application (AppDelegate.m): the three lazy getters of the Core Data stack, the path of
  the store, and the launch handler.  The frameworks are a parameter: what they create, over the state of
  the outside world \<open>'w\<close>, on which opening the store and creating objects act.
\<close>

section \<open>The frameworks as a parameter\<close>

text \<open>
  \<open>mergedModelFromBundles:\<close> may answer \<open>nil\<close>; \<open>initWithManagedObjectModel:\<close> raises for \<open>nil\<close>;
  \<open>addPersistentStoreWithType:\<close> answers whether it worked.
\<close>

record ('m, 'p, 'c, 'w) frameworks =
  mergedModel :: "'w \<Rightarrow> 'm option \<times> 'w"
  newCoordinator :: "'m option \<Rightarrow> 'w \<Rightarrow> ('p \<times> 'w) outcome"
  addStore :: "'p \<Rightarrow> string \<Rightarrow> 'w \<Rightarrow> bool \<times> 'w"
  newContext :: "'w \<Rightarrow> 'c \<times> 'w"
  setCoordinator :: "'c \<Rightarrow> 'p \<Rightarrow> 'w \<Rightarrow> 'w"
  documentDirectories :: "string list"

definition coordinator_law :: "('m, 'p, 'c, 'w) frameworks \<Rightarrow> bool" where
  "coordinator_law fw = (\<forall>w. \<exists>e. newCoordinator fw None w = Inl e)"

section \<open>AppDelegate\<close>

record ('m, 'p, 'c) app_delegate =
  model :: "'m option"
  coordinator :: "'p option"
  context_of :: "'c option"

definition launched :: "('m, 'p, 'c) app_delegate" where
  "launched = \<lparr>model = None, coordinator = None, context_of = None\<rparr>"

definition didFinishLaunching :: bool where
  "didFinishLaunching = True"

text \<open>\<open>lastObject\<close> of the directories, \<open>nil\<close> without any; a message to \<open>nil\<close> answers \<open>nil\<close>.\<close>

definition applicationDocumentsDirectory :: "('m, 'p, 'c, 'w) frameworks \<Rightarrow> string option" where
  "applicationDocumentsDirectory fw =
     (if documentDirectories fw = [] then None else Some (last (documentDirectories fw)))"

definition appendingPathComponent :: "string \<Rightarrow> string \<Rightarrow> string" where
  "appendingPathComponent p c =
     (if p = [] then c else if last p = CHR ''/'' then p @ c else p @ ''/'' @ c)"

text \<open>\<open>fileURLWithPath:\<close> raises for \<open>nil\<close>.\<close>

definition storeUrl :: "('m, 'p, 'c, 'w) frameworks \<Rightarrow> string outcome" where
  "storeUrl fw =
     (case map_option (\<lambda>p. appendingPathComponent p ''ServerManager.mom'') (applicationDocumentsDirectory fw) of
        None \<Rightarrow> Inl NSInvalidArgumentException
      | Some p \<Rightarrow> Inr p)"

definition managedObjectModel ::
  "('m, 'p, 'c, 'w) frameworks \<Rightarrow> ('m, 'p, 'c) app_delegate \<Rightarrow> 'w \<Rightarrow> 'm option \<times> ('m, 'p, 'c) app_delegate \<times> 'w"
where
  "managedObjectModel fw d w =
     (if model d \<noteq> None then (model d, d, w)
      else case mergedModel fw w of (m, w1) \<Rightarrow> (m, d\<lparr>model := m\<rparr>, w1))"

definition persistentStoreCoordinator ::
  "('m, 'p, 'c, 'w) frameworks \<Rightarrow> ('m, 'p, 'c) app_delegate \<Rightarrow> 'w
     \<Rightarrow> ('p option \<times> ('m, 'p, 'c) app_delegate \<times> 'w) outcome"
where
  "persistentStoreCoordinator fw d w =
     (if coordinator d \<noteq> None then Inr (coordinator d, d, w)
      else andThen (storeUrl fw) (\<lambda>url.
        case managedObjectModel fw d w of (m, d1, w1) \<Rightarrow>
          andThen (newCoordinator fw m w1) (\<lambda>(p, w2).
            case addStore fw p url w2 of (ok, w3) \<Rightarrow>
              Inr (Some p, d1\<lparr>coordinator := Some p\<rparr>, w3))))"

definition managedObjectContext ::
  "('m, 'p, 'c, 'w) frameworks \<Rightarrow> ('m, 'p, 'c) app_delegate \<Rightarrow> 'w
     \<Rightarrow> ('c option \<times> ('m, 'p, 'c) app_delegate \<times> 'w) outcome"
where
  "managedObjectContext fw d w =
     (if context_of d \<noteq> None then Inr (context_of d, d, w)
      else andThen (persistentStoreCoordinator fw d w) (\<lambda>(p, d1, w1).
        case p of
          None \<Rightarrow> Inr (context_of d1, d1, w1)
        | Some p \<Rightarrow>
            (case newContext fw w1 of (c, w2) \<Rightarrow>
               Inr (Some c, d1\<lparr>context_of := Some c\<rparr>, setCoordinator fw c p w2))))"

section \<open>Any order of calls\<close>

datatype getter = GetModel | GetCoordinator | GetContext

fun runGetter ::
  "('m, 'p, 'c, 'w) frameworks \<Rightarrow> getter \<Rightarrow> ('m, 'p, 'c) app_delegate \<Rightarrow> 'w
     \<Rightarrow> (('m, 'p, 'c) app_delegate \<times> 'w) outcome"
where
  "runGetter fw GetModel d w = Inr (snd (managedObjectModel fw d w))"
| "runGetter fw GetCoordinator d w = andThen (persistentStoreCoordinator fw d w) (\<lambda>r. Inr (snd r))"
| "runGetter fw GetContext d w = andThen (managedObjectContext fw d w) (\<lambda>r. Inr (snd r))"

fun runGetters ::
  "('m, 'p, 'c, 'w) frameworks \<Rightarrow> getter list \<Rightarrow> ('m, 'p, 'c) app_delegate \<Rightarrow> 'w
     \<Rightarrow> (('m, 'p, 'c) app_delegate \<times> 'w) outcome"
where
  "runGetters fw [] d w = Inr (d, w)"
| "runGetters fw (g # gs) d w = andThen (runGetter fw g d w) (\<lambda>(d1, w1). runGetters fw gs d1 w1)"

text \<open>The stack is built from below: a context has a coordinator, and a coordinator has a model.\<close>

definition stack_ok :: "('m, 'p, 'c) app_delegate \<Rightarrow> bool" where
  "stack_ok d = ((context_of d \<noteq> None \<longrightarrow> coordinator d \<noteq> None) \<and> (coordinator d \<noteq> None \<longrightarrow> model d \<noteq> None))"

lemma model_getter:
  assumes "managedObjectModel fw d w = (m, d', w')"
  shows "model d' = m \<and> coordinator d' = coordinator d \<and> context_of d' = context_of d
    \<and> (model d \<noteq> None \<longrightarrow> d' = d)"
  using assms by (auto simp: managedObjectModel_def split: if_splits prod.splits)

lemma coordinator_getter:
  assumes "persistentStoreCoordinator fw d w = Inr (p, d', w')" and "stack_ok d" and "coordinator_law fw"
  shows "p \<noteq> None \<and> coordinator d' = p \<and> context_of d' = context_of d \<and> stack_ok d'"
proof (cases "coordinator d = None")
  case False
  with assms(1,2) show ?thesis by (auto simp: persistentStoreCoordinator_def)
next
  case True
  obtain m d1 w1 where md: "managedObjectModel fw d w = (m, d1, w1)" by (cases "managedObjectModel fw d w")
  from True assms(1) md obtain q w2 where new: "newCoordinator fw m w1 = Inr (q, w2)"
    and res: "p = Some q" "d' = d1\<lparr>coordinator := Some q\<rparr>"
    by (auto simp: persistentStoreCoordinator_def andThen_Inr_iff case_prod_unfold)
  from new assms(3) have "m \<noteq> None" unfolding coordinator_law_def by (metis Inl_Inr_False)
  with model_getter [OF md] res show ?thesis by (auto simp: stack_ok_def)
qed

lemma getter_keeps:
  assumes "runGetter fw g d w = Inr (d', w')" and "stack_ok d" and "coordinator_law fw"
  shows "stack_ok d' \<and> (context_of d \<noteq> None \<longrightarrow> d' = d \<and> w' = w) \<and> (g = GetContext \<longrightarrow> context_of d' \<noteq> None)"
proof (cases g)
  case GetModel
  with assms(1,2) show ?thesis
    by (auto simp: managedObjectModel_def stack_ok_def split: if_splits prod.splits)
next
  case GetCoordinator
  with assms(1) obtain p where "persistentStoreCoordinator fw d w = Inr (p, d', w')"
    by (auto simp: andThen_Inr_iff)
  from coordinator_getter [OF this assms(2,3)] GetCoordinator assms(1,2) show ?thesis
    by (auto simp: persistentStoreCoordinator_def stack_ok_def)
next
  case GetContext
  show ?thesis
  proof (cases "context_of d = None")
    case False
    with GetContext assms(1,2) show ?thesis by (auto simp: managedObjectContext_def)
  next
    case True
    with GetContext assms(1) obtain p d1 w1 where p: "persistentStoreCoordinator fw d w = Inr (p, d1, w1)"
      and rest: "\<And>q. p = Some q \<Longrightarrow> d' = d1\<lparr>context_of := Some (fst (newContext fw w1))\<rparr>"
    proof -
      from GetContext assms(1) obtain r where m: "managedObjectContext fw d w = Inr r" and r: "d' = fst (snd r)"
        by (auto simp: andThen_Inr_iff)
      then obtain x where x: "persistentStoreCoordinator fw d w = Inr x"
        using True by (auto simp: managedObjectContext_def andThen_Inr_iff simp del: split_paired_Ex)
      obtain p d1 w1 where "x = (p, d1, w1)" by (cases x)
      with x m True have "p = Some q \<Longrightarrow> r = (case newContext fw w1 of (c, w2) \<Rightarrow>
               (Some c, d1\<lparr>context_of := Some c\<rparr>, setCoordinator fw c q w2))" for q
        by (simp add: managedObjectContext_def case_prod_unfold)
      then have c: "d' = d1\<lparr>context_of := Some (fst (newContext fw w1))\<rparr>" if "p = Some q" for q
        using that r by (auto simp: case_prod_unfold)
      from x \<open>x = (p, d1, w1)\<close> have "persistentStoreCoordinator fw d w = Inr (p, d1, w1)" by simp
      from that [OF this c] show thesis .
    qed
    from coordinator_getter [OF p assms(2,3)] rest True show ?thesis by (auto simp: stack_ok_def)
  qed
qed

lemma getters_keep:
  assumes "runGetters fw gs d w = Inr (d', w')" and "stack_ok d" and "coordinator_law fw"
  shows "stack_ok d' \<and> (context_of d \<noteq> None \<longrightarrow> d' = d \<and> w' = w)
    \<and> (GetContext \<in> set gs \<longrightarrow> context_of d' \<noteq> None)"
  using assms(1,2)
proof (induction gs arbitrary: d w)
  case (Cons g gs)
  from Cons.prems(1) obtain d1 w1 where one: "runGetter fw g d w = Inr (d1, w1)"
    and rest: "runGetters fw gs d1 w1 = Inr (d', w')" by (auto simp: andThen_Inr_iff)
  note k = getter_keeps [OF one Cons.prems(2) assms(3)]
  note IH = Cons.IH [OF rest]
  from k IH show ?case by (cases "context_of d1 = None") auto
qed simp

lemma getters_idle:
  assumes "stack_ok d" and "context_of d \<noteq> None"
  shows "runGetters fw gs d w = Inr (d, w)"
  using assms
proof (induction gs)
  case (Cons g gs)
  then have "runGetter fw g d w = Inr (d, w)"
    by (cases g) (auto simp: stack_ok_def managedObjectModel_def persistentStoreCoordinator_def managedObjectContext_def)
  with Cons show ?case by simp
qed simp

section \<open>Properties\<close>

text \<open>
  C39.  Once any of the screens asked for the context, whatever else was asked before, the stack is complete and
  every later call of the three getters answers what is there: nothing is created and no store is opened
  a second time.
\<close>

theorem stack_created_once:
  assumes "coordinator_law fw" and "runGetters fw gs launched w = Inr (d, w')" and "GetContext \<in> set gs"
  shows "(\<exists>m p c. d = \<lparr>model = Some m, coordinator = Some p, context_of = Some c\<rparr>)
    \<and> runGetters fw hs d w' = Inr (d, w')"
proof -
  have "stack_ok launched" by (simp add: stack_ok_def launched_def)
  from getters_keep [OF assms(2) this assms(1)] assms(3) have "stack_ok d" "context_of d \<noteq> None" by auto
  with getters_idle [OF this] show ?thesis by (cases d) (auto simp: stack_ok_def)
qed

text \<open>A store that cannot be opened changes nothing: the answer is not looked at.\<close>

lemma store_failure_unnoticed:
  "managedObjectContext (fw\<lparr>addStore := (\<lambda>p u w. (False, snd (addStore fw p u w)))\<rparr>) d w
     = managedObjectContext fw d w"
proof -
  let ?fw = "fw\<lparr>addStore := (\<lambda>p u w. (False, snd (addStore fw p u w)))\<rparr>"
  have "storeUrl ?fw = storeUrl fw" "managedObjectModel ?fw d w = managedObjectModel fw d w"
    by (simp_all add: storeUrl_def applicationDocumentsDirectory_def managedObjectModel_def)
  then have "persistentStoreCoordinator ?fw d w = persistentStoreCoordinator fw d w"
    by (simp add: persistentStoreCoordinator_def case_prod_unfold)
  then show ?thesis by (simp add: managedObjectContext_def cong: option.case_cong)
qed

text \<open>Frameworks that count what they create, with the stores opened.\<close>

definition countingFrameworks :: "(nat, nat, nat, nat \<times> string list) frameworks" where
  "countingFrameworks =
     \<lparr>mergedModel = (\<lambda>(n, s). (Some n, (Suc n, s))),
      newCoordinator = (\<lambda>m (n, s). case m of None \<Rightarrow> Inl NSInvalidArgumentException | Some _ \<Rightarrow> Inr (n, (Suc n, s))),
      addStore = (\<lambda>p u (n, s). (True, (n, s @ [u]))),
      newContext = (\<lambda>(n, s). (n, (Suc n, s))), setCoordinator = (\<lambda>c p w. w),
      documentDirectories = [''/Documents'']\<rparr>"

theorem stack_created_once_witness:
  "\<exists>d. runGetters countingFrameworks [GetContext] launched (0, [])
       = Inr (d, (3, [''/Documents/ServerManager.mom'']))
     \<and> runGetters countingFrameworks [GetModel, GetCoordinator, GetContext] d (3, [''/Documents/ServerManager.mom''])
       = Inr (d, (3, [''/Documents/ServerManager.mom'']))"
proof -
  let ?d = "\<lparr>model = Some 0, coordinator = Some 1, context_of = Some 2\<rparr> :: (nat, nat, nat) app_delegate"
  have law: "coordinator_law countingFrameworks" by (auto simp: coordinator_law_def countingFrameworks_def)
  have run: "runGetters countingFrameworks [GetContext] launched (0, [])
       = Inr (?d, (3, [''/Documents/ServerManager.mom'']))"
    by (simp add: countingFrameworks_def launched_def managedObjectContext_def persistentStoreCoordinator_def
        managedObjectModel_def storeUrl_def applicationDocumentsDirectory_def appendingPathComponent_def
        numeral_2_eq_2 numeral_3_eq_3)
  from stack_created_once [OF law run] have "runGetters countingFrameworks hs ?d (3, [''/Documents/ServerManager.mom''])
       = Inr (?d, (3, [''/Documents/ServerManager.mom'']))" for hs by auto
  with run show ?thesis by blast
qed

end
