(* ===== verification/MachineOrder.thy ===== *)
theory MachineOrder
  imports IntCodec
begin

text \<open>
  The rest of the integer and floating point macros of include/my_global.h: the definitions for the i386,
  which read and write through pointers to machine numbers, the macros for \<open>float\<close> and \<open>double\<close>, and
  those in the order of the machine.  A variable is the list of its bytes in memory.  The four kinds of
  machine are the cases of the preprocessor: the i386, low byte first, high byte first, and low byte first
  with the high half of a \<open>double\<close> in front.
\<close>

section \<open>How a machine keeps numbers\<close>

datatype machine = I386 | LowFirst | HighFirst | MixedDoubles

definition wordImage :: "machine \<Rightarrow> nat \<Rightarrow> 'a::len word \<Rightarrow> byte list" where
  "wordImage mach n x = (if mach = HighFirst then rev (leBytes n x) else leBytes n x)"

definition doubleImage :: "machine \<Rightarrow> 64 word \<Rightarrow> byte list" where
  "doubleImage mach x =
     (if mach = MixedDoubles then drop 4 (leBytes 8 x) @ take 4 (leBytes 8 x) else wordImage mach 8 x)"

text \<open>The number a variable holds.\<close>

definition nativeWord :: "machine \<Rightarrow> byte list \<Rightarrow> 'a::len word" where
  "nativeWord mach bs = word_of_int (leInt (if mach = HighFirst then rev bs else bs))"

text \<open>\<open>memcpy\<close> into a buffer.\<close>

fun memcpyTo :: "byte list \<Rightarrow> nat \<Rightarrow> byte list \<Rightarrow> byte list" where
  "memcpyTo T p [] = T"
| "memcpyTo T p (b # bs) = memcpyTo (T[p := b]) (Suc p) bs"

section \<open>The i386\<close>

definition i386_sint2korr :: "byte list \<Rightarrow> nat \<Rightarrow> 16 word" where
  "i386_sint2korr A p = nativeWord I386 (block A p 2)"

definition i386_sint4korr :: "byte list \<Rightarrow> nat \<Rightarrow> 32 word" where
  "i386_sint4korr A p = nativeWord I386 (block A p 4)"

definition i386_uint2korr :: "byte list \<Rightarrow> nat \<Rightarrow> 16 word" where
  "i386_uint2korr A p = nativeWord I386 (block A p 2)"

text \<open>Four bytes are read, and the fourth is masked out.\<close>

definition i386_uint3korr :: "byte list \<Rightarrow> nat \<Rightarrow> 32 word" where
  "i386_uint3korr A p = nativeWord I386 (block A p 4) AND 0xFFFFFF"

definition i386_uint4korr :: "byte list \<Rightarrow> nat \<Rightarrow> 32 word" where
  "i386_uint4korr A p = nativeWord I386 (block A p 4)"

definition i386_uint8korr :: "byte list \<Rightarrow> nat \<Rightarrow> 64 word" where
  "i386_uint8korr A p = nativeWord I386 (block A p 8)"

definition i386_sint8korr :: "byte list \<Rightarrow> nat \<Rightarrow> 64 word" where
  "i386_sint8korr A p = nativeWord I386 (block A p 8)"

definition i386_int2store :: "byte list \<Rightarrow> nat \<Rightarrow> 32 word \<Rightarrow> byte list" where
  "i386_int2store T p A = memcpyTo T p (wordImage I386 2 (ucast A :: 16 word))"

definition i386_int4store :: "byte list \<Rightarrow> nat \<Rightarrow> 32 word \<Rightarrow> byte list" where
  "i386_int4store T p A = memcpyTo T p (wordImage I386 4 A)"

definition i386_int8store :: "byte list \<Rightarrow> nat \<Rightarrow> 64 word \<Rightarrow> byte list" where
  "i386_int8store T p A = memcpyTo T p (wordImage I386 8 A)"

section \<open>Floating point numbers\<close>

definition i386_doublestore :: "byte list \<Rightarrow> nat \<Rightarrow> byte list \<Rightarrow> byte list" where
  "i386_doublestore T p V = memcpyTo (memcpyTo T p (block V 0 4)) (p + 4) (block V 4 4)"

definition i386_doubleget :: "byte list \<Rightarrow> nat \<Rightarrow> byte list" where
  "i386_doubleget M p = block M p 4 @ block M (p + 4) 4"

definition mixed_doublestore :: "byte list \<Rightarrow> nat \<Rightarrow> byte list \<Rightarrow> byte list" where
  "mixed_doublestore T p V =
     T[p := V ! 4, p + 1 := V ! 5, p + 2 := V ! 6, p + 3 := V ! 7,
       p + 4 := V ! 0, p + 5 := V ! 1, p + 6 := V ! 2, p + 7 := V ! 3]"

definition mixed_doubleget :: "byte list \<Rightarrow> nat \<Rightarrow> byte list" where
  "mixed_doubleget M p =
     [M ! (p + 4), M ! (p + 5), M ! (p + 6), M ! (p + 7), M ! p, M ! (p + 1), M ! (p + 2), M ! (p + 3)]"

definition doublestore :: "machine \<Rightarrow> byte list \<Rightarrow> nat \<Rightarrow> byte list \<Rightarrow> byte list" where
  "doublestore mach T p V =
     (case mach of
        I386 \<Rightarrow> i386_doublestore T p V
      | MixedDoubles \<Rightarrow> mixed_doublestore T p V
      | _ \<Rightarrow> memcpyTo T p (block V 0 8))"

definition doubleget :: "machine \<Rightarrow> byte list \<Rightarrow> nat \<Rightarrow> byte list" where
  "doubleget mach M p =
     (case mach of
        I386 \<Rightarrow> i386_doubleget M p
      | MixedDoubles \<Rightarrow> mixed_doubleget M p
      | _ \<Rightarrow> block M p 8)"

definition float4store :: "machine \<Rightarrow> byte list \<Rightarrow> nat \<Rightarrow> byte list \<Rightarrow> byte list" where
  "float4store mach T p A =
     (if mach = HighFirst then T[p := A ! 3, p + 1 := A ! 2, p + 2 := A ! 1, p + 3 := A ! 0]
      else memcpyTo T p (block A 0 4))"

definition float4get :: "machine \<Rightarrow> byte list \<Rightarrow> nat \<Rightarrow> byte list" where
  "float4get mach M p =
     (if mach = HighFirst then [M ! (p + 3), M ! (p + 2), M ! (p + 1), M ! p] else block M p 4)"

definition float8store :: "machine \<Rightarrow> byte list \<Rightarrow> nat \<Rightarrow> byte list \<Rightarrow> byte list" where
  "float8store mach T p V =
     (if mach = HighFirst
      then T[p := V ! 7, p + 1 := V ! 6, p + 2 := V ! 5, p + 3 := V ! 4,
             p + 4 := V ! 3, p + 5 := V ! 2, p + 6 := V ! 1, p + 7 := V ! 0]
      else doublestore mach T p V)"

definition float8get :: "machine \<Rightarrow> byte list \<Rightarrow> nat \<Rightarrow> byte list" where
  "float8get mach M p =
     (if mach = HighFirst
      then [M ! (p + 7), M ! (p + 6), M ! (p + 5), M ! (p + 4), M ! (p + 3), M ! (p + 2), M ! (p + 1), M ! p]
      else doubleget mach M p)"

definition floatstore :: "byte list \<Rightarrow> nat \<Rightarrow> byte list \<Rightarrow> byte list" where
  "floatstore T p V = memcpyTo T p (block V 0 4)"

definition floatget :: "byte list \<Rightarrow> nat \<Rightarrow> byte list" where
  "floatget M p = block M p 4"

text \<open>High byte first (myisampack.h).\<close>

definition mi_float4store :: "machine \<Rightarrow> byte list \<Rightarrow> nat \<Rightarrow> byte list \<Rightarrow> byte list" where
  "mi_float4store mach T p A =
     (if mach = HighFirst then T[p := A ! 0, p + 1 := A ! 1, p + 2 := A ! 2, p + 3 := A ! 3]
      else T[p := A ! 3, p + 1 := A ! 2, p + 2 := A ! 1, p + 3 := A ! 0])"

definition mi_float4get :: "machine \<Rightarrow> byte list \<Rightarrow> nat \<Rightarrow> byte list" where
  "mi_float4get mach M p =
     (if mach = HighFirst then [M ! p, M ! (p + 1), M ! (p + 2), M ! (p + 3)]
      else [M ! (p + 3), M ! (p + 2), M ! (p + 1), M ! p])"

definition mi_float8store :: "machine \<Rightarrow> byte list \<Rightarrow> nat \<Rightarrow> byte list \<Rightarrow> byte list" where
  "mi_float8store mach T p V =
     (case mach of
        HighFirst \<Rightarrow>
          T[p := V ! 0, p + 1 := V ! 1, p + 2 := V ! 2, p + 3 := V ! 3,
            p + 4 := V ! 4, p + 5 := V ! 5, p + 6 := V ! 6, p + 7 := V ! 7]
      | MixedDoubles \<Rightarrow>
          T[p := V ! 3, p + 1 := V ! 2, p + 2 := V ! 1, p + 3 := V ! 0,
            p + 4 := V ! 7, p + 5 := V ! 6, p + 6 := V ! 5, p + 7 := V ! 4]
      | _ \<Rightarrow>
          T[p := V ! 7, p + 1 := V ! 6, p + 2 := V ! 5, p + 3 := V ! 4,
            p + 4 := V ! 3, p + 5 := V ! 2, p + 6 := V ! 1, p + 7 := V ! 0])"

definition mi_float8get :: "machine \<Rightarrow> byte list \<Rightarrow> nat \<Rightarrow> byte list" where
  "mi_float8get mach M p =
     (case mach of
        HighFirst \<Rightarrow>
          [M ! p, M ! (p + 1), M ! (p + 2), M ! (p + 3), M ! (p + 4), M ! (p + 5), M ! (p + 6), M ! (p + 7)]
      | MixedDoubles \<Rightarrow>
          [M ! (p + 3), M ! (p + 2), M ! (p + 1), M ! p, M ! (p + 7), M ! (p + 6), M ! (p + 5), M ! (p + 4)]
      | _ \<Rightarrow>
          [M ! (p + 7), M ! (p + 6), M ! (p + 5), M ! (p + 4), M ! (p + 3), M ! (p + 2), M ! (p + 1), M ! p])"

section \<open>Row counts and file sizes\<close>

text \<open>Both take eight bytes in every build; a build with 32 bits writes zero into the first four.\<close>

definition mi_rowstore :: "byte list \<Rightarrow> nat \<Rightarrow> 32 word \<Rightarrow> byte list" where
  "mi_rowstore T p A = mi_int4store (mi_int4store T p 0) (p + 4) (ucast A)"

definition mi_rowkorr :: "byte list \<Rightarrow> nat \<Rightarrow> 32 word" where
  "mi_rowkorr T p = mi_uint4korr T (p + 4)"

definition mi_rowstore_big :: "byte list \<Rightarrow> nat \<Rightarrow> 64 word \<Rightarrow> byte list" where
  "mi_rowstore_big T p A = mi_int8store T p A"

definition mi_rowkorr_big :: "byte list \<Rightarrow> nat \<Rightarrow> 64 word" where
  "mi_rowkorr_big T p = mi_uint8korr T p"

definition HA_OFFSET_ERROR :: "'a::len word" where
  "HA_OFFSET_ERROR = NOT 0"

definition mi_sizestore :: "byte list \<Rightarrow> nat \<Rightarrow> 32 word \<Rightarrow> byte list" where
  "mi_sizestore T p A =
     (if A = HA_OFFSET_ERROR then memcpyTo T p (replicate 8 255)
      else mi_int4store (mi_int4store T p 0) (p + 4) (ucast A))"

definition mi_sizekorr :: "byte list \<Rightarrow> nat \<Rightarrow> 32 word" where
  "mi_sizekorr T p = mi_uint4korr T (p + 4)"

definition mi_sizestore_big :: "byte list \<Rightarrow> nat \<Rightarrow> 64 word \<Rightarrow> byte list" where
  "mi_sizestore_big T p A = mi_int8store T p A"

definition mi_sizekorr_big :: "byte list \<Rightarrow> nat \<Rightarrow> 64 word" where
  "mi_sizekorr_big T p = mi_uint8korr T p"

section \<open>Integers in the order of the machine\<close>

definition ushortget :: "machine \<Rightarrow> byte list \<Rightarrow> nat \<Rightarrow> 16 word" where
  "ushortget mach M p =
     (if mach = HighFirst then ucast (M ! (p + 1)) + push_bit 8 (ucast (M ! p)) else uint2korr M p)"

definition shortget :: "machine \<Rightarrow> byte list \<Rightarrow> nat \<Rightarrow> 16 word" where
  "shortget mach M p =
     (if mach = HighFirst then ucast (M ! (p + 1)) + push_bit 8 (ucast (M ! p)) else sint2korr M p)"

definition longget :: "machine \<Rightarrow> byte list \<Rightarrow> nat \<Rightarrow> 32 word" where
  "longget mach M p = (if mach = HighFirst then nativeWord mach (block M p 4) else sint4korr M p)"

definition ulongget :: "machine \<Rightarrow> byte list \<Rightarrow> nat \<Rightarrow> 32 word" where
  "ulongget mach M p = (if mach = HighFirst then nativeWord mach (block M p 4) else uint4korr M p)"

definition shortstore :: "machine \<Rightarrow> byte list \<Rightarrow> nat \<Rightarrow> 32 word \<Rightarrow> byte list" where
  "shortstore mach T p A =
     (if mach = HighFirst then T[p + 1 := ucast A, p := ucast (drop_bit 8 A)] else int2store T p A)"

definition longstore :: "machine \<Rightarrow> byte list \<Rightarrow> nat \<Rightarrow> 32 word \<Rightarrow> byte list" where
  "longstore mach T p A =
     (if mach = HighFirst
      then T[p + 3 := ucast A, p + 2 := ucast (drop_bit 8 A), p + 1 := ucast (drop_bit 16 A),
             p := ucast (drop_bit 24 A)]
      else int4store T p A)"

definition longlongget :: "byte list \<Rightarrow> nat \<Rightarrow> byte list" where
  "longlongget M p = block M p 8"

definition longlongstore :: "byte list \<Rightarrow> nat \<Rightarrow> byte list \<Rightarrow> byte list" where
  "longlongstore T p V = memcpyTo T p (block V 0 8)"

section \<open>Lemmas\<close>

lemma length_memcpyTo [simp]: "length (memcpyTo T p bs) = length T"
  by (induction bs arbitrary: T p) simp_all

lemma memcpyTo_outside: "j < p \<Longrightarrow> memcpyTo T p bs ! j = T ! j"
  by (induction bs arbitrary: T p) simp_all

lemma memcpyTo_inside: "p + length bs \<le> length T \<Longrightarrow> i < length bs \<Longrightarrow> memcpyTo T p bs ! (p + i) = bs ! i"
proof (induction bs arbitrary: T p i)
  case (Cons b bs)
  show ?case
  proof (cases i)
    case 0
    with Cons.prems show ?thesis by (simp add: memcpyTo_outside)
  next
    case (Suc j)
    with Cons.prems Cons.IH [of "Suc p" "T[p := b]" j] show ?thesis by simp
  qed
qed simp

lemma block_memcpyTo: "p + length bs \<le> length T \<Longrightarrow> block (memcpyTo T p bs) p (length bs) = bs"
  by (rule nth_equalityI) (simp_all add: block_def memcpyTo_inside)

lemma length_block [simp]: "length (block A p n) = n"
  by (simp add: block_def)

lemma memcpyTo_numeral:
  "memcpyTo T p [a, b] = T[p := a, p + 1 := b]"
  "memcpyTo T p [a, b, c, d] = T[p := a, p + 1 := b, p + 2 := c, p + 3 := d]"
  "memcpyTo T p [a, b, c, d, e, f, g, h] =
     T[p := a, p + 1 := b, p + 2 := c, p + 3 := d, p + 4 := e, p + 5 := f, p + 6 := g, p + 7 := h]"
  by (simp_all add: numeral_eq_Suc)

declare memcpyTo.simps [simp del]

lemma block_memcpyTo_8:
  "p + 8 \<le> length T \<Longrightarrow> length bs = 8 \<Longrightarrow> block (memcpyTo T p bs) p 8 = bs"
  "p + 4 \<le> length T \<Longrightarrow> length cs = 4 \<Longrightarrow> block (memcpyTo T p cs) p 4 = cs"
  "p + 2 \<le> length T \<Longrightarrow> length ds = 2 \<Longrightarrow> block (memcpyTo T p ds) p 2 = ds"
  using block_memcpyTo [of p bs T] block_memcpyTo [of p cs T] block_memcpyTo [of p ds T] by simp_all

lemmas orders = wordImage_def doubleImage_def leBytes_numeral block_numeral memcpyTo_numeral

text \<open>What a store of a number leaves is the low-byte-first image, on every machine.\<close>

lemma float4store_image: "float4store mach T p (wordImage mach 4 x) = memcpyTo T p (leBytes 4 x)"
  by (simp add: float4store_def orders)

lemma doublestore_image:
  "mach \<noteq> HighFirst \<Longrightarrow> doublestore mach T p (doubleImage mach x) = memcpyTo T p (leBytes 8 x)"
  by (cases mach) (simp_all add: doublestore_def i386_doublestore_def mixed_doublestore_def orders add.commute [of _ p])

lemma float8store_image: "float8store mach T p (doubleImage mach x) = memcpyTo T p (leBytes 8 x)"
  using doublestore_image [of mach T p x] by (simp add: float8store_def orders)

text \<open>The low-byte-first image is read as the number, on every machine.\<close>

lemma float4get_image: "block M p 4 = leBytes 4 x \<Longrightarrow> float4get mach M p = wordImage mach 4 x"
  by (auto simp: float4get_def orders)

lemma float8get_image: "block M p 8 = leBytes 8 x \<Longrightarrow> float8get mach M p = doubleImage mach x"
  by (cases mach) (auto simp: float8get_def doubleget_def i386_doubleget_def mixed_doubleget_def orders add.commute [of _ p])

lemma mi_float4store_image: "mi_float4store mach T p (wordImage mach 4 x) = memcpyTo T p (rev (leBytes 4 x))"
  by (simp add: mi_float4store_def orders)

lemma mi_float8store_image: "mi_float8store mach T p (doubleImage mach x) = memcpyTo T p (rev (leBytes 8 x))"
  by (cases mach) (simp_all add: mi_float8store_def orders)

lemma mi_float4get_image: "block M p 4 = rev (leBytes 4 x) \<Longrightarrow> mi_float4get mach M p = wordImage mach 4 x"
  by (auto simp: mi_float4get_def orders)

lemma mi_float8get_image: "block M p 8 = rev (leBytes 8 x) \<Longrightarrow> mi_float8get mach M p = doubleImage mach x"
  by (cases mach) (auto simp: mi_float8get_def orders)

text \<open>What the two builds write: the same eight bytes.\<close>

lemma mi_int4_pair: "mi_int4store (mi_int4store T p 0) (p + 4) (ucast A) = mi_int8store T p (ucast (A :: 32 word))"
proof -
  have "ucast (drop_bit n (ucast A :: 64 word)) = (0 :: byte)" if "32 \<le> n" for n
    by (rule bit_word_eqI) (use that in \<open>auto simp: bit_simps dest: bit_imp_le_length\<close>)
  moreover have "(drop_bit 32 (ucast A :: 64 word)) = 0"
    by (rule bit_word_eqI) (auto simp: bit_simps dest: bit_imp_le_length)
  ultimately show ?thesis by (simp add: mi_int8store_def)
qed

lemma size_error_pair: "memcpyTo T p (replicate 8 255) = mi_int8store T p HA_OFFSET_ERROR"
proof -
  have ff: "(255 :: byte) = mask 8" by (simp add: mask_eq_exp_minus_1)
  have b: "(ucast (drop_bit n (NOT 0 :: 64 word)) :: byte) = 255" if "n \<le> 56" for n
    unfolding ff by (rule bit_word_eqI) (use that in \<open>auto simp: bit_simps\<close>)
  have "replicate 8 255 = [255, 255, 255, 255, 255, 255, 255, 255 :: byte]" by (simp add: numeral_eq_Suc)
  then show ?thesis using b [of 0] b [of 8] b [of 16] b [of 24] b [of 32] b [of 40] b [of 48] b [of 56]
    by (simp add: HA_OFFSET_ERROR_def mi_int8store_flat orders list_update_swap)
qed

lemma mi_low_half: "p + 8 \<le> length T \<Longrightarrow> mi_uint4korr (mi_int8store T p A) (p + 4) = ucast A"
  by (simp add: mi_int8store_def Let_def be4.korr_store be4.length_store ucast_take_bit_low)

lemma ucast_up_down: "ucast (ucast a :: 64 word) = (a :: 32 word)"
  by (rule bit_word_eqI) (auto simp: bit_simps)

lemma ucast_HA_OFFSET_ERROR: "(ucast (HA_OFFSET_ERROR :: 64 word) :: 32 word) = HA_OFFSET_ERROR"
  unfolding HA_OFFSET_ERROR_def by (rule bit_word_eqI) (auto simp: bit_simps)

lemma leInt_block_3: "word_of_int (leInt [a, b, c, d]) AND 0xFFFFFF = (word_of_int (leInt [a, b, c]) :: 32 word)"
proof -
  have "leInt [a, b, c] < 2 ^ 24" using leInt_less [of "[a, b, c]"] by simp
  moreover have "leInt [a, b, c, d] = leInt [a, b, c] + uint d * 2 ^ 24" by simp
  ultimately have t: "take_bit 24 (leInt [a, b, c, d]) = leInt [a, b, c]"
    by (simp only: take_bit_eq_mod mod_mult_self1 mod_pos_pos_trivial [OF leInt_nonneg])
  have "word_of_int (leInt [a, b, c, d]) AND 0xFFFFFF = (take_bit 24 (word_of_int (leInt [a, b, c, d])) :: 32 word)"
    by (simp add: take_bit_eq_mask mask_eq_exp_minus_1 del: leInt.simps)
  also have "\<dots> = word_of_int (leInt [a, b, c])" by (simp only: take_bit_of_int t)
  finally show ?thesis .
qed

lemma ucast_low16:
  "(ucast (ucast v :: 16 word) :: byte) = ucast v" "(ucast (drop_bit 8 (ucast v :: 16 word)) :: byte) = ucast (drop_bit 8 v)"
  for v :: "32 word"
  by (rule bit_word_eqI; auto simp: bit_simps)+

section \<open>The macros in the order of the machine keep the contract of a codec\<close>

lemma short_order_block: "p + 2 \<le> length T \<Longrightarrow> block (shortstore mach T p A) p 2 = wordImage mach 2 A"
  by (simp add: shortstore_def stores orders)

lemma long_order_block: "p + 4 \<le> length T \<Longrightarrow> block (longstore mach T p A) p 4 = wordImage mach 4 A"
  by (simp add: longstore_def stores orders)

lemma ushortget_eq: "ushortget mach M p = nativeWord mach (block M p 2)"
  by (simp add: ushortget_def nativeWord_def korr_block push_bit_eq_mult)

lemma ulongget_eq: "ulongget mach M p = nativeWord mach (block M p 4)"
  by (simp add: ulongget_def nativeWord_def korr_block)

lemma shortget_eq: "shortget mach M p = ushortget mach M p"
  by (simp add: shortget_def ushortget_def sint2korr_def uint2korr_def)

lemma longget_eq: "longget mach M p = ulongget mach M p"
  by (simp add: longget_def ulongget_def sint4korr_def uint4korr_def)

interpretation short_order: int_codec "shortstore mach" "ushortget mach" 2 for mach
  by (rule int_codecI [where ord = "\<lambda>b. if mach = HighFirst then rev b else b"])
    (auto simp: ushortget_eq nativeWord_def shortstore_def stores block_numeral leBytes_numeral)

interpretation long_order: int_codec "longstore mach" "ulongget mach" 4 for mach
  by (rule int_codecI [where ord = "\<lambda>b. if mach = HighFirst then rev b else b"])
    (auto simp: ulongget_eq nativeWord_def longstore_def stores block_numeral leBytes_numeral)

section \<open>Properties\<close>

text \<open>The macros of the i386, which use its own numbers, read and write what the portable ones do.\<close>

theorem i386_macros_agree:
  "i386_uint2korr A p = uint2korr A p \<and> i386_uint3korr A p = uint3korr A p
    \<and> i386_uint4korr A p = uint4korr A p \<and> i386_uint8korr A p = uint8korr A p
    \<and> i386_sint2korr A p = sint2korr A p \<and> i386_sint4korr A p = sint4korr A p
    \<and> i386_sint8korr A p = sint8korr A p
    \<and> i386_int2store A p v = int2store A p v \<and> i386_int4store A p v = int4store A p v
    \<and> i386_int8store A p w = int8store A p w"
proof (intro conjI)
  show "i386_uint3korr A p = uint3korr A p"
    by (simp only: i386_uint3korr_def nativeWord_def block_numeral uint_korr_leInt leInt_block_3 machine.distinct if_False)
  show "i386_int8store A p w = int8store A p w"
    by (simp only: i386_int8store_def int8store_flat) (simp add: orders)
  have "sint2korr A p = uint2korr A p" "sint4korr A p = uint4korr A p" "sint8korr A p = uint8korr A p"
    by (simp_all only: sint2korr_def sint4korr_def sint8korr_def uint2korr_def uint4korr_def)
  then show "i386_sint2korr A p = sint2korr A p" "i386_sint4korr A p = sint4korr A p" "i386_sint8korr A p = sint8korr A p"
    by (simp_all only: i386_sint2korr_def i386_sint4korr_def i386_sint8korr_def nativeWord_def korr_as_block
        machine.distinct if_False)
qed (simp_all only: i386_uint2korr_def i386_uint4korr_def i386_uint8korr_def nativeWord_def korr_as_block
        machine.distinct if_False,
     simp_all add: i386_int2store_def i386_int4store_def stores orders ucast_low16)

text \<open>
  The format does not depend on the machine: a \<open>float\<close> or \<open>double\<close> stored on one kind of machine is
  read on any other as that machine's image of the same number, and what lies in between are its bytes with
  the low one first.
\<close>

theorem numbers_travel:
  assumes "p + 8 \<le> length T"
  shows "float4get dst (float4store src T p (wordImage src 4 x)) p = wordImage dst 4 x
    \<and> float8get dst (float8store src T p (doubleImage src y)) p = doubleImage dst y
    \<and> block (float4store src T p (wordImage src 4 x)) p 4 = leBytes 4 x
    \<and> block (float8store src T p (doubleImage src y)) p 8 = leBytes 8 y
    \<and> mi_float4get dst (mi_float4store src T p (wordImage src 4 x)) p = wordImage dst 4 x
    \<and> mi_float8get dst (mi_float8store src T p (doubleImage src y)) p = doubleImage dst y
    \<and> block (mi_float4store src T p (wordImage src 4 x)) p 4 = rev (leBytes 4 x)
    \<and> block (mi_float8store src T p (doubleImage src y)) p 8 = rev (leBytes 8 y)"
  using assms
  by (simp add: float4store_image float8store_image block_memcpyTo_8 float4get_image float8get_image
      mi_float4store_image mi_float8store_image mi_float4get_image mi_float8get_image)

theorem numbers_travel_witness:
  "float8get HighFirst (float8store MixedDoubles [0, 0, 0, 0, 0, 0, 0, 0] 0 [5, 6, 7, 8, 1, 2, 3, 4]) 0
     = [8, 7, 6, 5, 4, 3, 2, 1]"
proof -
  have "doubleImage MixedDoubles 0x0807060504030201 = [5, 6, 7, 8, 1, 2, 3, 4]"
    "doubleImage HighFirst 0x0807060504030201 = [8, 7, 6, 5, 4, 3, 2, 1]"
    by (simp_all add: orders)
  moreover have room: "0 + 8 \<le> length [0, 0, 0, 0, 0, 0, 0, 0 :: byte]" by simp
  note numbers_travel [OF room, of HighFirst MixedDoubles 0 "0x0807060504030201"]
  ultimately show ?thesis by metis
qed

text \<open>
  In the order of the machine: what is stored is the machine's own image of the number, and reading gives
  the low bytes of the number back.
\<close>

theorem machine_order_roundtrip:
  assumes "p + 8 \<le> length T"
  shows "block (shortstore mach T p a) p 2 = wordImage mach 2 a \<and> block (longstore mach T p a) p 4 = wordImage mach 4 a
    \<and> ushortget mach (shortstore mach T p a) p = ucast a \<and> shortget mach (shortstore mach T p a) p = ucast a
    \<and> ulongget mach (longstore mach T p a) p = a \<and> longget mach (longstore mach T p a) p = a
    \<and> floatget (floatstore T p V) p = block V 0 4 \<and> longlongget (longlongstore T p V) p = block V 0 8"
proof -
  have "p + 2 \<le> length T" "p + 4 \<le> length T" using assms by simp_all
  then show ?thesis
    using assms short_order.korr_store [of p T mach a] long_order.korr_store [of p T mach a]
      short_order_block [of p T mach a] long_order_block [of p T mach a]
    by (simp add: shortget_eq longget_eq floatget_def floatstore_def longlongget_def longlongstore_def
        block_memcpyTo_8 ucast_take_bit_low take_bit_word_eq_self)
qed


text \<open>
  Row counts and sizes of files pass between builds: what a build with 32 bits stores a build with 64 bits
  reads as the same number, and the offset that means an error as that error; each build reads its own back.
\<close>

theorem sizes_travel:
  assumes "p + 8 \<le> length T"
  shows "mi_rowkorr_big (mi_rowstore T p a) p = ucast a \<and> mi_rowkorr (mi_rowstore T p a) p = a
    \<and> mi_sizekorr_big (mi_sizestore T p a) p = (if a = HA_OFFSET_ERROR then HA_OFFSET_ERROR else ucast a)
    \<and> mi_sizekorr (mi_sizestore T p a) p = a
    \<and> mi_rowkorr_big (mi_rowstore_big T p b) p = b \<and> mi_sizekorr_big (mi_sizestore_big T p b) p = b"
  using assms
  by (simp add: mi_rowkorr_big_def mi_rowstore_def mi_rowkorr_def mi_sizekorr_big_def mi_sizestore_def mi_sizekorr_def
      mi_rowstore_big_def mi_sizestore_big_def be4.korr_store be8.korr_store be4.length_store mi_int4_pair size_error_pair
      mi_low_half ucast_up_down ucast_HA_OFFSET_ERROR ucast_take_bit_low take_bit_word_eq_self)

end
