(* ===== verification/SysMacros.thy ===== *)
theory SysMacros
  imports Main "HOL-Library.Word"
begin

text \<open>
  The general macros of include/my_global.h on numbers (comparison, alignment, sets of bits), the macros of
  include/decimal.h on decimal numbers with their error codes, and those of include/queues.h on the array of
  a priority queue.  \<open>size_t\<close> and addresses are words of 64 bits, \<open>uint\<close> has 32, \<open>int\<close> is an integer where
  the macro only compares or counts.
\<close>

unbundle bit_operations_syntax

section \<open>my_global.h\<close>

definition CMP_NUM :: "'a::linorder \<Rightarrow> 'a \<Rightarrow> int" where
  "CMP_NUM a b = (if a < b then - 1 else if a = b then 0 else 1)"

definition sgn_c :: "int \<Rightarrow> int" where
  "sgn_c a = (if a < 0 then - 1 else if a > 0 then 1 else 0)"

definition test :: "int \<Rightarrow> int" where
  "test a = (if a \<noteq> 0 then 1 else 0)"

text \<open>The assignments give the new value of the variable.\<close>

definition set_if_bigger :: "'a::linorder \<Rightarrow> 'a \<Rightarrow> 'a" where
  "set_if_bigger a b = (if a < b then b else a)"

definition set_if_smaller :: "'a::linorder \<Rightarrow> 'a \<Rightarrow> 'a" where
  "set_if_smaller a b = (if a > b then b else a)"

definition swap_variables :: "'a \<Rightarrow> 'a \<Rightarrow> 'a \<times> 'a" where
  "swap_variables a b = (let swap_dummy = a; a = b; b = swap_dummy in (a, b))"

definition test_all_bits :: "'a::len word \<Rightarrow> 'a word \<Rightarrow> bool" where
  "test_all_bits a b = (a AND b = b)"

definition set_bits :: "nat \<Rightarrow> 'a::len word" where
  "set_bits bit_count =
     (if LENGTH('a) \<le> bit_count then NOT 0 else push_bit bit_count 1 - 1)"

definition MY_ALIGN :: "64 word \<Rightarrow> 64 word \<Rightarrow> 64 word" where
  "MY_ALIGN A L = (A + L - 1) AND NOT (L - 1)"

definition ALIGN_SIZE :: "64 word \<Rightarrow> 64 word" where
  "ALIGN_SIZE A = MY_ALIGN A 8"

definition MY_DIV_UP :: "64 word \<Rightarrow> 64 word \<Rightarrow> 64 word" where
  "MY_DIV_UP A B = (A + B - 1) div B"

section \<open>decimal.h\<close>

datatype decimal_round_mode = TRUNCATE | HALF_EVEN | HALF_UP | CEILING | FLOOR

record decimal_t =
  intg :: int
  frac :: int
  dec_len :: int
  sign :: "8 word"
  buf :: "32 word list"

definition decimal_make_zero :: "decimal_t \<Rightarrow> decimal_t" where
  "decimal_make_zero dec = dec\<lparr>buf := (buf dec)[0 := 0], intg := 1, frac := 0, sign := 0\<rparr>"

definition decimal_string_size :: "decimal_t \<Rightarrow> int" where
  "decimal_string_size dec =
     (if intg dec \<noteq> 0 then intg dec else 1) + frac dec + (if frac dec > 0 then 1 else 0) + 2"

definition decimal_neg :: "decimal_t \<Rightarrow> decimal_t" where
  "decimal_neg dec = dec\<lparr>sign := sign dec XOR 1\<rparr>"

definition E_DEC_OK :: "32 word" where "E_DEC_OK = 0"
definition E_DEC_TRUNCATED :: "32 word" where "E_DEC_TRUNCATED = 1"
definition E_DEC_OVERFLOW :: "32 word" where "E_DEC_OVERFLOW = 2"
definition E_DEC_DIV_ZERO :: "32 word" where "E_DEC_DIV_ZERO = 4"
definition E_DEC_BAD_NUM :: "32 word" where "E_DEC_BAD_NUM = 8"
definition E_DEC_OOM :: "32 word" where "E_DEC_OOM = 16"
definition E_DEC_ERROR :: "32 word" where "E_DEC_ERROR = 31"
definition E_DEC_FATAL_ERROR :: "32 word" where "E_DEC_FATAL_ERROR = 30"

lemmas decimal_codes = E_DEC_OK_def E_DEC_TRUNCATED_def E_DEC_OVERFLOW_def E_DEC_DIV_ZERO_def E_DEC_BAD_NUM_def
  E_DEC_OOM_def E_DEC_ERROR_def E_DEC_FATAL_ERROR_def

section \<open>queues.h\<close>

text \<open>The array of a queue starts at index 1; index 0 is not used.\<close>

record ('e, 'a) queue =
  root :: "'e list"
  first_cmp_arg :: 'a
  elements :: "32 word"
  max_elements :: "32 word"
  offset_to_key :: "32 word"
  max_at_top :: int
  compare :: "'a \<Rightarrow> 'e \<Rightarrow> 'e \<Rightarrow> int"
  auto_extent :: "32 word"

definition queue_top :: "('e, 'a) queue \<Rightarrow> 'e" where
  "queue_top q = root q ! 1"

definition queue_element :: "('e, 'a) queue \<Rightarrow> nat \<Rightarrow> 'e" where
  "queue_element q index = root q ! (index + 1)"

definition queue_end :: "('e, 'a) queue \<Rightarrow> 'e" where
  "queue_end q = root q ! unat (elements q)"

text \<open>\<open>_downheap\<close> is only declared in the header: a parameter.\<close>

definition queue_replaced ::
  "(('e, 'a) queue \<Rightarrow> nat \<Rightarrow> ('e, 'a) queue) \<Rightarrow> ('e, 'a) queue \<Rightarrow> ('e, 'a) queue" where
  "queue_replaced downheap q = downheap q 1"

definition queue_set_cmp_arg :: "'a \<Rightarrow> ('e, 'a) queue \<Rightarrow> ('e, 'a) queue" where
  "queue_set_cmp_arg set_arg q = q\<lparr>first_cmp_arg := set_arg\<rparr>"

definition queue_set_max_at_top :: "bool \<Rightarrow> ('e, 'a) queue \<Rightarrow> ('e, 'a) queue" where
  "queue_set_max_at_top set_arg q = q\<lparr>max_at_top := (if set_arg then - 1 else 1)\<rparr>"

definition queue_remove_all :: "('e, 'a) queue \<Rightarrow> ('e, 'a) queue" where
  "queue_remove_all q = q\<lparr>elements := 0\<rparr>"

definition queue_is_full :: "('e, 'a) queue \<Rightarrow> bool" where
  "queue_is_full q = (elements q = max_elements q)"

text \<open>The elements in use; the macros that read stay inside them unless the queue is empty.\<close>

definition queueContents :: "('e, 'a) queue \<Rightarrow> 'e list" where
  "queueContents q = take (unat (elements q)) (tl (root q))"

lemma queue_macros_contents:
  assumes "queueContents q \<noteq> []" and "unat (elements q) < length (root q)"
  shows "queue_top q = hd (queueContents q) \<and> queue_end q = last (queueContents q)
    \<and> (i < length (queueContents q) \<longrightarrow> queue_element q i = queueContents q ! i)
    \<and> queueContents (queue_remove_all q) = []"
proof -
  let ?n = "unat (elements q)"
  obtain x xs where r: "root q = x # xs" and n: "0 < ?n" "?n \<le> length xs" "xs \<noteq> []"
    using assms by (cases "root q") (auto simp: queueContents_def)
  have "hd (take ?n xs) = xs ! 0" using n by (simp add: hd_conv_nth)
  moreover have "last (take ?n xs) = xs ! (?n - 1)" using n by (simp add: last_conv_nth min_def)
  ultimately show ?thesis using n
    by (simp add: queueContents_def r queue_top_def queue_end_def queue_element_def queue_remove_all_def nth_Cons')
qed

section \<open>Alignment and division\<close>

text \<open>Alignment to a power of two gives the least multiple that is not smaller, unless the sum leaves 64 bits.\<close>

lemma uint_clear_low: "uint (push_bit k (drop_bit k x)) = uint x div 2 ^ k * 2 ^ k" for x :: "64 word"
proof -
  have "uint x div 2 ^ k * 2 ^ k \<le> uint x"
  proof -
    have "0 \<le> uint x mod 2 ^ k" by simp
    with div_mult_mod_eq [of "uint x" "2 ^ k"] show ?thesis by linarith
  qed
  then have "uint x div 2 ^ k * 2 ^ k < 2 ^ 64" using uint_lt2p [of x] by simp
  moreover have "0 \<le> uint x div 2 ^ k * 2 ^ k" by (simp add: pos_imp_zdiv_nonneg_iff)
  moreover have "take_bit 64 (uint x) = uint x" using uint_lt2p [of x] by (simp add: take_bit_int_eq_self)
  then have "uint (drop_bit k x) = uint x div 2 ^ k"
    by (simp add: unsigned_drop_bit_eq drop_bit_eq_div [where ?'a = int] take_bit_int_eq_self)
  ultimately show ?thesis
    by (simp add: unsigned_push_bit_eq push_bit_eq_mult [where ?'a = int] take_bit_int_eq_self)
qed

lemma MY_ALIGN_eq:
  assumes "k < 64" and "uint A + 2 ^ k \<le> 2 ^ 64"
  shows "uint (MY_ALIGN A (push_bit k 1)) = (uint A + (2 ^ k - 1)) div 2 ^ k * 2 ^ k"
proof -
  have m: "(push_bit k 1 - 1 :: 64 word) = mask k" by (simp add: mask_eq_exp_minus_1 push_bit_eq_mult)
  have "uint (mask k :: 64 word) = mask k"
    by (rule bit_eqI) (use assms(1) in \<open>auto simp: bit_simps\<close>)
  then have "uint (mask k :: 64 word) = 2 ^ k - 1" by (simp add: mask_eq_exp_minus_1)
  moreover have "0 \<le> uint A + (2 ^ k - 1)" by simp
  ultimately have s: "uint (A + mask k) = uint A + (2 ^ k - 1)"
    using assms by (simp add: uint_word_ariths(1) mod_pos_pos_trivial)
  have "MY_ALIGN A (push_bit k 1) = (A + mask k) AND NOT (mask k)"
    unfolding MY_ALIGN_def m [symmetric] by (simp only: add_diff_eq)
  also have "\<dots> = push_bit k (drop_bit k (A + mask k))"
    by (rule bit_word_eqI) (auto simp: bit_simps)
  finally show ?thesis by (simp add: uint_clear_low s)
qed

lemma ceil_mult: "0 < L \<Longrightarrow> a \<le> (a + (L - 1)) div L * L \<and> (a + (L - 1)) div L * L < a + L" for a L :: int
  using div_mult_mod_eq [of "a + (L - 1)" L] pos_mod_sign [of L "a + (L - 1)"] pos_mod_bound [of L "a + (L - 1)"]
  by linarith

text \<open>
  Aligning to a power of two, unless the sum leaves 64 bits: a multiple, not smaller, and less than one unit
  away, so the least one.
\<close>

theorem MY_ALIGN_least:
  assumes "k < 64" and "uint A + 2 ^ k \<le> 2 ^ 64"
  shows "2 ^ k dvd uint (MY_ALIGN A (push_bit k 1)) \<and> A \<le> MY_ALIGN A (push_bit k 1)
    \<and> uint (MY_ALIGN A (push_bit k 1)) < uint A + 2 ^ k"
  using ceil_mult [of "2 ^ k" "uint A"] unfolding MY_ALIGN_eq [OF assms] word_le_def by simp

theorem MY_ALIGN_least_witness: "ALIGN_SIZE 13 = 16 \<and> 13 \<le> ALIGN_SIZE 13"
proof -
  have "push_bit 3 (1 :: 64 word) = 8" by (simp add: push_bit_eq_mult)
  then show ?thesis using MY_ALIGN_least [of 3 13] by (simp add: ALIGN_SIZE_def MY_ALIGN_def)
qed

theorem MY_DIV_UP_least:
  assumes "0 < B" and "uint A + uint B \<le> 2 ^ 64"
  shows "uint A \<le> uint (MY_DIV_UP A B) * uint B \<and> uint (MY_DIV_UP A B) * uint B < uint A + uint B"
proof -
  have B: "0 < uint B" using assms(1) by (simp add: word_less_def)
  have "uint (B - 1) = uint B - 1"
    using assms(1) uint_sub_lem [of 1 B] B by simp
  moreover have "uint (A + (B - 1)) = (uint A + uint (B - 1)) mod 2 ^ 64" by (simp add: uint_word_ariths(1))
  ultimately have "uint (A + (B - 1)) = uint A + (uint B - 1)"
    using assms(2) B by (simp add: mod_pos_pos_trivial)
  then have "uint (A + B - 1) = uint A + (uint B - 1)" by (simp only: add_diff_eq)
  then show ?thesis using ceil_mult [OF B, of "uint A"] by (simp add: MY_DIV_UP_def uint_div)
qed

lemma set_bits_mask: "set_bits n = (mask n :: 'a::len word)"
proof (cases "LENGTH('a) \<le> n")
  case True
  then show ?thesis by (simp add: set_bits_def) (rule bit_word_eqI, auto simp: bit_simps)
qed (simp add: set_bits_def mask_eq_exp_minus_1 push_bit_eq_mult)

lemma test_all_bits_iff: "test_all_bits a b \<longleftrightarrow> (\<forall>n < LENGTH('a). bit b n \<longrightarrow> bit a n)" for a b :: "'a::len word"
  by (auto simp: test_all_bits_def bit_eq_iff bit_simps dest: bit_imp_le_length)

lemma CMP_NUM_sgn: "CMP_NUM a b = sgn_c (a - b)" for a b :: int
  by (simp add: CMP_NUM_def sgn_c_def)

lemma CMP_NUM_antisym: "CMP_NUM b a = - CMP_NUM a b"
  by (auto simp: CMP_NUM_def)

lemma set_if_max_min: "set_if_bigger a b = max a b" "set_if_smaller a b = min a b"
  by (auto simp: set_if_bigger_def set_if_smaller_def max_def min_def)

lemma decimal_neg_twice: "decimal_neg (decimal_neg d) = d"
  by (simp add: decimal_neg_def xor.assoc)

text \<open>The error codes are the five flags, and the two masks are all of them, and all that are not a loss of precision.\<close>

lemma decimal_error_masks:
  "E_DEC_ERROR = (E_DEC_TRUNCATED OR E_DEC_OVERFLOW OR E_DEC_DIV_ZERO OR E_DEC_BAD_NUM OR E_DEC_OOM)"
  "E_DEC_FATAL_ERROR = E_DEC_ERROR AND NOT E_DEC_TRUNCATED"
  by (simp_all add: decimal_codes)

end
