(* ===== verification/ProgressLayout.thy ===== *)
theory ProgressLayout
  imports ProgressView Complex_Main
begin

text \<open>
  The rest of MBProgressHUD.m that computes: the class methods, which look through the subviews of a view,
  the choice of the indicator by mode (\<open>updateIndicators\<close>) and the placing of indicator, label and details
  (\<open>layoutSubviews\<close>).  Coordinates are real numbers; the size a text takes is a parameter.
\<close>

section \<open>Class methods\<close>

text \<open>The subviews of a view, the front one last.  A HUD that took itself off its superview is gone.\<close>

datatype subview = HudView hud_run | OtherView nat

fun isHud :: "subview \<Rightarrow> bool" where
  "isHud (HudView h) = True"
| "isHud (OtherView n) = False"

fun onHud :: "(hud_run \<Rightarrow> hud_run) \<Rightarrow> subview \<Rightarrow> subview" where
  "onHud f (HudView h) = HudView (f h)"
| "onHud f (OtherView n) = OtherView n"

fun attached :: "subview \<Rightarrow> bool" where
  "attached (HudView h) = inSuperview h"
| "attached (OtherView n) = True"

text \<open>Acting on the HUD at an index, which may remove it.\<close>

definition actOn :: "nat \<Rightarrow> (hud_run \<Rightarrow> hud_run) \<Rightarrow> subview list \<Rightarrow> subview list" where
  "actOn i f view = filter attached (view[i := onHud f (view ! i)])"

definition showHUDAddedTo :: "bool \<Rightarrow> subview list \<Rightarrow> subview list" where
  "showHUDAddedTo animated view =
     (let hud = (initWithFrame False 0 0)\<lparr>removeFromSuperViewOnHide := True\<rparr>;
          view = view @ [HudView hud]
      in actOn (length view - 1) (showHUD animated) view)"

text \<open>\<open>HUDForView:\<close> looks from the front; here from the end of the list.\<close>

fun hudFrom :: "nat \<Rightarrow> subview list \<Rightarrow> nat option" where
  "hudFrom 0 view = None"
| "hudFrom (Suc i) view = (if isHud (view ! i) then Some i else hudFrom i view)"

definition HUDForView :: "subview list \<Rightarrow> nat option" where
  "HUDForView view = hudFrom (length view) view"

definition hideHUDForView :: "bool \<Rightarrow> subview list \<Rightarrow> bool \<times> subview list" where
  "hideHUDForView animated view =
     (case HUDForView view of
        Some i \<Rightarrow> (True, actOn i (\<lambda>h. hideHUD animated (h\<lparr>removeFromSuperViewOnHide := True\<rparr>)) view)
      | None \<Rightarrow> (False, view))"

definition allHUDsForView :: "subview list \<Rightarrow> subview list" where
  "allHUDsForView view = filter isHud view"

definition hideAllHUDsForView :: "bool \<Rightarrow> subview list \<Rightarrow> nat \<times> subview list" where
  "hideAllHUDsForView animated view =
     (length (allHUDsForView view),
      filter attached (map (onHud (\<lambda>h. hideHUD animated (h\<lparr>removeFromSuperViewOnHide := True\<rparr>))) view))"

section \<open>The indicator\<close>

datatype hud_mode = Indeterminate | Determinate | HorizontalBar | AnnularDeterminate | CustomView | TextOnly
datatype view_class = ActivityIndicator | RoundProgress | BarProgress | AnyClass

record indicator_view =
  viewId :: nat
  viewClass :: view_class
  annular :: bool
  shownProgress :: real

record hud_ui =
  mode :: hud_mode
  customView :: "indicator_view option"
  indicator :: "indicator_view option"
  progress :: real
  nextView :: nat

definition newIndicator :: "view_class \<Rightarrow> hud_ui \<Rightarrow> hud_ui" where
  "newIndicator k u =
     u\<lparr>indicator := Some \<lparr>viewId = nextView u, viewClass = k, annular = False, shownProgress = 0\<rparr>,
       nextView := Suc (nextView u)\<rparr>"

definition indicatorIs :: "view_class \<Rightarrow> hud_ui \<Rightarrow> bool" where
  "indicatorIs k u = (case indicator u of None \<Rightarrow> False | Some v \<Rightarrow> viewClass v = k)"

definition updateIndicators :: "hud_ui \<Rightarrow> hud_ui" where
  "updateIndicators u =
     (if mode u = Indeterminate
      then (if \<not> indicatorIs ActivityIndicator u then newIndicator ActivityIndicator u else u)
      else if mode u = HorizontalBar then newIndicator BarProgress u
      else if mode u = Determinate \<or> mode u = AnnularDeterminate
      then (let u = (if \<not> indicatorIs RoundProgress u then newIndicator RoundProgress u else u)
            in if mode u = AnnularDeterminate
               then u\<lparr>indicator := map_option (\<lambda>v. v\<lparr>annular := True\<rparr>) (indicator u)\<rparr>
               else u)
      else if mode u = CustomView \<and> map_option viewId (customView u) \<noteq> map_option viewId (indicator u)
      then u\<lparr>indicator := customView u\<rparr>
      else if mode u = TextOnly then u\<lparr>indicator := None\<rparr>
      else u)"

text \<open>The observed keys: setting the mode or the custom view updates the indicator, setting the progress
  passes it to an indicator that shows one.\<close>

definition setMode :: "hud_mode \<Rightarrow> hud_ui \<Rightarrow> hud_ui" where
  "setMode m u = updateIndicators (u\<lparr>mode := m\<rparr>)"

definition setCustomView :: "indicator_view option \<Rightarrow> hud_ui \<Rightarrow> hud_ui" where
  "setCustomView v u = updateIndicators (u\<lparr>customView := v\<rparr>)"

definition setProgress :: "real \<Rightarrow> hud_ui \<Rightarrow> hud_ui" where
  "setProgress p u =
     (let u = u\<lparr>progress := p\<rparr>
      in u\<lparr>indicator := map_option
             (\<lambda>v. if viewClass v = RoundProgress \<or> viewClass v = BarProgress then v\<lparr>shownProgress := p\<rparr> else v)
             (indicator u)\<rparr>)"

section \<open>Layout\<close>

definition kPadding :: real where
  "kPadding = 4"

text \<open>C's \<open>round\<close>: halves go away from zero.\<close>

definition roundC :: "real \<Rightarrow> real" where
  "roundC x = (if 0 \<le> x then of_int \<lfloor>x + 1 / 2\<rfloor> else - of_int \<lfloor>- x + 1 / 2\<rfloor>)"

record rect =
  originX :: real
  originY :: real
  width :: real
  height :: real

record hud_layout =
  boundsWidth :: real
  boundsHeight :: real
  margin :: real
  xOffset :: real
  yOffset :: real
  minWidth :: real
  minHeight :: real
  square :: bool
  indicatorSize :: "real \<times> real"
  textSize :: "real \<times> real"
  detailsSize :: "real \<times> real \<Rightarrow> real \<times> real"

record hud_frames =
  indicatorFrame :: rect
  labelFrame :: rect
  detailsFrame :: rect
  boxWidth :: real
  boxHeight :: real

text \<open>The sizes of indicator, label and details; the details get what height is left.\<close>

definition measured :: "hud_layout \<Rightarrow> (real \<times> real) \<times> (real \<times> real) \<times> (real \<times> real)" where
  "measured l =
     (let maxWidth = boundsWidth l - 4 * margin l;
          indicatorF = (min (fst (indicatorSize l)) maxWidth, snd (indicatorSize l));
          labelSize = (min (fst (textSize l)) maxWidth, snd (textSize l));
          total = snd indicatorF + snd labelSize;
          total = (if 0 < snd labelSize \<and> 0 < snd indicatorF then total + kPadding else total);
          remainingHeight = boundsHeight l - total - kPadding - 4 * margin l
      in (indicatorF, labelSize, detailsSize l (maxWidth, remainingHeight)))"

text \<open>\<open>totalSize\<close> after the details and the margins were added.\<close>

definition totalSize :: "hud_layout \<Rightarrow> real \<times> real" where
  "totalSize l =
     (let ((iw, ih), (lw, lh), (dw, dh)) = measured l;
          w = max (max (max 0 iw) lw) dw;
          h = ih + lh;
          h = (if 0 < lh \<and> 0 < ih then h + kPadding else h);
          h = h + dh;
          h = (if 0 < dh \<and> (0 < ih \<or> 0 < lh) then h + kPadding else h)
      in (w + 2 * margin l, h + 2 * margin l))"

definition boxSize :: "hud_layout \<Rightarrow> real \<times> real" where
  "boxSize l =
     (let (w, h) = totalSize l; mx = max w h;
          bw = (if square l \<and> mx \<le> boundsWidth l - 2 * margin l then mx else w);
          bh = (if square l \<and> mx \<le> boundsHeight l - 2 * margin l then mx else h)
      in (if bw < minWidth l then minWidth l else bw, if bh < minHeight l then minHeight l else bh))"

definition layoutSubviews :: "hud_layout \<Rightarrow> hud_frames" where
  "layoutSubviews l =
     (let ((iw, ih), (lw, lh), (dw, dh)) = measured l;
          W = boundsWidth l;
          yPos = roundC ((boundsHeight l - snd (totalSize l)) / 2) + margin l + yOffset l;
          xPos = xOffset l;
          indicatorF = \<lparr>originX = roundC ((W - iw) / 2) + xPos, originY = yPos, width = iw, height = ih\<rparr>;
          yPos = yPos + ih;
          yPos = (if 0 < lh \<and> 0 < ih then yPos + kPadding else yPos);
          labelF = \<lparr>originX = roundC ((W - lw) / 2) + xPos, originY = yPos, width = lw, height = lh\<rparr>;
          yPos = yPos + lh;
          yPos = (if 0 < dh \<and> (0 < ih \<or> 0 < lh) then yPos + kPadding else yPos);
          detailsF = \<lparr>originX = roundC ((W - dw) / 2) + xPos, originY = yPos, width = dw, height = dh\<rparr>
      in \<lparr>indicatorFrame = indicatorF, labelFrame = labelF, detailsFrame = detailsF,
          boxWidth = fst (boxSize l), boxHeight = snd (boxSize l)\<rparr>)"

section \<open>Centring\<close>

lemma roundC_near: "\<bar>roundC x - x\<bar> \<le> 1 / 2"
  unfolding roundC_def by (auto simp: abs_if) linarith+

lemma roundC_centres: "\<bar>roundC ((W - w) / 2) - (W - (roundC ((W - w) / 2) + w))\<bar> \<le> 1"
  using roundC_near [of "(W - w) / 2"] by (simp add: abs_if field_simps split: if_splits)

text \<open>The upper and the lower end of the content with its margins, without the offset.\<close>

definition contentTop :: "hud_layout \<Rightarrow> real" where
  "contentTop l = originY (indicatorFrame (layoutSubviews l)) - margin l - yOffset l"

definition contentBottom :: "hud_layout \<Rightarrow> real" where
  "contentBottom l =
     originY (detailsFrame (layoutSubviews l)) + height (detailsFrame (layoutSubviews l)) + margin l - yOffset l"

definition hudFrames :: "hud_layout \<Rightarrow> rect list" where
  "hudFrames l =
     [indicatorFrame (layoutSubviews l), labelFrame (layoutSubviews l), detailsFrame (layoutSubviews l)]"

lemma contentTop_round: "contentTop l = roundC ((boundsHeight l - snd (totalSize l)) / 2)"
  by (simp add: contentTop_def layoutSubviews_def Let_def split: prod.split)

lemma contentBottom_top: "contentBottom l = contentTop l + snd (totalSize l)"
proof -
  obtain iw ih lw lh dw dh where m: "measured l = ((iw, ih), (lw, lh), (dw, dh))" by (metis prod.exhaust)
  show ?thesis
    by (simp add: contentBottom_def contentTop_def layoutSubviews_def Let_def m) (auto simp: totalSize_def m Let_def)
qed

lemma box_large:
  "fst (totalSize l) \<le> boxWidth (layoutSubviews l)" "snd (totalSize l) \<le> boxHeight (layoutSubviews l)"
  by (simp_all add: layoutSubviews_def boxSize_def Let_def max_def split: prod.split)

lemma frames_fit: "f \<in> set (hudFrames l) \<Longrightarrow> width f + 2 * margin l \<le> fst (totalSize l)"
  by (auto simp: hudFrames_def layoutSubviews_def totalSize_def Let_def split: prod.splits)

lemma frames_centred:
  "f \<in> set (hudFrames l) \<Longrightarrow> originX f - xOffset l = roundC ((boundsWidth l - width f) / 2)"
  by (auto simp: hudFrames_def layoutSubviews_def Let_def split: prod.splits)

text \<open>
  Whatever the texts measure (heights are not negative): indicator, label and details stand below one
  another in this order, never overlapping; each is centred horizontally, and all three together vertically,
  up to one point of rounding and the offsets; and the box that is drawn is large enough for them with the
  margin on every side.
\<close>

theorem hud_content_centred:
  assumes "0 \<le> snd (indicatorSize l)" and "0 \<le> snd (textSize l)"
  shows "sorted_wrt (\<lambda>f g. originY f + height f \<le> originY g) (hudFrames l)
    \<and> \<bar>contentTop l - (boundsHeight l - contentBottom l)\<bar> \<le> 1
    \<and> contentBottom l - contentTop l \<le> boxHeight (layoutSubviews l)
    \<and> (\<forall>f \<in> set (hudFrames l). width f + 2 * margin l \<le> boxWidth (layoutSubviews l)
         \<and> \<bar>(originX f - xOffset l) - (boundsWidth l - (originX f - xOffset l + width f))\<bar> \<le> 1)"
proof (intro conjI ballI)
  show "sorted_wrt (\<lambda>f g. originY f + height f \<le> originY g) (hudFrames l)"
    using assms by (simp add: hudFrames_def layoutSubviews_def measured_def Let_def kPadding_def split: prod.split)
  show "\<bar>contentTop l - (boundsHeight l - contentBottom l)\<bar> \<le> 1"
    unfolding contentBottom_top contentTop_round by (rule roundC_centres)
  show "contentBottom l - contentTop l \<le> boxHeight (layoutSubviews l)"
    using box_large(2) [of l] by (simp add: contentBottom_top)
  fix f assume f: "f \<in> set (hudFrames l)"
  show "width f + 2 * margin l \<le> boxWidth (layoutSubviews l)"
    using frames_fit [OF f] box_large(1) [of l] by simp
  show "\<bar>(originX f - xOffset l) - (boundsWidth l - (originX f - xOffset l + width f))\<bar> \<le> 1"
    unfolding frames_centred [OF f] by (rule roundC_centres)
qed

text \<open>Showing a HUD and hiding it, without animation, leaves the subviews as they were.\<close>

lemma attached_filter: "list_all attached view \<Longrightarrow> filter attached view = view"
  by (simp add: list_all_iff filter_id_conv)

lemma showHUDAddedTo_eq:
  assumes "list_all attached view"
  obtains h where "showHUDAddedTo a view = view @ [HudView h]" and "inSuperview h" and "minShowTime h = 0"
    and "showStarted h \<noteq> None" and "removeFromSuperViewOnHide h"
proof -
  let ?h = "(initWithFrame False 0 0)\<lparr>removeFromSuperViewOnHide := True\<rparr>"
  have "showHUDAddedTo a view = view @ [HudView (showHUD a ?h)]"
    using assms by (simp add: showHUDAddedTo_def actOn_def Let_def attached_filter hud_ops initWithFrame_def)
  moreover have "inSuperview (showHUD a ?h)" "minShowTime (showHUD a ?h) = 0" "showStarted (showHUD a ?h) \<noteq> None"
    "removeFromSuperViewOnHide (showHUD a ?h)"
    by (simp_all add: hud_ops initWithFrame_def Let_def)
  ultimately show thesis by (rule that)
qed

lemma hudFrom_front: "hudFrom (Suc (length view)) (view @ [HudView h]) = Some (length view)"
  by simp

theorem shown_hud_is_found_and_removed:
  assumes "list_all attached view"
  shows "HUDForView (showHUDAddedTo a view) = Some (length view)
    \<and> hideHUDForView False (showHUDAddedTo a view) = (True, view)"
proof -
  from assms obtain h where h: "showHUDAddedTo a view = view @ [HudView h]" "inSuperview h" "minShowTime h = 0"
    "showStarted h \<noteq> None" "removeFromSuperViewOnHide h" by (rule showHUDAddedTo_eq)
  then have f: "HUDForView (showHUDAddedTo a view) = Some (length view)" by (simp add: HUDForView_def)
  have "\<not> inSuperview (hideHUD False (h\<lparr>removeFromSuperViewOnHide := True\<rparr>))"
    using h by (auto simp: hud_ops Let_def split: option.splits)
  then show ?thesis using f assms h(1)
    by (simp add: hideHUDForView_def actOn_def attached_filter)
qed

lemma HUDForView_None: "HUDForView view = None \<longleftrightarrow> allHUDsForView view = []"
proof -
  have "hudFrom n view = None \<longleftrightarrow> (\<forall>i < n. \<not> isHud (view ! i))" for n
    by (induction n) (auto simp: less_Suc_eq)
  then show ?thesis by (simp add: HUDForView_def allHUDsForView_def filter_empty_conv all_set_conv_all_nth)
qed

section \<open>The indicator\<close>

text \<open>After a change of mode the indicator is of the kind the mode asks for.\<close>

theorem indicator_follows_mode:
  "indicatorIs ActivityIndicator (setMode Indeterminate u)
    \<and> indicatorIs BarProgress (setMode HorizontalBar u)
    \<and> indicatorIs RoundProgress (setMode Determinate u)
    \<and> indicatorIs RoundProgress (setMode AnnularDeterminate u)
    \<and> (\<exists>v. indicator (setMode AnnularDeterminate u) = Some v \<and> annular v)
    \<and> map_option viewId (indicator (setMode CustomView u)) = map_option viewId (customView u)
    \<and> indicator (setMode TextOnly u) = None"
  by (auto simp: setMode_def updateIndicators_def newIndicator_def indicatorIs_def Let_def split: option.splits)

text \<open>Two things the change of mode forgets: a ring stays a ring when the plain form is asked for, and a new
  indicator does not show the progress that was set before.\<close>

theorem mode_change_forgets:
  "(\<exists>v. indicator (setMode Determinate (setMode AnnularDeterminate u)) = Some v \<and> annular v)
    \<and> (\<exists>v. indicator (setMode HorizontalBar (setProgress p u)) = Some v \<and> shownProgress v = 0)
    \<and> progress (setMode HorizontalBar (setProgress p u)) = p"
  by (auto simp: setMode_def setProgress_def updateIndicators_def newIndicator_def indicatorIs_def Let_def
      split: option.splits)

end
