(* ===== verification/CstVal.thy ===== *)
theory CstVal
  imports MachineOrder
begin

text \<open>
  The runtime values of Flite as its headers lay them out (cst_val.h, cst_val_const.h): a value is either a
  cons cell, two pointers, or an atom, whose type tag and reference count share the memory of the first
  pointer.  A value is the list of its bytes; the machine's order and the size of a pointer (4 or 8 bytes)
  are parameters, \<open>short\<close> has 16 bits, \<open>int\<close> and \<open>float\<close> have 32, and the union of an atom is aligned as a
  pointer is.
\<close>

section \<open>Tags\<close>

definition CST_VAL_TYPE_CONS :: "16 word" where "CST_VAL_TYPE_CONS = 0"
definition CST_VAL_TYPE_INT :: "16 word" where "CST_VAL_TYPE_INT = 1"
definition CST_VAL_TYPE_FLOAT :: "16 word" where "CST_VAL_TYPE_FLOAT = 3"
definition CST_VAL_TYPE_STRING :: "16 word" where "CST_VAL_TYPE_STRING = 5"
definition CST_VAL_TYPE_FIRST_FREE :: "16 word" where "CST_VAL_TYPE_FIRST_FREE = 7"
definition CST_VAL_TYPE_MAX :: "16 word" where "CST_VAL_TYPE_MAX = 54"

lemmas val_types = CST_VAL_TYPE_CONS_def CST_VAL_TYPE_INT_def CST_VAL_TYPE_FLOAT_def CST_VAL_TYPE_STRING_def
  CST_VAL_TYPE_FIRST_FREE_def CST_VAL_TYPE_MAX_def

section \<open>The two structures in memory\<close>

definition cst_val_cons :: "machine \<Rightarrow> nat \<Rightarrow> 64 word \<Rightarrow> 64 word \<Rightarrow> byte list" where
  "cst_val_cons mach psize car cdr = wordImage mach psize car @ wordImage mach psize cdr"

text \<open>The two shorts of an atom; the other way round on a machine with the high byte first.\<close>

definition atomHead :: "machine \<Rightarrow> 16 word \<Rightarrow> 16 word \<Rightarrow> byte list" where
  "atomHead mach type refCount =
     (if mach = HighFirst then wordImage mach 2 refCount @ wordImage mach 2 type
      else wordImage mach 2 type @ wordImage mach 2 refCount)"

text \<open>The member of the union starts at its alignment; what is left of the union follows.\<close>

definition cst_val_atom :: "machine \<Rightarrow> nat \<Rightarrow> 16 word \<Rightarrow> 16 word \<Rightarrow> byte list \<Rightarrow> byte list" where
  "cst_val_atom mach psize type refCount v =
     atomHead mach type refCount @ replicate (psize - 4) 0 @ v @ replicate (psize - length v) 0"

section \<open>Reading\<close>

definition CST_VAL_TYPE :: "machine \<Rightarrow> byte list \<Rightarrow> 16 word" where
  "CST_VAL_TYPE mach X = nativeWord mach (block X (if mach = HighFirst then 2 else 0) 2)"

definition CST_VAL_REFCOUNT :: "machine \<Rightarrow> byte list \<Rightarrow> 16 word" where
  "CST_VAL_REFCOUNT mach X = nativeWord mach (block X (if mach = HighFirst then 0 else 2) 2)"

definition CST_VAL_INT :: "machine \<Rightarrow> nat \<Rightarrow> byte list \<Rightarrow> 32 word" where
  "CST_VAL_INT mach psize X = nativeWord mach (block X psize 4)"

text \<open>A \<open>float\<close> is its 32 bits.\<close>

definition CST_VAL_FLOAT :: "machine \<Rightarrow> nat \<Rightarrow> byte list \<Rightarrow> 32 word" where
  "CST_VAL_FLOAT mach psize X = nativeWord mach (block X psize 4)"

definition CST_VAL_VOID :: "machine \<Rightarrow> nat \<Rightarrow> byte list \<Rightarrow> 64 word" where
  "CST_VAL_VOID mach psize X = nativeWord mach (block X psize psize)"

definition CST_VAL_STRING :: "machine \<Rightarrow> nat \<Rightarrow> byte list \<Rightarrow> 64 word" where
  "CST_VAL_STRING mach psize X = CST_VAL_VOID mach psize X"

definition CST_VAL_CAR :: "machine \<Rightarrow> nat \<Rightarrow> byte list \<Rightarrow> 64 word" where
  "CST_VAL_CAR mach psize X = nativeWord mach (block X 0 psize)"

definition CST_VAL_CDR :: "machine \<Rightarrow> nat \<Rightarrow> byte list \<Rightarrow> 64 word" where
  "CST_VAL_CDR mach psize X = nativeWord mach (block X psize psize)"

section \<open>Constants\<close>

text \<open>With initialization of unions.\<close>

definition DEF_CONST_VAL_INT :: "machine \<Rightarrow> nat \<Rightarrow> 32 word \<Rightarrow> byte list" where
  "DEF_CONST_VAL_INT mach psize V = cst_val_atom mach psize CST_VAL_TYPE_INT (- 1) (wordImage mach 4 V)"

definition DEF_CONST_VAL_STRING :: "machine \<Rightarrow> nat \<Rightarrow> 64 word \<Rightarrow> byte list" where
  "DEF_CONST_VAL_STRING mach psize S = cst_val_atom mach psize CST_VAL_TYPE_STRING (- 1) (wordImage mach psize S)"

definition DEF_CONST_VAL_FLOAT :: "machine \<Rightarrow> nat \<Rightarrow> 32 word \<Rightarrow> byte list" where
  "DEF_CONST_VAL_FLOAT mach psize F = cst_val_atom mach psize CST_VAL_TYPE_FLOAT (- 1) (wordImage mach 4 F)"

definition DEF_CONST_VAL_CONS :: "machine \<Rightarrow> nat \<Rightarrow> 64 word \<Rightarrow> 64 word \<Rightarrow> byte list" where
  "DEF_CONST_VAL_CONS mach psize A D = cst_val_cons mach psize A D"

text \<open>Without it, other structures stand in: their \<open>int\<close> and \<open>float\<close> follow the shorts at once, a pointer
  is aligned.\<close>

definition cst_val_int :: "machine \<Rightarrow> 16 word \<Rightarrow> 16 word \<Rightarrow> 32 word \<Rightarrow> byte list" where
  "cst_val_int mach type refCount V = atomHead mach type refCount @ wordImage mach 4 V"

definition cst_val_float :: "machine \<Rightarrow> 16 word \<Rightarrow> 16 word \<Rightarrow> 32 word \<Rightarrow> byte list" where
  "cst_val_float mach type refCount F = atomHead mach type refCount @ wordImage mach 4 F"

definition cst_val_void :: "machine \<Rightarrow> nat \<Rightarrow> 16 word \<Rightarrow> 16 word \<Rightarrow> 64 word \<Rightarrow> byte list" where
  "cst_val_void mach psize type refCount S =
     atomHead mach type refCount @ replicate (psize - 4) 0 @ wordImage mach psize S"

definition struct_const_int :: "machine \<Rightarrow> 32 word \<Rightarrow> byte list" where
  "struct_const_int mach V = cst_val_int mach CST_VAL_TYPE_INT (- 1) V"

definition struct_const_float :: "machine \<Rightarrow> 32 word \<Rightarrow> byte list" where
  "struct_const_float mach F = cst_val_float mach CST_VAL_TYPE_FLOAT (- 1) F"

definition struct_const_string :: "machine \<Rightarrow> nat \<Rightarrow> 64 word \<Rightarrow> byte list" where
  "struct_const_string mach psize S = cst_val_void mach psize CST_VAL_TYPE_STRING (- 1) S"

section \<open>Lemmas\<close>

lemma length_wordImage [simp]: "length (wordImage mach n x) = n"
  by (simp add: wordImage_def)

lemma length_atomHead [simp]: "length (atomHead mach t r) = 4"
  by (simp add: atomHead_def)

lemma block_take_drop: "p + n \<le> length X \<Longrightarrow> block X p n = take n (drop p X)"
  by (rule nth_equalityI) (simp_all add: block_def)

lemma nativeWord_image: "nativeWord mach (wordImage mach n x) = ucast (take_bit (8 * n) x)"
  by (simp add: nativeWord_def wordImage_def of_leInt_leBytes)

lemma nativeWord_image_full:
  "LENGTH('a::len) = 8 * n \<Longrightarrow> nativeWord mach (wordImage mach n x) = (x :: 'a word)"
  by (simp add: nativeWord_image take_bit_word_eq_self)

lemma atom_type: "CST_VAL_TYPE mach (cst_val_atom mach psize t r v) = t"
  and atom_refcount: "CST_VAL_REFCOUNT mach (cst_val_atom mach psize t r v) = r"
  by (simp_all add: CST_VAL_TYPE_def CST_VAL_REFCOUNT_def block_take_drop cst_val_atom_def atomHead_def
      nativeWord_image_full)

lemma atom_member:
  assumes "4 \<le> psize" and "length v \<le> psize"
  shows "block (cst_val_atom mach psize t r v) psize (length v) = v"
  using assms by (simp add: block_take_drop cst_val_atom_def)

lemma take_leBytes: "m \<le> n \<Longrightarrow> take m (leBytes n x) = leBytes m x"
proof (induction n arbitrary: m x)
  case (Suc n)
  then show ?case by (cases m) simp_all
qed simp

text \<open>The bytes of a cons cell where an atom has its tag.\<close>

lemma cons_tag_bytes:
  assumes "2 \<le> psize" and "mach \<noteq> HighFirst \<or> psize = 4"
  shows "CST_VAL_TYPE mach (cst_val_cons mach psize car cdr) = ucast (take_bit 16 car)"
proof -
  have "block (cst_val_cons mach psize car cdr) (if mach = HighFirst then 2 else 0) 2 = wordImage mach 2 car"
  proof (cases "mach = HighFirst")
    case True
    with assms(2) have "psize = 4" by simp
    moreover have "drop 2 (rev (leBytes 4 car)) = rev (leBytes 2 car)" by (simp add: leBytes_numeral)
    ultimately show ?thesis using True by (simp add: block_take_drop cst_val_cons_def wordImage_def)
  next
    case False
    with assms(1) show ?thesis by (simp add: block_take_drop cst_val_cons_def wordImage_def take_leBytes)
  qed
  then show ?thesis by (simp add: CST_VAL_TYPE_def nativeWord_image)
qed

section \<open>Properties\<close>

text \<open>With pointers of 8 bytes and the high byte first, a cons cell can look like an integer.\<close>

lemma high_first_cons_as_int:
  "CST_VAL_TYPE HighFirst (cst_val_cons HighFirst 8 0x100000000 0) = CST_VAL_TYPE_INT"
  by (simp add: CST_VAL_TYPE_def cst_val_cons_def val_types nativeWord_def wordImage_def leBytes_numeral block_take_drop)

lemma cons_tag_even:
  assumes "2 \<le> psize" and "mach \<noteq> HighFirst \<or> psize = 4" and "even car"
  shows "even (CST_VAL_TYPE mach (cst_val_cons mach psize car cdr))"
proof -
  have "\<not> bit car 0" using assms(3) by (simp add: bit_0)
  then have "\<not> bit (ucast (take_bit 16 car) :: 16 word) 0"
    unfolding bit_ucast_iff bit_take_bit_iff by simp
  then show ?thesis by (simp add: cons_tag_bytes [OF assms(1,2)] bit_0)
qed

text \<open>
  C40.  Where the note on the even numbers holds: the memory that holds the tag reads as an odd number for each of the
  three built-in atoms on every machine, but for every cons cell of aligned pointers as an even one exactly on the
  machines that have the low byte first or pointers of 4 bytes.
\<close>

theorem val_tag_tells_cons:
  assumes "psize = 4 \<or> psize = 8"
  shows "odd (CST_VAL_TYPE mach (DEF_CONST_VAL_INT mach psize i))
    \<and> odd (CST_VAL_TYPE mach (DEF_CONST_VAL_FLOAT mach psize f))
    \<and> odd (CST_VAL_TYPE mach (DEF_CONST_VAL_STRING mach psize s))
    \<and> ((\<forall>car cdr. even car \<longrightarrow> even (CST_VAL_TYPE mach (cst_val_cons mach psize car cdr)))
         \<longleftrightarrow> mach \<noteq> HighFirst \<or> psize = 4)"
proof -
  have "mach \<noteq> HighFirst \<or> psize = 4"
    if all: "\<forall>car cdr. even car \<longrightarrow> even (CST_VAL_TYPE mach (cst_val_cons mach psize car cdr))"
  proof -
    have "even (CST_VAL_TYPE mach (cst_val_cons mach psize 0x100000000 0))" using all by simp
    then show ?thesis using high_first_cons_as_int assms by (auto simp: val_types)
  qed
  moreover have "even (CST_VAL_TYPE mach (cst_val_cons mach psize car cdr))"
    if "mach \<noteq> HighFirst \<or> psize = 4" "even car" for car cdr
    using cons_tag_even [OF _ that] assms by auto
  ultimately show ?thesis
    by (auto simp: DEF_CONST_VAL_INT_def DEF_CONST_VAL_FLOAT_def DEF_CONST_VAL_STRING_def atom_type val_types)
qed

theorem val_tag_tells_cons_witness:
  "even (CST_VAL_TYPE LowFirst (cst_val_cons LowFirst 8 4096 8192)) \<and> odd (CST_VAL_TYPE LowFirst (DEF_CONST_VAL_INT LowFirst 8 42))"
  using val_tag_tells_cons [of 8 LowFirst 42] by auto

text \<open>What a constant was defined with is what the accessors read.\<close>

theorem constants_read_back:
  assumes "psize = 4 \<or> psize = 8"
  shows "CST_VAL_INT mach psize (DEF_CONST_VAL_INT mach psize i) = i
    \<and> CST_VAL_FLOAT mach psize (DEF_CONST_VAL_FLOAT mach psize f) = f
    \<and> CST_VAL_STRING mach psize (DEF_CONST_VAL_STRING mach psize s) = take_bit (8 * psize) s
    \<and> CST_VAL_CAR mach psize (DEF_CONST_VAL_CONS mach psize a d) = take_bit (8 * psize) a
    \<and> CST_VAL_CDR mach psize (DEF_CONST_VAL_CONS mach psize a d) = take_bit (8 * psize) d
    \<and> CST_VAL_REFCOUNT mach (DEF_CONST_VAL_INT mach psize i) = - 1"
proof -
  have 4: "4 \<le> psize" using assms by auto
  have "block (DEF_CONST_VAL_INT mach psize i) psize 4 = wordImage mach 4 i"
    "block (DEF_CONST_VAL_FLOAT mach psize f) psize 4 = wordImage mach 4 f"
    "block (DEF_CONST_VAL_STRING mach psize s) psize psize = wordImage mach psize s"
    using atom_member [OF 4, of "wordImage mach 4 i"] atom_member [OF 4, of "wordImage mach 4 f"]
      atom_member [OF 4, of "wordImage mach psize s"] 4
    by (simp_all add: DEF_CONST_VAL_INT_def DEF_CONST_VAL_FLOAT_def DEF_CONST_VAL_STRING_def)
  then show ?thesis
    by (simp add: CST_VAL_INT_def CST_VAL_FLOAT_def CST_VAL_STRING_def CST_VAL_VOID_def CST_VAL_CAR_def
        CST_VAL_CDR_def DEF_CONST_VAL_CONS_def cst_val_cons_def block_take_drop nativeWord_image nativeWord_image_full
        DEF_CONST_VAL_INT_def atom_refcount take_bit_word_eq_self)
qed

text \<open>
  The structures that stand in for the union give the same bytes as the union for a string always, and for
  a number with pointers of 4 bytes; with 8 the number lies where the accessors do not look, and they read
  what follows the constant in memory.
\<close>

theorem struct_constants:
  "struct_const_string mach psize s = DEF_CONST_VAL_STRING mach psize s
    \<and> struct_const_int mach i = DEF_CONST_VAL_INT mach 4 i
    \<and> struct_const_float mach f = DEF_CONST_VAL_FLOAT mach 4 f
    \<and> CST_VAL_INT mach 8 (struct_const_int mach i @ rest) = nativeWord mach (block rest 0 4)"
proof -
  have "block (struct_const_int mach i @ rest) 8 4 = block rest 0 4"
    by (rule nth_equalityI) (simp_all add: block_def struct_const_int_def cst_val_int_def nth_append)
  then show ?thesis
    by (simp add: struct_const_string_def cst_val_void_def DEF_CONST_VAL_STRING_def cst_val_atom_def
        struct_const_int_def cst_val_int_def DEF_CONST_VAL_INT_def struct_const_float_def cst_val_float_def
        DEF_CONST_VAL_FLOAT_def CST_VAL_INT_def)
qed

end
