(* ===== verification/LtsTableA.thy ===== *)
theory LtsTableA
  imports LetterToSound
begin

text \<open>
  The address bytes of the letter-to-sound states as cmu_lts_model.h lists them, for the letters a to d:
  pieces of at most 150 states, each with the fact that state by state they are what the arithmetic of
  LetterToSound gives, and the whole table of a letter put together from its pieces.
\<close>

section \<open>Letter a\<close>

definition lts_a_0 :: "(byte \<times> byte) list" where
  "lts_a_0 = [
    (0, 0), (1, 0), (0x2, 0), (0x3, 0), (0x4, 0), (0x5, 0), (0x6, 0), (0x7, 0), (0x8, 0), (0x9, 0),
    (0xa, 0), (0xb, 0), (0xc, 0), (0xd, 0), (0xe, 0), (0xf, 0), (0x10, 0), (0x11, 0), (0x12, 0), (0x13, 0),
    (0x14, 0), (0x15, 0), (0x16, 0), (0x17, 0), (0x18, 0), (0x19, 0), (0x1a, 0), (0x1b, 0), (0x1c, 0), (0x1d, 0),
    (0x1e, 0), (0x1f, 0), (0x20, 0), (0x21, 0), (0x22, 0), (0x23, 0), (0x24, 0), (0x25, 0), (0x26, 0), (0x27, 0),
    (0x28, 0), (0x29, 0), (0x2a, 0), (0x2b, 0), (0x2c, 0), (0x2d, 0), (0x2e, 0), (0x2f, 0), (0x30, 0), (0x31, 0),
    (0x32, 0), (0x33, 0), (0x34, 0), (0x34, 0), (0x35, 0), (0x36, 0), (0x37, 0), (0x38, 0), (0x39, 0), (0x3a, 0),
    (0x3b, 0), (0x3c, 0), (0x3d, 0), (0x3e, 0), (0x3f, 0), (0x40, 0), (0x41, 0), (0x42, 0), (0x43, 0), (0x44, 0),
    (0x45, 0), (0x46, 0), (0x47, 0), (0x48, 0), (0x49, 0), (0x4a, 0), (0x4b, 0), (0x4c, 0), (0x4d, 0), (0x4e, 0),
    (0x4f, 0), (0x50, 0), (0x51, 0), (0x52, 0), (0x53, 0), (0x54, 0), (0x55, 0), (0x56, 0), (0x57, 0), (0x58, 0),
    (0x59, 0), (0x5a, 0), (0x5b, 0), (0x5c, 0), (0x5d, 0), (0x5e, 0), (0x5f, 0), (0x60, 0), (0x61, 0), (0x62, 0),
    (0x63, 0), (0x64, 0), (0x65, 0), (0x66, 0), (0x67, 0), (0x68, 0), (0x69, 0), (0x6a, 0), (0x6b, 0), (0x6c, 0),
    (0x6d, 0), (0x6e, 0), (0x6f, 0), (0x70, 0), (0x71, 0), (0x72, 0), (0x73, 0), (0x74, 0), (0x75, 0), (0x76, 0),
    (0x77, 0), (0x78, 0), (0x79, 0), (0x7a, 0), (0x7b, 0), (0x7c, 0), (0x7d, 0), (0x7e, 0), (0x7f, 0), (0x80, 0),
    (0x81, 0), (0x82, 0), (0x83, 0), (0x84, 0), (0x85, 0), (0x86, 0), (0x87, 0), (0x88, 0), (0x89, 0), (0x8a, 0),
    (0x8b, 0), (0x8c, 0), (0x8d, 0), (0x8e, 0), (0x8f, 0), (0x90, 0), (0x91, 0), (0x92, 0), (0x93, 0), (0x94, 0)]"

lemma lts_a_0_run [lts_run]: "table_run LTS_STATE_a 0 lts_a_0 150"
proof -
  have run: "lts_a_0 = bytes_up 53 0 0 @ bytes_up 97 0x34 0"
    by (simp add: lts_a_0_def bytes_up_numeral)
  show ?thesis by (simp add: run LTS_STATE_a_def bytes_up_run del: bytes_up.simps)
qed

definition lts_a_1 :: "(byte \<times> byte) list" where
  "lts_a_1 = [
    (0x95, 0), (0x96, 0), (0x97, 0), (0x98, 0), (0x99, 0), (0x9a, 0), (0x9b, 0), (0x9c, 0), (0x9d, 0), (0x9e, 0),
    (0x9f, 0), (0xa0, 0), (0xa1, 0), (0xa2, 0), (0xa3, 0), (0xa4, 0), (0xa5, 0), (0xa6, 0), (0xa7, 0), (0xa8, 0),
    (0xa9, 0), (0xaa, 0), (0xab, 0), (0xac, 0), (0xad, 0), (0xae, 0), (0xaf, 0), (0xb0, 0), (0xb1, 0), (0xb2, 0),
    (0xb3, 0), (0xb4, 0), (0xb5, 0), (0xb6, 0), (0xb7, 0), (0xb8, 0), (0xb9, 0), (0xba, 0), (0xbb, 0), (0xbc, 0),
    (0xbd, 0), (0xbe, 0), (0xbf, 0), (0xc0, 0), (0xc1, 0), (0xc2, 0), (0xc3, 0), (0xc4, 0), (0xc5, 0), (0xc6, 0),
    (0xc7, 0), (0xc8, 0), (0xc9, 0), (0xca, 0), (0xcb, 0), (0xcc, 0), (0xcd, 0), (0xce, 0), (0xcf, 0), (0xd0, 0),
    (0xd1, 0), (0xd2, 0), (0xd3, 0), (0xd4, 0), (0xd5, 0), (0xd6, 0), (0xd7, 0), (0xd8, 0), (0xd9, 0), (0xda, 0),
    (0xdb, 0), (0xdc, 0), (0xdd, 0), (0xde, 0), (0xdf, 0), (0xe0, 0), (0xe1, 0), (0xe2, 0), (0xe3, 0), (0xe4, 0),
    (0xe5, 0), (0xe6, 0), (0xe7, 0), (0xe8, 0), (0xe9, 0), (0xea, 0), (0xeb, 0), (0xec, 0), (0xed, 0), (0xee, 0),
    (0xef, 0), (0xf0, 0), (0xf1, 0), (0xf2, 0), (0xf3, 0), (0xf4, 0), (0xf5, 0), (0xf6, 0), (0xf7, 0), (0xf8, 0),
    (0xf9, 0), (0xfa, 0), (0xfb, 0), (0xfc, 0), (0xfd, 0), (0xfe, 0), (0xff, 0), (0, 1), (1, 1), (0x2, 1),
    (0x3, 1), (0x4, 1), (0x5, 1), (0x6, 1), (0x7, 1), (0x8, 1), (0x9, 1), (0xa, 1), (0xb, 1), (0xc, 1),
    (0xd, 1), (0xe, 1), (0xf, 1), (0x10, 1), (0x11, 1), (0x12, 1), (0x13, 1), (0x14, 1), (0x15, 1), (0x16, 1),
    (0x17, 1), (0x18, 1), (0x19, 1), (0x1a, 1), (0x1b, 1), (0x1c, 1), (0x1d, 1), (0x1e, 1), (0x1f, 1), (0x20, 1),
    (0x21, 1), (0x22, 1), (0x23, 1), (0x24, 1), (0x25, 1), (0x26, 1), (0x27, 1), (0x28, 1), (0x29, 1), (0x2a, 1)]"

lemma lts_a_1_run [lts_run]: "table_run LTS_STATE_a 150 lts_a_1 300"
proof -
  have run: "lts_a_1 = bytes_up 107 0x95 0 @ bytes_up 43 0 1"
    by (simp add: lts_a_1_def bytes_up_numeral)
  show ?thesis by (simp add: run LTS_STATE_a_def bytes_up_run del: bytes_up.simps)
qed

definition lts_a_2 :: "(byte \<times> byte) list" where
  "lts_a_2 = [
    (0x2b, 1), (0x2c, 1), (0x2d, 1), (0x2e, 1), (0x2f, 1), (0x30, 1), (0x31, 1), (0x32, 1), (0x33, 1), (0x34, 1),
    (0x35, 1), (0x36, 1), (0x37, 1), (0x38, 1), (0x39, 1), (0x3a, 1), (0x3b, 1), (0x3c, 1), (0x3d, 1), (0x3e, 1),
    (0x3f, 1), (0x40, 1), (0x41, 1), (0x42, 1), (0x43, 1), (0x44, 1), (0x45, 1), (0x46, 1), (0x47, 1), (0x48, 1),
    (0x49, 1), (0x4a, 1), (0x4b, 1), (0x4c, 1), (0x4d, 1), (0x4e, 1), (0x4f, 1), (0x50, 1), (0x51, 1), (0x52, 1),
    (0x53, 1), (0x54, 1), (0x55, 1), (0x56, 1), (0x57, 1), (0x58, 1), (0x59, 1), (0x5a, 1), (0x5b, 1), (0x5c, 1),
    (0x5d, 1), (0x5e, 1), (0x5f, 1), (0x60, 1), (0x61, 1), (0x62, 1), (0x63, 1), (0x64, 1), (0x65, 1), (0x66, 1),
    (0x67, 1), (0x68, 1), (0x69, 1), (0x6a, 1), (0x6b, 1), (0x6c, 1), (0x6d, 1), (0x6e, 1), (0x6f, 1), (0x70, 1),
    (0x71, 1), (0x72, 1), (0x73, 1), (0x74, 1), (0x75, 1), (0x76, 1), (0x77, 1), (0x78, 1), (0x79, 1), (0x7a, 1),
    (0x7b, 1), (0x7c, 1), (0x7d, 1), (0x7e, 1), (0x7f, 1), (0x80, 1), (0x81, 1), (0x82, 1), (0x83, 1), (0x84, 1),
    (0x85, 1), (0x86, 1), (0x87, 1), (0x88, 1), (0x89, 1), (0x8a, 1), (0x8b, 1), (0x8c, 1), (0x8d, 1), (0x8e, 1),
    (0x8f, 1), (0x90, 1), (0x91, 1), (0x92, 1), (0x93, 1), (0x94, 1), (0x95, 1), (0x96, 1), (0x97, 1), (0x98, 1),
    (0x99, 1), (0x9a, 1), (0x9b, 1), (0x9c, 1), (0x9d, 1), (0x9e, 1), (0x9f, 1), (0xa0, 1), (0xa1, 1), (0xa2, 1),
    (0xa3, 1), (0xa4, 1), (0xa5, 1), (0xa6, 1), (0xa7, 1), (0xa8, 1), (0xa9, 1), (0xaa, 1), (0xab, 1), (0xac, 1),
    (0xad, 1), (0xae, 1), (0xaf, 1), (0xb0, 1), (0xb1, 1), (0xb2, 1), (0xb3, 1), (0xb4, 1), (0xb5, 1), (0xb6, 1),
    (0xb7, 1), (0xb8, 1), (0xb9, 1), (0xba, 1), (0xbb, 1), (0xbc, 1), (0xbd, 1), (0xbe, 1), (0xbf, 1), (0xc0, 1)]"

lemma lts_a_2_run [lts_run]: "table_run LTS_STATE_a 300 lts_a_2 450"
proof -
  have run: "lts_a_2 = bytes_up 150 0x2b 1"
    by (simp add: lts_a_2_def bytes_up_numeral)
  show ?thesis by (simp add: run LTS_STATE_a_def bytes_up_run del: bytes_up.simps)
qed

definition lts_a_3 :: "(byte \<times> byte) list" where
  "lts_a_3 = [
    (0xc1, 1), (0xc2, 1), (0xc3, 1), (0xc4, 1), (0xc5, 1), (0xc6, 1), (0xc7, 1), (0xc8, 1), (0xc9, 1), (0xca, 1),
    (0xcb, 1), (0xcc, 1), (0xcd, 1), (0xce, 1), (0xcf, 1), (0xd0, 1), (0xd1, 1), (0xd2, 1), (0xd3, 1), (0xd4, 1),
    (0xd5, 1), (0xd6, 1), (0xd7, 1), (0xd8, 1), (0xd9, 1), (0xda, 1), (0xdb, 1), (0xdc, 1), (0xdd, 1), (0xde, 1),
    (0xdf, 1), (0xe0, 1), (0xe1, 1), (0xe2, 1), (0xe3, 1), (0xe4, 1), (0xe5, 1), (0xe6, 1), (0xe7, 1), (0xe8, 1),
    (0xe9, 1), (0xea, 1), (0xeb, 1), (0xec, 1), (0xed, 1), (0xee, 1), (0xef, 1), (0xf0, 1), (0xf1, 1), (0xf2, 1),
    (0xf3, 1), (0xf4, 1), (0xf5, 1), (0xf6, 1), (0xf7, 1), (0xf8, 1), (0xf9, 1), (0xfa, 1), (0xfb, 1), (0xfc, 1),
    (0xfd, 1), (0xfe, 1), (0xff, 1), (0, 0x2), (1, 0x2), (0x2, 0x2), (0x3, 0x2), (0x4, 0x2), (0x5, 0x2), (0x6, 0x2),
    (0x7, 0x2), (0x8, 0x2), (0x9, 0x2), (0xa, 0x2), (0xb, 0x2), (0xc, 0x2), (0xd, 0x2), (0xe, 0x2), (0xf, 0x2), (0x10, 0x2),
    (0x11, 0x2), (0x12, 0x2), (0x13, 0x2), (0x14, 0x2), (0x15, 0x2), (0x16, 0x2), (0x17, 0x2), (0x18, 0x2), (0x19, 0x2), (0x1a, 0x2),
    (0x1b, 0x2), (0x1c, 0x2), (0x1d, 0x2), (0x1e, 0x2), (0x1f, 0x2), (0x20, 0x2), (0x21, 0x2), (0x22, 0x2), (0x23, 0x2), (0x24, 0x2),
    (0x25, 0x2), (0x26, 0x2), (0x27, 0x2), (0x28, 0x2), (0x29, 0x2), (0x2a, 0x2), (0x2b, 0x2), (0x2c, 0x2), (0x2d, 0x2), (0x2e, 0x2),
    (0x2f, 0x2), (0x30, 0x2), (0x31, 0x2), (0x32, 0x2), (0x33, 0x2), (0x34, 0x2), (0x35, 0x2), (0x36, 0x2), (0x37, 0x2), (0x38, 0x2),
    (0x39, 0x2), (0x3a, 0x2), (0x3b, 0x2), (0x3c, 0x2), (0x3d, 0x2), (0x3e, 0x2), (0x3f, 0x2), (0x40, 0x2), (0x41, 0x2), (0x42, 0x2),
    (0x43, 0x2), (0x44, 0x2), (0x45, 0x2), (0x46, 0x2), (0x47, 0x2), (0x48, 0x2), (0x49, 0x2), (0x4a, 0x2), (0x4b, 0x2), (0x4c, 0x2),
    (0x4d, 0x2), (0x4e, 0x2), (0x4f, 0x2), (0x50, 0x2), (0x51, 0x2), (0x52, 0x2), (0x53, 0x2), (0x54, 0x2), (0x55, 0x2), (0x56, 0x2)]"

lemma lts_a_3_run [lts_run]: "table_run LTS_STATE_a 450 lts_a_3 600"
proof -
  have run: "lts_a_3 = bytes_up 63 0xc1 1 @ bytes_up 87 0 0x2"
    by (simp add: lts_a_3_def bytes_up_numeral)
  show ?thesis by (simp add: run LTS_STATE_a_def bytes_up_run del: bytes_up.simps)
qed

definition lts_a_4 :: "(byte \<times> byte) list" where
  "lts_a_4 = [
    (0x57, 0x2), (0x58, 0x2), (0x59, 0x2), (0x5a, 0x2), (0x5b, 0x2), (0x5c, 0x2), (0x5d, 0x2), (0x5e, 0x2), (0x5f, 0x2), (0x60, 0x2),
    (0x61, 0x2), (0x62, 0x2), (0x63, 0x2), (0x64, 0x2), (0x65, 0x2), (0x66, 0x2), (0x67, 0x2), (0x68, 0x2), (0x69, 0x2), (0x6a, 0x2),
    (0x6b, 0x2), (0x6c, 0x2), (0x6d, 0x2), (0x6e, 0x2), (0x6f, 0x2), (0x70, 0x2), (0x71, 0x2), (0x72, 0x2), (0x73, 0x2), (0x74, 0x2),
    (0x75, 0x2), (0x76, 0x2), (0x77, 0x2), (0x78, 0x2), (0x79, 0x2), (0x7a, 0x2), (0x7b, 0x2), (0x7c, 0x2), (0x7d, 0x2), (0x7e, 0x2),
    (0x7f, 0x2), (0x80, 0x2), (0x81, 0x2), (0x82, 0x2), (0x83, 0x2), (0x84, 0x2), (0x85, 0x2), (0x86, 0x2), (0x87, 0x2), (0x88, 0x2),
    (0x89, 0x2), (0x8a, 0x2), (0x8b, 0x2), (0x8c, 0x2), (0x8d, 0x2), (0x8e, 0x2), (0x8f, 0x2), (0x90, 0x2), (0x91, 0x2), (0x92, 0x2),
    (0x93, 0x2), (0x94, 0x2), (0x95, 0x2), (0x96, 0x2), (0x97, 0x2), (0x98, 0x2), (0x99, 0x2), (0x9a, 0x2), (0x9b, 0x2), (0x9c, 0x2),
    (0x9d, 0x2), (0x9e, 0x2), (0x9f, 0x2), (0xa0, 0x2), (0xa1, 0x2), (0xa2, 0x2), (0xa3, 0x2), (0xa4, 0x2), (0xa5, 0x2), (0xa6, 0x2),
    (0xa7, 0x2), (0xa8, 0x2), (0xa9, 0x2), (0xaa, 0x2), (0xab, 0x2), (0xac, 0x2), (0xad, 0x2), (0xae, 0x2), (0xaf, 0x2), (0xb0, 0x2),
    (0xb1, 0x2), (0xb2, 0x2), (0xb3, 0x2), (0xb4, 0x2), (0xb5, 0x2), (0xb6, 0x2), (0xb7, 0x2), (0xb8, 0x2), (0xb9, 0x2), (0xba, 0x2),
    (0xbb, 0x2), (0xbc, 0x2), (0xbd, 0x2), (0xbe, 0x2), (0xbf, 0x2), (0xc0, 0x2), (0xc1, 0x2), (0xc2, 0x2), (0xc3, 0x2), (0xc4, 0x2),
    (0xc5, 0x2), (0xc6, 0x2), (0xc7, 0x2), (0xc8, 0x2), (0xc9, 0x2), (0xca, 0x2), (0xcb, 0x2), (0xcc, 0x2), (0xcd, 0x2), (0xce, 0x2),
    (0xcf, 0x2), (0xd0, 0x2), (0xd1, 0x2), (0xd2, 0x2), (0xd3, 0x2), (0xd4, 0x2), (0xd5, 0x2), (0xd6, 0x2), (0xd7, 0x2), (0xd8, 0x2),
    (0xd9, 0x2), (0xda, 0x2), (0xdb, 0x2), (0xdc, 0x2), (0xdd, 0x2), (0xde, 0x2), (0xdf, 0x2), (0xe0, 0x2), (0xe1, 0x2), (0xe2, 0x2),
    (0xe3, 0x2), (0xe4, 0x2), (0xe5, 0x2), (0xe6, 0x2), (0xe7, 0x2), (0xe8, 0x2), (0xe9, 0x2), (0xea, 0x2), (0xeb, 0x2), (0xec, 0x2)]"

lemma lts_a_4_run [lts_run]: "table_run LTS_STATE_a 600 lts_a_4 750"
proof -
  have run: "lts_a_4 = bytes_up 150 0x57 0x2"
    by (simp add: lts_a_4_def bytes_up_numeral)
  show ?thesis by (simp add: run LTS_STATE_a_def bytes_up_run del: bytes_up.simps)
qed

definition lts_a_5 :: "(byte \<times> byte) list" where
  "lts_a_5 = [
    (0xed, 0x2), (0xee, 0x2), (0xef, 0x2), (0xf0, 0x2), (0xf1, 0x2), (0xf2, 0x2), (0xf3, 0x2), (0xf4, 0x2), (0xf5, 0x2), (0xf6, 0x2),
    (0xf7, 0x2), (0xf8, 0x2), (0xf9, 0x2), (0xfa, 0x2), (0xfb, 0x2), (0xfc, 0x2), (0xfd, 0x2), (0xfe, 0x2), (0xff, 0x2), (0, 0x3),
    (1, 0x3), (0x2, 0x3), (0x3, 0x3), (0x4, 0x3), (0x5, 0x3), (0x6, 0x3), (0x7, 0x3), (0x8, 0x3), (0x9, 0x3), (0xa, 0x3),
    (0xb, 0x3), (0xc, 0x3), (0xd, 0x3), (0xe, 0x3), (0xf, 0x3), (0x10, 0x3), (0x11, 0x3), (0x12, 0x3), (0x13, 0x3), (0x14, 0x3),
    (0x15, 0x3), (0x16, 0x3), (0x17, 0x3), (0x18, 0x3), (0x19, 0x3), (0x1a, 0x3), (0x1b, 0x3), (0x1c, 0x3), (0x1d, 0x3), (0x1e, 0x3),
    (0x1f, 0x3), (0x20, 0x3), (0x21, 0x3), (0x22, 0x3), (0x23, 0x3), (0x24, 0x3), (0x25, 0x3), (0x26, 0x3), (0x27, 0x3), (0x28, 0x3),
    (0x29, 0x3), (0x2a, 0x3), (0x2b, 0x3), (0x2c, 0x3), (0x2d, 0x3), (0x2e, 0x3), (0x2f, 0x3), (0x30, 0x3), (0x31, 0x3), (0x32, 0x3),
    (0x33, 0x3), (0x34, 0x3), (0x35, 0x3), (0x36, 0x3), (0x37, 0x3), (0x38, 0x3), (0x39, 0x3), (0x3a, 0x3), (0x3b, 0x3), (0x3c, 0x3),
    (0x3d, 0x3), (0x3e, 0x3), (0x3f, 0x3), (0x40, 0x3), (0x41, 0x3), (0x42, 0x3), (0x43, 0x3), (0x44, 0x3), (0x45, 0x3), (0x46, 0x3),
    (0x47, 0x3), (0x48, 0x3), (0x49, 0x3), (0x4a, 0x3), (0x4b, 0x3), (0x4c, 0x3), (0x4d, 0x3), (0x4e, 0x3), (0x4f, 0x3), (0x50, 0x3),
    (0x51, 0x3), (0x52, 0x3), (0x53, 0x3), (0x54, 0x3), (0x55, 0x3), (0x56, 0x3), (0x57, 0x3), (0x58, 0x3), (0x59, 0x3), (0x5a, 0x3),
    (0x5b, 0x3), (0x5c, 0x3), (0x5d, 0x3), (0x5e, 0x3), (0x5f, 0x3), (0x60, 0x3), (0x61, 0x3), (0x62, 0x3), (0x63, 0x3), (0x64, 0x3),
    (0x65, 0x3), (0x66, 0x3), (0x67, 0x3), (0x68, 0x3), (0x69, 0x3), (0x6a, 0x3), (0x6b, 0x3), (0x6c, 0x3), (0x6d, 0x3), (0x6e, 0x3),
    (0x6f, 0x3), (0x70, 0x3), (0x71, 0x3), (0x72, 0x3), (0x73, 0x3), (0x74, 0x3), (0x75, 0x3), (0x76, 0x3), (0x77, 0x3), (0x78, 0x3),
    (0x79, 0x3), (0x7a, 0x3), (0x7b, 0x3), (0x7c, 0x3), (0x7d, 0x3), (0x7e, 0x3), (0x7f, 0x3), (0x80, 0x3), (0x81, 0x3), (0x82, 0x3)]"

lemma lts_a_5_run [lts_run]: "table_run LTS_STATE_a 750 lts_a_5 900"
proof -
  have run: "lts_a_5 = bytes_up 19 0xed 0x2 @ bytes_up 131 0 0x3"
    by (simp add: lts_a_5_def bytes_up_numeral)
  show ?thesis by (simp add: run LTS_STATE_a_def bytes_up_run del: bytes_up.simps)
qed

definition lts_a_6 :: "(byte \<times> byte) list" where
  "lts_a_6 = [
    (0x83, 0x3), (0x84, 0x3), (0x85, 0x3), (0x86, 0x3), (0x87, 0x3), (0x88, 0x3), (0x89, 0x3), (0x8a, 0x3), (0x8b, 0x3), (0x8c, 0x3),
    (0x8d, 0x3), (0x8e, 0x3), (0x8f, 0x3), (0x90, 0x3), (0x91, 0x3), (0x92, 0x3), (0x93, 0x3), (0x94, 0x3), (0x95, 0x3), (0x96, 0x3),
    (0x97, 0x3), (0x98, 0x3), (0x99, 0x3), (0x9a, 0x3), (0x9b, 0x3), (0x9c, 0x3), (0x9d, 0x3), (0x9e, 0x3), (0x9f, 0x3), (0xa0, 0x3),
    (0xa1, 0x3), (0xa2, 0x3), (0xa3, 0x3), (0xa4, 0x3), (0xa5, 0x3), (0xa6, 0x3), (0xa7, 0x3), (0xa8, 0x3), (0xa9, 0x3), (0xaa, 0x3),
    (0xab, 0x3), (0xac, 0x3), (0xad, 0x3), (0xae, 0x3), (0xaf, 0x3), (0xb0, 0x3), (0xb1, 0x3), (0xb2, 0x3), (0xb3, 0x3), (0xb4, 0x3),
    (0xb5, 0x3), (0xb6, 0x3), (0xb7, 0x3), (0xb8, 0x3), (0xb9, 0x3), (0xba, 0x3), (0xbb, 0x3), (0xbc, 0x3), (0xbd, 0x3), (0xbe, 0x3),
    (0xbf, 0x3), (0xc0, 0x3), (0xc1, 0x3), (0xc2, 0x3), (0xc3, 0x3), (0xc4, 0x3), (0xc5, 0x3), (0xc6, 0x3), (0xc7, 0x3), (0xc8, 0x3),
    (0xc9, 0x3), (0xca, 0x3), (0xcb, 0x3), (0xcc, 0x3), (0xcd, 0x3), (0xce, 0x3), (0xcf, 0x3), (0xd0, 0x3), (0xd1, 0x3), (0xd2, 0x3),
    (0xd3, 0x3), (0xd4, 0x3), (0xd5, 0x3), (0xd6, 0x3), (0xd7, 0x3), (0xd8, 0x3), (0xd9, 0x3), (0xda, 0x3), (0xdb, 0x3), (0xdc, 0x3),
    (0xdd, 0x3), (0xde, 0x3), (0xdf, 0x3), (0xe0, 0x3), (0xe1, 0x3), (0xe2, 0x3), (0xe3, 0x3), (0xe4, 0x3), (0xe5, 0x3), (0xe6, 0x3),
    (0xe7, 0x3), (0xe8, 0x3), (0xe9, 0x3), (0xea, 0x3), (0xeb, 0x3), (0xec, 0x3), (0xed, 0x3), (0xee, 0x3), (0xef, 0x3), (0xf0, 0x3),
    (0xf1, 0x3), (0xf2, 0x3), (0xf3, 0x3), (0xf4, 0x3), (0xf5, 0x3), (0xf6, 0x3), (0xf7, 0x3), (0xf8, 0x3), (0xf9, 0x3), (0xfa, 0x3),
    (0xfb, 0x3), (0xfc, 0x3), (0xfd, 0x3), (0xfe, 0x3), (0xff, 0x3), (0, 0x4), (1, 0x4), (0x2, 0x4), (0x3, 0x4), (0x4, 0x4),
    (0x5, 0x4), (0x6, 0x4), (0x7, 0x4), (0x8, 0x4), (0x9, 0x4), (0xa, 0x4), (0xb, 0x4), (0xc, 0x4), (0xd, 0x4), (0xe, 0x4),
    (0xf, 0x4), (0x10, 0x4), (0x11, 0x4), (0x12, 0x4), (0x13, 0x4), (0x14, 0x4), (0x15, 0x4), (0x16, 0x4), (0x17, 0x4), (0x18, 0x4)]"

lemma lts_a_6_run [lts_run]: "table_run LTS_STATE_a 900 lts_a_6 1050"
proof -
  have run: "lts_a_6 = bytes_up 125 0x83 0x3 @ bytes_up 25 0 0x4"
    by (simp add: lts_a_6_def bytes_up_numeral)
  show ?thesis by (simp add: run LTS_STATE_a_def bytes_up_run del: bytes_up.simps)
qed

definition lts_a_7 :: "(byte \<times> byte) list" where
  "lts_a_7 = [
    (0x19, 0x4), (0x1a, 0x4), (0x1b, 0x4), (0x1c, 0x4), (0x1d, 0x4), (0x1e, 0x4), (0x1f, 0x4), (0x20, 0x4), (0x21, 0x4), (0x22, 0x4),
    (0x23, 0x4), (0x24, 0x4), (0x25, 0x4), (0x26, 0x4), (0x27, 0x4), (0x28, 0x4), (0x29, 0x4), (0x2a, 0x4), (0x2b, 0x4), (0x2c, 0x4),
    (0x2d, 0x4), (0x2e, 0x4), (0x2f, 0x4), (0x30, 0x4), (0x31, 0x4), (0x32, 0x4), (0x33, 0x4), (0x34, 0x4), (0x35, 0x4), (0x36, 0x4),
    (0x37, 0x4), (0x38, 0x4), (0x39, 0x4), (0x3a, 0x4), (0x3b, 0x4), (0x3c, 0x4), (0x3d, 0x4), (0x3e, 0x4), (0x3f, 0x4), (0x40, 0x4),
    (0x41, 0x4), (0x42, 0x4), (0x43, 0x4), (0x44, 0x4), (0x45, 0x4), (0x46, 0x4), (0x47, 0x4), (0x48, 0x4), (0x49, 0x4), (0x4a, 0x4),
    (0x4b, 0x4), (0x4c, 0x4), (0x4d, 0x4), (0x4e, 0x4), (0x4f, 0x4), (0x50, 0x4), (0x51, 0x4), (0x52, 0x4), (0x53, 0x4), (0x54, 0x4),
    (0x55, 0x4), (0x56, 0x4), (0x57, 0x4), (0x58, 0x4), (0x59, 0x4), (0x5a, 0x4), (0x5b, 0x4), (0x5c, 0x4), (0x5d, 0x4), (0x5e, 0x4),
    (0x5f, 0x4), (0x60, 0x4), (0x61, 0x4), (0x62, 0x4), (0x63, 0x4), (0x64, 0x4), (0x65, 0x4), (0x66, 0x4), (0x67, 0x4), (0x68, 0x4),
    (0x69, 0x4), (0x6a, 0x4), (0x6b, 0x4), (0x6c, 0x4), (0x6d, 0x4), (0x6e, 0x4), (0x6f, 0x4), (0x70, 0x4), (0x71, 0x4), (0x72, 0x4),
    (0x73, 0x4), (0x74, 0x4), (0x75, 0x4), (0x76, 0x4), (0x77, 0x4), (0x78, 0x4), (0x79, 0x4), (0x7a, 0x4), (0x7b, 0x4), (0x7c, 0x4),
    (0x7d, 0x4), (0x7e, 0x4), (0x7f, 0x4), (0x80, 0x4), (0x81, 0x4), (0x82, 0x4), (0x83, 0x4), (0x84, 0x4), (0x85, 0x4), (0x86, 0x4),
    (0x87, 0x4), (0x88, 0x4), (0x89, 0x4), (0x8a, 0x4), (0x8b, 0x4), (0x8c, 0x4), (0x8d, 0x4), (0x8e, 0x4), (0x8f, 0x4), (0x90, 0x4),
    (0x91, 0x4), (0x92, 0x4), (0x93, 0x4), (0x94, 0x4), (0x95, 0x4), (0x96, 0x4), (0x97, 0x4), (0x98, 0x4), (0x99, 0x4), (0x9a, 0x4),
    (0x9b, 0x4), (0x9c, 0x4), (0x9d, 0x4), (0x9e, 0x4), (0x9f, 0x4), (0xa0, 0x4), (0xa1, 0x4), (0xa2, 0x4), (0xa3, 0x4), (0xa4, 0x4),
    (0xa5, 0x4), (0xa6, 0x4), (0xa7, 0x4), (0xa8, 0x4), (0xa9, 0x4), (0xaa, 0x4), (0xab, 0x4), (0xac, 0x4), (0xad, 0x4), (0xae, 0x4)]"

lemma lts_a_7_run [lts_run]: "table_run LTS_STATE_a 1050 lts_a_7 1200"
proof -
  have run: "lts_a_7 = bytes_up 150 0x19 0x4"
    by (simp add: lts_a_7_def bytes_up_numeral)
  show ?thesis by (simp add: run LTS_STATE_a_def bytes_up_run del: bytes_up.simps)
qed

definition lts_a_8 :: "(byte \<times> byte) list" where
  "lts_a_8 = [
    (0xaf, 0x4), (0xb0, 0x4), (0xb1, 0x4), (0xb2, 0x4), (0xb3, 0x4), (0xb4, 0x4), (0xb5, 0x4), (0xb6, 0x4), (0xb7, 0x4), (0xb8, 0x4),
    (0xb9, 0x4), (0xba, 0x4), (0xbb, 0x4), (0xbc, 0x4), (0xbd, 0x4), (0xbe, 0x4), (0xbf, 0x4), (0xc0, 0x4), (0xc1, 0x4), (0xc2, 0x4),
    (0xc3, 0x4), (0xc4, 0x4), (0xc5, 0x4), (0xc6, 0x4), (0xc7, 0x4), (0xc8, 0x4), (0xc9, 0x4), (0xca, 0x4), (0xcb, 0x4), (0xcc, 0x4),
    (0xcd, 0x4), (0xce, 0x4), (0xcf, 0x4), (0xd0, 0x4), (0xd1, 0x4), (0xd2, 0x4), (0xd3, 0x4), (0xd4, 0x4), (0xd5, 0x4), (0xd6, 0x4),
    (0xd7, 0x4), (0xd8, 0x4), (0xd9, 0x4), (0xda, 0x4), (0xdb, 0x4), (0xdc, 0x4), (0xdd, 0x4), (0xde, 0x4), (0xdf, 0x4), (0xe0, 0x4),
    (0xe1, 0x4), (0xe2, 0x4), (0xe3, 0x4), (0xe4, 0x4), (0xe5, 0x4), (0xe6, 0x4), (0xe7, 0x4), (0xe8, 0x4), (0xe9, 0x4), (0xea, 0x4),
    (0xeb, 0x4), (0xec, 0x4), (0xed, 0x4), (0xee, 0x4), (0xef, 0x4), (0xf0, 0x4), (0xf1, 0x4), (0xf2, 0x4), (0xf3, 0x4), (0xf4, 0x4),
    (0xf5, 0x4), (0xf6, 0x4), (0xf7, 0x4), (0xf8, 0x4), (0xf9, 0x4), (0xfa, 0x4), (0xfb, 0x4), (0xfc, 0x4), (0xfd, 0x4), (0xfe, 0x4),
    (0xff, 0x4), (0, 0x5), (1, 0x5), (0x2, 0x5), (0x3, 0x5), (0x4, 0x5), (0x5, 0x5), (0x6, 0x5), (0x7, 0x5), (0x8, 0x5),
    (0x9, 0x5), (0xa, 0x5), (0xb, 0x5), (0xc, 0x5), (0xd, 0x5), (0xe, 0x5), (0xf, 0x5), (0x10, 0x5), (0x11, 0x5), (0x12, 0x5),
    (0x13, 0x5), (0x14, 0x5), (0x15, 0x5), (0x16, 0x5), (0x17, 0x5), (0x18, 0x5), (0x19, 0x5), (0x1a, 0x5), (0x1b, 0x5), (0x1c, 0x5),
    (0x1d, 0x5), (0x1e, 0x5), (0x1f, 0x5), (0x20, 0x5), (0x21, 0x5), (0x22, 0x5), (0x23, 0x5), (0x24, 0x5), (0x25, 0x5), (0x26, 0x5),
    (0x27, 0x5), (0x28, 0x5), (0x29, 0x5), (0x2a, 0x5), (0x2b, 0x5), (0x2c, 0x5), (0x2d, 0x5), (0x2e, 0x5), (0x2f, 0x5), (0x30, 0x5),
    (0x31, 0x5), (0x32, 0x5), (0x33, 0x5), (0x34, 0x5), (0x35, 0x5), (0x36, 0x5), (0x37, 0x5), (0x38, 0x5), (0x39, 0x5), (0x3a, 0x5),
    (0x3b, 0x5), (0x3c, 0x5), (0x3d, 0x5), (0x3e, 0x5), (0x3f, 0x5), (0x40, 0x5), (0x41, 0x5), (0x42, 0x5), (0x43, 0x5), (0x44, 0x5)]"

lemma lts_a_8_run [lts_run]: "table_run LTS_STATE_a 1200 lts_a_8 1350"
proof -
  have run: "lts_a_8 = bytes_up 81 0xaf 0x4 @ bytes_up 69 0 0x5"
    by (simp add: lts_a_8_def bytes_up_numeral)
  show ?thesis by (simp add: run LTS_STATE_a_def bytes_up_run del: bytes_up.simps)
qed

definition lts_a_9 :: "(byte \<times> byte) list" where
  "lts_a_9 = [
    (0x45, 0x5), (0x46, 0x5), (0x47, 0x5), (0x48, 0x5), (0x49, 0x5), (0x4a, 0x5), (0x4b, 0x5), (0x4c, 0x5), (0x4d, 0x5), (0x4e, 0x5),
    (0x4f, 0x5), (0x50, 0x5), (0x51, 0x5), (0x52, 0x5), (0x53, 0x5), (0x54, 0x5), (0x55, 0x5), (0x56, 0x5), (0x57, 0x5), (0x58, 0x5),
    (0x59, 0x5), (0x5a, 0x5), (0x5b, 0x5), (0x5c, 0x5), (0x5d, 0x5), (0x5e, 0x5), (0x5f, 0x5), (0x60, 0x5), (0x61, 0x5), (0x62, 0x5),
    (0x63, 0x5), (0x64, 0x5), (0x65, 0x5), (0x66, 0x5), (0x67, 0x5), (0x68, 0x5), (0x69, 0x5), (0x6a, 0x5), (0x6b, 0x5), (0x6c, 0x5),
    (0x6d, 0x5), (0x6e, 0x5), (0x6f, 0x5), (0x70, 0x5), (0x71, 0x5), (0x72, 0x5), (0x73, 0x5), (0x74, 0x5), (0x75, 0x5), (0x76, 0x5),
    (0x77, 0x5), (0x78, 0x5), (0x79, 0x5), (0x7a, 0x5), (0x7b, 0x5), (0x7c, 0x5), (0x7d, 0x5), (0x7e, 0x5), (0x7f, 0x5), (0x80, 0x5),
    (0x81, 0x5), (0x82, 0x5), (0x83, 0x5), (0x84, 0x5), (0x85, 0x5), (0x86, 0x5), (0x87, 0x5), (0x88, 0x5), (0x89, 0x5), (0x8a, 0x5),
    (0x8b, 0x5), (0x8c, 0x5), (0x8d, 0x5), (0x8e, 0x5), (0x8f, 0x5), (0x90, 0x5), (0x91, 0x5), (0x92, 0x5), (0x93, 0x5), (0x94, 0x5),
    (0x95, 0x5), (0x96, 0x5), (0x97, 0x5), (0x98, 0x5), (0x99, 0x5), (0x9a, 0x5), (0x9b, 0x5), (0x9c, 0x5), (0x9d, 0x5), (0x9e, 0x5),
    (0x9f, 0x5), (0xa0, 0x5), (0xa1, 0x5), (0xa2, 0x5), (0xa3, 0x5), (0xa4, 0x5), (0xa5, 0x5), (0xa6, 0x5), (0xa7, 0x5), (0xa8, 0x5),
    (0xa9, 0x5), (0xaa, 0x5), (0xab, 0x5), (0xac, 0x5), (0xad, 0x5), (0xae, 0x5), (0xaf, 0x5), (0xb0, 0x5), (0xb1, 0x5), (0xb2, 0x5),
    (0xb3, 0x5), (0xb4, 0x5), (0xb5, 0x5), (0xb6, 0x5), (0xb7, 0x5), (0xb8, 0x5), (0xb9, 0x5), (0xba, 0x5), (0xbb, 0x5), (0xbc, 0x5),
    (0xbd, 0x5), (0xbe, 0x5), (0xbf, 0x5), (0xc0, 0x5), (0xc1, 0x5), (0xc2, 0x5), (0xc3, 0x5), (0xc4, 0x5), (0xc5, 0x5), (0xc6, 0x5),
    (0xc7, 0x5), (0xc8, 0x5), (0xc9, 0x5), (0xca, 0x5), (0xcb, 0x5), (0xcc, 0x5), (0xcd, 0x5), (0xce, 0x5), (0xcf, 0x5), (0xd0, 0x5),
    (0xd1, 0x5), (0xd2, 0x5), (0xd3, 0x5), (0xd4, 0x5), (0xd5, 0x5), (0xd6, 0x5), (0xd7, 0x5), (0xd8, 0x5), (0xd9, 0x5), (0xda, 0x5)]"

lemma lts_a_9_run [lts_run]: "table_run LTS_STATE_a 1350 lts_a_9 1500"
proof -
  have run: "lts_a_9 = bytes_up 150 0x45 0x5"
    by (simp add: lts_a_9_def bytes_up_numeral)
  show ?thesis by (simp add: run LTS_STATE_a_def bytes_up_run del: bytes_up.simps)
qed

definition lts_a_10 :: "(byte \<times> byte) list" where
  "lts_a_10 = [
    (0xdb, 0x5), (0xdc, 0x5), (0xdd, 0x5), (0xde, 0x5), (0xdf, 0x5), (0xe0, 0x5), (0xe1, 0x5), (0xe2, 0x5), (0xe3, 0x5), (0xe4, 0x5),
    (0xe5, 0x5), (0xe6, 0x5), (0xe7, 0x5), (0xe8, 0x5), (0xe9, 0x5), (0xea, 0x5), (0xeb, 0x5), (0xec, 0x5), (0xed, 0x5), (0xee, 0x5),
    (0xef, 0x5), (0xf0, 0x5), (0xf1, 0x5), (0xf2, 0x5), (0xf3, 0x5), (0xf4, 0x5), (0xf5, 0x5), (0xf6, 0x5), (0xf7, 0x5), (0xf8, 0x5),
    (0xf9, 0x5), (0xfa, 0x5), (0xfb, 0x5), (0xfc, 0x5), (0xfd, 0x5), (0xfe, 0x5), (0xff, 0x5), (0, 0x6), (1, 0x6), (0x2, 0x6),
    (0x3, 0x6), (0x4, 0x6), (0x5, 0x6), (0x6, 0x6), (0x7, 0x6), (0x8, 0x6), (0x9, 0x6), (0xa, 0x6), (0xb, 0x6), (0xc, 0x6),
    (0xd, 0x6), (0xe, 0x6), (0xf, 0x6), (0x10, 0x6), (0x11, 0x6), (0x12, 0x6), (0x13, 0x6), (0x14, 0x6), (0x15, 0x6), (0x16, 0x6),
    (0x17, 0x6), (0x18, 0x6), (0x19, 0x6), (0x1a, 0x6), (0x1b, 0x6), (0x1c, 0x6), (0x1d, 0x6), (0x1e, 0x6), (0x1f, 0x6), (0x20, 0x6),
    (0x21, 0x6), (0x22, 0x6), (0x23, 0x6), (0x24, 0x6), (0x25, 0x6), (0x26, 0x6), (0x27, 0x6), (0x28, 0x6), (0x29, 0x6), (0x2a, 0x6),
    (0x2b, 0x6), (0x2c, 0x6), (0x2d, 0x6), (0x2e, 0x6), (0x2f, 0x6), (0x30, 0x6), (0x31, 0x6), (0x32, 0x6), (0x33, 0x6), (0x34, 0x6),
    (0x35, 0x6), (0x36, 0x6), (0x37, 0x6), (0x38, 0x6), (0x39, 0x6), (0x3a, 0x6), (0x3b, 0x6), (0x3c, 0x6), (0x3d, 0x6), (0x3e, 0x6),
    (0x3f, 0x6), (0x40, 0x6), (0x41, 0x6), (0x42, 0x6), (0x43, 0x6), (0x44, 0x6), (0x45, 0x6), (0x46, 0x6), (0x47, 0x6), (0x48, 0x6),
    (0x49, 0x6), (0x4a, 0x6), (0x4b, 0x6), (0x4c, 0x6), (0x4d, 0x6), (0x4e, 0x6), (0x4f, 0x6), (0x50, 0x6), (0x51, 0x6), (0x52, 0x6),
    (0x53, 0x6), (0x54, 0x6), (0x55, 0x6), (0x56, 0x6), (0x57, 0x6), (0x58, 0x6), (0x59, 0x6), (0x5a, 0x6), (0x5b, 0x6), (0x5c, 0x6),
    (0x5d, 0x6), (0x5e, 0x6), (0x5f, 0x6), (0x60, 0x6), (0x61, 0x6), (0x62, 0x6), (0x63, 0x6), (0x64, 0x6), (0x65, 0x6), (0x66, 0x6),
    (0x67, 0x6), (0x68, 0x6), (0x69, 0x6), (0x6a, 0x6), (0x6b, 0x6), (0x6c, 0x6), (0x6d, 0x6), (0x6e, 0x6), (0x6f, 0x6), (0x70, 0x6)]"

lemma lts_a_10_run [lts_run]: "table_run LTS_STATE_a 1500 lts_a_10 1650"
proof -
  have run: "lts_a_10 = bytes_up 37 0xdb 0x5 @ bytes_up 113 0 0x6"
    by (simp add: lts_a_10_def bytes_up_numeral)
  show ?thesis by (simp add: run LTS_STATE_a_def bytes_up_run del: bytes_up.simps)
qed

definition lts_a_11 :: "(byte \<times> byte) list" where
  "lts_a_11 = [
    (0x71, 0x6), (0x72, 0x6), (0x73, 0x6), (0x74, 0x6), (0x75, 0x6), (0x76, 0x6), (0x77, 0x6), (0x78, 0x6), (0x79, 0x6), (0x7a, 0x6),
    (0x7b, 0x6), (0x7c, 0x6), (0x7d, 0x6), (0x7e, 0x6), (0x7f, 0x6), (0x80, 0x6), (0x81, 0x6), (0x82, 0x6), (0x83, 0x6), (0x84, 0x6),
    (0x85, 0x6), (0x86, 0x6), (0x87, 0x6), (0x88, 0x6), (0x89, 0x6), (0x8a, 0x6), (0x8b, 0x6), (0x8c, 0x6), (0x8d, 0x6), (0x8e, 0x6),
    (0x8f, 0x6), (0x90, 0x6), (0x91, 0x6), (0x92, 0x6), (0x93, 0x6), (0x94, 0x6), (0x95, 0x6), (0x96, 0x6), (0x97, 0x6), (0x98, 0x6),
    (0x99, 0x6), (0x9a, 0x6), (0x9b, 0x6), (0x9c, 0x6), (0x9d, 0x6), (0x9e, 0x6), (0x9f, 0x6), (0xa0, 0x6), (0xa1, 0x6), (0xa2, 0x6),
    (0xa3, 0x6), (0xa4, 0x6), (0xa5, 0x6), (0xa6, 0x6), (0xa7, 0x6), (0xa8, 0x6), (0xa9, 0x6), (0xaa, 0x6), (0xab, 0x6), (0xac, 0x6),
    (0xad, 0x6), (0xae, 0x6), (0xaf, 0x6), (0xb0, 0x6), (0xb1, 0x6), (0xb2, 0x6), (0xb3, 0x6), (0xb4, 0x6), (0xb5, 0x6), (0xb6, 0x6),
    (0xb7, 0x6), (0xb8, 0x6), (0xb9, 0x6), (0xba, 0x6), (0xbb, 0x6), (0xbc, 0x6), (0xbd, 0x6), (0xbe, 0x6), (0xbf, 0x6), (0xc0, 0x6),
    (0xc1, 0x6), (0xc2, 0x6), (0xc3, 0x6), (0xc4, 0x6), (0xc5, 0x6), (0xc6, 0x6), (0xc7, 0x6), (0xc8, 0x6), (0xc9, 0x6), (0xca, 0x6),
    (0xcb, 0x6), (0xcc, 0x6), (0xcd, 0x6), (0xce, 0x6), (0xcf, 0x6), (0xd0, 0x6), (0xd1, 0x6), (0xd2, 0x6), (0xd3, 0x6), (0xd4, 0x6),
    (0xd5, 0x6), (0xd6, 0x6), (0xd7, 0x6), (0xd8, 0x6), (0xd9, 0x6), (0xda, 0x6), (0xdb, 0x6), (0xdc, 0x6), (0xdd, 0x6), (0xde, 0x6),
    (0xdf, 0x6), (0xe0, 0x6), (0xe1, 0x6), (0xe2, 0x6), (0xe3, 0x6), (0xe4, 0x6), (0xe5, 0x6), (0xe6, 0x6), (0xe7, 0x6), (0xe8, 0x6),
    (0xe9, 0x6), (0xea, 0x6), (0xeb, 0x6), (0xec, 0x6), (0xed, 0x6), (0xee, 0x6), (0xef, 0x6), (0xf0, 0x6), (0xf1, 0x6), (0xf2, 0x6),
    (0xf3, 0x6), (0xf4, 0x6), (0xf5, 0x6), (0xf6, 0x6), (0xf7, 0x6), (0xf8, 0x6), (0xf9, 0x6), (0xfa, 0x6), (0xfb, 0x6), (0xfc, 0x6),
    (0xfd, 0x6), (0xfe, 0x6), (0xff, 0x6), (0, 0x7), (1, 0x7), (0x2, 0x7), (0x3, 0x7), (0x4, 0x7), (0x5, 0x7), (0x6, 0x7)]"

lemma lts_a_11_run [lts_run]: "table_run LTS_STATE_a 1650 lts_a_11 1800"
proof -
  have run: "lts_a_11 = bytes_up 143 0x71 0x6 @ bytes_up 7 0 0x7"
    by (simp add: lts_a_11_def bytes_up_numeral)
  show ?thesis by (simp add: run LTS_STATE_a_def bytes_up_run del: bytes_up.simps)
qed

definition lts_a_12 :: "(byte \<times> byte) list" where
  "lts_a_12 = [
    (0x7, 0x7), (0x8, 0x7), (0x9, 0x7), (0xa, 0x7), (0xb, 0x7), (0xc, 0x7), (0xd, 0x7), (0xe, 0x7), (0xf, 0x7), (0x10, 0x7),
    (0x11, 0x7), (0x12, 0x7), (0x13, 0x7), (0x14, 0x7), (0x15, 0x7), (0x16, 0x7), (0x17, 0x7), (0x18, 0x7), (0x19, 0x7), (0x1a, 0x7),
    (0x1b, 0x7), (0x1c, 0x7), (0x1d, 0x7), (0x1e, 0x7), (0x1f, 0x7), (0x20, 0x7), (0x21, 0x7), (0x22, 0x7), (0x23, 0x7), (0x24, 0x7),
    (0x25, 0x7), (0x26, 0x7), (0x27, 0x7), (0x28, 0x7), (0x29, 0x7), (0x2a, 0x7), (0x2b, 0x7), (0x2c, 0x7), (0x2d, 0x7), (0x2e, 0x7),
    (0x2f, 0x7), (0x30, 0x7), (0x31, 0x7), (0x32, 0x7), (0x33, 0x7), (0x34, 0x7), (0x35, 0x7), (0x36, 0x7), (0x37, 0x7), (0x38, 0x7),
    (0x39, 0x7), (0x3a, 0x7), (0x3b, 0x7), (0x3c, 0x7), (0x3d, 0x7), (0x3e, 0x7), (0x3f, 0x7), (0x40, 0x7), (0x41, 0x7), (0x42, 0x7),
    (0x43, 0x7), (0x44, 0x7), (0x45, 0x7), (0x46, 0x7), (0x47, 0x7), (0x48, 0x7), (0x49, 0x7), (0x4a, 0x7), (0x4b, 0x7), (0x4c, 0x7),
    (0x4d, 0x7), (0x4e, 0x7), (0x4f, 0x7), (0x50, 0x7), (0x51, 0x7), (0x52, 0x7), (0x53, 0x7), (0x54, 0x7), (0x55, 0x7), (0x56, 0x7),
    (0x57, 0x7), (0x58, 0x7), (0x59, 0x7), (0x5a, 0x7), (0x5b, 0x7), (0x5c, 0x7), (0x5d, 0x7), (0x5e, 0x7), (0x5f, 0x7), (0x60, 0x7),
    (0x61, 0x7), (0x62, 0x7), (0x63, 0x7), (0x64, 0x7), (0x65, 0x7), (0x66, 0x7), (0x67, 0x7), (0x68, 0x7), (0x69, 0x7), (0x6a, 0x7),
    (0x6b, 0x7), (0x6c, 0x7), (0x6d, 0x7), (0x6e, 0x7), (0x6f, 0x7), (0x70, 0x7), (0x71, 0x7), (0x72, 0x7), (0x73, 0x7), (0x74, 0x7),
    (0x75, 0x7), (0x76, 0x7), (0x77, 0x7), (0x78, 0x7), (0x79, 0x7), (0x7a, 0x7), (0x7b, 0x7), (0x7c, 0x7), (0x7d, 0x7), (0x7e, 0x7),
    (0x7f, 0x7), (0x80, 0x7), (0x81, 0x7), (0x82, 0x7), (0x83, 0x7), (0x84, 0x7), (0x85, 0x7), (0x86, 0x7), (0x87, 0x7), (0x88, 0x7),
    (0x89, 0x7), (0x8a, 0x7), (0x8b, 0x7), (0x8c, 0x7), (0x8d, 0x7), (0x8e, 0x7), (0x8f, 0x7), (0x90, 0x7), (0x91, 0x7), (0x92, 0x7),
    (0x93, 0x7), (0x94, 0x7), (0x95, 0x7), (0x96, 0x7), (0x97, 0x7), (0x98, 0x7), (0x99, 0x7), (0x9a, 0x7), (0x9b, 0x7), (0x9c, 0x7)]"

lemma lts_a_12_run [lts_run]: "table_run LTS_STATE_a 1800 lts_a_12 1950"
proof -
  have run: "lts_a_12 = bytes_up 150 0x7 0x7"
    by (simp add: lts_a_12_def bytes_up_numeral)
  show ?thesis by (simp add: run LTS_STATE_a_def bytes_up_run del: bytes_up.simps)
qed

definition lts_a_13 :: "(byte \<times> byte) list" where
  "lts_a_13 = [
    (0x9d, 0x7), (0x9e, 0x7), (0x9f, 0x7), (0xa0, 0x7), (0xa1, 0x7), (0xa2, 0x7), (0xa3, 0x7), (0xa4, 0x7), (0xa5, 0x7), (0xa6, 0x7),
    (0xa7, 0x7), (0xa8, 0x7), (0xa9, 0x7), (0xaa, 0x7), (0xab, 0x7), (0xac, 0x7), (0xad, 0x7), (0xae, 0x7), (0xaf, 0x7), (0xb0, 0x7),
    (0xb1, 0x7), (0xb2, 0x7), (0xb3, 0x7), (0xb4, 0x7), (0xb5, 0x7), (0xb6, 0x7), (0xb7, 0x7), (0xb8, 0x7), (0xb9, 0x7), (0xba, 0x7),
    (0xbb, 0x7), (0xbc, 0x7), (0xbd, 0x7), (0xbe, 0x7), (0xbf, 0x7), (0xc0, 0x7), (0xc1, 0x7), (0xc2, 0x7), (0xc3, 0x7), (0xc4, 0x7),
    (0xc5, 0x7), (0xc6, 0x7), (0xc7, 0x7), (0xc8, 0x7), (0xc9, 0x7), (0xca, 0x7), (0xcb, 0x7), (0xcc, 0x7), (0xcd, 0x7), (0xce, 0x7),
    (0xcf, 0x7), (0xd0, 0x7), (0xd1, 0x7), (0xd2, 0x7), (0xd3, 0x7), (0xd4, 0x7), (0xd5, 0x7), (0xd6, 0x7), (0xd7, 0x7), (0xd8, 0x7),
    (0xd9, 0x7), (0xda, 0x7), (0xdb, 0x7), (0xdc, 0x7), (0xdd, 0x7), (0xde, 0x7), (0xdf, 0x7), (0xe0, 0x7), (0xe1, 0x7), (0xe2, 0x7),
    (0xe3, 0x7), (0xe4, 0x7), (0xe5, 0x7), (0xe6, 0x7), (0xe7, 0x7), (0xe8, 0x7), (0xe9, 0x7), (0xea, 0x7), (0xeb, 0x7), (0xec, 0x7),
    (0xed, 0x7), (0xee, 0x7), (0xef, 0x7), (0xf0, 0x7), (0xf1, 0x7), (0xf2, 0x7), (0xf3, 0x7), (0xf4, 0x7), (0xf5, 0x7), (0xf6, 0x7),
    (0xf7, 0x7), (0xf8, 0x7), (0xf9, 0x7), (0xfa, 0x7), (0xfb, 0x7), (0xfc, 0x7), (0xfd, 0x7), (0xfe, 0x7), (0xff, 0x7), (0, 0x8),
    (1, 0x8), (0x2, 0x8), (0x3, 0x8), (0x4, 0x8), (0x5, 0x8), (0x6, 0x8), (0x7, 0x8), (0x8, 0x8), (0x9, 0x8), (0xa, 0x8),
    (0xb, 0x8), (0xc, 0x8), (0xd, 0x8), (0xe, 0x8), (0xf, 0x8), (0x10, 0x8), (0x11, 0x8), (0x12, 0x8), (0x13, 0x8), (0x14, 0x8),
    (0x15, 0x8), (0x16, 0x8), (0x17, 0x8), (0x18, 0x8), (0x19, 0x8), (0x1a, 0x8), (0x1b, 0x8), (0x1c, 0x8), (0x1d, 0x8), (0x1e, 0x8),
    (0x1f, 0x8), (0x20, 0x8), (0x21, 0x8), (0x22, 0x8), (0x23, 0x8), (0x24, 0x8), (0x25, 0x8), (0x26, 0x8), (0x27, 0x8), (0x28, 0x8),
    (0x29, 0x8), (0x2a, 0x8), (0x2b, 0x8), (0x2c, 0x8), (0x2d, 0x8), (0x2e, 0x8), (0x2f, 0x8), (0x30, 0x8), (0x31, 0x8), (0x32, 0x8)]"

lemma lts_a_13_run [lts_run]: "table_run LTS_STATE_a 1950 lts_a_13 2100"
proof -
  have run: "lts_a_13 = bytes_up 99 0x9d 0x7 @ bytes_up 51 0 0x8"
    by (simp add: lts_a_13_def bytes_up_numeral)
  show ?thesis by (simp add: run LTS_STATE_a_def bytes_up_run del: bytes_up.simps)
qed

definition lts_a_14 :: "(byte \<times> byte) list" where
  "lts_a_14 = [
    (0x33, 0x8), (0x34, 0x8), (0x35, 0x8), (0x36, 0x8), (0x37, 0x8), (0x38, 0x8), (0x39, 0x8), (0x3a, 0x8), (0x3b, 0x8), (0x3c, 0x8),
    (0x3d, 0x8), (0x3e, 0x8), (0x3f, 0x8), (0x40, 0x8), (0x41, 0x8), (0x42, 0x8), (0x43, 0x8), (0x44, 0x8), (0x45, 0x8), (0x46, 0x8),
    (0x47, 0x8), (0x48, 0x8), (0x49, 0x8), (0x4a, 0x8), (0x4b, 0x8), (0x4c, 0x8), (0x4d, 0x8), (0x4e, 0x8), (0x4f, 0x8), (0x50, 0x8),
    (0x51, 0x8), (0x52, 0x8), (0x53, 0x8), (0x54, 0x8), (0x55, 0x8), (0x56, 0x8), (0x57, 0x8), (0x58, 0x8), (0x59, 0x8), (0x5a, 0x8),
    (0x5b, 0x8), (0x5c, 0x8), (0x5d, 0x8), (0x5e, 0x8), (0x5f, 0x8), (0x60, 0x8), (0x61, 0x8), (0x62, 0x8), (0x63, 0x8), (0x64, 0x8),
    (0x65, 0x8), (0x66, 0x8), (0x67, 0x8), (0x68, 0x8), (0x69, 0x8), (0x6a, 0x8), (0x6b, 0x8), (0x6c, 0x8), (0x6d, 0x8), (0x6e, 0x8),
    (0x6f, 0x8), (0x70, 0x8), (0x71, 0x8), (0x72, 0x8), (0x73, 0x8), (0x74, 0x8), (0x75, 0x8), (0x76, 0x8), (0x77, 0x8), (0x78, 0x8),
    (0x79, 0x8), (0x7a, 0x8), (0x7b, 0x8), (0x7c, 0x8), (0x7d, 0x8), (0x7e, 0x8), (0x7f, 0x8), (0x80, 0x8), (0x81, 0x8), (0x82, 0x8),
    (0x83, 0x8), (0x84, 0x8), (0x85, 0x8), (0x86, 0x8), (0x87, 0x8), (0x88, 0x8), (0x89, 0x8), (0x8a, 0x8), (0x8b, 0x8), (0x8c, 0x8),
    (0x8d, 0x8), (0x8e, 0x8), (0x8f, 0x8), (0x90, 0x8), (0x91, 0x8), (0x92, 0x8), (0x93, 0x8), (0x94, 0x8), (0x95, 0x8), (0x96, 0x8),
    (0x97, 0x8), (0x98, 0x8), (0x99, 0x8), (0x9a, 0x8), (0x9b, 0x8), (0x9c, 0x8), (0x9d, 0x8), (0x9e, 0x8), (0x9f, 0x8), (0xa0, 0x8),
    (0xa1, 0x8), (0xa2, 0x8), (0xa3, 0x8), (0xa4, 0x8), (0xa5, 0x8), (0xa6, 0x8), (0xa7, 0x8), (0xa8, 0x8), (0xa9, 0x8), (0xaa, 0x8),
    (0xab, 0x8), (0xac, 0x8), (0xad, 0x8), (0xae, 0x8), (0xaf, 0x8), (0xb0, 0x8), (0xb1, 0x8), (0xb2, 0x8), (0xb3, 0x8), (0xb4, 0x8),
    (0xb5, 0x8), (0xb6, 0x8), (0xb7, 0x8), (0xb8, 0x8), (0xb9, 0x8), (0xba, 0x8), (0xbb, 0x8), (0xbc, 0x8), (0xbd, 0x8), (0xbe, 0x8),
    (0xbf, 0x8), (0xc0, 0x8), (0xc1, 0x8), (0xc2, 0x8), (0xc3, 0x8), (0xc4, 0x8), (0xc5, 0x8), (0xc6, 0x8), (0xc7, 0x8), (0xc8, 0x8)]"

lemma lts_a_14_run [lts_run]: "table_run LTS_STATE_a 2100 lts_a_14 2250"
proof -
  have run: "lts_a_14 = bytes_up 150 0x33 0x8"
    by (simp add: lts_a_14_def bytes_up_numeral)
  show ?thesis by (simp add: run LTS_STATE_a_def bytes_up_run del: bytes_up.simps)
qed

definition lts_a_15 :: "(byte \<times> byte) list" where
  "lts_a_15 = [
    (0xc9, 0x8), (0xca, 0x8), (0xcb, 0x8), (0xcc, 0x8), (0xcd, 0x8), (0xce, 0x8), (0xcf, 0x8), (0xd0, 0x8), (0xd1, 0x8), (0xd2, 0x8),
    (0xd3, 0x8), (0xd4, 0x8), (0xd5, 0x8), (0xd6, 0x8), (0xd7, 0x8), (0xd8, 0x8), (0xd9, 0x8), (0xda, 0x8), (0xdb, 0x8), (0xdc, 0x8),
    (0xdd, 0x8), (0xde, 0x8), (0xdf, 0x8), (0xe0, 0x8), (0xe1, 0x8), (0xe2, 0x8), (0xe3, 0x8), (0xe4, 0x8), (0xe5, 0x8), (0xe6, 0x8),
    (0xe7, 0x8), (0xe8, 0x8), (0xe9, 0x8), (0xea, 0x8), (0xeb, 0x8), (0xec, 0x8), (0xed, 0x8), (0xee, 0x8), (0xef, 0x8), (0xf0, 0x8),
    (0xf1, 0x8), (0xf2, 0x8), (0xf3, 0x8), (0xf4, 0x8), (0xf5, 0x8), (0xf6, 0x8), (0xf7, 0x8), (0xf8, 0x8), (0xf9, 0x8), (0xfa, 0x8),
    (0xfb, 0x8), (0xfc, 0x8), (0xfd, 0x8), (0xfe, 0x8), (0xff, 0x8), (0, 0x9), (1, 0x9), (0x2, 0x9), (0x3, 0x9), (0x4, 0x9),
    (0x5, 0x9), (0x6, 0x9), (0x7, 0x9), (0x8, 0x9), (0x9, 0x9), (0xa, 0x9), (0xb, 0x9), (0xc, 0x9), (0xd, 0x9), (0xe, 0x9),
    (0xf, 0x9), (0x10, 0x9), (0x11, 0x9), (0x12, 0x9), (0x13, 0x9), (0x14, 0x9), (0x15, 0x9), (0x16, 0x9), (0x17, 0x9), (0x18, 0x9),
    (0x19, 0x9), (0x1a, 0x9), (0x1b, 0x9), (0x1c, 0x9), (0x1d, 0x9), (0x1e, 0x9), (0x1f, 0x9), (0x20, 0x9), (0x21, 0x9), (0x22, 0x9),
    (0x23, 0x9), (0x24, 0x9), (0x25, 0x9), (0x26, 0x9), (0x27, 0x9), (0x28, 0x9), (0x29, 0x9), (0x2a, 0x9), (0x2b, 0x9), (0x2c, 0x9),
    (0x2d, 0x9), (0x2e, 0x9), (0x2f, 0x9), (0x30, 0x9), (0x31, 0x9), (0x32, 0x9), (0x33, 0x9), (0x34, 0x9), (0x35, 0x9), (0x36, 0x9),
    (0x37, 0x9), (0x38, 0x9), (0x39, 0x9), (0x3a, 0x9), (0x3b, 0x9), (0x3c, 0x9), (0x3d, 0x9), (0x3e, 0x9), (0x3f, 0x9), (0x40, 0x9),
    (0x41, 0x9), (0x42, 0x9), (0x43, 0x9), (0x44, 0x9), (0x45, 0x9), (0x46, 0x9), (0x47, 0x9), (0x48, 0x9), (0x49, 0x9), (0x4a, 0x9),
    (0x4b, 0x9), (0x4c, 0x9), (0x4d, 0x9), (0x4e, 0x9), (0x4f, 0x9), (0x50, 0x9), (0x51, 0x9), (0x52, 0x9), (0x53, 0x9), (0x54, 0x9),
    (0x55, 0x9), (0x56, 0x9), (0x57, 0x9), (0x58, 0x9), (0x59, 0x9), (0x5a, 0x9), (0x5b, 0x9), (0x5c, 0x9), (0x5d, 0x9), (0x5e, 0x9)]"

lemma lts_a_15_run [lts_run]: "table_run LTS_STATE_a 2250 lts_a_15 2400"
proof -
  have run: "lts_a_15 = bytes_up 55 0xc9 0x8 @ bytes_up 95 0 0x9"
    by (simp add: lts_a_15_def bytes_up_numeral)
  show ?thesis by (simp add: run LTS_STATE_a_def bytes_up_run del: bytes_up.simps)
qed

definition lts_a_16 :: "(byte \<times> byte) list" where
  "lts_a_16 = [
    (0x5f, 0x9), (0x60, 0x9), (0x61, 0x9), (0x62, 0x9), (0x63, 0x9), (0x64, 0x9), (0x65, 0x9), (0x66, 0x9), (0x67, 0x9), (0x68, 0x9),
    (0x69, 0x9), (0x6a, 0x9), (0x6b, 0x9), (0x6c, 0x9), (0x6d, 0x9), (0x6e, 0x9), (0x6f, 0x9), (0x70, 0x9), (0x71, 0x9), (0x72, 0x9),
    (0x73, 0x9), (0x74, 0x9), (0x75, 0x9), (0x76, 0x9), (0x77, 0x9), (0x78, 0x9), (0x79, 0x9), (0x7a, 0x9), (0x7b, 0x9), (0x7c, 0x9),
    (0x7d, 0x9), (0x7e, 0x9), (0x7f, 0x9), (0x80, 0x9), (0x81, 0x9), (0x82, 0x9), (0x83, 0x9), (0x84, 0x9), (0x85, 0x9), (0x86, 0x9),
    (0x87, 0x9), (0x88, 0x9), (0x89, 0x9), (0x8a, 0x9), (0x8b, 0x9), (0x8c, 0x9), (0x8d, 0x9), (0x8e, 0x9), (0x8f, 0x9), (0x90, 0x9),
    (0x91, 0x9), (0x92, 0x9), (0x93, 0x9), (0x94, 0x9), (0x95, 0x9), (0x96, 0x9), (0x97, 0x9), (0x98, 0x9), (0x99, 0x9), (0x9a, 0x9),
    (0x9b, 0x9), (0x9c, 0x9), (0x9d, 0x9), (0x9e, 0x9), (0x9f, 0x9), (0xa0, 0x9), (0xa1, 0x9), (0xa2, 0x9), (0xa3, 0x9), (0xa4, 0x9),
    (0xa5, 0x9), (0xa6, 0x9), (0xa7, 0x9), (0xa8, 0x9), (0xa9, 0x9), (0xaa, 0x9), (0xab, 0x9), (0xac, 0x9), (0xad, 0x9), (0xae, 0x9),
    (0xaf, 0x9), (0xb0, 0x9), (0xb1, 0x9), (0xb2, 0x9), (0xb3, 0x9), (0xb4, 0x9), (0xb5, 0x9), (0xb6, 0x9), (0xb7, 0x9), (0xb8, 0x9),
    (0xb9, 0x9), (0xba, 0x9), (0xbb, 0x9), (0xbc, 0x9), (0xbd, 0x9), (0xbe, 0x9), (0xbf, 0x9), (0xc0, 0x9), (0xc1, 0x9), (0xc2, 0x9),
    (0xc3, 0x9), (0xc4, 0x9), (0xc5, 0x9), (0xc6, 0x9), (0xc7, 0x9), (0xc8, 0x9), (0xc9, 0x9), (0xca, 0x9), (0xcb, 0x9), (0xcc, 0x9),
    (0xcd, 0x9), (0xce, 0x9), (0xcf, 0x9), (0xd0, 0x9), (0xd1, 0x9), (0xd2, 0x9), (0xd3, 0x9), (0xd4, 0x9), (0xd5, 0x9), (0xd6, 0x9),
    (0xd7, 0x9), (0xd8, 0x9), (0xd9, 0x9), (0xda, 0x9), (0xdb, 0x9), (0xdc, 0x9), (0xdd, 0x9), (0xde, 0x9), (0xdf, 0x9), (0xe0, 0x9),
    (0xe1, 0x9), (0xe2, 0x9), (0xe3, 0x9), (0xe4, 0x9), (0xe5, 0x9), (0xe6, 0x9), (0xe7, 0x9), (0xe8, 0x9), (0xe9, 0x9), (0xea, 0x9),
    (0xeb, 0x9), (0xec, 0x9), (0xed, 0x9), (0xee, 0x9), (0xef, 0x9), (0xf0, 0x9), (0xf1, 0x9), (0xf2, 0x9), (0xf3, 0x9), (0xf4, 0x9)]"

lemma lts_a_16_run [lts_run]: "table_run LTS_STATE_a 2400 lts_a_16 2550"
proof -
  have run: "lts_a_16 = bytes_up 150 0x5f 0x9"
    by (simp add: lts_a_16_def bytes_up_numeral)
  show ?thesis by (simp add: run LTS_STATE_a_def bytes_up_run del: bytes_up.simps)
qed

definition lts_a_17 :: "(byte \<times> byte) list" where
  "lts_a_17 = [
    (0xf5, 0x9), (0xf6, 0x9), (0xf7, 0x9), (0xf8, 0x9), (0xf9, 0x9), (0xfa, 0x9), (0xfb, 0x9), (0xfc, 0x9), (0xfd, 0x9), (0xfe, 0x9),
    (0xff, 0x9), (0, 0xa), (1, 0xa), (0x2, 0xa), (0x3, 0xa), (0x4, 0xa), (0x5, 0xa), (0x6, 0xa), (0x7, 0xa), (0x8, 0xa),
    (0x9, 0xa), (0xa, 0xa), (0xb, 0xa), (0xc, 0xa), (0xd, 0xa), (0xe, 0xa), (0xf, 0xa), (0x10, 0xa), (0x11, 0xa), (0x12, 0xa),
    (0x13, 0xa), (0x14, 0xa), (0x15, 0xa), (0x16, 0xa), (0x17, 0xa), (0x18, 0xa), (0x19, 0xa), (0x1a, 0xa), (0x1b, 0xa), (0x1c, 0xa),
    (0x1d, 0xa), (0x1e, 0xa), (0x1f, 0xa), (0x20, 0xa), (0x21, 0xa), (0x22, 0xa), (0x23, 0xa), (0x24, 0xa), (0x25, 0xa), (0x26, 0xa),
    (0x27, 0xa), (0x28, 0xa), (0x29, 0xa), (0x2a, 0xa), (0x2b, 0xa), (0x2c, 0xa), (0x2d, 0xa), (0x2e, 0xa), (0x2f, 0xa), (0x30, 0xa),
    (0x31, 0xa), (0x32, 0xa), (0x33, 0xa), (0x34, 0xa), (0x35, 0xa), (0x36, 0xa), (0x37, 0xa), (0x38, 0xa), (0x39, 0xa), (0x3a, 0xa),
    (0x3b, 0xa), (0x3c, 0xa), (0x3d, 0xa), (0x3e, 0xa), (0x3f, 0xa), (0x40, 0xa), (0x41, 0xa), (0x42, 0xa), (0x43, 0xa), (0x44, 0xa),
    (0x45, 0xa), (0x46, 0xa), (0x47, 0xa), (0x48, 0xa), (0x49, 0xa), (0x4a, 0xa), (0x4b, 0xa), (0x4c, 0xa), (0x4d, 0xa), (0x4e, 0xa),
    (0x4f, 0xa), (0x50, 0xa), (0x51, 0xa), (0x52, 0xa), (0x53, 0xa), (0x54, 0xa), (0x55, 0xa), (0x56, 0xa), (0x57, 0xa), (0x58, 0xa),
    (0x59, 0xa), (0x5a, 0xa), (0x5b, 0xa), (0x5c, 0xa), (0x5d, 0xa), (0x5e, 0xa), (0x5f, 0xa), (0x60, 0xa), (0x61, 0xa), (0x62, 0xa),
    (0x63, 0xa), (0x64, 0xa), (0x65, 0xa), (0x66, 0xa), (0x67, 0xa), (0x68, 0xa), (0x69, 0xa), (0x6a, 0xa), (0x6b, 0xa), (0x6c, 0xa),
    (0x6d, 0xa), (0x6e, 0xa), (0x6f, 0xa), (0x70, 0xa), (0x71, 0xa), (0x72, 0xa), (0x73, 0xa), (0x74, 0xa), (0x75, 0xa), (0x76, 0xa),
    (0x77, 0xa), (0x78, 0xa), (0x79, 0xa), (0x7a, 0xa), (0x7b, 0xa), (0x7c, 0xa), (0x7d, 0xa), (0x7e, 0xa), (0x7f, 0xa), (0x80, 0xa),
    (0x81, 0xa), (0x82, 0xa), (0x83, 0xa), (0x84, 0xa), (0x85, 0xa), (0x86, 0xa), (0x87, 0xa), (0x88, 0xa), (0x89, 0xa), (0x8a, 0xa)]"

lemma lts_a_17_run [lts_run]: "table_run LTS_STATE_a 2550 lts_a_17 2700"
proof -
  have run: "lts_a_17 = bytes_up 11 0xf5 0x9 @ bytes_up 139 0 0xa"
    by (simp add: lts_a_17_def bytes_up_numeral)
  show ?thesis by (simp add: run LTS_STATE_a_def bytes_up_run del: bytes_up.simps)
qed

definition lts_a_18 :: "(byte \<times> byte) list" where
  "lts_a_18 = [
    (0x8b, 0xa), (0x8c, 0xa), (0x8d, 0xa), (0x8e, 0xa), (0x8f, 0xa), (0x90, 0xa), (0x91, 0xa), (0x92, 0xa), (0x93, 0xa), (0x94, 0xa),
    (0x95, 0xa), (0x96, 0xa), (0x97, 0xa), (0x98, 0xa), (0x99, 0xa), (0x9a, 0xa), (0x9b, 0xa), (0x9c, 0xa), (0x9d, 0xa), (0x9e, 0xa),
    (0x9f, 0xa), (0xa0, 0xa), (0xa1, 0xa), (0xa2, 0xa), (0xa3, 0xa), (0xa4, 0xa), (0xa5, 0xa), (0xa6, 0xa), (0xa7, 0xa), (0xa8, 0xa),
    (0xa9, 0xa), (0xaa, 0xa), (0xab, 0xa), (0xac, 0xa), (0xad, 0xa), (0xae, 0xa), (0xaf, 0xa), (0xb0, 0xa), (0xb1, 0xa), (0xb2, 0xa),
    (0xb3, 0xa), (0xb4, 0xa), (0xb5, 0xa), (0xb6, 0xa), (0xb7, 0xa), (0xb8, 0xa), (0xb9, 0xa), (0xba, 0xa), (0xbb, 0xa), (0xbc, 0xa),
    (0xbd, 0xa), (0xbe, 0xa), (0xbf, 0xa), (0xc0, 0xa), (0xc1, 0xa), (0xc2, 0xa), (0xc3, 0xa), (0xc4, 0xa), (0xc5, 0xa), (0xc6, 0xa),
    (0xc7, 0xa), (0xc8, 0xa), (0xc9, 0xa), (0xca, 0xa), (0xcb, 0xa), (0xcc, 0xa), (0xcd, 0xa), (0xce, 0xa), (0xcf, 0xa), (0xd0, 0xa),
    (0xd1, 0xa), (0xd2, 0xa), (0xd3, 0xa), (0xd4, 0xa), (0xd5, 0xa), (0xd6, 0xa), (0xd7, 0xa), (0xd8, 0xa), (0xd9, 0xa), (0xda, 0xa),
    (0xdb, 0xa), (0xdc, 0xa), (0xdd, 0xa), (0xde, 0xa), (0xdf, 0xa), (0xe0, 0xa), (0xe1, 0xa), (0xe2, 0xa), (0xe3, 0xa), (0xe4, 0xa),
    (0xe5, 0xa), (0xe6, 0xa), (0xe7, 0xa), (0xe8, 0xa), (0xe9, 0xa), (0xea, 0xa), (0xeb, 0xa), (0xec, 0xa), (0xed, 0xa), (0xee, 0xa),
    (0xef, 0xa), (0xf0, 0xa), (0xf1, 0xa), (0xf2, 0xa), (0xf3, 0xa), (0xf4, 0xa), (0xf5, 0xa), (0xf6, 0xa), (0xf7, 0xa), (0xf8, 0xa),
    (0xf9, 0xa), (0xfa, 0xa), (0xfb, 0xa), (0xfc, 0xa), (0xfd, 0xa), (0xfe, 0xa), (0xff, 0xa), (0, 0xb), (1, 0xb), (0x2, 0xb),
    (0x3, 0xb), (0x4, 0xb), (0x5, 0xb), (0x6, 0xb), (0x7, 0xb), (0x8, 0xb), (0x9, 0xb), (0xa, 0xb), (0xb, 0xb), (0xc, 0xb),
    (0xd, 0xb), (0xe, 0xb), (0xf, 0xb), (0x10, 0xb), (0x11, 0xb), (0x12, 0xb), (0x13, 0xb), (0x14, 0xb), (0x15, 0xb), (0x16, 0xb),
    (0x17, 0xb), (0x18, 0xb), (0x19, 0xb), (0x1a, 0xb), (0x1b, 0xb), (0x1c, 0xb), (0x1d, 0xb), (0x1e, 0xb), (0x1f, 0xb), (0x20, 0xb)]"

lemma lts_a_18_run [lts_run]: "table_run LTS_STATE_a 2700 lts_a_18 2850"
proof -
  have run: "lts_a_18 = bytes_up 117 0x8b 0xa @ bytes_up 33 0 0xb"
    by (simp add: lts_a_18_def bytes_up_numeral)
  show ?thesis by (simp add: run LTS_STATE_a_def bytes_up_run del: bytes_up.simps)
qed

definition lts_a_19 :: "(byte \<times> byte) list" where
  "lts_a_19 = [
    (0x21, 0xb), (0x22, 0xb), (0x23, 0xb), (0x24, 0xb), (0x25, 0xb), (0x26, 0xb), (0x27, 0xb), (0x28, 0xb), (0x29, 0xb), (0x2a, 0xb),
    (0x2b, 0xb), (0x2c, 0xb), (0x2d, 0xb), (0x2e, 0xb), (0x2f, 0xb), (0x30, 0xb), (0x31, 0xb), (0x32, 0xb), (0x33, 0xb), (0x34, 0xb),
    (0x35, 0xb), (0x36, 0xb), (0x37, 0xb), (0x38, 0xb), (0x39, 0xb), (0x3a, 0xb), (0x3b, 0xb), (0x3c, 0xb), (0x3d, 0xb), (0x3e, 0xb),
    (0x3f, 0xb), (0x40, 0xb), (0x41, 0xb), (0x42, 0xb), (0x43, 0xb), (0x44, 0xb), (0x45, 0xb), (0x46, 0xb), (0x47, 0xb), (0x48, 0xb),
    (0x49, 0xb), (0x4a, 0xb), (0x4b, 0xb), (0x4c, 0xb), (0x4d, 0xb), (0x4e, 0xb), (0x4f, 0xb), (0x50, 0xb), (0x51, 0xb), (0x52, 0xb),
    (0x53, 0xb), (0x54, 0xb), (0x55, 0xb), (0x56, 0xb), (0x57, 0xb), (0x58, 0xb), (0x59, 0xb), (0x5a, 0xb), (0x5b, 0xb), (0x5c, 0xb),
    (0x5d, 0xb), (0x5e, 0xb), (0x5f, 0xb), (0x60, 0xb), (0x61, 0xb), (0x62, 0xb), (0x63, 0xb), (0x64, 0xb), (0x65, 0xb), (0x66, 0xb),
    (0x67, 0xb), (0x68, 0xb), (0x69, 0xb), (0x6a, 0xb), (0x6b, 0xb), (0x6c, 0xb), (0x6d, 0xb), (0x6e, 0xb), (0x6f, 0xb), (0x70, 0xb),
    (0x71, 0xb), (0x72, 0xb), (0x73, 0xb), (0x74, 0xb), (0x75, 0xb), (0x76, 0xb), (0x77, 0xb), (0x78, 0xb), (0x79, 0xb), (0x7a, 0xb),
    (0x7b, 0xb), (0x7c, 0xb), (0x7d, 0xb), (0x7e, 0xb), (0x7f, 0xb), (0x80, 0xb), (0x81, 0xb), (0x82, 0xb), (0x83, 0xb), (0x84, 0xb),
    (0x85, 0xb), (0x86, 0xb), (0x87, 0xb), (0x88, 0xb), (0x89, 0xb), (0x8a, 0xb), (0x8b, 0xb), (0x8c, 0xb), (0x8d, 0xb), (0x8e, 0xb),
    (0x8f, 0xb), (0x90, 0xb), (0x91, 0xb), (0x92, 0xb), (0x93, 0xb), (0x94, 0xb), (0x95, 0xb), (0x96, 0xb), (0x97, 0xb), (0x98, 0xb),
    (0x99, 0xb), (0x9a, 0xb), (0x9b, 0xb), (0x9c, 0xb), (0x9d, 0xb), (0x9e, 0xb), (0x9f, 0xb), (0xa0, 0xb), (0xa1, 0xb), (0xa2, 0xb),
    (0xa3, 0xb), (0xa4, 0xb), (0xa5, 0xb), (0xa6, 0xb), (0xa7, 0xb), (0xa8, 0xb), (0xa9, 0xb), (0xaa, 0xb), (0xab, 0xb), (0xac, 0xb),
    (0xad, 0xb), (0xae, 0xb), (0xaf, 0xb), (0xb0, 0xb), (0xb1, 0xb), (0xb2, 0xb), (0xb3, 0xb), (0xb4, 0xb), (0xb5, 0xb), (0xb6, 0xb)]"

lemma lts_a_19_run [lts_run]: "table_run LTS_STATE_a 2850 lts_a_19 3000"
proof -
  have run: "lts_a_19 = bytes_up 150 0x21 0xb"
    by (simp add: lts_a_19_def bytes_up_numeral)
  show ?thesis by (simp add: run LTS_STATE_a_def bytes_up_run del: bytes_up.simps)
qed

definition lts_a_20 :: "(byte \<times> byte) list" where
  "lts_a_20 = [
    (0xb7, 0xb), (0xb8, 0xb), (0xb9, 0xb), (0xba, 0xb), (0xbb, 0xb), (0xbc, 0xb), (0xbd, 0xb), (0xbe, 0xb), (0xbf, 0xb), (0xc0, 0xb),
    (0xc1, 0xb), (0xc2, 0xb), (0xc3, 0xb), (0xc4, 0xb), (0xc5, 0xb), (0xc6, 0xb), (0xc7, 0xb), (0xc8, 0xb), (0xc9, 0xb), (0xca, 0xb),
    (0xcb, 0xb), (0xcc, 0xb), (0xcd, 0xb), (0xce, 0xb), (0xcf, 0xb), (0xd0, 0xb), (0xd1, 0xb), (0xd2, 0xb), (0xd3, 0xb), (0xd4, 0xb),
    (0xd5, 0xb), (0xd6, 0xb), (0xd7, 0xb), (0xd8, 0xb), (0xd9, 0xb), (0xda, 0xb), (0xdb, 0xb), (0xdc, 0xb), (0xdd, 0xb), (0xde, 0xb),
    (0xdf, 0xb), (0xe0, 0xb), (0xe1, 0xb), (0xe2, 0xb), (0xe3, 0xb), (0xe4, 0xb), (0xe5, 0xb), (0xe6, 0xb), (0xe7, 0xb), (0xe8, 0xb),
    (0xe9, 0xb), (0xea, 0xb), (0xeb, 0xb), (0xec, 0xb), (0xed, 0xb), (0xee, 0xb), (0xef, 0xb), (0xf0, 0xb), (0xf1, 0xb), (0xf2, 0xb),
    (0xf3, 0xb), (0xf4, 0xb), (0xf5, 0xb), (0xf6, 0xb), (0xf7, 0xb), (0xf8, 0xb), (0xf9, 0xb), (0xfa, 0xb), (0xfb, 0xb), (0xfc, 0xb),
    (0xfd, 0xb), (0xfe, 0xb), (0xff, 0xb), (0, 0xc), (1, 0xc), (0x2, 0xc), (0x3, 0xc), (0x4, 0xc), (0x5, 0xc), (0x6, 0xc),
    (0x7, 0xc), (0x8, 0xc), (0x9, 0xc), (0xa, 0xc), (0xb, 0xc), (0xc, 0xc), (0xd, 0xc), (0xe, 0xc), (0xf, 0xc), (0x10, 0xc),
    (0x11, 0xc), (0x12, 0xc), (0x13, 0xc), (0x14, 0xc), (0x15, 0xc), (0x16, 0xc), (0x17, 0xc), (0x18, 0xc), (0x19, 0xc), (0x1a, 0xc),
    (0x1b, 0xc), (0x1c, 0xc), (0x1d, 0xc), (0x1e, 0xc), (0x1f, 0xc), (0x20, 0xc), (0x21, 0xc), (0x22, 0xc), (0x23, 0xc), (0x24, 0xc),
    (0x25, 0xc), (0x26, 0xc), (0x27, 0xc), (0x28, 0xc), (0x29, 0xc), (0x2a, 0xc), (0x2b, 0xc), (0x2c, 0xc), (0x2d, 0xc), (0x2e, 0xc),
    (0x2f, 0xc), (0x30, 0xc), (0x31, 0xc), (0x32, 0xc), (0x33, 0xc), (0x34, 0xc), (0x35, 0xc), (0x36, 0xc), (0x37, 0xc), (0x38, 0xc),
    (0x39, 0xc), (0x3a, 0xc), (0x3b, 0xc), (0x3c, 0xc), (0x3d, 0xc), (0x3e, 0xc), (0x3f, 0xc), (0x40, 0xc), (0x41, 0xc), (0x42, 0xc),
    (0x43, 0xc), (0x44, 0xc), (0x45, 0xc), (0x46, 0xc), (0x47, 0xc), (0x48, 0xc), (0x49, 0xc), (0x4a, 0xc), (0x4b, 0xc), (0x4c, 0xc)]"

lemma lts_a_20_run [lts_run]: "table_run LTS_STATE_a 3000 lts_a_20 3150"
proof -
  have run: "lts_a_20 = bytes_up 73 0xb7 0xb @ bytes_up 77 0 0xc"
    by (simp add: lts_a_20_def bytes_up_numeral)
  show ?thesis by (simp add: run LTS_STATE_a_def bytes_up_run del: bytes_up.simps)
qed

definition lts_a_21 :: "(byte \<times> byte) list" where
  "lts_a_21 = [
    (0x4d, 0xc), (0x4e, 0xc), (0x4f, 0xc), (0x50, 0xc), (0x51, 0xc), (0x52, 0xc), (0x53, 0xc), (0x54, 0xc), (0x55, 0xc), (0x56, 0xc),
    (0x57, 0xc), (0x58, 0xc), (0x59, 0xc), (0x5a, 0xc), (0x5b, 0xc), (0x5c, 0xc), (0x5d, 0xc), (0x5e, 0xc), (0x5f, 0xc), (0x60, 0xc),
    (0x61, 0xc), (0x62, 0xc), (0x63, 0xc), (0x64, 0xc), (0x65, 0xc), (0x66, 0xc), (0x67, 0xc), (0x68, 0xc), (0x69, 0xc), (0x6a, 0xc),
    (0x6b, 0xc), (0x6c, 0xc), (0x6d, 0xc), (0x6e, 0xc), (0x6f, 0xc), (0x70, 0xc), (0x71, 0xc), (0x72, 0xc), (0x73, 0xc), (0x74, 0xc),
    (0x75, 0xc), (0x76, 0xc), (0x77, 0xc), (0x78, 0xc), (0x79, 0xc), (0x7a, 0xc), (0x7b, 0xc), (0x7c, 0xc), (0x7d, 0xc), (0x7e, 0xc),
    (0x7f, 0xc), (0x80, 0xc), (0x81, 0xc), (0x82, 0xc), (0x83, 0xc), (0x84, 0xc), (0x85, 0xc), (0x86, 0xc), (0x87, 0xc), (0x88, 0xc),
    (0x89, 0xc), (0x8a, 0xc), (0x8b, 0xc), (0x8c, 0xc), (0x8d, 0xc), (0x8e, 0xc), (0x8f, 0xc), (0x90, 0xc), (0x91, 0xc), (0x92, 0xc),
    (0x93, 0xc), (0x94, 0xc), (0x95, 0xc), (0x96, 0xc), (0x97, 0xc), (0x98, 0xc), (0x99, 0xc), (0x9a, 0xc), (0x9b, 0xc), (0x9c, 0xc),
    (0x9d, 0xc), (0x9e, 0xc), (0x9f, 0xc), (0xa0, 0xc), (0xa1, 0xc), (0xa2, 0xc), (0xa3, 0xc), (0xa4, 0xc), (0xa5, 0xc), (0xa6, 0xc),
    (0xa7, 0xc), (0xa8, 0xc), (0xa9, 0xc), (0xaa, 0xc), (0xab, 0xc), (0xac, 0xc), (0xad, 0xc), (0xae, 0xc), (0xaf, 0xc), (0xb0, 0xc),
    (0xb1, 0xc), (0xb2, 0xc), (0xb3, 0xc), (0xb4, 0xc), (0xb5, 0xc), (0xb6, 0xc), (0xb7, 0xc), (0xb8, 0xc), (0xb9, 0xc), (0xba, 0xc),
    (0xbb, 0xc), (0xbc, 0xc), (0xbd, 0xc), (0xbe, 0xc), (0xbf, 0xc), (0xc0, 0xc), (0xc1, 0xc), (0xc2, 0xc), (0xc3, 0xc), (0xc4, 0xc),
    (0xc5, 0xc), (0xc6, 0xc), (0xc7, 0xc), (0xc8, 0xc), (0xc9, 0xc), (0xca, 0xc), (0xcb, 0xc), (0xcc, 0xc), (0xcd, 0xc), (0xce, 0xc),
    (0xcf, 0xc), (0xd0, 0xc), (0xd1, 0xc), (0xd2, 0xc), (0xd3, 0xc), (0xd4, 0xc), (0xd5, 0xc), (0xd6, 0xc), (0xd7, 0xc), (0xd8, 0xc),
    (0xd9, 0xc), (0xda, 0xc), (0xdb, 0xc), (0xdc, 0xc), (0xdd, 0xc), (0xde, 0xc), (0xdf, 0xc), (0xe0, 0xc), (0xe1, 0xc), (0xe2, 0xc)]"

lemma lts_a_21_run [lts_run]: "table_run LTS_STATE_a 3150 lts_a_21 3300"
proof -
  have run: "lts_a_21 = bytes_up 150 0x4d 0xc"
    by (simp add: lts_a_21_def bytes_up_numeral)
  show ?thesis by (simp add: run LTS_STATE_a_def bytes_up_run del: bytes_up.simps)
qed

definition lts_a_22 :: "(byte \<times> byte) list" where
  "lts_a_22 = [
    (0xe3, 0xc), (0xe4, 0xc), (0xe5, 0xc), (0xe6, 0xc), (0xe7, 0xc), (0xe8, 0xc), (0xe9, 0xc), (0xea, 0xc), (0xeb, 0xc), (0xec, 0xc),
    (0xed, 0xc), (0xee, 0xc), (0xef, 0xc), (0xf0, 0xc), (0xf1, 0xc), (0xf2, 0xc), (0xf3, 0xc), (0xf4, 0xc), (0xf5, 0xc), (0xf6, 0xc),
    (0xf7, 0xc), (0xf8, 0xc), (0xf9, 0xc), (0xfa, 0xc), (0xfb, 0xc), (0xfc, 0xc), (0xfd, 0xc), (0xfe, 0xc), (0xff, 0xc), (0, 0xd),
    (1, 0xd), (0x2, 0xd), (0x3, 0xd), (0x4, 0xd), (0x5, 0xd), (0x6, 0xd), (0x7, 0xd), (0x8, 0xd), (0x9, 0xd), (0xa, 0xd),
    (0xb, 0xd), (0xc, 0xd), (0xd, 0xd), (0xe, 0xd), (0xf, 0xd), (0x10, 0xd), (0x11, 0xd), (0x12, 0xd), (0x13, 0xd), (0x14, 0xd),
    (0x15, 0xd), (0x16, 0xd), (0x17, 0xd), (0x18, 0xd), (0x19, 0xd), (0x1a, 0xd), (0x1b, 0xd), (0x1c, 0xd), (0x1d, 0xd), (0x1e, 0xd),
    (0x1f, 0xd), (0x20, 0xd), (0x21, 0xd), (0x22, 0xd), (0x23, 0xd), (0x24, 0xd), (0x25, 0xd), (0x26, 0xd), (0x27, 0xd), (0x28, 0xd),
    (0x29, 0xd), (0x2a, 0xd), (0x2b, 0xd), (0x2c, 0xd), (0x2d, 0xd), (0x2e, 0xd), (0x2f, 0xd), (0x30, 0xd), (0x31, 0xd), (0x32, 0xd),
    (0x33, 0xd), (0x34, 0xd), (0x35, 0xd), (0x36, 0xd), (0x37, 0xd), (0x38, 0xd), (0x39, 0xd), (0x3a, 0xd), (0x3b, 0xd), (0x3c, 0xd),
    (0x3d, 0xd), (0x3e, 0xd), (0x3f, 0xd), (0x40, 0xd), (0x41, 0xd), (0x42, 0xd), (0x43, 0xd), (0x44, 0xd), (0x45, 0xd), (0x46, 0xd),
    (0x47, 0xd), (0x48, 0xd), (0x49, 0xd), (0x4a, 0xd), (0x4b, 0xd), (0x4c, 0xd), (0x4d, 0xd), (0x4e, 0xd), (0x4f, 0xd), (0x50, 0xd),
    (0x51, 0xd), (0x52, 0xd), (0x53, 0xd), (0x54, 0xd), (0x55, 0xd), (0x56, 0xd), (0x57, 0xd), (0x58, 0xd), (0x59, 0xd), (0x5a, 0xd),
    (0x5b, 0xd), (0x5c, 0xd), (0x5d, 0xd), (0x5e, 0xd), (0x5f, 0xd), (0x60, 0xd), (0x61, 0xd), (0x62, 0xd), (0x63, 0xd), (0x64, 0xd),
    (0x65, 0xd), (0x66, 0xd), (0x67, 0xd), (0x68, 0xd), (0x69, 0xd), (0x6a, 0xd), (0x6b, 0xd), (0x6c, 0xd), (0x6d, 0xd), (0x6e, 0xd),
    (0x6f, 0xd), (0x70, 0xd), (0x71, 0xd), (0x72, 0xd), (0x73, 0xd), (0x74, 0xd), (0x75, 0xd), (0x76, 0xd), (0x77, 0xd), (0x78, 0xd)]"

lemma lts_a_22_run [lts_run]: "table_run LTS_STATE_a 3300 lts_a_22 3450"
proof -
  have run: "lts_a_22 = bytes_up 29 0xe3 0xc @ bytes_up 121 0 0xd"
    by (simp add: lts_a_22_def bytes_up_numeral)
  show ?thesis by (simp add: run LTS_STATE_a_def bytes_up_run del: bytes_up.simps)
qed

definition lts_a_23 :: "(byte \<times> byte) list" where
  "lts_a_23 = [
    (0x79, 0xd), (0x7a, 0xd), (0x7b, 0xd), (0x7c, 0xd), (0x7d, 0xd), (0x7e, 0xd), (0x7f, 0xd), (0x80, 0xd), (0x81, 0xd), (0x82, 0xd),
    (0x83, 0xd), (0x84, 0xd), (0x85, 0xd), (0x86, 0xd), (0x87, 0xd), (0x88, 0xd), (0x89, 0xd), (0x8a, 0xd), (0x8b, 0xd), (0x8c, 0xd),
    (0x8d, 0xd), (0x8e, 0xd), (0x8f, 0xd), (0x90, 0xd), (0x91, 0xd), (0x92, 0xd), (0x93, 0xd), (0x94, 0xd), (0x95, 0xd), (0x96, 0xd),
    (0x97, 0xd), (0x98, 0xd), (0x99, 0xd), (0x9a, 0xd), (0x9b, 0xd), (0x9c, 0xd), (0x9d, 0xd), (0x9e, 0xd), (0x9f, 0xd), (0xa0, 0xd),
    (0xa1, 0xd), (0xa2, 0xd), (0xa3, 0xd), (0xa4, 0xd), (0xa5, 0xd), (0xa6, 0xd), (0xa7, 0xd), (0xa8, 0xd), (0xa9, 0xd), (0xaa, 0xd),
    (0xab, 0xd), (0xac, 0xd), (0xad, 0xd), (0xae, 0xd), (0xaf, 0xd), (0xb0, 0xd), (0xb1, 0xd), (0xb2, 0xd), (0xb3, 0xd), (0xb4, 0xd),
    (0xb5, 0xd), (0xb6, 0xd), (0xb7, 0xd), (0xb8, 0xd), (0xb9, 0xd), (0xba, 0xd), (0xbb, 0xd), (0xbc, 0xd), (0xbd, 0xd), (0xbe, 0xd),
    (0xbf, 0xd), (0xc0, 0xd), (0xc1, 0xd), (0xc2, 0xd), (0xc3, 0xd), (0xc4, 0xd), (0xc5, 0xd), (0xc6, 0xd), (0xc7, 0xd), (0xc8, 0xd),
    (0xc9, 0xd), (0xca, 0xd), (0xcb, 0xd), (0xcc, 0xd), (0xcd, 0xd), (0xce, 0xd), (0xcf, 0xd), (0xd0, 0xd), (0xd1, 0xd), (0xd2, 0xd),
    (0xd3, 0xd), (0xd4, 0xd), (0xd5, 0xd), (0xd6, 0xd), (0xd7, 0xd), (0xd8, 0xd), (0xd9, 0xd), (0xda, 0xd), (0xdb, 0xd), (0xdc, 0xd),
    (0xdd, 0xd), (0xde, 0xd), (0xdf, 0xd), (0xe0, 0xd), (0xe1, 0xd), (0xe2, 0xd), (0xe3, 0xd), (0xe4, 0xd), (0xe5, 0xd), (0xe6, 0xd),
    (0xe7, 0xd), (0xe8, 0xd), (0xe9, 0xd), (0xea, 0xd), (0xeb, 0xd), (0xec, 0xd), (0xed, 0xd), (0xee, 0xd), (0xef, 0xd), (0xf0, 0xd),
    (0xf1, 0xd), (0xf2, 0xd), (0xf3, 0xd), (0xf4, 0xd), (0xf5, 0xd), (0xf6, 0xd), (0xf7, 0xd), (0xf8, 0xd), (0xf9, 0xd), (0xfa, 0xd),
    (0xfb, 0xd), (0xfc, 0xd), (0xfd, 0xd), (0xfe, 0xd), (0xff, 0xd), (0, 0xe), (1, 0xe), (0x2, 0xe), (0x3, 0xe), (0x4, 0xe),
    (0x5, 0xe), (0x6, 0xe), (0x7, 0xe), (0x8, 0xe), (0x9, 0xe), (0xa, 0xe), (0xb, 0xe), (0xc, 0xe), (0xd, 0xe), (0xe, 0xe)]"

lemma lts_a_23_run [lts_run]: "table_run LTS_STATE_a 3450 lts_a_23 3600"
proof -
  have run: "lts_a_23 = bytes_up 135 0x79 0xd @ bytes_up 15 0 0xe"
    by (simp add: lts_a_23_def bytes_up_numeral)
  show ?thesis by (simp add: run LTS_STATE_a_def bytes_up_run del: bytes_up.simps)
qed

definition lts_a_24 :: "(byte \<times> byte) list" where
  "lts_a_24 = [
    (0xf, 0xe), (0x10, 0xe), (0x11, 0xe), (0x12, 0xe), (0x13, 0xe), (0x14, 0xe), (0x15, 0xe), (0x16, 0xe), (0x17, 0xe), (0x18, 0xe),
    (0x19, 0xe), (0x1a, 0xe), (0x1b, 0xe), (0x1c, 0xe), (0x1d, 0xe), (0x1e, 0xe), (0x1f, 0xe), (0x20, 0xe), (0x21, 0xe), (0x22, 0xe),
    (0x23, 0xe), (0x24, 0xe), (0x25, 0xe), (0x26, 0xe), (0x27, 0xe), (0x28, 0xe), (0x29, 0xe), (0x2a, 0xe), (0x2b, 0xe), (0x2c, 0xe),
    (0x2d, 0xe), (0x2e, 0xe), (0x2f, 0xe), (0x30, 0xe), (0x31, 0xe), (0x32, 0xe), (0x33, 0xe), (0x34, 0xe), (0x35, 0xe), (0x36, 0xe),
    (0x37, 0xe), (0x38, 0xe), (0x39, 0xe), (0x3a, 0xe), (0x3b, 0xe), (0x3c, 0xe), (0x3d, 0xe), (0x3e, 0xe), (0x3f, 0xe), (0x40, 0xe),
    (0x41, 0xe), (0x42, 0xe), (0x43, 0xe), (0x44, 0xe), (0x45, 0xe), (0x46, 0xe), (0x47, 0xe), (0x48, 0xe), (0x49, 0xe), (0x4a, 0xe),
    (0x4b, 0xe), (0x4c, 0xe), (0x4d, 0xe), (0x4e, 0xe), (0x4f, 0xe), (0x50, 0xe), (0x51, 0xe), (0x52, 0xe), (0x53, 0xe), (0x54, 0xe),
    (0x55, 0xe), (0x56, 0xe), (0x57, 0xe), (0x58, 0xe), (0x59, 0xe), (0x5a, 0xe), (0x5b, 0xe), (0x5c, 0xe), (0x5d, 0xe), (0x5e, 0xe),
    (0x5f, 0xe), (0x60, 0xe), (0x61, 0xe), (0x62, 0xe), (0x63, 0xe), (0x64, 0xe), (0x65, 0xe), (0x66, 0xe), (0x67, 0xe), (0x68, 0xe),
    (0x69, 0xe), (0x6a, 0xe), (0x6b, 0xe), (0x6c, 0xe), (0x6d, 0xe), (0x6e, 0xe), (0x6f, 0xe), (0x70, 0xe), (0x71, 0xe), (0x72, 0xe),
    (0x73, 0xe), (0x74, 0xe), (0x75, 0xe), (0x76, 0xe), (0x77, 0xe), (0x78, 0xe), (0x79, 0xe), (0x7a, 0xe), (0x7b, 0xe), (0x7c, 0xe),
    (0x7d, 0xe), (0x7e, 0xe), (0x7f, 0xe), (0x80, 0xe), (0x81, 0xe), (0x82, 0xe), (0x83, 0xe), (0x84, 0xe), (0x85, 0xe), (0x86, 0xe),
    (0x87, 0xe), (0x88, 0xe), (0x89, 0xe), (0x8a, 0xe), (0x8b, 0xe), (0x8c, 0xe), (0x8d, 0xe), (0x8e, 0xe), (0x8f, 0xe), (0x90, 0xe),
    (0x91, 0xe), (0x92, 0xe), (0x93, 0xe), (0x94, 0xe), (0x95, 0xe), (0x96, 0xe), (0x97, 0xe), (0x98, 0xe), (0x99, 0xe), (0x9a, 0xe),
    (0x9b, 0xe), (0x9c, 0xe), (0x9d, 0xe), (0x9e, 0xe), (0x9f, 0xe), (0xa0, 0xe), (0xa1, 0xe), (0xa2, 0xe), (0xa3, 0xe), (0xa4, 0xe)]"

lemma lts_a_24_run [lts_run]: "table_run LTS_STATE_a 3600 lts_a_24 3750"
proof -
  have run: "lts_a_24 = bytes_up 150 0xf 0xe"
    by (simp add: lts_a_24_def bytes_up_numeral)
  show ?thesis by (simp add: run LTS_STATE_a_def bytes_up_run del: bytes_up.simps)
qed

definition lts_a_25 :: "(byte \<times> byte) list" where
  "lts_a_25 = [
    (0xa5, 0xe), (0xa6, 0xe), (0xa7, 0xe), (0xa8, 0xe), (0xa9, 0xe), (0xaa, 0xe), (0xab, 0xe), (0xac, 0xe), (0xad, 0xe), (0xae, 0xe),
    (0xaf, 0xe), (0xb0, 0xe), (0xb1, 0xe), (0xb2, 0xe), (0xb3, 0xe), (0xb4, 0xe), (0xb5, 0xe), (0xb6, 0xe), (0xb7, 0xe), (0xb8, 0xe),
    (0xb9, 0xe), (0xba, 0xe), (0xbb, 0xe), (0xbc, 0xe), (0xbd, 0xe), (0xbe, 0xe), (0xbf, 0xe), (0xc0, 0xe), (0xc1, 0xe), (0xc2, 0xe),
    (0xc3, 0xe), (0xc4, 0xe), (0xc5, 0xe), (0xc6, 0xe), (0xc7, 0xe), (0xc8, 0xe), (0xc9, 0xe), (0xca, 0xe), (0xcb, 0xe), (0xcc, 0xe),
    (0xcd, 0xe), (0xce, 0xe), (0xcf, 0xe), (0xd0, 0xe), (0xd1, 0xe), (0xd2, 0xe), (0xd3, 0xe), (0xd4, 0xe), (0xd5, 0xe), (0xd6, 0xe),
    (0xd7, 0xe), (0xd8, 0xe), (0xd9, 0xe), (0xda, 0xe), (0xdb, 0xe), (0xdc, 0xe), (0xdd, 0xe), (0xde, 0xe), (0xdf, 0xe), (0xe0, 0xe),
    (0xe1, 0xe), (0xe2, 0xe), (0xe3, 0xe), (0xe4, 0xe), (0xe5, 0xe), (0xe6, 0xe), (0xe7, 0xe), (0xe8, 0xe), (0xe9, 0xe), (0xea, 0xe),
    (0xeb, 0xe), (0xec, 0xe), (0xed, 0xe), (0xee, 0xe), (0xef, 0xe), (0xf0, 0xe), (0xf1, 0xe), (0xf2, 0xe), (0xf3, 0xe), (0xf4, 0xe),
    (0xf5, 0xe), (0xf6, 0xe), (0xf7, 0xe), (0xf8, 0xe), (0xf9, 0xe), (0xfa, 0xe), (0xfb, 0xe), (0xfc, 0xe), (0xfd, 0xe), (0xfe, 0xe),
    (0xff, 0xe), (0, 0xf), (1, 0xf), (0x2, 0xf), (0x3, 0xf), (0x4, 0xf), (0x5, 0xf), (0x6, 0xf), (0x7, 0xf), (0x8, 0xf),
    (0x9, 0xf), (0xa, 0xf), (0xb, 0xf), (0xc, 0xf), (0xd, 0xf), (0xe, 0xf), (0xf, 0xf), (0x10, 0xf), (0x11, 0xf), (0x12, 0xf),
    (0x13, 0xf), (0x14, 0xf), (0x15, 0xf), (0x16, 0xf), (0x17, 0xf), (0x18, 0xf), (0x19, 0xf), (0x1a, 0xf), (0x1b, 0xf), (0x1c, 0xf),
    (0x1d, 0xf), (0x1e, 0xf), (0x1f, 0xf), (0x20, 0xf), (0x21, 0xf), (0x22, 0xf), (0x23, 0xf), (0x24, 0xf), (0x25, 0xf), (0x26, 0xf),
    (0x27, 0xf), (0x28, 0xf), (0x29, 0xf), (0x2a, 0xf), (0x2b, 0xf), (0x2c, 0xf), (0x2d, 0xf), (0x2e, 0xf), (0x2f, 0xf), (0x30, 0xf),
    (0x31, 0xf), (0x32, 0xf), (0x33, 0xf), (0x34, 0xf), (0x35, 0xf), (0x36, 0xf), (0x37, 0xf), (0x38, 0xf), (0x39, 0xf), (0x3a, 0xf)]"

lemma lts_a_25_run [lts_run]: "table_run LTS_STATE_a 3750 lts_a_25 3900"
proof -
  have run: "lts_a_25 = bytes_up 91 0xa5 0xe @ bytes_up 59 0 0xf"
    by (simp add: lts_a_25_def bytes_up_numeral)
  show ?thesis by (simp add: run LTS_STATE_a_def bytes_up_run del: bytes_up.simps)
qed

definition lts_a_26 :: "(byte \<times> byte) list" where
  "lts_a_26 = [
    (0x3b, 0xf), (0x3c, 0xf), (0x3d, 0xf), (0x3e, 0xf), (0x3f, 0xf), (0x40, 0xf), (0x41, 0xf), (0x42, 0xf), (0x43, 0xf), (0x44, 0xf),
    (0x45, 0xf), (0x46, 0xf), (0x47, 0xf), (0x48, 0xf), (0x49, 0xf), (0x4a, 0xf), (0x4b, 0xf), (0x4c, 0xf), (0x4d, 0xf), (0x4e, 0xf),
    (0x4f, 0xf), (0x50, 0xf), (0x51, 0xf), (0x52, 0xf), (0x53, 0xf), (0x54, 0xf), (0x55, 0xf), (0x56, 0xf), (0x57, 0xf), (0x58, 0xf),
    (0x59, 0xf), (0x5a, 0xf), (0x5b, 0xf), (0x5c, 0xf), (0x5d, 0xf), (0x5e, 0xf), (0x5f, 0xf), (0x60, 0xf), (0x61, 0xf), (0x62, 0xf),
    (0x63, 0xf), (0x64, 0xf), (0x65, 0xf), (0x66, 0xf), (0x67, 0xf), (0x68, 0xf), (0x69, 0xf), (0x6a, 0xf), (0x6b, 0xf), (0x6c, 0xf),
    (0x6d, 0xf), (0x6e, 0xf), (0x6f, 0xf), (0x70, 0xf), (0x71, 0xf), (0x72, 0xf), (0x73, 0xf), (0x74, 0xf), (0x75, 0xf), (0x76, 0xf),
    (0x77, 0xf), (0x78, 0xf), (0x79, 0xf), (0x7a, 0xf), (0x7b, 0xf), (0x7c, 0xf), (0x7d, 0xf), (0x7e, 0xf), (0x7f, 0xf), (0x80, 0xf),
    (0x81, 0xf), (0x82, 0xf), (0x83, 0xf), (0x84, 0xf), (0x85, 0xf), (0x86, 0xf), (0x87, 0xf), (0x88, 0xf), (0x89, 0xf), (0x8a, 0xf),
    (0x8b, 0xf), (0x8c, 0xf), (0x8d, 0xf), (0x8e, 0xf), (0x8f, 0xf), (0x90, 0xf), (0x91, 0xf), (0x92, 0xf), (0x93, 0xf), (0x94, 0xf),
    (0x95, 0xf), (0x96, 0xf), (0x97, 0xf), (0x98, 0xf), (0x99, 0xf), (0x9a, 0xf), (0x9b, 0xf), (0x9c, 0xf), (0x9d, 0xf), (0x9e, 0xf),
    (0x9f, 0xf), (0xa0, 0xf), (0xa1, 0xf), (0xa2, 0xf), (0xa3, 0xf), (0xa4, 0xf), (0xa5, 0xf), (0xa6, 0xf), (0xa7, 0xf), (0xa8, 0xf),
    (0xa9, 0xf), (0xaa, 0xf), (0xab, 0xf), (0xac, 0xf), (0xad, 0xf), (0xae, 0xf), (0xaf, 0xf), (0xb0, 0xf), (0xb1, 0xf), (0xb2, 0xf),
    (0xb3, 0xf), (0xb4, 0xf), (0xb5, 0xf), (0xb6, 0xf), (0xb7, 0xf), (0xb8, 0xf), (0xb9, 0xf), (0xba, 0xf), (0xbb, 0xf), (0xbc, 0xf),
    (0xbd, 0xf), (0xbe, 0xf), (0xbf, 0xf), (0xc0, 0xf), (0xc1, 0xf), (0xc2, 0xf), (0xc3, 0xf), (0xc4, 0xf), (0xc5, 0xf), (0xc6, 0xf),
    (0xc7, 0xf), (0xc8, 0xf), (0xc9, 0xf), (0xca, 0xf), (0xcb, 0xf), (0xcc, 0xf), (0xcd, 0xf), (0xce, 0xf), (0xcf, 0xf), (0xd0, 0xf)]"

lemma lts_a_26_run [lts_run]: "table_run LTS_STATE_a 3900 lts_a_26 4050"
proof -
  have run: "lts_a_26 = bytes_up 150 0x3b 0xf"
    by (simp add: lts_a_26_def bytes_up_numeral)
  show ?thesis by (simp add: run LTS_STATE_a_def bytes_up_run del: bytes_up.simps)
qed

definition lts_a_27 :: "(byte \<times> byte) list" where
  "lts_a_27 = [
    (0xd1, 0xf), (0xd2, 0xf), (0xd3, 0xf), (0xd4, 0xf), (0xd5, 0xf), (0xd6, 0xf), (0xd7, 0xf), (0xd8, 0xf), (0xd9, 0xf), (0xda, 0xf),
    (0xdb, 0xf), (0xdc, 0xf), (0xdd, 0xf), (0xde, 0xf), (0xdf, 0xf), (0xe0, 0xf), (0xe1, 0xf), (0xe2, 0xf), (0xe3, 0xf), (0xe4, 0xf),
    (0xe5, 0xf), (0xe6, 0xf), (0xe7, 0xf), (0xe8, 0xf), (0xe9, 0xf), (0xea, 0xf), (0xeb, 0xf), (0xec, 0xf), (0xed, 0xf), (0xee, 0xf),
    (0xef, 0xf), (0xf0, 0xf), (0xf1, 0xf), (0xf2, 0xf), (0xf3, 0xf), (0xf4, 0xf), (0xf5, 0xf), (0xf6, 0xf), (0xf7, 0xf), (0xf8, 0xf),
    (0xf9, 0xf), (0xfa, 0xf), (0xfb, 0xf), (0xfc, 0xf), (0xfd, 0xf), (0xfe, 0xf), (0xff, 0xf), (0, 0x10), (1, 0x10), (0x2, 0x10),
    (0x3, 0x10), (0x4, 0x10), (0x5, 0x10), (0x6, 0x10), (0x7, 0x10), (0x8, 0x10), (0x9, 0x10), (0xa, 0x10), (0xb, 0x10), (0xc, 0x10),
    (0xd, 0x10), (0xe, 0x10), (0xf, 0x10), (0x10, 0x10), (0x11, 0x10), (0x12, 0x10), (0x13, 0x10), (0x14, 0x10), (0x15, 0x10), (0x16, 0x10),
    (0x17, 0x10), (0x18, 0x10), (0x19, 0x10), (0x1a, 0x10), (0x1b, 0x10), (0x1c, 0x10), (0x1d, 0x10), (0x1e, 0x10), (0x1f, 0x10), (0x20, 0x10),
    (0x21, 0x10), (0x22, 0x10), (0x23, 0x10), (0x24, 0x10), (0x25, 0x10), (0x26, 0x10), (0x27, 0x10), (0x28, 0x10), (0x29, 0x10), (0x2a, 0x10),
    (0x2b, 0x10), (0x2c, 0x10), (0x2d, 0x10), (0x2e, 0x10), (0x2f, 0x10), (0x30, 0x10), (0x31, 0x10), (0x32, 0x10), (0x33, 0x10), (0x34, 0x10),
    (0x35, 0x10), (0x36, 0x10), (0x37, 0x10), (0x38, 0x10), (0x39, 0x10), (0x3a, 0x10), (0x3b, 0x10), (0x3c, 0x10), (0x3d, 0x10), (0x3e, 0x10),
    (0x3f, 0x10), (0x40, 0x10), (0x41, 0x10), (0x42, 0x10), (0x43, 0x10), (0x44, 0x10), (0x45, 0x10), (0x46, 0x10), (0x47, 0x10), (0x48, 0x10),
    (0x49, 0x10), (0x4a, 0x10), (0x4b, 0x10), (0x4c, 0x10), (0x4d, 0x10), (0x4e, 0x10), (0x4f, 0x10), (0x50, 0x10), (0x51, 0x10), (0x52, 0x10),
    (0x53, 0x10), (0x54, 0x10), (0x55, 0x10), (0x56, 0x10), (0x57, 0x10), (0x58, 0x10), (0x59, 0x10), (0x5a, 0x10), (0x5b, 0x10), (0x5c, 0x10),
    (0x5d, 0x10), (0x5e, 0x10), (0x5f, 0x10), (0x60, 0x10), (0x61, 0x10), (0x62, 0x10), (0x63, 0x10), (0x64, 0x10), (0x65, 0x10), (0x66, 0x10)]"

lemma lts_a_27_run [lts_run]: "table_run LTS_STATE_a 4050 lts_a_27 4200"
proof -
  have run: "lts_a_27 = bytes_up 47 0xd1 0xf @ bytes_up 103 0 0x10"
    by (simp add: lts_a_27_def bytes_up_numeral)
  show ?thesis by (simp add: run LTS_STATE_a_def bytes_up_run del: bytes_up.simps)
qed

definition lts_a_28 :: "(byte \<times> byte) list" where
  "lts_a_28 = [
    (0x67, 0x10), (0x68, 0x10), (0x69, 0x10), (0x6a, 0x10), (0x6b, 0x10), (0x6c, 0x10), (0x6d, 0x10), (0x6e, 0x10), (0x6f, 0x10), (0x70, 0x10),
    (0x71, 0x10), (0x72, 0x10), (0x73, 0x10), (0x74, 0x10), (0x75, 0x10), (0x76, 0x10), (0x77, 0x10), (0x78, 0x10), (0x79, 0x10), (0x7a, 0x10),
    (0x7b, 0x10), (0x7c, 0x10), (0x7d, 0x10), (0x7e, 0x10), (0x7f, 0x10), (0x80, 0x10), (0x81, 0x10), (0x82, 0x10), (0x83, 0x10), (0x84, 0x10),
    (0x85, 0x10), (0x86, 0x10), (0x87, 0x10), (0x88, 0x10), (0x89, 0x10), (0x8a, 0x10), (0x8b, 0x10), (0x8c, 0x10), (0x8d, 0x10), (0x8e, 0x10),
    (0x8f, 0x10), (0x90, 0x10), (0x91, 0x10), (0x92, 0x10), (0x93, 0x10), (0x94, 0x10), (0x95, 0x10), (0x96, 0x10), (0x97, 0x10), (0x98, 0x10),
    (0x99, 0x10), (0x9a, 0x10), (0x9b, 0x10), (0x9c, 0x10), (0x9d, 0x10), (0x9e, 0x10), (0x9f, 0x10), (0xa0, 0x10), (0xa1, 0x10), (0xa2, 0x10),
    (0xa3, 0x10), (0xa4, 0x10), (0xa5, 0x10), (0xa6, 0x10), (0xa7, 0x10), (0xa8, 0x10), (0xa9, 0x10), (0xaa, 0x10), (0xab, 0x10), (0xac, 0x10),
    (0xad, 0x10), (0xae, 0x10), (0xaf, 0x10), (0xb0, 0x10), (0xb1, 0x10), (0xb2, 0x10), (0xb3, 0x10), (0xb4, 0x10), (0xb5, 0x10), (0xb6, 0x10),
    (0xb7, 0x10), (0xb8, 0x10), (0xb9, 0x10), (0xba, 0x10), (0xbb, 0x10), (0xbc, 0x10), (0xbd, 0x10), (0xbe, 0x10), (0xbf, 0x10), (0xc0, 0x10),
    (0xc1, 0x10), (0xc2, 0x10), (0xc3, 0x10), (0xc4, 0x10), (0xc5, 0x10), (0xc6, 0x10), (0xc7, 0x10), (0xc8, 0x10), (0xc9, 0x10), (0xca, 0x10),
    (0xcb, 0x10), (0xcc, 0x10), (0xcd, 0x10), (0xce, 0x10), (0xcf, 0x10), (0xd0, 0x10), (0xd1, 0x10), (0xd2, 0x10), (0xd3, 0x10), (0xd4, 0x10),
    (0xd5, 0x10), (0xd6, 0x10), (0xd7, 0x10), (0xd8, 0x10), (0xd9, 0x10), (0xda, 0x10), (0xdb, 0x10), (0xdc, 0x10), (0xdd, 0x10), (0xde, 0x10),
    (0xdf, 0x10), (0xe0, 0x10), (0xe1, 0x10), (0xe2, 0x10), (0xe3, 0x10), (0xe4, 0x10), (0xe5, 0x10), (0xe6, 0x10), (0xe7, 0x10), (0xe8, 0x10),
    (0xe9, 0x10), (0xea, 0x10), (0xeb, 0x10), (0xec, 0x10), (0xed, 0x10), (0xee, 0x10), (0xef, 0x10), (0xf0, 0x10), (0xf1, 0x10), (0xf2, 0x10),
    (0xf3, 0x10), (0xf4, 0x10), (0xf5, 0x10), (0xf6, 0x10), (0xf7, 0x10), (0xf8, 0x10), (0xf9, 0x10), (0xfa, 0x10), (0xfb, 0x10), (0xfc, 0x10)]"

lemma lts_a_28_run [lts_run]: "table_run LTS_STATE_a 4200 lts_a_28 4350"
proof -
  have run: "lts_a_28 = bytes_up 150 0x67 0x10"
    by (simp add: lts_a_28_def bytes_up_numeral)
  show ?thesis by (simp add: run LTS_STATE_a_def bytes_up_run del: bytes_up.simps)
qed

definition lts_a_29 :: "(byte \<times> byte) list" where
  "lts_a_29 = [
    (0xfd, 0x10), (0xfe, 0x10), (0xff, 0x10), (0, 0x11), (1, 0x11), (0x2, 0x11), (0x3, 0x11), (0x4, 0x11), (0x5, 0x11), (0x6, 0x11),
    (0x7, 0x11), (0x8, 0x11), (0x9, 0x11), (0xa, 0x11), (0xb, 0x11), (0xc, 0x11), (0xd, 0x11), (0xe, 0x11), (0xf, 0x11), (0x10, 0x11),
    (0x11, 0x11), (0x12, 0x11), (0x13, 0x11), (0x14, 0x11), (0x15, 0x11), (0x16, 0x11), (0x17, 0x11), (0x18, 0x11), (0x19, 0x11), (0x1a, 0x11),
    (0x1b, 0x11), (0x1c, 0x11), (0x1d, 0x11), (0x1e, 0x11), (0x1f, 0x11), (0x20, 0x11), (0x21, 0x11), (0x22, 0x11), (0x23, 0x11), (0x24, 0x11),
    (0x25, 0x11), (0x26, 0x11), (0x27, 0x11), (0x28, 0x11), (0x29, 0x11), (0x2a, 0x11), (0x2b, 0x11), (0x2c, 0x11), (0x2d, 0x11), (0x2e, 0x11),
    (0x2f, 0x11), (0x30, 0x11), (0x31, 0x11), (0x32, 0x11), (0x33, 0x11), (0x34, 0x11), (0x35, 0x11), (0x36, 0x11), (0x37, 0x11), (0x38, 0x11),
    (0x39, 0x11), (0x3a, 0x11), (0x3b, 0x11), (0x3c, 0x11), (0x3d, 0x11), (0x3e, 0x11), (0x3f, 0x11), (0x40, 0x11), (0x41, 0x11), (0x42, 0x11),
    (0x43, 0x11), (0x44, 0x11), (0x45, 0x11), (0x46, 0x11), (0x47, 0x11), (0x48, 0x11), (0x49, 0x11), (0x4a, 0x11), (0x4b, 0x11), (0x4c, 0x11),
    (0x4d, 0x11), (0x4e, 0x11), (0x4f, 0x11), (0x50, 0x11), (0x51, 0x11), (0x52, 0x11), (0x53, 0x11), (0x54, 0x11), (0x55, 0x11), (0x56, 0x11),
    (0x57, 0x11), (0x58, 0x11), (0x59, 0x11), (0x5a, 0x11), (0x5b, 0x11), (0x5c, 0x11), (0x5d, 0x11), (0x5e, 0x11), (0x5f, 0x11), (0x60, 0x11),
    (0x61, 0x11), (0x62, 0x11), (0x63, 0x11), (0x64, 0x11), (0x65, 0x11), (0x66, 0x11), (0x67, 0x11), (0x68, 0x11), (0x69, 0x11), (0x6a, 0x11),
    (0x6b, 0x11), (0x6c, 0x11), (0x6d, 0x11), (0x6e, 0x11), (0x6f, 0x11), (0x70, 0x11), (0x71, 0x11), (0x72, 0x11), (0x73, 0x11), (0x74, 0x11),
    (0x75, 0x11), (0x76, 0x11), (0x77, 0x11), (0x78, 0x11), (0x79, 0x11), (0x7a, 0x11), (0x7b, 0x11), (0x7c, 0x11), (0x7d, 0x11), (0x7e, 0x11),
    (0x7f, 0x11), (0x80, 0x11), (0x81, 0x11), (0x82, 0x11), (0x83, 0x11), (0x84, 0x11), (0x85, 0x11), (0x86, 0x11), (0x87, 0x11), (0x88, 0x11),
    (0x89, 0x11), (0x8a, 0x11), (0x8b, 0x11), (0x8c, 0x11), (0x8d, 0x11), (0x8e, 0x11), (0x8f, 0x11), (0x90, 0x11), (0x91, 0x11), (0x92, 0x11)]"

lemma lts_a_29_run [lts_run]: "table_run LTS_STATE_a 4350 lts_a_29 4500"
proof -
  have run: "lts_a_29 = bytes_up 3 0xfd 0x10 @ bytes_up 147 0 0x11"
    by (simp add: lts_a_29_def bytes_up_numeral)
  show ?thesis by (simp add: run LTS_STATE_a_def bytes_up_run del: bytes_up.simps)
qed

definition lts_a_30 :: "(byte \<times> byte) list" where
  "lts_a_30 = [
    (0x93, 0x11), (0x94, 0x11), (0x95, 0x11), (0x96, 0x11), (0x97, 0x11), (0x98, 0x11), (0x99, 0x11), (0x9a, 0x11), (0x9b, 0x11), (0x9c, 0x11),
    (0x9d, 0x11), (0x9e, 0x11), (0x9f, 0x11), (0xa0, 0x11), (0xa1, 0x11), (0xa2, 0x11), (0xa3, 0x11), (0xa4, 0x11), (0xa5, 0x11), (0xa6, 0x11),
    (0xa7, 0x11), (0xa8, 0x11), (0xa9, 0x11), (0xaa, 0x11), (0xab, 0x11), (0xac, 0x11), (0xad, 0x11), (0xae, 0x11), (0xaf, 0x11), (0xb0, 0x11),
    (0xb1, 0x11), (0xb2, 0x11), (0xb3, 0x11), (0xb4, 0x11), (0xb5, 0x11), (0xb6, 0x11), (0xb7, 0x11), (0xb8, 0x11), (0xb9, 0x11), (0xba, 0x11),
    (0xbb, 0x11), (0xbc, 0x11), (0xbd, 0x11), (0xbe, 0x11), (0xbf, 0x11), (0xc0, 0x11), (0xc1, 0x11), (0xc2, 0x11), (0xc3, 0x11), (0xc4, 0x11),
    (0xc5, 0x11), (0xc6, 0x11), (0xc7, 0x11), (0xc8, 0x11), (0xc9, 0x11), (0xca, 0x11), (0xcb, 0x11), (0xcc, 0x11), (0xcd, 0x11), (0xce, 0x11),
    (0xcf, 0x11), (0xd0, 0x11), (0xd1, 0x11), (0xd2, 0x11), (0xd3, 0x11), (0xd4, 0x11), (0xd5, 0x11), (0xd6, 0x11), (0xd7, 0x11), (0xd8, 0x11),
    (0xd9, 0x11), (0xda, 0x11), (0xdb, 0x11), (0xdc, 0x11), (0xdd, 0x11), (0xde, 0x11), (0xdf, 0x11), (0xe0, 0x11), (0xe1, 0x11), (0xe2, 0x11),
    (0xe3, 0x11), (0xe4, 0x11), (0xe5, 0x11), (0xe6, 0x11), (0xe7, 0x11), (0xe8, 0x11), (0xe9, 0x11), (0xea, 0x11), (0xeb, 0x11), (0xec, 0x11),
    (0xed, 0x11), (0xee, 0x11), (0xef, 0x11), (0xf0, 0x11), (0xf1, 0x11), (0xf2, 0x11), (0xf3, 0x11), (0xf4, 0x11), (0xf5, 0x11), (0xf6, 0x11),
    (0xf7, 0x11), (0xf8, 0x11), (0xf9, 0x11), (0xfa, 0x11), (0xfb, 0x11), (0xfc, 0x11), (0xfd, 0x11), (0xfe, 0x11), (0xff, 0x11), (0, 0x12),
    (1, 0x12), (0x2, 0x12), (0x3, 0x12), (0x4, 0x12), (0x5, 0x12), (0x6, 0x12), (0x7, 0x12), (0x8, 0x12), (0x9, 0x12), (0xa, 0x12),
    (0xb, 0x12), (0xc, 0x12), (0xd, 0x12), (0xe, 0x12), (0xf, 0x12), (0x10, 0x12), (0x11, 0x12), (0x12, 0x12), (0x13, 0x12), (0x14, 0x12),
    (0x15, 0x12), (0x16, 0x12), (0x17, 0x12), (0x18, 0x12), (0x19, 0x12), (0x1a, 0x12), (0x1b, 0x12), (0x1c, 0x12), (0x1d, 0x12), (0x1e, 0x12),
    (0x1f, 0x12), (0x20, 0x12), (0x21, 0x12), (0x22, 0x12), (0x23, 0x12), (0x24, 0x12), (0x25, 0x12), (0x26, 0x12), (0x27, 0x12), (0x28, 0x12)]"

lemma lts_a_30_run [lts_run]: "table_run LTS_STATE_a 4500 lts_a_30 4650"
proof -
  have run: "lts_a_30 = bytes_up 109 0x93 0x11 @ bytes_up 41 0 0x12"
    by (simp add: lts_a_30_def bytes_up_numeral)
  show ?thesis by (simp add: run LTS_STATE_a_def bytes_up_run del: bytes_up.simps)
qed

definition lts_a_31 :: "(byte \<times> byte) list" where
  "lts_a_31 = [
    (0x29, 0x12), (0x2a, 0x12), (0x2b, 0x12), (0x2c, 0x12), (0x2d, 0x12), (0x2e, 0x12), (0x2f, 0x12), (0x30, 0x12), (0x31, 0x12), (0x32, 0x12),
    (0x33, 0x12), (0x34, 0x12), (0x35, 0x12), (0x36, 0x12), (0x37, 0x12), (0x38, 0x12), (0x39, 0x12), (0x3a, 0x12), (0x3b, 0x12), (0x3c, 0x12),
    (0x3d, 0x12), (0x3e, 0x12), (0x3f, 0x12), (0x40, 0x12), (0x41, 0x12), (0x42, 0x12), (0x43, 0x12), (0x44, 0x12), (0x45, 0x12), (0x46, 0x12),
    (0x47, 0x12), (0x48, 0x12), (0x49, 0x12), (0x4a, 0x12), (0x4b, 0x12), (0x4c, 0x12), (0x4d, 0x12), (0x4e, 0x12), (0x4f, 0x12), (0x50, 0x12),
    (0x51, 0x12), (0x52, 0x12), (0x53, 0x12), (0x54, 0x12), (0x55, 0x12), (0x56, 0x12), (0x57, 0x12), (0x58, 0x12), (0x59, 0x12), (0x5a, 0x12),
    (0x5b, 0x12), (0x5c, 0x12), (0x5d, 0x12), (0x5e, 0x12), (0x5f, 0x12), (0x60, 0x12), (0x61, 0x12), (0x62, 0x12), (0x63, 0x12), (0x64, 0x12),
    (0x65, 0x12), (0x66, 0x12), (0x67, 0x12), (0x68, 0x12), (0x69, 0x12), (0x6a, 0x12), (0x6b, 0x12), (0x6c, 0x12), (0x6d, 0x12), (0x6e, 0x12),
    (0x6f, 0x12), (0x70, 0x12), (0x71, 0x12), (0x72, 0x12), (0x73, 0x12), (0x74, 0x12), (0x75, 0x12), (0x76, 0x12), (0x77, 0x12), (0x78, 0x12),
    (0x79, 0x12), (0x7a, 0x12), (0x7b, 0x12), (0x7c, 0x12), (0x7d, 0x12), (0x7e, 0x12), (0x7f, 0x12), (0x80, 0x12), (0x81, 0x12), (0x82, 0x12),
    (0x83, 0x12), (0x84, 0x12), (0x85, 0x12), (0x86, 0x12), (0x87, 0x12), (0x88, 0x12), (0x89, 0x12), (0x8a, 0x12), (0x8b, 0x12), (0x8c, 0x12),
    (0x8d, 0x12), (0x8e, 0x12), (0x8f, 0x12), (0x90, 0x12), (0x91, 0x12), (0x92, 0x12), (0x93, 0x12), (0x94, 0x12), (0x95, 0x12), (0x96, 0x12),
    (0x97, 0x12), (0x98, 0x12), (0x99, 0x12), (0x9a, 0x12), (0x9b, 0x12), (0x9c, 0x12), (0x9d, 0x12), (0x9e, 0x12), (0x9f, 0x12), (0xa0, 0x12),
    (0xa1, 0x12), (0xa2, 0x12), (0xa3, 0x12), (0xa4, 0x12), (0xa5, 0x12), (0xa6, 0x12), (0xa7, 0x12), (0xa8, 0x12), (0xa9, 0x12), (0xaa, 0x12),
    (0xab, 0x12), (0xac, 0x12), (0xad, 0x12), (0xae, 0x12), (0xaf, 0x12), (0xb0, 0x12), (0xb1, 0x12), (0xb2, 0x12), (0xb3, 0x12), (0xb4, 0x12),
    (0xb5, 0x12), (0xb6, 0x12), (0xb7, 0x12), (0xb8, 0x12), (0xb9, 0x12), (0xba, 0x12), (0xbb, 0x12), (0xbc, 0x12), (0xbd, 0x12), (0xbe, 0x12)]"

lemma lts_a_31_run [lts_run]: "table_run LTS_STATE_a 4650 lts_a_31 4800"
proof -
  have run: "lts_a_31 = bytes_up 150 0x29 0x12"
    by (simp add: lts_a_31_def bytes_up_numeral)
  show ?thesis by (simp add: run LTS_STATE_a_def bytes_up_run del: bytes_up.simps)
qed

definition lts_a_32 :: "(byte \<times> byte) list" where
  "lts_a_32 = [
    (0xbf, 0x12), (0xc0, 0x12), (0xc1, 0x12), (0xc2, 0x12), (0xc3, 0x12), (0xc4, 0x12), (0xc5, 0x12), (0xc6, 0x12), (0xc7, 0x12), (0xc8, 0x12),
    (0xc9, 0x12), (0xca, 0x12), (0xcb, 0x12), (0xcc, 0x12), (0xcd, 0x12), (0xce, 0x12), (0xcf, 0x12), (0xd0, 0x12), (0xd1, 0x12), (0xd2, 0x12),
    (0xd3, 0x12), (0xd4, 0x12), (0xd5, 0x12), (0xd6, 0x12), (0xd7, 0x12), (0xd8, 0x12), (0xd9, 0x12), (0xda, 0x12), (0xdb, 0x12), (0xdc, 0x12),
    (0xdd, 0x12), (0xde, 0x12), (0xdf, 0x12), (0xe0, 0x12), (0xe1, 0x12), (0xe2, 0x12), (0xe3, 0x12), (0xe4, 0x12), (0xe5, 0x12), (0xe6, 0x12),
    (0xe7, 0x12), (0xe8, 0x12), (0xe9, 0x12), (0xea, 0x12), (0xeb, 0x12), (0xec, 0x12), (0xed, 0x12), (0xee, 0x12), (0xef, 0x12), (0xf0, 0x12),
    (0xf1, 0x12), (0xf2, 0x12), (0xf3, 0x12), (0xf4, 0x12), (0xf5, 0x12), (0xf6, 0x12), (0xf7, 0x12), (0xf8, 0x12), (0xf9, 0x12), (0xfa, 0x12),
    (0xfb, 0x12), (0xfc, 0x12), (0xfd, 0x12), (0xfe, 0x12), (0xff, 0x12), (0, 0x13), (1, 0x13), (0x2, 0x13), (0x3, 0x13), (0x4, 0x13),
    (0x5, 0x13), (0x6, 0x13), (0x7, 0x13), (0x8, 0x13), (0x9, 0x13), (0xa, 0x13), (0xb, 0x13), (0xc, 0x13), (0xd, 0x13), (0xe, 0x13),
    (0xf, 0x13), (0x10, 0x13), (0x11, 0x13), (0x12, 0x13), (0x13, 0x13), (0x14, 0x13), (0x15, 0x13), (0x16, 0x13), (0x17, 0x13), (0x18, 0x13),
    (0x19, 0x13), (0x1a, 0x13), (0x1b, 0x13), (0x1c, 0x13), (0x1d, 0x13), (0x1e, 0x13), (0x1f, 0x13), (0x20, 0x13), (0x21, 0x13), (0x22, 0x13),
    (0x23, 0x13), (0x24, 0x13), (0x25, 0x13), (0x26, 0x13), (0x27, 0x13), (0x28, 0x13), (0x29, 0x13), (0x2a, 0x13), (0x2b, 0x13), (0x2c, 0x13),
    (0x2d, 0x13), (0x2e, 0x13), (0x2f, 0x13), (0x30, 0x13), (0x31, 0x13), (0x32, 0x13), (0x33, 0x13), (0x34, 0x13), (0x35, 0x13), (0x36, 0x13),
    (0x37, 0x13), (0x38, 0x13), (0x39, 0x13), (0x3a, 0x13), (0x3b, 0x13), (0x3c, 0x13), (0x3d, 0x13), (0x3e, 0x13), (0x3f, 0x13), (0x40, 0x13),
    (0x41, 0x13), (0x42, 0x13), (0x43, 0x13), (0x44, 0x13), (0x45, 0x13), (0x46, 0x13), (0x47, 0x13), (0x48, 0x13), (0x49, 0x13), (0x4a, 0x13),
    (0x4b, 0x13), (0x4c, 0x13), (0x4d, 0x13), (0x4e, 0x13), (0x4f, 0x13), (0x50, 0x13), (0x51, 0x13), (0x52, 0x13), (0x53, 0x13), (0x54, 0x13)]"

lemma lts_a_32_run [lts_run]: "table_run LTS_STATE_a 4800 lts_a_32 4950"
proof -
  have run: "lts_a_32 = bytes_up 65 0xbf 0x12 @ bytes_up 85 0 0x13"
    by (simp add: lts_a_32_def bytes_up_numeral)
  show ?thesis by (simp add: run LTS_STATE_a_def bytes_up_run del: bytes_up.simps)
qed

definition lts_a_33 :: "(byte \<times> byte) list" where
  "lts_a_33 = [
    (0x55, 0x13), (0x56, 0x13), (0x57, 0x13), (0x58, 0x13), (0x59, 0x13), (0x5a, 0x13), (0x5b, 0x13), (0x5c, 0x13), (0x5d, 0x13), (0x5e, 0x13),
    (0x5f, 0x13), (0x60, 0x13), (0x61, 0x13), (0x62, 0x13), (0x63, 0x13), (0x64, 0x13), (0x65, 0x13), (0x66, 0x13), (0x67, 0x13), (0x68, 0x13),
    (0x69, 0x13), (0x6a, 0x13), (0x6b, 0x13), (0x6c, 0x13), (0x6d, 0x13), (0x6e, 0x13), (0x6f, 0x13), (0x70, 0x13), (0x71, 0x13), (0x72, 0x13),
    (0x73, 0x13), (0x74, 0x13), (0x75, 0x13), (0x76, 0x13), (0x77, 0x13), (0x78, 0x13), (0x79, 0x13), (0x7a, 0x13), (0x7b, 0x13), (0x7c, 0x13),
    (0x7d, 0x13), (0x7e, 0x13), (0x7f, 0x13), (0x80, 0x13), (0x81, 0x13), (0x82, 0x13), (0x83, 0x13), (0x84, 0x13), (0x85, 0x13), (0x86, 0x13),
    (0x87, 0x13), (0x88, 0x13), (0x89, 0x13), (0x8a, 0x13), (0x8b, 0x13), (0x8c, 0x13), (0x8d, 0x13), (0x8e, 0x13), (0x8f, 0x13), (0x90, 0x13),
    (0x91, 0x13), (0x92, 0x13), (0x93, 0x13), (0x94, 0x13), (0x95, 0x13), (0x96, 0x13), (0x97, 0x13), (0x98, 0x13), (0x99, 0x13), (0x9a, 0x13),
    (0x9b, 0x13), (0x9c, 0x13), (0x9d, 0x13), (0x9e, 0x13), (0x9f, 0x13), (0xa0, 0x13), (0xa1, 0x13), (0xa2, 0x13), (0xa3, 0x13), (0xa4, 0x13),
    (0xa5, 0x13), (0xa6, 0x13), (0xa7, 0x13), (0xa8, 0x13), (0xa9, 0x13), (0xaa, 0x13), (0xab, 0x13), (0xac, 0x13), (0xad, 0x13), (0xae, 0x13),
    (0xaf, 0x13), (0xb0, 0x13), (0xb1, 0x13), (0xb2, 0x13), (0xb3, 0x13), (0xb4, 0x13), (0xb5, 0x13), (0xb6, 0x13), (0xb7, 0x13), (0xb8, 0x13),
    (0xb9, 0x13), (0xba, 0x13), (0xbb, 0x13), (0xbc, 0x13), (0xbd, 0x13), (0xbe, 0x13), (0xbf, 0x13), (0xc0, 0x13), (0xc1, 0x13), (0xc2, 0x13),
    (0xc3, 0x13), (0xc4, 0x13), (0xc5, 0x13), (0xc6, 0x13), (0xc7, 0x13), (0xc8, 0x13), (0xc9, 0x13), (0xca, 0x13), (0xcb, 0x13), (0xcc, 0x13),
    (0xcd, 0x13), (0xce, 0x13), (0xcf, 0x13), (0xd0, 0x13), (0xd1, 0x13), (0xd2, 0x13), (0xd3, 0x13), (0xd4, 0x13), (0xd5, 0x13), (0xd6, 0x13),
    (0xd7, 0x13), (0xd8, 0x13), (0xd9, 0x13), (0xda, 0x13), (0xdb, 0x13), (0xdc, 0x13), (0xdd, 0x13), (0xde, 0x13), (0xdf, 0x13), (0xe0, 0x13),
    (0xe1, 0x13), (0xe2, 0x13), (0xe3, 0x13), (0xe4, 0x13), (0xe5, 0x13), (0xe6, 0x13), (0xe7, 0x13), (0xe8, 0x13), (0xe9, 0x13), (0xea, 0x13)]"

lemma lts_a_33_run [lts_run]: "table_run LTS_STATE_a 4950 lts_a_33 5100"
proof -
  have run: "lts_a_33 = bytes_up 150 0x55 0x13"
    by (simp add: lts_a_33_def bytes_up_numeral)
  show ?thesis by (simp add: run LTS_STATE_a_def bytes_up_run del: bytes_up.simps)
qed

definition lts_a_34 :: "(byte \<times> byte) list" where
  "lts_a_34 = [
    (0xeb, 0x13), (0xec, 0x13), (0xed, 0x13), (0xee, 0x13), (0xef, 0x13), (0xf0, 0x13), (0xf1, 0x13), (0xf2, 0x13), (0xf3, 0x13), (0xf4, 0x13),
    (0xf5, 0x13), (0xf6, 0x13), (0xf7, 0x13), (0xf8, 0x13), (0xf9, 0x13), (0xfa, 0x13), (0xfb, 0x13), (0xfc, 0x13), (0xfd, 0x13), (0xfe, 0x13),
    (0xff, 0x13), (0, 0x14), (1, 0x14), (0x2, 0x14), (0x3, 0x14), (0x4, 0x14), (0x5, 0x14), (0x6, 0x14), (0x7, 0x14), (0x8, 0x14),
    (0x9, 0x14), (0xa, 0x14), (0xb, 0x14), (0xc, 0x14), (0xd, 0x14), (0xe, 0x14), (0xf, 0x14), (0x10, 0x14), (0x11, 0x14), (0x12, 0x14),
    (0x13, 0x14), (0x14, 0x14), (0x15, 0x14), (0x16, 0x14), (0x17, 0x14), (0x18, 0x14), (0x19, 0x14), (0x1a, 0x14), (0x1b, 0x14), (0x1c, 0x14),
    (0x1d, 0x14), (0x1e, 0x14), (0x1f, 0x14), (0x20, 0x14), (0x21, 0x14), (0x22, 0x14), (0x23, 0x14), (0x24, 0x14), (0x25, 0x14), (0x26, 0x14),
    (0x27, 0x14), (0x28, 0x14), (0x29, 0x14), (0x2a, 0x14), (0x2b, 0x14), (0x2c, 0x14), (0x2d, 0x14), (0x2e, 0x14), (0x2f, 0x14), (0x30, 0x14),
    (0x31, 0x14), (0x32, 0x14), (0x33, 0x14), (0x34, 0x14), (0x35, 0x14), (0x36, 0x14), (0x37, 0x14), (0x38, 0x14), (0x39, 0x14), (0x3a, 0x14),
    (0x3b, 0x14), (0x3c, 0x14), (0x3d, 0x14), (0x3e, 0x14), (0x3f, 0x14), (0x40, 0x14), (0x41, 0x14), (0x42, 0x14), (0x43, 0x14), (0x44, 0x14),
    (0x45, 0x14), (0x46, 0x14), (0x47, 0x14), (0x48, 0x14), (0x49, 0x14), (0x4a, 0x14), (0x4b, 0x14), (0x4c, 0x14), (0x4d, 0x14), (0x4e, 0x14),
    (0x4f, 0x14), (0x50, 0x14), (0x51, 0x14), (0x52, 0x14), (0x53, 0x14), (0x54, 0x14), (0x55, 0x14), (0x56, 0x14), (0x57, 0x14), (0x58, 0x14),
    (0x59, 0x14), (0x5a, 0x14), (0x5b, 0x14), (0x5c, 0x14), (0x5d, 0x14), (0x5e, 0x14), (0x5f, 0x14), (0x60, 0x14), (0x61, 0x14), (0x62, 0x14),
    (0x63, 0x14), (0x64, 0x14), (0x65, 0x14), (0x66, 0x14), (0x67, 0x14), (0x68, 0x14), (0x69, 0x14), (0x6a, 0x14), (0x6b, 0x14), (0x6c, 0x14),
    (0x6d, 0x14), (0x6e, 0x14), (0x6f, 0x14), (0x70, 0x14), (0x71, 0x14), (0x72, 0x14), (0x73, 0x14), (0x74, 0x14), (0x75, 0x14), (0x76, 0x14),
    (0x77, 0x14), (0x78, 0x14), (0x79, 0x14), (0x7a, 0x14), (0x7b, 0x14), (0x7c, 0x14), (0x7d, 0x14), (0x7e, 0x14), (0x7f, 0x14), (0x80, 0x14)]"

lemma lts_a_34_run [lts_run]: "table_run LTS_STATE_a 5100 lts_a_34 5250"
proof -
  have run: "lts_a_34 = bytes_up 21 0xeb 0x13 @ bytes_up 129 0 0x14"
    by (simp add: lts_a_34_def bytes_up_numeral)
  show ?thesis by (simp add: run LTS_STATE_a_def bytes_up_run del: bytes_up.simps)
qed

definition lts_a_35 :: "(byte \<times> byte) list" where
  "lts_a_35 = [
    (0x81, 0x14), (0x82, 0x14), (0x83, 0x14), (0x84, 0x14), (0x85, 0x14), (0x86, 0x14), (0x87, 0x14), (0x88, 0x14), (0x89, 0x14), (0x8a, 0x14),
    (0x8b, 0x14), (0x8c, 0x14), (0x8d, 0x14), (0x8e, 0x14), (0x8f, 0x14), (0x90, 0x14), (0x91, 0x14), (0x92, 0x14), (0x93, 0x14), (0x94, 0x14),
    (0x95, 0x14), (0x96, 0x14), (0x97, 0x14), (0x98, 0x14), (0x99, 0x14), (0x9a, 0x14), (0x9b, 0x14), (0x9c, 0x14), (0x9d, 0x14), (0x9e, 0x14),
    (0x9f, 0x14), (0xa0, 0x14), (0xa1, 0x14), (0xa2, 0x14), (0xa3, 0x14), (0xa4, 0x14), (0xa5, 0x14), (0xa6, 0x14), (0xa7, 0x14), (0xa8, 0x14),
    (0xa9, 0x14), (0xaa, 0x14), (0xab, 0x14), (0xac, 0x14), (0xad, 0x14), (0xae, 0x14), (0xaf, 0x14), (0xb0, 0x14), (0xb1, 0x14), (0xb2, 0x14),
    (0xb3, 0x14), (0xb4, 0x14), (0xb5, 0x14), (0xb6, 0x14), (0xb7, 0x14), (0xb8, 0x14), (0xb9, 0x14), (0xba, 0x14), (0xbb, 0x14), (0xbc, 0x14),
    (0xbd, 0x14), (0xbe, 0x14), (0xbf, 0x14), (0xc0, 0x14), (0xc1, 0x14), (0xc2, 0x14), (0xc3, 0x14), (0xc4, 0x14), (0xc5, 0x14), (0xc6, 0x14),
    (0xc7, 0x14), (0xc8, 0x14), (0xc9, 0x14), (0xca, 0x14), (0xcb, 0x14), (0xcc, 0x14), (0xcd, 0x14), (0xce, 0x14), (0xcf, 0x14), (0xd0, 0x14),
    (0xd1, 0x14), (0xd2, 0x14), (0xd3, 0x14), (0xd4, 0x14), (0xd5, 0x14), (0xd6, 0x14), (0xd7, 0x14), (0xd8, 0x14), (0xd9, 0x14), (0xda, 0x14),
    (0xdb, 0x14), (0xdc, 0x14), (0xdd, 0x14), (0xde, 0x14), (0xdf, 0x14), (0xe0, 0x14), (0xe1, 0x14), (0xe2, 0x14), (0xe3, 0x14), (0xe4, 0x14),
    (0xe5, 0x14), (0xe6, 0x14), (0xe7, 0x14), (0xe8, 0x14), (0xe9, 0x14), (0xea, 0x14), (0xeb, 0x14), (0xec, 0x14), (0xed, 0x14), (0xee, 0x14),
    (0xef, 0x14), (0xf0, 0x14), (0xf1, 0x14), (0xf2, 0x14), (0xf3, 0x14), (0xf4, 0x14), (0xf5, 0x14), (0xf6, 0x14), (0xf7, 0x14), (0xf8, 0x14),
    (0xf9, 0x14), (0xfa, 0x14)]"

lemma lts_a_35_run [lts_run]: "table_run LTS_STATE_a 5250 lts_a_35 5372"
proof -
  have run: "lts_a_35 = bytes_up 122 0x81 0x14"
    by (simp add: lts_a_35_def bytes_up_numeral)
  show ?thesis by (simp add: run LTS_STATE_a_def bytes_up_run del: bytes_up.simps)
qed

definition lts_table_a :: "(byte \<times> byte) list" where
  "lts_table_a = concat [
     lts_a_0, lts_a_1, lts_a_2, lts_a_3, lts_a_4, lts_a_5, lts_a_6, lts_a_7, lts_a_8, lts_a_9, lts_a_10, lts_a_11,
     lts_a_12, lts_a_13, lts_a_14, lts_a_15, lts_a_16, lts_a_17, lts_a_18, lts_a_19, lts_a_20, lts_a_21, lts_a_22, lts_a_23,
     lts_a_24, lts_a_25, lts_a_26, lts_a_27, lts_a_28, lts_a_29, lts_a_30, lts_a_31, lts_a_32, lts_a_33, lts_a_34, lts_a_35]"

lemma lts_table_a_run: "table_run LTS_STATE_a 0 lts_table_a 5372"
  unfolding lts_table_a_def by (rule table_run_nil | rule table_run_concat, rule lts_run)+

lemma lts_table_a_entries [lts_tables]: "entry_at lts_table_a = LTS_STATE_a"
  by (rule table_run_entry [OF lts_table_a_run LTS_STATE_a_def])

section \<open>Letter b\<close>

definition lts_b_0 :: "(byte \<times> byte) list" where
  "lts_b_0 = [
    (0xfb, 0x14), (0xfc, 0x14), (0xfd, 0x14), (0xfe, 0x14), (0xff, 0x14), (0, 0x15), (1, 0x15), (0x2, 0x15), (0x3, 0x15), (0x4, 0x15),
    (0x5, 0x15), (0x6, 0x15), (0x7, 0x15), (0x8, 0x15), (0x9, 0x15), (0xa, 0x15), (0xb, 0x15), (0xc, 0x15), (0xc, 0x15), (0xd, 0x15),
    (0xe, 0x15), (0xf, 0x15), (0x10, 0x15), (0x11, 0x15), (0x12, 0x15), (0x13, 0x15), (0x14, 0x15), (0x15, 0x15), (0x16, 0x15), (0x17, 0x15),
    (0x18, 0x15), (0x19, 0x15), (0x1a, 0x15), (0x1b, 0x15), (0x1c, 0x15), (0x1d, 0x15), (0x1e, 0x15), (0x1f, 0x15), (0x20, 0x15), (0x21, 0x15),
    (0x22, 0x15), (0x23, 0x15), (0x24, 0x15), (0x25, 0x15)]"

lemma lts_b_0_run [lts_run]: "table_run LTS_STATE_b 0 lts_b_0 44"
proof -
  have run: "lts_b_0 = bytes_up 5 0xfb 0x14 @ bytes_up 13 0 0x15 @ bytes_up 26 0xc 0x15"
    by (simp add: lts_b_0_def bytes_up_numeral)
  show ?thesis by (simp add: run LTS_STATE_b_def bytes_up_run del: bytes_up.simps)
qed

definition lts_table_b :: "(byte \<times> byte) list" where
  "lts_table_b = concat [
     lts_b_0]"

lemma lts_table_b_run: "table_run LTS_STATE_b 0 lts_table_b 44"
  unfolding lts_table_b_def by (rule table_run_nil | rule table_run_concat, rule lts_run)+

lemma lts_table_b_entries [lts_tables]: "entry_at lts_table_b = LTS_STATE_b"
  by (rule table_run_entry [OF lts_table_b_run LTS_STATE_b_def])

section \<open>Letter c\<close>

definition lts_c_0 :: "(byte \<times> byte) list" where
  "lts_c_0 = [
    (0x26, 0x15), (0x27, 0x15), (0x28, 0x15), (0x29, 0x15), (0x2a, 0x15), (0x2b, 0x15), (0x2c, 0x15), (0x2d, 0x15), (0x2e, 0x15), (0x2f, 0x15),
    (0x30, 0x15), (0x31, 0x15), (0x32, 0x15), (0x33, 0x15), (0x34, 0x15), (0x35, 0x15), (0x36, 0x15), (0x37, 0x15), (0x38, 0x15), (0x39, 0x15),
    (0x3a, 0x15), (0x3b, 0x15), (0x3c, 0x15), (0x3d, 0x15), (0x3e, 0x15), (0x3e, 0x15), (0x3f, 0x15), (0x40, 0x15), (0x41, 0x15), (0x42, 0x15),
    (0x43, 0x15), (0x44, 0x15), (0x45, 0x15), (0x46, 0x15), (0x47, 0x15), (0x48, 0x15), (0x49, 0x15), (0x4a, 0x15), (0x4b, 0x15), (0x4c, 0x15),
    (0x4d, 0x15), (0x4e, 0x15), (0x4f, 0x15), (0x50, 0x15), (0x51, 0x15), (0x52, 0x15), (0x53, 0x15), (0x54, 0x15), (0x55, 0x15), (0x56, 0x15),
    (0x57, 0x15), (0x58, 0x15), (0x59, 0x15), (0x5a, 0x15), (0x5b, 0x15), (0x5c, 0x15), (0x5d, 0x15), (0x5e, 0x15), (0x5f, 0x15), (0x60, 0x15),
    (0x61, 0x15), (0x62, 0x15), (0x63, 0x15), (0x64, 0x15), (0x65, 0x15), (0x66, 0x15), (0x67, 0x15), (0x68, 0x15), (0x69, 0x15), (0x6a, 0x15),
    (0x6b, 0x15), (0x6c, 0x15), (0x6d, 0x15), (0x6e, 0x15), (0x6f, 0x15), (0x70, 0x15), (0x71, 0x15), (0x72, 0x15), (0x73, 0x15), (0x74, 0x15),
    (0x75, 0x15), (0x76, 0x15), (0x77, 0x15), (0x78, 0x15), (0x79, 0x15), (0x7a, 0x15), (0x7b, 0x15), (0x7c, 0x15), (0x7d, 0x15), (0x7e, 0x15),
    (0x7f, 0x15), (0x80, 0x15), (0x81, 0x15), (0x82, 0x15), (0x83, 0x15), (0x84, 0x15), (0x85, 0x15), (0x86, 0x15), (0x87, 0x15), (0x88, 0x15),
    (0x89, 0x15), (0x8a, 0x15), (0x8b, 0x15), (0x8c, 0x15), (0x8d, 0x15), (0x8e, 0x15), (0x8f, 0x15), (0x90, 0x15), (0x91, 0x15), (0x92, 0x15),
    (0x93, 0x15), (0x94, 0x15), (0x95, 0x15), (0x96, 0x15), (0x97, 0x15), (0x98, 0x15), (0x99, 0x15), (0x9a, 0x15), (0x9b, 0x15), (0x9c, 0x15),
    (0x9d, 0x15), (0x9e, 0x15), (0x9f, 0x15), (0xa0, 0x15), (0xa1, 0x15), (0xa2, 0x15), (0xa3, 0x15), (0xa4, 0x15), (0xa5, 0x15), (0xa6, 0x15),
    (0xa7, 0x15), (0xa8, 0x15), (0xa9, 0x15), (0xaa, 0x15), (0xab, 0x15), (0xac, 0x15), (0xad, 0x15), (0xae, 0x15), (0xaf, 0x15), (0xb0, 0x15),
    (0xb1, 0x15), (0xb2, 0x15), (0xb3, 0x15), (0xb4, 0x15), (0xb5, 0x15), (0xb6, 0x15), (0xb7, 0x15), (0xb8, 0x15), (0xb9, 0x15), (0xba, 0x15)]"

lemma lts_c_0_run [lts_run]: "table_run LTS_STATE_c 0 lts_c_0 150"
proof -
  have run: "lts_c_0 = bytes_up 25 0x26 0x15 @ bytes_up 125 0x3e 0x15"
    by (simp add: lts_c_0_def bytes_up_numeral)
  show ?thesis by (simp add: run LTS_STATE_c_def bytes_up_run del: bytes_up.simps)
qed

definition lts_c_1 :: "(byte \<times> byte) list" where
  "lts_c_1 = [
    (0xbb, 0x15), (0xbc, 0x15), (0xbd, 0x15), (0xbe, 0x15), (0xbf, 0x15), (0xc0, 0x15), (0xc1, 0x15), (0xc2, 0x15), (0xc3, 0x15), (0xc4, 0x15),
    (0xc5, 0x15), (0xc6, 0x15), (0xc7, 0x15), (0xc8, 0x15), (0xc9, 0x15), (0xca, 0x15), (0xcb, 0x15), (0xcc, 0x15), (0xcd, 0x15), (0xce, 0x15),
    (0xcf, 0x15), (0xd0, 0x15), (0xd1, 0x15), (0xd2, 0x15), (0xd3, 0x15), (0xd4, 0x15), (0xd5, 0x15), (0xd6, 0x15), (0xd7, 0x15), (0xd8, 0x15),
    (0xd9, 0x15), (0xda, 0x15), (0xdb, 0x15), (0xdc, 0x15), (0xdd, 0x15), (0xde, 0x15), (0xdf, 0x15), (0xe0, 0x15), (0xe1, 0x15), (0xe2, 0x15),
    (0xe3, 0x15), (0xe4, 0x15), (0xe5, 0x15), (0xe6, 0x15), (0xe7, 0x15), (0xe8, 0x15), (0xe9, 0x15), (0xea, 0x15), (0xeb, 0x15), (0xec, 0x15),
    (0xed, 0x15), (0xee, 0x15), (0xef, 0x15), (0xf0, 0x15), (0xf1, 0x15), (0xf2, 0x15), (0xf3, 0x15), (0xf4, 0x15), (0xf5, 0x15), (0xf6, 0x15),
    (0xf7, 0x15), (0xf8, 0x15), (0xf9, 0x15), (0xfa, 0x15), (0xfb, 0x15), (0xfc, 0x15), (0xfd, 0x15), (0xfe, 0x15), (0xff, 0x15), (0, 0x16),
    (1, 0x16), (0x2, 0x16), (0x3, 0x16), (0x4, 0x16), (0x5, 0x16), (0x6, 0x16), (0x7, 0x16), (0x8, 0x16), (0x9, 0x16), (0xa, 0x16),
    (0xb, 0x16), (0xc, 0x16), (0xd, 0x16), (0xe, 0x16), (0xf, 0x16), (0x10, 0x16), (0x11, 0x16), (0x12, 0x16), (0x13, 0x16), (0x14, 0x16),
    (0x15, 0x16), (0x16, 0x16), (0x17, 0x16), (0x18, 0x16), (0x19, 0x16), (0x1a, 0x16), (0x1b, 0x16), (0x1c, 0x16), (0x1d, 0x16), (0x1e, 0x16),
    (0x1f, 0x16), (0x20, 0x16), (0x21, 0x16), (0x22, 0x16), (0x23, 0x16), (0x24, 0x16), (0x25, 0x16), (0x26, 0x16), (0x27, 0x16), (0x28, 0x16),
    (0x29, 0x16), (0x2a, 0x16), (0x2b, 0x16), (0x2c, 0x16), (0x2d, 0x16), (0x2e, 0x16), (0x2f, 0x16), (0x30, 0x16), (0x31, 0x16), (0x32, 0x16),
    (0x33, 0x16), (0x34, 0x16), (0x35, 0x16), (0x36, 0x16), (0x37, 0x16), (0x38, 0x16), (0x39, 0x16), (0x3a, 0x16), (0x3b, 0x16), (0x3c, 0x16),
    (0x3d, 0x16), (0x3e, 0x16), (0x3f, 0x16), (0x40, 0x16), (0x41, 0x16), (0x42, 0x16), (0x43, 0x16), (0x44, 0x16), (0x45, 0x16), (0x46, 0x16),
    (0x47, 0x16), (0x48, 0x16), (0x49, 0x16), (0x4a, 0x16), (0x4b, 0x16), (0x4c, 0x16), (0x4d, 0x16), (0x4e, 0x16), (0x4f, 0x16), (0x50, 0x16)]"

lemma lts_c_1_run [lts_run]: "table_run LTS_STATE_c 150 lts_c_1 300"
proof -
  have run: "lts_c_1 = bytes_up 69 0xbb 0x15 @ bytes_up 81 0 0x16"
    by (simp add: lts_c_1_def bytes_up_numeral)
  show ?thesis by (simp add: run LTS_STATE_c_def bytes_up_run del: bytes_up.simps)
qed

definition lts_c_2 :: "(byte \<times> byte) list" where
  "lts_c_2 = [
    (0x51, 0x16), (0x52, 0x16), (0x53, 0x16), (0x54, 0x16), (0x55, 0x16), (0x56, 0x16), (0x57, 0x16), (0x58, 0x16), (0x59, 0x16), (0x5a, 0x16),
    (0x5b, 0x16), (0x5c, 0x16), (0x5d, 0x16), (0x5e, 0x16), (0x5f, 0x16), (0x60, 0x16), (0x61, 0x16), (0x62, 0x16), (0x63, 0x16), (0x64, 0x16),
    (0x65, 0x16), (0x66, 0x16), (0x67, 0x16), (0x68, 0x16), (0x69, 0x16), (0x6a, 0x16), (0x6b, 0x16), (0x6c, 0x16), (0x6d, 0x16), (0x6e, 0x16),
    (0x6f, 0x16), (0x70, 0x16), (0x71, 0x16), (0x72, 0x16), (0x73, 0x16), (0x74, 0x16), (0x75, 0x16), (0x76, 0x16), (0x77, 0x16), (0x78, 0x16),
    (0x79, 0x16), (0x7a, 0x16), (0x7b, 0x16), (0x7c, 0x16), (0x7d, 0x16), (0x7e, 0x16), (0x7f, 0x16), (0x80, 0x16), (0x81, 0x16), (0x82, 0x16),
    (0x83, 0x16), (0x84, 0x16), (0x85, 0x16), (0x86, 0x16), (0x87, 0x16), (0x88, 0x16), (0x89, 0x16), (0x8a, 0x16), (0x8b, 0x16), (0x8c, 0x16),
    (0x8d, 0x16), (0x8e, 0x16), (0x8f, 0x16), (0x90, 0x16), (0x91, 0x16), (0x92, 0x16), (0x93, 0x16), (0x94, 0x16), (0x95, 0x16), (0x96, 0x16),
    (0x97, 0x16), (0x98, 0x16), (0x99, 0x16), (0x9a, 0x16), (0x9b, 0x16), (0x9c, 0x16), (0x9d, 0x16), (0x9e, 0x16), (0x9f, 0x16), (0xa0, 0x16),
    (0xa1, 0x16), (0xa2, 0x16), (0xa3, 0x16), (0xa4, 0x16), (0xa5, 0x16), (0xa6, 0x16), (0xa7, 0x16), (0xa8, 0x16), (0xa9, 0x16), (0xaa, 0x16),
    (0xab, 0x16), (0xac, 0x16), (0xad, 0x16), (0xae, 0x16), (0xaf, 0x16), (0xb0, 0x16), (0xb1, 0x16), (0xb2, 0x16), (0xb3, 0x16), (0xb4, 0x16),
    (0xb5, 0x16), (0xb6, 0x16), (0xb7, 0x16), (0xb8, 0x16), (0xb9, 0x16), (0xba, 0x16), (0xbb, 0x16), (0xbc, 0x16), (0xbd, 0x16), (0xbe, 0x16),
    (0xbf, 0x16), (0xc0, 0x16), (0xc1, 0x16), (0xc2, 0x16), (0xc3, 0x16), (0xc4, 0x16), (0xc5, 0x16), (0xc6, 0x16), (0xc7, 0x16), (0xc8, 0x16),
    (0xc9, 0x16), (0xca, 0x16), (0xcb, 0x16), (0xcc, 0x16), (0xcd, 0x16), (0xce, 0x16), (0xcf, 0x16), (0xd0, 0x16), (0xd1, 0x16), (0xd2, 0x16),
    (0xd3, 0x16), (0xd4, 0x16), (0xd5, 0x16), (0xd6, 0x16), (0xd7, 0x16), (0xd8, 0x16), (0xd9, 0x16), (0xda, 0x16), (0xdb, 0x16), (0xdc, 0x16),
    (0xdd, 0x16), (0xde, 0x16), (0xdf, 0x16), (0xe0, 0x16), (0xe1, 0x16), (0xe2, 0x16), (0xe3, 0x16), (0xe4, 0x16), (0xe5, 0x16), (0xe6, 0x16)]"

lemma lts_c_2_run [lts_run]: "table_run LTS_STATE_c 300 lts_c_2 450"
proof -
  have run: "lts_c_2 = bytes_up 150 0x51 0x16"
    by (simp add: lts_c_2_def bytes_up_numeral)
  show ?thesis by (simp add: run LTS_STATE_c_def bytes_up_run del: bytes_up.simps)
qed

definition lts_c_3 :: "(byte \<times> byte) list" where
  "lts_c_3 = [
    (0xe7, 0x16), (0xe8, 0x16), (0xe9, 0x16), (0xea, 0x16), (0xeb, 0x16), (0xec, 0x16), (0xed, 0x16), (0xee, 0x16), (0xef, 0x16), (0xf0, 0x16),
    (0xf1, 0x16), (0xf2, 0x16), (0xf3, 0x16), (0xf4, 0x16), (0xf5, 0x16), (0xf6, 0x16), (0xf7, 0x16), (0xf8, 0x16), (0xf9, 0x16), (0xfa, 0x16),
    (0xfb, 0x16), (0xfc, 0x16), (0xfd, 0x16), (0xfe, 0x16), (0xff, 0x16), (0, 0x17), (1, 0x17), (0x2, 0x17), (0x3, 0x17), (0x4, 0x17),
    (0x5, 0x17), (0x6, 0x17), (0x7, 0x17), (0x8, 0x17), (0x9, 0x17), (0xa, 0x17), (0xb, 0x17), (0xc, 0x17), (0xd, 0x17), (0xe, 0x17),
    (0xf, 0x17), (0x10, 0x17), (0x11, 0x17), (0x12, 0x17), (0x13, 0x17), (0x14, 0x17), (0x15, 0x17), (0x16, 0x17), (0x17, 0x17), (0x18, 0x17),
    (0x19, 0x17), (0x1a, 0x17), (0x1b, 0x17), (0x1c, 0x17), (0x1d, 0x17), (0x1e, 0x17), (0x1f, 0x17), (0x20, 0x17), (0x21, 0x17), (0x22, 0x17),
    (0x23, 0x17), (0x24, 0x17), (0x25, 0x17), (0x26, 0x17), (0x27, 0x17), (0x28, 0x17), (0x29, 0x17), (0x2a, 0x17), (0x2b, 0x17), (0x2c, 0x17),
    (0x2d, 0x17), (0x2e, 0x17), (0x2f, 0x17), (0x30, 0x17), (0x31, 0x17), (0x32, 0x17), (0x33, 0x17), (0x34, 0x17), (0x35, 0x17), (0x36, 0x17),
    (0x37, 0x17), (0x38, 0x17), (0x39, 0x17), (0x3a, 0x17), (0x3b, 0x17), (0x3c, 0x17), (0x3d, 0x17), (0x3e, 0x17), (0x3f, 0x17), (0x40, 0x17),
    (0x41, 0x17), (0x42, 0x17), (0x43, 0x17), (0x44, 0x17), (0x45, 0x17), (0x46, 0x17), (0x47, 0x17), (0x48, 0x17), (0x49, 0x17), (0x4a, 0x17),
    (0x4b, 0x17), (0x4c, 0x17), (0x4d, 0x17), (0x4e, 0x17), (0x4f, 0x17), (0x50, 0x17), (0x51, 0x17), (0x52, 0x17), (0x53, 0x17), (0x54, 0x17),
    (0x55, 0x17), (0x56, 0x17), (0x57, 0x17), (0x58, 0x17), (0x59, 0x17), (0x5a, 0x17), (0x5b, 0x17), (0x5c, 0x17), (0x5d, 0x17), (0x5e, 0x17),
    (0x5f, 0x17), (0x60, 0x17), (0x61, 0x17), (0x62, 0x17), (0x63, 0x17), (0x64, 0x17), (0x65, 0x17), (0x66, 0x17), (0x67, 0x17), (0x68, 0x17),
    (0x69, 0x17), (0x6a, 0x17), (0x6b, 0x17), (0x6c, 0x17), (0x6d, 0x17), (0x6e, 0x17), (0x6f, 0x17), (0x70, 0x17), (0x71, 0x17), (0x72, 0x17),
    (0x73, 0x17), (0x74, 0x17), (0x75, 0x17), (0x76, 0x17), (0x77, 0x17), (0x78, 0x17), (0x79, 0x17), (0x7a, 0x17), (0x7b, 0x17), (0x7c, 0x17)]"

lemma lts_c_3_run [lts_run]: "table_run LTS_STATE_c 450 lts_c_3 600"
proof -
  have run: "lts_c_3 = bytes_up 25 0xe7 0x16 @ bytes_up 125 0 0x17"
    by (simp add: lts_c_3_def bytes_up_numeral)
  show ?thesis by (simp add: run LTS_STATE_c_def bytes_up_run del: bytes_up.simps)
qed

definition lts_c_4 :: "(byte \<times> byte) list" where
  "lts_c_4 = [
    (0x7d, 0x17), (0x7e, 0x17), (0x7f, 0x17), (0x80, 0x17), (0x81, 0x17), (0x82, 0x17), (0x83, 0x17), (0x84, 0x17), (0x85, 0x17), (0x86, 0x17),
    (0x87, 0x17), (0x88, 0x17), (0x89, 0x17), (0x8a, 0x17), (0x8b, 0x17), (0x8c, 0x17), (0x8d, 0x17), (0x8e, 0x17), (0x8f, 0x17), (0x90, 0x17),
    (0x91, 0x17), (0x92, 0x17), (0x93, 0x17), (0x94, 0x17), (0x95, 0x17), (0x96, 0x17), (0x97, 0x17), (0x98, 0x17), (0x99, 0x17), (0x9a, 0x17),
    (0x9b, 0x17), (0x9c, 0x17), (0x9d, 0x17), (0x9e, 0x17), (0x9f, 0x17)]"

lemma lts_c_4_run [lts_run]: "table_run LTS_STATE_c 600 lts_c_4 635"
proof -
  have run: "lts_c_4 = bytes_up 35 0x7d 0x17"
    by (simp add: lts_c_4_def bytes_up_numeral)
  show ?thesis by (simp add: run LTS_STATE_c_def bytes_up_run del: bytes_up.simps)
qed

definition lts_table_c :: "(byte \<times> byte) list" where
  "lts_table_c = concat [
     lts_c_0, lts_c_1, lts_c_2, lts_c_3, lts_c_4]"

lemma lts_table_c_run: "table_run LTS_STATE_c 0 lts_table_c 635"
  unfolding lts_table_c_def by (rule table_run_nil | rule table_run_concat, rule lts_run)+

lemma lts_table_c_entries [lts_tables]: "entry_at lts_table_c = LTS_STATE_c"
  by (rule table_run_entry [OF lts_table_c_run LTS_STATE_c_def])

section \<open>Letter d\<close>

definition lts_d_0 :: "(byte \<times> byte) list" where
  "lts_d_0 = [
    (0xa0, 0x17), (0xa1, 0x17), (0xa2, 0x17), (0xa3, 0x17), (0xa4, 0x17), (0xa5, 0x17), (0xa6, 0x17), (0xa7, 0x17), (0xa8, 0x17), (0xa9, 0x17),
    (0xaa, 0x17), (0xab, 0x17), (0xac, 0x17), (0xad, 0x17), (0xae, 0x17), (0xaf, 0x17), (0xb0, 0x17), (0xb1, 0x17), (0xb2, 0x17), (0xb3, 0x17),
    (0xb4, 0x17), (0xb5, 0x17), (0xb5, 0x17), (0xb6, 0x17), (0xb7, 0x17), (0xb8, 0x17), (0xb9, 0x17), (0xba, 0x17), (0xbb, 0x17), (0xbc, 0x17),
    (0xbd, 0x17), (0xbe, 0x17), (0xbf, 0x17), (0xc0, 0x17), (0xc1, 0x17), (0xc2, 0x17), (0xc3, 0x17), (0xc4, 0x17), (0xc5, 0x17), (0xc6, 0x17),
    (0xc7, 0x17), (0xc8, 0x17), (0xc9, 0x17), (0xca, 0x17), (0xcb, 0x17), (0xcc, 0x17), (0xcd, 0x17), (0xce, 0x17), (0xcf, 0x17), (0xd0, 0x17),
    (0xd1, 0x17), (0xd2, 0x17), (0xd3, 0x17), (0xd4, 0x17), (0xd5, 0x17), (0xd6, 0x17), (0xd7, 0x17), (0xd8, 0x17), (0xd9, 0x17), (0xda, 0x17),
    (0xdb, 0x17), (0xdc, 0x17), (0xdd, 0x17), (0xde, 0x17), (0xdf, 0x17), (0xe0, 0x17), (0xe1, 0x17), (0xe2, 0x17), (0xe3, 0x17), (0xe4, 0x17),
    (0xe5, 0x17), (0xe6, 0x17), (0xe7, 0x17), (0xe8, 0x17), (0xe9, 0x17), (0xea, 0x17), (0xeb, 0x17), (0xec, 0x17), (0xed, 0x17), (0xee, 0x17),
    (0xef, 0x17), (0xf0, 0x17), (0xf1, 0x17), (0xf2, 0x17), (0xf3, 0x17), (0xf4, 0x17), (0xf5, 0x17), (0xf6, 0x17), (0xf7, 0x17), (0xf8, 0x17),
    (0xf9, 0x17), (0xfa, 0x17), (0xfb, 0x17), (0xfc, 0x17), (0xfd, 0x17), (0xfe, 0x17), (0xff, 0x17), (0, 0x18), (1, 0x18), (0x2, 0x18),
    (0x3, 0x18), (0x4, 0x18), (0x5, 0x18), (0x6, 0x18), (0x7, 0x18), (0x8, 0x18), (0x9, 0x18), (0xa, 0x18), (0xb, 0x18), (0xc, 0x18),
    (0xd, 0x18), (0xe, 0x18), (0xf, 0x18), (0x10, 0x18), (0x11, 0x18), (0x12, 0x18), (0x13, 0x18), (0x14, 0x18), (0x15, 0x18), (0x16, 0x18),
    (0x17, 0x18), (0x18, 0x18), (0x19, 0x18), (0x1a, 0x18), (0x1b, 0x18), (0x1c, 0x18), (0x1d, 0x18), (0x1e, 0x18), (0x1f, 0x18), (0x20, 0x18),
    (0x21, 0x18), (0x22, 0x18), (0x23, 0x18), (0x24, 0x18), (0x25, 0x18), (0x26, 0x18), (0x27, 0x18), (0x28, 0x18), (0x29, 0x18), (0x2a, 0x18),
    (0x2b, 0x18), (0x2c, 0x18), (0x2d, 0x18), (0x2e, 0x18), (0x2f, 0x18), (0x30, 0x18), (0x31, 0x18), (0x32, 0x18), (0x33, 0x18), (0x34, 0x18)]"

lemma lts_d_0_run [lts_run]: "table_run LTS_STATE_d 0 lts_d_0 150"
proof -
  have run: "lts_d_0 = bytes_up 22 0xa0 0x17 @ bytes_up 75 0xb5 0x17 @ bytes_up 53 0 0x18"
    by (simp add: lts_d_0_def bytes_up_numeral)
  show ?thesis by (simp add: run LTS_STATE_d_def bytes_up_run del: bytes_up.simps)
qed

definition lts_d_1 :: "(byte \<times> byte) list" where
  "lts_d_1 = [
    (0x35, 0x18), (0x36, 0x18), (0x37, 0x18), (0x38, 0x18), (0x39, 0x18), (0x3a, 0x18), (0x3b, 0x18), (0x3c, 0x18), (0x3d, 0x18), (0x3e, 0x18),
    (0x3f, 0x18), (0x40, 0x18), (0x41, 0x18), (0x42, 0x18), (0x43, 0x18), (0x44, 0x18), (0x45, 0x18), (0x46, 0x18), (0x47, 0x18), (0x48, 0x18),
    (0x49, 0x18), (0x4a, 0x18), (0x4b, 0x18), (0x4c, 0x18), (0x4d, 0x18), (0x4e, 0x18), (0x4f, 0x18), (0x50, 0x18), (0x51, 0x18), (0x52, 0x18),
    (0x53, 0x18), (0x54, 0x18), (0x55, 0x18), (0x56, 0x18), (0x57, 0x18), (0x58, 0x18), (0x59, 0x18), (0x5a, 0x18), (0x5b, 0x18), (0x5c, 0x18),
    (0x5d, 0x18), (0x5e, 0x18), (0x5f, 0x18), (0x60, 0x18), (0x61, 0x18), (0x62, 0x18), (0x63, 0x18), (0x64, 0x18), (0x65, 0x18), (0x66, 0x18),
    (0x67, 0x18), (0x68, 0x18), (0x69, 0x18), (0x6a, 0x18), (0x6b, 0x18), (0x6c, 0x18), (0x6d, 0x18), (0x6e, 0x18), (0x6f, 0x18)]"

lemma lts_d_1_run [lts_run]: "table_run LTS_STATE_d 150 lts_d_1 209"
proof -
  have run: "lts_d_1 = bytes_up 59 0x35 0x18"
    by (simp add: lts_d_1_def bytes_up_numeral)
  show ?thesis by (simp add: run LTS_STATE_d_def bytes_up_run del: bytes_up.simps)
qed

definition lts_table_d :: "(byte \<times> byte) list" where
  "lts_table_d = concat [
     lts_d_0, lts_d_1]"

lemma lts_table_d_run: "table_run LTS_STATE_d 0 lts_table_d 209"
  unfolding lts_table_d_def by (rule table_run_nil | rule table_run_concat, rule lts_run)+

lemma lts_table_d_entries [lts_tables]: "entry_at lts_table_d = LTS_STATE_d"
  by (rule table_run_entry [OF lts_table_d_run LTS_STATE_d_def])

end
