(* ===== verification/LtsTableE.thy ===== *)
theory LtsTableE
  imports LetterToSound
begin

text \<open>
  The address bytes of the letter-to-sound states as cmu_lts_model.h lists them, for the letters e to h:
  pieces of at most 150 states, each with the fact that state by state they are what the arithmetic of
  LetterToSound gives, and the whole table of a letter put together from its pieces.
\<close>

section \<open>Letter e\<close>

definition lts_e_0 :: "(byte \<times> byte) list" where
  "lts_e_0 = [
    (0x70, 0x18), (0x71, 0x18), (0x72, 0x18), (0x73, 0x18), (0x74, 0x18), (0x75, 0x18), (0x76, 0x18), (0x77, 0x18), (0x78, 0x18), (0x79, 0x18),
    (0x7a, 0x18), (0x7b, 0x18), (0x7c, 0x18), (0x7d, 0x18), (0x7e, 0x18), (0x7f, 0x18), (0x80, 0x18), (0x81, 0x18), (0x82, 0x18), (0x83, 0x18),
    (0x84, 0x18), (0x85, 0x18), (0x86, 0x18), (0x87, 0x18), (0x88, 0x18), (0x89, 0x18), (0x8a, 0x18), (0x8b, 0x18), (0x8c, 0x18), (0x8d, 0x18),
    (0x8e, 0x18), (0x8f, 0x18), (0x90, 0x18), (0x91, 0x18), (0x92, 0x18), (0x93, 0x18), (0x94, 0x18), (0x95, 0x18), (0x96, 0x18), (0x97, 0x18),
    (0x98, 0x18), (0x99, 0x18), (0x9a, 0x18), (0x9b, 0x18), (0x9c, 0x18), (0x9d, 0x18), (0x9e, 0x18), (0x9f, 0x18), (0xa0, 0x18), (0xa1, 0x18),
    (0xa2, 0x18), (0xa3, 0x18), (0xa4, 0x18), (0xa5, 0x18), (0xa6, 0x18), (0xa7, 0x18), (0xa8, 0x18), (0xa9, 0x18), (0xaa, 0x18), (0xab, 0x18),
    (0xab, 0x18), (0xac, 0x18), (0xad, 0x18), (0xae, 0x18), (0xaf, 0x18), (0xb0, 0x18), (0xb1, 0x18), (0xb2, 0x18), (0xb3, 0x18), (0xb4, 0x18),
    (0xb5, 0x18), (0xb6, 0x18), (0xb7, 0x18), (0xb8, 0x18), (0xb9, 0x18), (0xba, 0x18), (0xbb, 0x18), (0xbc, 0x18), (0xbd, 0x18), (0xbe, 0x18),
    (0xbf, 0x18), (0xc0, 0x18), (0xc1, 0x18), (0xc2, 0x18), (0xc3, 0x18), (0xc4, 0x18), (0xc5, 0x18), (0xc6, 0x18), (0xc7, 0x18), (0xc8, 0x18),
    (0xc9, 0x18), (0xca, 0x18), (0xcb, 0x18), (0xcc, 0x18), (0xcd, 0x18), (0xce, 0x18), (0xcf, 0x18), (0xd0, 0x18), (0xd1, 0x18), (0xd2, 0x18),
    (0xd3, 0x18), (0xd4, 0x18), (0xd5, 0x18), (0xd6, 0x18), (0xd7, 0x18), (0xd8, 0x18), (0xd9, 0x18), (0xda, 0x18), (0xdb, 0x18), (0xdc, 0x18),
    (0xdd, 0x18), (0xde, 0x18), (0xdf, 0x18), (0xe0, 0x18), (0xe1, 0x18), (0xe2, 0x18), (0xe3, 0x18), (0xe4, 0x18), (0xe5, 0x18), (0xe6, 0x18),
    (0xe7, 0x18), (0xe8, 0x18), (0xe9, 0x18), (0xea, 0x18), (0xeb, 0x18), (0xec, 0x18), (0xed, 0x18), (0xee, 0x18), (0xef, 0x18), (0xf0, 0x18),
    (0xf1, 0x18), (0xf2, 0x18), (0xf3, 0x18), (0xf4, 0x18), (0xf5, 0x18), (0xf6, 0x18), (0xf7, 0x18), (0xf8, 0x18), (0xf9, 0x18), (0xfa, 0x18),
    (0xfb, 0x18), (0xfc, 0x18), (0xfd, 0x18), (0xfe, 0x18), (0xff, 0x18), (0, 0x19), (1, 0x19), (0x2, 0x19), (0x3, 0x19), (0x4, 0x19)]"

lemma lts_e_0_run [lts_run]: "table_run LTS_STATE_e 0 lts_e_0 150"
proof -
  have run: "lts_e_0 = bytes_up 60 0x70 0x18 @ bytes_up 85 0xab 0x18 @ bytes_up 5 0 0x19"
    by (simp add: lts_e_0_def bytes_up_numeral)
  show ?thesis by (simp add: run LTS_STATE_e_def bytes_up_run del: bytes_up.simps)
qed

definition lts_e_1 :: "(byte \<times> byte) list" where
  "lts_e_1 = [
    (0x5, 0x19), (0x6, 0x19), (0x7, 0x19), (0x8, 0x19), (0x9, 0x19), (0xa, 0x19), (0xb, 0x19), (0xc, 0x19), (0xd, 0x19), (0xe, 0x19),
    (0xf, 0x19), (0x10, 0x19), (0x11, 0x19), (0x12, 0x19), (0x13, 0x19), (0x14, 0x19), (0x15, 0x19), (0x16, 0x19), (0x17, 0x19), (0x18, 0x19),
    (0x19, 0x19), (0x1a, 0x19), (0x1b, 0x19), (0x1c, 0x19), (0x1d, 0x19), (0x1e, 0x19), (0x1f, 0x19), (0x20, 0x19), (0x21, 0x19), (0x22, 0x19),
    (0x23, 0x19), (0x24, 0x19), (0x25, 0x19), (0x26, 0x19), (0x27, 0x19), (0x28, 0x19), (0x29, 0x19), (0x2a, 0x19), (0x2b, 0x19), (0x2c, 0x19),
    (0x2d, 0x19), (0x2e, 0x19), (0x2f, 0x19), (0x30, 0x19), (0x31, 0x19), (0x32, 0x19), (0x33, 0x19), (0x34, 0x19), (0x35, 0x19), (0x36, 0x19),
    (0x37, 0x19), (0x38, 0x19), (0x39, 0x19), (0x3a, 0x19), (0x3b, 0x19), (0x3c, 0x19), (0x3d, 0x19), (0x3e, 0x19), (0x3f, 0x19), (0x40, 0x19),
    (0x41, 0x19), (0x42, 0x19), (0x43, 0x19), (0x44, 0x19), (0x45, 0x19), (0x46, 0x19), (0x47, 0x19), (0x48, 0x19), (0x49, 0x19), (0x4a, 0x19),
    (0x4b, 0x19), (0x4c, 0x19), (0x4d, 0x19), (0x4e, 0x19), (0x4f, 0x19), (0x50, 0x19), (0x51, 0x19), (0x52, 0x19), (0x53, 0x19), (0x54, 0x19),
    (0x55, 0x19), (0x56, 0x19), (0x57, 0x19), (0x58, 0x19), (0x59, 0x19), (0x5a, 0x19), (0x5b, 0x19), (0x5c, 0x19), (0x5d, 0x19), (0x5e, 0x19),
    (0x5f, 0x19), (0x60, 0x19), (0x61, 0x19), (0x62, 0x19), (0x63, 0x19), (0x64, 0x19), (0x65, 0x19), (0x66, 0x19), (0x67, 0x19), (0x68, 0x19),
    (0x69, 0x19), (0x6a, 0x19), (0x6b, 0x19), (0x6c, 0x19), (0x6d, 0x19), (0x6e, 0x19), (0x6f, 0x19), (0x70, 0x19), (0x71, 0x19), (0x72, 0x19),
    (0x73, 0x19), (0x74, 0x19), (0x75, 0x19), (0x76, 0x19), (0x77, 0x19), (0x78, 0x19), (0x79, 0x19), (0x7a, 0x19), (0x7b, 0x19), (0x7c, 0x19),
    (0x7d, 0x19), (0x7e, 0x19), (0x7f, 0x19), (0x80, 0x19), (0x81, 0x19), (0x82, 0x19), (0x83, 0x19), (0x84, 0x19), (0x85, 0x19), (0x86, 0x19),
    (0x87, 0x19), (0x88, 0x19), (0x89, 0x19), (0x8a, 0x19), (0x8b, 0x19), (0x8c, 0x19), (0x8d, 0x19), (0x8e, 0x19), (0x8f, 0x19), (0x90, 0x19),
    (0x91, 0x19), (0x92, 0x19), (0x93, 0x19), (0x94, 0x19), (0x95, 0x19), (0x96, 0x19), (0x97, 0x19), (0x98, 0x19), (0x99, 0x19), (0x9a, 0x19)]"

lemma lts_e_1_run [lts_run]: "table_run LTS_STATE_e 150 lts_e_1 300"
proof -
  have run: "lts_e_1 = bytes_up 150 0x5 0x19"
    by (simp add: lts_e_1_def bytes_up_numeral)
  show ?thesis by (simp add: run LTS_STATE_e_def bytes_up_run del: bytes_up.simps)
qed

definition lts_e_2 :: "(byte \<times> byte) list" where
  "lts_e_2 = [
    (0x9b, 0x19), (0x9c, 0x19), (0x9d, 0x19), (0x9e, 0x19), (0x9f, 0x19), (0xa0, 0x19), (0xa1, 0x19), (0xa2, 0x19), (0xa3, 0x19), (0xa4, 0x19),
    (0xa5, 0x19), (0xa6, 0x19), (0xa7, 0x19), (0xa8, 0x19), (0xa9, 0x19), (0xaa, 0x19), (0xab, 0x19), (0xac, 0x19), (0xad, 0x19), (0xae, 0x19),
    (0xaf, 0x19), (0xb0, 0x19), (0xb1, 0x19), (0xb2, 0x19), (0xb3, 0x19), (0xb4, 0x19), (0xb5, 0x19), (0xb6, 0x19), (0xb7, 0x19), (0xb8, 0x19),
    (0xb9, 0x19), (0xba, 0x19), (0xbb, 0x19), (0xbc, 0x19), (0xbd, 0x19), (0xbe, 0x19), (0xbf, 0x19), (0xc0, 0x19), (0xc1, 0x19), (0xc2, 0x19),
    (0xc3, 0x19), (0xc4, 0x19), (0xc5, 0x19), (0xc6, 0x19), (0xc7, 0x19), (0xc8, 0x19), (0xc9, 0x19), (0xca, 0x19), (0xcb, 0x19), (0xcc, 0x19),
    (0xcd, 0x19), (0xce, 0x19), (0xcf, 0x19), (0xd0, 0x19), (0xd1, 0x19), (0xd2, 0x19), (0xd3, 0x19), (0xd4, 0x19), (0xd5, 0x19), (0xd6, 0x19),
    (0xd7, 0x19), (0xd8, 0x19), (0xd9, 0x19), (0xda, 0x19), (0xdb, 0x19), (0xdc, 0x19), (0xdd, 0x19), (0xde, 0x19), (0xdf, 0x19), (0xe0, 0x19),
    (0xe1, 0x19), (0xe2, 0x19), (0xe3, 0x19), (0xe4, 0x19), (0xe5, 0x19), (0xe6, 0x19), (0xe7, 0x19), (0xe8, 0x19), (0xe9, 0x19), (0xea, 0x19),
    (0xeb, 0x19), (0xec, 0x19), (0xed, 0x19), (0xee, 0x19), (0xef, 0x19), (0xf0, 0x19), (0xf1, 0x19), (0xf2, 0x19), (0xf3, 0x19), (0xf4, 0x19),
    (0xf5, 0x19), (0xf6, 0x19), (0xf7, 0x19), (0xf8, 0x19), (0xf9, 0x19), (0xfa, 0x19), (0xfb, 0x19), (0xfc, 0x19), (0xfd, 0x19), (0xfe, 0x19),
    (0xff, 0x19), (0, 0x1a), (1, 0x1a), (0x2, 0x1a), (0x3, 0x1a), (0x4, 0x1a), (0x5, 0x1a), (0x6, 0x1a), (0x7, 0x1a), (0x8, 0x1a),
    (0x9, 0x1a), (0xa, 0x1a), (0xb, 0x1a), (0xc, 0x1a), (0xd, 0x1a), (0xe, 0x1a), (0xf, 0x1a), (0x10, 0x1a), (0x11, 0x1a), (0x12, 0x1a),
    (0x13, 0x1a), (0x14, 0x1a), (0x15, 0x1a), (0x16, 0x1a), (0x17, 0x1a), (0x18, 0x1a), (0x19, 0x1a), (0x1a, 0x1a), (0x1b, 0x1a), (0x1c, 0x1a),
    (0x1d, 0x1a), (0x1e, 0x1a), (0x1f, 0x1a), (0x20, 0x1a), (0x21, 0x1a), (0x22, 0x1a), (0x23, 0x1a), (0x24, 0x1a), (0x25, 0x1a), (0x26, 0x1a),
    (0x27, 0x1a), (0x28, 0x1a), (0x29, 0x1a), (0x2a, 0x1a), (0x2b, 0x1a), (0x2c, 0x1a), (0x2d, 0x1a), (0x2e, 0x1a), (0x2f, 0x1a), (0x30, 0x1a)]"

lemma lts_e_2_run [lts_run]: "table_run LTS_STATE_e 300 lts_e_2 450"
proof -
  have run: "lts_e_2 = bytes_up 101 0x9b 0x19 @ bytes_up 49 0 0x1a"
    by (simp add: lts_e_2_def bytes_up_numeral)
  show ?thesis by (simp add: run LTS_STATE_e_def bytes_up_run del: bytes_up.simps)
qed

definition lts_e_3 :: "(byte \<times> byte) list" where
  "lts_e_3 = [
    (0x31, 0x1a), (0x32, 0x1a), (0x33, 0x1a), (0x34, 0x1a), (0x35, 0x1a), (0x36, 0x1a), (0x37, 0x1a), (0x38, 0x1a), (0x39, 0x1a), (0x3a, 0x1a),
    (0x3b, 0x1a), (0x3c, 0x1a), (0x3d, 0x1a), (0x3e, 0x1a), (0x3f, 0x1a), (0x40, 0x1a), (0x41, 0x1a), (0x42, 0x1a), (0x43, 0x1a), (0x44, 0x1a),
    (0x45, 0x1a), (0x46, 0x1a), (0x47, 0x1a), (0x48, 0x1a), (0x49, 0x1a), (0x4a, 0x1a), (0x4b, 0x1a), (0x4c, 0x1a), (0x4d, 0x1a), (0x4e, 0x1a),
    (0x4f, 0x1a), (0x50, 0x1a), (0x51, 0x1a), (0x52, 0x1a), (0x53, 0x1a), (0x54, 0x1a), (0x55, 0x1a), (0x56, 0x1a), (0x57, 0x1a), (0x58, 0x1a),
    (0x59, 0x1a), (0x5a, 0x1a), (0x5b, 0x1a), (0x5c, 0x1a), (0x5d, 0x1a), (0x5e, 0x1a), (0x5f, 0x1a), (0x60, 0x1a), (0x61, 0x1a), (0x62, 0x1a),
    (0x63, 0x1a), (0x64, 0x1a), (0x65, 0x1a), (0x66, 0x1a), (0x67, 0x1a), (0x68, 0x1a), (0x69, 0x1a), (0x6a, 0x1a), (0x6b, 0x1a), (0x6c, 0x1a),
    (0x6d, 0x1a), (0x6e, 0x1a), (0x6f, 0x1a), (0x70, 0x1a), (0x71, 0x1a), (0x72, 0x1a), (0x73, 0x1a), (0x74, 0x1a), (0x75, 0x1a), (0x76, 0x1a),
    (0x77, 0x1a), (0x78, 0x1a), (0x79, 0x1a), (0x7a, 0x1a), (0x7b, 0x1a), (0x7c, 0x1a), (0x7d, 0x1a), (0x7e, 0x1a), (0x7f, 0x1a), (0x80, 0x1a),
    (0x81, 0x1a), (0x82, 0x1a), (0x83, 0x1a), (0x84, 0x1a), (0x85, 0x1a), (0x86, 0x1a), (0x87, 0x1a), (0x88, 0x1a), (0x89, 0x1a), (0x8a, 0x1a),
    (0x8b, 0x1a), (0x8c, 0x1a), (0x8d, 0x1a), (0x8e, 0x1a), (0x8f, 0x1a), (0x90, 0x1a), (0x91, 0x1a), (0x92, 0x1a), (0x93, 0x1a), (0x94, 0x1a),
    (0x95, 0x1a), (0x96, 0x1a), (0x97, 0x1a), (0x98, 0x1a), (0x99, 0x1a), (0x9a, 0x1a), (0x9b, 0x1a), (0x9c, 0x1a), (0x9d, 0x1a), (0x9e, 0x1a),
    (0x9f, 0x1a), (0xa0, 0x1a), (0xa1, 0x1a), (0xa2, 0x1a), (0xa3, 0x1a), (0xa4, 0x1a), (0xa5, 0x1a), (0xa6, 0x1a), (0xa7, 0x1a), (0xa8, 0x1a),
    (0xa9, 0x1a), (0xaa, 0x1a), (0xab, 0x1a), (0xac, 0x1a), (0xad, 0x1a), (0xae, 0x1a), (0xaf, 0x1a), (0xb0, 0x1a), (0xb1, 0x1a), (0xb2, 0x1a),
    (0xb3, 0x1a), (0xb4, 0x1a), (0xb5, 0x1a), (0xb6, 0x1a), (0xb7, 0x1a), (0xb8, 0x1a), (0xb9, 0x1a), (0xba, 0x1a), (0xbb, 0x1a), (0xbc, 0x1a),
    (0xbd, 0x1a), (0xbe, 0x1a), (0xbf, 0x1a), (0xc0, 0x1a), (0xc1, 0x1a), (0xc2, 0x1a), (0xc3, 0x1a), (0xc4, 0x1a), (0xc5, 0x1a), (0xc6, 0x1a)]"

lemma lts_e_3_run [lts_run]: "table_run LTS_STATE_e 450 lts_e_3 600"
proof -
  have run: "lts_e_3 = bytes_up 150 0x31 0x1a"
    by (simp add: lts_e_3_def bytes_up_numeral)
  show ?thesis by (simp add: run LTS_STATE_e_def bytes_up_run del: bytes_up.simps)
qed

definition lts_e_4 :: "(byte \<times> byte) list" where
  "lts_e_4 = [
    (0xc7, 0x1a), (0xc8, 0x1a), (0xc9, 0x1a), (0xca, 0x1a), (0xcb, 0x1a), (0xcc, 0x1a), (0xcd, 0x1a), (0xce, 0x1a), (0xcf, 0x1a), (0xd0, 0x1a),
    (0xd1, 0x1a), (0xd2, 0x1a), (0xd3, 0x1a), (0xd4, 0x1a), (0xd5, 0x1a), (0xd6, 0x1a), (0xd7, 0x1a), (0xd8, 0x1a), (0xd9, 0x1a), (0xda, 0x1a),
    (0xdb, 0x1a), (0xdc, 0x1a), (0xdd, 0x1a), (0xde, 0x1a), (0xdf, 0x1a), (0xe0, 0x1a), (0xe1, 0x1a), (0xe2, 0x1a), (0xe3, 0x1a), (0xe4, 0x1a),
    (0xe5, 0x1a), (0xe6, 0x1a), (0xe7, 0x1a), (0xe8, 0x1a), (0xe9, 0x1a), (0xea, 0x1a), (0xeb, 0x1a), (0xec, 0x1a), (0xed, 0x1a), (0xee, 0x1a),
    (0xef, 0x1a), (0xf0, 0x1a), (0xf1, 0x1a), (0xf2, 0x1a), (0xf3, 0x1a), (0xf4, 0x1a), (0xf5, 0x1a), (0xf6, 0x1a), (0xf7, 0x1a), (0xf8, 0x1a),
    (0xf9, 0x1a), (0xfa, 0x1a), (0xfb, 0x1a), (0xfc, 0x1a), (0xfd, 0x1a), (0xfe, 0x1a), (0xff, 0x1a), (0, 0x1b), (1, 0x1b), (0x2, 0x1b),
    (0x3, 0x1b), (0x4, 0x1b), (0x5, 0x1b), (0x6, 0x1b), (0x7, 0x1b), (0x8, 0x1b), (0x9, 0x1b), (0xa, 0x1b), (0xb, 0x1b), (0xc, 0x1b),
    (0xd, 0x1b), (0xe, 0x1b), (0xf, 0x1b), (0x10, 0x1b), (0x11, 0x1b), (0x12, 0x1b), (0x13, 0x1b), (0x14, 0x1b), (0x15, 0x1b), (0x16, 0x1b),
    (0x17, 0x1b), (0x18, 0x1b), (0x19, 0x1b), (0x1a, 0x1b), (0x1b, 0x1b), (0x1c, 0x1b), (0x1d, 0x1b), (0x1e, 0x1b), (0x1f, 0x1b), (0x20, 0x1b),
    (0x21, 0x1b), (0x22, 0x1b), (0x23, 0x1b), (0x24, 0x1b), (0x25, 0x1b), (0x26, 0x1b), (0x27, 0x1b), (0x28, 0x1b), (0x29, 0x1b), (0x2a, 0x1b),
    (0x2b, 0x1b), (0x2c, 0x1b), (0x2d, 0x1b), (0x2e, 0x1b), (0x2f, 0x1b), (0x30, 0x1b), (0x31, 0x1b), (0x32, 0x1b), (0x33, 0x1b), (0x34, 0x1b),
    (0x35, 0x1b), (0x36, 0x1b), (0x37, 0x1b), (0x38, 0x1b), (0x39, 0x1b), (0x3a, 0x1b), (0x3b, 0x1b), (0x3c, 0x1b), (0x3d, 0x1b), (0x3e, 0x1b),
    (0x3f, 0x1b), (0x40, 0x1b), (0x41, 0x1b), (0x42, 0x1b), (0x43, 0x1b), (0x44, 0x1b), (0x45, 0x1b), (0x46, 0x1b), (0x47, 0x1b), (0x48, 0x1b),
    (0x49, 0x1b), (0x4a, 0x1b), (0x4b, 0x1b), (0x4c, 0x1b), (0x4d, 0x1b), (0x4e, 0x1b), (0x4f, 0x1b), (0x50, 0x1b), (0x51, 0x1b), (0x52, 0x1b),
    (0x53, 0x1b), (0x54, 0x1b), (0x55, 0x1b), (0x56, 0x1b), (0x57, 0x1b), (0x58, 0x1b), (0x59, 0x1b), (0x5a, 0x1b), (0x5b, 0x1b), (0x5c, 0x1b)]"

lemma lts_e_4_run [lts_run]: "table_run LTS_STATE_e 600 lts_e_4 750"
proof -
  have run: "lts_e_4 = bytes_up 57 0xc7 0x1a @ bytes_up 93 0 0x1b"
    by (simp add: lts_e_4_def bytes_up_numeral)
  show ?thesis by (simp add: run LTS_STATE_e_def bytes_up_run del: bytes_up.simps)
qed

definition lts_e_5 :: "(byte \<times> byte) list" where
  "lts_e_5 = [
    (0x5d, 0x1b), (0x5e, 0x1b), (0x5f, 0x1b), (0x60, 0x1b), (0x61, 0x1b), (0x62, 0x1b), (0x63, 0x1b), (0x64, 0x1b), (0x65, 0x1b), (0x66, 0x1b),
    (0x67, 0x1b), (0x68, 0x1b), (0x69, 0x1b), (0x6a, 0x1b), (0x6b, 0x1b), (0x6c, 0x1b), (0x6d, 0x1b), (0x6e, 0x1b), (0x6f, 0x1b), (0x70, 0x1b),
    (0x71, 0x1b), (0x72, 0x1b), (0x73, 0x1b), (0x74, 0x1b), (0x75, 0x1b), (0x76, 0x1b), (0x77, 0x1b), (0x78, 0x1b), (0x79, 0x1b), (0x7a, 0x1b),
    (0x7b, 0x1b), (0x7c, 0x1b), (0x7d, 0x1b), (0x7e, 0x1b), (0x7f, 0x1b), (0x80, 0x1b), (0x81, 0x1b), (0x82, 0x1b), (0x83, 0x1b), (0x84, 0x1b),
    (0x85, 0x1b), (0x86, 0x1b), (0x87, 0x1b), (0x88, 0x1b), (0x89, 0x1b), (0x8a, 0x1b), (0x8b, 0x1b), (0x8c, 0x1b), (0x8d, 0x1b), (0x8e, 0x1b),
    (0x8f, 0x1b), (0x90, 0x1b), (0x91, 0x1b), (0x92, 0x1b), (0x93, 0x1b), (0x94, 0x1b), (0x95, 0x1b), (0x96, 0x1b), (0x97, 0x1b), (0x98, 0x1b),
    (0x99, 0x1b), (0x9a, 0x1b), (0x9b, 0x1b), (0x9c, 0x1b), (0x9d, 0x1b), (0x9e, 0x1b), (0x9f, 0x1b), (0xa0, 0x1b), (0xa1, 0x1b), (0xa2, 0x1b),
    (0xa3, 0x1b), (0xa4, 0x1b), (0xa5, 0x1b), (0xa6, 0x1b), (0xa7, 0x1b), (0xa8, 0x1b), (0xa9, 0x1b), (0xaa, 0x1b), (0xab, 0x1b), (0xac, 0x1b),
    (0xad, 0x1b), (0xae, 0x1b), (0xaf, 0x1b), (0xb0, 0x1b), (0xb1, 0x1b), (0xb2, 0x1b), (0xb3, 0x1b), (0xb4, 0x1b), (0xb5, 0x1b), (0xb6, 0x1b),
    (0xb7, 0x1b), (0xb8, 0x1b), (0xb9, 0x1b), (0xba, 0x1b), (0xbb, 0x1b), (0xbc, 0x1b), (0xbd, 0x1b), (0xbe, 0x1b), (0xbf, 0x1b), (0xc0, 0x1b),
    (0xc1, 0x1b), (0xc2, 0x1b), (0xc3, 0x1b), (0xc4, 0x1b), (0xc5, 0x1b), (0xc6, 0x1b), (0xc7, 0x1b), (0xc8, 0x1b), (0xc9, 0x1b), (0xca, 0x1b),
    (0xcb, 0x1b), (0xcc, 0x1b), (0xcd, 0x1b), (0xce, 0x1b), (0xcf, 0x1b), (0xd0, 0x1b), (0xd1, 0x1b), (0xd2, 0x1b), (0xd3, 0x1b), (0xd4, 0x1b),
    (0xd5, 0x1b), (0xd6, 0x1b), (0xd7, 0x1b), (0xd8, 0x1b), (0xd9, 0x1b), (0xda, 0x1b), (0xdb, 0x1b), (0xdc, 0x1b), (0xdd, 0x1b), (0xde, 0x1b),
    (0xdf, 0x1b), (0xe0, 0x1b), (0xe1, 0x1b), (0xe2, 0x1b), (0xe3, 0x1b), (0xe4, 0x1b), (0xe5, 0x1b), (0xe6, 0x1b), (0xe7, 0x1b), (0xe8, 0x1b),
    (0xe9, 0x1b), (0xea, 0x1b), (0xeb, 0x1b), (0xec, 0x1b), (0xed, 0x1b), (0xee, 0x1b), (0xef, 0x1b), (0xf0, 0x1b), (0xf1, 0x1b), (0xf2, 0x1b)]"

lemma lts_e_5_run [lts_run]: "table_run LTS_STATE_e 750 lts_e_5 900"
proof -
  have run: "lts_e_5 = bytes_up 150 0x5d 0x1b"
    by (simp add: lts_e_5_def bytes_up_numeral)
  show ?thesis by (simp add: run LTS_STATE_e_def bytes_up_run del: bytes_up.simps)
qed

definition lts_e_6 :: "(byte \<times> byte) list" where
  "lts_e_6 = [
    (0xf3, 0x1b), (0xf4, 0x1b), (0xf5, 0x1b), (0xf6, 0x1b), (0xf7, 0x1b), (0xf8, 0x1b), (0xf9, 0x1b), (0xfa, 0x1b), (0xfb, 0x1b), (0xfc, 0x1b),
    (0xfd, 0x1b), (0xfe, 0x1b), (0xff, 0x1b), (0, 0x1c), (1, 0x1c), (0x2, 0x1c), (0x3, 0x1c), (0x4, 0x1c), (0x5, 0x1c), (0x6, 0x1c),
    (0x7, 0x1c), (0x8, 0x1c), (0x9, 0x1c), (0xa, 0x1c), (0xb, 0x1c), (0xc, 0x1c), (0xd, 0x1c), (0xe, 0x1c), (0xf, 0x1c), (0x10, 0x1c),
    (0x11, 0x1c), (0x12, 0x1c), (0x13, 0x1c), (0x14, 0x1c), (0x15, 0x1c), (0x16, 0x1c), (0x17, 0x1c), (0x18, 0x1c), (0x19, 0x1c), (0x1a, 0x1c),
    (0x1b, 0x1c), (0x1c, 0x1c), (0x1d, 0x1c), (0x1e, 0x1c), (0x1f, 0x1c), (0x20, 0x1c), (0x21, 0x1c), (0x22, 0x1c), (0x23, 0x1c), (0x24, 0x1c),
    (0x25, 0x1c), (0x26, 0x1c), (0x27, 0x1c), (0x28, 0x1c), (0x29, 0x1c), (0x2a, 0x1c), (0x2b, 0x1c), (0x2c, 0x1c), (0x2d, 0x1c), (0x2e, 0x1c),
    (0x2f, 0x1c), (0x30, 0x1c), (0x31, 0x1c), (0x32, 0x1c), (0x33, 0x1c), (0x34, 0x1c), (0x35, 0x1c), (0x36, 0x1c), (0x37, 0x1c), (0x38, 0x1c),
    (0x39, 0x1c), (0x3a, 0x1c), (0x3b, 0x1c), (0x3c, 0x1c), (0x3d, 0x1c), (0x3e, 0x1c), (0x3f, 0x1c), (0x40, 0x1c), (0x41, 0x1c), (0x42, 0x1c),
    (0x43, 0x1c), (0x44, 0x1c), (0x45, 0x1c), (0x46, 0x1c), (0x47, 0x1c), (0x48, 0x1c), (0x49, 0x1c), (0x4a, 0x1c), (0x4b, 0x1c), (0x4c, 0x1c),
    (0x4d, 0x1c), (0x4e, 0x1c), (0x4f, 0x1c), (0x50, 0x1c), (0x51, 0x1c), (0x52, 0x1c), (0x53, 0x1c), (0x54, 0x1c), (0x55, 0x1c), (0x56, 0x1c),
    (0x57, 0x1c), (0x58, 0x1c), (0x59, 0x1c), (0x5a, 0x1c), (0x5b, 0x1c), (0x5c, 0x1c), (0x5d, 0x1c), (0x5e, 0x1c), (0x5f, 0x1c), (0x60, 0x1c),
    (0x61, 0x1c), (0x62, 0x1c), (0x63, 0x1c), (0x64, 0x1c), (0x65, 0x1c), (0x66, 0x1c), (0x67, 0x1c), (0x68, 0x1c), (0x69, 0x1c), (0x6a, 0x1c),
    (0x6b, 0x1c), (0x6c, 0x1c), (0x6d, 0x1c), (0x6e, 0x1c), (0x6f, 0x1c), (0x70, 0x1c), (0x71, 0x1c), (0x72, 0x1c), (0x73, 0x1c), (0x74, 0x1c),
    (0x75, 0x1c), (0x76, 0x1c), (0x77, 0x1c), (0x78, 0x1c), (0x79, 0x1c), (0x7a, 0x1c), (0x7b, 0x1c), (0x7c, 0x1c), (0x7d, 0x1c), (0x7e, 0x1c),
    (0x7f, 0x1c), (0x80, 0x1c), (0x81, 0x1c), (0x82, 0x1c), (0x83, 0x1c), (0x84, 0x1c), (0x85, 0x1c), (0x86, 0x1c), (0x87, 0x1c), (0x88, 0x1c)]"

lemma lts_e_6_run [lts_run]: "table_run LTS_STATE_e 900 lts_e_6 1050"
proof -
  have run: "lts_e_6 = bytes_up 13 0xf3 0x1b @ bytes_up 137 0 0x1c"
    by (simp add: lts_e_6_def bytes_up_numeral)
  show ?thesis by (simp add: run LTS_STATE_e_def bytes_up_run del: bytes_up.simps)
qed

definition lts_e_7 :: "(byte \<times> byte) list" where
  "lts_e_7 = [
    (0x89, 0x1c), (0x8a, 0x1c), (0x8b, 0x1c), (0x8c, 0x1c), (0x8d, 0x1c), (0x8e, 0x1c), (0x8f, 0x1c), (0x90, 0x1c), (0x91, 0x1c), (0x92, 0x1c),
    (0x93, 0x1c), (0x94, 0x1c), (0x95, 0x1c), (0x96, 0x1c), (0x97, 0x1c), (0x98, 0x1c), (0x99, 0x1c), (0x9a, 0x1c), (0x9b, 0x1c), (0x9c, 0x1c),
    (0x9d, 0x1c), (0x9e, 0x1c), (0x9f, 0x1c), (0xa0, 0x1c), (0xa1, 0x1c), (0xa2, 0x1c), (0xa3, 0x1c), (0xa4, 0x1c), (0xa5, 0x1c), (0xa6, 0x1c),
    (0xa7, 0x1c), (0xa8, 0x1c), (0xa9, 0x1c), (0xaa, 0x1c), (0xab, 0x1c), (0xac, 0x1c), (0xad, 0x1c), (0xae, 0x1c), (0xaf, 0x1c), (0xb0, 0x1c),
    (0xb1, 0x1c), (0xb2, 0x1c), (0xb3, 0x1c), (0xb4, 0x1c), (0xb5, 0x1c), (0xb6, 0x1c), (0xb7, 0x1c), (0xb8, 0x1c), (0xb9, 0x1c), (0xba, 0x1c),
    (0xbb, 0x1c), (0xbc, 0x1c), (0xbd, 0x1c), (0xbe, 0x1c), (0xbf, 0x1c), (0xc0, 0x1c), (0xc1, 0x1c), (0xc2, 0x1c), (0xc3, 0x1c), (0xc4, 0x1c),
    (0xc5, 0x1c), (0xc6, 0x1c), (0xc7, 0x1c), (0xc8, 0x1c), (0xc9, 0x1c), (0xca, 0x1c), (0xcb, 0x1c), (0xcc, 0x1c), (0xcd, 0x1c), (0xce, 0x1c),
    (0xcf, 0x1c), (0xd0, 0x1c), (0xd1, 0x1c), (0xd2, 0x1c), (0xd3, 0x1c), (0xd4, 0x1c), (0xd5, 0x1c), (0xd6, 0x1c), (0xd7, 0x1c), (0xd8, 0x1c),
    (0xd9, 0x1c), (0xda, 0x1c), (0xdb, 0x1c), (0xdc, 0x1c), (0xdd, 0x1c), (0xde, 0x1c), (0xdf, 0x1c), (0xe0, 0x1c), (0xe1, 0x1c), (0xe2, 0x1c),
    (0xe3, 0x1c), (0xe4, 0x1c), (0xe5, 0x1c), (0xe6, 0x1c), (0xe7, 0x1c), (0xe8, 0x1c), (0xe9, 0x1c), (0xea, 0x1c), (0xeb, 0x1c), (0xec, 0x1c),
    (0xed, 0x1c), (0xee, 0x1c), (0xef, 0x1c), (0xf0, 0x1c), (0xf1, 0x1c), (0xf2, 0x1c), (0xf3, 0x1c), (0xf4, 0x1c), (0xf5, 0x1c), (0xf6, 0x1c),
    (0xf7, 0x1c), (0xf8, 0x1c), (0xf9, 0x1c), (0xfa, 0x1c), (0xfb, 0x1c), (0xfc, 0x1c), (0xfd, 0x1c), (0xfe, 0x1c), (0xff, 0x1c), (0, 0x1d),
    (1, 0x1d), (0x2, 0x1d), (0x3, 0x1d), (0x4, 0x1d), (0x5, 0x1d), (0x6, 0x1d), (0x7, 0x1d), (0x8, 0x1d), (0x9, 0x1d), (0xa, 0x1d),
    (0xb, 0x1d), (0xc, 0x1d), (0xd, 0x1d), (0xe, 0x1d), (0xf, 0x1d), (0x10, 0x1d), (0x11, 0x1d), (0x12, 0x1d), (0x13, 0x1d), (0x14, 0x1d),
    (0x15, 0x1d), (0x16, 0x1d), (0x17, 0x1d), (0x18, 0x1d), (0x19, 0x1d), (0x1a, 0x1d), (0x1b, 0x1d), (0x1c, 0x1d), (0x1d, 0x1d), (0x1e, 0x1d)]"

lemma lts_e_7_run [lts_run]: "table_run LTS_STATE_e 1050 lts_e_7 1200"
proof -
  have run: "lts_e_7 = bytes_up 119 0x89 0x1c @ bytes_up 31 0 0x1d"
    by (simp add: lts_e_7_def bytes_up_numeral)
  show ?thesis by (simp add: run LTS_STATE_e_def bytes_up_run del: bytes_up.simps)
qed

definition lts_e_8 :: "(byte \<times> byte) list" where
  "lts_e_8 = [
    (0x1f, 0x1d), (0x20, 0x1d), (0x21, 0x1d), (0x22, 0x1d), (0x23, 0x1d), (0x24, 0x1d), (0x25, 0x1d), (0x26, 0x1d), (0x27, 0x1d), (0x28, 0x1d),
    (0x29, 0x1d), (0x2a, 0x1d), (0x2b, 0x1d), (0x2c, 0x1d), (0x2d, 0x1d), (0x2e, 0x1d), (0x2f, 0x1d), (0x30, 0x1d), (0x31, 0x1d), (0x32, 0x1d),
    (0x33, 0x1d), (0x34, 0x1d), (0x35, 0x1d), (0x36, 0x1d), (0x37, 0x1d), (0x38, 0x1d), (0x39, 0x1d), (0x3a, 0x1d), (0x3b, 0x1d), (0x3c, 0x1d),
    (0x3d, 0x1d), (0x3e, 0x1d), (0x3f, 0x1d), (0x40, 0x1d), (0x41, 0x1d), (0x42, 0x1d), (0x43, 0x1d), (0x44, 0x1d), (0x45, 0x1d), (0x46, 0x1d),
    (0x47, 0x1d), (0x48, 0x1d), (0x49, 0x1d), (0x4a, 0x1d), (0x4b, 0x1d), (0x4c, 0x1d), (0x4d, 0x1d), (0x4e, 0x1d), (0x4f, 0x1d), (0x50, 0x1d),
    (0x51, 0x1d), (0x52, 0x1d), (0x53, 0x1d), (0x54, 0x1d), (0x55, 0x1d), (0x56, 0x1d), (0x57, 0x1d), (0x58, 0x1d), (0x59, 0x1d), (0x5a, 0x1d),
    (0x5b, 0x1d), (0x5c, 0x1d), (0x5d, 0x1d), (0x5e, 0x1d), (0x5f, 0x1d), (0x60, 0x1d), (0x61, 0x1d), (0x62, 0x1d), (0x63, 0x1d), (0x64, 0x1d),
    (0x65, 0x1d), (0x66, 0x1d), (0x67, 0x1d), (0x68, 0x1d), (0x69, 0x1d), (0x6a, 0x1d), (0x6b, 0x1d), (0x6c, 0x1d), (0x6d, 0x1d), (0x6e, 0x1d),
    (0x6f, 0x1d), (0x70, 0x1d), (0x71, 0x1d), (0x72, 0x1d), (0x73, 0x1d), (0x74, 0x1d), (0x75, 0x1d), (0x76, 0x1d), (0x77, 0x1d), (0x78, 0x1d),
    (0x79, 0x1d), (0x7a, 0x1d), (0x7b, 0x1d), (0x7c, 0x1d), (0x7d, 0x1d), (0x7e, 0x1d), (0x7f, 0x1d), (0x80, 0x1d), (0x81, 0x1d), (0x82, 0x1d),
    (0x83, 0x1d), (0x84, 0x1d), (0x85, 0x1d), (0x86, 0x1d), (0x87, 0x1d), (0x88, 0x1d), (0x89, 0x1d), (0x8a, 0x1d), (0x8b, 0x1d), (0x8c, 0x1d),
    (0x8d, 0x1d), (0x8e, 0x1d), (0x8f, 0x1d), (0x90, 0x1d), (0x91, 0x1d), (0x92, 0x1d), (0x93, 0x1d), (0x94, 0x1d), (0x95, 0x1d), (0x96, 0x1d),
    (0x97, 0x1d), (0x98, 0x1d), (0x99, 0x1d), (0x9a, 0x1d), (0x9b, 0x1d), (0x9c, 0x1d), (0x9d, 0x1d), (0x9e, 0x1d), (0x9f, 0x1d), (0xa0, 0x1d),
    (0xa1, 0x1d), (0xa2, 0x1d), (0xa3, 0x1d), (0xa4, 0x1d), (0xa5, 0x1d), (0xa6, 0x1d), (0xa7, 0x1d), (0xa8, 0x1d), (0xa9, 0x1d), (0xaa, 0x1d),
    (0xab, 0x1d), (0xac, 0x1d), (0xad, 0x1d), (0xae, 0x1d), (0xaf, 0x1d), (0xb0, 0x1d), (0xb1, 0x1d), (0xb2, 0x1d), (0xb3, 0x1d), (0xb4, 0x1d)]"

lemma lts_e_8_run [lts_run]: "table_run LTS_STATE_e 1200 lts_e_8 1350"
proof -
  have run: "lts_e_8 = bytes_up 150 0x1f 0x1d"
    by (simp add: lts_e_8_def bytes_up_numeral)
  show ?thesis by (simp add: run LTS_STATE_e_def bytes_up_run del: bytes_up.simps)
qed

definition lts_e_9 :: "(byte \<times> byte) list" where
  "lts_e_9 = [
    (0xb5, 0x1d), (0xb6, 0x1d), (0xb7, 0x1d), (0xb8, 0x1d), (0xb9, 0x1d), (0xba, 0x1d), (0xbb, 0x1d), (0xbc, 0x1d), (0xbd, 0x1d), (0xbe, 0x1d),
    (0xbf, 0x1d), (0xc0, 0x1d), (0xc1, 0x1d), (0xc2, 0x1d), (0xc3, 0x1d), (0xc4, 0x1d), (0xc5, 0x1d), (0xc6, 0x1d), (0xc7, 0x1d), (0xc8, 0x1d),
    (0xc9, 0x1d), (0xca, 0x1d), (0xcb, 0x1d), (0xcc, 0x1d), (0xcd, 0x1d), (0xce, 0x1d), (0xcf, 0x1d), (0xd0, 0x1d), (0xd1, 0x1d), (0xd2, 0x1d),
    (0xd3, 0x1d), (0xd4, 0x1d), (0xd5, 0x1d), (0xd6, 0x1d), (0xd7, 0x1d), (0xd8, 0x1d), (0xd9, 0x1d), (0xda, 0x1d), (0xdb, 0x1d), (0xdc, 0x1d),
    (0xdd, 0x1d), (0xde, 0x1d), (0xdf, 0x1d), (0xe0, 0x1d), (0xe1, 0x1d), (0xe2, 0x1d), (0xe3, 0x1d), (0xe4, 0x1d), (0xe5, 0x1d), (0xe6, 0x1d),
    (0xe7, 0x1d), (0xe8, 0x1d), (0xe9, 0x1d), (0xea, 0x1d), (0xeb, 0x1d), (0xec, 0x1d), (0xed, 0x1d), (0xee, 0x1d), (0xef, 0x1d), (0xf0, 0x1d),
    (0xf1, 0x1d), (0xf2, 0x1d), (0xf3, 0x1d), (0xf4, 0x1d), (0xf5, 0x1d), (0xf6, 0x1d), (0xf7, 0x1d), (0xf8, 0x1d), (0xf9, 0x1d), (0xfa, 0x1d),
    (0xfb, 0x1d), (0xfc, 0x1d), (0xfd, 0x1d), (0xfe, 0x1d), (0xff, 0x1d), (0, 0x1e), (1, 0x1e), (0x2, 0x1e), (0x3, 0x1e), (0x4, 0x1e),
    (0x5, 0x1e), (0x6, 0x1e), (0x7, 0x1e), (0x8, 0x1e), (0x9, 0x1e), (0xa, 0x1e), (0xb, 0x1e), (0xc, 0x1e), (0xd, 0x1e), (0xe, 0x1e),
    (0xf, 0x1e), (0x10, 0x1e), (0x11, 0x1e), (0x12, 0x1e), (0x13, 0x1e), (0x14, 0x1e), (0x15, 0x1e), (0x16, 0x1e), (0x17, 0x1e), (0x18, 0x1e),
    (0x19, 0x1e), (0x1a, 0x1e), (0x1b, 0x1e), (0x1c, 0x1e), (0x1d, 0x1e), (0x1e, 0x1e), (0x1f, 0x1e), (0x20, 0x1e), (0x21, 0x1e), (0x22, 0x1e),
    (0x23, 0x1e), (0x24, 0x1e), (0x25, 0x1e), (0x26, 0x1e), (0x27, 0x1e), (0x28, 0x1e), (0x29, 0x1e), (0x2a, 0x1e), (0x2b, 0x1e), (0x2c, 0x1e),
    (0x2d, 0x1e), (0x2e, 0x1e), (0x2f, 0x1e), (0x30, 0x1e), (0x31, 0x1e), (0x32, 0x1e), (0x33, 0x1e), (0x34, 0x1e), (0x35, 0x1e), (0x36, 0x1e),
    (0x37, 0x1e), (0x38, 0x1e), (0x39, 0x1e), (0x3a, 0x1e), (0x3b, 0x1e), (0x3c, 0x1e), (0x3d, 0x1e), (0x3e, 0x1e), (0x3f, 0x1e), (0x40, 0x1e),
    (0x41, 0x1e), (0x42, 0x1e), (0x43, 0x1e), (0x44, 0x1e), (0x45, 0x1e), (0x46, 0x1e), (0x47, 0x1e), (0x48, 0x1e), (0x49, 0x1e), (0x4a, 0x1e)]"

lemma lts_e_9_run [lts_run]: "table_run LTS_STATE_e 1350 lts_e_9 1500"
proof -
  have run: "lts_e_9 = bytes_up 75 0xb5 0x1d @ bytes_up 75 0 0x1e"
    by (simp add: lts_e_9_def bytes_up_numeral)
  show ?thesis by (simp add: run LTS_STATE_e_def bytes_up_run del: bytes_up.simps)
qed

definition lts_e_10 :: "(byte \<times> byte) list" where
  "lts_e_10 = [
    (0x4b, 0x1e), (0x4c, 0x1e), (0x4d, 0x1e), (0x4e, 0x1e), (0x4f, 0x1e), (0x50, 0x1e), (0x51, 0x1e), (0x52, 0x1e), (0x53, 0x1e), (0x54, 0x1e),
    (0x55, 0x1e), (0x56, 0x1e), (0x57, 0x1e), (0x58, 0x1e), (0x59, 0x1e), (0x5a, 0x1e), (0x5b, 0x1e), (0x5c, 0x1e), (0x5d, 0x1e), (0x5e, 0x1e),
    (0x5f, 0x1e), (0x60, 0x1e), (0x61, 0x1e), (0x62, 0x1e), (0x63, 0x1e), (0x64, 0x1e), (0x65, 0x1e), (0x66, 0x1e), (0x67, 0x1e), (0x68, 0x1e),
    (0x69, 0x1e), (0x6a, 0x1e), (0x6b, 0x1e), (0x6c, 0x1e), (0x6d, 0x1e), (0x6e, 0x1e), (0x6f, 0x1e), (0x70, 0x1e), (0x71, 0x1e), (0x72, 0x1e),
    (0x73, 0x1e), (0x74, 0x1e), (0x75, 0x1e), (0x76, 0x1e), (0x77, 0x1e), (0x78, 0x1e), (0x79, 0x1e), (0x7a, 0x1e), (0x7b, 0x1e), (0x7c, 0x1e),
    (0x7d, 0x1e), (0x7e, 0x1e), (0x7f, 0x1e), (0x80, 0x1e), (0x81, 0x1e), (0x82, 0x1e), (0x83, 0x1e), (0x84, 0x1e), (0x85, 0x1e), (0x86, 0x1e),
    (0x87, 0x1e), (0x88, 0x1e), (0x89, 0x1e), (0x8a, 0x1e), (0x8b, 0x1e), (0x8c, 0x1e), (0x8d, 0x1e), (0x8e, 0x1e), (0x8f, 0x1e), (0x90, 0x1e),
    (0x91, 0x1e), (0x92, 0x1e), (0x93, 0x1e), (0x94, 0x1e), (0x95, 0x1e), (0x96, 0x1e), (0x97, 0x1e), (0x98, 0x1e), (0x99, 0x1e), (0x9a, 0x1e),
    (0x9b, 0x1e), (0x9c, 0x1e), (0x9d, 0x1e), (0x9e, 0x1e), (0x9f, 0x1e), (0xa0, 0x1e), (0xa1, 0x1e), (0xa2, 0x1e), (0xa3, 0x1e), (0xa4, 0x1e),
    (0xa5, 0x1e), (0xa6, 0x1e), (0xa7, 0x1e), (0xa8, 0x1e), (0xa9, 0x1e), (0xaa, 0x1e), (0xab, 0x1e), (0xac, 0x1e), (0xad, 0x1e), (0xae, 0x1e),
    (0xaf, 0x1e), (0xb0, 0x1e), (0xb1, 0x1e), (0xb2, 0x1e), (0xb3, 0x1e), (0xb4, 0x1e), (0xb5, 0x1e), (0xb6, 0x1e), (0xb7, 0x1e), (0xb8, 0x1e),
    (0xb9, 0x1e), (0xba, 0x1e), (0xbb, 0x1e), (0xbc, 0x1e), (0xbd, 0x1e), (0xbe, 0x1e), (0xbf, 0x1e), (0xc0, 0x1e), (0xc1, 0x1e), (0xc2, 0x1e),
    (0xc3, 0x1e), (0xc4, 0x1e), (0xc5, 0x1e), (0xc6, 0x1e), (0xc7, 0x1e), (0xc8, 0x1e), (0xc9, 0x1e), (0xca, 0x1e), (0xcb, 0x1e), (0xcc, 0x1e),
    (0xcd, 0x1e), (0xce, 0x1e), (0xcf, 0x1e), (0xd0, 0x1e), (0xd1, 0x1e), (0xd2, 0x1e), (0xd3, 0x1e), (0xd4, 0x1e), (0xd5, 0x1e), (0xd6, 0x1e),
    (0xd7, 0x1e), (0xd8, 0x1e), (0xd9, 0x1e), (0xda, 0x1e), (0xdb, 0x1e), (0xdc, 0x1e), (0xdd, 0x1e), (0xde, 0x1e), (0xdf, 0x1e), (0xe0, 0x1e)]"

lemma lts_e_10_run [lts_run]: "table_run LTS_STATE_e 1500 lts_e_10 1650"
proof -
  have run: "lts_e_10 = bytes_up 150 0x4b 0x1e"
    by (simp add: lts_e_10_def bytes_up_numeral)
  show ?thesis by (simp add: run LTS_STATE_e_def bytes_up_run del: bytes_up.simps)
qed

definition lts_e_11 :: "(byte \<times> byte) list" where
  "lts_e_11 = [
    (0xe1, 0x1e), (0xe2, 0x1e), (0xe3, 0x1e), (0xe4, 0x1e), (0xe5, 0x1e), (0xe6, 0x1e), (0xe7, 0x1e), (0xe8, 0x1e), (0xe9, 0x1e), (0xea, 0x1e),
    (0xeb, 0x1e), (0xec, 0x1e), (0xed, 0x1e), (0xee, 0x1e), (0xef, 0x1e), (0xf0, 0x1e), (0xf1, 0x1e), (0xf2, 0x1e), (0xf3, 0x1e), (0xf4, 0x1e),
    (0xf5, 0x1e), (0xf6, 0x1e), (0xf7, 0x1e), (0xf8, 0x1e), (0xf9, 0x1e), (0xfa, 0x1e), (0xfb, 0x1e), (0xfc, 0x1e), (0xfd, 0x1e), (0xfe, 0x1e),
    (0xff, 0x1e), (0, 0x1f), (1, 0x1f), (0x2, 0x1f), (0x3, 0x1f), (0x4, 0x1f), (0x5, 0x1f), (0x6, 0x1f), (0x7, 0x1f), (0x8, 0x1f),
    (0x9, 0x1f), (0xa, 0x1f), (0xb, 0x1f), (0xc, 0x1f), (0xd, 0x1f), (0xe, 0x1f), (0xf, 0x1f), (0x10, 0x1f), (0x11, 0x1f), (0x12, 0x1f),
    (0x13, 0x1f), (0x14, 0x1f), (0x15, 0x1f), (0x16, 0x1f), (0x17, 0x1f), (0x18, 0x1f), (0x19, 0x1f), (0x1a, 0x1f), (0x1b, 0x1f), (0x1c, 0x1f),
    (0x1d, 0x1f), (0x1e, 0x1f), (0x1f, 0x1f), (0x20, 0x1f), (0x21, 0x1f), (0x22, 0x1f), (0x23, 0x1f), (0x24, 0x1f), (0x25, 0x1f), (0x26, 0x1f),
    (0x27, 0x1f), (0x28, 0x1f), (0x29, 0x1f), (0x2a, 0x1f), (0x2b, 0x1f), (0x2c, 0x1f), (0x2d, 0x1f), (0x2e, 0x1f), (0x2f, 0x1f), (0x30, 0x1f),
    (0x31, 0x1f), (0x32, 0x1f), (0x33, 0x1f), (0x34, 0x1f), (0x35, 0x1f), (0x36, 0x1f), (0x37, 0x1f), (0x38, 0x1f), (0x39, 0x1f), (0x3a, 0x1f),
    (0x3b, 0x1f), (0x3c, 0x1f), (0x3d, 0x1f), (0x3e, 0x1f), (0x3f, 0x1f), (0x40, 0x1f), (0x41, 0x1f), (0x42, 0x1f), (0x43, 0x1f), (0x44, 0x1f),
    (0x45, 0x1f), (0x46, 0x1f), (0x47, 0x1f), (0x48, 0x1f), (0x49, 0x1f), (0x4a, 0x1f), (0x4b, 0x1f), (0x4c, 0x1f), (0x4d, 0x1f), (0x4e, 0x1f),
    (0x4f, 0x1f), (0x50, 0x1f), (0x51, 0x1f), (0x52, 0x1f), (0x53, 0x1f), (0x54, 0x1f), (0x55, 0x1f), (0x56, 0x1f), (0x57, 0x1f), (0x58, 0x1f),
    (0x59, 0x1f), (0x5a, 0x1f), (0x5b, 0x1f), (0x5c, 0x1f), (0x5d, 0x1f), (0x5e, 0x1f), (0x5f, 0x1f), (0x60, 0x1f), (0x61, 0x1f), (0x62, 0x1f),
    (0x63, 0x1f), (0x64, 0x1f), (0x65, 0x1f), (0x66, 0x1f), (0x67, 0x1f), (0x68, 0x1f), (0x69, 0x1f), (0x6a, 0x1f), (0x6b, 0x1f), (0x6c, 0x1f),
    (0x6d, 0x1f), (0x6e, 0x1f), (0x6f, 0x1f), (0x70, 0x1f), (0x71, 0x1f), (0x72, 0x1f), (0x73, 0x1f), (0x74, 0x1f), (0x75, 0x1f), (0x76, 0x1f)]"

lemma lts_e_11_run [lts_run]: "table_run LTS_STATE_e 1650 lts_e_11 1800"
proof -
  have run: "lts_e_11 = bytes_up 31 0xe1 0x1e @ bytes_up 119 0 0x1f"
    by (simp add: lts_e_11_def bytes_up_numeral)
  show ?thesis by (simp add: run LTS_STATE_e_def bytes_up_run del: bytes_up.simps)
qed

definition lts_e_12 :: "(byte \<times> byte) list" where
  "lts_e_12 = [
    (0x77, 0x1f), (0x78, 0x1f), (0x79, 0x1f), (0x7a, 0x1f), (0x7b, 0x1f), (0x7c, 0x1f), (0x7d, 0x1f), (0x7e, 0x1f), (0x7f, 0x1f), (0x80, 0x1f),
    (0x81, 0x1f), (0x82, 0x1f), (0x83, 0x1f), (0x84, 0x1f), (0x85, 0x1f), (0x86, 0x1f), (0x87, 0x1f), (0x88, 0x1f), (0x89, 0x1f), (0x8a, 0x1f),
    (0x8b, 0x1f), (0x8c, 0x1f), (0x8d, 0x1f), (0x8e, 0x1f), (0x8f, 0x1f), (0x90, 0x1f), (0x91, 0x1f), (0x92, 0x1f), (0x93, 0x1f), (0x94, 0x1f),
    (0x95, 0x1f), (0x96, 0x1f), (0x97, 0x1f), (0x98, 0x1f), (0x99, 0x1f), (0x9a, 0x1f), (0x9b, 0x1f), (0x9c, 0x1f), (0x9d, 0x1f), (0x9e, 0x1f),
    (0x9f, 0x1f), (0xa0, 0x1f), (0xa1, 0x1f), (0xa2, 0x1f), (0xa3, 0x1f), (0xa4, 0x1f), (0xa5, 0x1f), (0xa6, 0x1f), (0xa7, 0x1f), (0xa8, 0x1f),
    (0xa9, 0x1f), (0xaa, 0x1f), (0xab, 0x1f), (0xac, 0x1f), (0xad, 0x1f), (0xae, 0x1f), (0xaf, 0x1f), (0xb0, 0x1f), (0xb1, 0x1f), (0xb2, 0x1f),
    (0xb3, 0x1f), (0xb4, 0x1f), (0xb5, 0x1f), (0xb6, 0x1f), (0xb7, 0x1f), (0xb8, 0x1f), (0xb9, 0x1f), (0xba, 0x1f), (0xbb, 0x1f), (0xbc, 0x1f),
    (0xbd, 0x1f), (0xbe, 0x1f), (0xbf, 0x1f), (0xc0, 0x1f), (0xc1, 0x1f), (0xc2, 0x1f), (0xc3, 0x1f), (0xc4, 0x1f), (0xc5, 0x1f), (0xc6, 0x1f),
    (0xc7, 0x1f), (0xc8, 0x1f), (0xc9, 0x1f), (0xca, 0x1f), (0xcb, 0x1f), (0xcc, 0x1f), (0xcd, 0x1f), (0xce, 0x1f), (0xcf, 0x1f), (0xd0, 0x1f),
    (0xd1, 0x1f), (0xd2, 0x1f), (0xd3, 0x1f), (0xd4, 0x1f), (0xd5, 0x1f), (0xd6, 0x1f), (0xd7, 0x1f), (0xd8, 0x1f), (0xd9, 0x1f), (0xda, 0x1f),
    (0xdb, 0x1f), (0xdc, 0x1f), (0xdd, 0x1f), (0xde, 0x1f), (0xdf, 0x1f), (0xe0, 0x1f), (0xe1, 0x1f), (0xe2, 0x1f), (0xe3, 0x1f), (0xe4, 0x1f),
    (0xe5, 0x1f), (0xe6, 0x1f), (0xe7, 0x1f), (0xe8, 0x1f), (0xe9, 0x1f), (0xea, 0x1f), (0xeb, 0x1f), (0xec, 0x1f), (0xed, 0x1f), (0xee, 0x1f),
    (0xef, 0x1f), (0xf0, 0x1f), (0xf1, 0x1f), (0xf2, 0x1f), (0xf3, 0x1f), (0xf4, 0x1f), (0xf5, 0x1f), (0xf6, 0x1f), (0xf7, 0x1f), (0xf8, 0x1f),
    (0xf9, 0x1f), (0xfa, 0x1f), (0xfb, 0x1f), (0xfc, 0x1f), (0xfd, 0x1f), (0xfe, 0x1f), (0xff, 0x1f), (0, 0x20), (1, 0x20), (0x2, 0x20),
    (0x3, 0x20), (0x4, 0x20), (0x5, 0x20), (0x6, 0x20), (0x7, 0x20), (0x8, 0x20), (0x9, 0x20), (0xa, 0x20), (0xb, 0x20), (0xc, 0x20)]"

lemma lts_e_12_run [lts_run]: "table_run LTS_STATE_e 1800 lts_e_12 1950"
proof -
  have run: "lts_e_12 = bytes_up 137 0x77 0x1f @ bytes_up 13 0 0x20"
    by (simp add: lts_e_12_def bytes_up_numeral)
  show ?thesis by (simp add: run LTS_STATE_e_def bytes_up_run del: bytes_up.simps)
qed

definition lts_e_13 :: "(byte \<times> byte) list" where
  "lts_e_13 = [
    (0xd, 0x20), (0xe, 0x20), (0xf, 0x20), (0x10, 0x20), (0x11, 0x20), (0x12, 0x20), (0x13, 0x20), (0x14, 0x20), (0x15, 0x20), (0x16, 0x20),
    (0x17, 0x20), (0x18, 0x20), (0x19, 0x20), (0x1a, 0x20), (0x1b, 0x20), (0x1c, 0x20), (0x1d, 0x20), (0x1e, 0x20), (0x1f, 0x20), (0x20, 0x20),
    (0x21, 0x20), (0x22, 0x20), (0x23, 0x20), (0x24, 0x20), (0x25, 0x20), (0x26, 0x20), (0x27, 0x20), (0x28, 0x20), (0x29, 0x20), (0x2a, 0x20),
    (0x2b, 0x20), (0x2c, 0x20), (0x2d, 0x20), (0x2e, 0x20), (0x2f, 0x20), (0x30, 0x20), (0x31, 0x20), (0x32, 0x20), (0x33, 0x20), (0x34, 0x20),
    (0x35, 0x20), (0x36, 0x20), (0x37, 0x20), (0x38, 0x20), (0x39, 0x20), (0x3a, 0x20), (0x3b, 0x20), (0x3c, 0x20), (0x3d, 0x20), (0x3e, 0x20),
    (0x3f, 0x20), (0x40, 0x20), (0x41, 0x20), (0x42, 0x20), (0x43, 0x20), (0x44, 0x20), (0x45, 0x20), (0x46, 0x20), (0x47, 0x20), (0x48, 0x20),
    (0x49, 0x20), (0x4a, 0x20), (0x4b, 0x20), (0x4c, 0x20), (0x4d, 0x20), (0x4e, 0x20), (0x4f, 0x20), (0x50, 0x20), (0x51, 0x20), (0x52, 0x20),
    (0x53, 0x20), (0x54, 0x20), (0x55, 0x20), (0x56, 0x20), (0x57, 0x20), (0x58, 0x20), (0x59, 0x20), (0x5a, 0x20), (0x5b, 0x20), (0x5c, 0x20),
    (0x5d, 0x20), (0x5e, 0x20), (0x5f, 0x20), (0x60, 0x20), (0x61, 0x20), (0x62, 0x20), (0x63, 0x20), (0x64, 0x20), (0x65, 0x20), (0x66, 0x20),
    (0x67, 0x20), (0x68, 0x20), (0x69, 0x20), (0x6a, 0x20), (0x6b, 0x20), (0x6c, 0x20), (0x6d, 0x20), (0x6e, 0x20), (0x6f, 0x20), (0x70, 0x20),
    (0x71, 0x20), (0x72, 0x20), (0x73, 0x20), (0x74, 0x20), (0x75, 0x20), (0x76, 0x20), (0x77, 0x20), (0x78, 0x20), (0x79, 0x20), (0x7a, 0x20),
    (0x7b, 0x20), (0x7c, 0x20), (0x7d, 0x20), (0x7e, 0x20), (0x7f, 0x20), (0x80, 0x20), (0x81, 0x20), (0x82, 0x20), (0x83, 0x20), (0x84, 0x20),
    (0x85, 0x20), (0x86, 0x20), (0x87, 0x20), (0x88, 0x20), (0x89, 0x20), (0x8a, 0x20), (0x8b, 0x20), (0x8c, 0x20), (0x8d, 0x20), (0x8e, 0x20),
    (0x8f, 0x20), (0x90, 0x20), (0x91, 0x20), (0x92, 0x20), (0x93, 0x20), (0x94, 0x20), (0x95, 0x20), (0x96, 0x20), (0x97, 0x20), (0x98, 0x20),
    (0x99, 0x20), (0x9a, 0x20), (0x9b, 0x20), (0x9c, 0x20), (0x9d, 0x20), (0x9e, 0x20), (0x9f, 0x20), (0xa0, 0x20), (0xa1, 0x20), (0xa2, 0x20)]"

lemma lts_e_13_run [lts_run]: "table_run LTS_STATE_e 1950 lts_e_13 2100"
proof -
  have run: "lts_e_13 = bytes_up 150 0xd 0x20"
    by (simp add: lts_e_13_def bytes_up_numeral)
  show ?thesis by (simp add: run LTS_STATE_e_def bytes_up_run del: bytes_up.simps)
qed

definition lts_e_14 :: "(byte \<times> byte) list" where
  "lts_e_14 = [
    (0xa3, 0x20), (0xa4, 0x20), (0xa5, 0x20), (0xa6, 0x20), (0xa7, 0x20), (0xa8, 0x20), (0xa9, 0x20), (0xaa, 0x20), (0xab, 0x20), (0xac, 0x20),
    (0xad, 0x20), (0xae, 0x20), (0xaf, 0x20), (0xb0, 0x20), (0xb1, 0x20), (0xb2, 0x20), (0xb3, 0x20), (0xb4, 0x20), (0xb5, 0x20), (0xb6, 0x20),
    (0xb7, 0x20), (0xb8, 0x20), (0xb9, 0x20), (0xba, 0x20), (0xbb, 0x20), (0xbc, 0x20), (0xbd, 0x20), (0xbe, 0x20), (0xbf, 0x20), (0xc0, 0x20),
    (0xc1, 0x20), (0xc2, 0x20), (0xc3, 0x20), (0xc4, 0x20), (0xc5, 0x20), (0xc6, 0x20), (0xc7, 0x20), (0xc8, 0x20), (0xc9, 0x20), (0xca, 0x20),
    (0xcb, 0x20), (0xcc, 0x20), (0xcd, 0x20), (0xce, 0x20), (0xcf, 0x20), (0xd0, 0x20), (0xd1, 0x20), (0xd2, 0x20), (0xd3, 0x20), (0xd4, 0x20),
    (0xd5, 0x20), (0xd6, 0x20), (0xd7, 0x20), (0xd8, 0x20), (0xd9, 0x20), (0xda, 0x20), (0xdb, 0x20), (0xdc, 0x20), (0xdd, 0x20), (0xde, 0x20),
    (0xdf, 0x20), (0xe0, 0x20), (0xe1, 0x20), (0xe2, 0x20), (0xe3, 0x20), (0xe4, 0x20), (0xe5, 0x20), (0xe6, 0x20), (0xe7, 0x20), (0xe8, 0x20),
    (0xe9, 0x20), (0xea, 0x20), (0xeb, 0x20), (0xec, 0x20), (0xed, 0x20), (0xee, 0x20), (0xef, 0x20), (0xf0, 0x20), (0xf1, 0x20), (0xf2, 0x20),
    (0xf3, 0x20), (0xf4, 0x20), (0xf5, 0x20), (0xf6, 0x20), (0xf7, 0x20), (0xf8, 0x20), (0xf9, 0x20), (0xfa, 0x20), (0xfb, 0x20), (0xfc, 0x20),
    (0xfd, 0x20), (0xfe, 0x20), (0xff, 0x20), (0, 0x21), (1, 0x21), (0x2, 0x21), (0x3, 0x21), (0x4, 0x21), (0x5, 0x21), (0x6, 0x21),
    (0x7, 0x21), (0x8, 0x21), (0x9, 0x21), (0xa, 0x21), (0xb, 0x21), (0xc, 0x21), (0xd, 0x21), (0xe, 0x21), (0xf, 0x21), (0x10, 0x21),
    (0x11, 0x21), (0x12, 0x21), (0x13, 0x21), (0x14, 0x21), (0x15, 0x21), (0x16, 0x21), (0x17, 0x21), (0x18, 0x21), (0x19, 0x21), (0x1a, 0x21),
    (0x1b, 0x21), (0x1c, 0x21), (0x1d, 0x21), (0x1e, 0x21), (0x1f, 0x21), (0x20, 0x21), (0x21, 0x21), (0x22, 0x21), (0x23, 0x21), (0x24, 0x21),
    (0x25, 0x21), (0x26, 0x21), (0x27, 0x21), (0x28, 0x21), (0x29, 0x21), (0x2a, 0x21), (0x2b, 0x21), (0x2c, 0x21), (0x2d, 0x21), (0x2e, 0x21),
    (0x2f, 0x21), (0x30, 0x21), (0x31, 0x21), (0x32, 0x21), (0x33, 0x21), (0x34, 0x21), (0x35, 0x21), (0x36, 0x21), (0x37, 0x21), (0x38, 0x21)]"

lemma lts_e_14_run [lts_run]: "table_run LTS_STATE_e 2100 lts_e_14 2250"
proof -
  have run: "lts_e_14 = bytes_up 93 0xa3 0x20 @ bytes_up 57 0 0x21"
    by (simp add: lts_e_14_def bytes_up_numeral)
  show ?thesis by (simp add: run LTS_STATE_e_def bytes_up_run del: bytes_up.simps)
qed

definition lts_e_15 :: "(byte \<times> byte) list" where
  "lts_e_15 = [
    (0x39, 0x21), (0x3a, 0x21), (0x3b, 0x21), (0x3c, 0x21), (0x3d, 0x21), (0x3e, 0x21), (0x3f, 0x21), (0x40, 0x21), (0x41, 0x21), (0x42, 0x21),
    (0x43, 0x21), (0x44, 0x21), (0x45, 0x21), (0x46, 0x21), (0x47, 0x21), (0x48, 0x21), (0x49, 0x21), (0x4a, 0x21), (0x4b, 0x21), (0x4c, 0x21),
    (0x4d, 0x21), (0x4e, 0x21), (0x4f, 0x21), (0x50, 0x21), (0x51, 0x21), (0x52, 0x21), (0x53, 0x21), (0x54, 0x21), (0x55, 0x21), (0x56, 0x21),
    (0x57, 0x21), (0x58, 0x21), (0x59, 0x21), (0x5a, 0x21), (0x5b, 0x21), (0x5c, 0x21), (0x5d, 0x21), (0x5e, 0x21), (0x5f, 0x21), (0x60, 0x21),
    (0x61, 0x21), (0x62, 0x21), (0x63, 0x21), (0x64, 0x21), (0x65, 0x21), (0x66, 0x21), (0x67, 0x21), (0x68, 0x21), (0x69, 0x21), (0x6a, 0x21),
    (0x6b, 0x21), (0x6c, 0x21), (0x6d, 0x21), (0x6e, 0x21), (0x6f, 0x21), (0x70, 0x21), (0x71, 0x21), (0x72, 0x21), (0x73, 0x21), (0x74, 0x21),
    (0x75, 0x21), (0x76, 0x21), (0x77, 0x21), (0x78, 0x21), (0x79, 0x21), (0x7a, 0x21), (0x7b, 0x21), (0x7c, 0x21), (0x7d, 0x21), (0x7e, 0x21),
    (0x7f, 0x21), (0x80, 0x21), (0x81, 0x21), (0x82, 0x21), (0x83, 0x21), (0x84, 0x21), (0x85, 0x21), (0x86, 0x21), (0x87, 0x21), (0x88, 0x21),
    (0x89, 0x21), (0x8a, 0x21), (0x8b, 0x21), (0x8c, 0x21), (0x8d, 0x21), (0x8e, 0x21), (0x8f, 0x21), (0x90, 0x21), (0x91, 0x21), (0x92, 0x21),
    (0x93, 0x21), (0x94, 0x21), (0x95, 0x21), (0x96, 0x21), (0x97, 0x21), (0x98, 0x21), (0x99, 0x21), (0x9a, 0x21), (0x9b, 0x21), (0x9c, 0x21),
    (0x9d, 0x21), (0x9e, 0x21), (0x9f, 0x21), (0xa0, 0x21), (0xa1, 0x21), (0xa2, 0x21), (0xa3, 0x21), (0xa4, 0x21), (0xa5, 0x21), (0xa6, 0x21),
    (0xa7, 0x21), (0xa8, 0x21), (0xa9, 0x21), (0xaa, 0x21), (0xab, 0x21), (0xac, 0x21), (0xad, 0x21), (0xae, 0x21), (0xaf, 0x21), (0xb0, 0x21),
    (0xb1, 0x21), (0xb2, 0x21), (0xb3, 0x21), (0xb4, 0x21), (0xb5, 0x21), (0xb6, 0x21), (0xb7, 0x21), (0xb8, 0x21), (0xb9, 0x21), (0xba, 0x21),
    (0xbb, 0x21), (0xbc, 0x21), (0xbd, 0x21), (0xbe, 0x21), (0xbf, 0x21), (0xc0, 0x21), (0xc1, 0x21), (0xc2, 0x21), (0xc3, 0x21), (0xc4, 0x21),
    (0xc5, 0x21), (0xc6, 0x21), (0xc7, 0x21), (0xc8, 0x21), (0xc9, 0x21), (0xca, 0x21), (0xcb, 0x21), (0xcc, 0x21), (0xcd, 0x21), (0xce, 0x21)]"

lemma lts_e_15_run [lts_run]: "table_run LTS_STATE_e 2250 lts_e_15 2400"
proof -
  have run: "lts_e_15 = bytes_up 150 0x39 0x21"
    by (simp add: lts_e_15_def bytes_up_numeral)
  show ?thesis by (simp add: run LTS_STATE_e_def bytes_up_run del: bytes_up.simps)
qed

definition lts_e_16 :: "(byte \<times> byte) list" where
  "lts_e_16 = [
    (0xcf, 0x21), (0xd0, 0x21), (0xd1, 0x21), (0xd2, 0x21), (0xd3, 0x21), (0xd4, 0x21), (0xd5, 0x21), (0xd6, 0x21), (0xd7, 0x21), (0xd8, 0x21),
    (0xd9, 0x21), (0xda, 0x21), (0xdb, 0x21), (0xdc, 0x21), (0xdd, 0x21), (0xde, 0x21), (0xdf, 0x21), (0xe0, 0x21), (0xe1, 0x21), (0xe2, 0x21),
    (0xe3, 0x21), (0xe4, 0x21), (0xe5, 0x21), (0xe6, 0x21), (0xe7, 0x21), (0xe8, 0x21), (0xe9, 0x21), (0xea, 0x21), (0xeb, 0x21), (0xec, 0x21),
    (0xed, 0x21), (0xee, 0x21), (0xef, 0x21), (0xf0, 0x21), (0xf1, 0x21), (0xf2, 0x21), (0xf3, 0x21), (0xf4, 0x21), (0xf5, 0x21), (0xf6, 0x21),
    (0xf7, 0x21), (0xf8, 0x21), (0xf9, 0x21), (0xfa, 0x21), (0xfb, 0x21), (0xfc, 0x21), (0xfd, 0x21), (0xfe, 0x21), (0xff, 0x21), (0, 0x22),
    (1, 0x22), (0x2, 0x22), (0x3, 0x22), (0x4, 0x22), (0x5, 0x22), (0x6, 0x22), (0x7, 0x22), (0x8, 0x22), (0x9, 0x22), (0xa, 0x22),
    (0xb, 0x22), (0xc, 0x22), (0xd, 0x22), (0xe, 0x22), (0xf, 0x22), (0x10, 0x22), (0x11, 0x22), (0x12, 0x22), (0x13, 0x22), (0x14, 0x22),
    (0x15, 0x22), (0x16, 0x22), (0x17, 0x22), (0x18, 0x22), (0x19, 0x22), (0x1a, 0x22), (0x1b, 0x22), (0x1c, 0x22), (0x1d, 0x22), (0x1e, 0x22),
    (0x1f, 0x22), (0x20, 0x22), (0x21, 0x22), (0x22, 0x22), (0x23, 0x22), (0x24, 0x22), (0x25, 0x22), (0x26, 0x22), (0x27, 0x22), (0x28, 0x22),
    (0x29, 0x22), (0x2a, 0x22), (0x2b, 0x22), (0x2c, 0x22), (0x2d, 0x22), (0x2e, 0x22), (0x2f, 0x22), (0x30, 0x22), (0x31, 0x22), (0x32, 0x22),
    (0x33, 0x22), (0x34, 0x22), (0x35, 0x22), (0x36, 0x22), (0x37, 0x22), (0x38, 0x22), (0x39, 0x22), (0x3a, 0x22), (0x3b, 0x22), (0x3c, 0x22),
    (0x3d, 0x22), (0x3e, 0x22), (0x3f, 0x22), (0x40, 0x22), (0x41, 0x22), (0x42, 0x22), (0x43, 0x22), (0x44, 0x22), (0x45, 0x22), (0x46, 0x22),
    (0x47, 0x22), (0x48, 0x22), (0x49, 0x22), (0x4a, 0x22), (0x4b, 0x22), (0x4c, 0x22), (0x4d, 0x22), (0x4e, 0x22), (0x4f, 0x22), (0x50, 0x22),
    (0x51, 0x22), (0x52, 0x22), (0x53, 0x22), (0x54, 0x22), (0x55, 0x22), (0x56, 0x22), (0x57, 0x22), (0x58, 0x22), (0x59, 0x22), (0x5a, 0x22),
    (0x5b, 0x22), (0x5c, 0x22), (0x5d, 0x22), (0x5e, 0x22), (0x5f, 0x22), (0x60, 0x22), (0x61, 0x22), (0x62, 0x22), (0x63, 0x22), (0x64, 0x22)]"

lemma lts_e_16_run [lts_run]: "table_run LTS_STATE_e 2400 lts_e_16 2550"
proof -
  have run: "lts_e_16 = bytes_up 49 0xcf 0x21 @ bytes_up 101 0 0x22"
    by (simp add: lts_e_16_def bytes_up_numeral)
  show ?thesis by (simp add: run LTS_STATE_e_def bytes_up_run del: bytes_up.simps)
qed

definition lts_e_17 :: "(byte \<times> byte) list" where
  "lts_e_17 = [
    (0x65, 0x22), (0x66, 0x22), (0x67, 0x22), (0x68, 0x22), (0x69, 0x22), (0x6a, 0x22), (0x6b, 0x22), (0x6c, 0x22), (0x6d, 0x22), (0x6e, 0x22),
    (0x6f, 0x22), (0x70, 0x22), (0x71, 0x22), (0x72, 0x22), (0x73, 0x22), (0x74, 0x22), (0x75, 0x22), (0x76, 0x22), (0x77, 0x22), (0x78, 0x22),
    (0x79, 0x22), (0x7a, 0x22), (0x7b, 0x22), (0x7c, 0x22), (0x7d, 0x22), (0x7e, 0x22), (0x7f, 0x22), (0x80, 0x22), (0x81, 0x22), (0x82, 0x22),
    (0x83, 0x22), (0x84, 0x22), (0x85, 0x22), (0x86, 0x22), (0x87, 0x22), (0x88, 0x22), (0x89, 0x22), (0x8a, 0x22), (0x8b, 0x22), (0x8c, 0x22),
    (0x8d, 0x22), (0x8e, 0x22), (0x8f, 0x22), (0x90, 0x22), (0x91, 0x22), (0x92, 0x22), (0x93, 0x22), (0x94, 0x22), (0x95, 0x22), (0x96, 0x22),
    (0x97, 0x22), (0x98, 0x22), (0x99, 0x22), (0x9a, 0x22), (0x9b, 0x22), (0x9c, 0x22), (0x9d, 0x22), (0x9e, 0x22), (0x9f, 0x22), (0xa0, 0x22),
    (0xa1, 0x22), (0xa2, 0x22), (0xa3, 0x22), (0xa4, 0x22), (0xa5, 0x22), (0xa6, 0x22), (0xa7, 0x22), (0xa8, 0x22), (0xa9, 0x22), (0xaa, 0x22),
    (0xab, 0x22), (0xac, 0x22), (0xad, 0x22), (0xae, 0x22), (0xaf, 0x22), (0xb0, 0x22), (0xb1, 0x22), (0xb2, 0x22), (0xb3, 0x22), (0xb4, 0x22),
    (0xb5, 0x22), (0xb6, 0x22), (0xb7, 0x22), (0xb8, 0x22), (0xb9, 0x22), (0xba, 0x22), (0xbb, 0x22), (0xbc, 0x22), (0xbd, 0x22), (0xbe, 0x22),
    (0xbf, 0x22), (0xc0, 0x22), (0xc1, 0x22), (0xc2, 0x22), (0xc3, 0x22), (0xc4, 0x22), (0xc5, 0x22), (0xc6, 0x22), (0xc7, 0x22), (0xc8, 0x22),
    (0xc9, 0x22), (0xca, 0x22), (0xcb, 0x22), (0xcc, 0x22), (0xcd, 0x22), (0xce, 0x22), (0xcf, 0x22), (0xd0, 0x22), (0xd1, 0x22), (0xd2, 0x22),
    (0xd3, 0x22), (0xd4, 0x22), (0xd5, 0x22), (0xd6, 0x22), (0xd7, 0x22), (0xd8, 0x22), (0xd9, 0x22), (0xda, 0x22), (0xdb, 0x22), (0xdc, 0x22),
    (0xdd, 0x22), (0xde, 0x22), (0xdf, 0x22), (0xe0, 0x22), (0xe1, 0x22), (0xe2, 0x22), (0xe3, 0x22), (0xe4, 0x22), (0xe5, 0x22), (0xe6, 0x22),
    (0xe7, 0x22), (0xe8, 0x22), (0xe9, 0x22), (0xea, 0x22), (0xeb, 0x22), (0xec, 0x22), (0xed, 0x22), (0xee, 0x22), (0xef, 0x22), (0xf0, 0x22),
    (0xf1, 0x22), (0xf2, 0x22), (0xf3, 0x22), (0xf4, 0x22), (0xf5, 0x22), (0xf6, 0x22), (0xf7, 0x22), (0xf8, 0x22), (0xf9, 0x22), (0xfa, 0x22)]"

lemma lts_e_17_run [lts_run]: "table_run LTS_STATE_e 2550 lts_e_17 2700"
proof -
  have run: "lts_e_17 = bytes_up 150 0x65 0x22"
    by (simp add: lts_e_17_def bytes_up_numeral)
  show ?thesis by (simp add: run LTS_STATE_e_def bytes_up_run del: bytes_up.simps)
qed

definition lts_e_18 :: "(byte \<times> byte) list" where
  "lts_e_18 = [
    (0xfb, 0x22), (0xfc, 0x22), (0xfd, 0x22), (0xfe, 0x22), (0xff, 0x22), (0, 0x23), (1, 0x23), (0x2, 0x23), (0x3, 0x23), (0x4, 0x23),
    (0x5, 0x23), (0x6, 0x23), (0x7, 0x23), (0x8, 0x23), (0x9, 0x23), (0xa, 0x23), (0xb, 0x23), (0xc, 0x23), (0xd, 0x23), (0xe, 0x23),
    (0xf, 0x23), (0x10, 0x23), (0x11, 0x23), (0x12, 0x23), (0x13, 0x23), (0x14, 0x23), (0x15, 0x23), (0x16, 0x23), (0x17, 0x23), (0x18, 0x23),
    (0x19, 0x23), (0x1a, 0x23), (0x1b, 0x23), (0x1c, 0x23), (0x1d, 0x23), (0x1e, 0x23), (0x1f, 0x23), (0x20, 0x23), (0x21, 0x23), (0x22, 0x23),
    (0x23, 0x23), (0x24, 0x23), (0x25, 0x23), (0x26, 0x23), (0x27, 0x23), (0x28, 0x23), (0x29, 0x23), (0x2a, 0x23), (0x2b, 0x23), (0x2c, 0x23),
    (0x2d, 0x23), (0x2e, 0x23), (0x2f, 0x23), (0x30, 0x23), (0x31, 0x23), (0x32, 0x23), (0x33, 0x23), (0x34, 0x23), (0x35, 0x23), (0x36, 0x23),
    (0x37, 0x23), (0x38, 0x23), (0x39, 0x23), (0x3a, 0x23), (0x3b, 0x23), (0x3c, 0x23), (0x3d, 0x23), (0x3e, 0x23), (0x3f, 0x23), (0x40, 0x23),
    (0x41, 0x23), (0x42, 0x23), (0x43, 0x23), (0x44, 0x23), (0x45, 0x23), (0x46, 0x23), (0x47, 0x23), (0x48, 0x23), (0x49, 0x23), (0x4a, 0x23),
    (0x4b, 0x23), (0x4c, 0x23), (0x4d, 0x23), (0x4e, 0x23), (0x4f, 0x23), (0x50, 0x23), (0x51, 0x23), (0x52, 0x23), (0x53, 0x23), (0x54, 0x23),
    (0x55, 0x23), (0x56, 0x23), (0x57, 0x23), (0x58, 0x23), (0x59, 0x23), (0x5a, 0x23), (0x5b, 0x23), (0x5c, 0x23), (0x5d, 0x23), (0x5e, 0x23),
    (0x5f, 0x23), (0x60, 0x23), (0x61, 0x23), (0x62, 0x23), (0x63, 0x23), (0x64, 0x23), (0x65, 0x23), (0x66, 0x23), (0x67, 0x23), (0x68, 0x23),
    (0x69, 0x23), (0x6a, 0x23), (0x6b, 0x23), (0x6c, 0x23), (0x6d, 0x23), (0x6e, 0x23), (0x6f, 0x23), (0x70, 0x23), (0x71, 0x23), (0x72, 0x23),
    (0x73, 0x23), (0x74, 0x23), (0x75, 0x23), (0x76, 0x23), (0x77, 0x23), (0x78, 0x23), (0x79, 0x23), (0x7a, 0x23), (0x7b, 0x23), (0x7c, 0x23),
    (0x7d, 0x23), (0x7e, 0x23), (0x7f, 0x23), (0x80, 0x23), (0x81, 0x23), (0x82, 0x23), (0x83, 0x23), (0x84, 0x23), (0x85, 0x23), (0x86, 0x23),
    (0x87, 0x23), (0x88, 0x23), (0x89, 0x23), (0x8a, 0x23), (0x8b, 0x23), (0x8c, 0x23), (0x8d, 0x23), (0x8e, 0x23), (0x8f, 0x23), (0x90, 0x23)]"

lemma lts_e_18_run [lts_run]: "table_run LTS_STATE_e 2700 lts_e_18 2850"
proof -
  have run: "lts_e_18 = bytes_up 5 0xfb 0x22 @ bytes_up 145 0 0x23"
    by (simp add: lts_e_18_def bytes_up_numeral)
  show ?thesis by (simp add: run LTS_STATE_e_def bytes_up_run del: bytes_up.simps)
qed

definition lts_e_19 :: "(byte \<times> byte) list" where
  "lts_e_19 = [
    (0x91, 0x23), (0x92, 0x23), (0x93, 0x23), (0x94, 0x23), (0x95, 0x23), (0x96, 0x23), (0x97, 0x23), (0x98, 0x23), (0x99, 0x23), (0x9a, 0x23),
    (0x9b, 0x23), (0x9c, 0x23), (0x9d, 0x23), (0x9e, 0x23), (0x9f, 0x23), (0xa0, 0x23), (0xa1, 0x23), (0xa2, 0x23), (0xa3, 0x23), (0xa4, 0x23),
    (0xa5, 0x23), (0xa6, 0x23), (0xa7, 0x23), (0xa8, 0x23), (0xa9, 0x23), (0xaa, 0x23), (0xab, 0x23), (0xac, 0x23), (0xad, 0x23), (0xae, 0x23),
    (0xaf, 0x23), (0xb0, 0x23), (0xb1, 0x23), (0xb2, 0x23), (0xb3, 0x23), (0xb4, 0x23), (0xb5, 0x23), (0xb6, 0x23), (0xb7, 0x23), (0xb8, 0x23),
    (0xb9, 0x23), (0xba, 0x23), (0xbb, 0x23), (0xbc, 0x23), (0xbd, 0x23), (0xbe, 0x23), (0xbf, 0x23), (0xc0, 0x23), (0xc1, 0x23), (0xc2, 0x23),
    (0xc3, 0x23), (0xc4, 0x23), (0xc5, 0x23), (0xc6, 0x23), (0xc7, 0x23), (0xc8, 0x23), (0xc9, 0x23), (0xca, 0x23), (0xcb, 0x23), (0xcc, 0x23),
    (0xcd, 0x23), (0xce, 0x23), (0xcf, 0x23), (0xd0, 0x23), (0xd1, 0x23), (0xd2, 0x23), (0xd3, 0x23), (0xd4, 0x23), (0xd5, 0x23), (0xd6, 0x23),
    (0xd7, 0x23), (0xd8, 0x23), (0xd9, 0x23), (0xda, 0x23), (0xdb, 0x23), (0xdc, 0x23), (0xdd, 0x23), (0xde, 0x23), (0xdf, 0x23), (0xe0, 0x23),
    (0xe1, 0x23), (0xe2, 0x23), (0xe3, 0x23), (0xe4, 0x23), (0xe5, 0x23), (0xe6, 0x23), (0xe7, 0x23), (0xe8, 0x23), (0xe9, 0x23), (0xea, 0x23),
    (0xeb, 0x23), (0xec, 0x23), (0xed, 0x23), (0xee, 0x23), (0xef, 0x23), (0xf0, 0x23), (0xf1, 0x23), (0xf2, 0x23), (0xf3, 0x23), (0xf4, 0x23),
    (0xf5, 0x23), (0xf6, 0x23), (0xf7, 0x23), (0xf8, 0x23), (0xf9, 0x23), (0xfa, 0x23), (0xfb, 0x23), (0xfc, 0x23), (0xfd, 0x23), (0xfe, 0x23),
    (0xff, 0x23), (0, 0x24), (1, 0x24), (0x2, 0x24), (0x3, 0x24), (0x4, 0x24), (0x5, 0x24), (0x6, 0x24), (0x7, 0x24), (0x8, 0x24),
    (0x9, 0x24), (0xa, 0x24), (0xb, 0x24), (0xc, 0x24), (0xd, 0x24), (0xe, 0x24), (0xf, 0x24), (0x10, 0x24), (0x11, 0x24), (0x12, 0x24),
    (0x13, 0x24), (0x14, 0x24), (0x15, 0x24), (0x16, 0x24), (0x17, 0x24), (0x18, 0x24), (0x19, 0x24), (0x1a, 0x24), (0x1b, 0x24), (0x1c, 0x24),
    (0x1d, 0x24), (0x1e, 0x24), (0x1f, 0x24), (0x20, 0x24), (0x21, 0x24), (0x22, 0x24), (0x23, 0x24), (0x24, 0x24), (0x25, 0x24), (0x26, 0x24)]"

lemma lts_e_19_run [lts_run]: "table_run LTS_STATE_e 2850 lts_e_19 3000"
proof -
  have run: "lts_e_19 = bytes_up 111 0x91 0x23 @ bytes_up 39 0 0x24"
    by (simp add: lts_e_19_def bytes_up_numeral)
  show ?thesis by (simp add: run LTS_STATE_e_def bytes_up_run del: bytes_up.simps)
qed

definition lts_e_20 :: "(byte \<times> byte) list" where
  "lts_e_20 = [
    (0x27, 0x24), (0x28, 0x24), (0x29, 0x24), (0x2a, 0x24), (0x2b, 0x24), (0x2c, 0x24), (0x2d, 0x24), (0x2e, 0x24), (0x2f, 0x24), (0x30, 0x24),
    (0x31, 0x24), (0x32, 0x24), (0x33, 0x24), (0x34, 0x24), (0x35, 0x24), (0x36, 0x24), (0x37, 0x24), (0x38, 0x24), (0x39, 0x24), (0x3a, 0x24),
    (0x3b, 0x24), (0x3c, 0x24), (0x3d, 0x24), (0x3e, 0x24), (0x3f, 0x24), (0x40, 0x24), (0x41, 0x24), (0x42, 0x24), (0x43, 0x24), (0x44, 0x24),
    (0x45, 0x24), (0x46, 0x24), (0x47, 0x24), (0x48, 0x24), (0x49, 0x24), (0x4a, 0x24), (0x4b, 0x24), (0x4c, 0x24), (0x4d, 0x24), (0x4e, 0x24),
    (0x4f, 0x24), (0x50, 0x24), (0x51, 0x24), (0x52, 0x24), (0x53, 0x24), (0x54, 0x24), (0x55, 0x24), (0x56, 0x24), (0x57, 0x24), (0x58, 0x24),
    (0x59, 0x24), (0x5a, 0x24), (0x5b, 0x24), (0x5c, 0x24), (0x5d, 0x24), (0x5e, 0x24), (0x5f, 0x24), (0x60, 0x24), (0x61, 0x24), (0x62, 0x24),
    (0x63, 0x24), (0x64, 0x24), (0x65, 0x24), (0x66, 0x24), (0x67, 0x24), (0x68, 0x24), (0x69, 0x24), (0x6a, 0x24), (0x6b, 0x24), (0x6c, 0x24),
    (0x6d, 0x24), (0x6e, 0x24), (0x6f, 0x24), (0x70, 0x24), (0x71, 0x24), (0x72, 0x24), (0x73, 0x24), (0x74, 0x24), (0x75, 0x24), (0x76, 0x24),
    (0x77, 0x24), (0x78, 0x24), (0x79, 0x24), (0x7a, 0x24), (0x7b, 0x24), (0x7c, 0x24), (0x7d, 0x24), (0x7e, 0x24), (0x7f, 0x24), (0x80, 0x24),
    (0x81, 0x24), (0x82, 0x24), (0x83, 0x24), (0x84, 0x24), (0x85, 0x24), (0x86, 0x24), (0x87, 0x24), (0x88, 0x24), (0x89, 0x24), (0x8a, 0x24),
    (0x8b, 0x24), (0x8c, 0x24), (0x8d, 0x24), (0x8e, 0x24), (0x8f, 0x24), (0x90, 0x24), (0x91, 0x24), (0x92, 0x24), (0x93, 0x24), (0x94, 0x24),
    (0x95, 0x24), (0x96, 0x24), (0x97, 0x24), (0x98, 0x24), (0x99, 0x24), (0x9a, 0x24), (0x9b, 0x24), (0x9c, 0x24), (0x9d, 0x24), (0x9e, 0x24),
    (0x9f, 0x24), (0xa0, 0x24), (0xa1, 0x24), (0xa2, 0x24), (0xa3, 0x24), (0xa4, 0x24), (0xa5, 0x24), (0xa6, 0x24), (0xa7, 0x24), (0xa8, 0x24),
    (0xa9, 0x24), (0xaa, 0x24), (0xab, 0x24), (0xac, 0x24), (0xad, 0x24), (0xae, 0x24), (0xaf, 0x24), (0xb0, 0x24), (0xb1, 0x24), (0xb2, 0x24),
    (0xb3, 0x24), (0xb4, 0x24), (0xb5, 0x24), (0xb6, 0x24), (0xb7, 0x24), (0xb8, 0x24), (0xb9, 0x24), (0xba, 0x24), (0xbb, 0x24), (0xbc, 0x24)]"

lemma lts_e_20_run [lts_run]: "table_run LTS_STATE_e 3000 lts_e_20 3150"
proof -
  have run: "lts_e_20 = bytes_up 150 0x27 0x24"
    by (simp add: lts_e_20_def bytes_up_numeral)
  show ?thesis by (simp add: run LTS_STATE_e_def bytes_up_run del: bytes_up.simps)
qed

definition lts_e_21 :: "(byte \<times> byte) list" where
  "lts_e_21 = [
    (0xbd, 0x24), (0xbe, 0x24), (0xbf, 0x24), (0xc0, 0x24), (0xc1, 0x24), (0xc2, 0x24), (0xc3, 0x24), (0xc4, 0x24), (0xc5, 0x24), (0xc6, 0x24),
    (0xc7, 0x24), (0xc8, 0x24), (0xc9, 0x24), (0xca, 0x24), (0xcb, 0x24), (0xcc, 0x24), (0xcd, 0x24), (0xce, 0x24), (0xcf, 0x24), (0xd0, 0x24),
    (0xd1, 0x24), (0xd2, 0x24), (0xd3, 0x24), (0xd4, 0x24), (0xd5, 0x24), (0xd6, 0x24), (0xd7, 0x24), (0xd8, 0x24), (0xd9, 0x24), (0xda, 0x24),
    (0xdb, 0x24), (0xdc, 0x24), (0xdd, 0x24), (0xde, 0x24), (0xdf, 0x24), (0xe0, 0x24), (0xe1, 0x24), (0xe2, 0x24), (0xe3, 0x24), (0xe4, 0x24),
    (0xe5, 0x24), (0xe6, 0x24), (0xe7, 0x24), (0xe8, 0x24), (0xe9, 0x24), (0xea, 0x24), (0xeb, 0x24), (0xec, 0x24), (0xed, 0x24), (0xee, 0x24),
    (0xef, 0x24), (0xf0, 0x24), (0xf1, 0x24), (0xf2, 0x24), (0xf3, 0x24), (0xf4, 0x24), (0xf5, 0x24), (0xf6, 0x24), (0xf7, 0x24), (0xf8, 0x24),
    (0xf9, 0x24), (0xfa, 0x24), (0xfb, 0x24), (0xfc, 0x24), (0xfd, 0x24), (0xfe, 0x24), (0xff, 0x24), (0, 0x25), (1, 0x25), (0x2, 0x25),
    (0x3, 0x25), (0x4, 0x25), (0x5, 0x25), (0x6, 0x25), (0x7, 0x25), (0x8, 0x25), (0x9, 0x25), (0xa, 0x25), (0xb, 0x25), (0xc, 0x25),
    (0xd, 0x25), (0xe, 0x25), (0xf, 0x25), (0x10, 0x25), (0x11, 0x25), (0x12, 0x25), (0x13, 0x25), (0x14, 0x25), (0x15, 0x25), (0x16, 0x25),
    (0x17, 0x25), (0x18, 0x25), (0x19, 0x25), (0x1a, 0x25), (0x1b, 0x25), (0x1c, 0x25), (0x1d, 0x25), (0x1e, 0x25), (0x1f, 0x25), (0x20, 0x25),
    (0x21, 0x25), (0x22, 0x25), (0x23, 0x25), (0x24, 0x25), (0x25, 0x25), (0x26, 0x25), (0x27, 0x25), (0x28, 0x25), (0x29, 0x25), (0x2a, 0x25),
    (0x2b, 0x25), (0x2c, 0x25), (0x2d, 0x25), (0x2e, 0x25), (0x2f, 0x25), (0x30, 0x25), (0x31, 0x25), (0x32, 0x25), (0x33, 0x25), (0x34, 0x25),
    (0x35, 0x25), (0x36, 0x25), (0x37, 0x25), (0x38, 0x25), (0x39, 0x25), (0x3a, 0x25), (0x3b, 0x25), (0x3c, 0x25), (0x3d, 0x25), (0x3e, 0x25),
    (0x3f, 0x25), (0x40, 0x25), (0x41, 0x25), (0x42, 0x25), (0x43, 0x25), (0x44, 0x25), (0x45, 0x25), (0x46, 0x25), (0x47, 0x25), (0x48, 0x25),
    (0x49, 0x25), (0x4a, 0x25), (0x4b, 0x25), (0x4c, 0x25), (0x4d, 0x25), (0x4e, 0x25), (0x4f, 0x25), (0x50, 0x25), (0x51, 0x25), (0x52, 0x25)]"

lemma lts_e_21_run [lts_run]: "table_run LTS_STATE_e 3150 lts_e_21 3300"
proof -
  have run: "lts_e_21 = bytes_up 67 0xbd 0x24 @ bytes_up 83 0 0x25"
    by (simp add: lts_e_21_def bytes_up_numeral)
  show ?thesis by (simp add: run LTS_STATE_e_def bytes_up_run del: bytes_up.simps)
qed

definition lts_e_22 :: "(byte \<times> byte) list" where
  "lts_e_22 = [
    (0x53, 0x25), (0x54, 0x25), (0x55, 0x25), (0x56, 0x25), (0x57, 0x25), (0x58, 0x25), (0x59, 0x25), (0x5a, 0x25), (0x5b, 0x25), (0x5c, 0x25),
    (0x5d, 0x25), (0x5e, 0x25), (0x5f, 0x25), (0x60, 0x25), (0x61, 0x25), (0x62, 0x25), (0x63, 0x25), (0x64, 0x25), (0x65, 0x25), (0x66, 0x25),
    (0x67, 0x25), (0x68, 0x25), (0x69, 0x25), (0x6a, 0x25), (0x6b, 0x25), (0x6c, 0x25), (0x6d, 0x25), (0x6e, 0x25), (0x6f, 0x25), (0x70, 0x25),
    (0x71, 0x25), (0x72, 0x25), (0x73, 0x25), (0x74, 0x25), (0x75, 0x25), (0x76, 0x25), (0x77, 0x25), (0x78, 0x25), (0x79, 0x25), (0x7a, 0x25),
    (0x7b, 0x25), (0x7c, 0x25), (0x7d, 0x25), (0x7e, 0x25), (0x7f, 0x25), (0x80, 0x25), (0x81, 0x25), (0x82, 0x25), (0x83, 0x25), (0x84, 0x25),
    (0x85, 0x25), (0x86, 0x25), (0x87, 0x25), (0x88, 0x25), (0x89, 0x25), (0x8a, 0x25), (0x8b, 0x25), (0x8c, 0x25), (0x8d, 0x25), (0x8e, 0x25),
    (0x8f, 0x25), (0x90, 0x25), (0x91, 0x25), (0x92, 0x25), (0x93, 0x25), (0x94, 0x25), (0x95, 0x25), (0x96, 0x25), (0x97, 0x25), (0x98, 0x25),
    (0x99, 0x25), (0x9a, 0x25), (0x9b, 0x25), (0x9c, 0x25), (0x9d, 0x25), (0x9e, 0x25), (0x9f, 0x25), (0xa0, 0x25), (0xa1, 0x25), (0xa2, 0x25),
    (0xa3, 0x25), (0xa4, 0x25), (0xa5, 0x25), (0xa6, 0x25), (0xa7, 0x25), (0xa8, 0x25), (0xa9, 0x25), (0xaa, 0x25), (0xab, 0x25), (0xac, 0x25),
    (0xad, 0x25), (0xae, 0x25), (0xaf, 0x25), (0xb0, 0x25), (0xb1, 0x25), (0xb2, 0x25), (0xb3, 0x25), (0xb4, 0x25), (0xb5, 0x25), (0xb6, 0x25),
    (0xb7, 0x25), (0xb8, 0x25), (0xb9, 0x25), (0xba, 0x25), (0xbb, 0x25), (0xbc, 0x25), (0xbd, 0x25), (0xbe, 0x25), (0xbf, 0x25), (0xc0, 0x25),
    (0xc1, 0x25), (0xc2, 0x25), (0xc3, 0x25), (0xc4, 0x25), (0xc5, 0x25), (0xc6, 0x25), (0xc7, 0x25), (0xc8, 0x25), (0xc9, 0x25), (0xca, 0x25),
    (0xcb, 0x25), (0xcc, 0x25), (0xcd, 0x25), (0xce, 0x25), (0xcf, 0x25), (0xd0, 0x25), (0xd1, 0x25), (0xd2, 0x25), (0xd3, 0x25), (0xd4, 0x25),
    (0xd5, 0x25), (0xd6, 0x25), (0xd7, 0x25), (0xd8, 0x25), (0xd9, 0x25), (0xda, 0x25), (0xdb, 0x25), (0xdc, 0x25), (0xdd, 0x25), (0xde, 0x25),
    (0xdf, 0x25), (0xe0, 0x25), (0xe1, 0x25), (0xe2, 0x25), (0xe3, 0x25), (0xe4, 0x25), (0xe5, 0x25), (0xe6, 0x25), (0xe7, 0x25), (0xe8, 0x25)]"

lemma lts_e_22_run [lts_run]: "table_run LTS_STATE_e 3300 lts_e_22 3450"
proof -
  have run: "lts_e_22 = bytes_up 150 0x53 0x25"
    by (simp add: lts_e_22_def bytes_up_numeral)
  show ?thesis by (simp add: run LTS_STATE_e_def bytes_up_run del: bytes_up.simps)
qed

definition lts_e_23 :: "(byte \<times> byte) list" where
  "lts_e_23 = [
    (0xe9, 0x25), (0xea, 0x25), (0xeb, 0x25), (0xec, 0x25), (0xed, 0x25), (0xee, 0x25), (0xef, 0x25), (0xf0, 0x25), (0xf1, 0x25), (0xf2, 0x25),
    (0xf3, 0x25), (0xf4, 0x25), (0xf5, 0x25), (0xf6, 0x25), (0xf7, 0x25), (0xf8, 0x25), (0xf9, 0x25), (0xfa, 0x25), (0xfb, 0x25), (0xfc, 0x25),
    (0xfd, 0x25), (0xfe, 0x25), (0xff, 0x25), (0, 0x26), (1, 0x26), (0x2, 0x26), (0x3, 0x26), (0x4, 0x26), (0x5, 0x26), (0x6, 0x26),
    (0x7, 0x26), (0x8, 0x26), (0x9, 0x26), (0xa, 0x26), (0xb, 0x26), (0xc, 0x26), (0xd, 0x26), (0xe, 0x26), (0xf, 0x26), (0x10, 0x26),
    (0x11, 0x26), (0x12, 0x26), (0x13, 0x26), (0x14, 0x26), (0x15, 0x26), (0x16, 0x26), (0x17, 0x26), (0x18, 0x26), (0x19, 0x26), (0x1a, 0x26),
    (0x1b, 0x26), (0x1c, 0x26), (0x1d, 0x26), (0x1e, 0x26), (0x1f, 0x26), (0x20, 0x26), (0x21, 0x26), (0x22, 0x26), (0x23, 0x26), (0x24, 0x26),
    (0x25, 0x26), (0x26, 0x26), (0x27, 0x26), (0x28, 0x26), (0x29, 0x26), (0x2a, 0x26), (0x2b, 0x26), (0x2c, 0x26), (0x2d, 0x26), (0x2e, 0x26),
    (0x2f, 0x26), (0x30, 0x26), (0x31, 0x26), (0x32, 0x26), (0x33, 0x26), (0x34, 0x26), (0x35, 0x26), (0x36, 0x26), (0x37, 0x26), (0x38, 0x26),
    (0x39, 0x26), (0x3a, 0x26), (0x3b, 0x26), (0x3c, 0x26), (0x3d, 0x26), (0x3e, 0x26), (0x3f, 0x26), (0x40, 0x26), (0x41, 0x26), (0x42, 0x26),
    (0x43, 0x26), (0x44, 0x26), (0x45, 0x26), (0x46, 0x26), (0x47, 0x26), (0x48, 0x26), (0x49, 0x26), (0x4a, 0x26), (0x4b, 0x26), (0x4c, 0x26),
    (0x4d, 0x26), (0x4e, 0x26), (0x4f, 0x26), (0x50, 0x26), (0x51, 0x26), (0x52, 0x26), (0x53, 0x26), (0x54, 0x26), (0x55, 0x26), (0x56, 0x26),
    (0x57, 0x26), (0x58, 0x26), (0x59, 0x26), (0x5a, 0x26), (0x5b, 0x26), (0x5c, 0x26), (0x5d, 0x26), (0x5e, 0x26), (0x5f, 0x26), (0x60, 0x26),
    (0x61, 0x26), (0x62, 0x26), (0x63, 0x26), (0x64, 0x26), (0x65, 0x26), (0x66, 0x26), (0x67, 0x26), (0x68, 0x26), (0x69, 0x26), (0x6a, 0x26),
    (0x6b, 0x26), (0x6c, 0x26), (0x6d, 0x26), (0x6e, 0x26), (0x6f, 0x26), (0x70, 0x26), (0x71, 0x26), (0x72, 0x26), (0x73, 0x26), (0x74, 0x26),
    (0x75, 0x26), (0x76, 0x26), (0x77, 0x26), (0x78, 0x26), (0x79, 0x26), (0x7a, 0x26), (0x7b, 0x26), (0x7c, 0x26), (0x7d, 0x26), (0x7e, 0x26)]"

lemma lts_e_23_run [lts_run]: "table_run LTS_STATE_e 3450 lts_e_23 3600"
proof -
  have run: "lts_e_23 = bytes_up 23 0xe9 0x25 @ bytes_up 127 0 0x26"
    by (simp add: lts_e_23_def bytes_up_numeral)
  show ?thesis by (simp add: run LTS_STATE_e_def bytes_up_run del: bytes_up.simps)
qed

definition lts_e_24 :: "(byte \<times> byte) list" where
  "lts_e_24 = [
    (0x7f, 0x26), (0x80, 0x26), (0x81, 0x26), (0x82, 0x26), (0x83, 0x26), (0x84, 0x26), (0x85, 0x26), (0x86, 0x26), (0x87, 0x26), (0x88, 0x26),
    (0x89, 0x26), (0x8a, 0x26), (0x8b, 0x26), (0x8c, 0x26), (0x8d, 0x26), (0x8e, 0x26), (0x8f, 0x26), (0x90, 0x26), (0x91, 0x26), (0x92, 0x26),
    (0x93, 0x26), (0x94, 0x26), (0x95, 0x26), (0x96, 0x26), (0x97, 0x26), (0x98, 0x26), (0x99, 0x26), (0x9a, 0x26), (0x9b, 0x26), (0x9c, 0x26),
    (0x9d, 0x26), (0x9e, 0x26), (0x9f, 0x26), (0xa0, 0x26), (0xa1, 0x26), (0xa2, 0x26), (0xa3, 0x26), (0xa4, 0x26), (0xa5, 0x26), (0xa6, 0x26),
    (0xa7, 0x26), (0xa8, 0x26), (0xa9, 0x26), (0xaa, 0x26), (0xab, 0x26), (0xac, 0x26), (0xad, 0x26), (0xae, 0x26), (0xaf, 0x26), (0xb0, 0x26),
    (0xb1, 0x26), (0xb2, 0x26), (0xb3, 0x26), (0xb4, 0x26), (0xb5, 0x26), (0xb6, 0x26), (0xb7, 0x26), (0xb8, 0x26), (0xb9, 0x26), (0xba, 0x26),
    (0xbb, 0x26), (0xbc, 0x26), (0xbd, 0x26), (0xbe, 0x26), (0xbf, 0x26), (0xc0, 0x26), (0xc1, 0x26), (0xc2, 0x26), (0xc3, 0x26), (0xc4, 0x26),
    (0xc5, 0x26), (0xc6, 0x26), (0xc7, 0x26), (0xc8, 0x26), (0xc9, 0x26), (0xca, 0x26), (0xcb, 0x26), (0xcc, 0x26), (0xcd, 0x26), (0xce, 0x26),
    (0xcf, 0x26), (0xd0, 0x26), (0xd1, 0x26), (0xd2, 0x26), (0xd3, 0x26), (0xd4, 0x26), (0xd5, 0x26), (0xd6, 0x26), (0xd7, 0x26), (0xd8, 0x26),
    (0xd9, 0x26), (0xda, 0x26), (0xdb, 0x26), (0xdc, 0x26), (0xdd, 0x26), (0xde, 0x26), (0xdf, 0x26), (0xe0, 0x26), (0xe1, 0x26), (0xe2, 0x26),
    (0xe3, 0x26), (0xe4, 0x26), (0xe5, 0x26), (0xe6, 0x26), (0xe7, 0x26), (0xe8, 0x26), (0xe9, 0x26), (0xea, 0x26), (0xeb, 0x26), (0xec, 0x26),
    (0xed, 0x26), (0xee, 0x26), (0xef, 0x26), (0xf0, 0x26), (0xf1, 0x26), (0xf2, 0x26), (0xf3, 0x26), (0xf4, 0x26), (0xf5, 0x26), (0xf6, 0x26),
    (0xf7, 0x26), (0xf8, 0x26), (0xf9, 0x26), (0xfa, 0x26), (0xfb, 0x26), (0xfc, 0x26), (0xfd, 0x26), (0xfe, 0x26), (0xff, 0x26), (0, 0x27),
    (1, 0x27), (0x2, 0x27), (0x3, 0x27), (0x4, 0x27), (0x5, 0x27), (0x6, 0x27), (0x7, 0x27), (0x8, 0x27), (0x9, 0x27), (0xa, 0x27),
    (0xb, 0x27), (0xc, 0x27), (0xd, 0x27), (0xe, 0x27), (0xf, 0x27), (0x10, 0x27), (0x11, 0x27), (0x12, 0x27), (0x13, 0x27), (0x14, 0x27)]"

lemma lts_e_24_run [lts_run]: "table_run LTS_STATE_e 3600 lts_e_24 3750"
proof -
  have run: "lts_e_24 = bytes_up 129 0x7f 0x26 @ bytes_up 21 0 0x27"
    by (simp add: lts_e_24_def bytes_up_numeral)
  show ?thesis by (simp add: run LTS_STATE_e_def bytes_up_run del: bytes_up.simps)
qed

definition lts_e_25 :: "(byte \<times> byte) list" where
  "lts_e_25 = [
    (0x15, 0x27), (0x16, 0x27), (0x17, 0x27), (0x18, 0x27), (0x19, 0x27), (0x1a, 0x27), (0x1b, 0x27), (0x1c, 0x27), (0x1d, 0x27), (0x1e, 0x27),
    (0x1f, 0x27), (0x20, 0x27), (0x21, 0x27), (0x22, 0x27), (0x23, 0x27), (0x24, 0x27), (0x25, 0x27), (0x26, 0x27), (0x27, 0x27), (0x28, 0x27),
    (0x29, 0x27), (0x2a, 0x27), (0x2b, 0x27), (0x2c, 0x27), (0x2d, 0x27), (0x2e, 0x27), (0x2f, 0x27), (0x30, 0x27), (0x31, 0x27), (0x32, 0x27),
    (0x33, 0x27), (0x34, 0x27), (0x35, 0x27), (0x36, 0x27), (0x37, 0x27), (0x38, 0x27), (0x39, 0x27), (0x3a, 0x27), (0x3b, 0x27), (0x3c, 0x27),
    (0x3d, 0x27), (0x3e, 0x27), (0x3f, 0x27), (0x40, 0x27), (0x41, 0x27), (0x42, 0x27), (0x43, 0x27), (0x44, 0x27), (0x45, 0x27), (0x46, 0x27),
    (0x47, 0x27), (0x48, 0x27), (0x49, 0x27), (0x4a, 0x27), (0x4b, 0x27), (0x4c, 0x27), (0x4d, 0x27), (0x4e, 0x27), (0x4f, 0x27), (0x50, 0x27),
    (0x51, 0x27), (0x52, 0x27), (0x53, 0x27), (0x54, 0x27), (0x55, 0x27), (0x56, 0x27), (0x57, 0x27), (0x58, 0x27), (0x59, 0x27), (0x5a, 0x27),
    (0x5b, 0x27), (0x5c, 0x27), (0x5d, 0x27), (0x5e, 0x27), (0x5f, 0x27), (0x60, 0x27), (0x61, 0x27), (0x62, 0x27), (0x63, 0x27), (0x64, 0x27),
    (0x65, 0x27), (0x66, 0x27), (0x67, 0x27), (0x68, 0x27), (0x69, 0x27), (0x6a, 0x27), (0x6b, 0x27), (0x6c, 0x27), (0x6d, 0x27), (0x6e, 0x27),
    (0x6f, 0x27), (0x70, 0x27), (0x71, 0x27), (0x72, 0x27), (0x73, 0x27), (0x74, 0x27), (0x75, 0x27), (0x76, 0x27), (0x77, 0x27), (0x78, 0x27),
    (0x79, 0x27), (0x7a, 0x27), (0x7b, 0x27), (0x7c, 0x27), (0x7d, 0x27), (0x7e, 0x27), (0x7f, 0x27), (0x80, 0x27), (0x81, 0x27), (0x82, 0x27),
    (0x83, 0x27), (0x84, 0x27), (0x85, 0x27), (0x86, 0x27), (0x87, 0x27), (0x88, 0x27), (0x89, 0x27), (0x8a, 0x27), (0x8b, 0x27), (0x8c, 0x27),
    (0x8d, 0x27), (0x8e, 0x27), (0x8f, 0x27), (0x90, 0x27), (0x91, 0x27), (0x92, 0x27), (0x93, 0x27), (0x94, 0x27), (0x95, 0x27), (0x96, 0x27),
    (0x97, 0x27), (0x98, 0x27), (0x99, 0x27), (0x9a, 0x27), (0x9b, 0x27), (0x9c, 0x27), (0x9d, 0x27), (0x9e, 0x27), (0x9f, 0x27), (0xa0, 0x27),
    (0xa1, 0x27), (0xa2, 0x27), (0xa3, 0x27), (0xa4, 0x27), (0xa5, 0x27), (0xa6, 0x27), (0xa7, 0x27), (0xa8, 0x27), (0xa9, 0x27), (0xaa, 0x27)]"

lemma lts_e_25_run [lts_run]: "table_run LTS_STATE_e 3750 lts_e_25 3900"
proof -
  have run: "lts_e_25 = bytes_up 150 0x15 0x27"
    by (simp add: lts_e_25_def bytes_up_numeral)
  show ?thesis by (simp add: run LTS_STATE_e_def bytes_up_run del: bytes_up.simps)
qed

definition lts_e_26 :: "(byte \<times> byte) list" where
  "lts_e_26 = [
    (0xab, 0x27), (0xac, 0x27), (0xad, 0x27), (0xae, 0x27), (0xaf, 0x27), (0xb0, 0x27), (0xb1, 0x27), (0xb2, 0x27), (0xb3, 0x27), (0xb4, 0x27),
    (0xb5, 0x27), (0xb6, 0x27), (0xb7, 0x27), (0xb8, 0x27), (0xb9, 0x27), (0xba, 0x27), (0xbb, 0x27), (0xbc, 0x27), (0xbd, 0x27), (0xbe, 0x27),
    (0xbf, 0x27), (0xc0, 0x27), (0xc1, 0x27), (0xc2, 0x27), (0xc3, 0x27), (0xc4, 0x27), (0xc5, 0x27), (0xc6, 0x27), (0xc7, 0x27), (0xc8, 0x27),
    (0xc9, 0x27), (0xca, 0x27), (0xcb, 0x27), (0xcc, 0x27), (0xcd, 0x27), (0xce, 0x27), (0xcf, 0x27), (0xd0, 0x27), (0xd1, 0x27), (0xd2, 0x27),
    (0xd3, 0x27), (0xd4, 0x27), (0xd5, 0x27), (0xd6, 0x27), (0xd7, 0x27), (0xd8, 0x27), (0xd9, 0x27), (0xda, 0x27), (0xdb, 0x27), (0xdc, 0x27),
    (0xdd, 0x27), (0xde, 0x27), (0xdf, 0x27), (0xe0, 0x27), (0xe1, 0x27), (0xe2, 0x27), (0xe3, 0x27), (0xe4, 0x27), (0xe5, 0x27), (0xe6, 0x27),
    (0xe7, 0x27), (0xe8, 0x27), (0xe9, 0x27), (0xea, 0x27), (0xeb, 0x27), (0xec, 0x27), (0xed, 0x27), (0xee, 0x27), (0xef, 0x27), (0xf0, 0x27),
    (0xf1, 0x27), (0xf2, 0x27), (0xf3, 0x27), (0xf4, 0x27), (0xf5, 0x27), (0xf6, 0x27), (0xf7, 0x27), (0xf8, 0x27), (0xf9, 0x27), (0xfa, 0x27),
    (0xfb, 0x27), (0xfc, 0x27), (0xfd, 0x27), (0xfe, 0x27), (0xff, 0x27), (0, 0x28), (1, 0x28), (0x2, 0x28), (0x3, 0x28), (0x4, 0x28),
    (0x5, 0x28), (0x6, 0x28), (0x7, 0x28), (0x8, 0x28), (0x9, 0x28), (0xa, 0x28), (0xb, 0x28), (0xc, 0x28), (0xd, 0x28), (0xe, 0x28),
    (0xf, 0x28), (0x10, 0x28), (0x11, 0x28), (0x12, 0x28), (0x13, 0x28), (0x14, 0x28), (0x15, 0x28), (0x16, 0x28), (0x17, 0x28), (0x18, 0x28),
    (0x19, 0x28), (0x1a, 0x28), (0x1b, 0x28), (0x1c, 0x28), (0x1d, 0x28), (0x1e, 0x28), (0x1f, 0x28), (0x20, 0x28), (0x21, 0x28), (0x22, 0x28),
    (0x23, 0x28), (0x24, 0x28), (0x25, 0x28), (0x26, 0x28), (0x27, 0x28), (0x28, 0x28), (0x29, 0x28), (0x2a, 0x28), (0x2b, 0x28), (0x2c, 0x28),
    (0x2d, 0x28), (0x2e, 0x28), (0x2f, 0x28), (0x30, 0x28), (0x31, 0x28), (0x32, 0x28), (0x33, 0x28), (0x34, 0x28), (0x35, 0x28), (0x36, 0x28),
    (0x37, 0x28), (0x38, 0x28), (0x39, 0x28), (0x3a, 0x28), (0x3b, 0x28), (0x3c, 0x28), (0x3d, 0x28), (0x3e, 0x28), (0x3f, 0x28), (0x40, 0x28)]"

lemma lts_e_26_run [lts_run]: "table_run LTS_STATE_e 3900 lts_e_26 4050"
proof -
  have run: "lts_e_26 = bytes_up 85 0xab 0x27 @ bytes_up 65 0 0x28"
    by (simp add: lts_e_26_def bytes_up_numeral)
  show ?thesis by (simp add: run LTS_STATE_e_def bytes_up_run del: bytes_up.simps)
qed

definition lts_e_27 :: "(byte \<times> byte) list" where
  "lts_e_27 = [
    (0x41, 0x28), (0x42, 0x28), (0x43, 0x28), (0x44, 0x28), (0x45, 0x28), (0x46, 0x28), (0x47, 0x28), (0x48, 0x28), (0x49, 0x28), (0x4a, 0x28),
    (0x4b, 0x28), (0x4c, 0x28), (0x4d, 0x28), (0x4e, 0x28), (0x4f, 0x28), (0x50, 0x28), (0x51, 0x28), (0x52, 0x28), (0x53, 0x28), (0x54, 0x28),
    (0x55, 0x28), (0x56, 0x28), (0x57, 0x28), (0x58, 0x28), (0x59, 0x28), (0x5a, 0x28), (0x5b, 0x28), (0x5c, 0x28), (0x5d, 0x28), (0x5e, 0x28),
    (0x5f, 0x28), (0x60, 0x28), (0x61, 0x28), (0x62, 0x28), (0x63, 0x28), (0x64, 0x28), (0x65, 0x28), (0x66, 0x28), (0x67, 0x28), (0x68, 0x28),
    (0x69, 0x28), (0x6a, 0x28), (0x6b, 0x28), (0x6c, 0x28), (0x6d, 0x28), (0x6e, 0x28), (0x6f, 0x28), (0x70, 0x28), (0x71, 0x28), (0x72, 0x28),
    (0x73, 0x28), (0x74, 0x28), (0x75, 0x28), (0x76, 0x28), (0x77, 0x28), (0x78, 0x28), (0x79, 0x28), (0x7a, 0x28), (0x7b, 0x28), (0x7c, 0x28),
    (0x7d, 0x28), (0x7e, 0x28), (0x7f, 0x28), (0x80, 0x28), (0x81, 0x28), (0x82, 0x28), (0x83, 0x28), (0x84, 0x28), (0x85, 0x28), (0x86, 0x28),
    (0x87, 0x28), (0x88, 0x28), (0x89, 0x28), (0x8a, 0x28), (0x8b, 0x28), (0x8c, 0x28), (0x8d, 0x28), (0x8e, 0x28), (0x8f, 0x28), (0x90, 0x28),
    (0x91, 0x28), (0x92, 0x28), (0x93, 0x28), (0x94, 0x28), (0x95, 0x28), (0x96, 0x28), (0x97, 0x28), (0x98, 0x28), (0x99, 0x28), (0x9a, 0x28),
    (0x9b, 0x28), (0x9c, 0x28), (0x9d, 0x28), (0x9e, 0x28), (0x9f, 0x28), (0xa0, 0x28), (0xa1, 0x28), (0xa2, 0x28), (0xa3, 0x28), (0xa4, 0x28),
    (0xa5, 0x28), (0xa6, 0x28), (0xa7, 0x28), (0xa8, 0x28), (0xa9, 0x28), (0xaa, 0x28), (0xab, 0x28), (0xac, 0x28), (0xad, 0x28), (0xae, 0x28),
    (0xaf, 0x28), (0xb0, 0x28), (0xb1, 0x28), (0xb2, 0x28), (0xb3, 0x28), (0xb4, 0x28), (0xb5, 0x28), (0xb6, 0x28), (0xb7, 0x28), (0xb8, 0x28),
    (0xb9, 0x28), (0xba, 0x28), (0xbb, 0x28), (0xbc, 0x28), (0xbd, 0x28), (0xbe, 0x28), (0xbf, 0x28), (0xc0, 0x28), (0xc1, 0x28), (0xc2, 0x28),
    (0xc3, 0x28), (0xc4, 0x28), (0xc5, 0x28), (0xc6, 0x28), (0xc7, 0x28), (0xc8, 0x28), (0xc9, 0x28), (0xca, 0x28), (0xcb, 0x28), (0xcc, 0x28),
    (0xcd, 0x28), (0xce, 0x28), (0xcf, 0x28), (0xd0, 0x28), (0xd1, 0x28), (0xd2, 0x28), (0xd3, 0x28), (0xd4, 0x28), (0xd5, 0x28), (0xd6, 0x28)]"

lemma lts_e_27_run [lts_run]: "table_run LTS_STATE_e 4050 lts_e_27 4200"
proof -
  have run: "lts_e_27 = bytes_up 150 0x41 0x28"
    by (simp add: lts_e_27_def bytes_up_numeral)
  show ?thesis by (simp add: run LTS_STATE_e_def bytes_up_run del: bytes_up.simps)
qed

definition lts_e_28 :: "(byte \<times> byte) list" where
  "lts_e_28 = [
    (0xd7, 0x28), (0xd8, 0x28), (0xd9, 0x28), (0xda, 0x28), (0xdb, 0x28), (0xdc, 0x28), (0xdd, 0x28), (0xde, 0x28), (0xdf, 0x28), (0xe0, 0x28),
    (0xe1, 0x28), (0xe2, 0x28), (0xe3, 0x28), (0xe4, 0x28), (0xe5, 0x28), (0xe6, 0x28), (0xe7, 0x28), (0xe8, 0x28), (0xe9, 0x28), (0xea, 0x28),
    (0xeb, 0x28), (0xec, 0x28), (0xed, 0x28), (0xee, 0x28), (0xef, 0x28), (0xf0, 0x28), (0xf1, 0x28), (0xf2, 0x28), (0xf3, 0x28), (0xf4, 0x28),
    (0xf5, 0x28), (0xf6, 0x28), (0xf7, 0x28), (0xf8, 0x28), (0xf9, 0x28), (0xfa, 0x28), (0xfb, 0x28), (0xfc, 0x28), (0xfd, 0x28), (0xfe, 0x28),
    (0xff, 0x28), (0, 0x29), (1, 0x29), (0x2, 0x29), (0x3, 0x29), (0x4, 0x29), (0x5, 0x29), (0x6, 0x29), (0x7, 0x29), (0x8, 0x29),
    (0x9, 0x29), (0xa, 0x29), (0xb, 0x29), (0xc, 0x29), (0xd, 0x29), (0xe, 0x29), (0xf, 0x29), (0x10, 0x29), (0x11, 0x29), (0x12, 0x29),
    (0x13, 0x29), (0x14, 0x29), (0x15, 0x29), (0x16, 0x29), (0x17, 0x29), (0x18, 0x29), (0x19, 0x29), (0x1a, 0x29), (0x1b, 0x29), (0x1c, 0x29),
    (0x1d, 0x29), (0x1e, 0x29), (0x1f, 0x29), (0x20, 0x29), (0x21, 0x29), (0x22, 0x29), (0x23, 0x29), (0x24, 0x29), (0x25, 0x29), (0x26, 0x29),
    (0x27, 0x29), (0x28, 0x29), (0x29, 0x29), (0x2a, 0x29), (0x2b, 0x29), (0x2c, 0x29), (0x2d, 0x29), (0x2e, 0x29), (0x2f, 0x29), (0x30, 0x29),
    (0x31, 0x29), (0x32, 0x29), (0x33, 0x29), (0x34, 0x29), (0x35, 0x29), (0x36, 0x29), (0x37, 0x29), (0x38, 0x29), (0x39, 0x29), (0x3a, 0x29),
    (0x3b, 0x29), (0x3c, 0x29), (0x3d, 0x29), (0x3e, 0x29), (0x3f, 0x29), (0x40, 0x29), (0x41, 0x29), (0x42, 0x29), (0x43, 0x29), (0x44, 0x29),
    (0x45, 0x29), (0x46, 0x29), (0x47, 0x29), (0x48, 0x29), (0x49, 0x29), (0x4a, 0x29), (0x4b, 0x29), (0x4c, 0x29), (0x4d, 0x29), (0x4e, 0x29),
    (0x4f, 0x29), (0x50, 0x29), (0x51, 0x29), (0x52, 0x29), (0x53, 0x29), (0x54, 0x29), (0x55, 0x29), (0x56, 0x29), (0x57, 0x29), (0x58, 0x29),
    (0x59, 0x29), (0x5a, 0x29), (0x5b, 0x29), (0x5c, 0x29), (0x5d, 0x29), (0x5e, 0x29), (0x5f, 0x29), (0x60, 0x29), (0x61, 0x29), (0x62, 0x29),
    (0x63, 0x29), (0x64, 0x29), (0x65, 0x29), (0x66, 0x29), (0x67, 0x29), (0x68, 0x29), (0x69, 0x29), (0x6a, 0x29), (0x6b, 0x29), (0x6c, 0x29)]"

lemma lts_e_28_run [lts_run]: "table_run LTS_STATE_e 4200 lts_e_28 4350"
proof -
  have run: "lts_e_28 = bytes_up 41 0xd7 0x28 @ bytes_up 109 0 0x29"
    by (simp add: lts_e_28_def bytes_up_numeral)
  show ?thesis by (simp add: run LTS_STATE_e_def bytes_up_run del: bytes_up.simps)
qed

definition lts_e_29 :: "(byte \<times> byte) list" where
  "lts_e_29 = [
    (0x6d, 0x29), (0x6e, 0x29), (0x6f, 0x29), (0x70, 0x29), (0x71, 0x29), (0x72, 0x29), (0x73, 0x29), (0x74, 0x29), (0x75, 0x29), (0x76, 0x29),
    (0x77, 0x29), (0x78, 0x29), (0x79, 0x29), (0x7a, 0x29), (0x7b, 0x29), (0x7c, 0x29), (0x7d, 0x29), (0x7e, 0x29), (0x7f, 0x29), (0x80, 0x29),
    (0x81, 0x29), (0x82, 0x29), (0x83, 0x29), (0x84, 0x29), (0x85, 0x29), (0x86, 0x29), (0x87, 0x29), (0x88, 0x29), (0x89, 0x29), (0x8a, 0x29),
    (0x8b, 0x29), (0x8c, 0x29), (0x8d, 0x29), (0x8e, 0x29), (0x8f, 0x29), (0x90, 0x29), (0x91, 0x29), (0x92, 0x29), (0x93, 0x29), (0x94, 0x29),
    (0x95, 0x29), (0x96, 0x29), (0x97, 0x29), (0x98, 0x29)]"

lemma lts_e_29_run [lts_run]: "table_run LTS_STATE_e 4350 lts_e_29 4394"
proof -
  have run: "lts_e_29 = bytes_up 44 0x6d 0x29"
    by (simp add: lts_e_29_def bytes_up_numeral)
  show ?thesis by (simp add: run LTS_STATE_e_def bytes_up_run del: bytes_up.simps)
qed

definition lts_table_e :: "(byte \<times> byte) list" where
  "lts_table_e = concat [
     lts_e_0, lts_e_1, lts_e_2, lts_e_3, lts_e_4, lts_e_5, lts_e_6, lts_e_7, lts_e_8, lts_e_9, lts_e_10, lts_e_11,
     lts_e_12, lts_e_13, lts_e_14, lts_e_15, lts_e_16, lts_e_17, lts_e_18, lts_e_19, lts_e_20, lts_e_21, lts_e_22, lts_e_23,
     lts_e_24, lts_e_25, lts_e_26, lts_e_27, lts_e_28, lts_e_29]"

lemma lts_table_e_run: "table_run LTS_STATE_e 0 lts_table_e 4394"
  unfolding lts_table_e_def by (rule table_run_nil | rule table_run_concat, rule lts_run)+

lemma lts_table_e_entries [lts_tables]: "entry_at lts_table_e = LTS_STATE_e"
  by (rule table_run_entry [OF lts_table_e_run LTS_STATE_e_def])

section \<open>Letter f\<close>

definition lts_f_0 :: "(byte \<times> byte) list" where
  "lts_f_0 = [
    (0x99, 0x29), (0x9a, 0x29), (0x9b, 0x29), (0x9c, 0x29), (0x9d, 0x29), (0x9e, 0x29), (0x9f, 0x29), (0xa0, 0x29), (0xa0, 0x29), (0xa1, 0x29),
    (0xa2, 0x29), (0xa3, 0x29), (0xa4, 0x29), (0xa5, 0x29), (0xa6, 0x29), (0xa7, 0x29), (0xa8, 0x29), (0xa9, 0x29)]"

lemma lts_f_0_run [lts_run]: "table_run LTS_STATE_f 0 lts_f_0 18"
proof -
  have run: "lts_f_0 = bytes_up 8 0x99 0x29 @ bytes_up 10 0xa0 0x29"
    by (simp add: lts_f_0_def bytes_up_numeral)
  show ?thesis by (simp add: run LTS_STATE_f_def bytes_up_run del: bytes_up.simps)
qed

definition lts_table_f :: "(byte \<times> byte) list" where
  "lts_table_f = concat [
     lts_f_0]"

lemma lts_table_f_run: "table_run LTS_STATE_f 0 lts_table_f 18"
  unfolding lts_table_f_def by (rule table_run_nil | rule table_run_concat, rule lts_run)+

lemma lts_table_f_entries [lts_tables]: "entry_at lts_table_f = LTS_STATE_f"
  by (rule table_run_entry [OF lts_table_f_run LTS_STATE_f_def])

section \<open>Letter g\<close>

definition lts_g_0 :: "(byte \<times> byte) list" where
  "lts_g_0 = [
    (0xaa, 0x29), (0xab, 0x29), (0xac, 0x29), (0xad, 0x29), (0xae, 0x29), (0xaf, 0x29), (0xb0, 0x29), (0xb1, 0x29), (0xb2, 0x29), (0xb3, 0x29),
    (0xb4, 0x29), (0xb5, 0x29), (0xb6, 0x29), (0xb6, 0x29), (0xb7, 0x29), (0xb8, 0x29), (0xb9, 0x29), (0xba, 0x29), (0xbb, 0x29), (0xbc, 0x29),
    (0xbd, 0x29), (0xbe, 0x29), (0xbf, 0x29), (0xc0, 0x29), (0xc1, 0x29), (0xc2, 0x29), (0xc3, 0x29), (0xc4, 0x29), (0xc5, 0x29), (0xc6, 0x29),
    (0xc7, 0x29), (0xc8, 0x29), (0xc9, 0x29), (0xca, 0x29), (0xcb, 0x29), (0xcc, 0x29), (0xcd, 0x29), (0xce, 0x29), (0xcf, 0x29), (0xd0, 0x29),
    (0xd1, 0x29), (0xd2, 0x29), (0xd3, 0x29), (0xd4, 0x29), (0xd5, 0x29), (0xd6, 0x29), (0xd7, 0x29), (0xd8, 0x29), (0xd9, 0x29), (0xda, 0x29),
    (0xdb, 0x29), (0xdc, 0x29), (0xdd, 0x29), (0xde, 0x29), (0xdf, 0x29), (0xe0, 0x29), (0xe1, 0x29), (0xe2, 0x29), (0xe3, 0x29), (0xe4, 0x29),
    (0xe5, 0x29), (0xe6, 0x29), (0xe7, 0x29), (0xe8, 0x29), (0xe9, 0x29), (0xea, 0x29), (0xeb, 0x29), (0xec, 0x29), (0xed, 0x29), (0xee, 0x29),
    (0xef, 0x29), (0xf0, 0x29), (0xf1, 0x29), (0xf2, 0x29), (0xf3, 0x29), (0xf4, 0x29), (0xf5, 0x29), (0xf6, 0x29), (0xf7, 0x29), (0xf8, 0x29),
    (0xf9, 0x29), (0xfa, 0x29), (0xfb, 0x29), (0xfc, 0x29), (0xfd, 0x29), (0xfe, 0x29), (0xff, 0x29), (0, 0x2a), (1, 0x2a), (0x2, 0x2a),
    (0x3, 0x2a), (0x4, 0x2a), (0x5, 0x2a), (0x6, 0x2a), (0x7, 0x2a), (0x8, 0x2a), (0x9, 0x2a), (0xa, 0x2a), (0xb, 0x2a), (0xc, 0x2a),
    (0xd, 0x2a), (0xe, 0x2a), (0xf, 0x2a), (0x10, 0x2a), (0x11, 0x2a), (0x12, 0x2a), (0x13, 0x2a), (0x14, 0x2a), (0x15, 0x2a), (0x16, 0x2a),
    (0x17, 0x2a), (0x18, 0x2a), (0x19, 0x2a), (0x1a, 0x2a), (0x1b, 0x2a), (0x1c, 0x2a), (0x1d, 0x2a), (0x1e, 0x2a), (0x1f, 0x2a), (0x20, 0x2a),
    (0x21, 0x2a), (0x22, 0x2a), (0x23, 0x2a), (0x24, 0x2a), (0x25, 0x2a), (0x26, 0x2a), (0x27, 0x2a), (0x28, 0x2a), (0x29, 0x2a), (0x2a, 0x2a),
    (0x2b, 0x2a), (0x2c, 0x2a), (0x2d, 0x2a), (0x2e, 0x2a), (0x2f, 0x2a), (0x30, 0x2a), (0x31, 0x2a), (0x32, 0x2a), (0x33, 0x2a), (0x34, 0x2a),
    (0x35, 0x2a), (0x36, 0x2a), (0x37, 0x2a), (0x38, 0x2a), (0x39, 0x2a), (0x3a, 0x2a), (0x3b, 0x2a), (0x3c, 0x2a), (0x3d, 0x2a), (0x3e, 0x2a)]"

lemma lts_g_0_run [lts_run]: "table_run LTS_STATE_g 0 lts_g_0 150"
proof -
  have run: "lts_g_0 = bytes_up 13 0xaa 0x29 @ bytes_up 74 0xb6 0x29 @ bytes_up 63 0 0x2a"
    by (simp add: lts_g_0_def bytes_up_numeral)
  show ?thesis by (simp add: run LTS_STATE_g_def bytes_up_run del: bytes_up.simps)
qed

definition lts_g_1 :: "(byte \<times> byte) list" where
  "lts_g_1 = [
    (0x3f, 0x2a), (0x40, 0x2a), (0x41, 0x2a), (0x42, 0x2a), (0x43, 0x2a), (0x44, 0x2a), (0x45, 0x2a), (0x46, 0x2a), (0x47, 0x2a), (0x48, 0x2a),
    (0x49, 0x2a), (0x4a, 0x2a), (0x4b, 0x2a), (0x4c, 0x2a), (0x4d, 0x2a), (0x4e, 0x2a), (0x4f, 0x2a), (0x50, 0x2a), (0x51, 0x2a), (0x52, 0x2a),
    (0x53, 0x2a), (0x54, 0x2a), (0x55, 0x2a), (0x56, 0x2a), (0x57, 0x2a), (0x58, 0x2a), (0x59, 0x2a), (0x5a, 0x2a), (0x5b, 0x2a), (0x5c, 0x2a),
    (0x5d, 0x2a), (0x5e, 0x2a), (0x5f, 0x2a), (0x60, 0x2a), (0x61, 0x2a), (0x62, 0x2a), (0x63, 0x2a), (0x64, 0x2a), (0x65, 0x2a), (0x66, 0x2a),
    (0x67, 0x2a), (0x68, 0x2a), (0x69, 0x2a), (0x6a, 0x2a), (0x6b, 0x2a), (0x6c, 0x2a), (0x6d, 0x2a), (0x6e, 0x2a), (0x6f, 0x2a), (0x70, 0x2a),
    (0x71, 0x2a), (0x72, 0x2a), (0x73, 0x2a), (0x74, 0x2a), (0x75, 0x2a), (0x76, 0x2a), (0x77, 0x2a), (0x78, 0x2a), (0x79, 0x2a), (0x7a, 0x2a),
    (0x7b, 0x2a), (0x7c, 0x2a), (0x7d, 0x2a), (0x7e, 0x2a), (0x7f, 0x2a), (0x80, 0x2a), (0x81, 0x2a), (0x82, 0x2a), (0x83, 0x2a), (0x84, 0x2a),
    (0x85, 0x2a), (0x86, 0x2a), (0x87, 0x2a), (0x88, 0x2a), (0x89, 0x2a), (0x8a, 0x2a), (0x8b, 0x2a), (0x8c, 0x2a), (0x8d, 0x2a), (0x8e, 0x2a),
    (0x8f, 0x2a), (0x90, 0x2a), (0x91, 0x2a), (0x92, 0x2a), (0x93, 0x2a), (0x94, 0x2a), (0x95, 0x2a), (0x96, 0x2a), (0x97, 0x2a), (0x98, 0x2a),
    (0x99, 0x2a), (0x9a, 0x2a), (0x9b, 0x2a), (0x9c, 0x2a), (0x9d, 0x2a), (0x9e, 0x2a), (0x9f, 0x2a), (0xa0, 0x2a), (0xa1, 0x2a), (0xa2, 0x2a),
    (0xa3, 0x2a), (0xa4, 0x2a), (0xa5, 0x2a), (0xa6, 0x2a), (0xa7, 0x2a), (0xa8, 0x2a), (0xa9, 0x2a), (0xaa, 0x2a), (0xab, 0x2a), (0xac, 0x2a),
    (0xad, 0x2a), (0xae, 0x2a), (0xaf, 0x2a), (0xb0, 0x2a), (0xb1, 0x2a), (0xb2, 0x2a), (0xb3, 0x2a), (0xb4, 0x2a), (0xb5, 0x2a), (0xb6, 0x2a),
    (0xb7, 0x2a), (0xb8, 0x2a), (0xb9, 0x2a), (0xba, 0x2a), (0xbb, 0x2a), (0xbc, 0x2a), (0xbd, 0x2a), (0xbe, 0x2a), (0xbf, 0x2a), (0xc0, 0x2a),
    (0xc1, 0x2a), (0xc2, 0x2a), (0xc3, 0x2a), (0xc4, 0x2a), (0xc5, 0x2a), (0xc6, 0x2a), (0xc7, 0x2a), (0xc8, 0x2a), (0xc9, 0x2a), (0xca, 0x2a),
    (0xcb, 0x2a), (0xcc, 0x2a), (0xcd, 0x2a), (0xce, 0x2a), (0xcf, 0x2a), (0xd0, 0x2a), (0xd1, 0x2a), (0xd2, 0x2a), (0xd3, 0x2a), (0xd4, 0x2a)]"

lemma lts_g_1_run [lts_run]: "table_run LTS_STATE_g 150 lts_g_1 300"
proof -
  have run: "lts_g_1 = bytes_up 150 0x3f 0x2a"
    by (simp add: lts_g_1_def bytes_up_numeral)
  show ?thesis by (simp add: run LTS_STATE_g_def bytes_up_run del: bytes_up.simps)
qed

definition lts_g_2 :: "(byte \<times> byte) list" where
  "lts_g_2 = [
    (0xd5, 0x2a), (0xd6, 0x2a), (0xd7, 0x2a), (0xd8, 0x2a), (0xd9, 0x2a), (0xda, 0x2a), (0xdb, 0x2a), (0xdc, 0x2a), (0xdd, 0x2a), (0xde, 0x2a),
    (0xdf, 0x2a), (0xe0, 0x2a), (0xe1, 0x2a), (0xe2, 0x2a), (0xe3, 0x2a), (0xe4, 0x2a), (0xe5, 0x2a), (0xe6, 0x2a), (0xe7, 0x2a), (0xe8, 0x2a),
    (0xe9, 0x2a), (0xea, 0x2a), (0xeb, 0x2a), (0xec, 0x2a), (0xed, 0x2a), (0xee, 0x2a), (0xef, 0x2a), (0xf0, 0x2a), (0xf1, 0x2a), (0xf2, 0x2a),
    (0xf3, 0x2a), (0xf4, 0x2a), (0xf5, 0x2a), (0xf6, 0x2a), (0xf7, 0x2a), (0xf8, 0x2a), (0xf9, 0x2a), (0xfa, 0x2a), (0xfb, 0x2a), (0xfc, 0x2a),
    (0xfd, 0x2a), (0xfe, 0x2a), (0xff, 0x2a), (0, 0x2b), (1, 0x2b), (0x2, 0x2b), (0x3, 0x2b), (0x4, 0x2b), (0x5, 0x2b), (0x6, 0x2b),
    (0x7, 0x2b), (0x8, 0x2b), (0x9, 0x2b), (0xa, 0x2b), (0xb, 0x2b), (0xc, 0x2b), (0xd, 0x2b), (0xe, 0x2b), (0xf, 0x2b), (0x10, 0x2b),
    (0x11, 0x2b), (0x12, 0x2b), (0x13, 0x2b), (0x14, 0x2b), (0x15, 0x2b), (0x16, 0x2b), (0x17, 0x2b), (0x18, 0x2b), (0x19, 0x2b), (0x1a, 0x2b),
    (0x1b, 0x2b), (0x1c, 0x2b), (0x1d, 0x2b), (0x1e, 0x2b), (0x1f, 0x2b), (0x20, 0x2b), (0x21, 0x2b), (0x22, 0x2b), (0x23, 0x2b), (0x24, 0x2b),
    (0x25, 0x2b), (0x26, 0x2b), (0x27, 0x2b), (0x28, 0x2b), (0x29, 0x2b), (0x2a, 0x2b), (0x2b, 0x2b), (0x2c, 0x2b), (0x2d, 0x2b), (0x2e, 0x2b),
    (0x2f, 0x2b), (0x30, 0x2b), (0x31, 0x2b), (0x32, 0x2b), (0x33, 0x2b), (0x34, 0x2b), (0x35, 0x2b), (0x36, 0x2b), (0x37, 0x2b), (0x38, 0x2b),
    (0x39, 0x2b), (0x3a, 0x2b), (0x3b, 0x2b), (0x3c, 0x2b), (0x3d, 0x2b), (0x3e, 0x2b), (0x3f, 0x2b), (0x40, 0x2b), (0x41, 0x2b), (0x42, 0x2b),
    (0x43, 0x2b), (0x44, 0x2b), (0x45, 0x2b), (0x46, 0x2b), (0x47, 0x2b), (0x48, 0x2b), (0x49, 0x2b), (0x4a, 0x2b), (0x4b, 0x2b), (0x4c, 0x2b),
    (0x4d, 0x2b), (0x4e, 0x2b), (0x4f, 0x2b), (0x50, 0x2b), (0x51, 0x2b), (0x52, 0x2b), (0x53, 0x2b), (0x54, 0x2b), (0x55, 0x2b), (0x56, 0x2b),
    (0x57, 0x2b), (0x58, 0x2b), (0x59, 0x2b), (0x5a, 0x2b), (0x5b, 0x2b), (0x5c, 0x2b), (0x5d, 0x2b), (0x5e, 0x2b), (0x5f, 0x2b), (0x60, 0x2b),
    (0x61, 0x2b), (0x62, 0x2b), (0x63, 0x2b), (0x64, 0x2b), (0x65, 0x2b), (0x66, 0x2b), (0x67, 0x2b), (0x68, 0x2b), (0x69, 0x2b), (0x6a, 0x2b)]"

lemma lts_g_2_run [lts_run]: "table_run LTS_STATE_g 300 lts_g_2 450"
proof -
  have run: "lts_g_2 = bytes_up 43 0xd5 0x2a @ bytes_up 107 0 0x2b"
    by (simp add: lts_g_2_def bytes_up_numeral)
  show ?thesis by (simp add: run LTS_STATE_g_def bytes_up_run del: bytes_up.simps)
qed

definition lts_g_3 :: "(byte \<times> byte) list" where
  "lts_g_3 = [
    (0x6b, 0x2b), (0x6c, 0x2b), (0x6d, 0x2b), (0x6e, 0x2b), (0x6f, 0x2b), (0x70, 0x2b), (0x71, 0x2b), (0x72, 0x2b), (0x73, 0x2b), (0x74, 0x2b),
    (0x75, 0x2b), (0x76, 0x2b), (0x77, 0x2b), (0x78, 0x2b), (0x79, 0x2b), (0x7a, 0x2b), (0x7b, 0x2b), (0x7c, 0x2b), (0x7d, 0x2b), (0x7e, 0x2b),
    (0x7f, 0x2b), (0x80, 0x2b), (0x81, 0x2b), (0x82, 0x2b), (0x83, 0x2b), (0x84, 0x2b), (0x85, 0x2b), (0x86, 0x2b), (0x87, 0x2b), (0x88, 0x2b),
    (0x89, 0x2b), (0x8a, 0x2b), (0x8b, 0x2b), (0x8c, 0x2b), (0x8d, 0x2b), (0x8e, 0x2b), (0x8f, 0x2b), (0x90, 0x2b), (0x91, 0x2b), (0x92, 0x2b),
    (0x93, 0x2b), (0x94, 0x2b), (0x95, 0x2b), (0x96, 0x2b), (0x97, 0x2b), (0x98, 0x2b), (0x99, 0x2b), (0x9a, 0x2b), (0x9b, 0x2b), (0x9c, 0x2b),
    (0x9d, 0x2b), (0x9e, 0x2b), (0x9f, 0x2b), (0xa0, 0x2b), (0xa1, 0x2b), (0xa2, 0x2b), (0xa3, 0x2b), (0xa4, 0x2b), (0xa5, 0x2b), (0xa6, 0x2b),
    (0xa7, 0x2b), (0xa8, 0x2b), (0xa9, 0x2b), (0xaa, 0x2b), (0xab, 0x2b), (0xac, 0x2b), (0xad, 0x2b), (0xae, 0x2b), (0xaf, 0x2b), (0xb0, 0x2b),
    (0xb1, 0x2b), (0xb2, 0x2b), (0xb3, 0x2b), (0xb4, 0x2b), (0xb5, 0x2b), (0xb6, 0x2b), (0xb7, 0x2b), (0xb8, 0x2b), (0xb9, 0x2b), (0xba, 0x2b),
    (0xbb, 0x2b), (0xbc, 0x2b), (0xbd, 0x2b), (0xbe, 0x2b), (0xbf, 0x2b), (0xc0, 0x2b), (0xc1, 0x2b), (0xc2, 0x2b), (0xc3, 0x2b), (0xc4, 0x2b),
    (0xc5, 0x2b), (0xc6, 0x2b), (0xc7, 0x2b), (0xc8, 0x2b), (0xc9, 0x2b), (0xca, 0x2b), (0xcb, 0x2b), (0xcc, 0x2b), (0xcd, 0x2b), (0xce, 0x2b),
    (0xcf, 0x2b), (0xd0, 0x2b), (0xd1, 0x2b), (0xd2, 0x2b), (0xd3, 0x2b), (0xd4, 0x2b), (0xd5, 0x2b), (0xd6, 0x2b), (0xd7, 0x2b), (0xd8, 0x2b),
    (0xd9, 0x2b), (0xda, 0x2b), (0xdb, 0x2b), (0xdc, 0x2b), (0xdd, 0x2b), (0xde, 0x2b), (0xdf, 0x2b), (0xe0, 0x2b), (0xe1, 0x2b), (0xe2, 0x2b),
    (0xe3, 0x2b), (0xe4, 0x2b), (0xe5, 0x2b), (0xe6, 0x2b), (0xe7, 0x2b), (0xe8, 0x2b), (0xe9, 0x2b), (0xea, 0x2b), (0xeb, 0x2b), (0xec, 0x2b),
    (0xed, 0x2b), (0xee, 0x2b), (0xef, 0x2b), (0xf0, 0x2b), (0xf1, 0x2b), (0xf2, 0x2b), (0xf3, 0x2b), (0xf4, 0x2b), (0xf5, 0x2b), (0xf6, 0x2b),
    (0xf7, 0x2b), (0xf8, 0x2b), (0xf9, 0x2b), (0xfa, 0x2b), (0xfb, 0x2b), (0xfc, 0x2b), (0xfd, 0x2b), (0xfe, 0x2b), (0xff, 0x2b), (0, 0x2c)]"

lemma lts_g_3_run [lts_run]: "table_run LTS_STATE_g 450 lts_g_3 600"
proof -
  have run: "lts_g_3 = bytes_up 149 0x6b 0x2b @ bytes_up 1 0 0x2c"
    by (simp add: lts_g_3_def bytes_up_numeral)
  show ?thesis by (simp add: run LTS_STATE_g_def bytes_up_run del: bytes_up.simps)
qed

definition lts_g_4 :: "(byte \<times> byte) list" where
  "lts_g_4 = [
    (1, 0x2c), (0x2, 0x2c), (0x3, 0x2c), (0x4, 0x2c), (0x5, 0x2c), (0x6, 0x2c), (0x7, 0x2c), (0x8, 0x2c), (0x9, 0x2c), (0xa, 0x2c),
    (0xb, 0x2c), (0xc, 0x2c), (0xd, 0x2c), (0xe, 0x2c), (0xf, 0x2c), (0x10, 0x2c), (0x11, 0x2c), (0x12, 0x2c), (0x13, 0x2c), (0x14, 0x2c),
    (0x15, 0x2c), (0x16, 0x2c), (0x17, 0x2c), (0x18, 0x2c), (0x19, 0x2c), (0x1a, 0x2c), (0x1b, 0x2c), (0x1c, 0x2c)]"

lemma lts_g_4_run [lts_run]: "table_run LTS_STATE_g 600 lts_g_4 628"
proof -
  have run: "lts_g_4 = bytes_up 28 1 0x2c"
    by (simp add: lts_g_4_def bytes_up_numeral)
  show ?thesis by (simp add: run LTS_STATE_g_def bytes_up_run del: bytes_up.simps)
qed

definition lts_table_g :: "(byte \<times> byte) list" where
  "lts_table_g = concat [
     lts_g_0, lts_g_1, lts_g_2, lts_g_3, lts_g_4]"

lemma lts_table_g_run: "table_run LTS_STATE_g 0 lts_table_g 628"
  unfolding lts_table_g_def by (rule table_run_nil | rule table_run_concat, rule lts_run)+

lemma lts_table_g_entries [lts_tables]: "entry_at lts_table_g = LTS_STATE_g"
  by (rule table_run_entry [OF lts_table_g_run LTS_STATE_g_def])

section \<open>Letter h\<close>

definition lts_h_0 :: "(byte \<times> byte) list" where
  "lts_h_0 = [
    (0x1d, 0x2c), (0x1e, 0x2c), (0x1f, 0x2c), (0x20, 0x2c), (0x21, 0x2c), (0x22, 0x2c), (0x23, 0x2c), (0x24, 0x2c), (0x25, 0x2c), (0x26, 0x2c),
    (0x27, 0x2c), (0x28, 0x2c), (0x29, 0x2c), (0x2a, 0x2c), (0x2b, 0x2c), (0x2c, 0x2c), (0x2d, 0x2c), (0x2e, 0x2c), (0x2f, 0x2c), (0x30, 0x2c),
    (0x31, 0x2c), (0x32, 0x2c), (0x33, 0x2c), (0x34, 0x2c), (0x35, 0x2c), (0x35, 0x2c), (0x36, 0x2c), (0x37, 0x2c), (0x38, 0x2c), (0x39, 0x2c),
    (0x3a, 0x2c), (0x3b, 0x2c), (0x3c, 0x2c), (0x3d, 0x2c), (0x3e, 0x2c), (0x3f, 0x2c), (0x40, 0x2c), (0x41, 0x2c), (0x42, 0x2c), (0x43, 0x2c),
    (0x44, 0x2c), (0x45, 0x2c), (0x46, 0x2c), (0x47, 0x2c), (0x48, 0x2c), (0x49, 0x2c), (0x4a, 0x2c), (0x4b, 0x2c), (0x4c, 0x2c), (0x4d, 0x2c),
    (0x4e, 0x2c), (0x4f, 0x2c), (0x50, 0x2c), (0x51, 0x2c), (0x52, 0x2c), (0x53, 0x2c), (0x54, 0x2c), (0x55, 0x2c), (0x56, 0x2c), (0x57, 0x2c),
    (0x58, 0x2c), (0x59, 0x2c), (0x5a, 0x2c), (0x5b, 0x2c), (0x5c, 0x2c), (0x5d, 0x2c), (0x5e, 0x2c), (0x5f, 0x2c), (0x60, 0x2c), (0x61, 0x2c),
    (0x62, 0x2c), (0x63, 0x2c), (0x64, 0x2c), (0x65, 0x2c), (0x66, 0x2c), (0x67, 0x2c), (0x68, 0x2c), (0x69, 0x2c), (0x6a, 0x2c), (0x6b, 0x2c),
    (0x6c, 0x2c), (0x6d, 0x2c), (0x6e, 0x2c), (0x6f, 0x2c), (0x70, 0x2c), (0x71, 0x2c), (0x72, 0x2c), (0x73, 0x2c), (0x74, 0x2c), (0x75, 0x2c),
    (0x76, 0x2c), (0x77, 0x2c), (0x78, 0x2c), (0x79, 0x2c), (0x7a, 0x2c), (0x7b, 0x2c), (0x7c, 0x2c), (0x7d, 0x2c), (0x7e, 0x2c), (0x7f, 0x2c),
    (0x80, 0x2c), (0x81, 0x2c), (0x82, 0x2c), (0x83, 0x2c), (0x84, 0x2c), (0x85, 0x2c), (0x86, 0x2c), (0x87, 0x2c), (0x88, 0x2c), (0x89, 0x2c),
    (0x8a, 0x2c), (0x8b, 0x2c), (0x8c, 0x2c), (0x8d, 0x2c), (0x8e, 0x2c), (0x8f, 0x2c), (0x90, 0x2c), (0x91, 0x2c), (0x92, 0x2c), (0x93, 0x2c),
    (0x94, 0x2c), (0x95, 0x2c), (0x96, 0x2c), (0x97, 0x2c), (0x98, 0x2c), (0x99, 0x2c), (0x9a, 0x2c), (0x9b, 0x2c), (0x9c, 0x2c), (0x9d, 0x2c),
    (0x9e, 0x2c), (0x9f, 0x2c), (0xa0, 0x2c), (0xa1, 0x2c), (0xa2, 0x2c), (0xa3, 0x2c), (0xa4, 0x2c), (0xa5, 0x2c), (0xa6, 0x2c), (0xa7, 0x2c),
    (0xa8, 0x2c), (0xa9, 0x2c), (0xaa, 0x2c), (0xab, 0x2c), (0xac, 0x2c), (0xad, 0x2c), (0xae, 0x2c), (0xaf, 0x2c), (0xb0, 0x2c), (0xb1, 0x2c)]"

lemma lts_h_0_run [lts_run]: "table_run LTS_STATE_h 0 lts_h_0 150"
proof -
  have run: "lts_h_0 = bytes_up 25 0x1d 0x2c @ bytes_up 125 0x35 0x2c"
    by (simp add: lts_h_0_def bytes_up_numeral)
  show ?thesis by (simp add: run LTS_STATE_h_def bytes_up_run del: bytes_up.simps)
qed

definition lts_h_1 :: "(byte \<times> byte) list" where
  "lts_h_1 = [
    (0xb2, 0x2c), (0xb3, 0x2c), (0xb4, 0x2c), (0xb5, 0x2c), (0xb6, 0x2c), (0xb7, 0x2c), (0xb8, 0x2c), (0xb9, 0x2c), (0xba, 0x2c), (0xbb, 0x2c),
    (0xbc, 0x2c), (0xbd, 0x2c), (0xbe, 0x2c), (0xbf, 0x2c), (0xc0, 0x2c), (0xc1, 0x2c), (0xc2, 0x2c), (0xc3, 0x2c), (0xc4, 0x2c), (0xc5, 0x2c),
    (0xc6, 0x2c), (0xc7, 0x2c), (0xc8, 0x2c), (0xc9, 0x2c), (0xca, 0x2c), (0xcb, 0x2c), (0xcc, 0x2c), (0xcd, 0x2c), (0xce, 0x2c), (0xcf, 0x2c),
    (0xd0, 0x2c), (0xd1, 0x2c), (0xd2, 0x2c), (0xd3, 0x2c), (0xd4, 0x2c), (0xd5, 0x2c), (0xd6, 0x2c), (0xd7, 0x2c), (0xd8, 0x2c), (0xd9, 0x2c),
    (0xda, 0x2c), (0xdb, 0x2c), (0xdc, 0x2c), (0xdd, 0x2c), (0xde, 0x2c), (0xdf, 0x2c), (0xe0, 0x2c), (0xe1, 0x2c), (0xe2, 0x2c), (0xe3, 0x2c),
    (0xe4, 0x2c), (0xe5, 0x2c), (0xe6, 0x2c), (0xe7, 0x2c), (0xe8, 0x2c), (0xe9, 0x2c), (0xea, 0x2c), (0xeb, 0x2c), (0xec, 0x2c), (0xed, 0x2c),
    (0xee, 0x2c), (0xef, 0x2c), (0xf0, 0x2c), (0xf1, 0x2c), (0xf2, 0x2c), (0xf3, 0x2c), (0xf4, 0x2c), (0xf5, 0x2c), (0xf6, 0x2c), (0xf7, 0x2c),
    (0xf8, 0x2c), (0xf9, 0x2c), (0xfa, 0x2c), (0xfb, 0x2c), (0xfc, 0x2c), (0xfd, 0x2c), (0xfe, 0x2c), (0xff, 0x2c), (0, 0x2d), (1, 0x2d)]"

lemma lts_h_1_run [lts_run]: "table_run LTS_STATE_h 150 lts_h_1 230"
proof -
  have run: "lts_h_1 = bytes_up 78 0xb2 0x2c @ bytes_up 2 0 0x2d"
    by (simp add: lts_h_1_def bytes_up_numeral)
  show ?thesis by (simp add: run LTS_STATE_h_def bytes_up_run del: bytes_up.simps)
qed

definition lts_table_h :: "(byte \<times> byte) list" where
  "lts_table_h = concat [
     lts_h_0, lts_h_1]"

lemma lts_table_h_run: "table_run LTS_STATE_h 0 lts_table_h 230"
  unfolding lts_table_h_def by (rule table_run_nil | rule table_run_concat, rule lts_run)+

lemma lts_table_h_entries [lts_tables]: "entry_at lts_table_h = LTS_STATE_h"
  by (rule table_run_entry [OF lts_table_h_run LTS_STATE_h_def])

end
