(* ===== verification/LtsTableI.thy ===== *)
theory LtsTableI
  imports LetterToSound
begin

text \<open>
  The address bytes of the letter-to-sound states as cmu_lts_model.h lists them, for the letters i to n:
  pieces of at most 150 states, each with the fact that state by state they are what the arithmetic of
  LetterToSound gives, and the whole table of a letter put together from its pieces.
\<close>

section \<open>Letter i\<close>

definition lts_i_0 :: "(byte \<times> byte) list" where
  "lts_i_0 = [
    (0x2, 0x2d), (0x3, 0x2d), (0x4, 0x2d), (0x5, 0x2d), (0x6, 0x2d), (0x7, 0x2d), (0x8, 0x2d), (0x9, 0x2d), (0xa, 0x2d), (0xb, 0x2d),
    (0xc, 0x2d), (0xd, 0x2d), (0xe, 0x2d), (0xf, 0x2d), (0x10, 0x2d), (0x11, 0x2d), (0x12, 0x2d), (0x13, 0x2d), (0x14, 0x2d), (0x15, 0x2d),
    (0x16, 0x2d), (0x17, 0x2d), (0x18, 0x2d), (0x19, 0x2d), (0x1a, 0x2d), (0x1b, 0x2d), (0x1c, 0x2d), (0x1d, 0x2d), (0x1e, 0x2d), (0x1e, 0x2d),
    (0x1f, 0x2d), (0x20, 0x2d), (0x21, 0x2d), (0x22, 0x2d), (0x23, 0x2d), (0x24, 0x2d), (0x25, 0x2d), (0x26, 0x2d), (0x27, 0x2d), (0x28, 0x2d),
    (0x29, 0x2d), (0x2a, 0x2d), (0x2b, 0x2d), (0x2c, 0x2d), (0x2d, 0x2d), (0x2e, 0x2d), (0x2f, 0x2d), (0x30, 0x2d), (0x31, 0x2d), (0x32, 0x2d),
    (0x33, 0x2d), (0x34, 0x2d), (0x35, 0x2d), (0x36, 0x2d), (0x37, 0x2d), (0x38, 0x2d), (0x39, 0x2d), (0x3a, 0x2d), (0x3b, 0x2d), (0x3c, 0x2d),
    (0x3d, 0x2d), (0x3e, 0x2d), (0x3f, 0x2d), (0x40, 0x2d), (0x41, 0x2d), (0x42, 0x2d), (0x43, 0x2d), (0x44, 0x2d), (0x45, 0x2d), (0x46, 0x2d),
    (0x47, 0x2d), (0x48, 0x2d), (0x49, 0x2d), (0x4a, 0x2d), (0x4b, 0x2d), (0x4c, 0x2d), (0x4d, 0x2d), (0x4e, 0x2d), (0x4f, 0x2d), (0x50, 0x2d),
    (0x51, 0x2d), (0x52, 0x2d), (0x53, 0x2d), (0x54, 0x2d), (0x55, 0x2d), (0x56, 0x2d), (0x57, 0x2d), (0x58, 0x2d), (0x59, 0x2d), (0x5a, 0x2d),
    (0x5b, 0x2d), (0x5c, 0x2d), (0x5d, 0x2d), (0x5e, 0x2d), (0x5f, 0x2d), (0x60, 0x2d), (0x61, 0x2d), (0x62, 0x2d), (0x63, 0x2d), (0x64, 0x2d),
    (0x65, 0x2d), (0x66, 0x2d), (0x67, 0x2d), (0x68, 0x2d), (0x69, 0x2d), (0x6a, 0x2d), (0x6b, 0x2d), (0x6c, 0x2d), (0x6d, 0x2d), (0x6e, 0x2d),
    (0x6f, 0x2d), (0x70, 0x2d), (0x71, 0x2d), (0x72, 0x2d), (0x73, 0x2d), (0x74, 0x2d), (0x75, 0x2d), (0x76, 0x2d), (0x77, 0x2d), (0x78, 0x2d),
    (0x79, 0x2d), (0x7a, 0x2d), (0x7b, 0x2d), (0x7c, 0x2d), (0x7d, 0x2d), (0x7e, 0x2d), (0x7f, 0x2d), (0x80, 0x2d), (0x81, 0x2d), (0x82, 0x2d),
    (0x83, 0x2d), (0x84, 0x2d), (0x85, 0x2d), (0x86, 0x2d), (0x87, 0x2d), (0x88, 0x2d), (0x89, 0x2d), (0x8a, 0x2d), (0x8b, 0x2d), (0x8c, 0x2d),
    (0x8d, 0x2d), (0x8e, 0x2d), (0x8f, 0x2d), (0x90, 0x2d), (0x91, 0x2d), (0x92, 0x2d), (0x93, 0x2d), (0x94, 0x2d), (0x95, 0x2d), (0x96, 0x2d)]"

lemma lts_i_0_run [lts_run]: "table_run LTS_STATE_i 0 lts_i_0 150"
proof -
  have run: "lts_i_0 = bytes_up 29 0x2 0x2d @ bytes_up 121 0x1e 0x2d"
    by (simp add: lts_i_0_def bytes_up_numeral)
  show ?thesis by (simp add: run LTS_STATE_i_def bytes_up_run del: bytes_up.simps)
qed

definition lts_i_1 :: "(byte \<times> byte) list" where
  "lts_i_1 = [
    (0x97, 0x2d), (0x98, 0x2d), (0x99, 0x2d), (0x9a, 0x2d), (0x9b, 0x2d), (0x9c, 0x2d), (0x9d, 0x2d), (0x9e, 0x2d), (0x9f, 0x2d), (0xa0, 0x2d),
    (0xa1, 0x2d), (0xa2, 0x2d), (0xa3, 0x2d), (0xa4, 0x2d), (0xa5, 0x2d), (0xa6, 0x2d), (0xa7, 0x2d), (0xa8, 0x2d), (0xa9, 0x2d), (0xaa, 0x2d),
    (0xab, 0x2d), (0xac, 0x2d), (0xad, 0x2d), (0xae, 0x2d), (0xaf, 0x2d), (0xb0, 0x2d), (0xb1, 0x2d), (0xb2, 0x2d), (0xb3, 0x2d), (0xb4, 0x2d),
    (0xb5, 0x2d), (0xb6, 0x2d), (0xb7, 0x2d), (0xb8, 0x2d), (0xb9, 0x2d), (0xba, 0x2d), (0xbb, 0x2d), (0xbc, 0x2d), (0xbd, 0x2d), (0xbe, 0x2d),
    (0xbf, 0x2d), (0xc0, 0x2d), (0xc1, 0x2d), (0xc2, 0x2d), (0xc3, 0x2d), (0xc4, 0x2d), (0xc5, 0x2d), (0xc6, 0x2d), (0xc7, 0x2d), (0xc8, 0x2d),
    (0xc9, 0x2d), (0xca, 0x2d), (0xcb, 0x2d), (0xcc, 0x2d), (0xcd, 0x2d), (0xce, 0x2d), (0xcf, 0x2d), (0xd0, 0x2d), (0xd1, 0x2d), (0xd2, 0x2d),
    (0xd3, 0x2d), (0xd4, 0x2d), (0xd5, 0x2d), (0xd6, 0x2d), (0xd7, 0x2d), (0xd8, 0x2d), (0xd9, 0x2d), (0xda, 0x2d), (0xdb, 0x2d), (0xdc, 0x2d),
    (0xdd, 0x2d), (0xde, 0x2d), (0xdf, 0x2d), (0xe0, 0x2d), (0xe1, 0x2d), (0xe2, 0x2d), (0xe3, 0x2d), (0xe4, 0x2d), (0xe5, 0x2d), (0xe6, 0x2d),
    (0xe7, 0x2d), (0xe8, 0x2d), (0xe9, 0x2d), (0xea, 0x2d), (0xeb, 0x2d), (0xec, 0x2d), (0xed, 0x2d), (0xee, 0x2d), (0xef, 0x2d), (0xf0, 0x2d),
    (0xf1, 0x2d), (0xf2, 0x2d), (0xf3, 0x2d), (0xf4, 0x2d), (0xf5, 0x2d), (0xf6, 0x2d), (0xf7, 0x2d), (0xf8, 0x2d), (0xf9, 0x2d), (0xfa, 0x2d),
    (0xfb, 0x2d), (0xfc, 0x2d), (0xfd, 0x2d), (0xfe, 0x2d), (0xff, 0x2d), (0, 0x2e), (1, 0x2e), (0x2, 0x2e), (0x3, 0x2e), (0x4, 0x2e),
    (0x5, 0x2e), (0x6, 0x2e), (0x7, 0x2e), (0x8, 0x2e), (0x9, 0x2e), (0xa, 0x2e), (0xb, 0x2e), (0xc, 0x2e), (0xd, 0x2e), (0xe, 0x2e),
    (0xf, 0x2e), (0x10, 0x2e), (0x11, 0x2e), (0x12, 0x2e), (0x13, 0x2e), (0x14, 0x2e), (0x15, 0x2e), (0x16, 0x2e), (0x17, 0x2e), (0x18, 0x2e),
    (0x19, 0x2e), (0x1a, 0x2e), (0x1b, 0x2e), (0x1c, 0x2e), (0x1d, 0x2e), (0x1e, 0x2e), (0x1f, 0x2e), (0x20, 0x2e), (0x21, 0x2e), (0x22, 0x2e),
    (0x23, 0x2e), (0x24, 0x2e), (0x25, 0x2e), (0x26, 0x2e), (0x27, 0x2e), (0x28, 0x2e), (0x29, 0x2e), (0x2a, 0x2e), (0x2b, 0x2e), (0x2c, 0x2e)]"

lemma lts_i_1_run [lts_run]: "table_run LTS_STATE_i 150 lts_i_1 300"
proof -
  have run: "lts_i_1 = bytes_up 105 0x97 0x2d @ bytes_up 45 0 0x2e"
    by (simp add: lts_i_1_def bytes_up_numeral)
  show ?thesis by (simp add: run LTS_STATE_i_def bytes_up_run del: bytes_up.simps)
qed

definition lts_i_2 :: "(byte \<times> byte) list" where
  "lts_i_2 = [
    (0x2d, 0x2e), (0x2e, 0x2e), (0x2f, 0x2e), (0x30, 0x2e), (0x31, 0x2e), (0x32, 0x2e), (0x33, 0x2e), (0x34, 0x2e), (0x35, 0x2e), (0x36, 0x2e),
    (0x37, 0x2e), (0x38, 0x2e), (0x39, 0x2e), (0x3a, 0x2e), (0x3b, 0x2e), (0x3c, 0x2e), (0x3d, 0x2e), (0x3e, 0x2e), (0x3f, 0x2e), (0x40, 0x2e),
    (0x41, 0x2e), (0x42, 0x2e), (0x43, 0x2e), (0x44, 0x2e), (0x45, 0x2e), (0x46, 0x2e), (0x47, 0x2e), (0x48, 0x2e), (0x49, 0x2e), (0x4a, 0x2e),
    (0x4b, 0x2e), (0x4c, 0x2e), (0x4d, 0x2e), (0x4e, 0x2e), (0x4f, 0x2e), (0x50, 0x2e), (0x51, 0x2e), (0x52, 0x2e), (0x53, 0x2e), (0x54, 0x2e),
    (0x55, 0x2e), (0x56, 0x2e), (0x57, 0x2e), (0x58, 0x2e), (0x59, 0x2e), (0x5a, 0x2e), (0x5b, 0x2e), (0x5c, 0x2e), (0x5d, 0x2e), (0x5e, 0x2e),
    (0x5f, 0x2e), (0x60, 0x2e), (0x61, 0x2e), (0x62, 0x2e), (0x63, 0x2e), (0x64, 0x2e), (0x65, 0x2e), (0x66, 0x2e), (0x67, 0x2e), (0x68, 0x2e),
    (0x69, 0x2e), (0x6a, 0x2e), (0x6b, 0x2e), (0x6c, 0x2e), (0x6d, 0x2e), (0x6e, 0x2e), (0x6f, 0x2e), (0x70, 0x2e), (0x71, 0x2e), (0x72, 0x2e),
    (0x73, 0x2e), (0x74, 0x2e), (0x75, 0x2e), (0x76, 0x2e), (0x77, 0x2e), (0x78, 0x2e), (0x79, 0x2e), (0x7a, 0x2e), (0x7b, 0x2e), (0x7c, 0x2e),
    (0x7d, 0x2e), (0x7e, 0x2e), (0x7f, 0x2e), (0x80, 0x2e), (0x81, 0x2e), (0x82, 0x2e), (0x83, 0x2e), (0x84, 0x2e), (0x85, 0x2e), (0x86, 0x2e),
    (0x87, 0x2e), (0x88, 0x2e), (0x89, 0x2e), (0x8a, 0x2e), (0x8b, 0x2e), (0x8c, 0x2e), (0x8d, 0x2e), (0x8e, 0x2e), (0x8f, 0x2e), (0x90, 0x2e),
    (0x91, 0x2e), (0x92, 0x2e), (0x93, 0x2e), (0x94, 0x2e), (0x95, 0x2e), (0x96, 0x2e), (0x97, 0x2e), (0x98, 0x2e), (0x99, 0x2e), (0x9a, 0x2e),
    (0x9b, 0x2e), (0x9c, 0x2e), (0x9d, 0x2e), (0x9e, 0x2e), (0x9f, 0x2e), (0xa0, 0x2e), (0xa1, 0x2e), (0xa2, 0x2e), (0xa3, 0x2e), (0xa4, 0x2e),
    (0xa5, 0x2e), (0xa6, 0x2e), (0xa7, 0x2e), (0xa8, 0x2e), (0xa9, 0x2e), (0xaa, 0x2e), (0xab, 0x2e), (0xac, 0x2e), (0xad, 0x2e), (0xae, 0x2e),
    (0xaf, 0x2e), (0xb0, 0x2e), (0xb1, 0x2e), (0xb2, 0x2e), (0xb3, 0x2e), (0xb4, 0x2e), (0xb5, 0x2e), (0xb6, 0x2e), (0xb7, 0x2e), (0xb8, 0x2e),
    (0xb9, 0x2e), (0xba, 0x2e), (0xbb, 0x2e), (0xbc, 0x2e), (0xbd, 0x2e), (0xbe, 0x2e), (0xbf, 0x2e), (0xc0, 0x2e), (0xc1, 0x2e), (0xc2, 0x2e)]"

lemma lts_i_2_run [lts_run]: "table_run LTS_STATE_i 300 lts_i_2 450"
proof -
  have run: "lts_i_2 = bytes_up 150 0x2d 0x2e"
    by (simp add: lts_i_2_def bytes_up_numeral)
  show ?thesis by (simp add: run LTS_STATE_i_def bytes_up_run del: bytes_up.simps)
qed

definition lts_i_3 :: "(byte \<times> byte) list" where
  "lts_i_3 = [
    (0xc3, 0x2e), (0xc4, 0x2e), (0xc5, 0x2e), (0xc6, 0x2e), (0xc7, 0x2e), (0xc8, 0x2e), (0xc9, 0x2e), (0xca, 0x2e), (0xcb, 0x2e), (0xcc, 0x2e),
    (0xcd, 0x2e), (0xce, 0x2e), (0xcf, 0x2e), (0xd0, 0x2e), (0xd1, 0x2e), (0xd2, 0x2e), (0xd3, 0x2e), (0xd4, 0x2e), (0xd5, 0x2e), (0xd6, 0x2e),
    (0xd7, 0x2e), (0xd8, 0x2e), (0xd9, 0x2e), (0xda, 0x2e), (0xdb, 0x2e), (0xdc, 0x2e), (0xdd, 0x2e), (0xde, 0x2e), (0xdf, 0x2e), (0xe0, 0x2e),
    (0xe1, 0x2e), (0xe2, 0x2e), (0xe3, 0x2e), (0xe4, 0x2e), (0xe5, 0x2e), (0xe6, 0x2e), (0xe7, 0x2e), (0xe8, 0x2e), (0xe9, 0x2e), (0xea, 0x2e),
    (0xeb, 0x2e), (0xec, 0x2e), (0xed, 0x2e), (0xee, 0x2e), (0xef, 0x2e), (0xf0, 0x2e), (0xf1, 0x2e), (0xf2, 0x2e), (0xf3, 0x2e), (0xf4, 0x2e),
    (0xf5, 0x2e), (0xf6, 0x2e), (0xf7, 0x2e), (0xf8, 0x2e), (0xf9, 0x2e), (0xfa, 0x2e), (0xfb, 0x2e), (0xfc, 0x2e), (0xfd, 0x2e), (0xfe, 0x2e),
    (0xff, 0x2e), (0, 0x2f), (1, 0x2f), (0x2, 0x2f), (0x3, 0x2f), (0x4, 0x2f), (0x5, 0x2f), (0x6, 0x2f), (0x7, 0x2f), (0x8, 0x2f),
    (0x9, 0x2f), (0xa, 0x2f), (0xb, 0x2f), (0xc, 0x2f), (0xd, 0x2f), (0xe, 0x2f), (0xf, 0x2f), (0x10, 0x2f), (0x11, 0x2f), (0x12, 0x2f),
    (0x13, 0x2f), (0x14, 0x2f), (0x15, 0x2f), (0x16, 0x2f), (0x17, 0x2f), (0x18, 0x2f), (0x19, 0x2f), (0x1a, 0x2f), (0x1b, 0x2f), (0x1c, 0x2f),
    (0x1d, 0x2f), (0x1e, 0x2f), (0x1f, 0x2f), (0x20, 0x2f), (0x21, 0x2f), (0x22, 0x2f), (0x23, 0x2f), (0x24, 0x2f), (0x25, 0x2f), (0x26, 0x2f),
    (0x27, 0x2f), (0x28, 0x2f), (0x29, 0x2f), (0x2a, 0x2f), (0x2b, 0x2f), (0x2c, 0x2f), (0x2d, 0x2f), (0x2e, 0x2f), (0x2f, 0x2f), (0x30, 0x2f),
    (0x31, 0x2f), (0x32, 0x2f), (0x33, 0x2f), (0x34, 0x2f), (0x35, 0x2f), (0x36, 0x2f), (0x37, 0x2f), (0x38, 0x2f), (0x39, 0x2f), (0x3a, 0x2f),
    (0x3b, 0x2f), (0x3c, 0x2f), (0x3d, 0x2f), (0x3e, 0x2f), (0x3f, 0x2f), (0x40, 0x2f), (0x41, 0x2f), (0x42, 0x2f), (0x43, 0x2f), (0x44, 0x2f),
    (0x45, 0x2f), (0x46, 0x2f), (0x47, 0x2f), (0x48, 0x2f), (0x49, 0x2f), (0x4a, 0x2f), (0x4b, 0x2f), (0x4c, 0x2f), (0x4d, 0x2f), (0x4e, 0x2f),
    (0x4f, 0x2f), (0x50, 0x2f), (0x51, 0x2f), (0x52, 0x2f), (0x53, 0x2f), (0x54, 0x2f), (0x55, 0x2f), (0x56, 0x2f), (0x57, 0x2f), (0x58, 0x2f)]"

lemma lts_i_3_run [lts_run]: "table_run LTS_STATE_i 450 lts_i_3 600"
proof -
  have run: "lts_i_3 = bytes_up 61 0xc3 0x2e @ bytes_up 89 0 0x2f"
    by (simp add: lts_i_3_def bytes_up_numeral)
  show ?thesis by (simp add: run LTS_STATE_i_def bytes_up_run del: bytes_up.simps)
qed

definition lts_i_4 :: "(byte \<times> byte) list" where
  "lts_i_4 = [
    (0x59, 0x2f), (0x5a, 0x2f), (0x5b, 0x2f), (0x5c, 0x2f), (0x5d, 0x2f), (0x5e, 0x2f), (0x5f, 0x2f), (0x60, 0x2f), (0x61, 0x2f), (0x62, 0x2f),
    (0x63, 0x2f), (0x64, 0x2f), (0x65, 0x2f), (0x66, 0x2f), (0x67, 0x2f), (0x68, 0x2f), (0x69, 0x2f), (0x6a, 0x2f), (0x6b, 0x2f), (0x6c, 0x2f),
    (0x6d, 0x2f), (0x6e, 0x2f), (0x6f, 0x2f), (0x70, 0x2f), (0x71, 0x2f), (0x72, 0x2f), (0x73, 0x2f), (0x74, 0x2f), (0x75, 0x2f), (0x76, 0x2f),
    (0x77, 0x2f), (0x78, 0x2f), (0x79, 0x2f), (0x7a, 0x2f), (0x7b, 0x2f), (0x7c, 0x2f), (0x7d, 0x2f), (0x7e, 0x2f), (0x7f, 0x2f), (0x80, 0x2f),
    (0x81, 0x2f), (0x82, 0x2f), (0x83, 0x2f), (0x84, 0x2f), (0x85, 0x2f), (0x86, 0x2f), (0x87, 0x2f), (0x88, 0x2f), (0x89, 0x2f), (0x8a, 0x2f),
    (0x8b, 0x2f), (0x8c, 0x2f), (0x8d, 0x2f), (0x8e, 0x2f), (0x8f, 0x2f), (0x90, 0x2f), (0x91, 0x2f), (0x92, 0x2f), (0x93, 0x2f), (0x94, 0x2f),
    (0x95, 0x2f), (0x96, 0x2f), (0x97, 0x2f), (0x98, 0x2f), (0x99, 0x2f), (0x9a, 0x2f), (0x9b, 0x2f), (0x9c, 0x2f), (0x9d, 0x2f), (0x9e, 0x2f),
    (0x9f, 0x2f), (0xa0, 0x2f), (0xa1, 0x2f), (0xa2, 0x2f), (0xa3, 0x2f), (0xa4, 0x2f), (0xa5, 0x2f), (0xa6, 0x2f), (0xa7, 0x2f), (0xa8, 0x2f),
    (0xa9, 0x2f), (0xaa, 0x2f), (0xab, 0x2f), (0xac, 0x2f), (0xad, 0x2f), (0xae, 0x2f), (0xaf, 0x2f), (0xb0, 0x2f), (0xb1, 0x2f), (0xb2, 0x2f),
    (0xb3, 0x2f), (0xb4, 0x2f), (0xb5, 0x2f), (0xb6, 0x2f), (0xb7, 0x2f), (0xb8, 0x2f), (0xb9, 0x2f), (0xba, 0x2f), (0xbb, 0x2f), (0xbc, 0x2f),
    (0xbd, 0x2f), (0xbe, 0x2f), (0xbf, 0x2f), (0xc0, 0x2f), (0xc1, 0x2f), (0xc2, 0x2f), (0xc3, 0x2f), (0xc4, 0x2f), (0xc5, 0x2f), (0xc6, 0x2f),
    (0xc7, 0x2f), (0xc8, 0x2f), (0xc9, 0x2f), (0xca, 0x2f), (0xcb, 0x2f), (0xcc, 0x2f), (0xcd, 0x2f), (0xce, 0x2f), (0xcf, 0x2f), (0xd0, 0x2f),
    (0xd1, 0x2f), (0xd2, 0x2f), (0xd3, 0x2f), (0xd4, 0x2f), (0xd5, 0x2f), (0xd6, 0x2f), (0xd7, 0x2f), (0xd8, 0x2f), (0xd9, 0x2f), (0xda, 0x2f),
    (0xdb, 0x2f), (0xdc, 0x2f), (0xdd, 0x2f), (0xde, 0x2f), (0xdf, 0x2f), (0xe0, 0x2f), (0xe1, 0x2f), (0xe2, 0x2f), (0xe3, 0x2f), (0xe4, 0x2f),
    (0xe5, 0x2f), (0xe6, 0x2f), (0xe7, 0x2f), (0xe8, 0x2f), (0xe9, 0x2f), (0xea, 0x2f), (0xeb, 0x2f), (0xec, 0x2f), (0xed, 0x2f), (0xee, 0x2f)]"

lemma lts_i_4_run [lts_run]: "table_run LTS_STATE_i 600 lts_i_4 750"
proof -
  have run: "lts_i_4 = bytes_up 150 0x59 0x2f"
    by (simp add: lts_i_4_def bytes_up_numeral)
  show ?thesis by (simp add: run LTS_STATE_i_def bytes_up_run del: bytes_up.simps)
qed

definition lts_i_5 :: "(byte \<times> byte) list" where
  "lts_i_5 = [
    (0xef, 0x2f), (0xf0, 0x2f), (0xf1, 0x2f), (0xf2, 0x2f), (0xf3, 0x2f), (0xf4, 0x2f), (0xf5, 0x2f), (0xf6, 0x2f), (0xf7, 0x2f), (0xf8, 0x2f),
    (0xf9, 0x2f), (0xfa, 0x2f), (0xfb, 0x2f), (0xfc, 0x2f), (0xfd, 0x2f), (0xfe, 0x2f), (0xff, 0x2f), (0, 0x30), (1, 0x30), (0x2, 0x30),
    (0x3, 0x30), (0x4, 0x30), (0x5, 0x30), (0x6, 0x30), (0x7, 0x30), (0x8, 0x30), (0x9, 0x30), (0xa, 0x30), (0xb, 0x30), (0xc, 0x30),
    (0xd, 0x30), (0xe, 0x30), (0xf, 0x30), (0x10, 0x30), (0x11, 0x30), (0x12, 0x30), (0x13, 0x30), (0x14, 0x30), (0x15, 0x30), (0x16, 0x30),
    (0x17, 0x30), (0x18, 0x30), (0x19, 0x30), (0x1a, 0x30), (0x1b, 0x30), (0x1c, 0x30), (0x1d, 0x30), (0x1e, 0x30), (0x1f, 0x30), (0x20, 0x30),
    (0x21, 0x30), (0x22, 0x30), (0x23, 0x30), (0x24, 0x30), (0x25, 0x30), (0x26, 0x30), (0x27, 0x30), (0x28, 0x30), (0x29, 0x30), (0x2a, 0x30),
    (0x2b, 0x30), (0x2c, 0x30), (0x2d, 0x30), (0x2e, 0x30), (0x2f, 0x30), (0x30, 0x30), (0x31, 0x30), (0x32, 0x30), (0x33, 0x30), (0x34, 0x30),
    (0x35, 0x30), (0x36, 0x30), (0x37, 0x30), (0x38, 0x30), (0x39, 0x30), (0x3a, 0x30), (0x3b, 0x30), (0x3c, 0x30), (0x3d, 0x30), (0x3e, 0x30),
    (0x3f, 0x30), (0x40, 0x30), (0x41, 0x30), (0x42, 0x30), (0x43, 0x30), (0x44, 0x30), (0x45, 0x30), (0x46, 0x30), (0x47, 0x30), (0x48, 0x30),
    (0x49, 0x30), (0x4a, 0x30), (0x4b, 0x30), (0x4c, 0x30), (0x4d, 0x30), (0x4e, 0x30), (0x4f, 0x30), (0x50, 0x30), (0x51, 0x30), (0x52, 0x30),
    (0x53, 0x30), (0x54, 0x30), (0x55, 0x30), (0x56, 0x30), (0x57, 0x30), (0x58, 0x30), (0x59, 0x30), (0x5a, 0x30), (0x5b, 0x30), (0x5c, 0x30),
    (0x5d, 0x30), (0x5e, 0x30), (0x5f, 0x30), (0x60, 0x30), (0x61, 0x30), (0x62, 0x30), (0x63, 0x30), (0x64, 0x30), (0x65, 0x30), (0x66, 0x30),
    (0x67, 0x30), (0x68, 0x30), (0x69, 0x30), (0x6a, 0x30), (0x6b, 0x30), (0x6c, 0x30), (0x6d, 0x30), (0x6e, 0x30), (0x6f, 0x30), (0x70, 0x30),
    (0x71, 0x30), (0x72, 0x30), (0x73, 0x30), (0x74, 0x30), (0x75, 0x30), (0x76, 0x30), (0x77, 0x30), (0x78, 0x30), (0x79, 0x30), (0x7a, 0x30),
    (0x7b, 0x30), (0x7c, 0x30), (0x7d, 0x30), (0x7e, 0x30), (0x7f, 0x30), (0x80, 0x30), (0x81, 0x30), (0x82, 0x30), (0x83, 0x30), (0x84, 0x30)]"

lemma lts_i_5_run [lts_run]: "table_run LTS_STATE_i 750 lts_i_5 900"
proof -
  have run: "lts_i_5 = bytes_up 17 0xef 0x2f @ bytes_up 133 0 0x30"
    by (simp add: lts_i_5_def bytes_up_numeral)
  show ?thesis by (simp add: run LTS_STATE_i_def bytes_up_run del: bytes_up.simps)
qed

definition lts_i_6 :: "(byte \<times> byte) list" where
  "lts_i_6 = [
    (0x85, 0x30), (0x86, 0x30), (0x87, 0x30), (0x88, 0x30), (0x89, 0x30), (0x8a, 0x30), (0x8b, 0x30), (0x8c, 0x30), (0x8d, 0x30), (0x8e, 0x30),
    (0x8f, 0x30), (0x90, 0x30), (0x91, 0x30), (0x92, 0x30), (0x93, 0x30), (0x94, 0x30), (0x95, 0x30), (0x96, 0x30), (0x97, 0x30), (0x98, 0x30),
    (0x99, 0x30), (0x9a, 0x30), (0x9b, 0x30), (0x9c, 0x30), (0x9d, 0x30), (0x9e, 0x30), (0x9f, 0x30), (0xa0, 0x30), (0xa1, 0x30), (0xa2, 0x30),
    (0xa3, 0x30), (0xa4, 0x30), (0xa5, 0x30), (0xa6, 0x30), (0xa7, 0x30), (0xa8, 0x30), (0xa9, 0x30), (0xaa, 0x30), (0xab, 0x30), (0xac, 0x30),
    (0xad, 0x30), (0xae, 0x30), (0xaf, 0x30), (0xb0, 0x30), (0xb1, 0x30), (0xb2, 0x30), (0xb3, 0x30), (0xb4, 0x30), (0xb5, 0x30), (0xb6, 0x30),
    (0xb7, 0x30), (0xb8, 0x30), (0xb9, 0x30), (0xba, 0x30), (0xbb, 0x30), (0xbc, 0x30), (0xbd, 0x30), (0xbe, 0x30), (0xbf, 0x30), (0xc0, 0x30),
    (0xc1, 0x30), (0xc2, 0x30), (0xc3, 0x30), (0xc4, 0x30), (0xc5, 0x30), (0xc6, 0x30), (0xc7, 0x30), (0xc8, 0x30), (0xc9, 0x30), (0xca, 0x30),
    (0xcb, 0x30), (0xcc, 0x30), (0xcd, 0x30), (0xce, 0x30), (0xcf, 0x30), (0xd0, 0x30), (0xd1, 0x30), (0xd2, 0x30), (0xd3, 0x30), (0xd4, 0x30),
    (0xd5, 0x30), (0xd6, 0x30), (0xd7, 0x30), (0xd8, 0x30), (0xd9, 0x30), (0xda, 0x30), (0xdb, 0x30), (0xdc, 0x30), (0xdd, 0x30), (0xde, 0x30),
    (0xdf, 0x30), (0xe0, 0x30), (0xe1, 0x30), (0xe2, 0x30), (0xe3, 0x30), (0xe4, 0x30), (0xe5, 0x30), (0xe6, 0x30), (0xe7, 0x30), (0xe8, 0x30),
    (0xe9, 0x30), (0xea, 0x30), (0xeb, 0x30), (0xec, 0x30), (0xed, 0x30), (0xee, 0x30), (0xef, 0x30), (0xf0, 0x30), (0xf1, 0x30), (0xf2, 0x30),
    (0xf3, 0x30), (0xf4, 0x30), (0xf5, 0x30), (0xf6, 0x30), (0xf7, 0x30), (0xf8, 0x30), (0xf9, 0x30), (0xfa, 0x30), (0xfb, 0x30), (0xfc, 0x30),
    (0xfd, 0x30), (0xfe, 0x30), (0xff, 0x30), (0, 0x31), (1, 0x31), (0x2, 0x31), (0x3, 0x31), (0x4, 0x31), (0x5, 0x31), (0x6, 0x31),
    (0x7, 0x31), (0x8, 0x31), (0x9, 0x31), (0xa, 0x31), (0xb, 0x31), (0xc, 0x31), (0xd, 0x31), (0xe, 0x31), (0xf, 0x31), (0x10, 0x31),
    (0x11, 0x31), (0x12, 0x31), (0x13, 0x31), (0x14, 0x31), (0x15, 0x31), (0x16, 0x31), (0x17, 0x31), (0x18, 0x31), (0x19, 0x31), (0x1a, 0x31)]"

lemma lts_i_6_run [lts_run]: "table_run LTS_STATE_i 900 lts_i_6 1050"
proof -
  have run: "lts_i_6 = bytes_up 123 0x85 0x30 @ bytes_up 27 0 0x31"
    by (simp add: lts_i_6_def bytes_up_numeral)
  show ?thesis by (simp add: run LTS_STATE_i_def bytes_up_run del: bytes_up.simps)
qed

definition lts_i_7 :: "(byte \<times> byte) list" where
  "lts_i_7 = [
    (0x1b, 0x31), (0x1c, 0x31), (0x1d, 0x31), (0x1e, 0x31), (0x1f, 0x31), (0x20, 0x31), (0x21, 0x31), (0x22, 0x31), (0x23, 0x31), (0x24, 0x31),
    (0x25, 0x31), (0x26, 0x31), (0x27, 0x31), (0x28, 0x31), (0x29, 0x31), (0x2a, 0x31), (0x2b, 0x31), (0x2c, 0x31), (0x2d, 0x31), (0x2e, 0x31),
    (0x2f, 0x31), (0x30, 0x31), (0x31, 0x31), (0x32, 0x31), (0x33, 0x31), (0x34, 0x31), (0x35, 0x31), (0x36, 0x31), (0x37, 0x31), (0x38, 0x31),
    (0x39, 0x31), (0x3a, 0x31), (0x3b, 0x31), (0x3c, 0x31), (0x3d, 0x31), (0x3e, 0x31), (0x3f, 0x31), (0x40, 0x31), (0x41, 0x31), (0x42, 0x31),
    (0x43, 0x31), (0x44, 0x31), (0x45, 0x31), (0x46, 0x31), (0x47, 0x31), (0x48, 0x31), (0x49, 0x31), (0x4a, 0x31), (0x4b, 0x31), (0x4c, 0x31),
    (0x4d, 0x31), (0x4e, 0x31), (0x4f, 0x31), (0x50, 0x31), (0x51, 0x31), (0x52, 0x31), (0x53, 0x31), (0x54, 0x31), (0x55, 0x31), (0x56, 0x31),
    (0x57, 0x31), (0x58, 0x31), (0x59, 0x31), (0x5a, 0x31), (0x5b, 0x31), (0x5c, 0x31), (0x5d, 0x31), (0x5e, 0x31), (0x5f, 0x31), (0x60, 0x31),
    (0x61, 0x31), (0x62, 0x31), (0x63, 0x31), (0x64, 0x31), (0x65, 0x31), (0x66, 0x31), (0x67, 0x31), (0x68, 0x31), (0x69, 0x31), (0x6a, 0x31),
    (0x6b, 0x31), (0x6c, 0x31), (0x6d, 0x31), (0x6e, 0x31), (0x6f, 0x31), (0x70, 0x31), (0x71, 0x31), (0x72, 0x31), (0x73, 0x31), (0x74, 0x31),
    (0x75, 0x31), (0x76, 0x31), (0x77, 0x31), (0x78, 0x31), (0x79, 0x31), (0x7a, 0x31), (0x7b, 0x31), (0x7c, 0x31), (0x7d, 0x31), (0x7e, 0x31),
    (0x7f, 0x31), (0x80, 0x31), (0x81, 0x31), (0x82, 0x31), (0x83, 0x31), (0x84, 0x31), (0x85, 0x31), (0x86, 0x31), (0x87, 0x31), (0x88, 0x31),
    (0x89, 0x31), (0x8a, 0x31), (0x8b, 0x31), (0x8c, 0x31), (0x8d, 0x31), (0x8e, 0x31), (0x8f, 0x31), (0x90, 0x31), (0x91, 0x31), (0x92, 0x31),
    (0x93, 0x31), (0x94, 0x31), (0x95, 0x31), (0x96, 0x31), (0x97, 0x31), (0x98, 0x31), (0x99, 0x31), (0x9a, 0x31), (0x9b, 0x31), (0x9c, 0x31),
    (0x9d, 0x31), (0x9e, 0x31), (0x9f, 0x31), (0xa0, 0x31), (0xa1, 0x31), (0xa2, 0x31), (0xa3, 0x31), (0xa4, 0x31), (0xa5, 0x31), (0xa6, 0x31),
    (0xa7, 0x31), (0xa8, 0x31), (0xa9, 0x31), (0xaa, 0x31), (0xab, 0x31), (0xac, 0x31), (0xad, 0x31), (0xae, 0x31), (0xaf, 0x31), (0xb0, 0x31)]"

lemma lts_i_7_run [lts_run]: "table_run LTS_STATE_i 1050 lts_i_7 1200"
proof -
  have run: "lts_i_7 = bytes_up 150 0x1b 0x31"
    by (simp add: lts_i_7_def bytes_up_numeral)
  show ?thesis by (simp add: run LTS_STATE_i_def bytes_up_run del: bytes_up.simps)
qed

definition lts_i_8 :: "(byte \<times> byte) list" where
  "lts_i_8 = [
    (0xb1, 0x31), (0xb2, 0x31), (0xb3, 0x31), (0xb4, 0x31), (0xb5, 0x31), (0xb6, 0x31), (0xb7, 0x31), (0xb8, 0x31), (0xb9, 0x31), (0xba, 0x31),
    (0xbb, 0x31), (0xbc, 0x31), (0xbd, 0x31), (0xbe, 0x31), (0xbf, 0x31), (0xc0, 0x31), (0xc1, 0x31), (0xc2, 0x31), (0xc3, 0x31), (0xc4, 0x31),
    (0xc5, 0x31), (0xc6, 0x31), (0xc7, 0x31), (0xc8, 0x31), (0xc9, 0x31), (0xca, 0x31), (0xcb, 0x31), (0xcc, 0x31), (0xcd, 0x31), (0xce, 0x31),
    (0xcf, 0x31), (0xd0, 0x31), (0xd1, 0x31), (0xd2, 0x31), (0xd3, 0x31), (0xd4, 0x31), (0xd5, 0x31), (0xd6, 0x31), (0xd7, 0x31), (0xd8, 0x31),
    (0xd9, 0x31), (0xda, 0x31), (0xdb, 0x31), (0xdc, 0x31), (0xdd, 0x31), (0xde, 0x31), (0xdf, 0x31), (0xe0, 0x31), (0xe1, 0x31), (0xe2, 0x31),
    (0xe3, 0x31), (0xe4, 0x31), (0xe5, 0x31), (0xe6, 0x31), (0xe7, 0x31), (0xe8, 0x31), (0xe9, 0x31), (0xea, 0x31), (0xeb, 0x31), (0xec, 0x31),
    (0xed, 0x31), (0xee, 0x31), (0xef, 0x31), (0xf0, 0x31), (0xf1, 0x31), (0xf2, 0x31), (0xf3, 0x31), (0xf4, 0x31), (0xf5, 0x31), (0xf6, 0x31),
    (0xf7, 0x31), (0xf8, 0x31), (0xf9, 0x31), (0xfa, 0x31), (0xfb, 0x31), (0xfc, 0x31), (0xfd, 0x31), (0xfe, 0x31), (0xff, 0x31), (0, 0x32),
    (1, 0x32), (0x2, 0x32), (0x3, 0x32), (0x4, 0x32), (0x5, 0x32), (0x6, 0x32), (0x7, 0x32), (0x8, 0x32), (0x9, 0x32), (0xa, 0x32),
    (0xb, 0x32), (0xc, 0x32), (0xd, 0x32), (0xe, 0x32), (0xf, 0x32), (0x10, 0x32), (0x11, 0x32), (0x12, 0x32), (0x13, 0x32), (0x14, 0x32),
    (0x15, 0x32), (0x16, 0x32), (0x17, 0x32), (0x18, 0x32), (0x19, 0x32), (0x1a, 0x32), (0x1b, 0x32), (0x1c, 0x32), (0x1d, 0x32), (0x1e, 0x32),
    (0x1f, 0x32), (0x20, 0x32), (0x21, 0x32), (0x22, 0x32), (0x23, 0x32), (0x24, 0x32), (0x25, 0x32), (0x26, 0x32), (0x27, 0x32), (0x28, 0x32),
    (0x29, 0x32), (0x2a, 0x32), (0x2b, 0x32), (0x2c, 0x32), (0x2d, 0x32), (0x2e, 0x32), (0x2f, 0x32), (0x30, 0x32), (0x31, 0x32), (0x32, 0x32),
    (0x33, 0x32), (0x34, 0x32), (0x35, 0x32), (0x36, 0x32), (0x37, 0x32), (0x38, 0x32), (0x39, 0x32), (0x3a, 0x32), (0x3b, 0x32), (0x3c, 0x32),
    (0x3d, 0x32), (0x3e, 0x32), (0x3f, 0x32), (0x40, 0x32), (0x41, 0x32), (0x42, 0x32), (0x43, 0x32), (0x44, 0x32), (0x45, 0x32), (0x46, 0x32)]"

lemma lts_i_8_run [lts_run]: "table_run LTS_STATE_i 1200 lts_i_8 1350"
proof -
  have run: "lts_i_8 = bytes_up 79 0xb1 0x31 @ bytes_up 71 0 0x32"
    by (simp add: lts_i_8_def bytes_up_numeral)
  show ?thesis by (simp add: run LTS_STATE_i_def bytes_up_run del: bytes_up.simps)
qed

definition lts_i_9 :: "(byte \<times> byte) list" where
  "lts_i_9 = [
    (0x47, 0x32), (0x48, 0x32), (0x49, 0x32), (0x4a, 0x32), (0x4b, 0x32), (0x4c, 0x32), (0x4d, 0x32), (0x4e, 0x32), (0x4f, 0x32), (0x50, 0x32),
    (0x51, 0x32), (0x52, 0x32), (0x53, 0x32), (0x54, 0x32), (0x55, 0x32), (0x56, 0x32), (0x57, 0x32), (0x58, 0x32), (0x59, 0x32), (0x5a, 0x32),
    (0x5b, 0x32), (0x5c, 0x32), (0x5d, 0x32), (0x5e, 0x32), (0x5f, 0x32), (0x60, 0x32), (0x61, 0x32), (0x62, 0x32), (0x63, 0x32), (0x64, 0x32),
    (0x65, 0x32), (0x66, 0x32), (0x67, 0x32), (0x68, 0x32), (0x69, 0x32), (0x6a, 0x32), (0x6b, 0x32), (0x6c, 0x32), (0x6d, 0x32), (0x6e, 0x32),
    (0x6f, 0x32), (0x70, 0x32), (0x71, 0x32), (0x72, 0x32), (0x73, 0x32), (0x74, 0x32), (0x75, 0x32), (0x76, 0x32), (0x77, 0x32), (0x78, 0x32),
    (0x79, 0x32), (0x7a, 0x32), (0x7b, 0x32), (0x7c, 0x32), (0x7d, 0x32), (0x7e, 0x32), (0x7f, 0x32), (0x80, 0x32), (0x81, 0x32), (0x82, 0x32),
    (0x83, 0x32), (0x84, 0x32), (0x85, 0x32), (0x86, 0x32), (0x87, 0x32), (0x88, 0x32), (0x89, 0x32), (0x8a, 0x32), (0x8b, 0x32), (0x8c, 0x32),
    (0x8d, 0x32), (0x8e, 0x32), (0x8f, 0x32), (0x90, 0x32), (0x91, 0x32), (0x92, 0x32), (0x93, 0x32), (0x94, 0x32), (0x95, 0x32), (0x96, 0x32),
    (0x97, 0x32), (0x98, 0x32), (0x99, 0x32), (0x9a, 0x32), (0x9b, 0x32), (0x9c, 0x32), (0x9d, 0x32), (0x9e, 0x32), (0x9f, 0x32), (0xa0, 0x32),
    (0xa1, 0x32), (0xa2, 0x32), (0xa3, 0x32), (0xa4, 0x32), (0xa5, 0x32), (0xa6, 0x32), (0xa7, 0x32), (0xa8, 0x32), (0xa9, 0x32), (0xaa, 0x32),
    (0xab, 0x32), (0xac, 0x32), (0xad, 0x32), (0xae, 0x32), (0xaf, 0x32), (0xb0, 0x32), (0xb1, 0x32), (0xb2, 0x32), (0xb3, 0x32), (0xb4, 0x32),
    (0xb5, 0x32), (0xb6, 0x32), (0xb7, 0x32), (0xb8, 0x32), (0xb9, 0x32), (0xba, 0x32), (0xbb, 0x32), (0xbc, 0x32), (0xbd, 0x32), (0xbe, 0x32),
    (0xbf, 0x32), (0xc0, 0x32), (0xc1, 0x32), (0xc2, 0x32), (0xc3, 0x32), (0xc4, 0x32), (0xc5, 0x32), (0xc6, 0x32), (0xc7, 0x32), (0xc8, 0x32),
    (0xc9, 0x32), (0xca, 0x32), (0xcb, 0x32), (0xcc, 0x32), (0xcd, 0x32), (0xce, 0x32), (0xcf, 0x32), (0xd0, 0x32), (0xd1, 0x32), (0xd2, 0x32),
    (0xd3, 0x32), (0xd4, 0x32), (0xd5, 0x32), (0xd6, 0x32), (0xd7, 0x32), (0xd8, 0x32), (0xd9, 0x32), (0xda, 0x32), (0xdb, 0x32), (0xdc, 0x32)]"

lemma lts_i_9_run [lts_run]: "table_run LTS_STATE_i 1350 lts_i_9 1500"
proof -
  have run: "lts_i_9 = bytes_up 150 0x47 0x32"
    by (simp add: lts_i_9_def bytes_up_numeral)
  show ?thesis by (simp add: run LTS_STATE_i_def bytes_up_run del: bytes_up.simps)
qed

definition lts_i_10 :: "(byte \<times> byte) list" where
  "lts_i_10 = [
    (0xdd, 0x32), (0xde, 0x32), (0xdf, 0x32), (0xe0, 0x32), (0xe1, 0x32), (0xe2, 0x32), (0xe3, 0x32), (0xe4, 0x32), (0xe5, 0x32), (0xe6, 0x32),
    (0xe7, 0x32), (0xe8, 0x32), (0xe9, 0x32), (0xea, 0x32), (0xeb, 0x32), (0xec, 0x32), (0xed, 0x32), (0xee, 0x32), (0xef, 0x32), (0xf0, 0x32),
    (0xf1, 0x32), (0xf2, 0x32), (0xf3, 0x32), (0xf4, 0x32), (0xf5, 0x32), (0xf6, 0x32), (0xf7, 0x32), (0xf8, 0x32), (0xf9, 0x32), (0xfa, 0x32),
    (0xfb, 0x32), (0xfc, 0x32), (0xfd, 0x32), (0xfe, 0x32), (0xff, 0x32), (0, 0x33), (1, 0x33), (0x2, 0x33), (0x3, 0x33), (0x4, 0x33),
    (0x5, 0x33), (0x6, 0x33), (0x7, 0x33), (0x8, 0x33), (0x9, 0x33), (0xa, 0x33), (0xb, 0x33), (0xc, 0x33), (0xd, 0x33), (0xe, 0x33),
    (0xf, 0x33), (0x10, 0x33), (0x11, 0x33), (0x12, 0x33), (0x13, 0x33), (0x14, 0x33), (0x15, 0x33), (0x16, 0x33), (0x17, 0x33), (0x18, 0x33),
    (0x19, 0x33), (0x1a, 0x33), (0x1b, 0x33), (0x1c, 0x33), (0x1d, 0x33), (0x1e, 0x33), (0x1f, 0x33), (0x20, 0x33), (0x21, 0x33), (0x22, 0x33),
    (0x23, 0x33), (0x24, 0x33), (0x25, 0x33), (0x26, 0x33), (0x27, 0x33), (0x28, 0x33), (0x29, 0x33), (0x2a, 0x33), (0x2b, 0x33), (0x2c, 0x33),
    (0x2d, 0x33), (0x2e, 0x33), (0x2f, 0x33), (0x30, 0x33), (0x31, 0x33), (0x32, 0x33), (0x33, 0x33), (0x34, 0x33), (0x35, 0x33), (0x36, 0x33),
    (0x37, 0x33), (0x38, 0x33), (0x39, 0x33), (0x3a, 0x33), (0x3b, 0x33), (0x3c, 0x33), (0x3d, 0x33), (0x3e, 0x33), (0x3f, 0x33), (0x40, 0x33),
    (0x41, 0x33), (0x42, 0x33), (0x43, 0x33), (0x44, 0x33), (0x45, 0x33), (0x46, 0x33), (0x47, 0x33), (0x48, 0x33), (0x49, 0x33), (0x4a, 0x33),
    (0x4b, 0x33), (0x4c, 0x33), (0x4d, 0x33), (0x4e, 0x33), (0x4f, 0x33), (0x50, 0x33), (0x51, 0x33), (0x52, 0x33), (0x53, 0x33), (0x54, 0x33),
    (0x55, 0x33), (0x56, 0x33), (0x57, 0x33), (0x58, 0x33), (0x59, 0x33), (0x5a, 0x33), (0x5b, 0x33), (0x5c, 0x33), (0x5d, 0x33), (0x5e, 0x33),
    (0x5f, 0x33), (0x60, 0x33), (0x61, 0x33), (0x62, 0x33), (0x63, 0x33), (0x64, 0x33), (0x65, 0x33), (0x66, 0x33), (0x67, 0x33), (0x68, 0x33),
    (0x69, 0x33), (0x6a, 0x33), (0x6b, 0x33), (0x6c, 0x33), (0x6d, 0x33), (0x6e, 0x33), (0x6f, 0x33), (0x70, 0x33), (0x71, 0x33), (0x72, 0x33)]"

lemma lts_i_10_run [lts_run]: "table_run LTS_STATE_i 1500 lts_i_10 1650"
proof -
  have run: "lts_i_10 = bytes_up 35 0xdd 0x32 @ bytes_up 115 0 0x33"
    by (simp add: lts_i_10_def bytes_up_numeral)
  show ?thesis by (simp add: run LTS_STATE_i_def bytes_up_run del: bytes_up.simps)
qed

definition lts_i_11 :: "(byte \<times> byte) list" where
  "lts_i_11 = [
    (0x73, 0x33), (0x74, 0x33), (0x75, 0x33), (0x76, 0x33), (0x77, 0x33), (0x78, 0x33), (0x79, 0x33), (0x7a, 0x33), (0x7b, 0x33), (0x7c, 0x33),
    (0x7d, 0x33), (0x7e, 0x33), (0x7f, 0x33), (0x80, 0x33), (0x81, 0x33), (0x82, 0x33), (0x83, 0x33), (0x84, 0x33), (0x85, 0x33), (0x86, 0x33),
    (0x87, 0x33), (0x88, 0x33), (0x89, 0x33), (0x8a, 0x33), (0x8b, 0x33), (0x8c, 0x33), (0x8d, 0x33), (0x8e, 0x33), (0x8f, 0x33), (0x90, 0x33),
    (0x91, 0x33), (0x92, 0x33), (0x93, 0x33), (0x94, 0x33), (0x95, 0x33), (0x96, 0x33), (0x97, 0x33), (0x98, 0x33), (0x99, 0x33), (0x9a, 0x33),
    (0x9b, 0x33), (0x9c, 0x33), (0x9d, 0x33), (0x9e, 0x33), (0x9f, 0x33), (0xa0, 0x33), (0xa1, 0x33), (0xa2, 0x33), (0xa3, 0x33), (0xa4, 0x33),
    (0xa5, 0x33), (0xa6, 0x33), (0xa7, 0x33), (0xa8, 0x33), (0xa9, 0x33), (0xaa, 0x33), (0xab, 0x33), (0xac, 0x33), (0xad, 0x33), (0xae, 0x33),
    (0xaf, 0x33), (0xb0, 0x33), (0xb1, 0x33), (0xb2, 0x33), (0xb3, 0x33), (0xb4, 0x33), (0xb5, 0x33), (0xb6, 0x33), (0xb7, 0x33), (0xb8, 0x33),
    (0xb9, 0x33), (0xba, 0x33), (0xbb, 0x33), (0xbc, 0x33), (0xbd, 0x33), (0xbe, 0x33), (0xbf, 0x33), (0xc0, 0x33), (0xc1, 0x33), (0xc2, 0x33),
    (0xc3, 0x33), (0xc4, 0x33), (0xc5, 0x33), (0xc6, 0x33), (0xc7, 0x33), (0xc8, 0x33), (0xc9, 0x33), (0xca, 0x33), (0xcb, 0x33), (0xcc, 0x33),
    (0xcd, 0x33), (0xce, 0x33), (0xcf, 0x33), (0xd0, 0x33), (0xd1, 0x33), (0xd2, 0x33), (0xd3, 0x33), (0xd4, 0x33), (0xd5, 0x33), (0xd6, 0x33),
    (0xd7, 0x33), (0xd8, 0x33), (0xd9, 0x33), (0xda, 0x33), (0xdb, 0x33), (0xdc, 0x33), (0xdd, 0x33), (0xde, 0x33), (0xdf, 0x33), (0xe0, 0x33),
    (0xe1, 0x33), (0xe2, 0x33), (0xe3, 0x33), (0xe4, 0x33), (0xe5, 0x33), (0xe6, 0x33), (0xe7, 0x33), (0xe8, 0x33), (0xe9, 0x33), (0xea, 0x33),
    (0xeb, 0x33), (0xec, 0x33), (0xed, 0x33), (0xee, 0x33), (0xef, 0x33), (0xf0, 0x33), (0xf1, 0x33), (0xf2, 0x33), (0xf3, 0x33), (0xf4, 0x33),
    (0xf5, 0x33), (0xf6, 0x33), (0xf7, 0x33), (0xf8, 0x33), (0xf9, 0x33), (0xfa, 0x33), (0xfb, 0x33), (0xfc, 0x33), (0xfd, 0x33), (0xfe, 0x33),
    (0xff, 0x33), (0, 0x34), (1, 0x34), (0x2, 0x34), (0x3, 0x34), (0x4, 0x34), (0x5, 0x34), (0x6, 0x34), (0x7, 0x34), (0x8, 0x34)]"

lemma lts_i_11_run [lts_run]: "table_run LTS_STATE_i 1650 lts_i_11 1800"
proof -
  have run: "lts_i_11 = bytes_up 141 0x73 0x33 @ bytes_up 9 0 0x34"
    by (simp add: lts_i_11_def bytes_up_numeral)
  show ?thesis by (simp add: run LTS_STATE_i_def bytes_up_run del: bytes_up.simps)
qed

definition lts_i_12 :: "(byte \<times> byte) list" where
  "lts_i_12 = [
    (0x9, 0x34), (0xa, 0x34), (0xb, 0x34), (0xc, 0x34), (0xd, 0x34), (0xe, 0x34), (0xf, 0x34), (0x10, 0x34), (0x11, 0x34), (0x12, 0x34),
    (0x13, 0x34), (0x14, 0x34), (0x15, 0x34), (0x16, 0x34), (0x17, 0x34), (0x18, 0x34), (0x19, 0x34), (0x1a, 0x34), (0x1b, 0x34), (0x1c, 0x34),
    (0x1d, 0x34), (0x1e, 0x34), (0x1f, 0x34), (0x20, 0x34), (0x21, 0x34), (0x22, 0x34), (0x23, 0x34), (0x24, 0x34), (0x25, 0x34), (0x26, 0x34),
    (0x27, 0x34), (0x28, 0x34), (0x29, 0x34), (0x2a, 0x34), (0x2b, 0x34), (0x2c, 0x34), (0x2d, 0x34), (0x2e, 0x34), (0x2f, 0x34), (0x30, 0x34),
    (0x31, 0x34), (0x32, 0x34), (0x33, 0x34), (0x34, 0x34), (0x35, 0x34), (0x36, 0x34), (0x37, 0x34), (0x38, 0x34), (0x39, 0x34), (0x3a, 0x34),
    (0x3b, 0x34), (0x3c, 0x34), (0x3d, 0x34), (0x3e, 0x34), (0x3f, 0x34), (0x40, 0x34), (0x41, 0x34), (0x42, 0x34), (0x43, 0x34), (0x44, 0x34),
    (0x45, 0x34), (0x46, 0x34), (0x47, 0x34), (0x48, 0x34), (0x49, 0x34), (0x4a, 0x34), (0x4b, 0x34), (0x4c, 0x34), (0x4d, 0x34), (0x4e, 0x34),
    (0x4f, 0x34), (0x50, 0x34), (0x51, 0x34), (0x52, 0x34), (0x53, 0x34), (0x54, 0x34), (0x55, 0x34), (0x56, 0x34), (0x57, 0x34), (0x58, 0x34),
    (0x59, 0x34), (0x5a, 0x34), (0x5b, 0x34), (0x5c, 0x34), (0x5d, 0x34), (0x5e, 0x34), (0x5f, 0x34), (0x60, 0x34), (0x61, 0x34), (0x62, 0x34),
    (0x63, 0x34), (0x64, 0x34), (0x65, 0x34), (0x66, 0x34), (0x67, 0x34), (0x68, 0x34), (0x69, 0x34), (0x6a, 0x34), (0x6b, 0x34), (0x6c, 0x34),
    (0x6d, 0x34), (0x6e, 0x34), (0x6f, 0x34), (0x70, 0x34), (0x71, 0x34), (0x72, 0x34), (0x73, 0x34), (0x74, 0x34), (0x75, 0x34), (0x76, 0x34),
    (0x77, 0x34), (0x78, 0x34), (0x79, 0x34), (0x7a, 0x34), (0x7b, 0x34), (0x7c, 0x34), (0x7d, 0x34), (0x7e, 0x34), (0x7f, 0x34), (0x80, 0x34),
    (0x81, 0x34), (0x82, 0x34), (0x83, 0x34), (0x84, 0x34), (0x85, 0x34), (0x86, 0x34), (0x87, 0x34), (0x88, 0x34), (0x89, 0x34), (0x8a, 0x34),
    (0x8b, 0x34), (0x8c, 0x34), (0x8d, 0x34), (0x8e, 0x34), (0x8f, 0x34), (0x90, 0x34), (0x91, 0x34), (0x92, 0x34), (0x93, 0x34), (0x94, 0x34),
    (0x95, 0x34), (0x96, 0x34), (0x97, 0x34), (0x98, 0x34), (0x99, 0x34), (0x9a, 0x34), (0x9b, 0x34), (0x9c, 0x34), (0x9d, 0x34), (0x9e, 0x34)]"

lemma lts_i_12_run [lts_run]: "table_run LTS_STATE_i 1800 lts_i_12 1950"
proof -
  have run: "lts_i_12 = bytes_up 150 0x9 0x34"
    by (simp add: lts_i_12_def bytes_up_numeral)
  show ?thesis by (simp add: run LTS_STATE_i_def bytes_up_run del: bytes_up.simps)
qed

definition lts_i_13 :: "(byte \<times> byte) list" where
  "lts_i_13 = [
    (0x9f, 0x34), (0xa0, 0x34), (0xa1, 0x34), (0xa2, 0x34), (0xa3, 0x34), (0xa4, 0x34), (0xa5, 0x34), (0xa6, 0x34), (0xa7, 0x34), (0xa8, 0x34),
    (0xa9, 0x34), (0xaa, 0x34), (0xab, 0x34), (0xac, 0x34), (0xad, 0x34), (0xae, 0x34), (0xaf, 0x34), (0xb0, 0x34), (0xb1, 0x34), (0xb2, 0x34),
    (0xb3, 0x34), (0xb4, 0x34), (0xb5, 0x34), (0xb6, 0x34), (0xb7, 0x34), (0xb8, 0x34), (0xb9, 0x34), (0xba, 0x34), (0xbb, 0x34), (0xbc, 0x34),
    (0xbd, 0x34), (0xbe, 0x34), (0xbf, 0x34), (0xc0, 0x34), (0xc1, 0x34), (0xc2, 0x34), (0xc3, 0x34), (0xc4, 0x34), (0xc5, 0x34), (0xc6, 0x34),
    (0xc7, 0x34), (0xc8, 0x34), (0xc9, 0x34), (0xca, 0x34), (0xcb, 0x34), (0xcc, 0x34), (0xcd, 0x34), (0xce, 0x34), (0xcf, 0x34), (0xd0, 0x34),
    (0xd1, 0x34), (0xd2, 0x34), (0xd3, 0x34), (0xd4, 0x34), (0xd5, 0x34), (0xd6, 0x34), (0xd7, 0x34), (0xd8, 0x34), (0xd9, 0x34), (0xda, 0x34),
    (0xdb, 0x34), (0xdc, 0x34), (0xdd, 0x34), (0xde, 0x34), (0xdf, 0x34), (0xe0, 0x34), (0xe1, 0x34), (0xe2, 0x34), (0xe3, 0x34), (0xe4, 0x34),
    (0xe5, 0x34), (0xe6, 0x34), (0xe7, 0x34), (0xe8, 0x34), (0xe9, 0x34), (0xea, 0x34), (0xeb, 0x34), (0xec, 0x34), (0xed, 0x34), (0xee, 0x34),
    (0xef, 0x34), (0xf0, 0x34), (0xf1, 0x34), (0xf2, 0x34), (0xf3, 0x34), (0xf4, 0x34), (0xf5, 0x34), (0xf6, 0x34), (0xf7, 0x34), (0xf8, 0x34),
    (0xf9, 0x34), (0xfa, 0x34), (0xfb, 0x34), (0xfc, 0x34), (0xfd, 0x34), (0xfe, 0x34), (0xff, 0x34), (0, 0x35), (1, 0x35), (0x2, 0x35),
    (0x3, 0x35), (0x4, 0x35), (0x5, 0x35), (0x6, 0x35), (0x7, 0x35), (0x8, 0x35), (0x9, 0x35), (0xa, 0x35), (0xb, 0x35), (0xc, 0x35),
    (0xd, 0x35), (0xe, 0x35), (0xf, 0x35), (0x10, 0x35), (0x11, 0x35), (0x12, 0x35), (0x13, 0x35), (0x14, 0x35), (0x15, 0x35), (0x16, 0x35),
    (0x17, 0x35), (0x18, 0x35), (0x19, 0x35), (0x1a, 0x35), (0x1b, 0x35), (0x1c, 0x35), (0x1d, 0x35), (0x1e, 0x35), (0x1f, 0x35), (0x20, 0x35),
    (0x21, 0x35), (0x22, 0x35), (0x23, 0x35), (0x24, 0x35), (0x25, 0x35), (0x26, 0x35), (0x27, 0x35), (0x28, 0x35), (0x29, 0x35), (0x2a, 0x35),
    (0x2b, 0x35), (0x2c, 0x35), (0x2d, 0x35), (0x2e, 0x35), (0x2f, 0x35), (0x30, 0x35), (0x31, 0x35), (0x32, 0x35), (0x33, 0x35), (0x34, 0x35)]"

lemma lts_i_13_run [lts_run]: "table_run LTS_STATE_i 1950 lts_i_13 2100"
proof -
  have run: "lts_i_13 = bytes_up 97 0x9f 0x34 @ bytes_up 53 0 0x35"
    by (simp add: lts_i_13_def bytes_up_numeral)
  show ?thesis by (simp add: run LTS_STATE_i_def bytes_up_run del: bytes_up.simps)
qed

definition lts_i_14 :: "(byte \<times> byte) list" where
  "lts_i_14 = [
    (0x35, 0x35), (0x36, 0x35), (0x37, 0x35), (0x38, 0x35), (0x39, 0x35), (0x3a, 0x35), (0x3b, 0x35), (0x3c, 0x35), (0x3d, 0x35), (0x3e, 0x35),
    (0x3f, 0x35), (0x40, 0x35), (0x41, 0x35), (0x42, 0x35), (0x43, 0x35), (0x44, 0x35), (0x45, 0x35), (0x46, 0x35), (0x47, 0x35), (0x48, 0x35),
    (0x49, 0x35), (0x4a, 0x35), (0x4b, 0x35), (0x4c, 0x35), (0x4d, 0x35), (0x4e, 0x35), (0x4f, 0x35), (0x50, 0x35), (0x51, 0x35), (0x52, 0x35),
    (0x53, 0x35), (0x54, 0x35), (0x55, 0x35), (0x56, 0x35), (0x57, 0x35), (0x58, 0x35), (0x59, 0x35), (0x5a, 0x35), (0x5b, 0x35), (0x5c, 0x35),
    (0x5d, 0x35), (0x5e, 0x35), (0x5f, 0x35), (0x60, 0x35), (0x61, 0x35), (0x62, 0x35), (0x63, 0x35), (0x64, 0x35), (0x65, 0x35), (0x66, 0x35),
    (0x67, 0x35), (0x68, 0x35), (0x69, 0x35), (0x6a, 0x35), (0x6b, 0x35), (0x6c, 0x35), (0x6d, 0x35), (0x6e, 0x35), (0x6f, 0x35), (0x70, 0x35),
    (0x71, 0x35), (0x72, 0x35), (0x73, 0x35), (0x74, 0x35), (0x75, 0x35), (0x76, 0x35), (0x77, 0x35), (0x78, 0x35), (0x79, 0x35), (0x7a, 0x35),
    (0x7b, 0x35), (0x7c, 0x35), (0x7d, 0x35), (0x7e, 0x35), (0x7f, 0x35), (0x80, 0x35), (0x81, 0x35), (0x82, 0x35), (0x83, 0x35), (0x84, 0x35),
    (0x85, 0x35), (0x86, 0x35), (0x87, 0x35), (0x88, 0x35), (0x89, 0x35), (0x8a, 0x35), (0x8b, 0x35), (0x8c, 0x35), (0x8d, 0x35), (0x8e, 0x35),
    (0x8f, 0x35), (0x90, 0x35), (0x91, 0x35), (0x92, 0x35), (0x93, 0x35), (0x94, 0x35), (0x95, 0x35), (0x96, 0x35), (0x97, 0x35), (0x98, 0x35),
    (0x99, 0x35), (0x9a, 0x35), (0x9b, 0x35), (0x9c, 0x35), (0x9d, 0x35), (0x9e, 0x35), (0x9f, 0x35), (0xa0, 0x35), (0xa1, 0x35), (0xa2, 0x35),
    (0xa3, 0x35), (0xa4, 0x35), (0xa5, 0x35), (0xa6, 0x35), (0xa7, 0x35), (0xa8, 0x35), (0xa9, 0x35), (0xaa, 0x35), (0xab, 0x35), (0xac, 0x35),
    (0xad, 0x35), (0xae, 0x35), (0xaf, 0x35), (0xb0, 0x35), (0xb1, 0x35), (0xb2, 0x35), (0xb3, 0x35), (0xb4, 0x35), (0xb5, 0x35), (0xb6, 0x35),
    (0xb7, 0x35), (0xb8, 0x35), (0xb9, 0x35), (0xba, 0x35), (0xbb, 0x35), (0xbc, 0x35), (0xbd, 0x35), (0xbe, 0x35), (0xbf, 0x35), (0xc0, 0x35),
    (0xc1, 0x35), (0xc2, 0x35), (0xc3, 0x35), (0xc4, 0x35), (0xc5, 0x35), (0xc6, 0x35), (0xc7, 0x35), (0xc8, 0x35), (0xc9, 0x35), (0xca, 0x35)]"

lemma lts_i_14_run [lts_run]: "table_run LTS_STATE_i 2100 lts_i_14 2250"
proof -
  have run: "lts_i_14 = bytes_up 150 0x35 0x35"
    by (simp add: lts_i_14_def bytes_up_numeral)
  show ?thesis by (simp add: run LTS_STATE_i_def bytes_up_run del: bytes_up.simps)
qed

definition lts_i_15 :: "(byte \<times> byte) list" where
  "lts_i_15 = [
    (0xcb, 0x35), (0xcc, 0x35), (0xcd, 0x35), (0xce, 0x35), (0xcf, 0x35), (0xd0, 0x35), (0xd1, 0x35), (0xd2, 0x35), (0xd3, 0x35), (0xd4, 0x35),
    (0xd5, 0x35), (0xd6, 0x35), (0xd7, 0x35), (0xd8, 0x35), (0xd9, 0x35), (0xda, 0x35), (0xdb, 0x35), (0xdc, 0x35), (0xdd, 0x35), (0xde, 0x35),
    (0xdf, 0x35), (0xe0, 0x35), (0xe1, 0x35), (0xe2, 0x35), (0xe3, 0x35), (0xe4, 0x35), (0xe5, 0x35), (0xe6, 0x35), (0xe7, 0x35), (0xe8, 0x35),
    (0xe9, 0x35), (0xea, 0x35), (0xeb, 0x35), (0xec, 0x35), (0xed, 0x35), (0xee, 0x35), (0xef, 0x35), (0xf0, 0x35), (0xf1, 0x35), (0xf2, 0x35),
    (0xf3, 0x35), (0xf4, 0x35), (0xf5, 0x35), (0xf6, 0x35), (0xf7, 0x35), (0xf8, 0x35), (0xf9, 0x35), (0xfa, 0x35), (0xfb, 0x35), (0xfc, 0x35),
    (0xfd, 0x35), (0xfe, 0x35), (0xff, 0x35), (0, 0x36), (1, 0x36), (0x2, 0x36), (0x3, 0x36), (0x4, 0x36), (0x5, 0x36), (0x6, 0x36),
    (0x7, 0x36), (0x8, 0x36), (0x9, 0x36), (0xa, 0x36), (0xb, 0x36), (0xc, 0x36), (0xd, 0x36), (0xe, 0x36), (0xf, 0x36), (0x10, 0x36),
    (0x11, 0x36), (0x12, 0x36), (0x13, 0x36), (0x14, 0x36), (0x15, 0x36), (0x16, 0x36), (0x17, 0x36), (0x18, 0x36), (0x19, 0x36), (0x1a, 0x36),
    (0x1b, 0x36), (0x1c, 0x36), (0x1d, 0x36), (0x1e, 0x36), (0x1f, 0x36), (0x20, 0x36), (0x21, 0x36), (0x22, 0x36), (0x23, 0x36), (0x24, 0x36),
    (0x25, 0x36), (0x26, 0x36), (0x27, 0x36), (0x28, 0x36), (0x29, 0x36), (0x2a, 0x36), (0x2b, 0x36), (0x2c, 0x36), (0x2d, 0x36), (0x2e, 0x36),
    (0x2f, 0x36), (0x30, 0x36), (0x31, 0x36), (0x32, 0x36), (0x33, 0x36), (0x34, 0x36), (0x35, 0x36), (0x36, 0x36), (0x37, 0x36), (0x38, 0x36),
    (0x39, 0x36), (0x3a, 0x36), (0x3b, 0x36), (0x3c, 0x36), (0x3d, 0x36), (0x3e, 0x36), (0x3f, 0x36), (0x40, 0x36), (0x41, 0x36), (0x42, 0x36),
    (0x43, 0x36), (0x44, 0x36), (0x45, 0x36), (0x46, 0x36), (0x47, 0x36), (0x48, 0x36), (0x49, 0x36), (0x4a, 0x36), (0x4b, 0x36), (0x4c, 0x36),
    (0x4d, 0x36), (0x4e, 0x36), (0x4f, 0x36), (0x50, 0x36), (0x51, 0x36), (0x52, 0x36), (0x53, 0x36), (0x54, 0x36), (0x55, 0x36), (0x56, 0x36),
    (0x57, 0x36), (0x58, 0x36), (0x59, 0x36), (0x5a, 0x36), (0x5b, 0x36), (0x5c, 0x36), (0x5d, 0x36), (0x5e, 0x36), (0x5f, 0x36), (0x60, 0x36)]"

lemma lts_i_15_run [lts_run]: "table_run LTS_STATE_i 2250 lts_i_15 2400"
proof -
  have run: "lts_i_15 = bytes_up 53 0xcb 0x35 @ bytes_up 97 0 0x36"
    by (simp add: lts_i_15_def bytes_up_numeral)
  show ?thesis by (simp add: run LTS_STATE_i_def bytes_up_run del: bytes_up.simps)
qed

definition lts_i_16 :: "(byte \<times> byte) list" where
  "lts_i_16 = [
    (0x61, 0x36), (0x62, 0x36), (0x63, 0x36), (0x64, 0x36), (0x65, 0x36), (0x66, 0x36), (0x67, 0x36), (0x68, 0x36), (0x69, 0x36), (0x6a, 0x36),
    (0x6b, 0x36), (0x6c, 0x36), (0x6d, 0x36), (0x6e, 0x36), (0x6f, 0x36), (0x70, 0x36), (0x71, 0x36), (0x72, 0x36), (0x73, 0x36), (0x74, 0x36),
    (0x75, 0x36), (0x76, 0x36), (0x77, 0x36), (0x78, 0x36), (0x79, 0x36), (0x7a, 0x36), (0x7b, 0x36), (0x7c, 0x36), (0x7d, 0x36), (0x7e, 0x36),
    (0x7f, 0x36), (0x80, 0x36), (0x81, 0x36), (0x82, 0x36), (0x83, 0x36), (0x84, 0x36), (0x85, 0x36), (0x86, 0x36), (0x87, 0x36), (0x88, 0x36),
    (0x89, 0x36), (0x8a, 0x36), (0x8b, 0x36), (0x8c, 0x36), (0x8d, 0x36), (0x8e, 0x36), (0x8f, 0x36), (0x90, 0x36), (0x91, 0x36), (0x92, 0x36),
    (0x93, 0x36), (0x94, 0x36), (0x95, 0x36), (0x96, 0x36), (0x97, 0x36), (0x98, 0x36), (0x99, 0x36), (0x9a, 0x36), (0x9b, 0x36), (0x9c, 0x36),
    (0x9d, 0x36), (0x9e, 0x36), (0x9f, 0x36), (0xa0, 0x36), (0xa1, 0x36), (0xa2, 0x36), (0xa3, 0x36), (0xa4, 0x36), (0xa5, 0x36), (0xa6, 0x36),
    (0xa7, 0x36), (0xa8, 0x36), (0xa9, 0x36), (0xaa, 0x36), (0xab, 0x36), (0xac, 0x36), (0xad, 0x36), (0xae, 0x36), (0xaf, 0x36), (0xb0, 0x36),
    (0xb1, 0x36), (0xb2, 0x36), (0xb3, 0x36), (0xb4, 0x36), (0xb5, 0x36), (0xb6, 0x36), (0xb7, 0x36), (0xb8, 0x36), (0xb9, 0x36), (0xba, 0x36),
    (0xbb, 0x36), (0xbc, 0x36), (0xbd, 0x36), (0xbe, 0x36), (0xbf, 0x36), (0xc0, 0x36), (0xc1, 0x36), (0xc2, 0x36), (0xc3, 0x36), (0xc4, 0x36),
    (0xc5, 0x36), (0xc6, 0x36), (0xc7, 0x36), (0xc8, 0x36), (0xc9, 0x36), (0xca, 0x36), (0xcb, 0x36), (0xcc, 0x36), (0xcd, 0x36), (0xce, 0x36),
    (0xcf, 0x36), (0xd0, 0x36), (0xd1, 0x36), (0xd2, 0x36), (0xd3, 0x36), (0xd4, 0x36), (0xd5, 0x36), (0xd6, 0x36), (0xd7, 0x36), (0xd8, 0x36),
    (0xd9, 0x36), (0xda, 0x36), (0xdb, 0x36), (0xdc, 0x36), (0xdd, 0x36), (0xde, 0x36), (0xdf, 0x36), (0xe0, 0x36), (0xe1, 0x36), (0xe2, 0x36),
    (0xe3, 0x36), (0xe4, 0x36), (0xe5, 0x36), (0xe6, 0x36), (0xe7, 0x36), (0xe8, 0x36), (0xe9, 0x36), (0xea, 0x36), (0xeb, 0x36), (0xec, 0x36),
    (0xed, 0x36), (0xee, 0x36), (0xef, 0x36), (0xf0, 0x36), (0xf1, 0x36), (0xf2, 0x36), (0xf3, 0x36), (0xf4, 0x36), (0xf5, 0x36), (0xf6, 0x36)]"

lemma lts_i_16_run [lts_run]: "table_run LTS_STATE_i 2400 lts_i_16 2550"
proof -
  have run: "lts_i_16 = bytes_up 150 0x61 0x36"
    by (simp add: lts_i_16_def bytes_up_numeral)
  show ?thesis by (simp add: run LTS_STATE_i_def bytes_up_run del: bytes_up.simps)
qed

definition lts_i_17 :: "(byte \<times> byte) list" where
  "lts_i_17 = [
    (0xf7, 0x36), (0xf8, 0x36), (0xf9, 0x36), (0xfa, 0x36), (0xfb, 0x36), (0xfc, 0x36), (0xfd, 0x36), (0xfe, 0x36), (0xff, 0x36), (0, 0x37),
    (1, 0x37), (0x2, 0x37), (0x3, 0x37), (0x4, 0x37), (0x5, 0x37), (0x6, 0x37), (0x7, 0x37), (0x8, 0x37), (0x9, 0x37), (0xa, 0x37),
    (0xb, 0x37), (0xc, 0x37), (0xd, 0x37), (0xe, 0x37), (0xf, 0x37), (0x10, 0x37), (0x11, 0x37), (0x12, 0x37), (0x13, 0x37), (0x14, 0x37),
    (0x15, 0x37), (0x16, 0x37), (0x17, 0x37), (0x18, 0x37), (0x19, 0x37), (0x1a, 0x37), (0x1b, 0x37), (0x1c, 0x37), (0x1d, 0x37), (0x1e, 0x37),
    (0x1f, 0x37), (0x20, 0x37), (0x21, 0x37), (0x22, 0x37), (0x23, 0x37), (0x24, 0x37), (0x25, 0x37), (0x26, 0x37), (0x27, 0x37), (0x28, 0x37),
    (0x29, 0x37), (0x2a, 0x37), (0x2b, 0x37), (0x2c, 0x37), (0x2d, 0x37), (0x2e, 0x37), (0x2f, 0x37), (0x30, 0x37), (0x31, 0x37), (0x32, 0x37),
    (0x33, 0x37), (0x34, 0x37), (0x35, 0x37), (0x36, 0x37), (0x37, 0x37), (0x38, 0x37), (0x39, 0x37), (0x3a, 0x37), (0x3b, 0x37), (0x3c, 0x37),
    (0x3d, 0x37), (0x3e, 0x37), (0x3f, 0x37), (0x40, 0x37), (0x41, 0x37), (0x42, 0x37), (0x43, 0x37), (0x44, 0x37), (0x45, 0x37), (0x46, 0x37),
    (0x47, 0x37), (0x48, 0x37), (0x49, 0x37), (0x4a, 0x37), (0x4b, 0x37), (0x4c, 0x37), (0x4d, 0x37), (0x4e, 0x37), (0x4f, 0x37), (0x50, 0x37),
    (0x51, 0x37), (0x52, 0x37), (0x53, 0x37), (0x54, 0x37), (0x55, 0x37), (0x56, 0x37), (0x57, 0x37), (0x58, 0x37), (0x59, 0x37), (0x5a, 0x37),
    (0x5b, 0x37), (0x5c, 0x37), (0x5d, 0x37), (0x5e, 0x37), (0x5f, 0x37), (0x60, 0x37), (0x61, 0x37), (0x62, 0x37), (0x63, 0x37), (0x64, 0x37),
    (0x65, 0x37), (0x66, 0x37), (0x67, 0x37), (0x68, 0x37), (0x69, 0x37), (0x6a, 0x37), (0x6b, 0x37), (0x6c, 0x37), (0x6d, 0x37), (0x6e, 0x37),
    (0x6f, 0x37), (0x70, 0x37), (0x71, 0x37), (0x72, 0x37), (0x73, 0x37), (0x74, 0x37), (0x75, 0x37), (0x76, 0x37), (0x77, 0x37), (0x78, 0x37),
    (0x79, 0x37), (0x7a, 0x37), (0x7b, 0x37), (0x7c, 0x37), (0x7d, 0x37), (0x7e, 0x37), (0x7f, 0x37), (0x80, 0x37), (0x81, 0x37), (0x82, 0x37),
    (0x83, 0x37), (0x84, 0x37), (0x85, 0x37), (0x86, 0x37), (0x87, 0x37), (0x88, 0x37), (0x89, 0x37), (0x8a, 0x37), (0x8b, 0x37), (0x8c, 0x37)]"

lemma lts_i_17_run [lts_run]: "table_run LTS_STATE_i 2550 lts_i_17 2700"
proof -
  have run: "lts_i_17 = bytes_up 9 0xf7 0x36 @ bytes_up 141 0 0x37"
    by (simp add: lts_i_17_def bytes_up_numeral)
  show ?thesis by (simp add: run LTS_STATE_i_def bytes_up_run del: bytes_up.simps)
qed

definition lts_i_18 :: "(byte \<times> byte) list" where
  "lts_i_18 = [
    (0x8d, 0x37), (0x8e, 0x37), (0x8f, 0x37), (0x90, 0x37), (0x91, 0x37), (0x92, 0x37), (0x93, 0x37), (0x94, 0x37), (0x95, 0x37), (0x96, 0x37),
    (0x97, 0x37), (0x98, 0x37), (0x99, 0x37), (0x9a, 0x37), (0x9b, 0x37), (0x9c, 0x37), (0x9d, 0x37), (0x9e, 0x37), (0x9f, 0x37), (0xa0, 0x37),
    (0xa1, 0x37), (0xa2, 0x37), (0xa3, 0x37), (0xa4, 0x37), (0xa5, 0x37), (0xa6, 0x37), (0xa7, 0x37), (0xa8, 0x37), (0xa9, 0x37), (0xaa, 0x37),
    (0xab, 0x37), (0xac, 0x37), (0xad, 0x37), (0xae, 0x37), (0xaf, 0x37), (0xb0, 0x37), (0xb1, 0x37), (0xb2, 0x37), (0xb3, 0x37), (0xb4, 0x37),
    (0xb5, 0x37), (0xb6, 0x37), (0xb7, 0x37), (0xb8, 0x37), (0xb9, 0x37), (0xba, 0x37), (0xbb, 0x37), (0xbc, 0x37), (0xbd, 0x37), (0xbe, 0x37),
    (0xbf, 0x37), (0xc0, 0x37), (0xc1, 0x37), (0xc2, 0x37), (0xc3, 0x37), (0xc4, 0x37), (0xc5, 0x37), (0xc6, 0x37), (0xc7, 0x37), (0xc8, 0x37),
    (0xc9, 0x37), (0xca, 0x37), (0xcb, 0x37), (0xcc, 0x37), (0xcd, 0x37), (0xce, 0x37), (0xcf, 0x37), (0xd0, 0x37), (0xd1, 0x37), (0xd2, 0x37),
    (0xd3, 0x37), (0xd4, 0x37), (0xd5, 0x37), (0xd6, 0x37), (0xd7, 0x37), (0xd8, 0x37), (0xd9, 0x37), (0xda, 0x37), (0xdb, 0x37), (0xdc, 0x37),
    (0xdd, 0x37), (0xde, 0x37), (0xdf, 0x37), (0xe0, 0x37), (0xe1, 0x37), (0xe2, 0x37), (0xe3, 0x37), (0xe4, 0x37), (0xe5, 0x37), (0xe6, 0x37),
    (0xe7, 0x37), (0xe8, 0x37), (0xe9, 0x37), (0xea, 0x37), (0xeb, 0x37), (0xec, 0x37), (0xed, 0x37), (0xee, 0x37), (0xef, 0x37), (0xf0, 0x37),
    (0xf1, 0x37), (0xf2, 0x37), (0xf3, 0x37), (0xf4, 0x37), (0xf5, 0x37), (0xf6, 0x37), (0xf7, 0x37), (0xf8, 0x37), (0xf9, 0x37), (0xfa, 0x37),
    (0xfb, 0x37), (0xfc, 0x37), (0xfd, 0x37), (0xfe, 0x37), (0xff, 0x37), (0, 0x38), (1, 0x38), (0x2, 0x38), (0x3, 0x38), (0x4, 0x38),
    (0x5, 0x38), (0x6, 0x38), (0x7, 0x38), (0x8, 0x38), (0x9, 0x38), (0xa, 0x38), (0xb, 0x38), (0xc, 0x38), (0xd, 0x38), (0xe, 0x38),
    (0xf, 0x38), (0x10, 0x38), (0x11, 0x38), (0x12, 0x38), (0x13, 0x38), (0x14, 0x38), (0x15, 0x38), (0x16, 0x38), (0x17, 0x38), (0x18, 0x38),
    (0x19, 0x38), (0x1a, 0x38), (0x1b, 0x38), (0x1c, 0x38), (0x1d, 0x38), (0x1e, 0x38), (0x1f, 0x38), (0x20, 0x38), (0x21, 0x38), (0x22, 0x38)]"

lemma lts_i_18_run [lts_run]: "table_run LTS_STATE_i 2700 lts_i_18 2850"
proof -
  have run: "lts_i_18 = bytes_up 115 0x8d 0x37 @ bytes_up 35 0 0x38"
    by (simp add: lts_i_18_def bytes_up_numeral)
  show ?thesis by (simp add: run LTS_STATE_i_def bytes_up_run del: bytes_up.simps)
qed

definition lts_i_19 :: "(byte \<times> byte) list" where
  "lts_i_19 = [
    (0x23, 0x38), (0x24, 0x38), (0x25, 0x38), (0x26, 0x38), (0x27, 0x38), (0x28, 0x38), (0x29, 0x38), (0x2a, 0x38), (0x2b, 0x38), (0x2c, 0x38),
    (0x2d, 0x38), (0x2e, 0x38), (0x2f, 0x38), (0x30, 0x38), (0x31, 0x38), (0x32, 0x38), (0x33, 0x38), (0x34, 0x38), (0x35, 0x38), (0x36, 0x38),
    (0x37, 0x38), (0x38, 0x38), (0x39, 0x38), (0x3a, 0x38), (0x3b, 0x38), (0x3c, 0x38), (0x3d, 0x38), (0x3e, 0x38), (0x3f, 0x38), (0x40, 0x38),
    (0x41, 0x38), (0x42, 0x38), (0x43, 0x38), (0x44, 0x38), (0x45, 0x38), (0x46, 0x38), (0x47, 0x38), (0x48, 0x38), (0x49, 0x38), (0x4a, 0x38),
    (0x4b, 0x38), (0x4c, 0x38), (0x4d, 0x38), (0x4e, 0x38), (0x4f, 0x38), (0x50, 0x38), (0x51, 0x38), (0x52, 0x38), (0x53, 0x38), (0x54, 0x38),
    (0x55, 0x38), (0x56, 0x38), (0x57, 0x38), (0x58, 0x38), (0x59, 0x38), (0x5a, 0x38), (0x5b, 0x38), (0x5c, 0x38), (0x5d, 0x38), (0x5e, 0x38),
    (0x5f, 0x38), (0x60, 0x38), (0x61, 0x38), (0x62, 0x38), (0x63, 0x38), (0x64, 0x38), (0x65, 0x38), (0x66, 0x38), (0x67, 0x38), (0x68, 0x38),
    (0x69, 0x38), (0x6a, 0x38), (0x6b, 0x38), (0x6c, 0x38), (0x6d, 0x38), (0x6e, 0x38), (0x6f, 0x38), (0x70, 0x38), (0x71, 0x38), (0x72, 0x38),
    (0x73, 0x38), (0x74, 0x38), (0x75, 0x38), (0x76, 0x38), (0x77, 0x38), (0x78, 0x38), (0x79, 0x38), (0x7a, 0x38), (0x7b, 0x38), (0x7c, 0x38),
    (0x7d, 0x38), (0x7e, 0x38), (0x7f, 0x38), (0x80, 0x38), (0x81, 0x38), (0x82, 0x38), (0x83, 0x38), (0x84, 0x38), (0x85, 0x38), (0x86, 0x38),
    (0x87, 0x38), (0x88, 0x38), (0x89, 0x38), (0x8a, 0x38), (0x8b, 0x38), (0x8c, 0x38), (0x8d, 0x38), (0x8e, 0x38), (0x8f, 0x38), (0x90, 0x38),
    (0x91, 0x38), (0x92, 0x38), (0x93, 0x38), (0x94, 0x38), (0x95, 0x38), (0x96, 0x38), (0x97, 0x38), (0x98, 0x38), (0x99, 0x38), (0x9a, 0x38),
    (0x9b, 0x38), (0x9c, 0x38), (0x9d, 0x38), (0x9e, 0x38), (0x9f, 0x38), (0xa0, 0x38), (0xa1, 0x38), (0xa2, 0x38), (0xa3, 0x38), (0xa4, 0x38),
    (0xa5, 0x38), (0xa6, 0x38), (0xa7, 0x38), (0xa8, 0x38), (0xa9, 0x38), (0xaa, 0x38), (0xab, 0x38), (0xac, 0x38), (0xad, 0x38), (0xae, 0x38),
    (0xaf, 0x38), (0xb0, 0x38), (0xb1, 0x38), (0xb2, 0x38), (0xb3, 0x38), (0xb4, 0x38), (0xb5, 0x38), (0xb6, 0x38), (0xb7, 0x38), (0xb8, 0x38)]"

lemma lts_i_19_run [lts_run]: "table_run LTS_STATE_i 2850 lts_i_19 3000"
proof -
  have run: "lts_i_19 = bytes_up 150 0x23 0x38"
    by (simp add: lts_i_19_def bytes_up_numeral)
  show ?thesis by (simp add: run LTS_STATE_i_def bytes_up_run del: bytes_up.simps)
qed

definition lts_i_20 :: "(byte \<times> byte) list" where
  "lts_i_20 = [
    (0xb9, 0x38), (0xba, 0x38), (0xbb, 0x38), (0xbc, 0x38), (0xbd, 0x38), (0xbe, 0x38), (0xbf, 0x38), (0xc0, 0x38), (0xc1, 0x38), (0xc2, 0x38),
    (0xc3, 0x38), (0xc4, 0x38), (0xc5, 0x38), (0xc6, 0x38), (0xc7, 0x38), (0xc8, 0x38), (0xc9, 0x38), (0xca, 0x38), (0xcb, 0x38), (0xcc, 0x38),
    (0xcd, 0x38), (0xce, 0x38), (0xcf, 0x38), (0xd0, 0x38), (0xd1, 0x38), (0xd2, 0x38), (0xd3, 0x38), (0xd4, 0x38), (0xd5, 0x38), (0xd6, 0x38),
    (0xd7, 0x38), (0xd8, 0x38), (0xd9, 0x38), (0xda, 0x38), (0xdb, 0x38), (0xdc, 0x38), (0xdd, 0x38), (0xde, 0x38), (0xdf, 0x38), (0xe0, 0x38),
    (0xe1, 0x38), (0xe2, 0x38), (0xe3, 0x38), (0xe4, 0x38), (0xe5, 0x38), (0xe6, 0x38), (0xe7, 0x38), (0xe8, 0x38), (0xe9, 0x38), (0xea, 0x38),
    (0xeb, 0x38), (0xec, 0x38), (0xed, 0x38), (0xee, 0x38), (0xef, 0x38), (0xf0, 0x38), (0xf1, 0x38), (0xf2, 0x38), (0xf3, 0x38), (0xf4, 0x38),
    (0xf5, 0x38), (0xf6, 0x38), (0xf7, 0x38), (0xf8, 0x38), (0xf9, 0x38), (0xfa, 0x38), (0xfb, 0x38), (0xfc, 0x38), (0xfd, 0x38), (0xfe, 0x38),
    (0xff, 0x38), (0, 0x39), (1, 0x39), (0x2, 0x39), (0x3, 0x39), (0x4, 0x39), (0x5, 0x39), (0x6, 0x39), (0x7, 0x39), (0x8, 0x39),
    (0x9, 0x39), (0xa, 0x39), (0xb, 0x39), (0xc, 0x39), (0xd, 0x39), (0xe, 0x39), (0xf, 0x39), (0x10, 0x39), (0x11, 0x39), (0x12, 0x39),
    (0x13, 0x39), (0x14, 0x39), (0x15, 0x39), (0x16, 0x39), (0x17, 0x39), (0x18, 0x39), (0x19, 0x39), (0x1a, 0x39), (0x1b, 0x39), (0x1c, 0x39),
    (0x1d, 0x39), (0x1e, 0x39), (0x1f, 0x39), (0x20, 0x39), (0x21, 0x39), (0x22, 0x39), (0x23, 0x39), (0x24, 0x39), (0x25, 0x39), (0x26, 0x39),
    (0x27, 0x39), (0x28, 0x39), (0x29, 0x39), (0x2a, 0x39), (0x2b, 0x39), (0x2c, 0x39), (0x2d, 0x39), (0x2e, 0x39), (0x2f, 0x39), (0x30, 0x39),
    (0x31, 0x39), (0x32, 0x39), (0x33, 0x39), (0x34, 0x39), (0x35, 0x39), (0x36, 0x39), (0x37, 0x39), (0x38, 0x39), (0x39, 0x39), (0x3a, 0x39),
    (0x3b, 0x39), (0x3c, 0x39), (0x3d, 0x39), (0x3e, 0x39), (0x3f, 0x39), (0x40, 0x39), (0x41, 0x39), (0x42, 0x39), (0x43, 0x39), (0x44, 0x39),
    (0x45, 0x39), (0x46, 0x39), (0x47, 0x39), (0x48, 0x39), (0x49, 0x39), (0x4a, 0x39), (0x4b, 0x39), (0x4c, 0x39), (0x4d, 0x39), (0x4e, 0x39)]"

lemma lts_i_20_run [lts_run]: "table_run LTS_STATE_i 3000 lts_i_20 3150"
proof -
  have run: "lts_i_20 = bytes_up 71 0xb9 0x38 @ bytes_up 79 0 0x39"
    by (simp add: lts_i_20_def bytes_up_numeral)
  show ?thesis by (simp add: run LTS_STATE_i_def bytes_up_run del: bytes_up.simps)
qed

definition lts_i_21 :: "(byte \<times> byte) list" where
  "lts_i_21 = [
    (0x4f, 0x39), (0x50, 0x39), (0x51, 0x39), (0x52, 0x39), (0x53, 0x39), (0x54, 0x39), (0x55, 0x39), (0x56, 0x39), (0x57, 0x39), (0x58, 0x39),
    (0x59, 0x39), (0x5a, 0x39), (0x5b, 0x39), (0x5c, 0x39), (0x5d, 0x39), (0x5e, 0x39), (0x5f, 0x39), (0x60, 0x39), (0x61, 0x39), (0x62, 0x39),
    (0x63, 0x39), (0x64, 0x39), (0x65, 0x39), (0x66, 0x39), (0x67, 0x39), (0x68, 0x39), (0x69, 0x39), (0x6a, 0x39), (0x6b, 0x39), (0x6c, 0x39),
    (0x6d, 0x39), (0x6e, 0x39), (0x6f, 0x39), (0x70, 0x39), (0x71, 0x39), (0x72, 0x39), (0x73, 0x39), (0x74, 0x39), (0x75, 0x39), (0x76, 0x39),
    (0x77, 0x39), (0x78, 0x39), (0x79, 0x39), (0x7a, 0x39), (0x7b, 0x39), (0x7c, 0x39), (0x7d, 0x39), (0x7e, 0x39), (0x7f, 0x39), (0x80, 0x39),
    (0x81, 0x39), (0x82, 0x39), (0x83, 0x39), (0x84, 0x39), (0x85, 0x39), (0x86, 0x39), (0x87, 0x39), (0x88, 0x39), (0x89, 0x39), (0x8a, 0x39),
    (0x8b, 0x39), (0x8c, 0x39), (0x8d, 0x39), (0x8e, 0x39), (0x8f, 0x39), (0x90, 0x39), (0x91, 0x39), (0x92, 0x39), (0x93, 0x39), (0x94, 0x39),
    (0x95, 0x39), (0x96, 0x39), (0x97, 0x39), (0x98, 0x39), (0x99, 0x39), (0x9a, 0x39), (0x9b, 0x39), (0x9c, 0x39), (0x9d, 0x39), (0x9e, 0x39),
    (0x9f, 0x39), (0xa0, 0x39), (0xa1, 0x39), (0xa2, 0x39), (0xa3, 0x39), (0xa4, 0x39), (0xa5, 0x39), (0xa6, 0x39), (0xa7, 0x39), (0xa8, 0x39),
    (0xa9, 0x39), (0xaa, 0x39), (0xab, 0x39), (0xac, 0x39), (0xad, 0x39), (0xae, 0x39), (0xaf, 0x39), (0xb0, 0x39), (0xb1, 0x39), (0xb2, 0x39),
    (0xb3, 0x39), (0xb4, 0x39), (0xb5, 0x39), (0xb6, 0x39), (0xb7, 0x39), (0xb8, 0x39), (0xb9, 0x39), (0xba, 0x39), (0xbb, 0x39), (0xbc, 0x39),
    (0xbd, 0x39), (0xbe, 0x39), (0xbf, 0x39), (0xc0, 0x39), (0xc1, 0x39), (0xc2, 0x39), (0xc3, 0x39), (0xc4, 0x39), (0xc5, 0x39), (0xc6, 0x39),
    (0xc7, 0x39), (0xc8, 0x39), (0xc9, 0x39), (0xca, 0x39), (0xcb, 0x39), (0xcc, 0x39), (0xcd, 0x39), (0xce, 0x39), (0xcf, 0x39), (0xd0, 0x39),
    (0xd1, 0x39), (0xd2, 0x39), (0xd3, 0x39), (0xd4, 0x39), (0xd5, 0x39), (0xd6, 0x39), (0xd7, 0x39), (0xd8, 0x39), (0xd9, 0x39), (0xda, 0x39),
    (0xdb, 0x39), (0xdc, 0x39), (0xdd, 0x39), (0xde, 0x39), (0xdf, 0x39), (0xe0, 0x39), (0xe1, 0x39), (0xe2, 0x39), (0xe3, 0x39), (0xe4, 0x39)]"

lemma lts_i_21_run [lts_run]: "table_run LTS_STATE_i 3150 lts_i_21 3300"
proof -
  have run: "lts_i_21 = bytes_up 150 0x4f 0x39"
    by (simp add: lts_i_21_def bytes_up_numeral)
  show ?thesis by (simp add: run LTS_STATE_i_def bytes_up_run del: bytes_up.simps)
qed

definition lts_i_22 :: "(byte \<times> byte) list" where
  "lts_i_22 = [
    (0xe5, 0x39), (0xe6, 0x39), (0xe7, 0x39), (0xe8, 0x39), (0xe9, 0x39), (0xea, 0x39), (0xeb, 0x39), (0xec, 0x39), (0xed, 0x39), (0xee, 0x39),
    (0xef, 0x39), (0xf0, 0x39), (0xf1, 0x39), (0xf2, 0x39), (0xf3, 0x39), (0xf4, 0x39), (0xf5, 0x39), (0xf6, 0x39), (0xf7, 0x39), (0xf8, 0x39),
    (0xf9, 0x39), (0xfa, 0x39), (0xfb, 0x39), (0xfc, 0x39), (0xfd, 0x39), (0xfe, 0x39), (0xff, 0x39), (0, 0x3a), (1, 0x3a), (0x2, 0x3a),
    (0x3, 0x3a), (0x4, 0x3a), (0x5, 0x3a), (0x6, 0x3a), (0x7, 0x3a), (0x8, 0x3a), (0x9, 0x3a), (0xa, 0x3a), (0xb, 0x3a), (0xc, 0x3a),
    (0xd, 0x3a), (0xe, 0x3a), (0xf, 0x3a), (0x10, 0x3a), (0x11, 0x3a), (0x12, 0x3a), (0x13, 0x3a), (0x14, 0x3a), (0x15, 0x3a), (0x16, 0x3a),
    (0x17, 0x3a), (0x18, 0x3a), (0x19, 0x3a), (0x1a, 0x3a), (0x1b, 0x3a), (0x1c, 0x3a), (0x1d, 0x3a), (0x1e, 0x3a), (0x1f, 0x3a), (0x20, 0x3a),
    (0x21, 0x3a), (0x22, 0x3a), (0x23, 0x3a), (0x24, 0x3a), (0x25, 0x3a), (0x26, 0x3a), (0x27, 0x3a), (0x28, 0x3a), (0x29, 0x3a), (0x2a, 0x3a),
    (0x2b, 0x3a), (0x2c, 0x3a), (0x2d, 0x3a), (0x2e, 0x3a), (0x2f, 0x3a), (0x30, 0x3a), (0x31, 0x3a), (0x32, 0x3a), (0x33, 0x3a), (0x34, 0x3a),
    (0x35, 0x3a), (0x36, 0x3a), (0x37, 0x3a), (0x38, 0x3a), (0x39, 0x3a), (0x3a, 0x3a), (0x3b, 0x3a), (0x3c, 0x3a), (0x3d, 0x3a), (0x3e, 0x3a),
    (0x3f, 0x3a), (0x40, 0x3a), (0x41, 0x3a), (0x42, 0x3a), (0x43, 0x3a), (0x44, 0x3a), (0x45, 0x3a), (0x46, 0x3a), (0x47, 0x3a), (0x48, 0x3a),
    (0x49, 0x3a), (0x4a, 0x3a), (0x4b, 0x3a), (0x4c, 0x3a), (0x4d, 0x3a), (0x4e, 0x3a), (0x4f, 0x3a), (0x50, 0x3a), (0x51, 0x3a), (0x52, 0x3a),
    (0x53, 0x3a), (0x54, 0x3a), (0x55, 0x3a), (0x56, 0x3a), (0x57, 0x3a), (0x58, 0x3a), (0x59, 0x3a), (0x5a, 0x3a), (0x5b, 0x3a), (0x5c, 0x3a),
    (0x5d, 0x3a), (0x5e, 0x3a), (0x5f, 0x3a), (0x60, 0x3a), (0x61, 0x3a), (0x62, 0x3a), (0x63, 0x3a), (0x64, 0x3a), (0x65, 0x3a), (0x66, 0x3a),
    (0x67, 0x3a), (0x68, 0x3a), (0x69, 0x3a), (0x6a, 0x3a), (0x6b, 0x3a), (0x6c, 0x3a), (0x6d, 0x3a), (0x6e, 0x3a), (0x6f, 0x3a), (0x70, 0x3a),
    (0x71, 0x3a), (0x72, 0x3a), (0x73, 0x3a), (0x74, 0x3a), (0x75, 0x3a), (0x76, 0x3a), (0x77, 0x3a), (0x78, 0x3a), (0x79, 0x3a), (0x7a, 0x3a)]"

lemma lts_i_22_run [lts_run]: "table_run LTS_STATE_i 3300 lts_i_22 3450"
proof -
  have run: "lts_i_22 = bytes_up 27 0xe5 0x39 @ bytes_up 123 0 0x3a"
    by (simp add: lts_i_22_def bytes_up_numeral)
  show ?thesis by (simp add: run LTS_STATE_i_def bytes_up_run del: bytes_up.simps)
qed

definition lts_i_23 :: "(byte \<times> byte) list" where
  "lts_i_23 = [
    (0x7b, 0x3a), (0x7c, 0x3a), (0x7d, 0x3a), (0x7e, 0x3a), (0x7f, 0x3a), (0x80, 0x3a), (0x81, 0x3a), (0x82, 0x3a), (0x83, 0x3a), (0x84, 0x3a),
    (0x85, 0x3a), (0x86, 0x3a), (0x87, 0x3a), (0x88, 0x3a), (0x89, 0x3a), (0x8a, 0x3a), (0x8b, 0x3a), (0x8c, 0x3a), (0x8d, 0x3a), (0x8e, 0x3a),
    (0x8f, 0x3a), (0x90, 0x3a), (0x91, 0x3a), (0x92, 0x3a), (0x93, 0x3a), (0x94, 0x3a), (0x95, 0x3a), (0x96, 0x3a), (0x97, 0x3a), (0x98, 0x3a),
    (0x99, 0x3a), (0x9a, 0x3a), (0x9b, 0x3a), (0x9c, 0x3a), (0x9d, 0x3a), (0x9e, 0x3a), (0x9f, 0x3a), (0xa0, 0x3a), (0xa1, 0x3a), (0xa2, 0x3a),
    (0xa3, 0x3a), (0xa4, 0x3a), (0xa5, 0x3a), (0xa6, 0x3a), (0xa7, 0x3a), (0xa8, 0x3a), (0xa9, 0x3a), (0xaa, 0x3a), (0xab, 0x3a), (0xac, 0x3a),
    (0xad, 0x3a), (0xae, 0x3a), (0xaf, 0x3a), (0xb0, 0x3a), (0xb1, 0x3a), (0xb2, 0x3a), (0xb3, 0x3a), (0xb4, 0x3a), (0xb5, 0x3a), (0xb6, 0x3a),
    (0xb7, 0x3a), (0xb8, 0x3a), (0xb9, 0x3a), (0xba, 0x3a), (0xbb, 0x3a), (0xbc, 0x3a), (0xbd, 0x3a), (0xbe, 0x3a), (0xbf, 0x3a), (0xc0, 0x3a),
    (0xc1, 0x3a), (0xc2, 0x3a), (0xc3, 0x3a), (0xc4, 0x3a), (0xc5, 0x3a), (0xc6, 0x3a), (0xc7, 0x3a), (0xc8, 0x3a), (0xc9, 0x3a), (0xca, 0x3a),
    (0xcb, 0x3a), (0xcc, 0x3a), (0xcd, 0x3a), (0xce, 0x3a), (0xcf, 0x3a), (0xd0, 0x3a), (0xd1, 0x3a), (0xd2, 0x3a), (0xd3, 0x3a), (0xd4, 0x3a),
    (0xd5, 0x3a), (0xd6, 0x3a), (0xd7, 0x3a), (0xd8, 0x3a), (0xd9, 0x3a), (0xda, 0x3a), (0xdb, 0x3a), (0xdc, 0x3a), (0xdd, 0x3a), (0xde, 0x3a),
    (0xdf, 0x3a), (0xe0, 0x3a), (0xe1, 0x3a), (0xe2, 0x3a), (0xe3, 0x3a), (0xe4, 0x3a), (0xe5, 0x3a), (0xe6, 0x3a), (0xe7, 0x3a), (0xe8, 0x3a),
    (0xe9, 0x3a), (0xea, 0x3a), (0xeb, 0x3a), (0xec, 0x3a), (0xed, 0x3a), (0xee, 0x3a), (0xef, 0x3a), (0xf0, 0x3a), (0xf1, 0x3a), (0xf2, 0x3a),
    (0xf3, 0x3a), (0xf4, 0x3a), (0xf5, 0x3a), (0xf6, 0x3a), (0xf7, 0x3a), (0xf8, 0x3a), (0xf9, 0x3a), (0xfa, 0x3a), (0xfb, 0x3a), (0xfc, 0x3a),
    (0xfd, 0x3a), (0xfe, 0x3a), (0xff, 0x3a), (0, 0x3b), (1, 0x3b), (0x2, 0x3b), (0x3, 0x3b), (0x4, 0x3b), (0x5, 0x3b), (0x6, 0x3b),
    (0x7, 0x3b), (0x8, 0x3b), (0x9, 0x3b), (0xa, 0x3b), (0xb, 0x3b), (0xc, 0x3b), (0xd, 0x3b), (0xe, 0x3b), (0xf, 0x3b), (0x10, 0x3b)]"

lemma lts_i_23_run [lts_run]: "table_run LTS_STATE_i 3450 lts_i_23 3600"
proof -
  have run: "lts_i_23 = bytes_up 133 0x7b 0x3a @ bytes_up 17 0 0x3b"
    by (simp add: lts_i_23_def bytes_up_numeral)
  show ?thesis by (simp add: run LTS_STATE_i_def bytes_up_run del: bytes_up.simps)
qed

definition lts_i_24 :: "(byte \<times> byte) list" where
  "lts_i_24 = [
    (0x11, 0x3b), (0x12, 0x3b), (0x13, 0x3b), (0x14, 0x3b), (0x15, 0x3b), (0x16, 0x3b), (0x17, 0x3b), (0x18, 0x3b), (0x19, 0x3b), (0x1a, 0x3b),
    (0x1b, 0x3b), (0x1c, 0x3b), (0x1d, 0x3b), (0x1e, 0x3b), (0x1f, 0x3b), (0x20, 0x3b), (0x21, 0x3b), (0x22, 0x3b), (0x23, 0x3b), (0x24, 0x3b),
    (0x25, 0x3b), (0x26, 0x3b), (0x27, 0x3b), (0x28, 0x3b), (0x29, 0x3b), (0x2a, 0x3b), (0x2b, 0x3b), (0x2c, 0x3b), (0x2d, 0x3b), (0x2e, 0x3b),
    (0x2f, 0x3b), (0x30, 0x3b), (0x31, 0x3b), (0x32, 0x3b), (0x33, 0x3b), (0x34, 0x3b), (0x35, 0x3b), (0x36, 0x3b), (0x37, 0x3b), (0x38, 0x3b),
    (0x39, 0x3b), (0x3a, 0x3b), (0x3b, 0x3b), (0x3c, 0x3b), (0x3d, 0x3b), (0x3e, 0x3b), (0x3f, 0x3b), (0x40, 0x3b), (0x41, 0x3b), (0x42, 0x3b),
    (0x43, 0x3b), (0x44, 0x3b), (0x45, 0x3b), (0x46, 0x3b), (0x47, 0x3b), (0x48, 0x3b), (0x49, 0x3b), (0x4a, 0x3b), (0x4b, 0x3b), (0x4c, 0x3b),
    (0x4d, 0x3b), (0x4e, 0x3b), (0x4f, 0x3b), (0x50, 0x3b), (0x51, 0x3b), (0x52, 0x3b), (0x53, 0x3b), (0x54, 0x3b), (0x55, 0x3b), (0x56, 0x3b),
    (0x57, 0x3b), (0x58, 0x3b), (0x59, 0x3b), (0x5a, 0x3b), (0x5b, 0x3b), (0x5c, 0x3b), (0x5d, 0x3b), (0x5e, 0x3b), (0x5f, 0x3b), (0x60, 0x3b),
    (0x61, 0x3b), (0x62, 0x3b), (0x63, 0x3b), (0x64, 0x3b), (0x65, 0x3b), (0x66, 0x3b), (0x67, 0x3b), (0x68, 0x3b), (0x69, 0x3b), (0x6a, 0x3b),
    (0x6b, 0x3b), (0x6c, 0x3b), (0x6d, 0x3b), (0x6e, 0x3b), (0x6f, 0x3b), (0x70, 0x3b), (0x71, 0x3b), (0x72, 0x3b), (0x73, 0x3b), (0x74, 0x3b),
    (0x75, 0x3b), (0x76, 0x3b), (0x77, 0x3b), (0x78, 0x3b), (0x79, 0x3b), (0x7a, 0x3b), (0x7b, 0x3b), (0x7c, 0x3b), (0x7d, 0x3b), (0x7e, 0x3b),
    (0x7f, 0x3b), (0x80, 0x3b), (0x81, 0x3b), (0x82, 0x3b), (0x83, 0x3b), (0x84, 0x3b), (0x85, 0x3b), (0x86, 0x3b), (0x87, 0x3b), (0x88, 0x3b),
    (0x89, 0x3b), (0x8a, 0x3b), (0x8b, 0x3b), (0x8c, 0x3b), (0x8d, 0x3b), (0x8e, 0x3b), (0x8f, 0x3b), (0x90, 0x3b), (0x91, 0x3b), (0x92, 0x3b),
    (0x93, 0x3b), (0x94, 0x3b), (0x95, 0x3b), (0x96, 0x3b), (0x97, 0x3b), (0x98, 0x3b), (0x99, 0x3b), (0x9a, 0x3b), (0x9b, 0x3b), (0x9c, 0x3b),
    (0x9d, 0x3b), (0x9e, 0x3b), (0x9f, 0x3b), (0xa0, 0x3b), (0xa1, 0x3b), (0xa2, 0x3b), (0xa3, 0x3b), (0xa4, 0x3b), (0xa5, 0x3b), (0xa6, 0x3b)]"

lemma lts_i_24_run [lts_run]: "table_run LTS_STATE_i 3600 lts_i_24 3750"
proof -
  have run: "lts_i_24 = bytes_up 150 0x11 0x3b"
    by (simp add: lts_i_24_def bytes_up_numeral)
  show ?thesis by (simp add: run LTS_STATE_i_def bytes_up_run del: bytes_up.simps)
qed

definition lts_i_25 :: "(byte \<times> byte) list" where
  "lts_i_25 = [
    (0xa7, 0x3b), (0xa8, 0x3b), (0xa9, 0x3b), (0xaa, 0x3b), (0xab, 0x3b), (0xac, 0x3b), (0xad, 0x3b), (0xae, 0x3b), (0xaf, 0x3b), (0xb0, 0x3b),
    (0xb1, 0x3b), (0xb2, 0x3b), (0xb3, 0x3b), (0xb4, 0x3b), (0xb5, 0x3b), (0xb6, 0x3b), (0xb7, 0x3b), (0xb8, 0x3b), (0xb9, 0x3b), (0xba, 0x3b),
    (0xbb, 0x3b), (0xbc, 0x3b), (0xbd, 0x3b), (0xbe, 0x3b), (0xbf, 0x3b), (0xc0, 0x3b), (0xc1, 0x3b), (0xc2, 0x3b), (0xc3, 0x3b), (0xc4, 0x3b),
    (0xc5, 0x3b), (0xc6, 0x3b), (0xc7, 0x3b), (0xc8, 0x3b), (0xc9, 0x3b), (0xca, 0x3b), (0xcb, 0x3b), (0xcc, 0x3b), (0xcd, 0x3b), (0xce, 0x3b),
    (0xcf, 0x3b), (0xd0, 0x3b), (0xd1, 0x3b), (0xd2, 0x3b), (0xd3, 0x3b), (0xd4, 0x3b), (0xd5, 0x3b), (0xd6, 0x3b), (0xd7, 0x3b), (0xd8, 0x3b),
    (0xd9, 0x3b), (0xda, 0x3b), (0xdb, 0x3b), (0xdc, 0x3b), (0xdd, 0x3b), (0xde, 0x3b), (0xdf, 0x3b), (0xe0, 0x3b), (0xe1, 0x3b), (0xe2, 0x3b),
    (0xe3, 0x3b), (0xe4, 0x3b), (0xe5, 0x3b), (0xe6, 0x3b), (0xe7, 0x3b), (0xe8, 0x3b), (0xe9, 0x3b), (0xea, 0x3b), (0xeb, 0x3b), (0xec, 0x3b),
    (0xed, 0x3b), (0xee, 0x3b), (0xef, 0x3b), (0xf0, 0x3b), (0xf1, 0x3b), (0xf2, 0x3b), (0xf3, 0x3b), (0xf4, 0x3b), (0xf5, 0x3b), (0xf6, 0x3b),
    (0xf7, 0x3b), (0xf8, 0x3b), (0xf9, 0x3b), (0xfa, 0x3b), (0xfb, 0x3b), (0xfc, 0x3b), (0xfd, 0x3b), (0xfe, 0x3b), (0xff, 0x3b), (0, 0x3c),
    (1, 0x3c), (0x2, 0x3c), (0x3, 0x3c), (0x4, 0x3c), (0x5, 0x3c), (0x6, 0x3c), (0x7, 0x3c), (0x8, 0x3c), (0x9, 0x3c), (0xa, 0x3c),
    (0xb, 0x3c), (0xc, 0x3c), (0xd, 0x3c), (0xe, 0x3c), (0xf, 0x3c), (0x10, 0x3c), (0x11, 0x3c), (0x12, 0x3c), (0x13, 0x3c), (0x14, 0x3c),
    (0x15, 0x3c), (0x16, 0x3c), (0x17, 0x3c), (0x18, 0x3c), (0x19, 0x3c), (0x1a, 0x3c), (0x1b, 0x3c), (0x1c, 0x3c), (0x1d, 0x3c), (0x1e, 0x3c),
    (0x1f, 0x3c), (0x20, 0x3c), (0x21, 0x3c), (0x22, 0x3c), (0x23, 0x3c), (0x24, 0x3c), (0x25, 0x3c), (0x26, 0x3c), (0x27, 0x3c), (0x28, 0x3c),
    (0x29, 0x3c), (0x2a, 0x3c)]"

lemma lts_i_25_run [lts_run]: "table_run LTS_STATE_i 3750 lts_i_25 3882"
proof -
  have run: "lts_i_25 = bytes_up 89 0xa7 0x3b @ bytes_up 43 0 0x3c"
    by (simp add: lts_i_25_def bytes_up_numeral)
  show ?thesis by (simp add: run LTS_STATE_i_def bytes_up_run del: bytes_up.simps)
qed

definition lts_table_i :: "(byte \<times> byte) list" where
  "lts_table_i = concat [
     lts_i_0, lts_i_1, lts_i_2, lts_i_3, lts_i_4, lts_i_5, lts_i_6, lts_i_7, lts_i_8, lts_i_9, lts_i_10, lts_i_11,
     lts_i_12, lts_i_13, lts_i_14, lts_i_15, lts_i_16, lts_i_17, lts_i_18, lts_i_19, lts_i_20, lts_i_21, lts_i_22, lts_i_23,
     lts_i_24, lts_i_25]"

lemma lts_table_i_run: "table_run LTS_STATE_i 0 lts_table_i 3882"
  unfolding lts_table_i_def by (rule table_run_nil | rule table_run_concat, rule lts_run)+

lemma lts_table_i_entries [lts_tables]: "entry_at lts_table_i = LTS_STATE_i"
  by (rule table_run_entry [OF lts_table_i_run LTS_STATE_i_def])

section \<open>Letter j\<close>

definition lts_j_0 :: "(byte \<times> byte) list" where
  "lts_j_0 = [
    (0x2b, 0x3c), (0x2c, 0x3c), (0x2d, 0x3c), (0x2e, 0x3c), (0x2f, 0x3c), (0x30, 0x3c), (0x31, 0x3c), (0x32, 0x3c), (0x33, 0x3c), (0x34, 0x3c),
    (0x34, 0x3c), (0x35, 0x3c), (0x36, 0x3c), (0x37, 0x3c), (0x38, 0x3c), (0x39, 0x3c), (0x3a, 0x3c), (0x3b, 0x3c), (0x3c, 0x3c), (0x3d, 0x3c),
    (0x3e, 0x3c), (0x3f, 0x3c), (0x40, 0x3c), (0x41, 0x3c), (0x42, 0x3c), (0x43, 0x3c), (0x44, 0x3c), (0x45, 0x3c), (0x46, 0x3c), (0x47, 0x3c),
    (0x48, 0x3c), (0x49, 0x3c), (0x4a, 0x3c), (0x4b, 0x3c), (0x4c, 0x3c), (0x4d, 0x3c), (0x4e, 0x3c), (0x4f, 0x3c), (0x50, 0x3c), (0x51, 0x3c),
    (0x52, 0x3c), (0x53, 0x3c), (0x54, 0x3c), (0x55, 0x3c), (0x56, 0x3c), (0x57, 0x3c), (0x58, 0x3c), (0x59, 0x3c), (0x5a, 0x3c), (0x5b, 0x3c),
    (0x5c, 0x3c), (0x5d, 0x3c), (0x5e, 0x3c), (0x5f, 0x3c), (0x60, 0x3c), (0x61, 0x3c), (0x62, 0x3c), (0x63, 0x3c), (0x64, 0x3c), (0x65, 0x3c),
    (0x66, 0x3c), (0x67, 0x3c), (0x68, 0x3c), (0x69, 0x3c), (0x6a, 0x3c), (0x6b, 0x3c), (0x6c, 0x3c), (0x6d, 0x3c), (0x6e, 0x3c), (0x6f, 0x3c),
    (0x70, 0x3c), (0x71, 0x3c), (0x72, 0x3c), (0x73, 0x3c), (0x74, 0x3c), (0x75, 0x3c), (0x76, 0x3c), (0x77, 0x3c), (0x78, 0x3c), (0x79, 0x3c),
    (0x7a, 0x3c), (0x7b, 0x3c), (0x7c, 0x3c), (0x7d, 0x3c), (0x7e, 0x3c), (0x7f, 0x3c), (0x80, 0x3c), (0x81, 0x3c), (0x82, 0x3c), (0x83, 0x3c),
    (0x84, 0x3c), (0x85, 0x3c), (0x86, 0x3c), (0x87, 0x3c), (0x88, 0x3c), (0x89, 0x3c), (0x8a, 0x3c), (0x8b, 0x3c), (0x8c, 0x3c), (0x8d, 0x3c),
    (0x8e, 0x3c), (0x8f, 0x3c), (0x90, 0x3c), (0x91, 0x3c), (0x92, 0x3c), (0x93, 0x3c), (0x94, 0x3c), (0x95, 0x3c), (0x96, 0x3c), (0x97, 0x3c),
    (0x98, 0x3c), (0x99, 0x3c)]"

lemma lts_j_0_run [lts_run]: "table_run LTS_STATE_j 0 lts_j_0 112"
proof -
  have run: "lts_j_0 = bytes_up 10 0x2b 0x3c @ bytes_up 102 0x34 0x3c"
    by (simp add: lts_j_0_def bytes_up_numeral)
  show ?thesis by (simp add: run LTS_STATE_j_def bytes_up_run del: bytes_up.simps)
qed

definition lts_table_j :: "(byte \<times> byte) list" where
  "lts_table_j = concat [
     lts_j_0]"

lemma lts_table_j_run: "table_run LTS_STATE_j 0 lts_table_j 112"
  unfolding lts_table_j_def by (rule table_run_nil | rule table_run_concat, rule lts_run)+

lemma lts_table_j_entries [lts_tables]: "entry_at lts_table_j = LTS_STATE_j"
  by (rule table_run_entry [OF lts_table_j_run LTS_STATE_j_def])

section \<open>Letter k\<close>

definition lts_k_0 :: "(byte \<times> byte) list" where
  "lts_k_0 = [
    (0x9a, 0x3c), (0x9b, 0x3c), (0x9c, 0x3c), (0x9d, 0x3c), (0x9e, 0x3c), (0x9f, 0x3c), (0xa0, 0x3c), (0xa1, 0x3c), (0xa2, 0x3c), (0xa3, 0x3c),
    (0xa4, 0x3c), (0xa5, 0x3c), (0xa5, 0x3c), (0xa6, 0x3c), (0xa7, 0x3c), (0xa8, 0x3c), (0xa9, 0x3c), (0xaa, 0x3c), (0xab, 0x3c), (0xac, 0x3c)]"

lemma lts_k_0_run [lts_run]: "table_run LTS_STATE_k 0 lts_k_0 20"
proof -
  have run: "lts_k_0 = bytes_up 12 0x9a 0x3c @ bytes_up 8 0xa5 0x3c"
    by (simp add: lts_k_0_def bytes_up_numeral)
  show ?thesis by (simp add: run LTS_STATE_k_def bytes_up_run del: bytes_up.simps)
qed

definition lts_table_k :: "(byte \<times> byte) list" where
  "lts_table_k = concat [
     lts_k_0]"

lemma lts_table_k_run: "table_run LTS_STATE_k 0 lts_table_k 20"
  unfolding lts_table_k_def by (rule table_run_nil | rule table_run_concat, rule lts_run)+

lemma lts_table_k_entries [lts_tables]: "entry_at lts_table_k = LTS_STATE_k"
  by (rule table_run_entry [OF lts_table_k_run LTS_STATE_k_def])

section \<open>Letter l\<close>

definition lts_l_0 :: "(byte \<times> byte) list" where
  "lts_l_0 = [
    (0xad, 0x3c), (0xae, 0x3c), (0xaf, 0x3c), (0xb0, 0x3c), (0xb1, 0x3c), (0xb2, 0x3c), (0xb3, 0x3c), (0xb4, 0x3c), (0xb5, 0x3c), (0xb6, 0x3c),
    (0xb7, 0x3c), (0xb8, 0x3c), (0xb9, 0x3c), (0xba, 0x3c), (0xbb, 0x3c), (0xbc, 0x3c), (0xbd, 0x3c), (0xbe, 0x3c), (0xbf, 0x3c), (0xc0, 0x3c),
    (0xc1, 0x3c), (0xc2, 0x3c), (0xc3, 0x3c), (0xc4, 0x3c), (0xc5, 0x3c), (0xc6, 0x3c), (0xc7, 0x3c), (0xc7, 0x3c), (0xc8, 0x3c), (0xc9, 0x3c),
    (0xca, 0x3c), (0xcb, 0x3c), (0xcc, 0x3c), (0xcd, 0x3c), (0xce, 0x3c), (0xcf, 0x3c), (0xd0, 0x3c), (0xd1, 0x3c), (0xd2, 0x3c), (0xd3, 0x3c),
    (0xd4, 0x3c), (0xd5, 0x3c), (0xd6, 0x3c), (0xd7, 0x3c), (0xd8, 0x3c), (0xd9, 0x3c), (0xda, 0x3c), (0xdb, 0x3c), (0xdc, 0x3c), (0xdd, 0x3c),
    (0xde, 0x3c), (0xdf, 0x3c), (0xe0, 0x3c), (0xe1, 0x3c), (0xe2, 0x3c), (0xe3, 0x3c), (0xe4, 0x3c), (0xe5, 0x3c), (0xe6, 0x3c), (0xe7, 0x3c),
    (0xe8, 0x3c), (0xe9, 0x3c), (0xea, 0x3c), (0xeb, 0x3c), (0xec, 0x3c), (0xed, 0x3c), (0xee, 0x3c), (0xef, 0x3c), (0xf0, 0x3c), (0xf1, 0x3c),
    (0xf2, 0x3c), (0xf3, 0x3c), (0xf4, 0x3c), (0xf5, 0x3c), (0xf6, 0x3c), (0xf7, 0x3c), (0xf8, 0x3c), (0xf9, 0x3c), (0xfa, 0x3c), (0xfb, 0x3c),
    (0xfc, 0x3c), (0xfd, 0x3c), (0xfe, 0x3c), (0xff, 0x3c), (0, 0x3d), (1, 0x3d), (0x2, 0x3d), (0x3, 0x3d), (0x4, 0x3d), (0x5, 0x3d),
    (0x6, 0x3d), (0x7, 0x3d), (0x8, 0x3d), (0x9, 0x3d), (0xa, 0x3d), (0xb, 0x3d), (0xc, 0x3d), (0xd, 0x3d), (0xe, 0x3d), (0xf, 0x3d),
    (0x10, 0x3d), (0x11, 0x3d), (0x12, 0x3d), (0x13, 0x3d), (0x14, 0x3d), (0x15, 0x3d), (0x16, 0x3d), (0x17, 0x3d), (0x18, 0x3d), (0x19, 0x3d),
    (0x1a, 0x3d), (0x1b, 0x3d), (0x1c, 0x3d), (0x1d, 0x3d), (0x1e, 0x3d), (0x1f, 0x3d), (0x20, 0x3d), (0x21, 0x3d), (0x22, 0x3d), (0x23, 0x3d),
    (0x24, 0x3d), (0x25, 0x3d), (0x26, 0x3d), (0x27, 0x3d), (0x28, 0x3d), (0x29, 0x3d), (0x2a, 0x3d), (0x2b, 0x3d), (0x2c, 0x3d), (0x2d, 0x3d),
    (0x2e, 0x3d), (0x2f, 0x3d), (0x30, 0x3d), (0x31, 0x3d), (0x32, 0x3d), (0x33, 0x3d), (0x34, 0x3d), (0x35, 0x3d), (0x36, 0x3d), (0x37, 0x3d),
    (0x38, 0x3d), (0x39, 0x3d), (0x3a, 0x3d), (0x3b, 0x3d), (0x3c, 0x3d), (0x3d, 0x3d), (0x3e, 0x3d), (0x3f, 0x3d), (0x40, 0x3d), (0x41, 0x3d)]"

lemma lts_l_0_run [lts_run]: "table_run LTS_STATE_l 0 lts_l_0 150"
proof -
  have run: "lts_l_0 = bytes_up 27 0xad 0x3c @ bytes_up 57 0xc7 0x3c @ bytes_up 66 0 0x3d"
    by (simp add: lts_l_0_def bytes_up_numeral)
  show ?thesis by (simp add: run LTS_STATE_l_def bytes_up_run del: bytes_up.simps)
qed

definition lts_l_1 :: "(byte \<times> byte) list" where
  "lts_l_1 = [
    (0x42, 0x3d), (0x43, 0x3d), (0x44, 0x3d), (0x45, 0x3d), (0x46, 0x3d), (0x47, 0x3d), (0x48, 0x3d), (0x49, 0x3d), (0x4a, 0x3d), (0x4b, 0x3d),
    (0x4c, 0x3d), (0x4d, 0x3d), (0x4e, 0x3d), (0x4f, 0x3d), (0x50, 0x3d), (0x51, 0x3d), (0x52, 0x3d), (0x53, 0x3d), (0x54, 0x3d), (0x55, 0x3d),
    (0x56, 0x3d), (0x57, 0x3d), (0x58, 0x3d), (0x59, 0x3d), (0x5a, 0x3d), (0x5b, 0x3d), (0x5c, 0x3d), (0x5d, 0x3d), (0x5e, 0x3d), (0x5f, 0x3d),
    (0x60, 0x3d), (0x61, 0x3d), (0x62, 0x3d), (0x63, 0x3d), (0x64, 0x3d), (0x65, 0x3d), (0x66, 0x3d), (0x67, 0x3d), (0x68, 0x3d), (0x69, 0x3d),
    (0x6a, 0x3d), (0x6b, 0x3d), (0x6c, 0x3d), (0x6d, 0x3d), (0x6e, 0x3d), (0x6f, 0x3d), (0x70, 0x3d), (0x71, 0x3d), (0x72, 0x3d), (0x73, 0x3d),
    (0x74, 0x3d), (0x75, 0x3d), (0x76, 0x3d), (0x77, 0x3d), (0x78, 0x3d), (0x79, 0x3d), (0x7a, 0x3d), (0x7b, 0x3d), (0x7c, 0x3d), (0x7d, 0x3d),
    (0x7e, 0x3d), (0x7f, 0x3d), (0x80, 0x3d), (0x81, 0x3d), (0x82, 0x3d), (0x83, 0x3d), (0x84, 0x3d), (0x85, 0x3d), (0x86, 0x3d), (0x87, 0x3d),
    (0x88, 0x3d), (0x89, 0x3d), (0x8a, 0x3d), (0x8b, 0x3d), (0x8c, 0x3d), (0x8d, 0x3d), (0x8e, 0x3d), (0x8f, 0x3d), (0x90, 0x3d), (0x91, 0x3d),
    (0x92, 0x3d), (0x93, 0x3d), (0x94, 0x3d), (0x95, 0x3d), (0x96, 0x3d), (0x97, 0x3d), (0x98, 0x3d), (0x99, 0x3d), (0x9a, 0x3d), (0x9b, 0x3d),
    (0x9c, 0x3d), (0x9d, 0x3d), (0x9e, 0x3d), (0x9f, 0x3d), (0xa0, 0x3d), (0xa1, 0x3d), (0xa2, 0x3d), (0xa3, 0x3d), (0xa4, 0x3d), (0xa5, 0x3d),
    (0xa6, 0x3d), (0xa7, 0x3d), (0xa8, 0x3d), (0xa9, 0x3d), (0xaa, 0x3d), (0xab, 0x3d), (0xac, 0x3d), (0xad, 0x3d), (0xae, 0x3d), (0xaf, 0x3d),
    (0xb0, 0x3d), (0xb1, 0x3d), (0xb2, 0x3d), (0xb3, 0x3d), (0xb4, 0x3d), (0xb5, 0x3d), (0xb6, 0x3d), (0xb7, 0x3d), (0xb8, 0x3d), (0xb9, 0x3d),
    (0xba, 0x3d), (0xbb, 0x3d), (0xbc, 0x3d), (0xbd, 0x3d), (0xbe, 0x3d), (0xbf, 0x3d), (0xc0, 0x3d), (0xc1, 0x3d), (0xc2, 0x3d), (0xc3, 0x3d),
    (0xc4, 0x3d), (0xc5, 0x3d), (0xc6, 0x3d), (0xc7, 0x3d), (0xc8, 0x3d), (0xc9, 0x3d), (0xca, 0x3d), (0xcb, 0x3d), (0xcc, 0x3d), (0xcd, 0x3d),
    (0xce, 0x3d), (0xcf, 0x3d), (0xd0, 0x3d), (0xd1, 0x3d), (0xd2, 0x3d), (0xd3, 0x3d), (0xd4, 0x3d), (0xd5, 0x3d), (0xd6, 0x3d), (0xd7, 0x3d)]"

lemma lts_l_1_run [lts_run]: "table_run LTS_STATE_l 150 lts_l_1 300"
proof -
  have run: "lts_l_1 = bytes_up 150 0x42 0x3d"
    by (simp add: lts_l_1_def bytes_up_numeral)
  show ?thesis by (simp add: run LTS_STATE_l_def bytes_up_run del: bytes_up.simps)
qed

definition lts_l_2 :: "(byte \<times> byte) list" where
  "lts_l_2 = [
    (0xd8, 0x3d), (0xd9, 0x3d), (0xda, 0x3d), (0xdb, 0x3d), (0xdc, 0x3d), (0xdd, 0x3d), (0xde, 0x3d), (0xdf, 0x3d), (0xe0, 0x3d), (0xe1, 0x3d),
    (0xe2, 0x3d), (0xe3, 0x3d), (0xe4, 0x3d), (0xe5, 0x3d), (0xe6, 0x3d), (0xe7, 0x3d), (0xe8, 0x3d), (0xe9, 0x3d), (0xea, 0x3d), (0xeb, 0x3d),
    (0xec, 0x3d), (0xed, 0x3d), (0xee, 0x3d), (0xef, 0x3d), (0xf0, 0x3d), (0xf1, 0x3d), (0xf2, 0x3d), (0xf3, 0x3d), (0xf4, 0x3d), (0xf5, 0x3d),
    (0xf6, 0x3d), (0xf7, 0x3d), (0xf8, 0x3d), (0xf9, 0x3d), (0xfa, 0x3d), (0xfb, 0x3d), (0xfc, 0x3d), (0xfd, 0x3d), (0xfe, 0x3d), (0xff, 0x3d),
    (0, 0x3e), (1, 0x3e), (0x2, 0x3e), (0x3, 0x3e), (0x4, 0x3e), (0x5, 0x3e), (0x6, 0x3e), (0x7, 0x3e), (0x8, 0x3e), (0x9, 0x3e),
    (0xa, 0x3e), (0xb, 0x3e), (0xc, 0x3e), (0xd, 0x3e), (0xe, 0x3e), (0xf, 0x3e), (0x10, 0x3e), (0x11, 0x3e), (0x12, 0x3e), (0x13, 0x3e),
    (0x14, 0x3e), (0x15, 0x3e), (0x16, 0x3e), (0x17, 0x3e), (0x18, 0x3e), (0x19, 0x3e), (0x1a, 0x3e), (0x1b, 0x3e)]"

lemma lts_l_2_run [lts_run]: "table_run LTS_STATE_l 300 lts_l_2 368"
proof -
  have run: "lts_l_2 = bytes_up 40 0xd8 0x3d @ bytes_up 28 0 0x3e"
    by (simp add: lts_l_2_def bytes_up_numeral)
  show ?thesis by (simp add: run LTS_STATE_l_def bytes_up_run del: bytes_up.simps)
qed

definition lts_table_l :: "(byte \<times> byte) list" where
  "lts_table_l = concat [
     lts_l_0, lts_l_1, lts_l_2]"

lemma lts_table_l_run: "table_run LTS_STATE_l 0 lts_table_l 368"
  unfolding lts_table_l_def by (rule table_run_nil | rule table_run_concat, rule lts_run)+

lemma lts_table_l_entries [lts_tables]: "entry_at lts_table_l = LTS_STATE_l"
  by (rule table_run_entry [OF lts_table_l_run LTS_STATE_l_def])

section \<open>Letter m\<close>

definition lts_m_0 :: "(byte \<times> byte) list" where
  "lts_m_0 = [
    (0x1c, 0x3e), (0x1d, 0x3e), (0x1e, 0x3e), (0x1f, 0x3e), (0x20, 0x3e), (0x21, 0x3e), (0x21, 0x3e), (0x22, 0x3e), (0x23, 0x3e), (0x24, 0x3e),
    (0x25, 0x3e), (0x26, 0x3e), (0x27, 0x3e), (0x28, 0x3e), (0x29, 0x3e), (0x2a, 0x3e), (0x2b, 0x3e), (0x2c, 0x3e), (0x2d, 0x3e), (0x2e, 0x3e),
    (0x2f, 0x3e), (0x30, 0x3e), (0x31, 0x3e), (0x32, 0x3e), (0x33, 0x3e), (0x34, 0x3e), (0x35, 0x3e), (0x36, 0x3e), (0x37, 0x3e), (0x38, 0x3e),
    (0x39, 0x3e), (0x3a, 0x3e), (0x3b, 0x3e), (0x3c, 0x3e), (0x3d, 0x3e), (0x3e, 0x3e), (0x3f, 0x3e), (0x40, 0x3e), (0x41, 0x3e), (0x42, 0x3e),
    (0x43, 0x3e), (0x44, 0x3e), (0x45, 0x3e)]"

lemma lts_m_0_run [lts_run]: "table_run LTS_STATE_m 0 lts_m_0 43"
proof -
  have run: "lts_m_0 = bytes_up 6 0x1c 0x3e @ bytes_up 37 0x21 0x3e"
    by (simp add: lts_m_0_def bytes_up_numeral)
  show ?thesis by (simp add: run LTS_STATE_m_def bytes_up_run del: bytes_up.simps)
qed

definition lts_table_m :: "(byte \<times> byte) list" where
  "lts_table_m = concat [
     lts_m_0]"

lemma lts_table_m_run: "table_run LTS_STATE_m 0 lts_table_m 43"
  unfolding lts_table_m_def by (rule table_run_nil | rule table_run_concat, rule lts_run)+

lemma lts_table_m_entries [lts_tables]: "entry_at lts_table_m = LTS_STATE_m"
  by (rule table_run_entry [OF lts_table_m_run LTS_STATE_m_def])

section \<open>Letter n\<close>

definition lts_n_0 :: "(byte \<times> byte) list" where
  "lts_n_0 = [
    (0x46, 0x3e), (0x47, 0x3e), (0x48, 0x3e), (0x49, 0x3e), (0x4a, 0x3e), (0x4b, 0x3e), (0x4c, 0x3e), (0x4d, 0x3e), (0x4e, 0x3e), (0x4f, 0x3e),
    (0x50, 0x3e), (0x51, 0x3e), (0x52, 0x3e), (0x53, 0x3e), (0x53, 0x3e), (0x54, 0x3e), (0x55, 0x3e), (0x56, 0x3e), (0x57, 0x3e), (0x58, 0x3e),
    (0x59, 0x3e), (0x5a, 0x3e), (0x5b, 0x3e), (0x5c, 0x3e), (0x5d, 0x3e), (0x5e, 0x3e), (0x5f, 0x3e), (0x60, 0x3e), (0x61, 0x3e), (0x62, 0x3e),
    (0x63, 0x3e), (0x64, 0x3e), (0x65, 0x3e), (0x66, 0x3e), (0x67, 0x3e), (0x68, 0x3e), (0x69, 0x3e), (0x6a, 0x3e), (0x6b, 0x3e), (0x6c, 0x3e),
    (0x6d, 0x3e), (0x6e, 0x3e), (0x6f, 0x3e), (0x70, 0x3e), (0x71, 0x3e), (0x72, 0x3e), (0x73, 0x3e), (0x74, 0x3e), (0x75, 0x3e), (0x76, 0x3e),
    (0x77, 0x3e), (0x78, 0x3e), (0x79, 0x3e), (0x7a, 0x3e), (0x7b, 0x3e), (0x7c, 0x3e), (0x7d, 0x3e), (0x7e, 0x3e), (0x7f, 0x3e), (0x80, 0x3e),
    (0x81, 0x3e), (0x82, 0x3e), (0x83, 0x3e), (0x84, 0x3e), (0x85, 0x3e), (0x86, 0x3e), (0x87, 0x3e), (0x88, 0x3e), (0x89, 0x3e), (0x8a, 0x3e),
    (0x8b, 0x3e), (0x8c, 0x3e), (0x8d, 0x3e), (0x8e, 0x3e), (0x8f, 0x3e), (0x90, 0x3e), (0x91, 0x3e), (0x92, 0x3e), (0x93, 0x3e), (0x94, 0x3e),
    (0x95, 0x3e), (0x96, 0x3e), (0x97, 0x3e), (0x98, 0x3e), (0x99, 0x3e), (0x9a, 0x3e), (0x9b, 0x3e), (0x9c, 0x3e), (0x9d, 0x3e), (0x9e, 0x3e),
    (0x9f, 0x3e), (0xa0, 0x3e), (0xa1, 0x3e), (0xa2, 0x3e), (0xa3, 0x3e), (0xa4, 0x3e), (0xa5, 0x3e), (0xa6, 0x3e), (0xa7, 0x3e), (0xa8, 0x3e),
    (0xa9, 0x3e), (0xaa, 0x3e), (0xab, 0x3e), (0xac, 0x3e), (0xad, 0x3e), (0xae, 0x3e), (0xaf, 0x3e), (0xb0, 0x3e), (0xb1, 0x3e), (0xb2, 0x3e),
    (0xb3, 0x3e), (0xb4, 0x3e), (0xb5, 0x3e), (0xb6, 0x3e), (0xb7, 0x3e), (0xb8, 0x3e), (0xb9, 0x3e), (0xba, 0x3e), (0xbb, 0x3e), (0xbc, 0x3e),
    (0xbd, 0x3e), (0xbe, 0x3e), (0xbf, 0x3e), (0xc0, 0x3e), (0xc1, 0x3e), (0xc2, 0x3e), (0xc3, 0x3e), (0xc4, 0x3e), (0xc5, 0x3e), (0xc6, 0x3e),
    (0xc7, 0x3e), (0xc8, 0x3e), (0xc9, 0x3e), (0xca, 0x3e), (0xcb, 0x3e), (0xcc, 0x3e), (0xcd, 0x3e), (0xce, 0x3e), (0xcf, 0x3e), (0xd0, 0x3e),
    (0xd1, 0x3e), (0xd2, 0x3e), (0xd3, 0x3e), (0xd4, 0x3e), (0xd5, 0x3e), (0xd6, 0x3e), (0xd7, 0x3e), (0xd8, 0x3e), (0xd9, 0x3e), (0xda, 0x3e)]"

lemma lts_n_0_run [lts_run]: "table_run LTS_STATE_n 0 lts_n_0 150"
proof -
  have run: "lts_n_0 = bytes_up 14 0x46 0x3e @ bytes_up 136 0x53 0x3e"
    by (simp add: lts_n_0_def bytes_up_numeral)
  show ?thesis by (simp add: run LTS_STATE_n_def bytes_up_run del: bytes_up.simps)
qed

definition lts_n_1 :: "(byte \<times> byte) list" where
  "lts_n_1 = [
    (0xdb, 0x3e), (0xdc, 0x3e), (0xdd, 0x3e), (0xde, 0x3e), (0xdf, 0x3e), (0xe0, 0x3e), (0xe1, 0x3e), (0xe2, 0x3e), (0xe3, 0x3e), (0xe4, 0x3e),
    (0xe5, 0x3e), (0xe6, 0x3e), (0xe7, 0x3e), (0xe8, 0x3e), (0xe9, 0x3e), (0xea, 0x3e), (0xeb, 0x3e), (0xec, 0x3e), (0xed, 0x3e), (0xee, 0x3e),
    (0xef, 0x3e), (0xf0, 0x3e), (0xf1, 0x3e), (0xf2, 0x3e), (0xf3, 0x3e), (0xf4, 0x3e), (0xf5, 0x3e), (0xf6, 0x3e), (0xf7, 0x3e), (0xf8, 0x3e),
    (0xf9, 0x3e), (0xfa, 0x3e), (0xfb, 0x3e), (0xfc, 0x3e), (0xfd, 0x3e), (0xfe, 0x3e), (0xff, 0x3e), (0, 0x3f), (1, 0x3f), (0x2, 0x3f),
    (0x3, 0x3f), (0x4, 0x3f), (0x5, 0x3f), (0x6, 0x3f), (0x7, 0x3f), (0x8, 0x3f), (0x9, 0x3f), (0xa, 0x3f), (0xb, 0x3f), (0xc, 0x3f),
    (0xd, 0x3f), (0xe, 0x3f), (0xf, 0x3f), (0x10, 0x3f), (0x11, 0x3f), (0x12, 0x3f), (0x13, 0x3f), (0x14, 0x3f), (0x15, 0x3f), (0x16, 0x3f),
    (0x17, 0x3f), (0x18, 0x3f), (0x19, 0x3f), (0x1a, 0x3f), (0x1b, 0x3f), (0x1c, 0x3f), (0x1d, 0x3f), (0x1e, 0x3f), (0x1f, 0x3f), (0x20, 0x3f),
    (0x21, 0x3f), (0x22, 0x3f), (0x23, 0x3f), (0x24, 0x3f), (0x25, 0x3f), (0x26, 0x3f), (0x27, 0x3f), (0x28, 0x3f), (0x29, 0x3f), (0x2a, 0x3f),
    (0x2b, 0x3f), (0x2c, 0x3f), (0x2d, 0x3f), (0x2e, 0x3f), (0x2f, 0x3f)]"

lemma lts_n_1_run [lts_run]: "table_run LTS_STATE_n 150 lts_n_1 235"
proof -
  have run: "lts_n_1 = bytes_up 37 0xdb 0x3e @ bytes_up 48 0 0x3f"
    by (simp add: lts_n_1_def bytes_up_numeral)
  show ?thesis by (simp add: run LTS_STATE_n_def bytes_up_run del: bytes_up.simps)
qed

definition lts_table_n :: "(byte \<times> byte) list" where
  "lts_table_n = concat [
     lts_n_0, lts_n_1]"

lemma lts_table_n_run: "table_run LTS_STATE_n 0 lts_table_n 235"
  unfolding lts_table_n_def by (rule table_run_nil | rule table_run_concat, rule lts_run)+

lemma lts_table_n_entries [lts_tables]: "entry_at lts_table_n = LTS_STATE_n"
  by (rule table_run_entry [OF lts_table_n_run LTS_STATE_n_def])

end
