(* ===== verification/LtsTableO.thy ===== *)
theory LtsTableO
  imports LetterToSound
begin

text \<open>
  The address bytes of the letter-to-sound states as cmu_lts_model.h lists them, for the letters o to t:
  pieces of at most 150 states, each with the fact that state by state they are what the arithmetic of
  LetterToSound gives, and the whole table of a letter put together from its pieces.
\<close>

section \<open>Letter o\<close>

definition lts_o_0 :: "(byte \<times> byte) list" where
  "lts_o_0 = [
    (0x30, 0x3f), (0x31, 0x3f), (0x32, 0x3f), (0x33, 0x3f), (0x34, 0x3f), (0x35, 0x3f), (0x36, 0x3f), (0x37, 0x3f), (0x38, 0x3f), (0x39, 0x3f),
    (0x3a, 0x3f), (0x3b, 0x3f), (0x3c, 0x3f), (0x3d, 0x3f), (0x3e, 0x3f), (0x3f, 0x3f), (0x40, 0x3f), (0x41, 0x3f), (0x42, 0x3f), (0x43, 0x3f),
    (0x44, 0x3f), (0x45, 0x3f), (0x46, 0x3f), (0x47, 0x3f), (0x48, 0x3f), (0x49, 0x3f), (0x4a, 0x3f), (0x4b, 0x3f), (0x4c, 0x3f), (0x4d, 0x3f),
    (0x4d, 0x3f), (0x4e, 0x3f), (0x4f, 0x3f), (0x50, 0x3f), (0x51, 0x3f), (0x52, 0x3f), (0x53, 0x3f), (0x54, 0x3f), (0x55, 0x3f), (0x56, 0x3f),
    (0x57, 0x3f), (0x58, 0x3f), (0x59, 0x3f), (0x5a, 0x3f), (0x5b, 0x3f), (0x5c, 0x3f), (0x5d, 0x3f), (0x5e, 0x3f), (0x5f, 0x3f), (0x60, 0x3f),
    (0x61, 0x3f), (0x62, 0x3f), (0x63, 0x3f), (0x64, 0x3f), (0x65, 0x3f), (0x66, 0x3f), (0x67, 0x3f), (0x68, 0x3f), (0x69, 0x3f), (0x6a, 0x3f),
    (0x6b, 0x3f), (0x6c, 0x3f), (0x6d, 0x3f), (0x6e, 0x3f), (0x6f, 0x3f), (0x70, 0x3f), (0x71, 0x3f), (0x72, 0x3f), (0x73, 0x3f), (0x74, 0x3f),
    (0x75, 0x3f), (0x76, 0x3f), (0x77, 0x3f), (0x78, 0x3f), (0x79, 0x3f), (0x7a, 0x3f), (0x7b, 0x3f), (0x7c, 0x3f), (0x7d, 0x3f), (0x7e, 0x3f),
    (0x7f, 0x3f), (0x80, 0x3f), (0x81, 0x3f), (0x82, 0x3f), (0x83, 0x3f), (0x84, 0x3f), (0x85, 0x3f), (0x86, 0x3f), (0x87, 0x3f), (0x88, 0x3f),
    (0x89, 0x3f), (0x8a, 0x3f), (0x8b, 0x3f), (0x8c, 0x3f), (0x8d, 0x3f), (0x8e, 0x3f), (0x8f, 0x3f), (0x90, 0x3f), (0x91, 0x3f), (0x92, 0x3f),
    (0x93, 0x3f), (0x94, 0x3f), (0x95, 0x3f), (0x96, 0x3f), (0x97, 0x3f), (0x98, 0x3f), (0x99, 0x3f), (0x9a, 0x3f), (0x9b, 0x3f), (0x9c, 0x3f),
    (0x9d, 0x3f), (0x9e, 0x3f), (0x9f, 0x3f), (0xa0, 0x3f), (0xa1, 0x3f), (0xa2, 0x3f), (0xa3, 0x3f), (0xa4, 0x3f), (0xa5, 0x3f), (0xa6, 0x3f),
    (0xa7, 0x3f), (0xa8, 0x3f), (0xa9, 0x3f), (0xaa, 0x3f), (0xab, 0x3f), (0xac, 0x3f), (0xad, 0x3f), (0xae, 0x3f), (0xaf, 0x3f), (0xb0, 0x3f),
    (0xb1, 0x3f), (0xb2, 0x3f), (0xb3, 0x3f), (0xb4, 0x3f), (0xb5, 0x3f), (0xb6, 0x3f), (0xb7, 0x3f), (0xb8, 0x3f), (0xb9, 0x3f), (0xba, 0x3f),
    (0xbb, 0x3f), (0xbc, 0x3f), (0xbd, 0x3f), (0xbe, 0x3f), (0xbf, 0x3f), (0xc0, 0x3f), (0xc1, 0x3f), (0xc2, 0x3f), (0xc3, 0x3f), (0xc4, 0x3f)]"

lemma lts_o_0_run [lts_run]: "table_run LTS_STATE_o 0 lts_o_0 150"
proof -
  have run: "lts_o_0 = bytes_up 30 0x30 0x3f @ bytes_up 120 0x4d 0x3f"
    by (simp add: lts_o_0_def bytes_up_numeral)
  show ?thesis by (simp add: run LTS_STATE_o_def bytes_up_run del: bytes_up.simps)
qed

definition lts_o_1 :: "(byte \<times> byte) list" where
  "lts_o_1 = [
    (0xc5, 0x3f), (0xc6, 0x3f), (0xc7, 0x3f), (0xc8, 0x3f), (0xc9, 0x3f), (0xca, 0x3f), (0xcb, 0x3f), (0xcc, 0x3f), (0xcd, 0x3f), (0xce, 0x3f),
    (0xcf, 0x3f), (0xd0, 0x3f), (0xd1, 0x3f), (0xd2, 0x3f), (0xd3, 0x3f), (0xd4, 0x3f), (0xd5, 0x3f), (0xd6, 0x3f), (0xd7, 0x3f), (0xd8, 0x3f),
    (0xd9, 0x3f), (0xda, 0x3f), (0xdb, 0x3f), (0xdc, 0x3f), (0xdd, 0x3f), (0xde, 0x3f), (0xdf, 0x3f), (0xe0, 0x3f), (0xe1, 0x3f), (0xe2, 0x3f),
    (0xe3, 0x3f), (0xe4, 0x3f), (0xe5, 0x3f), (0xe6, 0x3f), (0xe7, 0x3f), (0xe8, 0x3f), (0xe9, 0x3f), (0xea, 0x3f), (0xeb, 0x3f), (0xec, 0x3f),
    (0xed, 0x3f), (0xee, 0x3f), (0xef, 0x3f), (0xf0, 0x3f), (0xf1, 0x3f), (0xf2, 0x3f), (0xf3, 0x3f), (0xf4, 0x3f), (0xf5, 0x3f), (0xf6, 0x3f),
    (0xf7, 0x3f), (0xf8, 0x3f), (0xf9, 0x3f), (0xfa, 0x3f), (0xfb, 0x3f), (0xfc, 0x3f), (0xfd, 0x3f), (0xfe, 0x3f), (0xff, 0x3f), (0, 0x40),
    (1, 0x40), (0x2, 0x40), (0x3, 0x40), (0x4, 0x40), (0x5, 0x40), (0x6, 0x40), (0x7, 0x40), (0x8, 0x40), (0x9, 0x40), (0xa, 0x40),
    (0xb, 0x40), (0xc, 0x40), (0xd, 0x40), (0xe, 0x40), (0xf, 0x40), (0x10, 0x40), (0x11, 0x40), (0x12, 0x40), (0x13, 0x40), (0x14, 0x40),
    (0x15, 0x40), (0x16, 0x40), (0x17, 0x40), (0x18, 0x40), (0x19, 0x40), (0x1a, 0x40), (0x1b, 0x40), (0x1c, 0x40), (0x1d, 0x40), (0x1e, 0x40),
    (0x1f, 0x40), (0x20, 0x40), (0x21, 0x40), (0x22, 0x40), (0x23, 0x40), (0x24, 0x40), (0x25, 0x40), (0x26, 0x40), (0x27, 0x40), (0x28, 0x40),
    (0x29, 0x40), (0x2a, 0x40), (0x2b, 0x40), (0x2c, 0x40), (0x2d, 0x40), (0x2e, 0x40), (0x2f, 0x40), (0x30, 0x40), (0x31, 0x40), (0x32, 0x40),
    (0x33, 0x40), (0x34, 0x40), (0x35, 0x40), (0x36, 0x40), (0x37, 0x40), (0x38, 0x40), (0x39, 0x40), (0x3a, 0x40), (0x3b, 0x40), (0x3c, 0x40),
    (0x3d, 0x40), (0x3e, 0x40), (0x3f, 0x40), (0x40, 0x40), (0x41, 0x40), (0x42, 0x40), (0x43, 0x40), (0x44, 0x40), (0x45, 0x40), (0x46, 0x40),
    (0x47, 0x40), (0x48, 0x40), (0x49, 0x40), (0x4a, 0x40), (0x4b, 0x40), (0x4c, 0x40), (0x4d, 0x40), (0x4e, 0x40), (0x4f, 0x40), (0x50, 0x40),
    (0x51, 0x40), (0x52, 0x40), (0x53, 0x40), (0x54, 0x40), (0x55, 0x40), (0x56, 0x40), (0x57, 0x40), (0x58, 0x40), (0x59, 0x40), (0x5a, 0x40)]"

lemma lts_o_1_run [lts_run]: "table_run LTS_STATE_o 150 lts_o_1 300"
proof -
  have run: "lts_o_1 = bytes_up 59 0xc5 0x3f @ bytes_up 91 0 0x40"
    by (simp add: lts_o_1_def bytes_up_numeral)
  show ?thesis by (simp add: run LTS_STATE_o_def bytes_up_run del: bytes_up.simps)
qed

definition lts_o_2 :: "(byte \<times> byte) list" where
  "lts_o_2 = [
    (0x5b, 0x40), (0x5c, 0x40), (0x5d, 0x40), (0x5e, 0x40), (0x5f, 0x40), (0x60, 0x40), (0x61, 0x40), (0x62, 0x40), (0x63, 0x40), (0x64, 0x40),
    (0x65, 0x40), (0x66, 0x40), (0x67, 0x40), (0x68, 0x40), (0x69, 0x40), (0x6a, 0x40), (0x6b, 0x40), (0x6c, 0x40), (0x6d, 0x40), (0x6e, 0x40),
    (0x6f, 0x40), (0x70, 0x40), (0x71, 0x40), (0x72, 0x40), (0x73, 0x40), (0x74, 0x40), (0x75, 0x40), (0x76, 0x40), (0x77, 0x40), (0x78, 0x40),
    (0x79, 0x40), (0x7a, 0x40), (0x7b, 0x40), (0x7c, 0x40), (0x7d, 0x40), (0x7e, 0x40), (0x7f, 0x40), (0x80, 0x40), (0x81, 0x40), (0x82, 0x40),
    (0x83, 0x40), (0x84, 0x40), (0x85, 0x40), (0x86, 0x40), (0x87, 0x40), (0x88, 0x40), (0x89, 0x40), (0x8a, 0x40), (0x8b, 0x40), (0x8c, 0x40),
    (0x8d, 0x40), (0x8e, 0x40), (0x8f, 0x40), (0x90, 0x40), (0x91, 0x40), (0x92, 0x40), (0x93, 0x40), (0x94, 0x40), (0x95, 0x40), (0x96, 0x40),
    (0x97, 0x40), (0x98, 0x40), (0x99, 0x40), (0x9a, 0x40), (0x9b, 0x40), (0x9c, 0x40), (0x9d, 0x40), (0x9e, 0x40), (0x9f, 0x40), (0xa0, 0x40),
    (0xa1, 0x40), (0xa2, 0x40), (0xa3, 0x40), (0xa4, 0x40), (0xa5, 0x40), (0xa6, 0x40), (0xa7, 0x40), (0xa8, 0x40), (0xa9, 0x40), (0xaa, 0x40),
    (0xab, 0x40), (0xac, 0x40), (0xad, 0x40), (0xae, 0x40), (0xaf, 0x40), (0xb0, 0x40), (0xb1, 0x40), (0xb2, 0x40), (0xb3, 0x40), (0xb4, 0x40),
    (0xb5, 0x40), (0xb6, 0x40), (0xb7, 0x40), (0xb8, 0x40), (0xb9, 0x40), (0xba, 0x40), (0xbb, 0x40), (0xbc, 0x40), (0xbd, 0x40), (0xbe, 0x40),
    (0xbf, 0x40), (0xc0, 0x40), (0xc1, 0x40), (0xc2, 0x40), (0xc3, 0x40), (0xc4, 0x40), (0xc5, 0x40), (0xc6, 0x40), (0xc7, 0x40), (0xc8, 0x40),
    (0xc9, 0x40), (0xca, 0x40), (0xcb, 0x40), (0xcc, 0x40), (0xcd, 0x40), (0xce, 0x40), (0xcf, 0x40), (0xd0, 0x40), (0xd1, 0x40), (0xd2, 0x40),
    (0xd3, 0x40), (0xd4, 0x40), (0xd5, 0x40), (0xd6, 0x40), (0xd7, 0x40), (0xd8, 0x40), (0xd9, 0x40), (0xda, 0x40), (0xdb, 0x40), (0xdc, 0x40),
    (0xdd, 0x40), (0xde, 0x40), (0xdf, 0x40), (0xe0, 0x40), (0xe1, 0x40), (0xe2, 0x40), (0xe3, 0x40), (0xe4, 0x40), (0xe5, 0x40), (0xe6, 0x40),
    (0xe7, 0x40), (0xe8, 0x40), (0xe9, 0x40), (0xea, 0x40), (0xeb, 0x40), (0xec, 0x40), (0xed, 0x40), (0xee, 0x40), (0xef, 0x40), (0xf0, 0x40)]"

lemma lts_o_2_run [lts_run]: "table_run LTS_STATE_o 300 lts_o_2 450"
proof -
  have run: "lts_o_2 = bytes_up 150 0x5b 0x40"
    by (simp add: lts_o_2_def bytes_up_numeral)
  show ?thesis by (simp add: run LTS_STATE_o_def bytes_up_run del: bytes_up.simps)
qed

definition lts_o_3 :: "(byte \<times> byte) list" where
  "lts_o_3 = [
    (0xf1, 0x40), (0xf2, 0x40), (0xf3, 0x40), (0xf4, 0x40), (0xf5, 0x40), (0xf6, 0x40), (0xf7, 0x40), (0xf8, 0x40), (0xf9, 0x40), (0xfa, 0x40),
    (0xfb, 0x40), (0xfc, 0x40), (0xfd, 0x40), (0xfe, 0x40), (0xff, 0x40), (0, 0x41), (1, 0x41), (0x2, 0x41), (0x3, 0x41), (0x4, 0x41),
    (0x5, 0x41), (0x6, 0x41), (0x7, 0x41), (0x8, 0x41), (0x9, 0x41), (0xa, 0x41), (0xb, 0x41), (0xc, 0x41), (0xd, 0x41), (0xe, 0x41),
    (0xf, 0x41), (0x10, 0x41), (0x11, 0x41), (0x12, 0x41), (0x13, 0x41), (0x14, 0x41), (0x15, 0x41), (0x16, 0x41), (0x17, 0x41), (0x18, 0x41),
    (0x19, 0x41), (0x1a, 0x41), (0x1b, 0x41), (0x1c, 0x41), (0x1d, 0x41), (0x1e, 0x41), (0x1f, 0x41), (0x20, 0x41), (0x21, 0x41), (0x22, 0x41),
    (0x23, 0x41), (0x24, 0x41), (0x25, 0x41), (0x26, 0x41), (0x27, 0x41), (0x28, 0x41), (0x29, 0x41), (0x2a, 0x41), (0x2b, 0x41), (0x2c, 0x41),
    (0x2d, 0x41), (0x2e, 0x41), (0x2f, 0x41), (0x30, 0x41), (0x31, 0x41), (0x32, 0x41), (0x33, 0x41), (0x34, 0x41), (0x35, 0x41), (0x36, 0x41),
    (0x37, 0x41), (0x38, 0x41), (0x39, 0x41), (0x3a, 0x41), (0x3b, 0x41), (0x3c, 0x41), (0x3d, 0x41), (0x3e, 0x41), (0x3f, 0x41), (0x40, 0x41),
    (0x41, 0x41), (0x42, 0x41), (0x43, 0x41), (0x44, 0x41), (0x45, 0x41), (0x46, 0x41), (0x47, 0x41), (0x48, 0x41), (0x49, 0x41), (0x4a, 0x41),
    (0x4b, 0x41), (0x4c, 0x41), (0x4d, 0x41), (0x4e, 0x41), (0x4f, 0x41), (0x50, 0x41), (0x51, 0x41), (0x52, 0x41), (0x53, 0x41), (0x54, 0x41),
    (0x55, 0x41), (0x56, 0x41), (0x57, 0x41), (0x58, 0x41), (0x59, 0x41), (0x5a, 0x41), (0x5b, 0x41), (0x5c, 0x41), (0x5d, 0x41), (0x5e, 0x41),
    (0x5f, 0x41), (0x60, 0x41), (0x61, 0x41), (0x62, 0x41), (0x63, 0x41), (0x64, 0x41), (0x65, 0x41), (0x66, 0x41), (0x67, 0x41), (0x68, 0x41),
    (0x69, 0x41), (0x6a, 0x41), (0x6b, 0x41), (0x6c, 0x41), (0x6d, 0x41), (0x6e, 0x41), (0x6f, 0x41), (0x70, 0x41), (0x71, 0x41), (0x72, 0x41),
    (0x73, 0x41), (0x74, 0x41), (0x75, 0x41), (0x76, 0x41), (0x77, 0x41), (0x78, 0x41), (0x79, 0x41), (0x7a, 0x41), (0x7b, 0x41), (0x7c, 0x41),
    (0x7d, 0x41), (0x7e, 0x41), (0x7f, 0x41), (0x80, 0x41), (0x81, 0x41), (0x82, 0x41), (0x83, 0x41), (0x84, 0x41), (0x85, 0x41), (0x86, 0x41)]"

lemma lts_o_3_run [lts_run]: "table_run LTS_STATE_o 450 lts_o_3 600"
proof -
  have run: "lts_o_3 = bytes_up 15 0xf1 0x40 @ bytes_up 135 0 0x41"
    by (simp add: lts_o_3_def bytes_up_numeral)
  show ?thesis by (simp add: run LTS_STATE_o_def bytes_up_run del: bytes_up.simps)
qed

definition lts_o_4 :: "(byte \<times> byte) list" where
  "lts_o_4 = [
    (0x87, 0x41), (0x88, 0x41), (0x89, 0x41), (0x8a, 0x41), (0x8b, 0x41), (0x8c, 0x41), (0x8d, 0x41), (0x8e, 0x41), (0x8f, 0x41), (0x90, 0x41),
    (0x91, 0x41), (0x92, 0x41), (0x93, 0x41), (0x94, 0x41), (0x95, 0x41), (0x96, 0x41), (0x97, 0x41), (0x98, 0x41), (0x99, 0x41), (0x9a, 0x41),
    (0x9b, 0x41), (0x9c, 0x41), (0x9d, 0x41), (0x9e, 0x41), (0x9f, 0x41), (0xa0, 0x41), (0xa1, 0x41), (0xa2, 0x41), (0xa3, 0x41), (0xa4, 0x41),
    (0xa5, 0x41), (0xa6, 0x41), (0xa7, 0x41), (0xa8, 0x41), (0xa9, 0x41), (0xaa, 0x41), (0xab, 0x41), (0xac, 0x41), (0xad, 0x41), (0xae, 0x41),
    (0xaf, 0x41), (0xb0, 0x41), (0xb1, 0x41), (0xb2, 0x41), (0xb3, 0x41), (0xb4, 0x41), (0xb5, 0x41), (0xb6, 0x41), (0xb7, 0x41), (0xb8, 0x41),
    (0xb9, 0x41), (0xba, 0x41), (0xbb, 0x41), (0xbc, 0x41), (0xbd, 0x41), (0xbe, 0x41), (0xbf, 0x41), (0xc0, 0x41), (0xc1, 0x41), (0xc2, 0x41),
    (0xc3, 0x41), (0xc4, 0x41), (0xc5, 0x41), (0xc6, 0x41), (0xc7, 0x41), (0xc8, 0x41), (0xc9, 0x41), (0xca, 0x41), (0xcb, 0x41), (0xcc, 0x41),
    (0xcd, 0x41), (0xce, 0x41), (0xcf, 0x41), (0xd0, 0x41), (0xd1, 0x41), (0xd2, 0x41), (0xd3, 0x41), (0xd4, 0x41), (0xd5, 0x41), (0xd6, 0x41),
    (0xd7, 0x41), (0xd8, 0x41), (0xd9, 0x41), (0xda, 0x41), (0xdb, 0x41), (0xdc, 0x41), (0xdd, 0x41), (0xde, 0x41), (0xdf, 0x41), (0xe0, 0x41),
    (0xe1, 0x41), (0xe2, 0x41), (0xe3, 0x41), (0xe4, 0x41), (0xe5, 0x41), (0xe6, 0x41), (0xe7, 0x41), (0xe8, 0x41), (0xe9, 0x41), (0xea, 0x41),
    (0xeb, 0x41), (0xec, 0x41), (0xed, 0x41), (0xee, 0x41), (0xef, 0x41), (0xf0, 0x41), (0xf1, 0x41), (0xf2, 0x41), (0xf3, 0x41), (0xf4, 0x41),
    (0xf5, 0x41), (0xf6, 0x41), (0xf7, 0x41), (0xf8, 0x41), (0xf9, 0x41), (0xfa, 0x41), (0xfb, 0x41), (0xfc, 0x41), (0xfd, 0x41), (0xfe, 0x41),
    (0xff, 0x41), (0, 0x42), (1, 0x42), (0x2, 0x42), (0x3, 0x42), (0x4, 0x42), (0x5, 0x42), (0x6, 0x42), (0x7, 0x42), (0x8, 0x42),
    (0x9, 0x42), (0xa, 0x42), (0xb, 0x42), (0xc, 0x42), (0xd, 0x42), (0xe, 0x42), (0xf, 0x42), (0x10, 0x42), (0x11, 0x42), (0x12, 0x42),
    (0x13, 0x42), (0x14, 0x42), (0x15, 0x42), (0x16, 0x42), (0x17, 0x42), (0x18, 0x42), (0x19, 0x42), (0x1a, 0x42), (0x1b, 0x42), (0x1c, 0x42)]"

lemma lts_o_4_run [lts_run]: "table_run LTS_STATE_o 600 lts_o_4 750"
proof -
  have run: "lts_o_4 = bytes_up 121 0x87 0x41 @ bytes_up 29 0 0x42"
    by (simp add: lts_o_4_def bytes_up_numeral)
  show ?thesis by (simp add: run LTS_STATE_o_def bytes_up_run del: bytes_up.simps)
qed

definition lts_o_5 :: "(byte \<times> byte) list" where
  "lts_o_5 = [
    (0x1d, 0x42), (0x1e, 0x42), (0x1f, 0x42), (0x20, 0x42), (0x21, 0x42), (0x22, 0x42), (0x23, 0x42), (0x24, 0x42), (0x25, 0x42), (0x26, 0x42),
    (0x27, 0x42), (0x28, 0x42), (0x29, 0x42), (0x2a, 0x42), (0x2b, 0x42), (0x2c, 0x42), (0x2d, 0x42), (0x2e, 0x42), (0x2f, 0x42), (0x30, 0x42),
    (0x31, 0x42), (0x32, 0x42), (0x33, 0x42), (0x34, 0x42), (0x35, 0x42), (0x36, 0x42), (0x37, 0x42), (0x38, 0x42), (0x39, 0x42), (0x3a, 0x42),
    (0x3b, 0x42), (0x3c, 0x42), (0x3d, 0x42), (0x3e, 0x42), (0x3f, 0x42), (0x40, 0x42), (0x41, 0x42), (0x42, 0x42), (0x43, 0x42), (0x44, 0x42),
    (0x45, 0x42), (0x46, 0x42), (0x47, 0x42), (0x48, 0x42), (0x49, 0x42), (0x4a, 0x42), (0x4b, 0x42), (0x4c, 0x42), (0x4d, 0x42), (0x4e, 0x42),
    (0x4f, 0x42), (0x50, 0x42), (0x51, 0x42), (0x52, 0x42), (0x53, 0x42), (0x54, 0x42), (0x55, 0x42), (0x56, 0x42), (0x57, 0x42), (0x58, 0x42),
    (0x59, 0x42), (0x5a, 0x42), (0x5b, 0x42), (0x5c, 0x42), (0x5d, 0x42), (0x5e, 0x42), (0x5f, 0x42), (0x60, 0x42), (0x61, 0x42), (0x62, 0x42),
    (0x63, 0x42), (0x64, 0x42), (0x65, 0x42), (0x66, 0x42), (0x67, 0x42), (0x68, 0x42), (0x69, 0x42), (0x6a, 0x42), (0x6b, 0x42), (0x6c, 0x42),
    (0x6d, 0x42), (0x6e, 0x42), (0x6f, 0x42), (0x70, 0x42), (0x71, 0x42), (0x72, 0x42), (0x73, 0x42), (0x74, 0x42), (0x75, 0x42), (0x76, 0x42),
    (0x77, 0x42), (0x78, 0x42), (0x79, 0x42), (0x7a, 0x42), (0x7b, 0x42), (0x7c, 0x42), (0x7d, 0x42), (0x7e, 0x42), (0x7f, 0x42), (0x80, 0x42),
    (0x81, 0x42), (0x82, 0x42), (0x83, 0x42), (0x84, 0x42), (0x85, 0x42), (0x86, 0x42), (0x87, 0x42), (0x88, 0x42), (0x89, 0x42), (0x8a, 0x42),
    (0x8b, 0x42), (0x8c, 0x42), (0x8d, 0x42), (0x8e, 0x42), (0x8f, 0x42), (0x90, 0x42), (0x91, 0x42), (0x92, 0x42), (0x93, 0x42), (0x94, 0x42),
    (0x95, 0x42), (0x96, 0x42), (0x97, 0x42), (0x98, 0x42), (0x99, 0x42), (0x9a, 0x42), (0x9b, 0x42), (0x9c, 0x42), (0x9d, 0x42), (0x9e, 0x42),
    (0x9f, 0x42), (0xa0, 0x42), (0xa1, 0x42), (0xa2, 0x42), (0xa3, 0x42), (0xa4, 0x42), (0xa5, 0x42), (0xa6, 0x42), (0xa7, 0x42), (0xa8, 0x42),
    (0xa9, 0x42), (0xaa, 0x42), (0xab, 0x42), (0xac, 0x42), (0xad, 0x42), (0xae, 0x42), (0xaf, 0x42), (0xb0, 0x42), (0xb1, 0x42), (0xb2, 0x42)]"

lemma lts_o_5_run [lts_run]: "table_run LTS_STATE_o 750 lts_o_5 900"
proof -
  have run: "lts_o_5 = bytes_up 150 0x1d 0x42"
    by (simp add: lts_o_5_def bytes_up_numeral)
  show ?thesis by (simp add: run LTS_STATE_o_def bytes_up_run del: bytes_up.simps)
qed

definition lts_o_6 :: "(byte \<times> byte) list" where
  "lts_o_6 = [
    (0xb3, 0x42), (0xb4, 0x42), (0xb5, 0x42), (0xb6, 0x42), (0xb7, 0x42), (0xb8, 0x42), (0xb9, 0x42), (0xba, 0x42), (0xbb, 0x42), (0xbc, 0x42),
    (0xbd, 0x42), (0xbe, 0x42), (0xbf, 0x42), (0xc0, 0x42), (0xc1, 0x42), (0xc2, 0x42), (0xc3, 0x42), (0xc4, 0x42), (0xc5, 0x42), (0xc6, 0x42),
    (0xc7, 0x42), (0xc8, 0x42), (0xc9, 0x42), (0xca, 0x42), (0xcb, 0x42), (0xcc, 0x42), (0xcd, 0x42), (0xce, 0x42), (0xcf, 0x42), (0xd0, 0x42),
    (0xd1, 0x42), (0xd2, 0x42), (0xd3, 0x42), (0xd4, 0x42), (0xd5, 0x42), (0xd6, 0x42), (0xd7, 0x42), (0xd8, 0x42), (0xd9, 0x42), (0xda, 0x42),
    (0xdb, 0x42), (0xdc, 0x42), (0xdd, 0x42), (0xde, 0x42), (0xdf, 0x42), (0xe0, 0x42), (0xe1, 0x42), (0xe2, 0x42), (0xe3, 0x42), (0xe4, 0x42),
    (0xe5, 0x42), (0xe6, 0x42), (0xe7, 0x42), (0xe8, 0x42), (0xe9, 0x42), (0xea, 0x42), (0xeb, 0x42), (0xec, 0x42), (0xed, 0x42), (0xee, 0x42),
    (0xef, 0x42), (0xf0, 0x42), (0xf1, 0x42), (0xf2, 0x42), (0xf3, 0x42), (0xf4, 0x42), (0xf5, 0x42), (0xf6, 0x42), (0xf7, 0x42), (0xf8, 0x42),
    (0xf9, 0x42), (0xfa, 0x42), (0xfb, 0x42), (0xfc, 0x42), (0xfd, 0x42), (0xfe, 0x42), (0xff, 0x42), (0, 0x43), (1, 0x43), (0x2, 0x43),
    (0x3, 0x43), (0x4, 0x43), (0x5, 0x43), (0x6, 0x43), (0x7, 0x43), (0x8, 0x43), (0x9, 0x43), (0xa, 0x43), (0xb, 0x43), (0xc, 0x43),
    (0xd, 0x43), (0xe, 0x43), (0xf, 0x43), (0x10, 0x43), (0x11, 0x43), (0x12, 0x43), (0x13, 0x43), (0x14, 0x43), (0x15, 0x43), (0x16, 0x43),
    (0x17, 0x43), (0x18, 0x43), (0x19, 0x43), (0x1a, 0x43), (0x1b, 0x43), (0x1c, 0x43), (0x1d, 0x43), (0x1e, 0x43), (0x1f, 0x43), (0x20, 0x43),
    (0x21, 0x43), (0x22, 0x43), (0x23, 0x43), (0x24, 0x43), (0x25, 0x43), (0x26, 0x43), (0x27, 0x43), (0x28, 0x43), (0x29, 0x43), (0x2a, 0x43),
    (0x2b, 0x43), (0x2c, 0x43), (0x2d, 0x43), (0x2e, 0x43), (0x2f, 0x43), (0x30, 0x43), (0x31, 0x43), (0x32, 0x43), (0x33, 0x43), (0x34, 0x43),
    (0x35, 0x43), (0x36, 0x43), (0x37, 0x43), (0x38, 0x43), (0x39, 0x43), (0x3a, 0x43), (0x3b, 0x43), (0x3c, 0x43), (0x3d, 0x43), (0x3e, 0x43),
    (0x3f, 0x43), (0x40, 0x43), (0x41, 0x43), (0x42, 0x43), (0x43, 0x43), (0x44, 0x43), (0x45, 0x43), (0x46, 0x43), (0x47, 0x43), (0x48, 0x43)]"

lemma lts_o_6_run [lts_run]: "table_run LTS_STATE_o 900 lts_o_6 1050"
proof -
  have run: "lts_o_6 = bytes_up 77 0xb3 0x42 @ bytes_up 73 0 0x43"
    by (simp add: lts_o_6_def bytes_up_numeral)
  show ?thesis by (simp add: run LTS_STATE_o_def bytes_up_run del: bytes_up.simps)
qed

definition lts_o_7 :: "(byte \<times> byte) list" where
  "lts_o_7 = [
    (0x49, 0x43), (0x4a, 0x43), (0x4b, 0x43), (0x4c, 0x43), (0x4d, 0x43), (0x4e, 0x43), (0x4f, 0x43), (0x50, 0x43), (0x51, 0x43), (0x52, 0x43),
    (0x53, 0x43), (0x54, 0x43), (0x55, 0x43), (0x56, 0x43), (0x57, 0x43), (0x58, 0x43), (0x59, 0x43), (0x5a, 0x43), (0x5b, 0x43), (0x5c, 0x43),
    (0x5d, 0x43), (0x5e, 0x43), (0x5f, 0x43), (0x60, 0x43), (0x61, 0x43), (0x62, 0x43), (0x63, 0x43), (0x64, 0x43), (0x65, 0x43), (0x66, 0x43),
    (0x67, 0x43), (0x68, 0x43), (0x69, 0x43), (0x6a, 0x43), (0x6b, 0x43), (0x6c, 0x43), (0x6d, 0x43), (0x6e, 0x43), (0x6f, 0x43), (0x70, 0x43),
    (0x71, 0x43), (0x72, 0x43), (0x73, 0x43), (0x74, 0x43), (0x75, 0x43), (0x76, 0x43), (0x77, 0x43), (0x78, 0x43), (0x79, 0x43), (0x7a, 0x43),
    (0x7b, 0x43), (0x7c, 0x43), (0x7d, 0x43), (0x7e, 0x43), (0x7f, 0x43), (0x80, 0x43), (0x81, 0x43), (0x82, 0x43), (0x83, 0x43), (0x84, 0x43),
    (0x85, 0x43), (0x86, 0x43), (0x87, 0x43), (0x88, 0x43), (0x89, 0x43), (0x8a, 0x43), (0x8b, 0x43), (0x8c, 0x43), (0x8d, 0x43), (0x8e, 0x43),
    (0x8f, 0x43), (0x90, 0x43), (0x91, 0x43), (0x92, 0x43), (0x93, 0x43), (0x94, 0x43), (0x95, 0x43), (0x96, 0x43), (0x97, 0x43), (0x98, 0x43),
    (0x99, 0x43), (0x9a, 0x43), (0x9b, 0x43), (0x9c, 0x43), (0x9d, 0x43), (0x9e, 0x43), (0x9f, 0x43), (0xa0, 0x43), (0xa1, 0x43), (0xa2, 0x43),
    (0xa3, 0x43), (0xa4, 0x43), (0xa5, 0x43), (0xa6, 0x43), (0xa7, 0x43), (0xa8, 0x43), (0xa9, 0x43), (0xaa, 0x43), (0xab, 0x43), (0xac, 0x43),
    (0xad, 0x43), (0xae, 0x43), (0xaf, 0x43), (0xb0, 0x43), (0xb1, 0x43), (0xb2, 0x43), (0xb3, 0x43), (0xb4, 0x43), (0xb5, 0x43), (0xb6, 0x43),
    (0xb7, 0x43), (0xb8, 0x43), (0xb9, 0x43), (0xba, 0x43), (0xbb, 0x43), (0xbc, 0x43), (0xbd, 0x43), (0xbe, 0x43), (0xbf, 0x43), (0xc0, 0x43),
    (0xc1, 0x43), (0xc2, 0x43), (0xc3, 0x43), (0xc4, 0x43), (0xc5, 0x43), (0xc6, 0x43), (0xc7, 0x43), (0xc8, 0x43), (0xc9, 0x43), (0xca, 0x43),
    (0xcb, 0x43), (0xcc, 0x43), (0xcd, 0x43), (0xce, 0x43), (0xcf, 0x43), (0xd0, 0x43), (0xd1, 0x43), (0xd2, 0x43), (0xd3, 0x43), (0xd4, 0x43),
    (0xd5, 0x43), (0xd6, 0x43), (0xd7, 0x43), (0xd8, 0x43), (0xd9, 0x43), (0xda, 0x43), (0xdb, 0x43), (0xdc, 0x43), (0xdd, 0x43), (0xde, 0x43)]"

lemma lts_o_7_run [lts_run]: "table_run LTS_STATE_o 1050 lts_o_7 1200"
proof -
  have run: "lts_o_7 = bytes_up 150 0x49 0x43"
    by (simp add: lts_o_7_def bytes_up_numeral)
  show ?thesis by (simp add: run LTS_STATE_o_def bytes_up_run del: bytes_up.simps)
qed

definition lts_o_8 :: "(byte \<times> byte) list" where
  "lts_o_8 = [
    (0xdf, 0x43), (0xe0, 0x43), (0xe1, 0x43), (0xe2, 0x43), (0xe3, 0x43), (0xe4, 0x43), (0xe5, 0x43), (0xe6, 0x43), (0xe7, 0x43), (0xe8, 0x43),
    (0xe9, 0x43), (0xea, 0x43), (0xeb, 0x43), (0xec, 0x43), (0xed, 0x43), (0xee, 0x43), (0xef, 0x43), (0xf0, 0x43), (0xf1, 0x43), (0xf2, 0x43),
    (0xf3, 0x43), (0xf4, 0x43), (0xf5, 0x43), (0xf6, 0x43), (0xf7, 0x43), (0xf8, 0x43), (0xf9, 0x43), (0xfa, 0x43), (0xfb, 0x43), (0xfc, 0x43),
    (0xfd, 0x43), (0xfe, 0x43), (0xff, 0x43), (0, 0x44), (1, 0x44), (0x2, 0x44), (0x3, 0x44), (0x4, 0x44), (0x5, 0x44), (0x6, 0x44),
    (0x7, 0x44), (0x8, 0x44), (0x9, 0x44), (0xa, 0x44), (0xb, 0x44), (0xc, 0x44), (0xd, 0x44), (0xe, 0x44), (0xf, 0x44), (0x10, 0x44),
    (0x11, 0x44), (0x12, 0x44), (0x13, 0x44), (0x14, 0x44), (0x15, 0x44), (0x16, 0x44), (0x17, 0x44), (0x18, 0x44), (0x19, 0x44), (0x1a, 0x44),
    (0x1b, 0x44), (0x1c, 0x44), (0x1d, 0x44), (0x1e, 0x44), (0x1f, 0x44), (0x20, 0x44), (0x21, 0x44), (0x22, 0x44), (0x23, 0x44), (0x24, 0x44),
    (0x25, 0x44), (0x26, 0x44), (0x27, 0x44), (0x28, 0x44), (0x29, 0x44), (0x2a, 0x44), (0x2b, 0x44), (0x2c, 0x44), (0x2d, 0x44), (0x2e, 0x44),
    (0x2f, 0x44), (0x30, 0x44), (0x31, 0x44), (0x32, 0x44), (0x33, 0x44), (0x34, 0x44), (0x35, 0x44), (0x36, 0x44), (0x37, 0x44), (0x38, 0x44),
    (0x39, 0x44), (0x3a, 0x44), (0x3b, 0x44), (0x3c, 0x44), (0x3d, 0x44), (0x3e, 0x44), (0x3f, 0x44), (0x40, 0x44), (0x41, 0x44), (0x42, 0x44),
    (0x43, 0x44), (0x44, 0x44), (0x45, 0x44), (0x46, 0x44), (0x47, 0x44), (0x48, 0x44), (0x49, 0x44), (0x4a, 0x44), (0x4b, 0x44), (0x4c, 0x44),
    (0x4d, 0x44), (0x4e, 0x44), (0x4f, 0x44), (0x50, 0x44), (0x51, 0x44), (0x52, 0x44), (0x53, 0x44), (0x54, 0x44), (0x55, 0x44), (0x56, 0x44),
    (0x57, 0x44), (0x58, 0x44), (0x59, 0x44), (0x5a, 0x44), (0x5b, 0x44), (0x5c, 0x44), (0x5d, 0x44), (0x5e, 0x44), (0x5f, 0x44), (0x60, 0x44),
    (0x61, 0x44), (0x62, 0x44), (0x63, 0x44), (0x64, 0x44), (0x65, 0x44), (0x66, 0x44), (0x67, 0x44), (0x68, 0x44), (0x69, 0x44), (0x6a, 0x44),
    (0x6b, 0x44), (0x6c, 0x44), (0x6d, 0x44), (0x6e, 0x44), (0x6f, 0x44), (0x70, 0x44), (0x71, 0x44), (0x72, 0x44), (0x73, 0x44), (0x74, 0x44)]"

lemma lts_o_8_run [lts_run]: "table_run LTS_STATE_o 1200 lts_o_8 1350"
proof -
  have run: "lts_o_8 = bytes_up 33 0xdf 0x43 @ bytes_up 117 0 0x44"
    by (simp add: lts_o_8_def bytes_up_numeral)
  show ?thesis by (simp add: run LTS_STATE_o_def bytes_up_run del: bytes_up.simps)
qed

definition lts_o_9 :: "(byte \<times> byte) list" where
  "lts_o_9 = [
    (0x75, 0x44), (0x76, 0x44), (0x77, 0x44), (0x78, 0x44), (0x79, 0x44), (0x7a, 0x44), (0x7b, 0x44), (0x7c, 0x44), (0x7d, 0x44), (0x7e, 0x44),
    (0x7f, 0x44), (0x80, 0x44), (0x81, 0x44), (0x82, 0x44), (0x83, 0x44), (0x84, 0x44), (0x85, 0x44), (0x86, 0x44), (0x87, 0x44), (0x88, 0x44),
    (0x89, 0x44), (0x8a, 0x44), (0x8b, 0x44), (0x8c, 0x44), (0x8d, 0x44), (0x8e, 0x44), (0x8f, 0x44), (0x90, 0x44), (0x91, 0x44), (0x92, 0x44),
    (0x93, 0x44), (0x94, 0x44), (0x95, 0x44), (0x96, 0x44), (0x97, 0x44), (0x98, 0x44), (0x99, 0x44), (0x9a, 0x44), (0x9b, 0x44), (0x9c, 0x44),
    (0x9d, 0x44), (0x9e, 0x44), (0x9f, 0x44), (0xa0, 0x44), (0xa1, 0x44), (0xa2, 0x44), (0xa3, 0x44), (0xa4, 0x44), (0xa5, 0x44), (0xa6, 0x44),
    (0xa7, 0x44), (0xa8, 0x44), (0xa9, 0x44), (0xaa, 0x44), (0xab, 0x44), (0xac, 0x44), (0xad, 0x44), (0xae, 0x44), (0xaf, 0x44), (0xb0, 0x44),
    (0xb1, 0x44), (0xb2, 0x44), (0xb3, 0x44), (0xb4, 0x44), (0xb5, 0x44), (0xb6, 0x44), (0xb7, 0x44), (0xb8, 0x44), (0xb9, 0x44), (0xba, 0x44),
    (0xbb, 0x44), (0xbc, 0x44), (0xbd, 0x44), (0xbe, 0x44), (0xbf, 0x44), (0xc0, 0x44), (0xc1, 0x44), (0xc2, 0x44), (0xc3, 0x44), (0xc4, 0x44),
    (0xc5, 0x44), (0xc6, 0x44), (0xc7, 0x44), (0xc8, 0x44), (0xc9, 0x44), (0xca, 0x44), (0xcb, 0x44), (0xcc, 0x44), (0xcd, 0x44), (0xce, 0x44),
    (0xcf, 0x44), (0xd0, 0x44), (0xd1, 0x44), (0xd2, 0x44), (0xd3, 0x44), (0xd4, 0x44), (0xd5, 0x44), (0xd6, 0x44), (0xd7, 0x44), (0xd8, 0x44),
    (0xd9, 0x44), (0xda, 0x44), (0xdb, 0x44), (0xdc, 0x44), (0xdd, 0x44), (0xde, 0x44), (0xdf, 0x44), (0xe0, 0x44), (0xe1, 0x44), (0xe2, 0x44),
    (0xe3, 0x44), (0xe4, 0x44), (0xe5, 0x44), (0xe6, 0x44), (0xe7, 0x44), (0xe8, 0x44), (0xe9, 0x44), (0xea, 0x44), (0xeb, 0x44), (0xec, 0x44),
    (0xed, 0x44), (0xee, 0x44), (0xef, 0x44), (0xf0, 0x44), (0xf1, 0x44), (0xf2, 0x44), (0xf3, 0x44), (0xf4, 0x44), (0xf5, 0x44), (0xf6, 0x44),
    (0xf7, 0x44), (0xf8, 0x44), (0xf9, 0x44), (0xfa, 0x44), (0xfb, 0x44), (0xfc, 0x44), (0xfd, 0x44), (0xfe, 0x44), (0xff, 0x44), (0, 0x45),
    (1, 0x45), (0x2, 0x45), (0x3, 0x45), (0x4, 0x45), (0x5, 0x45), (0x6, 0x45), (0x7, 0x45), (0x8, 0x45), (0x9, 0x45), (0xa, 0x45)]"

lemma lts_o_9_run [lts_run]: "table_run LTS_STATE_o 1350 lts_o_9 1500"
proof -
  have run: "lts_o_9 = bytes_up 139 0x75 0x44 @ bytes_up 11 0 0x45"
    by (simp add: lts_o_9_def bytes_up_numeral)
  show ?thesis by (simp add: run LTS_STATE_o_def bytes_up_run del: bytes_up.simps)
qed

definition lts_o_10 :: "(byte \<times> byte) list" where
  "lts_o_10 = [
    (0xb, 0x45), (0xc, 0x45), (0xd, 0x45), (0xe, 0x45), (0xf, 0x45), (0x10, 0x45), (0x11, 0x45), (0x12, 0x45), (0x13, 0x45), (0x14, 0x45),
    (0x15, 0x45), (0x16, 0x45), (0x17, 0x45), (0x18, 0x45), (0x19, 0x45), (0x1a, 0x45), (0x1b, 0x45), (0x1c, 0x45), (0x1d, 0x45), (0x1e, 0x45),
    (0x1f, 0x45), (0x20, 0x45), (0x21, 0x45), (0x22, 0x45), (0x23, 0x45), (0x24, 0x45), (0x25, 0x45), (0x26, 0x45), (0x27, 0x45), (0x28, 0x45),
    (0x29, 0x45), (0x2a, 0x45), (0x2b, 0x45), (0x2c, 0x45), (0x2d, 0x45), (0x2e, 0x45), (0x2f, 0x45), (0x30, 0x45), (0x31, 0x45), (0x32, 0x45),
    (0x33, 0x45), (0x34, 0x45), (0x35, 0x45), (0x36, 0x45), (0x37, 0x45), (0x38, 0x45), (0x39, 0x45), (0x3a, 0x45), (0x3b, 0x45), (0x3c, 0x45),
    (0x3d, 0x45), (0x3e, 0x45), (0x3f, 0x45), (0x40, 0x45), (0x41, 0x45), (0x42, 0x45), (0x43, 0x45), (0x44, 0x45), (0x45, 0x45), (0x46, 0x45),
    (0x47, 0x45), (0x48, 0x45), (0x49, 0x45), (0x4a, 0x45), (0x4b, 0x45), (0x4c, 0x45), (0x4d, 0x45), (0x4e, 0x45), (0x4f, 0x45), (0x50, 0x45),
    (0x51, 0x45), (0x52, 0x45), (0x53, 0x45), (0x54, 0x45), (0x55, 0x45), (0x56, 0x45), (0x57, 0x45), (0x58, 0x45), (0x59, 0x45), (0x5a, 0x45),
    (0x5b, 0x45), (0x5c, 0x45), (0x5d, 0x45), (0x5e, 0x45), (0x5f, 0x45), (0x60, 0x45), (0x61, 0x45), (0x62, 0x45), (0x63, 0x45), (0x64, 0x45),
    (0x65, 0x45), (0x66, 0x45), (0x67, 0x45), (0x68, 0x45), (0x69, 0x45), (0x6a, 0x45), (0x6b, 0x45), (0x6c, 0x45), (0x6d, 0x45), (0x6e, 0x45),
    (0x6f, 0x45), (0x70, 0x45), (0x71, 0x45), (0x72, 0x45), (0x73, 0x45), (0x74, 0x45), (0x75, 0x45), (0x76, 0x45), (0x77, 0x45), (0x78, 0x45),
    (0x79, 0x45), (0x7a, 0x45), (0x7b, 0x45), (0x7c, 0x45), (0x7d, 0x45), (0x7e, 0x45), (0x7f, 0x45), (0x80, 0x45), (0x81, 0x45), (0x82, 0x45),
    (0x83, 0x45), (0x84, 0x45), (0x85, 0x45), (0x86, 0x45), (0x87, 0x45), (0x88, 0x45), (0x89, 0x45), (0x8a, 0x45), (0x8b, 0x45), (0x8c, 0x45),
    (0x8d, 0x45), (0x8e, 0x45), (0x8f, 0x45), (0x90, 0x45), (0x91, 0x45), (0x92, 0x45), (0x93, 0x45), (0x94, 0x45), (0x95, 0x45), (0x96, 0x45),
    (0x97, 0x45), (0x98, 0x45), (0x99, 0x45), (0x9a, 0x45), (0x9b, 0x45), (0x9c, 0x45), (0x9d, 0x45), (0x9e, 0x45), (0x9f, 0x45), (0xa0, 0x45)]"

lemma lts_o_10_run [lts_run]: "table_run LTS_STATE_o 1500 lts_o_10 1650"
proof -
  have run: "lts_o_10 = bytes_up 150 0xb 0x45"
    by (simp add: lts_o_10_def bytes_up_numeral)
  show ?thesis by (simp add: run LTS_STATE_o_def bytes_up_run del: bytes_up.simps)
qed

definition lts_o_11 :: "(byte \<times> byte) list" where
  "lts_o_11 = [
    (0xa1, 0x45), (0xa2, 0x45), (0xa3, 0x45), (0xa4, 0x45), (0xa5, 0x45), (0xa6, 0x45), (0xa7, 0x45), (0xa8, 0x45), (0xa9, 0x45), (0xaa, 0x45),
    (0xab, 0x45), (0xac, 0x45), (0xad, 0x45), (0xae, 0x45), (0xaf, 0x45), (0xb0, 0x45), (0xb1, 0x45), (0xb2, 0x45), (0xb3, 0x45), (0xb4, 0x45),
    (0xb5, 0x45), (0xb6, 0x45), (0xb7, 0x45), (0xb8, 0x45), (0xb9, 0x45), (0xba, 0x45), (0xbb, 0x45), (0xbc, 0x45), (0xbd, 0x45), (0xbe, 0x45),
    (0xbf, 0x45), (0xc0, 0x45), (0xc1, 0x45), (0xc2, 0x45), (0xc3, 0x45), (0xc4, 0x45), (0xc5, 0x45), (0xc6, 0x45), (0xc7, 0x45), (0xc8, 0x45),
    (0xc9, 0x45), (0xca, 0x45), (0xcb, 0x45), (0xcc, 0x45), (0xcd, 0x45), (0xce, 0x45), (0xcf, 0x45), (0xd0, 0x45), (0xd1, 0x45), (0xd2, 0x45),
    (0xd3, 0x45), (0xd4, 0x45), (0xd5, 0x45), (0xd6, 0x45), (0xd7, 0x45), (0xd8, 0x45), (0xd9, 0x45), (0xda, 0x45), (0xdb, 0x45), (0xdc, 0x45),
    (0xdd, 0x45), (0xde, 0x45), (0xdf, 0x45), (0xe0, 0x45), (0xe1, 0x45), (0xe2, 0x45), (0xe3, 0x45), (0xe4, 0x45), (0xe5, 0x45), (0xe6, 0x45),
    (0xe7, 0x45), (0xe8, 0x45), (0xe9, 0x45), (0xea, 0x45), (0xeb, 0x45), (0xec, 0x45), (0xed, 0x45), (0xee, 0x45), (0xef, 0x45), (0xf0, 0x45),
    (0xf1, 0x45), (0xf2, 0x45), (0xf3, 0x45), (0xf4, 0x45), (0xf5, 0x45), (0xf6, 0x45), (0xf7, 0x45), (0xf8, 0x45), (0xf9, 0x45), (0xfa, 0x45),
    (0xfb, 0x45), (0xfc, 0x45), (0xfd, 0x45), (0xfe, 0x45), (0xff, 0x45), (0, 0x46), (1, 0x46), (0x2, 0x46), (0x3, 0x46), (0x4, 0x46),
    (0x5, 0x46), (0x6, 0x46), (0x7, 0x46), (0x8, 0x46), (0x9, 0x46), (0xa, 0x46), (0xb, 0x46), (0xc, 0x46), (0xd, 0x46), (0xe, 0x46),
    (0xf, 0x46), (0x10, 0x46), (0x11, 0x46), (0x12, 0x46), (0x13, 0x46), (0x14, 0x46), (0x15, 0x46), (0x16, 0x46), (0x17, 0x46), (0x18, 0x46),
    (0x19, 0x46), (0x1a, 0x46), (0x1b, 0x46), (0x1c, 0x46), (0x1d, 0x46), (0x1e, 0x46), (0x1f, 0x46), (0x20, 0x46), (0x21, 0x46), (0x22, 0x46),
    (0x23, 0x46), (0x24, 0x46), (0x25, 0x46), (0x26, 0x46), (0x27, 0x46), (0x28, 0x46), (0x29, 0x46), (0x2a, 0x46), (0x2b, 0x46), (0x2c, 0x46),
    (0x2d, 0x46), (0x2e, 0x46), (0x2f, 0x46), (0x30, 0x46), (0x31, 0x46), (0x32, 0x46), (0x33, 0x46), (0x34, 0x46), (0x35, 0x46), (0x36, 0x46)]"

lemma lts_o_11_run [lts_run]: "table_run LTS_STATE_o 1650 lts_o_11 1800"
proof -
  have run: "lts_o_11 = bytes_up 95 0xa1 0x45 @ bytes_up 55 0 0x46"
    by (simp add: lts_o_11_def bytes_up_numeral)
  show ?thesis by (simp add: run LTS_STATE_o_def bytes_up_run del: bytes_up.simps)
qed

definition lts_o_12 :: "(byte \<times> byte) list" where
  "lts_o_12 = [
    (0x37, 0x46), (0x38, 0x46), (0x39, 0x46), (0x3a, 0x46), (0x3b, 0x46), (0x3c, 0x46), (0x3d, 0x46), (0x3e, 0x46), (0x3f, 0x46), (0x40, 0x46),
    (0x41, 0x46), (0x42, 0x46), (0x43, 0x46), (0x44, 0x46), (0x45, 0x46), (0x46, 0x46), (0x47, 0x46), (0x48, 0x46), (0x49, 0x46), (0x4a, 0x46),
    (0x4b, 0x46), (0x4c, 0x46), (0x4d, 0x46), (0x4e, 0x46), (0x4f, 0x46), (0x50, 0x46), (0x51, 0x46), (0x52, 0x46), (0x53, 0x46), (0x54, 0x46),
    (0x55, 0x46), (0x56, 0x46), (0x57, 0x46), (0x58, 0x46), (0x59, 0x46), (0x5a, 0x46), (0x5b, 0x46), (0x5c, 0x46), (0x5d, 0x46), (0x5e, 0x46),
    (0x5f, 0x46), (0x60, 0x46), (0x61, 0x46), (0x62, 0x46), (0x63, 0x46), (0x64, 0x46), (0x65, 0x46), (0x66, 0x46), (0x67, 0x46), (0x68, 0x46),
    (0x69, 0x46), (0x6a, 0x46), (0x6b, 0x46), (0x6c, 0x46), (0x6d, 0x46), (0x6e, 0x46), (0x6f, 0x46), (0x70, 0x46), (0x71, 0x46), (0x72, 0x46),
    (0x73, 0x46), (0x74, 0x46), (0x75, 0x46), (0x76, 0x46), (0x77, 0x46), (0x78, 0x46), (0x79, 0x46), (0x7a, 0x46), (0x7b, 0x46), (0x7c, 0x46),
    (0x7d, 0x46), (0x7e, 0x46), (0x7f, 0x46), (0x80, 0x46), (0x81, 0x46), (0x82, 0x46), (0x83, 0x46), (0x84, 0x46), (0x85, 0x46), (0x86, 0x46),
    (0x87, 0x46), (0x88, 0x46), (0x89, 0x46), (0x8a, 0x46), (0x8b, 0x46), (0x8c, 0x46), (0x8d, 0x46), (0x8e, 0x46), (0x8f, 0x46), (0x90, 0x46),
    (0x91, 0x46), (0x92, 0x46), (0x93, 0x46), (0x94, 0x46), (0x95, 0x46), (0x96, 0x46), (0x97, 0x46), (0x98, 0x46), (0x99, 0x46), (0x9a, 0x46),
    (0x9b, 0x46), (0x9c, 0x46), (0x9d, 0x46), (0x9e, 0x46), (0x9f, 0x46), (0xa0, 0x46), (0xa1, 0x46), (0xa2, 0x46), (0xa3, 0x46), (0xa4, 0x46),
    (0xa5, 0x46), (0xa6, 0x46), (0xa7, 0x46), (0xa8, 0x46), (0xa9, 0x46), (0xaa, 0x46), (0xab, 0x46), (0xac, 0x46), (0xad, 0x46), (0xae, 0x46),
    (0xaf, 0x46), (0xb0, 0x46), (0xb1, 0x46), (0xb2, 0x46), (0xb3, 0x46), (0xb4, 0x46), (0xb5, 0x46), (0xb6, 0x46), (0xb7, 0x46), (0xb8, 0x46),
    (0xb9, 0x46), (0xba, 0x46), (0xbb, 0x46), (0xbc, 0x46), (0xbd, 0x46), (0xbe, 0x46), (0xbf, 0x46), (0xc0, 0x46), (0xc1, 0x46), (0xc2, 0x46),
    (0xc3, 0x46), (0xc4, 0x46), (0xc5, 0x46), (0xc6, 0x46), (0xc7, 0x46), (0xc8, 0x46), (0xc9, 0x46), (0xca, 0x46), (0xcb, 0x46), (0xcc, 0x46)]"

lemma lts_o_12_run [lts_run]: "table_run LTS_STATE_o 1800 lts_o_12 1950"
proof -
  have run: "lts_o_12 = bytes_up 150 0x37 0x46"
    by (simp add: lts_o_12_def bytes_up_numeral)
  show ?thesis by (simp add: run LTS_STATE_o_def bytes_up_run del: bytes_up.simps)
qed

definition lts_o_13 :: "(byte \<times> byte) list" where
  "lts_o_13 = [
    (0xcd, 0x46), (0xce, 0x46), (0xcf, 0x46), (0xd0, 0x46), (0xd1, 0x46), (0xd2, 0x46), (0xd3, 0x46), (0xd4, 0x46), (0xd5, 0x46), (0xd6, 0x46),
    (0xd7, 0x46), (0xd8, 0x46), (0xd9, 0x46), (0xda, 0x46), (0xdb, 0x46), (0xdc, 0x46), (0xdd, 0x46), (0xde, 0x46), (0xdf, 0x46), (0xe0, 0x46),
    (0xe1, 0x46), (0xe2, 0x46), (0xe3, 0x46), (0xe4, 0x46), (0xe5, 0x46), (0xe6, 0x46), (0xe7, 0x46), (0xe8, 0x46), (0xe9, 0x46), (0xea, 0x46),
    (0xeb, 0x46), (0xec, 0x46), (0xed, 0x46), (0xee, 0x46), (0xef, 0x46), (0xf0, 0x46), (0xf1, 0x46), (0xf2, 0x46), (0xf3, 0x46), (0xf4, 0x46),
    (0xf5, 0x46), (0xf6, 0x46), (0xf7, 0x46), (0xf8, 0x46), (0xf9, 0x46), (0xfa, 0x46), (0xfb, 0x46), (0xfc, 0x46), (0xfd, 0x46), (0xfe, 0x46),
    (0xff, 0x46), (0, 0x47), (1, 0x47), (0x2, 0x47), (0x3, 0x47), (0x4, 0x47), (0x5, 0x47), (0x6, 0x47), (0x7, 0x47), (0x8, 0x47),
    (0x9, 0x47), (0xa, 0x47), (0xb, 0x47), (0xc, 0x47), (0xd, 0x47), (0xe, 0x47), (0xf, 0x47), (0x10, 0x47), (0x11, 0x47), (0x12, 0x47),
    (0x13, 0x47), (0x14, 0x47), (0x15, 0x47), (0x16, 0x47), (0x17, 0x47), (0x18, 0x47), (0x19, 0x47), (0x1a, 0x47), (0x1b, 0x47), (0x1c, 0x47),
    (0x1d, 0x47), (0x1e, 0x47), (0x1f, 0x47), (0x20, 0x47), (0x21, 0x47), (0x22, 0x47), (0x23, 0x47), (0x24, 0x47), (0x25, 0x47), (0x26, 0x47),
    (0x27, 0x47), (0x28, 0x47), (0x29, 0x47), (0x2a, 0x47), (0x2b, 0x47), (0x2c, 0x47), (0x2d, 0x47), (0x2e, 0x47), (0x2f, 0x47), (0x30, 0x47),
    (0x31, 0x47), (0x32, 0x47), (0x33, 0x47), (0x34, 0x47), (0x35, 0x47), (0x36, 0x47), (0x37, 0x47), (0x38, 0x47), (0x39, 0x47), (0x3a, 0x47),
    (0x3b, 0x47), (0x3c, 0x47), (0x3d, 0x47), (0x3e, 0x47), (0x3f, 0x47), (0x40, 0x47), (0x41, 0x47), (0x42, 0x47), (0x43, 0x47), (0x44, 0x47),
    (0x45, 0x47), (0x46, 0x47), (0x47, 0x47), (0x48, 0x47), (0x49, 0x47), (0x4a, 0x47), (0x4b, 0x47), (0x4c, 0x47), (0x4d, 0x47), (0x4e, 0x47),
    (0x4f, 0x47), (0x50, 0x47), (0x51, 0x47), (0x52, 0x47), (0x53, 0x47), (0x54, 0x47), (0x55, 0x47), (0x56, 0x47), (0x57, 0x47), (0x58, 0x47),
    (0x59, 0x47), (0x5a, 0x47), (0x5b, 0x47), (0x5c, 0x47), (0x5d, 0x47), (0x5e, 0x47), (0x5f, 0x47), (0x60, 0x47), (0x61, 0x47), (0x62, 0x47)]"

lemma lts_o_13_run [lts_run]: "table_run LTS_STATE_o 1950 lts_o_13 2100"
proof -
  have run: "lts_o_13 = bytes_up 51 0xcd 0x46 @ bytes_up 99 0 0x47"
    by (simp add: lts_o_13_def bytes_up_numeral)
  show ?thesis by (simp add: run LTS_STATE_o_def bytes_up_run del: bytes_up.simps)
qed

definition lts_o_14 :: "(byte \<times> byte) list" where
  "lts_o_14 = [
    (0x63, 0x47), (0x64, 0x47), (0x65, 0x47), (0x66, 0x47), (0x67, 0x47), (0x68, 0x47), (0x69, 0x47), (0x6a, 0x47), (0x6b, 0x47), (0x6c, 0x47),
    (0x6d, 0x47), (0x6e, 0x47), (0x6f, 0x47), (0x70, 0x47), (0x71, 0x47), (0x72, 0x47), (0x73, 0x47), (0x74, 0x47), (0x75, 0x47), (0x76, 0x47),
    (0x77, 0x47), (0x78, 0x47), (0x79, 0x47), (0x7a, 0x47), (0x7b, 0x47), (0x7c, 0x47), (0x7d, 0x47), (0x7e, 0x47), (0x7f, 0x47), (0x80, 0x47),
    (0x81, 0x47), (0x82, 0x47), (0x83, 0x47), (0x84, 0x47), (0x85, 0x47), (0x86, 0x47), (0x87, 0x47), (0x88, 0x47), (0x89, 0x47), (0x8a, 0x47),
    (0x8b, 0x47), (0x8c, 0x47), (0x8d, 0x47), (0x8e, 0x47), (0x8f, 0x47), (0x90, 0x47), (0x91, 0x47), (0x92, 0x47), (0x93, 0x47), (0x94, 0x47),
    (0x95, 0x47), (0x96, 0x47), (0x97, 0x47), (0x98, 0x47), (0x99, 0x47), (0x9a, 0x47), (0x9b, 0x47), (0x9c, 0x47), (0x9d, 0x47), (0x9e, 0x47),
    (0x9f, 0x47), (0xa0, 0x47), (0xa1, 0x47), (0xa2, 0x47), (0xa3, 0x47), (0xa4, 0x47), (0xa5, 0x47), (0xa6, 0x47), (0xa7, 0x47), (0xa8, 0x47),
    (0xa9, 0x47), (0xaa, 0x47), (0xab, 0x47), (0xac, 0x47), (0xad, 0x47), (0xae, 0x47), (0xaf, 0x47), (0xb0, 0x47), (0xb1, 0x47), (0xb2, 0x47),
    (0xb3, 0x47), (0xb4, 0x47), (0xb5, 0x47), (0xb6, 0x47), (0xb7, 0x47), (0xb8, 0x47), (0xb9, 0x47), (0xba, 0x47), (0xbb, 0x47), (0xbc, 0x47),
    (0xbd, 0x47), (0xbe, 0x47), (0xbf, 0x47), (0xc0, 0x47), (0xc1, 0x47), (0xc2, 0x47), (0xc3, 0x47), (0xc4, 0x47), (0xc5, 0x47), (0xc6, 0x47),
    (0xc7, 0x47), (0xc8, 0x47), (0xc9, 0x47), (0xca, 0x47), (0xcb, 0x47), (0xcc, 0x47), (0xcd, 0x47), (0xce, 0x47), (0xcf, 0x47), (0xd0, 0x47),
    (0xd1, 0x47), (0xd2, 0x47), (0xd3, 0x47), (0xd4, 0x47), (0xd5, 0x47), (0xd6, 0x47), (0xd7, 0x47), (0xd8, 0x47), (0xd9, 0x47), (0xda, 0x47),
    (0xdb, 0x47), (0xdc, 0x47), (0xdd, 0x47), (0xde, 0x47), (0xdf, 0x47), (0xe0, 0x47), (0xe1, 0x47), (0xe2, 0x47), (0xe3, 0x47), (0xe4, 0x47),
    (0xe5, 0x47), (0xe6, 0x47), (0xe7, 0x47), (0xe8, 0x47), (0xe9, 0x47), (0xea, 0x47), (0xeb, 0x47), (0xec, 0x47), (0xed, 0x47), (0xee, 0x47),
    (0xef, 0x47), (0xf0, 0x47), (0xf1, 0x47), (0xf2, 0x47), (0xf3, 0x47), (0xf4, 0x47), (0xf5, 0x47), (0xf6, 0x47), (0xf7, 0x47), (0xf8, 0x47)]"

lemma lts_o_14_run [lts_run]: "table_run LTS_STATE_o 2100 lts_o_14 2250"
proof -
  have run: "lts_o_14 = bytes_up 150 0x63 0x47"
    by (simp add: lts_o_14_def bytes_up_numeral)
  show ?thesis by (simp add: run LTS_STATE_o_def bytes_up_run del: bytes_up.simps)
qed

definition lts_o_15 :: "(byte \<times> byte) list" where
  "lts_o_15 = [
    (0xf9, 0x47), (0xfa, 0x47), (0xfb, 0x47), (0xfc, 0x47), (0xfd, 0x47), (0xfe, 0x47), (0xff, 0x47), (0, 0x48), (1, 0x48), (0x2, 0x48),
    (0x3, 0x48), (0x4, 0x48), (0x5, 0x48), (0x6, 0x48), (0x7, 0x48), (0x8, 0x48), (0x9, 0x48), (0xa, 0x48), (0xb, 0x48), (0xc, 0x48),
    (0xd, 0x48), (0xe, 0x48), (0xf, 0x48), (0x10, 0x48), (0x11, 0x48), (0x12, 0x48), (0x13, 0x48), (0x14, 0x48), (0x15, 0x48), (0x16, 0x48),
    (0x17, 0x48), (0x18, 0x48), (0x19, 0x48), (0x1a, 0x48), (0x1b, 0x48), (0x1c, 0x48), (0x1d, 0x48), (0x1e, 0x48), (0x1f, 0x48), (0x20, 0x48),
    (0x21, 0x48), (0x22, 0x48), (0x23, 0x48), (0x24, 0x48), (0x25, 0x48), (0x26, 0x48), (0x27, 0x48), (0x28, 0x48), (0x29, 0x48), (0x2a, 0x48),
    (0x2b, 0x48), (0x2c, 0x48), (0x2d, 0x48), (0x2e, 0x48), (0x2f, 0x48), (0x30, 0x48), (0x31, 0x48), (0x32, 0x48), (0x33, 0x48), (0x34, 0x48),
    (0x35, 0x48), (0x36, 0x48), (0x37, 0x48), (0x38, 0x48), (0x39, 0x48), (0x3a, 0x48), (0x3b, 0x48), (0x3c, 0x48), (0x3d, 0x48), (0x3e, 0x48),
    (0x3f, 0x48), (0x40, 0x48), (0x41, 0x48), (0x42, 0x48), (0x43, 0x48), (0x44, 0x48), (0x45, 0x48), (0x46, 0x48), (0x47, 0x48), (0x48, 0x48),
    (0x49, 0x48), (0x4a, 0x48), (0x4b, 0x48), (0x4c, 0x48), (0x4d, 0x48), (0x4e, 0x48), (0x4f, 0x48), (0x50, 0x48), (0x51, 0x48), (0x52, 0x48),
    (0x53, 0x48), (0x54, 0x48), (0x55, 0x48), (0x56, 0x48), (0x57, 0x48), (0x58, 0x48), (0x59, 0x48), (0x5a, 0x48), (0x5b, 0x48), (0x5c, 0x48),
    (0x5d, 0x48), (0x5e, 0x48), (0x5f, 0x48), (0x60, 0x48), (0x61, 0x48), (0x62, 0x48), (0x63, 0x48), (0x64, 0x48), (0x65, 0x48), (0x66, 0x48),
    (0x67, 0x48), (0x68, 0x48), (0x69, 0x48), (0x6a, 0x48), (0x6b, 0x48), (0x6c, 0x48), (0x6d, 0x48), (0x6e, 0x48), (0x6f, 0x48), (0x70, 0x48),
    (0x71, 0x48), (0x72, 0x48), (0x73, 0x48), (0x74, 0x48), (0x75, 0x48), (0x76, 0x48), (0x77, 0x48), (0x78, 0x48), (0x79, 0x48), (0x7a, 0x48),
    (0x7b, 0x48), (0x7c, 0x48), (0x7d, 0x48), (0x7e, 0x48), (0x7f, 0x48), (0x80, 0x48), (0x81, 0x48), (0x82, 0x48), (0x83, 0x48), (0x84, 0x48),
    (0x85, 0x48), (0x86, 0x48), (0x87, 0x48), (0x88, 0x48), (0x89, 0x48), (0x8a, 0x48), (0x8b, 0x48), (0x8c, 0x48), (0x8d, 0x48), (0x8e, 0x48)]"

lemma lts_o_15_run [lts_run]: "table_run LTS_STATE_o 2250 lts_o_15 2400"
proof -
  have run: "lts_o_15 = bytes_up 7 0xf9 0x47 @ bytes_up 143 0 0x48"
    by (simp add: lts_o_15_def bytes_up_numeral)
  show ?thesis by (simp add: run LTS_STATE_o_def bytes_up_run del: bytes_up.simps)
qed

definition lts_o_16 :: "(byte \<times> byte) list" where
  "lts_o_16 = [
    (0x8f, 0x48), (0x90, 0x48), (0x91, 0x48), (0x92, 0x48), (0x93, 0x48), (0x94, 0x48), (0x95, 0x48), (0x96, 0x48), (0x97, 0x48), (0x98, 0x48),
    (0x99, 0x48), (0x9a, 0x48), (0x9b, 0x48), (0x9c, 0x48), (0x9d, 0x48), (0x9e, 0x48), (0x9f, 0x48), (0xa0, 0x48), (0xa1, 0x48), (0xa2, 0x48),
    (0xa3, 0x48), (0xa4, 0x48), (0xa5, 0x48), (0xa6, 0x48), (0xa7, 0x48), (0xa8, 0x48), (0xa9, 0x48), (0xaa, 0x48), (0xab, 0x48), (0xac, 0x48),
    (0xad, 0x48), (0xae, 0x48), (0xaf, 0x48), (0xb0, 0x48), (0xb1, 0x48), (0xb2, 0x48), (0xb3, 0x48), (0xb4, 0x48), (0xb5, 0x48), (0xb6, 0x48),
    (0xb7, 0x48), (0xb8, 0x48), (0xb9, 0x48), (0xba, 0x48), (0xbb, 0x48), (0xbc, 0x48), (0xbd, 0x48), (0xbe, 0x48), (0xbf, 0x48), (0xc0, 0x48),
    (0xc1, 0x48), (0xc2, 0x48), (0xc3, 0x48), (0xc4, 0x48), (0xc5, 0x48), (0xc6, 0x48), (0xc7, 0x48), (0xc8, 0x48), (0xc9, 0x48), (0xca, 0x48),
    (0xcb, 0x48), (0xcc, 0x48), (0xcd, 0x48), (0xce, 0x48), (0xcf, 0x48), (0xd0, 0x48), (0xd1, 0x48), (0xd2, 0x48), (0xd3, 0x48), (0xd4, 0x48),
    (0xd5, 0x48), (0xd6, 0x48), (0xd7, 0x48), (0xd8, 0x48), (0xd9, 0x48), (0xda, 0x48), (0xdb, 0x48), (0xdc, 0x48), (0xdd, 0x48), (0xde, 0x48),
    (0xdf, 0x48), (0xe0, 0x48), (0xe1, 0x48), (0xe2, 0x48), (0xe3, 0x48), (0xe4, 0x48), (0xe5, 0x48), (0xe6, 0x48), (0xe7, 0x48), (0xe8, 0x48),
    (0xe9, 0x48), (0xea, 0x48), (0xeb, 0x48), (0xec, 0x48), (0xed, 0x48), (0xee, 0x48), (0xef, 0x48), (0xf0, 0x48), (0xf1, 0x48), (0xf2, 0x48),
    (0xf3, 0x48), (0xf4, 0x48), (0xf5, 0x48), (0xf6, 0x48), (0xf7, 0x48), (0xf8, 0x48), (0xf9, 0x48), (0xfa, 0x48), (0xfb, 0x48), (0xfc, 0x48),
    (0xfd, 0x48), (0xfe, 0x48), (0xff, 0x48), (0, 0x49), (1, 0x49), (0x2, 0x49), (0x3, 0x49), (0x4, 0x49), (0x5, 0x49), (0x6, 0x49),
    (0x7, 0x49), (0x8, 0x49), (0x9, 0x49), (0xa, 0x49), (0xb, 0x49), (0xc, 0x49), (0xd, 0x49), (0xe, 0x49), (0xf, 0x49), (0x10, 0x49),
    (0x11, 0x49), (0x12, 0x49), (0x13, 0x49), (0x14, 0x49), (0x15, 0x49), (0x16, 0x49), (0x17, 0x49), (0x18, 0x49), (0x19, 0x49), (0x1a, 0x49),
    (0x1b, 0x49), (0x1c, 0x49), (0x1d, 0x49), (0x1e, 0x49), (0x1f, 0x49), (0x20, 0x49), (0x21, 0x49), (0x22, 0x49), (0x23, 0x49), (0x24, 0x49)]"

lemma lts_o_16_run [lts_run]: "table_run LTS_STATE_o 2400 lts_o_16 2550"
proof -
  have run: "lts_o_16 = bytes_up 113 0x8f 0x48 @ bytes_up 37 0 0x49"
    by (simp add: lts_o_16_def bytes_up_numeral)
  show ?thesis by (simp add: run LTS_STATE_o_def bytes_up_run del: bytes_up.simps)
qed

definition lts_o_17 :: "(byte \<times> byte) list" where
  "lts_o_17 = [
    (0x25, 0x49), (0x26, 0x49), (0x27, 0x49), (0x28, 0x49), (0x29, 0x49), (0x2a, 0x49), (0x2b, 0x49), (0x2c, 0x49), (0x2d, 0x49), (0x2e, 0x49),
    (0x2f, 0x49), (0x30, 0x49), (0x31, 0x49), (0x32, 0x49), (0x33, 0x49), (0x34, 0x49), (0x35, 0x49), (0x36, 0x49), (0x37, 0x49), (0x38, 0x49),
    (0x39, 0x49), (0x3a, 0x49), (0x3b, 0x49), (0x3c, 0x49), (0x3d, 0x49), (0x3e, 0x49), (0x3f, 0x49), (0x40, 0x49), (0x41, 0x49), (0x42, 0x49),
    (0x43, 0x49), (0x44, 0x49), (0x45, 0x49), (0x46, 0x49), (0x47, 0x49), (0x48, 0x49), (0x49, 0x49), (0x4a, 0x49), (0x4b, 0x49), (0x4c, 0x49),
    (0x4d, 0x49), (0x4e, 0x49), (0x4f, 0x49), (0x50, 0x49), (0x51, 0x49), (0x52, 0x49), (0x53, 0x49), (0x54, 0x49), (0x55, 0x49), (0x56, 0x49),
    (0x57, 0x49), (0x58, 0x49), (0x59, 0x49), (0x5a, 0x49), (0x5b, 0x49), (0x5c, 0x49), (0x5d, 0x49), (0x5e, 0x49), (0x5f, 0x49), (0x60, 0x49),
    (0x61, 0x49), (0x62, 0x49), (0x63, 0x49), (0x64, 0x49), (0x65, 0x49), (0x66, 0x49), (0x67, 0x49), (0x68, 0x49), (0x69, 0x49), (0x6a, 0x49),
    (0x6b, 0x49), (0x6c, 0x49), (0x6d, 0x49), (0x6e, 0x49), (0x6f, 0x49), (0x70, 0x49), (0x71, 0x49), (0x72, 0x49), (0x73, 0x49), (0x74, 0x49),
    (0x75, 0x49), (0x76, 0x49), (0x77, 0x49), (0x78, 0x49), (0x79, 0x49), (0x7a, 0x49), (0x7b, 0x49), (0x7c, 0x49), (0x7d, 0x49), (0x7e, 0x49),
    (0x7f, 0x49), (0x80, 0x49), (0x81, 0x49), (0x82, 0x49), (0x83, 0x49), (0x84, 0x49), (0x85, 0x49), (0x86, 0x49), (0x87, 0x49), (0x88, 0x49),
    (0x89, 0x49), (0x8a, 0x49), (0x8b, 0x49), (0x8c, 0x49), (0x8d, 0x49), (0x8e, 0x49), (0x8f, 0x49), (0x90, 0x49), (0x91, 0x49), (0x92, 0x49),
    (0x93, 0x49), (0x94, 0x49), (0x95, 0x49), (0x96, 0x49), (0x97, 0x49), (0x98, 0x49), (0x99, 0x49), (0x9a, 0x49), (0x9b, 0x49), (0x9c, 0x49),
    (0x9d, 0x49), (0x9e, 0x49), (0x9f, 0x49), (0xa0, 0x49), (0xa1, 0x49), (0xa2, 0x49), (0xa3, 0x49), (0xa4, 0x49), (0xa5, 0x49), (0xa6, 0x49),
    (0xa7, 0x49), (0xa8, 0x49), (0xa9, 0x49), (0xaa, 0x49), (0xab, 0x49), (0xac, 0x49), (0xad, 0x49), (0xae, 0x49), (0xaf, 0x49), (0xb0, 0x49),
    (0xb1, 0x49), (0xb2, 0x49), (0xb3, 0x49), (0xb4, 0x49), (0xb5, 0x49), (0xb6, 0x49), (0xb7, 0x49), (0xb8, 0x49), (0xb9, 0x49), (0xba, 0x49)]"

lemma lts_o_17_run [lts_run]: "table_run LTS_STATE_o 2550 lts_o_17 2700"
proof -
  have run: "lts_o_17 = bytes_up 150 0x25 0x49"
    by (simp add: lts_o_17_def bytes_up_numeral)
  show ?thesis by (simp add: run LTS_STATE_o_def bytes_up_run del: bytes_up.simps)
qed

definition lts_o_18 :: "(byte \<times> byte) list" where
  "lts_o_18 = [
    (0xbb, 0x49), (0xbc, 0x49), (0xbd, 0x49), (0xbe, 0x49), (0xbf, 0x49), (0xc0, 0x49), (0xc1, 0x49), (0xc2, 0x49), (0xc3, 0x49), (0xc4, 0x49),
    (0xc5, 0x49), (0xc6, 0x49), (0xc7, 0x49), (0xc8, 0x49), (0xc9, 0x49), (0xca, 0x49), (0xcb, 0x49), (0xcc, 0x49), (0xcd, 0x49), (0xce, 0x49),
    (0xcf, 0x49), (0xd0, 0x49), (0xd1, 0x49), (0xd2, 0x49), (0xd3, 0x49), (0xd4, 0x49), (0xd5, 0x49), (0xd6, 0x49), (0xd7, 0x49), (0xd8, 0x49),
    (0xd9, 0x49), (0xda, 0x49), (0xdb, 0x49), (0xdc, 0x49), (0xdd, 0x49), (0xde, 0x49), (0xdf, 0x49), (0xe0, 0x49), (0xe1, 0x49), (0xe2, 0x49),
    (0xe3, 0x49), (0xe4, 0x49), (0xe5, 0x49), (0xe6, 0x49), (0xe7, 0x49), (0xe8, 0x49), (0xe9, 0x49), (0xea, 0x49), (0xeb, 0x49), (0xec, 0x49),
    (0xed, 0x49), (0xee, 0x49), (0xef, 0x49), (0xf0, 0x49), (0xf1, 0x49), (0xf2, 0x49), (0xf3, 0x49), (0xf4, 0x49), (0xf5, 0x49), (0xf6, 0x49),
    (0xf7, 0x49), (0xf8, 0x49), (0xf9, 0x49), (0xfa, 0x49), (0xfb, 0x49), (0xfc, 0x49), (0xfd, 0x49), (0xfe, 0x49), (0xff, 0x49), (0, 0x4a),
    (1, 0x4a), (0x2, 0x4a), (0x3, 0x4a), (0x4, 0x4a), (0x5, 0x4a), (0x6, 0x4a), (0x7, 0x4a), (0x8, 0x4a), (0x9, 0x4a), (0xa, 0x4a),
    (0xb, 0x4a), (0xc, 0x4a), (0xd, 0x4a), (0xe, 0x4a), (0xf, 0x4a), (0x10, 0x4a), (0x11, 0x4a), (0x12, 0x4a), (0x13, 0x4a), (0x14, 0x4a),
    (0x15, 0x4a), (0x16, 0x4a), (0x17, 0x4a), (0x18, 0x4a), (0x19, 0x4a), (0x1a, 0x4a), (0x1b, 0x4a), (0x1c, 0x4a), (0x1d, 0x4a), (0x1e, 0x4a),
    (0x1f, 0x4a), (0x20, 0x4a), (0x21, 0x4a), (0x22, 0x4a), (0x23, 0x4a), (0x24, 0x4a), (0x25, 0x4a), (0x26, 0x4a), (0x27, 0x4a), (0x28, 0x4a),
    (0x29, 0x4a), (0x2a, 0x4a), (0x2b, 0x4a), (0x2c, 0x4a), (0x2d, 0x4a), (0x2e, 0x4a), (0x2f, 0x4a), (0x30, 0x4a), (0x31, 0x4a), (0x32, 0x4a),
    (0x33, 0x4a), (0x34, 0x4a), (0x35, 0x4a), (0x36, 0x4a), (0x37, 0x4a), (0x38, 0x4a), (0x39, 0x4a), (0x3a, 0x4a), (0x3b, 0x4a), (0x3c, 0x4a),
    (0x3d, 0x4a), (0x3e, 0x4a), (0x3f, 0x4a), (0x40, 0x4a), (0x41, 0x4a), (0x42, 0x4a), (0x43, 0x4a), (0x44, 0x4a), (0x45, 0x4a), (0x46, 0x4a),
    (0x47, 0x4a), (0x48, 0x4a), (0x49, 0x4a), (0x4a, 0x4a), (0x4b, 0x4a), (0x4c, 0x4a), (0x4d, 0x4a), (0x4e, 0x4a), (0x4f, 0x4a), (0x50, 0x4a)]"

lemma lts_o_18_run [lts_run]: "table_run LTS_STATE_o 2700 lts_o_18 2850"
proof -
  have run: "lts_o_18 = bytes_up 69 0xbb 0x49 @ bytes_up 81 0 0x4a"
    by (simp add: lts_o_18_def bytes_up_numeral)
  show ?thesis by (simp add: run LTS_STATE_o_def bytes_up_run del: bytes_up.simps)
qed

definition lts_o_19 :: "(byte \<times> byte) list" where
  "lts_o_19 = [
    (0x51, 0x4a), (0x52, 0x4a), (0x53, 0x4a), (0x54, 0x4a), (0x55, 0x4a), (0x56, 0x4a), (0x57, 0x4a), (0x58, 0x4a), (0x59, 0x4a), (0x5a, 0x4a),
    (0x5b, 0x4a), (0x5c, 0x4a), (0x5d, 0x4a), (0x5e, 0x4a), (0x5f, 0x4a), (0x60, 0x4a), (0x61, 0x4a), (0x62, 0x4a), (0x63, 0x4a), (0x64, 0x4a),
    (0x65, 0x4a), (0x66, 0x4a), (0x67, 0x4a), (0x68, 0x4a), (0x69, 0x4a), (0x6a, 0x4a), (0x6b, 0x4a), (0x6c, 0x4a), (0x6d, 0x4a), (0x6e, 0x4a),
    (0x6f, 0x4a), (0x70, 0x4a), (0x71, 0x4a), (0x72, 0x4a), (0x73, 0x4a), (0x74, 0x4a), (0x75, 0x4a), (0x76, 0x4a), (0x77, 0x4a), (0x78, 0x4a),
    (0x79, 0x4a), (0x7a, 0x4a), (0x7b, 0x4a), (0x7c, 0x4a), (0x7d, 0x4a), (0x7e, 0x4a), (0x7f, 0x4a), (0x80, 0x4a), (0x81, 0x4a), (0x82, 0x4a),
    (0x83, 0x4a), (0x84, 0x4a), (0x85, 0x4a), (0x86, 0x4a), (0x87, 0x4a), (0x88, 0x4a), (0x89, 0x4a), (0x8a, 0x4a), (0x8b, 0x4a), (0x8c, 0x4a),
    (0x8d, 0x4a), (0x8e, 0x4a), (0x8f, 0x4a), (0x90, 0x4a), (0x91, 0x4a), (0x92, 0x4a), (0x93, 0x4a), (0x94, 0x4a), (0x95, 0x4a), (0x96, 0x4a),
    (0x97, 0x4a), (0x98, 0x4a), (0x99, 0x4a), (0x9a, 0x4a), (0x9b, 0x4a), (0x9c, 0x4a), (0x9d, 0x4a), (0x9e, 0x4a), (0x9f, 0x4a), (0xa0, 0x4a),
    (0xa1, 0x4a), (0xa2, 0x4a), (0xa3, 0x4a), (0xa4, 0x4a), (0xa5, 0x4a), (0xa6, 0x4a), (0xa7, 0x4a), (0xa8, 0x4a), (0xa9, 0x4a), (0xaa, 0x4a),
    (0xab, 0x4a), (0xac, 0x4a), (0xad, 0x4a), (0xae, 0x4a), (0xaf, 0x4a), (0xb0, 0x4a), (0xb1, 0x4a), (0xb2, 0x4a), (0xb3, 0x4a), (0xb4, 0x4a),
    (0xb5, 0x4a), (0xb6, 0x4a), (0xb7, 0x4a), (0xb8, 0x4a), (0xb9, 0x4a), (0xba, 0x4a), (0xbb, 0x4a), (0xbc, 0x4a), (0xbd, 0x4a), (0xbe, 0x4a),
    (0xbf, 0x4a), (0xc0, 0x4a), (0xc1, 0x4a), (0xc2, 0x4a), (0xc3, 0x4a), (0xc4, 0x4a), (0xc5, 0x4a), (0xc6, 0x4a), (0xc7, 0x4a), (0xc8, 0x4a),
    (0xc9, 0x4a), (0xca, 0x4a), (0xcb, 0x4a), (0xcc, 0x4a), (0xcd, 0x4a), (0xce, 0x4a), (0xcf, 0x4a), (0xd0, 0x4a), (0xd1, 0x4a), (0xd2, 0x4a),
    (0xd3, 0x4a), (0xd4, 0x4a), (0xd5, 0x4a), (0xd6, 0x4a), (0xd7, 0x4a), (0xd8, 0x4a), (0xd9, 0x4a), (0xda, 0x4a), (0xdb, 0x4a), (0xdc, 0x4a),
    (0xdd, 0x4a), (0xde, 0x4a), (0xdf, 0x4a), (0xe0, 0x4a), (0xe1, 0x4a), (0xe2, 0x4a), (0xe3, 0x4a), (0xe4, 0x4a), (0xe5, 0x4a), (0xe6, 0x4a)]"

lemma lts_o_19_run [lts_run]: "table_run LTS_STATE_o 2850 lts_o_19 3000"
proof -
  have run: "lts_o_19 = bytes_up 150 0x51 0x4a"
    by (simp add: lts_o_19_def bytes_up_numeral)
  show ?thesis by (simp add: run LTS_STATE_o_def bytes_up_run del: bytes_up.simps)
qed

definition lts_o_20 :: "(byte \<times> byte) list" where
  "lts_o_20 = [
    (0xe7, 0x4a), (0xe8, 0x4a), (0xe9, 0x4a), (0xea, 0x4a), (0xeb, 0x4a), (0xec, 0x4a), (0xed, 0x4a), (0xee, 0x4a), (0xef, 0x4a), (0xf0, 0x4a),
    (0xf1, 0x4a), (0xf2, 0x4a), (0xf3, 0x4a), (0xf4, 0x4a), (0xf5, 0x4a), (0xf6, 0x4a), (0xf7, 0x4a), (0xf8, 0x4a), (0xf9, 0x4a), (0xfa, 0x4a),
    (0xfb, 0x4a), (0xfc, 0x4a), (0xfd, 0x4a), (0xfe, 0x4a), (0xff, 0x4a), (0, 0x4b), (1, 0x4b), (0x2, 0x4b), (0x3, 0x4b), (0x4, 0x4b),
    (0x5, 0x4b), (0x6, 0x4b), (0x7, 0x4b), (0x8, 0x4b), (0x9, 0x4b), (0xa, 0x4b), (0xb, 0x4b), (0xc, 0x4b), (0xd, 0x4b), (0xe, 0x4b),
    (0xf, 0x4b), (0x10, 0x4b), (0x11, 0x4b), (0x12, 0x4b), (0x13, 0x4b), (0x14, 0x4b), (0x15, 0x4b), (0x16, 0x4b), (0x17, 0x4b), (0x18, 0x4b),
    (0x19, 0x4b), (0x1a, 0x4b), (0x1b, 0x4b), (0x1c, 0x4b), (0x1d, 0x4b), (0x1e, 0x4b), (0x1f, 0x4b), (0x20, 0x4b), (0x21, 0x4b), (0x22, 0x4b),
    (0x23, 0x4b), (0x24, 0x4b), (0x25, 0x4b), (0x26, 0x4b), (0x27, 0x4b), (0x28, 0x4b), (0x29, 0x4b), (0x2a, 0x4b), (0x2b, 0x4b), (0x2c, 0x4b),
    (0x2d, 0x4b), (0x2e, 0x4b), (0x2f, 0x4b), (0x30, 0x4b), (0x31, 0x4b), (0x32, 0x4b), (0x33, 0x4b), (0x34, 0x4b), (0x35, 0x4b), (0x36, 0x4b),
    (0x37, 0x4b), (0x38, 0x4b), (0x39, 0x4b), (0x3a, 0x4b), (0x3b, 0x4b), (0x3c, 0x4b), (0x3d, 0x4b), (0x3e, 0x4b), (0x3f, 0x4b), (0x40, 0x4b),
    (0x41, 0x4b), (0x42, 0x4b), (0x43, 0x4b), (0x44, 0x4b), (0x45, 0x4b), (0x46, 0x4b), (0x47, 0x4b), (0x48, 0x4b), (0x49, 0x4b), (0x4a, 0x4b),
    (0x4b, 0x4b), (0x4c, 0x4b), (0x4d, 0x4b), (0x4e, 0x4b), (0x4f, 0x4b), (0x50, 0x4b), (0x51, 0x4b), (0x52, 0x4b), (0x53, 0x4b), (0x54, 0x4b),
    (0x55, 0x4b), (0x56, 0x4b), (0x57, 0x4b), (0x58, 0x4b), (0x59, 0x4b), (0x5a, 0x4b), (0x5b, 0x4b), (0x5c, 0x4b), (0x5d, 0x4b), (0x5e, 0x4b),
    (0x5f, 0x4b), (0x60, 0x4b), (0x61, 0x4b), (0x62, 0x4b), (0x63, 0x4b), (0x64, 0x4b), (0x65, 0x4b), (0x66, 0x4b), (0x67, 0x4b), (0x68, 0x4b),
    (0x69, 0x4b), (0x6a, 0x4b), (0x6b, 0x4b), (0x6c, 0x4b), (0x6d, 0x4b), (0x6e, 0x4b), (0x6f, 0x4b), (0x70, 0x4b), (0x71, 0x4b), (0x72, 0x4b),
    (0x73, 0x4b), (0x74, 0x4b), (0x75, 0x4b), (0x76, 0x4b), (0x77, 0x4b), (0x78, 0x4b), (0x79, 0x4b), (0x7a, 0x4b), (0x7b, 0x4b), (0x7c, 0x4b)]"

lemma lts_o_20_run [lts_run]: "table_run LTS_STATE_o 3000 lts_o_20 3150"
proof -
  have run: "lts_o_20 = bytes_up 25 0xe7 0x4a @ bytes_up 125 0 0x4b"
    by (simp add: lts_o_20_def bytes_up_numeral)
  show ?thesis by (simp add: run LTS_STATE_o_def bytes_up_run del: bytes_up.simps)
qed

definition lts_o_21 :: "(byte \<times> byte) list" where
  "lts_o_21 = [
    (0x7d, 0x4b), (0x7e, 0x4b), (0x7f, 0x4b), (0x80, 0x4b), (0x81, 0x4b), (0x82, 0x4b), (0x83, 0x4b), (0x84, 0x4b), (0x85, 0x4b), (0x86, 0x4b),
    (0x87, 0x4b), (0x88, 0x4b), (0x89, 0x4b), (0x8a, 0x4b), (0x8b, 0x4b), (0x8c, 0x4b), (0x8d, 0x4b), (0x8e, 0x4b), (0x8f, 0x4b), (0x90, 0x4b),
    (0x91, 0x4b), (0x92, 0x4b), (0x93, 0x4b), (0x94, 0x4b), (0x95, 0x4b), (0x96, 0x4b), (0x97, 0x4b), (0x98, 0x4b), (0x99, 0x4b), (0x9a, 0x4b),
    (0x9b, 0x4b), (0x9c, 0x4b), (0x9d, 0x4b), (0x9e, 0x4b), (0x9f, 0x4b), (0xa0, 0x4b), (0xa1, 0x4b), (0xa2, 0x4b), (0xa3, 0x4b), (0xa4, 0x4b),
    (0xa5, 0x4b), (0xa6, 0x4b), (0xa7, 0x4b), (0xa8, 0x4b), (0xa9, 0x4b), (0xaa, 0x4b), (0xab, 0x4b), (0xac, 0x4b), (0xad, 0x4b), (0xae, 0x4b),
    (0xaf, 0x4b), (0xb0, 0x4b), (0xb1, 0x4b), (0xb2, 0x4b), (0xb3, 0x4b), (0xb4, 0x4b), (0xb5, 0x4b), (0xb6, 0x4b), (0xb7, 0x4b), (0xb8, 0x4b),
    (0xb9, 0x4b), (0xba, 0x4b), (0xbb, 0x4b), (0xbc, 0x4b), (0xbd, 0x4b), (0xbe, 0x4b), (0xbf, 0x4b), (0xc0, 0x4b), (0xc1, 0x4b), (0xc2, 0x4b),
    (0xc3, 0x4b), (0xc4, 0x4b), (0xc5, 0x4b), (0xc6, 0x4b), (0xc7, 0x4b), (0xc8, 0x4b), (0xc9, 0x4b), (0xca, 0x4b), (0xcb, 0x4b), (0xcc, 0x4b),
    (0xcd, 0x4b), (0xce, 0x4b), (0xcf, 0x4b), (0xd0, 0x4b), (0xd1, 0x4b), (0xd2, 0x4b), (0xd3, 0x4b), (0xd4, 0x4b), (0xd5, 0x4b), (0xd6, 0x4b),
    (0xd7, 0x4b), (0xd8, 0x4b), (0xd9, 0x4b), (0xda, 0x4b), (0xdb, 0x4b), (0xdc, 0x4b), (0xdd, 0x4b), (0xde, 0x4b), (0xdf, 0x4b), (0xe0, 0x4b),
    (0xe1, 0x4b), (0xe2, 0x4b), (0xe3, 0x4b), (0xe4, 0x4b), (0xe5, 0x4b), (0xe6, 0x4b), (0xe7, 0x4b), (0xe8, 0x4b), (0xe9, 0x4b), (0xea, 0x4b),
    (0xeb, 0x4b), (0xec, 0x4b), (0xed, 0x4b), (0xee, 0x4b), (0xef, 0x4b), (0xf0, 0x4b), (0xf1, 0x4b), (0xf2, 0x4b), (0xf3, 0x4b), (0xf4, 0x4b),
    (0xf5, 0x4b), (0xf6, 0x4b), (0xf7, 0x4b), (0xf8, 0x4b), (0xf9, 0x4b), (0xfa, 0x4b), (0xfb, 0x4b), (0xfc, 0x4b), (0xfd, 0x4b), (0xfe, 0x4b),
    (0xff, 0x4b), (0, 0x4c), (1, 0x4c), (0x2, 0x4c), (0x3, 0x4c), (0x4, 0x4c), (0x5, 0x4c), (0x6, 0x4c), (0x7, 0x4c), (0x8, 0x4c),
    (0x9, 0x4c), (0xa, 0x4c), (0xb, 0x4c), (0xc, 0x4c), (0xd, 0x4c), (0xe, 0x4c), (0xf, 0x4c), (0x10, 0x4c), (0x11, 0x4c), (0x12, 0x4c)]"

lemma lts_o_21_run [lts_run]: "table_run LTS_STATE_o 3150 lts_o_21 3300"
proof -
  have run: "lts_o_21 = bytes_up 131 0x7d 0x4b @ bytes_up 19 0 0x4c"
    by (simp add: lts_o_21_def bytes_up_numeral)
  show ?thesis by (simp add: run LTS_STATE_o_def bytes_up_run del: bytes_up.simps)
qed

definition lts_o_22 :: "(byte \<times> byte) list" where
  "lts_o_22 = [
    (0x13, 0x4c), (0x14, 0x4c), (0x15, 0x4c), (0x16, 0x4c), (0x17, 0x4c), (0x18, 0x4c), (0x19, 0x4c), (0x1a, 0x4c), (0x1b, 0x4c), (0x1c, 0x4c),
    (0x1d, 0x4c), (0x1e, 0x4c), (0x1f, 0x4c), (0x20, 0x4c), (0x21, 0x4c), (0x22, 0x4c), (0x23, 0x4c), (0x24, 0x4c), (0x25, 0x4c), (0x26, 0x4c),
    (0x27, 0x4c), (0x28, 0x4c), (0x29, 0x4c), (0x2a, 0x4c), (0x2b, 0x4c), (0x2c, 0x4c), (0x2d, 0x4c), (0x2e, 0x4c), (0x2f, 0x4c), (0x30, 0x4c),
    (0x31, 0x4c), (0x32, 0x4c), (0x33, 0x4c), (0x34, 0x4c), (0x35, 0x4c), (0x36, 0x4c), (0x37, 0x4c), (0x38, 0x4c), (0x39, 0x4c), (0x3a, 0x4c),
    (0x3b, 0x4c), (0x3c, 0x4c), (0x3d, 0x4c), (0x3e, 0x4c), (0x3f, 0x4c), (0x40, 0x4c), (0x41, 0x4c), (0x42, 0x4c), (0x43, 0x4c), (0x44, 0x4c),
    (0x45, 0x4c), (0x46, 0x4c), (0x47, 0x4c), (0x48, 0x4c), (0x49, 0x4c), (0x4a, 0x4c), (0x4b, 0x4c), (0x4c, 0x4c), (0x4d, 0x4c), (0x4e, 0x4c),
    (0x4f, 0x4c), (0x50, 0x4c), (0x51, 0x4c), (0x52, 0x4c), (0x53, 0x4c), (0x54, 0x4c), (0x55, 0x4c), (0x56, 0x4c), (0x57, 0x4c), (0x58, 0x4c),
    (0x59, 0x4c), (0x5a, 0x4c), (0x5b, 0x4c), (0x5c, 0x4c), (0x5d, 0x4c), (0x5e, 0x4c), (0x5f, 0x4c), (0x60, 0x4c), (0x61, 0x4c), (0x62, 0x4c),
    (0x63, 0x4c), (0x64, 0x4c), (0x65, 0x4c), (0x66, 0x4c), (0x67, 0x4c), (0x68, 0x4c), (0x69, 0x4c), (0x6a, 0x4c), (0x6b, 0x4c), (0x6c, 0x4c),
    (0x6d, 0x4c), (0x6e, 0x4c), (0x6f, 0x4c), (0x70, 0x4c), (0x71, 0x4c), (0x72, 0x4c), (0x73, 0x4c), (0x74, 0x4c), (0x75, 0x4c), (0x76, 0x4c),
    (0x77, 0x4c), (0x78, 0x4c), (0x79, 0x4c), (0x7a, 0x4c), (0x7b, 0x4c), (0x7c, 0x4c), (0x7d, 0x4c), (0x7e, 0x4c), (0x7f, 0x4c), (0x80, 0x4c),
    (0x81, 0x4c), (0x82, 0x4c), (0x83, 0x4c), (0x84, 0x4c), (0x85, 0x4c), (0x86, 0x4c), (0x87, 0x4c), (0x88, 0x4c), (0x89, 0x4c), (0x8a, 0x4c),
    (0x8b, 0x4c), (0x8c, 0x4c), (0x8d, 0x4c), (0x8e, 0x4c), (0x8f, 0x4c), (0x90, 0x4c), (0x91, 0x4c), (0x92, 0x4c), (0x93, 0x4c), (0x94, 0x4c),
    (0x95, 0x4c), (0x96, 0x4c), (0x97, 0x4c), (0x98, 0x4c), (0x99, 0x4c), (0x9a, 0x4c), (0x9b, 0x4c), (0x9c, 0x4c), (0x9d, 0x4c), (0x9e, 0x4c),
    (0x9f, 0x4c), (0xa0, 0x4c), (0xa1, 0x4c), (0xa2, 0x4c), (0xa3, 0x4c), (0xa4, 0x4c), (0xa5, 0x4c), (0xa6, 0x4c), (0xa7, 0x4c), (0xa8, 0x4c)]"

lemma lts_o_22_run [lts_run]: "table_run LTS_STATE_o 3300 lts_o_22 3450"
proof -
  have run: "lts_o_22 = bytes_up 150 0x13 0x4c"
    by (simp add: lts_o_22_def bytes_up_numeral)
  show ?thesis by (simp add: run LTS_STATE_o_def bytes_up_run del: bytes_up.simps)
qed

definition lts_o_23 :: "(byte \<times> byte) list" where
  "lts_o_23 = [
    (0xa9, 0x4c), (0xaa, 0x4c), (0xab, 0x4c), (0xac, 0x4c), (0xad, 0x4c), (0xae, 0x4c), (0xaf, 0x4c), (0xb0, 0x4c), (0xb1, 0x4c), (0xb2, 0x4c),
    (0xb3, 0x4c), (0xb4, 0x4c), (0xb5, 0x4c), (0xb6, 0x4c), (0xb7, 0x4c), (0xb8, 0x4c), (0xb9, 0x4c), (0xba, 0x4c), (0xbb, 0x4c), (0xbc, 0x4c),
    (0xbd, 0x4c), (0xbe, 0x4c), (0xbf, 0x4c), (0xc0, 0x4c), (0xc1, 0x4c), (0xc2, 0x4c), (0xc3, 0x4c), (0xc4, 0x4c), (0xc5, 0x4c), (0xc6, 0x4c),
    (0xc7, 0x4c), (0xc8, 0x4c), (0xc9, 0x4c), (0xca, 0x4c), (0xcb, 0x4c), (0xcc, 0x4c), (0xcd, 0x4c), (0xce, 0x4c), (0xcf, 0x4c), (0xd0, 0x4c),
    (0xd1, 0x4c), (0xd2, 0x4c), (0xd3, 0x4c), (0xd4, 0x4c), (0xd5, 0x4c), (0xd6, 0x4c), (0xd7, 0x4c), (0xd8, 0x4c), (0xd9, 0x4c), (0xda, 0x4c),
    (0xdb, 0x4c), (0xdc, 0x4c), (0xdd, 0x4c), (0xde, 0x4c), (0xdf, 0x4c), (0xe0, 0x4c), (0xe1, 0x4c), (0xe2, 0x4c), (0xe3, 0x4c), (0xe4, 0x4c),
    (0xe5, 0x4c), (0xe6, 0x4c), (0xe7, 0x4c), (0xe8, 0x4c), (0xe9, 0x4c), (0xea, 0x4c), (0xeb, 0x4c), (0xec, 0x4c), (0xed, 0x4c), (0xee, 0x4c),
    (0xef, 0x4c), (0xf0, 0x4c), (0xf1, 0x4c), (0xf2, 0x4c), (0xf3, 0x4c), (0xf4, 0x4c), (0xf5, 0x4c), (0xf6, 0x4c), (0xf7, 0x4c), (0xf8, 0x4c),
    (0xf9, 0x4c), (0xfa, 0x4c), (0xfb, 0x4c), (0xfc, 0x4c), (0xfd, 0x4c), (0xfe, 0x4c), (0xff, 0x4c), (0, 0x4d), (1, 0x4d), (0x2, 0x4d),
    (0x3, 0x4d), (0x4, 0x4d), (0x5, 0x4d), (0x6, 0x4d), (0x7, 0x4d), (0x8, 0x4d), (0x9, 0x4d), (0xa, 0x4d), (0xb, 0x4d), (0xc, 0x4d),
    (0xd, 0x4d), (0xe, 0x4d), (0xf, 0x4d), (0x10, 0x4d), (0x11, 0x4d), (0x12, 0x4d), (0x13, 0x4d), (0x14, 0x4d), (0x15, 0x4d), (0x16, 0x4d),
    (0x17, 0x4d), (0x18, 0x4d), (0x19, 0x4d), (0x1a, 0x4d), (0x1b, 0x4d), (0x1c, 0x4d), (0x1d, 0x4d), (0x1e, 0x4d), (0x1f, 0x4d), (0x20, 0x4d),
    (0x21, 0x4d), (0x22, 0x4d), (0x23, 0x4d), (0x24, 0x4d), (0x25, 0x4d), (0x26, 0x4d), (0x27, 0x4d), (0x28, 0x4d), (0x29, 0x4d), (0x2a, 0x4d),
    (0x2b, 0x4d), (0x2c, 0x4d), (0x2d, 0x4d), (0x2e, 0x4d), (0x2f, 0x4d), (0x30, 0x4d), (0x31, 0x4d), (0x32, 0x4d), (0x33, 0x4d), (0x34, 0x4d),
    (0x35, 0x4d), (0x36, 0x4d), (0x37, 0x4d), (0x38, 0x4d), (0x39, 0x4d), (0x3a, 0x4d), (0x3b, 0x4d), (0x3c, 0x4d), (0x3d, 0x4d), (0x3e, 0x4d)]"

lemma lts_o_23_run [lts_run]: "table_run LTS_STATE_o 3450 lts_o_23 3600"
proof -
  have run: "lts_o_23 = bytes_up 87 0xa9 0x4c @ bytes_up 63 0 0x4d"
    by (simp add: lts_o_23_def bytes_up_numeral)
  show ?thesis by (simp add: run LTS_STATE_o_def bytes_up_run del: bytes_up.simps)
qed

definition lts_o_24 :: "(byte \<times> byte) list" where
  "lts_o_24 = [
    (0x3f, 0x4d), (0x40, 0x4d), (0x41, 0x4d), (0x42, 0x4d), (0x43, 0x4d), (0x44, 0x4d), (0x45, 0x4d), (0x46, 0x4d), (0x47, 0x4d), (0x48, 0x4d),
    (0x49, 0x4d), (0x4a, 0x4d), (0x4b, 0x4d), (0x4c, 0x4d), (0x4d, 0x4d), (0x4e, 0x4d), (0x4f, 0x4d), (0x50, 0x4d)]"

lemma lts_o_24_run [lts_run]: "table_run LTS_STATE_o 3600 lts_o_24 3618"
proof -
  have run: "lts_o_24 = bytes_up 18 0x3f 0x4d"
    by (simp add: lts_o_24_def bytes_up_numeral)
  show ?thesis by (simp add: run LTS_STATE_o_def bytes_up_run del: bytes_up.simps)
qed

definition lts_table_o :: "(byte \<times> byte) list" where
  "lts_table_o = concat [
     lts_o_0, lts_o_1, lts_o_2, lts_o_3, lts_o_4, lts_o_5, lts_o_6, lts_o_7, lts_o_8, lts_o_9, lts_o_10, lts_o_11,
     lts_o_12, lts_o_13, lts_o_14, lts_o_15, lts_o_16, lts_o_17, lts_o_18, lts_o_19, lts_o_20, lts_o_21, lts_o_22, lts_o_23,
     lts_o_24]"

lemma lts_table_o_run: "table_run LTS_STATE_o 0 lts_table_o 3618"
  unfolding lts_table_o_def by (rule table_run_nil | rule table_run_concat, rule lts_run)+

lemma lts_table_o_entries [lts_tables]: "entry_at lts_table_o = LTS_STATE_o"
  by (rule table_run_entry [OF lts_table_o_run LTS_STATE_o_def])

section \<open>Letter p\<close>

definition lts_p_0 :: "(byte \<times> byte) list" where
  "lts_p_0 = [
    (0x51, 0x4d), (0x52, 0x4d), (0x53, 0x4d), (0x54, 0x4d), (0x55, 0x4d), (0x56, 0x4d), (0x56, 0x4d), (0x57, 0x4d), (0x58, 0x4d), (0x59, 0x4d),
    (0x5a, 0x4d), (0x5b, 0x4d), (0x5c, 0x4d), (0x5d, 0x4d), (0x5e, 0x4d), (0x5f, 0x4d), (0x60, 0x4d), (0x61, 0x4d), (0x62, 0x4d), (0x63, 0x4d),
    (0x64, 0x4d), (0x65, 0x4d), (0x66, 0x4d), (0x67, 0x4d), (0x68, 0x4d), (0x69, 0x4d), (0x6a, 0x4d), (0x6b, 0x4d), (0x6c, 0x4d), (0x6d, 0x4d),
    (0x6e, 0x4d), (0x6f, 0x4d), (0x70, 0x4d), (0x71, 0x4d), (0x72, 0x4d), (0x73, 0x4d), (0x74, 0x4d), (0x75, 0x4d)]"

lemma lts_p_0_run [lts_run]: "table_run LTS_STATE_p 0 lts_p_0 38"
proof -
  have run: "lts_p_0 = bytes_up 6 0x51 0x4d @ bytes_up 32 0x56 0x4d"
    by (simp add: lts_p_0_def bytes_up_numeral)
  show ?thesis by (simp add: run LTS_STATE_p_def bytes_up_run del: bytes_up.simps)
qed

definition lts_table_p :: "(byte \<times> byte) list" where
  "lts_table_p = concat [
     lts_p_0]"

lemma lts_table_p_run: "table_run LTS_STATE_p 0 lts_table_p 38"
  unfolding lts_table_p_def by (rule table_run_nil | rule table_run_concat, rule lts_run)+

lemma lts_table_p_entries [lts_tables]: "entry_at lts_table_p = LTS_STATE_p"
  by (rule table_run_entry [OF lts_table_p_run LTS_STATE_p_def])

section \<open>Letter q\<close>

definition lts_q_0 :: "(byte \<times> byte) list" where
  "lts_q_0 = [
    (0x76, 0x4d), (0x77, 0x4d)]"

lemma lts_q_0_run [lts_run]: "table_run LTS_STATE_q 0 lts_q_0 2"
proof -
  have run: "lts_q_0 = bytes_up 2 0x76 0x4d"
    by (simp add: lts_q_0_def bytes_up_numeral)
  show ?thesis by (simp add: run LTS_STATE_q_def bytes_up_run del: bytes_up.simps)
qed

definition lts_table_q :: "(byte \<times> byte) list" where
  "lts_table_q = concat [
     lts_q_0]"

lemma lts_table_q_run: "table_run LTS_STATE_q 0 lts_table_q 2"
  unfolding lts_table_q_def by (rule table_run_nil | rule table_run_concat, rule lts_run)+

lemma lts_table_q_entries [lts_tables]: "entry_at lts_table_q = LTS_STATE_q"
  by (rule table_run_entry [OF lts_table_q_run LTS_STATE_q_def])

section \<open>Letter r\<close>

definition lts_r_0 :: "(byte \<times> byte) list" where
  "lts_r_0 = [
    (0x77, 0x4d), (0x78, 0x4d), (0x79, 0x4d), (0x7a, 0x4d), (0x7b, 0x4d), (0x7c, 0x4d), (0x7d, 0x4d), (0x7e, 0x4d), (0x7f, 0x4d), (0x80, 0x4d),
    (0x81, 0x4d), (0x82, 0x4d), (0x83, 0x4d), (0x84, 0x4d), (0x85, 0x4d), (0x86, 0x4d), (0x87, 0x4d), (0x88, 0x4d), (0x89, 0x4d), (0x8a, 0x4d),
    (0x8b, 0x4d), (0x8c, 0x4d), (0x8c, 0x4d), (0x8d, 0x4d), (0x8e, 0x4d), (0x8f, 0x4d), (0x90, 0x4d), (0x91, 0x4d), (0x92, 0x4d), (0x93, 0x4d),
    (0x94, 0x4d), (0x95, 0x4d), (0x96, 0x4d), (0x97, 0x4d), (0x98, 0x4d), (0x99, 0x4d), (0x9a, 0x4d), (0x9b, 0x4d), (0x9c, 0x4d), (0x9d, 0x4d),
    (0x9e, 0x4d), (0x9f, 0x4d), (0xa0, 0x4d), (0xa1, 0x4d), (0xa2, 0x4d), (0xa3, 0x4d), (0xa4, 0x4d), (0xa5, 0x4d), (0xa6, 0x4d), (0xa7, 0x4d),
    (0xa8, 0x4d), (0xa9, 0x4d), (0xaa, 0x4d), (0xab, 0x4d), (0xac, 0x4d), (0xad, 0x4d), (0xae, 0x4d), (0xaf, 0x4d), (0xb0, 0x4d), (0xb1, 0x4d),
    (0xb2, 0x4d), (0xb3, 0x4d), (0xb4, 0x4d), (0xb5, 0x4d), (0xb6, 0x4d), (0xb7, 0x4d), (0xb8, 0x4d), (0xb9, 0x4d), (0xba, 0x4d), (0xbb, 0x4d),
    (0xbc, 0x4d), (0xbd, 0x4d), (0xbe, 0x4d), (0xbf, 0x4d), (0xc0, 0x4d), (0xc1, 0x4d), (0xc2, 0x4d), (0xc3, 0x4d), (0xc4, 0x4d), (0xc5, 0x4d),
    (0xc6, 0x4d), (0xc7, 0x4d), (0xc8, 0x4d), (0xc9, 0x4d), (0xca, 0x4d), (0xcb, 0x4d), (0xcc, 0x4d), (0xcd, 0x4d), (0xce, 0x4d), (0xcf, 0x4d),
    (0xd0, 0x4d), (0xd1, 0x4d), (0xd2, 0x4d), (0xd3, 0x4d), (0xd4, 0x4d), (0xd5, 0x4d), (0xd6, 0x4d), (0xd7, 0x4d), (0xd8, 0x4d), (0xd9, 0x4d),
    (0xda, 0x4d), (0xdb, 0x4d), (0xdc, 0x4d), (0xdd, 0x4d), (0xde, 0x4d), (0xdf, 0x4d), (0xe0, 0x4d), (0xe1, 0x4d), (0xe2, 0x4d), (0xe3, 0x4d),
    (0xe4, 0x4d), (0xe5, 0x4d), (0xe6, 0x4d), (0xe7, 0x4d), (0xe8, 0x4d), (0xe9, 0x4d), (0xea, 0x4d), (0xeb, 0x4d), (0xec, 0x4d), (0xed, 0x4d),
    (0xee, 0x4d), (0xef, 0x4d), (0xf0, 0x4d), (0xf1, 0x4d), (0xf2, 0x4d), (0xf3, 0x4d), (0xf4, 0x4d), (0xf5, 0x4d), (0xf6, 0x4d), (0xf7, 0x4d),
    (0xf8, 0x4d), (0xf9, 0x4d), (0xfa, 0x4d), (0xfb, 0x4d), (0xfc, 0x4d), (0xfd, 0x4d), (0xfe, 0x4d), (0xff, 0x4d), (0, 0x4e), (1, 0x4e),
    (0x2, 0x4e), (0x3, 0x4e), (0x4, 0x4e), (0x5, 0x4e), (0x6, 0x4e), (0x7, 0x4e), (0x8, 0x4e), (0x9, 0x4e), (0xa, 0x4e), (0xb, 0x4e)]"

lemma lts_r_0_run [lts_run]: "table_run LTS_STATE_r 0 lts_r_0 150"
proof -
  have run: "lts_r_0 = bytes_up 22 0x77 0x4d @ bytes_up 116 0x8c 0x4d @ bytes_up 12 0 0x4e"
    by (simp add: lts_r_0_def bytes_up_numeral)
  show ?thesis by (simp add: run LTS_STATE_r_def bytes_up_run del: bytes_up.simps)
qed

definition lts_r_1 :: "(byte \<times> byte) list" where
  "lts_r_1 = [
    (0xc, 0x4e), (0xd, 0x4e), (0xe, 0x4e), (0xf, 0x4e), (0x10, 0x4e), (0x11, 0x4e), (0x12, 0x4e), (0x13, 0x4e), (0x14, 0x4e), (0x15, 0x4e),
    (0x16, 0x4e), (0x17, 0x4e), (0x18, 0x4e), (0x19, 0x4e), (0x1a, 0x4e), (0x1b, 0x4e), (0x1c, 0x4e), (0x1d, 0x4e), (0x1e, 0x4e), (0x1f, 0x4e),
    (0x20, 0x4e), (0x21, 0x4e), (0x22, 0x4e), (0x23, 0x4e), (0x24, 0x4e), (0x25, 0x4e), (0x26, 0x4e), (0x27, 0x4e), (0x28, 0x4e), (0x29, 0x4e),
    (0x2a, 0x4e), (0x2b, 0x4e), (0x2c, 0x4e), (0x2d, 0x4e), (0x2e, 0x4e), (0x2f, 0x4e), (0x30, 0x4e), (0x31, 0x4e), (0x32, 0x4e), (0x33, 0x4e),
    (0x34, 0x4e), (0x35, 0x4e), (0x36, 0x4e), (0x37, 0x4e), (0x38, 0x4e), (0x39, 0x4e), (0x3a, 0x4e), (0x3b, 0x4e), (0x3c, 0x4e), (0x3d, 0x4e),
    (0x3e, 0x4e), (0x3f, 0x4e), (0x40, 0x4e), (0x41, 0x4e), (0x42, 0x4e), (0x43, 0x4e), (0x44, 0x4e), (0x45, 0x4e), (0x46, 0x4e), (0x47, 0x4e),
    (0x48, 0x4e), (0x49, 0x4e), (0x4a, 0x4e), (0x4b, 0x4e), (0x4c, 0x4e), (0x4d, 0x4e), (0x4e, 0x4e), (0x4f, 0x4e), (0x50, 0x4e), (0x51, 0x4e),
    (0x52, 0x4e), (0x53, 0x4e), (0x54, 0x4e), (0x55, 0x4e), (0x56, 0x4e), (0x57, 0x4e), (0x58, 0x4e), (0x59, 0x4e), (0x5a, 0x4e), (0x5b, 0x4e),
    (0x5c, 0x4e), (0x5d, 0x4e), (0x5e, 0x4e), (0x5f, 0x4e), (0x60, 0x4e), (0x61, 0x4e), (0x62, 0x4e), (0x63, 0x4e), (0x64, 0x4e), (0x65, 0x4e),
    (0x66, 0x4e), (0x67, 0x4e), (0x68, 0x4e), (0x69, 0x4e), (0x6a, 0x4e), (0x6b, 0x4e), (0x6c, 0x4e), (0x6d, 0x4e), (0x6e, 0x4e), (0x6f, 0x4e),
    (0x70, 0x4e), (0x71, 0x4e), (0x72, 0x4e), (0x73, 0x4e), (0x74, 0x4e), (0x75, 0x4e), (0x76, 0x4e), (0x77, 0x4e), (0x78, 0x4e), (0x79, 0x4e),
    (0x7a, 0x4e), (0x7b, 0x4e), (0x7c, 0x4e), (0x7d, 0x4e), (0x7e, 0x4e), (0x7f, 0x4e), (0x80, 0x4e), (0x81, 0x4e), (0x82, 0x4e), (0x83, 0x4e),
    (0x84, 0x4e), (0x85, 0x4e), (0x86, 0x4e), (0x87, 0x4e), (0x88, 0x4e), (0x89, 0x4e), (0x8a, 0x4e), (0x8b, 0x4e), (0x8c, 0x4e), (0x8d, 0x4e),
    (0x8e, 0x4e), (0x8f, 0x4e), (0x90, 0x4e), (0x91, 0x4e), (0x92, 0x4e), (0x93, 0x4e), (0x94, 0x4e), (0x95, 0x4e), (0x96, 0x4e), (0x97, 0x4e),
    (0x98, 0x4e), (0x99, 0x4e), (0x9a, 0x4e), (0x9b, 0x4e), (0x9c, 0x4e), (0x9d, 0x4e), (0x9e, 0x4e), (0x9f, 0x4e), (0xa0, 0x4e), (0xa1, 0x4e)]"

lemma lts_r_1_run [lts_run]: "table_run LTS_STATE_r 150 lts_r_1 300"
proof -
  have run: "lts_r_1 = bytes_up 150 0xc 0x4e"
    by (simp add: lts_r_1_def bytes_up_numeral)
  show ?thesis by (simp add: run LTS_STATE_r_def bytes_up_run del: bytes_up.simps)
qed

definition lts_r_2 :: "(byte \<times> byte) list" where
  "lts_r_2 = [
    (0xa2, 0x4e), (0xa3, 0x4e), (0xa4, 0x4e), (0xa5, 0x4e), (0xa6, 0x4e), (0xa7, 0x4e), (0xa8, 0x4e), (0xa9, 0x4e), (0xaa, 0x4e), (0xab, 0x4e),
    (0xac, 0x4e), (0xad, 0x4e), (0xae, 0x4e), (0xaf, 0x4e), (0xb0, 0x4e), (0xb1, 0x4e), (0xb2, 0x4e), (0xb3, 0x4e), (0xb4, 0x4e), (0xb5, 0x4e),
    (0xb6, 0x4e), (0xb7, 0x4e), (0xb8, 0x4e), (0xb9, 0x4e), (0xba, 0x4e), (0xbb, 0x4e), (0xbc, 0x4e), (0xbd, 0x4e), (0xbe, 0x4e), (0xbf, 0x4e),
    (0xc0, 0x4e), (0xc1, 0x4e), (0xc2, 0x4e), (0xc3, 0x4e), (0xc4, 0x4e), (0xc5, 0x4e), (0xc6, 0x4e), (0xc7, 0x4e), (0xc8, 0x4e), (0xc9, 0x4e),
    (0xca, 0x4e), (0xcb, 0x4e), (0xcc, 0x4e), (0xcd, 0x4e), (0xce, 0x4e), (0xcf, 0x4e), (0xd0, 0x4e), (0xd1, 0x4e), (0xd2, 0x4e), (0xd3, 0x4e),
    (0xd4, 0x4e), (0xd5, 0x4e), (0xd6, 0x4e), (0xd7, 0x4e), (0xd8, 0x4e), (0xd9, 0x4e), (0xda, 0x4e), (0xdb, 0x4e), (0xdc, 0x4e), (0xdd, 0x4e),
    (0xde, 0x4e), (0xdf, 0x4e), (0xe0, 0x4e), (0xe1, 0x4e), (0xe2, 0x4e), (0xe3, 0x4e), (0xe4, 0x4e), (0xe5, 0x4e), (0xe6, 0x4e), (0xe7, 0x4e),
    (0xe8, 0x4e), (0xe9, 0x4e), (0xea, 0x4e), (0xeb, 0x4e), (0xec, 0x4e), (0xed, 0x4e), (0xee, 0x4e), (0xef, 0x4e), (0xf0, 0x4e), (0xf1, 0x4e),
    (0xf2, 0x4e), (0xf3, 0x4e), (0xf4, 0x4e), (0xf5, 0x4e), (0xf6, 0x4e), (0xf7, 0x4e), (0xf8, 0x4e), (0xf9, 0x4e), (0xfa, 0x4e), (0xfb, 0x4e),
    (0xfc, 0x4e), (0xfd, 0x4e), (0xfe, 0x4e), (0xff, 0x4e), (0, 0x4f), (1, 0x4f), (0x2, 0x4f), (0x3, 0x4f), (0x4, 0x4f), (0x5, 0x4f),
    (0x6, 0x4f), (0x7, 0x4f), (0x8, 0x4f), (0x9, 0x4f), (0xa, 0x4f), (0xb, 0x4f), (0xc, 0x4f), (0xd, 0x4f), (0xe, 0x4f), (0xf, 0x4f),
    (0x10, 0x4f), (0x11, 0x4f), (0x12, 0x4f), (0x13, 0x4f), (0x14, 0x4f), (0x15, 0x4f), (0x16, 0x4f), (0x17, 0x4f), (0x18, 0x4f), (0x19, 0x4f),
    (0x1a, 0x4f), (0x1b, 0x4f), (0x1c, 0x4f), (0x1d, 0x4f), (0x1e, 0x4f), (0x1f, 0x4f), (0x20, 0x4f), (0x21, 0x4f), (0x22, 0x4f), (0x23, 0x4f),
    (0x24, 0x4f), (0x25, 0x4f), (0x26, 0x4f), (0x27, 0x4f), (0x28, 0x4f), (0x29, 0x4f), (0x2a, 0x4f), (0x2b, 0x4f), (0x2c, 0x4f), (0x2d, 0x4f),
    (0x2e, 0x4f), (0x2f, 0x4f), (0x30, 0x4f), (0x31, 0x4f), (0x32, 0x4f), (0x33, 0x4f), (0x34, 0x4f), (0x35, 0x4f), (0x36, 0x4f), (0x37, 0x4f)]"

lemma lts_r_2_run [lts_run]: "table_run LTS_STATE_r 300 lts_r_2 450"
proof -
  have run: "lts_r_2 = bytes_up 94 0xa2 0x4e @ bytes_up 56 0 0x4f"
    by (simp add: lts_r_2_def bytes_up_numeral)
  show ?thesis by (simp add: run LTS_STATE_r_def bytes_up_run del: bytes_up.simps)
qed

definition lts_r_3 :: "(byte \<times> byte) list" where
  "lts_r_3 = [
    (0x38, 0x4f), (0x39, 0x4f), (0x3a, 0x4f), (0x3b, 0x4f), (0x3c, 0x4f), (0x3d, 0x4f), (0x3e, 0x4f), (0x3f, 0x4f), (0x40, 0x4f), (0x41, 0x4f),
    (0x42, 0x4f), (0x43, 0x4f), (0x44, 0x4f), (0x45, 0x4f), (0x46, 0x4f), (0x47, 0x4f), (0x48, 0x4f), (0x49, 0x4f), (0x4a, 0x4f), (0x4b, 0x4f),
    (0x4c, 0x4f), (0x4d, 0x4f), (0x4e, 0x4f), (0x4f, 0x4f), (0x50, 0x4f), (0x51, 0x4f), (0x52, 0x4f), (0x53, 0x4f), (0x54, 0x4f), (0x55, 0x4f),
    (0x56, 0x4f), (0x57, 0x4f), (0x58, 0x4f), (0x59, 0x4f), (0x5a, 0x4f), (0x5b, 0x4f), (0x5c, 0x4f), (0x5d, 0x4f), (0x5e, 0x4f), (0x5f, 0x4f),
    (0x60, 0x4f), (0x61, 0x4f), (0x62, 0x4f), (0x63, 0x4f), (0x64, 0x4f), (0x65, 0x4f), (0x66, 0x4f), (0x67, 0x4f), (0x68, 0x4f), (0x69, 0x4f),
    (0x6a, 0x4f), (0x6b, 0x4f), (0x6c, 0x4f), (0x6d, 0x4f), (0x6e, 0x4f), (0x6f, 0x4f), (0x70, 0x4f), (0x71, 0x4f), (0x72, 0x4f), (0x73, 0x4f),
    (0x74, 0x4f), (0x75, 0x4f), (0x76, 0x4f), (0x77, 0x4f), (0x78, 0x4f), (0x79, 0x4f), (0x7a, 0x4f), (0x7b, 0x4f), (0x7c, 0x4f), (0x7d, 0x4f),
    (0x7e, 0x4f), (0x7f, 0x4f), (0x80, 0x4f), (0x81, 0x4f), (0x82, 0x4f), (0x83, 0x4f), (0x84, 0x4f), (0x85, 0x4f), (0x86, 0x4f), (0x87, 0x4f),
    (0x88, 0x4f), (0x89, 0x4f), (0x8a, 0x4f), (0x8b, 0x4f), (0x8c, 0x4f), (0x8d, 0x4f), (0x8e, 0x4f), (0x8f, 0x4f), (0x90, 0x4f), (0x91, 0x4f),
    (0x92, 0x4f), (0x93, 0x4f), (0x94, 0x4f), (0x95, 0x4f), (0x96, 0x4f), (0x97, 0x4f), (0x98, 0x4f), (0x99, 0x4f), (0x9a, 0x4f), (0x9b, 0x4f),
    (0x9c, 0x4f), (0x9d, 0x4f), (0x9e, 0x4f), (0x9f, 0x4f), (0xa0, 0x4f), (0xa1, 0x4f), (0xa2, 0x4f), (0xa3, 0x4f), (0xa4, 0x4f), (0xa5, 0x4f),
    (0xa6, 0x4f), (0xa7, 0x4f), (0xa8, 0x4f), (0xa9, 0x4f), (0xaa, 0x4f), (0xab, 0x4f), (0xac, 0x4f), (0xad, 0x4f), (0xae, 0x4f), (0xaf, 0x4f),
    (0xb0, 0x4f), (0xb1, 0x4f), (0xb2, 0x4f), (0xb3, 0x4f), (0xb4, 0x4f), (0xb5, 0x4f), (0xb6, 0x4f), (0xb7, 0x4f), (0xb8, 0x4f), (0xb9, 0x4f),
    (0xba, 0x4f), (0xbb, 0x4f), (0xbc, 0x4f), (0xbd, 0x4f), (0xbe, 0x4f), (0xbf, 0x4f), (0xc0, 0x4f), (0xc1, 0x4f), (0xc2, 0x4f), (0xc3, 0x4f),
    (0xc4, 0x4f), (0xc5, 0x4f), (0xc6, 0x4f), (0xc7, 0x4f), (0xc8, 0x4f), (0xc9, 0x4f), (0xca, 0x4f), (0xcb, 0x4f), (0xcc, 0x4f), (0xcd, 0x4f)]"

lemma lts_r_3_run [lts_run]: "table_run LTS_STATE_r 450 lts_r_3 600"
proof -
  have run: "lts_r_3 = bytes_up 150 0x38 0x4f"
    by (simp add: lts_r_3_def bytes_up_numeral)
  show ?thesis by (simp add: run LTS_STATE_r_def bytes_up_run del: bytes_up.simps)
qed

definition lts_r_4 :: "(byte \<times> byte) list" where
  "lts_r_4 = [
    (0xce, 0x4f), (0xcf, 0x4f), (0xd0, 0x4f), (0xd1, 0x4f), (0xd2, 0x4f), (0xd3, 0x4f), (0xd4, 0x4f), (0xd5, 0x4f), (0xd6, 0x4f), (0xd7, 0x4f),
    (0xd8, 0x4f), (0xd9, 0x4f), (0xda, 0x4f), (0xdb, 0x4f), (0xdc, 0x4f), (0xdd, 0x4f), (0xde, 0x4f), (0xdf, 0x4f), (0xe0, 0x4f), (0xe1, 0x4f),
    (0xe2, 0x4f), (0xe3, 0x4f), (0xe4, 0x4f), (0xe5, 0x4f), (0xe6, 0x4f), (0xe7, 0x4f), (0xe8, 0x4f), (0xe9, 0x4f), (0xea, 0x4f), (0xeb, 0x4f),
    (0xec, 0x4f), (0xed, 0x4f), (0xee, 0x4f), (0xef, 0x4f), (0xf0, 0x4f), (0xf1, 0x4f), (0xf2, 0x4f), (0xf3, 0x4f), (0xf4, 0x4f), (0xf5, 0x4f),
    (0xf6, 0x4f), (0xf7, 0x4f), (0xf8, 0x4f), (0xf9, 0x4f), (0xfa, 0x4f), (0xfb, 0x4f), (0xfc, 0x4f), (0xfd, 0x4f), (0xfe, 0x4f), (0xff, 0x4f),
    (0, 0x50), (1, 0x50), (0x2, 0x50), (0x3, 0x50), (0x4, 0x50), (0x5, 0x50), (0x6, 0x50), (0x7, 0x50), (0x8, 0x50), (0x9, 0x50),
    (0xa, 0x50), (0xb, 0x50), (0xc, 0x50), (0xd, 0x50), (0xe, 0x50), (0xf, 0x50), (0x10, 0x50), (0x11, 0x50), (0x12, 0x50), (0x13, 0x50),
    (0x14, 0x50), (0x15, 0x50), (0x16, 0x50), (0x17, 0x50), (0x18, 0x50), (0x19, 0x50), (0x1a, 0x50), (0x1b, 0x50), (0x1c, 0x50), (0x1d, 0x50),
    (0x1e, 0x50), (0x1f, 0x50), (0x20, 0x50), (0x21, 0x50), (0x22, 0x50), (0x23, 0x50), (0x24, 0x50), (0x25, 0x50), (0x26, 0x50), (0x27, 0x50),
    (0x28, 0x50), (0x29, 0x50), (0x2a, 0x50), (0x2b, 0x50), (0x2c, 0x50), (0x2d, 0x50), (0x2e, 0x50), (0x2f, 0x50), (0x30, 0x50), (0x31, 0x50),
    (0x32, 0x50), (0x33, 0x50), (0x34, 0x50), (0x35, 0x50), (0x36, 0x50), (0x37, 0x50), (0x38, 0x50), (0x39, 0x50), (0x3a, 0x50), (0x3b, 0x50),
    (0x3c, 0x50), (0x3d, 0x50), (0x3e, 0x50), (0x3f, 0x50), (0x40, 0x50), (0x41, 0x50), (0x42, 0x50), (0x43, 0x50), (0x44, 0x50), (0x45, 0x50),
    (0x46, 0x50), (0x47, 0x50), (0x48, 0x50), (0x49, 0x50), (0x4a, 0x50), (0x4b, 0x50), (0x4c, 0x50), (0x4d, 0x50), (0x4e, 0x50), (0x4f, 0x50),
    (0x50, 0x50), (0x51, 0x50), (0x52, 0x50), (0x53, 0x50), (0x54, 0x50), (0x55, 0x50), (0x56, 0x50), (0x57, 0x50), (0x58, 0x50), (0x59, 0x50),
    (0x5a, 0x50), (0x5b, 0x50), (0x5c, 0x50), (0x5d, 0x50), (0x5e, 0x50), (0x5f, 0x50), (0x60, 0x50), (0x61, 0x50), (0x62, 0x50), (0x63, 0x50)]"

lemma lts_r_4_run [lts_run]: "table_run LTS_STATE_r 600 lts_r_4 750"
proof -
  have run: "lts_r_4 = bytes_up 50 0xce 0x4f @ bytes_up 100 0 0x50"
    by (simp add: lts_r_4_def bytes_up_numeral)
  show ?thesis by (simp add: run LTS_STATE_r_def bytes_up_run del: bytes_up.simps)
qed

definition lts_r_5 :: "(byte \<times> byte) list" where
  "lts_r_5 = [
    (0x64, 0x50), (0x65, 0x50), (0x66, 0x50), (0x67, 0x50), (0x68, 0x50), (0x69, 0x50), (0x6a, 0x50), (0x6b, 0x50), (0x6c, 0x50), (0x6d, 0x50),
    (0x6e, 0x50), (0x6f, 0x50), (0x70, 0x50), (0x71, 0x50), (0x72, 0x50), (0x73, 0x50), (0x74, 0x50), (0x75, 0x50), (0x76, 0x50), (0x77, 0x50),
    (0x78, 0x50), (0x79, 0x50), (0x7a, 0x50), (0x7b, 0x50), (0x7c, 0x50), (0x7d, 0x50), (0x7e, 0x50), (0x7f, 0x50), (0x80, 0x50), (0x81, 0x50),
    (0x82, 0x50), (0x83, 0x50), (0x84, 0x50), (0x85, 0x50), (0x86, 0x50), (0x87, 0x50), (0x88, 0x50), (0x89, 0x50), (0x8a, 0x50), (0x8b, 0x50),
    (0x8c, 0x50), (0x8d, 0x50), (0x8e, 0x50), (0x8f, 0x50), (0x90, 0x50), (0x91, 0x50), (0x92, 0x50), (0x93, 0x50), (0x94, 0x50), (0x95, 0x50),
    (0x96, 0x50), (0x97, 0x50), (0x98, 0x50), (0x99, 0x50), (0x9a, 0x50), (0x9b, 0x50), (0x9c, 0x50), (0x9d, 0x50), (0x9e, 0x50), (0x9f, 0x50),
    (0xa0, 0x50), (0xa1, 0x50), (0xa2, 0x50), (0xa3, 0x50), (0xa4, 0x50), (0xa5, 0x50), (0xa6, 0x50), (0xa7, 0x50), (0xa8, 0x50), (0xa9, 0x50),
    (0xaa, 0x50), (0xab, 0x50), (0xac, 0x50), (0xad, 0x50), (0xae, 0x50), (0xaf, 0x50), (0xb0, 0x50), (0xb1, 0x50), (0xb2, 0x50), (0xb3, 0x50),
    (0xb4, 0x50), (0xb5, 0x50), (0xb6, 0x50), (0xb7, 0x50), (0xb8, 0x50), (0xb9, 0x50), (0xba, 0x50), (0xbb, 0x50), (0xbc, 0x50), (0xbd, 0x50),
    (0xbe, 0x50), (0xbf, 0x50), (0xc0, 0x50), (0xc1, 0x50), (0xc2, 0x50), (0xc3, 0x50), (0xc4, 0x50), (0xc5, 0x50), (0xc6, 0x50), (0xc7, 0x50),
    (0xc8, 0x50), (0xc9, 0x50), (0xca, 0x50), (0xcb, 0x50), (0xcc, 0x50), (0xcd, 0x50), (0xce, 0x50), (0xcf, 0x50), (0xd0, 0x50), (0xd1, 0x50),
    (0xd2, 0x50), (0xd3, 0x50), (0xd4, 0x50), (0xd5, 0x50), (0xd6, 0x50), (0xd7, 0x50), (0xd8, 0x50), (0xd9, 0x50), (0xda, 0x50), (0xdb, 0x50),
    (0xdc, 0x50), (0xdd, 0x50), (0xde, 0x50), (0xdf, 0x50), (0xe0, 0x50), (0xe1, 0x50), (0xe2, 0x50), (0xe3, 0x50), (0xe4, 0x50), (0xe5, 0x50),
    (0xe6, 0x50), (0xe7, 0x50), (0xe8, 0x50), (0xe9, 0x50), (0xea, 0x50), (0xeb, 0x50), (0xec, 0x50), (0xed, 0x50), (0xee, 0x50), (0xef, 0x50),
    (0xf0, 0x50), (0xf1, 0x50), (0xf2, 0x50), (0xf3, 0x50), (0xf4, 0x50), (0xf5, 0x50), (0xf6, 0x50), (0xf7, 0x50), (0xf8, 0x50), (0xf9, 0x50)]"

lemma lts_r_5_run [lts_run]: "table_run LTS_STATE_r 750 lts_r_5 900"
proof -
  have run: "lts_r_5 = bytes_up 150 0x64 0x50"
    by (simp add: lts_r_5_def bytes_up_numeral)
  show ?thesis by (simp add: run LTS_STATE_r_def bytes_up_run del: bytes_up.simps)
qed

definition lts_r_6 :: "(byte \<times> byte) list" where
  "lts_r_6 = [
    (0xfa, 0x50), (0xfb, 0x50), (0xfc, 0x50), (0xfd, 0x50), (0xfe, 0x50), (0xff, 0x50), (0, 0x51), (1, 0x51), (0x2, 0x51), (0x3, 0x51),
    (0x4, 0x51), (0x5, 0x51), (0x6, 0x51), (0x7, 0x51), (0x8, 0x51), (0x9, 0x51), (0xa, 0x51), (0xb, 0x51), (0xc, 0x51), (0xd, 0x51),
    (0xe, 0x51), (0xf, 0x51), (0x10, 0x51), (0x11, 0x51), (0x12, 0x51), (0x13, 0x51), (0x14, 0x51), (0x15, 0x51), (0x16, 0x51), (0x17, 0x51),
    (0x18, 0x51), (0x19, 0x51), (0x1a, 0x51), (0x1b, 0x51), (0x1c, 0x51), (0x1d, 0x51), (0x1e, 0x51), (0x1f, 0x51), (0x20, 0x51), (0x21, 0x51),
    (0x22, 0x51), (0x23, 0x51), (0x24, 0x51), (0x25, 0x51), (0x26, 0x51), (0x27, 0x51), (0x28, 0x51), (0x29, 0x51), (0x2a, 0x51), (0x2b, 0x51),
    (0x2c, 0x51), (0x2d, 0x51), (0x2e, 0x51), (0x2f, 0x51), (0x30, 0x51), (0x31, 0x51), (0x32, 0x51), (0x33, 0x51), (0x34, 0x51), (0x35, 0x51),
    (0x36, 0x51), (0x37, 0x51), (0x38, 0x51), (0x39, 0x51), (0x3a, 0x51), (0x3b, 0x51), (0x3c, 0x51), (0x3d, 0x51), (0x3e, 0x51), (0x3f, 0x51),
    (0x40, 0x51), (0x41, 0x51), (0x42, 0x51), (0x43, 0x51), (0x44, 0x51), (0x45, 0x51), (0x46, 0x51), (0x47, 0x51), (0x48, 0x51), (0x49, 0x51),
    (0x4a, 0x51), (0x4b, 0x51), (0x4c, 0x51), (0x4d, 0x51), (0x4e, 0x51), (0x4f, 0x51), (0x50, 0x51), (0x51, 0x51), (0x52, 0x51), (0x53, 0x51),
    (0x54, 0x51), (0x55, 0x51), (0x56, 0x51), (0x57, 0x51), (0x58, 0x51), (0x59, 0x51), (0x5a, 0x51), (0x5b, 0x51), (0x5c, 0x51), (0x5d, 0x51),
    (0x5e, 0x51), (0x5f, 0x51), (0x60, 0x51), (0x61, 0x51), (0x62, 0x51), (0x63, 0x51), (0x64, 0x51), (0x65, 0x51), (0x66, 0x51), (0x67, 0x51),
    (0x68, 0x51), (0x69, 0x51), (0x6a, 0x51), (0x6b, 0x51), (0x6c, 0x51), (0x6d, 0x51), (0x6e, 0x51), (0x6f, 0x51), (0x70, 0x51), (0x71, 0x51),
    (0x72, 0x51), (0x73, 0x51), (0x74, 0x51), (0x75, 0x51), (0x76, 0x51), (0x77, 0x51), (0x78, 0x51), (0x79, 0x51), (0x7a, 0x51), (0x7b, 0x51),
    (0x7c, 0x51), (0x7d, 0x51), (0x7e, 0x51), (0x7f, 0x51), (0x80, 0x51), (0x81, 0x51), (0x82, 0x51), (0x83, 0x51), (0x84, 0x51), (0x85, 0x51),
    (0x86, 0x51), (0x87, 0x51), (0x88, 0x51), (0x89, 0x51), (0x8a, 0x51), (0x8b, 0x51), (0x8c, 0x51), (0x8d, 0x51), (0x8e, 0x51), (0x8f, 0x51)]"

lemma lts_r_6_run [lts_run]: "table_run LTS_STATE_r 900 lts_r_6 1050"
proof -
  have run: "lts_r_6 = bytes_up 6 0xfa 0x50 @ bytes_up 144 0 0x51"
    by (simp add: lts_r_6_def bytes_up_numeral)
  show ?thesis by (simp add: run LTS_STATE_r_def bytes_up_run del: bytes_up.simps)
qed

definition lts_r_7 :: "(byte \<times> byte) list" where
  "lts_r_7 = [
    (0x90, 0x51), (0x91, 0x51), (0x92, 0x51), (0x93, 0x51), (0x94, 0x51), (0x95, 0x51), (0x96, 0x51), (0x97, 0x51), (0x98, 0x51), (0x99, 0x51),
    (0x9a, 0x51), (0x9b, 0x51), (0x9c, 0x51), (0x9d, 0x51), (0x9e, 0x51), (0x9f, 0x51), (0xa0, 0x51), (0xa1, 0x51), (0xa2, 0x51), (0xa3, 0x51),
    (0xa4, 0x51), (0xa5, 0x51), (0xa6, 0x51), (0xa7, 0x51), (0xa8, 0x51), (0xa9, 0x51), (0xaa, 0x51), (0xab, 0x51), (0xac, 0x51), (0xad, 0x51),
    (0xae, 0x51), (0xaf, 0x51), (0xb0, 0x51), (0xb1, 0x51), (0xb2, 0x51), (0xb3, 0x51), (0xb4, 0x51), (0xb5, 0x51), (0xb6, 0x51), (0xb7, 0x51),
    (0xb8, 0x51), (0xb9, 0x51), (0xba, 0x51), (0xbb, 0x51), (0xbc, 0x51), (0xbd, 0x51), (0xbe, 0x51), (0xbf, 0x51), (0xc0, 0x51), (0xc1, 0x51),
    (0xc2, 0x51), (0xc3, 0x51), (0xc4, 0x51), (0xc5, 0x51), (0xc6, 0x51), (0xc7, 0x51), (0xc8, 0x51), (0xc9, 0x51), (0xca, 0x51), (0xcb, 0x51),
    (0xcc, 0x51), (0xcd, 0x51), (0xce, 0x51), (0xcf, 0x51), (0xd0, 0x51), (0xd1, 0x51), (0xd2, 0x51), (0xd3, 0x51), (0xd4, 0x51), (0xd5, 0x51),
    (0xd6, 0x51), (0xd7, 0x51), (0xd8, 0x51), (0xd9, 0x51), (0xda, 0x51), (0xdb, 0x51), (0xdc, 0x51), (0xdd, 0x51), (0xde, 0x51), (0xdf, 0x51),
    (0xe0, 0x51), (0xe1, 0x51), (0xe2, 0x51), (0xe3, 0x51), (0xe4, 0x51), (0xe5, 0x51), (0xe6, 0x51), (0xe7, 0x51), (0xe8, 0x51), (0xe9, 0x51),
    (0xea, 0x51), (0xeb, 0x51), (0xec, 0x51), (0xed, 0x51), (0xee, 0x51), (0xef, 0x51), (0xf0, 0x51), (0xf1, 0x51), (0xf2, 0x51), (0xf3, 0x51),
    (0xf4, 0x51), (0xf5, 0x51), (0xf6, 0x51), (0xf7, 0x51), (0xf8, 0x51), (0xf9, 0x51), (0xfa, 0x51), (0xfb, 0x51), (0xfc, 0x51), (0xfd, 0x51),
    (0xfe, 0x51), (0xff, 0x51), (0, 0x52), (1, 0x52), (0x2, 0x52), (0x3, 0x52), (0x4, 0x52), (0x5, 0x52), (0x6, 0x52), (0x7, 0x52),
    (0x8, 0x52), (0x9, 0x52), (0xa, 0x52), (0xb, 0x52), (0xc, 0x52), (0xd, 0x52), (0xe, 0x52), (0xf, 0x52), (0x10, 0x52), (0x11, 0x52),
    (0x12, 0x52), (0x13, 0x52), (0x14, 0x52), (0x15, 0x52), (0x16, 0x52), (0x17, 0x52), (0x18, 0x52), (0x19, 0x52), (0x1a, 0x52), (0x1b, 0x52),
    (0x1c, 0x52), (0x1d, 0x52), (0x1e, 0x52), (0x1f, 0x52), (0x20, 0x52), (0x21, 0x52), (0x22, 0x52), (0x23, 0x52), (0x24, 0x52), (0x25, 0x52)]"

lemma lts_r_7_run [lts_run]: "table_run LTS_STATE_r 1050 lts_r_7 1200"
proof -
  have run: "lts_r_7 = bytes_up 112 0x90 0x51 @ bytes_up 38 0 0x52"
    by (simp add: lts_r_7_def bytes_up_numeral)
  show ?thesis by (simp add: run LTS_STATE_r_def bytes_up_run del: bytes_up.simps)
qed

definition lts_r_8 :: "(byte \<times> byte) list" where
  "lts_r_8 = [
    (0x26, 0x52), (0x27, 0x52), (0x28, 0x52), (0x29, 0x52), (0x2a, 0x52), (0x2b, 0x52), (0x2c, 0x52), (0x2d, 0x52), (0x2e, 0x52), (0x2f, 0x52),
    (0x30, 0x52), (0x31, 0x52), (0x32, 0x52), (0x33, 0x52), (0x34, 0x52), (0x35, 0x52), (0x36, 0x52), (0x37, 0x52), (0x38, 0x52), (0x39, 0x52),
    (0x3a, 0x52), (0x3b, 0x52), (0x3c, 0x52), (0x3d, 0x52), (0x3e, 0x52), (0x3f, 0x52), (0x40, 0x52), (0x41, 0x52), (0x42, 0x52), (0x43, 0x52),
    (0x44, 0x52), (0x45, 0x52), (0x46, 0x52), (0x47, 0x52), (0x48, 0x52), (0x49, 0x52), (0x4a, 0x52), (0x4b, 0x52), (0x4c, 0x52), (0x4d, 0x52),
    (0x4e, 0x52), (0x4f, 0x52), (0x50, 0x52), (0x51, 0x52), (0x52, 0x52), (0x53, 0x52), (0x54, 0x52), (0x55, 0x52), (0x56, 0x52), (0x57, 0x52),
    (0x58, 0x52), (0x59, 0x52), (0x5a, 0x52), (0x5b, 0x52), (0x5c, 0x52), (0x5d, 0x52), (0x5e, 0x52), (0x5f, 0x52), (0x60, 0x52), (0x61, 0x52),
    (0x62, 0x52), (0x63, 0x52), (0x64, 0x52), (0x65, 0x52), (0x66, 0x52), (0x67, 0x52), (0x68, 0x52), (0x69, 0x52), (0x6a, 0x52), (0x6b, 0x52),
    (0x6c, 0x52), (0x6d, 0x52), (0x6e, 0x52), (0x6f, 0x52), (0x70, 0x52), (0x71, 0x52), (0x72, 0x52), (0x73, 0x52), (0x74, 0x52), (0x75, 0x52),
    (0x76, 0x52), (0x77, 0x52), (0x78, 0x52), (0x79, 0x52), (0x7a, 0x52), (0x7b, 0x52), (0x7c, 0x52), (0x7d, 0x52), (0x7e, 0x52), (0x7f, 0x52),
    (0x80, 0x52), (0x81, 0x52), (0x82, 0x52), (0x83, 0x52), (0x84, 0x52), (0x85, 0x52), (0x86, 0x52), (0x87, 0x52), (0x88, 0x52), (0x89, 0x52),
    (0x8a, 0x52), (0x8b, 0x52), (0x8c, 0x52), (0x8d, 0x52), (0x8e, 0x52), (0x8f, 0x52), (0x90, 0x52), (0x91, 0x52), (0x92, 0x52), (0x93, 0x52),
    (0x94, 0x52), (0x95, 0x52), (0x96, 0x52), (0x97, 0x52), (0x98, 0x52), (0x99, 0x52), (0x9a, 0x52), (0x9b, 0x52), (0x9c, 0x52), (0x9d, 0x52),
    (0x9e, 0x52), (0x9f, 0x52), (0xa0, 0x52), (0xa1, 0x52), (0xa2, 0x52), (0xa3, 0x52), (0xa4, 0x52), (0xa5, 0x52), (0xa6, 0x52), (0xa7, 0x52),
    (0xa8, 0x52), (0xa9, 0x52), (0xaa, 0x52), (0xab, 0x52), (0xac, 0x52), (0xad, 0x52), (0xae, 0x52), (0xaf, 0x52), (0xb0, 0x52), (0xb1, 0x52),
    (0xb2, 0x52), (0xb3, 0x52), (0xb4, 0x52), (0xb5, 0x52), (0xb6, 0x52), (0xb7, 0x52), (0xb8, 0x52), (0xb9, 0x52), (0xba, 0x52), (0xbb, 0x52)]"

lemma lts_r_8_run [lts_run]: "table_run LTS_STATE_r 1200 lts_r_8 1350"
proof -
  have run: "lts_r_8 = bytes_up 150 0x26 0x52"
    by (simp add: lts_r_8_def bytes_up_numeral)
  show ?thesis by (simp add: run LTS_STATE_r_def bytes_up_run del: bytes_up.simps)
qed

definition lts_r_9 :: "(byte \<times> byte) list" where
  "lts_r_9 = [
    (0xbc, 0x52), (0xbd, 0x52), (0xbe, 0x52), (0xbf, 0x52), (0xc0, 0x52), (0xc1, 0x52), (0xc2, 0x52), (0xc3, 0x52), (0xc4, 0x52), (0xc5, 0x52),
    (0xc6, 0x52), (0xc7, 0x52), (0xc8, 0x52), (0xc9, 0x52), (0xca, 0x52), (0xcb, 0x52), (0xcc, 0x52), (0xcd, 0x52), (0xce, 0x52), (0xcf, 0x52),
    (0xd0, 0x52), (0xd1, 0x52), (0xd2, 0x52), (0xd3, 0x52), (0xd4, 0x52), (0xd5, 0x52), (0xd6, 0x52), (0xd7, 0x52), (0xd8, 0x52), (0xd9, 0x52),
    (0xda, 0x52), (0xdb, 0x52), (0xdc, 0x52), (0xdd, 0x52), (0xde, 0x52), (0xdf, 0x52), (0xe0, 0x52), (0xe1, 0x52), (0xe2, 0x52), (0xe3, 0x52),
    (0xe4, 0x52), (0xe5, 0x52), (0xe6, 0x52), (0xe7, 0x52), (0xe8, 0x52), (0xe9, 0x52), (0xea, 0x52), (0xeb, 0x52), (0xec, 0x52), (0xed, 0x52),
    (0xee, 0x52), (0xef, 0x52), (0xf0, 0x52), (0xf1, 0x52), (0xf2, 0x52), (0xf3, 0x52), (0xf4, 0x52), (0xf5, 0x52), (0xf6, 0x52), (0xf7, 0x52),
    (0xf8, 0x52), (0xf9, 0x52), (0xfa, 0x52), (0xfb, 0x52), (0xfc, 0x52), (0xfd, 0x52), (0xfe, 0x52), (0xff, 0x52), (0, 0x53), (1, 0x53),
    (0x2, 0x53), (0x3, 0x53), (0x4, 0x53), (0x5, 0x53), (0x6, 0x53), (0x7, 0x53), (0x8, 0x53), (0x9, 0x53), (0xa, 0x53), (0xb, 0x53),
    (0xc, 0x53), (0xd, 0x53), (0xe, 0x53), (0xf, 0x53), (0x10, 0x53), (0x11, 0x53), (0x12, 0x53), (0x13, 0x53), (0x14, 0x53), (0x15, 0x53),
    (0x16, 0x53), (0x17, 0x53), (0x18, 0x53), (0x19, 0x53), (0x1a, 0x53), (0x1b, 0x53), (0x1c, 0x53), (0x1d, 0x53), (0x1e, 0x53), (0x1f, 0x53),
    (0x20, 0x53), (0x21, 0x53), (0x22, 0x53), (0x23, 0x53), (0x24, 0x53), (0x25, 0x53), (0x26, 0x53), (0x27, 0x53), (0x28, 0x53), (0x29, 0x53),
    (0x2a, 0x53), (0x2b, 0x53), (0x2c, 0x53), (0x2d, 0x53), (0x2e, 0x53), (0x2f, 0x53), (0x30, 0x53), (0x31, 0x53), (0x32, 0x53), (0x33, 0x53),
    (0x34, 0x53), (0x35, 0x53), (0x36, 0x53), (0x37, 0x53), (0x38, 0x53), (0x39, 0x53), (0x3a, 0x53), (0x3b, 0x53), (0x3c, 0x53), (0x3d, 0x53),
    (0x3e, 0x53), (0x3f, 0x53), (0x40, 0x53), (0x41, 0x53), (0x42, 0x53), (0x43, 0x53), (0x44, 0x53), (0x45, 0x53), (0x46, 0x53), (0x47, 0x53),
    (0x48, 0x53), (0x49, 0x53), (0x4a, 0x53), (0x4b, 0x53), (0x4c, 0x53), (0x4d, 0x53), (0x4e, 0x53), (0x4f, 0x53), (0x50, 0x53), (0x51, 0x53)]"

lemma lts_r_9_run [lts_run]: "table_run LTS_STATE_r 1350 lts_r_9 1500"
proof -
  have run: "lts_r_9 = bytes_up 68 0xbc 0x52 @ bytes_up 82 0 0x53"
    by (simp add: lts_r_9_def bytes_up_numeral)
  show ?thesis by (simp add: run LTS_STATE_r_def bytes_up_run del: bytes_up.simps)
qed

definition lts_r_10 :: "(byte \<times> byte) list" where
  "lts_r_10 = [
    (0x52, 0x53), (0x53, 0x53), (0x54, 0x53), (0x55, 0x53), (0x56, 0x53), (0x57, 0x53), (0x58, 0x53), (0x59, 0x53), (0x5a, 0x53), (0x5b, 0x53),
    (0x5c, 0x53), (0x5d, 0x53), (0x5e, 0x53), (0x5f, 0x53), (0x60, 0x53), (0x61, 0x53), (0x62, 0x53), (0x63, 0x53), (0x64, 0x53), (0x65, 0x53),
    (0x66, 0x53), (0x67, 0x53), (0x68, 0x53), (0x69, 0x53), (0x6a, 0x53), (0x6b, 0x53), (0x6c, 0x53), (0x6d, 0x53), (0x6e, 0x53), (0x6f, 0x53),
    (0x70, 0x53), (0x71, 0x53), (0x72, 0x53), (0x73, 0x53), (0x74, 0x53), (0x75, 0x53), (0x76, 0x53), (0x77, 0x53), (0x78, 0x53), (0x79, 0x53),
    (0x7a, 0x53), (0x7b, 0x53), (0x7c, 0x53), (0x7d, 0x53), (0x7e, 0x53), (0x7f, 0x53), (0x80, 0x53), (0x81, 0x53), (0x82, 0x53), (0x83, 0x53),
    (0x84, 0x53), (0x85, 0x53), (0x86, 0x53), (0x87, 0x53), (0x88, 0x53), (0x89, 0x53), (0x8a, 0x53), (0x8b, 0x53), (0x8c, 0x53), (0x8d, 0x53),
    (0x8e, 0x53), (0x8f, 0x53), (0x90, 0x53), (0x91, 0x53), (0x92, 0x53), (0x93, 0x53), (0x94, 0x53), (0x95, 0x53), (0x96, 0x53), (0x97, 0x53),
    (0x98, 0x53), (0x99, 0x53), (0x9a, 0x53), (0x9b, 0x53), (0x9c, 0x53), (0x9d, 0x53), (0x9e, 0x53), (0x9f, 0x53), (0xa0, 0x53), (0xa1, 0x53),
    (0xa2, 0x53), (0xa3, 0x53), (0xa4, 0x53), (0xa5, 0x53), (0xa6, 0x53), (0xa7, 0x53), (0xa8, 0x53), (0xa9, 0x53), (0xaa, 0x53), (0xab, 0x53),
    (0xac, 0x53), (0xad, 0x53), (0xae, 0x53), (0xaf, 0x53), (0xb0, 0x53), (0xb1, 0x53), (0xb2, 0x53), (0xb3, 0x53), (0xb4, 0x53), (0xb5, 0x53),
    (0xb6, 0x53), (0xb7, 0x53), (0xb8, 0x53), (0xb9, 0x53), (0xba, 0x53), (0xbb, 0x53), (0xbc, 0x53), (0xbd, 0x53), (0xbe, 0x53), (0xbf, 0x53),
    (0xc0, 0x53), (0xc1, 0x53), (0xc2, 0x53), (0xc3, 0x53), (0xc4, 0x53), (0xc5, 0x53), (0xc6, 0x53), (0xc7, 0x53), (0xc8, 0x53), (0xc9, 0x53),
    (0xca, 0x53), (0xcb, 0x53), (0xcc, 0x53), (0xcd, 0x53), (0xce, 0x53), (0xcf, 0x53), (0xd0, 0x53), (0xd1, 0x53), (0xd2, 0x53), (0xd3, 0x53),
    (0xd4, 0x53), (0xd5, 0x53), (0xd6, 0x53), (0xd7, 0x53), (0xd8, 0x53), (0xd9, 0x53), (0xda, 0x53), (0xdb, 0x53), (0xdc, 0x53), (0xdd, 0x53),
    (0xde, 0x53), (0xdf, 0x53), (0xe0, 0x53), (0xe1, 0x53), (0xe2, 0x53), (0xe3, 0x53), (0xe4, 0x53), (0xe5, 0x53), (0xe6, 0x53), (0xe7, 0x53)]"

lemma lts_r_10_run [lts_run]: "table_run LTS_STATE_r 1500 lts_r_10 1650"
proof -
  have run: "lts_r_10 = bytes_up 150 0x52 0x53"
    by (simp add: lts_r_10_def bytes_up_numeral)
  show ?thesis by (simp add: run LTS_STATE_r_def bytes_up_run del: bytes_up.simps)
qed

definition lts_r_11 :: "(byte \<times> byte) list" where
  "lts_r_11 = [
    (0xe8, 0x53), (0xe9, 0x53), (0xea, 0x53), (0xeb, 0x53), (0xec, 0x53), (0xed, 0x53), (0xee, 0x53), (0xef, 0x53), (0xf0, 0x53), (0xf1, 0x53),
    (0xf2, 0x53), (0xf3, 0x53), (0xf4, 0x53), (0xf5, 0x53), (0xf6, 0x53), (0xf7, 0x53), (0xf8, 0x53), (0xf9, 0x53), (0xfa, 0x53), (0xfb, 0x53),
    (0xfc, 0x53), (0xfd, 0x53), (0xfe, 0x53), (0xff, 0x53), (0, 0x54), (1, 0x54), (0x2, 0x54), (0x3, 0x54), (0x4, 0x54), (0x5, 0x54),
    (0x6, 0x54), (0x7, 0x54), (0x8, 0x54), (0x9, 0x54), (0xa, 0x54), (0xb, 0x54), (0xc, 0x54), (0xd, 0x54), (0xe, 0x54), (0xf, 0x54),
    (0x10, 0x54), (0x11, 0x54), (0x12, 0x54), (0x13, 0x54), (0x14, 0x54), (0x15, 0x54), (0x16, 0x54), (0x17, 0x54), (0x18, 0x54), (0x19, 0x54),
    (0x1a, 0x54), (0x1b, 0x54), (0x1c, 0x54), (0x1d, 0x54), (0x1e, 0x54), (0x1f, 0x54), (0x20, 0x54), (0x21, 0x54), (0x22, 0x54), (0x23, 0x54),
    (0x24, 0x54), (0x25, 0x54), (0x26, 0x54), (0x27, 0x54), (0x28, 0x54), (0x29, 0x54), (0x2a, 0x54), (0x2b, 0x54), (0x2c, 0x54), (0x2d, 0x54),
    (0x2e, 0x54), (0x2f, 0x54), (0x30, 0x54), (0x31, 0x54), (0x32, 0x54), (0x33, 0x54), (0x34, 0x54), (0x35, 0x54), (0x36, 0x54), (0x37, 0x54),
    (0x38, 0x54), (0x39, 0x54), (0x3a, 0x54), (0x3b, 0x54), (0x3c, 0x54), (0x3d, 0x54), (0x3e, 0x54), (0x3f, 0x54), (0x40, 0x54), (0x41, 0x54),
    (0x42, 0x54), (0x43, 0x54), (0x44, 0x54), (0x45, 0x54), (0x46, 0x54), (0x47, 0x54), (0x48, 0x54), (0x49, 0x54), (0x4a, 0x54), (0x4b, 0x54),
    (0x4c, 0x54), (0x4d, 0x54), (0x4e, 0x54), (0x4f, 0x54), (0x50, 0x54), (0x51, 0x54), (0x52, 0x54), (0x53, 0x54), (0x54, 0x54), (0x55, 0x54),
    (0x56, 0x54), (0x57, 0x54), (0x58, 0x54), (0x59, 0x54), (0x5a, 0x54), (0x5b, 0x54), (0x5c, 0x54), (0x5d, 0x54), (0x5e, 0x54), (0x5f, 0x54),
    (0x60, 0x54), (0x61, 0x54), (0x62, 0x54), (0x63, 0x54), (0x64, 0x54), (0x65, 0x54), (0x66, 0x54), (0x67, 0x54), (0x68, 0x54), (0x69, 0x54),
    (0x6a, 0x54), (0x6b, 0x54), (0x6c, 0x54), (0x6d, 0x54), (0x6e, 0x54), (0x6f, 0x54), (0x70, 0x54), (0x71, 0x54), (0x72, 0x54), (0x73, 0x54),
    (0x74, 0x54), (0x75, 0x54), (0x76, 0x54), (0x77, 0x54), (0x78, 0x54), (0x79, 0x54), (0x7a, 0x54), (0x7b, 0x54), (0x7c, 0x54), (0x7d, 0x54)]"

lemma lts_r_11_run [lts_run]: "table_run LTS_STATE_r 1650 lts_r_11 1800"
proof -
  have run: "lts_r_11 = bytes_up 24 0xe8 0x53 @ bytes_up 126 0 0x54"
    by (simp add: lts_r_11_def bytes_up_numeral)
  show ?thesis by (simp add: run LTS_STATE_r_def bytes_up_run del: bytes_up.simps)
qed

definition lts_r_12 :: "(byte \<times> byte) list" where
  "lts_r_12 = [
    (0x7e, 0x54), (0x7f, 0x54), (0x80, 0x54), (0x81, 0x54), (0x82, 0x54), (0x83, 0x54), (0x84, 0x54), (0x85, 0x54), (0x86, 0x54), (0x87, 0x54),
    (0x88, 0x54), (0x89, 0x54), (0x8a, 0x54), (0x8b, 0x54), (0x8c, 0x54), (0x8d, 0x54), (0x8e, 0x54), (0x8f, 0x54), (0x90, 0x54), (0x91, 0x54),
    (0x92, 0x54), (0x93, 0x54), (0x94, 0x54), (0x95, 0x54), (0x96, 0x54), (0x97, 0x54), (0x98, 0x54), (0x99, 0x54), (0x9a, 0x54), (0x9b, 0x54),
    (0x9c, 0x54), (0x9d, 0x54), (0x9e, 0x54), (0x9f, 0x54), (0xa0, 0x54), (0xa1, 0x54), (0xa2, 0x54), (0xa3, 0x54), (0xa4, 0x54), (0xa5, 0x54),
    (0xa6, 0x54), (0xa7, 0x54), (0xa8, 0x54), (0xa9, 0x54), (0xaa, 0x54), (0xab, 0x54), (0xac, 0x54), (0xad, 0x54), (0xae, 0x54), (0xaf, 0x54),
    (0xb0, 0x54), (0xb1, 0x54), (0xb2, 0x54), (0xb3, 0x54), (0xb4, 0x54), (0xb5, 0x54), (0xb6, 0x54), (0xb7, 0x54), (0xb8, 0x54), (0xb9, 0x54),
    (0xba, 0x54), (0xbb, 0x54), (0xbc, 0x54), (0xbd, 0x54), (0xbe, 0x54), (0xbf, 0x54), (0xc0, 0x54), (0xc1, 0x54), (0xc2, 0x54), (0xc3, 0x54),
    (0xc4, 0x54), (0xc5, 0x54), (0xc6, 0x54), (0xc7, 0x54), (0xc8, 0x54), (0xc9, 0x54), (0xca, 0x54), (0xcb, 0x54), (0xcc, 0x54), (0xcd, 0x54),
    (0xce, 0x54), (0xcf, 0x54), (0xd0, 0x54), (0xd1, 0x54), (0xd2, 0x54), (0xd3, 0x54), (0xd4, 0x54), (0xd5, 0x54), (0xd6, 0x54), (0xd7, 0x54),
    (0xd8, 0x54), (0xd9, 0x54), (0xda, 0x54), (0xdb, 0x54), (0xdc, 0x54), (0xdd, 0x54), (0xde, 0x54), (0xdf, 0x54), (0xe0, 0x54), (0xe1, 0x54),
    (0xe2, 0x54), (0xe3, 0x54), (0xe4, 0x54), (0xe5, 0x54), (0xe6, 0x54), (0xe7, 0x54), (0xe8, 0x54), (0xe9, 0x54), (0xea, 0x54), (0xeb, 0x54),
    (0xec, 0x54), (0xed, 0x54), (0xee, 0x54), (0xef, 0x54), (0xf0, 0x54), (0xf1, 0x54), (0xf2, 0x54), (0xf3, 0x54), (0xf4, 0x54), (0xf5, 0x54),
    (0xf6, 0x54), (0xf7, 0x54), (0xf8, 0x54), (0xf9, 0x54), (0xfa, 0x54), (0xfb, 0x54), (0xfc, 0x54), (0xfd, 0x54), (0xfe, 0x54), (0xff, 0x54),
    (0, 0x55), (1, 0x55), (0x2, 0x55), (0x3, 0x55), (0x4, 0x55), (0x5, 0x55), (0x6, 0x55), (0x7, 0x55), (0x8, 0x55), (0x9, 0x55),
    (0xa, 0x55), (0xb, 0x55), (0xc, 0x55), (0xd, 0x55), (0xe, 0x55)]"

lemma lts_r_12_run [lts_run]: "table_run LTS_STATE_r 1800 lts_r_12 1945"
proof -
  have run: "lts_r_12 = bytes_up 130 0x7e 0x54 @ bytes_up 15 0 0x55"
    by (simp add: lts_r_12_def bytes_up_numeral)
  show ?thesis by (simp add: run LTS_STATE_r_def bytes_up_run del: bytes_up.simps)
qed

definition lts_table_r :: "(byte \<times> byte) list" where
  "lts_table_r = concat [
     lts_r_0, lts_r_1, lts_r_2, lts_r_3, lts_r_4, lts_r_5, lts_r_6, lts_r_7, lts_r_8, lts_r_9, lts_r_10, lts_r_11,
     lts_r_12]"

lemma lts_table_r_run: "table_run LTS_STATE_r 0 lts_table_r 1945"
  unfolding lts_table_r_def by (rule table_run_nil | rule table_run_concat, rule lts_run)+

lemma lts_table_r_entries [lts_tables]: "entry_at lts_table_r = LTS_STATE_r"
  by (rule table_run_entry [OF lts_table_r_run LTS_STATE_r_def])

section \<open>Letter s\<close>

definition lts_s_0 :: "(byte \<times> byte) list" where
  "lts_s_0 = [
    (0xf, 0x55), (0x10, 0x55), (0x11, 0x55), (0x12, 0x55), (0x13, 0x55), (0x14, 0x55), (0x15, 0x55), (0x16, 0x55), (0x17, 0x55), (0x18, 0x55),
    (0x19, 0x55), (0x1a, 0x55), (0x1b, 0x55), (0x1c, 0x55), (0x1d, 0x55), (0x1e, 0x55), (0x1f, 0x55), (0x20, 0x55), (0x21, 0x55), (0x22, 0x55),
    (0x22, 0x55), (0x23, 0x55), (0x24, 0x55), (0x25, 0x55), (0x26, 0x55), (0x27, 0x55), (0x28, 0x55), (0x29, 0x55), (0x2a, 0x55), (0x2b, 0x55),
    (0x2c, 0x55), (0x2d, 0x55), (0x2e, 0x55), (0x2f, 0x55), (0x30, 0x55), (0x31, 0x55), (0x32, 0x55), (0x33, 0x55), (0x34, 0x55), (0x35, 0x55),
    (0x36, 0x55), (0x37, 0x55), (0x38, 0x55), (0x39, 0x55), (0x3a, 0x55), (0x3b, 0x55), (0x3c, 0x55), (0x3d, 0x55), (0x3e, 0x55), (0x3f, 0x55),
    (0x40, 0x55), (0x41, 0x55), (0x42, 0x55), (0x43, 0x55), (0x44, 0x55), (0x45, 0x55), (0x46, 0x55), (0x47, 0x55), (0x48, 0x55), (0x49, 0x55),
    (0x4a, 0x55), (0x4b, 0x55), (0x4c, 0x55), (0x4d, 0x55), (0x4e, 0x55), (0x4f, 0x55), (0x50, 0x55), (0x51, 0x55), (0x52, 0x55), (0x53, 0x55),
    (0x54, 0x55), (0x55, 0x55), (0x56, 0x55), (0x57, 0x55), (0x58, 0x55), (0x59, 0x55), (0x5a, 0x55), (0x5b, 0x55), (0x5c, 0x55), (0x5d, 0x55),
    (0x5e, 0x55), (0x5f, 0x55), (0x60, 0x55), (0x61, 0x55), (0x62, 0x55), (0x63, 0x55), (0x64, 0x55), (0x65, 0x55), (0x66, 0x55), (0x67, 0x55),
    (0x68, 0x55), (0x69, 0x55), (0x6a, 0x55), (0x6b, 0x55), (0x6c, 0x55), (0x6d, 0x55), (0x6e, 0x55), (0x6f, 0x55), (0x70, 0x55), (0x71, 0x55),
    (0x72, 0x55), (0x73, 0x55), (0x74, 0x55), (0x75, 0x55), (0x76, 0x55), (0x77, 0x55), (0x78, 0x55), (0x79, 0x55), (0x7a, 0x55), (0x7b, 0x55),
    (0x7c, 0x55), (0x7d, 0x55), (0x7e, 0x55), (0x7f, 0x55), (0x80, 0x55), (0x81, 0x55), (0x82, 0x55), (0x83, 0x55), (0x84, 0x55), (0x85, 0x55),
    (0x86, 0x55), (0x87, 0x55), (0x88, 0x55), (0x89, 0x55), (0x8a, 0x55), (0x8b, 0x55), (0x8c, 0x55), (0x8d, 0x55), (0x8e, 0x55), (0x8f, 0x55),
    (0x90, 0x55), (0x91, 0x55), (0x92, 0x55), (0x93, 0x55), (0x94, 0x55), (0x95, 0x55), (0x96, 0x55), (0x97, 0x55), (0x98, 0x55), (0x99, 0x55),
    (0x9a, 0x55), (0x9b, 0x55), (0x9c, 0x55), (0x9d, 0x55), (0x9e, 0x55), (0x9f, 0x55), (0xa0, 0x55), (0xa1, 0x55), (0xa2, 0x55), (0xa3, 0x55)]"

lemma lts_s_0_run [lts_run]: "table_run LTS_STATE_s 0 lts_s_0 150"
proof -
  have run: "lts_s_0 = bytes_up 20 0xf 0x55 @ bytes_up 130 0x22 0x55"
    by (simp add: lts_s_0_def bytes_up_numeral)
  show ?thesis by (simp add: run LTS_STATE_s_def bytes_up_run del: bytes_up.simps)
qed

definition lts_s_1 :: "(byte \<times> byte) list" where
  "lts_s_1 = [
    (0xa4, 0x55), (0xa5, 0x55), (0xa6, 0x55), (0xa7, 0x55), (0xa8, 0x55), (0xa9, 0x55), (0xaa, 0x55), (0xab, 0x55), (0xac, 0x55), (0xad, 0x55),
    (0xae, 0x55), (0xaf, 0x55), (0xb0, 0x55), (0xb1, 0x55), (0xb2, 0x55), (0xb3, 0x55), (0xb4, 0x55), (0xb5, 0x55), (0xb6, 0x55), (0xb7, 0x55),
    (0xb8, 0x55), (0xb9, 0x55), (0xba, 0x55), (0xbb, 0x55), (0xbc, 0x55), (0xbd, 0x55), (0xbe, 0x55), (0xbf, 0x55), (0xc0, 0x55), (0xc1, 0x55),
    (0xc2, 0x55), (0xc3, 0x55), (0xc4, 0x55), (0xc5, 0x55), (0xc6, 0x55), (0xc7, 0x55), (0xc8, 0x55), (0xc9, 0x55), (0xca, 0x55), (0xcb, 0x55),
    (0xcc, 0x55), (0xcd, 0x55), (0xce, 0x55), (0xcf, 0x55), (0xd0, 0x55), (0xd1, 0x55), (0xd2, 0x55), (0xd3, 0x55), (0xd4, 0x55), (0xd5, 0x55),
    (0xd6, 0x55), (0xd7, 0x55), (0xd8, 0x55), (0xd9, 0x55), (0xda, 0x55), (0xdb, 0x55), (0xdc, 0x55), (0xdd, 0x55), (0xde, 0x55), (0xdf, 0x55),
    (0xe0, 0x55), (0xe1, 0x55), (0xe2, 0x55), (0xe3, 0x55), (0xe4, 0x55), (0xe5, 0x55), (0xe6, 0x55), (0xe7, 0x55), (0xe8, 0x55), (0xe9, 0x55),
    (0xea, 0x55), (0xeb, 0x55), (0xec, 0x55), (0xed, 0x55), (0xee, 0x55), (0xef, 0x55), (0xf0, 0x55), (0xf1, 0x55), (0xf2, 0x55), (0xf3, 0x55),
    (0xf4, 0x55), (0xf5, 0x55), (0xf6, 0x55), (0xf7, 0x55), (0xf8, 0x55), (0xf9, 0x55), (0xfa, 0x55), (0xfb, 0x55), (0xfc, 0x55), (0xfd, 0x55),
    (0xfe, 0x55), (0xff, 0x55), (0, 0x56), (1, 0x56), (0x2, 0x56), (0x3, 0x56), (0x4, 0x56), (0x5, 0x56), (0x6, 0x56), (0x7, 0x56),
    (0x8, 0x56), (0x9, 0x56), (0xa, 0x56), (0xb, 0x56), (0xc, 0x56), (0xd, 0x56), (0xe, 0x56), (0xf, 0x56), (0x10, 0x56), (0x11, 0x56),
    (0x12, 0x56), (0x13, 0x56), (0x14, 0x56), (0x15, 0x56), (0x16, 0x56), (0x17, 0x56), (0x18, 0x56), (0x19, 0x56), (0x1a, 0x56), (0x1b, 0x56),
    (0x1c, 0x56), (0x1d, 0x56), (0x1e, 0x56), (0x1f, 0x56), (0x20, 0x56), (0x21, 0x56), (0x22, 0x56), (0x23, 0x56), (0x24, 0x56), (0x25, 0x56),
    (0x26, 0x56), (0x27, 0x56), (0x28, 0x56), (0x29, 0x56), (0x2a, 0x56), (0x2b, 0x56), (0x2c, 0x56), (0x2d, 0x56), (0x2e, 0x56), (0x2f, 0x56),
    (0x30, 0x56), (0x31, 0x56), (0x32, 0x56), (0x33, 0x56), (0x34, 0x56), (0x35, 0x56), (0x36, 0x56), (0x37, 0x56), (0x38, 0x56), (0x39, 0x56)]"

lemma lts_s_1_run [lts_run]: "table_run LTS_STATE_s 150 lts_s_1 300"
proof -
  have run: "lts_s_1 = bytes_up 92 0xa4 0x55 @ bytes_up 58 0 0x56"
    by (simp add: lts_s_1_def bytes_up_numeral)
  show ?thesis by (simp add: run LTS_STATE_s_def bytes_up_run del: bytes_up.simps)
qed

definition lts_s_2 :: "(byte \<times> byte) list" where
  "lts_s_2 = [
    (0x3a, 0x56), (0x3b, 0x56), (0x3c, 0x56), (0x3d, 0x56), (0x3e, 0x56), (0x3f, 0x56), (0x40, 0x56), (0x41, 0x56), (0x42, 0x56), (0x43, 0x56),
    (0x44, 0x56), (0x45, 0x56), (0x46, 0x56), (0x47, 0x56), (0x48, 0x56), (0x49, 0x56), (0x4a, 0x56), (0x4b, 0x56), (0x4c, 0x56), (0x4d, 0x56),
    (0x4e, 0x56), (0x4f, 0x56), (0x50, 0x56), (0x51, 0x56), (0x52, 0x56), (0x53, 0x56), (0x54, 0x56), (0x55, 0x56), (0x56, 0x56), (0x57, 0x56),
    (0x58, 0x56), (0x59, 0x56), (0x5a, 0x56), (0x5b, 0x56), (0x5c, 0x56), (0x5d, 0x56), (0x5e, 0x56), (0x5f, 0x56), (0x60, 0x56), (0x61, 0x56),
    (0x62, 0x56), (0x63, 0x56), (0x64, 0x56), (0x65, 0x56), (0x66, 0x56), (0x67, 0x56), (0x68, 0x56), (0x69, 0x56), (0x6a, 0x56), (0x6b, 0x56),
    (0x6c, 0x56), (0x6d, 0x56), (0x6e, 0x56), (0x6f, 0x56), (0x70, 0x56), (0x71, 0x56), (0x72, 0x56), (0x73, 0x56), (0x74, 0x56), (0x75, 0x56),
    (0x76, 0x56), (0x77, 0x56), (0x78, 0x56), (0x79, 0x56), (0x7a, 0x56), (0x7b, 0x56), (0x7c, 0x56), (0x7d, 0x56), (0x7e, 0x56), (0x7f, 0x56),
    (0x80, 0x56), (0x81, 0x56), (0x82, 0x56), (0x83, 0x56), (0x84, 0x56), (0x85, 0x56), (0x86, 0x56), (0x87, 0x56), (0x88, 0x56), (0x89, 0x56),
    (0x8a, 0x56), (0x8b, 0x56), (0x8c, 0x56), (0x8d, 0x56), (0x8e, 0x56), (0x8f, 0x56), (0x90, 0x56), (0x91, 0x56), (0x92, 0x56), (0x93, 0x56),
    (0x94, 0x56), (0x95, 0x56), (0x96, 0x56), (0x97, 0x56), (0x98, 0x56), (0x99, 0x56), (0x9a, 0x56), (0x9b, 0x56), (0x9c, 0x56), (0x9d, 0x56),
    (0x9e, 0x56), (0x9f, 0x56), (0xa0, 0x56), (0xa1, 0x56), (0xa2, 0x56), (0xa3, 0x56), (0xa4, 0x56), (0xa5, 0x56), (0xa6, 0x56), (0xa7, 0x56),
    (0xa8, 0x56), (0xa9, 0x56), (0xaa, 0x56), (0xab, 0x56), (0xac, 0x56), (0xad, 0x56), (0xae, 0x56), (0xaf, 0x56), (0xb0, 0x56), (0xb1, 0x56),
    (0xb2, 0x56), (0xb3, 0x56), (0xb4, 0x56), (0xb5, 0x56), (0xb6, 0x56), (0xb7, 0x56), (0xb8, 0x56), (0xb9, 0x56), (0xba, 0x56), (0xbb, 0x56),
    (0xbc, 0x56), (0xbd, 0x56), (0xbe, 0x56), (0xbf, 0x56), (0xc0, 0x56), (0xc1, 0x56), (0xc2, 0x56), (0xc3, 0x56), (0xc4, 0x56), (0xc5, 0x56),
    (0xc6, 0x56), (0xc7, 0x56), (0xc8, 0x56), (0xc9, 0x56), (0xca, 0x56), (0xcb, 0x56), (0xcc, 0x56), (0xcd, 0x56), (0xce, 0x56), (0xcf, 0x56)]"

lemma lts_s_2_run [lts_run]: "table_run LTS_STATE_s 300 lts_s_2 450"
proof -
  have run: "lts_s_2 = bytes_up 150 0x3a 0x56"
    by (simp add: lts_s_2_def bytes_up_numeral)
  show ?thesis by (simp add: run LTS_STATE_s_def bytes_up_run del: bytes_up.simps)
qed

definition lts_s_3 :: "(byte \<times> byte) list" where
  "lts_s_3 = [
    (0xd0, 0x56), (0xd1, 0x56), (0xd2, 0x56), (0xd3, 0x56), (0xd4, 0x56), (0xd5, 0x56), (0xd6, 0x56), (0xd7, 0x56), (0xd8, 0x56), (0xd9, 0x56),
    (0xda, 0x56), (0xdb, 0x56), (0xdc, 0x56), (0xdd, 0x56), (0xde, 0x56), (0xdf, 0x56), (0xe0, 0x56), (0xe1, 0x56), (0xe2, 0x56), (0xe3, 0x56),
    (0xe4, 0x56), (0xe5, 0x56), (0xe6, 0x56), (0xe7, 0x56), (0xe8, 0x56), (0xe9, 0x56), (0xea, 0x56), (0xeb, 0x56), (0xec, 0x56), (0xed, 0x56),
    (0xee, 0x56), (0xef, 0x56), (0xf0, 0x56), (0xf1, 0x56), (0xf2, 0x56), (0xf3, 0x56), (0xf4, 0x56), (0xf5, 0x56), (0xf6, 0x56), (0xf7, 0x56),
    (0xf8, 0x56), (0xf9, 0x56), (0xfa, 0x56), (0xfb, 0x56), (0xfc, 0x56), (0xfd, 0x56), (0xfe, 0x56), (0xff, 0x56), (0, 0x57), (1, 0x57),
    (0x2, 0x57), (0x3, 0x57), (0x4, 0x57), (0x5, 0x57), (0x6, 0x57), (0x7, 0x57), (0x8, 0x57), (0x9, 0x57), (0xa, 0x57), (0xb, 0x57),
    (0xc, 0x57), (0xd, 0x57), (0xe, 0x57), (0xf, 0x57), (0x10, 0x57), (0x11, 0x57), (0x12, 0x57), (0x13, 0x57), (0x14, 0x57), (0x15, 0x57),
    (0x16, 0x57), (0x17, 0x57), (0x18, 0x57), (0x19, 0x57), (0x1a, 0x57), (0x1b, 0x57), (0x1c, 0x57), (0x1d, 0x57), (0x1e, 0x57), (0x1f, 0x57),
    (0x20, 0x57), (0x21, 0x57), (0x22, 0x57), (0x23, 0x57), (0x24, 0x57), (0x25, 0x57), (0x26, 0x57), (0x27, 0x57), (0x28, 0x57), (0x29, 0x57),
    (0x2a, 0x57), (0x2b, 0x57), (0x2c, 0x57), (0x2d, 0x57), (0x2e, 0x57), (0x2f, 0x57), (0x30, 0x57), (0x31, 0x57), (0x32, 0x57), (0x33, 0x57),
    (0x34, 0x57), (0x35, 0x57), (0x36, 0x57), (0x37, 0x57), (0x38, 0x57), (0x39, 0x57), (0x3a, 0x57), (0x3b, 0x57), (0x3c, 0x57), (0x3d, 0x57),
    (0x3e, 0x57), (0x3f, 0x57), (0x40, 0x57), (0x41, 0x57), (0x42, 0x57), (0x43, 0x57), (0x44, 0x57), (0x45, 0x57), (0x46, 0x57), (0x47, 0x57),
    (0x48, 0x57), (0x49, 0x57), (0x4a, 0x57), (0x4b, 0x57), (0x4c, 0x57), (0x4d, 0x57), (0x4e, 0x57), (0x4f, 0x57), (0x50, 0x57), (0x51, 0x57),
    (0x52, 0x57), (0x53, 0x57), (0x54, 0x57), (0x55, 0x57), (0x56, 0x57), (0x57, 0x57), (0x58, 0x57), (0x59, 0x57), (0x5a, 0x57), (0x5b, 0x57),
    (0x5c, 0x57), (0x5d, 0x57), (0x5e, 0x57), (0x5f, 0x57), (0x60, 0x57), (0x61, 0x57), (0x62, 0x57), (0x63, 0x57), (0x64, 0x57), (0x65, 0x57)]"

lemma lts_s_3_run [lts_run]: "table_run LTS_STATE_s 450 lts_s_3 600"
proof -
  have run: "lts_s_3 = bytes_up 48 0xd0 0x56 @ bytes_up 102 0 0x57"
    by (simp add: lts_s_3_def bytes_up_numeral)
  show ?thesis by (simp add: run LTS_STATE_s_def bytes_up_run del: bytes_up.simps)
qed

definition lts_s_4 :: "(byte \<times> byte) list" where
  "lts_s_4 = [
    (0x66, 0x57), (0x67, 0x57), (0x68, 0x57), (0x69, 0x57), (0x6a, 0x57), (0x6b, 0x57), (0x6c, 0x57), (0x6d, 0x57), (0x6e, 0x57), (0x6f, 0x57),
    (0x70, 0x57), (0x71, 0x57), (0x72, 0x57), (0x73, 0x57), (0x74, 0x57), (0x75, 0x57), (0x76, 0x57), (0x77, 0x57), (0x78, 0x57), (0x79, 0x57),
    (0x7a, 0x57), (0x7b, 0x57), (0x7c, 0x57), (0x7d, 0x57), (0x7e, 0x57), (0x7f, 0x57), (0x80, 0x57), (0x81, 0x57), (0x82, 0x57), (0x83, 0x57),
    (0x84, 0x57), (0x85, 0x57), (0x86, 0x57), (0x87, 0x57), (0x88, 0x57), (0x89, 0x57), (0x8a, 0x57), (0x8b, 0x57), (0x8c, 0x57), (0x8d, 0x57),
    (0x8e, 0x57), (0x8f, 0x57), (0x90, 0x57), (0x91, 0x57), (0x92, 0x57), (0x93, 0x57), (0x94, 0x57), (0x95, 0x57), (0x96, 0x57), (0x97, 0x57),
    (0x98, 0x57), (0x99, 0x57), (0x9a, 0x57), (0x9b, 0x57), (0x9c, 0x57), (0x9d, 0x57), (0x9e, 0x57), (0x9f, 0x57), (0xa0, 0x57), (0xa1, 0x57),
    (0xa2, 0x57), (0xa3, 0x57), (0xa4, 0x57), (0xa5, 0x57), (0xa6, 0x57), (0xa7, 0x57), (0xa8, 0x57), (0xa9, 0x57), (0xaa, 0x57), (0xab, 0x57),
    (0xac, 0x57), (0xad, 0x57), (0xae, 0x57), (0xaf, 0x57), (0xb0, 0x57), (0xb1, 0x57), (0xb2, 0x57), (0xb3, 0x57), (0xb4, 0x57), (0xb5, 0x57),
    (0xb6, 0x57), (0xb7, 0x57), (0xb8, 0x57), (0xb9, 0x57), (0xba, 0x57), (0xbb, 0x57), (0xbc, 0x57), (0xbd, 0x57), (0xbe, 0x57), (0xbf, 0x57),
    (0xc0, 0x57), (0xc1, 0x57), (0xc2, 0x57), (0xc3, 0x57), (0xc4, 0x57), (0xc5, 0x57), (0xc6, 0x57), (0xc7, 0x57), (0xc8, 0x57), (0xc9, 0x57),
    (0xca, 0x57), (0xcb, 0x57), (0xcc, 0x57), (0xcd, 0x57), (0xce, 0x57), (0xcf, 0x57), (0xd0, 0x57), (0xd1, 0x57), (0xd2, 0x57), (0xd3, 0x57),
    (0xd4, 0x57), (0xd5, 0x57), (0xd6, 0x57), (0xd7, 0x57), (0xd8, 0x57), (0xd9, 0x57), (0xda, 0x57), (0xdb, 0x57), (0xdc, 0x57), (0xdd, 0x57),
    (0xde, 0x57), (0xdf, 0x57), (0xe0, 0x57), (0xe1, 0x57), (0xe2, 0x57), (0xe3, 0x57), (0xe4, 0x57), (0xe5, 0x57), (0xe6, 0x57), (0xe7, 0x57),
    (0xe8, 0x57), (0xe9, 0x57), (0xea, 0x57), (0xeb, 0x57), (0xec, 0x57), (0xed, 0x57), (0xee, 0x57), (0xef, 0x57), (0xf0, 0x57), (0xf1, 0x57),
    (0xf2, 0x57), (0xf3, 0x57), (0xf4, 0x57), (0xf5, 0x57), (0xf6, 0x57), (0xf7, 0x57), (0xf8, 0x57), (0xf9, 0x57), (0xfa, 0x57), (0xfb, 0x57)]"

lemma lts_s_4_run [lts_run]: "table_run LTS_STATE_s 600 lts_s_4 750"
proof -
  have run: "lts_s_4 = bytes_up 150 0x66 0x57"
    by (simp add: lts_s_4_def bytes_up_numeral)
  show ?thesis by (simp add: run LTS_STATE_s_def bytes_up_run del: bytes_up.simps)
qed

definition lts_s_5 :: "(byte \<times> byte) list" where
  "lts_s_5 = [
    (0xfc, 0x57), (0xfd, 0x57), (0xfe, 0x57), (0xff, 0x57), (0, 0x58), (1, 0x58), (0x2, 0x58), (0x3, 0x58), (0x4, 0x58), (0x5, 0x58),
    (0x6, 0x58), (0x7, 0x58), (0x8, 0x58), (0x9, 0x58), (0xa, 0x58), (0xb, 0x58), (0xc, 0x58), (0xd, 0x58), (0xe, 0x58), (0xf, 0x58),
    (0x10, 0x58), (0x11, 0x58), (0x12, 0x58), (0x13, 0x58), (0x14, 0x58), (0x15, 0x58), (0x16, 0x58), (0x17, 0x58), (0x18, 0x58), (0x19, 0x58),
    (0x1a, 0x58), (0x1b, 0x58), (0x1c, 0x58), (0x1d, 0x58), (0x1e, 0x58), (0x1f, 0x58), (0x20, 0x58), (0x21, 0x58), (0x22, 0x58), (0x23, 0x58),
    (0x24, 0x58), (0x25, 0x58), (0x26, 0x58), (0x27, 0x58), (0x28, 0x58), (0x29, 0x58), (0x2a, 0x58), (0x2b, 0x58), (0x2c, 0x58), (0x2d, 0x58),
    (0x2e, 0x58), (0x2f, 0x58), (0x30, 0x58), (0x31, 0x58), (0x32, 0x58), (0x33, 0x58), (0x34, 0x58), (0x35, 0x58), (0x36, 0x58), (0x37, 0x58),
    (0x38, 0x58), (0x39, 0x58), (0x3a, 0x58), (0x3b, 0x58), (0x3c, 0x58), (0x3d, 0x58), (0x3e, 0x58), (0x3f, 0x58), (0x40, 0x58), (0x41, 0x58),
    (0x42, 0x58), (0x43, 0x58), (0x44, 0x58), (0x45, 0x58), (0x46, 0x58), (0x47, 0x58), (0x48, 0x58), (0x49, 0x58), (0x4a, 0x58), (0x4b, 0x58),
    (0x4c, 0x58), (0x4d, 0x58), (0x4e, 0x58), (0x4f, 0x58), (0x50, 0x58), (0x51, 0x58), (0x52, 0x58), (0x53, 0x58), (0x54, 0x58), (0x55, 0x58),
    (0x56, 0x58), (0x57, 0x58), (0x58, 0x58), (0x59, 0x58), (0x5a, 0x58), (0x5b, 0x58), (0x5c, 0x58), (0x5d, 0x58), (0x5e, 0x58), (0x5f, 0x58),
    (0x60, 0x58), (0x61, 0x58), (0x62, 0x58), (0x63, 0x58), (0x64, 0x58), (0x65, 0x58), (0x66, 0x58), (0x67, 0x58), (0x68, 0x58), (0x69, 0x58),
    (0x6a, 0x58), (0x6b, 0x58), (0x6c, 0x58), (0x6d, 0x58), (0x6e, 0x58), (0x6f, 0x58), (0x70, 0x58), (0x71, 0x58), (0x72, 0x58), (0x73, 0x58),
    (0x74, 0x58), (0x75, 0x58), (0x76, 0x58), (0x77, 0x58), (0x78, 0x58), (0x79, 0x58), (0x7a, 0x58), (0x7b, 0x58), (0x7c, 0x58), (0x7d, 0x58),
    (0x7e, 0x58), (0x7f, 0x58), (0x80, 0x58), (0x81, 0x58), (0x82, 0x58), (0x83, 0x58), (0x84, 0x58), (0x85, 0x58), (0x86, 0x58), (0x87, 0x58),
    (0x88, 0x58), (0x89, 0x58), (0x8a, 0x58)]"

lemma lts_s_5_run [lts_run]: "table_run LTS_STATE_s 750 lts_s_5 893"
proof -
  have run: "lts_s_5 = bytes_up 4 0xfc 0x57 @ bytes_up 139 0 0x58"
    by (simp add: lts_s_5_def bytes_up_numeral)
  show ?thesis by (simp add: run LTS_STATE_s_def bytes_up_run del: bytes_up.simps)
qed

definition lts_table_s :: "(byte \<times> byte) list" where
  "lts_table_s = concat [
     lts_s_0, lts_s_1, lts_s_2, lts_s_3, lts_s_4, lts_s_5]"

lemma lts_table_s_run: "table_run LTS_STATE_s 0 lts_table_s 893"
  unfolding lts_table_s_def by (rule table_run_nil | rule table_run_concat, rule lts_run)+

lemma lts_table_s_entries [lts_tables]: "entry_at lts_table_s = LTS_STATE_s"
  by (rule table_run_entry [OF lts_table_s_run LTS_STATE_s_def])

section \<open>Letter t\<close>

definition lts_t_0 :: "(byte \<times> byte) list" where
  "lts_t_0 = [
    (0x8b, 0x58), (0x8c, 0x58), (0x8d, 0x58), (0x8e, 0x58), (0x8f, 0x58), (0x90, 0x58), (0x91, 0x58), (0x92, 0x58), (0x93, 0x58), (0x94, 0x58),
    (0x95, 0x58), (0x96, 0x58), (0x97, 0x58), (0x98, 0x58), (0x99, 0x58), (0x9a, 0x58), (0x9b, 0x58), (0x9c, 0x58), (0x9d, 0x58), (0x9e, 0x58),
    (0x9f, 0x58), (0xa0, 0x58), (0xa1, 0x58), (0xa2, 0x58), (0xa3, 0x58), (0xa3, 0x58), (0xa4, 0x58), (0xa5, 0x58), (0xa6, 0x58), (0xa7, 0x58),
    (0xa8, 0x58), (0xa9, 0x58), (0xaa, 0x58), (0xab, 0x58), (0xac, 0x58), (0xad, 0x58), (0xae, 0x58), (0xaf, 0x58), (0xb0, 0x58), (0xb1, 0x58),
    (0xb2, 0x58), (0xb3, 0x58), (0xb4, 0x58), (0xb5, 0x58), (0xb6, 0x58), (0xb7, 0x58), (0xb8, 0x58), (0xb9, 0x58), (0xba, 0x58), (0xbb, 0x58),
    (0xbc, 0x58), (0xbd, 0x58), (0xbe, 0x58), (0xbf, 0x58), (0xc0, 0x58), (0xc1, 0x58), (0xc2, 0x58), (0xc3, 0x58), (0xc4, 0x58), (0xc5, 0x58),
    (0xc6, 0x58), (0xc7, 0x58), (0xc8, 0x58), (0xc9, 0x58), (0xca, 0x58), (0xcb, 0x58), (0xcc, 0x58), (0xcd, 0x58), (0xce, 0x58), (0xcf, 0x58),
    (0xd0, 0x58), (0xd1, 0x58), (0xd2, 0x58), (0xd3, 0x58), (0xd4, 0x58), (0xd5, 0x58), (0xd6, 0x58), (0xd7, 0x58), (0xd8, 0x58), (0xd9, 0x58),
    (0xda, 0x58), (0xdb, 0x58), (0xdc, 0x58), (0xdd, 0x58), (0xde, 0x58), (0xdf, 0x58), (0xe0, 0x58), (0xe1, 0x58), (0xe2, 0x58), (0xe3, 0x58),
    (0xe4, 0x58), (0xe5, 0x58), (0xe6, 0x58), (0xe7, 0x58), (0xe8, 0x58), (0xe9, 0x58), (0xea, 0x58), (0xeb, 0x58), (0xec, 0x58), (0xed, 0x58),
    (0xee, 0x58), (0xef, 0x58), (0xf0, 0x58), (0xf1, 0x58), (0xf2, 0x58), (0xf3, 0x58), (0xf4, 0x58), (0xf5, 0x58), (0xf6, 0x58), (0xf7, 0x58),
    (0xf8, 0x58), (0xf9, 0x58), (0xfa, 0x58), (0xfb, 0x58), (0xfc, 0x58), (0xfd, 0x58), (0xfe, 0x58), (0xff, 0x58), (0, 0x59), (1, 0x59),
    (0x2, 0x59), (0x3, 0x59), (0x4, 0x59), (0x5, 0x59), (0x6, 0x59), (0x7, 0x59), (0x8, 0x59), (0x9, 0x59), (0xa, 0x59), (0xb, 0x59),
    (0xc, 0x59), (0xd, 0x59), (0xe, 0x59), (0xf, 0x59), (0x10, 0x59), (0x11, 0x59), (0x12, 0x59), (0x13, 0x59), (0x14, 0x59), (0x15, 0x59),
    (0x16, 0x59), (0x17, 0x59), (0x18, 0x59), (0x19, 0x59), (0x1a, 0x59), (0x1b, 0x59), (0x1c, 0x59), (0x1d, 0x59), (0x1e, 0x59), (0x1f, 0x59)]"

lemma lts_t_0_run [lts_run]: "table_run LTS_STATE_t 0 lts_t_0 150"
proof -
  have run: "lts_t_0 = bytes_up 25 0x8b 0x58 @ bytes_up 93 0xa3 0x58 @ bytes_up 32 0 0x59"
    by (simp add: lts_t_0_def bytes_up_numeral)
  show ?thesis by (simp add: run LTS_STATE_t_def bytes_up_run del: bytes_up.simps)
qed

definition lts_t_1 :: "(byte \<times> byte) list" where
  "lts_t_1 = [
    (0x20, 0x59), (0x21, 0x59), (0x22, 0x59), (0x23, 0x59), (0x24, 0x59), (0x25, 0x59), (0x26, 0x59), (0x27, 0x59), (0x28, 0x59), (0x29, 0x59),
    (0x2a, 0x59), (0x2b, 0x59), (0x2c, 0x59), (0x2d, 0x59), (0x2e, 0x59), (0x2f, 0x59), (0x30, 0x59), (0x31, 0x59), (0x32, 0x59), (0x33, 0x59),
    (0x34, 0x59), (0x35, 0x59), (0x36, 0x59), (0x37, 0x59), (0x38, 0x59), (0x39, 0x59), (0x3a, 0x59), (0x3b, 0x59), (0x3c, 0x59), (0x3d, 0x59),
    (0x3e, 0x59), (0x3f, 0x59), (0x40, 0x59), (0x41, 0x59), (0x42, 0x59), (0x43, 0x59), (0x44, 0x59), (0x45, 0x59), (0x46, 0x59), (0x47, 0x59),
    (0x48, 0x59), (0x49, 0x59), (0x4a, 0x59), (0x4b, 0x59), (0x4c, 0x59), (0x4d, 0x59), (0x4e, 0x59), (0x4f, 0x59), (0x50, 0x59), (0x51, 0x59),
    (0x52, 0x59), (0x53, 0x59), (0x54, 0x59), (0x55, 0x59), (0x56, 0x59), (0x57, 0x59), (0x58, 0x59), (0x59, 0x59), (0x5a, 0x59), (0x5b, 0x59),
    (0x5c, 0x59), (0x5d, 0x59), (0x5e, 0x59), (0x5f, 0x59), (0x60, 0x59), (0x61, 0x59), (0x62, 0x59), (0x63, 0x59), (0x64, 0x59), (0x65, 0x59),
    (0x66, 0x59), (0x67, 0x59), (0x68, 0x59), (0x69, 0x59), (0x6a, 0x59), (0x6b, 0x59), (0x6c, 0x59), (0x6d, 0x59), (0x6e, 0x59), (0x6f, 0x59),
    (0x70, 0x59), (0x71, 0x59), (0x72, 0x59), (0x73, 0x59), (0x74, 0x59), (0x75, 0x59), (0x76, 0x59), (0x77, 0x59), (0x78, 0x59), (0x79, 0x59),
    (0x7a, 0x59), (0x7b, 0x59), (0x7c, 0x59), (0x7d, 0x59), (0x7e, 0x59), (0x7f, 0x59), (0x80, 0x59), (0x81, 0x59), (0x82, 0x59), (0x83, 0x59),
    (0x84, 0x59), (0x85, 0x59), (0x86, 0x59), (0x87, 0x59), (0x88, 0x59), (0x89, 0x59), (0x8a, 0x59), (0x8b, 0x59), (0x8c, 0x59), (0x8d, 0x59),
    (0x8e, 0x59), (0x8f, 0x59), (0x90, 0x59), (0x91, 0x59), (0x92, 0x59), (0x93, 0x59), (0x94, 0x59), (0x95, 0x59), (0x96, 0x59), (0x97, 0x59),
    (0x98, 0x59), (0x99, 0x59), (0x9a, 0x59), (0x9b, 0x59), (0x9c, 0x59), (0x9d, 0x59), (0x9e, 0x59), (0x9f, 0x59), (0xa0, 0x59), (0xa1, 0x59),
    (0xa2, 0x59), (0xa3, 0x59), (0xa4, 0x59), (0xa5, 0x59), (0xa6, 0x59), (0xa7, 0x59), (0xa8, 0x59), (0xa9, 0x59), (0xaa, 0x59), (0xab, 0x59),
    (0xac, 0x59)]"

lemma lts_t_1_run [lts_run]: "table_run LTS_STATE_t 150 lts_t_1 291"
proof -
  have run: "lts_t_1 = bytes_up 141 0x20 0x59"
    by (simp add: lts_t_1_def bytes_up_numeral)
  show ?thesis by (simp add: run LTS_STATE_t_def bytes_up_run del: bytes_up.simps)
qed

definition lts_table_t :: "(byte \<times> byte) list" where
  "lts_table_t = concat [
     lts_t_0, lts_t_1]"

lemma lts_table_t_run: "table_run LTS_STATE_t 0 lts_table_t 291"
  unfolding lts_table_t_def by (rule table_run_nil | rule table_run_concat, rule lts_run)+

lemma lts_table_t_entries [lts_tables]: "entry_at lts_table_t = LTS_STATE_t"
  by (rule table_run_entry [OF lts_table_t_run LTS_STATE_t_def])

end
