(* ===== verification/LtsTableU.thy ===== *)
theory LtsTableU
  imports LetterToSound
begin

text \<open>
  The address bytes of the letter-to-sound states as cmu_lts_model.h lists them, for the letters u to z:
  pieces of at most 150 states, each with the fact that state by state they are what the arithmetic of
  LetterToSound gives, and the whole table of a letter put together from its pieces.
\<close>

section \<open>Letter u\<close>

definition lts_u_0 :: "(byte \<times> byte) list" where
  "lts_u_0 = [
    (0xad, 0x59), (0xae, 0x59), (0xaf, 0x59), (0xb0, 0x59), (0xb1, 0x59), (0xb2, 0x59), (0xb3, 0x59), (0xb4, 0x59), (0xb5, 0x59), (0xb6, 0x59),
    (0xb7, 0x59), (0xb8, 0x59), (0xb9, 0x59), (0xba, 0x59), (0xbb, 0x59), (0xbc, 0x59), (0xbd, 0x59), (0xbe, 0x59), (0xbf, 0x59), (0xc0, 0x59),
    (0xc1, 0x59), (0xc2, 0x59), (0xc3, 0x59), (0xc4, 0x59), (0xc5, 0x59), (0xc6, 0x59), (0xc7, 0x59), (0xc8, 0x59), (0xc9, 0x59), (0xca, 0x59),
    (0xcb, 0x59), (0xcc, 0x59), (0xcd, 0x59), (0xce, 0x59), (0xcf, 0x59), (0xd0, 0x59), (0xd1, 0x59), (0xd2, 0x59), (0xd3, 0x59), (0xd4, 0x59),
    (0xd5, 0x59), (0xd6, 0x59), (0xd7, 0x59), (0xd7, 0x59), (0xd8, 0x59), (0xd9, 0x59), (0xda, 0x59), (0xdb, 0x59), (0xdc, 0x59), (0xdd, 0x59),
    (0xde, 0x59), (0xdf, 0x59), (0xe0, 0x59), (0xe1, 0x59), (0xe2, 0x59), (0xe3, 0x59), (0xe4, 0x59), (0xe5, 0x59), (0xe6, 0x59), (0xe7, 0x59),
    (0xe8, 0x59), (0xe9, 0x59), (0xea, 0x59), (0xeb, 0x59), (0xec, 0x59), (0xed, 0x59), (0xee, 0x59), (0xef, 0x59), (0xf0, 0x59), (0xf1, 0x59),
    (0xf2, 0x59), (0xf3, 0x59), (0xf4, 0x59), (0xf5, 0x59), (0xf6, 0x59), (0xf7, 0x59), (0xf8, 0x59), (0xf9, 0x59), (0xfa, 0x59), (0xfb, 0x59),
    (0xfc, 0x59), (0xfd, 0x59), (0xfe, 0x59), (0xff, 0x59), (0, 0x5a), (1, 0x5a), (0x2, 0x5a), (0x3, 0x5a), (0x4, 0x5a), (0x5, 0x5a),
    (0x6, 0x5a), (0x7, 0x5a), (0x8, 0x5a), (0x9, 0x5a), (0xa, 0x5a), (0xb, 0x5a), (0xc, 0x5a), (0xd, 0x5a), (0xe, 0x5a), (0xf, 0x5a),
    (0x10, 0x5a), (0x11, 0x5a), (0x12, 0x5a), (0x13, 0x5a), (0x14, 0x5a), (0x15, 0x5a), (0x16, 0x5a), (0x17, 0x5a), (0x18, 0x5a), (0x19, 0x5a),
    (0x1a, 0x5a), (0x1b, 0x5a), (0x1c, 0x5a), (0x1d, 0x5a), (0x1e, 0x5a), (0x1f, 0x5a), (0x20, 0x5a), (0x21, 0x5a), (0x22, 0x5a), (0x23, 0x5a),
    (0x24, 0x5a), (0x25, 0x5a), (0x26, 0x5a), (0x27, 0x5a), (0x28, 0x5a), (0x29, 0x5a), (0x2a, 0x5a), (0x2b, 0x5a), (0x2c, 0x5a), (0x2d, 0x5a),
    (0x2e, 0x5a), (0x2f, 0x5a), (0x30, 0x5a), (0x31, 0x5a), (0x32, 0x5a), (0x33, 0x5a), (0x34, 0x5a), (0x35, 0x5a), (0x36, 0x5a), (0x37, 0x5a),
    (0x38, 0x5a), (0x39, 0x5a), (0x3a, 0x5a), (0x3b, 0x5a), (0x3c, 0x5a), (0x3d, 0x5a), (0x3e, 0x5a), (0x3f, 0x5a), (0x40, 0x5a), (0x41, 0x5a)]"

lemma lts_u_0_run [lts_run]: "table_run LTS_STATE_u 0 lts_u_0 150"
proof -
  have run: "lts_u_0 = bytes_up 43 0xad 0x59 @ bytes_up 41 0xd7 0x59 @ bytes_up 66 0 0x5a"
    by (simp add: lts_u_0_def bytes_up_numeral)
  show ?thesis by (simp add: run LTS_STATE_u_def bytes_up_run del: bytes_up.simps)
qed

definition lts_u_1 :: "(byte \<times> byte) list" where
  "lts_u_1 = [
    (0x42, 0x5a), (0x43, 0x5a), (0x44, 0x5a), (0x45, 0x5a), (0x46, 0x5a), (0x47, 0x5a), (0x48, 0x5a), (0x49, 0x5a), (0x4a, 0x5a), (0x4b, 0x5a),
    (0x4c, 0x5a), (0x4d, 0x5a), (0x4e, 0x5a), (0x4f, 0x5a), (0x50, 0x5a), (0x51, 0x5a), (0x52, 0x5a), (0x53, 0x5a), (0x54, 0x5a), (0x55, 0x5a),
    (0x56, 0x5a), (0x57, 0x5a), (0x58, 0x5a), (0x59, 0x5a), (0x5a, 0x5a), (0x5b, 0x5a), (0x5c, 0x5a), (0x5d, 0x5a), (0x5e, 0x5a), (0x5f, 0x5a),
    (0x60, 0x5a), (0x61, 0x5a), (0x62, 0x5a), (0x63, 0x5a), (0x64, 0x5a), (0x65, 0x5a), (0x66, 0x5a), (0x67, 0x5a), (0x68, 0x5a), (0x69, 0x5a),
    (0x6a, 0x5a), (0x6b, 0x5a), (0x6c, 0x5a), (0x6d, 0x5a), (0x6e, 0x5a), (0x6f, 0x5a), (0x70, 0x5a), (0x71, 0x5a), (0x72, 0x5a), (0x73, 0x5a),
    (0x74, 0x5a), (0x75, 0x5a), (0x76, 0x5a), (0x77, 0x5a), (0x78, 0x5a), (0x79, 0x5a), (0x7a, 0x5a), (0x7b, 0x5a), (0x7c, 0x5a), (0x7d, 0x5a),
    (0x7e, 0x5a), (0x7f, 0x5a), (0x80, 0x5a), (0x81, 0x5a), (0x82, 0x5a), (0x83, 0x5a), (0x84, 0x5a), (0x85, 0x5a), (0x86, 0x5a), (0x87, 0x5a),
    (0x88, 0x5a), (0x89, 0x5a), (0x8a, 0x5a), (0x8b, 0x5a), (0x8c, 0x5a), (0x8d, 0x5a), (0x8e, 0x5a), (0x8f, 0x5a), (0x90, 0x5a), (0x91, 0x5a),
    (0x92, 0x5a), (0x93, 0x5a), (0x94, 0x5a), (0x95, 0x5a), (0x96, 0x5a), (0x97, 0x5a), (0x98, 0x5a), (0x99, 0x5a), (0x9a, 0x5a), (0x9b, 0x5a),
    (0x9c, 0x5a), (0x9d, 0x5a), (0x9e, 0x5a), (0x9f, 0x5a), (0xa0, 0x5a), (0xa1, 0x5a), (0xa2, 0x5a), (0xa3, 0x5a), (0xa4, 0x5a), (0xa5, 0x5a),
    (0xa6, 0x5a), (0xa7, 0x5a), (0xa8, 0x5a), (0xa9, 0x5a), (0xaa, 0x5a), (0xab, 0x5a), (0xac, 0x5a), (0xad, 0x5a), (0xae, 0x5a), (0xaf, 0x5a),
    (0xb0, 0x5a), (0xb1, 0x5a), (0xb2, 0x5a), (0xb3, 0x5a), (0xb4, 0x5a), (0xb5, 0x5a), (0xb6, 0x5a), (0xb7, 0x5a), (0xb8, 0x5a), (0xb9, 0x5a),
    (0xba, 0x5a), (0xbb, 0x5a), (0xbc, 0x5a), (0xbd, 0x5a), (0xbe, 0x5a), (0xbf, 0x5a), (0xc0, 0x5a), (0xc1, 0x5a), (0xc2, 0x5a), (0xc3, 0x5a),
    (0xc4, 0x5a), (0xc5, 0x5a), (0xc6, 0x5a), (0xc7, 0x5a), (0xc8, 0x5a), (0xc9, 0x5a), (0xca, 0x5a), (0xcb, 0x5a), (0xcc, 0x5a), (0xcd, 0x5a),
    (0xce, 0x5a), (0xcf, 0x5a), (0xd0, 0x5a), (0xd1, 0x5a), (0xd2, 0x5a), (0xd3, 0x5a), (0xd4, 0x5a), (0xd5, 0x5a), (0xd6, 0x5a), (0xd7, 0x5a)]"

lemma lts_u_1_run [lts_run]: "table_run LTS_STATE_u 150 lts_u_1 300"
proof -
  have run: "lts_u_1 = bytes_up 150 0x42 0x5a"
    by (simp add: lts_u_1_def bytes_up_numeral)
  show ?thesis by (simp add: run LTS_STATE_u_def bytes_up_run del: bytes_up.simps)
qed

definition lts_u_2 :: "(byte \<times> byte) list" where
  "lts_u_2 = [
    (0xd8, 0x5a), (0xd9, 0x5a), (0xda, 0x5a), (0xdb, 0x5a), (0xdc, 0x5a), (0xdd, 0x5a), (0xde, 0x5a), (0xdf, 0x5a), (0xe0, 0x5a), (0xe1, 0x5a),
    (0xe2, 0x5a), (0xe3, 0x5a), (0xe4, 0x5a), (0xe5, 0x5a), (0xe6, 0x5a), (0xe7, 0x5a), (0xe8, 0x5a), (0xe9, 0x5a), (0xea, 0x5a), (0xeb, 0x5a),
    (0xec, 0x5a), (0xed, 0x5a), (0xee, 0x5a), (0xef, 0x5a), (0xf0, 0x5a), (0xf1, 0x5a), (0xf2, 0x5a), (0xf3, 0x5a), (0xf4, 0x5a), (0xf5, 0x5a),
    (0xf6, 0x5a), (0xf7, 0x5a), (0xf8, 0x5a), (0xf9, 0x5a), (0xfa, 0x5a), (0xfb, 0x5a), (0xfc, 0x5a), (0xfd, 0x5a), (0xfe, 0x5a), (0xff, 0x5a),
    (0, 0x5b), (1, 0x5b), (0x2, 0x5b), (0x3, 0x5b), (0x4, 0x5b), (0x5, 0x5b), (0x6, 0x5b), (0x7, 0x5b), (0x8, 0x5b), (0x9, 0x5b),
    (0xa, 0x5b), (0xb, 0x5b), (0xc, 0x5b), (0xd, 0x5b), (0xe, 0x5b), (0xf, 0x5b), (0x10, 0x5b), (0x11, 0x5b), (0x12, 0x5b), (0x13, 0x5b),
    (0x14, 0x5b), (0x15, 0x5b), (0x16, 0x5b), (0x17, 0x5b), (0x18, 0x5b), (0x19, 0x5b), (0x1a, 0x5b), (0x1b, 0x5b), (0x1c, 0x5b), (0x1d, 0x5b),
    (0x1e, 0x5b), (0x1f, 0x5b), (0x20, 0x5b), (0x21, 0x5b), (0x22, 0x5b), (0x23, 0x5b), (0x24, 0x5b), (0x25, 0x5b), (0x26, 0x5b), (0x27, 0x5b),
    (0x28, 0x5b), (0x29, 0x5b), (0x2a, 0x5b), (0x2b, 0x5b), (0x2c, 0x5b), (0x2d, 0x5b), (0x2e, 0x5b), (0x2f, 0x5b), (0x30, 0x5b), (0x31, 0x5b),
    (0x32, 0x5b), (0x33, 0x5b), (0x34, 0x5b), (0x35, 0x5b), (0x36, 0x5b), (0x37, 0x5b), (0x38, 0x5b), (0x39, 0x5b), (0x3a, 0x5b), (0x3b, 0x5b),
    (0x3c, 0x5b), (0x3d, 0x5b), (0x3e, 0x5b), (0x3f, 0x5b), (0x40, 0x5b), (0x41, 0x5b), (0x42, 0x5b), (0x43, 0x5b), (0x44, 0x5b), (0x45, 0x5b),
    (0x46, 0x5b), (0x47, 0x5b), (0x48, 0x5b), (0x49, 0x5b), (0x4a, 0x5b), (0x4b, 0x5b), (0x4c, 0x5b), (0x4d, 0x5b), (0x4e, 0x5b), (0x4f, 0x5b),
    (0x50, 0x5b), (0x51, 0x5b), (0x52, 0x5b), (0x53, 0x5b), (0x54, 0x5b), (0x55, 0x5b), (0x56, 0x5b), (0x57, 0x5b), (0x58, 0x5b), (0x59, 0x5b),
    (0x5a, 0x5b), (0x5b, 0x5b), (0x5c, 0x5b), (0x5d, 0x5b), (0x5e, 0x5b), (0x5f, 0x5b), (0x60, 0x5b), (0x61, 0x5b), (0x62, 0x5b), (0x63, 0x5b),
    (0x64, 0x5b), (0x65, 0x5b), (0x66, 0x5b), (0x67, 0x5b), (0x68, 0x5b), (0x69, 0x5b), (0x6a, 0x5b), (0x6b, 0x5b), (0x6c, 0x5b), (0x6d, 0x5b)]"

lemma lts_u_2_run [lts_run]: "table_run LTS_STATE_u 300 lts_u_2 450"
proof -
  have run: "lts_u_2 = bytes_up 40 0xd8 0x5a @ bytes_up 110 0 0x5b"
    by (simp add: lts_u_2_def bytes_up_numeral)
  show ?thesis by (simp add: run LTS_STATE_u_def bytes_up_run del: bytes_up.simps)
qed

definition lts_u_3 :: "(byte \<times> byte) list" where
  "lts_u_3 = [
    (0x6e, 0x5b), (0x6f, 0x5b), (0x70, 0x5b), (0x71, 0x5b), (0x72, 0x5b), (0x73, 0x5b), (0x74, 0x5b), (0x75, 0x5b), (0x76, 0x5b), (0x77, 0x5b),
    (0x78, 0x5b), (0x79, 0x5b), (0x7a, 0x5b), (0x7b, 0x5b), (0x7c, 0x5b), (0x7d, 0x5b), (0x7e, 0x5b), (0x7f, 0x5b), (0x80, 0x5b), (0x81, 0x5b),
    (0x82, 0x5b), (0x83, 0x5b), (0x84, 0x5b), (0x85, 0x5b), (0x86, 0x5b), (0x87, 0x5b), (0x88, 0x5b), (0x89, 0x5b), (0x8a, 0x5b), (0x8b, 0x5b),
    (0x8c, 0x5b), (0x8d, 0x5b), (0x8e, 0x5b), (0x8f, 0x5b), (0x90, 0x5b), (0x91, 0x5b), (0x92, 0x5b), (0x93, 0x5b), (0x94, 0x5b), (0x95, 0x5b),
    (0x96, 0x5b), (0x97, 0x5b), (0x98, 0x5b), (0x99, 0x5b), (0x9a, 0x5b), (0x9b, 0x5b), (0x9c, 0x5b), (0x9d, 0x5b), (0x9e, 0x5b), (0x9f, 0x5b),
    (0xa0, 0x5b), (0xa1, 0x5b), (0xa2, 0x5b), (0xa3, 0x5b), (0xa4, 0x5b), (0xa5, 0x5b), (0xa6, 0x5b), (0xa7, 0x5b), (0xa8, 0x5b), (0xa9, 0x5b),
    (0xaa, 0x5b), (0xab, 0x5b), (0xac, 0x5b), (0xad, 0x5b), (0xae, 0x5b), (0xaf, 0x5b), (0xb0, 0x5b), (0xb1, 0x5b), (0xb2, 0x5b), (0xb3, 0x5b),
    (0xb4, 0x5b), (0xb5, 0x5b), (0xb6, 0x5b), (0xb7, 0x5b), (0xb8, 0x5b), (0xb9, 0x5b), (0xba, 0x5b), (0xbb, 0x5b), (0xbc, 0x5b), (0xbd, 0x5b),
    (0xbe, 0x5b), (0xbf, 0x5b), (0xc0, 0x5b), (0xc1, 0x5b), (0xc2, 0x5b), (0xc3, 0x5b), (0xc4, 0x5b), (0xc5, 0x5b), (0xc6, 0x5b), (0xc7, 0x5b),
    (0xc8, 0x5b), (0xc9, 0x5b), (0xca, 0x5b), (0xcb, 0x5b), (0xcc, 0x5b), (0xcd, 0x5b), (0xce, 0x5b), (0xcf, 0x5b), (0xd0, 0x5b), (0xd1, 0x5b),
    (0xd2, 0x5b), (0xd3, 0x5b), (0xd4, 0x5b), (0xd5, 0x5b), (0xd6, 0x5b), (0xd7, 0x5b), (0xd8, 0x5b), (0xd9, 0x5b), (0xda, 0x5b), (0xdb, 0x5b),
    (0xdc, 0x5b), (0xdd, 0x5b), (0xde, 0x5b), (0xdf, 0x5b), (0xe0, 0x5b), (0xe1, 0x5b), (0xe2, 0x5b), (0xe3, 0x5b), (0xe4, 0x5b), (0xe5, 0x5b),
    (0xe6, 0x5b), (0xe7, 0x5b), (0xe8, 0x5b), (0xe9, 0x5b), (0xea, 0x5b), (0xeb, 0x5b), (0xec, 0x5b), (0xed, 0x5b), (0xee, 0x5b), (0xef, 0x5b),
    (0xf0, 0x5b), (0xf1, 0x5b), (0xf2, 0x5b), (0xf3, 0x5b), (0xf4, 0x5b), (0xf5, 0x5b), (0xf6, 0x5b), (0xf7, 0x5b), (0xf8, 0x5b), (0xf9, 0x5b),
    (0xfa, 0x5b), (0xfb, 0x5b), (0xfc, 0x5b), (0xfd, 0x5b), (0xfe, 0x5b), (0xff, 0x5b), (0, 0x5c), (1, 0x5c), (0x2, 0x5c), (0x3, 0x5c)]"

lemma lts_u_3_run [lts_run]: "table_run LTS_STATE_u 450 lts_u_3 600"
proof -
  have run: "lts_u_3 = bytes_up 146 0x6e 0x5b @ bytes_up 4 0 0x5c"
    by (simp add: lts_u_3_def bytes_up_numeral)
  show ?thesis by (simp add: run LTS_STATE_u_def bytes_up_run del: bytes_up.simps)
qed

definition lts_u_4 :: "(byte \<times> byte) list" where
  "lts_u_4 = [
    (0x4, 0x5c), (0x5, 0x5c), (0x6, 0x5c), (0x7, 0x5c), (0x8, 0x5c), (0x9, 0x5c), (0xa, 0x5c), (0xb, 0x5c), (0xc, 0x5c), (0xd, 0x5c),
    (0xe, 0x5c), (0xf, 0x5c), (0x10, 0x5c), (0x11, 0x5c), (0x12, 0x5c), (0x13, 0x5c), (0x14, 0x5c), (0x15, 0x5c), (0x16, 0x5c), (0x17, 0x5c),
    (0x18, 0x5c), (0x19, 0x5c), (0x1a, 0x5c), (0x1b, 0x5c), (0x1c, 0x5c), (0x1d, 0x5c), (0x1e, 0x5c), (0x1f, 0x5c), (0x20, 0x5c), (0x21, 0x5c),
    (0x22, 0x5c), (0x23, 0x5c), (0x24, 0x5c), (0x25, 0x5c), (0x26, 0x5c), (0x27, 0x5c), (0x28, 0x5c), (0x29, 0x5c), (0x2a, 0x5c), (0x2b, 0x5c),
    (0x2c, 0x5c), (0x2d, 0x5c), (0x2e, 0x5c), (0x2f, 0x5c), (0x30, 0x5c), (0x31, 0x5c), (0x32, 0x5c), (0x33, 0x5c), (0x34, 0x5c), (0x35, 0x5c),
    (0x36, 0x5c), (0x37, 0x5c), (0x38, 0x5c), (0x39, 0x5c), (0x3a, 0x5c), (0x3b, 0x5c), (0x3c, 0x5c), (0x3d, 0x5c), (0x3e, 0x5c), (0x3f, 0x5c),
    (0x40, 0x5c), (0x41, 0x5c), (0x42, 0x5c), (0x43, 0x5c), (0x44, 0x5c), (0x45, 0x5c), (0x46, 0x5c), (0x47, 0x5c), (0x48, 0x5c), (0x49, 0x5c),
    (0x4a, 0x5c), (0x4b, 0x5c), (0x4c, 0x5c), (0x4d, 0x5c), (0x4e, 0x5c), (0x4f, 0x5c), (0x50, 0x5c), (0x51, 0x5c), (0x52, 0x5c), (0x53, 0x5c),
    (0x54, 0x5c), (0x55, 0x5c), (0x56, 0x5c), (0x57, 0x5c), (0x58, 0x5c), (0x59, 0x5c), (0x5a, 0x5c), (0x5b, 0x5c), (0x5c, 0x5c), (0x5d, 0x5c),
    (0x5e, 0x5c), (0x5f, 0x5c), (0x60, 0x5c), (0x61, 0x5c), (0x62, 0x5c), (0x63, 0x5c), (0x64, 0x5c), (0x65, 0x5c), (0x66, 0x5c), (0x67, 0x5c),
    (0x68, 0x5c), (0x69, 0x5c), (0x6a, 0x5c), (0x6b, 0x5c), (0x6c, 0x5c), (0x6d, 0x5c), (0x6e, 0x5c), (0x6f, 0x5c), (0x70, 0x5c), (0x71, 0x5c),
    (0x72, 0x5c), (0x73, 0x5c), (0x74, 0x5c), (0x75, 0x5c), (0x76, 0x5c), (0x77, 0x5c), (0x78, 0x5c), (0x79, 0x5c), (0x7a, 0x5c), (0x7b, 0x5c),
    (0x7c, 0x5c), (0x7d, 0x5c), (0x7e, 0x5c), (0x7f, 0x5c), (0x80, 0x5c), (0x81, 0x5c), (0x82, 0x5c), (0x83, 0x5c), (0x84, 0x5c), (0x85, 0x5c),
    (0x86, 0x5c), (0x87, 0x5c), (0x88, 0x5c), (0x89, 0x5c), (0x8a, 0x5c), (0x8b, 0x5c), (0x8c, 0x5c), (0x8d, 0x5c), (0x8e, 0x5c), (0x8f, 0x5c),
    (0x90, 0x5c), (0x91, 0x5c), (0x92, 0x5c), (0x93, 0x5c), (0x94, 0x5c), (0x95, 0x5c), (0x96, 0x5c), (0x97, 0x5c), (0x98, 0x5c), (0x99, 0x5c)]"

lemma lts_u_4_run [lts_run]: "table_run LTS_STATE_u 600 lts_u_4 750"
proof -
  have run: "lts_u_4 = bytes_up 150 0x4 0x5c"
    by (simp add: lts_u_4_def bytes_up_numeral)
  show ?thesis by (simp add: run LTS_STATE_u_def bytes_up_run del: bytes_up.simps)
qed

definition lts_u_5 :: "(byte \<times> byte) list" where
  "lts_u_5 = [
    (0x9a, 0x5c), (0x9b, 0x5c), (0x9c, 0x5c), (0x9d, 0x5c), (0x9e, 0x5c), (0x9f, 0x5c), (0xa0, 0x5c), (0xa1, 0x5c), (0xa2, 0x5c), (0xa3, 0x5c),
    (0xa4, 0x5c), (0xa5, 0x5c), (0xa6, 0x5c), (0xa7, 0x5c), (0xa8, 0x5c), (0xa9, 0x5c), (0xaa, 0x5c), (0xab, 0x5c), (0xac, 0x5c), (0xad, 0x5c),
    (0xae, 0x5c), (0xaf, 0x5c), (0xb0, 0x5c), (0xb1, 0x5c), (0xb2, 0x5c), (0xb3, 0x5c), (0xb4, 0x5c), (0xb5, 0x5c), (0xb6, 0x5c), (0xb7, 0x5c),
    (0xb8, 0x5c), (0xb9, 0x5c), (0xba, 0x5c), (0xbb, 0x5c), (0xbc, 0x5c), (0xbd, 0x5c), (0xbe, 0x5c), (0xbf, 0x5c), (0xc0, 0x5c), (0xc1, 0x5c),
    (0xc2, 0x5c), (0xc3, 0x5c), (0xc4, 0x5c), (0xc5, 0x5c), (0xc6, 0x5c), (0xc7, 0x5c), (0xc8, 0x5c), (0xc9, 0x5c), (0xca, 0x5c), (0xcb, 0x5c),
    (0xcc, 0x5c), (0xcd, 0x5c), (0xce, 0x5c), (0xcf, 0x5c), (0xd0, 0x5c), (0xd1, 0x5c), (0xd2, 0x5c), (0xd3, 0x5c), (0xd4, 0x5c), (0xd5, 0x5c),
    (0xd6, 0x5c), (0xd7, 0x5c), (0xd8, 0x5c), (0xd9, 0x5c), (0xda, 0x5c), (0xdb, 0x5c), (0xdc, 0x5c), (0xdd, 0x5c), (0xde, 0x5c), (0xdf, 0x5c),
    (0xe0, 0x5c), (0xe1, 0x5c), (0xe2, 0x5c), (0xe3, 0x5c), (0xe4, 0x5c), (0xe5, 0x5c), (0xe6, 0x5c), (0xe7, 0x5c), (0xe8, 0x5c), (0xe9, 0x5c),
    (0xea, 0x5c), (0xeb, 0x5c), (0xec, 0x5c), (0xed, 0x5c), (0xee, 0x5c), (0xef, 0x5c), (0xf0, 0x5c), (0xf1, 0x5c), (0xf2, 0x5c), (0xf3, 0x5c),
    (0xf4, 0x5c), (0xf5, 0x5c), (0xf6, 0x5c), (0xf7, 0x5c), (0xf8, 0x5c), (0xf9, 0x5c), (0xfa, 0x5c), (0xfb, 0x5c), (0xfc, 0x5c), (0xfd, 0x5c),
    (0xfe, 0x5c), (0xff, 0x5c), (0, 0x5d), (1, 0x5d), (0x2, 0x5d), (0x3, 0x5d), (0x4, 0x5d), (0x5, 0x5d), (0x6, 0x5d), (0x7, 0x5d),
    (0x8, 0x5d), (0x9, 0x5d), (0xa, 0x5d), (0xb, 0x5d), (0xc, 0x5d), (0xd, 0x5d), (0xe, 0x5d), (0xf, 0x5d), (0x10, 0x5d), (0x11, 0x5d),
    (0x12, 0x5d), (0x13, 0x5d), (0x14, 0x5d), (0x15, 0x5d), (0x16, 0x5d), (0x17, 0x5d), (0x18, 0x5d), (0x19, 0x5d), (0x1a, 0x5d), (0x1b, 0x5d),
    (0x1c, 0x5d), (0x1d, 0x5d), (0x1e, 0x5d), (0x1f, 0x5d), (0x20, 0x5d), (0x21, 0x5d), (0x22, 0x5d), (0x23, 0x5d), (0x24, 0x5d), (0x25, 0x5d),
    (0x26, 0x5d), (0x27, 0x5d), (0x28, 0x5d), (0x29, 0x5d), (0x2a, 0x5d), (0x2b, 0x5d), (0x2c, 0x5d), (0x2d, 0x5d), (0x2e, 0x5d), (0x2f, 0x5d)]"

lemma lts_u_5_run [lts_run]: "table_run LTS_STATE_u 750 lts_u_5 900"
proof -
  have run: "lts_u_5 = bytes_up 102 0x9a 0x5c @ bytes_up 48 0 0x5d"
    by (simp add: lts_u_5_def bytes_up_numeral)
  show ?thesis by (simp add: run LTS_STATE_u_def bytes_up_run del: bytes_up.simps)
qed

definition lts_u_6 :: "(byte \<times> byte) list" where
  "lts_u_6 = [
    (0x30, 0x5d), (0x31, 0x5d), (0x32, 0x5d), (0x33, 0x5d), (0x34, 0x5d), (0x35, 0x5d), (0x36, 0x5d), (0x37, 0x5d), (0x38, 0x5d), (0x39, 0x5d),
    (0x3a, 0x5d), (0x3b, 0x5d), (0x3c, 0x5d), (0x3d, 0x5d), (0x3e, 0x5d), (0x3f, 0x5d), (0x40, 0x5d), (0x41, 0x5d), (0x42, 0x5d), (0x43, 0x5d),
    (0x44, 0x5d), (0x45, 0x5d), (0x46, 0x5d), (0x47, 0x5d), (0x48, 0x5d), (0x49, 0x5d), (0x4a, 0x5d), (0x4b, 0x5d), (0x4c, 0x5d), (0x4d, 0x5d),
    (0x4e, 0x5d), (0x4f, 0x5d), (0x50, 0x5d), (0x51, 0x5d), (0x52, 0x5d), (0x53, 0x5d), (0x54, 0x5d), (0x55, 0x5d), (0x56, 0x5d), (0x57, 0x5d),
    (0x58, 0x5d), (0x59, 0x5d), (0x5a, 0x5d), (0x5b, 0x5d), (0x5c, 0x5d), (0x5d, 0x5d), (0x5e, 0x5d), (0x5f, 0x5d), (0x60, 0x5d), (0x61, 0x5d),
    (0x62, 0x5d), (0x63, 0x5d), (0x64, 0x5d), (0x65, 0x5d), (0x66, 0x5d), (0x67, 0x5d), (0x68, 0x5d), (0x69, 0x5d), (0x6a, 0x5d), (0x6b, 0x5d),
    (0x6c, 0x5d), (0x6d, 0x5d), (0x6e, 0x5d), (0x6f, 0x5d), (0x70, 0x5d), (0x71, 0x5d), (0x72, 0x5d), (0x73, 0x5d), (0x74, 0x5d), (0x75, 0x5d),
    (0x76, 0x5d), (0x77, 0x5d), (0x78, 0x5d), (0x79, 0x5d), (0x7a, 0x5d), (0x7b, 0x5d), (0x7c, 0x5d), (0x7d, 0x5d), (0x7e, 0x5d), (0x7f, 0x5d),
    (0x80, 0x5d), (0x81, 0x5d), (0x82, 0x5d), (0x83, 0x5d), (0x84, 0x5d), (0x85, 0x5d), (0x86, 0x5d), (0x87, 0x5d), (0x88, 0x5d), (0x89, 0x5d),
    (0x8a, 0x5d), (0x8b, 0x5d), (0x8c, 0x5d), (0x8d, 0x5d), (0x8e, 0x5d), (0x8f, 0x5d), (0x90, 0x5d), (0x91, 0x5d), (0x92, 0x5d), (0x93, 0x5d),
    (0x94, 0x5d), (0x95, 0x5d), (0x96, 0x5d), (0x97, 0x5d), (0x98, 0x5d), (0x99, 0x5d), (0x9a, 0x5d), (0x9b, 0x5d), (0x9c, 0x5d), (0x9d, 0x5d),
    (0x9e, 0x5d), (0x9f, 0x5d), (0xa0, 0x5d), (0xa1, 0x5d), (0xa2, 0x5d), (0xa3, 0x5d), (0xa4, 0x5d), (0xa5, 0x5d), (0xa6, 0x5d), (0xa7, 0x5d),
    (0xa8, 0x5d), (0xa9, 0x5d), (0xaa, 0x5d), (0xab, 0x5d), (0xac, 0x5d), (0xad, 0x5d), (0xae, 0x5d), (0xaf, 0x5d), (0xb0, 0x5d), (0xb1, 0x5d),
    (0xb2, 0x5d), (0xb3, 0x5d), (0xb4, 0x5d), (0xb5, 0x5d), (0xb6, 0x5d), (0xb7, 0x5d), (0xb8, 0x5d), (0xb9, 0x5d), (0xba, 0x5d), (0xbb, 0x5d),
    (0xbc, 0x5d), (0xbd, 0x5d), (0xbe, 0x5d), (0xbf, 0x5d), (0xc0, 0x5d), (0xc1, 0x5d), (0xc2, 0x5d), (0xc3, 0x5d), (0xc4, 0x5d), (0xc5, 0x5d)]"

lemma lts_u_6_run [lts_run]: "table_run LTS_STATE_u 900 lts_u_6 1050"
proof -
  have run: "lts_u_6 = bytes_up 150 0x30 0x5d"
    by (simp add: lts_u_6_def bytes_up_numeral)
  show ?thesis by (simp add: run LTS_STATE_u_def bytes_up_run del: bytes_up.simps)
qed

definition lts_u_7 :: "(byte \<times> byte) list" where
  "lts_u_7 = [
    (0xc6, 0x5d), (0xc7, 0x5d), (0xc8, 0x5d), (0xc9, 0x5d), (0xca, 0x5d), (0xcb, 0x5d), (0xcc, 0x5d), (0xcd, 0x5d), (0xce, 0x5d), (0xcf, 0x5d),
    (0xd0, 0x5d), (0xd1, 0x5d), (0xd2, 0x5d), (0xd3, 0x5d), (0xd4, 0x5d), (0xd5, 0x5d), (0xd6, 0x5d), (0xd7, 0x5d), (0xd8, 0x5d), (0xd9, 0x5d),
    (0xda, 0x5d), (0xdb, 0x5d), (0xdc, 0x5d), (0xdd, 0x5d), (0xde, 0x5d), (0xdf, 0x5d), (0xe0, 0x5d), (0xe1, 0x5d), (0xe2, 0x5d), (0xe3, 0x5d),
    (0xe4, 0x5d), (0xe5, 0x5d), (0xe6, 0x5d), (0xe7, 0x5d), (0xe8, 0x5d), (0xe9, 0x5d), (0xea, 0x5d), (0xeb, 0x5d), (0xec, 0x5d), (0xed, 0x5d),
    (0xee, 0x5d), (0xef, 0x5d), (0xf0, 0x5d), (0xf1, 0x5d), (0xf2, 0x5d), (0xf3, 0x5d), (0xf4, 0x5d), (0xf5, 0x5d), (0xf6, 0x5d), (0xf7, 0x5d),
    (0xf8, 0x5d), (0xf9, 0x5d), (0xfa, 0x5d), (0xfb, 0x5d), (0xfc, 0x5d), (0xfd, 0x5d), (0xfe, 0x5d), (0xff, 0x5d), (0, 0x5e), (1, 0x5e),
    (0x2, 0x5e), (0x3, 0x5e), (0x4, 0x5e), (0x5, 0x5e), (0x6, 0x5e), (0x7, 0x5e), (0x8, 0x5e), (0x9, 0x5e), (0xa, 0x5e), (0xb, 0x5e),
    (0xc, 0x5e), (0xd, 0x5e), (0xe, 0x5e), (0xf, 0x5e), (0x10, 0x5e), (0x11, 0x5e), (0x12, 0x5e), (0x13, 0x5e), (0x14, 0x5e), (0x15, 0x5e),
    (0x16, 0x5e), (0x17, 0x5e), (0x18, 0x5e), (0x19, 0x5e), (0x1a, 0x5e), (0x1b, 0x5e), (0x1c, 0x5e), (0x1d, 0x5e), (0x1e, 0x5e), (0x1f, 0x5e),
    (0x20, 0x5e), (0x21, 0x5e), (0x22, 0x5e), (0x23, 0x5e), (0x24, 0x5e), (0x25, 0x5e), (0x26, 0x5e), (0x27, 0x5e), (0x28, 0x5e), (0x29, 0x5e),
    (0x2a, 0x5e), (0x2b, 0x5e), (0x2c, 0x5e), (0x2d, 0x5e), (0x2e, 0x5e), (0x2f, 0x5e), (0x30, 0x5e), (0x31, 0x5e), (0x32, 0x5e), (0x33, 0x5e),
    (0x34, 0x5e), (0x35, 0x5e), (0x36, 0x5e), (0x37, 0x5e), (0x38, 0x5e), (0x39, 0x5e), (0x3a, 0x5e), (0x3b, 0x5e), (0x3c, 0x5e), (0x3d, 0x5e),
    (0x3e, 0x5e), (0x3f, 0x5e), (0x40, 0x5e), (0x41, 0x5e), (0x42, 0x5e), (0x43, 0x5e), (0x44, 0x5e), (0x45, 0x5e), (0x46, 0x5e), (0x47, 0x5e),
    (0x48, 0x5e), (0x49, 0x5e), (0x4a, 0x5e), (0x4b, 0x5e), (0x4c, 0x5e), (0x4d, 0x5e), (0x4e, 0x5e), (0x4f, 0x5e), (0x50, 0x5e), (0x51, 0x5e),
    (0x52, 0x5e), (0x53, 0x5e), (0x54, 0x5e), (0x55, 0x5e), (0x56, 0x5e), (0x57, 0x5e), (0x58, 0x5e), (0x59, 0x5e), (0x5a, 0x5e), (0x5b, 0x5e)]"

lemma lts_u_7_run [lts_run]: "table_run LTS_STATE_u 1050 lts_u_7 1200"
proof -
  have run: "lts_u_7 = bytes_up 58 0xc6 0x5d @ bytes_up 92 0 0x5e"
    by (simp add: lts_u_7_def bytes_up_numeral)
  show ?thesis by (simp add: run LTS_STATE_u_def bytes_up_run del: bytes_up.simps)
qed

definition lts_u_8 :: "(byte \<times> byte) list" where
  "lts_u_8 = [
    (0x5c, 0x5e), (0x5d, 0x5e), (0x5e, 0x5e), (0x5f, 0x5e), (0x60, 0x5e), (0x61, 0x5e), (0x62, 0x5e), (0x63, 0x5e), (0x64, 0x5e), (0x65, 0x5e),
    (0x66, 0x5e), (0x67, 0x5e), (0x68, 0x5e), (0x69, 0x5e), (0x6a, 0x5e), (0x6b, 0x5e), (0x6c, 0x5e), (0x6d, 0x5e), (0x6e, 0x5e), (0x6f, 0x5e),
    (0x70, 0x5e), (0x71, 0x5e), (0x72, 0x5e), (0x73, 0x5e), (0x74, 0x5e), (0x75, 0x5e), (0x76, 0x5e), (0x77, 0x5e), (0x78, 0x5e), (0x79, 0x5e),
    (0x7a, 0x5e), (0x7b, 0x5e), (0x7c, 0x5e), (0x7d, 0x5e), (0x7e, 0x5e), (0x7f, 0x5e), (0x80, 0x5e), (0x81, 0x5e), (0x82, 0x5e), (0x83, 0x5e),
    (0x84, 0x5e), (0x85, 0x5e), (0x86, 0x5e), (0x87, 0x5e), (0x88, 0x5e), (0x89, 0x5e), (0x8a, 0x5e), (0x8b, 0x5e), (0x8c, 0x5e), (0x8d, 0x5e),
    (0x8e, 0x5e), (0x8f, 0x5e), (0x90, 0x5e), (0x91, 0x5e), (0x92, 0x5e), (0x93, 0x5e), (0x94, 0x5e), (0x95, 0x5e), (0x96, 0x5e), (0x97, 0x5e),
    (0x98, 0x5e), (0x99, 0x5e), (0x9a, 0x5e), (0x9b, 0x5e), (0x9c, 0x5e), (0x9d, 0x5e), (0x9e, 0x5e), (0x9f, 0x5e), (0xa0, 0x5e), (0xa1, 0x5e),
    (0xa2, 0x5e), (0xa3, 0x5e), (0xa4, 0x5e), (0xa5, 0x5e), (0xa6, 0x5e), (0xa7, 0x5e), (0xa8, 0x5e), (0xa9, 0x5e), (0xaa, 0x5e), (0xab, 0x5e),
    (0xac, 0x5e), (0xad, 0x5e), (0xae, 0x5e), (0xaf, 0x5e), (0xb0, 0x5e), (0xb1, 0x5e), (0xb2, 0x5e), (0xb3, 0x5e), (0xb4, 0x5e), (0xb5, 0x5e),
    (0xb6, 0x5e), (0xb7, 0x5e), (0xb8, 0x5e), (0xb9, 0x5e), (0xba, 0x5e), (0xbb, 0x5e), (0xbc, 0x5e), (0xbd, 0x5e), (0xbe, 0x5e), (0xbf, 0x5e),
    (0xc0, 0x5e), (0xc1, 0x5e), (0xc2, 0x5e), (0xc3, 0x5e), (0xc4, 0x5e), (0xc5, 0x5e), (0xc6, 0x5e), (0xc7, 0x5e), (0xc8, 0x5e), (0xc9, 0x5e),
    (0xca, 0x5e), (0xcb, 0x5e), (0xcc, 0x5e), (0xcd, 0x5e), (0xce, 0x5e), (0xcf, 0x5e), (0xd0, 0x5e), (0xd1, 0x5e), (0xd2, 0x5e), (0xd3, 0x5e),
    (0xd4, 0x5e), (0xd5, 0x5e), (0xd6, 0x5e), (0xd7, 0x5e), (0xd8, 0x5e), (0xd9, 0x5e), (0xda, 0x5e), (0xdb, 0x5e), (0xdc, 0x5e), (0xdd, 0x5e),
    (0xde, 0x5e), (0xdf, 0x5e), (0xe0, 0x5e), (0xe1, 0x5e), (0xe2, 0x5e), (0xe3, 0x5e), (0xe4, 0x5e), (0xe5, 0x5e), (0xe6, 0x5e), (0xe7, 0x5e),
    (0xe8, 0x5e), (0xe9, 0x5e), (0xea, 0x5e), (0xeb, 0x5e), (0xec, 0x5e), (0xed, 0x5e), (0xee, 0x5e), (0xef, 0x5e), (0xf0, 0x5e), (0xf1, 0x5e)]"

lemma lts_u_8_run [lts_run]: "table_run LTS_STATE_u 1200 lts_u_8 1350"
proof -
  have run: "lts_u_8 = bytes_up 150 0x5c 0x5e"
    by (simp add: lts_u_8_def bytes_up_numeral)
  show ?thesis by (simp add: run LTS_STATE_u_def bytes_up_run del: bytes_up.simps)
qed

definition lts_u_9 :: "(byte \<times> byte) list" where
  "lts_u_9 = [
    (0xf2, 0x5e), (0xf3, 0x5e), (0xf4, 0x5e), (0xf5, 0x5e), (0xf6, 0x5e), (0xf7, 0x5e), (0xf8, 0x5e), (0xf9, 0x5e), (0xfa, 0x5e), (0xfb, 0x5e),
    (0xfc, 0x5e), (0xfd, 0x5e), (0xfe, 0x5e), (0xff, 0x5e), (0, 0x5f), (1, 0x5f), (0x2, 0x5f), (0x3, 0x5f), (0x4, 0x5f), (0x5, 0x5f),
    (0x6, 0x5f), (0x7, 0x5f), (0x8, 0x5f), (0x9, 0x5f), (0xa, 0x5f), (0xb, 0x5f), (0xc, 0x5f), (0xd, 0x5f), (0xe, 0x5f), (0xf, 0x5f),
    (0x10, 0x5f), (0x11, 0x5f), (0x12, 0x5f), (0x13, 0x5f), (0x14, 0x5f), (0x15, 0x5f), (0x16, 0x5f), (0x17, 0x5f), (0x18, 0x5f), (0x19, 0x5f),
    (0x1a, 0x5f), (0x1b, 0x5f), (0x1c, 0x5f), (0x1d, 0x5f), (0x1e, 0x5f), (0x1f, 0x5f), (0x20, 0x5f), (0x21, 0x5f), (0x22, 0x5f), (0x23, 0x5f),
    (0x24, 0x5f), (0x25, 0x5f), (0x26, 0x5f), (0x27, 0x5f), (0x28, 0x5f), (0x29, 0x5f), (0x2a, 0x5f), (0x2b, 0x5f), (0x2c, 0x5f), (0x2d, 0x5f),
    (0x2e, 0x5f), (0x2f, 0x5f), (0x30, 0x5f), (0x31, 0x5f), (0x32, 0x5f), (0x33, 0x5f), (0x34, 0x5f), (0x35, 0x5f), (0x36, 0x5f), (0x37, 0x5f),
    (0x38, 0x5f), (0x39, 0x5f), (0x3a, 0x5f), (0x3b, 0x5f), (0x3c, 0x5f), (0x3d, 0x5f), (0x3e, 0x5f), (0x3f, 0x5f), (0x40, 0x5f), (0x41, 0x5f),
    (0x42, 0x5f), (0x43, 0x5f), (0x44, 0x5f), (0x45, 0x5f), (0x46, 0x5f), (0x47, 0x5f), (0x48, 0x5f), (0x49, 0x5f), (0x4a, 0x5f), (0x4b, 0x5f),
    (0x4c, 0x5f), (0x4d, 0x5f), (0x4e, 0x5f), (0x4f, 0x5f), (0x50, 0x5f), (0x51, 0x5f), (0x52, 0x5f), (0x53, 0x5f), (0x54, 0x5f), (0x55, 0x5f),
    (0x56, 0x5f), (0x57, 0x5f), (0x58, 0x5f), (0x59, 0x5f), (0x5a, 0x5f), (0x5b, 0x5f), (0x5c, 0x5f), (0x5d, 0x5f), (0x5e, 0x5f), (0x5f, 0x5f),
    (0x60, 0x5f), (0x61, 0x5f), (0x62, 0x5f), (0x63, 0x5f), (0x64, 0x5f), (0x65, 0x5f), (0x66, 0x5f), (0x67, 0x5f), (0x68, 0x5f), (0x69, 0x5f),
    (0x6a, 0x5f), (0x6b, 0x5f), (0x6c, 0x5f), (0x6d, 0x5f), (0x6e, 0x5f), (0x6f, 0x5f), (0x70, 0x5f), (0x71, 0x5f), (0x72, 0x5f), (0x73, 0x5f),
    (0x74, 0x5f), (0x75, 0x5f), (0x76, 0x5f), (0x77, 0x5f), (0x78, 0x5f), (0x79, 0x5f), (0x7a, 0x5f), (0x7b, 0x5f), (0x7c, 0x5f), (0x7d, 0x5f),
    (0x7e, 0x5f), (0x7f, 0x5f), (0x80, 0x5f), (0x81, 0x5f), (0x82, 0x5f), (0x83, 0x5f), (0x84, 0x5f), (0x85, 0x5f), (0x86, 0x5f), (0x87, 0x5f)]"

lemma lts_u_9_run [lts_run]: "table_run LTS_STATE_u 1350 lts_u_9 1500"
proof -
  have run: "lts_u_9 = bytes_up 14 0xf2 0x5e @ bytes_up 136 0 0x5f"
    by (simp add: lts_u_9_def bytes_up_numeral)
  show ?thesis by (simp add: run LTS_STATE_u_def bytes_up_run del: bytes_up.simps)
qed

definition lts_u_10 :: "(byte \<times> byte) list" where
  "lts_u_10 = [
    (0x88, 0x5f), (0x89, 0x5f), (0x8a, 0x5f), (0x8b, 0x5f), (0x8c, 0x5f), (0x8d, 0x5f), (0x8e, 0x5f), (0x8f, 0x5f), (0x90, 0x5f), (0x91, 0x5f),
    (0x92, 0x5f), (0x93, 0x5f), (0x94, 0x5f), (0x95, 0x5f), (0x96, 0x5f), (0x97, 0x5f), (0x98, 0x5f), (0x99, 0x5f), (0x9a, 0x5f), (0x9b, 0x5f),
    (0x9c, 0x5f), (0x9d, 0x5f), (0x9e, 0x5f), (0x9f, 0x5f), (0xa0, 0x5f), (0xa1, 0x5f), (0xa2, 0x5f), (0xa3, 0x5f), (0xa4, 0x5f), (0xa5, 0x5f),
    (0xa6, 0x5f), (0xa7, 0x5f), (0xa8, 0x5f), (0xa9, 0x5f), (0xaa, 0x5f), (0xab, 0x5f), (0xac, 0x5f), (0xad, 0x5f), (0xae, 0x5f), (0xaf, 0x5f),
    (0xb0, 0x5f), (0xb1, 0x5f), (0xb2, 0x5f), (0xb3, 0x5f), (0xb4, 0x5f), (0xb5, 0x5f), (0xb6, 0x5f), (0xb7, 0x5f), (0xb8, 0x5f), (0xb9, 0x5f),
    (0xba, 0x5f), (0xbb, 0x5f), (0xbc, 0x5f), (0xbd, 0x5f), (0xbe, 0x5f), (0xbf, 0x5f), (0xc0, 0x5f), (0xc1, 0x5f), (0xc2, 0x5f), (0xc3, 0x5f),
    (0xc4, 0x5f), (0xc5, 0x5f), (0xc6, 0x5f), (0xc7, 0x5f), (0xc8, 0x5f), (0xc9, 0x5f), (0xca, 0x5f), (0xcb, 0x5f), (0xcc, 0x5f), (0xcd, 0x5f),
    (0xce, 0x5f), (0xcf, 0x5f), (0xd0, 0x5f), (0xd1, 0x5f), (0xd2, 0x5f), (0xd3, 0x5f), (0xd4, 0x5f), (0xd5, 0x5f), (0xd6, 0x5f), (0xd7, 0x5f),
    (0xd8, 0x5f), (0xd9, 0x5f), (0xda, 0x5f), (0xdb, 0x5f), (0xdc, 0x5f), (0xdd, 0x5f), (0xde, 0x5f), (0xdf, 0x5f), (0xe0, 0x5f), (0xe1, 0x5f),
    (0xe2, 0x5f), (0xe3, 0x5f), (0xe4, 0x5f), (0xe5, 0x5f), (0xe6, 0x5f), (0xe7, 0x5f), (0xe8, 0x5f), (0xe9, 0x5f), (0xea, 0x5f), (0xeb, 0x5f),
    (0xec, 0x5f), (0xed, 0x5f), (0xee, 0x5f), (0xef, 0x5f), (0xf0, 0x5f), (0xf1, 0x5f), (0xf2, 0x5f), (0xf3, 0x5f), (0xf4, 0x5f), (0xf5, 0x5f),
    (0xf6, 0x5f), (0xf7, 0x5f), (0xf8, 0x5f), (0xf9, 0x5f), (0xfa, 0x5f), (0xfb, 0x5f), (0xfc, 0x5f), (0xfd, 0x5f), (0xfe, 0x5f), (0xff, 0x5f),
    (0, 0x60), (1, 0x60), (0x2, 0x60), (0x3, 0x60), (0x4, 0x60), (0x5, 0x60), (0x6, 0x60), (0x7, 0x60), (0x8, 0x60), (0x9, 0x60),
    (0xa, 0x60), (0xb, 0x60), (0xc, 0x60), (0xd, 0x60), (0xe, 0x60), (0xf, 0x60), (0x10, 0x60), (0x11, 0x60), (0x12, 0x60), (0x13, 0x60),
    (0x14, 0x60), (0x15, 0x60), (0x16, 0x60), (0x17, 0x60), (0x18, 0x60), (0x19, 0x60), (0x1a, 0x60), (0x1b, 0x60), (0x1c, 0x60), (0x1d, 0x60)]"

lemma lts_u_10_run [lts_run]: "table_run LTS_STATE_u 1500 lts_u_10 1650"
proof -
  have run: "lts_u_10 = bytes_up 120 0x88 0x5f @ bytes_up 30 0 0x60"
    by (simp add: lts_u_10_def bytes_up_numeral)
  show ?thesis by (simp add: run LTS_STATE_u_def bytes_up_run del: bytes_up.simps)
qed

definition lts_u_11 :: "(byte \<times> byte) list" where
  "lts_u_11 = [
    (0x1e, 0x60), (0x1f, 0x60), (0x20, 0x60), (0x21, 0x60), (0x22, 0x60), (0x23, 0x60), (0x24, 0x60), (0x25, 0x60), (0x26, 0x60), (0x27, 0x60),
    (0x28, 0x60), (0x29, 0x60), (0x2a, 0x60), (0x2b, 0x60), (0x2c, 0x60), (0x2d, 0x60), (0x2e, 0x60), (0x2f, 0x60), (0x30, 0x60), (0x31, 0x60),
    (0x32, 0x60), (0x33, 0x60), (0x34, 0x60), (0x35, 0x60), (0x36, 0x60), (0x37, 0x60), (0x38, 0x60), (0x39, 0x60), (0x3a, 0x60), (0x3b, 0x60),
    (0x3c, 0x60), (0x3d, 0x60), (0x3e, 0x60), (0x3f, 0x60), (0x40, 0x60), (0x41, 0x60), (0x42, 0x60), (0x43, 0x60), (0x44, 0x60), (0x45, 0x60),
    (0x46, 0x60), (0x47, 0x60), (0x48, 0x60), (0x49, 0x60), (0x4a, 0x60), (0x4b, 0x60), (0x4c, 0x60), (0x4d, 0x60), (0x4e, 0x60), (0x4f, 0x60),
    (0x50, 0x60), (0x51, 0x60), (0x52, 0x60), (0x53, 0x60), (0x54, 0x60), (0x55, 0x60), (0x56, 0x60), (0x57, 0x60), (0x58, 0x60), (0x59, 0x60),
    (0x5a, 0x60), (0x5b, 0x60), (0x5c, 0x60), (0x5d, 0x60), (0x5e, 0x60), (0x5f, 0x60), (0x60, 0x60), (0x61, 0x60), (0x62, 0x60), (0x63, 0x60),
    (0x64, 0x60), (0x65, 0x60), (0x66, 0x60), (0x67, 0x60), (0x68, 0x60), (0x69, 0x60), (0x6a, 0x60), (0x6b, 0x60), (0x6c, 0x60), (0x6d, 0x60),
    (0x6e, 0x60), (0x6f, 0x60), (0x70, 0x60), (0x71, 0x60), (0x72, 0x60), (0x73, 0x60), (0x74, 0x60), (0x75, 0x60), (0x76, 0x60), (0x77, 0x60),
    (0x78, 0x60), (0x79, 0x60), (0x7a, 0x60), (0x7b, 0x60), (0x7c, 0x60), (0x7d, 0x60), (0x7e, 0x60), (0x7f, 0x60), (0x80, 0x60), (0x81, 0x60),
    (0x82, 0x60), (0x83, 0x60), (0x84, 0x60)]"

lemma lts_u_11_run [lts_run]: "table_run LTS_STATE_u 1650 lts_u_11 1753"
proof -
  have run: "lts_u_11 = bytes_up 103 0x1e 0x60"
    by (simp add: lts_u_11_def bytes_up_numeral)
  show ?thesis by (simp add: run LTS_STATE_u_def bytes_up_run del: bytes_up.simps)
qed

definition lts_table_u :: "(byte \<times> byte) list" where
  "lts_table_u = concat [
     lts_u_0, lts_u_1, lts_u_2, lts_u_3, lts_u_4, lts_u_5, lts_u_6, lts_u_7, lts_u_8, lts_u_9, lts_u_10, lts_u_11]"

lemma lts_table_u_run: "table_run LTS_STATE_u 0 lts_table_u 1753"
  unfolding lts_table_u_def by (rule table_run_nil | rule table_run_concat, rule lts_run)+

lemma lts_table_u_entries [lts_tables]: "entry_at lts_table_u = LTS_STATE_u"
  by (rule table_run_entry [OF lts_table_u_run LTS_STATE_u_def])

section \<open>Letter v\<close>

definition lts_v_0 :: "(byte \<times> byte) list" where
  "lts_v_0 = [
    (0x85, 0x60), (0x86, 0x60), (0x87, 0x60), (0x88, 0x60), (0x89, 0x60), (0x8a, 0x60), (0x8a, 0x60), (0x8b, 0x60), (0x8c, 0x60), (0x8d, 0x60),
    (0x8e, 0x60)]"

lemma lts_v_0_run [lts_run]: "table_run LTS_STATE_v 0 lts_v_0 11"
proof -
  have run: "lts_v_0 = bytes_up 6 0x85 0x60 @ bytes_up 5 0x8a 0x60"
    by (simp add: lts_v_0_def bytes_up_numeral)
  show ?thesis by (simp add: run LTS_STATE_v_def bytes_up_run del: bytes_up.simps)
qed

definition lts_table_v :: "(byte \<times> byte) list" where
  "lts_table_v = concat [
     lts_v_0]"

lemma lts_table_v_run: "table_run LTS_STATE_v 0 lts_table_v 11"
  unfolding lts_table_v_def by (rule table_run_nil | rule table_run_concat, rule lts_run)+

lemma lts_table_v_entries [lts_tables]: "entry_at lts_table_v = LTS_STATE_v"
  by (rule table_run_entry [OF lts_table_v_run LTS_STATE_v_def])

section \<open>Letter w\<close>

definition lts_w_0 :: "(byte \<times> byte) list" where
  "lts_w_0 = [
    (0x8f, 0x60), (0x90, 0x60), (0x91, 0x60), (0x92, 0x60), (0x93, 0x60), (0x94, 0x60), (0x95, 0x60), (0x96, 0x60), (0x97, 0x60), (0x98, 0x60),
    (0x99, 0x60), (0x9a, 0x60), (0x9b, 0x60), (0x9c, 0x60), (0x9d, 0x60), (0x9e, 0x60), (0x9f, 0x60), (0xa0, 0x60), (0xa1, 0x60), (0xa2, 0x60),
    (0xa3, 0x60), (0xa4, 0x60), (0xa5, 0x60), (0xa6, 0x60), (0xa7, 0x60), (0xa8, 0x60), (0xa8, 0x60), (0xa9, 0x60), (0xaa, 0x60), (0xab, 0x60),
    (0xac, 0x60), (0xad, 0x60), (0xae, 0x60), (0xaf, 0x60), (0xb0, 0x60), (0xb1, 0x60), (0xb2, 0x60), (0xb3, 0x60), (0xb4, 0x60), (0xb5, 0x60),
    (0xb6, 0x60), (0xb7, 0x60), (0xb8, 0x60), (0xb9, 0x60), (0xba, 0x60), (0xbb, 0x60), (0xbc, 0x60), (0xbd, 0x60), (0xbe, 0x60), (0xbf, 0x60),
    (0xc0, 0x60), (0xc1, 0x60), (0xc2, 0x60), (0xc3, 0x60), (0xc4, 0x60), (0xc5, 0x60), (0xc6, 0x60), (0xc7, 0x60), (0xc8, 0x60), (0xc9, 0x60),
    (0xca, 0x60), (0xcb, 0x60), (0xcc, 0x60), (0xcd, 0x60), (0xce, 0x60), (0xcf, 0x60), (0xd0, 0x60), (0xd1, 0x60), (0xd2, 0x60), (0xd3, 0x60),
    (0xd4, 0x60), (0xd5, 0x60), (0xd6, 0x60), (0xd7, 0x60), (0xd8, 0x60), (0xd9, 0x60), (0xda, 0x60), (0xdb, 0x60), (0xdc, 0x60), (0xdd, 0x60),
    (0xde, 0x60), (0xdf, 0x60), (0xe0, 0x60), (0xe1, 0x60), (0xe2, 0x60), (0xe3, 0x60), (0xe4, 0x60), (0xe5, 0x60), (0xe6, 0x60), (0xe7, 0x60),
    (0xe8, 0x60), (0xe9, 0x60), (0xea, 0x60), (0xeb, 0x60), (0xec, 0x60), (0xed, 0x60), (0xee, 0x60), (0xef, 0x60), (0xf0, 0x60), (0xf1, 0x60),
    (0xf2, 0x60), (0xf3, 0x60), (0xf4, 0x60), (0xf5, 0x60), (0xf6, 0x60), (0xf7, 0x60), (0xf8, 0x60), (0xf9, 0x60), (0xfa, 0x60), (0xfb, 0x60),
    (0xfc, 0x60), (0xfd, 0x60), (0xfe, 0x60), (0xff, 0x60), (0, 0x61), (1, 0x61), (0x2, 0x61), (0x3, 0x61), (0x4, 0x61), (0x5, 0x61),
    (0x6, 0x61), (0x7, 0x61), (0x8, 0x61), (0x9, 0x61), (0xa, 0x61), (0xb, 0x61), (0xc, 0x61), (0xd, 0x61), (0xe, 0x61), (0xf, 0x61),
    (0x10, 0x61), (0x11, 0x61), (0x12, 0x61), (0x13, 0x61), (0x14, 0x61), (0x15, 0x61), (0x16, 0x61), (0x17, 0x61), (0x18, 0x61), (0x19, 0x61),
    (0x1a, 0x61), (0x1b, 0x61), (0x1c, 0x61), (0x1d, 0x61), (0x1e, 0x61), (0x1f, 0x61), (0x20, 0x61), (0x21, 0x61), (0x22, 0x61), (0x23, 0x61)]"

lemma lts_w_0_run [lts_run]: "table_run LTS_STATE_w 0 lts_w_0 150"
proof -
  have run: "lts_w_0 = bytes_up 26 0x8f 0x60 @ bytes_up 88 0xa8 0x60 @ bytes_up 36 0 0x61"
    by (simp add: lts_w_0_def bytes_up_numeral)
  show ?thesis by (simp add: run LTS_STATE_w_def bytes_up_run del: bytes_up.simps)
qed

definition lts_w_1 :: "(byte \<times> byte) list" where
  "lts_w_1 = [
    (0x24, 0x61), (0x25, 0x61), (0x26, 0x61), (0x27, 0x61), (0x28, 0x61), (0x29, 0x61), (0x2a, 0x61), (0x2b, 0x61), (0x2c, 0x61)]"

lemma lts_w_1_run [lts_run]: "table_run LTS_STATE_w 150 lts_w_1 159"
proof -
  have run: "lts_w_1 = bytes_up 9 0x24 0x61"
    by (simp add: lts_w_1_def bytes_up_numeral)
  show ?thesis by (simp add: run LTS_STATE_w_def bytes_up_run del: bytes_up.simps)
qed

definition lts_table_w :: "(byte \<times> byte) list" where
  "lts_table_w = concat [
     lts_w_0, lts_w_1]"

lemma lts_table_w_run: "table_run LTS_STATE_w 0 lts_table_w 159"
  unfolding lts_table_w_def by (rule table_run_nil | rule table_run_concat, rule lts_run)+

lemma lts_table_w_entries [lts_tables]: "entry_at lts_table_w = LTS_STATE_w"
  by (rule table_run_entry [OF lts_table_w_run LTS_STATE_w_def])

section \<open>Letter x\<close>

definition lts_x_0 :: "(byte \<times> byte) list" where
  "lts_x_0 = [
    (0x2d, 0x61), (0x2e, 0x61), (0x2f, 0x61), (0x30, 0x61), (0x31, 0x61), (0x32, 0x61), (0x33, 0x61), (0x34, 0x61), (0x35, 0x61), (0x36, 0x61),
    (0x37, 0x61), (0x38, 0x61), (0x39, 0x61), (0x3a, 0x61), (0x3b, 0x61), (0x3c, 0x61), (0x3d, 0x61), (0x3e, 0x61), (0x3f, 0x61), (0x3f, 0x61),
    (0x40, 0x61), (0x41, 0x61), (0x42, 0x61), (0x43, 0x61), (0x44, 0x61), (0x45, 0x61), (0x46, 0x61), (0x47, 0x61), (0x48, 0x61), (0x49, 0x61),
    (0x4a, 0x61), (0x4b, 0x61), (0x4c, 0x61), (0x4d, 0x61), (0x4e, 0x61), (0x4f, 0x61), (0x50, 0x61), (0x51, 0x61), (0x52, 0x61), (0x53, 0x61),
    (0x54, 0x61), (0x55, 0x61), (0x56, 0x61), (0x57, 0x61), (0x58, 0x61), (0x59, 0x61), (0x5a, 0x61)]"

lemma lts_x_0_run [lts_run]: "table_run LTS_STATE_x 0 lts_x_0 47"
proof -
  have run: "lts_x_0 = bytes_up 19 0x2d 0x61 @ bytes_up 28 0x3f 0x61"
    by (simp add: lts_x_0_def bytes_up_numeral)
  show ?thesis by (simp add: run LTS_STATE_x_def bytes_up_run del: bytes_up.simps)
qed

definition lts_table_x :: "(byte \<times> byte) list" where
  "lts_table_x = concat [
     lts_x_0]"

lemma lts_table_x_run: "table_run LTS_STATE_x 0 lts_table_x 47"
  unfolding lts_table_x_def by (rule table_run_nil | rule table_run_concat, rule lts_run)+

lemma lts_table_x_entries [lts_tables]: "entry_at lts_table_x = LTS_STATE_x"
  by (rule table_run_entry [OF lts_table_x_run LTS_STATE_x_def])

section \<open>Letter y\<close>

definition lts_y_0 :: "(byte \<times> byte) list" where
  "lts_y_0 = [
    (0x5b, 0x61), (0x5c, 0x61), (0x5d, 0x61), (0x5e, 0x61), (0x5f, 0x61), (0x60, 0x61), (0x61, 0x61), (0x62, 0x61), (0x63, 0x61), (0x64, 0x61),
    (0x65, 0x61), (0x66, 0x61), (0x67, 0x61), (0x68, 0x61), (0x69, 0x61), (0x6a, 0x61), (0x6b, 0x61), (0x6c, 0x61), (0x6d, 0x61), (0x6e, 0x61),
    (0x6f, 0x61), (0x6f, 0x61), (0x70, 0x61), (0x71, 0x61), (0x72, 0x61), (0x73, 0x61), (0x74, 0x61), (0x75, 0x61), (0x76, 0x61), (0x77, 0x61),
    (0x78, 0x61), (0x79, 0x61), (0x7a, 0x61), (0x7b, 0x61), (0x7c, 0x61), (0x7d, 0x61), (0x7e, 0x61), (0x7f, 0x61), (0x80, 0x61), (0x81, 0x61),
    (0x82, 0x61), (0x83, 0x61), (0x84, 0x61), (0x85, 0x61), (0x86, 0x61), (0x87, 0x61), (0x88, 0x61), (0x89, 0x61), (0x8a, 0x61), (0x8b, 0x61),
    (0x8c, 0x61), (0x8d, 0x61), (0x8e, 0x61), (0x8f, 0x61), (0x90, 0x61), (0x91, 0x61), (0x92, 0x61), (0x93, 0x61), (0x94, 0x61), (0x95, 0x61),
    (0x96, 0x61), (0x97, 0x61), (0x98, 0x61), (0x99, 0x61), (0x9a, 0x61), (0x9b, 0x61), (0x9c, 0x61), (0x9d, 0x61), (0x9e, 0x61), (0x9f, 0x61),
    (0xa0, 0x61), (0xa1, 0x61), (0xa2, 0x61), (0xa3, 0x61), (0xa4, 0x61), (0xa5, 0x61), (0xa6, 0x61), (0xa7, 0x61), (0xa8, 0x61), (0xa9, 0x61),
    (0xaa, 0x61), (0xab, 0x61), (0xac, 0x61), (0xad, 0x61), (0xae, 0x61), (0xaf, 0x61), (0xb0, 0x61), (0xb1, 0x61), (0xb2, 0x61), (0xb3, 0x61),
    (0xb4, 0x61), (0xb5, 0x61), (0xb6, 0x61), (0xb7, 0x61), (0xb8, 0x61), (0xb9, 0x61), (0xba, 0x61), (0xbb, 0x61), (0xbc, 0x61), (0xbd, 0x61),
    (0xbe, 0x61), (0xbf, 0x61), (0xc0, 0x61), (0xc1, 0x61), (0xc2, 0x61), (0xc3, 0x61), (0xc4, 0x61), (0xc5, 0x61), (0xc6, 0x61), (0xc7, 0x61),
    (0xc8, 0x61), (0xc9, 0x61), (0xca, 0x61), (0xcb, 0x61), (0xcc, 0x61), (0xcd, 0x61), (0xce, 0x61), (0xcf, 0x61), (0xd0, 0x61), (0xd1, 0x61),
    (0xd2, 0x61), (0xd3, 0x61), (0xd4, 0x61), (0xd5, 0x61), (0xd6, 0x61), (0xd7, 0x61), (0xd8, 0x61), (0xd9, 0x61), (0xda, 0x61), (0xdb, 0x61),
    (0xdc, 0x61), (0xdd, 0x61), (0xde, 0x61), (0xdf, 0x61), (0xe0, 0x61), (0xe1, 0x61), (0xe2, 0x61), (0xe3, 0x61), (0xe4, 0x61), (0xe5, 0x61),
    (0xe6, 0x61), (0xe7, 0x61), (0xe8, 0x61), (0xe9, 0x61), (0xea, 0x61), (0xeb, 0x61), (0xec, 0x61), (0xed, 0x61), (0xee, 0x61), (0xef, 0x61)]"

lemma lts_y_0_run [lts_run]: "table_run LTS_STATE_y 0 lts_y_0 150"
proof -
  have run: "lts_y_0 = bytes_up 21 0x5b 0x61 @ bytes_up 129 0x6f 0x61"
    by (simp add: lts_y_0_def bytes_up_numeral)
  show ?thesis by (simp add: run LTS_STATE_y_def bytes_up_run del: bytes_up.simps)
qed

definition lts_y_1 :: "(byte \<times> byte) list" where
  "lts_y_1 = [
    (0xf0, 0x61), (0xf1, 0x61), (0xf2, 0x61), (0xf3, 0x61), (0xf4, 0x61), (0xf5, 0x61), (0xf6, 0x61), (0xf7, 0x61), (0xf8, 0x61), (0xf9, 0x61),
    (0xfa, 0x61), (0xfb, 0x61), (0xfc, 0x61), (0xfd, 0x61), (0xfe, 0x61), (0xff, 0x61), (0, 0x62), (1, 0x62), (0x2, 0x62), (0x3, 0x62),
    (0x4, 0x62), (0x5, 0x62), (0x6, 0x62), (0x7, 0x62), (0x8, 0x62), (0x9, 0x62), (0xa, 0x62), (0xb, 0x62), (0xc, 0x62), (0xd, 0x62),
    (0xe, 0x62), (0xf, 0x62), (0x10, 0x62), (0x11, 0x62), (0x12, 0x62), (0x13, 0x62), (0x14, 0x62), (0x15, 0x62), (0x16, 0x62), (0x17, 0x62),
    (0x18, 0x62), (0x19, 0x62), (0x1a, 0x62), (0x1b, 0x62), (0x1c, 0x62), (0x1d, 0x62), (0x1e, 0x62), (0x1f, 0x62), (0x20, 0x62), (0x21, 0x62),
    (0x22, 0x62), (0x23, 0x62), (0x24, 0x62), (0x25, 0x62), (0x26, 0x62), (0x27, 0x62), (0x28, 0x62), (0x29, 0x62), (0x2a, 0x62), (0x2b, 0x62),
    (0x2c, 0x62), (0x2d, 0x62), (0x2e, 0x62), (0x2f, 0x62), (0x30, 0x62), (0x31, 0x62), (0x32, 0x62), (0x33, 0x62), (0x34, 0x62), (0x35, 0x62),
    (0x36, 0x62), (0x37, 0x62), (0x38, 0x62), (0x39, 0x62), (0x3a, 0x62), (0x3b, 0x62), (0x3c, 0x62), (0x3d, 0x62), (0x3e, 0x62), (0x3f, 0x62),
    (0x40, 0x62), (0x41, 0x62), (0x42, 0x62), (0x43, 0x62), (0x44, 0x62), (0x45, 0x62), (0x46, 0x62), (0x47, 0x62), (0x48, 0x62), (0x49, 0x62),
    (0x4a, 0x62), (0x4b, 0x62), (0x4c, 0x62), (0x4d, 0x62), (0x4e, 0x62), (0x4f, 0x62), (0x50, 0x62), (0x51, 0x62), (0x52, 0x62), (0x53, 0x62),
    (0x54, 0x62), (0x55, 0x62), (0x56, 0x62), (0x57, 0x62), (0x58, 0x62), (0x59, 0x62), (0x5a, 0x62), (0x5b, 0x62), (0x5c, 0x62), (0x5d, 0x62),
    (0x5e, 0x62), (0x5f, 0x62), (0x60, 0x62), (0x61, 0x62), (0x62, 0x62), (0x63, 0x62), (0x64, 0x62), (0x65, 0x62), (0x66, 0x62), (0x67, 0x62),
    (0x68, 0x62), (0x69, 0x62), (0x6a, 0x62), (0x6b, 0x62), (0x6c, 0x62), (0x6d, 0x62), (0x6e, 0x62), (0x6f, 0x62), (0x70, 0x62), (0x71, 0x62),
    (0x72, 0x62), (0x73, 0x62), (0x74, 0x62), (0x75, 0x62), (0x76, 0x62), (0x77, 0x62), (0x78, 0x62), (0x79, 0x62), (0x7a, 0x62), (0x7b, 0x62),
    (0x7c, 0x62), (0x7d, 0x62), (0x7e, 0x62), (0x7f, 0x62), (0x80, 0x62), (0x81, 0x62), (0x82, 0x62), (0x83, 0x62), (0x84, 0x62), (0x85, 0x62)]"

lemma lts_y_1_run [lts_run]: "table_run LTS_STATE_y 150 lts_y_1 300"
proof -
  have run: "lts_y_1 = bytes_up 16 0xf0 0x61 @ bytes_up 134 0 0x62"
    by (simp add: lts_y_1_def bytes_up_numeral)
  show ?thesis by (simp add: run LTS_STATE_y_def bytes_up_run del: bytes_up.simps)
qed

definition lts_y_2 :: "(byte \<times> byte) list" where
  "lts_y_2 = [
    (0x86, 0x62), (0x87, 0x62), (0x88, 0x62), (0x89, 0x62), (0x8a, 0x62), (0x8b, 0x62), (0x8c, 0x62), (0x8d, 0x62), (0x8e, 0x62), (0x8f, 0x62),
    (0x90, 0x62), (0x91, 0x62), (0x92, 0x62), (0x93, 0x62), (0x94, 0x62), (0x95, 0x62), (0x96, 0x62), (0x97, 0x62), (0x98, 0x62), (0x99, 0x62),
    (0x9a, 0x62), (0x9b, 0x62), (0x9c, 0x62), (0x9d, 0x62), (0x9e, 0x62), (0x9f, 0x62), (0xa0, 0x62), (0xa1, 0x62), (0xa2, 0x62), (0xa3, 0x62),
    (0xa4, 0x62), (0xa5, 0x62), (0xa6, 0x62), (0xa7, 0x62), (0xa8, 0x62), (0xa9, 0x62), (0xaa, 0x62), (0xab, 0x62), (0xac, 0x62), (0xad, 0x62),
    (0xae, 0x62), (0xaf, 0x62), (0xb0, 0x62), (0xb1, 0x62), (0xb2, 0x62), (0xb3, 0x62), (0xb4, 0x62), (0xb5, 0x62), (0xb6, 0x62), (0xb7, 0x62),
    (0xb8, 0x62), (0xb9, 0x62), (0xba, 0x62), (0xbb, 0x62), (0xbc, 0x62), (0xbd, 0x62), (0xbe, 0x62), (0xbf, 0x62), (0xc0, 0x62), (0xc1, 0x62),
    (0xc2, 0x62), (0xc3, 0x62), (0xc4, 0x62), (0xc5, 0x62), (0xc6, 0x62), (0xc7, 0x62), (0xc8, 0x62), (0xc9, 0x62), (0xca, 0x62), (0xcb, 0x62),
    (0xcc, 0x62), (0xcd, 0x62), (0xce, 0x62), (0xcf, 0x62), (0xd0, 0x62), (0xd1, 0x62), (0xd2, 0x62), (0xd3, 0x62), (0xd4, 0x62), (0xd5, 0x62),
    (0xd6, 0x62), (0xd7, 0x62), (0xd8, 0x62), (0xd9, 0x62), (0xda, 0x62), (0xdb, 0x62), (0xdc, 0x62), (0xdd, 0x62), (0xde, 0x62), (0xdf, 0x62),
    (0xe0, 0x62), (0xe1, 0x62), (0xe2, 0x62), (0xe3, 0x62), (0xe4, 0x62), (0xe5, 0x62), (0xe6, 0x62), (0xe7, 0x62), (0xe8, 0x62), (0xe9, 0x62),
    (0xea, 0x62), (0xeb, 0x62), (0xec, 0x62), (0xed, 0x62), (0xee, 0x62), (0xef, 0x62), (0xf0, 0x62), (0xf1, 0x62), (0xf2, 0x62), (0xf3, 0x62),
    (0xf4, 0x62), (0xf5, 0x62), (0xf6, 0x62), (0xf7, 0x62), (0xf8, 0x62), (0xf9, 0x62), (0xfa, 0x62), (0xfb, 0x62), (0xfc, 0x62), (0xfd, 0x62),
    (0xfe, 0x62), (0xff, 0x62), (0, 0x63), (1, 0x63), (0x2, 0x63), (0x3, 0x63), (0x4, 0x63), (0x5, 0x63), (0x6, 0x63), (0x7, 0x63),
    (0x8, 0x63), (0x9, 0x63), (0xa, 0x63), (0xb, 0x63), (0xc, 0x63), (0xd, 0x63), (0xe, 0x63), (0xf, 0x63), (0x10, 0x63), (0x11, 0x63),
    (0x12, 0x63), (0x13, 0x63), (0x14, 0x63), (0x15, 0x63), (0x16, 0x63), (0x17, 0x63), (0x18, 0x63), (0x19, 0x63), (0x1a, 0x63), (0x1b, 0x63)]"

lemma lts_y_2_run [lts_run]: "table_run LTS_STATE_y 300 lts_y_2 450"
proof -
  have run: "lts_y_2 = bytes_up 122 0x86 0x62 @ bytes_up 28 0 0x63"
    by (simp add: lts_y_2_def bytes_up_numeral)
  show ?thesis by (simp add: run LTS_STATE_y_def bytes_up_run del: bytes_up.simps)
qed

definition lts_y_3 :: "(byte \<times> byte) list" where
  "lts_y_3 = [
    (0x1c, 0x63), (0x1d, 0x63), (0x1e, 0x63), (0x1f, 0x63), (0x20, 0x63)]"

lemma lts_y_3_run [lts_run]: "table_run LTS_STATE_y 450 lts_y_3 455"
proof -
  have run: "lts_y_3 = bytes_up 5 0x1c 0x63"
    by (simp add: lts_y_3_def bytes_up_numeral)
  show ?thesis by (simp add: run LTS_STATE_y_def bytes_up_run del: bytes_up.simps)
qed

definition lts_table_y :: "(byte \<times> byte) list" where
  "lts_table_y = concat [
     lts_y_0, lts_y_1, lts_y_2, lts_y_3]"

lemma lts_table_y_run: "table_run LTS_STATE_y 0 lts_table_y 455"
  unfolding lts_table_y_def by (rule table_run_nil | rule table_run_concat, rule lts_run)+

lemma lts_table_y_entries [lts_tables]: "entry_at lts_table_y = LTS_STATE_y"
  by (rule table_run_entry [OF lts_table_y_run LTS_STATE_y_def])

section \<open>Letter z\<close>

definition lts_z_0 :: "(byte \<times> byte) list" where
  "lts_z_0 = [
    (0x21, 0x63), (0x22, 0x63), (0x23, 0x63), (0x24, 0x63), (0x25, 0x63), (0x26, 0x63), (0x27, 0x63), (0x28, 0x63), (0x29, 0x63), (0x2a, 0x63),
    (0x2a, 0x63), (0x2b, 0x63), (0x2c, 0x63), (0x2d, 0x63), (0x2e, 0x63), (0x2f, 0x63), (0x30, 0x63), (0x31, 0x63), (0x32, 0x63), (0x33, 0x63),
    (0x34, 0x63), (0x35, 0x63), (0x36, 0x63), (0x37, 0x63), (0x38, 0x63), (0x39, 0x63), (0x3a, 0x63), (0x3b, 0x63), (0x3c, 0x63), (0x3d, 0x63),
    (0x3e, 0x63), (0x3f, 0x63), (0x40, 0x63), (0x41, 0x63), (0x42, 0x63), (0x43, 0x63), (0x44, 0x63), (0x45, 0x63), (0x46, 0x63), (0x47, 0x63),
    (0x48, 0x63), (0x49, 0x63), (0x4a, 0x63), (0x4b, 0x63), (0x4c, 0x63), (0x4d, 0x63), (0x4e, 0x63), (0x4f, 0x63), (0x50, 0x63), (0x51, 0x63),
    (0x52, 0x63), (0x53, 0x63), (0x54, 0x63), (0x55, 0x63), (0x56, 0x63), (0x57, 0x63), (0x58, 0x63), (0x59, 0x63), (0x5a, 0x63), (0x5b, 0x63),
    (0x5c, 0x63), (0x5d, 0x63), (0x5e, 0x63), (0x5f, 0x63), (0x60, 0x63), (0x61, 0x63), (0x62, 0x63), (0x63, 0x63), (0x64, 0x63), (0x65, 0x63),
    (0x66, 0x63), (0x67, 0x63), (0x68, 0x63), (0x69, 0x63), (0x6a, 0x63), (0x6b, 0x63), (0x6c, 0x63), (0x6d, 0x63), (0x6e, 0x63), (0x6f, 0x63),
    (0x70, 0x63), (0x71, 0x63), (0x72, 0x63), (0x73, 0x63), (0x74, 0x63), (0x75, 0x63), (0x76, 0x63), (0x77, 0x63), (0x78, 0x63), (0x79, 0x63),
    (0x7a, 0x63), (0x7b, 0x63), (0x7c, 0x63), (0x7d, 0x63), (0x7e, 0x63), (0x7f, 0x63), (0x80, 0x63), (0x81, 0x63), (0x82, 0x63), (0x83, 0x63),
    (0x84, 0x63), (0x85, 0x63), (0x86, 0x63), (0x87, 0x63), (0x88, 0x63), (0x89, 0x63), (0x8a, 0x63), (0x8b, 0x63), (0x8c, 0x63), (0x8d, 0x63),
    (0x8e, 0x63), (0x8f, 0x63), (0x90, 0x63), (0x91, 0x63), (0x92, 0x63), (0x93, 0x63), (0x94, 0x63), (0x95, 0x63), (0x96, 0x63), (0x97, 0x63),
    (0x98, 0x63), (0x99, 0x63), (0x9a, 0x63), (0x9b, 0x63), (0x9c, 0x63), (0x9d, 0x63), (0x9e, 0x63), (0x9f, 0x63)]"

lemma lts_z_0_run [lts_run]: "table_run LTS_STATE_z 0 lts_z_0 128"
proof -
  have run: "lts_z_0 = bytes_up 10 0x21 0x63 @ bytes_up 118 0x2a 0x63"
    by (simp add: lts_z_0_def bytes_up_numeral)
  show ?thesis by (simp add: run LTS_STATE_z_def bytes_up_run del: bytes_up.simps)
qed

definition lts_table_z :: "(byte \<times> byte) list" where
  "lts_table_z = concat [
     lts_z_0]"

lemma lts_table_z_run: "table_run LTS_STATE_z 0 lts_table_z 128"
  unfolding lts_table_z_def by (rule table_run_nil | rule table_run_concat, rule lts_run)+

lemma lts_table_z_entries [lts_tables]: "entry_at lts_table_z = LTS_STATE_z"
  by (rule table_run_entry [OF lts_table_z_run LTS_STATE_z_def])

end
