(* ===== verification/LtsTables.thy ===== *)
theory LtsTables
  imports LtsTableA LtsTableE LtsTableI LtsTableO LtsTableU
begin

text \<open>
  The tables of all 26 letters together: the pair the header spells out for a state is the pair the
  arithmetic of LetterToSound gives for it, for every letter and every number of a state.
\<close>

definition lts_tables :: "(char \<times> (byte \<times> byte) list) list" where
  "lts_tables = [
    (CHR ''a'', lts_table_a), (CHR ''b'', lts_table_b), (CHR ''c'', lts_table_c),
    (CHR ''d'', lts_table_d), (CHR ''e'', lts_table_e), (CHR ''f'', lts_table_f),
    (CHR ''g'', lts_table_g), (CHR ''h'', lts_table_h), (CHR ''i'', lts_table_i),
    (CHR ''j'', lts_table_j), (CHR ''k'', lts_table_k), (CHR ''l'', lts_table_l),
    (CHR ''m'', lts_table_m), (CHR ''n'', lts_table_n), (CHR ''o'', lts_table_o),
    (CHR ''p'', lts_table_p), (CHR ''q'', lts_table_q), (CHR ''r'', lts_table_r),
    (CHR ''s'', lts_table_s), (CHR ''t'', lts_table_t), (CHR ''u'', lts_table_u),
    (CHR ''v'', lts_table_v), (CHR ''w'', lts_table_w), (CHR ''x'', lts_table_x),
    (CHR ''y'', lts_table_y), (CHR ''z'', lts_table_z)]"

text \<open>The bytes that LTS_STATE_c_n expands to, looked up in the spelled-out tables.\<close>

definition lts_spelled :: "char \<Rightarrow> nat \<Rightarrow> (byte \<times> byte) option" where
  "lts_spelled c n = (case map_of lts_tables c of None \<Rightarrow> None | Some t \<Rightarrow> entry_at t n)"

text \<open>The same by the arithmetic.\<close>

definition lts_state :: "char \<Rightarrow> nat \<Rightarrow> (byte \<times> byte) option" where
  "lts_state c n = (case map_of lts_letters c of None \<Rightarrow> None | Some f \<Rightarrow> f n)"

lemma lts_table_entries:
  "map (\<lambda>(c, t). (c, entry_at t)) lts_tables = lts_letters"
  by (simp add: lts_tables_def lts_letters_def lts_tables)

lemma lts_states_joined: "lts_spelled = lts_state"
proof -
  have "map_of lts_letters c = map_option entry_at (map_of lts_tables c)" for c
  proof -
    have "map_of (map (\<lambda>(c, t). (c, entry_at t)) ts) c = map_option entry_at (map_of ts c)"
      for ts :: "(char \<times> (byte \<times> byte) list) list"
      by (induction ts) auto
    then show ?thesis by (simp flip: lts_table_entries)
  qed
  then show ?thesis by (auto simp: fun_eq_iff lts_spelled_def lts_state_def split: option.split)
qed

lemma lts_state_block:
  "lts_state c n = (case map_of lts_params c of None \<Rightarrow> None | Some (b, d, l) \<Rightarrow> lts_block b d l n)"
proof -
  have "map_of (map (\<lambda>(c, b, d, l). (c, lts_block b d l)) ps) c
      = map_option (\<lambda>(b, d, l). lts_block b d l) (map_of ps c)" for ps
    by (induction ps) auto
  then show ?thesis
    by (simp only: lts_state_def lts_letters_params) (auto split: option.split)
qed

text \<open>C25. The 25,530 byte pairs of the header are what the arithmetic on a letter's base, shared address
  and number of states gives, for every letter and every number; read as addresses they are the numbers
  below 25,504, without a gap.\<close>

theorem lts_tables_are_blocks:
  "lts_spelled c n = (case map_of lts_params c of None \<Rightarrow> None | Some (b, d, l) \<Rightarrow> lts_block b d l n)
    \<and> ((\<exists>c n t. lts_spelled c n = Some t \<and> bytes_addr t = a) \<longleftrightarrow> a < 25504)"
proof -
  have "lts_address c n = map_option bytes_addr (lts_spelled c n)" for c n
    by (simp add: lts_address_def lts_states_joined lts_state_def split: option.split)
  then have "(\<exists>c n t. lts_spelled c n = Some t \<and> bytes_addr t = a) \<longleftrightarrow> (\<exists>c n. lts_address c n = Some a)"
    by auto
  then show ?thesis by (simp only: lts_addresses_gap_free) (simp add: lts_states_joined lts_state_block)
qed

end
