(* ===== verification/Layout.thy ===== *)
theory Layout
  imports Main
begin

text \<open>
  Where a C compiler puts the members of a structure, each given by its size and alignment, and the size of
  the whole: every member starts at the next multiple of its alignment, and the size is a multiple of the
  largest one.
\<close>

definition roundUp :: "nat \<Rightarrow> nat \<Rightarrow> nat" where
  "roundUp a n = (if n mod a = 0 then n else n + (a - n mod a))"

fun structOffsets :: "nat \<Rightarrow> (nat \<times> nat) list \<Rightarrow> nat list" where
  "structOffsets p [] = []"
| "structOffsets p ((s, a) # ms) = roundUp a p # structOffsets (roundUp a p + s) ms"

fun structEnd :: "nat \<Rightarrow> (nat \<times> nat) list \<Rightarrow> nat" where
  "structEnd p [] = p"
| "structEnd p ((s, a) # ms) = structEnd (roundUp a p + s) ms"

definition structSize :: "(nat \<times> nat) list \<Rightarrow> nat" where
  "structSize ms = roundUp (foldr (max \<circ> snd) ms 1) (structEnd 0 ms)"

lemma roundUp_dvd: "0 < a \<Longrightarrow> a dvd roundUp a n"
proof -
  assume "0 < a"
  then have "(n + (a - n mod a)) mod a = 0" if "n mod a \<noteq> 0"
  proof -
    have "n + (a - n mod a) = n div a * a + a"
      using \<open>0 < a\<close> div_mult_mod_eq [of n a] mod_less_divisor [of a n] by linarith
    then show ?thesis by simp
  qed
  then show ?thesis by (auto simp: roundUp_def mod_eq_0_iff_dvd)
qed

lemma roundUp_ge: "n \<le> roundUp a n"
  by (simp add: roundUp_def)

text \<open>No member overlaps the next one, and all are inside the structure.\<close>

lemma structEnd_ge: "p \<le> structEnd p ms"
proof (induction p ms rule: structEnd.induct)
  case (2 p s a ms)
  then show ?case using roundUp_ge [of p a] by simp
qed simp

lemma member_inside:
  "i < length ms \<Longrightarrow> structOffsets p ms ! i + fst (ms ! i) \<le> structEnd p ms"
proof (induction p ms arbitrary: i rule: structEnd.induct)
  case (2 p s a ms)
  then show ?case using structEnd_ge by (cases i) auto
qed simp

lemma length_structOffsets [simp]: "length (structOffsets p ms) = length ms"
  by (induction p ms rule: structOffsets.induct) auto

lemma members_apart:
  "j < length ms \<Longrightarrow> i < j \<Longrightarrow> structOffsets p ms ! i + fst (ms ! i) \<le> structOffsets p ms ! j"
proof (induction p ms arbitrary: i j rule: structOffsets.induct)
  case (2 p s a ms)
  have le: "q \<le> structOffsets q ms ! k" if "k < length ms" for q k
    using that
  proof (induction q ms arbitrary: k rule: structOffsets.induct)
    case (2 q s a ms)
    then show ?case using roundUp_ge [of q a] by (cases k) (auto intro: le_trans trans_le_add1)
  qed simp
  show ?case
  proof (cases i)
    case 0
    with 2 le show ?thesis by (cases j) auto
  next
    case (Suc i')
    with 2 show ?thesis by (cases j) auto
  qed
qed simp

end
