(* ===== verification/LtsRules.thy ===== *)
theory LtsRules
  imports LtsTables MachineOrder Layout
begin

text \<open>
  The letter-to-sound rules as cst_lts.h lays them out in memory: a rule is a structure of a feature, a
  value and the addresses of the two rules that may follow.  A rule array is spelled out in bytes, with
  the state macros of cmu_lts_model.h for the addresses, and read as structures.  What applies the rules
  (\<open>lts_apply\<close>) has no source in the repository.
\<close>

section \<open>Types\<close>

type_synonym cst_lts_addr = "16 word"
type_synonym cst_lts_feat = byte
type_synonym cst_lts_letter = byte
type_synonym cst_lts_model = byte

definition CST_LTS_EOR :: cst_lts_feat where "CST_LTS_EOR = 255"

record cst_lts_rule =
  feat :: cst_lts_feat
  val :: cst_lts_letter
  qtrue :: cst_lts_addr
  qfalse :: cst_lts_addr

text \<open>The rules of a voice.  A pointer to an array is the list of what it points to, a null pointer is
  \<open>None\<close>.\<close>

record cst_lts_rules =
  name :: string
  letter_index :: "cst_lts_addr list"
  models :: "cst_lts_model list"
  phone_table :: "string list"
  context_window_size :: "32 word"
  context_extra_feats :: "32 word"
  letter_table :: "string list option"

section \<open>The structure in memory\<close>

text \<open>The members of a rule: two unsigned chars and two unsigned shorts.\<close>

definition cst_lts_rule_members :: "(nat \<times> nat) list" where
  "cst_lts_rule_members = [(1, 1), (1, 1), (2, 2), (2, 2)]"

text \<open>A rule read at the byte \<open>p\<close> of the array.\<close>

definition cst_lts_rule_at :: "machine \<Rightarrow> cst_lts_model list \<Rightarrow> nat \<Rightarrow> cst_lts_rule" where
  "cst_lts_rule_at mach A p =
     (let off = structOffsets 0 cst_lts_rule_members in
      \<lparr>feat = A ! (p + off ! 0), val = A ! (p + off ! 1),
       qtrue = nativeWord mach (block A (p + off ! 2) 2), qfalse = nativeWord mach (block A (p + off ! 3) 2)\<rparr>)"

text \<open>The bytes of a rule as an array of rules spells them: a feature, a value and two state macros.\<close>

definition lts_rule_bytes :: "byte \<Rightarrow> byte \<Rightarrow> byte \<times> byte \<Rightarrow> byte \<times> byte \<Rightarrow> cst_lts_model list" where
  "lts_rule_bytes f v t e = [f, v, fst t, snd t, fst e, snd e]"

section \<open>Lemmas\<close>

lemma structOffsets_rule [simp]: "structOffsets 0 cst_lts_rule_members = [0, 1, 2, 4]"
  by (simp add: cst_lts_rule_members_def roundUp_def)

lemma nativeWord_pair:
  "nativeWord mach [a, b] = (if mach = HighFirst then uint2korr [b, a] 0 else uint2korr [a, b] 0 :: 16 word)"
  by (simp add: nativeWord_def uint_korr_leInt)

lemma uint2korr_bytes_addr: "uint2korr [a, b] 0 = of_nat (bytes_addr (a, b))"
  by (simp add: bytes_addr_def)

lemma rule_at_end:
  "cst_lts_rule_at mach (pre @ lts_rule_bytes f v t e @ post) (length pre) =
     \<lparr>feat = f, val = v, qtrue = nativeWord mach [fst t, snd t], qfalse = nativeWord mach [fst e, snd e]\<rparr>"
  by (simp add: cst_lts_rule_at_def lts_rule_bytes_def block_numeral nth_append)

lemma lts_address_state: "lts_address c n = map_option bytes_addr (lts_state c n)"
  by (simp add: lts_address_def lts_state_def split: option.split)

section \<open>Properties\<close>

text \<open>A rule is six bytes, as the header says; where a rule array spells the two addresses with state
  macros, the structure read there holds the addresses of these states, if the machine has the low byte
  first, and the two rules are inside the array of 25,504 rules.  On a machine with the high byte first it
  holds the addresses with their bytes swapped.\<close>

theorem lts_rule_reads_states:
  assumes "lts_spelled c n = Some t" and "lts_spelled c' n' = Some e"
  shows "structSize cst_lts_rule_members = length (lts_rule_bytes f v t e)
    \<and> (mach \<noteq> HighFirst \<longrightarrow>
         (\<exists>a a'. lts_address c n = Some a \<and> a < 25504 \<and> lts_address c' n' = Some a' \<and> a' < 25504
            \<and> cst_lts_rule_at mach (pre @ lts_rule_bytes f v t e @ post) (length pre)
              = \<lparr>feat = f, val = v, qtrue = of_nat a, qfalse = of_nat a'\<rparr>))
    \<and> cst_lts_rule_at HighFirst (pre @ lts_rule_bytes f v t e @ post) (length pre)
        = \<lparr>feat = f, val = v, qtrue = of_nat (bytes_addr (snd t, fst t)), qfalse = of_nat (bytes_addr (snd e, fst e))\<rparr>"
proof -
  have addr: "lts_address c n = Some (bytes_addr t)" "lts_address c' n' = Some (bytes_addr e)"
    using assms by (simp_all add: lts_address_state flip: lts_states_joined)
  then have small: "bytes_addr t < 25504" "bytes_addr e < 25504"
    using lts_addresses_gap_free by blast+
  have "structSize cst_lts_rule_members = 6"
    by code_simp
  then have "structSize cst_lts_rule_members = length (lts_rule_bytes f v t e)"
    by (simp add: lts_rule_bytes_def)
  with addr small show ?thesis
    by (simp add: rule_at_end nativeWord_pair uint2korr_bytes_addr)
qed

theorem lts_rule_reads_states_witness:
  "structSize cst_lts_rule_members = length (lts_rule_bytes 3 97 (0x76, 0x4d) (0x77, 0x4d))
    \<and> cst_lts_rule_at I386 ([1, 2] @ lts_rule_bytes 3 97 (0x76, 0x4d) (0x77, 0x4d) @ [9]) 2
        = \<lparr>feat = 3, val = 97, qtrue = 19830, qfalse = 19831\<rparr>"
proof -
  have q: "lts_spelled CHR ''q'' 0 = Some (0x76, 0x4d)" "lts_spelled CHR ''q'' 1 = Some (0x77, 0x4d)"
    by (simp_all add: lts_states_joined lts_state_def lts_letters_def LTS_STATE_q_def lts_state_calc)
  have "lts_address CHR ''q'' 0 = Some 19830" "lts_address CHR ''q'' 1 = Some 19831"
    unfolding lts_address_iff
    by (auto simp: lts_params_def intro!: exI [of _ 19830] exI [of _ 1] exI [of _ 2])
  then show ?thesis
    using lts_rule_reads_states [OF q, where f = 3 and v = 97 and mach = I386 and pre = "[1, 2]" and post = "[9]"]
    by (simp add: numeral_2_eq_2)
qed

end
