(* ===== verification/TableFlags.thy ===== *)
theory TableFlags
  imports Main "HOL-Library.Word"
begin

text \<open>
  The constants of include/my_base.h that the storage engines share: enumerations with the numbers C gives
  them, and families of flags, each the list of its names and bits.  A set of flags is the word with the
  bits of its members.
\<close>

unbundle bit_operations_syntax

section \<open>Enumerations\<close>

datatype ha_rkey_function =
    HA_READ_KEY_EXACT | HA_READ_KEY_OR_NEXT | HA_READ_KEY_OR_PREV | HA_READ_AFTER_KEY |
  HA_READ_BEFORE_KEY | HA_READ_PREFIX | HA_READ_PREFIX_LAST | HA_READ_PREFIX_LAST_OR_PREV |
  HA_READ_MBR_CONTAIN | HA_READ_MBR_INTERSECT | HA_READ_MBR_WITHIN | HA_READ_MBR_DISJOINT |
  HA_READ_MBR_EQUAL

fun rkeyNumber :: "ha_rkey_function \<Rightarrow> nat" where
  "rkeyNumber HA_READ_KEY_EXACT = 0"
| "rkeyNumber HA_READ_KEY_OR_NEXT = 1"
| "rkeyNumber HA_READ_KEY_OR_PREV = 2"
| "rkeyNumber HA_READ_AFTER_KEY = 3"
| "rkeyNumber HA_READ_BEFORE_KEY = 4"
| "rkeyNumber HA_READ_PREFIX = 5"
| "rkeyNumber HA_READ_PREFIX_LAST = 6"
| "rkeyNumber HA_READ_PREFIX_LAST_OR_PREV = 7"
| "rkeyNumber HA_READ_MBR_CONTAIN = 8"
| "rkeyNumber HA_READ_MBR_INTERSECT = 9"
| "rkeyNumber HA_READ_MBR_WITHIN = 10"
| "rkeyNumber HA_READ_MBR_DISJOINT = 11"
| "rkeyNumber HA_READ_MBR_EQUAL = 12"

datatype ha_key_alg =
    HA_KEY_ALG_UNDEF | HA_KEY_ALG_BTREE | HA_KEY_ALG_RTREE | HA_KEY_ALG_HASH | HA_KEY_ALG_FULLTEXT

fun keyAlgNumber :: "ha_key_alg \<Rightarrow> nat" where
  "keyAlgNumber HA_KEY_ALG_UNDEF = 0"
| "keyAlgNumber HA_KEY_ALG_BTREE = 1"
| "keyAlgNumber HA_KEY_ALG_RTREE = 2"
| "keyAlgNumber HA_KEY_ALG_HASH = 3"
| "keyAlgNumber HA_KEY_ALG_FULLTEXT = 4"

datatype ha_build_method =
    HA_BUILD_DEFAULT | HA_BUILD_ONLINE | HA_BUILD_OFFLINE

fun buildNumber :: "ha_build_method \<Rightarrow> nat" where
  "buildNumber HA_BUILD_DEFAULT = 0"
| "buildNumber HA_BUILD_ONLINE = 1"
| "buildNumber HA_BUILD_OFFLINE = 2"

datatype ha_storage_media =
    HA_SM_DEFAULT | HA_SM_DISK | HA_SM_MEMORY

fun mediaNumber :: "ha_storage_media \<Rightarrow> nat" where
  "mediaNumber HA_SM_DEFAULT = 0"
| "mediaNumber HA_SM_DISK = 1"
| "mediaNumber HA_SM_MEMORY = 2"

datatype ha_extra_function =
    HA_EXTRA_NORMAL | HA_EXTRA_QUICK | HA_EXTRA_NOT_USED | HA_EXTRA_CACHE | HA_EXTRA_NO_CACHE |
  HA_EXTRA_NO_READCHECK | HA_EXTRA_READCHECK | HA_EXTRA_KEYREAD | HA_EXTRA_NO_KEYREAD |
  HA_EXTRA_NO_USER_CHANGE | HA_EXTRA_KEY_CACHE | HA_EXTRA_NO_KEY_CACHE | HA_EXTRA_WAIT_LOCK |
  HA_EXTRA_NO_WAIT_LOCK | HA_EXTRA_WRITE_CACHE | HA_EXTRA_FLUSH_CACHE | HA_EXTRA_NO_KEYS |
  HA_EXTRA_KEYREAD_CHANGE_POS | HA_EXTRA_REMEMBER_POS | HA_EXTRA_RESTORE_POS | HA_EXTRA_REINIT_CACHE |
  HA_EXTRA_FORCE_REOPEN | HA_EXTRA_FLUSH | HA_EXTRA_NO_ROWS | HA_EXTRA_RESET_STATE |
  HA_EXTRA_IGNORE_DUP_KEY | HA_EXTRA_NO_IGNORE_DUP_KEY | HA_EXTRA_PREPARE_FOR_DROP |
  HA_EXTRA_PREPARE_FOR_UPDATE | HA_EXTRA_PRELOAD_BUFFER_SIZE | HA_EXTRA_CHANGE_KEY_TO_UNIQUE |
  HA_EXTRA_CHANGE_KEY_TO_DUP | HA_EXTRA_KEYREAD_PRESERVE_FIELDS | HA_EXTRA_MMAP |
  HA_EXTRA_IGNORE_NO_KEY | HA_EXTRA_NO_IGNORE_NO_KEY | HA_EXTRA_MARK_AS_LOG_TABLE |
  HA_EXTRA_WRITE_CAN_REPLACE | HA_EXTRA_WRITE_CANNOT_REPLACE | HA_EXTRA_DELETE_CANNOT_BATCH |
  HA_EXTRA_UPDATE_CANNOT_BATCH | HA_EXTRA_INSERT_WITH_UPDATE | HA_EXTRA_PREPARE_FOR_RENAME |
  HA_EXTRA_ADD_CHILDREN_LIST | HA_EXTRA_ATTACH_CHILDREN | HA_EXTRA_IS_ATTACHED_CHILDREN |
  HA_EXTRA_DETACH_CHILDREN | HA_EXTRA_ORDERBY_LIMIT | HA_EXTRA_NO_ORDERBY_LIMIT |
  HA_EXTRA_PREPARE_FOR_FORCED_CLOSE | HA_EXTRA_ALLOW_LOG_DELETE

fun extraNumber :: "ha_extra_function \<Rightarrow> nat" where
  "extraNumber HA_EXTRA_NORMAL = 0"
| "extraNumber HA_EXTRA_QUICK = 1"
| "extraNumber HA_EXTRA_NOT_USED = 2"
| "extraNumber HA_EXTRA_CACHE = 3"
| "extraNumber HA_EXTRA_NO_CACHE = 4"
| "extraNumber HA_EXTRA_NO_READCHECK = 5"
| "extraNumber HA_EXTRA_READCHECK = 6"
| "extraNumber HA_EXTRA_KEYREAD = 7"
| "extraNumber HA_EXTRA_NO_KEYREAD = 8"
| "extraNumber HA_EXTRA_NO_USER_CHANGE = 9"
| "extraNumber HA_EXTRA_KEY_CACHE = 10"
| "extraNumber HA_EXTRA_NO_KEY_CACHE = 11"
| "extraNumber HA_EXTRA_WAIT_LOCK = 12"
| "extraNumber HA_EXTRA_NO_WAIT_LOCK = 13"
| "extraNumber HA_EXTRA_WRITE_CACHE = 14"
| "extraNumber HA_EXTRA_FLUSH_CACHE = 15"
| "extraNumber HA_EXTRA_NO_KEYS = 16"
| "extraNumber HA_EXTRA_KEYREAD_CHANGE_POS = 17"
| "extraNumber HA_EXTRA_REMEMBER_POS = 18"
| "extraNumber HA_EXTRA_RESTORE_POS = 19"
| "extraNumber HA_EXTRA_REINIT_CACHE = 20"
| "extraNumber HA_EXTRA_FORCE_REOPEN = 21"
| "extraNumber HA_EXTRA_FLUSH = 22"
| "extraNumber HA_EXTRA_NO_ROWS = 23"
| "extraNumber HA_EXTRA_RESET_STATE = 24"
| "extraNumber HA_EXTRA_IGNORE_DUP_KEY = 25"
| "extraNumber HA_EXTRA_NO_IGNORE_DUP_KEY = 26"
| "extraNumber HA_EXTRA_PREPARE_FOR_DROP = 27"
| "extraNumber HA_EXTRA_PREPARE_FOR_UPDATE = 28"
| "extraNumber HA_EXTRA_PRELOAD_BUFFER_SIZE = 29"
| "extraNumber HA_EXTRA_CHANGE_KEY_TO_UNIQUE = 30"
| "extraNumber HA_EXTRA_CHANGE_KEY_TO_DUP = 31"
| "extraNumber HA_EXTRA_KEYREAD_PRESERVE_FIELDS = 32"
| "extraNumber HA_EXTRA_MMAP = 33"
| "extraNumber HA_EXTRA_IGNORE_NO_KEY = 34"
| "extraNumber HA_EXTRA_NO_IGNORE_NO_KEY = 35"
| "extraNumber HA_EXTRA_MARK_AS_LOG_TABLE = 36"
| "extraNumber HA_EXTRA_WRITE_CAN_REPLACE = 37"
| "extraNumber HA_EXTRA_WRITE_CANNOT_REPLACE = 38"
| "extraNumber HA_EXTRA_DELETE_CANNOT_BATCH = 39"
| "extraNumber HA_EXTRA_UPDATE_CANNOT_BATCH = 40"
| "extraNumber HA_EXTRA_INSERT_WITH_UPDATE = 41"
| "extraNumber HA_EXTRA_PREPARE_FOR_RENAME = 42"
| "extraNumber HA_EXTRA_ADD_CHILDREN_LIST = 43"
| "extraNumber HA_EXTRA_ATTACH_CHILDREN = 44"
| "extraNumber HA_EXTRA_IS_ATTACHED_CHILDREN = 45"
| "extraNumber HA_EXTRA_DETACH_CHILDREN = 46"
| "extraNumber HA_EXTRA_ORDERBY_LIMIT = 47"
| "extraNumber HA_EXTRA_NO_ORDERBY_LIMIT = 48"
| "extraNumber HA_EXTRA_PREPARE_FOR_FORCED_CLOSE = 49"
| "extraNumber HA_EXTRA_ALLOW_LOG_DELETE = 50"

datatype ha_panic_function =
    HA_PANIC_CLOSE | HA_PANIC_WRITE | HA_PANIC_READ

fun panicNumber :: "ha_panic_function \<Rightarrow> nat" where
  "panicNumber HA_PANIC_CLOSE = 0"
| "panicNumber HA_PANIC_WRITE = 1"
| "panicNumber HA_PANIC_READ = 2"

datatype ha_base_keytype =
    HA_KEYTYPE_END | HA_KEYTYPE_TEXT | HA_KEYTYPE_BINARY | HA_KEYTYPE_SHORT_INT | HA_KEYTYPE_LONG_INT |
  HA_KEYTYPE_FLOAT | HA_KEYTYPE_DOUBLE | HA_KEYTYPE_NUM | HA_KEYTYPE_USHORT_INT |
  HA_KEYTYPE_ULONG_INT | HA_KEYTYPE_LONGLONG | HA_KEYTYPE_ULONGLONG | HA_KEYTYPE_INT24 |
  HA_KEYTYPE_UINT24 | HA_KEYTYPE_INT8 | HA_KEYTYPE_VARTEXT1 | HA_KEYTYPE_VARBINARY1 |
  HA_KEYTYPE_VARTEXT2 | HA_KEYTYPE_VARBINARY2 | HA_KEYTYPE_BIT

fun keytypeNumber :: "ha_base_keytype \<Rightarrow> nat" where
  "keytypeNumber HA_KEYTYPE_END = 0"
| "keytypeNumber HA_KEYTYPE_TEXT = 1"
| "keytypeNumber HA_KEYTYPE_BINARY = 2"
| "keytypeNumber HA_KEYTYPE_SHORT_INT = 3"
| "keytypeNumber HA_KEYTYPE_LONG_INT = 4"
| "keytypeNumber HA_KEYTYPE_FLOAT = 5"
| "keytypeNumber HA_KEYTYPE_DOUBLE = 6"
| "keytypeNumber HA_KEYTYPE_NUM = 7"
| "keytypeNumber HA_KEYTYPE_USHORT_INT = 8"
| "keytypeNumber HA_KEYTYPE_ULONG_INT = 9"
| "keytypeNumber HA_KEYTYPE_LONGLONG = 10"
| "keytypeNumber HA_KEYTYPE_ULONGLONG = 11"
| "keytypeNumber HA_KEYTYPE_INT24 = 12"
| "keytypeNumber HA_KEYTYPE_UINT24 = 13"
| "keytypeNumber HA_KEYTYPE_INT8 = 14"
| "keytypeNumber HA_KEYTYPE_VARTEXT1 = 15"
| "keytypeNumber HA_KEYTYPE_VARBINARY1 = 16"
| "keytypeNumber HA_KEYTYPE_VARTEXT2 = 17"
| "keytypeNumber HA_KEYTYPE_VARBINARY2 = 18"
| "keytypeNumber HA_KEYTYPE_BIT = 19"

datatype en_fieldtype =
    FIELD_LAST | FIELD_NORMAL | FIELD_SKIP_ENDSPACE | FIELD_SKIP_PRESPACE | FIELD_SKIP_ZERO |
  FIELD_BLOB | FIELD_CONSTANT | FIELD_INTERVALL | FIELD_ZERO | FIELD_VARCHAR | FIELD_CHECK |
  FIELD_enum_val_count

fun fieldtypeNumber :: "en_fieldtype \<Rightarrow> int" where
  "fieldtypeNumber FIELD_LAST = - 1"
| "fieldtypeNumber FIELD_NORMAL = 0"
| "fieldtypeNumber FIELD_SKIP_ENDSPACE = 1"
| "fieldtypeNumber FIELD_SKIP_PRESPACE = 2"
| "fieldtypeNumber FIELD_SKIP_ZERO = 3"
| "fieldtypeNumber FIELD_BLOB = 4"
| "fieldtypeNumber FIELD_CONSTANT = 5"
| "fieldtypeNumber FIELD_INTERVALL = 6"
| "fieldtypeNumber FIELD_ZERO = 7"
| "fieldtypeNumber FIELD_VARCHAR = 8"
| "fieldtypeNumber FIELD_CHECK = 9"
| "fieldtypeNumber FIELD_enum_val_count = 10"

datatype data_file_type =
    STATIC_RECORD | DYNAMIC_RECORD | COMPRESSED_RECORD | BLOCK_RECORD

fun dataFileNumber :: "data_file_type \<Rightarrow> nat" where
  "dataFileNumber STATIC_RECORD = 0"
| "dataFileNumber DYNAMIC_RECORD = 1"
| "dataFileNumber COMPRESSED_RECORD = 2"
| "dataFileNumber BLOCK_RECORD = 3"

section \<open>Families of flags\<close>

definition HA_OPEN_ABORT_IF_LOCKED :: "32 word" where "HA_OPEN_ABORT_IF_LOCKED = 0"

definition open_flags :: "(string \<times> 32 word) list" where
  "open_flags = [
    (''HA_OPEN_WAIT_IF_LOCKED'', 1), (''HA_OPEN_IGNORE_IF_LOCKED'', 2), (''HA_OPEN_TMP_TABLE'', 4),
    (''HA_OPEN_DELAY_KEY_WRITE'', 8), (''HA_OPEN_ABORT_IF_CRASHED'', 16), (''HA_OPEN_FOR_REPAIR'', 32),
    (''HA_OPEN_FROM_SQL_LAYER'', 64), (''HA_OPEN_MMAP'', 128), (''HA_OPEN_COPY'', 256),
    (''HA_OPEN_INTERNAL_TABLE'', 512)]"

definition key_flags :: "(string \<times> 32 word) list" where
  "key_flags = [
    (''HA_NOSAME'', 1), (''HA_PACK_KEY'', 2), (''HA_AUTO_KEY'', 16), (''HA_BINARY_PACK_KEY'', 32),
    (''HA_FULLTEXT'', 128), (''HA_UNIQUE_CHECK'', 256), (''HA_SPATIAL'', 1024),
    (''HA_NULL_ARE_EQUAL'', 2048), (''HA_GENERATED_KEY'', 8192), (''HA_RTREE_INDEX'', 16384)]"

definition automatic_key_flags :: "(string \<times> 32 word) list" where
  "automatic_key_flags = [
    (''HA_SPACE_PACK_USED'', 4), (''HA_VAR_LENGTH_KEY'', 8), (''HA_NULL_PART_KEY'', 64),
    (''HA_USES_COMMENT'', 4096), (''HA_USES_PARSER'', 16384), (''HA_USES_BLOCK_SIZE'', 32768),
    (''HA_SORT_ALLOWS_SAME'', 512)]"

definition key_seg_flags :: "(string \<times> 32 word) list" where
  "key_seg_flags = [
    (''HA_SPACE_PACK'', 1), (''HA_PART_KEY_SEG'', 4), (''HA_VAR_LENGTH_PART'', 8),
    (''HA_NULL_PART'', 16), (''HA_BLOB_PART'', 32), (''HA_SWAP_KEY'', 64), (''HA_REVERSE_SORT'', 128),
    (''HA_NO_SORT'', 256), (''HA_END_SPACE_ARE_EQUAL'', 512), (''HA_BIT_PART'', 1024)]"

definition database_options :: "(string \<times> 32 word) list" where
  "database_options = [
    (''HA_OPTION_PACK_RECORD'', 1), (''HA_OPTION_PACK_KEYS'', 2), (''HA_OPTION_COMPRESS_RECORD'', 4),
    (''HA_OPTION_LONG_BLOB_PTR'', 8), (''HA_OPTION_TMP_TABLE'', 16), (''HA_OPTION_CHECKSUM'', 32),
    (''HA_OPTION_DELAY_KEY_WRITE'', 64), (''HA_OPTION_NO_PACK_KEYS'', 128),
    (''HA_OPTION_CREATE_FROM_ENGINE'', 256), (''HA_OPTION_RELIES_ON_SQL_LAYER'', 512),
    (''HA_OPTION_NULL_FIELDS'', 1024), (''HA_OPTION_PAGE_CHECKSUM'', 2048),
    (''HA_OPTION_TEMP_COMPRESS_RECORD'', 32768), (''HA_OPTION_READ_ONLY_DATA'', 65536),
    (''HA_OPTION_NO_CHECKSUM'', 131072), (''HA_OPTION_NO_DELAY_KEY_WRITE'', 262144)]"

definition create_flags :: "(string \<times> 32 word) list" where
  "create_flags = [
    (''HA_DONT_TOUCH_DATA'', 1), (''HA_PACK_RECORD'', 2), (''HA_CREATE_TMP_TABLE'', 4),
    (''HA_CREATE_CHECKSUM'', 8), (''HA_CREATE_KEEP_FILES'', 16), (''HA_CREATE_PAGE_CHECKSUM'', 32),
    (''HA_CREATE_DELAY_KEY_WRITE'', 64), (''HA_CREATE_RELIES_ON_SQL_LAYER'', 128)]"

definition status_flags :: "(string \<times> 32 word) list" where
  "status_flags = [
    (''HA_STATUS_POS'', 1), (''HA_STATUS_NO_LOCK'', 2), (''HA_STATUS_TIME'', 4),
    (''HA_STATUS_CONST'', 8), (''HA_STATUS_VARIABLE'', 16), (''HA_STATUS_ERRKEY'', 32),
    (''HA_STATUS_AUTO'', 64)]"

definition search_bits :: "(string \<times> 32 word) list" where
  "search_bits = [
    (''SEARCH_FIND'', 1), (''SEARCH_NO_FIND'', 2), (''SEARCH_SAME'', 4), (''SEARCH_BIGGER'', 8),
    (''SEARCH_SMALLER'', 16), (''SEARCH_SAVE_BUFF'', 32), (''SEARCH_UPDATE'', 64),
    (''SEARCH_PREFIX'', 128), (''SEARCH_LAST'', 256), (''MBR_CONTAIN'', 512), (''MBR_INTERSECT'', 1024),
    (''MBR_WITHIN'', 2048), (''MBR_DISJOINT'', 4096), (''MBR_EQUAL'', 8192), (''MBR_DATA'', 16384),
    (''SEARCH_NULL_ARE_EQUAL'', 32768), (''SEARCH_NULL_ARE_NOT_EQUAL'', 65536)]"

definition opt_flags :: "(string \<times> 32 word) list" where
  "opt_flags = [
    (''QUICK_USED'', 1), (''READ_CACHE_USED'', 2), (''READ_CHECK_USED'', 4), (''KEY_READ_USED'', 8),
    (''WRITE_CACHE_USED'', 16), (''OPT_NO_ROWS'', 32)]"

definition update_flags :: "(string \<times> 32 word) list" where
  "update_flags = [
    (''HA_STATE_CHANGED'', 1), (''HA_STATE_AKTIV'', 2), (''HA_STATE_WRITTEN'', 4),
    (''HA_STATE_DELETED'', 8), (''HA_STATE_NEXT_FOUND'', 16), (''HA_STATE_PREV_FOUND'', 32),
    (''HA_STATE_NO_KEY'', 64), (''HA_STATE_KEY_CHANGED'', 128), (''HA_STATE_WRITE_AT_END'', 256),
    (''HA_STATE_BUFF_SAVED'', 512), (''HA_STATE_ROW_CHANGED'', 1024), (''HA_STATE_EXTEND_BLOCK'', 2048),
    (''HA_STATE_RNEXT_SAME'', 4096)]"

definition range_flags :: "(string \<times> 32 word) list" where
  "range_flags = [
    (''NO_MIN_RANGE'', 1), (''NO_MAX_RANGE'', 2), (''NEAR_MIN'', 4), (''NEAR_MAX'', 8),
    (''UNIQUE_RANGE'', 16), (''EQ_RANGE'', 32), (''NULL_RANGE'', 64), (''GEOM_FLAG'', 128),
    (''SKIP_RANGE'', 256), (''EMPTY_RANGE'', 512)]"

definition HA_KEYFLAG_MASK :: "32 word" where
  "HA_KEYFLAG_MASK = (1 OR 2 OR 16 OR 32 OR 128 OR 256 OR 1024 OR 2048 OR 8192 OR 16384)"

definition HA_KEY_HAS_PART_KEY_SEG :: "32 word" where "HA_KEY_HAS_PART_KEY_SEG = 65536"
definition HA_END_SPACE_KEY :: "32 word" where "HA_END_SPACE_KEY = 0"

text \<open>The last search flags are given as products, without parentheses around them.\<close>

definition SEARCH_INSERT :: "32 word" where "SEARCH_INSERT = 65536 * 2"
definition SEARCH_PART_KEY :: "32 word" where "SEARCH_PART_KEY = 65536 * 2 * 2"
definition SEARCH_USER_KEY_HAS_TRANSID :: "32 word" where "SEARCH_USER_KEY_HAS_TRANSID = 65536 * 2 * 2 * 2"
definition SEARCH_PAGE_KEY_HAS_TRANSID :: "32 word" where "SEARCH_PAGE_KEY_HAS_TRANSID = 65536 * 2 * 2 * 2 * 2"

text \<open>So the complement, \<open>~SEARCH_INSERT\<close>, expands to a product whose first factor alone is negated.\<close>

definition not_SEARCH_INSERT :: "32 word" where "not_SEARCH_INSERT = NOT 65536 * 2"
definition not_SEARCH_PART_KEY :: "32 word" where "not_SEARCH_PART_KEY = NOT 65536 * 2 * 2"

definition search_flags :: "(string \<times> 32 word) list" where
  "search_flags = search_bits @ [(''SEARCH_INSERT'', SEARCH_INSERT), (''SEARCH_PART_KEY'', SEARCH_PART_KEY),
     (''SEARCH_USER_KEY_HAS_TRANSID'', SEARCH_USER_KEY_HAS_TRANSID),
     (''SEARCH_PAGE_KEY_HAS_TRANSID'', SEARCH_PAGE_KEY_HAS_TRANSID)]"

text \<open>All flags of a key.\<close>

definition all_key_flags :: "(string \<times> 32 word) list" where
  "all_key_flags = key_flags @ automatic_key_flags @ [(''HA_KEY_HAS_PART_KEY_SEG'', HA_KEY_HAS_PART_KEY_SEG)]"

definition table_flag_families :: "(string \<times> 32 word) list list" where
  "table_flag_families = [open_flags, key_flags, automatic_key_flags, key_seg_flags, database_options, create_flags,
     status_flags, search_flags, opt_flags, update_flags, range_flags]"

lemmas flag_families = open_flags_def key_flags_def automatic_key_flags_def key_seg_flags_def database_options_def
  create_flags_def status_flags_def search_bits_def search_flags_def opt_flags_def update_flags_def range_flags_def
  all_key_flags_def SEARCH_INSERT_def SEARCH_PART_KEY_def SEARCH_USER_KEY_HAS_TRANSID_def
  SEARCH_PAGE_KEY_HAS_TRANSID_def HA_KEY_HAS_PART_KEY_SEG_def

section \<open>Sets of flags\<close>

text \<open>Flags are set with \<open>|\<close> and tested with \<open>&\<close>.\<close>

fun setFlags :: "(string \<times> 32 word) list \<Rightarrow> string list \<Rightarrow> 32 word" where
  "setFlags [] names = 0"
| "setFlags ((s, v) # fam) names = (if s \<in> set names then v OR setFlags fam names else setFlags fam names)"

definition flagNames :: "(string \<times> 32 word) list \<Rightarrow> 32 word \<Rightarrow> string list" where
  "flagNames fam w = map fst (filter (\<lambda>(s, v). w AND v \<noteq> 0) fam)"

fun apartFlags :: "(string \<times> 32 word) list \<Rightarrow> bool" where
  "apartFlags [] = True"
| "apartFlags ((s, v) # fam) = (v \<noteq> 0 \<and> (\<forall>(t, u) \<in> set fam. v AND u = 0) \<and> apartFlags fam)"

section \<open>Key ranges and sizes\<close>

record key_range =
  key :: "8 word list option"
  key_length :: "32 word"
  keypart_map :: "64 word"
  flag :: ha_rkey_function

record 'p key_multi_range =
  start_key :: key_range
  end_key :: key_range
  ptr :: 'p
  range_flag :: "32 word"

definition NO_SUCH_KEY :: "32 word" where "NO_SUCH_KEY = NOT 0"
definition HA_WHOLE_KEY :: "64 word" where "HA_WHOLE_KEY = NOT 0"
definition HA_POS_ERROR :: "64 word" where "HA_POS_ERROR = NOT 0"

definition HA_VARCHAR_PACKLENGTH :: "nat \<Rightarrow> nat" where
  "HA_VARCHAR_PACKLENGTH field_length = (if field_length < 256 then 1 else 2)"

section \<open>Lemmas\<close>

lemma and_setFlags:
  "\<forall>(t, u) \<in> set fam. v AND u = 0 \<Longrightarrow> v AND setFlags fam names = 0"
  by (induction fam names rule: setFlags.induct) (auto simp: bit.conj_disj_distrib)

lemma setFlags_test:
  assumes "apartFlags fam" and "(s, v) \<in> set fam"
  shows "setFlags fam names AND v \<noteq> 0 \<longleftrightarrow> (\<exists>t. (t, v) \<in> set fam \<and> t \<in> set names)"
  using assms
proof (induction fam)
  case (Cons x fam)
  obtain t u where x: "x = (t, u)" by (cases x)
  from Cons.prems(1) have u: "u \<noteq> 0" "\<forall>(t, w) \<in> set fam. u AND w = 0" and fam: "apartFlags fam" by (simp_all add: x)
  have sep: "u AND v = 0 \<and> v AND u = 0" if "(r, v) \<in> set fam" for r
    using u(2) that by (auto simp: and.commute)
  show ?case
  proof (cases "u = v")
    case True
    then have "(r, v) \<notin> set fam" for r using sep u(1) by fastforce
    moreover have "setFlags fam names AND v = 0"
      using and_setFlags [OF u(2), of names] True by (simp add: and.commute)
    ultimately show ?thesis using u(1) True by (auto simp: x bit.conj_disj_distrib2)
  next
    case False
    then have "(s, v) \<in> set fam" using Cons.prems(2) by (auto simp: x)
    with sep Cons.IH [OF fam this] False show ?thesis by (auto simp: x bit.conj_disj_distrib2)
  qed
qed simp

lemma apart_bits: "apartFlags fam \<Longrightarrow> (s, v) \<in> set fam \<Longrightarrow> v \<noteq> 0"
  by (induction fam) auto

lemma apart_unique: "apartFlags fam \<Longrightarrow> (s, v) \<in> set fam \<Longrightarrow> (t, v) \<in> set fam \<Longrightarrow> s = t"
proof (induction fam)
  case (Cons x fam)
  obtain r u where x: "x = (r, u)" by (cases x)
  have no: "(q, u) \<notin> set fam" for q using Cons.prems(1) by (fastforce simp: x)
  show ?case using Cons no by (auto simp: x)
qed simp

lemma flagNames_setFlags:
  assumes "apartFlags fam"
  shows "flagNames fam (setFlags fam names) = filter (\<lambda>s. s \<in> set names) (map fst fam)"
proof -
  have "filter (\<lambda>(s, v). setFlags fam names AND v \<noteq> 0) fam = filter (\<lambda>(s, v). s \<in> set names) fam"
  proof (rule filter_cong)
    fix x
    assume "x \<in> set fam"
    then show "(case x of (s, v) \<Rightarrow> setFlags fam names AND v \<noteq> 0) = (case x of (s, v) \<Rightarrow> s \<in> set names)"
      using setFlags_test [OF assms, of "fst x" "snd x" names] apart_unique [OF assms, of "fst x" "snd x"]
      by (simp add: case_prod_unfold) (metis prod.collapse)
  qed simp
  then show ?thesis by (simp add: flagNames_def filter_map comp_def case_prod_unfold)
qed

lemma families_apart: "fam \<in> set table_flag_families \<Longrightarrow> apartFlags fam"
  by (auto simp: table_flag_families_def) (simp_all add: flag_families)

section \<open>Properties\<close>

text \<open>C31. A set of flags of one family is read back from its word name by name, in every family of the header but that of
  all key flags together: there \<open>HA_RTREE_INDEX\<close> and \<open>HA_USES_PARSER\<close> are one bit, so each reads back as both.\<close>

theorem table_flags_read_back:
  assumes "fam \<in> set table_flag_families"
  shows "flagNames fam (setFlags fam names) = filter (\<lambda>s. s \<in> set names) (map fst fam)
    \<and> flagNames all_key_flags (setFlags all_key_flags [''HA_RTREE_INDEX'']) = [''HA_RTREE_INDEX'', ''HA_USES_PARSER'']
    \<and> flagNames all_key_flags (setFlags all_key_flags [''HA_USES_PARSER'']) = [''HA_RTREE_INDEX'', ''HA_USES_PARSER'']"
  using flagNames_setFlags [OF families_apart [OF assms]] by (simp add: flagNames_def flag_families)

theorem table_flags_read_back_witness:
  "flagNames update_flags (setFlags update_flags [''HA_STATE_DELETED'', ''HA_STATE_CHANGED''])
     = [''HA_STATE_CHANGED'', ''HA_STATE_DELETED'']
    \<and> flagNames all_key_flags (setFlags all_key_flags [''HA_RTREE_INDEX'']) = [''HA_RTREE_INDEX'', ''HA_USES_PARSER'']"
proof -
  have "update_flags \<in> set table_flag_families" by (simp add: table_flag_families_def)
  from table_flags_read_back [OF this, of "[''HA_STATE_DELETED'', ''HA_STATE_CHANGED'']"] show ?thesis
    by (simp add: update_flags_def)
qed

text \<open>The mask for comparing types of keys is the set of all flags a user can give, and lets the automatic flags
  through only where they share a bit with one of these.\<close>

theorem keyflag_mask_exact:
  "HA_KEYFLAG_MASK = setFlags key_flags (map fst key_flags)
    \<and> filter (\<lambda>(s, v). v AND HA_KEYFLAG_MASK \<noteq> 0) automatic_key_flags = [(''HA_USES_PARSER'', 16384)]"
  by (simp add: HA_KEYFLAG_MASK_def flag_families)

text \<open>Clearing the flag \<open>SEARCH_INSERT\<close> with its complement as the macro expands also clears \<open>SEARCH_FIND\<close>; with
  \<open>SEARCH_PART_KEY\<close>, \<open>SEARCH_NO_FIND\<close> goes too.\<close>

theorem search_complement_clears_more:
  "not_SEARCH_INSERT = (NOT SEARCH_INSERT AND NOT 1) \<and> not_SEARCH_PART_KEY = (NOT SEARCH_PART_KEY AND NOT 3)
    \<and> flagNames search_flags (setFlags search_flags [''SEARCH_FIND'', ''SEARCH_SAME'', ''SEARCH_INSERT''] AND not_SEARCH_INSERT)
        = [''SEARCH_SAME'']"
  by (simp add: not_SEARCH_INSERT_def not_SEARCH_PART_KEY_def flagNames_def flag_families)

text \<open>The operations that \<open>ha_extra\<close> takes, in the order of their numbers.\<close>

definition extra_functions :: "ha_extra_function list" where
  "extra_functions = [
    HA_EXTRA_NORMAL, HA_EXTRA_QUICK, HA_EXTRA_NOT_USED, HA_EXTRA_CACHE, HA_EXTRA_NO_CACHE,
    HA_EXTRA_NO_READCHECK, HA_EXTRA_READCHECK, HA_EXTRA_KEYREAD, HA_EXTRA_NO_KEYREAD,
    HA_EXTRA_NO_USER_CHANGE, HA_EXTRA_KEY_CACHE, HA_EXTRA_NO_KEY_CACHE, HA_EXTRA_WAIT_LOCK,
    HA_EXTRA_NO_WAIT_LOCK, HA_EXTRA_WRITE_CACHE, HA_EXTRA_FLUSH_CACHE, HA_EXTRA_NO_KEYS,
    HA_EXTRA_KEYREAD_CHANGE_POS, HA_EXTRA_REMEMBER_POS, HA_EXTRA_RESTORE_POS, HA_EXTRA_REINIT_CACHE,
    HA_EXTRA_FORCE_REOPEN, HA_EXTRA_FLUSH, HA_EXTRA_NO_ROWS, HA_EXTRA_RESET_STATE,
    HA_EXTRA_IGNORE_DUP_KEY, HA_EXTRA_NO_IGNORE_DUP_KEY, HA_EXTRA_PREPARE_FOR_DROP,
    HA_EXTRA_PREPARE_FOR_UPDATE, HA_EXTRA_PRELOAD_BUFFER_SIZE, HA_EXTRA_CHANGE_KEY_TO_UNIQUE,
    HA_EXTRA_CHANGE_KEY_TO_DUP, HA_EXTRA_KEYREAD_PRESERVE_FIELDS, HA_EXTRA_MMAP,
    HA_EXTRA_IGNORE_NO_KEY, HA_EXTRA_NO_IGNORE_NO_KEY, HA_EXTRA_MARK_AS_LOG_TABLE,
    HA_EXTRA_WRITE_CAN_REPLACE, HA_EXTRA_WRITE_CANNOT_REPLACE, HA_EXTRA_DELETE_CANNOT_BATCH,
    HA_EXTRA_UPDATE_CANNOT_BATCH, HA_EXTRA_INSERT_WITH_UPDATE, HA_EXTRA_PREPARE_FOR_RENAME,
    HA_EXTRA_ADD_CHILDREN_LIST, HA_EXTRA_ATTACH_CHILDREN, HA_EXTRA_IS_ATTACHED_CHILDREN,
    HA_EXTRA_DETACH_CHILDREN, HA_EXTRA_ORDERBY_LIMIT, HA_EXTRA_NO_ORDERBY_LIMIT,
    HA_EXTRA_PREPARE_FOR_FORCED_CLOSE, HA_EXTRA_ALLOW_LOG_DELETE]"

definition base_keytypes :: "ha_base_keytype list" where
  "base_keytypes = [
    HA_KEYTYPE_END, HA_KEYTYPE_TEXT, HA_KEYTYPE_BINARY, HA_KEYTYPE_SHORT_INT, HA_KEYTYPE_LONG_INT,
    HA_KEYTYPE_FLOAT, HA_KEYTYPE_DOUBLE, HA_KEYTYPE_NUM, HA_KEYTYPE_USHORT_INT, HA_KEYTYPE_ULONG_INT,
    HA_KEYTYPE_LONGLONG, HA_KEYTYPE_ULONGLONG, HA_KEYTYPE_INT24, HA_KEYTYPE_UINT24, HA_KEYTYPE_INT8,
    HA_KEYTYPE_VARTEXT1, HA_KEYTYPE_VARBINARY1, HA_KEYTYPE_VARTEXT2, HA_KEYTYPE_VARBINARY2,
    HA_KEYTYPE_BIT]"

lemma extra_numbers: "map extraNumber extra_functions = [0..<51]" "f \<in> set extra_functions"
  by (simp add: extra_functions_def upt_conv_Cons) (cases f; simp add: extra_functions_def)

lemma keytype_numbers: "map keytypeNumber base_keytypes = [0..<20]" "t \<in> set base_keytypes"
  by (simp add: base_keytypes_def upt_conv_Cons) (cases t; simp add: base_keytypes_def)

lemma numbered_inj:
  assumes "map f xs = [0..<n]" and "\<And>x. x \<in> set xs"
  shows "inj f \<and> range f = {..<n}"
proof -
  have "distinct (map f xs)" by (simp add: assms(1))
  moreover have "set xs = UNIV" using assms(2) by blast
  moreover have "f ` set xs = {..<n}" using arg_cong [OF assms(1), of set] by auto
  ultimately show ?thesis by (simp add: distinct_map)
qed

theorem enumerations_numbered:
  "inj extraNumber \<and> range extraNumber = {..<51} \<and> inj keytypeNumber \<and> range keytypeNumber = {..<20}"
  using numbered_inj [OF extra_numbers] numbered_inj [OF keytype_numbers] by blast

text \<open>The length of a varchar of at most 65,535 bytes fits in the bytes it is packed in.\<close>

theorem packlength_fits: "field_length < 65536 \<Longrightarrow> field_length < 256 ^ HA_VARCHAR_PACKLENGTH field_length"
  by (simp add: HA_VARCHAR_PACKLENGTH_def)

end
