(* ===== verification/SshCalls.thy ===== *)
theory SshCalls
  imports Main "HOL-Library.Word"
begin

text \<open>
  The interface of the SSH library as libssh2.h and libssh2_sftp.h give it: the convenience macros, each of
  which expands to a call of one \<open>_ex\<close> function with the lengths of its texts, and the constants.  The
  functions have no source in the repository, so a macro is the call it expands to: the function as a
  constructor with the values of its arguments.
\<close>

unbundle bit_operations_syntax

section \<open>Texts\<close>

text \<open>A \<open>const char *\<close> is the bytes from where it points on, \<open>None\<close> for a null pointer.  \<open>strlen\<close> counts
  up to the byte 0 and has 64 bits; the parameters for lengths are unsigned int, of 32.\<close>

type_synonym text_ptr = "char list option"

definition cText :: "char list \<Rightarrow> char list" where
  "cText s = takeWhile (\<lambda>c. c \<noteq> CHR 0x00) s"

definition strlen :: "char list \<Rightarrow> 64 word" where
  "strlen s = of_nat (length (cText s))"

definition uintLen :: "64 word \<Rightarrow> 32 word" where
  "uintLen n = ucast n"

text \<open>A literal is followed by a byte 0, which \<open>sizeof\<close> counts.\<close>

definition literal :: "char list \<Rightarrow> char list" where
  "literal s = s @ [CHR 0x00]"

definition sizeofLit :: "char list \<Rightarrow> 64 word" where
  "sizeofLit s = of_nat (length (literal s))"

section \<open>Constants of the calls\<close>

definition SSH_DISCONNECT_BY_APPLICATION :: "32 word" where "SSH_DISCONNECT_BY_APPLICATION = 11"
definition LIBSSH2_CHANNEL_WINDOW_DEFAULT :: "32 word" where "LIBSSH2_CHANNEL_WINDOW_DEFAULT = 256 * 1024"
definition LIBSSH2_CHANNEL_PACKET_DEFAULT :: "32 word" where "LIBSSH2_CHANNEL_PACKET_DEFAULT = 32768"
definition LIBSSH2_CHANNEL_MINADJUST :: "32 word" where "LIBSSH2_CHANNEL_MINADJUST = 1024"
definition LIBSSH2_CHANNEL_EXTENDED_DATA_NORMAL :: "32 word" where "LIBSSH2_CHANNEL_EXTENDED_DATA_NORMAL = 0"
definition LIBSSH2_CHANNEL_EXTENDED_DATA_IGNORE :: "32 word" where "LIBSSH2_CHANNEL_EXTENDED_DATA_IGNORE = 1"
definition LIBSSH2_CHANNEL_EXTENDED_DATA_MERGE :: "32 word" where "LIBSSH2_CHANNEL_EXTENDED_DATA_MERGE = 2"
definition SSH_EXTENDED_DATA_STDERR :: "32 word" where "SSH_EXTENDED_DATA_STDERR = 1"
definition LIBSSH2_CHANNEL_FLUSH_EXTENDED_DATA :: "32 word" where "LIBSSH2_CHANNEL_FLUSH_EXTENDED_DATA = - 1"
definition LIBSSH2_CHANNEL_FLUSH_ALL :: "32 word" where "LIBSSH2_CHANNEL_FLUSH_ALL = - 2"
definition LIBSSH2_TERM_WIDTH :: "32 word" where "LIBSSH2_TERM_WIDTH = 80"
definition LIBSSH2_TERM_HEIGHT :: "32 word" where "LIBSSH2_TERM_HEIGHT = 24"
definition LIBSSH2_TERM_WIDTH_PX :: "32 word" where "LIBSSH2_TERM_WIDTH_PX = 0"
definition LIBSSH2_TERM_HEIGHT_PX :: "32 word" where "LIBSSH2_TERM_HEIGHT_PX = 0"
definition LIBSSH2_SFTP_OPENFILE :: "32 word" where "LIBSSH2_SFTP_OPENFILE = 0"
definition LIBSSH2_SFTP_OPENDIR :: "32 word" where "LIBSSH2_SFTP_OPENDIR = 1"
definition LIBSSH2_SFTP_RENAME_OVERWRITE :: "64 word" where "LIBSSH2_SFTP_RENAME_OVERWRITE = 0x00000001"
definition LIBSSH2_SFTP_RENAME_ATOMIC :: "64 word" where "LIBSSH2_SFTP_RENAME_ATOMIC = 0x00000002"
definition LIBSSH2_SFTP_RENAME_NATIVE :: "64 word" where "LIBSSH2_SFTP_RENAME_NATIVE = 0x00000004"
definition LIBSSH2_SFTP_STAT :: "32 word" where "LIBSSH2_SFTP_STAT = 0"
definition LIBSSH2_SFTP_LSTAT :: "32 word" where "LIBSSH2_SFTP_LSTAT = 1"
definition LIBSSH2_SFTP_SETSTAT :: "32 word" where "LIBSSH2_SFTP_SETSTAT = 2"
definition LIBSSH2_SFTP_SYMLINK :: "32 word" where "LIBSSH2_SFTP_SYMLINK = 0"
definition LIBSSH2_SFTP_READLINK :: "32 word" where "LIBSSH2_SFTP_READLINK = 1"
definition LIBSSH2_SFTP_REALPATH :: "32 word" where "LIBSSH2_SFTP_REALPATH = 2"

section \<open>Calls\<close>

text \<open>An argument: a session, channel or handle, a text that the function takes up to its byte 0, a text with its
  length, a number of 32 or 64 bits, or any other pointer.\<close>

datatype ('h, 'a) c_arg =
    Handle 'h
  | Text text_ptr
  | TextLen text_ptr "32 word"
  | UInt "32 word"
  | Size "64 word"
  | Ptr "'a option"

type_synonym ('h, 'a) ssh_call = "string \<times> ('h, 'a) c_arg list"

text \<open>A text passed with \<open>strlen\<close> of it, and a literal with its \<open>sizeof\<close> less one.\<close>

definition withLen :: "char list \<Rightarrow> ('h, 'a) c_arg" where
  "withLen s = TextLen (Some s) (uintLen (strlen s))"

definition withSize :: "char list \<Rightarrow> ('h, 'a) c_arg" where
  "withSize s = TextLen (Some (literal s)) (uintLen (sizeofLit s - 1))"

section \<open>The macros of libssh2.h\<close>

definition libssh2_session_init :: "('h, 'a) ssh_call" where
  "libssh2_session_init = (''libssh2_session_init_ex'', [Ptr None, Ptr None, Ptr None, Ptr None])"

definition libssh2_session_disconnect :: "'h \<Rightarrow> text_ptr \<Rightarrow> ('h, 'a) ssh_call" where
  "libssh2_session_disconnect session description =
     (''libssh2_session_disconnect_ex'', [Handle session, UInt SSH_DISCONNECT_BY_APPLICATION, Text
      description, Text (Some (literal ''''))])"

definition libssh2_userauth_password :: "'h \<Rightarrow> char list \<Rightarrow> char list \<Rightarrow> ('h, 'a) ssh_call" where
  "libssh2_userauth_password session username password =
     (''libssh2_userauth_password_ex'', [Handle session, withLen username, withLen password, Ptr None])"

definition libssh2_userauth_publickey_fromfile :: "'h \<Rightarrow> char list \<Rightarrow> text_ptr \<Rightarrow> text_ptr \<Rightarrow> text_ptr \<Rightarrow> ('h, 'a) ssh_call" where
  "libssh2_userauth_publickey_fromfile session username publickey privatekey passphrase =
     (''libssh2_userauth_publickey_fromfile_ex'', [Handle session, withLen username, Text publickey, Text
      privatekey, Text passphrase])"

definition libssh2_userauth_hostbased_fromfile :: "'h \<Rightarrow> char list \<Rightarrow> text_ptr \<Rightarrow> text_ptr \<Rightarrow> text_ptr \<Rightarrow> char list \<Rightarrow> ('h, 'a) ssh_call" where
  "libssh2_userauth_hostbased_fromfile session username publickey privatekey passphrase hostname =
     (''libssh2_userauth_hostbased_fromfile_ex'', [Handle session, withLen username, Text publickey, Text
      privatekey, Text passphrase, withLen hostname, withLen username])"

definition libssh2_userauth_keyboard_interactive :: "'h \<Rightarrow> char list \<Rightarrow> 'a option \<Rightarrow> ('h, 'a) ssh_call" where
  "libssh2_userauth_keyboard_interactive session username response_callback =
     (''libssh2_userauth_keyboard_interactive_ex'', [Handle session, withLen username, Ptr
      response_callback])"

definition libssh2_channel_open_session :: "'h \<Rightarrow> ('h, 'a) ssh_call" where
  "libssh2_channel_open_session session =
     (''libssh2_channel_open_ex'', [Handle session, withSize ''session'', UInt
      LIBSSH2_CHANNEL_WINDOW_DEFAULT, UInt LIBSSH2_CHANNEL_PACKET_DEFAULT, TextLen None 0])"

definition libssh2_channel_direct_tcpip :: "'h \<Rightarrow> text_ptr \<Rightarrow> 32 word \<Rightarrow> ('h, 'a) ssh_call" where
  "libssh2_channel_direct_tcpip session host port =
     (''libssh2_channel_direct_tcpip_ex'', [Handle session, Text host, UInt port, Text (Some (literal
      ''127.0.0.1'')), UInt 22])"

definition libssh2_channel_forward_listen :: "'h \<Rightarrow> 32 word \<Rightarrow> ('h, 'a) ssh_call" where
  "libssh2_channel_forward_listen session port =
     (''libssh2_channel_forward_listen_ex'', [Handle session, Text None, UInt port, Ptr None, UInt 16])"

definition libssh2_channel_setenv :: "'h \<Rightarrow> char list \<Rightarrow> char list \<Rightarrow> ('h, 'a) ssh_call" where
  "libssh2_channel_setenv channel varname value =
     (''libssh2_channel_setenv_ex'', [Handle channel, withLen varname, withLen value])"

definition libssh2_channel_request_pty :: "'h \<Rightarrow> char list \<Rightarrow> ('h, 'a) ssh_call" where
  "libssh2_channel_request_pty channel term =
     (''libssh2_channel_request_pty_ex'', [Handle channel, withLen term, TextLen None 0, UInt
      LIBSSH2_TERM_WIDTH, UInt LIBSSH2_TERM_HEIGHT, UInt LIBSSH2_TERM_WIDTH_PX, UInt
      LIBSSH2_TERM_HEIGHT_PX])"

definition libssh2_channel_request_pty_size :: "'h \<Rightarrow> 32 word \<Rightarrow> 32 word \<Rightarrow> ('h, 'a) ssh_call" where
  "libssh2_channel_request_pty_size channel width height =
     (''libssh2_channel_request_pty_size_ex'', [Handle channel, UInt width, UInt height, UInt 0, UInt
      0])"

definition libssh2_channel_x11_req :: "'h \<Rightarrow> 32 word \<Rightarrow> ('h, 'a) ssh_call" where
  "libssh2_channel_x11_req channel screen_number =
     (''libssh2_channel_x11_req_ex'', [Handle channel, UInt 0, Text None, Text None, UInt
      screen_number])"

definition libssh2_channel_shell :: "'h \<Rightarrow> ('h, 'a) ssh_call" where
  "libssh2_channel_shell channel =
     (''libssh2_channel_process_startup'', [Handle channel, withSize ''shell'', TextLen None 0])"

definition libssh2_channel_exec :: "'h \<Rightarrow> char list \<Rightarrow> ('h, 'a) ssh_call" where
  "libssh2_channel_exec channel command =
     (''libssh2_channel_process_startup'', [Handle channel, withSize ''exec'', withLen command])"

definition libssh2_channel_subsystem :: "'h \<Rightarrow> char list \<Rightarrow> ('h, 'a) ssh_call" where
  "libssh2_channel_subsystem channel subsystem =
     (''libssh2_channel_process_startup'', [Handle channel, withSize ''subsystem'', withLen subsystem])"

definition libssh2_channel_read :: "'h \<Rightarrow> 'a option \<Rightarrow> 64 word \<Rightarrow> ('h, 'a) ssh_call" where
  "libssh2_channel_read channel buf buflen =
     (''libssh2_channel_read_ex'', [Handle channel, UInt 0, Ptr buf, Size buflen])"

definition libssh2_channel_read_stderr :: "'h \<Rightarrow> 'a option \<Rightarrow> 64 word \<Rightarrow> ('h, 'a) ssh_call" where
  "libssh2_channel_read_stderr channel buf buflen =
     (''libssh2_channel_read_ex'', [Handle channel, UInt SSH_EXTENDED_DATA_STDERR, Ptr buf, Size
      buflen])"

definition libssh2_channel_window_read :: "'h \<Rightarrow> ('h, 'a) ssh_call" where
  "libssh2_channel_window_read channel =
     (''libssh2_channel_window_read_ex'', [Handle channel, Ptr None, Ptr None])"

definition libssh2_channel_write :: "'h \<Rightarrow> 'a option \<Rightarrow> 64 word \<Rightarrow> ('h, 'a) ssh_call" where
  "libssh2_channel_write channel buf buflen =
     (''libssh2_channel_write_ex'', [Handle channel, UInt 0, Ptr buf, Size buflen])"

definition libssh2_channel_write_stderr :: "'h \<Rightarrow> 'a option \<Rightarrow> 64 word \<Rightarrow> ('h, 'a) ssh_call" where
  "libssh2_channel_write_stderr channel buf buflen =
     (''libssh2_channel_write_ex'', [Handle channel, UInt SSH_EXTENDED_DATA_STDERR, Ptr buf, Size
      buflen])"

definition libssh2_channel_window_write :: "'h \<Rightarrow> ('h, 'a) ssh_call" where
  "libssh2_channel_window_write channel = (''libssh2_channel_window_write_ex'', [Handle channel, Ptr None])"

definition libssh2_channel_ignore_extended_data :: "'h \<Rightarrow> 32 word \<Rightarrow> ('h, 'a) ssh_call" where
  "libssh2_channel_ignore_extended_data channel ignore =
     (''libssh2_channel_handle_extended_data'', [Handle channel, UInt (if ignore \<noteq> 0 then
      LIBSSH2_CHANNEL_EXTENDED_DATA_IGNORE
      else LIBSSH2_CHANNEL_EXTENDED_DATA_NORMAL)])"

definition libssh2_channel_flush :: "'h \<Rightarrow> ('h, 'a) ssh_call" where
  "libssh2_channel_flush channel = (''libssh2_channel_flush_ex'', [Handle channel, UInt 0])"

definition libssh2_channel_flush_stderr :: "'h \<Rightarrow> ('h, 'a) ssh_call" where
  "libssh2_channel_flush_stderr channel =
     (''libssh2_channel_flush_ex'', [Handle channel, UInt SSH_EXTENDED_DATA_STDERR])"

definition libssh2_scp_send :: "'h \<Rightarrow> text_ptr \<Rightarrow> 32 word \<Rightarrow> 64 word \<Rightarrow> ('h, 'a) ssh_call" where
  "libssh2_scp_send session path mode len =
     (''libssh2_scp_send_ex'', [Handle session, Text path, UInt mode, Size len, Size 0, Size 0])"

section \<open>The macros of libssh2_sftp.h\<close>

definition libssh2_sftp_open :: "'h \<Rightarrow> char list \<Rightarrow> 64 word \<Rightarrow> 64 word \<Rightarrow> ('h, 'a) ssh_call" where
  "libssh2_sftp_open sftp filename flags mode =
     (''libssh2_sftp_open_ex'', [Handle sftp, withLen filename, Size flags, Size mode, UInt
      LIBSSH2_SFTP_OPENFILE])"

definition libssh2_sftp_opendir :: "'h \<Rightarrow> char list \<Rightarrow> ('h, 'a) ssh_call" where
  "libssh2_sftp_opendir sftp path =
     (''libssh2_sftp_open_ex'', [Handle sftp, withLen path, Size 0, Size 0, UInt LIBSSH2_SFTP_OPENDIR])"

definition libssh2_sftp_readdir :: "'h \<Rightarrow> 'a option \<Rightarrow> 64 word \<Rightarrow> 'a option \<Rightarrow> ('h, 'a) ssh_call" where
  "libssh2_sftp_readdir handle buffer buffer_maxlen attrs =
     (''libssh2_sftp_readdir_ex'', [Handle handle, Ptr buffer, Size buffer_maxlen, Ptr None, Size 0, Ptr
      attrs])"

definition libssh2_sftp_close :: "'h \<Rightarrow> ('h, 'a) ssh_call" where
  "libssh2_sftp_close handle = (''libssh2_sftp_close_handle'', [Handle handle])"

definition libssh2_sftp_closedir :: "'h \<Rightarrow> ('h, 'a) ssh_call" where
  "libssh2_sftp_closedir handle = (''libssh2_sftp_close_handle'', [Handle handle])"

definition libssh2_sftp_rewind :: "'h \<Rightarrow> ('h, 'a) ssh_call" where
  "libssh2_sftp_rewind handle = (''libssh2_sftp_seek64'', [Handle handle, Size 0])"

definition libssh2_sftp_fstat :: "'h \<Rightarrow> 'a option \<Rightarrow> ('h, 'a) ssh_call" where
  "libssh2_sftp_fstat handle attrs = (''libssh2_sftp_fstat_ex'', [Handle handle, Ptr attrs, UInt 0])"

definition libssh2_sftp_fsetstat :: "'h \<Rightarrow> 'a option \<Rightarrow> ('h, 'a) ssh_call" where
  "libssh2_sftp_fsetstat handle attrs = (''libssh2_sftp_fstat_ex'', [Handle handle, Ptr attrs, UInt 1])"

definition libssh2_sftp_rename :: "'h \<Rightarrow> char list \<Rightarrow> char list \<Rightarrow> ('h, 'a) ssh_call" where
  "libssh2_sftp_rename sftp sourcefile destfile =
     (''libssh2_sftp_rename_ex'', [Handle sftp, withLen sourcefile, withLen destfile, Size
      (LIBSSH2_SFTP_RENAME_OVERWRITE OR LIBSSH2_SFTP_RENAME_ATOMIC OR LIBSSH2_SFTP_RENAME_NATIVE)])"

definition libssh2_sftp_unlink :: "'h \<Rightarrow> char list \<Rightarrow> ('h, 'a) ssh_call" where
  "libssh2_sftp_unlink sftp filename = (''libssh2_sftp_unlink_ex'', [Handle sftp, withLen filename])"

definition libssh2_sftp_mkdir :: "'h \<Rightarrow> char list \<Rightarrow> 64 word \<Rightarrow> ('h, 'a) ssh_call" where
  "libssh2_sftp_mkdir sftp path mode = (''libssh2_sftp_mkdir_ex'', [Handle sftp, withLen path, Size mode])"

definition libssh2_sftp_rmdir :: "'h \<Rightarrow> char list \<Rightarrow> ('h, 'a) ssh_call" where
  "libssh2_sftp_rmdir sftp path = (''libssh2_sftp_rmdir_ex'', [Handle sftp, withLen path])"

definition libssh2_sftp_stat :: "'h \<Rightarrow> char list \<Rightarrow> 'a option \<Rightarrow> ('h, 'a) ssh_call" where
  "libssh2_sftp_stat sftp path attrs =
     (''libssh2_sftp_stat_ex'', [Handle sftp, withLen path, UInt LIBSSH2_SFTP_STAT, Ptr attrs])"

definition libssh2_sftp_lstat :: "'h \<Rightarrow> char list \<Rightarrow> 'a option \<Rightarrow> ('h, 'a) ssh_call" where
  "libssh2_sftp_lstat sftp path attrs =
     (''libssh2_sftp_stat_ex'', [Handle sftp, withLen path, UInt LIBSSH2_SFTP_LSTAT, Ptr attrs])"

definition libssh2_sftp_setstat :: "'h \<Rightarrow> char list \<Rightarrow> 'a option \<Rightarrow> ('h, 'a) ssh_call" where
  "libssh2_sftp_setstat sftp path attrs =
     (''libssh2_sftp_stat_ex'', [Handle sftp, withLen path, UInt LIBSSH2_SFTP_SETSTAT, Ptr attrs])"

definition libssh2_sftp_symlink :: "'h \<Rightarrow> char list \<Rightarrow> char list \<Rightarrow> ('h, 'a) ssh_call" where
  "libssh2_sftp_symlink sftp orig linkpath =
     (''libssh2_sftp_symlink_ex'', [Handle sftp, withLen orig, withLen linkpath, UInt
      LIBSSH2_SFTP_SYMLINK])"

definition libssh2_sftp_readlink :: "'h \<Rightarrow> char list \<Rightarrow> 'a option \<Rightarrow> 32 word \<Rightarrow> ('h, 'a) ssh_call" where
  "libssh2_sftp_readlink sftp path target maxlen =
     (''libssh2_sftp_symlink_ex'', [Handle sftp, withLen path, Ptr target, UInt maxlen, UInt
      LIBSSH2_SFTP_READLINK])"

definition libssh2_sftp_realpath :: "'h \<Rightarrow> char list \<Rightarrow> 'a option \<Rightarrow> 32 word \<Rightarrow> ('h, 'a) ssh_call" where
  "libssh2_sftp_realpath sftp path target maxlen =
     (''libssh2_sftp_symlink_ex'', [Handle sftp, withLen path, Ptr target, UInt maxlen, UInt
      LIBSSH2_SFTP_REALPATH])"

section \<open>Constants of the session\<close>

definition ssh_callbacks :: "(string \<times> nat) list" where
  "ssh_callbacks = [
    (''LIBSSH2_CALLBACK_IGNORE'', 0), (''LIBSSH2_CALLBACK_DEBUG'', 1),
    (''LIBSSH2_CALLBACK_DISCONNECT'', 2), (''LIBSSH2_CALLBACK_MACERROR'', 3),
    (''LIBSSH2_CALLBACK_X11'', 4), (''LIBSSH2_CALLBACK_SEND'', 5), (''LIBSSH2_CALLBACK_RECV'', 6)]"

definition ssh_methods :: "(string \<times> nat) list" where
  "ssh_methods = [
    (''LIBSSH2_METHOD_KEX'', 0), (''LIBSSH2_METHOD_HOSTKEY'', 1), (''LIBSSH2_METHOD_CRYPT_CS'', 2),
    (''LIBSSH2_METHOD_CRYPT_SC'', 3), (''LIBSSH2_METHOD_MAC_CS'', 4), (''LIBSSH2_METHOD_MAC_SC'', 5),
    (''LIBSSH2_METHOD_COMP_CS'', 6), (''LIBSSH2_METHOD_COMP_SC'', 7), (''LIBSSH2_METHOD_LANG_CS'', 8),
    (''LIBSSH2_METHOD_LANG_SC'', 9)]"

definition session_flags :: "(string \<times> nat) list" where
  "session_flags = [
    (''LIBSSH2_FLAG_SIGPIPE'', 1), (''LIBSSH2_FLAG_COMPRESS'', 2)]"

definition pollfd_types :: "(string \<times> nat) list" where
  "pollfd_types = [
    (''LIBSSH2_POLLFD_SOCKET'', 1), (''LIBSSH2_POLLFD_CHANNEL'', 2), (''LIBSSH2_POLLFD_LISTENER'', 3)]"

definition pollfd_events :: "(string \<times> 32 word) list" where
  "pollfd_events = [
    (''LIBSSH2_POLLFD_POLLIN'', 0x0001), (''LIBSSH2_POLLFD_POLLPRI'', 0x0002),
    (''LIBSSH2_POLLFD_POLLEXT'', 0x0002), (''LIBSSH2_POLLFD_POLLOUT'', 0x0004),
    (''LIBSSH2_POLLFD_POLLERR'', 0x0008), (''LIBSSH2_POLLFD_POLLHUP'', 0x0010),
    (''LIBSSH2_POLLFD_SESSION_CLOSED'', 0x0010), (''LIBSSH2_POLLFD_POLLNVAL'', 0x0020),
    (''LIBSSH2_POLLFD_POLLEX'', 0x0040), (''LIBSSH2_POLLFD_CHANNEL_CLOSED'', 0x0080),
    (''LIBSSH2_POLLFD_LISTENER_CLOSED'', 0x0080)]"

definition block_directions :: "(string \<times> 32 word) list" where
  "block_directions = [
    (''LIBSSH2_SESSION_BLOCK_INBOUND'', 0x0001), (''LIBSSH2_SESSION_BLOCK_OUTBOUND'', 0x0002)]"

definition hostkey_hashes :: "(string \<times> nat) list" where
  "hostkey_hashes = [
    (''LIBSSH2_HOSTKEY_HASH_MD5'', 1), (''LIBSSH2_HOSTKEY_HASH_SHA1'', 2)]"

definition hostkey_types :: "(string \<times> nat) list" where
  "hostkey_types = [
    (''LIBSSH2_HOSTKEY_TYPE_UNKNOWN'', 0), (''LIBSSH2_HOSTKEY_TYPE_RSA'', 1),
    (''LIBSSH2_HOSTKEY_TYPE_DSS'', 2)]"

definition ssh_disconnect_codes :: "(string \<times> nat) list" where
  "ssh_disconnect_codes = [
    (''SSH_DISCONNECT_HOST_NOT_ALLOWED_TO_CONNECT'', 1), (''SSH_DISCONNECT_PROTOCOL_ERROR'', 2),
    (''SSH_DISCONNECT_KEY_EXCHANGE_FAILED'', 3), (''SSH_DISCONNECT_RESERVED'', 4),
    (''SSH_DISCONNECT_MAC_ERROR'', 5), (''SSH_DISCONNECT_COMPRESSION_ERROR'', 6),
    (''SSH_DISCONNECT_SERVICE_NOT_AVAILABLE'', 7),
    (''SSH_DISCONNECT_PROTOCOL_VERSION_NOT_SUPPORTED'', 8),
    (''SSH_DISCONNECT_HOST_KEY_NOT_VERIFIABLE'', 9), (''SSH_DISCONNECT_CONNECTION_LOST'', 10),
    (''SSH_DISCONNECT_BY_APPLICATION'', 11), (''SSH_DISCONNECT_TOO_MANY_CONNECTIONS'', 12),
    (''SSH_DISCONNECT_AUTH_CANCELLED_BY_USER'', 13),
    (''SSH_DISCONNECT_NO_MORE_AUTH_METHODS_AVAILABLE'', 14), (''SSH_DISCONNECT_ILLEGAL_USER_NAME'', 15)]"

definition ssh_error_codes :: "(string \<times> int) list" where
  "ssh_error_codes = [
    (''LIBSSH2_ERROR_NONE'', 0), (''LIBSSH2_ERROR_SOCKET_NONE'', - 1),
    (''LIBSSH2_ERROR_BANNER_RECV'', - 2), (''LIBSSH2_ERROR_BANNER_SEND'', - 3),
    (''LIBSSH2_ERROR_INVALID_MAC'', - 4), (''LIBSSH2_ERROR_KEX_FAILURE'', - 5),
    (''LIBSSH2_ERROR_ALLOC'', - 6), (''LIBSSH2_ERROR_SOCKET_SEND'', - 7),
    (''LIBSSH2_ERROR_KEY_EXCHANGE_FAILURE'', - 8), (''LIBSSH2_ERROR_TIMEOUT'', - 9),
    (''LIBSSH2_ERROR_HOSTKEY_INIT'', - 10), (''LIBSSH2_ERROR_HOSTKEY_SIGN'', - 11),
    (''LIBSSH2_ERROR_DECRYPT'', - 12), (''LIBSSH2_ERROR_SOCKET_DISCONNECT'', - 13),
    (''LIBSSH2_ERROR_PROTO'', - 14), (''LIBSSH2_ERROR_PASSWORD_EXPIRED'', - 15),
    (''LIBSSH2_ERROR_FILE'', - 16), (''LIBSSH2_ERROR_METHOD_NONE'', - 17),
    (''LIBSSH2_ERROR_AUTHENTICATION_FAILED'', - 18), (''LIBSSH2_ERROR_PUBLICKEY_UNVERIFIED'', - 19),
    (''LIBSSH2_ERROR_CHANNEL_OUTOFORDER'', - 20), (''LIBSSH2_ERROR_CHANNEL_FAILURE'', - 21),
    (''LIBSSH2_ERROR_CHANNEL_REQUEST_DENIED'', - 22), (''LIBSSH2_ERROR_CHANNEL_UNKNOWN'', - 23),
    (''LIBSSH2_ERROR_CHANNEL_WINDOW_EXCEEDED'', - 24), (''LIBSSH2_ERROR_CHANNEL_PACKET_EXCEEDED'', - 25),
    (''LIBSSH2_ERROR_CHANNEL_CLOSED'', - 26), (''LIBSSH2_ERROR_CHANNEL_EOF_SENT'', - 27),
    (''LIBSSH2_ERROR_SCP_PROTOCOL'', - 28), (''LIBSSH2_ERROR_ZLIB'', - 29),
    (''LIBSSH2_ERROR_SOCKET_TIMEOUT'', - 30), (''LIBSSH2_ERROR_SFTP_PROTOCOL'', - 31),
    (''LIBSSH2_ERROR_REQUEST_DENIED'', - 32), (''LIBSSH2_ERROR_METHOD_NOT_SUPPORTED'', - 33),
    (''LIBSSH2_ERROR_INVAL'', - 34), (''LIBSSH2_ERROR_INVALID_POLL_TYPE'', - 35),
    (''LIBSSH2_ERROR_PUBLICKEY_PROTOCOL'', - 36), (''LIBSSH2_ERROR_EAGAIN'', - 37),
    (''LIBSSH2_ERROR_BUFFER_TOO_SMALL'', - 38), (''LIBSSH2_ERROR_BAD_USE'', - 39),
    (''LIBSSH2_ERROR_COMPRESS'', - 40), (''LIBSSH2_ERROR_OUT_OF_BOUNDARY'', - 41),
    (''LIBSSH2_ERROR_AGENT_PROTOCOL'', - 42), (''LIBSSH2_ERROR_SOCKET_RECV'', - 43),
    (''LIBSSH2_ERROR_ENCRYPT'', - 44), (''LIBSSH2_ERROR_BAD_SOCKET'', - 45),
    (''LIBSSH2_ERROR_KNOWN_HOSTS'', - 46)]"

definition LIBSSH2_ERROR_PUBLICKEY_UNRECOGNIZED :: int where "LIBSSH2_ERROR_PUBLICKEY_UNRECOGNIZED = - 18"
definition LIBSSH2_ERROR_BANNER_NONE :: int where "LIBSSH2_ERROR_BANNER_NONE = - 2"
definition LIBSSH2CHANNEL_EAGAIN :: int where "LIBSSH2CHANNEL_EAGAIN = - 37"
definition LIBSSH2_INIT_NO_CRYPTO :: nat where "LIBSSH2_INIT_NO_CRYPTO = 1"

definition knownhost_checks :: "(string \<times> nat) list" where
  "knownhost_checks = [
    (''LIBSSH2_KNOWNHOST_CHECK_MATCH'', 0), (''LIBSSH2_KNOWNHOST_CHECK_MISMATCH'', 1),
    (''LIBSSH2_KNOWNHOST_CHECK_NOTFOUND'', 2), (''LIBSSH2_KNOWNHOST_CHECK_FAILURE'', 3)]"

definition trace_flags :: "(string \<times> 32 word) list" where
  "trace_flags = [
    (''LIBSSH2_TRACE_TRANS'', push_bit 1 1), (''LIBSSH2_TRACE_KEX'', push_bit 2 1),
    (''LIBSSH2_TRACE_AUTH'', push_bit 3 1), (''LIBSSH2_TRACE_CONN'', push_bit 4 1),
    (''LIBSSH2_TRACE_SCP'', push_bit 5 1), (''LIBSSH2_TRACE_SFTP'', push_bit 6 1),
    (''LIBSSH2_TRACE_ERROR'', push_bit 7 1), (''LIBSSH2_TRACE_PUBLICKEY'', push_bit 8 1),
    (''LIBSSH2_TRACE_SOCKET'', push_bit 9 1)]"

text \<open>Times and sizes.\<close>

definition LIBSSH2_DH_GEX_MINGROUP :: nat where "LIBSSH2_DH_GEX_MINGROUP = 1024"
definition LIBSSH2_DH_GEX_OPTGROUP :: nat where "LIBSSH2_DH_GEX_OPTGROUP = 1536"
definition LIBSSH2_DH_GEX_MAXGROUP :: nat where "LIBSSH2_DH_GEX_MAXGROUP = 2048"
definition LIBSSH2_SOCKET_POLL_UDELAY :: nat where "LIBSSH2_SOCKET_POLL_UDELAY = 250000"
definition LIBSSH2_SOCKET_POLL_MAXLOOPS :: nat where "LIBSSH2_SOCKET_POLL_MAXLOOPS = 120"
definition LIBSSH2_PACKET_MAXCOMP :: nat where "LIBSSH2_PACKET_MAXCOMP = 32000"
definition LIBSSH2_PACKET_MAXDECOMP :: nat where "LIBSSH2_PACKET_MAXDECOMP = 40000"
definition LIBSSH2_PACKET_MAXPAYLOAD :: nat where "LIBSSH2_PACKET_MAXPAYLOAD = 40000"
definition LIBSSH2_VERSION_MAJOR :: nat where "LIBSSH2_VERSION_MAJOR = 1"
definition LIBSSH2_VERSION_MINOR :: nat where "LIBSSH2_VERSION_MINOR = 4"
definition LIBSSH2_VERSION_PATCH :: nat where "LIBSSH2_VERSION_PATCH = 3"

definition LIBSSH2_VERSION :: string where "LIBSSH2_VERSION = ''1.4.3''"
definition LIBSSH2_VERSION_NUM :: nat where "LIBSSH2_VERSION_NUM = 0x010403"
definition LIBSSH2_SSH_BANNER :: string where "LIBSSH2_SSH_BANNER = ''SSH-2.0-libssh2_'' @ LIBSSH2_VERSION"
definition LIBSSH2_SSH_DEFAULT_BANNER_WITH_CRLF :: string where
  "LIBSSH2_SSH_DEFAULT_BANNER_WITH_CRLF = LIBSSH2_SSH_BANNER @ [CHR 0x0D, CHR 0x0A]"

section \<open>Known hosts\<close>

record libssh2_knownhost =
  magic :: "32 word"
  kh_name :: text_ptr
  kh_key :: "char list"
  typemask :: "32 word"

definition LIBSSH2_KNOWNHOST_TYPE_MASK :: "32 word" where "LIBSSH2_KNOWNHOST_TYPE_MASK = 0xffff"
definition LIBSSH2_KNOWNHOST_TYPE_PLAIN :: "32 word" where "LIBSSH2_KNOWNHOST_TYPE_PLAIN = 1"
definition LIBSSH2_KNOWNHOST_TYPE_SHA1 :: "32 word" where "LIBSSH2_KNOWNHOST_TYPE_SHA1 = 2"
definition LIBSSH2_KNOWNHOST_TYPE_CUSTOM :: "32 word" where "LIBSSH2_KNOWNHOST_TYPE_CUSTOM = 3"
definition LIBSSH2_KNOWNHOST_KEYENC_MASK :: "32 word" where "LIBSSH2_KNOWNHOST_KEYENC_MASK = push_bit 16 3"
definition LIBSSH2_KNOWNHOST_KEYENC_RAW :: "32 word" where "LIBSSH2_KNOWNHOST_KEYENC_RAW = push_bit 16 1"
definition LIBSSH2_KNOWNHOST_KEYENC_BASE64 :: "32 word" where "LIBSSH2_KNOWNHOST_KEYENC_BASE64 = push_bit 16 2"
definition LIBSSH2_KNOWNHOST_KEY_MASK :: "32 word" where "LIBSSH2_KNOWNHOST_KEY_MASK = push_bit 18 3"
definition LIBSSH2_KNOWNHOST_KEY_SHIFT :: nat where "LIBSSH2_KNOWNHOST_KEY_SHIFT = 18"
definition LIBSSH2_KNOWNHOST_KEY_RSA1 :: "32 word" where "LIBSSH2_KNOWNHOST_KEY_RSA1 = push_bit 18 1"
definition LIBSSH2_KNOWNHOST_KEY_SSHRSA :: "32 word" where "LIBSSH2_KNOWNHOST_KEY_SSHRSA = push_bit 18 2"
definition LIBSSH2_KNOWNHOST_KEY_SSHDSS :: "32 word" where "LIBSSH2_KNOWNHOST_KEY_SSHDSS = push_bit 18 3"

lemmas knownhost_masks = LIBSSH2_KNOWNHOST_TYPE_MASK_def LIBSSH2_KNOWNHOST_TYPE_PLAIN_def
  LIBSSH2_KNOWNHOST_TYPE_SHA1_def LIBSSH2_KNOWNHOST_TYPE_CUSTOM_def LIBSSH2_KNOWNHOST_KEYENC_MASK_def
  LIBSSH2_KNOWNHOST_KEYENC_RAW_def LIBSSH2_KNOWNHOST_KEYENC_BASE64_def LIBSSH2_KNOWNHOST_KEY_MASK_def
  LIBSSH2_KNOWNHOST_KEY_SHIFT_def LIBSSH2_KNOWNHOST_KEY_RSA1_def LIBSSH2_KNOWNHOST_KEY_SSHRSA_def
  LIBSSH2_KNOWNHOST_KEY_SSHDSS_def

text \<open>The three parts of a type mask, put together with \<open>|\<close>.\<close>

definition hostTypes :: "32 word list" where
  "hostTypes = [LIBSSH2_KNOWNHOST_TYPE_PLAIN, LIBSSH2_KNOWNHOST_TYPE_SHA1, LIBSSH2_KNOWNHOST_TYPE_CUSTOM]"

definition keyEncodings :: "32 word list" where
  "keyEncodings = [LIBSSH2_KNOWNHOST_KEYENC_RAW, LIBSSH2_KNOWNHOST_KEYENC_BASE64]"

definition keyTypes :: "32 word list" where
  "keyTypes = [LIBSSH2_KNOWNHOST_KEY_RSA1, LIBSSH2_KNOWNHOST_KEY_SSHRSA, LIBSSH2_KNOWNHOST_KEY_SSHDSS]"

record libssh2_agent_publickey =
  pk_magic :: "32 word"
  blob :: "8 word list"
  comment_text :: text_ptr

text \<open>What a descriptor to poll refers to, by its type.\<close>

datatype ('c, 'l) pollfd_fd = PollSocket "32 word" | PollChannel 'c | PollListener 'l

record ('c, 'l) libssh2_pollfd =
  poll_type :: "8 word"
  fd :: "('c, 'l) pollfd_fd"
  events :: "64 word"
  revents :: "64 word"

record kbdint_prompt =
  prompt_text :: text_ptr
  prompt_length :: "32 word"
  echo :: "8 word"

record kbdint_response =
  response_text :: text_ptr
  response_length :: "32 word"

section \<open>What a call passes\<close>

text \<open>The texts the called function reads.\<close>

fun textsSeen :: "('h, 'a) c_arg list \<Rightarrow> char list option list" where
  "textsSeen [] = []"
| "textsSeen (Text p # args) = map_option cText p # textsSeen args"
| "textsSeen (TextLen p n # args) = map_option (take (unat n)) p # textsSeen args"
| "textsSeen (Handle h # args) = textsSeen args"
| "textsSeen (UInt u # args) = textsSeen args"
| "textsSeen (Size z # args) = textsSeen args"
| "textsSeen (Ptr q # args) = textsSeen args"

lemma cText_literal: "CHR 0x00 \<notin> set s \<Longrightarrow> cText (literal s) = s"
  by (induction s) (auto simp: cText_def literal_def)

lemma take_cText: "take (length (cText s)) s = cText s"
  by (simp add: cText_def takeWhile_eq_take [symmetric])

lemma seen_withLen:
  "textsSeen (withLen s # args) = Some (take (length (cText s) mod 2 ^ 64 mod 2 ^ 32) s) # textsSeen args"
  by (simp add: withLen_def uintLen_def strlen_def unsigned_ucast_eq unsigned_of_nat take_bit_eq_mod)

lemma seen_short:
  "length (cText s) < 2 ^ 32 \<Longrightarrow> textsSeen (withLen s # args) = Some (cText s) # textsSeen args"
  using take_cText [of s] by (simp add: seen_withLen)

lemma seen_withSize:
  assumes "length s < 2 ^ 32"
  shows "textsSeen (withSize s # args) = Some s # textsSeen args"
proof -
  have "sizeofLit s - 1 = of_nat (length s)" by (simp add: sizeofLit_def literal_def)
  then show ?thesis
    using assms by (simp add: withSize_def uintLen_def literal_def unsigned_ucast_eq unsigned_of_nat take_bit_nat_eq_self)
qed

lemmas ssh_macros = libssh2_userauth_password_def libssh2_userauth_publickey_fromfile_def
  libssh2_userauth_hostbased_fromfile_def libssh2_userauth_keyboard_interactive_def libssh2_channel_open_session_def
  libssh2_channel_direct_tcpip_def libssh2_channel_setenv_def libssh2_channel_request_pty_def
  libssh2_channel_shell_def libssh2_channel_exec_def libssh2_channel_subsystem_def libssh2_scp_send_def
  libssh2_session_disconnect_def

lemmas sftp_macros = libssh2_sftp_open_def libssh2_sftp_opendir_def libssh2_sftp_rename_def libssh2_sftp_unlink_def
  libssh2_sftp_mkdir_def libssh2_sftp_rmdir_def libssh2_sftp_stat_def libssh2_sftp_lstat_def
  libssh2_sftp_setstat_def libssh2_sftp_symlink_def libssh2_sftp_readlink_def libssh2_sftp_realpath_def

section \<open>Properties\<close>

text \<open>Every macro that passes texts makes the function read exactly these texts up to their byte 0, and the request
  name it puts in itself, as long as they are shorter than 4 GB: no length is a byte too long or too short.\<close>

theorem ssh_macros_pass_texts:
  assumes "length (cText u) < 2 ^ 32" and "length (cText w) < 2 ^ 32"
  shows "textsSeen (snd (libssh2_userauth_password h u w)) = [Some (cText u), Some (cText w)]
    \<and> textsSeen (snd (libssh2_userauth_publickey_fromfile h u (Some k) (Some k') (Some w)))
        = [Some (cText u), Some (cText k), Some (cText k'), Some (cText w)]
    \<and> textsSeen (snd (libssh2_userauth_hostbased_fromfile h u (Some k) (Some k') p w))
        = [Some (cText u), Some (cText k), Some (cText k'), map_option cText p, Some (cText w), Some (cText u)]
    \<and> textsSeen (snd (libssh2_userauth_keyboard_interactive h u cb)) = [Some (cText u)]
    \<and> textsSeen (snd (libssh2_channel_open_session h)) = [Some ''session'', None]
    \<and> textsSeen (snd (libssh2_channel_setenv h u w)) = [Some (cText u), Some (cText w)]
    \<and> textsSeen (snd (libssh2_channel_request_pty h u)) = [Some (cText u), None]
    \<and> textsSeen (snd (libssh2_channel_shell h)) = [Some ''shell'', None]
    \<and> textsSeen (snd (libssh2_channel_exec h u)) = [Some ''exec'', Some (cText u)]
    \<and> textsSeen (snd (libssh2_channel_subsystem h u)) = [Some ''subsystem'', Some (cText u)]
    \<and> textsSeen (snd (libssh2_sftp_open h u fl md)) = [Some (cText u)]
    \<and> textsSeen (snd (libssh2_sftp_rename h u w)) = [Some (cText u), Some (cText w)]
    \<and> textsSeen (snd (libssh2_sftp_mkdir h u md)) = [Some (cText u)]
    \<and> textsSeen (snd (libssh2_sftp_stat h u at)) = [Some (cText u)]
    \<and> textsSeen (snd (libssh2_sftp_symlink h u w)) = [Some (cText u), Some (cText w)]
    \<and> textsSeen (snd (libssh2_sftp_realpath h u tg n)) = [Some (cText u)]"
  using assms by (simp add: ssh_macros sftp_macros seen_short seen_withSize)

theorem ssh_macros_pass_texts_witness:
  "textsSeen (snd (libssh2_userauth_password () (''root'' @ [CHR 0x00, CHR ''x'']) (''pw'' @ [CHR 0x00]) :: (unit, unit) ssh_call))
     = [Some ''root'', Some ''pw'']"
proof -
  have "cText (''root'' @ [CHR 0x00, CHR ''x'']) = ''root''" "cText (''pw'' @ [CHR 0x00]) = ''pw''"
    by (simp_all add: cText_def)
  note c = this
  have "textsSeen (snd (libssh2_userauth_password () (''root'' @ [CHR 0x00, CHR ''x'']) (''pw'' @ [CHR 0x00]) :: (unit, unit) ssh_call))
      = [Some (cText (''root'' @ [CHR 0x00, CHR ''x''])), Some (cText (''pw'' @ [CHR 0x00]))]"
    by (rule ssh_macros_pass_texts [THEN conjunct1]) (simp_all only: c, simp_all)
  then show ?thesis by (simp only: c)
qed

text \<open>A longer text is cut: the length is reduced modulo 4 GB.\<close>

theorem long_text_cut:
  "length (cText u) < 2 ^ 64 \<Longrightarrow>
     textsSeen (snd (libssh2_channel_exec h u)) = [Some ''exec'', Some (take (length (cText u) mod 2 ^ 32) u)]"
  by (simp add: ssh_macros seen_withSize seen_withLen)

text \<open>The macros that share a function expand to different calls, whatever their arguments; only the two that
  close a file and a directory are the same.\<close>

theorem sftp_calls_told_apart:
  "distinct [libssh2_sftp_stat h p a, libssh2_sftp_lstat h p a, libssh2_sftp_setstat h p a]
    \<and> distinct [libssh2_sftp_open h p fl md, libssh2_sftp_opendir h p]
    \<and> distinct [libssh2_sftp_fstat h a, libssh2_sftp_fsetstat h a]
    \<and> distinct [libssh2_sftp_readlink h p a n, libssh2_sftp_realpath h p a n, libssh2_sftp_symlink h p q]
    \<and> distinct [libssh2_channel_read h a z, libssh2_channel_read_stderr h a z]
    \<and> distinct [libssh2_channel_write h a z, libssh2_channel_write_stderr h a z]
    \<and> libssh2_sftp_close h = libssh2_sftp_closedir h"
  by (simp add: sftp_macros libssh2_sftp_fstat_def libssh2_sftp_fsetstat_def libssh2_channel_read_def
      libssh2_channel_read_stderr_def libssh2_channel_write_def libssh2_channel_write_stderr_def
      libssh2_sftp_close_def libssh2_sftp_closedir_def LIBSSH2_SFTP_STAT_def LIBSSH2_SFTP_LSTAT_def
      LIBSSH2_SFTP_SETSTAT_def LIBSSH2_SFTP_OPENFILE_def LIBSSH2_SFTP_OPENDIR_def LIBSSH2_SFTP_READLINK_def
      LIBSSH2_SFTP_REALPATH_def SSH_EXTENDED_DATA_STDERR_def withLen_def)

text \<open>A type mask gives back the kind of host name, the encoding and the kind of key it was put together from.\<close>

theorem type_mask_read_back:
  "list_all (\<lambda>t. list_all (\<lambda>e. list_all (\<lambda>k.
     (t OR e OR k) AND LIBSSH2_KNOWNHOST_TYPE_MASK = t \<and> (t OR e OR k) AND LIBSSH2_KNOWNHOST_KEYENC_MASK = e
     \<and> (t OR e OR k) AND LIBSSH2_KNOWNHOST_KEY_MASK = k
     \<and> push_bit LIBSSH2_KNOWNHOST_KEY_SHIFT (drop_bit LIBSSH2_KNOWNHOST_KEY_SHIFT (t OR e OR k)) = k)
       keyTypes) keyEncodings) hostTypes"
  by (simp add: hostTypes_def keyEncodings_def keyTypes_def knownhost_masks)

text \<open>The error numbers count down from 0 without a gap, the codes for disconnecting up from 1.\<close>

theorem ssh_numbers_dense:
  "map snd ssh_error_codes = map (\<lambda>i. - int i) [0..<47] \<and> map snd ssh_disconnect_codes = [1..<16]
    \<and> map snd ssh_callbacks = [0..<7] \<and> map snd ssh_methods = [0..<10]
    \<and> (''LIBSSH2_ERROR_AUTHENTICATION_FAILED'', LIBSSH2_ERROR_PUBLICKEY_UNRECOGNIZED) \<in> set ssh_error_codes
    \<and> (''LIBSSH2_ERROR_EAGAIN'', LIBSSH2CHANNEL_EAGAIN) \<in> set ssh_error_codes
    \<and> (''SSH_DISCONNECT_BY_APPLICATION'', unat SSH_DISCONNECT_BY_APPLICATION) \<in> set ssh_disconnect_codes"
  by (simp add: ssh_error_codes_def ssh_disconnect_codes_def ssh_callbacks_def ssh_methods_def upt_conv_Cons
      LIBSSH2_ERROR_PUBLICKEY_UNRECOGNIZED_def LIBSSH2CHANNEL_EAGAIN_def SSH_DISCONNECT_BY_APPLICATION_def)

text \<open>The version number is the three parts, eight bits each, and numbers compare as versions do.\<close>

definition versionNum :: "nat \<Rightarrow> nat \<Rightarrow> nat \<Rightarrow> nat" where
  "versionNum major minor patch = 65536 * major + 256 * minor + patch"

theorem version_numbers_compare:
  assumes "b < 256" and "c < 256" and "b' < 256" and "c' < 256"
  shows "versionNum a b c < versionNum a' b' c' \<longleftrightarrow> a < a' \<or> a = a' \<and> (b < b' \<or> b = b' \<and> c < c')"
    and "LIBSSH2_VERSION_NUM = versionNum LIBSSH2_VERSION_MAJOR LIBSSH2_VERSION_MINOR LIBSSH2_VERSION_PATCH"
  using assms
  by (auto simp: versionNum_def LIBSSH2_VERSION_NUM_def LIBSSH2_VERSION_MAJOR_def LIBSSH2_VERSION_MINOR_def
      LIBSSH2_VERSION_PATCH_def)

text \<open>The banner is valid: its software version has no dash and no space; and the polling loop waits 30 seconds.\<close>

theorem banner_and_poll_time:
  "take 8 LIBSSH2_SSH_BANNER = ''SSH-2.0-'' \<and> CHR ''-'' \<notin> set (drop 8 LIBSSH2_SSH_BANNER)
    \<and> CHR '' '' \<notin> set (drop 8 LIBSSH2_SSH_BANNER)
    \<and> LIBSSH2_SOCKET_POLL_UDELAY * LIBSSH2_SOCKET_POLL_MAXLOOPS = 30 * 1000000"
  by (simp add: LIBSSH2_SSH_BANNER_def LIBSSH2_VERSION_def LIBSSH2_SOCKET_POLL_UDELAY_def
      LIBSSH2_SOCKET_POLL_MAXLOOPS_def)

end
