(* ===== verification/LockWrap.thy ===== *)
theory LockWrap
  imports Layout
begin

text \<open>
  The wrappers of include/lf.h: \<open>lock_wrap\<close> turns a function \<open>_f\<close> into \<open>f\<close>, which runs it under the write lock of
  my_atomic.h, \<open>nolock_wrap\<close> into one that just runs it.  The functions are only declared in the header, so
  a body is a parameter: a list of steps on the shared structure and the locals of the call.  Threads
  interleave at every step.  The lock is a mutex where atomic operations are built on mutexes
  (atomic/rwlock.h) and nothing where the platform has its own (atomic/nolock.h).
\<close>

section \<open>Programs\<close>

datatype lock_mode = MutexLock | NoLock

datatype ('s, 'l) action = WrLock | WrUnlock | Do "'s \<Rightarrow> 'l \<Rightarrow> 's \<times> 'l"

type_synonym ('s, 'l) body = "('s \<Rightarrow> 'l \<Rightarrow> 's \<times> 'l) list"

definition lock_wrap :: "('s, 'l) body \<Rightarrow> ('s, 'l) action list" where
  "lock_wrap f = WrLock # map Do f @ [WrUnlock]"

definition lock_wrap_void :: "('s, 'l) body \<Rightarrow> ('s, 'l) action list" where
  "lock_wrap_void f = WrLock # map Do f @ [WrUnlock]"

definition nolock_wrap :: "('s, 'l) body \<Rightarrow> ('s, 'l) action list" where
  "nolock_wrap f = map Do f"

section \<open>The wrapped functions\<close>

text \<open>Each gets the body that its \<open>_lf\<close> function has.\<close>

definition lf_dynarray_value :: "('s, 'l) body \<Rightarrow> ('s, 'l) action list" where
  "lf_dynarray_value f = nolock_wrap f"

definition lf_dynarray_lvalue :: "('s, 'l) body \<Rightarrow> ('s, 'l) action list" where
  "lf_dynarray_lvalue f = lock_wrap f"

definition lf_dynarray_iterate :: "('s, 'l) body \<Rightarrow> ('s, 'l) action list" where
  "lf_dynarray_iterate f = nolock_wrap f"

definition lf_pinbox_get_pins :: "('s, 'l) body \<Rightarrow> ('s, 'l) action list" where
  "lf_pinbox_get_pins f = lock_wrap f"

definition lf_pinbox_put_pins :: "('s, 'l) body \<Rightarrow> ('s, 'l) action list" where
  "lf_pinbox_put_pins f = lock_wrap_void f"

definition lf_pinbox_free :: "('s, 'l) body \<Rightarrow> ('s, 'l) action list" where
  "lf_pinbox_free f = lock_wrap_void f"

definition lf_alloc_new :: "('s, 'l) body \<Rightarrow> ('s, 'l) action list" where
  "lf_alloc_new f = lock_wrap f"

text \<open>The shortcuts on the allocator and on the hash are the functions on the pins they are about.\<close>

definition lf_alloc_free :: "('s, 'l) body \<Rightarrow> ('s, 'l) action list" where
  "lf_alloc_free f = lf_pinbox_free f"

definition lf_alloc_get_pins :: "('s, 'l) body \<Rightarrow> ('s, 'l) action list" where
  "lf_alloc_get_pins f = lf_pinbox_get_pins f"

definition lf_alloc_put_pins :: "('s, 'l) body \<Rightarrow> ('s, 'l) action list" where
  "lf_alloc_put_pins f = lf_pinbox_put_pins f"

definition lf_hash_get_pins :: "('s, 'l) body \<Rightarrow> ('s, 'l) action list" where
  "lf_hash_get_pins f = lf_alloc_get_pins f"

definition lf_hash_put_pins :: "('s, 'l) body \<Rightarrow> ('s, 'l) action list" where
  "lf_hash_put_pins f = lf_pinbox_put_pins f"

lemmas lf_wrapped = lf_dynarray_lvalue_def lf_pinbox_get_pins_def lf_pinbox_put_pins_def lf_pinbox_free_def
  lf_alloc_new_def lf_alloc_free_def lf_alloc_get_pins_def lf_alloc_put_pins_def lf_hash_get_pins_def
  lf_hash_put_pins_def lock_wrap_void_def lock_wrap_def

text \<open>They all are the same program around their body, the one whose calls are serialised below.\<close>

lemma lf_functions_locked:
  "g \<in> {lf_dynarray_lvalue, lf_pinbox_get_pins, lf_pinbox_put_pins, lf_pinbox_free, lf_alloc_new, lf_alloc_free,
     lf_alloc_get_pins, lf_alloc_put_pins, lf_hash_get_pins, lf_hash_put_pins} \<Longrightarrow> g f = lock_wrap f"
  by (auto simp: lf_wrapped)

section \<open>Pins\<close>

definition LF_PINBOX_PINS :: nat where "LF_PINBOX_PINS = 4"
definition LF_PURGATORY_SIZE :: nat where "LF_PURGATORY_SIZE = 10"

text \<open>The pins of a thread: what each holds, \<open>None\<close> for a null pointer.\<close>

type_synonym 'p pins = "'p option list"

definition lf_pin_raw :: "nat \<Rightarrow> 'p option \<Rightarrow> 'p pins \<Rightarrow> 'l \<Rightarrow> 'p pins \<times> 'l" where
  "lf_pin_raw PIN ADDR pins l = (pins[PIN := ADDR], l)"

definition lf_unpin_raw :: "nat \<Rightarrow> 'p pins \<Rightarrow> 'l \<Rightarrow> 'p pins \<times> 'l" where
  "lf_unpin_raw PIN = lf_pin_raw PIN None"

definition lf_pin :: "nat \<Rightarrow> 'p option \<Rightarrow> ('p pins, 'l) action list" where
  "lf_pin PIN ADDR = [WrLock, Do (lf_pin_raw PIN ADDR), WrUnlock]"

definition lf_unpin :: "nat \<Rightarrow> ('p pins, 'l) action list" where
  "lf_unpin PIN = lf_pin PIN None"

definition lf_hash_search_unpin :: "('p pins, 'l) action list" where
  "lf_hash_search_unpin = lf_unpin 2"

definition lf_assert_pin :: "'p pins \<Rightarrow> nat \<Rightarrow> bool" where
  "lf_assert_pin pins PIN = (pins ! PIN \<noteq> None)"

definition lf_assert_unpin :: "'p pins \<Rightarrow> nat \<Rightarrow> bool" where
  "lf_assert_unpin pins PIN = (pins ! PIN = None)"

text \<open>The array whose length is given as \<open>LF_PINBOX_PINS - N\<close>: a negative length does not compile.\<close>

definition LF_REQUIRE_PINS :: "int \<Rightarrow> bool" where
  "LF_REQUIRE_PINS N = (0 \<le> int LF_PINBOX_PINS - N)"

text \<open>The members of \<open>LF_PINS\<close> with the padding that the preprocessor computes, for pointers of \<open>p\<close> bytes.\<close>

definition lf_pins_pad :: "nat \<Rightarrow> (nat \<times> nat) list" where
  "lf_pins_pad p =
     (if 4 * 2 + p * (LF_PINBOX_PINS + 3) \<noteq> 64 then [(64 - 4 * 2 - p * (LF_PINBOX_PINS + 3), 1)] else [])"

definition lf_pins_members :: "nat \<Rightarrow> (nat \<times> nat) list" where
  "lf_pins_members p = [(p * LF_PINBOX_PINS, p), (p, p), (p, p), (p, p), (4, 4), (4, 4)] @ lf_pins_pad p"

section \<open>The dynamic array\<close>

definition LF_DYNARRAY_LEVEL_LENGTH :: nat where "LF_DYNARRAY_LEVEL_LENGTH = 256"
definition LF_DYNARRAY_LEVELS :: nat where "LF_DYNARRAY_LEVELS = 4"

definition dynarrayCapacity :: nat where
  "dynarrayCapacity = sum_list (map (\<lambda>i. LF_DYNARRAY_LEVEL_LENGTH ^ (i + 1)) [0..<LF_DYNARRAY_LEVELS])"

section \<open>Threads\<close>

text \<open>A call of a wrapped function: its body and its locals at the start; with them, while it runs, what is left of the
  program and the locals now.\<close>

type_synonym ('s, 'l) busy = "('s, 'l) body \<times> 'l \<times> ('s, 'l) action list \<times> 'l"

type_synonym ('s, 'l) config = "'s \<times> nat option \<times> (nat \<Rightarrow> ('s, 'l) busy option)"

text \<open>A finished call: its body, its locals at the start and at the end.\<close>

type_synonym ('s, 'l) fin = "('s, 'l) body \<times> 'l \<times> 'l"

fun act :: "lock_mode \<Rightarrow> nat option \<Rightarrow> nat \<Rightarrow> ('s, 'l) action \<Rightarrow> 's \<times> 'l \<Rightarrow> (nat option \<times> 's \<times> 'l) option" where
  "act MutexLock h t WrLock (s, l) = (if h = None then Some (Some t, s, l) else None)"
| "act NoLock h t WrLock (s, l) = Some (h, s, l)"
| "act MutexLock h t WrUnlock (s, l) = Some (None, s, l)"
| "act NoLock h t WrUnlock (s, l) = Some (h, s, l)"
| "act mode h t (Do f) (s, l) = Some (h, f s l)"

text \<open>A thread makes a call or its next move; a call is finished with its last action.\<close>

fun move :: "lock_mode \<Rightarrow> nat \<Rightarrow> ('s, 'l) config \<Rightarrow> (('s, 'l) config \<times> ('s, 'l) fin list) option" where
  "move mode t (s, h, ts) =
     (case ts t of
        Some (b, l0, a # acts, l) \<Rightarrow>
          (case act mode h t a (s, l) of
             None \<Rightarrow> None
           | Some (h', s', l') \<Rightarrow>
               Some ((s', h', ts(t := (if acts = [] then None else Some (b, l0, acts, l')))),
                     if acts = [] then [(b, l0, l')] else []))
      | _ \<Rightarrow> None)"

inductive lock_run :: "lock_mode \<Rightarrow> ('s, 'l) config \<Rightarrow> ('s, 'l) fin list \<Rightarrow> ('s, 'l) config \<Rightarrow> bool" for mode where
  lr_start: "lock_run mode c [] c"
| lr_call: "lock_run mode c fs (s, h, ts) \<Longrightarrow> ts t = None
    \<Longrightarrow> lock_run mode c fs (s, h, ts(t := Some (b, l, lock_wrap b, l)))"
| lr_move: "lock_run mode c fs d \<Longrightarrow> move mode t d = Some (e, gs) \<Longrightarrow> lock_run mode c (fs @ gs) e"

section \<open>One call after the other\<close>

fun runBody :: "('s, 'l) body \<Rightarrow> 's \<times> 'l \<Rightarrow> 's \<times> 'l" where
  "runBody [] x = x"
| "runBody (f # fs) (s, l) = runBody fs (f s l)"

fun serial :: "('s, 'l) fin list \<Rightarrow> 's \<Rightarrow> 's option" where
  "serial [] s = Some s"
| "serial ((b, l, r) # fs) s = (case runBody b (s, l) of (s', r') \<Rightarrow> if r' = r then serial fs s' else None)"

lemma serial_append: "serial (fs @ gs) s = (case serial fs s of None \<Rightarrow> None | Some s' \<Rightarrow> serial gs s')"
  by (induction fs s rule: serial.induct) (auto split: prod.splits)

text \<open>Where a busy thread is: before its lock, or inside with the rest of its body.\<close>

definition waiting :: "('s, 'l) busy \<Rightarrow> bool" where
  "waiting x \<longleftrightarrow> (case x of (b, l0, acts, l) \<Rightarrow> acts = lock_wrap b \<and> l = l0)"

definition inside :: "'s \<Rightarrow> 's \<Rightarrow> ('s, 'l) busy \<Rightarrow> bool" where
  "inside m s x \<longleftrightarrow> (case x of (b, l0, acts, l) \<Rightarrow>
     \<exists>rest. acts = map Do rest @ [WrUnlock] \<and> runBody rest (s, l) = runBody b (m, l0))"

definition lock_inv :: "'s \<Rightarrow> ('s, 'l) fin list \<Rightarrow> ('s, 'l) config \<Rightarrow> bool" where
  "lock_inv s0 fs c \<longleftrightarrow> (case c of (s, h, ts) \<Rightarrow>
     \<exists>m. serial fs s0 = Some m
       \<and> (\<forall>t x. ts t = Some x \<longrightarrow> h \<noteq> Some t \<longrightarrow> waiting x)
       \<and> (case h of None \<Rightarrow> s = m | Some t \<Rightarrow> \<exists>x. ts t = Some x \<and> inside m s x))"

lemma lock_inv_free:
  "serial fs s0 = Some s \<Longrightarrow> (\<And>t x. ts t = Some x \<Longrightarrow> waiting x) \<Longrightarrow> lock_inv s0 fs (s, None, ts)"
  by (auto simp: lock_inv_def)

lemma lock_inv_held:
  "serial fs s0 = Some m \<Longrightarrow> (\<And>u x. ts u = Some x \<Longrightarrow> u \<noteq> t \<Longrightarrow> waiting x) \<Longrightarrow> ts t = Some x \<Longrightarrow> inside m s x
    \<Longrightarrow> lock_inv s0 fs (s, Some t, ts)"
  by (cases x) (auto simp: lock_inv_def)

lemma lock_inv_cases:
  assumes "lock_inv s0 fs (s, h, ts)"
  obtains (free) "h = None" "serial fs s0 = Some s" "\<And>t x. ts t = Some x \<Longrightarrow> waiting x"
    | (held) m t b l0 rest l where "h = Some t" "serial fs s0 = Some m" "\<And>u x. ts u = Some x \<Longrightarrow> u \<noteq> t \<Longrightarrow> waiting x"
        "ts t = Some (b, l0, map Do rest @ [WrUnlock], l)" "runBody rest (s, l) = runBody b (m, l0)"
proof (cases h)
  case None
  with assms free show ?thesis by (auto simp: lock_inv_def)
next
  case (Some t)
  with assms obtain m x where "serial fs s0 = Some m" "\<And>u x. ts u = Some x \<Longrightarrow> u \<noteq> t \<Longrightarrow> waiting x"
    "ts t = Some x" "inside m s x" by (auto simp: lock_inv_def)
  with Some held show ?thesis by (cases x) (auto simp: inside_def)
qed

lemma move_waiting:
  "ts t = Some x \<Longrightarrow> waiting x \<Longrightarrow> move MutexLock t (s, h, ts) =
     (case x of (b, l0, acts, l) \<Rightarrow>
        if h = None then Some ((s, Some t, ts(t := Some (b, l0, map Do b @ [WrUnlock], l))), []) else None)"
  by (auto simp: waiting_def lock_wrap_def split: prod.splits)

lemma lock_inv_move:
  assumes inv: "lock_inv s0 fs (s, h, ts)" and mv: "move MutexLock t (s, h, ts) = Some (e, gs)"
  shows "lock_inv s0 (fs @ gs) e"
  using inv
proof (cases rule: lock_inv_cases)
  case free
  obtain b l0 acts l where t: "ts t = Some (b, l0, acts, l)" using mv by (auto split: option.splits)
  have e: "e = (s, Some t, ts(t := Some (b, l0, map Do b @ [WrUnlock], l)))" "gs = []"
    using mv move_waiting [of ts, OF t free(3) [OF t]] free(1) by simp_all
  have "l = l0" using free(3) [OF t] by (simp add: waiting_def)
  then show ?thesis unfolding e using free
    by (intro lock_inv_held [where m = s]) (auto simp: inside_def split: if_splits)
next
  case (held m u b l0 rest l)
  show ?thesis
  proof (cases "t = u")
    case False
    then obtain x where "ts t = Some x" "waiting x" using held(3) mv by (auto split: option.splits)
    from move_waiting [of ts, OF this] held(1) mv show ?thesis by (auto split: prod.splits)
  next
    case t: True
    show ?thesis
    proof (cases rest)
      case Nil
      then have "e = (s, None, ts(u := None))" "gs = [(b, l0, l)]" using mv held t by auto
      moreover have "runBody b (m, l0) = (s, l)" using held(5) Nil by simp
      ultimately show ?thesis using held
        by (auto intro!: lock_inv_free simp: serial_append split: if_splits)
    next
      case (Cons f rest')
      obtain s' l' where f: "f s l = (s', l')" by fastforce
      have e: "e = (s', Some u, ts(u := Some (b, l0, map Do rest' @ [WrUnlock], l')))" "gs = []"
        using mv held t f Cons by auto
      show ?thesis unfolding e using held f Cons
        by (intro lock_inv_held [where m = m]) (auto simp: inside_def split: if_splits)
    qed
  qed
qed

lemma lock_inv_run:
  assumes "lock_run MutexLock c fs d" and "c = (s0, None, \<lambda>_. None)"
  shows "lock_inv s0 fs d"
  using assms
proof (induction rule: lock_run.induct)
  case (lr_start c)
  then show ?case by (simp add: lock_inv_def)
next
  case (lr_call c fs s h ts t b l)
  then have inv: "lock_inv s0 fs (s, h, ts)" by simp
  have w: "waiting (b, l, lock_wrap b, l)" by (simp add: waiting_def)
  from inv show ?case
  proof (cases rule: lock_inv_cases)
    case free
    then show ?thesis using w by (auto intro!: lock_inv_free split: if_splits)
  next
    case (held m u b' l0 rest l')
    then have "u \<noteq> t" using lr_call.hyps(2) by auto
    then show ?thesis using w held by (auto intro!: lock_inv_held [where m = m] simp: inside_def split: if_splits)
  qed
next
  case (lr_move c fs d t e gs)
  then show ?case by (cases d) (auto intro: lock_inv_move)
qed

section \<open>Schedules\<close>

text \<open>Which thread calls what, or moves, next.\<close>

fun go :: "lock_mode \<Rightarrow> (nat \<times> (('s, 'l) body \<times> 'l) option) list \<Rightarrow> ('s, 'l) config \<times> ('s, 'l) fin list
    \<Rightarrow> (('s, 'l) config \<times> ('s, 'l) fin list) option" where
  "go mode [] x = Some x"
| "go mode ((t, Some (b, l)) # sch) ((s, h, ts), fs) =
     (case ts t of None \<Rightarrow> go mode sch ((s, h, ts(t := Some (b, l, lock_wrap b, l))), fs) | Some _ \<Rightarrow> None)"
| "go mode ((t, None) # sch) (c, fs) =
     (case move mode t c of None \<Rightarrow> None | Some (d, gs) \<Rightarrow> go mode sch (d, fs @ gs))"

lemma go_run: "go mode sch (d, fs) = Some (e, gs) \<Longrightarrow> lock_run mode c fs d \<Longrightarrow> lock_run mode c gs e"
proof (induction sch arbitrary: d fs)
  case (Cons a sch)
  obtain t k where a: "a = (t, k)" by (cases a)
  obtain s h ts where d: "d = (s, h, ts)" by (cases d)
  show ?case
  proof (cases k)
    case None
    with Cons.prems a obtain d' hs where "move mode t d = Some (d', hs)" "go mode sch (d', fs @ hs) = Some (e, gs)"
      by (auto split: option.splits)
    with Cons.IH Cons.prems(2) lr_move show ?thesis by blast
  next
    case (Some x)
    obtain b l where "x = (b, l)" by (cases x)
    with Cons.prems a d Some have "ts t = None" "go mode sch ((s, h, ts(t := Some (b, l, lock_wrap b, l))), fs) = Some (e, gs)"
      by (auto split: option.splits)
    then show ?thesis using Cons.IH lr_call [OF Cons.prems(2) [unfolded d]] by blast
  qed
qed simp

section \<open>Properties\<close>

text \<open>C10. Under the lock a wrapped function is atomic, whatever steps its body has: in every interleaving at most one call is
  past its lock, the finished calls give their results and the structure its value as if they had run one after the
  other in the order in which they finish, and while a thread is busy some thread can move.\<close>

theorem wrapped_calls_serialise:
  assumes "lock_run MutexLock (s0, None, \<lambda>_. None) fs (s, h, ts)"
  shows "(\<exists>m. serial fs s0 = Some m \<and> (h = None \<longrightarrow> s = m))
    \<and> (\<forall>t u x y. ts t = Some x \<longrightarrow> ts u = Some y \<longrightarrow> \<not> waiting x \<longrightarrow> \<not> waiting y \<longrightarrow> t = u)
    \<and> ((\<exists>t. ts t \<noteq> None) \<longrightarrow> (\<exists>t. move MutexLock t (s, h, ts) \<noteq> None))"
proof -
  from lock_inv_run [OF assms refl] show ?thesis
  proof (cases rule: lock_inv_cases)
    case free
    have "move MutexLock t (s, h, ts) \<noteq> None" if "ts t = Some x" for t x
      using move_waiting [of ts, OF that free(3) [OF that]] free(1) by (auto split: prod.splits)
    with free show ?thesis by blast
  next
    case (held m t b l0 rest l)
    have "move MutexLock t (s, h, ts) \<noteq> None" using held by (cases rest) (auto split: prod.splits)
    with held show ?thesis by (metis option.distinct(1))
  qed
qed

text \<open>A counter that a body reads into its local and writes back one higher.\<close>

definition countUp :: "(nat, nat) body" where
  "countUp = [\<lambda>s l. (s, s), \<lambda>s l. (l + 1, l)]"

theorem wrapped_calls_serialise_witness:
  "\<exists>fs ts. go MutexLock [(0, Some (countUp, 0)), (1, Some (countUp, 0)), (0, None), (0, None), (0, None), (0, None),
      (1, None), (1, None), (1, None), (1, None)] ((0, None, \<lambda>_. None), []) = Some ((2, None, ts), fs)
    \<and> serial fs 0 = Some 2"
proof -
  obtain fs ts where run: "go MutexLock [(0, Some (countUp, 0)), (1, Some (countUp, 0)), (0, None), (0, None), (0, None), (0, None),
      (1, None), (1, None), (1, None), (1, None)] ((0, None, \<lambda>_. None), []) = Some ((2, None, ts), fs)"
    by (simp add: countUp_def lock_wrap_def)
  from wrapped_calls_serialise [OF go_run [OF this lr_start]] run show ?thesis by auto
qed

text \<open>Without the lock the same two calls can lose an update: no order of them gives what they leave.\<close>

theorem without_lock_update_lost:
  "\<exists>(fs :: (nat, nat) fin list) ts. lock_run NoLock (0, None, \<lambda>_. None) fs (1, None, ts) \<and> length fs = 2 \<and> (\<forall>t. ts t = None)
    \<and> serial fs 0 \<noteq> Some 1 \<and> serial (rev fs) 0 \<noteq> Some 1"
proof -
  let ?fs = "[(countUp, 0, 0), (countUp, 0, 0)]"
  have "\<exists>ts. go NoLock [(0, Some (countUp, 0)), (1, Some (countUp, 0)), (0, None), (1, None), (0, None), (1, None),
      (0, None), (1, None), (0, None), (1, None)] ((0, None, \<lambda>_. None), []) = Some ((1, None, ts), ?fs) \<and> (\<forall>t. ts t = None)"
    by (simp add: countUp_def lock_wrap_def)
  then obtain ts where "lock_run NoLock (0, None, \<lambda>_. None) ?fs (1, None, ts)" "\<forall>t. ts t = None"
    using go_run [OF _ lr_start] by blast
  moreover have "serial ?fs 0 = None" by (simp add: countUp_def)
  ultimately show ?thesis by (intro exI [of _ ?fs] exI [of _ ts]) simp
qed

text \<open>\<open>LF_PINS\<close> has 64 bytes with pointers of four and of eight bytes; an index of 32 bits is inside the array, whose
  number of elements is the one the comment gives; and the pin that \<open>lf_hash_search_unpin\<close> clears exists.\<close>

theorem lock_free_sizes:
  "structSize (lf_pins_members 4) = 64 \<and> structSize (lf_pins_members 8) = 64
    \<and> dynarrayCapacity = 4311810304 \<and> 2 ^ 32 \<le> dynarrayCapacity
    \<and> (LF_REQUIRE_PINS n \<longleftrightarrow> n \<le> 4) \<and> 2 < LF_PINBOX_PINS"
proof -
  have "structSize (lf_pins_members 4) = 64" "structSize (lf_pins_members 8) = 64"
    by code_simp+
  moreover have "dynarrayCapacity = 4311810304"
    by (simp add: dynarrayCapacity_def LF_DYNARRAY_LEVEL_LENGTH_def LF_DYNARRAY_LEVELS_def upt_conv_Cons)
  ultimately show ?thesis by (auto simp: LF_REQUIRE_PINS_def LF_PINBOX_PINS_def)
qed

text \<open>Pinning and unpinning through the macros: the pin holds the address, then nothing, and no other pin changes.\<close>

lemma lf_pin_wraps: "lf_pin PIN ADDR = lock_wrap [lf_pin_raw PIN ADDR]"
  by (simp add: lf_pin_def lock_wrap_def)

theorem pins_hold:
  assumes "PIN < length pins"
  shows "(\<exists>pins'. runBody [lf_pin_raw PIN (Some a)] (pins, l) = (pins', l) \<and> lf_assert_pin pins' PIN
      \<and> (\<forall>i. i \<noteq> PIN \<longrightarrow> pins' ! i = pins ! i) \<and> lf_assert_unpin (fst (lf_unpin_raw PIN pins' l)) PIN)"
  using assms by (simp add: lf_pin_raw_def lf_unpin_raw_def lf_assert_pin_def lf_assert_unpin_def)

end
