(* ===== verification/ThaiCtype.thy ===== *)
theory ThaiCtype
  imports "HOL-Library.Word"
begin

text \<open>
  Thai characters, t_ctype.h: the symbols of the four collation levels in their order, and the class
  macros.  The table \<open>t_ctype\<close> the macros read is in the library: it is a parameter, an entry per
  character with one number per level and, in the last place, the class bits.
\<close>

unbundle bit_operations_syntax

section \<open>Symbols\<close>

definition TOT_LEVELS :: nat where "TOT_LEVELS = 5"

definition LAST_LEVEL :: nat where "LAST_LEVEL = 4"

definition IGNORE :: nat where "IGNORE = 0"

text \<open>An enumeration is the list of its names; the first one is \<open>TOT_LEVELS\<close>, each other one more than the
  name before it.\<close>

definition l1_symbols :: "string list" where
  "l1_symbols =
    [''L1_08'', ''L1_18'', ''L1_28'', ''L1_38'', ''L1_48'', ''L1_58'', ''L1_68'', ''L1_78'',
     ''L1_88'', ''L1_98'', ''L1_A8'', ''L1_B8'', ''L1_C8'', ''L1_D8'', ''L1_E8'', ''L1_F8'',
     ''L1_G8'', ''L1_H8'', ''L1_I8'', ''L1_J8'', ''L1_K8'', ''L1_L8'', ''L1_M8'', ''L1_N8'',
     ''L1_O8'', ''L1_P8'', ''L1_Q8'', ''L1_R8'', ''L1_S8'', ''L1_T8'', ''L1_U8'', ''L1_V8'',
     ''L1_W8'', ''L1_X8'', ''L1_Y8'', ''L1_Z8'', ''L1_KO_KAI'', ''L1_KHO_KHAI'', ''L1_KHO_KHUAT'',
     ''L1_KHO_KHWAI'', ''L1_KHO_KHON'', ''L1_KHO_RAKHANG'', ''L1_NGO_NGU'', ''L1_CHO_CHAN'',
     ''L1_CHO_CHING'', ''L1_CHO_CHANG'', ''L1_SO_SO'', ''L1_CHO_CHOE'', ''L1_YO_YING'',
     ''L1_DO_CHADA'', ''L1_TO_PATAK'', ''L1_THO_THAN'', ''L1_THO_NANGMONTHO'', ''L1_THO_PHUTHAO'',
     ''L1_NO_NEN'', ''L1_DO_DEK'', ''L1_TO_TAO'', ''L1_THO_THUNG'', ''L1_THO_THAHAN'',
     ''L1_THO_THONG'', ''L1_NO_NU'', ''L1_BO_BAIMAI'', ''L1_PO_PLA'', ''L1_PHO_PHUNG'', ''L1_FO_FA'',
     ''L1_PHO_PHAN'', ''L1_FO_FAN'', ''L1_PHO_SAMPHAO'', ''L1_MO_MA'', ''L1_YO_YAK'', ''L1_RO_RUA'',
     ''L1_RU'', ''L1_LO_LING'', ''L1_LU'', ''L1_WO_WAEN'', ''L1_SO_SALA'', ''L1_SO_RUSI'',
     ''L1_SO_SUA'', ''L1_HO_HIP'', ''L1_LO_CHULA'', ''L1_O_ANG'', ''L1_HO_NOKHUK'', ''L1_NKHIT'',
     ''L1_SARA_A'', ''L1_MAI_HAN_AKAT'', ''L1_SARA_AA'', ''L1_SARA_AM'', ''L1_SARA_I'',
     ''L1_SARA_II'', ''L1_SARA_UE'', ''L1_SARA_UEE'', ''L1_SARA_U'', ''L1_SARA_UU'', ''L1_SARA_E'',
     ''L1_SARA_AE'', ''L1_SARA_O'', ''L1_SARA_AI_MAIMUAN'', ''L1_SARA_AI_MAIMALAI'']"

definition l2_symbols :: "string list" where
  "l2_symbols =
    [''L2_BLANK'', ''L2_THAII'', ''L2_YAMAK'', ''L2_PINTHU'', ''L2_GARAN'', ''L2_TYKHU'',
     ''L2_TONE1'', ''L2_TONE2'', ''L2_TONE3'', ''L2_TONE4'']"

definition l3_symbols :: "string list" where
  "l3_symbols =
    [''L3_BLANK'', ''L3_SPACE'', ''L3_NB_SACE'', ''L3_LOW_LINE'', ''L3_HYPHEN'', ''L3_COMMA'',
     ''L3_SEMICOLON'', ''L3_COLON'', ''L3_EXCLAMATION'', ''L3_QUESTION'', ''L3_SOLIDUS'',
     ''L3_FULL_STOP'', ''L3_PAIYAN_NOI'', ''L3_MAI_YAMOK'', ''L3_GRAVE'', ''L3_CIRCUMFLEX'',
     ''L3_TILDE'', ''L3_APOSTROPHE'', ''L3_QUOTATION'', ''L3_L_PARANTHESIS'', ''L3_L_BRACKET'',
     ''L3_L_BRACE'', ''L3_R_BRACE'', ''L3_R_BRACKET'', ''L3_R_PARENTHESIS'', ''L3_AT'', ''L3_BAHT'',
     ''L3_DOLLAR'', ''L3_FONGMAN'', ''L3_ANGKHANKHU'', ''L3_KHOMUT'', ''L3_ASTERISK'',
     ''L3_BK_SOLIDUS'', ''L3_AMPERSAND'', ''L3_NUMBER'', ''L3_PERCENT'', ''L3_PLUS'',
     ''L3_LESS_THAN'', ''L3_EQUAL'', ''L3_GREATER_THAN'', ''L3_V_LINE'']"

definition l4_symbols :: "string list" where
  "l4_symbols =
    [''L4_BLANK'', ''L4_MIN'', ''L4_CAP'', ''L4_EXT'']"

definition level_symbols :: "string list" where
  "level_symbols =
    [''L_UPRUPR'', ''L_UPPER'', ''L_MIDDLE'', ''L_LOWER'']"

fun position :: "string \<Rightarrow> string list \<Rightarrow> nat" where
  "position s [] = 0"
| "position s (x # xs) = (if s = x then 0 else Suc (position s xs))"

definition symbol :: "string list \<Rightarrow> string \<Rightarrow> nat" where
  "symbol l s = TOT_LEVELS + position s l"

section \<open>Class bits\<close>

definition bit_level :: "32 word" where "bit_level = 8"
definition bit_consnt :: "32 word" where "bit_consnt = 16"
definition bit_ldvowel :: "32 word" where "bit_ldvowel = 32"
definition bit_fllwvowel :: "32 word" where "bit_fllwvowel = 64"
definition bit_uprvowel :: "32 word" where "bit_uprvowel = 128"
definition bit_lwrvowel :: "32 word" where "bit_lwrvowel = 256"
definition bit_tone :: "32 word" where "bit_tone = 512"
definition bit_diacrt1 :: "32 word" where "bit_diacrt1 = 1024"
definition bit_diacrt2 :: "32 word" where "bit_diacrt2 = 2048"
definition bit_combine :: "32 word" where "bit_combine = 4096"
definition bit_stone :: "32 word" where "bit_stone = 8192"
definition bit_tdig :: "32 word" where "bit_tdig = 16384"

definition bit_rearvowel :: "32 word" where
  "bit_rearvowel = bit_fllwvowel OR bit_uprvowel OR bit_lwrvowel"

definition bit_diacrt :: "32 word" where "bit_diacrt = bit_diacrt1 OR bit_diacrt2"

section \<open>Class macros\<close>

type_synonym thai_table = "32 word list list"

definition is_bits :: "thai_table \<Rightarrow> nat \<Rightarrow> 32 word" where
  "is_bits t c = t ! c ! LAST_LEVEL"

definition isthai :: "int \<Rightarrow> bool" where "isthai c = (c \<ge> 128)"

definition levelof :: "thai_table \<Rightarrow> nat \<Rightarrow> 32 word" where
  "levelof t c = is_bits t c AND bit_level"
definition istalpha :: "thai_table \<Rightarrow> nat \<Rightarrow> 32 word" where
  "istalpha t c = is_bits t c AND (bit_consnt OR bit_ldvowel OR bit_rearvowel OR bit_tone OR bit_diacrt1 OR bit_diacrt2)"
definition isconsnt :: "thai_table \<Rightarrow> nat \<Rightarrow> 32 word" where
  "isconsnt t c = is_bits t c AND bit_consnt"
definition isldvowel :: "thai_table \<Rightarrow> nat \<Rightarrow> 32 word" where
  "isldvowel t c = is_bits t c AND bit_ldvowel"
definition isfllwvowel :: "thai_table \<Rightarrow> nat \<Rightarrow> 32 word" where
  "isfllwvowel t c = is_bits t c AND bit_fllwvowel"
definition ismidvowel :: "thai_table \<Rightarrow> nat \<Rightarrow> 32 word" where
  "ismidvowel t c = is_bits t c AND (bit_ldvowel OR bit_fllwvowel)"
definition isuprvowel :: "thai_table \<Rightarrow> nat \<Rightarrow> 32 word" where
  "isuprvowel t c = is_bits t c AND bit_uprvowel"
definition islwrvowel :: "thai_table \<Rightarrow> nat \<Rightarrow> 32 word" where
  "islwrvowel t c = is_bits t c AND bit_lwrvowel"
definition isuprlwrvowel :: "thai_table \<Rightarrow> nat \<Rightarrow> 32 word" where
  "isuprlwrvowel t c = is_bits t c AND (bit_lwrvowel OR bit_uprvowel)"
definition isrearvowel :: "thai_table \<Rightarrow> nat \<Rightarrow> 32 word" where
  "isrearvowel t c = is_bits t c AND bit_rearvowel"
definition isvowel :: "thai_table \<Rightarrow> nat \<Rightarrow> 32 word" where
  "isvowel t c = is_bits t c AND (bit_ldvowel OR bit_rearvowel)"
definition istone :: "thai_table \<Rightarrow> nat \<Rightarrow> 32 word" where
  "istone t c = is_bits t c AND bit_tone"
definition isunldable :: "thai_table \<Rightarrow> nat \<Rightarrow> 32 word" where
  "isunldable t c = is_bits t c AND (bit_rearvowel OR bit_tone OR bit_diacrt1 OR bit_diacrt2)"
definition iscombinable :: "thai_table \<Rightarrow> nat \<Rightarrow> 32 word" where
  "iscombinable t c = is_bits t c AND bit_combine"
definition istdigit :: "thai_table \<Rightarrow> nat \<Rightarrow> 32 word" where
  "istdigit t c = is_bits t c AND bit_tdig"
definition isstone :: "thai_table \<Rightarrow> nat \<Rightarrow> 32 word" where
  "isstone t c = is_bits t c AND bit_stone"
definition isdiacrt1 :: "thai_table \<Rightarrow> nat \<Rightarrow> 32 word" where
  "isdiacrt1 t c = is_bits t c AND bit_diacrt1"
definition isdiacrt2 :: "thai_table \<Rightarrow> nat \<Rightarrow> 32 word" where
  "isdiacrt2 t c = is_bits t c AND bit_diacrt2"
definition isdiacrt :: "thai_table \<Rightarrow> nat \<Rightarrow> 32 word" where
  "isdiacrt t c = is_bits t c AND bit_diacrt"

section \<open>Theorems\<close>

lemmas thai_bits = bit_level_def bit_consnt_def bit_ldvowel_def bit_fllwvowel_def bit_uprvowel_def
  bit_lwrvowel_def bit_tone_def bit_diacrt1_def bit_diacrt2_def bit_combine_def bit_stone_def bit_tdig_def
  bit_rearvowel_def bit_diacrt_def

lemmas thai_classes = levelof_def istalpha_def isconsnt_def isldvowel_def isfllwvowel_def ismidvowel_def
  isuprvowel_def islwrvowel_def isuprlwrvowel_def isrearvowel_def isvowel_def istone_def isunldable_def
  iscombinable_def istdigit_def isstone_def isdiacrt1_def isdiacrt2_def isdiacrt_def

text \<open>A test of a union of classes holds exactly when a test of one of the classes does.\<close>

lemma and_or_nonzero: "x AND (a OR b) \<noteq> 0 \<longleftrightarrow> x AND a \<noteq> 0 \<or> x AND b \<noteq> 0" for x :: "32 word"
  by (simp add: bit.conj_disj_distrib or_eq_0_iff)

text \<open>The classes of Thai characters as sets: vowels are the leading and the rear ones, or the middle ones and
  those above or below; a letter is a consonant, a vowel, a tone mark or a diacritic; what cannot begin a
  cell is a letter that is neither a consonant nor a leading vowel.\<close>

theorem thai_classes_compose:
  "isvowel t c \<noteq> 0 \<longleftrightarrow> isldvowel t c \<noteq> 0 \<or> isrearvowel t c \<noteq> 0"
  "isvowel t c \<noteq> 0 \<longleftrightarrow> ismidvowel t c \<noteq> 0 \<or> isuprlwrvowel t c \<noteq> 0"
  "isrearvowel t c \<noteq> 0 \<longleftrightarrow> isfllwvowel t c \<noteq> 0 \<or> isuprvowel t c \<noteq> 0 \<or> islwrvowel t c \<noteq> 0"
  "isdiacrt t c \<noteq> 0 \<longleftrightarrow> isdiacrt1 t c \<noteq> 0 \<or> isdiacrt2 t c \<noteq> 0"
  "isunldable t c \<noteq> 0 \<longleftrightarrow> isrearvowel t c \<noteq> 0 \<or> istone t c \<noteq> 0 \<or> isdiacrt t c \<noteq> 0"
  "istalpha t c \<noteq> 0 \<longleftrightarrow> isconsnt t c \<noteq> 0 \<or> isvowel t c \<noteq> 0 \<or> istone t c \<noteq> 0 \<or> isdiacrt t c \<noteq> 0"
  "istalpha t c \<noteq> 0 \<longleftrightarrow> isconsnt t c \<noteq> 0 \<or> isldvowel t c \<noteq> 0 \<or> isunldable t c \<noteq> 0"
  unfolding thai_classes bit_rearvowel_def bit_diacrt_def and_or_nonzero by blast+

text \<open>The symbols of a level are numbered from \<open>TOT_LEVELS\<close> in their order, each once; none is \<open>IGNORE\<close> and none
  is the number of a level.\<close>

lemma position_nth: "distinct xs \<Longrightarrow> i < length xs \<Longrightarrow> position (xs ! i) xs = i"
proof (induction xs arbitrary: i)
  case (Cons x xs)
  then show ?case by (cases i) auto
qed simp

lemma symbols_distinct:
  "distinct l1_symbols" "distinct l2_symbols" "distinct l3_symbols" "distinct l4_symbols" "distinct level_symbols"
  by code_simp+

lemma position_length: "position s xs \<le> length xs"
  by (induction xs) auto

theorem symbols_in_order:
  assumes "l \<in> {l1_symbols, l2_symbols, l3_symbols, l4_symbols, level_symbols}"
    and "i < j" "j < length l"
  shows "symbol l (l ! i) < symbol l (l ! j)" "symbol l (l ! i) > LAST_LEVEL" "symbol l (l ! i) \<noteq> IGNORE"
proof -
  have d: "distinct l" using assms(1) symbols_distinct by auto
  from position_nth [OF d assms(3)] position_nth [OF d, of i] assms(2,3)
  show "symbol l (l ! i) < symbol l (l ! j)" by (simp add: symbol_def)
qed (simp_all add: symbol_def LAST_LEVEL_def TOT_LEVELS_def IGNORE_def)

lemma symbol_values:
  "symbol l1_symbols ''L1_KO_KAI'' = 41" "symbol l1_symbols ''L1_SARA_AI_MAIMALAI'' = 102"
  "symbol l2_symbols ''L2_TONE4'' = 14" "symbol l3_symbols ''L3_V_LINE'' = 45" "symbol l4_symbols ''L4_EXT'' = 8"
  by code_simp+

text \<open>The bits of an entry fit in fifteen bits, but not in a byte: a table of bytes loses eight of the classes.\<close>

lemma byte_table_loses_classes:
  "is_bits t c < 256 \<Longrightarrow> islwrvowel t c = 0 \<and> isdiacrt t c = 0 \<and> istone t c = 0 \<and> istdigit t c = 0"
proof -
  assume a: "is_bits t c < 256"
  then have "unat (is_bits t c) < 2 ^ 8" by (simp add: word_less_nat_alt)
  then have m: "take_bit 8 (is_bits t c) = is_bits t c"
    by (metis take_bit_nat_eq_self unsigned_take_bit_eq unsigned_word_eqI)
  have b: "is_bits t c AND w = 0" if "take_bit 8 w = 0" for w
  proof -
    have "is_bits t c AND w = take_bit 8 (is_bits t c) AND w" by (simp only: m)
    also have "\<dots> = take_bit 8 (is_bits t c) AND take_bit 8 w"
      by (rule bit_word_eqI) (auto simp: bit_take_bit_iff bit_and_iff)
    finally show ?thesis by (simp only: that and_zero_eq)
  qed
  show ?thesis unfolding thai_classes bit_diacrt_def
    by (intro conjI; rule b; simp add: thai_bits take_bit_eq_mask mask_eq_exp_minus_1)
qed

lemma level_values:
  "symbol level_symbols ''L_UPRUPR'' = 5" "symbol level_symbols ''L_UPPER'' = 6"
  "symbol level_symbols ''L_MIDDLE'' = 7" "symbol level_symbols ''L_LOWER'' = 8"
  by code_simp+

text \<open>The level of a character is one of four symbols, but \<open>levelof\<close> reads one bit: of an entry that holds a
  level and class bits it tells the lower level from the others, and gives 0 for the three others alike.\<close>

theorem levelof_tells_lower_only:
  assumes "s \<in> set level_symbols" and "is_bits t c = word_of_nat (symbol level_symbols s) OR f" and "f AND 15 = 0"
  shows "levelof t c = (if s = ''L_LOWER'' then 8 else 0)"
proof -
  have "f AND 8 = (f AND 15) AND 8" by (simp add: and.assoc)
  then have f: "f AND 8 = 0" using assms(3) by simp
  have l: "is_bits t c AND 8 = word_of_nat (symbol level_symbols s) AND 8"
    using f by (simp add: assms(2) bit.conj_disj_distrib2)
  from assms(1) consider "s = ''L_UPRUPR''" | "s = ''L_UPPER''" | "s = ''L_MIDDLE''" | "s = ''L_LOWER''"
    by (auto simp: level_symbols_def)
  then show ?thesis
    by cases (simp_all add: levelof_def bit_level_def l level_values)
qed

end
