(* ===== verification/ByteSwaps.thy ===== *)
theory ByteSwaps
  imports FixedPoint
begin

text \<open>
  The byte swaps in memory of mips_swap.h, byteorder.h and bio.h: which machines they swap on, that they
  turn a number stored low byte first into the number stored high byte first, and that each undoes itself.
\<close>

unbundle bit_operations_syntax

section \<open>mips_swap.h\<close>

text \<open>One exchange of the bytes at two offsets through \<open>tmp_byte\<close>.\<close>

definition exchange :: "nat \<Rightarrow> nat \<Rightarrow> nat \<Rightarrow> byte list \<Rightarrow> byte list" where
  "exchange x i j A =
     (let tmp_byte = A ! (x + i); A = A[x + i := A ! (x + j)] in A[x + j := tmp_byte])"

definition SWAPHALF :: "bool \<Rightarrow> nat \<Rightarrow> byte list \<Rightarrow> byte list" where
  "SWAPHALF WORDS_BIGENDIAN x A = (if WORDS_BIGENDIAN then A else exchange x 0 1 A)"

definition SWAPWORD :: "bool \<Rightarrow> nat \<Rightarrow> byte list \<Rightarrow> byte list" where
  "SWAPWORD WORDS_BIGENDIAN x A =
     (if WORDS_BIGENDIAN then A else exchange x 1 2 (exchange x 0 3 A))"

definition SWAPDOUBLE :: "bool \<Rightarrow> nat \<Rightarrow> byte list \<Rightarrow> byte list" where
  "SWAPDOUBLE WORDS_BIGENDIAN x A =
     (if WORDS_BIGENDIAN then A
      else exchange x 3 4 (exchange x 2 5 (exchange x 1 6 (exchange x 0 7 A))))"

text \<open>The size of the field decides; on the machines of the library a short has 2, an int 4 and a double 8
  bytes.  A field of another size is left alone.\<close>

definition SWAPFIELD :: "bool \<Rightarrow> nat \<Rightarrow> nat \<Rightarrow> byte list \<Rightarrow> byte list" where
  "SWAPFIELD WORDS_BIGENDIAN sz x A =
     (if WORDS_BIGENDIAN then A
      else if sz = 2 then SWAPHALF WORDS_BIGENDIAN x A
      else if sz = 4 then SWAPWORD WORDS_BIGENDIAN x A
      else if sz = 8 then SWAPDOUBLE WORDS_BIGENDIAN x A
      else A)"

definition ALWAYS_SWAPHALF :: "nat \<Rightarrow> byte list \<Rightarrow> byte list" where
  "ALWAYS_SWAPHALF x A = exchange x 0 1 A"

definition ALWAYS_SWAPWORD :: "nat \<Rightarrow> byte list \<Rightarrow> byte list" where
  "ALWAYS_SWAPWORD x A = exchange x 1 2 (exchange x 0 3 A)"

definition ALWAYS_SWAPDOUBLE :: "nat \<Rightarrow> byte list \<Rightarrow> byte list" where
  "ALWAYS_SWAPDOUBLE x A = exchange x 3 4 (exchange x 2 5 (exchange x 1 6 (exchange x 0 7 A)))"

definition ALWAYS_SWAPFIELD :: "bool \<Rightarrow> nat \<Rightarrow> nat \<Rightarrow> byte list \<Rightarrow> byte list" where
  "ALWAYS_SWAPFIELD WORDS_BIGENDIAN sz x A =
     (if sz = 2 then SWAPHALF WORDS_BIGENDIAN x A
      else if sz = 4 then SWAPWORD WORDS_BIGENDIAN x A
      else if sz = 8 then SWAPDOUBLE WORDS_BIGENDIAN x A
      else A)"

section \<open>byteorder.h and bio.h\<close>

text \<open>Swaps of a variable that holds a number: the file is big-endian (\<open>BE\<close>) or little-endian (\<open>LE\<close>).\<close>

definition SWAP_BE_16 :: "bool \<Rightarrow> 16 word \<Rightarrow> 16 word" where
  "SWAP_BE_16 WORDS_BIGENDIAN x = (if WORDS_BIGENDIAN then x else SWAP_INT16 x)"

definition SWAP_BE_32 :: "bool \<Rightarrow> 32 word \<Rightarrow> 32 word" where
  "SWAP_BE_32 WORDS_BIGENDIAN x = (if WORDS_BIGENDIAN then x else SWAP_INT32 x)"

definition SWAP_BE_64 :: "bool \<Rightarrow> 32 word \<times> 32 word \<Rightarrow> 32 word \<times> 32 word" where
  "SWAP_BE_64 WORDS_BIGENDIAN x = (if WORDS_BIGENDIAN then x else SWAP_FLOAT64 x)"

definition SWAP_LE_16 :: "bool \<Rightarrow> 16 word \<Rightarrow> 16 word" where
  "SWAP_LE_16 WORDS_BIGENDIAN x = (if WORDS_BIGENDIAN then SWAP_INT16 x else x)"

definition SWAP_LE_32 :: "bool \<Rightarrow> 32 word \<Rightarrow> 32 word" where
  "SWAP_LE_32 WORDS_BIGENDIAN x = (if WORDS_BIGENDIAN then SWAP_INT32 x else x)"

definition SWAP_LE_64 :: "bool \<Rightarrow> 32 word \<times> 32 word \<Rightarrow> 32 word \<times> 32 word" where
  "SWAP_LE_64 WORDS_BIGENDIAN x = (if WORDS_BIGENDIAN then SWAP_FLOAT64 x else x)"

definition BYTE_ORDER_MAGIC :: "32 word" where "BYTE_ORDER_MAGIC = 0x11223344"

definition REVERSE_SENSE_SWAP_INT16 :: "bool \<Rightarrow> 16 word \<Rightarrow> 16 word" where
  "REVERSE_SENSE_SWAP_INT16 BIG_ENDIAN x =
     (if BIG_ENDIAN then push_bit 8 x AND 0xff00 OR signed_drop_bit 8 x AND 0xff else x)"

definition REVERSE_SENSE_SWAP_INT32 :: "bool \<Rightarrow> 32 word \<Rightarrow> 32 word" where
  "REVERSE_SENSE_SWAP_INT32 BIG_ENDIAN x =
     (if BIG_ENDIAN
      then push_bit 24 x AND 0xff000000 OR push_bit 8 x AND 0x00ff0000
           OR signed_drop_bit 8 x AND 0x0000ff00 OR signed_drop_bit 24 x AND 0xff
      else x)"

section \<open>Theorems\<close>

lemma length_exchange [simp]: "length (exchange x i j A) = length A"
  by (simp add: exchange_def)

lemma nth_exchange:
  "x + i < length A \<Longrightarrow> x + j < length A \<Longrightarrow>
     exchange x i j A ! k = (if k = x + j then A ! (x + i) else if k = x + i then A ! (x + j) else A ! k)"
  by (auto simp: exchange_def Let_def nth_list_update)

text \<open>The loops of exchanges as one description: a field of \<open>n\<close> bytes at \<open>x\<close> reversed.\<close>

definition reversed :: "nat \<Rightarrow> nat \<Rightarrow> byte list \<Rightarrow> byte list" where
  "reversed n x A = take x A @ rev (take n (drop x A)) @ drop (x + n) A"

lemma nth_reversed:
  "x + n \<le> length A \<Longrightarrow> k < length A \<Longrightarrow>
     reversed n x A ! k = (if x \<le> k \<and> k < x + n then A ! (2 * x + n - 1 - k) else A ! k)"
  by (auto simp: reversed_def nth_append rev_nth min_def algebra_simps intro!: arg_cong [of _ _ "(!) A"])

lemmas swap_defs = SWAPHALF_def SWAPWORD_def SWAPDOUBLE_def ALWAYS_SWAPHALF_def ALWAYS_SWAPWORD_def
  ALWAYS_SWAPDOUBLE_def

lemma length_reversed [simp]: "x + n \<le> length A \<Longrightarrow> length (reversed n x A) = length A"
  by (simp add: reversed_def)

lemma swap_half: "x + 2 \<le> length A \<Longrightarrow> SWAPHALF False x A = reversed 2 x A"
  by (rule nth_equalityI) (auto simp: SWAPHALF_def nth_exchange nth_reversed)

lemma byte_4: "k < x + 4 \<longleftrightarrow> k < x \<or> k = x \<or> k = x + 1 \<or> k = x + 2 \<or> k = x + 3" for k x :: nat
  by arith

lemma swap_word: "x + 4 \<le> length A \<Longrightarrow> SWAPWORD False x A = reversed 4 x A"
proof (rule nth_equalityI)
  fix k assume a: "x + 4 \<le> length A" and "k < length (SWAPWORD False x A)"
  then have k: "k < length A" by (simp add: SWAPWORD_def)
  show "SWAPWORD False x A ! k = reversed 4 x A ! k"
    unfolding nth_reversed [OF a k] byte_4 using a by (auto simp: SWAPWORD_def nth_exchange)
qed (simp add: SWAPWORD_def)

lemma byte_8: "k < x + 8 \<longleftrightarrow> k < x + 4 \<or> k = x + 4 \<or> k = x + 5 \<or> k = x + 6 \<or> k = x + 7" for k x :: nat
  by arith

lemma swap_double: "x + 8 \<le> length A \<Longrightarrow> SWAPDOUBLE False x A = reversed 8 x A"
proof (rule nth_equalityI)
  fix k assume a: "x + 8 \<le> length A" and "k < length (SWAPDOUBLE False x A)"
  then have k: "k < length A" by (simp add: SWAPDOUBLE_def)
  show "SWAPDOUBLE False x A ! k = reversed 8 x A ! k"
    unfolding nth_reversed [OF a k] byte_8 byte_4 using a by (auto simp: SWAPDOUBLE_def nth_exchange)
qed (simp add: SWAPDOUBLE_def)

lemma reversed_twice: "x + n \<le> length A \<Longrightarrow> reversed n x (reversed n x A) = A"
  by (rule nth_equalityI) (auto simp: nth_reversed)

text \<open>On a machine that stores the low byte first the macro reverses the bytes of the field, whichever its
  size, leaves all other memory alone and undoes itself; on the other machines it does nothing.\<close>

theorem swapfield_reverses:
  assumes "sz \<in> {2, 4, 8}" "x + sz \<le> length A"
  shows "SWAPFIELD False sz x A = reversed sz x A"
    "SWAPFIELD b sz x (SWAPFIELD b sz x A) = A"
    "SWAPFIELD True sz x A = A"
proof -
  show f: "SWAPFIELD False sz x A = reversed sz x A"
    using assms by (auto simp: SWAPFIELD_def swap_half swap_word swap_double)
  have "SWAPFIELD False sz x (reversed sz x A) = reversed sz x (reversed sz x A)"
    using assms by (auto simp: SWAPFIELD_def swap_half swap_word swap_double)
  then show "SWAPFIELD b sz x (SWAPFIELD b sz x A) = A"
    using assms(2) f by (cases b) (simp_all add: reversed_twice, simp add: SWAPFIELD_def)
qed (simp add: SWAPFIELD_def)

text \<open>Read as a number, the swapped field is what the macros that read the high byte first find.\<close>

theorem swapped_reads:
  "x + 2 \<le> length A \<Longrightarrow> uint2korr (SWAPHALF False x A) x = mi_uint2korr A x"
  "x + 4 \<le> length A \<Longrightarrow> uint4korr (SWAPWORD False x A) x = mi_uint4korr A x"
  "x + 8 \<le> length A \<Longrightarrow> uint8korr (SWAPDOUBLE False x A) x = mi_uint8korr A x"
  by (simp_all add: uint2korr_def mi_uint2korr_def uint4korr_def mi_uint4korr_def uint8korr_def mi_uint8korr_def
    swap_half swap_word swap_double nth_reversed add.commute)

text \<open>\<open>ALWAYS_SWAPFIELD\<close> calls the macros without \<open>ALWAYS\<close>: where these are empty it does nothing, though
  \<open>ALWAYS_SWAPHALF\<close> and the others swap on every machine.\<close>

theorem always_swapfield_depends_on_machine:
  "ALWAYS_SWAPFIELD True sz x A = A"
  "ALWAYS_SWAPFIELD False sz x A = SWAPFIELD False sz x A"
  "ALWAYS_SWAPHALF x A = SWAPHALF False x A" "ALWAYS_SWAPWORD x A = SWAPWORD False x A"
  "ALWAYS_SWAPDOUBLE x A = SWAPDOUBLE False x A"
  by (simp_all add: ALWAYS_SWAPFIELD_def SWAPFIELD_def swap_defs)

lemma always_swapfield_leaves_big_endian:
  "ALWAYS_SWAPFIELD True 2 0 [1, 2] = [1, 2] \<and> ALWAYS_SWAPHALF 0 [1, 2] = [2, 1]"
  by code_simp

text \<open>A number written in the order of a file is read back from it, on both kinds of machine; a number is
  swapped for exactly one of the two orders, so a file in the wrong order shows in its magic number.\<close>

lemma file_order_roundtrip:
  "SWAP_BE_16 b (SWAP_BE_16 b x) = x" "SWAP_LE_16 b (SWAP_LE_16 b x) = x"
  "SWAP_BE_32 b (SWAP_BE_32 b y) = y" "SWAP_LE_32 b (SWAP_LE_32 b y) = y"
  "SWAP_BE_64 b (SWAP_BE_64 b z) = z" "SWAP_LE_64 b (SWAP_LE_64 b z) = z"
  using swaps_reverse_bytes by (simp_all add: SWAP_BE_16_def SWAP_LE_16_def SWAP_BE_32_def SWAP_LE_32_def
    SWAP_BE_64_def SWAP_LE_64_def)

lemma one_order_swaps:
  "SWAP_BE_32 b (SWAP_LE_32 b y) = SWAP_INT32 y" "SWAP_INT32 BYTE_ORDER_MAGIC = 0x44332211"
  by (simp_all add: SWAP_BE_32_def SWAP_LE_32_def) code_simp

lemma reverse_sense_swaps:
  "REVERSE_SENSE_SWAP_INT16 b x = SWAP_LE_16 b x" "REVERSE_SENSE_SWAP_INT32 b y = SWAP_LE_32 b y"
  by (auto simp: REVERSE_SENSE_SWAP_INT16_def REVERSE_SENSE_SWAP_INT32_def SWAP_LE_16_def SWAP_LE_32_def
    SWAP_INT16_def SWAP_INT32_def ac_simps)

end
