(* ===== verification/SpeechAccess.thy ===== *)
theory SpeechAccess
  imports SpeechModel Bitmaps
begin

text \<open>
  The words and grammars of the recogniser as its other headers see them: word ids of language models
  (ngram_model_internal.h), grammars as automata (fsg_model.h, jsgf_internal.h), numbers kept in hash tables
  (hash_table.h), the textual model definition (mdef.h), dimensions of features (feat.h), the tables of
  cross-word contexts (dict2pid.h), the lookahead (phone_loop_search.h), letters (case.h) and the macros of
  segment iterators (pocketsphinx_internal.h).  A record has the members the macros read; pointers to other
  objects, reference counts and allocators are left out.
\<close>

unbundle bit_operations_syntax

section \<open>ngram_model_internal.h\<close>

text \<open>The id of a word in a class holds the class in bits 24 to 30 and the top bit as a mark.\<close>

definition NGRAM_BASEWID :: "32 word \<Rightarrow> 32 word" where
  "NGRAM_BASEWID wid = wid AND 0xffffff"

definition NGRAM_CLASSID :: "32 word \<Rightarrow> 32 word" where
  "NGRAM_CLASSID wid = signed_drop_bit 24 wid AND 0x7f"

definition NGRAM_CLASSWID :: "32 word \<Rightarrow> 32 word \<Rightarrow> 32 word" where
  "NGRAM_CLASSWID wid classid = push_bit 24 classid OR 0x80000000 OR wid"

definition NGRAM_IS_CLASSWID :: "32 word \<Rightarrow> 32 word" where
  "NGRAM_IS_CLASSWID wid = wid AND 0x80000000"

definition NGRAM_INVALID_WID :: "32 word" where "NGRAM_INVALID_WID = - 1"

definition NGRAM_HASH_SIZE :: nat where "NGRAM_HASH_SIZE = 128"

definition UG_ALLOC_STEP :: nat where "UG_ALLOC_STEP = 10"

section \<open>lm3g_model.h\<close>

text \<open>Bigrams are grouped in segments of 512; a trigram index is a base per segment and a 16-bit offset.\<close>

definition BG_SEG_SZ :: nat where "BG_SEG_SZ = 512"

definition LOG_BG_SEG_SZ :: nat where "LOG_BG_SEG_SZ = 9"

section \<open>fsg_model.h and jsgf_internal.h\<close>

record fsg_link =
  from_state :: int
  to_state :: int
  logs2prob :: int
  wid :: int

definition fsg_link_from_state :: "fsg_link \<Rightarrow> int" where "fsg_link_from_state l = from_state l"

definition fsg_link_to_state :: "fsg_link \<Rightarrow> int" where "fsg_link_to_state l = to_state l"

definition fsg_link_wid :: "fsg_link \<Rightarrow> int" where "fsg_link_wid l = wid l"

definition fsg_link_logs2prob :: "fsg_link \<Rightarrow> int" where "fsg_link_logs2prob l = logs2prob l"

text \<open>A word id is an index, or -1 for none.  The two bit vectors are NULL until silences or alternates are added.\<close>

record fsg_model =
  fsg_name :: string
  fsg_n_word :: int
  vocab :: "string list"
  silwords :: "bitvec option"
  altwords :: "bitvec option"
  n_state :: int
  start_state :: int
  final_state :: int

definition fsg_model_name :: "fsg_model \<Rightarrow> string" where "fsg_model_name f = fsg_name f"

definition fsg_model_n_state :: "fsg_model \<Rightarrow> int" where "fsg_model_n_state f = n_state f"

definition fsg_model_start_state :: "fsg_model \<Rightarrow> int" where "fsg_model_start_state f = start_state f"

definition fsg_model_final_state :: "fsg_model \<Rightarrow> int" where "fsg_model_final_state f = final_state f"

definition fsg_model_n_word :: "fsg_model \<Rightarrow> int" where "fsg_model_n_word f = fsg_n_word f"

definition fsg_model_word_str :: "fsg_model \<Rightarrow> int \<Rightarrow> string" where
  "fsg_model_word_str f w = (if w = - 1 then ''(NULL)'' else vocab f ! nat w)"

definition fsg_model_has_sil :: "fsg_model \<Rightarrow> bool" where "fsg_model_has_sil f = (silwords f \<noteq> None)"

definition fsg_model_has_alt :: "fsg_model \<Rightarrow> bool" where "fsg_model_has_alt f = (altwords f \<noteq> None)"

definition fsg_model_is_filler :: "fsg_model \<Rightarrow> nat \<Rightarrow> 32 word" where
  "fsg_model_is_filler f w =
     (if fsg_model_has_sil f then bitvec_is_set (the (silwords f)) w else 0)"

definition fsg_model_is_alt :: "fsg_model \<Rightarrow> nat \<Rightarrow> 32 word" where
  "fsg_model_is_alt f w =
     (if fsg_model_has_alt f then bitvec_is_set (the (altwords f)) w else 0)"

text \<open>The name of an atom ends with a NUL, which the empty name begins with.\<close>

definition jsgf_atom_is_rule :: "string \<Rightarrow> bool" where
  "jsgf_atom_is_rule name = ((name @ [CHR 0x00]) ! 0 = CHR ''<'')"

section \<open>hash_table.h\<close>

text \<open>The functions on the table are in the library: a table is a state \<open>'h\<close>, entering or replacing a value
  under a key changes it and returns a pointer.  Pointers have the width \<open>'p\<close>, a long the width \<open>'l\<close>.\<close>

type_synonym ('h, 'p) enter = "'h \<Rightarrow> string \<Rightarrow> 'p word \<Rightarrow> 'p word \<times> 'h"

definition int32_to_pointer :: "'l::len itself \<Rightarrow> 32 word \<Rightarrow> 'p::len word" where
  "int32_to_pointer TYPE('l) v = scast (scast v :: 'l word)"

definition pointer_to_int32 :: "'l::len itself \<Rightarrow> 'p::len word \<Rightarrow> 32 word" where
  "pointer_to_int32 TYPE('l) p = scast (scast p :: 'l word)"

definition hash_table_enter_int32 ::
  "'l::len itself \<Rightarrow> ('h, 'p::len) enter \<Rightarrow> 'h \<Rightarrow> string \<Rightarrow> 32 word \<Rightarrow> 32 word \<times> 'h" where
  "hash_table_enter_int32 L hash_table_enter h k v =
     (let (r, h) = hash_table_enter h k (int32_to_pointer L v) in (pointer_to_int32 L r, h))"

definition hash_table_replace_int32 ::
  "'l::len itself \<Rightarrow> ('h, 'p::len) enter \<Rightarrow> 'h \<Rightarrow> string \<Rightarrow> 32 word \<Rightarrow> 32 word \<times> 'h" where
  "hash_table_replace_int32 L hash_table_replace h k v =
     (let (r, h) = hash_table_replace h k (int32_to_pointer L v) in (pointer_to_int32 L r, h))"

section \<open>mdef.h\<close>

datatype word_posn =
    WORD_POSN_INTERNAL | WORD_POSN_BEGIN | WORD_POSN_END | WORD_POSN_SINGLE | WORD_POSN_UNDEFINED

primrec word_posn_num :: "word_posn \<Rightarrow> nat" where
  "word_posn_num WORD_POSN_INTERNAL = 0"
| "word_posn_num WORD_POSN_BEGIN = 1"
| "word_posn_num WORD_POSN_END = 2"
| "word_posn_num WORD_POSN_SINGLE = 3"
| "word_posn_num WORD_POSN_UNDEFINED = 4"

definition N_WORD_POSN :: nat where "N_WORD_POSN = 4"

definition WPOS_NAME :: string where "WPOS_NAME = ''ibesu''"

definition S3_SILENCE_CIPHONE :: string where "S3_SILENCE_CIPHONE = ''SIL''"

record ciphone_t =
  ciphone_name :: string
  filler :: int

record phone_info =
  phone_ssid :: int
  phone_tmat :: int
  ci :: int
  lc :: int
  rc :: int
  wpos :: word_posn

text \<open>The contexts of the known triphones, by word position and base phone: left contexts, each with the right
  contexts beside it and their phone ids.\<close>

record ph_rc =
  right_ctx :: int
  rc_pid :: int

record ph_lc =
  left_ctx :: int
  rclist :: "ph_rc list"

record mdef =
  md_ciphone_count :: nat
  md_phone_count :: nat
  md_emit_state_count :: nat
  md_ci_sen_count :: nat
  md_sen_count :: nat
  md_tmat_count :: nat
  mdef_ciphones :: "ciphone_t list"
  mdef_phones :: "phone_info list"
  md_sseq_count :: nat
  wpos_ci_lclist :: "ph_lc list list list"
  mdef_sseqs :: "16 word list list"
  mdef_cd2ci :: "int list"
  mdef_sen2ci :: "int list"
  mdef_sil :: int

definition mdef_is_fillerphone :: "mdef \<Rightarrow> nat \<Rightarrow> int" where
  "mdef_is_fillerphone m p = filler (mdef_ciphones m ! p)"

definition mdef_n_ciphone :: "mdef \<Rightarrow> nat" where "mdef_n_ciphone m = md_ciphone_count m"

definition mdef_n_phone :: "mdef \<Rightarrow> nat" where "mdef_n_phone m = md_phone_count m"

definition mdef_n_sseq :: "mdef \<Rightarrow> nat" where "mdef_n_sseq m = md_sseq_count m"

definition mdef_n_emit_state :: "mdef \<Rightarrow> nat" where "mdef_n_emit_state m = md_emit_state_count m"

definition mdef_n_sen :: "mdef \<Rightarrow> nat" where "mdef_n_sen m = md_sen_count m"

definition mdef_n_tmat :: "mdef \<Rightarrow> nat" where "mdef_n_tmat m = md_tmat_count m"

definition mdef_pid2ssid :: "mdef \<Rightarrow> nat \<Rightarrow> int" where "mdef_pid2ssid m p = phone_ssid (mdef_phones m ! p)"

definition mdef_pid2tmatid :: "mdef \<Rightarrow> nat \<Rightarrow> int" where
  "mdef_pid2tmatid m p = phone_tmat (mdef_phones m ! p)"

definition mdef_silphone :: "mdef \<Rightarrow> int" where "mdef_silphone m = mdef_sil m"

definition mdef_sen2cimap :: "mdef \<Rightarrow> int list" where "mdef_sen2cimap m = mdef_sen2ci m"

definition mdef_sseq2sen :: "mdef \<Rightarrow> nat \<Rightarrow> nat \<Rightarrow> 16 word" where
  "mdef_sseq2sen m ss pos = mdef_sseqs m ! ss ! pos"

definition mdef_pid2ci :: "mdef \<Rightarrow> nat \<Rightarrow> int" where "mdef_pid2ci m p = ci (mdef_phones m ! p)"

definition mdef_cd2cisen :: "mdef \<Rightarrow> int list" where "mdef_cd2cisen m = mdef_cd2ci m"

section \<open>feat.h\<close>

record feat_s =
  feature_name :: string
  cepsize :: nat
  n_stream :: nat
  stream_len :: "32 word list"
  window_size :: nat
  n_sv :: nat
  sv_len :: "32 word list option"
  lda :: "int list list list option"
  out_dim :: "32 word"

definition feat_name :: "feat_s \<Rightarrow> string" where "feat_name f = feature_name f"

definition feat_cepsize :: "feat_s \<Rightarrow> nat" where "feat_cepsize f = cepsize f"

definition feat_window_size :: "feat_s \<Rightarrow> nat" where "feat_window_size f = window_size f"

definition feat_n_stream :: "feat_s \<Rightarrow> nat" where "feat_n_stream f = n_stream f"

definition feat_stream_len :: "feat_s \<Rightarrow> nat \<Rightarrow> 32 word" where "feat_stream_len f i = stream_len f ! i"

definition feat_dimension1 :: "feat_s \<Rightarrow> nat" where
  "feat_dimension1 f = (if n_sv f \<noteq> 0 then n_sv f else n_stream f)"

definition feat_dimension2 :: "feat_s \<Rightarrow> nat \<Rightarrow> 32 word" where
  "feat_dimension2 f i =
     (if lda f \<noteq> None then out_dim f
      else case sv_len f of Some l \<Rightarrow> l ! i | None \<Rightarrow> stream_len f ! i)"

definition feat_dimension :: "feat_s \<Rightarrow> 32 word" where "feat_dimension f = out_dim f"

text \<open>A pointer to the lengths: with a transformation, to the one number \<open>out_dim\<close>.\<close>

definition feat_stream_lengths :: "feat_s \<Rightarrow> 32 word list" where
  "feat_stream_lengths f =
     (if lda f \<noteq> None then [out_dim f]
      else case sv_len f of Some l \<Rightarrow> l | None \<Rightarrow> stream_len f)"

section \<open>dict2pid.h, phone_loop_search.h, kws_search.h\<close>

record xwdssid =
  xwd_ssid :: "16 word list"
  cimap :: "int list"
  n_ssid :: nat

record dict2pid =
  ldiph_lc :: "16 word list list list"
  rssid :: "xwdssid list list"
  lrdiph_rc :: "16 word list list list"
  lrssid :: "xwdssid list list"

definition dict2pid_rssid :: "dict2pid \<Rightarrow> nat \<Rightarrow> nat \<Rightarrow> xwdssid" where
  "dict2pid_rssid d c l = rssid d ! c ! l"

definition dict2pid_ldiph_lc :: "dict2pid \<Rightarrow> nat \<Rightarrow> nat \<Rightarrow> nat \<Rightarrow> 16 word" where
  "dict2pid_ldiph_lc d b r l = ldiph_lc d ! b ! r ! l"

definition dict2pid_lrdiph_rc :: "dict2pid \<Rightarrow> nat \<Rightarrow> nat \<Rightarrow> nat \<Rightarrow> 16 word" where
  "dict2pid_lrdiph_rc d b l r = lrdiph_rc d ! b ! l ! r"

record phone_loop_search =
  phones :: "hmm_t list"
  best_score :: int

definition phone_loop_search_score :: "phone_loop_search option \<Rightarrow> nat \<Rightarrow> int" where
  "phone_loop_search_score pls c =
     (case pls of None \<Rightarrow> 0 | Some l \<Rightarrow> bestscore (phones l ! c) - best_score l)"

definition hmm_is_active :: "hmm_t \<Rightarrow> bool" where "hmm_is_active h = (frame h > 0)"

section \<open>case.h\<close>

definition UPPER_CASE :: "int \<Rightarrow> int" where
  "UPPER_CASE c = (if c \<ge> 97 \<and> c \<le> 122 then c - 32 else c)"

definition LOWER_CASE :: "int \<Rightarrow> int" where
  "LOWER_CASE c = (if c \<ge> 65 \<and> c \<le> 90 then c + 32 else c)"

section \<open>pocketsphinx_internal.h\<close>

text \<open>A macro is expanded where it is used: a name of its body that is not a parameter means the variable of
  that name there (\<open>vars\<close>).  An iterator is an address; \<open>vt\<close> reads its table of functions.\<close>

record 's ps_segfuncs =
  seg_next :: "nat \<Rightarrow> 's \<Rightarrow> nat \<times> 's"
  seg_free :: "nat \<Rightarrow> 's \<Rightarrow> 's"

definition ps_search_seg_next :: "('s \<Rightarrow> nat \<Rightarrow> 's ps_segfuncs) \<Rightarrow> nat \<Rightarrow> 's \<Rightarrow> nat \<times> 's" where
  "ps_search_seg_next vt seg st = seg_next (vt st seg) seg st"

definition ps_search_seg_free ::
  "('s \<Rightarrow> nat \<Rightarrow> 's ps_segfuncs) \<Rightarrow> (string \<Rightarrow> nat option) \<Rightarrow> nat \<Rightarrow> 's \<Rightarrow> 's option" where
  "ps_search_seg_free vt vars s st = map_option (\<lambda>seg. seg_free (vt st seg) seg st) (vars ''seg'')"

section \<open>Words of classes\<close>

lemma no_bit_above: "unat x < 2 ^ n \<Longrightarrow> n \<le> m \<Longrightarrow> \<not> bit x m" for x :: "32 word"
  by (metis bit_take_bit_iff not_less take_bit_nat_eq_self unsigned_take_bit_eq unsigned_word_eqI)

lemma class_masks:
  "bit (0xffffff :: int) n \<longleftrightarrow> n < 24" "bit (0x7f :: int) n \<longleftrightarrow> n < 7" "bit (0x80000000 :: int) n \<longleftrightarrow> n = 31"
proof -
  have m: "(0xffffff :: int) = mask 24" "(0x7f :: int) = mask 7" "(0x80000000 :: int) = push_bit 31 1"
    by (simp_all add: mask_eq_exp_minus_1)
  show "bit (0xffffff :: int) n \<longleftrightarrow> n < 24" "bit (0x7f :: int) n \<longleftrightarrow> n < 7"
    unfolding m by (auto simp: bit_mask_iff)
  show "bit (0x80000000 :: int) n \<longleftrightarrow> n = 31"
    unfolding m by (auto simp: bit_push_bit_iff bit_1_iff simp del: push_bit_of_1)
qed

text \<open>Base word and class come back from the id of a class word, which the mark tells from plain ids; as a
  signed number it is negative.\<close>

theorem class_words_read_back:
  assumes "w < 2 ^ 24" "c < 2 ^ 7"
  shows "NGRAM_BASEWID (NGRAM_CLASSWID w c) = w" "NGRAM_CLASSID (NGRAM_CLASSWID w c) = c"
    "NGRAM_IS_CLASSWID (NGRAM_CLASSWID w c) \<noteq> 0" "NGRAM_IS_CLASSWID w = 0"
proof -
  have w: "\<not> bit w n" if "24 \<le> n" for n using no_bit_above [OF _ that] assms(1) by (simp add: word_less_nat_alt)
  have c: "\<not> bit c n" if "7 \<le> n" for n using no_bit_above [OF _ that] assms(2) by (simp add: word_less_nat_alt)
  note ids = NGRAM_BASEWID_def NGRAM_CLASSWID_def NGRAM_CLASSID_def NGRAM_IS_CLASSWID_def class_masks
  show "NGRAM_BASEWID (NGRAM_CLASSWID w c) = w"
  proof (rule bit_word_eqI)
    fix n assume "n < LENGTH(32)"
    then show "bit (NGRAM_BASEWID (NGRAM_CLASSWID w c)) n = bit w n"
      by (cases "n < 24") (simp_all add: ids bit_simps w)
  qed
  show "NGRAM_CLASSID (NGRAM_CLASSWID w c) = c"
  proof (rule bit_word_eqI)
    fix n assume "n < LENGTH(32)"
    then show "bit (NGRAM_CLASSID (NGRAM_CLASSWID w c)) n = bit c n"
      by (cases "n < 7") (simp_all add: ids bit_simps w c)
  qed
  show "NGRAM_IS_CLASSWID w = 0"
  proof (rule bit_word_eqI)
    fix n assume "n < LENGTH(32)"
    then show "bit (NGRAM_IS_CLASSWID w) n = bit (0 :: 32 word) n"
      by (cases "n = 31") (simp_all add: ids bit_simps w)
  qed
  have "bit (NGRAM_IS_CLASSWID (NGRAM_CLASSWID w c)) 31" by (simp add: ids bit_simps)
  then show "NGRAM_IS_CLASSWID (NGRAM_CLASSWID w c) \<noteq> 0" by auto
qed

lemma class_word_negative: "sint (NGRAM_CLASSWID w c) < 0"
proof -
  have "bit (NGRAM_CLASSWID w c) 31" by (simp add: NGRAM_CLASSWID_def class_masks bit_simps)
  then show ?thesis using bit_last_iff [of "NGRAM_CLASSWID w c"] by simp
qed

text \<open>One id of a class word is the invalid id: the last word of the last class.\<close>

lemma last_class_word_invalid: "NGRAM_CLASSWID 0xffffff 0x7f = NGRAM_INVALID_WID"
  by code_simp

section \<open>Numbers in hash tables\<close>

text \<open>What the documentation of the library says of the two functions, with \<open>look\<close> for the pointer under a key.\<close>

definition enter_law :: "('h \<Rightarrow> string \<Rightarrow> 'p word option) \<Rightarrow> ('h, 'p::len) enter \<Rightarrow> bool" where
  "enter_law look enter =
     (\<forall>h k v. case look h k of
        None \<Rightarrow> fst (enter h k v) = v \<and> look (snd (enter h k v)) = (look h)(k \<mapsto> v)
      | Some r \<Rightarrow> enter h k v = (r, h))"

definition replace_law :: "('h \<Rightarrow> string \<Rightarrow> 'p word option) \<Rightarrow> ('h, 'p::len) enter \<Rightarrow> bool" where
  "replace_law look replace =
     (\<forall>h k v. fst (replace h k v) = (case look h k of None \<Rightarrow> v | Some r \<Rightarrow> r)
        \<and> look (snd (replace h k v)) = (look h)(k \<mapsto> v))"

text \<open>The table as a map to numbers.\<close>

definition numbers :: "'l::len itself \<Rightarrow> ('h \<Rightarrow> string \<Rightarrow> 'p::len word option) \<Rightarrow> 'h \<Rightarrow> string \<rightharpoonup> 32 word" where
  "numbers L look h = map_option (pointer_to_int32 L) \<circ> look h"

lemma int32_through_pointer:
  assumes "32 \<le> LENGTH('l::len)" "32 \<le> LENGTH('p::len)"
  shows "pointer_to_int32 TYPE('l) (int32_to_pointer TYPE('l) v :: 'p word) = v"
proof (rule bit_word_eqI)
  fix n assume "n < LENGTH(32)"
  then show "bit (pointer_to_int32 TYPE('l) (int32_to_pointer TYPE('l) v :: 'p word)) n = bit v n"
    using assms by (simp add: pointer_to_int32_def int32_to_pointer_def bit_simps)
qed

text \<open>Where a long and a pointer have 32 bits or more, numbers of 32 bits, negative ones too, come back from
  the table as they went in: the macros are insertion and replacement on a map to numbers.\<close>

theorem hash_ints_refine_map:
  fixes h :: 'h
  assumes "32 \<le> LENGTH('l::len)" "32 \<le> LENGTH('p::len)"
    and "enter_law look (enter :: ('h, 'p) enter)" and "replace_law look (replace :: ('h, 'p) enter)"
  defines "m \<equiv> numbers TYPE('l) look h"
  shows "case m k of
      None \<Rightarrow> fst (hash_table_enter_int32 TYPE('l) enter h k v) = v
        \<and> numbers TYPE('l) look (snd (hash_table_enter_int32 TYPE('l) enter h k v)) = m(k \<mapsto> v)
    | Some r \<Rightarrow> hash_table_enter_int32 TYPE('l) enter h k v = (r, h)"
    and "fst (hash_table_replace_int32 TYPE('l) replace h k v) = (case m k of None \<Rightarrow> v | Some r \<Rightarrow> r)"
    and "numbers TYPE('l) look (snd (hash_table_replace_int32 TYPE('l) replace h k v)) = m(k \<mapsto> v)"
proof -
  note through = int32_through_pointer [OF assms(1,2)]
  let ?v = "int32_to_pointer TYPE('l) v :: 'p word"
  have e: "case look h k of
        None \<Rightarrow> fst (enter h k ?v) = ?v \<and> look (snd (enter h k ?v)) = (look h)(k \<mapsto> ?v)
      | Some r \<Rightarrow> enter h k ?v = (r, h)"
    using assms(3) by (simp add: enter_law_def)
  have r: "fst (replace h k ?v) = (case look h k of None \<Rightarrow> ?v | Some r \<Rightarrow> r)"
    "look (snd (replace h k ?v)) = (look h)(k \<mapsto> ?v)"
    using assms(4) by (simp_all add: replace_law_def)
  show "case m k of
      None \<Rightarrow> fst (hash_table_enter_int32 TYPE('l) enter h k v) = v
        \<and> numbers TYPE('l) look (snd (hash_table_enter_int32 TYPE('l) enter h k v)) = m(k \<mapsto> v)
    | Some r \<Rightarrow> hash_table_enter_int32 TYPE('l) enter h k v = (r, h)"
    using e by (auto simp: m_def numbers_def hash_table_enter_int32_def through split: option.splits prod.splits)
  show "fst (hash_table_replace_int32 TYPE('l) replace h k v) = (case m k of None \<Rightarrow> v | Some r \<Rightarrow> r)"
    using r(1) by (auto simp: m_def numbers_def hash_table_replace_int32_def through split: option.splits prod.splits)
  show "numbers TYPE('l) look (snd (hash_table_replace_int32 TYPE('l) replace h k v)) = m(k \<mapsto> v)"
    using r(2) by (auto simp: m_def numbers_def hash_table_replace_int32_def through split: prod.splits)
qed

text \<open>A table of pointers that obeys the two laws, and a negative number in it.\<close>

definition pointers_enter :: "(string \<rightharpoonup> 64 word, 64) enter" where
  "pointers_enter h k v = (case h k of None \<Rightarrow> (v, h(k \<mapsto> v)) | Some r \<Rightarrow> (r, h))"

definition pointers_replace :: "(string \<rightharpoonup> 64 word, 64) enter" where
  "pointers_replace h k v = ((case h k of None \<Rightarrow> v | Some r \<Rightarrow> r), h(k \<mapsto> v))"

lemma pointers_laws: "enter_law (\<lambda>h. h) pointers_enter" "replace_law (\<lambda>h. h) pointers_replace"
  by (auto simp: enter_law_def replace_law_def pointers_enter_def pointers_replace_def split: option.splits)

lemma hash_ints_refine_map_witness:
  "numbers TYPE(64) (\<lambda>h. h) (snd (hash_table_replace_int32 TYPE(64) pointers_replace Map.empty ''a'' (- 3))) ''a''
     = Some (- 3)"
proof -
  have "numbers TYPE(64) (\<lambda>h. h) (snd (hash_table_replace_int32 TYPE(64) pointers_replace Map.empty ''a'' (- 3)))
      = (numbers TYPE(64) (\<lambda>h. h) (Map.empty :: string \<rightharpoonup> 64 word))(''a'' \<mapsto> - 3)"
    by (rule hash_ints_refine_map(3) [OF _ _ pointers_laws]) simp_all
  then show ?thesis by simp
qed

text \<open>With a 16-bit long a number is cut.\<close>

lemma short_long_cuts:
  "pointer_to_int32 TYPE(16) (int32_to_pointer TYPE(16) 70000 :: 64 word) = 4464"
  by code_simp

section \<open>Grammars\<close>

text \<open>A word is a filler exactly when its bit was set, and never before silences are added.\<close>

theorem fillers_marked:
  assumes "silwords f = Some v" "vec_valid v w"
  shows "fsg_model_is_filler (f\<lparr>silwords := Some (bitvec_set v w)\<rparr>) u \<noteq> 0 \<longleftrightarrow> u = w \<or> fsg_model_is_filler f u \<noteq> 0"
    and "silwords g = None \<Longrightarrow> fsg_model_is_filler g u = 0"
  using assms by (simp_all add: fsg_model_is_filler_def fsg_model_has_sil_def bitvec_ops)

lemma null_word: "fsg_model_word_str f (- 1) = ''(NULL)''" "\<not> jsgf_atom_is_rule ''''"
  by (simp_all add: fsg_model_word_str_def jsgf_atom_is_rule_def)

section \<open>Two model definitions\<close>

text \<open>A binary definition that holds the same phones as a textual one: base phones first, each its own base,
  the base of a triphone in its context.\<close>

definition same_phones :: "bin_mdef \<Rightarrow> mdef \<Rightarrow> bool" where
  "same_phones b m \<longleftrightarrow>
     n_ciphone b = mdef_n_ciphone m \<and> mdef_n_ciphone m = length (mdef_ciphones m)
     \<and> mdef_n_phone m = length (mdef_phones m) \<and> length (phone b) = length (mdef_phones m)
     \<and> n_ciphone b \<le> length (phone b)
     \<and> (\<forall>p < length (phone b). entry_ssid (phone b ! p) = phone_ssid (mdef_phones m ! p)
          \<and> entry_tmat (phone b ! p) = phone_tmat (mdef_phones m ! p)
          \<and> 0 \<le> ci (mdef_phones m ! p) \<and> ci (mdef_phones m ! p) < int (n_ciphone b)
          \<and> (if p < n_ciphone b
             then ci (mdef_phones m ! p) = int p \<and> uint (info_ci_filler (phone b ! p)) = filler (mdef_ciphones m ! p)
             else uint (info_cd_ctx (phone b ! p) 0) = ci (mdef_phones m ! p)))"

text \<open>Then the macros of both headers agree; the one on fillers of the textual definition takes a base phone,
  the one of the binary definition any phone.\<close>

theorem model_definitions_agree:
  assumes "same_phones b m" "p < length (phone b)"
  shows "int (bin_mdef_pid2ci b p) = mdef_pid2ci m p" "bin_mdef_is_ciphone b p \<longleftrightarrow> p < mdef_n_ciphone m"
    "bin_mdef_pid2ssid b p = mdef_pid2ssid m p" "bin_mdef_pid2tmatid b p = mdef_pid2tmatid m p"
    "uint (bin_mdef_is_fillerphone b p) = mdef_is_fillerphone m (nat (mdef_pid2ci m p))"
proof -
  let ?c = "ci (mdef_phones m ! p)"
  have p: "entry_ssid (phone b ! p) = phone_ssid (mdef_phones m ! p)"
    "entry_tmat (phone b ! p) = phone_tmat (mdef_phones m ! p)" "0 \<le> ?c" "?c < int (n_ciphone b)"
    and c: "if p < n_ciphone b then ?c = int p \<and> uint (info_ci_filler (phone b ! p)) = filler (mdef_ciphones m ! p)
      else uint (info_cd_ctx (phone b ! p) 0) = ?c"
    using assms by (auto simp: same_phones_def)
  from p(3,4) have n: "nat ?c < n_ciphone b" by simp
  then have f: "uint (info_ci_filler (phone b ! nat ?c)) = filler (mdef_ciphones m ! nat ?c)"
    using assms(1) by (auto simp: same_phones_def)
  show "bin_mdef_is_ciphone b p \<longleftrightarrow> p < mdef_n_ciphone m"
    using assms(1) by (simp add: bin_mdef_is_ciphone_def same_phones_def)
  show "bin_mdef_pid2ssid b p = mdef_pid2ssid m p" "bin_mdef_pid2tmatid b p = mdef_pid2tmatid m p"
    by (simp_all add: bin_mdef_pid2ssid_def mdef_pid2ssid_def bin_mdef_pid2tmatid_def mdef_pid2tmatid_def p)
  have x: "unat (info_cd_ctx (phone b ! p) 0) = nat ?c" if "\<not> p < n_ciphone b"
    using c that by (simp flip: nat_uint_eq)
  show "int (bin_mdef_pid2ci b p) = mdef_pid2ci m p"
    using c x p(3) by (auto simp: bin_mdef_pid2ci_def mdef_pid2ci_def)
  show "uint (bin_mdef_is_fillerphone b p) = mdef_is_fillerphone m (nat (mdef_pid2ci m p))"
    using c x f by (auto simp: bin_mdef_is_fillerphone_def mdef_is_fillerphone_def mdef_pid2ci_def)
qed

lemma word_positions: "word_posn_num w \<noteq> N_WORD_POSN \<longleftrightarrow> w \<noteq> WORD_POSN_UNDEFINED"
  "length WPOS_NAME = N_WORD_POSN + 1" "word_posn_num w < length WPOS_NAME"
  by (cases w; simp add: N_WORD_POSN_def WPOS_NAME_def)+

section \<open>Features\<close>

text \<open>A feature is well-formed when it has a length per stream and, with subvectors, one per subvector; a
  transformation is for a single stream only.\<close>

definition feat_ok :: "feat_s \<Rightarrow> bool" where
  "feat_ok f \<longleftrightarrow> length (stream_len f) = n_stream f
     \<and> (case sv_len f of None \<Rightarrow> n_sv f = 0 | Some l \<Rightarrow> n_sv f = length l \<and> l \<noteq> [])
     \<and> (lda f \<noteq> None \<longrightarrow> feat_dimension1 f = 1)"

theorem feature_lengths_agree:
  assumes "feat_ok f"
  shows "length (feat_stream_lengths f) = feat_dimension1 f"
    "i < feat_dimension1 f \<Longrightarrow> feat_stream_lengths f ! i = feat_dimension2 f i"
proof -
  show "length (feat_stream_lengths f) = feat_dimension1 f"
    using assms by (auto simp: feat_ok_def feat_stream_lengths_def feat_dimension1_def split: option.splits if_splits)
  assume i: "i < feat_dimension1 f"
  show "feat_stream_lengths f ! i = feat_dimension2 f i"
  proof (cases "lda f")
    case (Some l)
    with assms i have "i = 0" by (simp add: feat_ok_def)
    with Some show ?thesis by (simp add: feat_stream_lengths_def feat_dimension2_def)
  qed (simp add: feat_stream_lengths_def feat_dimension2_def split: option.splits)
qed

section \<open>Letters\<close>

lemma cases_of_letters:
  "LOWER_CASE (UPPER_CASE c) = LOWER_CASE c" "UPPER_CASE (LOWER_CASE c) = UPPER_CASE c"
  "UPPER_CASE (UPPER_CASE c) = UPPER_CASE c" "LOWER_CASE (LOWER_CASE c) = LOWER_CASE c"
  by (auto simp: LOWER_CASE_def UPPER_CASE_def)

section \<open>Segments and segments of bigrams\<close>

text \<open>The macro frees the segment in the variable \<open>seg\<close> at its place of use, whatever its argument is: it
  frees its argument where that variable holds it, another segment where it holds another, and does not
  compile where there is none.\<close>

theorem seg_free_ignores_argument:
  "ps_search_seg_free vt vars s st = ps_search_seg_free vt vars s' st"
  "vars ''seg'' = Some s \<Longrightarrow> ps_search_seg_free vt vars s st = Some (seg_free (vt st s) s st)"
  "vars ''seg'' = None \<Longrightarrow> ps_search_seg_free vt vars s st = None"
  by (simp_all add: ps_search_seg_free_def)

lemma segment_size: "BG_SEG_SZ = 2 ^ LOG_BG_SEG_SZ"
  "b div BG_SEG_SZ = drop_bit LOG_BG_SEG_SZ b" for b :: nat
  by (simp_all add: BG_SEG_SZ_def LOG_BG_SEG_SZ_def drop_bit_eq_div)

end
