(* ===== verification/SysStructs.thy ===== *)
theory SysStructs
  imports TableFlags
begin

text \<open>
  Flags and structures of the portability library: the flags its functions take (my_sys.h), types of options
  (my_getopt.h), the order of table locks (thr_lock.h), where a tree keeps a key (my_tree.h), addresses in
  growing arrays (my_sys.h), types of files (my_dir.h) and the size of packed numbers (my_vle.h).  The
  functions themselves are in the library.
\<close>

unbundle bit_operations_syntax

section \<open>Flags, my_sys.h\<close>

text \<open>Five flags every function takes; the others mean something to the functions their comments name, and
  share bits.\<close>

definition common_bits :: "(string \<times> 32 word) list" where
  "common_bits =
    [(''MY_FFNF'', 1), (''MY_FNABP'', 2), (''MY_NABP'', 4), (''MY_FAE'', 8), (''MY_WME'', 16)]"

definition sync_bits :: "(string \<times> 32 word) list" where
  "sync_bits =
    [(''MY_IGNORE_BADFD'', 32)]"

definition redel_bits :: "(string \<times> 32 word) list" where
  "redel_bits =
    [(''MY_LINK_WARNING'', 32), (''MY_COPYTIME'', 64), (''MY_REDEL_MAKE_BACKUP'', 256)]"

definition copy_bits :: "(string \<times> 32 word) list" where
  "copy_bits =
    [(''MY_HOLD_ORIGINAL_MODES'', 128), (''MY_DONT_OVERWRITE_FILE'', 2048)]"

definition lock_bits :: "(string \<times> 32 word) list" where
  "lock_bits =
    [(''MY_SEEK_NOT_DONE'', 32), (''MY_SHORT_WAIT'', 64), (''MY_FORCE_LOCK'', 128),
     (''MY_NO_WAIT'', 256)]"

definition malloc_bits :: "(string \<times> 32 word) list" where
  "malloc_bits =
    [(''MY_ZEROFILL'', 32)]"

definition realloc_bits :: "(string \<times> 32 word) list" where
  "realloc_bits =
    [(''MY_ALLOW_ZERO_PTR'', 64), (''MY_FREE_ON_ERROR'', 128), (''MY_HOLD_ON_ERROR'', 256)]"

definition end_bits :: "(string \<times> 32 word) list" where
  "end_bits =
    [(''MY_CHECK_ERROR'', 1), (''MY_GIVE_INFO'', 2), (''MY_DONT_FREE_DBUG'', 4)]"

definition message_bits :: "(string \<times> 32 word) list" where
  "message_bits =
    [(''ME_NOCUR'', 1), (''ME_OLDWIN'', 2), (''ME_BELL'', 4), (''ME_HOLDTANG'', 8), (''ME_WAITTOT'', 16),
     (''ME_WAITTANG'', 32), (''ME_NOREFRESH'', 64), (''ME_NOINPUT'', 128), (''ME_COLOUR1'', 256),
     (''ME_COLOUR2'', 512), (''ME_COLOUR3'', 768), (''ME_FATALERROR'', 1024), (''ME_JUST_INFO'', 8192),
     (''ME_JUST_WARNING'', 16384)]"

definition format_bits :: "(string \<times> 32 word) list" where
  "format_bits =
    [(''MY_REPLACE_DIR'', 1), (''MY_REPLACE_EXT'', 2), (''MY_UNPACK_FILENAME'', 4),
     (''MY_PACK_FILENAME'', 8), (''MY_RESOLVE_SYMLINKS'', 16), (''MY_RETURN_REAL_PATH'', 32),
     (''MY_SAFE_PATH'', 64), (''MY_RELATIVE_PATH'', 128), (''MY_APPEND_EXT'', 256)]"

definition root_bits :: "(string \<times> 32 word) list" where
  "root_bits =
    [(''MY_KEEP_PREALLOC'', 1), (''MY_MARK_BLOCKS_FREE'', 2)]"

definition date_bits :: "(string \<times> 32 word) list" where
  "date_bits =
    [(''GETDATE_DATE_TIME'', 1), (''GETDATE_SHORT_DATE'', 2), (''GETDATE_HHMMSSTIME'', 4),
     (''GETDATE_GMT'', 8), (''GETDATE_FIXEDLENGTH'', 16)]"

section \<open>Types of options, my_getopt.h\<close>

definition option_types :: "(string \<times> 32 word) list" where
  "option_types =
    [(''GET_NO_ARG'', 1), (''GET_BOOL'', 2), (''GET_INT'', 3), (''GET_UINT'', 4), (''GET_LONG'', 5),
     (''GET_ULONG'', 6), (''GET_LL'', 7), (''GET_ULL'', 8), (''GET_STR'', 9), (''GET_STR_ALLOC'', 10),
     (''GET_DISABLED'', 11), (''GET_ENUM'', 12), (''GET_SET'', 13), (''GET_DOUBLE'', 14)]"

definition GET_ASK_ADDR :: "32 word" where "GET_ASK_ADDR = 128"

definition GET_TYPE_MASK :: "32 word" where "GET_TYPE_MASK = 127"

section \<open>Table locks, thr_lock.h\<close>

datatype thr_lock_type = TL_IGNORE | TL_UNLOCK | TL_READ_DEFAULT | TL_READ | TL_READ_WITH_SHARED_LOCKS
  | TL_READ_HIGH_PRIORITY | TL_READ_NO_INSERT | TL_WRITE_ALLOW_WRITE | TL_WRITE_ALLOW_READ
  | TL_WRITE_CONCURRENT_INSERT | TL_WRITE_DELAYED | TL_WRITE_DEFAULT | TL_WRITE_LOW_PRIORITY | TL_WRITE
  | TL_WRITE_ONLY

primrec lock_type_num :: "thr_lock_type \<Rightarrow> int" where
  "lock_type_num TL_IGNORE = - 1"
| "lock_type_num TL_UNLOCK = 0"
| "lock_type_num TL_READ_DEFAULT = 1"
| "lock_type_num TL_READ = 2"
| "lock_type_num TL_READ_WITH_SHARED_LOCKS = 3"
| "lock_type_num TL_READ_HIGH_PRIORITY = 4"
| "lock_type_num TL_READ_NO_INSERT = 5"
| "lock_type_num TL_WRITE_ALLOW_WRITE = 6"
| "lock_type_num TL_WRITE_ALLOW_READ = 7"
| "lock_type_num TL_WRITE_CONCURRENT_INSERT = 8"
| "lock_type_num TL_WRITE_DELAYED = 9"
| "lock_type_num TL_WRITE_DEFAULT = 10"
| "lock_type_num TL_WRITE_LOW_PRIORITY = 11"
| "lock_type_num TL_WRITE = 12"
| "lock_type_num TL_WRITE_ONLY = 13"

datatype thr_lock_result = THR_LOCK_SUCCESS | THR_LOCK_ABORTED | THR_LOCK_WAIT_TIMEOUT | THR_LOCK_DEADLOCK

primrec lock_result_num :: "thr_lock_result \<Rightarrow> nat" where
  "lock_result_num THR_LOCK_SUCCESS = 0"
| "lock_result_num THR_LOCK_ABORTED = 1"
| "lock_result_num THR_LOCK_WAIT_TIMEOUT = 2"
| "lock_result_num THR_LOCK_DEADLOCK = 3"

lemma lock_type_num_inj: "lock_type_num a = lock_type_num b \<Longrightarrow> a = b"
  by (cases a; cases b; simp)

instantiation thr_lock_type :: linorder
begin

definition less_eq_thr_lock_type :: "thr_lock_type \<Rightarrow> thr_lock_type \<Rightarrow> bool" where
  "less_eq_thr_lock_type a b = (lock_type_num a \<le> lock_type_num b)"

definition less_thr_lock_type :: "thr_lock_type \<Rightarrow> thr_lock_type \<Rightarrow> bool" where
  "less_thr_lock_type a b = (lock_type_num a < lock_type_num b)"

instance
  by standard (auto simp: less_eq_thr_lock_type_def less_thr_lock_type_def dest: lock_type_num_inj)

end

section \<open>Trees, my_tree.h\<close>

text \<open>Memory as a function from addresses to bytes; a pointer has \<open>w\<close> bytes, low byte first.  An element is its two
  links and a 32-bit word, filled up to the size of pointers.\<close>

text \<open>The tree itself: the address of its root, 0 for none, the function that frees an element by its address, and
  the numbers; the stack of parents, the comparison and the allocator belong to the functions.\<close>

record TREE =
  root :: nat
  offset_to_key :: nat
  elements_in_tree :: nat
  size_of_element :: nat
  memory_limit :: nat
  allocated :: nat
  with_delete :: bool
  tree_free :: nat
  tree_flag :: nat

definition is_tree_inited :: "TREE \<Rightarrow> bool" where "is_tree_inited tree = (root tree \<noteq> 0)"

definition reset_free_element :: "TREE \<Rightarrow> TREE" where "reset_free_element tree = tree\<lparr>tree_free := 0\<rparr>"

fun load_pointer :: "(nat \<Rightarrow> 8 word) \<Rightarrow> nat \<Rightarrow> nat \<Rightarrow> nat" where
  "load_pointer mem p 0 = 0"
| "load_pointer mem p (Suc n) = unat (mem p) + 256 * load_pointer mem (p + 1) n"

fun store_pointer :: "(nat \<Rightarrow> 8 word) \<Rightarrow> nat \<Rightarrow> nat \<Rightarrow> nat \<Rightarrow> nat \<Rightarrow> 8 word" where
  "store_pointer mem p 0 v = mem"
| "store_pointer mem p (Suc n) v = store_pointer (mem(p := word_of_nat (v mod 256))) (p + 1) n (v div 256)"

definition sizeof_TREE_ELEMENT :: "nat \<Rightarrow> nat" where
  "sizeof_TREE_ELEMENT w = (2 * w + 4 + w - 1) div w * w"

definition ELEMENT_KEY :: "nat \<Rightarrow> TREE \<Rightarrow> (nat \<Rightarrow> 8 word) \<Rightarrow> nat \<Rightarrow> nat" where
  "ELEMENT_KEY w tree mem element =
     (if offset_to_key tree \<noteq> 0 then element + offset_to_key tree
      else load_pointer mem (element + sizeof_TREE_ELEMENT w) w)"

definition tree_set_pointer :: "nat \<Rightarrow> TREE \<Rightarrow> (nat \<Rightarrow> 8 word) \<Rightarrow> nat \<Rightarrow> nat \<Rightarrow> nat \<Rightarrow> 8 word" where
  "tree_set_pointer w tree mem element addr =
     store_pointer mem (element + sizeof_TREE_ELEMENT w) w addr"

definition ELEMENT_CHILD :: "nat \<Rightarrow> TREE \<Rightarrow> (nat \<Rightarrow> 8 word) \<Rightarrow> nat \<Rightarrow> nat \<Rightarrow> nat" where
  "ELEMENT_CHILD w tree mem element offs = load_pointer mem (element + offs) w"

definition TREE_ELEMENT_EXTRA_SIZE :: "nat \<Rightarrow> nat" where
  "TREE_ELEMENT_EXTRA_SIZE w = sizeof_TREE_ELEMENT w + w"

definition MAX_TREE_HEIGHT :: nat where "MAX_TREE_HEIGHT = 64"

section \<open>Growing arrays, my_sys.h\<close>

record DYNAMIC_ARRAY =
  buffer :: nat
  elements :: nat
  max_element :: nat
  alloc_increment :: nat
  array_element_size :: nat

definition dynamic_array_ptr :: "DYNAMIC_ARRAY \<Rightarrow> nat \<Rightarrow> nat" where
  "dynamic_array_ptr array array_index = buffer array + array_index * array_element_size array"

text \<open>The type the caller gives to \<open>dynamic_element\<close> is a pointer; its elements have \<open>n\<close> bytes.\<close>

definition dynamic_element :: "DYNAMIC_ARRAY \<Rightarrow> nat \<Rightarrow> nat \<Rightarrow> nat" where
  "dynamic_element array array_index n = buffer array + array_index * n"

definition reset_dynamic :: "DYNAMIC_ARRAY \<Rightarrow> DYNAMIC_ARRAY" where
  "reset_dynamic array = array\<lparr>elements := 0\<rparr>"

section \<open>Types of files and packed numbers\<close>

text \<open>The constants of the system's sys/stat.h, in octal 0170000 and so on.\<close>

definition MY_S_IFMT :: "32 word" where "MY_S_IFMT = 0xf000"
definition MY_S_IFDIR :: "32 word" where "MY_S_IFDIR = 0x4000"
definition MY_S_IFCHR :: "32 word" where "MY_S_IFCHR = 0x2000"
definition MY_S_IFBLK :: "32 word" where "MY_S_IFBLK = 0x6000"
definition MY_S_IFREG :: "32 word" where "MY_S_IFREG = 0x8000"
definition MY_S_IFIFO :: "32 word" where "MY_S_IFIFO = 0x1000"

definition MY_S_ISDIR :: "32 word \<Rightarrow> bool" where "MY_S_ISDIR m = (m AND MY_S_IFMT = MY_S_IFDIR)"
definition MY_S_ISCHR :: "32 word \<Rightarrow> bool" where "MY_S_ISCHR m = (m AND MY_S_IFMT = MY_S_IFCHR)"
definition MY_S_ISBLK :: "32 word \<Rightarrow> bool" where "MY_S_ISBLK m = (m AND MY_S_IFMT = MY_S_IFBLK)"
definition MY_S_ISREG :: "32 word \<Rightarrow> bool" where "MY_S_ISREG m = (m AND MY_S_IFMT = MY_S_IFREG)"
definition MY_S_ISFIFO :: "32 word \<Rightarrow> bool" where "MY_S_ISFIFO m = (m AND MY_S_IFMT = MY_S_IFIFO)"

definition MY_DONT_SORT :: "32 word" where "MY_DONT_SORT = 512"
definition MY_WANT_STAT :: "32 word" where "MY_WANT_STAT = 1024"

definition my_vle_sizeof :: "nat \<Rightarrow> nat" where
  "my_vle_sizeof n = (n * 8 + 6) div 7"

section \<open>Theorems\<close>

lemmas sys_flags = common_bits_def sync_bits_def redel_bits_def copy_bits_def lock_bits_def malloc_bits_def
  realloc_bits_def end_bits_def message_bits_def format_bits_def root_bits_def date_bits_def

text \<open>What a function of mysys takes: its own flags beside the common ones.\<close>

definition sys_families :: "(string \<times> 32 word) list list" where
  "sys_families = [common_bits @ sync_bits, common_bits @ redel_bits, common_bits @ copy_bits,
     common_bits @ lock_bits, common_bits @ malloc_bits, common_bits @ malloc_bits @ realloc_bits,
     end_bits, format_bits, root_bits, date_bits]"

lemma sys_families_apart: "fam \<in> set sys_families \<Longrightarrow> apartFlags fam"
  by (auto simp: sys_families_def) (simp_all add: sys_flags)

text \<open>Each function can tell all its flags apart; the flags of a message cannot be told apart, since its third
  colour is the first two together.\<close>

theorem sys_flags_read_back:
  "fam \<in> set sys_families \<Longrightarrow> flagNames fam (setFlags fam names) = filter (\<lambda>s. s \<in> set names) (map fst fam)"
  by (rule flagNames_setFlags [OF sys_families_apart])

lemma message_colours_overlap:
  "flagNames message_bits (setFlags message_bits [''ME_COLOUR3'']) = [''ME_COLOUR1'', ''ME_COLOUR2'', ''ME_COLOUR3'']"
  by (simp add: flagNames_def sys_flags)

text \<open>The type of an option is read back whether or not its variable is asked for.\<close>

theorem option_type_read_back:
  assumes "(s, v) \<in> set option_types"
  shows "v AND GET_TYPE_MASK = v" "(v OR GET_ASK_ADDR) AND GET_TYPE_MASK = v"
    "(v OR GET_ASK_ADDR) AND GET_ASK_ADDR \<noteq> 0" "v AND GET_ASK_ADDR = 0"
  using assms by (auto simp: option_types_def GET_TYPE_MASK_def GET_ASK_ADDR_def)

text \<open>Locks are compared by their numbers: every lock for reading is below every lock for writing, and both are
  above an unlocked table.\<close>

definition reads :: "thr_lock_type \<Rightarrow> bool" where
  "reads t = (t \<in> {TL_READ_DEFAULT, TL_READ, TL_READ_WITH_SHARED_LOCKS, TL_READ_HIGH_PRIORITY, TL_READ_NO_INSERT})"

theorem lock_order:
  "reads t \<longleftrightarrow> TL_READ_DEFAULT \<le> t \<and> t \<le> TL_READ_NO_INSERT"
  "t \<ge> TL_WRITE_ALLOW_WRITE \<longleftrightarrow> \<not> reads t \<and> t > TL_UNLOCK"
  by (cases t; simp add: reads_def less_eq_thr_lock_type_def less_thr_lock_type_def)+

text \<open>A pointer stored is the pointer loaded, and the key that \<open>tree_set_pointer\<close> put behind an element is the
  one \<open>ELEMENT_KEY\<close> finds when keys are kept apart; the links of the element stay.\<close>

lemma store_pointer_other: "q < p \<or> p + n \<le> q \<Longrightarrow> store_pointer mem p n v q = mem q"
  by (induction mem p n v rule: store_pointer.induct) auto

lemma load_store_pointer: "v < 256 ^ n \<Longrightarrow> load_pointer (store_pointer mem p n v) p n = v"
proof (induction mem p n v rule: store_pointer.induct)
  case (2 mem p n v)
  then have "v div 256 < 256 ^ n" by (simp add: less_mult_imp_div_less mult.commute)
  from 2(1) [OF this]
  have "load_pointer (store_pointer (mem(p := word_of_nat (v mod 256))) (p + 1) n (v div 256)) (p + 1) n = v div 256"
    by (simp only:)
  moreover have "store_pointer (mem(p := word_of_nat (v mod 256))) (p + 1) n (v div 256) p = word_of_nat (v mod 256)"
    by (simp add: store_pointer_other)
  ultimately show ?case by (simp add: unat_of_nat)
qed simp

lemma load_pointer_cong: "(\<And>q. p \<le> q \<Longrightarrow> q < p + n \<Longrightarrow> mem q = mem' q) \<Longrightarrow> load_pointer mem p n = load_pointer mem' p n"
  by (induction mem p n rule: load_pointer.induct) auto

theorem key_read_back:
  assumes "offset_to_key tree = 0" "0 < w" "addr < 256 ^ w"
    and "offs + w \<le> 2 * w"
  shows "ELEMENT_KEY w tree (tree_set_pointer w tree mem element addr) element = addr"
    "ELEMENT_CHILD w tree (tree_set_pointer w tree mem element addr) element offs = ELEMENT_CHILD w tree mem element offs"
proof -
  show "ELEMENT_KEY w tree (tree_set_pointer w tree mem element addr) element = addr"
    using assms by (simp add: ELEMENT_KEY_def tree_set_pointer_def load_store_pointer)
  have "2 * w \<le> sizeof_TREE_ELEMENT w"
  proof -
    have "2 = (2 * w) div w" using assms(2) by simp
    also have "\<dots> \<le> (2 * w + 4 + w - 1) div w" by (rule div_le_mono) (use assms(2) in simp)
    finally show ?thesis by (simp add: sizeof_TREE_ELEMENT_def)
  qed
  with assms(4) show "ELEMENT_CHILD w tree (tree_set_pointer w tree mem element addr) element offs
      = ELEMENT_CHILD w tree mem element offs"
    by (auto simp: ELEMENT_CHILD_def tree_set_pointer_def intro!: load_pointer_cong store_pointer_other)
qed

lemma element_sizes: "sizeof_TREE_ELEMENT 8 = 24" "sizeof_TREE_ELEMENT 4 = 12"
  "TREE_ELEMENT_EXTRA_SIZE 8 = 32" "TREE_ELEMENT_EXTRA_SIZE 4 = 16"
  by (simp_all add: sizeof_TREE_ELEMENT_def TREE_ELEMENT_EXTRA_SIZE_def)

text \<open>Elements of a growing array lie one behind the other, and both macros find them exactly when the caller's
  type has the size the array was made for.\<close>

theorem array_elements_apart:
  assumes "i < j" "j < max_element a"
  shows "dynamic_array_ptr a i + array_element_size a \<le> dynamic_array_ptr a j"
    "dynamic_array_ptr a j + array_element_size a \<le> buffer a + max_element a * array_element_size a"
    "dynamic_element a j n = dynamic_array_ptr a j \<longleftrightarrow> n = array_element_size a"
proof -
  show "dynamic_array_ptr a i + array_element_size a \<le> dynamic_array_ptr a j"
    using assms(1) mult_le_mono1 [of "Suc i" j "array_element_size a"] by (simp add: dynamic_array_ptr_def)
  show "dynamic_array_ptr a j + array_element_size a \<le> buffer a + max_element a * array_element_size a"
    using assms(2) mult_le_mono1 [of "Suc j" "max_element a" "array_element_size a"] by (simp add: dynamic_array_ptr_def)
  show "dynamic_element a j n = dynamic_array_ptr a j \<longleftrightarrow> n = array_element_size a"
    using assms(1) by (simp add: dynamic_element_def dynamic_array_ptr_def)
qed

text \<open>A file is of one type at most, and an item of \<open>n\<close> bytes fits in the seven bits each of its packed bytes, no
  byte more than needed.\<close>

lemma file_types_exclusive:
  "length (filter (\<lambda>b. b) [MY_S_ISDIR m, MY_S_ISCHR m, MY_S_ISBLK m, MY_S_ISREG m, MY_S_ISFIFO m]) \<le> 1"
  by (auto simp: MY_S_ISDIR_def MY_S_ISCHR_def MY_S_ISBLK_def MY_S_ISREG_def MY_S_ISFIFO_def MY_S_IFDIR_def
    MY_S_IFCHR_def MY_S_IFBLK_def MY_S_IFREG_def MY_S_IFIFO_def)

theorem packed_number_fits:
  fixes v :: nat
  shows
  "v < 256 ^ n \<Longrightarrow> v < 128 ^ my_vle_sizeof n" "0 < n \<Longrightarrow> 128 ^ (my_vle_sizeof n - 1) < (256 :: nat) ^ n"
proof -
  have e: "(256 :: nat) ^ n = 2 ^ (8 * n)" "(128 :: nat) ^ k = 2 ^ (7 * k)" for k
    by (simp_all add: power_mult)
  have "8 * n \<le> 7 * my_vle_sizeof n" by (simp add: my_vle_sizeof_def)
  then have "(2 :: nat) ^ (8 * n) \<le> 2 ^ (7 * my_vle_sizeof n)" by (rule power_increasing) simp
  then show "v < 256 ^ n \<Longrightarrow> v < 128 ^ my_vle_sizeof n" unfolding e by linarith
  assume "0 < n"
  then have "7 * (my_vle_sizeof n - 1) < 8 * n" by (simp add: my_vle_sizeof_def)
  then show "128 ^ (my_vle_sizeof n - 1) < (256 :: nat) ^ n" by (simp add: e)
qed

end
