(* ===== verification/Spec2Isabelle.thy ===== *)
theory Spec2Isabelle
  imports TableDesigner SftpBrowser Services Packages Scripts Voice Console MySQLScreens
    BitOps Bitmaps AcTrie CharClasses CartTables LetterToSound
    FixedPoint ClientProtocol FileModes RegexTables
    WordDictionary ProgressView AlertBlocks ArgTables SpeechModel StringTail IoCache
    SpreadSheet Atomics TimeValues AppStart MachineOrder SysMacros
    ProgressLayout CstVal LtsRules ServerErrors TableFlags SshCalls LockWrap
    ThaiCtype ByteSwaps SpeechAccess SysStructs
begin

text \<open>
  A verification development for Server Manager, the iOS application of this repository: it keeps a
  list of servers, manages Linux servers over SSH (services, packages, files, scripts, a console, voice
  commands) and MySQL servers through the C client library (schemas, tables, a table designer, a SQL
  console).  The Objective-C sources are under \<open>src/\<close> and \<open>src/Server Manager/\<close>.  The libraries it is
  built with are in the repository as C headers: the MySQL client under \<open>src/include/\<close>, the speech
  library under \<open>src/OpenEars.framework/\<close>; the code and the data these headers hold are modelled too.

  \<^bold>\<open>Parts and how they interact.\<close>  A server is stored with Core Data (ServerDAO, OperatingSystemDAO,
  ScriptDAO) and chosen in the server list; its overview opens, by operating system, the MySQL manager
  or the Linux manager.  Each manager opens a connection or session once and hands it on to the
  screens it pushes.  Every screen is a view controller: its state is its properties, its operations
  are the callbacks of its buttons, tables and alerts.

  \<^bold>\<open>Theories, in the order of the imports.\<close>
  \<^item> \<open>Foundation\<close>: strings, arrays and exceptions of Apple's Foundation as HOL functions; the shared
    lemmas on splitting, joining and searching.
  \<^item> \<open>UnicodeText\<close>: Unicode text and its UTF-8, for everything the application decodes from bytes.
  \<^item> \<open>MySQLClient\<close>: MySQLTable.m, MySQLSchema.m, MySQLResult.m, NSMySQL.m.  The locale
    \<open>schema_statement\<close> states what the three operations share.
  \<^item> \<open>TableSQL\<close>: MySQLTableColumn and \<open>generateCreateTableSQL\<close> of MySQLTable.m, against the declarative
    text \<open>createTableSpec\<close>.
  \<^item> \<open>ColumnForm\<close>, \<open>TableDesigner\<close>: NewMySQLColumnViewController.m and NewMySQLTableViewController.m.
    Columns are shared objects, so the designer has an explicit store; its screens are the step
    relation \<open>designer_step\<close> with reachability \<open>designer_reach\<close> and the invariant \<open>designer_ok\<close>.
  \<^item> \<open>MySQLScreens\<close>: the MySQL manager, schemas, tables, SQL console, result and data view.
  \<^item> \<open>ServerErrors\<close>: the error numbers of mysqld_error.h, errmsg.h, my_base.h and mysys_err.h, and what the
    alerts tell of them.
  \<^item> \<open>TableFlags\<close>: the enumerations and the families of flags of my_base.h, and the sets they encode.
  \<^item> \<open>SysStructs\<close>: flags of mysys, option types, table locks, keys in tree elements, growing arrays, file types.
  \<^item> \<open>SshSession\<close>: the SSH library as parameters.
  \<^item> \<open>SshCalls\<close>: the macros of libssh2.h and libssh2_sftp.h as the calls they expand to, and their constants.
  \<^item> \<open>SftpPaths\<close>, \<open>SftpBrowser\<close>: SFTPHelper.m, SFTPFileHelper.m and the two SFTP screens; the locale
    \<open>path_steps\<close> relates the working directory text to an abstract place, a list of names of which the last may be
    open, that is without a slash.
  \<^item> \<open>FilteredList\<close>: the locale \<open>searchable_list\<close>, what a list with a search bar promises, interpreted
    by the five lists that have one.
  \<^item> \<open>Services\<close>, \<open>Packages\<close>: ManageProcessesLinuxViewController.m, the apt and yum screens.
  \<^item> \<open>CoreData\<close>, \<open>Stores\<close>: the context (live objects, stored objects) with the locale \<open>entity\<close>, and the
    access objects over it.
  \<^item> \<open>AppStart\<close>: AppDelegate.m, the lazy creation of the Core Data stack in any order of calls.
  \<^item> \<open>ServerScreens\<close>, \<open>Scripts\<close>, \<open>Console\<close>: the screens of servers, scripts and the Linux console.
  \<^item> \<open>Voice\<close>: VoiceListenerViewController.m, its transaction states ordered as the C enumeration, as the
    step relation \<open>voice_step\<close> with an invariant.
  \<^item> \<open>MachineOrder\<close>: the same macros on the i386 and in the order of the machine, and floating point numbers,
    on four kinds of machine; \<open>CstVal\<close>: the values of the voice in memory (cst_val.h, cst_val_const.h);
    \<open>SysMacros\<close>: comparison, alignment, decimals and queues (my_global.h, decimal.h, queues.h).
  \<^item> \<open>IntCodec\<close>: the macros of my_global.h and myisampack.h that read and write integers in memory; the
    locale \<open>int_codec\<close> states the contract of a pair of macros and is interpreted for the thirteen pairs.
  \<^item> \<open>BitOps\<close>, \<open>Bitmaps\<close>: my_bit.h, my_bitmap.h and OpenEars' bitvec.h; the locale \<open>bit_store\<close> is the
    contract of a set of bits, interpreted for bitmaps and for bit vectors.
  \<^item> \<open>LockWrap\<close>: the lock wrappers of lf.h as programs of threads that interleave, the pins and the sizes of
    lf.h; \<open>Layout\<close>: where a compiler puts the members of a structure.
  \<^item> \<open>AcTrie\<close>: my_trie.h, search in a trie in memory and the step of the Aho-Corasick automaton, against
    abstract tries.
  \<^item> \<open>UniCtype\<close>, \<open>CharClasses\<close>: the Unicode class tables of my_uctype.h and the tests of m_ctype.h.
  \<^item> \<open>ThaiCtype\<close>: the collation symbols and class macros of t_ctype.h.
  \<^item> \<open>CartTree\<close>, \<open>CartTables\<close>: the decision trees of the voice (us_*_cart.h) as data, trees by the order
    cst_cart.h gives their nodes; the locale \<open>cart_table\<close> is interpreted for the six trees.
  \<^item> \<open>LetterToSound\<close>: the states of the letter-to-sound rules (cmu_lts_model.h) by arithmetic;
    \<open>LtsTableA\<close>, \<open>LtsTableE\<close>, \<open>LtsTableI\<close>, \<open>LtsTableO\<close>, \<open>LtsTableU\<close>, \<open>LtsTables\<close>: the same states spelled out as the
    header spells them, and equal; \<open>LtsRules\<close>: the rule structure of cst_lts.h in memory and its reading.
  \<^item> \<open>FixedPoint\<close>: the multiplications of fixpoint.h against the exact product, and the byte swaps of
    byteorder.h and cst_endian.h against \<open>IntCodec\<close>'s reads.
  \<^item> \<open>ByteSwaps\<close>: the swaps in memory of mips_swap.h and those in the order of a file of byteorder.h and bio.h.
  \<^item> \<open>ClientProtocol\<close>, \<open>FileModes\<close>: the flags, types and tests of mysql_com.h, mysql.h and libssh2_sftp.h.
  \<^item> \<open>RegexTables\<close>: the compiled expressions of us_regexes.h and cst_regex_defs.h.
  \<^item> \<open>WordDictionary\<close>: LanguageModel.m and GraphemeDictionary.m, the word and sound dictionaries the voice
    screen loads.
  \<^item> \<open>ProgressView\<close>: when MBProgressHUD.m shows and hides its view, as calls and deliveries of the run loop
    with reachability \<open>hud_reach\<close>; \<open>ProgressLayout\<close>: its class methods, indicators and layout.
  \<^item> \<open>AlertBlocks\<close>: UIAlertView+Blocks.m, the blocks of an alert before its original delegate.
  \<^item> \<open>ArgTables\<close>: the option tables of the recogniser (cmdln_macro.h, fe.h, feat.h).
  \<^item> \<open>SpeechModel\<close>: ids, model definition, hidden Markov models, dictionary and contexts of the recogniser.
  \<^item> \<open>SpeechAccess\<close>: words of classes, grammars, numbers in hash tables (against a map), the textual model
    definition against the binary one, features and the other access macros of the recogniser.
  \<^item> \<open>StringTail\<close>: \<open>skip_trailing_space\<close> of m_string.h, word by word in memory and with its assertion, against
    stripping a list.
  \<^item> \<open>IoCache\<close>: the file caches of my_sys.h; a read cache is a window of its file, a write cache its end.
  \<^item> \<open>SpreadSheet\<close>: TAXSpreadSheet.m and TAXSpreadSheetLayout.m, frames of cells and index paths of updates.
  \<^item> \<open>Atomics\<close>: my_atomic.h and atomic/; threads that interleave at every access to a cell, against operations in
    one piece (\<open>whole\<close>): the platforms without lock, each with the bodies its header has (\<open>platforms\<close>), and the
    bodies of plain reads and writes under the lock.
  \<^item> \<open>TimeValues\<close>: the TIMESTAMP check of my_time.h against the calendar, the wait times of my_pthread.h.

  \<^bold>\<open>How the code is read.\<close>  A callback is a function from the state to the new state and what is shown.
  An Objective-C exception is a value (\<open>Inl\<close>); nothing in the application catches one.  \<open>nil\<close> is
  \<^term>\<open>None\<close>; a message to it does nothing and gives \<open>nil\<close>, false or 0; local object variables start
  as \<open>nil\<close> (ARC).  What is decoded from bytes (cells, column names, the names of schemas and tables that a server
  lists, the contents of files) is Unicode text, and so is what is typed into the SQL console and the file editor; the
  other strings, those of the program and what is typed into its forms, are Latin-1 text.  Both have their UTF-8
  encoding made explicit where bytes are handed to a C function.  Counters and array indices are natural
  numbers: they stay below the number of rows of a screen.  The port of a MySQL server keeps its 32 bits.
  Asynchronous loading runs to its end before the user acts.

  \<^bold>\<open>Parameters.\<close>  Code that is not in the repository is an argument of the definitions that use it: the
  MySQL client (\<open>mysql_api\<close>), NMSSH (\<open>ssh_api\<close>, \<open>remote_api\<close>), Core Data's own decisions (\<open>core_data\<close>),
  the speech recogniser (the events of \<open>voice_step\<close>), number formatting, the picker view, the tables of
  mysys that my_bit.h declares.  What is assumed of them are the laws named \<open>fetches_all\<close>, \<open>picker_law\<close>, \<open>result_ok\<close> and the like, each the
  documented behaviour, each with a witness on a concrete function.

  \<^bold>\<open>Loops.\<close>  Loops over arrays are structural recursions.  The password prompt of the Linux manager may
  not end and is a \<open>partial_function\<close>; that it ends exactly when a password is stored or the connection
  fails is proved.  The loops of my_trie.h follow pointers and are \<open>partial_function\<close>s as well; on
  well-formed memory they are proved to return.  The loop of my_bit_log2, the word loop of m_string.h and the decoding
  of UTF-8 have a measure.  No definition takes fuel.

  \<^bold>\<open>What the lemmas show.\<close>  Per component: the functional behaviour on every branch; invariants of the
  designer and voice screens over all reachable states; refinement of the SQL generator, the path
  operations and the loading loops to declarative references; round trips (editing a column, saving a
  file, showing a result, listing packages, editing a script); and, where the code does something else
  than it means to, a theorem that states what it does.  The theorems of this root theory follow the user
  through several components: from an empty table designer to the server, and from a fresh install to the
  manager of the server that was added.

  \<^bold>\<open>Not modelled.\<close>  Layout, colours, the drawing and the labels of MBProgressHUD, the calls TAXSpreadSheet.m
  only passes on to its collection view, the template controllers; of the C headers, what is only declared in them (the
  libraries are prebuilt), floating point macros, the mutexes of my_pthread.h and
  the assembler for particular processors.
\<close>

section \<open>A designed table reaches the server\<close>

text \<open>
  C2.  From the empty designer, through any order of its and the editor's handlers that cancels no edit, to
  the server: when the schema can be selected, Execute sends the statement as it was generated (if it is
  ASCII and some column is a key) and reports what the server answered, leaving the designer exactly when
  it answered 0.  Up to blanks the statement is the header and the comma separated list of the columns in
  their order and their keys, and every column prints the modifiers its flags call for.
\<close>

theorem designed_table_reaches_server:
  assumes "designer_reach False d" and "editor d = None"
    and "\<exists>c \<in> set (listedColumns d). isPrimaryKey c \<or> isUnique c"
    and "is_ascii (generateCreateTableSQL (listedColumns d) t schema)"
    and "mysql_select_db api conn (utf8 schema) = (0, c1)"
    and "mysql_real_query api c1 (generateCreateTableSQL (listedColumns d) t schema) = (status, c2)"
  shows "createButtonPressed api schema t 1 d conn =
      ((if status = 0 then [ShowAlert ''SQL executed successfully'', PopDesigner]
        else [ShowAlert (''Error executing SQL '' @ schema @ '': '' @ mysql_error api c2)]), c2)
    \<and> unspaced (generateCreateTableSQL (listedColumns d) t schema) =
      unspaced (createTableHead t schema)
      @ joinBy '','' (map unspaced (itemTexts (listedColumns d))) @ '');''
    \<and> (\<forall>c \<in> set (listedColumns d). \<exists>rest. columnItem c =
         '' '' @ columnText c @ concat (map (\<lambda>m. '' '' @ m) (flagModifiers c)) @ rest)"
proof (intro conjI ballI)
  show "createButtonPressed api schema t 1 d conn =
      ((if status = 0 then [ShowAlert ''SQL executed successfully'', PopDesigner]
        else [ShowAlert (''Error executing SQL '' @ schema @ '': '' @ mysql_error api c2)]), c2)"
    using assms(4-6) by (simp add: createButtonPressed_def executeSQL_def queryBytes_ascii
        initWithErrorAndSuccess_def Let_def)
  show "unspaced (generateCreateTableSQL (listedColumns d) t schema) =
      unspaced (createTableHead t schema)
      @ joinBy '','' (map unspaced (itemTexts (listedColumns d))) @ '');''"
    using assms(3) by (rule items_separated_aux)
  fix c assume "c \<in> set (listedColumns d)"
  then obtain r where r: "r \<in> set (tableColumns d)" "c = the (store d r)"
    by (auto simp: listedColumns_def)
  have "openRef d = None" using assms(2) by (simp add: openRef_def)
  with listed_columns_print [OF assms(1) r(1)] r(2)
  show "\<exists>rest. columnItem c =
      '' '' @ columnText c @ concat (map (\<lambda>m. '' '' @ m) (flagModifiers c)) @ rest"
    by (metis option.distinct(1) option.sel)
qed

text \<open>The run behind the witness: one column, named, made an INT and a key, and added.\<close>

definition idColumn :: mysql_column where
  "idColumn = \<lparr>columnModifiers = [''ZEROFILL'', ''NOT NULL'', ''AUTO_INCREMENT''], dataType = ''INT'', colLength = None,
     columnName = ''id'', decimalPrecision = None, decimalScale = None, defaultValue = None, isPrimaryKey = True,
     isUnique = True, isAutoIncrement = True, isNotNull = True, isZeroFill = True, isBinary = False, isNumeric = True,
     isDecimal = False\<rparr>"

lemma keyed_run:
  "\<exists>d. runDesigner [NewColumn, Input (NameText ''id''), Input (PickType 3), Input FlipPrimaryKey, AddPressed] designerDidLoad = Some d
     \<and> editor d = None \<and> listedColumns d = [idColumn]"
  by (simp add: designerDidLoad_def addColumnButtonPressed_def openForm_def loadForm_def loadCommon_def
      viewDidAppear_def storyboardForm_def cancelsEdit_def editorInput_def didSelectRow_def mysqlTypes_def
      objectAtIndex_def type_chains block_defs editorAdd_def addColumnOnClick_def popEditor_def enterText_def putText_def
      flipPrimaryKey_def flip_def primaryKeySwitchListener_def storeTypeFields_def storeSwitches_def setSwitch_def
      enableField_def columnWasCreated_def initWithDataTypeAndLengthAndName_def Let_def listedColumns_def idColumn_def
      addModifier_def)

definition idTableSQL :: string where
  "idTableSQL = ''CREATE TABLE `shop`.`items` (  `id` INT  ZEROFILL NOT NULL AUTO_INCREMENT ,  PRIMARY KEY (`id`) ,  UNIQUE INDEX `id_UNIQUE` (`id` ASC) );''"

lemma idColumn_sql: "generateCreateTableSQL [idColumn] ''items'' ''shop'' = idTableSQL"
  apply (simp add: generateCreateTableSQL_def idColumn_def idTableSQL_def columnText_def typeText_def lengthText_def Let_def blankText_def)
  done

lemma idColumn_key: "isPrimaryKey idColumn"
  by (simp add: idColumn_def)

lemma idTable_ascii: "is_ascii idTableSQL"
  by (simp add: is_ascii_def idTableSQL_def)

theorem designed_table_reaches_server_witness:
  "\<exists>d. designer_reach False d \<and> listedColumns d = [idColumn]
     \<and> createButtonPressed workingApi ''shop'' ''items'' 1 d [] =
         ([ShowAlert ''SQL executed successfully'', PopDesigner], [idTableSQL])"
proof -
  obtain d where run: "runDesigner [NewColumn, Input (NameText ''id''), Input (PickType 3), Input FlipPrimaryKey,
      AddPressed] designerDidLoad = Some d" and d: "editor d = None" "listedColumns d = [idColumn]"
    using keyed_run by blast
  have reach: "designer_reach False d" by (rule run_reach [OF designer_reach.start run])
  have "createButtonPressed workingApi ''shop'' ''items'' 1 d [] =
      ((if (0::int) = 0 then [ShowAlert ''SQL executed successfully'', PopDesigner]
        else [ShowAlert (''Error executing SQL '' @ ''shop'' @ '': '' @ mysql_error workingApi [idTableSQL])]), [idTableSQL])"
    by (rule conjunct1 [OF designed_table_reaches_server [where ?c1.0 = "[]"]], rule reach, rule d(1))
       (simp_all add: d(2) idColumn_sql idColumn_key workingApi_def idTable_ascii)
  with reach d(2) show ?thesis by auto
qed
section \<open>The system picked for a server decides its manager\<close>

text \<open>
  C5.  On a fresh install, whatever order Core Data fetches in: the form offers each of the nine systems the
  options screen stored once, and a server added with one of its rows shows exactly that system in its
  overview and opens the MySQL manager, with the password kept, if it is MySQL, and the Linux manager if not.
\<close>

theorem chosen_system_decides_manager:
  assumes "fetches_work cd" and "table_ok osTable c" and "table_ok serverTable c" and "osTable (live c) = []"
    and "newServerDidLoad cd pick None (snd (optionsDidLoad cd c)) = (f, c1)"
    and "serverOptions g = serverOptions f" and "\<not> editing g"
    and "addServerBtnOnClick cd nf g c1 = Inr ((msg, home), c2)"
  shows "mset (map (titleForRow c1 f) [0..<numberOfRowsInComponent f]) = mset (map (\<lambda>p. Inr (osName p)) optionsOperatingSystems)
    \<and> (\<exists>name s c3 ov c4. titleForRow c1 f (osRow g) = Inr (Some name)
       \<and> objectOf serverTable c2 (nextObject c1) = Some s
       \<and> manageServerOnClick cd s c2
           = Inr (if name = ''MySQL'' then ManageMySQL (if savePasswordRadio g then Some (passwordTxt g) else None)
                  else ManageLinux, c3)
       \<and> overviewDidLoad cd s c2 = Inr (ov, c4)
       \<and> operatingSystemLbl ov = Some name \<and> overviewBtnEnabled ov = (name \<noteq> ''MySQL''))"
proof
  note fresh = fresh_form [OF assms(1,2,4,3,5)]
  then show "mset (map (titleForRow c1 f) [0..<numberOfRowsInComponent f]) = mset (map (\<lambda>p. Inr (osName p)) optionsOperatingSystems)"
    using form_titles [OF assms(1), of c1 optionsOperatingSystems f] by blast
  obtain k d where ins: "insertObject serverTable_update newServer c1 = (k, d)" by fastforce
  then have k: "k = nextObject c1" and d: "osTable (live d) = osTable (live c1)"
    by (auto simp: insertObject_def)
  from fresh have "table_ok serverTable c1" by blast
  note new = server_entity.inserted [OF this ins]
  from assms(7,8) ins have "storeServer cd nf ''Server Added!'' ''Could not save server at this time.'' g k d
      = Inr ((msg, home), c2)" by (simp add: addServerBtnOnClick_def)
  from storeServer_result [OF this] new obtain os where os: "os = serverOptions g ! osRow g" "osRow g < length (serverOptions g)"
    and s: "objectOf serverTable c2 k = Some (setServerOS d os (fillServer nf g newServer))"
    and same: "osTable (live c2) = osTable (live d)" by blast
  define s where "s = setServerOS d os (fillServer nf g newServer)"
  have "os \<in> set (map fst (osTable (live c1)))"
    using os assms(1,6) fresh by (metis fetches_all_set fetches_work_def nth_mem)
  then obtain x where x: "objectOf osTable c1 os = Some x"
    by (auto simp: objectOf_def map_of_eq_None_iff dest: weak_map_of_SomeI)
  from fresh x obtain i where i: "i < length optionsOperatingSystems"
    and xi: "x = fillOperatingSystem i (optionsOperatingSystems ! i) newOperatingSystem"
    by (blast elim: seeded_ids)
  have "\<exists>name. osName (optionsOperatingSystems ! i) = Some name"
    using nth_mem [OF i] by (auto simp: optionsOperatingSystems_def initWithOSNameAndPM_def)
  then obtain name where name: "operatingSystemName x = Some name" by (auto simp: xi fillOperatingSystem_def)
  have objs: "objectOf osTable e = objectOf osTable c1" if "osTable (live e) = osTable (live c1)" for e
    using that by (simp add: objectOf_def fun_eq_iff)
  have sOS: "serverOS s = operatingSystemID x" using x objs [OF d] by (simp add: s_def setServerOS_def)
  have pw: "password s = (if savePasswordRadio g then Some (passwordTxt g) else None)"
    by (simp add: s_def setServerOS_def fillServer_def)
  have found: "getOperatingSystemByOperatingSystemID cd (serverOS s) e = (Some os, e\<lparr>fetchesDone := Suc (fetchesDone e)\<rparr>)
      \<and> operatingSystemNameOf e (Some os) = Inr (Some name)"
    if "osTable (live e) = osTable (live c1)" "table_ok osTable e" for e
  proof
    show "getOperatingSystemByOperatingSystemID cd (serverOS s) e = (Some os, e\<lparr>fetchesDone := Suc (fetchesDone e)\<rparr>)"
      unfolding sOS
    proof (rule getOperatingSystemByOperatingSystemID_unique [OF assms(1) that(2)])
      show "objectOf osTable e os = Some x" using x objs [OF that(1)] by simp
      fix j y assume "objectOf osTable e j = Some y" "operatingSystemID x = operatingSystemID y"
      then show "os = j" using seeded_id_unique [OF _ x, of optionsOperatingSystems j y] fresh objs [OF that(1)] by simp
    qed
    show "operatingSystemNameOf e (Some os) = Inr (Some name)"
      using x name objs [OF that(1)] by (simp add: operatingSystemNameOf_def)
  qed
  have ok: "table_ok osTable c2"
    using addServer_keeps_os [OF assms(8)] fresh by blast
  have c2: "osTable (live c2) = osTable (live c1)" using same d by simp
  have title: "titleForRow c1 f (osRow g) = Inr (Some name)"
    using os found [of c1] fresh assms(6) by (simp add: titleForRow_def objectAtIndex_def)
  have stored: "objectOf serverTable c2 (nextObject c1) = Some s" using s k by (simp add: s_def)
  note f2 = found [OF c2 ok]
  have f3: "getOperatingSystemByOperatingSystemID cd (serverOS s) (c2\<lparr>fetchesDone := Suc (fetchesDone c2)\<rparr>)
      = (Some os, c2\<lparr>fetchesDone := Suc (Suc (fetchesDone c2))\<rparr>)
    \<and> operatingSystemNameOf (c2\<lparr>fetchesDone := n\<rparr>) (Some os) = Inr (Some name)" for n
    using found [of "c2\<lparr>fetchesDone := Suc (fetchesDone c2)\<rparr>"] found [of "c2\<lparr>fetchesDone := n\<rparr>"] c2 ok
    by simp
  have manage: "manageServerOnClick cd s c2 = Inr (if name = ''MySQL''
      then ManageMySQL (if savePasswordRadio g then Some (passwordTxt g) else None)
      else ManageLinux, c2\<lparr>fetchesDone := Suc (fetchesDone c2)\<rparr>)"
    using f2 f3 pw by (simp add: manageServerOnClick_def)
  have ov: "\<exists>ov c4. overviewDidLoad cd s c2 = Inr (ov, c4)
      \<and> operatingSystemLbl ov = Some name \<and> overviewBtnEnabled ov = (name \<noteq> ''MySQL'')"
    using f2 f3 by (simp add: overviewDidLoad_def)
  show "\<exists>name s c3 ov c4. titleForRow c1 f (osRow g) = Inr (Some name)
       \<and> objectOf serverTable c2 (nextObject c1) = Some s
       \<and> manageServerOnClick cd s c2
           = Inr (if name = ''MySQL'' then ManageMySQL (if savePasswordRadio g then Some (passwordTxt g) else None)
                  else ManageLinux, c3)
       \<and> overviewDidLoad cd s c2 = Inr (ov, c4)
       \<and> operatingSystemLbl ov = Some name \<and> overviewBtnEnabled ov = (name \<noteq> ''MySQL'')"
    using title stored manage ov by simp
qed


theorem chosen_system_decides_manager_witness:
  "\<exists>f c1 c2 r name s c3. newServerDidLoad demoCore exactPicker None (snd (optionsDidLoad demoCore emptyContext)) = (f, c1)
     \<and> addServerBtnOnClick demoCore dropNumber (f\<lparr>osRow := 7, passwordTxt := ''pw''\<rparr>) c1 = Inr (r, c2)
     \<and> titleForRow c1 f 7 = Inr (Some name)
     \<and> manageServerOnClick demoCore s c2
         = Inr (if name = ''MySQL'' then ManageMySQL (Some ''pw'') else ManageLinux, c3)"
proof -
  obtain f c1 where load: "newServerDidLoad demoCore exactPicker None (snd (optionsDidLoad demoCore emptyContext)) = (f, c1)"
    by fastforce
  note fresh = fresh_form [OF demoCore_works emptyContext_ok(1,4,2) load]
  have "length (osTable (live c1)) = 9"
    using arg_cong [OF conjunct1 [OF fresh], of length] by (simp add: optionsOperatingSystems_def)
  then have len: "length (serverOptions f) = 9" using fresh by (simp add: demoCore_def)
  have f: "\<not> editing f" "savePasswordRadio f"
    using load by (auto simp: newServerDidLoad_def Let_def split: prod.splits)
  let ?g = "f\<lparr>osRow := 7, passwordTxt := ''pw''\<rparr>"
  obtain msg home c2 where run: "addServerBtnOnClick demoCore dropNumber ?g c1 = Inr ((msg, home), c2)"
    using f len by (simp add: addServerBtnOnClick_def storeServer_def insertObject_def saveContext_def demoCore_def
        Let_def objectAtIndex_def)
  have g: "serverOptions ?g = serverOptions f" "\<not> editing ?g" using f by simp_all
  from chosen_system_decides_manager [OF demoCore_works emptyContext_ok(1,2,4) load g run]
  obtain name s c3 where "titleForRow c1 f (osRow ?g) = Inr (Some name)"
    and "manageServerOnClick demoCore s c2
         = Inr (if name = ''MySQL'' then ManageMySQL (if savePasswordRadio ?g then Some (passwordTxt ?g) else None)
                else ManageLinux, c3)"
    by blast
  then have "titleForRow c1 f 7 = Inr (Some name)" and "manageServerOnClick demoCore s c2
         = Inr (if name = ''MySQL'' then ManageMySQL (Some ''pw'') else ManageLinux, c3)"
    using f by simp_all
  with load run show ?thesis by blast
qed

end
